(* ===== verification/Prelude.thy ===== *)
theory Prelude
  imports Complex_Main "HOL-Library.Multiset" "HOL-Library.Sublist"
begin

section \<open>Shared vocabulary: arrays, reductions and comparator sorts\<close>

text \<open>
  What every component of the dashboard's TypeScript code shares: the array methods it calls
  (\<open>reduce\<close> without an initial value, \<open>findIndex\<close>, \<open>sort\<close> with a comparator,
  \<open>new Set(..)\<close> and \<open>new Map(..)\<close> in insertion order), and the facts about them that carry
  the component proofs.

  \<^item> \<open>reduce1\<close> is \<open>Array.prototype.reduce\<close> with no initial value; the empty array, on which
    JavaScript throws, is \<open>None\<close>.
  \<^item> \<open>js_sort\<close> is \<open>Array.prototype.sort\<close> with a comparator: a stable sort that reads only
    whether the comparator's answer is at most 0. The locale \<open>comparator\<close> says when a comparator
    orders a list by a key, and then identifies the result with the library's \<open>sort_key\<close>.
  \<^item> The locale \<open>keep_first_max\<close> is the contract of the idiom
    \<open>xs.reduce((best, x) => x.k > best.k ? x : best)\<close>, used all over the code.
  \<^item> \<open>amap_set\<close> and \<open>map_of\<close> are a JavaScript \<open>Map\<close> as an association list in insertion order.
  \<^item> The locale \<open>transition_system\<close> gives every state machine of the code its invariant rule.
\<close>

subsection \<open>Collections of facts\<close>

named_theorems js_eval \<open>defining equations used to evaluate a closed instance\<close>
named_theorems inv_step \<open>one-step preservation of a component's invariant\<close>

subsection \<open>Reductions\<close>

definition reduce1 :: "('a \<Rightarrow> 'a \<Rightarrow> 'a) \<Rightarrow> 'a list \<Rightarrow> 'a option" where
  "reduce1 f xs = (case xs of [] \<Rightarrow> None | x # xs' \<Rightarrow> Some (foldl f x xs'))"

lemma reduce1_simps [simp, js_eval]:
  "reduce1 f [] = None"
  "reduce1 f (x # xs) = Some (foldl f x xs)"
  by (simp_all add: reduce1_def)

lemma reduce1_eq_None_iff [simp]: "reduce1 f xs = None \<longleftrightarrow> xs = []"
  by (cases xs) simp_all

lemma reduce1_snoc: "reduce1 f (xs @ [x]) = Some (case reduce1 f xs of None \<Rightarrow> x | Some r \<Rightarrow> f r x)"
  by (cases xs) simp_all

text \<open>
  \<open>is_first_max key xs r\<close>: \<open>r\<close> occurs in \<open>xs\<close>, everything before it is strictly smaller and
  nothing after it is larger.
\<close>

definition is_first_max :: "('a \<Rightarrow> 'k::linorder) \<Rightarrow> 'a list \<Rightarrow> 'a \<Rightarrow> bool" where
  "is_first_max key xs r \<longleftrightarrow>
     (\<exists>ys zs. xs = ys @ r # zs \<and> (\<forall>y\<in>set ys. key y < key r) \<and> (\<forall>z\<in>set zs. key z \<le> key r))"

lemma is_first_max_in: "is_first_max key xs r \<Longrightarrow> r \<in> set xs"
  by (auto simp: is_first_max_def)

lemma is_first_max_ge: "is_first_max key xs r \<Longrightarrow> x \<in> set xs \<Longrightarrow> key x \<le> key r"
  by (fastforce simp: is_first_max_def intro: less_imp_le)

lemma is_first_max_extend:
  assumes "is_first_max key xs r"
  shows "is_first_max key (xs @ [x]) (if key r < key x then x else r)"
proof (cases "key r < key x")
  case True
  then have "\<forall>y\<in>set xs. key y < key x"
    using assms by (auto dest: is_first_max_ge)
  then have "is_first_max key (xs @ [x]) x"
    unfolding is_first_max_def by (intro exI[of _ xs] exI[of _ "[]"]) simp
  with True show ?thesis by simp
next
  case False
  from assms obtain ys zs where "xs = ys @ r # zs"
    and "\<forall>y\<in>set ys. key y < key r" and "\<forall>z\<in>set zs. key z \<le> key r"
    by (auto simp: is_first_max_def)
  then have "is_first_max key (xs @ [x]) r"
    unfolding is_first_max_def using False
    by (intro exI[of _ ys] exI[of _ "zs @ [x]"]) auto
  with False show ?thesis by simp
qed

locale keep_first_max =
  fixes key :: "'a \<Rightarrow> 'k::linorder"
    and pick :: "'a \<Rightarrow> 'a \<Rightarrow> 'a"
  assumes pick_eq: "pick best x = (if key best < key x then x else best)"
begin

lemma foldl_first_max: "is_first_max key (x # xs) (foldl pick x xs)"
proof (induction xs rule: rev_induct)
  case Nil
  show ?case unfolding is_first_max_def by (intro exI[of _ "[]"]) simp
next
  case (snoc y ys)
  from is_first_max_extend[OF this, of y] show ?case by (simp flip: pick_eq)
qed

lemma reduce1_first_max: "reduce1 pick xs = Some r \<Longrightarrow> is_first_max key xs r"
  using foldl_first_max by (cases xs) auto

lemma reduce1_max:
  assumes "reduce1 pick xs = Some r"
  shows "r \<in> set xs" and "\<forall>x\<in>set xs. key x \<le> key r"
  using reduce1_first_max[OF assms] by (auto dest: is_first_max_in is_first_max_ge)

end

subsection \<open>Searching by index\<close>

fun find_index :: "('a \<Rightarrow> bool) \<Rightarrow> 'a list \<Rightarrow> nat option" where
  "find_index P [] = None"
| "find_index P (x # xs) = (if P x then Some 0 else map_option Suc (find_index P xs))"

lemma if_then_TrueI: "(P \<Longrightarrow> Q) \<Longrightarrow> (if P then Q else True)"
  by simp

lemma find_index_None_iff: "find_index P xs = None \<longleftrightarrow> (\<forall>x\<in>set xs. \<not> P x)"
  by (induction xs) auto

lemma find_index_Some:
  "find_index P xs = Some i \<Longrightarrow> i < length xs \<and> P (xs ! i) \<and> (\<forall>j<i. \<not> P (xs ! j))"
proof (induction xs arbitrary: i)
  case Nil
  then show ?case by simp
next
  case (Cons x xs)
  show ?case
  proof (cases "P x")
    case True
    with Cons.prems show ?thesis by simp
  next
    case False
    with Cons.prems obtain k where k: "find_index P xs = Some k" "i = Suc k" by auto
    from Cons.IH[OF k(1)] False show ?thesis
      unfolding k(2) by (auto simp: less_Suc_eq_0_disj)
  qed
qed

lemma find_eq_None_iff: "List.find P xs = None \<longleftrightarrow> (\<forall>x\<in>set xs. \<not> P x)"
  by (auto simp: find_None_iff)

lemma find_eq_Some_D: "List.find P xs = Some x \<Longrightarrow> x \<in> set xs \<and> P x"
  by (auto simp: find_Some_iff)

lemma map_filter_in: "y \<in> set (List.map_filter f xs) \<longleftrightarrow> (\<exists>x\<in>set xs. f x = Some y)"
  by (force simp: List.map_filter_def)

lemma filter_unique_key: "distinct (map f xs) \<Longrightarrow> x \<in> set xs \<Longrightarrow> filter (\<lambda>y. f y = f x) xs = [x]"
  by (induction xs) (auto simp: filter_empty_conv intro: rev_image_eqI)

lemma filter_key_singleton: "distinct (map f xs) \<Longrightarrow> n \<in> f ` set xs \<Longrightarrow> filter (\<lambda>k. k = n) (map f xs) = [n]"
  by (induction xs) (auto simp: filter_empty_conv filter_map intro: rev_image_eqI)

subsection \<open>Deduplication in insertion order\<close>

text \<open>\<open>[...new Set(xs)]\<close> keeps the first occurrence of every element, in order.\<close>

definition js_set :: "'a list \<Rightarrow> 'a list" where
  "js_set xs = rev (remdups (rev xs))"

lemma js_set_set [simp]: "set (js_set xs) = set xs"
  by (simp add: js_set_def)

lemma js_set_distinct [simp]: "distinct (js_set xs)"
  by (simp add: js_set_def)

lemma js_set_append1: "js_set (xs @ [x]) = (if x \<in> set xs then js_set xs else js_set xs @ [x])"
  by (simp add: js_set_def)

lemma js_set_id: "distinct xs \<Longrightarrow> js_set xs = xs"
  by (simp add: js_set_def distinct_remdups_id)

lemma js_set_empty_iff [simp]: "js_set xs = [] \<longleftrightarrow> xs = []"
  by (metis js_set_set set_empty)

subsection \<open>Maps in insertion order\<close>

fun amap_set :: "'k \<Rightarrow> 'v \<Rightarrow> ('k \<times> 'v) list \<Rightarrow> ('k \<times> 'v) list" where
  "amap_set k v [] = [(k, v)]"
| "amap_set k v ((k', v') # m) = (if k = k' then (k, v) # m else (k', v') # amap_set k v m)"

lemma amap_set_fresh: "k \<notin> fst ` set m \<Longrightarrow> amap_set k v m = m @ [(k, v)]"
  by (induction k v m rule: amap_set.induct) auto

lemma map_of_amap_set [simp]: "map_of (amap_set k v m) = (map_of m)(k \<mapsto> v)"
  by (induction m) auto

lemma keys_amap_set: "fst ` set (amap_set k v m) = insert k (fst ` set m)"
proof (induction m)
  case Nil
  show ?case by simp
next
  case (Cons kv m)
  then show ?case by (cases kv) (auto simp: insert_commute)
qed

lemma distinct_amap_set: "distinct (map fst m) \<Longrightarrow> distinct (map fst (amap_set k v m))"
proof (induction m)
  case Nil
  then show ?case by simp
next
  case (Cons kv m)
  obtain k' v' where "kv = (k', v')" by (cases kv)
  moreover have "set (map fst (amap_set k v m)) = insert k (set (map fst m))"
    using keys_amap_set[of k v m] by simp
  ultimately show ?case using Cons by auto
qed

text \<open>\<open>new Map(entries)\<close>: later entries overwrite earlier ones.\<close>

definition amap_of :: "('k \<times> 'v) list \<Rightarrow> ('k \<times> 'v) list" where
  "amap_of kvs = foldl (\<lambda>m (k, v). amap_set k v m) [] kvs"

lemma map_of_amap_of_aux:
  "map_of (foldl (\<lambda>m (k, v). amap_set k v m) m kvs) = map_of (rev kvs @ m)"
proof (induction kvs arbitrary: m)
  case Nil
  show ?case by simp
next
  case (Cons kv kvs)
  show ?case by (cases kv) (simp add: Cons.IH map_add_upd_left)
qed

lemma map_of_amap_of: "map_of (amap_of kvs) = map_of (rev kvs)"
  by (simp add: amap_of_def map_of_amap_of_aux)

lemma map_of_rev_distinct: "distinct (map fst kvs) \<Longrightarrow> map_of (rev kvs) = map_of kvs"
  by (rule map_of_eqI) (auto simp: rev_map[symmetric])


subsection \<open>Buckets\<close>

text \<open>
  The idiom \<open>const b = m.get(k) ?? []; b.push(x); m.set(k, b)\<close> over an array: elements collected
  per key, keys in order of first appearance.
\<close>

definition bucket_push :: "('a \<Rightarrow> 'k) \<Rightarrow> ('k \<times> 'a list) list \<Rightarrow> 'a \<Rightarrow> ('k \<times> 'a list) list" where
  "bucket_push f m x =
     (let bucket = (case map_of m (f x) of Some b \<Rightarrow> b | None \<Rightarrow> []) in amap_set (f x) (bucket @ [x]) m)"

lemma map_of_tabulate: "map_of (map (\<lambda>k. (k, g k)) ks) k = (if k \<in> set ks then Some (g k) else None)"
  by (induction ks) auto

lemma amap_set_tabulate:
  "distinct ks \<Longrightarrow> amap_set k v (map (\<lambda>k. (k, g k)) ks) =
     (if k \<in> set ks then map (\<lambda>k'. (k', if k' = k then v else g k')) ks
      else map (\<lambda>k. (k, g k)) ks @ [(k, v)])"
  by (induction ks) auto

lemma bucket_fold:
  "foldl (bucket_push f) [] xs = map (\<lambda>k. (k, filter (\<lambda>x. f x = k) xs)) (js_set (map f xs))"
proof (induction xs rule: rev_induct)
  case Nil
  show ?case by (simp add: js_set_def)
next
  case (snoc x xs)
  let ?m = "map (\<lambda>k. (k, filter (\<lambda>x. f x = k) xs)) (js_set (map f xs))"
  have "foldl (bucket_push f) [] (xs @ [x]) = bucket_push f ?m x" by (simp add: snoc)
  also have "\<dots> = map (\<lambda>k. (k, filter (\<lambda>x. f x = k) (xs @ [x]))) (js_set (map f (xs @ [x])))"
  proof (cases "f x \<in> f ` set xs")
    case True
    then show ?thesis
      by (auto simp: bucket_push_def map_of_tabulate amap_set_tabulate js_set_append1)
  next
    case False
    then have none: "filter (\<lambda>y. f y = f x) xs = []"
      by (auto simp: filter_empty_conv image_iff)
    from False show ?thesis
      by (auto simp: bucket_push_def map_of_tabulate amap_set_tabulate js_set_append1 none)
  qed
  finally show ?case .
qed

lemma bucket_lookup:
  "map_of (foldl (bucket_push f) [] xs) k =
     (if k \<in> f ` set xs then Some (filter (\<lambda>x. f x = k) xs) else None)"
  by (simp add: bucket_fold map_of_tabulate)

lemma mset_concat_groups:
  assumes "distinct ss" and "\<forall>r\<in>set rules. f r \<in> set ss"
  shows "mset (concat (map (\<lambda>s. filter (\<lambda>r. f r = s) rules) ss)) = mset rules"
  using assms(2)
proof (induction rules)
  case Nil
  show ?case by (induction ss) auto
next
  case (Cons r rules)
  have "mset (concat (map (\<lambda>s. filter (\<lambda>r. f r = s) (r # rules)) ss)) =
        mset (concat (map (\<lambda>s. if f r = s then [r] else []) ss)) + mset (concat (map (\<lambda>s. filter (\<lambda>r. f r = s) rules) ss))"
    by (induction ss) auto
  moreover have "mset (concat (map (\<lambda>s. if f r = s then [r] else []) ss)) = {#r#}"
  proof -
    have "f r \<in> set ss" using Cons.prems by simp
    with assms(1) show ?thesis by (induction ss) auto
  qed
  ultimately show ?case using Cons by simp
qed

subsection \<open>Sorting with a comparator\<close>

text \<open>
  \<open>xs.sort(cmp)\<close>. Since ECMAScript 2019 the sort is stable, so for a comparator that orders the
  array consistently the result is determined; insertion computes it. Only the sign of the
  comparator's answer is read, and a NaN answer counts as 0.
\<close>

fun js_insert :: "('a \<Rightarrow> 'a \<Rightarrow> rat) \<Rightarrow> 'a \<Rightarrow> 'a list \<Rightarrow> 'a list" where
  "js_insert cmp x [] = [x]"
| "js_insert cmp x (y # ys) = (if cmp x y \<le> 0 then x # y # ys else y # js_insert cmp x ys)"

definition js_sort :: "('a \<Rightarrow> 'a \<Rightarrow> rat) \<Rightarrow> 'a list \<Rightarrow> 'a list" where
  "js_sort cmp xs = foldr (js_insert cmp) xs []"

lemma mset_js_insert: "mset (js_insert cmp x xs) = {#x#} + mset xs"
  by (induction xs) auto

lemma mset_js_sort [simp]: "mset (js_sort cmp xs) = mset xs"
  unfolding js_sort_def by (induction xs) (auto simp: mset_js_insert)

lemma set_js_sort [simp]: "set (js_sort cmp xs) = set xs"
  by (metis mset_js_sort set_mset_mset)

lemma length_js_sort [simp]: "length (js_sort cmp xs) = length xs"
  by (metis mset_js_sort size_mset)

lemma js_sort_simps [js_eval]:
  "js_sort cmp [] = []"
  "js_sort cmp (x # xs) = js_insert cmp x (js_sort cmp xs)"
  by (simp_all add: js_sort_def)

lemma js_insert_map: "js_insert c' (f x) (map f ys) = map f (js_insert (\<lambda>a b. c' (f a) (f b)) x ys)"
  by (induction ys) simp_all

lemma js_sort_map: "js_sort c' (map f xs) = map f (js_sort (\<lambda>a b. c' (f a) (f b)) xs)"
  by (induction xs) (simp_all add: js_sort_simps js_insert_map)

locale comparator =
  fixes cmp :: "'a \<Rightarrow> 'a \<Rightarrow> rat"
    and key :: "'a \<Rightarrow> 'k::linorder"
    and comparable :: "'a \<Rightarrow> bool"
  assumes cmp_key: "comparable x \<Longrightarrow> comparable y \<Longrightarrow> cmp x y \<le> 0 \<longleftrightarrow> key x \<le> key y"
begin

lemma js_insert_key:
  "comparable x \<Longrightarrow> \<forall>y\<in>set ys. comparable y \<Longrightarrow> js_insert cmp x ys = insort_key key x ys"
  by (induction ys) (auto simp: cmp_key)

lemma js_sort_key: "\<forall>x\<in>set xs. comparable x \<Longrightarrow> js_sort cmp xs = sort_key key xs"
proof (induction xs)
  case Nil
  show ?case by (simp add: js_sort_simps)
next
  case (Cons x xs)
  then have "js_sort cmp xs = sort_key key xs" by simp
  moreover have "js_insert cmp x (js_sort cmp xs) = insort_key key x (js_sort cmp xs)"
    using Cons.prems by (intro js_insert_key) auto
  ultimately show ?case by (simp add: js_sort_simps)
qed

lemma js_sort_sorted: "\<forall>x\<in>set xs. comparable x \<Longrightarrow> sorted (map key (js_sort cmp xs))"
  by (simp add: js_sort_key)

lemma js_sort_stable:
  "\<forall>x\<in>set xs. comparable x \<Longrightarrow>
     filter (\<lambda>x. key x = k) (js_sort cmp xs) = filter (\<lambda>x. key x = k) xs"
  by (simp add: js_sort_key sort_key_stable)

lemma js_sort_hd:
  assumes "\<forall>x\<in>set xs. comparable x" and "js_sort cmp xs = y # ys" and "x \<in> set xs"
  shows "key y \<le> key x"
proof -
  have "sorted (map key (y # ys))" using js_sort_sorted[OF assms(1)] assms(2) by simp
  moreover have "x \<in> set (y # ys)" using assms(2,3) set_js_sort[of cmp xs] by simp
  ultimately show ?thesis by auto
qed

end

subsection \<open>State machines\<close>

text \<open>
  The contract of a component with state: an initial state, a step function over its events and
  an invariant that the initial state has and every step keeps. Every reachable state then has it.
\<close>

locale transition_system =
  fixes init :: 's
    and step :: "'s \<Rightarrow> 'e \<Rightarrow> 's"
    and inv :: "'s \<Rightarrow> bool"
  assumes inv_init: "inv init"
    and inv_step: "inv s \<Longrightarrow> inv (step s e)"
begin

lemma inv_run: "inv s \<Longrightarrow> inv (foldl step s es)"
  by (induction es arbitrary: s) (auto intro: inv_step)

lemma inv_reachable: "inv (foldl step init es)"
  by (rule inv_run[OF inv_init])

end

end
