(* ===== verification/Js_Number.thy ===== *)
theory Js_Number
  imports Prelude "HOL-Library.Log_Nat"
begin

section \<open>JavaScript numbers\<close>

text \<open>
  Every finite \<open>number\<close> is a rational, so a value is a \<open>rat\<close> and comparisons are exact. The
  arithmetic operators are the exact operation followed by \<open>fl\<close>, rounding to 53 significant bits
  with ties to even, as IEEE binary64 does. The exponent is unbounded: overflow to infinity and
  gradual underflow are not modelled (scores lie in 0..100, shares and similarities in 0..1). NaN
  never is a \<open>rat\<close>: where the code can meet it (an unparsable date) the model has an option.

  The locale \<open>rounding\<close> holds the laws the components rely on (monotone, odd, exact on the
  integers below \<open>2^53\<close>); its interpretation \<open>ieee\<close> shows them of \<open>fl\<close>. Rendering follows
  ECMAScript: \<open>toFixed\<close>, \<open>Math_round\<close> and, for template literals, \<open>num_toString\<close>.
\<close>

type_synonym number = rat

subsection \<open>Rounding to 53 bits\<close>

definition round_half_even :: "rat \<Rightarrow> int" where
  "round_half_even x =
     (let f = \<lfloor>x\<rfloor>; d = x - of_int f
      in if d < 1/2 then f else if 1/2 < d then f + 1 else if even f then f else f + 1)"

text \<open>The binary exponent of a positive rational: \<open>2 powi ilog2 x \<le> x < 2 powi (ilog2 x + 1)\<close>.\<close>

definition ilog2 :: "rat \<Rightarrow> int" where
  "ilog2 x =
     (let (p, q) = quotient_of x; k = int (floorlog 2 (nat p)) - int (floorlog 2 (nat q))
      in if 2 powi k \<le> x then k else k - 1)"

definition fl_pos :: "rat \<Rightarrow> rat" where
  "fl_pos x = (let u = 2 powi (ilog2 x - 52) in of_int (round_half_even (x / u)) * u)"

definition fl :: "rat \<Rightarrow> rat" where
  "fl x = (if x = 0 then 0 else if 0 < x then fl_pos x else - fl_pos (- x))"

subsection \<open>The operators\<close>

definition nadd :: "number \<Rightarrow> number \<Rightarrow> number" where "nadd a b = fl (a + b)"
definition nsub :: "number \<Rightarrow> number \<Rightarrow> number" where "nsub a b = fl (a - b)"
definition nmul :: "number \<Rightarrow> number \<Rightarrow> number" where "nmul a b = fl (a * b)"
definition ndiv :: "number \<Rightarrow> number \<Rightarrow> number" where "ndiv a b = fl (a / b)"

lemmas num_ops = nadd_def nsub_def nmul_def ndiv_def

text \<open>\<open>Math.round\<close>: the nearest integer, ties towards plus infinity.\<close>

definition Math_round :: "number \<Rightarrow> int" where
  "Math_round x = \<lfloor>x + 1/2\<rfloor>"

subsection \<open>Rendering\<close>

definition digit :: "nat \<Rightarrow> char" where
  "digit d = ''0123456789'' ! d"

fun show_nat :: "nat \<Rightarrow> string" where
  "show_nat n = (if n < 10 then [digit n] else show_nat (n div 10) @ [digit (n mod 10)])"

declare show_nat.simps [simp del]

definition show_int :: "int \<Rightarrow> string" where
  "show_int i = (if i < 0 then ''-'' @ show_nat (nat (- i)) else show_nat (nat i))"

definition pad_left :: "nat \<Rightarrow> string \<Rightarrow> string" where
  "pad_left n s = replicate (n - length s) (CHR ''0'') @ s"

text \<open>
  \<open>x.toFixed(d)\<close> for \<open>|x| < 10^21\<close>: the integer \<open>n\<close> with \<open>n / 10^d\<close> nearest to \<open>x\<close>, the larger one
  on a tie, printed with \<open>d\<close> decimals; a negative \<open>x\<close> is printed as a minus sign and \<open>-x\<close>.
\<close>

definition toFixed_pos :: "number \<Rightarrow> nat \<Rightarrow> string" where
  "toFixed_pos x d =
     (let n = nat \<lfloor>x * 10 ^ d + 1/2\<rfloor>
      in if d = 0 then show_nat n
         else let s = pad_left (d + 1) (show_nat n); k = length s - d
              in take k s @ ''.'' @ drop k s)"

definition toFixed :: "number \<Rightarrow> nat \<Rightarrow> string" where
  "toFixed x d = (if x < 0 then ''-'' @ toFixed_pos (- x) d else toFixed_pos x d)"

text \<open>
  \<open>String(x)\<close>: an integer below \<open>10^21\<close> prints its digits; otherwise the fewest significant digits
  that read back (through \<open>fl\<close>) as \<open>x\<close>. \<open>shortest x k\<close> tries \<open>k\<close> digits and then more, up to
  the 17 that always suffice for a binary64 value. Exponent notation (below \<open>10^-6\<close> and from
  \<open>10^21\<close>) is not modelled: such values print in plain decimal notation.
\<close>

definition ilog10 :: "rat \<Rightarrow> int" where
  "ilog10 x =
     (let (p, q) = quotient_of x; k = int (floorlog 10 (nat p)) - int (floorlog 10 (nat q))
      in if 10 powi k \<le> x then k else k - 1)"

definition decimal_candidate :: "rat \<Rightarrow> nat \<Rightarrow> int \<times> int" where
  "decimal_candidate x k = (let e = ilog10 x - int k + 1 in (round_half_even (x / 10 powi e), e))"

definition shortest :: "rat \<Rightarrow> int \<times> int" where
  "shortest x =
     (case List.find (\<lambda>k. let (s, e) = decimal_candidate x k in fl (of_int s * 10 powi e) = x) [1..<18] of
        Some k \<Rightarrow> decimal_candidate x k
      | None \<Rightarrow> decimal_candidate x 17)"

definition num_toString_pos :: "number \<Rightarrow> string" where
  "num_toString_pos x =
     (if x = of_int \<lfloor>x\<rfloor> then show_nat (nat \<lfloor>x\<rfloor>)
      else let (s, e) = shortest x; d = nat (- e)
           in if e \<ge> 0 then show_nat (nat s * 10 ^ nat e)
              else let t = pad_left (d + 1) (show_nat (nat s)); k = length t - d
                   in take k t @ ''.'' @ drop k t)"

definition num_toString :: "number \<Rightarrow> string" where
  "num_toString x = (if x < 0 then ''-'' @ num_toString_pos (- x) else num_toString_pos x)"

subsection \<open>The laws of rounding\<close>

lemma round_half_even_int [simp]: "round_half_even (of_int n) = n"
  by (simp add: round_half_even_def)

lemma round_half_even_bounds: "\<lfloor>x\<rfloor> \<le> round_half_even x" "round_half_even x \<le> \<lfloor>x\<rfloor> + 1"
  by (simp_all add: round_half_even_def Let_def)

lemma round_half_even_mono: "x \<le> y \<Longrightarrow> round_half_even x \<le> round_half_even y"
proof (cases "\<lfloor>x\<rfloor> = \<lfloor>y\<rfloor>")
  case True
  assume "x \<le> y"
  then show ?thesis using True by (auto simp: round_half_even_def Let_def)
next
  case False
  assume "x \<le> y"
  then have "\<lfloor>x\<rfloor> + 1 \<le> \<lfloor>y\<rfloor>" using False floor_mono[of x y] by simp
  then show ?thesis
    using round_half_even_bounds(2)[of x] round_half_even_bounds(1)[of y] by simp
qed

lemma round_half_even_ge: "of_int n \<le> x \<Longrightarrow> n \<le> round_half_even x"
  using round_half_even_mono[of "of_int n" x] by simp

lemma round_half_even_le: "x \<le> of_int n \<Longrightarrow> round_half_even x \<le> n"
  using round_half_even_mono[of x "of_int n"] by simp

lemma powi_two_diff: "(2::rat) powi (int a - int b) = 2 ^ a / 2 ^ b"
  by (simp add: power_int_diff)

lemma ilog2_bounds:
  assumes "0 < x"
  shows "2 powi ilog2 x \<le> x" and "x < 2 powi (ilog2 x + 1)"
proof -
  obtain p q where pq: "quotient_of x = (p, q)" by (cases "quotient_of x")
  then have q: "0 < q" and x: "x = of_int p / of_int q"
    by (auto dest: quotient_of_denom_pos quotient_of_div)
  with assms have p: "0 < p" by (simp add: zero_less_divide_iff)
  define a b where "a = floorlog 2 (nat p)" and "b = floorlog 2 (nat q)"
  have ab: "1 \<le> a" "1 \<le> b"
    using p q unfolding a_def b_def by (auto simp: floorlog_def)
  have pa: "2 ^ (a - 1) \<le> nat p" "nat p < 2 ^ a"
    using floorlog_bounds[of "nat p" 2] p unfolding a_def by auto
  have qb: "2 ^ (b - 1) \<le> nat q" "nat q < 2 ^ b"
    using floorlog_bounds[of "nat q" 2] q unfolding b_def by auto
  have up: "x < 2 powi (int a - int b + 1)"
  proof -
    have "x < 2 ^ a / 2 ^ (b - 1)"
    proof -
      have "of_int p < (2::rat) ^ a" using pa(2) p
        by (metis nat_less_iff of_int_less_iff of_int_numeral of_int_power of_nat_numeral of_nat_power order_less_imp_le)
      moreover have "(2::rat) ^ (b - 1) \<le> of_int q" using qb(1) q
        by (metis le_nat_iff of_int_le_iff of_int_numeral of_int_power of_nat_numeral of_nat_power order_less_imp_le)
      ultimately show ?thesis unfolding x using q p
        by (intro frac_less) auto
    qed
    also have "\<dots> = 2 powi (int a - int b + 1)"
      using powi_two_diff[of a "b - 1"] ab by (simp add: algebra_simps)
    finally show ?thesis .
  qed
  have low: "2 powi (int a - int b - 1) \<le> x"
  proof -
    have "(2::rat) ^ (a - 1) / 2 ^ b \<le> x"
    proof -
      have "of_int q \<le> (2::rat) ^ b" using qb(2) q
        by (metis nat_less_iff of_int_less_iff of_int_numeral of_int_power of_nat_numeral of_nat_power order_less_imp_le)
      moreover have "(2::rat) ^ (a - 1) \<le> of_int p" using pa(1) p
        by (metis le_nat_iff of_int_le_iff of_int_numeral of_int_power of_nat_numeral of_nat_power order_less_imp_le)
      ultimately show ?thesis unfolding x using q p
        by (intro frac_le) auto
    qed
    moreover have "(2::rat) ^ (a - 1) / 2 ^ b = 2 powi (int a - int b - 1)"
      using powi_two_diff[of "a - 1" b] ab by (simp add: algebra_simps)
    ultimately show ?thesis by simp
  qed
  show "2 powi ilog2 x \<le> x" "x < 2 powi (ilog2 x + 1)"
    using up low by (auto simp: ilog2_def pq a_def[symmetric] b_def[symmetric] Let_def)
qed

lemma ilog2_mono:
  assumes "0 < x" and "x \<le> y"
  shows "ilog2 x \<le> ilog2 y"
proof (rule ccontr)
  assume "\<not> ilog2 x \<le> ilog2 y"
  then have "ilog2 y + 1 \<le> ilog2 x" by simp
  then have "(2::rat) powi (ilog2 y + 1) \<le> 2 powi ilog2 x" by (intro power_int_increasing) auto
  with ilog2_bounds(1)[OF assms(1)] ilog2_bounds(2)[of y] assms show False by linarith
qed

text \<open>The significand \<open>x / u\<close> lies between \<open>2^52\<close> and \<open>2^53\<close>, and so does its rounding.\<close>

lemma fl_pos_bounds:
  assumes "0 < x"
  shows "2 powi ilog2 x \<le> fl_pos x" and "fl_pos x \<le> 2 powi (ilog2 x + 1)"
proof -
  define u :: rat where "u = 2 powi (ilog2 x - 52)"
  have u: "0 < u" by (simp add: u_def)
  have e52: "2 powi ilog2 x = 2 ^ 52 * u" and e53: "2 powi (ilog2 x + 1) = 2 ^ 53 * u"
    by (simp_all add: u_def power_int_diff power_int_add)
  have "of_int (2 ^ 52) \<le> x / u" using ilog2_bounds(1)[OF assms] u
    by (simp add: e52 pos_le_divide_eq)
  then have lo: "2 ^ 52 \<le> round_half_even (x / u)" by (rule round_half_even_ge)
  have "x / u \<le> of_int (2 ^ 53)" using ilog2_bounds(2)[OF assms] u
    by (simp add: e53 pos_divide_le_eq)
  then have hi: "round_half_even (x / u) \<le> 2 ^ 53" by (rule round_half_even_le)
  have fl: "fl_pos x = of_int (round_half_even (x / u)) * u"
    by (simp add: fl_pos_def u_def Let_def)
  have "(of_int (2 ^ 52) :: rat) \<le> of_int (round_half_even (x / u))" using lo by (simp only: of_int_le_iff)
  then show "2 powi ilog2 x \<le> fl_pos x" unfolding fl e52 using u by simp
  have "(of_int (round_half_even (x / u)) :: rat) \<le> of_int (2 ^ 53)" using hi by (simp only: of_int_le_iff)
  then show "fl_pos x \<le> 2 powi (ilog2 x + 1)" unfolding fl e53 using u by simp
qed

lemma fl_pos_positive: "0 < x \<Longrightarrow> 0 < fl_pos x"
  using fl_pos_bounds(1)[of x] by (meson less_le_trans zero_less_numeral zero_less_power_int)

lemma fl_pos_mono:
  assumes "0 < x" and "x \<le> y"
  shows "fl_pos x \<le> fl_pos y"
proof (cases "ilog2 x = ilog2 y")
  case True
  define u :: rat where "u = 2 powi (ilog2 y - 52)"
  have u: "0 < u" by (simp add: u_def)
  have "round_half_even (x / u) \<le> round_half_even (y / u)"
    using assms u by (intro round_half_even_mono) (simp add: divide_right_mono)
  then show ?thesis using u by (simp add: fl_pos_def True u_def[symmetric] Let_def)
next
  case False
  with ilog2_mono[OF assms] have "ilog2 x + 1 \<le> ilog2 y" by simp
  then have "(2::rat) powi (ilog2 x + 1) \<le> 2 powi ilog2 y" by (intro power_int_increasing) auto
  then show ?thesis
    using fl_pos_bounds(2)[OF assms(1)] fl_pos_bounds(1)[of y] assms by linarith
qed

lemma fl_pos_int:
  assumes "0 < n" and "n < 2 ^ 53"
  shows "fl_pos (of_int n) = of_int n"
proof -
  define i where "i = ilog2 (of_int n)"
  have "2 powi i \<le> (of_int n :: rat)" using ilog2_bounds(1)[of "of_int n"] assms by (simp add: i_def)
  also have "\<dots> < of_int (2 ^ 53)" using assms(2) by (simp only: of_int_less_iff)
  finally have "(2::rat) powi i < 2 powi 53" by simp
  then have i: "i \<le> 52"
    using power_int_increasing[of 53 i "2::rat"] by fastforce
  define k where "k = nat (52 - i)"
  have u: "(2::rat) powi (i - 52) = 1 / 2 ^ k"
    using i by (simp add: k_def power_int_def inverse_eq_divide power_one_over)
  have "of_int n / (2 powi (i - 52) :: rat) = of_int (n * 2 ^ k)" by (simp add: u)
  then have "round_half_even (of_int n / (2 powi (i - 52))) = n * 2 ^ k"
    by (simp only: round_half_even_int)
  then show ?thesis by (simp add: fl_pos_def i_def[symmetric] u Let_def)
qed

lemma fl_zero [simp]: "fl 0 = 0"
  by (simp add: fl_def)

lemma fl_minus [simp]: "fl (- x) = - fl x"
  by (simp add: fl_def)

lemma fl_pos_iff [simp]: "0 < fl x \<longleftrightarrow> 0 < x"
  using fl_pos_positive[of x] fl_pos_positive[of "- x"] by (auto simp: fl_def)

lemma fl_le_zero_iff [simp]: "fl x \<le> 0 \<longleftrightarrow> x \<le> 0"
  using fl_pos_iff[of x] by linarith

lemma fl_neg_iff [simp]: "fl x < 0 \<longleftrightarrow> x < 0"
  using fl_pos_iff[of "- x"] by simp

lemma fl_ge_zero_iff [simp]: "0 \<le> fl x \<longleftrightarrow> 0 \<le> x"
  using fl_neg_iff[of x] by linarith

lemma fl_eq_zero_iff [simp]: "fl x = 0 \<longleftrightarrow> x = 0"
  by (metis fl_ge_zero_iff fl_le_zero_iff order_antisym_conv order_refl)

lemma fl_mono: "x \<le> y \<Longrightarrow> fl x \<le> fl y"
proof -
  assume xy: "x \<le> y"
  consider "0 < x" | "x \<le> 0" "0 \<le> y" | "y < 0" by linarith
  then show ?thesis
  proof cases
    case 1
    then show ?thesis using fl_pos_mono[OF 1 xy] xy by (simp add: fl_def)
  next
    case 2
    then have "fl x \<le> 0" "0 \<le> fl y" by simp_all
    then show ?thesis by linarith
  next
    case 3
    then show ?thesis using fl_pos_mono[of "- y" "- x"] xy by (simp add: fl_def)
  qed
qed

lemma fl_int: "\<bar>n\<bar> < 2 ^ 53 \<Longrightarrow> fl (of_int n) = of_int n"
  using fl_pos_int[of n] fl_pos_int[of "- n"] by (auto simp: fl_def)

text \<open>Scaling by a power of two is exact, so every dyadic number with a 53-bit significand is kept.\<close>

lemma ilog2_unique:
  assumes "2 powi k \<le> x" and "x < 2 powi (k + 1)"
  shows "ilog2 x = k"
proof -
  have x: "0 < x" using assms(1) by (meson less_le_trans zero_less_numeral zero_less_power_int)
  have "(2::rat) powi k < 2 powi (ilog2 x + 1)" using assms(1) ilog2_bounds(2)[OF x] by linarith
  then have "\<not> ilog2 x + 1 \<le> k" using power_int_increasing[of "ilog2 x + 1" k "2::rat"] by fastforce
  moreover have "(2::rat) powi ilog2 x < 2 powi (k + 1)" using assms(2) ilog2_bounds(1)[OF x] by linarith
  then have "\<not> k + 1 \<le> ilog2 x" using power_int_increasing[of "k + 1" "ilog2 x" "2::rat"] by fastforce
  ultimately show ?thesis by simp
qed

lemma ilog2_scale: "0 < x \<Longrightarrow> ilog2 (x * 2 powi e) = ilog2 x + e"
proof (rule ilog2_unique)
  assume x: "0 < x"
  show "2 powi (ilog2 x + e) \<le> x * 2 powi e" using ilog2_bounds(1)[OF x] by (simp add: power_int_add)
  have "x * 2 powi e < 2 powi (ilog2 x + 1) * 2 powi e" using ilog2_bounds(2)[OF x] by simp
  also have "\<dots> = 2 powi (ilog2 x + 1 + e)" by (subst (2) power_int_add) simp_all
  finally show "x * 2 powi e < 2 powi (ilog2 x + e + 1)" by (simp add: ac_simps)
qed

lemma fl_pos_scale: "0 < x \<Longrightarrow> fl_pos (x * 2 powi e) = fl_pos x * 2 powi e"
proof -
  assume x: "0 < x"
  have u: "(2::rat) powi (ilog2 x + e - 52) = 2 powi (ilog2 x - 52) * 2 powi e"
    by (subst power_int_add[symmetric]) (simp_all add: algebra_simps)
  show ?thesis by (simp add: fl_pos_def ilog2_scale[OF x] u Let_def)
qed

lemma fl_scale: "fl (x * 2 powi e) = fl x * 2 powi e"
proof (cases x "0::rat" rule: linorder_cases)
  case less
  have p: "(0::rat) < 2 powi e" by simp
  have "x * 2 powi e < 0" using less p by (rule mult_neg_pos)
  with less fl_pos_scale[of "- x" e] show ?thesis by (simp add: fl_def)
next
  case greater
  have p: "(0::rat) < 2 powi e" by simp
  have "0 < x * 2 powi e" using greater p by (rule mult_pos_pos)
  with greater fl_pos_scale[of x e] show ?thesis by (simp add: fl_def)
qed simp

lemma fl_dyadic: "\<bar>n\<bar> < 2 ^ 53 \<Longrightarrow> fl (of_int n * 2 powi e) = of_int n * 2 powi e"
  by (simp add: fl_scale fl_int)

lemma fl_pos_idem: "0 < x \<Longrightarrow> fl (fl_pos x) = fl_pos x"
proof -
  assume x: "0 < x"
  define e where "e = ilog2 x - 52"
  define n where "n = round_half_even (x / 2 powi e)"
  have n: "fl_pos x = of_int n * 2 powi e" by (simp add: fl_pos_def n_def e_def Let_def)
  have e53: "(2::rat) powi (ilog2 x + 1) = of_int (2 ^ 53) * 2 powi e"
    by (simp add: e_def power_int_diff power_int_add)
  have "of_int n * 2 powi e \<le> of_int (2 ^ 53) * (2::rat) powi e"
    using fl_pos_bounds(2)[OF x] unfolding n e53 .
  then have "(of_int n :: rat) \<le> of_int (2 ^ 53)" by (subst (asm) mult_le_cancel_right_pos) simp_all
  then have le: "n \<le> 2 ^ 53" by (simp only: of_int_le_iff)
  have ge: "0 < n" using fl_pos_positive[OF x] unfolding n
    by (metis of_int_0_less_iff zero_less_mult_pos2 zero_less_numeral zero_less_power_int)
  show ?thesis
  proof (cases "n = 2 ^ 53")
    case True
    have "fl_pos x = of_int 1 * 2 powi (53 + e)" unfolding n True by (simp add: power_int_add)
    then show ?thesis using fl_dyadic[of 1 "53 + e"] by simp
  next
    case False
    with le ge show ?thesis unfolding n by (intro fl_dyadic) simp
  qed
qed

lemma fl_idem [simp]: "fl (fl x) = fl x"
  using fl_pos_idem[of x] fl_pos_idem[of "- x"] by (auto simp: fl_def[of x])

lemma fl_error_dir: "fl y = y \<Longrightarrow> x \<le> y \<Longrightarrow> fl x \<le> y" "fl y = y \<Longrightarrow> y \<le> x \<Longrightarrow> y \<le> fl x"
  by (metis fl_mono)+

subsection \<open>The contract of rounded arithmetic\<close>

locale rounding =
  fixes rnd :: "rat \<Rightarrow> rat"
  assumes rnd_mono: "x \<le> y \<Longrightarrow> rnd x \<le> rnd y"
    and rnd_minus: "rnd (- x) = - rnd x"
    and rnd_int: "\<bar>n\<bar> < 2 ^ 53 \<Longrightarrow> rnd (of_int n) = of_int n"
    and rnd_sign: "rnd x \<le> 0 \<longleftrightarrow> x \<le> 0"
begin

lemma rnd_numeral: "numeral k < (2::int) ^ 53 \<Longrightarrow> rnd (numeral k) = numeral k"
  using rnd_int[of "numeral k"] by simp

lemma rnd_le_int: "x \<le> of_int n \<Longrightarrow> \<bar>n\<bar> < 2 ^ 53 \<Longrightarrow> rnd x \<le> of_int n"
  using rnd_mono[of x "of_int n"] by (simp add: rnd_int)

lemma rnd_ge_int: "of_int n \<le> x \<Longrightarrow> \<bar>n\<bar> < 2 ^ 53 \<Longrightarrow> of_int n \<le> rnd x"
  using rnd_mono[of "of_int n" x] by (simp add: rnd_int)

lemma rnd_interval:
  "of_int a \<le> x \<Longrightarrow> x \<le> of_int b \<Longrightarrow> \<bar>a\<bar> < 2 ^ 53 \<Longrightarrow> \<bar>b\<bar> < 2 ^ 53
     \<Longrightarrow> of_int a \<le> rnd x \<and> rnd x \<le> of_int b"
  by (simp add: rnd_le_int rnd_ge_int)

end

interpretation ieee: rounding fl
  by unfold_locales (simp_all add: fl_mono fl_int)

text \<open>A difference has the sign of the exact difference, so comparators that subtract are exact.\<close>

lemma nsub_le_zero [simp]: "nsub a b \<le> 0 \<longleftrightarrow> a \<le> b"
  by (simp add: nsub_def)

lemma nsub_pos [simp]: "0 < nsub a b \<longleftrightarrow> b < a"
  by (simp add: nsub_def)

lemma nsub_neg [simp]: "nsub a b < 0 \<longleftrightarrow> a < b"
  by (simp add: nsub_def)

lemma nsub_eq_zero [simp]: "nsub a b = 0 \<longleftrightarrow> a = b"
  by (simp add: nsub_def)

lemma nsub_same [simp]: "nsub a a = 0"
  by simp

lemma nadd_nonneg: "0 \<le> a \<Longrightarrow> 0 \<le> b \<Longrightarrow> 0 \<le> nadd a b"
  by (simp add: nadd_def)

lemma nadd_ge: "fl y = y \<Longrightarrow> 0 \<le> d \<Longrightarrow> y \<le> nadd y d"
  unfolding nadd_def using fl_mono[of y "y + d"] by simp

lemma nadd_mono: "a \<le> b \<Longrightarrow> nadd y a \<le> nadd y b"
  unfolding nadd_def by (rule fl_mono) simp

end
