(* ===== verification/Js_String.thy ===== *)
theory Js_String
  imports Js_Number "HOL-Library.Char_ord" "HOL-Library.List_Lexorder"
begin

section \<open>JavaScript strings\<close>

text \<open>
  A JavaScript string is a \<open>string\<close> here, the bytes of its UTF-8 form. The methods below act on the
  ASCII part as JavaScript does; the identifiers, timestamps, rule names and templates of this
  code are ASCII but for a few symbols in literals (an arrow, a multiplication sign), which are
  written as their UTF-8 bytes. Case mapping and white space beyond ASCII are not modelled.
  The order \<open><\<close> of strings is lexicographic, as JavaScript's is.
\<close>

subsection \<open>Literals beyond ASCII\<close>

definition utf8_arrow :: string where "utf8_arrow = [CHR 0xE2, CHR 0x86, CHR 0x92]"
definition utf8_times :: string where "utf8_times = [CHR 0xC3, CHR 0x97]"
definition utf8_darr :: string where "utf8_darr = [CHR 0xE2, CHR 0x86, CHR 0x93]"
definition utf8_emdash :: string where "utf8_emdash = [CHR 0xE2, CHR 0x80, CHR 0x94]"
definition utf8_ellipsis :: string where "utf8_ellipsis = [CHR 0xE2, CHR 0x80, CHR 0xA6]"
definition utf8_larr :: string where "utf8_larr = [CHR 0xE2, CHR 0x86, CHR 0x90]"
definition utf8_middot :: string where "utf8_middot = [CHR 0xC2, CHR 0xB7]"
definition utf8_ldquo :: string where "utf8_ldquo = [CHR 0xE2, CHR 0x80, CHR 0x9C]"
definition utf8_rdquo :: string where "utf8_rdquo = [CHR 0xE2, CHR 0x80, CHR 0x9D]"

definition quoted :: "string \<Rightarrow> string" where
  "quoted s = CHR 0x22 # s @ [CHR 0x22]"

subsection \<open>Case\<close>

definition upper_char :: "char \<Rightarrow> char" where
  "upper_char c = (let n = of_char c :: nat in if 97 \<le> n \<and> n \<le> 122 then char_of (n - 32) else c)"

definition lower_char :: "char \<Rightarrow> char" where
  "lower_char c = (let n = of_char c :: nat in if 65 \<le> n \<and> n \<le> 90 then char_of (n + 32) else c)"

definition toUpperCase :: "string \<Rightarrow> string" where "toUpperCase s = map upper_char s"
definition toLowerCase :: "string \<Rightarrow> string" where "toLowerCase s = map lower_char s"

subsection \<open>Searching and cutting\<close>

fun str_includes :: "string \<Rightarrow> string \<Rightarrow> bool" where
  "str_includes [] sub = (sub = [])"
| "str_includes (c # cs) sub = (prefix sub (c # cs) \<or> str_includes cs sub)"

definition is_space :: "char \<Rightarrow> bool" where
  "is_space c = (c = CHR '' '' \<or> (9 \<le> (of_char c :: nat) \<and> (of_char c :: nat) \<le> 13))"

definition trim :: "string \<Rightarrow> string" where
  "trim s = rev (dropWhile is_space (rev (dropWhile is_space s)))"

definition slice_to :: "nat \<Rightarrow> string \<Rightarrow> string" where
  "slice_to n s = take n s"

text \<open>\<open>s.split(sep)\<close> for a one-character separator: never the empty array.\<close>

fun split_on :: "char \<Rightarrow> string \<Rightarrow> string list" where
  "split_on sep [] = [[]]"
| "split_on sep (c # cs) =
     (if c = sep then [] # split_on sep cs
      else (c # hd (split_on sep cs)) # tl (split_on sep cs))"

fun js_join :: "string \<Rightarrow> string list \<Rightarrow> string" where
  "js_join sep [] = []"
| "js_join sep [s] = s"
| "js_join sep (s # t # ss) = s @ sep @ js_join sep (t # ss)"

subsection \<open>URI components\<close>

definition hex_digit :: "nat \<Rightarrow> char" where "hex_digit d = ''0123456789ABCDEF'' ! d"

definition is_alnum :: "char \<Rightarrow> bool" where
  "is_alnum c = (let n = of_char c :: nat
     in 48 \<le> n \<and> n \<le> 57 \<or> 65 \<le> n \<and> n \<le> 90 \<or> 97 \<le> n \<and> n \<le> 122)"

definition percent :: "char \<Rightarrow> string" where
  "percent c = (let n = of_char c :: nat in [CHR ''%'', hex_digit (n div 16), hex_digit (n mod 16)])"

definition uri_char :: "char \<Rightarrow> string" where
  "uri_char c = (if is_alnum c \<or> c \<in> set ''-_.!~*()'' \<or> c = CHR 0x27 then [c] else percent c)"

definition encodeURIComponent :: "string \<Rightarrow> string" where
  "encodeURIComponent s = concat (map uri_char s)"

subsection \<open>Facts\<close>

lemma of_char_less_256: "(of_char c :: nat) < 256"
  by (cases c) (simp add: of_char_def)

lemma char_eq_of_char: "(of_char c = (of_char d :: nat)) \<longleftrightarrow> c = d"
  by simp

lemma of_char_upper: "of_char (upper_char c) =
    (if 97 \<le> (of_char c :: nat) \<and> (of_char c :: nat) \<le> 122 then of_char c - 32 else (of_char c :: nat))"
  using of_char_less_256[of c] by (auto simp: upper_char_def Let_def)

lemma of_char_lower: "of_char (lower_char c) =
    (if 65 \<le> (of_char c :: nat) \<and> (of_char c :: nat) \<le> 90 then of_char c + 32 else (of_char c :: nat))"
  using of_char_less_256[of c] by (auto simp: lower_char_def Let_def)

lemma lower_char_idem [simp]: "lower_char (lower_char c) = lower_char c"
proof -
  have "of_char (lower_char (lower_char c)) = (of_char (lower_char c) :: nat)"
    unfolding of_char_lower[of "lower_char c"] using of_char_lower[of c] by (auto split: if_splits)
  then show ?thesis by (simp add: char_eq_of_char)
qed

lemma lower_upper_char [simp]: "lower_char (upper_char c) = lower_char c"
proof -
  have "of_char (lower_char (upper_char c)) = (of_char (lower_char c) :: nat)"
    unfolding of_char_lower using of_char_upper[of c] by (auto split: if_splits)
  then show ?thesis by (simp add: char_eq_of_char)
qed

lemma toLowerCase_idem [simp]: "toLowerCase (toLowerCase s) = toLowerCase s"
  by (simp add: toLowerCase_def)

lemma toLowerCase_toUpperCase [simp]: "toLowerCase (toUpperCase s) = toLowerCase s"
  by (simp add: toLowerCase_def toUpperCase_def)

lemma str_includes_iff: "str_includes s sub \<longleftrightarrow> sublist sub s"
proof (induction s)
  case Nil
  show ?case by (auto simp: sublist_def)
next
  case (Cons c cs)
  show ?case by (simp add: Cons.IH sublist_Cons_right)
qed

lemma str_includes_Nil [simp]: "str_includes s []"
  by (cases s) auto

lemma split_on_neq_Nil [simp]: "split_on sep s \<noteq> []"
  by (cases s) auto

lemma js_join_Cons: "ss \<noteq> [] \<Longrightarrow> js_join sep (s # ss) = s @ sep @ js_join sep ss"
  by (cases ss) auto

lemma js_join_split_on: "js_join [sep] (split_on sep s) = s"
proof (induction s)
  case Nil
  show ?case by simp
next
  case (Cons c cs)
  obtain t ts where t: "split_on sep cs = t # ts" by (cases "split_on sep cs") auto
  show ?case using Cons.IH by (cases ts) (auto simp: t)
qed

end
