(* ===== verification/Js_Date.thy ===== *)
theory Js_Date
  imports Js_String "HOL-Library.Monad_Syntax"
begin

section \<open>JavaScript dates\<close>

text \<open>
  \<open>new Date(s).getTime()\<close> for the ISO 8601 strings the backend sends and the date fields of the
  forms produce, as ECMAScript's date-time string format reads them: \<open>YYYY-MM-DD\<close> (UTC),
  \<open>YYYY-MM-DDTHH:mm[:ss[.fraction]]\<close> followed by \<open>Z\<close>, an offset \<open>+HH:mm\<close> or nothing (local
  time). Digits of a fraction beyond milliseconds are dropped, as V8 drops them (Pydantic prints
  microseconds). Any other text is an invalid date: \<open>None\<close>, whose time value is NaN.

  The host's time zone is an argument, the record \<open>host_zone\<close> with the offset (in milliseconds) of
  a UTC instant and of a local clock reading; \<open>utc_zone\<close> is one such host.
\<close>

subsection \<open>The proleptic Gregorian calendar\<close>

definition DayFromYear :: "int \<Rightarrow> int" where
  "DayFromYear y = 365 * (y - 1970) + (y - 1969) div 4 - (y - 1901) div 100 + (y - 1601) div 400"

definition is_leap :: "int \<Rightarrow> bool" where
  "is_leap y \<longleftrightarrow> y mod 4 = 0 \<and> (y mod 100 \<noteq> 0 \<or> y mod 400 = 0)"

definition days_before_month :: "bool \<Rightarrow> int \<Rightarrow> int" where
  "days_before_month leap m =
     (let k = (if leap then 1 else 0) in
      if m \<le> 1 then 0 else if m = 2 then 31 else if m = 3 then 59 + k else if m = 4 then 90 + k
      else if m = 5 then 120 + k else if m = 6 then 151 + k else if m = 7 then 181 + k
      else if m = 8 then 212 + k else if m = 9 then 243 + k else if m = 10 then 273 + k
      else if m = 11 then 304 + k else 334 + k)"

definition MakeDay :: "int \<Rightarrow> int \<Rightarrow> int \<Rightarrow> int" where
  "MakeDay y m d = DayFromYear y + days_before_month (is_leap y) m + d - 1"

text \<open>
  The year of a day number: an estimate from the mean length of a year, corrected by one in
  either direction.
\<close>

definition YearFromDay :: "int \<Rightarrow> int" where
  "YearFromDay z =
     (let y = 1970 + (400 * z) div 146097
      in if z < DayFromYear y then y - 1 else if DayFromYear (y + 1) \<le> z then y + 1 else y)"

definition MonthFromDay :: "int \<Rightarrow> int" where
  "MonthFromDay z =
     (let y = YearFromDay z; doy = z - DayFromYear y; l = is_leap y in
      if doy < days_before_month l 2 then 1 else if doy < days_before_month l 3 then 2
      else if doy < days_before_month l 4 then 3 else if doy < days_before_month l 5 then 4
      else if doy < days_before_month l 6 then 5 else if doy < days_before_month l 7 then 6
      else if doy < days_before_month l 8 then 7 else if doy < days_before_month l 9 then 8
      else if doy < days_before_month l 10 then 9 else if doy < days_before_month l 11 then 10
      else if doy < days_before_month l 12 then 11 else 12)"

definition DateFromDay :: "int \<Rightarrow> int" where
  "DateFromDay z =
     (let y = YearFromDay z in z - DayFromYear y - days_before_month (is_leap y) (MonthFromDay z) + 1)"

subsection \<open>Parsing\<close>

definition msPerDay :: int where "msPerDay = 86400000"

record host_zone =
  utc_offset_ms :: "int \<Rightarrow> int"    \<comment> \<open>offset at a UTC instant\<close>
  local_offset_ms :: "int \<Rightarrow> int"  \<comment> \<open>offset at a local clock reading\<close>

definition utc_zone :: host_zone where
  "utc_zone = \<lparr>utc_offset_ms = (\<lambda>_. 0), local_offset_ms = (\<lambda>_. 0)\<rparr>"

definition digit_value :: "char \<Rightarrow> nat option" where
  "digit_value c = (let n = of_char c :: nat in if 48 \<le> n \<and> n \<le> 57 then Some (n - 48) else None)"

fun take_digits :: "nat \<Rightarrow> nat \<Rightarrow> string \<Rightarrow> (nat \<times> string) option" where
  "take_digits 0 acc s = Some (acc, s)"
| "take_digits (Suc n) acc [] = None"
| "take_digits (Suc n) acc (c # cs) =
     (case digit_value c of None \<Rightarrow> None | Some d \<Rightarrow> take_digits n (10 * acc + d) cs)"

definition expect :: "char \<Rightarrow> string \<Rightarrow> string option" where
  "expect c s = (case s of [] \<Rightarrow> None | d # ds \<Rightarrow> if c = d then Some ds else None)"

definition parse_day :: "string \<Rightarrow> (int \<times> string) option" where
  "parse_day s0 = do {
     (y, s1) \<leftarrow> take_digits 4 0 s0;
     s2 \<leftarrow> expect CHR ''-'' s1;
     (m, s3) \<leftarrow> take_digits 2 0 s2;
     s4 \<leftarrow> expect CHR ''-'' s3;
     (d, s5) \<leftarrow> take_digits 2 0 s4;
     if 1 \<le> m \<and> m \<le> 12 \<and> 1 \<le> d \<and> d \<le> 31 then Some (MakeDay (int y) (int m) (int d), s5) else None
   }"

text \<open>The fraction of a second in milliseconds; further digits are skipped.\<close>

definition parse_fraction :: "string \<Rightarrow> (nat \<times> string) option" where
  "parse_fraction s =
     (let ds = takeWhile (\<lambda>c. digit_value c \<noteq> None) s; rest = dropWhile (\<lambda>c. digit_value c \<noteq> None) s
      in if ds = [] then None
         else case take_digits 3 0 (take 3 (ds @ ''00'')) of
                None \<Rightarrow> None | Some (ms, _) \<Rightarrow> Some (ms, rest))"

definition parse_seconds :: "string \<Rightarrow> (nat \<times> string) option" where
  "parse_seconds s0 =
     (case expect CHR '':'' s0 of
        None \<Rightarrow> Some (0, s0)
      | Some s1 \<Rightarrow> do {
          (sec, s2) \<leftarrow> take_digits 2 0 s1;
          if 59 < sec then None
          else case expect CHR ''.'' s2 of
                 None \<Rightarrow> Some (1000 * sec, s2)
               | Some s3 \<Rightarrow> do { (ms, s4) \<leftarrow> parse_fraction s3; Some (1000 * sec + ms, s4) } })"

definition parse_offset :: "string \<Rightarrow> int option" where
  "parse_offset s0 = do {
     (h, s1) \<leftarrow> take_digits 2 0 s0;
     s2 \<leftarrow> expect CHR '':'' s1;
     (m, s3) \<leftarrow> take_digits 2 0 s2;
     if s3 = [] \<and> h \<le> 23 \<and> m \<le> 59 then Some (int (60 * h + m) * 60000) else None
   }"

text \<open>What follows the time of day: the clock reading \<open>t\<close> as an instant.\<close>

definition apply_zone :: "host_zone \<Rightarrow> int \<Rightarrow> string \<Rightarrow> int option" where
  "apply_zone z t s =
     (if s = [] then Some (t - local_offset_ms z t)
      else if s = ''Z'' then Some t
      else if hd s = CHR ''+'' then map_option (\<lambda>off. t - off) (parse_offset (tl s))
      else if hd s = CHR ''-'' then map_option (\<lambda>off. t + off) (parse_offset (tl s))
      else None)"

definition Date_getTime :: "host_zone \<Rightarrow> string \<Rightarrow> int option" where
  "Date_getTime z s = do {
     (day, s1) \<leftarrow> parse_day s;
     if s1 = [] then Some (day * msPerDay)
     else do {
       s2 \<leftarrow> expect CHR ''T'' s1;
       (h, s3) \<leftarrow> take_digits 2 0 s2;
       s4 \<leftarrow> expect CHR '':'' s3;
       (mi, s5) \<leftarrow> take_digits 2 0 s4;
       (ms, s6) \<leftarrow> parse_seconds s5;
       if mi \<le> 59 \<and> (h \<le> 23 \<or> h = 24 \<and> mi = 0 \<and> ms = 0)
       then apply_zone z (day * msPerDay + int h * 3600000 + int mi * 60000 + int ms) s6
       else None
     }
   }"

subsection \<open>Comparing time values\<close>

text \<open>Relations with a NaN operand are false; arithmetic with one is NaN.\<close>

definition ms_le :: "int option \<Rightarrow> int option \<Rightarrow> bool" where
  "ms_le a b = (case (a, b) of (Some x, Some y) \<Rightarrow> x \<le> y | _ \<Rightarrow> False)"

definition ms_less :: "int option \<Rightarrow> int option \<Rightarrow> bool" where
  "ms_less a b = (case (a, b) of (Some x, Some y) \<Rightarrow> x < y | _ \<Rightarrow> False)"

text \<open>A comparator's \<open>a.getTime() - b.getTime()\<close>; \<open>sort\<close> reads a NaN answer as 0.\<close>

definition ms_diff :: "int option \<Rightarrow> int option \<Rightarrow> rat" where
  "ms_diff a b = (case (a, b) of (Some x, Some y) \<Rightarrow> of_int (x - y) | _ \<Rightarrow> 0)"

subsection \<open>Local calendar fields and printing\<close>

definition local_day :: "host_zone \<Rightarrow> int \<Rightarrow> int" where
  "local_day z t = (t + utc_offset_ms z t) div msPerDay"

definition getFullYear :: "host_zone \<Rightarrow> int \<Rightarrow> int" where
  "getFullYear z t = YearFromDay (local_day z t)"
definition getMonth :: "host_zone \<Rightarrow> int \<Rightarrow> int" where
  "getMonth z t = MonthFromDay (local_day z t) - 1"
definition getDate :: "host_zone \<Rightarrow> int \<Rightarrow> int" where
  "getDate z t = DateFromDay (local_day z t)"

text \<open>\<open>d.toISOString()\<close> for the years 0 to 9999.\<close>

definition toISOString :: "int \<Rightarrow> string" where
  "toISOString t =
     (let z = t div msPerDay; r = nat (t mod msPerDay);
          p = (\<lambda>n i. pad_left n (show_nat i))
      in p 4 (nat (YearFromDay z)) @ ''-'' @ p 2 (nat (MonthFromDay z)) @ ''-'' @ p 2 (nat (DateFromDay z))
         @ ''T'' @ p 2 (r div 3600000) @ '':'' @ p 2 (r div 60000 mod 60) @ '':'' @ p 2 (r div 1000 mod 60)
         @ ''.'' @ p 3 (r mod 1000) @ ''Z'')"

subsection \<open>Facts\<close>

lemma ms_simps [simp]:
  "ms_le (Some x) (Some y) \<longleftrightarrow> x \<le> y" "\<not> ms_le None b" "\<not> ms_le a None"
  "ms_less (Some x) (Some y) \<longleftrightarrow> x < y" "\<not> ms_less None b" "\<not> ms_less a None"
  "ms_diff (Some x) (Some y) = of_int (x - y)"
  by (simp_all add: ms_le_def ms_less_def ms_diff_def split: option.splits)

lemma MakeDay_of_day: "MakeDay (YearFromDay z) (MonthFromDay z) (DateFromDay z) = z"
  by (simp add: MakeDay_def DateFromDay_def Let_def)

lemma civil_fields_inj:
  "YearFromDay a = YearFromDay b \<Longrightarrow> MonthFromDay a = MonthFromDay b \<Longrightarrow> DateFromDay a = DateFromDay b
     \<Longrightarrow> a = b"
  by (metis MakeDay_of_day)

lemma div_Suc_int:
  fixes n k :: int
  assumes "1 < k"
  shows "(n + 1) div k = n div k + (if (n + 1) mod k = 0 then 1 else 0)"
proof -
  define q r where "q = n div k" and "r = n mod k"
  have n: "n = q * k + r" by (simp add: q_def r_def)
  have r: "0 \<le> r" "r < k" using assms by (simp_all add: r_def)
  show ?thesis
  proof (cases "r + 1 = k")
    case True
    then have "n + 1 = (q + 1) * k" by (simp add: n algebra_simps)
    then show ?thesis using assms by (simp add: q_def)
  next
    case False
    with r have r': "0 \<le> r + 1" "r + 1 < k" by auto
    have e: "n + 1 = (r + 1) + q * k" by (simp add: n)
    have "(n + 1) div k = q" "(n + 1) mod k = r + 1"
      unfolding e using r' assms by (simp_all add: div_mult_self1 mod_mult_self1)
    then show ?thesis using r by (simp add: q_def)
  qed
qed

lemma mod_shift_int: "(y::int) mod k = (y - c * k) mod k"
  by (metis mod_mult_self2 diff_add_cancel mult.commute)

lemma leap_count:
  fixes n A B C :: int
  assumes "p100 \<Longrightarrow> p4" and "p400 \<Longrightarrow> p100"
  shows "365 * (n + 1 - 1970) + (A + (if p4 then 1 else 0)) - (B + (if p100 then 1 else 0))
      + (C + (if p400 then 1 else 0))
    = 365 * (n - 1970) + A - B + C + (if p4 \<and> (\<not> p100 \<or> p400) then 366 else 365)"
  using assms by (cases p4; cases p100; cases p400) simp_all

lemma DayFromYear_Suc: "DayFromYear (y + 1) = DayFromYear y + (if is_leap y then 366 else 365)"
proof -
  have a: "(y - 1969 + 1) div 4 = (y - 1969) div 4 + (if y mod 4 = 0 then 1 else 0)"
    using div_Suc_int[of 4 "y - 1969"] mod_shift_int[of y 4 492] by simp
  have b: "(y - 1901 + 1) div 100 = (y - 1901) div 100 + (if y mod 100 = 0 then 1 else 0)"
    using div_Suc_int[of 100 "y - 1901"] mod_shift_int[of y 100 19] by simp
  have c: "(y - 1601 + 1) div 400 = (y - 1601) div 400 + (if y mod 400 = 0 then 1 else 0)"
    using div_Suc_int[of 400 "y - 1601"] mod_shift_int[of y 400 4] by simp
  have d: "y mod 400 = 0 \<Longrightarrow> y mod 100 = 0" "y mod 100 = 0 \<Longrightarrow> y mod 4 = 0"
    unfolding mod_eq_0_iff_dvd by (erule dvd_trans[rotated], simp)+
  have e: "y + 1 - 1969 = y - 1969 + 1" "y + 1 - 1901 = y - 1901 + 1" "y + 1 - 1601 = y - 1601 + 1"
    by simp_all
  show ?thesis unfolding DayFromYear_def is_leap_def e a b c by (rule leap_count[OF d(2) d(1)])
qed

lemma YearFromDay_bounds:
  "DayFromYear (YearFromDay z) \<le> z" "z < DayFromYear (YearFromDay z + 1)"
proof -
  define q where "q = (400 * z) div 146097"
  have q: "146097 * q \<le> 400 * z" "400 * z < 146097 * q + 146097" unfolding q_def by auto
  define a b c where "a = q div 4" and "b = (q + 68) div 100" and "c = (q + 368) div 400"
  have "4 * a \<le> q" "q + 68 < 100 * b + 100" "400 * c \<le> q + 368"
    unfolding a_def b_def c_def by auto
  moreover have "DayFromYear (1970 + q - 1) = 365 * (q - 1) + a - b + c"
    by (simp add: DayFromYear_def a_def b_def c_def algebra_simps)
  ultimately have "400 * DayFromYear (1970 + q - 1) \<le> 400 * z" using q by (simp add: algebra_simps)
  then have lo: "DayFromYear (1970 + q - 1) \<le> z" by simp
  define a' b' c' where "a' = (q + 3) div 4" and "b' = (q + 71) div 100" and "c' = (q + 371) div 400"
  have "q + 3 < 4 * a' + 4" "100 * b' \<le> q + 71" "q + 371 < 400 * c' + 400"
    unfolding a'_def b'_def c'_def by auto
  moreover have "DayFromYear (1970 + q + 1 + 1) = 365 * (q + 2) + a' - b' + c'"
    by (simp add: DayFromYear_def a'_def b'_def c'_def algebra_simps)
  ultimately have "400 * z < 400 * DayFromYear (1970 + q + 1 + 1)" using q by (simp add: algebra_simps)
  then have hi: "z < DayFromYear (1970 + q + 1 + 1)" by simp
  have "DayFromYear (YearFromDay z) \<le> z \<and> z < DayFromYear (YearFromDay z + 1)"
    using lo hi by (simp add: YearFromDay_def q_def[symmetric] Let_def)
  then show "DayFromYear (YearFromDay z) \<le> z" "z < DayFromYear (YearFromDay z + 1)" by auto
qed

end
