(* ===== verification/Api_Types.thy ===== *)
theory Api_Types
  imports Js_Date
begin

section \<open>The data of the backend's API\<close>

text \<open>
  The interfaces of \<open>frontend/src/api/types.ts\<close> the modelled code reads, one record each with the
  interface's own name. Field names carry a short prefix per record (\<open>ra_tier\<close> is \<open>tier\<close> of
  \<open>RiskAssessment\<close>), because the interfaces share field names. A string union (\<open>Tier\<close>,
  \<open>PermitStatus\<close>, an entity kind) stays a \<open>string\<close>: the client casts the JSON it receives and never
  checks it, so any text can be there at run time. An optional or nullable field is an \<open>option\<close>.

  \<open>json\<close> is a parsed JSON value, the \<open>unknown\<close> of the code. An object is the association list of
  its own enumerable properties in enumeration order; \<open>Object_entries\<close> reads it. The properties
  every object inherits from \<open>Object.prototype\<close> (\<open>toString\<close>, \<open>constructor\<close>) are not modelled.
\<close>

subsection \<open>JSON values\<close>

datatype json =
    JNull
  | JBool bool
  | JNum number
  | JStr string
  | JArr "json list"
  | JObj "(string \<times> json) list"

type_synonym json_object = "(string \<times> json) list"

text \<open>\<open>Object.entries\<close>: an array enumerates its indices, a primitive but a string has none.\<close>

definition Object_entries :: "json \<Rightarrow> (string \<times> json) list" where
  "Object_entries v =
     (case v of
        JObj kvs \<Rightarrow> kvs
      | JArr vs \<Rightarrow> zip (map show_nat [0..<length vs]) vs
      | JStr s \<Rightarrow> zip (map show_nat [0..<length s]) (map (\<lambda>c. JStr [c]) s)
      | _ \<Rightarrow> [])"

text \<open>Reading a property of an object; \<open>None\<close> is \<open>undefined\<close>.\<close>

definition json_get :: "json_object \<Rightarrow> string \<Rightarrow> json option" where
  "json_get obj k = map_of obj k"

definition TIERS :: "string list" where
  "TIERS = [''normal'', ''watch'', ''elevated'', ''critical'']"

subsection \<open>Records\<close>

record RiskAssessment =
  ra_assessment_id :: string
  ra_zone_id :: string
  ra_timestamp :: string
  ra_compound_risk_score :: number
  ra_confidence :: number
  ra_tier :: string
  ra_justification :: json_object

record Permit =
  pm_permit_id :: string
  pm_permit_type :: string
  pm_zone_id :: string
  pm_issued_at :: string
  pm_expires_at :: string
  pm_authorizing_officer_id :: string
  pm_status :: string
  pm_baseline_snapshot :: json_object

record ErrorDetail =
  ed_code :: string
  ed_message :: string
  ed_details :: "json option"

record Zone =
  zn_zone_id :: string
  zn_name :: string
  zn_plant_section :: string
  zn_oisd_area_classification :: string

record ScenarioSummary =
  ss_key :: string
  ss_title :: string
  ss_description :: string
  ss_start_time :: string
  ss_end_time :: string
  ss_zone_ids :: "string list"
  ss_seed :: number

record CounterfactualVerdict =
  cfv_alert :: bool
  cfv_triggered_sensors :: "string list"
  cfv_highest_ratio :: "number option"

record CompoundVerdict =
  cv_compound_risk_score :: number
  cv_confidence :: number
  cv_tier :: string

record CounterfactualComparison =
  cc_zone_id :: string
  cc_timestamp :: string
  cc_counterfactual :: CounterfactualVerdict
  cc_compound :: "CompoundVerdict option"

record Worker =
  wk_worker_id :: string
  wk_role :: string
  wk_current_zone_id :: "string option"

record SensorInfo =
  si_sensor_id :: string
  si_zone_id :: string
  si_gas_type :: string
  si_alarm_threshold :: number
  si_last_calibrated_at :: "string option"

record SensorEventDraft =
  se_name :: string
  se_zone_id :: string
  se_gas_type :: string
  se_sim_time :: number
  se_duration_minutes :: number
  se_sample_interval_minutes :: number
  se_curve :: string
  se_params :: "(string \<times> number) list"

record PermitEventDraft =
  pe_name :: string
  pe_zone_id :: string
  pe_sim_time :: number
  pe_permit_type :: string
  pe_authorizing_officer_id :: string
  pe_duration_minutes :: number

record ScenarioDefinitionDraft =
  sd_title :: string
  sd_description :: string
  sd_seed :: number
  sd_start_time :: string
  sd_sensor_events :: "SensorEventDraft list"
  sd_permit_events :: "PermitEventDraft list"

record ReplayBookmark =
  rb_timestamp :: string
  rb_zone_id :: string
  rb_kind :: string
  rb_label :: string
  rb_assessment_id :: "string option"

record ZoneReplayTimeline =
  zt_zone_id :: string
  zt_assessments :: "RiskAssessment list"

record ReplayData =
  rd_zone_ids :: "string list"
  rd_start_time :: string
  rd_end_time :: string
  rd_duration_minutes :: number
  rd_tick_count :: number
  rd_zone_timelines :: "ZoneReplayTimeline list"
  rd_bookmarks :: "ReplayBookmark list"

record HistoricalLesson =
  hl_rule :: string
  hl_lesson :: string

record IncidentMatch =
  im_scenario_key :: string
  im_incident_name :: string
  im_date :: string
  im_zone_id :: string
  im_similarity :: number
  im_outcome_tier :: string
  im_root_cause :: string
  im_business_impact :: string
  im_operational_impact :: string
  im_safety_impact :: string
  im_matching_features :: "string list"
  im_differing_features :: "string list"
  im_lessons_learned :: "HistoricalLesson list"
  im_evidence_source :: string

record RuleFrequency =
  rf_rule :: string
  rf_lesson :: string
  rf_incident_count :: number

record HistoricalUnavailable =
  hu_reason :: string

record CrossScenarioAnalytics =
  ca_total_incidents :: number
  ca_total_indexed_ticks :: number
  ca_most_common_causes :: "RuleFrequency list"
  ca_most_common_equipment_issues :: "RuleFrequency list"
  ca_most_common_permit_conflicts :: "RuleFrequency list"
  ca_most_common_worker_hazards :: "RuleFrequency list"
  ca_average_resolution_minutes :: "number option"
  ca_most_effective_interventions :: HistoricalUnavailable
  ca_industry_comparisons :: HistoricalUnavailable

record ForesightMatchSummary =
  fm_scenario_key :: string
  fm_incident_name :: string
  fm_zone_id :: string
  fm_anchor_timestamp :: string
  fm_similarity :: number
  fm_window_length :: number

record ForecastEvidence =
  fe_scenario_key :: string
  fe_zone_id :: string
  fe_similarity :: number
  fe_observed_risk :: number
  fe_observed_tier :: string
  fe_observed_timestamp :: string
  fe_minutes_after_anchor :: number

record ForecastPoint =
  fp_horizon_minutes :: number
  fp_projected_risk :: "number option"
  fp_projected_tier :: "string option"
  fp_evidence :: "ForecastEvidence list"
  fp_unavailable_reason :: "string option"

record ForesightConfidence =
  fc_historical_agreement :: number
  fc_data_completeness :: number
  fc_trajectory_similarity :: number
  fc_replay_coverage :: number
  fc_overall :: number

record ProgressionStage =
  ps_label :: string
  ps_tier :: "string option"
  ps_supporting_matches :: number
  ps_total_matches :: number
  ps_evidence :: string

record IncidentProgression =
  ip_current_stage :: ProgressionStage
  ip_likely_next_stage :: ProgressionStage
  ip_likely_following_stage :: ProgressionStage
  ip_expected_resolution :: ProgressionStage

record EarlyWarningSignal =
  ew_category :: string
  ew_why :: string
  ew_supporting_matches :: number
  ew_total_matches :: number

record DeckContribution =
  dc_deck_key :: string
  dc_deck_name :: string
  dc_matched_incident_count :: number

record ForesightResult =
  fr_zone_id :: string
  fr_timestamp :: string
  fr_current_risk_score :: number
  fr_current_tier :: string
  fr_window_size :: number
  fr_current_window_length :: number
  fr_matches :: "ForesightMatchSummary list"
  fr_forecast :: "ForecastPoint list"
  fr_confidence :: ForesightConfidence
  fr_progression :: IncidentProgression
  fr_early_warning :: EarlyWarningSignal
  fr_deck_contributions :: "DeckContribution list"

record GraphEntity =
  ge_kind :: string
  ge_id :: string
  ge_label :: string
  ge_attributes :: json_object

record GraphEdge =
  gd_source_kind :: string
  gd_source_id :: string
  gd_relation :: string
  gd_target_kind :: string
  gd_target_id :: string
  gd_label :: string

record GraphNeighbor =
  gn_edge :: GraphEdge
  gn_entity :: GraphEntity

record GraphSubgraph =
  sg_nodes :: "GraphEntity list"
  sg_edges :: "GraphEdge list"

record AuditLogEntry =
  al_log_id :: string
  al_event_type :: string
  al_actor :: string
  al_zone_id :: "string option"
  al_payload :: json_object
  al_timestamp :: string

record ZoneWorkerCount =
  zw_zone_id :: string
  zw_worker_count :: number

record EquipmentInfo =
  eq_equipment_id :: string
  eq_zone_id :: string
  eq_equipment_type :: string
  eq_isolation_status :: string
  eq_maintenance_flag :: bool
  eq_loto_confirmed :: bool

end
