(* ===== verification/Tiers.thy ===== *)
theory Tiers
  imports Api_Types
begin

section \<open>Tiers, labels and permit glyphs\<close>

text \<open>
  \<open>lib/tier.ts\<close> (the severity order of tiers, the worst of several, the latest of several
  timestamps), \<open>lib/format.ts\<close> (zone labels; \<open>formatTimestamp\<close> prints in the browser's locale and
  is left out) and \<open>lib/permitIcons.ts\<close> (labels and glyphs per permit type).
\<close>

subsection \<open>lib/tier.ts\<close>

definition TIER_ORDER :: "string list" where
  "TIER_ORDER = [''normal'', ''watch'', ''elevated'', ''critical'']"

text \<open>\<open>xs.indexOf(x)\<close>: -1 when absent.\<close>

definition indexOf :: "'a list \<Rightarrow> 'a \<Rightarrow> int" where
  "indexOf xs x = (case find_index (\<lambda>y. y = x) xs of None \<Rightarrow> -1 | Some i \<Rightarrow> int i)"

definition tierRank :: "string \<Rightarrow> int" where
  "tierRank tier = indexOf TIER_ORDER tier"

definition worse_tier :: "string \<Rightarrow> string \<Rightarrow> string" where
  "worse_tier worst tier =
     (let worstRank = indexOf TIER_ORDER worst; rank = indexOf TIER_ORDER tier
      in if worstRank < rank then tier else worst)"

definition worstTier :: "string list \<Rightarrow> string option" where
  "worstTier tiers = (if length tiers = 0 then None else reduce1 worse_tier tiers)"

definition later_timestamp :: "string \<Rightarrow> string \<Rightarrow> string" where
  "later_timestamp latest current = (if latest < current then current else latest)"

definition latestTimestamp :: "string list \<Rightarrow> string option" where
  "latestTimestamp timestamps =
     (if length timestamps = 0 then None else reduce1 later_timestamp timestamps)"

subsection \<open>lib/format.ts\<close>

definition shortZoneLabel :: "string \<Rightarrow> string" where
  "shortZoneLabel zoneId = ''Zone '' @ slice_to 8 zoneId"

definition zoneLabel :: "string \<Rightarrow> Zone list option \<Rightarrow> string" where
  "zoneLabel zoneId zones =
     (case Option.bind zones (List.find (\<lambda>z. zn_zone_id z = zoneId)) of
        Some zone \<Rightarrow> zn_name zone
      | None \<Rightarrow> shortZoneLabel zoneId)"

subsection \<open>lib/permitIcons.ts\<close>

datatype PermitGlyph = HotWork | ConfinedSpace | Isolation | LineBreak | Generic

definition PERMIT_TYPE_LABELS :: "(string \<times> string) list" where
  "PERMIT_TYPE_LABELS =
    [(''hot_work'', ''Hot Work''),
     (''confined_space'', ''Confined Space''),
     (''electrical_isolation'', ''Isolation (Electrical)''),
     (''line_break'', ''Line Break'')]"

definition formatPermitType :: "string \<Rightarrow> string" where
  "formatPermitType permitType =
     (case map_of PERMIT_TYPE_LABELS permitType of Some l \<Rightarrow> l | None \<Rightarrow> permitType)"

definition permitTypeGlyph :: "string \<Rightarrow> PermitGlyph" where
  "permitTypeGlyph permitType =
     (let normalized = toLowerCase permitType in
      if normalized = ''hot_work'' then HotWork
      else if normalized = ''confined_space'' then ConfinedSpace
      else if str_includes normalized ''isolation'' then Isolation
      else if normalized = ''line_break'' then LineBreak
      else Generic)"

definition activePermitTypesForZone :: "Permit list \<Rightarrow> string \<Rightarrow> string list" where
  "activePermitTypesForZone permits zoneId =
     map pm_permit_type (filter (\<lambda>permit. pm_zone_id permit = zoneId) permits)"

subsection \<open>Facts\<close>

lemma indexOf_ge: "-1 \<le> indexOf xs x"
  by (simp add: indexOf_def split: option.split)

lemma indexOf_less: "indexOf xs x < int (length xs)"
  by (auto simp: indexOf_def dest: find_index_Some split: option.split)

lemma indexOf_eq_minus1: "indexOf xs x = -1 \<longleftrightarrow> x \<notin> set xs"
  by (auto simp: indexOf_def find_index_None_iff split: option.split dest: find_index_Some)

lemma indexOf_nth: "0 \<le> indexOf xs x \<Longrightarrow> xs ! nat (indexOf xs x) = x"
  by (auto simp: indexOf_def dest: find_index_Some split: option.splits)

lemma indexOf_inj: "0 \<le> indexOf xs x \<Longrightarrow> indexOf xs x = indexOf xs y \<Longrightarrow> x = y"
  by (metis indexOf_nth)

lemma tierRank_values [simp]:
  "tierRank ''normal'' = 0" "tierRank ''watch'' = 1" "tierRank ''elevated'' = 2" "tierRank ''critical'' = 3"
  by (simp_all add: tierRank_def indexOf_def TIER_ORDER_def)

lemma tierRank_bounds: "-1 \<le> tierRank t" "tierRank t \<le> 3"
  using indexOf_ge[of TIER_ORDER t] indexOf_less[of TIER_ORDER t]
  by (simp_all add: tierRank_def TIER_ORDER_def)

lemma tierRank_unknown: "tierRank t = -1 \<longleftrightarrow> t \<notin> set TIERS"
  by (simp add: tierRank_def indexOf_eq_minus1 TIER_ORDER_def TIERS_def)

interpretation tier_max: keep_first_max tierRank worse_tier
  by unfold_locales (simp add: worse_tier_def tierRank_def Let_def)

interpretation timestamp_max: keep_first_max "\<lambda>t. t" later_timestamp
  by unfold_locales (simp add: later_timestamp_def)

lemma worstTier_None_iff: "worstTier ts = None \<longleftrightarrow> ts = []"
  by (auto simp: worstTier_def)

lemma worstTier_Some: "worstTier ts = Some w \<Longrightarrow> is_first_max tierRank ts w"
  by (auto simp: worstTier_def dest: tier_max.reduce1_first_max split: if_splits)

lemma worstTier_max:
  "worstTier ts = Some w \<Longrightarrow> w \<in> set ts \<and> (\<forall>t\<in>set ts. tierRank t \<le> tierRank w)"
  using is_first_max_in[OF worstTier_Some] is_first_max_ge[OF worstTier_Some] by blast

lemma zoneLabel_known:
  "List.find (\<lambda>z. zn_zone_id z = zid) zs = Some z \<Longrightarrow> zoneLabel zid (Some zs) = zn_name z"
  by (simp add: zoneLabel_def)

lemma zoneLabel_fallback:
  "zones = None \<or> (\<exists>zs. zones = Some zs \<and> zid \<notin> zn_zone_id ` set zs) \<Longrightarrow> zoneLabel zid zones = shortZoneLabel zid"
  by (fastforce simp: zoneLabel_def split: option.splits dest: find_eq_Some_D)

end
