(* ===== verification/Justification.thy ===== *)
theory Justification
  imports Tiers
begin

section \<open>The justification of an assessment and what is read from it\<close>

text \<open>
  \<open>lib/justification.ts\<close> (the defensive parser of the untyped JSON column),
  \<open>lib/rootCause.ts\<close> (factors ranked by risk), \<open>lib/pipelineStages.ts\<close> (fired rules grouped by
  pipeline stage) and \<open>lib/agentContributionReasons.ts\<close> (the sentence explaining one agent's
  contribution). A JavaScript object used as a dictionary is an association list in property order.
\<close>

subsection \<open>lib/justification.ts\<close>

record AgentContribution =
  ac_risk :: number
  ac_confidence :: number

record RiskJustification =
  rj_schemaVersion :: number
  rj_rulesFired :: "string list"
  rj_agentContributions :: "(string \<times> AgentContribution) list"
  rj_interactionBonusApplied :: number
  rj_tierBefore :: string
  rj_tierAfter :: string

text \<open>
  \<open>isAgentContribution\<close>: an object (an array is one, \<open>null\<close> is not) whose \<open>risk\<close> and
  \<open>confidence\<close> are numbers; the model returns the two numbers with the verdict.
\<close>

definition isAgentContribution :: "json \<Rightarrow> AgentContribution option" where
  "isAgentContribution value =
     (case value of
        JObj record \<Rightarrow>
          (case (json_get record ''risk'', json_get record ''confidence'') of
             (Some (JNum r), Some (JNum c)) \<Rightarrow> Some \<lparr>ac_risk = r, ac_confidence = c\<rparr>
           | _ \<Rightarrow> None)
      | _ \<Rightarrow> None)"

fun parse_contributions ::
  "(string \<times> AgentContribution) list \<Rightarrow> (string \<times> json) list \<Rightarrow> (string \<times> AgentContribution) list option"
where
  "parse_contributions acc [] = Some acc"
| "parse_contributions acc ((agentName, contribution) # rest) =
     (case isAgentContribution contribution of
        None \<Rightarrow> None
      | Some c \<Rightarrow> parse_contributions (amap_set agentName c acc) rest)"

definition string_items :: "json list \<Rightarrow> string list" where
  "string_items vs = List.map_filter (\<lambda>v. case v of JStr s \<Rightarrow> Some s | _ \<Rightarrow> None) vs"

definition is_json_object :: "json \<Rightarrow> bool" where
  "is_json_object v = (case v of JObj _ \<Rightarrow> True | JArr _ \<Rightarrow> True | _ \<Rightarrow> False)"

definition parseJustification :: "json_object \<Rightarrow> RiskJustification option" where
  "parseJustification raw =
     (case (json_get raw ''schema_version'', json_get raw ''rules_fired'',
            json_get raw ''agent_contributions'', json_get raw ''interaction_bonus_applied'',
            json_get raw ''tier_before'', json_get raw ''tier_after'') of
        (Some (JNum schema_version), Some (JArr rules_fired), Some agent_contributions,
         Some (JNum interaction_bonus_applied), Some (JStr tier_before), Some (JStr tier_after)) \<Rightarrow>
          if \<not> is_json_object agent_contributions then None
          else (case parse_contributions [] (Object_entries agent_contributions) of
                  None \<Rightarrow> None
                | Some agentContributions \<Rightarrow>
                    Some \<lparr>rj_schemaVersion = schema_version,
                          rj_rulesFired = string_items rules_fired,
                          rj_agentContributions = agentContributions,
                          rj_interactionBonusApplied = interaction_bonus_applied,
                          rj_tierBefore = tier_before,
                          rj_tierAfter = tier_after\<rparr>)
      | _ \<Rightarrow> None)"

definition capitalize :: "string \<Rightarrow> string" where
  "capitalize word = toUpperCase (take 1 word) @ drop 1 word"

definition agentDisplayName :: "string \<Rightarrow> string" where
  "agentDisplayName agentName = js_join '' '' (map capitalize (split_on CHR ''_'' agentName))"

subsection \<open>lib/rootCause.ts\<close>

record RankedFactor =
  rk_agentName :: string
  rk_displayName :: string
  rk_risk :: number
  rk_confidence :: number

definition ranked_factor :: "string \<times> AgentContribution \<Rightarrow> RankedFactor" where
  "ranked_factor e =
     \<lparr>rk_agentName = fst e, rk_displayName = agentDisplayName (fst e),
      rk_risk = ac_risk (snd e), rk_confidence = ac_confidence (snd e)\<rparr>"

definition factor_cmp :: "RankedFactor \<Rightarrow> RankedFactor \<Rightarrow> rat" where
  "factor_cmp a b = nsub (rk_risk b) (rk_risk a)"

definition rankContributingFactors :: "RiskJustification option \<Rightarrow> RankedFactor list" where
  "rankContributingFactors justification =
     (case justification of
        None \<Rightarrow> []
      | Some j \<Rightarrow> js_sort factor_cmp (map ranked_factor (rj_agentContributions j)))"

definition IGNORED_BY_THRESHOLD_ENGINE :: "string list" where
  "IGNORED_BY_THRESHOLD_ENGINE = [''worker_exposure'', ''equipment_status'', ''permit_intelligence'']"

definition isIgnoredByThresholdEngine :: "string \<Rightarrow> bool" where
  "isIgnoredByThresholdEngine agentName \<longleftrightarrow> agentName \<in> set IGNORED_BY_THRESHOLD_ENGINE"

definition hasInteractionBonus :: "RiskJustification option \<Rightarrow> bool" where
  "hasInteractionBonus justification =
     (case justification of
        None \<Rightarrow> False
      | Some j \<Rightarrow> ''interaction_bonus_applied'' \<in> set (rj_rulesFired j))"

subsection \<open>lib/pipelineStages.ts\<close>

datatype PipelineStage =
    Scheduler
  | GasRiskAgent
  | EquipmentStatusAgent
  | WorkerExposureAgent
  | PermitIntelligenceAgent
  | Fusion
  | Tiering
  | Unattributed

definition PIPELINE_STAGE_ORDER :: "PipelineStage list" where
  "PIPELINE_STAGE_ORDER =
     [Scheduler, GasRiskAgent, EquipmentStatusAgent, WorkerExposureAgent,
      PermitIntelligenceAgent, Fusion, Tiering, Unattributed]"

definition RULE_STAGE :: "(string \<times> PipelineStage) list" where
  "RULE_STAGE =
    [(''agent_unavailable_using_last_known'', Scheduler),
     (''missing_data_fail_safe'', GasRiskAgent),
     (''stale_data_fail_safe'', GasRiskAgent),
     (''saturating_threshold_function'', GasRiskAgent),
     (''insufficient_history'', GasRiskAgent),
     (''missing_equipment_context'', EquipmentStatusAgent),
     (''confirmed_empty_inventory'', EquipmentStatusAgent),
     (''no_degradation'', EquipmentStatusAgent),
     (''common_cause_grouped_degradation_count'', EquipmentStatusAgent),
     (''missing_location_fail_safe'', WorkerExposureAgent),
     (''exposure_weighted_headcount'', WorkerExposureAgent),
     (''unauthorized_presence'', WorkerExposureAgent),
     (''fail_open_never'', PermitIntelligenceAgent),
     (''no_open_permits'', PermitIntelligenceAgent),
     (''permit_status_escalated'', PermitIntelligenceAgent),
     (''permits_within_policy'', PermitIntelligenceAgent),
     (''weighted_sum_fusion'', Fusion),
     (''interaction_bonus_applied'', Fusion),
     (''tier_stable'', Tiering),
     (''tier_escalated'', Tiering),
     (''tier_de_escalated'', Tiering)]"

record StageRules =
  sr_stage :: PipelineStage
  sr_rules :: "string list"

definition rule_stage :: "string \<Rightarrow> PipelineStage" where
  "rule_stage rule = (case map_of RULE_STAGE rule of Some s \<Rightarrow> s | None \<Rightarrow> Unattributed)"

definition groupRulesByStage :: "string list \<Rightarrow> StageRules list" where
  "groupRulesByStage rulesFired =
     (let buckets = foldl (bucket_push rule_stage) [] rulesFired
      in map (\<lambda>stage. \<lparr>sr_stage = stage, sr_rules = the (map_of buckets stage)\<rparr>)
             (filter (\<lambda>stage. map_of buckets stage \<noteq> None) PIPELINE_STAGE_ORDER))"

definition AGENT_NAME_TO_STAGE :: "(string \<times> PipelineStage) list" where
  "AGENT_NAME_TO_STAGE =
    [(''gas_risk'', GasRiskAgent),
     (''equipment_status'', EquipmentStatusAgent),
     (''worker_exposure'', WorkerExposureAgent),
     (''permit_intelligence'', PermitIntelligenceAgent)]"

definition agentStage :: "string \<Rightarrow> PipelineStage" where
  "agentStage agentName = (case map_of AGENT_NAME_TO_STAGE agentName of Some s \<Rightarrow> s | None \<Rightarrow> Unattributed)"

subsection \<open>lib/agentContributionReasons.ts\<close>

definition RULE_SENTENCES :: "(string \<times> string) list" where
  "RULE_SENTENCES =
    [(''agent_unavailable_using_last_known'', ''An agent was unavailable this tick; its last known output was reused.''),
     (''missing_data_fail_safe'', ''Sensor reading was missing; the agent fell back to a fail-safe elevated risk floor.''),
     (''stale_data_fail_safe'', ''Sensor reading was stale; risk was decayed toward a fail-safe floor rather than zero.''),
     (''saturating_threshold_function'', ''Gas concentration relative to its alarm threshold drove this risk score.''),
     (''insufficient_history'', ''Not enough historical readings were available to fit a trend, so a conservative estimate was used.''),
     (''missing_equipment_context'', ''No equipment inventory was available for this zone; a low-confidence fallback was used.''),
     (''confirmed_empty_inventory'', ''Equipment inventory was confirmed empty for this zone.''),
     (''no_degradation'', ''No equipment type in this zone showed isolation, degradation, or LOTO flags.''),
     (''common_cause_grouped_degradation_count'', ''Multiple equipment items of the same type showed degradation, isolation, or LOTO flags.''),
     (''missing_location_fail_safe'', ''Worker location data was unavailable; a fail-safe assumed occupancy was used.''),
     (''exposure_weighted_headcount'', ''Worker headcount was weighted by the zone's current risk tier.''),
     (''unauthorized_presence'', ''Workers were present with an elevated or higher gas risk and no active permit authorizing entry.''),
     (''fail_open_never'', ''No permit context was available; this agent never fails open, so an escalated risk was assumed.''),
     (''no_open_permits'', ''No open permits exist for this zone.''),
     (''permit_status_escalated'', ''A permit's status escalated - risk exceeded its baseline, or a SIMOPS conflict was detected.''),
     (''permits_within_policy'', ''All open permits remain within policy.''),
     (''weighted_sum_fusion'', ''Agent risks were combined via the fusion formula's weighted sum.''),
     (''interaction_bonus_applied'', ''An interaction bonus was applied because multiple agents were simultaneously elevated.''),
     (''tier_stable'', ''The risk tier held steady from the previous tick.''),
     (''tier_escalated'', ''The risk tier escalated from the previous tick.''),
     (''tier_de_escalated'', ''The risk tier de-escalated from the previous tick.'')]"

definition CONFIDENCE_CAVEAT_RULES :: "string list" where
  "CONFIDENCE_CAVEAT_RULES =
     [''missing_data_fail_safe'', ''stale_data_fail_safe'', ''insufficient_history'',
      ''missing_equipment_context'', ''missing_location_fail_safe'', ''fail_open_never'']"

definition rule_sentence :: "string \<Rightarrow> string" where
  "rule_sentence rule =
     (case map_of RULE_SENTENCES rule of Some s \<Rightarrow> s | None \<Rightarrow> ''Rule '' @ quoted rule @ '' fired.'')"

definition buildAgentContributionReason ::
  "string \<Rightarrow> AgentContribution \<Rightarrow> RiskJustification \<Rightarrow> string" where
  "buildAgentContributionReason agentName contribution justification =
     (let stage = agentStage agentName;
          ownRules = (case List.find (\<lambda>s. sr_stage s = stage) (groupRulesByStage (rj_rulesFired justification)) of
                        Some s \<Rightarrow> sr_rules s | None \<Rightarrow> []);
          pct = toFixed (nmul (ac_confidence contribution) 100) 0
      in if length ownRules = 0 then
           (if 0 < ac_risk contribution
            then ''Risk score '' @ toFixed (ac_risk contribution) 1 @ '' at '' @ pct
                 @ ''% confidence; no fail-safe or escalation rule fired for this agent this tick.''
            else ''No risk contribution and no rule fired for this agent this tick.'')
         else
           (let sentences = map rule_sentence ownRules;
                hasConfidenceCaveat = (\<exists>rule\<in>set ownRules. rule \<in> set CONFIDENCE_CAVEAT_RULES);
                confidenceNote = (if hasConfidenceCaveat
                                  then '' (confidence reduced to '' @ pct @ ''% accordingly)'' else [])
            in js_join '' '' sentences @ confidenceNote))"

definition formatAgentContributionWithReason ::
  "string \<Rightarrow> AgentContribution \<Rightarrow> RiskJustification \<Rightarrow> string" where
  "formatAgentContributionWithReason agentName contribution justification =
     agentDisplayName agentName @ '' '' @ toFixed (ac_risk contribution) 0 @ ''% - Reason: ''
     @ buildAgentContributionReason agentName contribution justification"

subsection \<open>Facts about the parser\<close>

text \<open>The JSON the backend persists for a justification (its frozen contract).\<close>

definition contribution_json :: "AgentContribution \<Rightarrow> json" where
  "contribution_json c = JObj [(''risk'', JNum (ac_risk c)), (''confidence'', JNum (ac_confidence c))]"

definition justification_json :: "RiskJustification \<Rightarrow> json_object" where
  "justification_json j =
     [(''schema_version'', JNum (rj_schemaVersion j)),
      (''rules_fired'', JArr (map JStr (rj_rulesFired j))),
      (''agent_contributions'', JObj (map (\<lambda>(k, c). (k, contribution_json c)) (rj_agentContributions j))),
      (''interaction_bonus_applied'', JNum (rj_interactionBonusApplied j)),
      (''tier_before'', JStr (rj_tierBefore j)),
      (''tier_after'', JStr (rj_tierAfter j))]"

lemma isAgentContribution_contribution_json [simp]: "isAgentContribution (contribution_json c) = Some c"
  by (simp add: isAgentContribution_def contribution_json_def json_get_def)

lemma parse_contributions_acc:
  "distinct (map fst kvs) \<Longrightarrow> fst ` set acc \<inter> fst ` set kvs = {} \<Longrightarrow>
   parse_contributions acc (map (\<lambda>(k, c). (k, contribution_json c)) kvs) = Some (acc @ kvs)"
proof (induction kvs arbitrary: acc)
  case Nil
  show ?case by simp
next
  case (Cons kv kvs)
  obtain k c where kv: "kv = (k, c)" by (cases kv)
  have fresh: "amap_set k c acc = acc @ [(k, c)]"
    using Cons.prems(2) unfolding kv by (induction acc) auto
  show ?case using Cons.prems Cons.IH[of "acc @ [(k, c)]"] by (auto simp: kv fresh)
qed

lemma string_items_map [simp]: "string_items (map JStr ss) = ss"
  by (induction ss) (simp_all add: string_items_def map_filter_simps)

lemma parse_justification_json:
  assumes "distinct (map fst (rj_agentContributions j))"
  shows "parseJustification (justification_json j) = Some j"
proof -
  have "parse_contributions [] (map (\<lambda>(k, c). (k, contribution_json c)) (rj_agentContributions j))
          = Some (rj_agentContributions j)"
    using parse_contributions_acc[OF assms, of "[]"] by simp
  then show ?thesis
    by (simp add: parseJustification_def justification_json_def json_get_def is_json_object_def
        Object_entries_def)
qed

lemma parse_contributions_None_iff:
  "parse_contributions acc kvs = None \<longleftrightarrow> None \<in> isAgentContribution ` snd ` set kvs"
  by (induction acc kvs rule: parse_contributions.induct) (auto split: option.split)

lemma parse_contributions_distinct:
  "distinct (map fst acc) \<Longrightarrow> parse_contributions acc kvs = Some cs \<Longrightarrow> distinct (map fst cs)"
  by (induction acc kvs rule: parse_contributions.induct)
    (auto simp: distinct_amap_set split: option.splits)

lemma parse_contributions_keys:
  "parse_contributions acc kvs = Some cs \<Longrightarrow> fst ` set cs = fst ` set acc \<union> fst ` set kvs"
  by (induction acc kvs rule: parse_contributions.induct)
    (auto simp: keys_amap_set split: option.splits)

lemma parseJustification_distinct:
  "parseJustification raw = Some j \<Longrightarrow> distinct (map fst (rj_agentContributions j))"
  by (auto simp: parseJustification_def dest: parse_contributions_distinct[of "[]", simplified]
      split: option.splits json.splits if_splits)

subsection \<open>Facts about ranking\<close>

interpretation factors: comparator factor_cmp "\<lambda>f. - rk_risk f" "\<lambda>_. True"
  by unfold_locales (simp add: factor_cmp_def)

lemma rankContributingFactors_sorted:
  "sorted_wrt (\<lambda>a b. rk_risk b \<le> rk_risk a) (rankContributingFactors j)"
proof (cases j)
  case None
  then show ?thesis by (simp add: rankContributingFactors_def)
next
  case (Some r)
  have "sorted (map (\<lambda>f. - rk_risk f) (rankContributingFactors j))"
    by (simp add: rankContributingFactors_def Some factors.js_sort_sorted)
  then show ?thesis by (simp add: sorted_map)
qed

lemma rankContributingFactors_mset:
  "mset (rankContributingFactors (Some j)) = image_mset ranked_factor (mset (rj_agentContributions j))"
  by (simp add: rankContributingFactors_def)

subsection \<open>Facts about grouping\<close>

text \<open>The grouping against its specification: stage by stage, the rules of that stage in order.\<close>

lemma groupRulesByStage_spec:
  "groupRulesByStage rules =
     map (\<lambda>s. \<lparr>sr_stage = s, sr_rules = filter (\<lambda>r. rule_stage r = s) rules\<rparr>)
       (filter (\<lambda>s. \<exists>r\<in>set rules. rule_stage r = s) PIPELINE_STAGE_ORDER)"
  unfolding groupRulesByStage_def Let_def bucket_lookup
  by (auto intro!: map_cong filter_cong split: if_splits)

lemma in_stage_order [simp]: "s \<in> set PIPELINE_STAGE_ORDER"
  by (cases s) (simp_all add: PIPELINE_STAGE_ORDER_def)

lemma distinct_stage_order [simp]: "distinct PIPELINE_STAGE_ORDER"
  by (simp add: PIPELINE_STAGE_ORDER_def)

lemma own_rules_of_stage:
  "(case List.find (\<lambda>s. sr_stage s = st) (groupRulesByStage rules) of Some s \<Rightarrow> sr_rules s | None \<Rightarrow> [])
     = filter (\<lambda>r. rule_stage r = st) rules"
proof (cases "List.find (\<lambda>s. sr_stage s = st) (groupRulesByStage rules)")
  case None
  then have "\<forall>g\<in>set (groupRulesByStage rules). sr_stage g \<noteq> st" by (simp add: find_eq_None_iff)
  then have "\<not> (\<exists>r\<in>set rules. rule_stage r = st)" by (auto simp: groupRulesByStage_spec)
  then show ?thesis using None by (auto simp: filter_empty_conv)
next
  case (Some g)
  then have "g \<in> set (groupRulesByStage rules)" "sr_stage g = st" by (auto dest: find_eq_Some_D)
  then show ?thesis using Some by (auto simp: groupRulesByStage_spec)
qed

subsection \<open>Properties\<close>

text \<open>
  (C1) Round trip: a justification written in the backend's JSON contract is read back unchanged
  by \<open>parseJustification\<close>, for every list of rules, every set of agents and all numbers.
\<close>

theorem parseJustification_roundtrip:
  assumes "distinct (map fst (rj_agentContributions j))"
  shows "parseJustification (justification_json j) = Some j"
  using assms by (rule parse_justification_json)

theorem parseJustification_roundtrip_witness:
  "parseJustification (justification_json
     \<lparr>rj_schemaVersion = 1, rj_rulesFired = [''tier_stable''],
      rj_agentContributions = [(''gas_risk'', \<lparr>ac_risk = 40, ac_confidence = 1\<rparr>)],
      rj_interactionBonusApplied = 1, rj_tierBefore = ''watch'', rj_tierAfter = ''watch''\<rparr>)
   = Some \<lparr>rj_schemaVersion = 1, rj_rulesFired = [''tier_stable''],
      rj_agentContributions = [(''gas_risk'', \<lparr>ac_risk = 40, ac_confidence = 1\<rparr>)],
      rj_interactionBonusApplied = 1, rj_tierBefore = ''watch'', rj_tierAfter = ''watch''\<rparr>"
  by (rule parseJustification_roundtrip) simp

text \<open>
  The shape \<open>parseJustification\<close> accepts, stated field by field.
\<close>

definition well_shaped :: "json_object \<Rightarrow> bool" where
  "well_shaped raw \<longleftrightarrow>
     (\<exists>n. json_get raw ''schema_version'' = Some (JNum n)) \<and>
     (\<exists>vs. json_get raw ''rules_fired'' = Some (JArr vs)) \<and>
     (\<exists>v. json_get raw ''agent_contributions'' = Some v \<and> is_json_object v \<and>
          None \<notin> isAgentContribution ` snd ` set (Object_entries v)) \<and>
     (\<exists>n. json_get raw ''interaction_bonus_applied'' = Some (JNum n)) \<and>
     (\<exists>s. json_get raw ''tier_before'' = Some (JStr s)) \<and>
     (\<exists>s. json_get raw ''tier_after'' = Some (JStr s))"

lemma parseJustification_guard:
  assumes "json_get raw ''schema_version'' = Some (JNum sv)"
    and "json_get raw ''rules_fired'' = Some (JArr rf)"
    and "json_get raw ''agent_contributions'' = Some v"
    and "json_get raw ''interaction_bonus_applied'' = Some (JNum ib)"
    and "json_get raw ''tier_before'' = Some (JStr tb)"
    and "json_get raw ''tier_after'' = Some (JStr ta)"
  shows "parseJustification raw \<noteq> None \<longleftrightarrow>
    is_json_object v \<and> None \<notin> isAgentContribution ` snd ` set (Object_entries v)"
  using assms parse_contributions_None_iff[of "[]" "Object_entries v"]
  by (auto simp: parseJustification_def split: option.split)

text \<open>
  The parser rejects exactly the malformed rows: it returns a value if and only if every
  field has its type and every single agent contribution carries numeric risk and confidence.
\<close>

theorem parseJustification_accepts_iff: "parseJustification raw \<noteq> None \<longleftrightarrow> well_shaped raw"
proof
  assume "parseJustification raw \<noteq> None"
  then obtain sv rf v ib tb ta where f:
    "json_get raw ''schema_version'' = Some (JNum sv)" "json_get raw ''rules_fired'' = Some (JArr rf)"
    "json_get raw ''agent_contributions'' = Some v" "json_get raw ''interaction_bonus_applied'' = Some (JNum ib)"
    "json_get raw ''tier_before'' = Some (JStr tb)" "json_get raw ''tier_after'' = Some (JStr ta)"
    by (auto simp: parseJustification_def split: option.splits json.splits if_splits)
  from parseJustification_guard[OF f] \<open>parseJustification raw \<noteq> None\<close> f
  show "well_shaped raw" by (simp add: well_shaped_def)
next
  assume "well_shaped raw"
  then obtain sv rf v ib tb ta where
    "json_get raw ''schema_version'' = Some (JNum sv)" "json_get raw ''rules_fired'' = Some (JArr rf)"
    "json_get raw ''agent_contributions'' = Some v" "json_get raw ''interaction_bonus_applied'' = Some (JNum ib)"
    "json_get raw ''tier_before'' = Some (JStr tb)" "json_get raw ''tier_after'' = Some (JStr ta)"
    and v: "is_json_object v" "None \<notin> isAgentContribution ` snd ` set (Object_entries v)"
    unfolding well_shaped_def by (elim conjE exE)
  from parseJustification_guard[OF this(1-6)] v show "parseJustification raw \<noteq> None" by simp
qed

text \<open>
  Ranked factors: the result lists every agent's contribution exactly once, by risk from the
  highest down (with the subtraction of the comparator rounded as the machine rounds it), and
  agents of equal risk keep the order of the persisted object.
\<close>

theorem rankContributingFactors_correct:
  "sorted_wrt (\<lambda>a b. rk_risk b \<le> rk_risk a) (rankContributingFactors (Some j)) \<and>
   mset (rankContributingFactors (Some j)) = image_mset ranked_factor (mset (rj_agentContributions j)) \<and>
   filter (\<lambda>f. rk_risk f = r) (rankContributingFactors (Some j))
     = map ranked_factor (filter (\<lambda>e. ac_risk (snd e) = r) (rj_agentContributions j))"
proof (intro conjI)
  show "sorted_wrt (\<lambda>a b. rk_risk b \<le> rk_risk a) (rankContributingFactors (Some j))"
    by (rule rankContributingFactors_sorted)
  show "mset (rankContributingFactors (Some j)) = image_mset ranked_factor (mset (rj_agentContributions j))"
    by (rule rankContributingFactors_mset)
  have "filter (\<lambda>f. - rk_risk f = - r) (js_sort factor_cmp (map ranked_factor (rj_agentContributions j)))
      = filter (\<lambda>f. - rk_risk f = - r) (map ranked_factor (rj_agentContributions j))"
    by (rule factors.js_sort_stable) simp
  then show "filter (\<lambda>f. rk_risk f = r) (rankContributingFactors (Some j))
     = map ranked_factor (filter (\<lambda>e. ac_risk (snd e) = r) (rj_agentContributions j))"
    by (simp add: rankContributingFactors_def filter_map o_def ranked_factor_def)
qed

text \<open>
  Grouping by stage hides nothing and invents nothing: the groups together are a permutation
  of the fired rules, they appear in pipeline order without repetition, no group is empty, and
  each holds exactly the rules of its stage in the order they fired, unknown rules under
  \<open>Unattributed\<close>.
\<close>

theorem groupRulesByStage_partition:
  "mset (concat (map sr_rules (groupRulesByStage rules))) = mset rules \<and>
   map sr_stage (groupRulesByStage rules) =
     filter (\<lambda>s. s \<in> rule_stage ` set rules) PIPELINE_STAGE_ORDER \<and>
   [] \<notin> sr_rules ` set (groupRulesByStage rules) \<and>
   map sr_rules (groupRulesByStage rules) =
     map (\<lambda>g. filter (\<lambda>r. rule_stage r = sr_stage g) rules) (groupRulesByStage rules)"
proof (intro conjI)
  let ?own = "\<lambda>s. filter (\<lambda>r. rule_stage r = s) rules"
  have "concat (map ?own (filter (\<lambda>s. \<exists>r\<in>set rules. rule_stage r = s) ss)) = concat (map ?own ss)" for ss
    by (induction ss) (auto simp: filter_empty_conv)
  then have "concat (map sr_rules (groupRulesByStage rules)) = concat (map ?own PIPELINE_STAGE_ORDER)"
    by (simp add: groupRulesByStage_spec o_def)
  then show "mset (concat (map sr_rules (groupRulesByStage rules))) = mset rules"
    by (simp add: mset_concat_groups del: mset_concat)
  show "map sr_stage (groupRulesByStage rules) =
      filter (\<lambda>s. s \<in> rule_stage ` set rules) PIPELINE_STAGE_ORDER"
    by (auto simp: groupRulesByStage_spec o_def intro!: filter_cong)
  show "[] \<notin> sr_rules ` set (groupRulesByStage rules)"
    by (auto simp: groupRulesByStage_spec image_iff eq_commute[of "[]"] filter_empty_conv)
  show "map sr_rules (groupRulesByStage rules) =
      map (\<lambda>g. filter (\<lambda>r. rule_stage r = sr_stage g) rules) (groupRulesByStage rules)"
    by (simp add: groupRulesByStage_spec)
qed

end
