(* ===== verification/Kpis.thy ===== *)
theory Kpis
  imports Justification Js_Date
begin

section \<open>Executive figures and the multi-plant rollup\<close>

text \<open>
  \<open>lib/executiveKpis.ts\<close> and \<open>lib/multiPlant.ts\<close>: the figures on the executive pages and their
  aggregation over plants. A \<open>Date\<close> argument is its time value (\<open>None\<close> for an invalid date, all
  of whose fields are NaN and equal to nothing). Scores are added and divided as JavaScript
  numbers; array lengths and counts are naturals. The lemmas show that the calendar test compares
  local days, that the averages and percentages stay within 0 and 100 in spite of rounding, and
  that the corporate rollup over plant summaries equals the figures computed directly over all
  assessments of all plants.
\<close>

subsection \<open>lib/executiveKpis.ts\<close>

definition isEscalation :: "RiskAssessment \<Rightarrow> bool" where
  "isEscalation assessment =
     (case parseJustification (ra_justification assessment) of
        None \<Rightarrow> False
      | Some justification \<Rightarrow>
          let beforeIndex = indexOf TIER_ORDER (rj_tierBefore justification);
              afterIndex = indexOf TIER_ORDER (rj_tierAfter justification)
          in beforeIndex \<noteq> -1 \<and> afterIndex \<noteq> -1 \<and> afterIndex > beforeIndex)"

definition isSameCalendarDay :: "host_zone \<Rightarrow> string \<Rightarrow> int option \<Rightarrow> bool" where
  "isSameCalendarDay hz isoTimestamp referenceDate =
     (case (Date_getTime hz isoTimestamp, referenceDate) of
        (Some d, Some r) \<Rightarrow>
          getFullYear hz d = getFullYear hz r \<and> getMonth hz d = getMonth hz r \<and> getDate hz d = getDate hz r
      | _ \<Rightarrow> False)"

definition countTodaysIncidents :: "host_zone \<Rightarrow> RiskAssessment list \<Rightarrow> int option \<Rightarrow> nat" where
  "countTodaysIncidents hz assessments today =
     length (filter (\<lambda>a. isSameCalendarDay hz (ra_timestamp a) today \<and> isEscalation a) assessments)"

definition averageCompoundScore :: "RiskAssessment list \<Rightarrow> number" where
  "averageCompoundScore assessments =
     (if assessments = [] then 0
      else ndiv (foldl (\<lambda>sum a. nadd sum (ra_compound_risk_score a)) 0 assessments)
             (of_nat (length assessments)))"

datatype PlantReadiness = ready | degraded | not_ready

definition plantReadiness :: "RiskAssessment list \<Rightarrow> PlantReadiness" where
  "plantReadiness assessments =
     (if list_ex (\<lambda>a. ra_tier a = ''critical'') assessments then not_ready
      else if list_ex (\<lambda>a. ra_tier a = ''watch'' \<or> ra_tier a = ''elevated'') assessments then degraded
      else ready)"

definition percentZonesNormal :: "RiskAssessment list \<Rightarrow> number" where
  "percentZonesNormal assessments =
     (if assessments = [] then 100
      else nmul (ndiv (of_nat (length (filter (\<lambda>a. ra_tier a = ''normal'') assessments)))
                   (of_nat (length assessments))) 100)"

record ZoneAssessment =
  za_zoneId :: string
  za_assessment :: RiskAssessment

definition higher_risk :: "ZoneAssessment \<Rightarrow> ZoneAssessment \<Rightarrow> ZoneAssessment" where
  "higher_risk mx current =
     (if ra_compound_risk_score (za_assessment current) > ra_compound_risk_score (za_assessment mx)
      then current else mx)"

definition highestRiskZone :: "ZoneAssessment list \<Rightarrow> ZoneAssessment option" where
  "highestRiskZone entries = reduce1 higher_risk entries"

subsection \<open>lib/multiPlant.ts\<close>

record PlantSummary =
  pl_scenarioKey :: string
  pl_title :: string
  pl_description :: string
  pl_zoneCount :: nat
  pl_tickCount :: number
  pl_durationMinutes :: number
  pl_worstTier :: "string option"
  pl_averageCompoundScore :: number
  pl_incidentCount :: nat
  pl_readiness :: PlantReadiness

definition allAssessments :: "ReplayData \<Rightarrow> RiskAssessment list" where
  "allAssessments replay = concat (map zt_assessments (rd_zone_timelines replay))"

definition buildPlantSummary :: "ScenarioSummary \<Rightarrow> ReplayData \<Rightarrow> PlantSummary" where
  "buildPlantSummary scenario replay =
     (let assessments = allAssessments replay in
      \<lparr>pl_scenarioKey = ss_key scenario,
       pl_title = ss_title scenario,
       pl_description = ss_description scenario,
       pl_zoneCount = length (rd_zone_ids replay),
       pl_tickCount = rd_tick_count replay,
       pl_durationMinutes = rd_duration_minutes replay,
       pl_worstTier = worstTier (map ra_tier assessments),
       pl_averageCompoundScore = averageCompoundScore assessments,
       pl_incidentCount = length (filter isEscalation assessments),
       pl_readiness = plantReadiness assessments\<rparr>)"

record CorporateOverview =
  co_plantCount :: nat
  co_totalZones :: nat
  co_worstTier :: "string option"
  co_averageCompoundScore :: number
  co_totalIncidents :: nat
  co_readiness :: PlantReadiness

definition READINESS_ORDER :: "PlantReadiness list" where
  "READINESS_ORDER = [ready, degraded, not_ready]"

definition worse_readiness :: "PlantReadiness \<Rightarrow> PlantReadiness \<Rightarrow> PlantReadiness" where
  "worse_readiness worst r =
     (if indexOf READINESS_ORDER r > indexOf READINESS_ORDER worst then r else worst)"

definition buildCorporateOverview :: "PlantSummary list \<Rightarrow> CorporateOverview" where
  "buildCorporateOverview summaries =
     (if summaries = [] then
        \<lparr>co_plantCount = 0, co_totalZones = 0, co_worstTier = None, co_averageCompoundScore = 0,
         co_totalIncidents = 0, co_readiness = ready\<rparr>
      else
        let readiness = foldl (\<lambda>worst s. worse_readiness worst (pl_readiness s)) ready summaries;
            tiers = List.map_filter pl_worstTier summaries
        in \<lparr>co_plantCount = length summaries,
            co_totalZones = foldl (\<lambda>sum s. sum + pl_zoneCount s) 0 summaries,
            co_worstTier = worstTier tiers,
            co_averageCompoundScore =
              ndiv (foldl (\<lambda>sum s. nadd sum (pl_averageCompoundScore s)) 0 summaries)
                (of_nat (length summaries)),
            co_totalIncidents = foldl (\<lambda>sum s. sum + pl_incidentCount s) 0 summaries,
            co_readiness = readiness\<rparr>)"

text \<open>Sample assessments, for instances of the properties.\<close>

definition sample_assessment :: "string \<Rightarrow> number \<Rightarrow> string \<Rightarrow> RiskAssessment" where
  "sample_assessment ts score tier =
     \<lparr>ra_assessment_id = ts, ra_zone_id = ''zone-a'', ra_timestamp = ts, ra_compound_risk_score = score,
      ra_confidence = 1, ra_tier = tier, ra_justification = []\<rparr>"

subsection \<open>Facts\<close>

interpretation risk_max: keep_first_max "\<lambda>z. ra_compound_risk_score (za_assessment z)" higher_risk
  by unfold_locales (simp add: higher_risk_def)

text \<open>Readiness is ordered by severity; the rollup is the maximum.\<close>

instantiation PlantReadiness :: linorder
begin

definition less_eq_PlantReadiness :: "PlantReadiness \<Rightarrow> PlantReadiness \<Rightarrow> bool" where
  "less_eq_PlantReadiness a b \<longleftrightarrow> indexOf READINESS_ORDER a \<le> indexOf READINESS_ORDER b"

definition less_PlantReadiness :: "PlantReadiness \<Rightarrow> PlantReadiness \<Rightarrow> bool" where
  "less_PlantReadiness a b \<longleftrightarrow> indexOf READINESS_ORDER a < indexOf READINESS_ORDER b"

instance
proof
  fix x y z :: PlantReadiness
  show "x \<le> y \<or> y \<le> x" "x \<le> x" "x < y \<longleftrightarrow> x \<le> y \<and> \<not> y \<le> x"
    by (auto simp: less_eq_PlantReadiness_def less_PlantReadiness_def)
  show "x \<le> y \<Longrightarrow> y \<le> z \<Longrightarrow> x \<le> z" by (simp add: less_eq_PlantReadiness_def)
  show "x \<le> y \<Longrightarrow> y \<le> x \<Longrightarrow> x = y"
    by (cases x; cases y; simp add: less_eq_PlantReadiness_def indexOf_def READINESS_ORDER_def)
qed

end

lemma worse_readiness_max: "worse_readiness a b = max a b"
  by (cases a; cases b;
      simp add: worse_readiness_def max_def less_eq_PlantReadiness_def indexOf_def READINESS_ORDER_def)

lemma readiness_order [simp]: "ready \<le> r" "r \<le> not_ready" "ready < degraded" "degraded < not_ready"
  by (cases r; simp add: less_eq_PlantReadiness_def less_PlantReadiness_def indexOf_def READINESS_ORDER_def)+

lemma max_readiness [simp]: "max ready r = r" "max r ready = r" "max not_ready r = not_ready" "max r not_ready = not_ready"
  by (simp_all add: max_def antisym)

lemma plantReadiness_append: "plantReadiness (xs @ ys) = max (plantReadiness xs) (plantReadiness ys)"
  by (simp add: plantReadiness_def)

lemma foldl_worse_readiness:
  "foldl (\<lambda>worst s. worse_readiness worst (f s)) r ss = foldl (\<lambda>worst s. max worst (f s)) r ss"
  by (simp add: worse_readiness_max)

lemma plantReadiness_concat:
  "max r (plantReadiness (concat ass)) = foldl (\<lambda>worst as. max worst (plantReadiness as)) r ass"
proof (induction ass arbitrary: r)
  case Nil
  show ?case by (simp add: plantReadiness_def)
next
  case (Cons as ass)
  then show ?case by (simp add: plantReadiness_append max.assoc flip: Cons.IH)
qed

lemma worse_tier_assoc: "worse_tier (worse_tier a b) c = worse_tier a (worse_tier b c)"
  by (auto simp: worse_tier_def)

lemma foldl_worse_tier: "foldl worse_tier (worse_tier a b) ts = worse_tier a (foldl worse_tier b ts)"
  by (induction ts arbitrary: b) (simp_all add: worse_tier_assoc)

lemma worstTier_append:
  "worstTier (xs @ ys) =
     (case (worstTier xs, worstTier ys) of
        (None, w) \<Rightarrow> w | (w, None) \<Rightarrow> w | (Some a, Some b) \<Rightarrow> Some (worse_tier a b))"
  by (cases xs; cases ys; simp add: worstTier_def foldl_worse_tier)

lemma worstTier_concat: "worstTier (concat tss) = worstTier (List.map_filter worstTier tss)"
proof (induction tss)
  case Nil
  show ?case by (simp add: map_filter_def)
next
  case (Cons ts tss)
  have single: "worstTier [w] = Some w" for w by (simp add: worstTier_def)
  show ?case
  proof (cases "worstTier ts")
    case None
    then show ?thesis by (simp add: worstTier_append Cons map_filter_simps)
  next
    case (Some w)
    then have "worstTier (List.map_filter worstTier (ts # tss)) = worstTier ([w] @ List.map_filter worstTier tss)"
      by (simp add: map_filter_simps)
    also have "\<dots> = worstTier (concat (ts # tss))"
      unfolding worstTier_append single by (simp add: worstTier_append Cons Some)
    finally show ?thesis by simp
  qed
qed

lemma foldl_sum: "foldl (\<lambda>sum s. sum + f s) (n::nat) ss = n + sum_list (map f ss)"
  by (induction ss arbitrary: n) simp_all

text \<open>Rounded sums of bounded terms stay below the exact bound, which is an integer.\<close>

lemma rounded_sum_bounds:
  assumes "list_all (\<lambda>a. 0 \<le> f a \<and> f a \<le> 100) as" and "100 * (int k + int (length as)) < 2 ^ 53"
    and "0 \<le> s" and "s \<le> 100 * of_nat k"
  shows "0 \<le> foldl (\<lambda>sum a. nadd sum (f a)) s as \<and>
         foldl (\<lambda>sum a. nadd sum (f a)) s as \<le> 100 * of_nat (k + length as)"
  using assms
proof (induction as arbitrary: s k)
  case Nil
  then show ?case by simp
next
  case (Cons a as)
  have "s + f a \<le> of_int (100 * (int k + 1))" using Cons.prems by (simp add: algebra_simps)
  moreover have "\<bar>100 * (int k + 1)\<bar> < 2 ^ 53" using Cons.prems(2) by simp
  ultimately have "nadd s (f a) \<le> of_int (100 * (int k + 1))"
    unfolding nadd_def by (rule ieee.rnd_le_int)
  then have "nadd s (f a) \<le> 100 * of_nat (Suc k)" by (simp add: algebra_simps)
  moreover have "0 \<le> nadd s (f a)" using Cons.prems by (intro nadd_nonneg) auto
  ultimately show ?case using Cons.IH[of "Suc k" "nadd s (f a)"] Cons.prems by (simp add: algebra_simps)
qed

lemma rounded_mean_bounds:
  assumes "list_all (\<lambda>a. 0 \<le> f a \<and> f a \<le> 100) as" and "as \<noteq> []" and "length as < 2 ^ 32"
  defines "m \<equiv> ndiv (foldl (\<lambda>sum a. nadd sum (f a)) 0 as) (of_nat (length as))"
  shows "0 \<le> m \<and> m \<le> 100"
proof -
  let ?s = "foldl (\<lambda>sum a. nadd sum (f a)) 0 as"
  have "int (length as) < 2 ^ 32" using assms(3) by (metis of_nat_less_iff of_nat_numeral of_nat_power)
  then have "100 * (int 0 + int (length as)) < 2 ^ 53" by simp
  from rounded_sum_bounds[OF assms(1) this, of 0] have s: "0 \<le> ?s" "?s \<le> 100 * of_nat (length as)"
    by simp_all
  have pos: "(0::rat) < of_nat (length as)" using assms(2) by simp
  have "?s / of_nat (length as) \<le> of_int 100" using s(2) pos by (simp add: pos_divide_le_eq)
  then have "m \<le> of_int 100" unfolding m_def ndiv_def by (rule ieee.rnd_le_int) simp
  moreover have "0 \<le> m" using s(1) pos by (simp add: m_def ndiv_def)
  ultimately show ?thesis by simp
qed

lemma length_filter_all_iff: "length (filter P xs) = length xs \<longleftrightarrow> list_all P xs"
proof
  assume l: "length (filter P xs) = length xs"
  show "list_all P xs"
    unfolding list_all_iff
  proof (rule ccontr)
    assume "\<not> (\<forall>x\<in>set xs. P x)"
    then obtain x where "x \<in> set xs" "\<not> P x" by auto
    from length_filter_less[of x xs P] this l show False by simp
  qed
qed (simp add: list_all_iff)

text \<open>The largest share below 1 that an array can have still rounds to less than 100 percent.\<close>

lemma largest_partial_share: "nmul (fl (1 - 1 / 2 ^ 32)) 100 < 100"
proof -
  have a: "(1 - 1 / 2 ^ 32 :: rat) = of_int (2 ^ 32 - 1) * 2 powi (-32)"
    and b: "of_int (2 ^ 32 - 1) * 2 powi (-32) * (100::rat) = of_int (100 * (2 ^ 32 - 1)) * 2 powi (-32)"
    by (simp_all add: power_int_minus)
  have c: "fl (1 - 1 / 2 ^ 32) = 1 - 1 / 2 ^ 32" unfolding a by (rule fl_dyadic) simp
  have d: "fl ((1 - 1 / 2 ^ 32) * 100) = (1 - 1 / 2 ^ 32) * 100"
    unfolding a b by (rule fl_dyadic) simp
  show ?thesis unfolding nmul_def c d by simp
qed

subsection \<open>Properties\<close>

text \<open>
  Two instants are on the same calendar day exactly when they fall into the same local day of
  the host's time zone; an unreadable timestamp is on no day.
\<close>

theorem isSameCalendarDay_iff:
  "isSameCalendarDay hz ts (Some r) \<longleftrightarrow>
     (case Date_getTime hz ts of None \<Rightarrow> False | Some d \<Rightarrow> local_day hz d = local_day hz r)"
  by (auto simp: isSameCalendarDay_def getFullYear_def getMonth_def getDate_def
      split: option.splits dest: civil_fields_inj)

text \<open>
  For scores between 0 and 100 and any array JavaScript can hold, the average compound score
  lies between 0 and 100 although every addition and the division are rounded.
\<close>

theorem averageCompoundScore_bounds:
  assumes "list_all (\<lambda>a. 0 \<le> ra_compound_risk_score a \<and> ra_compound_risk_score a \<le> 100) as"
    and "length as < 2 ^ 32"
  shows "0 \<le> averageCompoundScore as \<and> averageCompoundScore as \<le> 100"
  using rounded_mean_bounds[OF assms(1) _ assms(2)] by (cases "as = []") (simp_all add: averageCompoundScore_def)

theorem averageCompoundScore_bounds_witness:
  "0 \<le> averageCompoundScore [sample_assessment ''a'' 20 ''normal'', sample_assessment ''b'' 85 ''critical''] \<and>
   averageCompoundScore [sample_assessment ''a'' 20 ''normal'', sample_assessment ''b'' 85 ''critical''] \<le> 100"
  by (rule averageCompoundScore_bounds) (simp_all add: sample_assessment_def)

text \<open>
  The share of normal zones is a percentage: between 0 and 100, 0 exactly when no zone of a
  non-empty plant is normal, and 100 exactly when every reporting zone is normal, so the display
  never rounds a plant with an abnormal zone up to 100.
\<close>

theorem percentZonesNormal_correct:
  assumes "length as < 2 ^ 32"
  shows "0 \<le> percentZonesNormal as \<and> percentZonesNormal as \<le> 100 \<and>
    (percentZonesNormal as = 0 \<longleftrightarrow> as \<noteq> [] \<and> list_all (\<lambda>a. ra_tier a \<noteq> ''normal'') as) \<and>
    (percentZonesNormal as = 100 \<longleftrightarrow> list_all (\<lambda>a. ra_tier a = ''normal'') as)"
proof (cases "as = []")
  case True
  then show ?thesis by (simp add: percentZonesNormal_def)
next
  case False
  define n k where "n = length as" and "k = length (filter (\<lambda>a. ra_tier a = ''normal'') as)"
  have n: "0 < n" "n < 2 ^ 32" and kn: "k \<le> n" using False assms by (simp_all add: n_def k_def)
  have p: "percentZonesNormal as = nmul (fl (of_nat k / of_nat n)) 100"
    using False by (simp add: percentZonesNormal_def ndiv_def n_def k_def)
  have all: "list_all (\<lambda>a. ra_tier a = ''normal'') as \<longleftrightarrow> k = n"
    unfolding k_def n_def by (simp add: length_filter_all_iff)
  have none: "list_all (\<lambda>a. ra_tier a \<noteq> ''normal'') as \<longleftrightarrow> k = 0"
    by (auto simp: k_def list_all_iff filter_empty_conv)
  have zero: "nmul (fl (of_nat k / of_nat n)) 100 = 0 \<longleftrightarrow> k = 0" using n(1) by (simp add: nmul_def)
  have ge: "0 \<le> nmul (fl (of_nat k / of_nat n)) 100" by (simp add: nmul_def)
  have full: "nmul (fl (of_nat k / of_nat n)) 100 = 100" if "k = n"
    using that n(1) ieee.rnd_int[of 1] ieee.rnd_int[of 100] by (simp add: nmul_def)
  have part: "nmul (fl (of_nat k / of_nat n)) 100 < 100" if "k \<noteq> n"
  proof -
    have "k + 1 \<le> n" using that kn by simp
    then have "(of_nat k + 1 :: rat) \<le> of_nat n" by (metis of_nat_1 of_nat_add of_nat_le_iff)
    then have "(of_nat k :: rat) / of_nat n \<le> 1 - 1 / of_nat n" using n(1) by (simp add: field_simps)
    also have "\<dots> \<le> 1 - 1 / 2 ^ 32"
    proof -
      have "(of_nat n :: rat) \<le> 2 ^ 32" using n(2) by (metis less_imp_le of_nat_le_iff of_nat_numeral of_nat_power)
      then show ?thesis using n(1) by (simp add: frac_le)
    qed
    finally have "fl (of_nat k / of_nat n) \<le> fl (1 - 1 / 2 ^ 32)" by (rule fl_mono)
    then have "nmul (fl (of_nat k / of_nat n)) 100 \<le> nmul (fl (1 - 1 / 2 ^ 32)) 100"
      unfolding nmul_def by (intro fl_mono) simp
    then show ?thesis using largest_partial_share by simp
  qed
  show ?thesis unfolding p all none zero using False ge full part by (cases "k = n") auto
qed

theorem percentZonesNormal_correct_witness:
  "percentZonesNormal [sample_assessment ''a'' 20 ''normal''] = 100"
  using percentZonesNormal_correct[of "[sample_assessment ''a'' 20 ''normal'']"]
  by (simp add: sample_assessment_def)

text \<open>
  (C27) The rollup over plant summaries: worst tier, incident count and readiness of the corporate
  overview equal the same figures computed directly over all assessments of all plants, and the zone
  total is the sum over the replays. The average score is the mean of the plants' own averages, a
  plant counting the same whatever its number of assessments (0 without plants), so it is not in
  general the average over all assessments.
\<close>

theorem buildCorporateOverview_rollup:
  "(let overview = buildCorporateOverview (map (\<lambda>(s, r). buildPlantSummary s r) plants);
        everything = concat (map (\<lambda>(s, r). allAssessments r) plants)
    in co_plantCount overview = length plants \<and>
       co_totalZones overview = sum_list (map (\<lambda>(s, r). length (rd_zone_ids r)) plants) \<and>
       co_worstTier overview = worstTier (map ra_tier everything) \<and>
       co_totalIncidents overview = length (filter isEscalation everything) \<and>
       co_readiness overview = plantReadiness everything \<and>
       co_averageCompoundScore overview =
         (if plants = [] then 0
          else ndiv (foldl nadd 0 (map (\<lambda>(s, r). averageCompoundScore (allAssessments r)) plants)) (of_nat (length plants))))"
proof (cases "plants = []")
  case True
  then show ?thesis by (simp add: buildCorporateOverview_def worstTier_def plantReadiness_def)
next
  case False
  let ?sum = "map (\<lambda>(s, r). buildPlantSummary s r) plants"
  let ?as = "map (\<lambda>(s, r). allAssessments r) plants"
  have tiers: "List.map_filter pl_worstTier ?sum = List.map_filter worstTier (map (map ra_tier) ?as)"
    by (simp add: map_filter_def filter_map o_def case_prod_unfold buildPlantSummary_def Let_def)
  have worst: "worstTier (map ra_tier (concat ?as)) = worstTier (List.map_filter pl_worstTier ?sum)"
    unfolding tiers by (simp add: map_concat flip: worstTier_concat)
  have inc: "sum_list (map pl_incidentCount ?sum) = length (filter isEscalation (concat ?as))"
    by (simp add: filter_concat length_concat o_def case_prod_unfold buildPlantSummary_def Let_def)
  have zones: "sum_list (map pl_zoneCount ?sum) = sum_list (map (\<lambda>(s, r). length (rd_zone_ids r)) plants)"
    by (simp add: o_def case_prod_unfold buildPlantSummary_def Let_def)
  have read: "foldl (\<lambda>worst s. worse_readiness worst (pl_readiness s)) ready ?sum = plantReadiness (concat ?as)"
    using plantReadiness_concat[of ready ?as]
    by (simp add: foldl_worse_readiness foldl_map case_prod_unfold buildPlantSummary_def Let_def)
  have average: "foldl (\<lambda>sum s. nadd sum (pl_averageCompoundScore s)) 0 ?sum =
      foldl nadd 0 (map (\<lambda>(s, r). averageCompoundScore (allAssessments r)) plants)"
    by (simp add: foldl_map case_prod_unfold buildPlantSummary_def Let_def)
  show ?thesis
    using False worst inc zones read by (simp add: buildCorporateOverview_def Let_def foldl_sum average)
qed

end
