(* ===== verification/Timeline.thy ===== *)
theory Timeline
  imports Kpis
begin

section \<open>Timelines\<close>

text \<open>
  The pure functions behind every time axis of the dashboard: \<open>lib/timeline.ts\<close> (the step-function
  lookup), \<open>lib/replayTimeline.ts\<close> (nearest tick, merged axis), \<open>lib/replayComparison.ts\<close>
  (relative progress), \<open>lib/scenarioResolution.ts\<close> (which scenario a tick belongs to),
  \<open>lib/operatorTimeline.ts\<close> (events of a live history) and \<open>lib/decisionJournal.ts\<close>. Loops that
  mutate local variables are folds over a record of these variables; \<open>null\<close> and the infinite
  initial values are \<open>None\<close>. An unreadable timestamp is NaN and loses every comparison.
\<close>

subsection \<open>lib/timeline.ts\<close>

definition assessment_time :: "host_zone \<Rightarrow> RiskAssessment \<Rightarrow> int option" where
  "assessment_time hz a = Date_getTime hz (ra_timestamp a)"

definition at_or_before :: "host_zone \<Rightarrow> rat option \<Rightarrow> RiskAssessment \<Rightarrow> bool" where
  "at_or_before hz atTime item =
     (case (assessment_time hz item, atTime) of (Some t, Some a) \<Rightarrow> of_int t \<le> a | _ \<Rightarrow> False)"

definition keep_latest ::
  "host_zone \<Rightarrow> rat option \<Rightarrow> RiskAssessment option \<Rightarrow> RiskAssessment \<Rightarrow> RiskAssessment option" where
  "keep_latest hz atTime best item =
     (if at_or_before hz atTime item \<and>
         (case best of None \<Rightarrow> True | Some b \<Rightarrow> ms_less (assessment_time hz b) (assessment_time hz item))
      then Some item else best)"

definition assessmentAtOrBefore ::
  "host_zone \<Rightarrow> RiskAssessment list \<Rightarrow> rat option \<Rightarrow> RiskAssessment option" where
  "assessmentAtOrBefore hz history atTime = foldl (keep_latest hz atTime) None history"

subsection \<open>lib/replayTimeline.ts\<close>

definition time_delta :: "host_zone \<Rightarrow> int option \<Rightarrow> string \<Rightarrow> int option" where
  "time_delta hz targetMs ts =
     (case (Date_getTime hz ts, targetMs) of (Some t, Some m) \<Rightarrow> Some \<bar>t - m\<bar> | _ \<Rightarrow> None)"

definition nearer :: "nat \<times> int option \<Rightarrow> nat \<times> int option \<Rightarrow> nat \<times> int option" where
  "nearer best cur =
     (case (cur, best) of
        ((index, Some delta), (bestIndex, bestDelta)) \<Rightarrow>
          if (case bestDelta of None \<Rightarrow> True | Some b \<Rightarrow> delta < b) then (index, Some delta) else best
      | _ \<Rightarrow> best)"

definition findNearestTimestampIndex :: "host_zone \<Rightarrow> string list \<Rightarrow> string \<Rightarrow> nat" where
  "findNearestTimestampIndex hz timestamps target =
     (if timestamps = [] then 0
      else fst (foldl nearer (0, None)
             (enumerate 0 (map (time_delta hz (Date_getTime hz target)) timestamps))))"

definition mergeTimestamps :: "string list list \<Rightarrow> string list" where
  "mergeTimestamps perZoneTimestamps = sort (js_set (concat perZoneTimestamps))"

subsection \<open>lib/replayComparison.ts\<close>

definition timeAtFraction :: "host_zone \<Rightarrow> string \<Rightarrow> string \<Rightarrow> number \<Rightarrow> number option" where
  "timeAtFraction hz startIso endIso fraction =
     (case (Date_getTime hz startIso, Date_getTime hz endIso) of
        (Some start, Some end) \<Rightarrow>
          let clamped = min 1 (max 0 fraction)
          in Some (nadd (of_int start) (nmul clamped (nsub (of_int end) (of_int start))))
      | _ \<Rightarrow> None)"

subsection \<open>lib/scenarioResolution.ts\<close>

definition scenario_covers :: "host_zone \<Rightarrow> string \<Rightarrow> int option \<Rightarrow> ScenarioSummary \<Rightarrow> bool" where
  "scenario_covers hz zoneId tickTime scenario \<longleftrightarrow>
     zoneId \<in> set (ss_zone_ids scenario) \<and>
     ms_le (Date_getTime hz (ss_start_time scenario)) tickTime \<and>
     ms_le tickTime (Date_getTime hz (ss_end_time scenario))"

definition resolveScenarioKey ::
  "host_zone \<Rightarrow> ScenarioSummary list option \<Rightarrow> string option \<Rightarrow> string option \<Rightarrow> string option" where
  "resolveScenarioKey hz scenarios zoneId timestamp =
     (case (scenarios, zoneId, timestamp) of
        (Some ss, Some z, Some t) \<Rightarrow>
          if z = [] \<or> t = [] then None
          else map_option ss_key (List.find (scenario_covers hz z (Date_getTime hz t)) ss)
      | _ \<Rightarrow> None)"

subsection \<open>lib/operatorTimeline.ts\<close>

datatype TimelineKind = tier_change | critical | interaction_bonus | highest_risk

record TimelineEvent =
  te_timestamp :: string
  te_kind :: TimelineKind
  te_label :: string

record timeline_vars =
  tv_events :: "TimelineEvent list"
  tv_previousTier :: "string option"
  tv_previousBonusApplied :: bool
  tv_highestScore :: "number option"
  tv_highestIndex :: int

definition bonus_applied :: "RiskAssessment \<Rightarrow> bool" where
  "bonus_applied a =
     (case parseJustification (ra_justification a) of
        None \<Rightarrow> False | Some j \<Rightarrow> ''interaction_bonus_applied'' \<in> set (rj_rulesFired j))"

definition bonus_text :: "RiskAssessment \<Rightarrow> string" where
  "bonus_text a =
     (case parseJustification (ra_justification a) of
        None \<Rightarrow> ''undefined'' | Some j \<Rightarrow> toFixed (rj_interactionBonusApplied j) 2)"

definition tier_events :: "string \<Rightarrow> RiskAssessment \<Rightarrow> TimelineEvent list" where
  "tier_events previousTier a =
     (if ra_tier a \<noteq> previousTier then
        [\<lparr>te_timestamp = ra_timestamp a, te_kind = tier_change,
          te_label = toUpperCase previousTier @ '' '' @ utf8_arrow @ '' '' @ toUpperCase (ra_tier a)\<rparr>]
        @ (if ra_tier a = ''critical''
           then [\<lparr>te_timestamp = ra_timestamp a, te_kind = critical, te_label = ''Entered CRITICAL''\<rparr>]
           else [])
      else [])"

definition bonus_events :: "bool \<Rightarrow> RiskAssessment \<Rightarrow> TimelineEvent list" where
  "bonus_events previousBonusApplied a =
     (if bonus_applied a \<and> \<not> previousBonusApplied
      then [\<lparr>te_timestamp = ra_timestamp a, te_kind = interaction_bonus,
             te_label = ''Interaction bonus applied ('' @ utf8_times @ bonus_text a @ '')''\<rparr>]
      else [])"

definition timeline_step :: "timeline_vars \<Rightarrow> nat \<times> RiskAssessment \<Rightarrow> timeline_vars" where
  "timeline_step v ia =
     (let (index, a) = ia;
          higher = (case tv_highestScore v of None \<Rightarrow> True | Some h \<Rightarrow> ra_compound_risk_score a > h)
      in \<lparr>tv_events = tv_events v
            @ (case tv_previousTier v of None \<Rightarrow> [] | Some p \<Rightarrow> tier_events p a)
            @ bonus_events (tv_previousBonusApplied v) a,
          tv_previousTier = Some (ra_tier a),
          tv_previousBonusApplied = bonus_applied a,
          tv_highestScore = (if higher then Some (ra_compound_risk_score a) else tv_highestScore v),
          tv_highestIndex = (if higher then int index else tv_highestIndex v)\<rparr>)"

definition timeline_start :: timeline_vars where
  "timeline_start =
     \<lparr>tv_events = [], tv_previousTier = None, tv_previousBonusApplied = False,
      tv_highestScore = None, tv_highestIndex = -1\<rparr>"

definition peak_event :: "RiskAssessment \<Rightarrow> TimelineEvent" where
  "peak_event peak =
     \<lparr>te_timestamp = ra_timestamp peak, te_kind = highest_risk,
      te_label = ''Highest compound score this window: '' @ toFixed (ra_compound_risk_score peak) 1\<rparr>"

definition event_cmp :: "host_zone \<Rightarrow> TimelineEvent \<Rightarrow> TimelineEvent \<Rightarrow> rat" where
  "event_cmp hz a b = ms_diff (Date_getTime hz (te_timestamp a)) (Date_getTime hz (te_timestamp b))"

definition deriveTimelineEvents :: "host_zone \<Rightarrow> RiskAssessment list \<Rightarrow> TimelineEvent list" where
  "deriveTimelineEvents hz assessments =
     (let v = foldl timeline_step timeline_start (enumerate 0 assessments)
      in js_sort (event_cmp hz)
           (tv_events v
            @ (if tv_highestIndex v \<ge> 0 then [peak_event (assessments ! nat (tv_highestIndex v))] else [])))"

subsection \<open>lib/decisionJournal.ts\<close>

record JournalEntry =
  je_zoneId :: string
  je_assessment :: RiskAssessment

record JournalFilters =
  jf_tier :: "string option"
  jf_zoneId :: "string option"
  jf_search :: "string option"

definition journal_cmp :: "host_zone \<Rightarrow> JournalEntry \<Rightarrow> JournalEntry \<Rightarrow> rat" where
  "journal_cmp hz a b =
     ms_diff (assessment_time hz (je_assessment b)) (assessment_time hz (je_assessment a))"

definition sortJournalEntriesByTimestampDesc :: "host_zone \<Rightarrow> JournalEntry list \<Rightarrow> JournalEntry list" where
  "sortJournalEntriesByTimestampDesc hz entries = js_sort (journal_cmp hz) entries"

text \<open>An absent or empty filter (both are falsy) lets every entry pass.\<close>

definition truthy :: "string option \<Rightarrow> string option" where
  "truthy s = (if s = Some [] then None else s)"

definition journal_entry_matches :: "Zone list option \<Rightarrow> JournalFilters \<Rightarrow> JournalEntry \<Rightarrow> bool" where
  "journal_entry_matches zones filters entry \<longleftrightarrow>
     (case truthy (jf_tier filters) of None \<Rightarrow> True | Some t \<Rightarrow> ra_tier (je_assessment entry) = t) \<and>
     (case truthy (jf_zoneId filters) of None \<Rightarrow> True | Some z \<Rightarrow> je_zoneId entry = z) \<and>
     (case truthy (map_option (\<lambda>s. toLowerCase (trim s)) (jf_search filters)) of
        None \<Rightarrow> True
      | Some search \<Rightarrow>
          let name = toLowerCase (zoneLabel (je_zoneId entry) zones);
              rules = (case parseJustification (ra_justification (je_assessment entry)) of
                         None \<Rightarrow> [] | Some j \<Rightarrow> toLowerCase (js_join '' '' (rj_rulesFired j)))
          in str_includes name search \<or> str_includes rules search)"

definition filterJournalEntries ::
  "JournalEntry list \<Rightarrow> Zone list option \<Rightarrow> JournalFilters \<Rightarrow> JournalEntry list" where
  "filterJournalEntries entries zones filters = filter (journal_entry_matches zones filters) entries"

subsection \<open>Facts: the step-function lookup\<close>

definition pick_later :: "host_zone \<Rightarrow> RiskAssessment \<Rightarrow> RiskAssessment \<Rightarrow> RiskAssessment" where
  "pick_later hz best x = (if the (assessment_time hz best) < the (assessment_time hz x) then x else best)"

interpretation latest: keep_first_max "\<lambda>a. the (assessment_time hz a)" "pick_later hz" for hz
  by unfold_locales (simp add: pick_later_def)

lemma at_or_before_time: "at_or_before hz atTime a \<Longrightarrow> \<exists>t. assessment_time hz a = Some t"
  by (auto simp: at_or_before_def split: option.splits)

lemma foldl_keep_latest:
  "at_or_before hz atTime b \<Longrightarrow>
     foldl (keep_latest hz atTime) (Some b) xs =
       Some (foldl (pick_later hz) b (filter (at_or_before hz atTime) xs))"
proof (induction xs arbitrary: b)
  case Nil
  show ?case by simp
next
  case (Cons x xs)
  then show ?case
    using at_or_before_time[of hz atTime b] at_or_before_time[of hz atTime x]
    by (auto simp: keep_latest_def pick_later_def)
qed

lemma assessmentAtOrBefore_reduce:
  "assessmentAtOrBefore hz history atTime =
     reduce1 (pick_later hz) (filter (at_or_before hz atTime) history)"
  unfolding assessmentAtOrBefore_def
proof (induction history)
  case Nil
  show ?case by simp
next
  case (Cons x xs)
  have "keep_latest hz atTime None x = (if at_or_before hz atTime x then Some x else None)"
    by (simp add: keep_latest_def)
  then show ?case using Cons by (simp add: foldl_keep_latest)
qed

subsection \<open>Facts: the nearest tick\<close>

text \<open>
  \<open>nearest_index ds best\<close>: the pair (index, delta) is the first smallest readable entry of \<open>ds\<close>, or
  \<open>(0, None)\<close> when no entry is readable.
\<close>

definition nearest_index :: "int option list \<Rightarrow> nat \<times> int option \<Rightarrow> bool" where
  "nearest_index ds best \<longleftrightarrow>
     (case best of
        (i, None) \<Rightarrow> i = 0 \<and> (\<forall>d\<in>set ds. d = None)
      | (i, Some b) \<Rightarrow>
          i < length ds \<and> ds ! i = Some b \<and>
          (\<forall>j<length ds. \<forall>d. ds ! j = Some d \<longrightarrow> b \<le> d \<and> (j < i \<longrightarrow> b < d)))"

lemma foldl_nearer: "nearest_index ds (foldl nearer (0, None) (enumerate 0 ds))"
proof (induction ds rule: rev_induct)
  case Nil
  show ?case by (simp add: nearest_index_def)
next
  case (snoc d ds)
  obtain i b where ib: "foldl nearer (0, None) (enumerate 0 ds) = (i, b)" by fastforce
  have step: "foldl nearer (0, None) (enumerate 0 (ds @ [d])) = nearer (i, b) (length ds, d)"
    by (simp add: enumerate_append_eq ib)
  have IH: "nearest_index ds (i, b)" using snoc by (simp add: ib)
  have all: "(\<forall>j<length (ds @ [d]). Q j ((ds @ [d]) ! j)) \<longleftrightarrow> (\<forall>j<length ds. Q j (ds ! j)) \<and> Q (length ds) d" for Q
    by (auto simp: nth_append less_Suc_eq)
  show ?case
  proof (cases "d = None \<or> (\<exists>x y. d = Some x \<and> b = Some y \<and> y \<le> x)")
    case True
    then have "nearer (i, b) (length ds, d) = (i, b)" by (auto simp: nearer_def split: option.splits)
    with IH True show ?thesis
      unfolding step by (auto simp: nearest_index_def all nth_append less_Suc_eq split: option.splits)
  next
    case False
    then obtain x where x: "d = Some x" "\<forall>y. b = Some y \<longrightarrow> x < y" by (cases d) (auto simp: not_le)
    then have "nearer (i, b) (length ds, d) = (length ds, Some x)" by (auto simp: nearer_def split: option.splits)
    moreover have "\<forall>j<length ds. \<forall>e. ds ! j = Some e \<longrightarrow> x < e"
    proof (cases b)
      case None
      with IH have "\<forall>j<length ds. ds ! j = None" by (simp add: nearest_index_def)
      then show ?thesis by simp
    next
      case (Some y)
      with IH have "\<forall>j<length ds. \<forall>e. ds ! j = Some e \<longrightarrow> y \<le> e" by (simp add: nearest_index_def)
      with x(2) Some show ?thesis by fastforce
    qed
    ultimately show ?thesis
      unfolding step by (auto simp: nearest_index_def all nth_append less_Suc_eq x intro: less_imp_le)
  qed
qed

subsection \<open>Facts: the operator timeline\<close>

text \<open>What the loop computes, stated on adjacent ticks: the events of a tick depend on its predecessor only.\<close>

definition tick_events :: "RiskAssessment option \<Rightarrow> RiskAssessment \<Rightarrow> TimelineEvent list" where
  "tick_events previous a =
     (case previous of
        None \<Rightarrow> bonus_events False a
      | Some p \<Rightarrow> tier_events (ra_tier p) a @ bonus_events (bonus_applied p) a)"

definition adjacent_events :: "RiskAssessment list \<Rightarrow> TimelineEvent list" where
  "adjacent_events as = concat (map2 tick_events (None # map Some as) as)"

definition higher_score :: "RiskAssessment \<Rightarrow> RiskAssessment \<Rightarrow> RiskAssessment" where
  "higher_score best a = (if ra_compound_risk_score best < ra_compound_risk_score a then a else best)"

interpretation score_max: keep_first_max ra_compound_risk_score higher_score
  by unfold_locales (simp add: higher_score_def)

lemma map2_snoc_prev:
  "map2 f (None # map Some (xs @ [x])) (xs @ [x]) =
     map2 f (None # map Some xs) xs @ [f (if xs = [] then None else Some (last xs)) x]"
proof (induction xs rule: rev_induct)
  case Nil
  show ?case by simp
next
  case (snoc y ys)
  have "zip (None # map Some (ys @ [y, x])) (ys @ [y, x]) =
        zip ((None # map Some ys) @ [Some y, Some x]) ((ys @ [y]) @ [x])" by simp
  also have "\<dots> = zip (None # map Some ys) (ys @ [y]) @ [(Some y, x)]"
    by (subst zip_append) simp_all
  also have "zip (None # map Some ys) (ys @ [y]) = zip (None # map Some (ys @ [y])) (ys @ [y])"
  proof -
    have "zip (None # map Some (ys @ [y])) (ys @ [y]) = zip ((None # map Some ys) @ [Some y]) ((ys @ [y]) @ [])"
      by simp
    also have "\<dots> = zip (None # map Some ys) (ys @ [y])" by (subst zip_append) simp_all
    finally show ?thesis by simp
  qed
  finally show ?case by simp
qed

definition timeline_inv :: "RiskAssessment list \<Rightarrow> timeline_vars \<Rightarrow> bool" where
  "timeline_inv as v \<longleftrightarrow>
     tv_events v = adjacent_events as \<and>
     tv_previousTier v = (if as = [] then None else Some (ra_tier (last as))) \<and>
     tv_previousBonusApplied v = (as \<noteq> [] \<and> bonus_applied (last as)) \<and>
     (case reduce1 higher_score as of
        None \<Rightarrow> tv_highestScore v = None \<and> tv_highestIndex v = -1
      | Some p \<Rightarrow> tv_highestScore v = Some (ra_compound_risk_score p) \<and>
                  0 \<le> tv_highestIndex v \<and> nat (tv_highestIndex v) < length as \<and>
                  as ! nat (tv_highestIndex v) = p)"

lemma timeline_loop: "timeline_inv as (foldl timeline_step timeline_start (enumerate 0 as))"
proof (induction as rule: rev_induct)
  case Nil
  show ?case by (simp add: timeline_inv_def timeline_start_def adjacent_events_def)
next
  case (snoc a as)
  define v where "v = foldl timeline_step timeline_start (enumerate 0 as)"
  let ?w = "timeline_step v (length as, a)"
  have w: "foldl timeline_step timeline_start (enumerate 0 (as @ [a])) = ?w"
    by (simp add: enumerate_append_eq v_def)
  have inv: "timeline_inv as v" using snoc by (simp add: v_def)
  have ev: "adjacent_events (as @ [a]) =
      adjacent_events as @ tick_events (if as = [] then None else Some (last as)) a"
    unfolding adjacent_events_def map2_snoc_prev by simp
  have e: "tv_events ?w = adjacent_events (as @ [a])"
    and p: "tv_previousTier ?w = Some (ra_tier a)" "tv_previousBonusApplied ?w = bonus_applied a"
    using inv by (simp_all add: timeline_step_def timeline_inv_def ev tick_events_def Let_def)
  have "case reduce1 higher_score (as @ [a]) of
        None \<Rightarrow> tv_highestScore ?w = None \<and> tv_highestIndex ?w = -1
      | Some p \<Rightarrow> tv_highestScore ?w = Some (ra_compound_risk_score p) \<and>
                  0 \<le> tv_highestIndex ?w \<and> nat (tv_highestIndex ?w) < length (as @ [a]) \<and>
                  (as @ [a]) ! nat (tv_highestIndex ?w) = p"
    using inv
    by (cases "reduce1 higher_score as")
      (auto simp: timeline_inv_def timeline_step_def Let_def higher_score_def reduce1_snoc nth_append)
  with e p w show ?case by (simp add: timeline_inv_def)
qed

subsection \<open>Properties\<close>

text \<open>
  (C5) The lookup returns a row exactly when some row is at or before the cursor, and then the
  first among the latest such rows: never an interpolated row and never one from the future.
\<close>

theorem assessmentAtOrBefore_correct:
  "(case assessmentAtOrBefore hz history atTime of
      None \<Rightarrow> filter (at_or_before hz atTime) history = []
    | Some r \<Rightarrow> is_first_max (\<lambda>a. the (assessment_time hz a)) (filter (at_or_before hz atTime) history) r)"
proof (cases "assessmentAtOrBefore hz history atTime")
  case None
  then show ?thesis by (simp add: assessmentAtOrBefore_reduce)
next
  case (Some r)
  then show ?thesis using latest.reduce1_first_max by (simp add: assessmentAtOrBefore_reduce)
qed

text \<open>
  Jumping to a timestamp lands on the first tick at the smallest absolute distance among the
  readable ticks, and on index 0 when the target or every tick is unreadable.
\<close>

theorem findNearestTimestampIndex_correct:
  "(let ds = map (time_delta hz (Date_getTime hz target)) ts; i = findNearestTimestampIndex hz ts target
    in if list_all (\<lambda>d. d = None) ds then i = 0
       else i < length ts \<and> nearest_index ds (i, ds ! i) \<and> ds ! i \<noteq> None)"
proof (cases "ts = []")
  case True
  then show ?thesis by (simp add: findNearestTimestampIndex_def)
next
  case False
  let ?ds = "map (time_delta hz (Date_getTime hz target)) ts"
  obtain i b where ib: "foldl nearer (0, None) (enumerate 0 ?ds) = (i, b)" by fastforce
  have n: "nearest_index ?ds (i, b)" using foldl_nearer[of ?ds] by (simp add: ib)
  have i: "findNearestTimestampIndex hz ts target = i"
    using False by (simp add: findNearestTimestampIndex_def ib)
  show ?thesis
  proof (cases b)
    case None
    with n show ?thesis unfolding i Let_def by (auto simp: nearest_index_def list_all_iff)
  next
    case (Some x)
    with n have x: "i < length ts" "?ds ! i = Some x" by (auto simp: nearest_index_def)
    then have "\<not> list_all (\<lambda>d. d = None) ?ds" by (auto simp: list_all_length)
    with n x Some show ?thesis unfolding i Let_def by simp
  qed
qed

text \<open>
  The merged axis is strictly ascending and holds exactly the timestamps of the zones.
\<close>

theorem mergeTimestamps_correct:
  "sorted_wrt (<) (mergeTimestamps tss) \<and> set (mergeTimestamps tss) = (\<Union>ts\<in>set tss. set ts)"
  by (simp add: mergeTimestamps_def strict_sorted_iff)

text \<open>
  For an incident whose start is not after its end, every fraction is mapped to an instant
  within the incident, whatever the rounding; 0 and below give the start, 1 and above the end.
\<close>

theorem timeAtFraction_within:
  assumes "Date_getTime hz startIso = Some s" and "Date_getTime hz endIso = Some e"
    and "s \<le> e" and "\<bar>s\<bar> < 2 ^ 52" and "\<bar>e\<bar> < 2 ^ 52"
  shows "(case timeAtFraction hz startIso endIso f of
            None \<Rightarrow> False
          | Some t \<Rightarrow> of_int s \<le> t \<and> t \<le> of_int e \<and> (f \<le> 0 \<longrightarrow> t = of_int s) \<and> (1 \<le> f \<longrightarrow> t = of_int e))"
proof -
  define c where "c = min 1 (max 0 f)"
  have c: "0 \<le> c" "c \<le> 1" by (simp_all add: c_def)
  have d: "nsub (of_int e) (of_int s) = of_int (e - s)"
    unfolding nsub_def of_int_diff[symmetric] using assms by (intro fl_int) simp
  have es: "fl (of_int s) = of_int s" "fl (of_int e) = of_int e" using assms by (intro fl_int; simp)+
  define m where "m = nmul c (of_int (e - s))"
  have nn: "(0::rat) \<le> of_int (e - s)" using assms(3) by simp
  have m0: "0 \<le> m" using c nn by (simp add: m_def nmul_def)
  have "c * of_int (e - s) \<le> of_int (e - s)" using c nn by (metis mult_left_le_one_le)
  then have m1: "m \<le> of_int (e - s)" unfolding m_def nmul_def by (rule ieee.rnd_le_int) (use assms in simp)
  have lo: "of_int s \<le> nadd (of_int s) m" unfolding nadd_def using es m0 by (intro fl_error_dir(2)) simp_all
  have hi: "nadd (of_int s) m \<le> of_int e" unfolding nadd_def using es m1 by (intro fl_error_dir(1)) simp_all
  have f0: "f \<le> 0 \<Longrightarrow> nadd (of_int s) m = of_int s" by (simp add: m_def c_def nmul_def nadd_def es)
  have f1: "1 \<le> f \<Longrightarrow> nadd (of_int s) m = of_int e"
    using d by (simp add: m_def c_def nmul_def nadd_def es nsub_def)
  show ?thesis
    using lo hi f0 f1 assms(1,2) by (simp add: timeAtFraction_def d m_def c_def Let_def)
qed

theorem timeAtFraction_within_witness:
  "timeAtFraction utc_zone ''1970-01-01T00:00:00Z'' ''1970-01-01T00:00:10Z'' 2 = Some 10000"
proof -
  have s: "Date_getTime utc_zone ''1970-01-01T00:00:00Z'' = Some 0"
    and e: "Date_getTime utc_zone ''1970-01-01T00:00:10Z'' = Some 10000" by code_simp+
  show ?thesis using timeAtFraction_within[OF s e, of 2] by (auto split: option.splits)
qed

text \<open>
  (C38) The operator timeline's loop equals its specification on adjacent ticks: one tier-change
  event per change of tier, followed by a critical event on entry into critical, one bonus event
  per onset of the interaction bonus, and one peak event for the first tick of highest score; the
  whole list is then sorted by time.
\<close>

theorem deriveTimelineEvents_spec:
  "deriveTimelineEvents hz as =
     js_sort (event_cmp hz)
       (adjacent_events as @ (case reduce1 higher_score as of None \<Rightarrow> [] | Some p \<Rightarrow> [peak_event p]))
   \<and> (case reduce1 higher_score as of None \<Rightarrow> as = [] | Some p \<Rightarrow> is_first_max ra_compound_risk_score as p)"
proof
  let ?v = "foldl timeline_step timeline_start (enumerate 0 as)"
  have inv: "timeline_inv as ?v" by (rule timeline_loop)
  then have "tv_events ?v = adjacent_events as" by (simp add: timeline_inv_def)
  moreover from inv have "(if tv_highestIndex ?v \<ge> 0 then [peak_event (as ! nat (tv_highestIndex ?v))] else []) =
      (case reduce1 higher_score as of None \<Rightarrow> [] | Some p \<Rightarrow> [peak_event p])"
    by (auto simp: timeline_inv_def split: option.splits)
  ultimately show "deriveTimelineEvents hz as =
     js_sort (event_cmp hz)
       (adjacent_events as @ (case reduce1 higher_score as of None \<Rightarrow> [] | Some p \<Rightarrow> [peak_event p]))"
    by (simp add: deriveTimelineEvents_def Let_def)
  show "case reduce1 higher_score as of None \<Rightarrow> as = [] | Some p \<Rightarrow> is_first_max ra_compound_risk_score as p"
    by (cases "reduce1 higher_score as") (auto dest: score_max.reduce1_first_max)
qed

end
