(* ===== verification/Replay.thy ===== *)
theory Replay
  imports Timeline
begin

section \<open>The replay state machine\<close>

text \<open>
  \<open>context/ReplayContext.tsx\<close>: the Time Machine's single source of truth. The React state hooks
  are the record \<open>replay_state\<close>; every callback of the context value is one operation, the
  playback timer is the operation \<open>playback_tick\<close>, and the effect on a change of the target is part
  of \<open>startReplay\<close> (called with a new target object) and \<open>exitReplay\<close>. The query library is outside: what its cache holds for a new
  target and the payload it delivers later are arguments of the events, and it delivers at most
  one payload per target (\<open>staleTime: Infinity\<close>). A bookmark identifier is made from the clock and
  a random number, so it is an argument too.

  In the reachable states the cursor never passes the last tick, and it is negative only after a
  press of Next on an empty axis. Playback advances tick by tick to the last index and stops there.
\<close>

subsection \<open>State\<close>

record ReplayTarget =
  rt_scenarioKey :: "string option"
  rt_zoneIds :: "string list option"
  rt_start :: "string option"
  rt_end :: "string option"

record CustomBookmark =
  cb_id :: string
  cb_timestamp :: string
  cb_label :: string

definition PLAYBACK_TICK_MS :: number where "PLAYBACK_TICK_MS = 400"

record replay_state =
  rs_target :: "ReplayTarget option"
  rs_data :: "ReplayData option"
  rs_currentIndex :: int
  rs_playing :: bool
  rs_speed :: number
  rs_customBookmarks :: "CustomBookmark list"

definition replay_start :: replay_state where
  "replay_start =
     \<lparr>rs_target = None, rs_data = None, rs_currentIndex = 0, rs_playing = False, rs_speed = 1,
      rs_customBookmarks = []\<rparr>"

definition allTimestamps :: "replay_state \<Rightarrow> string list" where
  "allTimestamps s =
     (case rs_data s of
        None \<Rightarrow> []
      | Some d \<Rightarrow> mergeTimestamps (map (\<lambda>t. map ra_timestamp (zt_assessments t)) (rd_zone_timelines d)))"

text \<open>\<open>allTimestamps[currentIndex]\<close>: \<open>undefined\<close> outside the array.\<close>

definition currentTimestamp :: "replay_state \<Rightarrow> string option" where
  "currentTimestamp s =
     (if 0 \<le> rs_currentIndex s \<and> rs_currentIndex s < int (length (allTimestamps s))
      then Some (allTimestamps s ! nat (rs_currentIndex s)) else None)"

subsection \<open>Operations\<close>

text \<open>The effect on \<open>[target]\<close>.\<close>

definition reset_for_target :: "replay_state \<Rightarrow> replay_state" where
  "reset_for_target s = s\<lparr>rs_currentIndex := 0, rs_playing := False, rs_customBookmarks := []\<rparr>"

definition startReplay :: "ReplayTarget \<Rightarrow> ReplayData option \<Rightarrow> replay_state \<Rightarrow> replay_state" where
  "startReplay newTarget cached s = reset_for_target (s\<lparr>rs_target := Some newTarget, rs_data := cached\<rparr>)"

definition query_resolved :: "ReplayData \<Rightarrow> replay_state \<Rightarrow> replay_state" where
  "query_resolved d s = (if rs_target s \<noteq> None \<and> rs_data s = None then s\<lparr>rs_data := Some d\<rparr> else s)"

definition exitReplay :: "replay_state \<Rightarrow> replay_state" where
  "exitReplay s =
     (if rs_target s = None then s else reset_for_target (s\<lparr>rs_target := None, rs_data := None\<rparr>))"

definition play :: "replay_state \<Rightarrow> replay_state" where "play s = s\<lparr>rs_playing := True\<rparr>"

definition pause :: "replay_state \<Rightarrow> replay_state" where "pause s = s\<lparr>rs_playing := False\<rparr>"

definition reset :: "replay_state \<Rightarrow> replay_state" where
  "reset s = s\<lparr>rs_playing := False, rs_currentIndex := 0\<rparr>"

definition next_tick :: "replay_state \<Rightarrow> replay_state" where
  "next_tick s =
     s\<lparr>rs_playing := False,
       rs_currentIndex := min (rs_currentIndex s + 1) (int (length (allTimestamps s)) - 1)\<rparr>"

definition previous_tick :: "replay_state \<Rightarrow> replay_state" where
  "previous_tick s = s\<lparr>rs_playing := False, rs_currentIndex := max (rs_currentIndex s - 1) 0\<rparr>"

definition scrubToIndex :: "int \<Rightarrow> replay_state \<Rightarrow> replay_state" where
  "scrubToIndex index s =
     s\<lparr>rs_playing := False,
       rs_currentIndex := max 0 (min index (int (length (allTimestamps s)) - 1))\<rparr>"

definition jumpToTimestamp :: "host_zone \<Rightarrow> string \<Rightarrow> replay_state \<Rightarrow> replay_state" where
  "jumpToTimestamp hz timestamp s =
     s\<lparr>rs_playing := False,
       rs_currentIndex := int (findNearestTimestampIndex hz (allTimestamps s) timestamp)\<rparr>"

definition setSpeed :: "number \<Rightarrow> replay_state \<Rightarrow> replay_state" where
  "setSpeed speed s = s\<lparr>rs_speed := speed\<rparr>"

definition addCustomBookmark :: "string \<Rightarrow> string \<Rightarrow> replay_state \<Rightarrow> replay_state" where
  "addCustomBookmark fresh_id label s =
     (case currentTimestamp s of
        None \<Rightarrow> s
      | Some t \<Rightarrow>
          if t = [] then s
          else s\<lparr>rs_customBookmarks := rs_customBookmarks s @
                   [\<lparr>cb_id = fresh_id, cb_timestamp = t, cb_label = label\<rparr>]\<rparr>)"

text \<open>One firing of the interval timer, which is armed only while playing on a non-empty axis.\<close>

definition playback_tick :: "replay_state \<Rightarrow> replay_state" where
  "playback_tick s =
     (if \<not> rs_playing s \<or> length (allTimestamps s) = 0 then s
      else if rs_currentIndex s \<ge> int (length (allTimestamps s)) - 1 then s\<lparr>rs_playing := False\<rparr>
      else s\<lparr>rs_currentIndex := rs_currentIndex s + 1\<rparr>)"

definition zoneTimeline :: "replay_state \<Rightarrow> string \<Rightarrow> RiskAssessment list" where
  "zoneTimeline s zoneId =
     (case rs_data s of
        None \<Rightarrow> []
      | Some d \<Rightarrow>
          (case List.find (\<lambda>t. zt_zone_id t = zoneId) (rd_zone_timelines d) of
             None \<Rightarrow> [] | Some t \<Rightarrow> zt_assessments t))"

definition assessmentAt :: "host_zone \<Rightarrow> replay_state \<Rightarrow> string \<Rightarrow> RiskAssessment option" where
  "assessmentAt hz s zoneId =
     (case currentTimestamp s of
        None \<Rightarrow> None
      | Some t \<Rightarrow> assessmentAtOrBefore hz (zoneTimeline s zoneId) (map_option of_int (Date_getTime hz t)))"

subsection \<open>Steps\<close>

datatype replay_event =
    StartReplay ReplayTarget "ReplayData option"
  | QueryResolved ReplayData
  | ExitReplay
  | Play
  | Pause
  | Reset
  | Next
  | Previous
  | ScrubToIndex int
  | JumpToTimestamp string
  | SetSpeed number
  | AddCustomBookmark string string
  | PlaybackTick

definition replay_step :: "host_zone \<Rightarrow> replay_state \<Rightarrow> replay_event \<Rightarrow> replay_state" where
  "replay_step hz s e =
     (case e of
        StartReplay t cached \<Rightarrow> startReplay t cached s
      | QueryResolved d \<Rightarrow> query_resolved d s
      | ExitReplay \<Rightarrow> exitReplay s
      | Play \<Rightarrow> play s
      | Pause \<Rightarrow> pause s
      | Reset \<Rightarrow> reset s
      | Next \<Rightarrow> next_tick s
      | Previous \<Rightarrow> previous_tick s
      | ScrubToIndex i \<Rightarrow> scrubToIndex i s
      | JumpToTimestamp t \<Rightarrow> jumpToTimestamp hz t s
      | SetSpeed v \<Rightarrow> setSpeed v s
      | AddCustomBookmark i l \<Rightarrow> addCustomBookmark i l s
      | PlaybackTick \<Rightarrow> playback_tick s)"

definition sample_replay :: ReplayData where
  "sample_replay =
     \<lparr>rd_zone_ids = [''zone-a''], rd_start_time = ''2026-01-01T00:00:00Z'', rd_end_time = ''2026-01-01T00:02:00Z'',
      rd_duration_minutes = 2, rd_tick_count = 2,
      rd_zone_timelines = [\<lparr>zt_zone_id = ''zone-a'',
        zt_assessments = [sample_assessment ''2026-01-01T00:00:00Z'' 10 ''normal'',
                          sample_assessment ''2026-01-01T00:01:00Z'' 90 ''critical'']\<rparr>],
      rd_bookmarks = []\<rparr>"

lemmas replay_ops = startReplay_def reset_for_target_def query_resolved_def exitReplay_def play_def
  pause_def reset_def next_tick_def previous_tick_def scrubToIndex_def jumpToTimestamp_def
  setSpeed_def addCustomBookmark_def playback_tick_def

subsection \<open>Facts\<close>

lemma allTimestamps_cong [simp]:
  "allTimestamps (s\<lparr>rs_currentIndex := i\<rparr>) = allTimestamps s"
  "allTimestamps (s\<lparr>rs_playing := p\<rparr>) = allTimestamps s"
  "allTimestamps (s\<lparr>rs_speed := v\<rparr>) = allTimestamps s"
  "allTimestamps (s\<lparr>rs_customBookmarks := b\<rparr>) = allTimestamps s"
  "rs_data s = None \<Longrightarrow> allTimestamps s = []"
  by (simp_all add: allTimestamps_def)

lemma findNearest_less: "ts \<noteq> [] \<Longrightarrow> findNearestTimestampIndex hz ts t < length ts"
proof -
  assume ne: "ts \<noteq> []"
  let ?ds = "map (time_delta hz (Date_getTime hz t)) ts"
  obtain i b where ib: "foldl nearer (0, None) (enumerate 0 ?ds) = (i, b)" by fastforce
  have "nearest_index ?ds (i, b)" using foldl_nearer[of ?ds] by (simp add: ib)
  then have "i < length ts" using ne by (cases b) (auto simp: nearest_index_def)
  then show ?thesis using ne by (simp add: findNearestTimestampIndex_def ib)
qed

text \<open>
  The invariant: the cursor never passes the end of the axis and is at least -1, a target that is
  gone has no payload, and every custom bookmark sits on a tick of the axis.
\<close>

definition replay_inv :: "replay_state \<Rightarrow> bool" where
  "replay_inv s \<longleftrightarrow>
     -1 \<le> rs_currentIndex s \<and>
     rs_currentIndex s < max 1 (int (length (allTimestamps s))) \<and>
     (rs_target s = None \<longrightarrow> rs_data s = None) \<and>
     cb_timestamp ` set (rs_customBookmarks s) \<subseteq> set (allTimestamps s)"

lemma replay_inv_start: "replay_inv replay_start"
  by (simp add: replay_inv_def replay_start_def allTimestamps_def)

lemma currentTimestamp_mem: "currentTimestamp s = Some t \<Longrightarrow> t \<in> set (allTimestamps s)"
  by (auto simp: currentTimestamp_def nat_less_iff split: if_splits intro!: nth_mem)

lemma replay_inv_bookmark [inv_step]: "replay_inv s \<Longrightarrow> replay_inv (addCustomBookmark i l s)"
  using currentTimestamp_mem[of s]
  by (auto simp: replay_inv_def addCustomBookmark_def split: option.splits)

lemma replay_inv_jump [inv_step]: "replay_inv s \<Longrightarrow> replay_inv (jumpToTimestamp hz t s)"
  using findNearest_less[of "allTimestamps s" hz t]
  by (cases "allTimestamps s = []") (auto simp: replay_inv_def jumpToTimestamp_def findNearestTimestampIndex_def)

lemma replay_inv_load [inv_step]:
  "replay_inv (startReplay t c s)" "replay_inv s \<Longrightarrow> replay_inv (query_resolved d s)"
  "replay_inv s \<Longrightarrow> replay_inv (exitReplay s)"
  by (auto simp: replay_inv_def startReplay_def query_resolved_def exitReplay_def reset_for_target_def)

lemma replay_inv_move [inv_step]:
  "replay_inv s \<Longrightarrow> replay_inv (play s)" "replay_inv s \<Longrightarrow> replay_inv (pause s)"
  "replay_inv s \<Longrightarrow> replay_inv (reset s)" "replay_inv s \<Longrightarrow> replay_inv (next_tick s)"
  "replay_inv s \<Longrightarrow> replay_inv (previous_tick s)" "replay_inv s \<Longrightarrow> replay_inv (scrubToIndex i s)"
  "replay_inv s \<Longrightarrow> replay_inv (setSpeed v s)" "replay_inv s \<Longrightarrow> replay_inv (playback_tick s)"
  by (auto simp: replay_inv_def replay_ops)

interpretation replay: transition_system replay_start "replay_step hz" replay_inv for hz
proof
  show "replay_inv replay_start" by (rule replay_inv_start)
  show "replay_inv s \<Longrightarrow> replay_inv (replay_step hz s e)" for s e
    by (cases e) (auto simp: replay_step_def intro: inv_step)
qed

text \<open>A run in which Next is never pressed while the axis is empty.\<close>

primrec no_blind_next :: "host_zone \<Rightarrow> replay_state \<Rightarrow> replay_event list \<Rightarrow> bool" where
  "no_blind_next hz s [] = True"
| "no_blind_next hz s (e # es) =
     (\<not> (e = Next \<and> allTimestamps s = []) \<and> no_blind_next hz (replay_step hz s e) es)"

lemma not_negative:
  "0 \<le> rs_currentIndex (startReplay t c s)" "0 \<le> rs_currentIndex s \<Longrightarrow> 0 \<le> rs_currentIndex (query_resolved d s)"
  "0 \<le> rs_currentIndex s \<Longrightarrow> 0 \<le> rs_currentIndex (exitReplay s)"
  "0 \<le> rs_currentIndex (play s) \<longleftrightarrow> 0 \<le> rs_currentIndex s"
  "0 \<le> rs_currentIndex (pause s) \<longleftrightarrow> 0 \<le> rs_currentIndex s" "0 \<le> rs_currentIndex (reset s)"
  "0 \<le> rs_currentIndex (previous_tick s)" "0 \<le> rs_currentIndex (scrubToIndex i s)"
  "0 \<le> rs_currentIndex (jumpToTimestamp hz u s)" "0 \<le> rs_currentIndex (setSpeed v s) \<longleftrightarrow> 0 \<le> rs_currentIndex s"
  "0 \<le> rs_currentIndex s \<Longrightarrow> 0 \<le> rs_currentIndex (addCustomBookmark x l s)"
  "0 \<le> rs_currentIndex s \<Longrightarrow> 0 \<le> rs_currentIndex (playback_tick s)"
  "0 \<le> rs_currentIndex s \<Longrightarrow> 0 < length (allTimestamps s) \<Longrightarrow> 0 \<le> rs_currentIndex (next_tick s)"
  by (simp_all add: startReplay_def query_resolved_def exitReplay_def reset_for_target_def play_def pause_def
      reset_def previous_tick_def scrubToIndex_def jumpToTimestamp_def setSpeed_def addCustomBookmark_def
      playback_tick_def next_tick_def split: option.split)

lemma step_not_negative:
  assumes "0 \<le> rs_currentIndex s" and "\<not> (e = Next \<and> allTimestamps s = [])"
  shows "0 \<le> rs_currentIndex (replay_step hz s e)"
  using assms by (cases e) (simp_all add: replay_step_def not_negative)

lemma cursor_not_negative:
  "no_blind_next hz s es \<Longrightarrow> 0 \<le> rs_currentIndex s \<Longrightarrow> 0 \<le> rs_currentIndex (foldl (replay_step hz) s es)"
  by (induction es arbitrary: s) (simp_all add: step_not_negative)

lemma cursor_on_tick:
  "replay_inv s \<Longrightarrow> 0 \<le> rs_currentIndex s \<Longrightarrow> (currentTimestamp s = None) = (allTimestamps s = [])"
  by (cases "allTimestamps s") (auto simp: replay_inv_def currentTimestamp_def)

lemma playback_tick_playing:
  "rs_playing s \<Longrightarrow> allTimestamps s \<noteq> [] \<Longrightarrow> rs_currentIndex s < int (length (allTimestamps s)) - 1 \<Longrightarrow>
     playback_tick s = s\<lparr>rs_currentIndex := rs_currentIndex s + 1\<rparr>"
  by (simp add: playback_tick_def)

lemma playback_advance:
  assumes "rs_playing s" and "allTimestamps s \<noteq> []"
    and "rs_currentIndex s + int k \<le> int (length (allTimestamps s)) - 1"
  shows "(playback_tick ^^ k) s = s\<lparr>rs_currentIndex := rs_currentIndex s + int k\<rparr>"
  using assms
proof (induction k)
  case 0
  show ?case by simp
next
  case (Suc k)
  then have "(playback_tick ^^ k) s = s\<lparr>rs_currentIndex := rs_currentIndex s + int k\<rparr>" by simp
  with Suc.prems show ?case by (simp add: playback_tick_playing algebra_simps)
qed

subsection \<open>Properties\<close>

text \<open>
  (C4) In every state reachable by any sequence of user actions, payload arrivals and timer
  firings, the cursor lies between -1 and the last tick (0 on an empty axis), a session without
  target has no payload, and every custom bookmark points at a tick of the axis. The value -1 needs
  a press of Next on an empty axis: in every run without such a press the cursor is never
  negative, and whenever the axis has ticks it designates one of them.
\<close>

theorem replay_cursor_invariant:
  "replay_inv (foldl (replay_step hz) replay_start es) \<and>
   (if no_blind_next hz replay_start es
    then 0 \<le> rs_currentIndex (foldl (replay_step hz) replay_start es) \<and>
         (currentTimestamp (foldl (replay_step hz) replay_start es) = None) =
           (allTimestamps (foldl (replay_step hz) replay_start es) = [])
    else True)"
proof -
  let ?s = "foldl (replay_step hz) replay_start es"
  have inv: "replay_inv ?s" by (rule replay.inv_reachable)
  have "0 \<le> rs_currentIndex ?s" if "no_blind_next hz replay_start es"
    using cursor_not_negative[OF that] by (simp add: replay_start_def)
  then show ?thesis using inv cursor_on_tick[OF inv] by auto
qed

text \<open>
  Playback is live and stops: started anywhere on a non-empty axis, the timer brings the cursor
  to the last tick after exactly as many firings as ticks remain, still playing, and the next
  firing stops it there.
\<close>

theorem playback_reaches_end:
  assumes "rs_playing s" and "allTimestamps s \<noteq> []"
    and "rs_currentIndex s < int (length (allTimestamps s))"
  defines "k \<equiv> nat (int (length (allTimestamps s)) - 1 - rs_currentIndex s)"
  shows "(playback_tick ^^ k) s = s\<lparr>rs_currentIndex := int (length (allTimestamps s)) - 1\<rparr> \<and>
         playback_tick ((playback_tick ^^ k) s) =
           s\<lparr>rs_currentIndex := int (length (allTimestamps s)) - 1, rs_playing := False\<rparr>"
proof -
  have "int k = int (length (allTimestamps s)) - 1 - rs_currentIndex s" using assms(3) by (simp add: k_def)
  then have "(playback_tick ^^ k) s = s\<lparr>rs_currentIndex := int (length (allTimestamps s)) - 1\<rparr>"
    using playback_advance[OF assms(1,2), of k] by simp
  then show ?thesis using assms(1,2) by (simp add: playback_tick_def)
qed

theorem playback_reaches_end_witness:
  "rs_currentIndex (playback_tick (replay_start\<lparr>rs_data := Some sample_replay, rs_playing := True\<rparr>)) = 1"
proof -
  let ?s = "replay_start\<lparr>rs_data := Some sample_replay, rs_playing := True\<rparr>"
  have ts: "allTimestamps (replay_start\<lparr>rs_data := Some sample_replay\<rparr>) = [''2026-01-01T00:00:00Z'', ''2026-01-01T00:01:00Z'']" by code_simp
  have "rs_playing ?s" "rs_currentIndex ?s = 0" by (simp_all add: replay_start_def)
  with playback_reaches_end[of ?s] show ?thesis by (simp add: ts)
qed

text \<open>
  Whatever the reachable state, the row shown for a zone belongs to that zone's timeline and is
  not later than the cursor's tick: the Time Machine never shows the future.
\<close>

theorem assessmentAt_not_future:
  "(case assessmentAt hz s zoneId of
      None \<Rightarrow> True
    | Some r \<Rightarrow> r \<in> set (zoneTimeline s zoneId) \<and>
        (case currentTimestamp s of
           None \<Rightarrow> False
         | Some t \<Rightarrow> ms_le (assessment_time hz r) (Date_getTime hz t)))"
proof (cases "currentTimestamp s")
  case None
  then show ?thesis by (simp add: assessmentAt_def)
next
  case (Some t)
  let ?at = "map_option rat_of_int (Date_getTime hz t)"
  show ?thesis
  proof (cases "assessmentAtOrBefore hz (zoneTimeline s zoneId) ?at")
    case None
    then show ?thesis by (simp add: assessmentAt_def Some)
  next
    case r: (Some r)
    then have "is_first_max (\<lambda>a. the (assessment_time hz a)) (filter (at_or_before hz ?at) (zoneTimeline s zoneId)) r"
      using latest.reduce1_first_max by (simp add: assessmentAtOrBefore_reduce)
    then have "r \<in> set (zoneTimeline s zoneId)" "at_or_before hz ?at r" by (auto dest: is_first_max_in)
    then show ?thesis by (auto simp: assessmentAt_def Some r at_or_before_def ms_le_def split: option.splits)
  qed
qed

text \<open>
  Pressing Next while the axis is still empty moves the cursor to -1, and when the payload then
  arrives no tick is selected, whatever the payload: unlike \<open>scrubToIndex\<close>, \<open>next\<close> has no lower
  bound.
\<close>

theorem next_before_payload_loses_cursor:
  "rs_currentIndex (foldl (replay_step hz) replay_start [StartReplay t None, Next, QueryResolved d]) = -1 \<and>
   currentTimestamp (foldl (replay_step hz) replay_start [StartReplay t None, Next, QueryResolved d]) = None"
  by (simp add: replay_step_def replay_ops replay_start_def currentTimestamp_def)

end
