(* ===== verification/Recommendations.thy ===== *)
theory Recommendations
  imports Justification
begin

section \<open>The recommendation vocabulary and the references that support it\<close>

text \<open>
  \<open>lib/recommendations.ts\<close> (tier baselines, rule templates and \<open>deriveRecommendations\<close>),
  \<open>lib/sopReferences.ts\<close> (plant procedures) and \<open>lib/complianceStandards.ts\<close> (standards). The
  tables are transcribed entry by entry; an object literal used as a dictionary is the
  association list of its entries.
\<close>

subsection \<open>lib/recommendations.ts\<close>

record Recommendation =
  rc_id :: string
  rc_text :: string
  rc_severity :: string

definition TIER_BASELINE :: "(string \<times> Recommendation) list" where
  "TIER_BASELINE =
    [(''critical'',
       \<lparr>rc_id = ''tier_critical'',
        rc_text = ''Escalate immediately: evacuate non-essential personnel from this zone and notify the shift supervisor.'',
        rc_severity = ''critical''\<rparr>),
     (''elevated'',
       \<lparr>rc_id = ''tier_elevated'',
        rc_text = ''Increase monitoring frequency and confirm response readiness for this zone.'',
        rc_severity = ''high''\<rparr>),
     (''watch'',
       \<lparr>rc_id = ''tier_watch'',
        rc_text = ''Log this zone for closer observation; no immediate action required yet.'',
        rc_severity = ''medium''\<rparr>)]"

definition RULE_RECOMMENDATIONS :: "(string \<times> Recommendation) list" where
  "RULE_RECOMMENDATIONS =
    [(''unauthorized_presence'',
       \<lparr>rc_id = ''unauthorized_presence'',
        rc_text = ''Verify headcount and remove unauthorized personnel operating without an active permit.'',
        rc_severity = ''high''\<rparr>),
     (''permit_status_escalated'',
       \<lparr>rc_id = ''permit_status_escalated'',
        rc_text = ''Review the active permit in this zone for suspension or revocation.'',
        rc_severity = ''high''\<rparr>),
     (''common_cause_grouped_degradation_count'',
       \<lparr>rc_id = ''common_cause_grouped_degradation_count'',
        rc_text = ''Inspect equipment flagged under common-cause degradation before continuing operations.'',
        rc_severity = ''medium''\<rparr>),
     (''stale_data_fail_safe'',
       \<lparr>rc_id = ''stale_data_fail_safe'',
        rc_text = ''Sensor data is stale for this zone - dispatch a technician to confirm sensor health.'',
        rc_severity = ''medium''\<rparr>),
     (''missing_data_fail_safe'',
       \<lparr>rc_id = ''missing_data_fail_safe'',
        rc_text = ''No sensor data is reaching this zone - treat as an instrumentation failure until confirmed otherwise.'',
        rc_severity = ''high''\<rparr>),
     (''missing_location_fail_safe'',
       \<lparr>rc_id = ''missing_location_fail_safe'',
        rc_text = ''Worker location data is unavailable for this zone - confirm headcount manually.'',
        rc_severity = ''medium''\<rparr>),
     (''missing_equipment_context'',
       \<lparr>rc_id = ''missing_equipment_context'',
        rc_text = ''Equipment telemetry is unavailable for this zone - confirm equipment status manually.'',
        rc_severity = ''medium''\<rparr>),
     (''agent_unavailable_using_last_known'',
       \<lparr>rc_id = ''agent_unavailable_using_last_known'',
        rc_text = ''One or more risk agents used stale/last-known data this tick - confirm all upstream systems are reporting.'',
        rc_severity = ''medium''\<rparr>),
     (''interaction_bonus_applied'',
       \<lparr>rc_id = ''interaction_bonus_applied'',
        rc_text = ''Multiple independent risk factors are compounding in this zone (SIMOPS) - review concurrent activity.'',
        rc_severity = ''high''\<rparr>)]"

definition ALL_RECOMMENDATION_TEMPLATES :: "Recommendation list" where
  "ALL_RECOMMENDATION_TEMPLATES = map snd TIER_BASELINE @ map snd RULE_RECOMMENDATIONS"

definition push_rule :: "Recommendation list \<Rightarrow> string \<Rightarrow> Recommendation list" where
  "push_rule recommendations rule =
     (case map_of RULE_RECOMMENDATIONS rule of
        None \<Rightarrow> recommendations
      | Some recommendation \<Rightarrow>
          if \<exists>r\<in>set recommendations. rc_id r = rc_id recommendation then recommendations
          else recommendations @ [recommendation])"

definition deriveRecommendations :: "string \<Rightarrow> RiskJustification option \<Rightarrow> Recommendation list" where
  "deriveRecommendations tier justification =
     (let baseline = (case map_of TIER_BASELINE tier of Some b \<Rightarrow> [b] | None \<Rightarrow> [])
      in case justification of
           None \<Rightarrow> baseline
         | Some j \<Rightarrow> foldl push_rule baseline (rj_rulesFired j))"

subsection \<open>lib/sopReferences.ts\<close>

record SopReference =
  sop_title :: string
  sop_standard :: string
  sop_section :: string
  sop_summary :: string
  sop_externalUrl :: "string option"

definition SOP_BY_PERMIT_TYPE :: "(string \<times> SopReference) list" where
  "SOP_BY_PERMIT_TYPE =
    [(''hot_work'',
       \<lparr>sop_title = ''Hot Work Authorization Procedure'',
        sop_standard = ''OISD-STD-105'',
        sop_section = ''Section 7.2'',
        sop_summary = ''Requirements for suspending or revoking an active hot work authorization when gas or exposure risk rises.'',
        sop_externalUrl = None\<rparr>),
     (''confined_space'',
       \<lparr>sop_title = ''Confined Space Entry Procedure'',
        sop_standard = ''OISD-STD-192'',
        sop_section = ''Section 4.1'',
        sop_summary = ''Entry suspension and emergency withdrawal requirements for confined space work.'',
        sop_externalUrl = None\<rparr>),
     (''electrical_isolation'',
       \<lparr>sop_title = ''Electrical Isolation Procedure'',
        sop_standard = ''Plant Procedure IS-14'',
        sop_section = ''Section 2'',
        sop_summary = ''Lockout/tagout and isolation-verification steps before electrical work may proceed or must halt.'',
        sop_externalUrl = None\<rparr>),
     (''line_break'',
       \<lparr>sop_title = ''Line Break Work Authorization Procedure'',
        sop_standard = ''OISD-STD-244'',
        sop_section = ''Section 5.3'',
        sop_summary = ''Depressurization and isolation confirmation requirements before and during a line break.'',
        sop_externalUrl = None\<rparr>)]"

definition SOP_BY_RECOMMENDATION_ID :: "(string \<times> SopReference) list" where
  "SOP_BY_RECOMMENDATION_ID =
    [(''tier_critical'',
       \<lparr>sop_title = ''Emergency Evacuation Procedure'',
        sop_standard = ''Emergency Response Plan'',
        sop_section = ''Section 3.1'',
        sop_summary = ''Non-essential personnel evacuation and shift supervisor notification at CRITICAL tier.'',
        sop_externalUrl = None\<rparr>),
     (''tier_elevated'',
       \<lparr>sop_title = ''Elevated Monitoring Procedure'',
        sop_standard = ''Emergency Response Plan'',
        sop_section = ''Section 2.4'',
        sop_summary = ''Increased monitoring cadence and response-readiness confirmation at ELEVATED tier.'',
        sop_externalUrl = None\<rparr>),
     (''unauthorized_presence'',
       \<lparr>sop_title = ''Headcount Verification Procedure'',
        sop_standard = ''OISD-STD-192'',
        sop_section = ''Section 6'',
        sop_summary = ''Headcount reconciliation and removal of personnel operating without an active permit.'',
        sop_externalUrl = None\<rparr>),
     (''common_cause_grouped_degradation_count'',
       \<lparr>sop_title = ''Common-Cause Equipment Inspection'',
        sop_standard = ''Maintenance Procedure MP-22'',
        sop_section = ''Section 1'',
        sop_summary = ''Inspection sequence when multiple equipment items degrade under a shared cause.'',
        sop_externalUrl = None\<rparr>),
     (''missing_equipment_context'',
       \<lparr>sop_title = ''Equipment Telemetry Fallback Procedure'',
        sop_standard = ''Maintenance Procedure MP-22'',
        sop_section = ''Section 3'',
        sop_summary = ''Manual equipment status confirmation when telemetry is unavailable.'',
        sop_externalUrl = None\<rparr>),
     (''interaction_bonus_applied'',
       \<lparr>sop_title = ''SIMOPS Concurrent Activity Review'',
        sop_standard = ''Plant SIMOPS Guideline'',
        sop_section = ''Section 1.2'',
        sop_summary = ''Review procedure when multiple independent risk factors are compounding simultaneously.'',
        sop_externalUrl = None\<rparr>)]"

fun sop_by_permits :: "string list \<Rightarrow> SopReference option" where
  "sop_by_permits [] = None"
| "sop_by_permits (permitType # rest) =
     (case map_of SOP_BY_PERMIT_TYPE permitType of Some byPermit \<Rightarrow> Some byPermit | None \<Rightarrow> sop_by_permits rest)"

definition getSopReference :: "string \<Rightarrow> string list \<Rightarrow> SopReference option" where
  "getSopReference recommendationId activePermitTypes =
     (case sop_by_permits activePermitTypes of
        Some byPermit \<Rightarrow> Some byPermit
      | None \<Rightarrow> map_of SOP_BY_RECOMMENDATION_ID recommendationId)"

subsection \<open>lib/complianceStandards.ts\<close>

record StandardReference =
  sref_code :: string
  sref_title :: string
  sref_summary :: string
  sref_applicability :: string
  sref_externalReference :: string

definition companySop :: "string \<Rightarrow> string \<Rightarrow> StandardReference" where
  "companySop topic summary =
     \<lparr>sref_code = ''Company SOP'',
      sref_title = ''Company SOP - '' @ topic,
      sref_summary = summary,
      sref_applicability = ''Internal to this facility.'',
      sref_externalReference = ''Internal document control system (not modeled in this demo).''\<rparr>"

definition OSHA_GENERAL_DUTY :: StandardReference where
  "OSHA_GENERAL_DUTY =
     \<lparr>sref_code = ''OSHA General Duty Clause'',
      sref_title = ''Occupational Safety and Health Act, Section 5(a)(1)'',
      sref_summary = ''Requires employers to furnish a workplace free from recognized hazards likely to cause death or serious physical harm.'',
      sref_applicability = ''Applies whenever a zone's risk tier indicates a recognized, uncontrolled hazard.'',
      sref_externalReference = (''29 U.S.C. '' @ [CHR 0xC2, CHR 0xA7] @ ''654(a)(1)'')\<rparr>"

definition OSHA_CONFINED_SPACE :: StandardReference where
  "OSHA_CONFINED_SPACE =
     \<lparr>sref_code = ''OSHA 1910.146'',
      sref_title = ''Permit-Required Confined Spaces'',
      sref_summary = ''Governs entry authorization, attendant duties, and headcount verification for permit-required confined spaces.'',
      sref_applicability = ''Applies when personnel presence or permit status in a confined-space zone is in question.'',
      sref_externalReference = ''29 CFR 1910.146''\<rparr>"

definition OSHA_LOTO :: StandardReference where
  "OSHA_LOTO =
     \<lparr>sref_code = ''OSHA 1910.147'',
      sref_title = ''The Control of Hazardous Energy (Lockout/Tagout)'',
      sref_summary = ''Governs isolation of hazardous energy sources during servicing and maintenance.'',
      sref_applicability = ''Applies when a permit status change affects equipment isolation.'',
      sref_externalReference = ''29 CFR 1910.147''\<rparr>"

definition OSHA_PSM :: StandardReference where
  "OSHA_PSM =
     \<lparr>sref_code = ''OSHA 1910.119'',
      sref_title = ''Process Safety Management of Highly Hazardous Chemicals'',
      sref_summary = ''Requires management-of-change review and documented authorization for process modifications.'',
      sref_applicability = ''Applies when a permit or work-authorization escalation affects a covered process.'',
      sref_externalReference = ''29 CFR 1910.119''\<rparr>"

definition IEC_61511 :: StandardReference where
  "IEC_61511 =
     \<lparr>sref_code = ''IEC 61511'',
      sref_title = ''Functional Safety - Safety Instrumented Systems for the Process Industry Sector'',
      sref_summary = ''Defines fail-safe behavior, common-cause-failure considerations, and diagnostic/proof-testing requirements for safety instrumented systems.'',
      sref_applicability = ''Applies whenever sensor or agent data is missing, stale, or a common-cause failure is suspected.'',
      sref_externalReference = ''IEC 61511-1:2016''\<rparr>"

definition API_RP_754 :: StandardReference where
  "API_RP_754 =
     \<lparr>sref_code = ''API RP 754'',
      sref_title = ''Process Safety Performance Indicators for the Refining and Petrochemical Industries'',
      sref_summary = ''Defines Tier 1-4 process safety event indicators and leading indicators for escalating operational risk.'',
      sref_applicability = ''Applies to tier escalations and simultaneous-operations (SIMOPS) risk compounding.'',
      sref_externalReference = ''API Recommended Practice 754, 2nd Edition''\<rparr>"

definition NFPA_326 :: StandardReference where
  "NFPA_326 =
     \<lparr>sref_code = ''NFPA 326'',
      sref_title = ''Standard for the Safeguarding of Tanks and Containers for Entry, Cleaning, or Repair'',
      sref_summary = ''Governs atmospheric monitoring and safeguards for tank/container entry work.'',
      sref_applicability = ''Applies to gas-monitoring zones with tank or vessel entry activity.'',
      sref_externalReference = ''NFPA 326''\<rparr>"

definition STANDARDS_FOR_RECOMMENDATION :: "(string \<times> StandardReference list) list" where
  "STANDARDS_FOR_RECOMMENDATION =
    [(''tier_critical'', [OSHA_GENERAL_DUTY,
        API_RP_754,
        companySop ''Emergency Response'' ''Evacuation and notification procedure for a critical-tier zone.'']),
     (''tier_elevated'', [API_RP_754,
        companySop ''Enhanced Monitoring'' ''Increased observation cadence for an elevated-tier zone.'']),
     (''tier_watch'', [companySop ''Routine Observation'' ''Standing watch-tier logging and review cadence.'']),
     (''unauthorized_presence'', [OSHA_CONFINED_SPACE,
        companySop ''Access Control'' ''Headcount verification and unauthorized-entry response.'']),
     (''permit_status_escalated'', [OSHA_LOTO,
        OSHA_PSM,
        companySop ''Permit to Work'' ''Permit review and suspension/revocation procedure.'']),
     (''common_cause_grouped_degradation_count'', [IEC_61511,
        API_RP_754,
        companySop ''Equipment Reliability'' ''Inspection procedure for common-cause equipment degradation.'']),
     (''stale_data_fail_safe'', [IEC_61511,
        companySop ''Instrumentation Maintenance'' ''Technician dispatch procedure for stale sensor data.'']),
     (''missing_data_fail_safe'', [IEC_61511,
        companySop ''Instrumentation Maintenance'' ''Instrumentation-failure response procedure.'']),
     (''missing_location_fail_safe'', [OSHA_CONFINED_SPACE,
        companySop ''Personnel Tracking'' ''Manual headcount confirmation procedure.'']),
     (''missing_equipment_context'', [NFPA_326,
        companySop ''Equipment Status Verification'' ''Manual equipment status confirmation procedure.'']),
     (''agent_unavailable_using_last_known'', [IEC_61511,
        companySop ''System Health Monitoring'' ''Upstream system availability confirmation procedure.'']),
     (''interaction_bonus_applied'', [API_RP_754,
        companySop ''Simultaneous Operations (SIMOPS) Management'' ''Concurrent-activity review procedure.''])]"

definition standardsForRecommendation :: "string \<Rightarrow> StandardReference list" where
  "standardsForRecommendation recommendationId =
     (case map_of STANDARDS_FOR_RECOMMENDATION recommendationId of Some s \<Rightarrow> s | None \<Rightarrow> [])"

subsection \<open>The identifiers of the tables\<close>

definition TIER_IDS :: "string list" where
  "TIER_IDS = [''tier_critical'', ''tier_elevated'', ''tier_watch'']"

definition RULE_IDS :: "string list" where
  "RULE_IDS =
     [''unauthorized_presence'', ''permit_status_escalated'', ''common_cause_grouped_degradation_count'',
      ''stale_data_fail_safe'', ''missing_data_fail_safe'', ''missing_location_fail_safe'',
      ''missing_equipment_context'', ''agent_unavailable_using_last_known'', ''interaction_bonus_applied'']"

text \<open>Every table is keyed by the identifier its entry carries.\<close>

lemma tier_table:
  "map_of TIER_BASELINE ''critical'' = Some (snd (TIER_BASELINE ! 0))"
  "map_of TIER_BASELINE ''elevated'' = Some (snd (TIER_BASELINE ! 1))"
  "map_of TIER_BASELINE ''watch'' = Some (snd (TIER_BASELINE ! 2))"
  "map_of TIER_BASELINE ''normal'' = None"
  by (simp_all add: TIER_BASELINE_def)

lemma tier_table_keys: "map fst TIER_BASELINE = [''critical'', ''elevated'', ''watch'']"
  by (simp add: TIER_BASELINE_def)

lemma tier_table_ids: "map (rc_id \<circ> snd) TIER_BASELINE = TIER_IDS"
  by (simp add: TIER_BASELINE_def TIER_IDS_def)

lemma rule_table_keys: "map fst RULE_RECOMMENDATIONS = RULE_IDS"
  by (simp add: RULE_RECOMMENDATIONS_def RULE_IDS_def)

lemma rule_table_ids: "map (rc_id \<circ> snd) RULE_RECOMMENDATIONS = RULE_IDS"
  by (simp add: RULE_RECOMMENDATIONS_def RULE_IDS_def)

lemma tier_rule_ids_disjoint: "set TIER_IDS \<inter> set RULE_IDS = {}"
  by (simp add: TIER_IDS_def RULE_IDS_def)

lemma map_of_rule_Some: "map_of RULE_RECOMMENDATIONS r \<noteq> None \<longleftrightarrow> r \<in> set RULE_IDS"
  using rule_table_keys by (metis map_of_eq_None_iff list.set_map)

lemma map_of_rule_id:
  assumes "map_of RULE_RECOMMENDATIONS r = Some rec"
  shows "rc_id rec = r"
proof -
  from assms have "(r, rec) \<in> set RULE_RECOMMENDATIONS" by (rule map_of_SomeD)
  then obtain i where i: "i < length RULE_RECOMMENDATIONS" "RULE_RECOMMENDATIONS ! i = (r, rec)"
    by (auto simp: in_set_conv_nth)
  have "map fst RULE_RECOMMENDATIONS ! i = map (rc_id \<circ> snd) RULE_RECOMMENDATIONS ! i"
    by (simp add: rule_table_keys rule_table_ids)
  with i show ?thesis by simp
qed

lemma tier_baseline_id:
  assumes "map_of TIER_BASELINE t = Some rec"
  shows "rc_id rec \<in> set TIER_IDS"
proof -
  from assms have "(t, rec) \<in> set TIER_BASELINE" by (rule map_of_SomeD)
  then have "rc_id rec \<in> set (map (rc_id \<circ> snd) TIER_BASELINE)" by force
  then show ?thesis by (simp only: tier_table_ids)
qed

subsection \<open>The recommendations of a tick\<close>

definition tier_baseline :: "string \<Rightarrow> Recommendation list" where
  "tier_baseline tier = (case map_of TIER_BASELINE tier of Some b \<Rightarrow> [b] | None \<Rightarrow> [])"

definition rule_template :: "string \<Rightarrow> Recommendation" where
  "rule_template rule = the (map_of RULE_RECOMMENDATIONS rule)"

lemma rule_template_id [simp]: "r \<in> set RULE_IDS \<Longrightarrow> rc_id (rule_template r) = r"
  using map_of_rule_Some[of r] by (auto simp: rule_template_def map_of_rule_id)

lemma tier_baseline_ids: "rc_id ` set (tier_baseline t) \<subseteq> set TIER_IDS"
  by (cases "map_of TIER_BASELINE t") (auto simp: tier_baseline_def dest: tier_baseline_id)

lemma push_rule_fold:
  "foldl push_rule (tier_baseline t) rules =
     tier_baseline t @ map rule_template (js_set (filter (\<lambda>r. r \<in> set RULE_IDS) rules))"
proof (induction rules rule: rev_induct)
  case Nil
  show ?case by (simp add: js_set_def)
next
  case (snoc r rules)
  let ?seen = "filter (\<lambda>r. r \<in> set RULE_IDS) rules"
  show ?case
  proof (cases "r \<in> set RULE_IDS")
    case False
    then have "map_of RULE_RECOMMENDATIONS r = None" using map_of_rule_Some by blast
    with False snoc show ?thesis by (simp add: push_rule_def)
  next
    case True
    then have rec: "map_of RULE_RECOMMENDATIONS r = Some (rule_template r)"
      using map_of_rule_Some[of r] by (auto simp: rule_template_def)
    have "r \<notin> rc_id ` set (tier_baseline t)"
      using True tier_baseline_ids[of t] tier_rule_ids_disjoint by blast
    moreover have "r \<in> rc_id ` rule_template ` set ?seen \<longleftrightarrow> r \<in> set ?seen"
      by (force simp: image_iff)
    ultimately have dup: "(\<exists>x\<in>set (tier_baseline t @ map rule_template (js_set ?seen)). rc_id x = rc_id (rule_template r))
        \<longleftrightarrow> r \<in> set ?seen"
      using True by (auto simp: image_iff intro!: bexI[of _ "rule_template r"])
    have "foldl push_rule (tier_baseline t) (rules @ [r]) =
        push_rule (tier_baseline t @ map rule_template (js_set ?seen)) r"
      using snoc by simp
    also have "\<dots> = (if r \<in> set ?seen then tier_baseline t @ map rule_template (js_set ?seen)
        else tier_baseline t @ map rule_template (js_set ?seen) @ [rule_template r])"
      unfolding push_rule_def rec option.case using dup by simp
    finally show ?thesis using True by (simp add: js_set_append1)
  qed
qed

lemma deriveRecommendations_eq:
  "deriveRecommendations t (Some j) =
     tier_baseline t @ map rule_template (js_set (filter (\<lambda>r. r \<in> set RULE_IDS) (rj_rulesFired j)))"
  "deriveRecommendations t None = tier_baseline t"
  by (simp_all add: deriveRecommendations_def tier_baseline_def[symmetric] push_rule_fold)

lemma distinct_rule_templates: "distinct rs \<Longrightarrow> set rs \<subseteq> set RULE_IDS \<Longrightarrow> map (rc_id \<circ> rule_template) rs = rs"
  by (induction rs) auto

lemma deriveRecommendations_ids:
  "map rc_id (deriveRecommendations t (Some j)) =
     map rc_id (tier_baseline t) @ js_set (filter (\<lambda>r. r \<in> set RULE_IDS) (rj_rulesFired j))"
  by (simp add: deriveRecommendations_eq distinct_rule_templates del: map_map add: map_map[symmetric])
    (subst map_map, rule distinct_rule_templates, auto)

lemma distinct_tier_baseline: "distinct (map rc_id (tier_baseline t))"
  by (simp add: tier_baseline_def split: option.split)

lemma all_template_ids: "map rc_id ALL_RECOMMENDATION_TEMPLATES = TIER_IDS @ RULE_IDS"
  using tier_table_ids rule_table_ids by (simp add: ALL_RECOMMENDATION_TEMPLATES_def)

subsection \<open>Properties\<close>

text \<open>
  (C2) \<open>deriveRecommendations\<close> is the tier's baseline (none for normal) followed by the template
  of each distinct recognised rule in the order the rules first fired, and unrecognised rules add
  nothing; so no recommendation is repeated.
\<close>

theorem deriveRecommendations_correct:
  "deriveRecommendations t (Some j) =
     tier_baseline t @ map rule_template (js_set (filter (\<lambda>r. r \<in> set RULE_IDS) (rj_rulesFired j)))
   \<and> distinct (map rc_id (deriveRecommendations t (Some j)))"
proof
  show "deriveRecommendations t (Some j) =
     tier_baseline t @ map rule_template (js_set (filter (\<lambda>r. r \<in> set RULE_IDS) (rj_rulesFired j)))"
    by (rule deriveRecommendations_eq)
  show "distinct (map rc_id (deriveRecommendations t (Some j)))"
    unfolding deriveRecommendations_ids
    using tier_baseline_ids[of t] tier_rule_ids_disjoint distinct_tier_baseline[of t] by auto
qed

text \<open>
  The list is not in order of severity: a zone at \<open>watch\<close> with unauthorised personnel gets
  its medium baseline before the high recommendation, although the action queue's comment takes
  the list to be \<^emph>\<open>already ordered by severity\<close> and numbers priorities by position.
\<close>

theorem deriveRecommendations_not_by_severity:
  "map rc_severity (deriveRecommendations ''watch''
     (Some \<lparr>rj_schemaVersion = 1, rj_rulesFired = [''unauthorized_presence''], rj_agentContributions = [],
            rj_interactionBonusApplied = 1, rj_tierBefore = ''watch'', rj_tierAfter = ''watch''\<rparr>))
   = [''medium'', ''high'']"
  by (simp add: deriveRecommendations_def TIER_BASELINE_def RULE_RECOMMENDATIONS_def push_rule_def)

lemma sop_by_permits_eq:
  "sop_by_permits ps = Option.bind (List.find (\<lambda>p. map_of SOP_BY_PERMIT_TYPE p \<noteq> None) ps) (map_of SOP_BY_PERMIT_TYPE)"
  by (induction ps) (auto split: option.splits)

text \<open>
  A procedure reference is never invented, and an active permit decides first: with a permit
  of a known type among the active ones the answer is that type's procedure, whatever the
  recommendation; otherwise it is the recommendation's own entry or nothing.
\<close>

theorem getSopReference_priority:
  "getSopReference rid ps =
     (case List.find (\<lambda>p. p \<in> fst ` set SOP_BY_PERMIT_TYPE) ps of
        Some p \<Rightarrow> map_of SOP_BY_PERMIT_TYPE p
      | None \<Rightarrow> map_of SOP_BY_RECOMMENDATION_ID rid)"
proof -
  have "(\<lambda>p. map_of SOP_BY_PERMIT_TYPE p \<noteq> None) = (\<lambda>p. p \<in> fst ` set SOP_BY_PERMIT_TYPE)"
    by (auto simp: map_of_eq_None_iff)
  then have "getSopReference rid ps =
      (case Option.bind (List.find (\<lambda>p. p \<in> fst ` set SOP_BY_PERMIT_TYPE) ps) (map_of SOP_BY_PERMIT_TYPE) of
         Some s \<Rightarrow> Some s | None \<Rightarrow> map_of SOP_BY_RECOMMENDATION_ID rid)"
    by (simp only: getSopReference_def sop_by_permits_eq)
  moreover have "List.find (\<lambda>p. p \<in> fst ` set SOP_BY_PERMIT_TYPE) ps = Some p \<Longrightarrow>
      \<exists>s. map_of SOP_BY_PERMIT_TYPE p = Some s" for p
    using find_eq_Some_D[of _ ps p] map_of_eq_None_iff[of SOP_BY_PERMIT_TYPE p] by auto
  ultimately show ?thesis by (auto split: option.split)
qed

lemma standards_keys: "map fst STANDARDS_FOR_RECOMMENDATION =
    [''tier_critical'', ''tier_elevated'', ''tier_watch'', ''unauthorized_presence'', ''permit_status_escalated'',
     ''common_cause_grouped_degradation_count'', ''stale_data_fail_safe'', ''missing_data_fail_safe'',
     ''missing_location_fail_safe'', ''missing_equipment_context'', ''agent_unavailable_using_last_known'',
     ''interaction_bonus_applied'']"
  by (simp add: STANDARDS_FOR_RECOMMENDATION_def)

lemma standards_nonempty: "[] \<notin> snd ` set STANDARDS_FOR_RECOMMENDATION"
  by (simp add: STANDARDS_FOR_RECOMMENDATION_def)

lemma standards_of_known:
  assumes "rid \<in> set TIER_IDS \<union> set RULE_IDS"
  shows "standardsForRecommendation rid \<noteq> []"
proof -
  have "rid \<in> set (map fst STANDARDS_FOR_RECOMMENDATION)"
    using assms unfolding standards_keys by (auto simp: TIER_IDS_def RULE_IDS_def)
  then obtain ss where "map_of STANDARDS_FOR_RECOMMENDATION rid = Some ss"
    by (metis list.set_map map_of_eq_None_iff not_None_eq)
  moreover from this have "ss \<in> snd ` set STANDARDS_FOR_RECOMMENDATION" by (force dest: map_of_SomeD)
  then have "ss \<noteq> []" using standards_nonempty by blast
  ultimately show ?thesis by (simp add: standardsForRecommendation_def)
qed

end
