(* ===== verification/Action_Playbook.thy ===== *)
theory Action_Playbook
  imports Recommendations
begin

section \<open>The operator's action queue\<close>

text \<open>
  \<open>lib/actionPlaybook.ts\<close>: operational metadata per recommendation, the impact level of an
  action at one tick and the prioritised queue.
\<close>

subsection \<open>Impact levels\<close>

datatype ImpactLevel = INFORMATIONAL | LOW | MODERATE | HIGH | VERY_HIGH | CRITICAL

definition impact_name :: "ImpactLevel \<Rightarrow> string" where
  "impact_name l =
     (case l of INFORMATIONAL \<Rightarrow> ''INFORMATIONAL'' | LOW \<Rightarrow> ''LOW'' | MODERATE \<Rightarrow> ''MODERATE''
      | HIGH \<Rightarrow> ''HIGH'' | VERY_HIGH \<Rightarrow> ''VERY HIGH'' | CRITICAL \<Rightarrow> ''CRITICAL'')"

definition IMPACT_ORDER :: "ImpactLevel list" where
  "IMPACT_ORDER = [INFORMATIONAL, LOW, MODERATE, HIGH, VERY_HIGH, CRITICAL]"

definition escalate :: "ImpactLevel \<Rightarrow> ImpactLevel" where
  "escalate level =
     (let index = indexOf IMPACT_ORDER level
      in IMPACT_ORDER ! nat (min (index + 1) (int (length IMPACT_ORDER) - 1)))"

text \<open>The levels are linearly ordered by their place in \<open>IMPACT_ORDER\<close>.\<close>

definition impact_rank :: "ImpactLevel \<Rightarrow> int" where
  "impact_rank l = indexOf IMPACT_ORDER l"

lemma impact_rank_simps [simp]:
  "impact_rank INFORMATIONAL = 0" "impact_rank LOW = 1" "impact_rank MODERATE = 2"
  "impact_rank HIGH = 3" "impact_rank VERY_HIGH = 4" "impact_rank CRITICAL = 5"
  by (simp_all add: impact_rank_def indexOf_def IMPACT_ORDER_def)

lemma impact_rank_inj: "impact_rank a = impact_rank b \<Longrightarrow> a = b"
  by (cases a; cases b) simp_all

instantiation ImpactLevel :: linorder
begin

definition less_eq_ImpactLevel :: "ImpactLevel \<Rightarrow> ImpactLevel \<Rightarrow> bool" where
  "less_eq_ImpactLevel a b \<longleftrightarrow> impact_rank a \<le> impact_rank b"

definition less_ImpactLevel :: "ImpactLevel \<Rightarrow> ImpactLevel \<Rightarrow> bool" where
  "less_ImpactLevel a b \<longleftrightarrow> impact_rank a < impact_rank b"

instance
  by standard (auto simp: less_eq_ImpactLevel_def less_ImpactLevel_def intro: impact_rank_inj)

end

subsection \<open>The playbook\<close>

record ActionPlaybookEntry =
  ap_eta :: string
  ap_dependsOn :: "string list"
  ap_requiredPersonnel :: string
  ap_requiredEquipment :: "string option"
  ap_targetedFactor :: string
  ap_baseImpact :: ImpactLevel

definition ACTION_PLAYBOOK :: "(string \<times> ActionPlaybookEntry) list" where
  "ACTION_PLAYBOOK =
    [(''tier_critical'',
       \<lparr>ap_eta = ''2 minutes'', ap_dependsOn = [],
        ap_requiredPersonnel = ''Shift Supervisor, Safety Officer'', ap_requiredEquipment = None,
        ap_targetedFactor = ''tier'', ap_baseImpact = CRITICAL\<rparr>),
     (''tier_elevated'',
       \<lparr>ap_eta = ''1 minute'', ap_dependsOn = [],
        ap_requiredPersonnel = ''Control Room Operator'', ap_requiredEquipment = None,
        ap_targetedFactor = ''tier'', ap_baseImpact = HIGH\<rparr>),
     (''tier_watch'',
       \<lparr>ap_eta = ''immediate'', ap_dependsOn = [],
        ap_requiredPersonnel = ''Control Room Operator'', ap_requiredEquipment = None,
        ap_targetedFactor = ''tier'', ap_baseImpact = LOW\<rparr>),
     (''permit_status_escalated'',
       \<lparr>ap_eta = ''30 seconds'', ap_dependsOn = [],
        ap_requiredPersonnel = ''Permit Authorizing Officer'', ap_requiredEquipment = None,
        ap_targetedFactor = ''permit_intelligence'', ap_baseImpact = HIGH\<rparr>),
     (''unauthorized_presence'',
       \<lparr>ap_eta = ''3 minutes'', ap_dependsOn = [''permit_status_escalated''],
        ap_requiredPersonnel = ''Safety Officer'', ap_requiredEquipment = None,
        ap_targetedFactor = ''worker_exposure'', ap_baseImpact = HIGH\<rparr>),
     (''interaction_bonus_applied'',
       \<lparr>ap_eta = ''1 minute'', ap_dependsOn = [''permit_status_escalated''],
        ap_requiredPersonnel = ''Shift Supervisor'', ap_requiredEquipment = None,
        ap_targetedFactor = ''interaction_bonus'', ap_baseImpact = VERY_HIGH\<rparr>),
     (''common_cause_grouped_degradation_count'',
       \<lparr>ap_eta = ''10 minutes'', ap_dependsOn = [''unauthorized_presence''],
        ap_requiredPersonnel = ''Maintenance Technician'', ap_requiredEquipment = Some ''Isolation tools'',
        ap_targetedFactor = ''equipment_status'', ap_baseImpact = MODERATE\<rparr>),
     (''stale_data_fail_safe'',
       \<lparr>ap_eta = ''5 minutes'', ap_dependsOn = [],
        ap_requiredPersonnel = ''Instrumentation Technician'', ap_requiredEquipment = Some ''Calibration kit'',
        ap_targetedFactor = ''gas_risk'', ap_baseImpact = INFORMATIONAL\<rparr>),
     (''missing_data_fail_safe'',
       \<lparr>ap_eta = ''5 minutes'', ap_dependsOn = [],
        ap_requiredPersonnel = ''Instrumentation Technician'', ap_requiredEquipment = Some ''Calibration kit'',
        ap_targetedFactor = ''gas_risk'', ap_baseImpact = MODERATE\<rparr>),
     (''missing_location_fail_safe'',
       \<lparr>ap_eta = ''5 minutes'', ap_dependsOn = [],
        ap_requiredPersonnel = ''Safety Officer'', ap_requiredEquipment = None,
        ap_targetedFactor = ''worker_exposure'', ap_baseImpact = MODERATE\<rparr>),
     (''missing_equipment_context'',
       \<lparr>ap_eta = ''5 minutes'', ap_dependsOn = [''common_cause_grouped_degradation_count''],
        ap_requiredPersonnel = ''Maintenance Technician'', ap_requiredEquipment = None,
        ap_targetedFactor = ''equipment_status'', ap_baseImpact = INFORMATIONAL\<rparr>),
     (''agent_unavailable_using_last_known'',
       \<lparr>ap_eta = ''5 minutes'', ap_dependsOn = [],
        ap_requiredPersonnel = ''Control Room Operator'', ap_requiredEquipment = None,
        ap_targetedFactor = ''tier'', ap_baseImpact = INFORMATIONAL\<rparr>)]"

definition FALLBACK_ENTRY :: ActionPlaybookEntry where
  "FALLBACK_ENTRY =
       \<lparr>ap_eta = ''unspecified'', ap_dependsOn = [],
        ap_requiredPersonnel = ''Shift Supervisor'', ap_requiredEquipment = None,
        ap_targetedFactor = ''tier'', ap_baseImpact = MODERATE\<rparr>"

definition getActionMetadata :: "string \<Rightarrow> ActionPlaybookEntry" where
  "getActionMetadata recommendationId =
     (case map_of ACTION_PLAYBOOK recommendationId of Some e \<Rightarrow> e | None \<Rightarrow> FALLBACK_ENTRY)"

definition computeImpactLevel :: "ActionPlaybookEntry \<Rightarrow> RiskJustification option \<Rightarrow> ImpactLevel" where
  "computeImpactLevel entry justification =
     (let bonusApplied = hasInteractionBonus justification
      in if \<not> bonusApplied then ap_baseImpact entry
         else if ap_targetedFactor entry = ''interaction_bonus'' then escalate (ap_baseImpact entry)
         else let topTwo = map rk_agentName (take 2 (rankContributingFactors justification))
              in if ap_targetedFactor entry \<in> set topTwo then escalate (ap_baseImpact entry)
                 else ap_baseImpact entry)"

subsection \<open>The queue\<close>

record PrioritizedAction = Recommendation +
  pa_priority :: nat
  pa_metadata :: ActionPlaybookEntry
  pa_impactLevel :: ImpactLevel
  pa_dependencyLabels :: "string list"

definition queue_action ::
  "string list \<Rightarrow> RiskJustification option \<Rightarrow> nat \<Rightarrow> Recommendation \<Rightarrow> PrioritizedAction" where
  "queue_action presentIds justification index r =
     (let metadata = getActionMetadata (rc_id r)
      in \<lparr>rc_id = rc_id r, rc_text = rc_text r, rc_severity = rc_severity r,
          pa_priority = index + 1,
          pa_metadata = metadata,
          pa_impactLevel = computeImpactLevel metadata justification,
          pa_dependencyLabels = filter (\<lambda>d. d \<in> set presentIds) (ap_dependsOn metadata)\<rparr>)"

definition buildActionQueue ::
  "Recommendation list \<Rightarrow> RiskJustification option \<Rightarrow> PrioritizedAction list" where
  "buildActionQueue recommendations justification =
     (let presentIds = js_set (map rc_id recommendations)
      in map (\<lambda>(index, r). queue_action presentIds justification index r)
           (enumerate 0 recommendations))"

subsection \<open>Facts\<close>

lemma escalate_simps [simp]:
  "escalate INFORMATIONAL = LOW" "escalate LOW = MODERATE" "escalate MODERATE = HIGH"
  "escalate HIGH = VERY_HIGH" "escalate VERY_HIGH = CRITICAL" "escalate CRITICAL = CRITICAL"
  by (simp_all add: escalate_def indexOf_def IMPACT_ORDER_def)

lemma escalate_rank: "impact_rank (escalate l) = min (impact_rank l + 1) 5"
  by (cases l) simp_all

lemma playbook_keys: "set (map fst ACTION_PLAYBOOK) = set TIER_IDS \<union> set RULE_IDS"
  unfolding ACTION_PLAYBOOK_def TIER_IDS_def RULE_IDS_def by auto

lemma playbook_keys_distinct: "distinct (map fst ACTION_PLAYBOOK)"
  by (simp add: ACTION_PLAYBOOK_def)

text \<open>A rank that every dependency of the playbook decreases: its dependency graph is acyclic.\<close>

definition playbook_rank :: "string \<Rightarrow> nat" where
  "playbook_rank rid =
     (if rid = ''missing_equipment_context'' then 3
      else if rid = ''common_cause_grouped_degradation_count'' then 2
      else if rid = ''unauthorized_presence'' \<or> rid = ''interaction_bonus_applied'' then 1
      else 0)"

lemma playbook_ranked:
  "list_all (\<lambda>(k, e). list_all (\<lambda>d. playbook_rank d < playbook_rank k) (ap_dependsOn e)) ACTION_PLAYBOOK"
  by (simp add: ACTION_PLAYBOOK_def playbook_rank_def)

lemma playbook_closed:
  "list_all (\<lambda>(k, e). list_all (\<lambda>d. d \<in> set (map fst ACTION_PLAYBOOK)) (ap_dependsOn e)) ACTION_PLAYBOOK"
  unfolding playbook_keys by (simp add: ACTION_PLAYBOOK_def TIER_IDS_def RULE_IDS_def)

lemma metadata_ranked: "d \<in> set (ap_dependsOn (getActionMetadata rid)) \<Longrightarrow> playbook_rank d < playbook_rank rid"
proof (cases "map_of ACTION_PLAYBOOK rid")
  case None
  assume "d \<in> set (ap_dependsOn (getActionMetadata rid))"
  then show ?thesis by (simp add: getActionMetadata_def None FALLBACK_ENTRY_def)
next
  case (Some e)
  assume d: "d \<in> set (ap_dependsOn (getActionMetadata rid))"
  from Some have "(rid, e) \<in> set ACTION_PLAYBOOK" by (rule map_of_SomeD)
  with playbook_ranked d Some show ?thesis by (auto simp: list_all_iff getActionMetadata_def)
qed

lemma length_buildActionQueue [simp]: "length (buildActionQueue rs j) = length rs"
  by (simp add: buildActionQueue_def)

lemma nth_buildActionQueue:
  "i < length rs \<Longrightarrow> buildActionQueue rs j ! i = queue_action (js_set (map rc_id rs)) j i (rs ! i)"
  by (simp add: buildActionQueue_def nth_enumerate_eq)

lemma queue_ids: "map rc_id (buildActionQueue rs j) = map rc_id rs"
  by (rule nth_equalityI) (simp_all add: nth_buildActionQueue queue_action_def Let_def)

lemma queue_elem:
  assumes "a \<in> set (buildActionQueue rs j)"
  obtains i where "i < length rs" "a = queue_action (js_set (map rc_id rs)) j i (rs ! i)"
  using assms by (metis in_set_conv_nth length_buildActionQueue nth_buildActionQueue)

lemma queue_dependency_present:
  "a \<in> set (buildActionQueue rs j) \<Longrightarrow> d \<in> set (pa_dependencyLabels a) \<Longrightarrow> d \<in> rc_id ` set rs"
  by (erule queue_elem) (auto simp: queue_action_def Let_def)

lemma queue_dependency_ranked:
  "a \<in> set (buildActionQueue rs j) \<Longrightarrow> d \<in> set (pa_dependencyLabels a) \<Longrightarrow> playbook_rank d < playbook_rank (rc_id a)"
  by (erule queue_elem) (auto simp: queue_action_def Let_def metadata_ranked)

subsection \<open>Properties\<close>

text \<open>
  An action's impact is its authored level or exactly one rung above it (never above
  CRITICAL), and it is raised only at a tick whose fired rules contain the interaction bonus and
  only for an action aimed at the bonus itself or at one of the two highest-ranked agents.
\<close>

theorem computeImpactLevel_one_rung:
  "computeImpactLevel e j =
     (if hasInteractionBonus j \<and>
         (ap_targetedFactor e = ''interaction_bonus'' \<or>
          ap_targetedFactor e \<in> rk_agentName ` set (take 2 (rankContributingFactors j)))
      then escalate (ap_baseImpact e) else ap_baseImpact e)
   \<and> impact_rank (computeImpactLevel e j) \<le> min 5 (impact_rank (ap_baseImpact e) + 1)
   \<and> ap_baseImpact e \<le> computeImpactLevel e j"
proof -
  have "computeImpactLevel e j =
     (if hasInteractionBonus j \<and>
         (ap_targetedFactor e = ''interaction_bonus'' \<or>
          ap_targetedFactor e \<in> rk_agentName ` set (take 2 (rankContributingFactors j)))
      then escalate (ap_baseImpact e) else ap_baseImpact e)"
    by (simp add: computeImpactLevel_def Let_def)
  moreover have "ap_baseImpact e \<le> escalate (ap_baseImpact e)" "impact_rank (ap_baseImpact e) \<le> 5"
    by (cases "ap_baseImpact e"; simp add: less_eq_ImpactLevel_def)+
  ultimately show ?thesis by (simp add: escalate_rank)
qed

text \<open>
  The queue keeps every recommendation in place: position \<open>i\<close> holds recommendation \<open>i\<close> with
  priority \<open>i + 1\<close>, its playbook entry and impact, and lists exactly the playbook dependencies that
  are themselves recommended at this tick.
\<close>

theorem buildActionQueue_correct:
  "length (buildActionQueue rs j) = length rs \<and>
   map rc_id (buildActionQueue rs j) = map rc_id rs \<and>
   map rc_text (buildActionQueue rs j) = map rc_text rs \<and>
   map pa_priority (buildActionQueue rs j) = [1..<length rs + 1] \<and>
   map pa_impactLevel (buildActionQueue rs j) = map (\<lambda>r. computeImpactLevel (getActionMetadata (rc_id r)) j) rs \<and>
   map pa_dependencyLabels (buildActionQueue rs j) =
     map (\<lambda>r. filter (\<lambda>d. d \<in> rc_id ` set rs) (ap_dependsOn (getActionMetadata (rc_id r)))) rs"
  by (intro conjI nth_equalityI) (simp_all add: nth_buildActionQueue queue_action_def Let_def del: upt_Suc)

text \<open>
  The tables agree: every recommendation the engine can produce has its own playbook entry
  and at least one supporting standard, and every dependency named in the playbook is itself an
  action of the playbook of strictly smaller rank, so the authored dependencies have no cycle.
\<close>

theorem playbook_complete_and_acyclic:
  "list_all (\<lambda>r. map_of ACTION_PLAYBOOK (rc_id r) \<noteq> None \<and> standardsForRecommendation (rc_id r) \<noteq> [])
     ALL_RECOMMENDATION_TEMPLATES \<and>
   list_all (\<lambda>(k, e). list_all (\<lambda>d. map_of ACTION_PLAYBOOK d \<noteq> None \<and> playbook_rank d < playbook_rank k)
     (ap_dependsOn e)) ACTION_PLAYBOOK"
proof
  have known: "map_of ACTION_PLAYBOOK k \<noteq> None \<longleftrightarrow> k \<in> set TIER_IDS \<union> set RULE_IDS" for k
    using playbook_keys by (metis list.set_map map_of_eq_None_iff)
  have "rc_id ` set ALL_RECOMMENDATION_TEMPLATES = set TIER_IDS \<union> set RULE_IDS"
    using all_template_ids by (metis list.set_map set_append)
  then show "list_all (\<lambda>r. map_of ACTION_PLAYBOOK (rc_id r) \<noteq> None \<and> standardsForRecommendation (rc_id r) \<noteq> [])
     ALL_RECOMMENDATION_TEMPLATES"
    unfolding list_all_iff known using standards_of_known by blast
  show "list_all (\<lambda>(k, e). list_all (\<lambda>d. map_of ACTION_PLAYBOOK d \<noteq> None \<and> playbook_rank d < playbook_rank k)
     (ap_dependsOn e)) ACTION_PLAYBOOK"
    unfolding known using playbook_ranked playbook_closed unfolding playbook_keys
    by (auto simp: list_all_iff)
qed

end
