(* ===== verification/Dependency_Graph.thy ===== *)
theory Dependency_Graph
  imports Action_Playbook
begin

section \<open>Topological layering of the action queue\<close>

text \<open>
  \<open>lib/dependencyGraph.ts\<close>. \<open>levelOf\<close> is a memoised depth-first search: the memo table
  \<open>levelById\<close> is passed along and returned, and \<open>visiting\<close> holds the identifiers on the current
  path (every call restores it, so it is an argument). It terminates on cyclic input too, because
  \<open>visiting\<close> grows within the finitely many identifiers of the queue. An association list stands
  for each JavaScript \<open>Map\<close>.
\<close>

type_synonym action_map = "(string \<times> PrioritizedAction) list"
type_synonym level_memo = "(string \<times> nat) list"

definition present_deps :: "action_map \<Rightarrow> PrioritizedAction \<Rightarrow> string list" where
  "present_deps byId action = filter (\<lambda>d. map_of byId d \<noteq> None) (pa_dependencyLabels action)"

definition max_list :: "nat list \<Rightarrow> nat" where
  "max_list ls = foldr max ls 0"

function levelOf :: "action_map \<Rightarrow> string list \<Rightarrow> level_memo \<Rightarrow> string \<Rightarrow> nat \<times> level_memo"
  and levelsOf :: "action_map \<Rightarrow> string list \<Rightarrow> level_memo \<Rightarrow> string list \<Rightarrow> nat list \<times> level_memo"
where
  "levelOf byId visiting memo actionId =
     (case map_of memo actionId of
        Some l \<Rightarrow> (l, memo)
      | None \<Rightarrow>
          if actionId \<in> set visiting then (0, memo)
          else case map_of byId actionId of
                 None \<Rightarrow> (0, amap_set actionId 0 memo)
               | Some action \<Rightarrow>
                   let deps = present_deps byId action in
                   if deps = [] then (0, amap_set actionId 0 memo)
                   else let (ls, memo') = levelsOf byId (actionId # visiting) memo deps;
                            level = 1 + max_list ls
                        in (level, amap_set actionId level memo'))"
| "levelsOf byId visiting memo [] = ([], memo)"
| "levelsOf byId visiting memo (d # ds) =
     (let (l, memo1) = levelOf byId visiting memo d;
          (ls, memo2) = levelsOf byId visiting memo1 ds
      in (l # ls, memo2))"
  by pat_completeness auto
termination
proof (relation "measures
    [\<lambda>x. case x of Inl (b, v, m, a) \<Rightarrow> card (fst ` set b - set v) | Inr (b, v, m, ds) \<Rightarrow> card (fst ` set b - set v),
     \<lambda>x. case x of Inl (b, v, m, a) \<Rightarrow> 0 | Inr (b, v, m, ds) \<Rightarrow> Suc (length ds)]", goal_cases)
  case 1
  show ?case by simp
next
  case (2 byId visiting memo a action deps)
  then have "a \<in> fst ` set byId - set visiting" by (force dest: map_of_SomeD)
  then have "fst ` set byId - set (a # visiting) \<subset> fst ` set byId - set visiting" by auto
  then have "card (fst ` set byId - set (a # visiting)) < card (fst ` set byId - set visiting)"
    by (intro psubset_card_mono) auto
  then show ?case by simp
qed simp_all

declare levelOf.simps [simp del] levelsOf.simps [simp del]

record DependencyGraphLevel =
  dg_level :: nat
  dg_actions :: "PrioritizedAction list"

definition level_cmp :: "nat \<times> PrioritizedAction list \<Rightarrow> nat \<times> PrioritizedAction list \<Rightarrow> rat" where
  "level_cmp a b = of_nat (fst a) - of_nat (fst b)"

definition action_map_of :: "PrioritizedAction list \<Rightarrow> action_map" where
  "action_map_of actions = amap_of (map (\<lambda>a. (rc_id a, a)) actions)"

definition computed_levels :: "PrioritizedAction list \<Rightarrow> level_memo" where
  "computed_levels actions =
     foldl (\<lambda>memo a. snd (levelOf (action_map_of actions) [] memo (rc_id a))) [] actions"

definition action_level :: "level_memo \<Rightarrow> PrioritizedAction \<Rightarrow> nat" where
  "action_level levelById a = (case map_of levelById (rc_id a) of Some l \<Rightarrow> l | None \<Rightarrow> 0)"

definition buildDependencyLevels :: "PrioritizedAction list \<Rightarrow> DependencyGraphLevel list" where
  "buildDependencyLevels actions =
     (let levels = foldl (bucket_push (action_level (computed_levels actions))) [] actions
      in map (\<lambda>(l, as). \<lparr>dg_level = l, dg_actions = as\<rparr>) (js_sort level_cmp levels))"

subsection \<open>Facts\<close>

lemma max_list_ge: "l \<in> set ls \<Longrightarrow> l \<le> max_list ls"
  unfolding max_list_def by (induction ls) (auto simp: le_max_iff_disj)

lemma max_list_in: "ls \<noteq> [] \<Longrightarrow> max_list ls \<in> set ls"
proof (induction ls)
  case Nil
  then show ?case by simp
next
  case (Cons l ls)
  then show ?case unfolding max_list_def by (cases ls) (auto simp: max_def)
qed

text \<open>
  \<open>settled byId memo k\<close>: the memo has a level for \<open>k\<close> that is 0 without present dependencies and
  otherwise one more than the largest level of its present dependencies, all of them settled.
\<close>

definition settled :: "action_map \<Rightarrow> level_memo \<Rightarrow> string \<Rightarrow> bool" where
  "settled byId memo k \<longleftrightarrow>
     (case map_of byId k of
        None \<Rightarrow> map_of memo k = Some 0
      | Some a \<Rightarrow>
          (let deps = present_deps byId a
           in (\<forall>d\<in>set deps. map_of memo d \<noteq> None) \<and>
              map_of memo k =
                Some (if deps = [] then 0 else 1 + max_list (map (\<lambda>d. the (map_of memo d)) deps))))"

definition all_settled :: "action_map \<Rightarrow> level_memo \<Rightarrow> bool" where
  "all_settled byId memo \<longleftrightarrow> (\<forall>k. map_of memo k \<noteq> None \<longrightarrow> settled byId memo k)"

lemma settled_mono:
  assumes "settled byId m k" and "map_of m \<subseteq>\<^sub>m map_of m'"
  shows "settled byId m' k"
proof (cases "map_of byId k")
  case None
  then show ?thesis using assms by (auto simp: settled_def map_le_def dom_def)
next
  case (Some a)
  let ?deps = "present_deps byId a"
  from assms(1) Some have d: "\<forall>d\<in>set ?deps. map_of m d \<noteq> None"
    and k: "map_of m k = Some (if ?deps = [] then 0 else 1 + max_list (map (\<lambda>d. the (map_of m d)) ?deps))"
    by (auto simp: settled_def Let_def)
  have eq: "\<forall>d\<in>set ?deps. map_of m' d = map_of m d"
    using d assms(2) by (auto simp: map_le_def dom_def)
  then have maps: "map (\<lambda>d. the (map_of m' d)) ?deps = map (\<lambda>d. the (map_of m d)) ?deps" by simp
  have mk: "map_of m' k = map_of m k" using k assms(2) by (force simp: map_le_def dom_def)
  show ?thesis
    unfolding settled_def Let_def Some option.case maps mk k using d eq by simp
qed

lemma all_settled_insert:
  assumes "all_settled byId m" and "map_of m k = None" and "settled byId (amap_set k l m) k"
  shows "all_settled byId (amap_set k l m)"
  unfolding all_settled_def
proof (intro allI impI)
  fix k'
  assume k': "map_of (amap_set k l m) k' \<noteq> None"
  have le: "map_of m \<subseteq>\<^sub>m map_of (amap_set k l m)"
    using assms(2) by (auto simp: map_le_def dom_def)
  show "settled byId (amap_set k l m) k'"
  proof (cases "k' = k")
    case True
    with assms(3) show ?thesis by simp
  next
    case False
    with k' assms(1) have "settled byId m k'" by (simp add: all_settled_def)
    then show ?thesis using le by (rule settled_mono)
  qed
qed

text \<open>A queue is acyclic when some rank decreases along every present dependency.\<close>

definition ranked_by :: "(string \<Rightarrow> nat) \<Rightarrow> action_map \<Rightarrow> bool" where
  "ranked_by rank byId \<longleftrightarrow>
     (\<forall>k a. map_of byId k = Some a \<longrightarrow> (\<forall>d\<in>set (present_deps byId a). rank d < rank k))"

lemma levelOf_settles:
  shows "ranked_by rank byId \<Longrightarrow> all_settled byId memo \<Longrightarrow> (\<forall>v\<in>set visiting. rank actionId < rank v) \<Longrightarrow>
      levelOf byId visiting memo actionId = (l, memo') \<Longrightarrow>
      all_settled byId memo' \<and> map_of memo \<subseteq>\<^sub>m map_of memo' \<and> map_of memo' actionId = Some l"
    and "ranked_by rank byId \<Longrightarrow> all_settled byId memo \<Longrightarrow> (\<forall>v\<in>set visiting. \<forall>d\<in>set ds. rank d < rank v) \<Longrightarrow>
      levelsOf byId visiting memo ds = (ls, memo') \<Longrightarrow>
      all_settled byId memo' \<and> map_of memo \<subseteq>\<^sub>m map_of memo' \<and> map (\<lambda>d. map_of memo' d) ds = map Some ls"
proof (induction byId visiting memo actionId and byId visiting memo ds
    arbitrary: l memo' and ls memo' rule: levelOf_levelsOf.induct)
  case (1 byId visiting memo a)
  show ?case
  proof (cases "map_of memo a")
    case (Some x)
    with 1 show ?thesis by (simp add: levelOf.simps)
  next
    case None
    have notv: "a \<notin> set visiting" using 1(4) by auto
    show ?thesis
    proof (cases "map_of byId a")
      case None': None
      have "settled byId (amap_set a 0 memo) a" by (simp add: settled_def None')
      with 1(3,5) None None' notv show ?thesis
        by (auto simp: levelOf.simps[of byId visiting memo a] map_le_def dom_def intro: all_settled_insert)
    next
      case (Some action)
      show ?thesis
      proof (cases "present_deps byId action = []")
        case True
        then have "settled byId (amap_set a 0 memo) a" by (simp add: settled_def Some)
        with 1(3,5) None Some True notv show ?thesis
          by (auto simp: levelOf.simps[of byId visiting memo a] map_le_def dom_def intro: all_settled_insert)
      next
        case False
        let ?deps = "present_deps byId action"
        obtain ls m1 where lm: "levelsOf byId (a # visiting) memo ?deps = (ls, m1)" by fastforce
        have res: "l = 1 + max_list ls" "memo' = amap_set a (1 + max_list ls) m1"
          using 1(5) None Some False notv lm
          by (auto simp: levelOf.simps[of byId visiting memo a])
        have dr: "\<forall>d\<in>set ?deps. rank d < rank a" using 1(2) Some by (simp add: ranked_by_def)
        have "\<forall>v\<in>set (a # visiting). \<forall>d\<in>set ?deps. rank d < rank v"
          using dr 1(4) by fastforce
        with 1(1)[OF None notv Some refl False 1(2,3) _ lm]
        have ih: "all_settled byId m1" "map_of memo \<subseteq>\<^sub>m map_of m1"
          "map (\<lambda>d. map_of m1 d) ?deps = map Some ls" by blast+
        have vals: "\<forall>d\<in>set ?deps. map_of m1 d \<noteq> None"
        proof
          fix d
          assume "d \<in> set ?deps"
          then have "map_of m1 d \<in> set (map Some ls)" using ih(3) by (metis image_eqI list.set_map)
          then show "map_of m1 d \<noteq> None" by auto
        qed
        have the_vals: "map (\<lambda>d. the (map_of m1 d)) ?deps = ls"
          using arg_cong[OF ih(3), of "map the"] by (simp add: o_def)
        show ?thesis
        proof (cases "map_of m1 a")
          case None'': None
          have na: "a \<notin> set ?deps" using dr by auto
          then have "map (\<lambda>d. the (map_of (amap_set a l m1) d)) ?deps = ls"
            using the_vals by (auto intro: map_cong)
          then have "settled byId (amap_set a l m1) a"
            using Some False vals na res(1) by (auto simp: settled_def Let_def)
          then have "all_settled byId (amap_set a l m1)" using ih(1) None'' by (rule all_settled_insert[rotated 2])
          with ih(2) None'' res show ?thesis by (auto simp: map_le_def dom_def)
        next
          case (Some x)
          with ih(1) have "settled byId m1 a" by (simp add: all_settled_def)
          then have "map_of m1 a = Some l"
            using \<open>map_of byId a = Some action\<close> False the_vals res(1) by (simp add: settled_def Let_def)
          then have eq: "map_of memo' = map_of m1" using res by (simp add: map_upd_triv)
          moreover have "all_settled byId memo'"
            using ih(1) unfolding all_settled_def settled_def eq .
          ultimately show ?thesis using ih \<open>map_of m1 a = Some l\<close> by simp
        qed
      qed
    qed
  qed
next
  case (2 byId visiting memo)
  then show ?case by (simp add: levelsOf.simps)
next
  case (3 byId visiting memo d ds)
  obtain l m1 where l: "levelOf byId visiting memo d = (l, m1)" by fastforce
  obtain ls' m2 where ls': "levelsOf byId visiting m1 ds = (ls', m2)" by fastforce
  have res: "ls = l # ls'" "memo' = m2" using 3(6) l ls' by (simp_all add: levelsOf.simps)
  have a: "all_settled byId m1" "map_of memo \<subseteq>\<^sub>m map_of m1" "map_of m1 d = Some l"
    using 3(1)[OF 3(3,4) _ l] 3(5) by auto
  have b: "all_settled byId m2" "map_of m1 \<subseteq>\<^sub>m map_of m2" "map (\<lambda>d. map_of m2 d) ds = map Some ls'"
    using 3(2)[OF l[symmetric] refl 3(3) a(1) _ ls'] 3(5) by auto
  have "map_of m2 d = Some l" using a(3) b(2) by (force simp: map_le_def dom_def)
  with a b res show ?case by (auto intro: map_le_trans)
qed

lemma computed_levels_settled:
  assumes "ranked_by rank (action_map_of actions)"
  shows "all_settled (action_map_of actions) (computed_levels actions)"
    and "a \<in> set actions \<Longrightarrow> map_of (computed_levels actions) (rc_id a) \<noteq> None"
proof -
  let ?b = "action_map_of actions"
  let ?step = "\<lambda>memo a. snd (levelOf ?b [] memo (rc_id a))"
  have "all_settled ?b (foldl ?step m as) \<and> map_of m \<subseteq>\<^sub>m map_of (foldl ?step m as) \<and>
      (\<forall>a\<in>set as. map_of (foldl ?step m as) (rc_id a) \<noteq> None)"
    if "all_settled ?b m" for m and as :: "PrioritizedAction list"
    using that
  proof (induction as arbitrary: m)
    case Nil
    then show ?case by simp
  next
    case (Cons a as)
    obtain l m1 where l: "levelOf ?b [] m (rc_id a) = (l, m1)" by fastforce
    from levelOf_settles(1)[OF assms Cons.prems _ l]
    have m1: "all_settled ?b m1" "map_of m \<subseteq>\<^sub>m map_of m1" "map_of m1 (rc_id a) = Some l" by auto
    from Cons.IH[OF m1(1)] m1 l show ?case
      by (auto simp: map_le_def dom_def intro: map_le_trans)
  qed
  from this[of "[]" actions] have *: "all_settled ?b (computed_levels actions)"
    "\<forall>a\<in>set actions. map_of (computed_levels actions) (rc_id a) \<noteq> None"
    by (auto simp: computed_levels_def all_settled_def)
  show "all_settled ?b (computed_levels actions)" by (rule *)
  show "a \<in> set actions \<Longrightarrow> map_of (computed_levels actions) (rc_id a) \<noteq> None" using *(2) by blast
qed

interpretation level_order: comparator level_cmp fst "\<lambda>_. True"
  by unfold_locales (simp add: level_cmp_def)

text \<open>The rows of the result: one per level that occurs, ascending, each with its actions in queue order.\<close>

lemma buildDependencyLevels_rows:
  "buildDependencyLevels actions =
     map (\<lambda>l. \<lparr>dg_level = l, dg_actions = filter (\<lambda>a. action_level (computed_levels actions) a = l) actions\<rparr>)
       (sort (js_set (map (action_level (computed_levels actions)) actions)))"
proof -
  let ?f = "action_level (computed_levels actions)"
  let ?g = "\<lambda>l. (l, filter (\<lambda>a. ?f a = l) actions)"
  have "js_sort level_cmp (map ?g ls) = map ?g (sort ls)" for ls
  proof -
    have "js_sort level_cmp (map ?g ls) = sort_key fst (map ?g ls)"
      by (rule level_order.js_sort_key) simp
    moreover have "sort_key fst (map ?g ls) = map ?g (sort ls)"
    proof (rule properties_for_sort_key)
      show "mset (map ?g (sort ls)) = mset (map ?g ls)" by simp
      show "sorted (map fst (map ?g (sort ls)))" by (simp add: o_def)
      fix x
      assume "x \<in> set (map ?g (sort ls))"
      have "filter (\<lambda>y. fst x = fst y) (map ?g (sort ls)) = map ?g (filter (\<lambda>l. fst x = l) (sort ls))"
        by (simp add: filter_map o_def)
      also have "\<dots> = map ?g (filter (\<lambda>l. fst x = l) ls)"
        using sort_key_stable[of "\<lambda>l. l" "fst x" ls] by (simp add: eq_commute)
      also have "\<dots> = filter (\<lambda>y. fst x = fst y) (map ?g ls)" by (simp add: filter_map o_def)
      finally show "filter (\<lambda>y. fst x = fst y) (map ?g (sort ls)) = filter (\<lambda>y. fst x = fst y) (map ?g ls)" .
    qed
    ultimately show ?thesis by simp
  qed
  then show ?thesis by (simp add: buildDependencyLevels_def bucket_fold o_def)
qed

lemma buildDependencyLevels_perm: "mset (concat (map dg_actions (buildDependencyLevels actions))) = mset actions"
  unfolding buildDependencyLevels_rows by (simp add: o_def) (rule mset_concat_groups; simp)

lemma buildDependencyLevels_ascending: "sorted_wrt (<) (map dg_level (buildDependencyLevels actions))"
  by (simp add: buildDependencyLevels_rows o_def strict_sorted_iff)

text \<open>The level under which an identifier is shown, and what a correct layering is.\<close>

definition shown_level :: "DependencyGraphLevel list \<Rightarrow> string \<Rightarrow> nat" where
  "shown_level levels k =
     (case List.find (\<lambda>lv. k \<in> rc_id ` set (dg_actions lv)) levels of Some lv \<Rightarrow> dg_level lv | None \<Rightarrow> 0)"

definition layered :: "DependencyGraphLevel list \<Rightarrow> bool" where
  "layered levels \<longleftrightarrow>
     (\<forall>lv\<in>set levels. \<forall>a\<in>set (dg_actions lv).
        (\<forall>d\<in>set (pa_dependencyLabels a). \<exists>lv'\<in>set levels. d \<in> rc_id ` set (dg_actions lv')) \<and>
        dg_level lv =
          (if pa_dependencyLabels a = [] then 0
           else 1 + max_list (map (shown_level levels) (pa_dependencyLabels a))))"

lemma shown_level_eq:
  assumes "a \<in> set actions"
  shows "shown_level (buildDependencyLevels actions) (rc_id a) = action_level (computed_levels actions) a"
proof -
  let ?L = "buildDependencyLevels actions"
  have ids: "action_level m b = action_level m a" if "rc_id b = rc_id a" for b m
    using that by (simp add: action_level_def)
  have row: "lv \<in> set ?L \<Longrightarrow> rc_id a \<in> rc_id ` set (dg_actions lv) \<Longrightarrow> dg_level lv = action_level (computed_levels actions) a" for lv
    by (auto simp: buildDependencyLevels_rows) (metis ids)
  have "\<exists>lv\<in>set ?L. rc_id a \<in> rc_id ` set (dg_actions lv)"
    using assms by (force simp: buildDependencyLevels_rows)
  then obtain lv where lv: "List.find (\<lambda>lv. rc_id a \<in> rc_id ` set (dg_actions lv)) ?L = Some lv"
    by (metis (no_types, lifting) find_eq_None_iff not_Some_eq)
  from find_eq_Some_D[OF this] row show ?thesis by (simp add: shown_level_def lv)
qed

lemma queue_lookup:
  assumes "map_of (action_map_of (buildActionQueue rs j)) k = Some a"
  shows "a \<in> set (buildActionQueue rs j) \<and> rc_id a = k"
  using map_of_SomeD[OF assms[unfolded action_map_of_def map_of_amap_of]] by auto

lemma queue_lookup_some:
  "map_of (action_map_of (buildActionQueue rs j)) k \<noteq> None \<longleftrightarrow> k \<in> rc_id ` set rs"
proof -
  have "map_of (action_map_of (buildActionQueue rs j)) k \<noteq> None \<longleftrightarrow> k \<in> rc_id ` set (buildActionQueue rs j)"
    by (simp add: action_map_of_def map_of_amap_of map_of_eq_None_iff image_comp flip: ex_in_conv not_None_eq)
  then show ?thesis using queue_ids[of rs j] by (metis list.set_map)
qed

lemma queue_present_deps:
  "a \<in> set (buildActionQueue rs j) \<Longrightarrow> present_deps (action_map_of (buildActionQueue rs j)) a = pa_dependencyLabels a"
  unfolding present_deps_def queue_lookup_some by (auto simp: filter_id_conv dest: queue_dependency_present)

lemma queue_same_deps:
  "a \<in> set (buildActionQueue rs j) \<Longrightarrow> b \<in> set (buildActionQueue rs j) \<Longrightarrow> rc_id a = rc_id b \<Longrightarrow>
     pa_dependencyLabels a = pa_dependencyLabels b"
  by (elim queue_elem) (simp add: queue_action_def Let_def)

lemma queue_ranked: "ranked_by playbook_rank (action_map_of (buildActionQueue rs j))"
  unfolding ranked_by_def
  using queue_lookup queue_present_deps queue_dependency_ranked by metis

lemma queue_action_level:
  assumes a: "a \<in> set (buildActionQueue rs j)"
  defines "q \<equiv> buildActionQueue rs j"
  shows "action_level (computed_levels q) a =
     (if pa_dependencyLabels a = [] then 0
      else 1 + max_list (map (\<lambda>d. the (map_of (computed_levels q) d)) (pa_dependencyLabels a)))"
proof -
  have "rc_id a \<in> rc_id ` set rs" using a queue_ids[of rs j] by (metis image_eqI list.set_map)
  then obtain b where b: "map_of (action_map_of q) (rc_id a) = Some b"
    using queue_lookup_some[of rs j] by (auto simp: q_def)
  have bq: "b \<in> set (buildActionQueue rs j)" "rc_id b = rc_id a" using queue_lookup b by (auto simp: q_def)
  have deps: "present_deps (action_map_of q) b = pa_dependencyLabels a"
    using queue_present_deps[OF bq(1)] queue_same_deps[OF a bq(1)] bq(2) by (simp add: q_def)
  have "settled (action_map_of q) (computed_levels q) (rc_id a)"
    using computed_levels_settled[OF queue_ranked] a by (simp add: all_settled_def q_def)
  then show ?thesis by (simp add: settled_def b deps Let_def action_level_def)
qed

lemma queue_dependency_level:
  assumes "a \<in> set (buildActionQueue rs j)" and "d \<in> set (pa_dependencyLabels a)"
  defines "q \<equiv> buildActionQueue rs j"
  shows "d \<in> rc_id ` set q"
    and "shown_level (buildDependencyLevels q) d = the (map_of (computed_levels q) d)"
proof -
  show d: "d \<in> rc_id ` set q"
    using queue_dependency_present[OF assms(1,2)] queue_ids[of rs j] unfolding q_def by (metis list.set_map)
  then obtain b where b: "b \<in> set q" "d = rc_id b" by auto
  have "map_of (computed_levels q) (rc_id b) \<noteq> None"
    using computed_levels_settled(2)[OF queue_ranked] b(1) by (simp add: q_def)
  then show "shown_level (buildDependencyLevels q) d = the (map_of (computed_levels q) d)"
    using shown_level_eq[OF b(1)] b(2) by (auto simp: action_level_def)
qed

subsection \<open>Properties\<close>

text \<open>
  (C3) On every queue the playbook can produce, the dependency graph is a topological layering:
  each action of the queue occurs in exactly one row (as often as in the queue), the rows ascend
  strictly, every dependency of an action is itself shown, and the row of an action is 0 without
  dependencies and otherwise one more than the deepest row among its dependencies.
\<close>

theorem buildDependencyLevels_layered:
  "mset (concat (map dg_actions (buildDependencyLevels (buildActionQueue rs j)))) = mset (buildActionQueue rs j) \<and>
   sorted_wrt (<) (map dg_level (buildDependencyLevels (buildActionQueue rs j))) \<and>
   layered (buildDependencyLevels (buildActionQueue rs j))"
proof (intro conjI)
  let ?q = "buildActionQueue rs j"
  show "layered (buildDependencyLevels ?q)"
    unfolding layered_def
  proof (intro ballI conjI)
    fix lv a
    assume lv: "lv \<in> set (buildDependencyLevels ?q)" and a: "a \<in> set (dg_actions lv)"
    then have aq: "a \<in> set ?q" and l: "dg_level lv = action_level (computed_levels ?q) a"
      by (auto simp: buildDependencyLevels_rows)
    show "dg_level lv = (if pa_dependencyLabels a = [] then 0
        else 1 + max_list (map (shown_level (buildDependencyLevels ?q)) (pa_dependencyLabels a)))"
      unfolding l queue_action_level[OF aq] using queue_dependency_level(2)[OF aq] by (simp cong: map_cong)
    fix d
    assume "d \<in> set (pa_dependencyLabels a)"
    from queue_dependency_level(1)[OF aq this] obtain b where "b \<in> set ?q" "d = rc_id b" by auto
    then show "\<exists>lv'\<in>set (buildDependencyLevels ?q). d \<in> rc_id ` set (dg_actions lv')"
      by (force simp: buildDependencyLevels_rows)
  qed
qed (rule buildDependencyLevels_perm buildDependencyLevels_ascending)+

end
