(* ===== verification/Decision.thy ===== *)
theory Decision
  imports Recommendations Timeline
begin

section \<open>Decisions: comparison, stability, confidence and change\<close>

text \<open>
  \<open>lib/decisionComparison.ts\<close>, \<open>lib/demoMode.ts\<close>, \<open>lib/confidenceBreakdown.ts\<close>,
  \<open>lib/decisionStability.ts\<close>, \<open>lib/changeSummary.ts\<close> and \<open>lib/decisionWorkspace.ts\<close>. The three
  endpoints that \<open>findScenarioKeyMoment\<close> awaits are arguments returning a sum (\<open>Inl\<close> is a rejected
  promise); \<open>Promise.all\<close> rejects when one of its promises does. Optional values of the code
  (\<open>null\<close>, \<open>undefined\<close>) are options.
\<close>

subsection \<open>lib/decisionComparison.ts\<close>

record ComparisonMoment =
  cm_zoneId :: string
  cm_timestamp :: string
  cm_compound :: "CompoundVerdict option"
  cm_counterfactual :: CounterfactualVerdict

definition is_miss :: "CompoundVerdict \<Rightarrow> CounterfactualVerdict \<Rightarrow> bool" where
  "is_miss compound counterfactual \<longleftrightarrow> cv_tier compound \<noteq> ''normal'' \<and> \<not> cfv_alert counterfactual"

definition moment_misses :: "ComparisonMoment \<Rightarrow> bool" where
  "moment_misses m = (case cm_compound m of None \<Rightarrow> False | Some c \<Rightarrow> is_miss c (cm_counterfactual m))"

definition moment_score :: "ComparisonMoment \<Rightarrow> number" where
  "moment_score m = (case cm_compound m of None \<Rightarrow> 0 | Some c \<Rightarrow> cv_compound_risk_score c)"

definition better_moment :: "ComparisonMoment \<Rightarrow> ComparisonMoment \<Rightarrow> ComparisonMoment" where
  "better_moment best current = (if moment_score current > moment_score best then current else best)"

definition pickComparisonMoment :: "ComparisonMoment list \<Rightarrow> ComparisonMoment option" where
  "pickComparisonMoment moments =
     (let withCompound = filter (\<lambda>m. cm_compound m \<noteq> None) moments
      in if withCompound = [] then None
         else let misses = filter moment_misses withCompound;
                  pool = (if misses \<noteq> [] then misses else withCompound)
              in reduce1 better_moment pool)"

definition explainComparison ::
  "CompoundVerdict option \<Rightarrow> CounterfactualVerdict \<Rightarrow> RiskJustification option \<Rightarrow> string" where
  "explainComparison compound counterfactual justification =
     (case compound of
        None \<Rightarrow> ''No persisted compound assessment exists for this exact tick.''
      | Some c \<Rightarrow>
          if \<not> is_miss c counterfactual
          then ''Both systems agree at this tick - no divergence to explain.''
          else if hasInteractionBonus justification
          then ''Fusion multiplied the base risk by a ''
               @ toFixed (rj_interactionBonusApplied (the justification)) 2 @ ''x ''
               @ ''interaction bonus - multiple independent risk factors (e.g. a live permit alongside a rising ''
               @ ''sensor reading) are active at once, something a single-sensor threshold has no concept of.''
          else (case cfv_highest_ratio counterfactual of
                  Some ratio \<Rightarrow>
                    ''The naive baseline's highest sensor reading was still only ''
                    @ toFixed (nmul ratio 100) 0 @ ''% ''
                    @ ''of its hard alarm threshold, so it stays clear. The compound engine's saturating risk curve, ''
                    @ ''cross-agent fusion, and tiering hysteresis together already classify this as elevated - it doesn't ''
                    @ ''need a sensor to cross 100% of one threshold to recognize danger.''
                | None \<Rightarrow>
                    ''The naive baseline has no sensor data to evaluate, so it defaults to clear by construction.''))"

subsection \<open>lib/demoMode.ts\<close>

record DemoKeyMoment =
  dk_zoneId :: string
  dk_timestamp :: string
  dk_assessmentId :: string

text \<open>\<open>Promise.all\<close> over an array.\<close>

fun promise_all :: "('e + 'a) list \<Rightarrow> 'e + 'a list" where
  "promise_all [] = Inr []"
| "promise_all (Inl e # ps) = Inl e"
| "promise_all (Inr x # ps) = (case promise_all ps of Inl e \<Rightarrow> Inl e | Inr xs \<Rightarrow> Inr (x # xs))"

definition in_window :: "host_zone \<Rightarrow> ScenarioSummary \<Rightarrow> RiskAssessment \<Rightarrow> bool" where
  "in_window hz scenario item =
     (let t = Date_getTime hz (ra_timestamp item)
      in ms_le (Date_getTime hz (ss_start_time scenario)) t \<and> ms_le t (Date_getTime hz (ss_end_time scenario)))"

definition tick_pairs ::
  "host_zone \<Rightarrow> ScenarioSummary \<Rightarrow> (string \<times> RiskAssessment list) list \<Rightarrow> DemoKeyMoment list" where
  "tick_pairs hz scenario zoneHistories =
     concat (map (\<lambda>(zoneId, items).
       map (\<lambda>item. \<lparr>dk_zoneId = zoneId, dk_timestamp = ra_timestamp item, dk_assessmentId = ra_assessment_id item\<rparr>)
         (filter (in_window hz scenario) items)) zoneHistories)"

definition moment_of_pair ::
  "(string \<Rightarrow> string \<Rightarrow> 'e + CounterfactualComparison) \<Rightarrow> DemoKeyMoment \<Rightarrow> 'e + ComparisonMoment" where
  "moment_of_pair getCounterfactualComparison p =
     (case getCounterfactualComparison (dk_zoneId p) (dk_timestamp p) of
        Inl e \<Rightarrow> Inl e
      | Inr comparison \<Rightarrow>
          Inr \<lparr>cm_zoneId = dk_zoneId p, cm_timestamp = dk_timestamp p,
               cm_compound = cc_compound comparison, cm_counterfactual = cc_counterfactual comparison\<rparr>)"

definition choose_key_moment :: "DemoKeyMoment list \<Rightarrow> ComparisonMoment list \<Rightarrow> DemoKeyMoment option" where
  "choose_key_moment tickPairs moments =
     (case pickComparisonMoment moments of
        None \<Rightarrow> None
      | Some chosen \<Rightarrow>
          (case List.find (\<lambda>p. dk_zoneId p = cm_zoneId chosen \<and> dk_timestamp p = cm_timestamp chosen) tickPairs of
             None \<Rightarrow> None
           | Some p \<Rightarrow>
               if dk_assessmentId p = [] then None
               else Some \<lparr>dk_zoneId = cm_zoneId chosen, dk_timestamp = cm_timestamp chosen,
                          dk_assessmentId = dk_assessmentId p\<rparr>))"

definition findScenarioKeyMoment ::
  "host_zone \<Rightarrow> (string \<Rightarrow> 'e + ScenarioSummary) \<Rightarrow> (string \<Rightarrow> nat \<Rightarrow> 'e + RiskAssessment list) \<Rightarrow>
   (string \<Rightarrow> string \<Rightarrow> 'e + CounterfactualComparison) \<Rightarrow> string \<Rightarrow> 'e + DemoKeyMoment option" where
  "findScenarioKeyMoment hz getScenario getRiskHistory getCounterfactualComparison scenarioKey =
     (case getScenario scenarioKey of
        Inl e \<Rightarrow> Inl e
      | Inr scenario \<Rightarrow>
          (case promise_all (map (\<lambda>zoneId. map_sum (\<lambda>e. e) (\<lambda>items. (zoneId, items)) (getRiskHistory zoneId 500))
                               (ss_zone_ids scenario)) of
             Inl e \<Rightarrow> Inl e
           | Inr zoneHistories \<Rightarrow>
               let tickPairs = tick_pairs hz scenario zoneHistories
               in (case promise_all (map (moment_of_pair getCounterfactualComparison) tickPairs) of
                     Inl e \<Rightarrow> Inl e
                   | Inr moments \<Rightarrow> Inr (choose_key_moment tickPairs moments))))"

subsection \<open>lib/confidenceBreakdown.ts\<close>

datatype ConfidenceFactor =
    Percentage (cf_label: string) (cf_value: number) (cf_source: string)
  | Categorical (cf_label: string) (cf_categoryLabel: string) (cf_source: string)
  | Unavailable (cf_label: string) (cf_reason: string)

definition MISSING_OR_STALE_RULES :: "string list" where
  "MISSING_OR_STALE_RULES = [''missing_data_fail_safe'', ''stale_data_fail_safe'']"

definition gas_risk_confidence :: "RiskJustification option \<Rightarrow> number option" where
  "gas_risk_confidence justification =
     Option.bind justification (\<lambda>j. map_option ac_confidence (map_of (rj_agentContributions j) ''gas_risk''))"

definition historical_factor :: "IncidentMatch option \<Rightarrow> ForesightResult option \<Rightarrow> ConfidenceFactor" where
  "historical_factor bestHistoricalMatch foresight =
     (case foresight of
        Some f \<Rightarrow> Percentage ''Historical Agreement'' (fc_historical_agreement (fr_confidence f))
                    ''Operational Foresight's own confidence model (historical_agreement).''
      | None \<Rightarrow>
          (case bestHistoricalMatch of
             Some m \<Rightarrow> Percentage ''Historical Agreement'' (im_similarity m)
                         (''Historical Intelligence similarity score to '' @ quoted (im_incident_name m) @ ''.'')
           | None \<Rightarrow> Unavailable ''Historical Agreement'' ''No historical match found for this tick.''))"

definition sensor_factor :: "RiskJustification option \<Rightarrow> ConfidenceFactor" where
  "sensor_factor justification =
     (case gas_risk_confidence justification of
        Some c \<Rightarrow> Percentage ''Sensor Quality'' c ''Gas Risk agent's own confidence this tick.''
      | None \<Rightarrow> Unavailable ''Sensor Quality'' ''Gas Risk did not contribute to this assessment.'')"

definition completeness_factor :: "RiskJustification option \<Rightarrow> ForesightResult option \<Rightarrow> ConfidenceFactor" where
  "completeness_factor justification foresight =
     (case foresight of
        Some f \<Rightarrow> Percentage ''Data Completeness'' (fc_data_completeness (fr_confidence f))
                    ''Operational Foresight's own confidence model (data_completeness).''
      | None \<Rightarrow>
          (case justification of
             None \<Rightarrow> Unavailable ''Data Completeness'' ''No justification recorded for this tick.''
           | Some j \<Rightarrow>
               if \<not> list_ex (\<lambda>rule. rule \<in> set MISSING_OR_STALE_RULES) (rj_rulesFired j)
               then Percentage ''Data Completeness'' 1 ''No missing/stale-data rule fired this tick.''
               else (case gas_risk_confidence justification of
                       Some c \<Rightarrow> Percentage ''Data Completeness'' c
                                   ''Gas Risk's own confidence under its missing/stale-data fail-safe.''
                     | None \<Rightarrow> Unavailable ''Data Completeness''
                         ''A missing/stale-data rule fired but no agent confidence is available to trace it to.'')))"

definition forecast_factor :: "ForesightResult option \<Rightarrow> ConfidenceFactor" where
  "forecast_factor foresight =
     (case foresight of
        Some f \<Rightarrow> Percentage ''Forecast Agreement'' (fc_trajectory_similarity (fr_confidence f))
                    ''Operational Foresight's own confidence model (trajectory_similarity).''
      | None \<Rightarrow> Unavailable ''Forecast Agreement'' ''No forecast computed for this tick.'')"

definition stability_factor :: "ForesightResult option \<Rightarrow> ConfidenceFactor" where
  "stability_factor foresight =
     (case foresight of
        Some f \<Rightarrow> Categorical ''Operational Stability'' (ew_category (fr_early_warning f))
                    ''Operational Foresight's early-warning signal (categorical, not a percentage).''
      | None \<Rightarrow> Unavailable ''Operational Stability'' ''No forecast computed for this tick.'')"

definition buildConfidenceBreakdown ::
  "RiskAssessment \<Rightarrow> RiskJustification option \<Rightarrow> IncidentMatch option \<Rightarrow> ForesightResult option \<Rightarrow>
   ConfidenceFactor list" where
  "buildConfidenceBreakdown assessment justification bestHistoricalMatch foresight =
     [Percentage ''Overall'' (ra_confidence assessment)
        ''RiskAssessment.confidence - Fusion's minimum-across-agents aggregation.'',
      historical_factor bestHistoricalMatch foresight,
      sensor_factor justification,
      completeness_factor justification foresight,
      forecast_factor foresight,
      stability_factor foresight]"

subsection \<open>lib/decisionStability.ts\<close>

record RecommendationStability =
  st_unchangedForTicks :: nat
  st_oscillationDetected :: bool
  st_oscillationReversals :: nat
  st_historicalAgreement :: "ConfidenceFactor option"
  st_forecastAgreement :: "ConfidenceFactor option"
  st_reason :: string

definition head_option :: "'a list \<Rightarrow> 'a option" where
  "head_option xs = (case xs of [] \<Rightarrow> None | x # _ \<Rightarrow> Some x)"

definition topRecommendationId :: "RiskAssessment \<Rightarrow> string option" where
  "topRecommendationId assessment =
     (let justification = parseJustification (ra_justification assessment);
          recommendations = deriveRecommendations (ra_tier assessment) justification
      in map_option rc_id (head_option recommendations))"

fun count_until_change :: "string option \<Rightarrow> nat \<Rightarrow> RiskAssessment list \<Rightarrow> nat" where
  "count_until_change latestId n [] = n"
| "count_until_change latestId n (a # as) =
     (if topRecommendationId a \<noteq> latestId then n else count_until_change latestId (Suc n) as)"

definition countUnchangedRecommendationTicks :: "RiskAssessment list \<Rightarrow> nat" where
  "countUnchangedRecommendationTicks timelineNewestFirst =
     (case timelineNewestFirst of
        [] \<Rightarrow> 0
      | newest # _ \<Rightarrow> count_until_change (topRecommendationId newest) 0 timelineNewestFirst)"

fun count_reversals :: "nat \<Rightarrow> int \<Rightarrow> int list \<Rightarrow> nat" where
  "count_reversals reversals lastDirection (a # b # ranks) =
     (let diff = b - a;
          direction = (if diff > 0 then 1 else if diff < 0 then -1 else 0)
      in if direction \<noteq> 0
         then count_reversals (if lastDirection \<noteq> 0 \<and> direction \<noteq> lastDirection then Suc reversals else reversals)
                direction (b # ranks)
         else count_reversals reversals lastDirection (b # ranks))"
| "count_reversals reversals lastDirection ranks = reversals"

definition detectOscillation :: "RiskAssessment list \<Rightarrow> bool \<times> nat" where
  "detectOscillation timelineNewestFirst =
     (let ranks = map (\<lambda>a. tierRank (ra_tier a)) (rev timelineNewestFirst);
          reversals = count_reversals 0 0 ranks
      in (reversals \<ge> 2, reversals))"

definition findFactor :: "ConfidenceFactor list \<Rightarrow> string \<Rightarrow> ConfidenceFactor option" where
  "findFactor factors label = List.find (\<lambda>f. cf_label f = label) factors"

definition describeFactor :: "ConfidenceFactor option \<Rightarrow> string" where
  "describeFactor factor =
     (case factor of
        None \<Rightarrow> ''unavailable''
      | Some (Percentage _ value _) \<Rightarrow> toFixed (nmul value 100) 0 @ ''%''
      | Some (Categorical _ categoryLabel _) \<Rightarrow> categoryLabel
      | Some (Unavailable _ _) \<Rightarrow> ''unavailable'')"

definition buildRecommendationStability ::
  "RiskAssessment list \<Rightarrow> ConfidenceFactor list \<Rightarrow> RecommendationStability" where
  "buildRecommendationStability timelineNewestFirst confidenceFactors =
     (let unchangedForTicks = countUnchangedRecommendationTicks timelineNewestFirst;
          (detected, reversals) = detectOscillation timelineNewestFirst;
          historicalAgreement = findFactor confidenceFactors ''Historical Agreement'';
          forecastAgreement = findFactor confidenceFactors ''Forecast Agreement'';
          reason =
            (if unchangedForTicks > 1
             then ''The tier and top recommendation have held steady for '' @ show_nat unchangedForTicks
                  @ '' consecutive ticks, '' @ ''with '' @ describeFactor historicalAgreement
                  @ '' historical agreement and '' @ describeFactor forecastAgreement
                  @ '' forecast agreement over that window''
                  @ (if detected then '', despite some back-and-forth in severity'' else '' and no oscillation'') @ ''.''
             else ''This is the first tick at this recommendation - no stability history yet.'')
      in \<lparr>st_unchangedForTicks = unchangedForTicks,
          st_oscillationDetected = detected,
          st_oscillationReversals = reversals,
          st_historicalAgreement = historicalAgreement,
          st_forecastAgreement = forecastAgreement,
          st_reason = reason\<rparr>)"

subsection \<open>lib/changeSummary.ts\<close>

record ChangeSummaryEntry =
  ch_label :: string
  ch_before :: string
  ch_after :: string

record ChangeSummaryInput =
  ci_previousAssessment :: "RiskAssessment option"
  ci_currentAssessment :: RiskAssessment
  ci_previousBestMatch :: "IncidentMatch option"
  ci_currentBestMatch :: "IncidentMatch option"
  ci_previousForesight :: "ForesightResult option"
  ci_currentForesight :: "ForesightResult option"

definition MEANINGFUL_SCORE_DELTA :: number where "MEANINGFUL_SCORE_DELTA = 5"
definition MEANINGFUL_SIMILARITY_DELTA :: number where "MEANINGFUL_SIMILARITY_DELTA = fl (5 / 100)"
definition MEANINGFUL_AGENT_RISK_DELTA :: number where "MEANINGFUL_AGENT_RISK_DELTA = 5"
definition PERMIT_ESCALATION_RULE :: string where "PERMIT_ESCALATION_RULE = ''permit_status_escalated''"

definition change_entry :: "bool \<Rightarrow> string \<Rightarrow> string \<Rightarrow> string \<Rightarrow> ChangeSummaryEntry list" where
  "change_entry changed label before after =
     (if changed then [\<lparr>ch_label = label, ch_before = before, ch_after = after\<rparr>] else [])"

definition moved_by :: "number \<Rightarrow> number \<Rightarrow> number \<Rightarrow> bool" where
  "moved_by delta before after \<longleftrightarrow> \<bar>nsub after before\<bar> \<ge> delta"

definition both_moved_by :: "number \<Rightarrow> number option \<Rightarrow> number option \<Rightarrow> bool" where
  "both_moved_by delta before after \<longleftrightarrow>
     (case (before, after) of (Some p, Some c) \<Rightarrow> moved_by delta p c | _ \<Rightarrow> False)"

definition risk_text :: "RiskAssessment \<Rightarrow> string" where
  "risk_text a = toUpperCase (ra_tier a) @ '' ('' @ toFixed (ra_compound_risk_score a) 1 @ '')''"

definition top_recommendation :: "RiskAssessment \<Rightarrow> Recommendation option" where
  "top_recommendation a =
     head_option (deriveRecommendations (ra_tier a) (parseJustification (ra_justification a)))"

definition recommendation_text :: "Recommendation option \<Rightarrow> string" where
  "recommendation_text r = (case r of Some rec \<Rightarrow> rc_text rec | None \<Rightarrow> ''No recommended action'')"

definition worker_risk :: "RiskAssessment \<Rightarrow> number option" where
  "worker_risk a =
     Option.bind (parseJustification (ra_justification a))
       (\<lambda>j. map_option ac_risk (map_of (rj_agentContributions j) ''worker_exposure''))"

definition permit_flag :: "RiskAssessment \<Rightarrow> bool" where
  "permit_flag a =
     (case parseJustification (ra_justification a) of
        None \<Rightarrow> False | Some j \<Rightarrow> PERMIT_ESCALATION_RULE \<in> set (rj_rulesFired j))"

definition permit_text :: "bool \<Rightarrow> string" where
  "permit_text flag = (if flag then ''Escalation flagged'' else ''No escalation'')"

definition match_text :: "IncidentMatch option \<Rightarrow> string" where
  "match_text m =
     (case m of
        Some x \<Rightarrow> im_incident_name x @ '' ('' @ toFixed (nmul (im_similarity x) 100) 0 @ ''%)''
      | None \<Rightarrow> ''No comparable incident'')"

definition warning_category :: "ForesightResult option \<Rightarrow> string option" where
  "warning_category f = map_option (\<lambda>x. ew_category (fr_early_warning x)) f"

definition forecast_text :: "ForesightResult option \<Rightarrow> string" where
  "forecast_text f = (case warning_category f of Some c \<Rightarrow> c | None \<Rightarrow> ''No forecast'')"

definition buildChangeSummary :: "ChangeSummaryInput \<Rightarrow> ChangeSummaryEntry list" where
  "buildChangeSummary input =
     (case ci_previousAssessment input of
        None \<Rightarrow> []
      | Some prev \<Rightarrow>
          let cur = ci_currentAssessment input;
              tierChanged = (ra_tier prev \<noteq> ra_tier cur);
              scoreChanged = moved_by MEANINGFUL_SCORE_DELTA (ra_compound_risk_score prev) (ra_compound_risk_score cur);
              previousTopRec = top_recommendation prev;
              currentTopRec = top_recommendation cur;
              workerChanged = both_moved_by MEANINGFUL_AGENT_RISK_DELTA (worker_risk prev) (worker_risk cur);
              nameChanged =
                (map_option im_incident_name (ci_previousBestMatch input)
                 \<noteq> map_option im_incident_name (ci_currentBestMatch input));
              similarityChanged =
                both_moved_by MEANINGFUL_SIMILARITY_DELTA (map_option im_similarity (ci_previousBestMatch input))
                  (map_option im_similarity (ci_currentBestMatch input))
          in change_entry (tierChanged \<or> scoreChanged) ''Risk'' (risk_text prev) (risk_text cur)
             @ change_entry (map_option rc_id previousTopRec \<noteq> map_option rc_id currentTopRec) ''Recommendation''
                 (recommendation_text previousTopRec) (recommendation_text currentTopRec)
             @ change_entry workerChanged ''Worker Exposure''
                 (toFixed (the (worker_risk prev)) 1) (toFixed (the (worker_risk cur)) 1)
             @ change_entry (permit_flag prev \<noteq> permit_flag cur) ''Permit''
                 (permit_text (permit_flag prev)) (permit_text (permit_flag cur))
             @ change_entry (nameChanged \<or> similarityChanged) ''Historical''
                 (match_text (ci_previousBestMatch input)) (match_text (ci_currentBestMatch input))
             @ change_entry (warning_category (ci_previousForesight input) \<noteq> warning_category (ci_currentForesight input))
                 ''Forecast'' (forecast_text (ci_previousForesight input)) (forecast_text (ci_currentForesight input)))"

subsection \<open>lib/decisionWorkspace.ts\<close>

datatype WorkspaceStageId =
  Situation | Understand | Evidence | Historical | Forecast | Business_Impact | Options
  | Recommended_Action | Approval | Monitoring | Export

definition stage_id_name :: "WorkspaceStageId \<Rightarrow> string" where
  "stage_id_name s =
     (case s of Situation \<Rightarrow> ''situation'' | Understand \<Rightarrow> ''understand'' | Evidence \<Rightarrow> ''evidence''
      | Historical \<Rightarrow> ''historical'' | Forecast \<Rightarrow> ''forecast'' | Business_Impact \<Rightarrow> ''business_impact''
      | Options \<Rightarrow> ''options'' | Recommended_Action \<Rightarrow> ''recommended_action'' | Approval \<Rightarrow> ''approval''
      | Monitoring \<Rightarrow> ''monitoring'' | Export \<Rightarrow> ''export'')"

record WorkspaceStage =
  ws_id :: WorkspaceStageId
  ws_label :: string

definition WORKSPACE_STAGES :: "WorkspaceStage list" where
  "WORKSPACE_STAGES =
     [\<lparr>ws_id = Situation, ws_label = ''Situation''\<rparr>,
      \<lparr>ws_id = Understand, ws_label = ''Understand''\<rparr>,
      \<lparr>ws_id = Evidence, ws_label = ''Evidence''\<rparr>,
      \<lparr>ws_id = Historical, ws_label = ''Historical Context''\<rparr>,
      \<lparr>ws_id = Forecast, ws_label = ''Forecast''\<rparr>,
      \<lparr>ws_id = Business_Impact, ws_label = ''Business Impact''\<rparr>,
      \<lparr>ws_id = Options, ws_label = ''Available Options''\<rparr>,
      \<lparr>ws_id = Recommended_Action, ws_label = ''Recommended Action''\<rparr>,
      \<lparr>ws_id = Approval, ws_label = ''Approval''\<rparr>,
      \<lparr>ws_id = Monitoring, ws_label = ''Monitoring''\<rparr>,
      \<lparr>ws_id = Export, ws_label = ''Export''\<rparr>]"

definition DEFAULT_WORKSPACE_STAGE :: WorkspaceStageId where
  "DEFAULT_WORKSPACE_STAGE = Situation"

definition isWorkspaceStageId :: "string option \<Rightarrow> bool" where
  "isWorkspaceStageId value =
     (case value of
        None \<Rightarrow> False
      | Some v \<Rightarrow> list_ex (\<lambda>stage. stage_id_name (ws_id stage) = v) WORKSPACE_STAGES)"

subsection \<open>Facts: the chosen moment\<close>

interpretation moment_max: keep_first_max moment_score better_moment
  by unfold_locales (simp add: better_moment_def)

lemma pickComparisonMoment_pool:
  "pickComparisonMoment moments =
     reduce1 better_moment
       (if filter moment_misses moments \<noteq> [] then filter moment_misses moments
        else filter (\<lambda>m. cm_compound m \<noteq> None) moments)"
proof -
  have eq: "filter moment_misses (filter (\<lambda>m. cm_compound m \<noteq> None) moments) = filter moment_misses moments"
    by (auto simp: moment_misses_def intro!: filter_cong split: option.splits)
  then have "filter (\<lambda>m. cm_compound m \<noteq> None) moments = [] \<Longrightarrow> filter moment_misses moments = []"
    by (metis filter.simps(1))
  then show ?thesis unfolding pickComparisonMoment_def Let_def eq by auto
qed

lemma pickComparisonMoment_in: "pickComparisonMoment moments = Some m \<Longrightarrow> m \<in> set moments"
  unfolding pickComparisonMoment_pool by (drule moment_max.reduce1_max(1)) (auto split: if_splits)

lemma promise_all_Inr: "promise_all ps = Inr xs \<Longrightarrow> ps = map Inr xs"
  by (induction ps arbitrary: xs rule: promise_all.induct) (auto split: sum.splits)

lemma tick_pairs_mem:
  assumes "p \<in> set (tick_pairs hz scenario hs)"
  obtains items item where "(dk_zoneId p, items) \<in> set hs" "item \<in> set items" "in_window hz scenario item"
    "dk_timestamp p = ra_timestamp item" "dk_assessmentId p = ra_assessment_id item"
  using assms unfolding tick_pairs_def by fastforce

lemma choose_key_moment_mem:
  assumes "choose_key_moment ps ms = Some k"
  shows "\<exists>p\<in>set ps. dk_zoneId p = dk_zoneId k \<and> dk_timestamp p = dk_timestamp k \<and> dk_assessmentId p = dk_assessmentId k"
  using assms by (auto simp: choose_key_moment_def split: option.splits if_splits dest!: find_eq_Some_D)

subsection \<open>Facts: stability\<close>

lemma count_until_change_eq:
  "count_until_change i n as = n + length (takeWhile (\<lambda>a. topRecommendationId a = i) as)"
  by (induction as arbitrary: n) auto

lemma countUnchanged_eq:
  "countUnchangedRecommendationTicks as =
     length (takeWhile (\<lambda>a. topRecommendationId a = topRecommendationId (hd as)) as)"
  by (cases as) (simp_all add: countUnchangedRecommendationTicks_def count_until_change_eq)

lemma tier_baseline_of_tiers:
  "t \<in> set TIERS \<Longrightarrow> tier_baseline t = [] \<longleftrightarrow> t = ''normal''"
  by (auto simp: TIERS_def tier_baseline_def TIER_BASELINE_def)

lemma tier_baseline_ids_of_tiers:
  "map rc_id (tier_baseline ''watch'') = [''tier_watch'']" "map rc_id (tier_baseline ''elevated'') = [''tier_elevated'']"
  "map rc_id (tier_baseline ''critical'') = [''tier_critical'']"
  by (simp_all add: tier_baseline_def TIER_BASELINE_def)

lemma tier_baseline_id_inj:
  assumes "t \<in> set TIERS" "u \<in> set TIERS" "tier_baseline t \<noteq> []"
    and "map rc_id (tier_baseline t) = map rc_id (tier_baseline u)"
  shows "t = u"
proof -
  have "tier_baseline u \<noteq> []" using assms(3,4) by auto
  then have "t \<noteq> ''normal''" "u \<noteq> ''normal''" using assms(1-3) tier_baseline_of_tiers by blast+
  then have "t \<in> {''watch'', ''elevated'', ''critical''}" "u \<in> {''watch'', ''elevated'', ''critical''}"
    using assms(1,2) by (simp_all add: TIERS_def)
  with assms(4) show ?thesis by (elim insertE) (simp_all add: tier_baseline_ids_of_tiers)
qed

lemma head_option_map: "map_option f (head_option xs) = head_option (map f xs)"
  by (cases xs) (simp_all add: head_option_def)

lemma head_option_append: "head_option (xs @ ys) = (if xs = [] then head_option ys else head_option xs)"
  by (cases xs) (simp_all add: head_option_def)

lemma tier_baseline_single: "tier_baseline t = [] \<or> (\<exists>b. tier_baseline t = [b] \<and> rc_id b \<in> set TIER_IDS)"
  using tier_baseline_ids[of t] by (auto simp: tier_baseline_def split: option.splits)

lemma topRecommendationId_cases:
  "topRecommendationId a =
     (if tier_baseline (ra_tier a) \<noteq> [] then Some (rc_id (hd (tier_baseline (ra_tier a))))
      else Option.bind (parseJustification (ra_justification a))
             (\<lambda>j. head_option (js_set (filter (\<lambda>r. r \<in> set RULE_IDS) (rj_rulesFired j)))))"
proof (cases "parseJustification (ra_justification a)")
  case None
  then show ?thesis
    by (cases "tier_baseline (ra_tier a)")
      (simp_all add: topRecommendationId_def deriveRecommendations_eq head_option_def)
next
  case (Some j)
  then show ?thesis
    by (cases "tier_baseline (ra_tier a)")
      (simp_all add: topRecommendationId_def head_option_map deriveRecommendations_ids head_option_append,
        simp_all add: head_option_def)
qed

lemma head_option_mem: "head_option xs = Some x \<Longrightarrow> x \<in> set xs"
  by (cases xs) (simp_all add: head_option_def)

lemma rule_top_not_tier:
  assumes "tier_baseline (ra_tier a) = []" and "topRecommendationId a = Some i"
  shows "i \<notin> set TIER_IDS"
  using assms tier_rule_ids_disjoint
  by (auto simp: topRecommendationId_cases Option.bind_eq_Some_conv dest!: head_option_mem)

lemma same_top_same_tier:
  assumes "ra_tier a \<in> set TIERS" and "ra_tier b \<in> set TIERS"
    and "topRecommendationId a = topRecommendationId b"
  shows "ra_tier a = ra_tier b"
proof (cases "tier_baseline (ra_tier a) = []"; cases "tier_baseline (ra_tier b) = []")
  assume "tier_baseline (ra_tier a) = []" "tier_baseline (ra_tier b) = []"
  with assms show ?thesis by (simp add: tier_baseline_of_tiers)
next
  assume a: "tier_baseline (ra_tier a) = []" and b: "tier_baseline (ra_tier b) \<noteq> []"
  then have "topRecommendationId a = Some (rc_id (hd (tier_baseline (ra_tier b))))"
    using assms(3) by (simp add: topRecommendationId_cases[of b])
  from rule_top_not_tier[OF a this] show ?thesis using b tier_baseline_single[of "ra_tier b"] by auto
next
  assume a: "tier_baseline (ra_tier a) \<noteq> []" and b: "tier_baseline (ra_tier b) = []"
  then have "topRecommendationId b = Some (rc_id (hd (tier_baseline (ra_tier a))))"
    using assms(3) by (simp add: topRecommendationId_cases[of a])
  from rule_top_not_tier[OF b this] show ?thesis using a tier_baseline_single[of "ra_tier a"] by auto
next
  assume ab: "tier_baseline (ra_tier a) \<noteq> []" "tier_baseline (ra_tier b) \<noteq> []"
  then have "rc_id (hd (tier_baseline (ra_tier a))) = rc_id (hd (tier_baseline (ra_tier b)))"
    using assms(3) by (simp add: topRecommendationId_cases)
  then have "map rc_id (tier_baseline (ra_tier a)) = map rc_id (tier_baseline (ra_tier b))"
    using ab tier_baseline_single[of "ra_tier a"] tier_baseline_single[of "ra_tier b"] by auto
  with tier_baseline_id_inj[OF assms(1,2) ab(1)] show ?thesis .
qed

text \<open>The moves of a rank sequence (its non-flat directions) and the turns between adjacent moves.\<close>

definition moves :: "int list \<Rightarrow> int list" where
  "moves ranks = filter (\<lambda>d. d \<noteq> 0) (map2 (\<lambda>a b. sgn (b - a)) ranks (tl ranks))"

definition turns :: "int list \<Rightarrow> nat" where
  "turns ds = length (filter (\<lambda>(a, b). a \<noteq> b) (zip ds (tl ds)))"

lemma moves_simps:
  "moves [] = []" "moves [a] = []"
  "moves (a # b # r) = (if b = a then moves (b # r) else sgn (b - a) # moves (b # r))"
  by (simp_all add: moves_def sgn_if)

lemma turns_simps: "turns [] = 0" "turns [a] = 0" "turns (a # b # r) = (if a \<noteq> b then 1 else 0) + turns (b # r)"
  by (simp_all add: turns_def)

lemma count_reversals_turns:
  "count_reversals r d ranks = r + turns ((if d = 0 then [] else [d]) @ moves ranks)"
  by (induction r d ranks rule: count_reversals.induct)
    (auto simp: moves_simps turns_simps sgn_if Let_def)

lemma turns_le: "turns ds \<le> length ds - 1"
  unfolding turns_def by (rule order_trans[OF length_filter_le]) simp

lemma moves_le: "length (moves ranks) \<le> length ranks - 1"
  unfolding moves_def by (rule order_trans[OF length_filter_le]) simp

subsection \<open>Facts: changes\<close>

definition swap_entry :: "ChangeSummaryEntry \<Rightarrow> ChangeSummaryEntry" where
  "swap_entry e = e\<lparr>ch_before := ch_after e, ch_after := ch_before e\<rparr>"

lemma moved_by_sym: "moved_by d a b = moved_by d b a"
proof -
  have "nsub a b = - nsub b a" using fl_minus[of "b - a"] by (simp add: nsub_def)
  then show ?thesis by (simp add: moved_by_def)
qed

lemma moved_by_same: "0 < d \<Longrightarrow> \<not> moved_by d a a"
  by (simp add: moved_by_def)

lemma both_moved_by_sym: "both_moved_by d a b = both_moved_by d b a"
  using moved_by_sym by (auto simp: both_moved_by_def split: option.split)

lemma both_moved_by_same: "0 < d \<Longrightarrow> \<not> both_moved_by d a a"
  by (simp add: both_moved_by_def moved_by_same split: option.split)

lemma change_entry_swap: "map swap_entry (change_entry c l x y) = change_entry c l y x"
  by (simp add: change_entry_def swap_entry_def)

lemma change_entry_label: "map ch_label (change_entry c l x y) = (if c then [l] else [])"
  by (simp add: change_entry_def)

lemma meaningful_positive:
  "0 < MEANINGFUL_SCORE_DELTA" "0 < MEANINGFUL_AGENT_RISK_DELTA" "0 < MEANINGFUL_SIMILARITY_DELTA"
  by (simp_all add: MEANINGFUL_SCORE_DELTA_def MEANINGFUL_AGENT_RISK_DELTA_def MEANINGFUL_SIMILARITY_DELTA_def)

definition CHANGE_LABELS :: "string list" where
  "CHANGE_LABELS = [''Risk'', ''Recommendation'', ''Worker Exposure'', ''Permit'', ''Historical'', ''Forecast'']"

subsection \<open>Properties\<close>

text \<open>
  The comparison page shows a genuine miss whenever the scenario has one, and then the first of
  those with the highest compound score; without a miss the first highest-scoring moment with a
  compound verdict; nothing exactly when no moment has a verdict.
\<close>

theorem pickComparisonMoment_correct:
  "(case pickComparisonMoment moments of
      None \<Rightarrow> filter (\<lambda>m. cm_compound m \<noteq> None) moments = []
    | Some m \<Rightarrow>
        is_first_max moment_score
          (if filter moment_misses moments \<noteq> [] then filter moment_misses moments
           else filter (\<lambda>m. cm_compound m \<noteq> None) moments) m)"
proof (cases "pickComparisonMoment moments")
  case None
  then show ?thesis by (simp add: pickComparisonMoment_pool split: if_splits)
next
  case (Some m)
  then show ?thesis using moment_max.reduce1_first_max by (simp add: pickComparisonMoment_pool)
qed

text \<open>
  (C39) Demo Mode never lands on an invented moment: a moment it returns is a row of the risk history
  of one of the scenario's zones, inside the scenario's time window, with that row's identifier.
\<close>

theorem findScenarioKeyMoment_real:
  "(case findScenarioKeyMoment hz getScenario getRiskHistory getCounterfactualComparison key of
      Inl e \<Rightarrow> True
    | Inr None \<Rightarrow> True
    | Inr (Some k) \<Rightarrow>
        \<exists>scenario items item.
          getScenario key = Inr scenario \<and> dk_zoneId k \<in> set (ss_zone_ids scenario) \<and>
          getRiskHistory (dk_zoneId k) 500 = Inr items \<and> item \<in> set items \<and> in_window hz scenario item \<and>
          dk_timestamp k = ra_timestamp item \<and> dk_assessmentId k = ra_assessment_id item)"
proof (cases "findScenarioKeyMoment hz getScenario getRiskHistory getCounterfactualComparison key")
  case (Inr r)
  show ?thesis
  proof (cases r)
    case (Some k)
    let ?history = "\<lambda>z. map_sum (\<lambda>e. e) (\<lambda>items. (z, items)) (getRiskHistory z 500)"
    from Inr Some obtain scenario hs ms where s: "getScenario key = Inr scenario"
      and hs: "promise_all (map ?history (ss_zone_ids scenario)) = Inr hs"
      and k: "choose_key_moment (tick_pairs hz scenario hs) ms = Some k"
      by (auto simp: findScenarioKeyMoment_def Let_def split: sum.splits)
    from choose_key_moment_mem[OF k] obtain p where p: "p \<in> set (tick_pairs hz scenario hs)"
      "dk_zoneId p = dk_zoneId k" "dk_timestamp p = dk_timestamp k" "dk_assessmentId p = dk_assessmentId k" by auto
    from tick_pairs_mem[OF p(1)] obtain items item where i: "(dk_zoneId p, items) \<in> set hs" "item \<in> set items"
      "in_window hz scenario item" "dk_timestamp p = ra_timestamp item" "dk_assessmentId p = ra_assessment_id item" .
    have "Inr (dk_zoneId p, items) \<in> set (map ?history (ss_zone_ids scenario))"
      unfolding promise_all_Inr[OF hs] using i(1) by simp
    then obtain z where z: "z \<in> set (ss_zone_ids scenario)" "?history z = Inr (dk_zoneId p, items)" by auto
    from z(2) have "z = dk_zoneId p \<and> getRiskHistory z 500 = Inr items" by (cases "getRiskHistory z 500") auto
    with z(1) s i p show ?thesis unfolding Inr Some by auto
  qed (simp add: Inr)
qed simp

text \<open>
  The confidence breakdown always lists the same six factors in the same order, and every
  percentage it shows is copied from the assessment, the foresight result, the historical match or
  the gas agent, or is the constant 1 of a tick without a missing-data rule.
\<close>

theorem buildConfidenceBreakdown_traceable:
  "map cf_label (buildConfidenceBreakdown a j m f) =
     [''Overall'', ''Historical Agreement'', ''Sensor Quality'', ''Data Completeness'',
      ''Forecast Agreement'', ''Operational Stability''] \<and>
   list_all (\<lambda>c. case c of
       Percentage _ v _ \<Rightarrow>
         v = ra_confidence a \<or> v = 1 \<or> gas_risk_confidence j = Some v \<or>
         (case m of None \<Rightarrow> False | Some x \<Rightarrow> v = im_similarity x) \<or>
         (case f of None \<Rightarrow> False
          | Some x \<Rightarrow> v \<in> {fc_historical_agreement (fr_confidence x), fc_data_completeness (fr_confidence x),
                              fc_trajectory_similarity (fr_confidence x)})
     | Categorical _ c _ \<Rightarrow> (case f of None \<Rightarrow> False | Some x \<Rightarrow> c = ew_category (fr_early_warning x))
     | Unavailable _ _ \<Rightarrow> True)
     (buildConfidenceBreakdown a j m f)"
  by (simp add: buildConfidenceBreakdown_def historical_factor_def sensor_factor_def completeness_factor_def
      forecast_factor_def stability_factor_def split: option.split)

text \<open>
  The sentence \<^emph>\<open>tier and top recommendation have held steady\<close> is justified: over the ticks that
  are counted as unchanged, which are the longest run of newest ticks with the latest tick's top
  recommendation, the tier is the same one throughout.
\<close>

theorem unchanged_ticks_keep_tier:
  assumes "list_all (\<lambda>a. ra_tier a \<in> set TIERS) as"
  shows "countUnchangedRecommendationTicks as =
      length (takeWhile (\<lambda>a. topRecommendationId a = topRecommendationId (hd as)) as) \<and>
    list_all (\<lambda>a. ra_tier a = ra_tier (hd as)) (take (countUnchangedRecommendationTicks as) as)"
proof
  let ?P = "\<lambda>a. topRecommendationId a = topRecommendationId (hd as)"
  show len: "countUnchangedRecommendationTicks as = length (takeWhile ?P as)" by (rule countUnchanged_eq)
  have "take (countUnchangedRecommendationTicks as) as = takeWhile ?P as"
    unfolding len by (metis takeWhile_eq_take)
  moreover have "ra_tier a = ra_tier (hd as)" if "a \<in> set (takeWhile ?P as)" for a
  proof -
    from set_takeWhileD[OF that] have a: "a \<in> set as" "?P a" by auto
    then have "hd as \<in> set as" by (cases as) auto
    with a assms show ?thesis by (intro same_top_same_tier) (auto simp: list_all_iff)
  qed
  ultimately show "list_all (\<lambda>a. ra_tier a = ra_tier (hd as)) (take (countUnchangedRecommendationTicks as) as)"
    by (simp add: list_all_iff)
qed

theorem unchanged_ticks_keep_tier_witness:
  "countUnchangedRecommendationTicks [sample_assessment ''b'' 50 ''watch'', sample_assessment ''a'' 10 ''normal''] =
     length (takeWhile (\<lambda>a. topRecommendationId a = topRecommendationId (sample_assessment ''b'' 50 ''watch''))
       [sample_assessment ''b'' 50 ''watch'', sample_assessment ''a'' 10 ''normal''])"
  using unchanged_ticks_keep_tier[of "[sample_assessment ''b'' 50 ''watch'', sample_assessment ''a'' 10 ''normal'']"]
  by (simp add: sample_assessment_def TIERS_def)

text \<open>
  The oscillation counter is the number of turns between adjacent non-flat moves of the tier
  rank in time order, so flat ticks never count, at most \<open>n - 2\<close> reversals are found in \<open>n\<close> ticks,
  and oscillation is reported from two reversals on.
\<close>

theorem detectOscillation_turns:
  "detectOscillation as =
     (let n = turns (moves (map (\<lambda>a. tierRank (ra_tier a)) (rev as))) in (2 \<le> n, n)) \<and>
   snd (detectOscillation as) \<le> length as - 2"
proof -
  let ?ranks = "map (\<lambda>a. tierRank (ra_tier a)) (rev as)"
  have "turns (moves ?ranks) \<le> length as - 2"
    using turns_le[of "moves ?ranks"] moves_le[of ?ranks] by simp
  then show ?thesis by (simp add: detectOscillation_def count_reversals_turns Let_def)
qed

text \<open>
  The change summary is a difference: nothing is listed between identical inputs, exchanging the
  two ticks exchanges before and after in every entry, and the entries are a selection of the six
  dimensions in their fixed order.
\<close>

theorem buildChangeSummary_difference:
  "buildChangeSummary \<lparr>ci_previousAssessment = Some a, ci_currentAssessment = a, ci_previousBestMatch = m,
     ci_currentBestMatch = m, ci_previousForesight = f, ci_currentForesight = f\<rparr> = [] \<and>
   buildChangeSummary \<lparr>ci_previousAssessment = Some b, ci_currentAssessment = a, ci_previousBestMatch = mb,
     ci_currentBestMatch = ma, ci_previousForesight = fb, ci_currentForesight = fa\<rparr> =
   map swap_entry (buildChangeSummary \<lparr>ci_previousAssessment = Some a, ci_currentAssessment = b,
     ci_previousBestMatch = ma, ci_currentBestMatch = mb, ci_previousForesight = fa, ci_currentForesight = fb\<rparr>) \<and>
   subseq (map ch_label (buildChangeSummary input)) CHANGE_LABELS"
proof (intro conjI)
  show "buildChangeSummary \<lparr>ci_previousAssessment = Some a, ci_currentAssessment = a, ci_previousBestMatch = m,
     ci_currentBestMatch = m, ci_previousForesight = f, ci_currentForesight = f\<rparr> = []"
    by (simp add: buildChangeSummary_def change_entry_def moved_by_same both_moved_by_same meaningful_positive Let_def)
  show "buildChangeSummary \<lparr>ci_previousAssessment = Some b, ci_currentAssessment = a, ci_previousBestMatch = mb,
     ci_currentBestMatch = ma, ci_previousForesight = fb, ci_currentForesight = fa\<rparr> =
   map swap_entry (buildChangeSummary \<lparr>ci_previousAssessment = Some a, ci_currentAssessment = b,
     ci_previousBestMatch = ma, ci_currentBestMatch = mb, ci_previousForesight = fa, ci_currentForesight = fb\<rparr>)"
    unfolding buildChangeSummary_def Let_def
    by (simp add: change_entry_swap moved_by_sym both_moved_by_sym eq_commute)
  show "subseq (map ch_label (buildChangeSummary input)) CHANGE_LABELS"
    by (cases "ci_previousAssessment input")
      (simp_all add: buildChangeSummary_def CHANGE_LABELS_def change_entry_label Let_def)
qed

end
