(* ===== verification/Json_Text.thy ===== *)
theory Json_Text
  imports Api_Types
begin

section \<open>JSON text\<close>

text \<open>
  \<open>JSON.stringify\<close> and \<open>JSON.parse\<close> as the source uses them, on UTF-8 text. \<open>JSON_parse\<close> is the
  whole grammar: white space, literals, numbers with fraction and exponent (rounded to a number),
  strings with all escapes, arrays and objects (a repeated key keeps its place and takes the later
  value); \<open>None\<close> is the thrown \<open>SyntaxError\<close>. The recursive descent runs on fuel; \<open>parse_value_fuel\<close>
  shows that above twice the length of the text the fuel is irrelevant, and \<open>JSON_parse\<close> uses that
  much. Object keys that look like array indices are not reordered in the model.

  The round trip \<open>JSON_roundtrip\<close> holds for every value without numbers and without repeated keys; the one with
  numbers, for the indented text, is \<open>pretty_roundtrip\<close> in \<open>Json_Pretty\<close>.
\<close>

subsection \<open>Printing\<close>

definition quote :: char where "quote = CHR 0x22"
definition backslash :: char where "backslash = CHR 0x5C"

definition hex_lower :: "nat \<Rightarrow> char" where "hex_lower d = ''0123456789abcdef'' ! d"

definition escape_char :: "char \<Rightarrow> string" where
  "escape_char c =
     (let n = of_char c :: nat
      in if c = quote \<or> c = backslash then [backslash, c]
         else if n = 8 then [backslash, CHR ''b'']
         else if n = 9 then [backslash, CHR ''t'']
         else if n = 10 then [backslash, CHR ''n'']
         else if n = 12 then [backslash, CHR ''f'']
         else if n = 13 then [backslash, CHR ''r'']
         else if n < 32 then [backslash, CHR ''u'', CHR ''0'', CHR ''0'', hex_lower (n div 16), hex_lower (n mod 16)]
         else [c])"

definition stringify_string :: "string \<Rightarrow> string" where
  "stringify_string s = [quote] @ concat (map escape_char s) @ [quote]"

fun JSON_stringify :: "json \<Rightarrow> string"
  and stringify_elems :: "json list \<Rightarrow> string"
  and stringify_members :: "(string \<times> json) list \<Rightarrow> string"
where
  "JSON_stringify JNull = ''null''"
| "JSON_stringify (JBool b) = (if b then ''true'' else ''false'')"
| "JSON_stringify (JNum x) = num_toString x"
| "JSON_stringify (JStr s) = stringify_string s"
| "JSON_stringify (JArr vs) = ''['' @ stringify_elems vs @ '']''"
| "JSON_stringify (JObj kvs) = ''{'' @ stringify_members kvs @ ''}''"
| "stringify_elems [] = []"
| "stringify_elems [v] = JSON_stringify v"
| "stringify_elems (v # w # vs) = JSON_stringify v @ '','' @ stringify_elems (w # vs)"
| "stringify_members [] = []"
| "stringify_members [(k, v)] = stringify_string k @ '':'' @ JSON_stringify v"
| "stringify_members ((k, v) # kv # kvs) =
     stringify_string k @ '':'' @ JSON_stringify v @ '','' @ stringify_members (kv # kvs)"

subsection \<open>Parsing\<close>

definition is_json_space :: "char \<Rightarrow> bool" where
  "is_json_space c \<longleftrightarrow> (of_char c :: nat) \<in> {9, 10, 13, 32}"

definition skip_ws :: "string \<Rightarrow> string" where
  "skip_ws s = dropWhile is_json_space s"

definition hex_value :: "char \<Rightarrow> nat option" where
  "hex_value c =
     (let n = of_char c :: nat
      in if 48 \<le> n \<and> n \<le> 57 then Some (n - 48)
         else if 65 \<le> n \<and> n \<le> 70 then Some (n - 55)
         else if 97 \<le> n \<and> n \<le> 102 then Some (n - 87)
         else None)"

definition hex4 :: "string \<Rightarrow> nat option" where
  "hex4 s =
     (case map hex_value (take 4 s) of
        [Some a, Some b, Some c, Some d] \<Rightarrow> Some (((a * 16 + b) * 16 + c) * 16 + d)
      | _ \<Rightarrow> None)"

definition utf8 :: "nat \<Rightarrow> string" where
  "utf8 u =
     (if u < 0x80 then [char_of u]
      else if u < 0x800 then [char_of (0xC0 + u div 64), char_of (0x80 + u mod 64)]
      else if u < 0x10000
      then [char_of (0xE0 + u div 4096), char_of (0x80 + u div 64 mod 64), char_of (0x80 + u mod 64)]
      else [char_of (0xF0 + u div 262144), char_of (0x80 + u div 4096 mod 64),
            char_of (0x80 + u div 64 mod 64), char_of (0x80 + u mod 64)])"

text \<open>The text behind a backslash: what it stands for and how many characters it takes.\<close>

definition unescape_unicode :: "string \<Rightarrow> (string \<times> nat) option" where
  "unescape_unicode r =
     (case hex4 r of
        None \<Rightarrow> None
      | Some u \<Rightarrow>
          if 0xD800 \<le> u \<and> u < 0xDC00 \<and> take 2 (drop 4 r) = [backslash, CHR ''u'']
          then (case hex4 (drop 6 r) of
                  Some l \<Rightarrow> if 0xDC00 \<le> l \<and> l < 0xE000
                            then Some (utf8 (0x10000 + (u - 0xD800) * 1024 + (l - 0xDC00)), 11)
                            else Some (utf8 u, 5)
                | None \<Rightarrow> Some (utf8 u, 5))
          else Some (utf8 u, 5))"

definition unescape :: "string \<Rightarrow> (string \<times> nat) option" where
  "unescape s =
     (case s of
        [] \<Rightarrow> None
      | e # r \<Rightarrow>
          if e = quote \<or> e = backslash \<or> e = CHR ''/'' then Some ([e], 1)
          else if e = CHR ''b'' then Some ([char_of (8::nat)], 1)
          else if e = CHR ''t'' then Some ([char_of (9::nat)], 1)
          else if e = CHR ''n'' then Some ([char_of (10::nat)], 1)
          else if e = CHR ''f'' then Some ([char_of (12::nat)], 1)
          else if e = CHR ''r'' then Some ([char_of (13::nat)], 1)
          else if e = CHR ''u'' then unescape_unicode r
          else None)"

function (sequential) parse_str :: "string \<Rightarrow> (string \<times> string) option" where
  "parse_str [] = None"
| "parse_str (c # cs) =
     (if c = quote then Some ([], cs)
      else if c = backslash then
        (case unescape cs of
           None \<Rightarrow> None
         | Some (t, n) \<Rightarrow> map_option (\<lambda>(u, r). (t @ u, r)) (parse_str (drop n cs)))
      else if (of_char c :: nat) < 32 then None
      else map_option (\<lambda>(u, r). (c # u, r)) (parse_str cs))"
  by pat_completeness auto
termination by (relation "measure length") auto

definition span_digits :: "string \<Rightarrow> string \<times> string" where
  "span_digits s = (takeWhile (\<lambda>c. digit_value c \<noteq> None) s, dropWhile (\<lambda>c. digit_value c \<noteq> None) s)"

definition digits_value :: "string \<Rightarrow> nat" where
  "digits_value ds = foldl (\<lambda>n c. 10 * n + the (digit_value c)) 0 ds"

definition parse_fraction_part :: "string \<Rightarrow> (string \<times> string) option" where
  "parse_fraction_part s =
     (case s of
        c # r \<Rightarrow> if c = CHR ''.'' then (let (ds, r') = span_digits r in if ds = [] then None else Some (ds, r'))
                 else Some ([], s)
      | [] \<Rightarrow> Some ([], []))"

definition parse_exponent :: "string \<Rightarrow> (int \<times> string) option" where
  "parse_exponent s =
     (case s of
        c # r \<Rightarrow>
          if c = CHR ''e'' \<or> c = CHR ''E'' then
            let neg = (r \<noteq> [] \<and> hd r = CHR ''-'');
                r1 = (if r \<noteq> [] \<and> (hd r = CHR ''-'' \<or> hd r = CHR ''+'') then tl r else r);
                (ds, r2) = span_digits r1
            in if ds = [] then None else Some ((if neg then - 1 else 1) * int (digits_value ds), r2)
          else Some (0, s)
      | [] \<Rightarrow> Some (0, []))"

definition parse_number :: "string \<Rightarrow> (json \<times> string) option" where
  "parse_number s =
     (let neg = (s \<noteq> [] \<and> hd s = CHR ''-'');
          s1 = (if neg then tl s else s);
          (ds, s2) = span_digits s1
      in if ds = [] \<or> length ds > 1 \<and> hd ds = CHR ''0'' then None
         else (case parse_fraction_part s2 of
                 None \<Rightarrow> None
               | Some (fs, s3) \<Rightarrow>
                   (case parse_exponent s3 of
                      None \<Rightarrow> None
                    | Some (e, s4) \<Rightarrow>
                        let x = of_nat (digits_value (ds @ fs)) * 10 powi (e - int (length fs))
                        in Some (JNum (fl (if neg then - x else x)), s4))))"

definition parse_literal :: "string \<Rightarrow> (json \<times> string) option" where
  "parse_literal s =
     (if prefix ''null'' s then Some (JNull, drop 4 s)
      else if prefix ''true'' s then Some (JBool True, drop 4 s)
      else if prefix ''false'' s then Some (JBool False, drop 5 s)
      else parse_number s)"

definition starts_with :: "char \<Rightarrow> string \<Rightarrow> bool" where
  "starts_with c s \<longleftrightarrow> s \<noteq> [] \<and> hd s = c"

fun parse_value :: "nat \<Rightarrow> string \<Rightarrow> (json \<times> string) option"
  and parse_elems :: "nat \<Rightarrow> string \<Rightarrow> (json list \<times> string) option"
  and parse_members :: "nat \<Rightarrow> (string \<times> json) list \<Rightarrow> string \<Rightarrow> ((string \<times> json) list \<times> string) option"
where
  "parse_value 0 s = None"
| "parse_value (Suc n) s =
     (let t = skip_ws s in
      if starts_with quote t then map_option (\<lambda>(u, r). (JStr u, r)) (parse_str (tl t))
      else if starts_with CHR ''['' t then
        (if starts_with CHR '']'' (skip_ws (tl t)) then Some (JArr [], tl (skip_ws (tl t)))
         else map_option (\<lambda>(vs, r). (JArr vs, r)) (parse_elems n (tl t)))
      else if starts_with CHR ''{'' t then
        (if starts_with CHR ''}'' (skip_ws (tl t)) then Some (JObj [], tl (skip_ws (tl t)))
         else map_option (\<lambda>(kvs, r). (JObj kvs, r)) (parse_members n [] (tl t)))
      else parse_literal t)"
| "parse_elems 0 s = None"
| "parse_elems (Suc n) s =
     (case parse_value n s of
        None \<Rightarrow> None
      | Some (v, r) \<Rightarrow>
          let t = skip_ws r in
          if starts_with CHR '']'' t then Some ([v], tl t)
          else if starts_with CHR '','' t then map_option (\<lambda>(vs, q). (v # vs, q)) (parse_elems n (tl t))
          else None)"
| "parse_members 0 acc s = None"
| "parse_members (Suc n) acc s =
     (let t = skip_ws s in
      if starts_with quote t then
        (case parse_str (tl t) of
           None \<Rightarrow> None
         | Some (k, r) \<Rightarrow>
             let t1 = skip_ws r in
             if starts_with CHR '':'' t1 then
               (case parse_value n (tl t1) of
                  None \<Rightarrow> None
                | Some (v, q) \<Rightarrow>
                    let t2 = skip_ws q in
                    if starts_with CHR ''}'' t2 then Some (amap_set k v acc, tl t2)
                    else if starts_with CHR '','' t2 then parse_members n (amap_set k v acc) (tl t2)
                    else None)
             else None)
      else None)"

definition JSON_parse :: "string \<Rightarrow> json option" where
  "JSON_parse s =
     (case parse_value (2 * length s + 1) s of
        Some (v, r) \<Rightarrow> if skip_ws r = [] then Some v else None
      | None \<Rightarrow> None)"

subsection \<open>The fuel is irrelevant\<close>

lemma length_skip_ws: "length (skip_ws s) \<le> length s"
  by (simp add: skip_ws_def length_dropWhile_le)

lemma length_span_digits: "span_digits s = (ds, r) \<Longrightarrow> length ds + length r = length s"
  unfolding span_digits_def by (metis length_append prod.inject takeWhile_dropWhile_id)

lemma parse_str_shorter: "parse_str s = Some (u, r) \<Longrightarrow> length r < length s"
proof (induction s arbitrary: u r rule: parse_str.induct)
  case 1
  then show ?case by simp
next
  case (2 c cs)
  then show ?case by (auto split: if_splits option.splits) (force dest: less_imp_le_nat order_trans)+
qed

lemma parse_fraction_part_le: "parse_fraction_part s = Some (f, r) \<Longrightarrow> length r \<le> length s"
  by (auto simp: parse_fraction_part_def split: list.splits if_splits prod.splits dest: length_span_digits)

lemma parse_exponent_le: "parse_exponent s = Some (e, r) \<Longrightarrow> length r \<le> length s"
proof (cases s)
  case (Cons c t)
  assume p: "parse_exponent s = Some (e, r)"
  let ?t = "if t \<noteq> [] \<and> (hd t = CHR ''-'' \<or> hd t = CHR ''+'') then tl t else t"
  obtain ds r2 where sp: "span_digits ?t = (ds, r2)" by fastforce
  have "length r2 \<le> length ?t" using length_span_digits[OF sp] by simp
  also have "\<dots> \<le> length t" by simp
  finally show ?thesis using p sp Cons by (auto simp: parse_exponent_def Let_def split: if_splits)
qed (simp add: parse_exponent_def)

lemma parse_number_shorter: "parse_number s = Some (v, r) \<Longrightarrow> length r < length s"
proof -
  assume p: "parse_number s = Some (v, r)"
  let ?s1 = "if s \<noteq> [] \<and> hd s = CHR ''-'' then tl s else s"
  obtain ds s2 where sp: "span_digits ?s1 = (ds, s2)" by fastforce
  from p sp obtain fs s3 e where f: "parse_fraction_part s2 = Some (fs, s3)"
    and e: "parse_exponent s3 = Some (e, r)" and ne: "ds \<noteq> []"
    by (auto simp: parse_number_def Let_def split: if_splits option.splits prod.splits)
  have "length r \<le> length s2" using parse_fraction_part_le[OF f] parse_exponent_le[OF e] by simp
  also have "\<dots> < length ?s1" using length_span_digits[OF sp] ne by (cases ds) auto
  also have "\<dots> \<le> length s" by simp
  finally show ?thesis .
qed

lemma parse_literal_shorter: "parse_literal s = Some (v, r) \<Longrightarrow> length r < length s"
  by (auto simp: parse_literal_def prefix_def split: if_splits dest: parse_number_shorter)

lemma starts_with_tl: "starts_with c t \<Longrightarrow> length (tl t) < length t"
  by (cases t) (auto simp: starts_with_def)

lemmas shorter_facts = length_skip_ws starts_with_tl parse_str_shorter parse_literal_shorter

text \<open>Each parser, as a step on shorter fuel, consumes at least one character.\<close>

lemma parse_value_step:
  assumes "\<And>s v r. parse_elems n s = Some (v, r) \<Longrightarrow> length r < length s"
    and "\<And>acc s v r. parse_members n acc s = Some (v, r) \<Longrightarrow> length r < length s"
    and p: "parse_value (Suc n) s = Some (v, r)"
  shows "length r < length s"
proof -
  let ?t = "skip_ws s"
  have le: "length ?t \<le> length s" by (rule length_skip_ws)
  have le2: "length (skip_ws (tl ?t)) \<le> length (tl ?t)" by (rule length_skip_ws)
  consider (str) u where "starts_with quote ?t" "parse_str (tl ?t) = Some (u, r)"
    | (nil) c where "starts_with c ?t" "r = tl (skip_ws (tl ?t))"
    | (arr) us where "starts_with CHR ''['' ?t" "parse_elems n (tl ?t) = Some (us, r)"
    | (obj) us where "starts_with CHR ''{'' ?t" "parse_members n [] (tl ?t) = Some (us, r)"
    | (lit) "parse_literal ?t = Some (v, r)"
    using p by (auto simp: Let_def split: if_splits)
  then show ?thesis
  proof cases
    case str
    then show ?thesis using parse_str_shorter[OF str(2)] starts_with_tl[OF str(1)] le by simp
  next
    case nil
    then show ?thesis using starts_with_tl[of c ?t] le le2 by simp
  next
    case arr
    then show ?thesis using assms(1)[OF arr(2)] starts_with_tl[OF arr(1)] le by simp
  next
    case obj
    then show ?thesis using assms(2)[OF obj(2)] starts_with_tl[OF obj(1)] le by simp
  next
    case lit
    then show ?thesis using parse_literal_shorter[OF lit] le by simp
  qed
qed

lemma parse_elems_step:
  assumes "\<And>s v r. parse_value n s = Some (v, r) \<Longrightarrow> length r < length s"
    and "\<And>s v r. parse_elems n s = Some (v, r) \<Longrightarrow> length r < length s"
    and p: "parse_elems (Suc n) s = Some (vs, r)"
  shows "length r < length s"
proof -
  from p obtain v q where v: "parse_value n s = Some (v, q)" by (auto split: option.splits)
  have q: "length q < length s" by (rule assms(1)[OF v])
  have le: "length (skip_ws q) \<le> length q" by (rule length_skip_ws)
  from p v consider "r = tl (skip_ws q)" | us where "parse_elems n (tl (skip_ws q)) = Some (us, r)"
    by (auto simp: Let_def split: if_splits)
  then show ?thesis
  proof cases
    case 1
    then show ?thesis using q le by simp
  next
    case (2 us)
    then show ?thesis using assms(2)[OF 2] q le by simp
  qed
qed

lemma parse_members_step:
  assumes "\<And>s v r. parse_value n s = Some (v, r) \<Longrightarrow> length r < length s"
    and "\<And>acc s v r. parse_members n acc s = Some (v, r) \<Longrightarrow> length r < length s"
    and p: "parse_members (Suc n) acc s = Some (kvs, r)"
  shows "length r < length s"
proof -
  from p obtain k q v q' where k: "parse_str (tl (skip_ws s)) = Some (k, q)"
    and v: "parse_value n (tl (skip_ws q)) = Some (v, q')"
    and r: "r = tl (skip_ws q') \<or> (\<exists>acc'. parse_members n acc' (tl (skip_ws q')) = Some (kvs, r))"
    by (simp add: Let_def split: if_splits option.splits prod.splits) (blast | auto)+
  have "length q' < length (tl (skip_ws q))" by (rule assms(1)[OF v])
  moreover have "length q < length (tl (skip_ws s))" by (rule parse_str_shorter[OF k])
  moreover have "length (skip_ws q) \<le> length q" "length (skip_ws s) \<le> length s" "length (skip_ws q') \<le> length q'"
    by (rule length_skip_ws)+
  ultimately have q': "length q' < length s" "length (tl (skip_ws q')) < length s" by simp_all
  from r show ?thesis
  proof
    assume "r = tl (skip_ws q')"
    then show ?thesis using q' by simp
  next
    assume "\<exists>acc'. parse_members n acc' (tl (skip_ws q')) = Some (kvs, r)"
    then show ?thesis using assms(2) q' by fastforce
  qed
qed

lemma parse_shorter_all:
  "(\<forall>s v r. parse_value n s = Some (v, r) \<longrightarrow> length r < length s) \<and>
   (\<forall>s v r. parse_elems n s = Some (v, r) \<longrightarrow> length r < length s) \<and>
   (\<forall>acc s v r. parse_members n acc s = Some (v, r) \<longrightarrow> length r < length s)"
proof (induction n)
  case 0
  show ?case by simp
next
  case (Suc n)
  then show ?case
    using parse_value_step[of n] parse_elems_step[of n] parse_members_step[of n] by blast
qed

lemmas parse_value_shorter = parse_shorter_all[THEN conjunct1, rule_format]

lemma parse_fuel_all:
  "(\<forall>m s. 2 * length s < n \<longrightarrow> 2 * length s < m \<longrightarrow> parse_value n s = parse_value m s) \<and>
   (\<forall>m s. 2 * length s + 1 < n \<longrightarrow> 2 * length s + 1 < m \<longrightarrow> parse_elems n s = parse_elems m s) \<and>
   (\<forall>m acc s. 2 * length s + 1 < n \<longrightarrow> 2 * length s + 1 < m \<longrightarrow> parse_members n acc s = parse_members m acc s)"
proof (induction n)
  case 0
  show ?case by simp
next
  case (Suc n)
  then have V: "\<And>m s. 2 * length s < n \<Longrightarrow> 2 * length s < m \<Longrightarrow> parse_value n s = parse_value m s"
    and E: "\<And>m s. 2 * length s + 1 < n \<Longrightarrow> 2 * length s + 1 < m \<Longrightarrow> parse_elems n s = parse_elems m s"
    and M: "\<And>m acc s. 2 * length s + 1 < n \<Longrightarrow> 2 * length s + 1 < m \<Longrightarrow> parse_members n acc s = parse_members m acc s"
    by blast+
  show ?case
  proof (intro conjI allI impI)
    fix m and s :: string
    assume n: "2 * length s < Suc n" and m: "2 * length s < m"
    then obtain k where k: "m = Suc k" by (cases m) auto
    have l: "2 * length (tl (skip_ws s)) + 1 < n \<and> 2 * length (tl (skip_ws s)) + 1 < k" if "starts_with c (skip_ws s)" for c
      using starts_with_tl[OF that] length_skip_ws[of s] n m k by linarith
    show "parse_value (Suc n) s = parse_value m s"
      unfolding k by (auto simp: Let_def E[of _ k] M[of _ k] dest!: l)
  next
    fix m and s :: string
    assume n: "2 * length s + 1 < Suc n" and m: "2 * length s + 1 < m"
    then obtain k where k: "m = Suc k" by (cases m) auto
    have v: "parse_value n s = parse_value k s" using n m k by (intro V) auto
    show "parse_elems (Suc n) s = parse_elems m s"
    proof (cases "parse_value k s")
      case None
      then show ?thesis by (simp add: k v)
    next
      case (Some a)
      obtain w q where a: "a = (w, q)" by fastforce
      have "length q < length s" using Some a parse_value_shorter by simp
      then have "parse_elems n (tl (skip_ws q)) = parse_elems k (tl (skip_ws q))"
        using length_skip_ws[of q] n m k by (intro E) auto
      then show ?thesis by (simp add: k v Some a Let_def)
    qed
  next
    fix m acc and s :: string
    assume n: "2 * length s + 1 < Suc n" and m: "2 * length s + 1 < m"
    then obtain k where k: "m = Suc k" by (cases m) auto
    have r: "length r < length s" if "parse_str (tl (skip_ws s)) = Some (u, r)" for u r
      using parse_str_shorter[OF that] length_skip_ws[of s] by simp
    have v: "parse_value n (tl (skip_ws r)) = parse_value k (tl (skip_ws r))"
      if "parse_str (tl (skip_ws s)) = Some (u, r)" for u r
      using r[OF that] length_skip_ws[of r] n m k by (intro V) auto
    have w: "parse_members n acc' (tl (skip_ws q)) = parse_members k acc' (tl (skip_ws q))"
      if "parse_str (tl (skip_ws s)) = Some (u, r)" "parse_value k (tl (skip_ws r)) = Some (x, q)" for u r x q acc'
      using r[OF that(1)] length_skip_ws[of r] parse_value_shorter[OF that(2)] length_skip_ws[of q] n m k
      by (intro M) auto
    show "parse_members (Suc n) acc s = parse_members m acc s"
      unfolding k by (auto simp: Let_def v w split: option.split)
  qed
qed

lemma parse_value_fuel:
  "2 * length s < n \<Longrightarrow> 2 * length s < m \<Longrightarrow> parse_value n s = parse_value m s"
  using parse_fuel_all[of n] by blast

subsection \<open>Round trip\<close>

lemma hex_value_lower: "d < 16 \<Longrightarrow> hex_value (hex_lower d) = Some d"
proof -
  assume "d < 16"
  then have "d \<in> set [0..<16]" by simp
  moreover have "list_all (\<lambda>d. hex_value (hex_lower d) = Some d) [0..<16]" by code_simp
  ultimately show ?thesis by (auto simp: list_all_iff)
qed

lemma parse_str_escape: "parse_str (escape_char c @ t) = map_option (\<lambda>(u, r). (c # u, r)) (parse_str t)"
proof -
  let ?n = "of_char c :: nat"
  have c: "c = char_of ?n" by simp
  consider (special) "c = quote \<or> c = backslash" | (short) "?n \<in> {8, 9, 10, 12, 13}"
    | (hex) "?n < 32" "?n \<notin> {8, 9, 10, 12, 13}" "c \<noteq> quote" "c \<noteq> backslash"
    | (plain) "\<not> ?n < 32" "c \<noteq> quote" "c \<noteq> backslash" by fastforce
  then show ?thesis
  proof cases
    case special
    then show ?thesis by (auto simp: escape_char_def unescape_def quote_def backslash_def Let_def)
  next
    case short
    moreover have "c \<noteq> quote" "c \<noteq> backslash" using short by (auto simp: quote_def backslash_def)
    ultimately show ?thesis
      by (auto simp: escape_char_def unescape_def quote_def backslash_def Let_def) (use c in simp_all)
  next
    case hex
    have "hex4 (CHR ''0'' # CHR ''0'' # hex_lower (?n div 16) # hex_lower (?n mod 16) # t) = Some ?n"
      using hex(1) hex_value_lower[of "?n div 16"] hex_value_lower[of "?n mod 16"]
      by (simp add: hex4_def hex_value_def[of "CHR ''0''"])
    then have "unescape_unicode (CHR ''0'' # CHR ''0'' # hex_lower (?n div 16) # hex_lower (?n mod 16) # t) = Some ([c], 5)"
      using hex(1) by (simp add: unescape_unicode_def utf8_def)
    with hex show ?thesis
      by (auto simp: escape_char_def unescape_def quote_def backslash_def Let_def)
  next
    case plain
    then show ?thesis by (auto simp: escape_char_def Let_def)
  qed
qed

lemma parse_str_stringify: "parse_str (concat (map escape_char s) @ quote # t) = Some (s, t)"
  by (induction s) (simp_all add: parse_str_escape)

text \<open>The values whose text reads back exactly: no numbers, no repeated keys.\<close>

fun plain_json :: "json \<Rightarrow> bool"
  and plain_elems :: "json list \<Rightarrow> bool"
  and plain_members :: "(string \<times> json) list \<Rightarrow> bool"
where
  "plain_json JNull = True"
| "plain_json (JBool b) = True"
| "plain_json (JNum x) = False"
| "plain_json (JStr s) = True"
| "plain_json (JArr vs) = plain_elems vs"
| "plain_json (JObj kvs) = plain_members kvs"
| "plain_elems [] = True"
| "plain_elems (v # vs) = (plain_json v \<and> plain_elems vs)"
| "plain_members [] = True"
| "plain_members ((k, v) # kvs) = (k \<notin> fst ` set kvs \<and> plain_json v \<and> plain_members kvs)"

lemma skip_ws_Cons: "\<not> is_json_space c \<Longrightarrow> skip_ws (c # s) = c # s"
  by (simp add: skip_ws_def)

lemma json_punctuation [simp]:
  "\<not> is_json_space quote" "\<not> is_json_space CHR ''[''" "\<not> is_json_space CHR '']''" "\<not> is_json_space CHR ''{''"
  "\<not> is_json_space CHR ''}''" "\<not> is_json_space CHR '',''" "\<not> is_json_space CHR '':''"
  "\<not> is_json_space CHR ''n''" "\<not> is_json_space CHR ''t''" "\<not> is_json_space CHR ''f''"
  by (simp_all add: is_json_space_def quote_def)

lemma quote_neq_bracket: "quote \<noteq> CHR '']''"
  by (simp add: quote_def)

text \<open>The first character of a printed value: never white space and never a closing bracket.\<close>

lemma stringify_first:
  assumes "plain_json v"
  obtains c cs where "JSON_stringify v = c # cs" "\<not> is_json_space c" "c \<noteq> CHR '']''"
  using assms json_punctuation
proof (cases v)
  case (JBool b)
  then show ?thesis using that by (cases b) auto
next
  case (JStr s)
  then show ?thesis using that[of quote] by (simp add: stringify_string_def quote_neq_bracket)
qed (auto intro: that)

lemma skip_ws_stringify: "plain_json v \<Longrightarrow> skip_ws (JSON_stringify v @ t) = JSON_stringify v @ t"
  by (erule stringify_first[of v]) (simp add: skip_ws_Cons)

lemma stringify_elems_Cons: "stringify_elems (v # vs) = JSON_stringify v @ (if vs = [] then [] else '','' @ stringify_elems vs)"
  by (cases vs) simp_all

lemma stringify_members_Cons:
  "stringify_members ((k, v) # kvs) =
     stringify_string k @ '':'' @ JSON_stringify v @ (if kvs = [] then [] else '','' @ stringify_members kvs)"
  by (cases kvs) simp_all

lemma not_closing_elems: "plain_elems (v # vs) \<Longrightarrow> \<not> starts_with CHR '']'' (skip_ws (stringify_elems (v # vs) @ t))"
  by (auto simp: stringify_elems_Cons skip_ws_stringify starts_with_def elim!: stringify_first[of v])

lemma not_closing_members: "\<not> starts_with CHR ''}'' (skip_ws (stringify_members ((k, v) # kvs) @ t))"
  by (simp add: stringify_members_Cons stringify_string_def skip_ws_Cons starts_with_def) (simp add: quote_def)

lemma amap_set_new: "k \<notin> fst ` set m \<Longrightarrow> amap_set k v m = m @ [(k, v)]"
  by (induction m) auto

text \<open>Above some fuel every printed value is read back, with the text behind it untouched.\<close>

lemma eventually_Suc: "\<exists>N. \<forall>n\<ge>N. P n \<Longrightarrow> (\<And>n. P n \<Longrightarrow> Q (Suc n)) \<Longrightarrow> \<exists>N. \<forall>n\<ge>N. Q n"
  by (metis Suc_le_D Suc_le_mono)

lemma eventually_conj: "\<exists>N::nat. \<forall>n\<ge>N. P n \<Longrightarrow> \<exists>N. \<forall>n\<ge>N. Q n \<Longrightarrow> \<exists>N. \<forall>n\<ge>N. P n \<and> Q n"
  by (metis max.bounded_iff nat_le_linear order_trans max.cobounded1 max.cobounded2)

lemma parse_stringify:
  shows "plain_json v \<Longrightarrow> \<exists>N. \<forall>n\<ge>N. \<forall>t. parse_value n (JSON_stringify v @ t) = Some (v, t)"
    and "plain_elems vs \<Longrightarrow> vs \<noteq> [] \<Longrightarrow>
      \<exists>N. \<forall>n\<ge>N. \<forall>t. parse_elems n (stringify_elems vs @ CHR '']'' # t) = Some (vs, t)"
    and "plain_members kvs \<Longrightarrow> kvs \<noteq> [] \<Longrightarrow>
      \<exists>N. \<forall>n\<ge>N. \<forall>t acc. fst ` set acc \<inter> fst ` set kvs = {} \<longrightarrow>
        parse_members n acc (stringify_members kvs @ CHR ''}'' # t) = Some (acc @ kvs, t)"
proof (induction v and vs and kvs rule: plain_json_plain_elems_plain_members.induct)
  case 1
  show ?case
    by (rule exI[of _ 1]) (auto simp: Suc_le_eq gr0_conv_Suc skip_ws_Cons starts_with_def parse_literal_def quote_def)
next
  case (2 b)
  show ?case
    by (rule exI[of _ 1])
      (auto simp: Suc_le_eq gr0_conv_Suc skip_ws_Cons starts_with_def parse_literal_def quote_def)
next
  case (4 s)
  show ?case
    by (rule exI[of _ 1])
      (auto simp: Suc_le_eq gr0_conv_Suc stringify_string_def skip_ws_Cons starts_with_def parse_str_stringify)
next
  case (5 vs)
  show ?case
  proof (cases vs)
    case Nil
    then show ?thesis
      by (intro exI[of _ 1]) (auto simp: Suc_le_eq gr0_conv_Suc skip_ws_Cons starts_with_def quote_def)
  next
    case (Cons w ws)
    with 5 have "\<exists>N. \<forall>n\<ge>N. \<forall>t. parse_elems n (stringify_elems vs @ CHR '']'' # t) = Some (vs, t)" by simp
    then show ?thesis
    proof (rule eventually_Suc)
      fix n
      assume n: "\<forall>t. parse_elems n (stringify_elems vs @ CHR '']'' # t) = Some (vs, t)"
      have "\<not> starts_with CHR '']'' (skip_ws (stringify_elems vs @ CHR '']'' # t))" for t
        using not_closing_elems 5(2) Cons by simp
      with n show "\<forall>t. parse_value (Suc n) (JSON_stringify (JArr vs) @ t) = Some (JArr vs, t)"
        by (auto simp: skip_ws_Cons starts_with_def[of _ "_ # _"] quote_def Let_def)
    qed
  qed
next
  case (6 kvs)
  show ?case
  proof (cases kvs)
    case Nil
    then show ?thesis
      by (intro exI[of _ 1]) (auto simp: Suc_le_eq gr0_conv_Suc skip_ws_Cons starts_with_def quote_def)
  next
    case (Cons kv ws)
    with 6 have "\<exists>N. \<forall>n\<ge>N. \<forall>t acc. fst ` set acc \<inter> fst ` set kvs = {} \<longrightarrow>
        parse_members n acc (stringify_members kvs @ CHR ''}'' # t) = Some (acc @ kvs, t)" by simp
    then show ?thesis
    proof (rule eventually_Suc)
      fix n
      assume "\<forall>t acc. fst ` set acc \<inter> fst ` set kvs = {} \<longrightarrow>
        parse_members n acc (stringify_members kvs @ CHR ''}'' # t) = Some (acc @ kvs, t)"
      then have n: "parse_members n [] (stringify_members kvs @ CHR ''}'' # t) = Some (kvs, t)" for t
        by (metis append_Nil image_empty inf_bot_left list.set(1))
      have "\<not> starts_with CHR ''}'' (skip_ws (stringify_members kvs @ CHR ''}'' # t))" for t
        using not_closing_members[of "fst kv" "snd kv" ws] Cons by simp
      with n show "\<forall>t. parse_value (Suc n) (JSON_stringify (JObj kvs) @ t) = Some (JObj kvs, t)"
        by (auto simp: skip_ws_Cons starts_with_def[of _ "_ # _"] quote_def Let_def)
    qed
  qed
next
  case (8 v vs)
  then have v: "\<exists>N. \<forall>n\<ge>N. \<forall>t. parse_value n (JSON_stringify v @ t) = Some (v, t)" by simp
  show ?case
  proof (cases vs)
    case Nil
    from v show ?thesis
      by (rule eventually_Suc) (auto simp: Nil Let_def skip_ws_Cons starts_with_def)
  next
    case (Cons w ws)
    with 8 have "\<exists>N. \<forall>n\<ge>N. \<forall>t. parse_elems n (stringify_elems vs @ CHR '']'' # t) = Some (vs, t)" by simp
    from eventually_conj[OF v this] show ?thesis
      by (rule eventually_Suc) (auto simp: Cons stringify_elems_Cons[of v] Let_def skip_ws_Cons starts_with_def)
  qed
next
  case (10 k v kvs)
  then have v: "\<exists>N. \<forall>n\<ge>N. \<forall>t. parse_value n (JSON_stringify v @ t) = Some (v, t)"
    and k: "k \<notin> fst ` set kvs" by simp_all
  have str: "skip_ws (stringify_string k @ t) = quote # concat (map escape_char k) @ quote # t" for t
    by (simp add: stringify_string_def skip_ws_Cons)
  show ?case
  proof (cases kvs)
    case Nil
    from v show ?thesis
      by (rule eventually_Suc)
        (auto simp: Nil Let_def str parse_str_stringify skip_ws_Cons starts_with_def[of _ "_ # _"] amap_set_new)
  next
    case (Cons kv ws)
    with 10 have "\<exists>N. \<forall>n\<ge>N. \<forall>t acc. fst ` set acc \<inter> fst ` set kvs = {} \<longrightarrow>
        parse_members n acc (stringify_members kvs @ CHR ''}'' # t) = Some (acc @ kvs, t)" by simp
    from eventually_conj[OF v this] show ?thesis
    proof (rule eventually_Suc, intro allI impI)
      fix n t and acc :: "(string \<times> json) list"
      assume n: "(\<forall>t. parse_value n (JSON_stringify v @ t) = Some (v, t)) \<and>
        (\<forall>t acc. fst ` set acc \<inter> fst ` set kvs = {} \<longrightarrow>
          parse_members n acc (stringify_members kvs @ CHR ''}'' # t) = Some (acc @ kvs, t))"
        and acc: "fst ` set acc \<inter> fst ` set ((k, v) # kvs) = {}"
      have "amap_set k v acc = acc @ [(k, v)]" using acc by (intro amap_set_new) auto
      moreover have "fst ` set (acc @ [(k, v)]) \<inter> fst ` set kvs = {}" using acc k by auto
      ultimately show "parse_members (Suc n) acc (stringify_members ((k, v) # kvs) @ CHR ''}'' # t) = Some (acc @ (k, v) # kvs, t)"
        using n by (simp add: stringify_members_Cons Cons[symmetric] Let_def str parse_str_stringify skip_ws_Cons starts_with_def[of _ "_ # _"])
    qed
  qed
qed simp_all

theorem JSON_roundtrip: "plain_json v \<Longrightarrow> JSON_parse (JSON_stringify v) = Some v"
proof -
  assume v: "plain_json v"
  from parse_stringify(1)[OF v] obtain N where N: "\<forall>n\<ge>N. \<forall>t. parse_value n (JSON_stringify v @ t) = Some (v, t)" by blast
  let ?s = "JSON_stringify v"
  have "parse_value (2 * length ?s + 1) ?s = parse_value (max N (2 * length ?s + 1)) ?s"
    by (rule parse_value_fuel) auto
  also have "\<dots> = Some (v, [])" using N[rule_format, of "max N (2 * length ?s + 1)" "[]"] by simp
  finally show ?thesis by (simp add: JSON_parse_def skip_ws_def)
qed

end
