(* ===== verification/Approval.thy ===== *)
theory Approval
  imports Json_Text
begin

section \<open>Browser-local approvals\<close>

text \<open>
  \<open>lib/decisionApproval.ts\<close>: acknowledgments of decisions in the browser's \<open>sessionStorage\<close>, one
  JSON text per assessment. The locale \<open>web_storage\<close> is the contract of the Storage interface the
  code calls (reading what was written, other keys untouched, removal); it is interpreted on a map
  from keys to texts. A full storage, on which \<open>setItem\<close> throws, is not modelled.
\<close>

type_synonym storage = "(string \<times> string) list"

definition getItem :: "storage \<Rightarrow> string \<Rightarrow> string option" where
  "getItem st k = map_of st k"

definition setItem :: "string \<Rightarrow> string \<Rightarrow> storage \<Rightarrow> storage" where
  "setItem k v st = amap_set k v st"

definition removeItem :: "string \<Rightarrow> storage \<Rightarrow> storage" where
  "removeItem k st = filter (\<lambda>kv. fst kv \<noteq> k) st"

record DecisionAcknowledgment =
  da_acknowledgedAtIso :: string
  da_note :: string

definition STORAGE_PREFIX :: string where "STORAGE_PREFIX = ''isip.decision-ack.''"

definition storageKey :: "string \<Rightarrow> string" where
  "storageKey assessmentId = STORAGE_PREFIX @ assessmentId"

text \<open>
  The check of a parsed value: two string properties. \<open>null\<close> makes the property access throw, which
  is caught; on every other non-object the properties are \<open>undefined\<close>.
\<close>

definition acknowledgment_of_json :: "json \<Rightarrow> DecisionAcknowledgment option" where
  "acknowledgment_of_json parsed =
     (case parsed of
        JObj kvs \<Rightarrow>
          (case (json_get kvs ''acknowledgedAtIso'', json_get kvs ''note'') of
             (Some (JStr ackAt), Some (JStr note)) \<Rightarrow> Some \<lparr>da_acknowledgedAtIso = ackAt, da_note = note\<rparr>
           | _ \<Rightarrow> None)
      | _ \<Rightarrow> None)"

definition acknowledgment_json :: "DecisionAcknowledgment \<Rightarrow> json" where
  "acknowledgment_json entry =
     JObj [(''acknowledgedAtIso'', JStr (da_acknowledgedAtIso entry)), (''note'', JStr (da_note entry))]"

definition getLocalAcknowledgment :: "storage \<Rightarrow> string \<Rightarrow> DecisionAcknowledgment option" where
  "getLocalAcknowledgment st assessmentId =
     (case getItem st (storageKey assessmentId) of
        None \<Rightarrow> None
      | Some raw \<Rightarrow>
          if raw = [] then None
          else (case JSON_parse raw of None \<Rightarrow> None | Some parsed \<Rightarrow> acknowledgment_of_json parsed))"

definition setLocalAcknowledgment ::
  "string \<Rightarrow> string \<Rightarrow> string \<Rightarrow> storage \<Rightarrow> DecisionAcknowledgment \<times> storage" where
  "setLocalAcknowledgment assessmentId note acknowledgedAtIso st =
     (let entry = \<lparr>da_acknowledgedAtIso = acknowledgedAtIso, da_note = note\<rparr>
      in (entry, setItem (storageKey assessmentId) (JSON_stringify (acknowledgment_json entry)) st))"

definition clearLocalAcknowledgment :: "string \<Rightarrow> storage \<Rightarrow> storage" where
  "clearLocalAcknowledgment assessmentId st = removeItem (storageKey assessmentId) st"

subsection \<open>The contract of the storage\<close>

locale web_storage =
  fixes get :: "'s \<Rightarrow> string \<Rightarrow> string option"
    and put :: "string \<Rightarrow> string \<Rightarrow> 's \<Rightarrow> 's"
    and remove :: "string \<Rightarrow> 's \<Rightarrow> 's"
  assumes get_put: "get (put k v s) k' = (if k' = k then Some v else get s k')"
    and get_remove: "get (remove k s) k' = (if k' = k then None else get s k')"
begin

text \<open>Values under derived keys do not interfere when the keys are derived injectively.\<close>

lemma get_put_key: "inj key \<Longrightarrow> get (put (key i) v s) (key j) = (if j = i then Some v else get s (key j))"
  by (auto simp: get_put dest: injD)

lemma get_remove_key: "inj key \<Longrightarrow> get (remove (key i) s) (key j) = (if j = i then None else get s (key j))"
  by (auto simp: get_remove dest: injD)

end

lemma map_of_removeItem: "map_of (removeItem k st) k' = (if k' = k then None else map_of st k')"
  by (induction st) (auto simp: removeItem_def)

interpretation session: web_storage getItem setItem removeItem
  by unfold_locales (simp_all add: getItem_def setItem_def map_of_removeItem)

lemma storageKey_inj: "inj storageKey"
  by (simp add: inj_def storageKey_def)

lemma acknowledgment_text:
  "JSON_parse (JSON_stringify (acknowledgment_json entry)) = Some (acknowledgment_json entry)"
  by (rule JSON_roundtrip) (simp add: acknowledgment_json_def)

lemma acknowledgment_text_nonempty: "JSON_stringify (acknowledgment_json entry) \<noteq> []"
  by (simp add: acknowledgment_json_def)

lemma acknowledgment_of_stored: "acknowledgment_of_json (acknowledgment_json entry) = Some entry"
  by (simp add: acknowledgment_of_json_def acknowledgment_json_def json_get_def)

lemma acknowledgment_after:
  "getLocalAcknowledgment (snd (setLocalAcknowledgment i note ackAt st)) j =
     (if j = i then Some \<lparr>da_acknowledgedAtIso = ackAt, da_note = note\<rparr> else getLocalAcknowledgment st j)"
  "getLocalAcknowledgment (clearLocalAcknowledgment i st) j = (if j = i then None else getLocalAcknowledgment st j)"
  by (simp_all add: Let_def setLocalAcknowledgment_def getLocalAcknowledgment_def clearLocalAcknowledgment_def
      session.get_put_key[OF storageKey_inj] session.get_remove_key[OF storageKey_inj]
      acknowledgment_text acknowledgment_text_nonempty acknowledgment_of_stored)

subsection \<open>Properties\<close>

text \<open>
  An acknowledgment that was stored is read back exactly, whatever characters its note holds,
  the acknowledgments of all other assessments are unaffected by storing and clearing, and a
  cleared one is gone.
\<close>

theorem acknowledgment_roundtrip:
  "(case setLocalAcknowledgment i note ackAt st of
      (entry, st') \<Rightarrow>
        entry = \<lparr>da_acknowledgedAtIso = ackAt, da_note = note\<rparr> \<and>
        getLocalAcknowledgment st' j = (if j = i then Some entry else getLocalAcknowledgment st j)) \<and>
   getLocalAcknowledgment (clearLocalAcknowledgment i st) j = (if j = i then None else getLocalAcknowledgment st j)"
  using acknowledgment_after(1)[of i "note" ackAt st j] acknowledgment_after(2)[of i st j]
  by (simp add: setLocalAcknowledgment_def Let_def)

end
