(* ===== verification/Api_Client.thy ===== *)
theory Api_Client
  imports Replay Json_Text
begin

section \<open>The API client\<close>

text \<open>
  \<open>api/client.ts\<close> and the endpoint modules under \<open>api/\<close>. The browser's \<open>fetch\<close> is an argument that
  maps a request to a response, or to a failure with its text and whether the abort timer had
  fired; a response is its status and its body text (\<open>None\<close> when the body could not be read). What
  the engine prints for a failed \<open>response.json()\<close> is an argument too. An endpoint returns the
  parsed JSON value, which the TypeScript code casts without a check. \<open>ApiError\<close> keeps the values
  handed to its constructor (\<open>None\<close> is \<open>undefined\<close>); \<open>TypeError\<close> is the exception of a property access
  on \<open>null\<close>.

  Query strings are read back by the form-decoding rules to exactly the defined parameters, and
  the outcomes of a call are classified completely.
\<close>

subsection \<open>Requests and responses\<close>

datatype param_value = PStr string | PNum number

type_synonym params = "(string \<times> param_value option) list"

record request =
  rq_url :: string
  rq_method :: string
  rq_body :: "string option"

record response =
  rp_status :: nat
  rp_body :: "string option"

datatype fetch_result = Fetched response | Fetch_failed string bool

record api_host =
  ah_base :: string
  ah_fetch :: "request \<Rightarrow> fetch_result"
  ah_json_failure :: "response \<Rightarrow> string"

definition response_ok :: "response \<Rightarrow> bool" where
  "response_ok r \<longleftrightarrow> 200 \<le> rp_status r \<and> rp_status r \<le> 299"

definition response_json :: "response \<Rightarrow> json option" where
  "response_json r = Option.bind (rp_body r) JSON_parse"

datatype client_error =
    ApiError (ae_message: "json option") (ae_code: "json option") (ae_status: "nat option") (ae_details: "json option")
  | TypeError

definition api_error :: "string \<Rightarrow> string \<Rightarrow> nat option \<Rightarrow> json option \<Rightarrow> client_error" where
  "api_error message code status details = ApiError (Some (JStr message)) (Some (JStr code)) status details"

subsection \<open>Query strings\<close>

definition form_char :: "char \<Rightarrow> string" where
  "form_char c =
     (if c = CHR '' '' then ''+'' else if is_alnum c \<or> c \<in> set ''*-._'' then [c] else percent c)"

definition form_encode :: "string \<Rightarrow> string" where
  "form_encode s = concat (map form_char s)"

definition form_pair :: "string \<times> string \<Rightarrow> string" where
  "form_pair kv = form_encode (fst kv) @ ''='' @ form_encode (snd kv)"

definition param_text :: "param_value \<Rightarrow> string" where
  "param_text v = (case v of PStr s \<Rightarrow> s | PNum n \<Rightarrow> num_toString n)"

definition defined_params :: "params \<Rightarrow> (string \<times> string) list" where
  "defined_params ps =
     foldl (\<lambda>search (k, v). case v of None \<Rightarrow> search | Some x \<Rightarrow> amap_set k (param_text x) search) [] ps"

definition buildQueryString :: "params \<Rightarrow> string" where
  "buildQueryString ps =
     (let query = js_join ''&'' (map form_pair (defined_params ps))
      in if query \<noteq> [] then ''?'' @ query else [])"

subsection \<open>Responses\<close>

definition parseErrorEnvelope :: "response \<Rightarrow> json option" where
  "parseErrorEnvelope r =
     (case response_json r of
        Some (JObj body) \<Rightarrow>
          (case json_get body ''error'' of
             Some (JObj e) \<Rightarrow> Some (JObj e)
           | Some (JArr e) \<Rightarrow> Some (JArr e)
           | Some JNull \<Rightarrow> Some JNull
           | _ \<Rightarrow> None)
      | _ \<Rightarrow> None)"

definition json_property :: "json \<Rightarrow> string \<Rightarrow> json option" where
  "json_property v k = (case v of JObj kvs \<Rightarrow> json_get kvs k | _ \<Rightarrow> None)"

definition nullish :: "json option \<Rightarrow> json option" where
  "nullish v = (if v = Some JNull then None else v)"

definition handleResponse :: "api_host \<Rightarrow> response \<Rightarrow> client_error + json" where
  "handleResponse api r =
     (if \<not> response_ok r then
        (case parseErrorEnvelope r of
           Some e \<Rightarrow>
             if e = JNull then Inl TypeError
             else Inl (ApiError (json_property e ''message'') (json_property e ''code'') (Some (rp_status r))
                    (nullish (json_property e ''details'')))
         | None \<Rightarrow>
             Inl (api_error (''Backend returned '' @ show_nat (rp_status r) @ '' with a malformed response body.'')
                    ''MALFORMED_RESPONSE'' (Some (rp_status r)) None))
      else
        (case response_json r of
           Some v \<Rightarrow> Inr v
         | None \<Rightarrow>
             Inl (api_error ''Backend response was not valid JSON.'' ''MALFORMED_RESPONSE'' (Some (rp_status r))
                    (Some (JObj [(''cause'', JStr (ah_json_failure api r))])))))"

subsection \<open>Calls\<close>

definition perform :: "api_host \<Rightarrow> request \<Rightarrow> client_error + json" where
  "perform api rq =
     (case ah_fetch api rq of
        Fetch_failed cause aborted \<Rightarrow>
          if aborted then Inl (api_error ''Request timed out.'' ''TIMEOUT'' None None)
          else Inl (api_error ''Could not reach the backend.'' ''NETWORK_ERROR'' None
                      (Some (JObj [(''cause'', JStr cause)])))
      | Fetched r \<Rightarrow> handleResponse api r)"

definition apiGet :: "api_host \<Rightarrow> string \<Rightarrow> params \<Rightarrow> client_error + json" where
  "apiGet api path ps =
     perform api \<lparr>rq_url = ah_base api @ path @ buildQueryString ps, rq_method = ''GET'', rq_body = None\<rparr>"

definition apiPost :: "api_host \<Rightarrow> string \<Rightarrow> json \<Rightarrow> client_error + json" where
  "apiPost api path body =
     perform api \<lparr>rq_url = ah_base api @ path, rq_method = ''POST'', rq_body = Some (JSON_stringify body)\<rparr>"

subsection \<open>Endpoints\<close>

definition getAuditLog :: "api_host \<Rightarrow> params \<Rightarrow> client_error + json" where
  "getAuditLog api query = apiGet api ''/api/v1/audit'' query"

definition getCounterfactualComparison :: "api_host \<Rightarrow> string \<Rightarrow> string \<Rightarrow> client_error + json" where
  "getCounterfactualComparison api zoneId timestamp =
     apiGet api (''/api/v1/counterfactual/'' @ zoneId) [(''timestamp'', Some (PStr timestamp))]"

definition getForesightForecast ::
  "api_host \<Rightarrow> string \<Rightarrow> string \<Rightarrow> string \<Rightarrow> number option \<Rightarrow> number option \<Rightarrow> string option \<Rightarrow> client_error + json" where
  "getForesightForecast api zoneId timestamp scenarioKey windowSize topN deckKey =
     apiGet api ''/api/v1/foresight/forecast''
       [(''zone_id'', Some (PStr zoneId)), (''timestamp'', Some (PStr timestamp)),
        (''scenario_key'', Some (PStr scenarioKey)), (''window_size'', map_option PNum windowSize),
        (''top_n'', map_option PNum topN), (''deck_key'', map_option PStr deckKey)]"

definition getGraphEntity :: "api_host \<Rightarrow> string \<Rightarrow> string \<Rightarrow> client_error + json" where
  "getGraphEntity api kind eid = apiGet api (''/api/v1/graph/entity/'' @ kind @ ''/'' @ eid) []"

definition getGraphNeighbors :: "api_host \<Rightarrow> string \<Rightarrow> string \<Rightarrow> client_error + json" where
  "getGraphNeighbors api kind eid = apiGet api (''/api/v1/graph/neighbors/'' @ kind @ ''/'' @ eid) []"

definition getGraphSubgraph ::
  "api_host \<Rightarrow> string \<Rightarrow> string \<Rightarrow> number option \<Rightarrow> number option \<Rightarrow> client_error + json" where
  "getGraphSubgraph api kind eid depth maxNodes =
     apiGet api (''/api/v1/graph/subgraph/'' @ kind @ ''/'' @ eid)
       [(''depth'', map_option PNum depth), (''max_nodes'', map_option PNum maxNodes)]"

definition searchGraphEntities :: "api_host \<Rightarrow> string \<Rightarrow> number option \<Rightarrow> client_error + json" where
  "searchGraphEntities api query limit =
     apiGet api ''/api/v1/graph/search'' [(''q'', Some (PStr query)), (''limit'', map_option PNum limit)]"

definition getGraphPath ::
  "api_host \<Rightarrow> string \<times> string \<Rightarrow> string \<times> string \<Rightarrow> number option \<Rightarrow> client_error + json" where
  "getGraphPath api source target maxDepth =
     apiGet api ''/api/v1/graph/path''
       [(''source_kind'', Some (PStr (fst source))), (''source_id'', Some (PStr (snd source))),
        (''target_kind'', Some (PStr (fst target))), (''target_id'', Some (PStr (snd target))),
        (''max_depth'', map_option PNum maxDepth)]"

definition getHealth :: "api_host \<Rightarrow> client_error + json" where
  "getHealth api = apiGet api ''/api/v1/health'' []"

definition getPlatformHealth :: "api_host \<Rightarrow> client_error + json" where
  "getPlatformHealth api = apiGet api ''/api/v1/health/platform'' []"

definition getHistoricalDecks :: "api_host \<Rightarrow> client_error + json" where
  "getHistoricalDecks api = apiGet api ''/api/v1/historical/decks'' []"

definition getHistoricalMatches ::
  "api_host \<Rightarrow> string \<Rightarrow> string \<Rightarrow> number option \<Rightarrow> string option \<Rightarrow> client_error + json" where
  "getHistoricalMatches api zoneId timestamp topN deckKey =
     apiGet api ''/api/v1/historical/matches''
       [(''zone_id'', Some (PStr zoneId)), (''timestamp'', Some (PStr timestamp)),
        (''top_n'', map_option PNum topN), (''deck_key'', map_option PStr deckKey)]"

definition getHistoricalAnalytics :: "api_host \<Rightarrow> string option \<Rightarrow> client_error + json" where
  "getHistoricalAnalytics api deckKey =
     apiGet api ''/api/v1/historical/analytics'' [(''deck_key'', map_option PStr deckKey)]"

definition getConnectorStatus :: "api_host \<Rightarrow> client_error + json" where
  "getConnectorStatus api = apiGet api ''/api/v1/ingest/status'' []"

definition pollMockConnector :: "api_host \<Rightarrow> string \<Rightarrow> json \<Rightarrow> client_error + json" where
  "pollMockConnector api protocol body = apiPost api (''/api/v1/ingest/mock/'' @ protocol) body"

definition ingestReading :: "api_host \<Rightarrow> json \<Rightarrow> client_error + json" where
  "ingestReading api body = apiPost api ''/api/v1/ingest/reading'' body"

definition getPermits :: "api_host \<Rightarrow> params \<Rightarrow> client_error + json" where
  "getPermits api query = apiGet api ''/api/v1/permits'' query"

text \<open>\<open>target.scenarioKey\<close> is tested for truth, so the empty key falls through to the window.\<close>

definition getReplay :: "api_host \<Rightarrow> ReplayTarget \<Rightarrow> client_error + json" where
  "getReplay api target =
     (case truthy (rt_scenarioKey target) of
        Some key \<Rightarrow> apiGet api ''/api/v1/replay'' [(''scenario_key'', Some (PStr key))]
      | None \<Rightarrow>
          apiGet api ''/api/v1/replay''
            [(''zone_ids'', Some (PStr (js_join '','' (case rt_zoneIds target of Some zs \<Rightarrow> zs | None \<Rightarrow> [])))),
             (''start'', map_option PStr (rt_start target)), (''end'', map_option PStr (rt_end target))])"

definition getCurrentRisk :: "api_host \<Rightarrow> client_error + json" where
  "getCurrentRisk api = apiGet api ''/api/v1/risk/current'' []"

definition getRiskHistory :: "api_host \<Rightarrow> string \<Rightarrow> params \<Rightarrow> client_error + json" where
  "getRiskHistory api zoneId query = apiGet api (''/api/v1/risk/history/'' @ zoneId) query"

definition getRiskAssessment :: "api_host \<Rightarrow> string \<Rightarrow> client_error + json" where
  "getRiskAssessment api assessmentId = apiGet api (''/api/v1/risk/assessment/'' @ assessmentId) []"

definition getWorkers :: "api_host \<Rightarrow> client_error + json" where
  "getWorkers api = apiGet api ''/api/v1/workers'' []"

definition getZoneSensors :: "api_host \<Rightarrow> string \<Rightarrow> client_error + json" where
  "getZoneSensors api zoneId = apiGet api (''/api/v1/zones/'' @ zoneId @ ''/sensors'') []"

definition getZoneEquipment :: "api_host \<Rightarrow> string \<Rightarrow> client_error + json" where
  "getZoneEquipment api zoneId = apiGet api (''/api/v1/zones/'' @ zoneId @ ''/equipment'') []"

definition getBuilderOptions :: "api_host \<Rightarrow> client_error + json" where
  "getBuilderOptions api = apiGet api ''/api/v1/scenario-builder/options'' []"

definition validateScenario :: "api_host \<Rightarrow> json \<Rightarrow> client_error + json" where
  "validateScenario api draft = apiPost api ''/api/v1/scenario-builder/validate'' draft"

definition executeScenario :: "api_host \<Rightarrow> json \<Rightarrow> client_error + json" where
  "executeScenario api draft = apiPost api ''/api/v1/scenario-builder/execute'' draft"

definition getScenarios :: "api_host \<Rightarrow> client_error + json" where
  "getScenarios api = apiGet api ''/api/v1/scenarios'' []"

definition getScenario :: "api_host \<Rightarrow> string \<Rightarrow> client_error + json" where
  "getScenario api key = apiGet api (''/api/v1/scenarios/'' @ key) []"

definition getZones :: "api_host \<Rightarrow> client_error + json" where
  "getZones api = apiGet api ''/api/v1/zones'' []"

definition getZoneWorkerCount :: "api_host \<Rightarrow> string \<Rightarrow> client_error + json" where
  "getZoneWorkerCount api zoneId = apiGet api (''/api/v1/zones/'' @ zoneId @ ''/workers/count'') []"

text \<open>A local host whose backend answers every request with the same JSON body.\<close>

definition echo_host :: "json \<Rightarrow> api_host" where
  "echo_host v =
     \<lparr>ah_base = ''http://localhost:8000'',
      ah_fetch = (\<lambda>rq. Fetched \<lparr>rp_status = 200, rp_body = Some (JSON_stringify v)\<rparr>),
      ah_json_failure = (\<lambda>r. ''SyntaxError'')\<rparr>"

subsection \<open>Reading a query string\<close>

text \<open>The receiver's side, by the form-decoding rules of the URL standard.\<close>

fun form_decode :: "string \<Rightarrow> string" where
  "form_decode [] = []"
| "form_decode [a] = [if a = CHR ''+'' then CHR '' '' else a]"
| "form_decode [a, b] = (if a = CHR ''+'' then CHR '' '' else a) # form_decode [b]"
| "form_decode (a # b # c # r) =
     (if a = CHR ''%'' then
        (case (hex_value b, hex_value c) of
           (Some x, Some y) \<Rightarrow> char_of (16 * x + y) # form_decode r
         | _ \<Rightarrow> a # form_decode (b # c # r))
      else (if a = CHR ''+'' then CHR '' '' else a) # form_decode (b # c # r))"

definition read_pair :: "string \<Rightarrow> string \<times> string" where
  "read_pair s =
     (form_decode (takeWhile (\<lambda>c. c \<noteq> CHR ''='') s), form_decode (tl (dropWhile (\<lambda>c. c \<noteq> CHR ''='') s)))"

definition read_query :: "string \<Rightarrow> (string \<times> string) list" where
  "read_query q = (if q = [] then [] else map read_pair (split_on CHR ''&'' (tl q)))"

subsection \<open>Facts\<close>

lemma form_decode_plain: "a \<noteq> CHR ''%'' \<Longrightarrow> form_decode (a # t) = (if a = CHR ''+'' then CHR '' '' else a) # form_decode t"
  by (cases t rule: form_decode.cases) simp_all

lemma hex_digit_facts:
  "d < 16 \<Longrightarrow> hex_value (hex_digit d) = Some d \<and> hex_digit d \<noteq> CHR ''&'' \<and> hex_digit d \<noteq> CHR ''=''"
proof -
  assume "d < 16"
  then have "d \<in> set [0..<16]" by simp
  moreover have "list_all (\<lambda>d. hex_value (hex_digit d) = Some d \<and> hex_digit d \<noteq> CHR ''&'' \<and> hex_digit d \<noteq> CHR ''='') [0..<16]"
    by code_simp
  ultimately show ?thesis by (auto simp: list_all_iff)
qed

lemma form_decode_percent: "form_decode (percent c @ t) = c # form_decode t"
proof -
  have n: "(of_char c :: nat) < 256" by (rule of_char_less_256)
  then have "hex_value (hex_digit (of_char c div 16)) = Some (of_char c div 16)"
    "hex_value (hex_digit (of_char c mod 16)) = Some (of_char c mod 16)"
    by (simp_all add: hex_digit_facts less_mult_imp_div_less)
  then show ?thesis by (simp add: percent_def Let_def)
qed

lemma form_decode_char: "form_decode (form_char c @ t) = c # form_decode t"
proof -
  have "is_alnum c \<or> c \<in> set ''*-._'' \<Longrightarrow> c \<noteq> CHR ''%'' \<and> c \<noteq> CHR ''+''" by (auto simp: is_alnum_def Let_def)
  then show ?thesis by (auto simp: form_char_def form_decode_percent form_decode_plain)
qed

lemma form_decode_encode [simp]: "form_decode (form_encode s) = s"
  by (induction s) (simp_all add: form_encode_def form_decode_char)

lemma form_char_safe: "x \<in> set (form_char c) \<Longrightarrow> x \<noteq> CHR ''&'' \<and> x \<noteq> CHR ''=''"
proof -
  assume x: "x \<in> set (form_char c)"
  have "(of_char c :: nat) div 16 < 16" "(of_char c :: nat) mod 16 < 16"
    using of_char_less_256[of c] by (simp_all add: less_mult_imp_div_less)
  note hex = this[THEN hex_digit_facts]
  show ?thesis
    using x hex by (auto simp: form_char_def percent_def is_alnum_def Let_def split: if_splits)
qed

lemma form_encode_safe: "CHR ''&'' \<notin> set (form_encode s)" "CHR ''='' \<notin> set (form_encode s)"
  by (auto simp: form_encode_def dest: form_char_safe)

lemma read_pair_form: "read_pair (form_pair kv) = kv"
proof -
  have a: "\<forall>c\<in>set (form_encode (fst kv)). c \<noteq> CHR ''=''" using form_encode_safe(2)[of "fst kv"] by metis
  then have t: "takeWhile (\<lambda>c. c \<noteq> CHR ''='') (form_encode (fst kv) @ CHR ''='' # r) = form_encode (fst kv)" for r
    by (subst takeWhile_append2) simp_all
  have d: "dropWhile (\<lambda>c. c \<noteq> CHR ''='') (form_encode (fst kv) @ CHR ''='' # r) = CHR ''='' # r" for r
    using a by (subst dropWhile_append2) simp_all
  show ?thesis by (simp add: read_pair_def form_pair_def t d)
qed

lemma split_on_append: "sep \<notin> set s \<Longrightarrow> split_on sep (s @ sep # t) = s # split_on sep t"
  by (induction s) auto

lemma split_on_whole: "sep \<notin> set s \<Longrightarrow> split_on sep s = [s]"
  by (induction s) auto

lemma split_on_join: "ss \<noteq> [] \<Longrightarrow> \<forall>s\<in>set ss. sep \<notin> set s \<Longrightarrow> split_on sep (js_join [sep] ss) = ss"
  by (induction "[sep]" ss rule: js_join.induct) (simp_all add: split_on_append split_on_whole)

lemma form_pair_safe: "CHR ''&'' \<notin> set (form_pair kv)"
  using form_encode_safe by (simp add: form_pair_def)

lemma join_form_pairs_empty: "js_join ''&'' (map form_pair kvs) = [] \<longleftrightarrow> kvs = []"
proof (cases kvs)
  case (Cons kv kvs')
  then show ?thesis by (cases kvs') (simp_all add: form_pair_def)
qed simp

lemma defined_params_distinct: "distinct (map fst (defined_params ps))"
proof -
  have "distinct (map fst m) \<Longrightarrow> distinct (map fst (foldl (\<lambda>search (k, v).
      case v of None \<Rightarrow> search | Some x \<Rightarrow> amap_set k (param_text x) search) m ps))" for m :: "(string \<times> string) list"
    by (induction ps arbitrary: m) (auto simp: distinct_amap_set split: option.split)
  then show ?thesis by (simp add: defined_params_def)
qed

subsection \<open>Properties\<close>

text \<open>
  A query string loses nothing and invents nothing: decoded by the receiver's rules it yields
  exactly the parameters that are defined, each key once, for arbitrary keys and values.
\<close>

theorem buildQueryString_roundtrip:
  "read_query (buildQueryString ps) = defined_params ps \<and> distinct (map fst (defined_params ps))"
proof
  let ?kvs = "defined_params ps"
  show "read_query (buildQueryString ps) = ?kvs"
  proof (cases "?kvs = []")
    case True
    then show ?thesis by (simp add: buildQueryString_def read_query_def)
  next
    case False
    then have "split_on CHR ''&'' (js_join [CHR ''&''] (map form_pair ?kvs)) = map form_pair ?kvs"
      by (intro split_on_join) (auto simp: form_pair_safe)
    moreover have "js_join ''&'' (map form_pair ?kvs) \<noteq> []" using False join_form_pairs_empty by blast
    ultimately show ?thesis by (simp add: buildQueryString_def read_query_def read_pair_form o_def Let_def)
  qed
qed (rule defined_params_distinct)

text \<open>
  (C28) The outcomes of a GET are classified completely: it yields a value exactly when the backend
  answered with a 2xx status and a body that is the JSON text of that value; otherwise it fails
  with an \<open>ApiError\<close> that carries the status of the response (none when no response arrived), save
  that a failing response whose envelope is null ends in a \<open>TypeError\<close>.
\<close>

theorem apiGet_outcomes:
  "(case ah_fetch api \<lparr>rq_url = ah_base api @ path @ buildQueryString ps, rq_method = ''GET'', rq_body = None\<rparr> of
      Fetch_failed cause aborted \<Rightarrow>
        (\<exists>d. apiGet api path ps = Inl (ApiError (Some (JStr (if aborted then ''Request timed out.'' else ''Could not reach the backend.'')))
           (Some (JStr (if aborted then ''TIMEOUT'' else ''NETWORK_ERROR''))) None d))
    | Fetched r \<Rightarrow>
        (\<forall>v. apiGet api path ps = Inr v \<longleftrightarrow> response_ok r \<and> response_json r = Some v) \<and>
        (apiGet api path ps = Inl TypeError \<longleftrightarrow> \<not> response_ok r \<and> parseErrorEnvelope r = Some JNull) \<and>
        (\<forall>m c s d. apiGet api path ps = Inl (ApiError m c s d) \<longrightarrow> s = Some (rp_status r)))"
  by (auto simp: apiGet_def perform_def handleResponse_def api_error_def
      split: fetch_result.split option.splits if_splits)

theorem apiGet_outcomes_witness: "apiGet (echo_host (JArr [])) ''/api/v1/zones'' [] = Inr (JArr [])"
proof -
  have "JSON_parse (JSON_stringify (JArr [])) = Some (JArr [])" by (rule JSON_roundtrip) simp
  with apiGet_outcomes[of "echo_host (JArr [])" "''/api/v1/zones''" "[]"] show ?thesis
    by (simp add: echo_host_def response_ok_def response_json_def)
qed

text \<open>
  An error response whose body is \<open>{"error": null}\<close> passes the envelope check, because
  \<open>typeof null\<close> is \<open>object\<close>, and the call then ends in a \<open>TypeError\<close> instead of the promised
  \<open>ApiError\<close>.
\<close>

theorem null_envelope_TypeError:
  "handleResponse api \<lparr>rp_status = 500, rp_body = Some (JSON_stringify (JObj [(''error'', JNull)]))\<rparr> = Inl TypeError"
proof -
  have "JSON_parse (JSON_stringify (JObj [(''error'', JNull)])) = Some (JObj [(''error'', JNull)])"
    by (rule JSON_roundtrip) simp
  then show ?thesis
    by (simp add: handleResponse_def response_ok_def parseErrorEnvelope_def response_json_def json_get_def
        del: JSON_stringify.simps)
qed

end
