(* ===== verification/Scenario_Builder.thy ===== *)
theory Scenario_Builder
  imports Tiers
begin

section \<open>The scenario builder\<close>

text \<open>
  \<open>lib/scenarioBuilderValidation.ts\<close> (client-side validation), \<open>lib/scenarioBuilderPreview.ts\<close> (the
  preview figures) and the draft operations of \<open>pages/ScenarioBuilderPage.tsx\<close>. \<open>Math.exp\<close> is
  implementation-defined in its last bits, so it is an argument. The validators push onto an
  \<open>errors\<close> array, which is passed and returned. Fresh event identifiers come from a random number
  and are arguments of the operations. A draft whose start time cannot be printed is \<open>None\<close>: the
  code throws a \<open>RangeError\<close> there.

  The lemmas show that the list of errors is empty exactly for the drafts that satisfy the
  declarative predicate \<open>valid_draft\<close>, what the preview figures are, and that timeline edits are
  local.
\<close>

subsection \<open>lib/scenarioBuilderValidation.ts\<close>

definition CURVE_REQUIRED_PARAMS :: "(string \<times> string list) list" where
  "CURVE_REQUIRED_PARAMS =
     [(''linear_ramp'', [''start_value'', ''slope'']),
      (''exponential_rise'', [''start_value'', ''rate'']),
      (''step'', [''baseline'', ''step_value'', ''step_time''])]"

text \<open>An absent parameter is \<open>undefined\<close> and makes arithmetic NaN and comparisons false.\<close>

definition evaluateCurve ::
  "(number \<Rightarrow> number) \<Rightarrow> string \<Rightarrow> number \<Rightarrow> (string \<times> number) list \<Rightarrow> number option" where
  "evaluateCurve Math_exp curve t params =
     (if curve = ''linear_ramp'' then
        (case (map_of params ''start_value'', map_of params ''slope'') of
           (Some start_value, Some slope) \<Rightarrow> Some (nadd start_value (nmul slope t)) | _ \<Rightarrow> None)
      else if curve = ''exponential_rise'' then
        (case (map_of params ''start_value'', map_of params ''rate'') of
           (Some start_value, Some rate) \<Rightarrow> Some (nmul start_value (Math_exp (nmul rate t))) | _ \<Rightarrow> None)
      else if curve = ''step'' then
        (if (case map_of params ''step_time'' of Some step_time \<Rightarrow> t \<ge> step_time | None \<Rightarrow> False)
         then map_of params ''step_value'' else map_of params ''baseline'')
      else None)"

record ScenarioValidationContext =
  vc_knownZoneIds :: "string list"
  vc_knownWorkerIds :: "string list"
  vc_unassignedWorkerIds :: "string list"
  vc_zoneGasTypes :: "(string \<times> string list) list"

definition event_error :: "string \<Rightarrow> string \<Rightarrow> string" where
  "event_error name what = ''event '' @ quoted name @ '': '' @ what"

definition push_if :: "bool \<Rightarrow> string \<Rightarrow> string list \<Rightarrow> string list" where
  "push_if cond message errors = (if cond then errors @ [message] else errors)"

definition sample_value :: "(number \<Rightarrow> number) \<Rightarrow> SensorEventDraft \<Rightarrow> nat \<Rightarrow> number option" where
  "sample_value Math_exp event i =
     evaluateCurve Math_exp (se_curve event) (nmul (of_nat i) (se_sample_interval_minutes event)) (se_params event)"

definition sample_steps :: "SensorEventDraft \<Rightarrow> nat" where
  "sample_steps event = nat \<lfloor>ndiv (se_duration_minutes event) (se_sample_interval_minutes event)\<rfloor>"

text \<open>The sampling loop: it stops at the first negative concentration.\<close>

definition negative_sample :: "(number \<Rightarrow> number) \<Rightarrow> SensorEventDraft \<Rightarrow> (nat \<times> number) option" where
  "negative_sample Math_exp event =
     map_option (\<lambda>i. (i, the (sample_value Math_exp event i)))
       (List.find (\<lambda>i. case sample_value Math_exp event i of Some v \<Rightarrow> v < 0 | None \<Rightarrow> False)
          [0..<Suc (sample_steps event)])"

definition curve_errors :: "(number \<Rightarrow> number) \<Rightarrow> SensorEventDraft \<Rightarrow> string list \<Rightarrow> string list" where
  "curve_errors Math_exp event errors =
     (case map_of CURVE_REQUIRED_PARAMS (se_curve event) of
        None \<Rightarrow>
          errors @ [event_error (se_name event) (''unknown curve type '' @ quoted (se_curve event) @ '' (known: ''
            @ js_join '', '' (sort (map fst CURVE_REQUIRED_PARAMS)) @ '')'')]
      | Some requiredParams \<Rightarrow>
          let missing = filter (\<lambda>p. map_of (se_params event) p = None) requiredParams in
          if missing \<noteq> [] then
            errors @ [event_error (se_name event)
              (''curve '' @ quoted (se_curve event) @ '' missing params '' @ js_join '', '' missing)]
          else if se_duration_minutes event > 0 \<and> se_sample_interval_minutes event > 0 then
            (case negative_sample Math_exp event of
               None \<Rightarrow> errors
             | Some (i, v) \<Rightarrow>
                 errors @ [event_error (se_name event) (''produces a negative concentration ('' @ toFixed v 3 @ '') at t=''
                   @ num_toString (nmul (of_nat i) (se_sample_interval_minutes event)))])
          else errors)"

definition validateSensorEvent ::
  "(number \<Rightarrow> number) \<Rightarrow> SensorEventDraft \<Rightarrow> ScenarioValidationContext \<Rightarrow> string list \<Rightarrow> string list" where
  "validateSensorEvent Math_exp event ctx errors =
     (let e1 = push_if (se_sim_time event < 0) (event_error (se_name event) ''sim_time must be >= 0'') errors;
          e2 = push_if (se_duration_minutes event \<le> 0) (event_error (se_name event) ''duration_minutes must be > 0'') e1;
          e3 = push_if (se_sample_interval_minutes event \<le> 0)
                 (event_error (se_name event) ''sample_interval_minutes must be > 0'') e2;
          e4 = curve_errors Math_exp event e3
      in if se_zone_id event \<notin> set (vc_knownZoneIds ctx)
         then e4 @ [event_error (se_name event) (''unknown zone '' @ quoted (se_zone_id event))]
         else push_if (case map_of (vc_zoneGasTypes ctx) (se_zone_id event) of
                         None \<Rightarrow> True | Some gs \<Rightarrow> se_gas_type event \<notin> set gs)
                (event_error (se_name event) (''no sensor for zone='' @ quoted (se_zone_id event)
                   @ '' gas_type='' @ quoted (se_gas_type event))) e4)"

definition validatePermitEvent ::
  "PermitEventDraft \<Rightarrow> ScenarioValidationContext \<Rightarrow> string list \<Rightarrow> string list" where
  "validatePermitEvent event ctx errors =
     (let e1 = push_if (pe_sim_time event < 0) (event_error (pe_name event) ''sim_time must be >= 0'') errors;
          e2 = push_if (pe_duration_minutes event \<le> 0) (event_error (pe_name event) ''duration_minutes must be > 0'') e1;
          e3 = push_if (pe_zone_id event \<notin> set (vc_knownZoneIds ctx))
                 (event_error (pe_name event) (''unknown zone '' @ quoted (pe_zone_id event))) e2
      in if pe_authorizing_officer_id event \<notin> set (vc_knownWorkerIds ctx)
         then e3 @ [event_error (pe_name event) (''unknown authorizing officer '' @ quoted (pe_authorizing_officer_id event))]
         else push_if (pe_authorizing_officer_id event \<in> set (vc_unassignedWorkerIds ctx))
                (event_error (pe_name event) (''authorizing officer '' @ quoted (pe_authorizing_officer_id event)
                   @ '' is not currently assigned to any zone'')) e3)"

fun duplicate_names :: "string list \<Rightarrow> string list \<Rightarrow> string list \<Rightarrow> string list" where
  "duplicate_names seen errors [] = errors"
| "duplicate_names seen errors (name # names) =
     duplicate_names (name # seen)
       (push_if (name \<in> set seen) (''duplicate event name: '' @ quoted name) errors) names"

definition event_names :: "ScenarioDefinitionDraft \<Rightarrow> string list" where
  "event_names draft = map se_name (sd_sensor_events draft) @ map pe_name (sd_permit_events draft)"

definition validateScenarioDraft ::
  "(number \<Rightarrow> number) \<Rightarrow> ScenarioDefinitionDraft \<Rightarrow> ScenarioValidationContext \<Rightarrow> string list" where
  "validateScenarioDraft Math_exp draft ctx =
     (let e1 = duplicate_names [] [] (event_names draft);
          e2 = foldl (\<lambda>errors event. validateSensorEvent Math_exp event ctx errors) e1 (sd_sensor_events draft)
      in foldl (\<lambda>errors event. validatePermitEvent event ctx errors) e2 (sd_permit_events draft))"

subsection \<open>lib/scenarioBuilderPreview.ts\<close>

record ScenarioPreview =
  sp_sensorEventCount :: nat
  sp_permitEventCount :: nat
  sp_totalDurationMinutes :: number
  sp_affectedZoneIds :: "string list"
  sp_curveTypes :: "string list"
  sp_permitTypes :: "string list"

definition event_ends :: "ScenarioDefinitionDraft \<Rightarrow> number list" where
  "event_ends draft =
     map (\<lambda>e. nadd (se_sim_time e) (se_duration_minutes e)) (sd_sensor_events draft)
     @ map (\<lambda>e. nadd (pe_sim_time e) (pe_duration_minutes e)) (sd_permit_events draft)"

definition summarizeScenario :: "ScenarioDefinitionDraft \<Rightarrow> ScenarioPreview" where
  "summarizeScenario draft =
     \<lparr>sp_sensorEventCount = length (sd_sensor_events draft),
      sp_permitEventCount = length (sd_permit_events draft),
      sp_totalDurationMinutes = (case reduce1 max (event_ends draft) of Some m \<Rightarrow> m | None \<Rightarrow> 0),
      sp_affectedZoneIds =
        js_set (map se_zone_id (sd_sensor_events draft) @ map pe_zone_id (sd_permit_events draft)),
      sp_curveTypes = js_set (map se_curve (sd_sensor_events draft)),
      sp_permitTypes = js_set (map pe_permit_type (sd_permit_events draft))\<rparr>"

datatype step_kind = sensor_step | permit_step

record SequenceStep =
  sq_kind :: step_kind
  sq_name :: string
  sq_zoneId :: string
  sq_simTime :: number
  sq_durationMinutes :: number

definition sequence_steps :: "ScenarioDefinitionDraft \<Rightarrow> SequenceStep list" where
  "sequence_steps draft =
     map (\<lambda>e. \<lparr>sq_kind = sensor_step, sq_name = se_name e, sq_zoneId = se_zone_id e,
                sq_simTime = se_sim_time e, sq_durationMinutes = se_duration_minutes e\<rparr>) (sd_sensor_events draft)
     @ map (\<lambda>e. \<lparr>sq_kind = permit_step, sq_name = pe_name e, sq_zoneId = pe_zone_id e,
                  sq_simTime = pe_sim_time e, sq_durationMinutes = pe_duration_minutes e\<rparr>) (sd_permit_events draft)"

definition step_cmp :: "SequenceStep \<Rightarrow> SequenceStep \<Rightarrow> rat" where
  "step_cmp a b = nsub (sq_simTime a) (sq_simTime b)"

definition buildExpectedSequence :: "ScenarioDefinitionDraft \<Rightarrow> SequenceStep list" where
  "buildExpectedSequence draft = js_sort step_cmp (sequence_steps draft)"

subsection \<open>pages/ScenarioBuilderPage.tsx: the draft\<close>

record DraftSensorEvent = SensorEventDraft +
  ds_id :: string

record DraftPermitEvent = PermitEventDraft +
  dp_id :: string

record builder_state =
  bs_title :: string
  bs_description :: string
  bs_seed :: number
  bs_startTime :: string
  bs_sensorEvents :: "DraftSensorEvent list"
  bs_permitEvents :: "DraftPermitEvent list"

definition builder_start :: builder_state where
  "builder_start =
     \<lparr>bs_title = ''My Scenario'', bs_description = [], bs_seed = 1, bs_startTime = ''2026-08-01T09:00'',
      bs_sensorEvents = [], bs_permitEvents = []\<rparr>"

definition builder_draft :: "host_zone \<Rightarrow> builder_state \<Rightarrow> ScenarioDefinitionDraft option" where
  "builder_draft hz st =
     map_option (\<lambda>t.
       \<lparr>sd_title = bs_title st, sd_description = bs_description st, sd_seed = bs_seed st,
        sd_start_time = toISOString t,
        sd_sensor_events = map SensorEventDraft.truncate (bs_sensorEvents st),
        sd_permit_events = map PermitEventDraft.truncate (bs_permitEvents st)\<rparr>)
       (Date_getTime hz (bs_startTime st))"

definition validation_context ::
  "Zone list option \<Rightarrow> Worker list option \<Rightarrow> (string \<Rightarrow> SensorInfo list option) \<Rightarrow> ScenarioValidationContext" where
  "validation_context zones workers sensors =
     (let zoneIds = map zn_zone_id (case zones of Some zs \<Rightarrow> zs | None \<Rightarrow> []);
          ws = (case workers of Some w \<Rightarrow> w | None \<Rightarrow> [])
      in \<lparr>vc_knownZoneIds = js_set zoneIds,
          vc_knownWorkerIds = js_set (map wk_worker_id ws),
          vc_unassignedWorkerIds = js_set (map wk_worker_id (filter (\<lambda>w. wk_current_zone_id w = None) ws)),
          vc_zoneGasTypes =
            amap_of (map (\<lambda>z. (z, js_set (map si_gas_type (case sensors z of Some s \<Rightarrow> s | None \<Rightarrow> [])))) zoneIds)\<rparr>)"

definition addSensorEvent :: "string \<Rightarrow> SensorEventDraft \<Rightarrow> builder_state \<Rightarrow> builder_state" where
  "addSensorEvent fresh event st =
     st\<lparr>bs_sensorEvents := bs_sensorEvents st @ [SensorEventDraft.extend event (DraftSensorEvent.fields fresh)]\<rparr>"

definition addPermitEvent :: "string \<Rightarrow> PermitEventDraft \<Rightarrow> builder_state \<Rightarrow> builder_state" where
  "addPermitEvent fresh event st =
     st\<lparr>bs_permitEvents := bs_permitEvents st @ [PermitEventDraft.extend event (DraftPermitEvent.fields fresh)]\<rparr>"

definition moveEvent :: "string \<Rightarrow> number \<Rightarrow> builder_state \<Rightarrow> builder_state" where
  "moveEvent eid simTime st =
     st\<lparr>bs_sensorEvents := map (\<lambda>e. if ds_id e = eid then e\<lparr>se_sim_time := simTime\<rparr> else e) (bs_sensorEvents st),
        bs_permitEvents := map (\<lambda>e. if dp_id e = eid then e\<lparr>pe_sim_time := simTime\<rparr> else e) (bs_permitEvents st)\<rparr>"

definition resizeEvent :: "string \<Rightarrow> number \<Rightarrow> builder_state \<Rightarrow> builder_state" where
  "resizeEvent eid durationMinutes st =
     st\<lparr>bs_sensorEvents :=
          map (\<lambda>e. if ds_id e = eid then e\<lparr>se_duration_minutes := durationMinutes\<rparr> else e) (bs_sensorEvents st),
        bs_permitEvents :=
          map (\<lambda>e. if dp_id e = eid then e\<lparr>pe_duration_minutes := durationMinutes\<rparr> else e) (bs_permitEvents st)\<rparr>"

definition deleteEvent :: "string \<Rightarrow> builder_state \<Rightarrow> builder_state" where
  "deleteEvent eid st =
     st\<lparr>bs_sensorEvents := filter (\<lambda>e. ds_id e \<noteq> eid) (bs_sensorEvents st),
        bs_permitEvents := filter (\<lambda>e. dp_id e \<noteq> eid) (bs_permitEvents st)\<rparr>"

subsection \<open>What a valid draft is\<close>

definition valid_sensor_event ::
  "(number \<Rightarrow> number) \<Rightarrow> ScenarioValidationContext \<Rightarrow> SensorEventDraft \<Rightarrow> bool" where
  "valid_sensor_event Math_exp ctx e \<longleftrightarrow>
     0 \<le> se_sim_time e \<and> 0 < se_duration_minutes e \<and> 0 < se_sample_interval_minutes e \<and>
     (case map_of CURVE_REQUIRED_PARAMS (se_curve e) of
        None \<Rightarrow> False | Some req \<Rightarrow> list_all (\<lambda>p. map_of (se_params e) p \<noteq> None) req) \<and>
     list_all (\<lambda>i. case sample_value Math_exp e i of Some v \<Rightarrow> 0 \<le> v | None \<Rightarrow> True) [0..<Suc (sample_steps e)] \<and>
     se_zone_id e \<in> set (vc_knownZoneIds ctx) \<and>
     (case map_of (vc_zoneGasTypes ctx) (se_zone_id e) of None \<Rightarrow> False | Some gs \<Rightarrow> se_gas_type e \<in> set gs)"

definition valid_permit_event :: "ScenarioValidationContext \<Rightarrow> PermitEventDraft \<Rightarrow> bool" where
  "valid_permit_event ctx e \<longleftrightarrow>
     0 \<le> pe_sim_time e \<and> 0 < pe_duration_minutes e \<and>
     pe_zone_id e \<in> set (vc_knownZoneIds ctx) \<and>
     pe_authorizing_officer_id e \<in> set (vc_knownWorkerIds ctx) \<and>
     pe_authorizing_officer_id e \<notin> set (vc_unassignedWorkerIds ctx)"

definition valid_draft ::
  "(number \<Rightarrow> number) \<Rightarrow> ScenarioValidationContext \<Rightarrow> ScenarioDefinitionDraft \<Rightarrow> bool" where
  "valid_draft Math_exp ctx draft \<longleftrightarrow>
     distinct (event_names draft) \<and>
     list_all (valid_sensor_event Math_exp ctx) (sd_sensor_events draft) \<and>
     list_all (valid_permit_event ctx) (sd_permit_events draft)"

subsection \<open>Facts\<close>

lemma push_if_append [simp]: "push_if c m (xs @ ys) = xs @ push_if c m ys"
  by (simp add: push_if_def)

lemma push_if_empty [simp]: "push_if c m errors = [] \<longleftrightarrow> errors = [] \<and> \<not> c"
  by (simp add: push_if_def)

text \<open>Every validator only appends, so the fold is empty exactly when each event adds nothing.\<close>

lemma foldl_appending:
  assumes "\<And>e errors. f e errors = errors @ f e []"
  shows "foldl (\<lambda>errors e. f e errors) errors es = [] \<longleftrightarrow> errors = [] \<and> (\<forall>e\<in>set es. f e [] = [])"
proof (induction es arbitrary: errors)
  case Nil
  show ?case by simp
next
  case (Cons e es)
  have "f e errors = [] \<longleftrightarrow> errors = [] \<and> f e [] = []" by (subst assms) simp
  then show ?case by (simp add: Cons.IH)
qed

lemma curve_errors_append [simp]: "curve_errors me e (xs @ ys) = xs @ curve_errors me e ys"
  by (simp add: curve_errors_def Let_def split: option.split)

lemma validateSensorEvent_append: "validateSensorEvent me e ctx errors = errors @ validateSensorEvent me e ctx []"
proof -
  have "validateSensorEvent me e ctx (errors @ es) = errors @ validateSensorEvent me e ctx es" for es
    by (simp add: validateSensorEvent_def Let_def)
  from this[of "[]"] show ?thesis by simp
qed

lemma validatePermitEvent_append: "validatePermitEvent e ctx errors = errors @ validatePermitEvent e ctx []"
proof -
  have "validatePermitEvent e ctx (errors @ es) = errors @ validatePermitEvent e ctx es" for es
    by (simp add: validatePermitEvent_def Let_def)
  from this[of "[]"] show ?thesis by simp
qed

lemma negative_sample_None_iff:
  "negative_sample me e = None \<longleftrightarrow>
     list_all (\<lambda>i. case sample_value me e i of Some v \<Rightarrow> 0 \<le> v | None \<Rightarrow> True) [0..<Suc (sample_steps e)]"
proof -
  have "(\<not> (case sample_value me e i of Some v \<Rightarrow> v < 0 | None \<Rightarrow> False)) \<longleftrightarrow>
      (case sample_value me e i of Some v \<Rightarrow> 0 \<le> v | None \<Rightarrow> True)" for i
    by (simp add: not_less split: option.split)
  then show ?thesis by (simp add: negative_sample_def find_eq_None_iff list_all_iff del: upt_Suc)
qed

lemma curve_errors_empty:
  assumes "0 < se_duration_minutes e" and "0 < se_sample_interval_minutes e"
  shows "curve_errors me e [] = [] \<longleftrightarrow>
    (case map_of CURVE_REQUIRED_PARAMS (se_curve e) of
       None \<Rightarrow> False | Some req \<Rightarrow> list_all (\<lambda>p. map_of (se_params e) p \<noteq> None) req) \<and>
    list_all (\<lambda>i. case sample_value me e i of Some v \<Rightarrow> 0 \<le> v | None \<Rightarrow> True) [0..<Suc (sample_steps e)]"
  using assms unfolding negative_sample_None_iff[symmetric]
  by (auto simp: curve_errors_def Let_def list_all_iff filter_empty_conv split: option.splits)

lemma validateSensorEvent_empty: "validateSensorEvent me e ctx [] = [] \<longleftrightarrow> valid_sensor_event me ctx e"
proof -
  have c: "curve_errors me e errors = [] \<longleftrightarrow> errors = [] \<and> curve_errors me e [] = []" for errors
    using curve_errors_append[of me e errors "[]"] by simp
  have "validateSensorEvent me e ctx [] = [] \<longleftrightarrow>
      0 \<le> se_sim_time e \<and> 0 < se_duration_minutes e \<and> 0 < se_sample_interval_minutes e \<and>
      curve_errors me e [] = [] \<and> se_zone_id e \<in> set (vc_knownZoneIds ctx) \<and>
      (case map_of (vc_zoneGasTypes ctx) (se_zone_id e) of None \<Rightarrow> False | Some gs \<Rightarrow> se_gas_type e \<in> set gs)"
    by (auto simp: validateSensorEvent_def Let_def c[of "push_if _ _ _"] not_less not_le split: option.splits)
  then show ?thesis unfolding valid_sensor_event_def using curve_errors_empty[of e me] by blast
qed

lemma validatePermitEvent_empty: "validatePermitEvent e ctx [] = [] \<longleftrightarrow> valid_permit_event ctx e"
  by (auto simp: validatePermitEvent_def valid_permit_event_def Let_def not_less not_le)

lemma duplicate_names_empty:
  "duplicate_names seen errors names = [] \<longleftrightarrow> errors = [] \<and> distinct names \<and> set names \<inter> set seen = {}"
  by (induction names arbitrary: seen errors) auto

lemma filter_map_update:
  assumes "\<And>e. k (f e) = k e"
  shows "filter (\<lambda>e. k e \<noteq> i) (map (\<lambda>e. if k e = i then f e else e) xs) = filter (\<lambda>e. k e \<noteq> i) xs"
    and "filter (\<lambda>e. k e = i) (map (\<lambda>e. if k e = i then f e else e) xs) = map f (filter (\<lambda>e. k e = i) xs)"
  by (induction xs) (simp_all add: assms)

lemma truncate_extend [simp]:
  "SensorEventDraft.truncate (SensorEventDraft.extend e (DraftSensorEvent.fields i)) = e"
  "PermitEventDraft.truncate (PermitEventDraft.extend p (DraftPermitEvent.fields i)) = p"
  by (simp_all add: SensorEventDraft.defs DraftSensorEvent.defs PermitEventDraft.defs DraftPermitEvent.defs)

interpretation step_order: comparator step_cmp sq_simTime "\<lambda>_. True"
  by unfold_locales (simp add: step_cmp_def)

interpretation ends_max: keep_first_max "\<lambda>x. x" "max :: number \<Rightarrow> number \<Rightarrow> number"
  by unfold_locales (simp add: max_def)

lemma validateScenarioDraft_valid:
  "validateScenarioDraft Math_exp draft ctx = [] \<longleftrightarrow> valid_draft Math_exp ctx draft"
proof -
  have sensor: "foldl (\<lambda>errors e. validateSensorEvent Math_exp e ctx errors) errors es = [] \<longleftrightarrow>
      errors = [] \<and> list_all (valid_sensor_event Math_exp ctx) es" for errors es
    using foldl_appending[of "\<lambda>e errors. validateSensorEvent Math_exp e ctx errors", OF validateSensorEvent_append]
    by (simp add: validateSensorEvent_empty list_all_iff)
  have permit: "foldl (\<lambda>errors e. validatePermitEvent e ctx errors) errors es = [] \<longleftrightarrow>
      errors = [] \<and> list_all (valid_permit_event ctx) es" for errors es
    using foldl_appending[of "\<lambda>e errors. validatePermitEvent e ctx errors", OF validatePermitEvent_append]
    by (simp add: validatePermitEvent_empty list_all_iff)
  show ?thesis
    by (simp add: validateScenarioDraft_def Let_def sensor permit duplicate_names_empty valid_draft_def)
qed

subsection \<open>Properties\<close>

text \<open>
  (C6) Client-side validation reports no error exactly for the valid drafts: unique event names,
  start times at or after 0, positive durations and sampling intervals, a known curve with all its
  parameters and no negative sample, known zones with a matching sensor, and authorising officers
  who are known and assigned to a zone.
\<close>

theorem validateScenarioDraft_iff:
  "validateScenarioDraft Math_exp draft ctx = [] \<longleftrightarrow> valid_draft Math_exp ctx draft"
  by (rule validateScenarioDraft_valid)

text \<open>
  The preview is the draft itself: the expected sequence holds every event once, ordered by
  start time with ties in draft order, and the total duration is the latest end of an event (0 for
  an empty draft).
\<close>

theorem preview_correct:
  "mset (buildExpectedSequence draft) = mset (sequence_steps draft) \<and>
   sorted (map sq_simTime (buildExpectedSequence draft)) \<and>
   filter (\<lambda>s. sq_simTime s = t) (buildExpectedSequence draft) = filter (\<lambda>s. sq_simTime s = t) (sequence_steps draft) \<and>
   (if event_ends draft = [] then sp_totalDurationMinutes (summarizeScenario draft) = 0
    else sp_totalDurationMinutes (summarizeScenario draft) \<in> set (event_ends draft) \<and>
         list_all (\<lambda>x. x \<le> sp_totalDurationMinutes (summarizeScenario draft)) (event_ends draft))"
proof -
  have seq: "mset (buildExpectedSequence draft) = mset (sequence_steps draft)"
    "sorted (map sq_simTime (buildExpectedSequence draft))"
    "filter (\<lambda>s. sq_simTime s = t) (buildExpectedSequence draft) = filter (\<lambda>s. sq_simTime s = t) (sequence_steps draft)"
    by (simp_all add: buildExpectedSequence_def step_order.js_sort_sorted step_order.js_sort_stable)
  show ?thesis
  proof (cases "reduce1 max (event_ends draft)")
    case None
    with seq show ?thesis by (simp add: summarizeScenario_def)
  next
    case (Some m)
    from ends_max.reduce1_max[OF this] Some seq show ?thesis
      by (auto simp: summarizeScenario_def list_all_iff)
  qed
qed

text \<open>
  Timeline edits are local: moving or resizing an event keeps the identifiers and order of all
  events and every event with another identifier, the last move wins, moving and resizing commute,
  and deleting an event removes exactly the events with its identifier, edited or not.
\<close>

theorem timeline_edits_local:
  "map ds_id (bs_sensorEvents (moveEvent i t st)) = map ds_id (bs_sensorEvents st) \<and>
   map dp_id (bs_permitEvents (moveEvent i t st)) = map dp_id (bs_permitEvents st) \<and>
   filter (\<lambda>e. ds_id e \<noteq> i) (bs_sensorEvents (moveEvent i t st)) = filter (\<lambda>e. ds_id e \<noteq> i) (bs_sensorEvents st) \<and>
   map se_sim_time (filter (\<lambda>e. ds_id e = i) (bs_sensorEvents (moveEvent i t st))) =
     map (\<lambda>_. t) (filter (\<lambda>e. ds_id e = i) (bs_sensorEvents st)) \<and>
   moveEvent i t (moveEvent i u st) = moveEvent i t st \<and>
   moveEvent i t (resizeEvent j d st) = resizeEvent j d (moveEvent i t st) \<and>
   deleteEvent i (moveEvent i t st) = deleteEvent i st \<and>
   deleteEvent i (resizeEvent i d st) = deleteEvent i st \<and>
   i \<notin> ds_id ` set (bs_sensorEvents (deleteEvent i st)) \<union> dp_id ` set (bs_permitEvents (deleteEvent i st))"
  by (auto simp: moveEvent_def resizeEvent_def deleteEvent_def filter_map_update o_def)

text \<open>
  Clearing the start-time field leaves no draft to render: the page throws on the empty text,
  whatever else the draft holds.
\<close>

theorem empty_start_time_has_no_draft: "builder_draft hz (st\<lparr>bs_startTime := []\<rparr>) = None"
proof -
  have "take_digits 4 0 [] = None" by (simp add: numeral_eq_Suc)
  then show ?thesis by (simp add: builder_draft_def Date_getTime_def parse_day_def)
qed

end
