(* ===== verification/Narrative.thy ===== *)
theory Narrative
  imports Action_Playbook Timeline
begin

section \<open>Narration for executives\<close>

text \<open>
  \<open>lib/executiveExplanation.ts\<close>, \<open>lib/foresightExplanation.ts\<close>, \<open>lib/historicalExplanation.ts\<close>,
  \<open>lib/operationalNarrative.ts\<close> and \<open>lib/ceoDashboard.ts\<close>: fixed templates over persisted values.
  The lemmas show that the narration names the same top agent as the root-cause ranking, that the
  shutdown line appears exactly on entry into critical, and that the operational narrative is the
  sequence of story lines with repetitions collapsed.
\<close>

subsection \<open>lib/executiveExplanation.ts\<close>

definition contribution_cmp :: "string \<times> AgentContribution \<Rightarrow> string \<times> AgentContribution \<Rightarrow> rat" where
  "contribution_cmp a b = nsub (ac_risk (snd b)) (ac_risk (snd a))"

definition sorted_agents :: "RiskJustification \<Rightarrow> (string \<times> AgentContribution) list" where
  "sorted_agents j = js_sort contribution_cmp (rj_agentContributions j)"

definition agent_sentence :: "(string \<times> AgentContribution) list \<Rightarrow> string list" where
  "agent_sentence sortedAgents =
     (case sortedAgents of
        [] \<Rightarrow> []
      | (topName, topAgent) # rest \<Rightarrow>
          if topName = [] then []
          else [agentDisplayName topName @ '' contributed the highest raw risk this tick ('' @ toFixed (ac_risk topAgent) 1 @ '')''
                @ (case rest of
                     [] \<Rightarrow> []
                   | (secondName, second) # _ \<Rightarrow>
                       if secondName \<noteq> [] \<and> ac_risk second \<ge> 20
                       then '', with '' @ agentDisplayName secondName @ '' also elevated ('' @ toFixed (ac_risk second) 1 @ '')''
                       else [])
                @ ''.''])"

definition generateExecutiveExplanation ::
  "RiskAssessment \<Rightarrow> RiskJustification option \<Rightarrow> Recommendation list \<Rightarrow> string" where
  "generateExecutiveExplanation assessment justification recommendations =
     (case justification of
        None \<Rightarrow>
          ''Assessment recorded at '' @ toUpperCase (ra_tier assessment) @ '' (''
          @ toFixed (ra_compound_risk_score assessment) 1
          @ ''); no structured justification is available for this tick.''
      | Some j \<Rightarrow>
          js_join '' ''
            (agent_sentence (sorted_agents j)
             @ (if ''interaction_bonus_applied'' \<in> set (rj_rulesFired j)
                then [''An interaction bonus ('' @ utf8_times @ toFixed (rj_interactionBonusApplied j) 2
                      @ '') compounded these factors together, raising the compound score to ''
                      @ toFixed (ra_compound_risk_score assessment) 1 @ ''.'']
                else [])
             @ (if rj_tierBefore j \<noteq> rj_tierAfter j
                then [''Tier moved from '' @ toUpperCase (rj_tierBefore j) @ '' to '' @ toUpperCase (rj_tierAfter j) @ ''.'']
                else [''Tier held at '' @ toUpperCase (rj_tierAfter j) @ ''.''])
             @ (case recommendations of
                  [] \<Rightarrow> [] | r # _ \<Rightarrow> [''Recommended action: '' @ rc_text r])))"

definition AGENT_STORY_PHRASE :: "(string \<times> string) list" where
  "AGENT_STORY_PHRASE =
     [(''gas_risk'', ''Gas concentration increasing''),
      (''worker_exposure'', ''Worker entered a hazardous area''),
      (''equipment_status'', ''Equipment degradation detected''),
      (''permit_intelligence'', ''Permit conflict detected'')]"

definition businessStoryLine :: "RiskAssessment \<Rightarrow> RiskJustification option \<Rightarrow> string" where
  "businessStoryLine assessment justification =
     (case justification of
        None \<Rightarrow> ''Assessment recorded at '' @ toUpperCase (ra_tier assessment) @ ''.''
      | Some j \<Rightarrow>
          if rj_tierAfter j = ''critical'' \<and> rj_tierBefore j \<noteq> ''critical'' then ''Shutdown recommended.''
          else if rj_tierAfter j = ''elevated'' \<and> rj_tierBefore j \<noteq> ''elevated''
          then ''Escalating - increased monitoring required.''
          else (case Option.bind (case sorted_agents j of [] \<Rightarrow> None | (n, _) # _ \<Rightarrow> Some n) (map_of AGENT_STORY_PHRASE) of
                  Some phrase \<Rightarrow> phrase @ ''.''
                | None \<Rightarrow> ''Tier holding at '' @ toUpperCase (rj_tierAfter j) @ ''.''))"

subsection \<open>lib/foresightExplanation.ts\<close>

definition available_point :: "ForecastPoint \<Rightarrow> bool" where
  "available_point p \<longleftrightarrow> fp_projected_risk p \<noteq> None \<and> fp_projected_tier p \<noteq> None"

definition forecast_line :: "ForesightResult \<Rightarrow> nat \<Rightarrow> string list" where
  "forecast_line result matchCount =
     (case List.find available_point (fr_forecast result) of
        None \<Rightarrow> []
      | Some point \<Rightarrow>
          (case (fp_projected_risk point, fp_projected_tier point) of
             (Some risk, Some tier) \<Rightarrow>
               if tier = [] then []
               else
                 let delta = nsub risk (fr_current_risk_score result);
                     direction = (if delta > 0 then ''increased'' else if delta < 0 then ''decreased'' else ''held steady'');
                     magnitude = toFixed \<bar>delta\<bar> 0
                 in [''Based on '' @ show_nat matchCount @ '' similar historical trajector''
                     @ (if matchCount = 1 then ''y'' else ''ies'') @ '', risk typically '' @ direction
                     @ (if delta \<noteq> 0 then '' by '' @ magnitude @ '' points'' else []) @ '' within the next ''
                     @ num_toString (fp_horizon_minutes point) @ '' minutes, reaching '' @ toUpperCase tier @ ''.'']
           | _ \<Rightarrow> []))"

definition foresightExecutiveInsights :: "ForesightResult \<Rightarrow> string list" where
  "foresightExecutiveInsights result =
     (let matchCount = length (fr_matches result) in
      if matchCount = 0 then [''No similar historical trajectories were found to forecast from yet.'']
      else
        forecast_line result matchCount
        @ [ew_why (fr_early_warning result)]
        @ (case truthy (ps_tier (ip_likely_next_stage (fr_progression result))) of
             Some _ \<Rightarrow> [''Historically, '' @ ps_label (ip_current_stage (fr_progression result)) @ '' most often leads to ''
                         @ ps_label (ip_likely_next_stage (fr_progression result)) @ '' next.'']
           | None \<Rightarrow> [])
        @ (if ps_tier (ip_expected_resolution (fr_progression result)) = Some ''normal''
           then [ps_evidence (ip_expected_resolution (fr_progression result))] else []))"

subsection \<open>lib/historicalExplanation.ts\<close>

definition historicalExecutiveInsights :: "IncidentMatch list \<Rightarrow> string list" where
  "historicalExecutiveInsights matches =
     (case matches of
        [] \<Rightarrow> []
      | best # others \<Rightarrow>
          [''This assessment closely resembles '' @ im_incident_name best @ '' ('' @ toFixed (nmul (im_similarity best) 100) 0
           @ ''% similarity, '' @ toUpperCase (im_outcome_tier best) @ '' outcome).'']
          @ (case im_lessons_learned best of [] \<Rightarrow> [] | l # _ \<Rightarrow> [''In that incident: '' @ hl_lesson l])
          @ (if im_matching_features best \<noteq> []
             then [''Matches on '' @ show_nat (length (im_matching_features best)) @ '' of ''
                   @ show_nat (length (im_matching_features best) + length (im_differing_features best))
                   @ '' compared features, including '' @ js_join '', '' (take 3 (im_matching_features best)) @ ''.'']
             else [])
          @ (if length matches > 1
             then let otherOutcomes = js_set (map im_outcome_tier others)
                  in [show_nat (length matches - 1) @ '' other similar incident''
                      @ (if length matches - 1 = 1 then [] else ''s'') @ '' on record''
                      @ (if otherOutcomes \<noteq> [] then '', reaching '' @ toUpperCase (js_join '', '' otherOutcomes) @ ''.'' else ''.'')]
             else []))"

subsection \<open>lib/operationalNarrative.ts\<close>

record NarrativeEntry =
  ne_timestamp :: string
  ne_sentence :: string

definition story :: "RiskAssessment \<Rightarrow> string" where
  "story a = businessStoryLine a (parseJustification (ra_justification a))"

definition narrative_step ::
  "NarrativeEntry list \<times> string option \<Rightarrow> RiskAssessment \<Rightarrow> NarrativeEntry list \<times> string option" where
  "narrative_step v a =
     (let (entries, lastSentence) = v; sentence = story a
      in if Some sentence \<noteq> lastSentence
         then (entries @ [\<lparr>ne_timestamp = ra_timestamp a, ne_sentence = sentence\<rparr>], Some sentence)
         else (entries, lastSentence))"

definition buildOperationalNarrative :: "RiskAssessment list \<Rightarrow> NarrativeEntry list" where
  "buildOperationalNarrative timelineAscending = fst (foldl narrative_step ([], None) timelineAscending)"

subsection \<open>lib/ceoDashboard.ts\<close>

datatype BusinessRiskLevel = Severe | Significant | Moderate | Low

record BusinessRiskEntry =
  br_level :: BusinessRiskLevel
  br_description :: string

definition BUSINESS_RISK_BY_TIER :: "(string \<times> BusinessRiskEntry) list" where
  "BUSINESS_RISK_BY_TIER =
     [(''critical'', \<lparr>br_level = Severe,
         br_description = ''Could halt operations and carry significant financial and reputational impact.''\<rparr>),
      (''elevated'', \<lparr>br_level = Significant,
         br_description = ''Business disruption is likely if this is not addressed soon.''\<rparr>),
      (''watch'', \<lparr>br_level = Moderate,
         br_description = ''Close monitoring is warranted; no disruption expected yet.''\<rparr>),
      (''normal'', \<lparr>br_level = Low,
         br_description = ''Normal operations; no business impact expected.''\<rparr>)]"

record EstimatedDowntime =
  ed_text :: string
  ed_sourced :: bool

record CeoDashboardData =
  cd_currentSituation :: string
  cd_businessRisk :: BusinessRiskEntry
  cd_operationalRiskLabel :: string
  cd_operationalRiskScore :: number
  cd_estimatedDowntime :: EstimatedDowntime
  cd_workersAffected :: number
  cd_recommendedDecision :: string
  cd_confidencePercent :: int
  cd_expectedOutcome :: string

definition estimatedDowntime :: "IncidentMatch option \<Rightarrow> EstimatedDowntime" where
  "estimatedDowntime bestMatch =
     (case bestMatch of
        None \<Rightarrow> \<lparr>ed_text = ''Not available - no comparable historical incident to estimate from.'', ed_sourced = False\<rparr>
      | Some m \<Rightarrow> \<lparr>ed_text = im_business_impact m, ed_sourced = True\<rparr>)"

definition business_risk :: "string \<Rightarrow> BusinessRiskEntry" where
  "business_risk tier =
     (case map_of BUSINESS_RISK_BY_TIER tier of
        Some e \<Rightarrow> e | None \<Rightarrow> the (map_of BUSINESS_RISK_BY_TIER ''normal''))"

definition buildCeoDashboard ::
  "RiskAssessment \<Rightarrow> RiskJustification option \<Rightarrow> Recommendation list \<Rightarrow> PrioritizedAction option \<Rightarrow> number \<Rightarrow>
   IncidentMatch option \<Rightarrow> CeoDashboardData" where
  "buildCeoDashboard assessment justification recommendations topAction workersAffected bestHistoricalMatch =
     \<lparr>cd_currentSituation = businessStoryLine assessment justification,
      cd_businessRisk = business_risk (ra_tier assessment),
      cd_operationalRiskLabel = toUpperCase (ra_tier assessment),
      cd_operationalRiskScore = ra_compound_risk_score assessment,
      cd_estimatedDowntime = estimatedDowntime bestHistoricalMatch,
      cd_workersAffected = workersAffected,
      cd_recommendedDecision =
        (case recommendations of [] \<Rightarrow> ''No action required - continue normal operations.'' | r # _ \<Rightarrow> rc_text r),
      cd_confidencePercent = Math_round (nmul (ra_confidence assessment) 100),
      cd_expectedOutcome =
        (case topAction of
           Some a \<Rightarrow> ''Following this recommendation is expected to have a ''
                       @ toLowerCase (impact_name (pa_impactLevel a)) @ '' impact on reducing risk.''
         | None \<Rightarrow> ''No open recommendation - risk is not currently expected to change.'')\<rparr>"

subsection \<open>Facts\<close>

lemma sorted_agents_ranked: "map ranked_factor (sorted_agents j) = rankContributingFactors (Some j)"
proof -
  have "(\<lambda>a b. factor_cmp (ranked_factor a) (ranked_factor b)) = contribution_cmp"
    by (intro ext) (simp add: factor_cmp_def ranked_factor_def contribution_cmp_def)
  then show ?thesis by (simp add: rankContributingFactors_def sorted_agents_def js_sort_map)
qed

lemma story_phrase_not_shutdown: "Option.bind n (map_of AGENT_STORY_PHRASE) \<noteq> Some ''Shutdown recommended''"
  by (cases n) (auto simp: AGENT_STORY_PHRASE_def)

text \<open>The narrative after a prefix of the timeline, and the last sentence it remembers.\<close>

lemma remdups_adj_snoc: "remdups_adj (xs @ [x]) = (if xs \<noteq> [] \<and> last xs = x then remdups_adj xs else remdups_adj xs @ [x])"
proof (cases xs rule: rev_cases)
  case (snoc ys y)
  then show ?thesis using remdups_adj_append_two[of ys y x] by simp
qed simp

lemma subseq_prefix_ext: "subseq xs ys \<Longrightarrow> subseq xs (ys @ zs)"
  by (metis list_emb_append_mono append_Nil2 list_emb_Nil)

lemma narrative_loop:
  "map ne_sentence (fst (foldl narrative_step ([], None) as)) = remdups_adj (map story as) \<and>
   subseq (map (\<lambda>e. (ne_timestamp e, ne_sentence e)) (fst (foldl narrative_step ([], None) as)))
     (map (\<lambda>a. (ra_timestamp a, story a)) as) \<and>
   snd (foldl narrative_step ([], None) as) = (if as = [] then None else Some (story (last as)))"
proof (induction as rule: rev_induct)
  case Nil
  show ?case by simp
next
  case (snoc a as)
  obtain es l where v: "foldl narrative_step ([], None) as = (es, l)" by fastforce
  have w: "foldl narrative_step ([], None) (as @ [a]) = narrative_step (es, l) a" by (simp add: v)
  from snoc v have es: "map ne_sentence es = remdups_adj (map story as)"
    and sub: "subseq (map (\<lambda>e. (ne_timestamp e, ne_sentence e)) es) (map (\<lambda>a. (ra_timestamp a, story a)) as)"
    and l: "l = (if as = [] then None else Some (story (last as)))" by simp_all
  have "subseq (map (\<lambda>e. (ne_timestamp e, ne_sentence e)) es) (map (\<lambda>a. (ra_timestamp a, story a)) (as @ [a]))"
    using sub by (simp add: subseq_prefix_ext)
  moreover have "subseq (map (\<lambda>e. (ne_timestamp e, ne_sentence e)) es @ [(ra_timestamp a, story a)])
      (map (\<lambda>a. (ra_timestamp a, story a)) (as @ [a]))"
    using sub by (simp add: list_emb_append_mono)
  ultimately show ?case
    unfolding w using es l by (auto simp: narrative_step_def remdups_adj_snoc last_map Let_def)
qed

subsection \<open>Properties\<close>

text \<open>
  The narration agrees with the root-cause view: the agents it sorts for its sentences are, in
  the same order and with the same risks, the ranked contributing factors, so the agent it names as
  the highest is the first ranked one.
\<close>

theorem explanation_names_top_factor:
  "map (\<lambda>(n, c). (n, ac_risk c)) (sorted_agents j) =
     map (\<lambda>f. (rk_agentName f, rk_risk f)) (rankContributingFactors (Some j)) \<and>
   (case rankContributingFactors (Some j) of
      [] \<Rightarrow> agent_sentence (sorted_agents j) = []
    | f # _ \<Rightarrow> rk_agentName f = [] \<or>
        (\<exists>rest. agent_sentence (sorted_agents j) =
           [rk_displayName f @ '' contributed the highest raw risk this tick ('' @ toFixed (rk_risk f) 1 @ rest]))"
proof
  show "map (\<lambda>(n, c). (n, ac_risk c)) (sorted_agents j) =
     map (\<lambda>f. (rk_agentName f, rk_risk f)) (rankContributingFactors (Some j))"
    unfolding sorted_agents_ranked[symmetric] by (auto simp: ranked_factor_def)
  show "case rankContributingFactors (Some j) of
      [] \<Rightarrow> agent_sentence (sorted_agents j) = []
    | f # _ \<Rightarrow> rk_agentName f = [] \<or>
        (\<exists>rest. agent_sentence (sorted_agents j) =
           [rk_displayName f @ '' contributed the highest raw risk this tick ('' @ toFixed (rk_risk f) 1 @ rest])"
    unfolding sorted_agents_ranked[symmetric]
    by (cases "sorted_agents j") (auto simp: agent_sentence_def ranked_factor_def)
qed

text \<open>
  The story line, which is also the CEO screen's current situation, says that a shutdown is
  recommended exactly at a tick whose justification records the entry into critical.
\<close>

theorem shutdown_line_iff:
  "cd_currentSituation (buildCeoDashboard a j rs act w m) = ''Shutdown recommended.'' \<longleftrightarrow>
     (case j of None \<Rightarrow> False | Some x \<Rightarrow> rj_tierAfter x = ''critical'' \<and> rj_tierBefore x \<noteq> ''critical'')"
  by (auto simp: buildCeoDashboard_def businessStoryLine_def story_phrase_not_shutdown
      split: option.splits if_splits)

text \<open>
  The operational narrative is the sequence of story lines with adjacent repetitions collapsed,
  and each of its entries is the timestamp and story line of an actual tick, in order.
\<close>

theorem buildOperationalNarrative_correct:
  "map ne_sentence (buildOperationalNarrative as) = remdups_adj (map story as) \<and>
   subseq (map (\<lambda>e. (ne_timestamp e, ne_sentence e)) (buildOperationalNarrative as))
     (map (\<lambda>a. (ra_timestamp a, story a)) as)"
  using narrative_loop[of as] by (simp add: buildOperationalNarrative_def)

end
