(* ===== verification/Graph.thy ===== *)
theory Graph
  imports Api_Types "HOL-Library.Char_ord" "HOL-Library.List_Lexorder"
begin

section \<open>The knowledge graph: radial layout and Judge Mode\<close>

text \<open>
  \<open>lib/graphLayout.ts\<close> and \<open>lib/judgeModePath.ts\<close>. The adjacency sets and the distance map are
  association lists in insertion order. The breadth-first search is the source's \<open>while\<close> loop over
  a queue; it is a total function, because every round either discovers a node of the finite
  adjacency or shortens the queue. \<open>Math.cos\<close> and \<open>Math.sin\<close> are approximations of the host and
  arguments of the layout.

  The lemmas carry the loop invariant of the search (\<open>bfs_inv\<close>) and conclude that the computed ring
  of a node is the length of a shortest path from the root.
\<close>

subsection \<open>lib/graphLayout.ts\<close>

record LaidOutNode =
  ln_key :: string
  ln_entity :: GraphEntity
  ln_x :: number
  ln_y :: number

definition nodeKey :: "string \<Rightarrow> string \<Rightarrow> string" where
  "nodeKey kind eid = kind @ '':'' @ eid"

definition edgeKey :: "GraphEdge \<Rightarrow> string" where
  "edgeKey edge =
     (let source = nodeKey (gd_source_kind edge) (gd_source_id edge);
          target = nodeKey (gd_target_kind edge) (gd_target_id edge)
      in source @ ''->'' @ target @ '':'' @ gd_relation edge)"

definition Math_PI :: number where "Math_PI = 884279719003555 / 281474976710656"

type_synonym adjacency = "(string \<times> string list) list"

text \<open>\<open>adjacency.get(k)?.add(v)\<close>: nothing happens when the key is absent or the value present.\<close>

definition adjacency_add :: "string \<Rightarrow> string \<Rightarrow> adjacency \<Rightarrow> adjacency" where
  "adjacency_add k v adj =
     (case map_of adj k of
        None \<Rightarrow> adj
      | Some vs \<Rightarrow> if v \<in> set vs then adj else amap_set k (vs @ [v]) adj)"

definition entity_key :: "GraphEntity \<Rightarrow> string" where
  "entity_key n = nodeKey (ge_kind n) (ge_id n)"

definition add_edge :: "adjacency \<Rightarrow> GraphEdge \<Rightarrow> adjacency" where
  "add_edge adj edge =
     (let source = nodeKey (gd_source_kind edge) (gd_source_id edge);
          target = nodeKey (gd_target_kind edge) (gd_target_id edge)
      in if map_of adj source \<noteq> None \<and> map_of adj target \<noteq> None
         then adjacency_add target source (adjacency_add source target adj)
         else adj)"

definition build_adjacency :: "GraphEntity list \<Rightarrow> GraphEdge list \<Rightarrow> adjacency" where
  "build_adjacency nodes edges =
     foldl add_edge (foldl (\<lambda>adj n. amap_set (entity_key n) [] adj) [] nodes) edges"

definition neighbors :: "adjacency \<Rightarrow> string \<Rightarrow> string list" where
  "neighbors adj k = (case map_of adj k of Some vs \<Rightarrow> vs | None \<Rightarrow> [])"

type_synonym distances = "(string \<times> nat) list"

definition discover :: "nat \<Rightarrow> distances \<times> string list \<Rightarrow> string \<Rightarrow> distances \<times> string list" where
  "discover d dq neighbor =
     (case dq of (dm, queue) \<Rightarrow>
        if map_of dm neighbor = None then (amap_set neighbor (d + 1) dm, queue @ [neighbor]) else (dm, queue))"

definition universe :: "adjacency \<Rightarrow> string set" where
  "universe adj = (\<Union>vs\<in>snd ` set adj. set vs)"

definition undiscovered :: "adjacency \<Rightarrow> distances \<Rightarrow> nat" where
  "undiscovered adj dm = card (universe adj - dom (map_of dm))"

lemma finite_universe [simp]: "finite (universe adj)"
  by (simp add: universe_def)

lemma neighbors_universe: "set (neighbors adj k) \<subseteq> universe adj"
proof (cases "map_of adj k")
  case (Some vs)
  then have "(k, vs) \<in> set adj" by (rule map_of_SomeD)
  then show ?thesis using Some by (force simp: neighbors_def universe_def)
qed (simp add: neighbors_def)

lemma discover_simp [simp]:
  "discover d (dm, queue) n =
     (if map_of dm n = None then (amap_set n (d + 1) dm, queue @ [n]) else (dm, queue))"
  by (simp add: discover_def)

lemma discover_measure:
  "set ns \<subseteq> universe adj \<Longrightarrow> foldl (discover d) (dm, queue) ns = (dm', queue') \<Longrightarrow>
     2 * undiscovered adj dm' + length queue' \<le> 2 * undiscovered adj dm + length queue"
proof (induction ns arbitrary: dm queue)
  case Nil
  then show ?case by simp
next
  case (Cons n ns)
  show ?case
  proof (cases "map_of dm n = None")
    case True
    with Cons.prems have f: "foldl (discover d) (amap_set n (d + 1) dm, queue @ [n]) ns = (dm', queue')"
      by simp
    have n: "n \<in> universe adj - dom (map_of dm)" using True Cons.prems(1) by auto
    have "universe adj - dom (map_of (amap_set n (d + 1) dm)) = (universe adj - dom (map_of dm)) - {n}" by auto
    then have "Suc (undiscovered adj (amap_set n (d + 1) dm)) = undiscovered adj dm"
      unfolding undiscovered_def using n by (metis card_Suc_Diff1 finite_Diff finite_universe)
    with Cons.IH[OF _ f] Cons.prems(1) show ?thesis by simp
  next
    case False
    then show ?thesis using Cons by auto
  qed
qed

function bfs :: "adjacency \<Rightarrow> distances \<Rightarrow> string list \<Rightarrow> distances" where
  "bfs adj dm [] = dm"
| "bfs adj dm (current # queue) =
     (let currentDistance = (case map_of dm current of Some d \<Rightarrow> d | None \<Rightarrow> 0);
          (dm', queue') = foldl (discover currentDistance) (dm, queue) (neighbors adj current)
      in bfs adj dm' queue')"
  by pat_completeness auto
termination
proof (relation "measure (\<lambda>(adj, dm, queue). 2 * undiscovered adj dm + length queue)", goal_cases)
  case 1
  show ?case by simp
next
  case (2 adj dm current queue d p dm' queue')
  then have "foldl (discover d) (dm, queue) (neighbors adj current) = (dm', queue')" by simp
  from discover_measure[OF neighbors_universe this] show ?case by simp
qed

definition graph_distances :: "string \<Rightarrow> GraphEntity list \<Rightarrow> GraphEdge list \<Rightarrow> distances" where
  "graph_distances rootKey nodes edges = bfs (build_adjacency nodes edges) [(rootKey, 0)] [rootKey]"

definition place ::
  "(number \<Rightarrow> number) \<Rightarrow> (number \<Rightarrow> number) \<Rightarrow> number \<Rightarrow> nat \<Rightarrow> nat \<Rightarrow> nat \<Rightarrow> number \<times> number" where
  "place Math_cos Math_sin ringSpacing ring index n =
     (if ring = 0 then (0, 0)
      else let angle = ndiv (nmul (nmul 2 Math_PI) (of_nat index)) (of_nat n);
               radius = nmul (of_nat ring) ringSpacing
           in (nmul radius (Math_cos angle), nmul radius (Math_sin angle)))"

definition lay_ring ::
  "(number \<Rightarrow> number) \<Rightarrow> (number \<Rightarrow> number) \<Rightarrow> number \<Rightarrow> (string \<times> GraphEntity) list \<Rightarrow> nat \<times> string list \<Rightarrow>
   LaidOutNode list" where
  "lay_ring Math_cos Math_sin ringSpacing byKey rm =
     (let (ring, members) = rm; sorted_members = sort members
      in List.map_filter (\<lambda>(index, key).
           case map_of byKey key of
             None \<Rightarrow> None
           | Some entity \<Rightarrow>
               let (x, y) = place Math_cos Math_sin ringSpacing ring index (length sorted_members)
               in Some \<lparr>ln_key = key, ln_entity = entity, ln_x = x, ln_y = y\<rparr>)
           (enumerate 0 sorted_members))"

definition layoutRadial ::
  "(number \<Rightarrow> number) \<Rightarrow> (number \<Rightarrow> number) \<Rightarrow> string \<Rightarrow> GraphEntity list \<Rightarrow> GraphEdge list \<Rightarrow> number option \<Rightarrow>
   LaidOutNode list" where
  "layoutRadial Math_cos Math_sin rootKey nodes edges ringSpacing =
     (let spacing = (case ringSpacing of Some s \<Rightarrow> s | None \<Rightarrow> 220);
          byKey = amap_of (map (\<lambda>n. (entity_key n, n)) nodes)
      in if map_of byKey rootKey = None then []
         else let dm = graph_distances rootKey nodes edges;
                  ringMembers = foldl (bucket_push snd) [] dm
              in concat (map (\<lambda>(ring, members). lay_ring Math_cos Math_sin spacing byKey (ring, map fst members))
                   ringMembers))"

subsection \<open>lib/judgeModePath.ts\<close>

record JudgeModeStep =
  js_label :: string
  js_entity :: GraphEntity
  js_edge :: "GraphEdge option"

definition find_neighbor :: "string \<Rightarrow> string \<Rightarrow> GraphNeighbor list \<Rightarrow> GraphNeighbor option" where
  "find_neighbor relation kind ns =
     List.find (\<lambda>n. gd_relation (gn_edge n) = relation \<and> ge_kind (gn_entity n) = kind) ns"

definition neighbor_step :: "string \<Rightarrow> GraphNeighbor option \<Rightarrow> JudgeModeStep list" where
  "neighbor_step label n =
     (case n of
        None \<Rightarrow> []
      | Some x \<Rightarrow> [\<lparr>js_label = label, js_entity = gn_entity x, js_edge = Some (gn_edge x)\<rparr>])"

definition buildJudgeModeSteps ::
  "GraphEntity \<Rightarrow> GraphNeighbor list \<Rightarrow> GraphNeighbor list \<Rightarrow> JudgeModeStep list" where
  "buildJudgeModeSteps assessment assessmentNeighbors agentNeighbors =
     (let triggeredAgent = find_neighbor ''triggered'' ''triggered_agent'' assessmentNeighbors
      in (case triggeredAgent of
            None \<Rightarrow> []
          | Some agent \<Rightarrow>
              neighbor_step ''Sensor evidence'' (find_neighbor ''evidence'' ''sensor'' agentNeighbors)
              @ neighbor_step ''Contributing agent'' (Some agent))
         @ [\<lparr>js_label = ''Risk assessment'', js_entity = assessment, js_edge = None\<rparr>]
         @ neighbor_step ''Historical match'' (find_neighbor ''matched'' ''historical_incident'' assessmentNeighbors)
         @ neighbor_step ''Forecast'' (find_neighbor ''projects_for'' ''forecast'' assessmentNeighbors)
         @ neighbor_step ''Recommendation'' (find_neighbor ''generated'' ''recommendation'' assessmentNeighbors))"

subsection \<open>The search invariant\<close>

definition graph_rel :: "adjacency \<Rightarrow> (string \<times> string) set" where
  "graph_rel adj = {(u, v). v \<in> set (neighbors adj u)}"

text \<open>One round of the loop: what the neighbours of a node at distance \<open>d\<close> add.\<close>

lemma discover_fold:
  assumes "foldl (discover d) (dm, queue) ns = (dm', queue')"
  shows "map_of dm' v = (if map_of dm v = None \<and> v \<in> set ns then Some (d + 1) else map_of dm v)"
    and "\<exists>news. queue' = queue @ news \<and> set news = {v \<in> set ns. map_of dm v = None}"
proof -
  have "(\<forall>v. map_of dm' v = (if map_of dm v = None \<and> v \<in> set ns then Some (d + 1) else map_of dm v)) \<and>
      (\<exists>news. queue' = queue @ news \<and> set news = {v \<in> set ns. map_of dm v = None})"
    using assms
  proof (induction ns arbitrary: dm queue)
    case Nil
    then show ?case by simp
  next
    case (Cons n ns)
    show ?case
    proof (cases "map_of dm n = None")
      case True
      with Cons.prems have "foldl (discover d) (amap_set n (d + 1) dm, queue @ [n]) ns = (dm', queue')"
        by simp
      from Cons.IH[OF this] obtain news where
        m: "\<forall>v. map_of dm' v = (if map_of (amap_set n (d + 1) dm) v = None \<and> v \<in> set ns then Some (d + 1)
             else map_of (amap_set n (d + 1) dm) v)"
        and q: "queue' = (queue @ [n]) @ news" "set news = {v \<in> set ns. map_of (amap_set n (d + 1) dm) v = None}"
        by blast
      from q True have "queue' = queue @ (n # news)" "set (n # news) = {v \<in> set (n # ns). map_of dm v = None}" by auto
      with m True show ?thesis by (intro conjI exI[of _ "n # news"]) auto
    next
      case False
      with Cons.prems have "foldl (discover d) (dm, queue) ns = (dm', queue')" by auto
      from Cons.IH[OF this] False show ?thesis by auto
    qed
  qed
  then show "map_of dm' v = (if map_of dm v = None \<and> v \<in> set ns then Some (d + 1) else map_of dm v)"
    "\<exists>news. queue' = queue @ news \<and> set news = {v \<in> set ns. map_of dm v = None}" by blast+
qed

definition bfs_inv :: "adjacency \<Rightarrow> string \<Rightarrow> distances \<Rightarrow> string list \<Rightarrow> bool" where
  "bfs_inv adj r0 dm queue \<longleftrightarrow>
     map_of dm r0 = Some 0 \<and>
     (\<forall>v d. map_of dm v = Some d \<longrightarrow> (r0, v) \<in> graph_rel adj ^^ d) \<and>
     set queue \<subseteq> dom (map_of dm) \<and>
     sorted (map (\<lambda>v. the (map_of dm v)) queue) \<and>
     (case queue of [] \<Rightarrow> True | c # _ \<Rightarrow> \<forall>v d. map_of dm v = Some d \<longrightarrow> d \<le> the (map_of dm c) + 1) \<and>
     (\<forall>u d v. map_of dm u = Some d \<longrightarrow> u \<notin> set queue \<longrightarrow> v \<in> set (neighbors adj u) \<longrightarrow>
        (\<exists>e. map_of dm v = Some e \<and> e \<le> d + 1))"

lemma bfs_inv_start: "bfs_inv adj r0 [(r0, 0)] [r0]"
  by (simp add: bfs_inv_def)

lemma bfs_inv_step:
  assumes inv: "bfs_inv adj r0 dm (c # queue)" and c: "map_of dm c = Some d"
    and f: "foldl (discover d) (dm, queue) (neighbors adj c) = (dm', queue')"
  shows "bfs_inv adj r0 dm' queue'"
proof -
  have m: "map_of dm' v = (if map_of dm v = None \<and> v \<in> set (neighbors adj c) then Some (d + 1) else map_of dm v)" for v
    by (rule discover_fold(1)[OF f])
  obtain news where q: "queue' = queue @ news"
    and news: "set news = {v \<in> set (neighbors adj c). map_of dm v = None}" using discover_fold(2)[OF f] by blast
  have sound: "\<And>v e. map_of dm v = Some e \<Longrightarrow> (r0, v) \<in> graph_rel adj ^^ e"
    and le: "\<And>v e. map_of dm v = Some e \<Longrightarrow> e \<le> d + 1"
    and qdom: "set queue \<subseteq> dom (map_of dm)"
    and srt: "sorted (map (\<lambda>v. the (map_of dm v)) queue)" "\<And>v. v \<in> set queue \<Longrightarrow> d \<le> the (map_of dm v)"
    and processed: "\<And>u e v. map_of dm u = Some e \<Longrightarrow> u \<notin> set (c # queue) \<Longrightarrow> v \<in> set (neighbors adj u) \<Longrightarrow>
        \<exists>e'. map_of dm v = Some e' \<and> e' \<le> e + 1"
    and r0: "map_of dm r0 = Some 0"
    using inv c unfolding bfs_inv_def by auto
  have old: "map_of dm' v = Some e" if "map_of dm v = Some e" for v e using that by (simp add: m)
  have s: "(r0, v) \<in> graph_rel adj ^^ e" if "map_of dm' v = Some e" for v e
  proof (cases "map_of dm v")
    case None
    with that have v: "v \<in> set (neighbors adj c)" "e = Suc d" by (auto simp: m split: if_splits)
    then have "(c, v) \<in> graph_rel adj" by (simp add: graph_rel_def)
    with sound[OF c] v(2) show ?thesis by auto
  next
    case (Some x)
    with that sound show ?thesis by (simp add: m)
  qed
  have le': "e \<le> d + 1" if "map_of dm' v = Some e" for v e
    using that le by (auto simp: m split: if_splits)
  have qd: "set queue' \<subseteq> dom (map_of dm')" using qdom news by (auto simp: q m)
  have same: "map (\<lambda>v. the (map_of dm' v)) queue = map (\<lambda>v. the (map_of dm v)) queue"
    using qdom by (auto simp: m)
  have new: "map (\<lambda>v. the (map_of dm' v)) news = map (\<lambda>_. d + 1) news" using news by (auto simp: m)
  have "\<forall>x\<in>set (map (\<lambda>v. the (map_of dm v)) queue). x \<le> d + 1" using qdom le by fastforce
  then have srt': "sorted (map (\<lambda>v. the (map_of dm' v)) queue')"
    using srt(1) by (auto simp: q same new sorted_append map_replicate_const)
  have head: "case queue' of [] \<Rightarrow> True | c' # _ \<Rightarrow> \<forall>v e. map_of dm' v = Some e \<longrightarrow> e \<le> the (map_of dm' c') + 1"
  proof (cases queue')
    case (Cons c' r)
    have "d \<le> the (map_of dm' c')"
    proof (cases "c' \<in> set queue")
      case True
      then obtain x where "map_of dm c' = Some x" using qdom by auto
      then show ?thesis using srt(2)[OF True] by (simp add: old)
    next
      case False
      then have "c' \<in> set news" using Cons q by (cases queue) auto
      then show ?thesis using news by (simp add: m)
    qed
    then show ?thesis using le' Cons by fastforce
  qed simp
  have fin: "\<exists>e'. map_of dm' v = Some e' \<and> e' \<le> e + 1"
    if u: "map_of dm' u = Some e" "u \<notin> set queue'" "v \<in> set (neighbors adj u)" for u e v
  proof (cases "u = c")
    case True
    with u c have "e = d" by (simp add: old)
    moreover have "\<exists>e'. map_of dm' v = Some e'" using u(3) True by (simp add: m)
    ultimately show ?thesis using le' by blast
  next
    case False
    have "map_of dm u \<noteq> None" using u news by (auto simp: m q split: if_splits)
    then have "map_of dm u = Some e" using u(1) by (auto simp: m)
    from processed[OF this _ u(3)] u(2) False obtain e' where "map_of dm v = Some e'" "e' \<le> e + 1" by (auto simp: q)
    then show ?thesis by (simp add: old)
  qed
  show ?thesis
    unfolding bfs_inv_def using r0 s qd srt' head fin by (simp add: old)
qed

lemma bfs_inv_end: "bfs_inv adj r0 dm queue \<Longrightarrow> bfs_inv adj r0 (bfs adj dm queue) []"
proof (induction adj dm queue rule: bfs.induct)
  case (1 adj dm)
  then show ?case by simp
next
  case (2 adj dm c queue)
  from 2(2) obtain d where c: "map_of dm c = Some d" unfolding bfs_inv_def by auto
  obtain dm' queue' where f: "foldl (discover d) (dm, queue) (neighbors adj c) = (dm', queue')" by fastforce
  have "bfs_inv adj r0 dm' queue'" by (rule bfs_inv_step[OF 2(2) c f])
  then show ?case using 2(1)[of d "(dm', queue')" dm' queue'] c f by simp
qed

lemma bfs_inv_complete:
  assumes "bfs_inv adj r0 dm []" and "(r0, v) \<in> graph_rel adj ^^ n"
  shows "\<exists>e. map_of dm v = Some e \<and> e \<le> n"
  using assms(2)
proof (induction n arbitrary: v)
  case 0
  then show ?case using assms(1) by (simp add: bfs_inv_def)
next
  case (Suc n)
  then obtain u where u: "(r0, u) \<in> graph_rel adj ^^ n" "(u, v) \<in> graph_rel adj" by auto
  from Suc.IH[OF u(1)] obtain d where d: "map_of dm u = Some d" "d \<le> n" by blast
  from u(2) have "v \<in> set (neighbors adj u)" by (simp add: graph_rel_def)
  with assms(1) d(1) obtain e where "map_of dm v = Some e" "e \<le> d + 1" unfolding bfs_inv_def by fastforce
  with d(2) show ?case by auto
qed

definition shortest :: "(string \<times> string) set \<Rightarrow> string \<Rightarrow> string \<Rightarrow> nat \<Rightarrow> bool" where
  "shortest R u v d \<longleftrightarrow> (u, v) \<in> R ^^ d \<and> (\<forall>k<d. (u, v) \<notin> R ^^ k)"

lemma bfs_shortest:
  "map_of (bfs adj [(r0, 0)] [r0]) v = Some d \<longleftrightarrow> shortest (graph_rel adj) r0 v d"
proof -
  let ?dm = "bfs adj [(r0, 0)] [r0]"
  have inv: "bfs_inv adj r0 ?dm []" by (rule bfs_inv_end[OF bfs_inv_start])
  have sound: "map_of ?dm v = Some e \<Longrightarrow> (r0, v) \<in> graph_rel adj ^^ e" for e using inv by (simp add: bfs_inv_def)
  show ?thesis
  proof
    assume d: "map_of ?dm v = Some d"
    then show "shortest (graph_rel adj) r0 v d"
      unfolding shortest_def using sound[OF d] bfs_inv_complete[OF inv, of v] by fastforce
  next
    assume s: "shortest (graph_rel adj) r0 v d"
    then obtain e where e: "map_of ?dm v = Some e" "e \<le> d"
      using bfs_inv_complete[OF inv, of v d] by (auto simp: shortest_def)
    with sound[OF e(1)] s have "e = d" by (auto simp: shortest_def intro: ccontr dest: le_neq_trans)
    with e show "map_of ?dm v = Some d" by simp
  qed
qed

lemma bfs_distinct: "distinct (map fst dm) \<Longrightarrow> distinct (map fst (bfs adj dm queue))"
proof (induction adj dm queue rule: bfs.induct)
  case (1 adj dm)
  then show ?case by simp
next
  case (2 adj dm c queue)
  have keep: "distinct (map fst (fst dq)) \<Longrightarrow> distinct (map fst (fst (foldl (discover d) dq ns)))" for d dq ns
    by (induction ns arbitrary: dq) (auto simp: discover_def distinct_amap_set split: prod.split)
  let ?d = "case map_of dm c of Some d \<Rightarrow> d | None \<Rightarrow> 0"
  obtain dm' queue' where f: "foldl (discover ?d) (dm, queue) (neighbors adj c) = (dm', queue')" by fastforce
  have "distinct (map fst dm')" using keep[of "(dm, queue)" ?d "neighbors adj c"] 2(2) f by simp
  then show ?case using 2(1)[of ?d "(dm', queue')" dm' queue'] f by simp
qed

subsection \<open>The adjacency is the edge relation\<close>

definition edge_rel :: "GraphEntity list \<Rightarrow> GraphEdge list \<Rightarrow> (string \<times> string) set" where
  "edge_rel nodes edges =
     {(u, v). u \<in> entity_key ` set nodes \<and> v \<in> entity_key ` set nodes \<and>
        (\<exists>e\<in>set edges.
           (u, v) = (nodeKey (gd_source_kind e) (gd_source_id e), nodeKey (gd_target_kind e) (gd_target_id e)) \<or>
           (v, u) = (nodeKey (gd_source_kind e) (gd_source_id e), nodeKey (gd_target_kind e) (gd_target_id e)))}"

lemma adjacency_add_facts:
  "map_of adj k \<noteq> None \<Longrightarrow> set (neighbors (adjacency_add k v adj) u) = set (neighbors adj u) \<union> (if u = k then {v} else {})"
  "dom (map_of (adjacency_add k v adj)) = dom (map_of adj)"
  by (auto simp: adjacency_add_def neighbors_def split: option.splits)

lemma add_edge_facts:
  "dom (map_of (add_edge adj e)) = dom (map_of adj)"
  "set (neighbors (add_edge adj e) u) = set (neighbors adj u) \<union>
     {v. u \<in> dom (map_of adj) \<and> v \<in> dom (map_of adj) \<and>
       ((u, v) = (nodeKey (gd_source_kind e) (gd_source_id e), nodeKey (gd_target_kind e) (gd_target_id e)) \<or>
        (v, u) = (nodeKey (gd_source_kind e) (gd_source_id e), nodeKey (gd_target_kind e) (gd_target_id e)))}"
proof -
  let ?s = "nodeKey (gd_source_kind e) (gd_source_id e)" and ?t = "nodeKey (gd_target_kind e) (gd_target_id e)"
  show "dom (map_of (add_edge adj e)) = dom (map_of adj)"
    by (simp add: add_edge_def Let_def adjacency_add_facts)
  show "set (neighbors (add_edge adj e) u) = set (neighbors adj u) \<union>
     {v. u \<in> dom (map_of adj) \<and> v \<in> dom (map_of adj) \<and> ((u, v) = (?s, ?t) \<or> (v, u) = (?s, ?t))}"
  proof (cases "map_of adj ?s \<noteq> None \<and> map_of adj ?t \<noteq> None")
    case True
    then have "map_of (adjacency_add ?s ?t adj) ?t \<noteq> None" using adjacency_add_facts(2)[of ?s ?t adj] by (auto simp: domIff)
    with True show ?thesis by (auto simp: add_edge_def Let_def adjacency_add_facts)
  next
    case False
    then show ?thesis by (auto simp: add_edge_def Let_def domIff)
  qed
qed

lemma initial_adjacency:
  "dom (map_of (foldl (\<lambda>adj n. amap_set (entity_key n) [] adj) m nodes)) = dom (map_of m) \<union> entity_key ` set nodes"
  "\<forall>k. neighbors m k = [] \<Longrightarrow> neighbors (foldl (\<lambda>adj n. amap_set (entity_key n) [] adj) m nodes) k = []"
proof -
  show "dom (map_of (foldl (\<lambda>adj n. amap_set (entity_key n) [] adj) m nodes)) = dom (map_of m) \<union> entity_key ` set nodes"
    by (induction nodes arbitrary: m) auto
  show "\<forall>k. neighbors m k = [] \<Longrightarrow> neighbors (foldl (\<lambda>adj n. amap_set (entity_key n) [] adj) m nodes) k = []"
    by (induction nodes arbitrary: m) (auto simp: neighbors_def)
qed

lemma foldl_add_edge:
  "dom (map_of (foldl add_edge adj edges)) = dom (map_of adj) \<and>
   set (neighbors (foldl add_edge adj edges) u) = set (neighbors adj u) \<union>
     {v. u \<in> dom (map_of adj) \<and> v \<in> dom (map_of adj) \<and> (\<exists>e\<in>set edges.
       (u, v) = (nodeKey (gd_source_kind e) (gd_source_id e), nodeKey (gd_target_kind e) (gd_target_id e)) \<or>
       (v, u) = (nodeKey (gd_source_kind e) (gd_source_id e), nodeKey (gd_target_kind e) (gd_target_id e)))}"
  by (induction edges arbitrary: adj) (auto simp: add_edge_facts)

lemma build_adjacency_rel: "graph_rel (build_adjacency nodes edges) = edge_rel nodes edges"
  using initial_adjacency[of "[]" nodes] foldl_add_edge
  by (auto simp: graph_rel_def edge_rel_def build_adjacency_def neighbors_def[of "[]"])

subsection \<open>The layout\<close>

lemma graph_distances_shortest:
  "map_of (graph_distances r0 nodes edges) v = Some d \<longleftrightarrow> shortest (edge_rel nodes edges) r0 v d"
  unfolding graph_distances_def bfs_shortest build_adjacency_rel ..

lemma graph_distances_distinct: "distinct (map fst (graph_distances r0 nodes edges))"
  unfolding graph_distances_def by (rule bfs_distinct) simp

lemma rtrancl_shortest: "(u, v) \<in> R\<^sup>* \<longleftrightarrow> (\<exists>d. shortest R u v d)"
proof
  assume "(u, v) \<in> R\<^sup>*"
  then obtain n where "(u, v) \<in> R ^^ n" by (auto simp: rtrancl_power)
  then have "shortest R u v (LEAST n. (u, v) \<in> R ^^ n)"
    by (auto simp: shortest_def intro: LeastI dest: not_less_Least)
  then show "\<exists>d. shortest R u v d" ..
qed (auto simp: shortest_def rtrancl_power)

lemma graph_distances_keys:
  "fst ` set (graph_distances r0 nodes edges) = {k. (r0, k) \<in> (edge_rel nodes edges)\<^sup>*}"
proof -
  have "k \<in> fst ` set dm \<longleftrightarrow> (\<exists>d. map_of dm k = Some d)" for k and dm :: distances
    by (metis map_of_eq_None_iff not_None_eq)
  then have "k \<in> fst ` set (graph_distances r0 nodes edges) \<longleftrightarrow> (\<exists>d. shortest (edge_rel nodes edges) r0 k d)" for k
    unfolding graph_distances_shortest[symmetric] .
  then show ?thesis unfolding rtrancl_shortest by blast
qed

lemma reachable_nodes: "r0 \<in> entity_key ` set nodes \<Longrightarrow> (r0, k) \<in> (edge_rel nodes edges)\<^sup>* \<Longrightarrow> k \<in> entity_key ` set nodes"
  by (erule rtranclE) (auto simp: edge_rel_def)

text \<open>One ring: its members in order, each placed by its index.\<close>

lemma lay_ring_nodes:
  assumes "\<forall>k\<in>set members. map_of byKey k \<noteq> None"
  shows "map ln_key (lay_ring mc ms sp byKey (ring, members)) = sort members"
    and "\<forall>n\<in>set (lay_ring mc ms sp byKey (ring, members)).
      \<exists>i. i < length members \<and> (ln_x n, ln_y n) = place mc ms sp ring i (length members)"
proof -
  let ?f = "\<lambda>m (index, key). case map_of byKey key of
      None \<Rightarrow> None
    | Some entity \<Rightarrow> let (x, y) = place mc ms sp ring index m in Some \<lparr>ln_key = key, ln_entity = entity, ln_x = x, ln_y = y\<rparr>"
  have aux: "map ln_key (List.map_filter (?f m) (enumerate n xs)) = xs \<and>
      (\<forall>v\<in>set (List.map_filter (?f m) (enumerate n xs)).
         \<exists>i. i < n + length xs \<and> (ln_x v, ln_y v) = place mc ms sp ring i m)"
    if "\<forall>k\<in>set xs. map_of byKey k \<noteq> None" for m n xs
    using that
  proof (induction xs arbitrary: n)
    case Nil
    show ?case by (simp add: map_filter_simps)
  next
    case (Cons x xs)
    from Cons.prems obtain en where "map_of byKey x = Some en" by auto
    with Cons.IH[of "Suc n"] Cons.prems show ?case
      by (auto simp: map_filter_simps split: prod.split) (metis add_Suc_right less_add_Suc1)
  qed
  from aux[of "sort members" "length (sort members)" 0] assms
  show "map ln_key (lay_ring mc ms sp byKey (ring, members)) = sort members"
    and "\<forall>n\<in>set (lay_ring mc ms sp byKey (ring, members)).
      \<exists>i. i < length members \<and> (ln_x n, ln_y n) = place mc ms sp ring i (length members)"
    by (simp_all add: lay_ring_def Let_def)
qed

lemma byKey_present: "map_of (amap_of (map (\<lambda>n. (entity_key n, n)) nodes)) k \<noteq> None \<longleftrightarrow> k \<in> entity_key ` set nodes"
  by (simp add: map_of_amap_of map_of_eq_None_iff image_comp)

lemma layoutRadial_rings:
  assumes "r0 \<in> entity_key ` set nodes"
  shows "layoutRadial mc ms r0 nodes edges sp =
    concat (map (\<lambda>r. lay_ring mc ms (case sp of Some s \<Rightarrow> s | None \<Rightarrow> 220)
        (amap_of (map (\<lambda>n. (entity_key n, n)) nodes))
        (r, map fst (filter (\<lambda>kd. snd kd = r) (graph_distances r0 nodes edges))))
      (js_set (map snd (graph_distances r0 nodes edges))))"
proof -
  obtain y where "map_of (amap_of (map (\<lambda>n. (entity_key n, n)) nodes)) r0 = Some y"
    using byKey_present[of nodes r0] assms by blast
  then show ?thesis by (simp add: layoutRadial_def Let_def bucket_fold o_def)
qed

lemma ring_members_present:
  assumes "r0 \<in> entity_key ` set nodes" and "k \<in> set (map fst (filter P (graph_distances r0 nodes edges)))"
  shows "map_of (amap_of (map (\<lambda>n. (entity_key n, n)) nodes)) k \<noteq> None"
proof -
  have "k \<in> fst ` set (graph_distances r0 nodes edges)" using assms(2) by auto
  then have "k \<in> entity_key ` set nodes" using assms(1) reachable_nodes unfolding graph_distances_keys by blast
  then show ?thesis unfolding byKey_present .
qed

lemma layoutRadial_keys:
  assumes "r0 \<in> entity_key ` set nodes"
  shows "mset (map ln_key (layoutRadial mc ms r0 nodes edges sp)) = mset (map fst (graph_distances r0 nodes edges))"
proof -
  let ?dm = "graph_distances r0 nodes edges"
  let ?ring = "\<lambda>r. filter (\<lambda>kd. snd kd = r) ?dm"
  have "map ln_key (layoutRadial mc ms r0 nodes edges sp) =
      concat (map (\<lambda>r. sort (map fst (?ring r))) (js_set (map snd ?dm)))"
    unfolding layoutRadial_rings[OF assms] map_concat map_map o_def
    using ring_members_present[OF assms] by (simp add: lay_ring_nodes(1))
  also have "mset \<dots> = mset (map fst (concat (map ?ring (js_set (map snd ?dm)))))"
    by (simp add: mset_concat map_concat o_def)
  also have "\<dots> = image_mset fst (mset (concat (map ?ring (js_set (map snd ?dm)))))" by simp
  also have "mset (concat (map ?ring (js_set (map snd ?dm)))) = mset ?dm"
    by (rule mset_concat_groups) auto
  finally show ?thesis by simp
qed

lemma layoutRadial_key_set:
  assumes "r0 \<in> entity_key ` set nodes"
  shows "distinct (map ln_key (layoutRadial mc ms r0 nodes edges sp))"
    and "ln_key ` set (layoutRadial mc ms r0 nodes edges sp) = {k. (r0, k) \<in> (edge_rel nodes edges)\<^sup>*}"
proof -
  note same = layoutRadial_keys[OF assms, of mc ms edges sp]
  show "distinct (map ln_key (layoutRadial mc ms r0 nodes edges sp))"
    using graph_distances_distinct same by (metis mset_eq_imp_distinct_iff)
  show "ln_key ` set (layoutRadial mc ms r0 nodes edges sp) = {k. (r0, k) \<in> (edge_rel nodes edges)\<^sup>*}"
    using same unfolding graph_distances_keys[symmetric] by (metis list.set_map mset_eq_setD)
qed

lemma layoutRadial_unknown_root:
  "r0 \<notin> entity_key ` set nodes \<Longrightarrow> layoutRadial mc ms r0 nodes edges sp = []"
  using byKey_present[of nodes r0] by (simp add: layoutRadial_def Let_def)

subsection \<open>Properties\<close>

text \<open>
  The distance the breadth-first search assigns to a node is the length of a shortest path from
  the root over edges between known nodes, in either direction, and exactly the nodes connected to
  the root get one.
\<close>

theorem graph_distances_correct:
  "(case map_of (graph_distances rootKey nodes edges) k of
      None \<Rightarrow> (rootKey, k) \<notin> (edge_rel nodes edges)\<^sup>*
    | Some d \<Rightarrow> shortest (edge_rel nodes edges) rootKey k d)"
  by (auto simp: graph_distances_shortest rtrancl_shortest split: option.split)
    (metis graph_distances_shortest option.distinct(1))

text \<open>
  (C7) The radial layout places every node connected to a known root exactly once, on the ring whose
  number is the node's shortest distance from the root, at one of the evenly spaced positions of
  that ring; an unknown root gives an empty layout.
\<close>

theorem layoutRadial_correct:
  "(let layout = layoutRadial mc ms rootKey nodes edges sp;
        spacing = (case sp of Some s \<Rightarrow> s | None \<Rightarrow> 220)
    in if rootKey \<in> entity_key ` set nodes
       then distinct (map ln_key layout) \<and>
            ln_key ` set layout = {k. (rootKey, k) \<in> (edge_rel nodes edges)\<^sup>*} \<and>
            list_all (\<lambda>n. \<exists>ring i m. shortest (edge_rel nodes edges) rootKey (ln_key n) ring \<and> i < m \<and>
              (ln_x n, ln_y n) = place mc ms spacing ring i m) layout
       else layout = [])"
proof (cases "rootKey \<in> entity_key ` set nodes")
  case True
  let ?L = "layoutRadial mc ms rootKey nodes edges sp" and ?dm = "graph_distances rootKey nodes edges"
  have "distinct (map ln_key ?L) \<and> ln_key ` set ?L = {k. (rootKey, k) \<in> (edge_rel nodes edges)\<^sup>*}"
    using layoutRadial_key_set[OF True] by blast
  moreover have "\<exists>ring i m. shortest (edge_rel nodes edges) rootKey (ln_key n) ring \<and> i < m \<and>
      (ln_x n, ln_y n) = place mc ms (case sp of Some s \<Rightarrow> s | None \<Rightarrow> 220) ring i m" if "n \<in> set ?L" for n
  proof -
    from that obtain r where
      n: "n \<in> set (lay_ring mc ms (case sp of Some s \<Rightarrow> s | None \<Rightarrow> 220) (amap_of (map (\<lambda>n. (entity_key n, n)) nodes))
        (r, map fst (filter (\<lambda>kd. snd kd = r) ?dm)))" (is "n \<in> set ?ring")
      unfolding layoutRadial_rings[OF True] by auto
    note present = ring_members_present[OF True]
    have "ln_key n \<in> set (map ln_key ?ring)" using n by simp
    then have "(ln_key n, r) \<in> set ?dm"
      using lay_ring_nodes(1)[of "map fst (filter (\<lambda>kd. snd kd = r) ?dm)"] present by auto
    then have "shortest (edge_rel nodes edges) rootKey (ln_key n) r"
      using graph_distances_distinct by (simp flip: graph_distances_shortest)
    moreover have "\<exists>i. i < length (map fst (filter (\<lambda>kd. snd kd = r) ?dm)) \<and> (ln_x n, ln_y n) =
        place mc ms (case sp of Some s \<Rightarrow> s | None \<Rightarrow> 220) r i (length (map fst (filter (\<lambda>kd. snd kd = r) ?dm)))"
      using lay_ring_nodes(2)[of "map fst (filter (\<lambda>kd. snd kd = r) ?dm)"] present n by blast
    ultimately show ?thesis by blast
  qed
  ultimately show ?thesis using True by (simp add: list_all_iff Let_def)
next
  case False
  then show ?thesis by (simp add: layoutRadial_unknown_root)
qed

text \<open>
  Judge Mode shows only evidence the graph returned, in the fixed order of the story: every step
  but the assessment itself is an entity and edge of one of the two neighbour lists, and the
  labels are a selection of the six stages.
\<close>

theorem buildJudgeModeSteps_real:
  "subseq (map js_label (buildJudgeModeSteps a ns ms))
     [''Sensor evidence'', ''Contributing agent'', ''Risk assessment'', ''Historical match'', ''Forecast'', ''Recommendation''] \<and>
   list_all (\<lambda>s. case js_edge s of
       None \<Rightarrow> js_label s = ''Risk assessment'' \<and> js_entity s = a
     | Some e \<Rightarrow> \<lparr>gn_edge = e, gn_entity = js_entity s\<rparr> \<in> set ns \<union> set ms)
     (buildJudgeModeSteps a ns ms)"
proof -
  have f: "find_neighbor r k xs = Some n \<Longrightarrow> \<lparr>gn_edge = gn_edge n, gn_entity = gn_entity n\<rparr> \<in> set xs" for r k xs n
    using find_eq_Some_D[of "\<lambda>m. gd_relation (gn_edge m) = r \<and> ge_kind (gn_entity m) = k" xs n]
    by (cases n) (simp add: find_neighbor_def)
  show ?thesis
    by (auto simp: buildJudgeModeSteps_def neighbor_step_def Let_def split: option.splits dest: f)
qed

end
