(* ===== verification/Search.thy ===== *)
theory Search
  imports Recommendations
begin

section \<open>Enterprise search\<close>

text \<open>
  \<open>lib/enterpriseSearch.ts\<close> (one pure search function per category), \<open>hooks/useSmartSearchExtensions.ts\<close>
  (one representative moment per scenario) and the state and result assembly of
  \<open>components/layout/GlobalSearch.tsx\<close>. The responses of the back end are arguments. The lemmas show
  that case and surrounding blanks of the query do not matter, that the standards found are exactly
  the matching ones without repetition, that each scenario contributes its own first highest-risk
  tick, and that closing the palette always clears the query.
\<close>

subsection \<open>lib/enterpriseSearch.ts\<close>

record EnterpriseSearchResult =
  sr_category :: string
  sr_id :: string
  sr_label :: string
  sr_detail :: string
  sr_deepLink :: string

definition GRAPH_CATEGORY :: "(string \<times> string) list" where
  "GRAPH_CATEGORY =
     [(''zone'', ''Zone''), (''sensor'', ''Sensor''), (''worker'', ''Worker''), (''equipment'', ''Equipment''),
      (''historical_incident'', ''Historical Incident'')]"

definition graphEntityToSearchResult :: "GraphEntity \<Rightarrow> EnterpriseSearchResult option" where
  "graphEntityToSearchResult entity =
     (case map_of GRAPH_CATEGORY (ge_kind entity) of
        None \<Rightarrow> None
      | Some category \<Rightarrow>
          let eid = ge_kind entity @ '':'' @ ge_id entity;
              deepLink = (if ge_kind entity = ''zone'' then ''/zones/'' @ ge_id entity
                          else ''/knowledge-graph?focus='' @ encodeURIComponent eid)
          in Some \<lparr>sr_category = category, sr_id = eid, sr_label = ge_label entity, sr_detail = category,
                   sr_deepLink = deepLink\<rparr>)"

definition needle :: "string \<Rightarrow> string" where
  "needle query = toLowerCase (trim query)"

definition mentions :: "string \<Rightarrow> string \<Rightarrow> bool" where
  "mentions ndl text = str_includes (toLowerCase text) ndl"

definition searchPermits :: "Permit list \<Rightarrow> Zone list option \<Rightarrow> string \<Rightarrow> EnterpriseSearchResult list" where
  "searchPermits permits zones query =
     (if needle query = [] then []
      else map (\<lambda>permit. \<lparr>sr_category = ''Permit'', sr_id = pm_permit_id permit,
               sr_label = pm_permit_type permit @ '' - '' @ zoneLabel (pm_zone_id permit) zones,
               sr_detail = ''Status: '' @ pm_status permit, sr_deepLink = ''/permits''\<rparr>)
             (filter (\<lambda>permit. mentions (needle query) (pm_permit_type permit) \<or>
                mentions (needle query) (pm_status permit) \<or>
                mentions (needle query) (zoneLabel (pm_zone_id permit) zones)) permits))"

definition searchRecommendationTemplates :: "string \<Rightarrow> EnterpriseSearchResult list" where
  "searchRecommendationTemplates query =
     (if needle query = [] then []
      else map (\<lambda>template. \<lparr>sr_category = ''Recommendation'', sr_id = rc_id template, sr_label = rc_text template,
               sr_detail = ''Severity: '' @ rc_severity template @ '' (vocabulary reference, not a specific tick)'',
               sr_deepLink = ''/knowledge-graph''\<rparr>)
             (filter (\<lambda>template. mentions (needle query) (rc_text template)) ALL_RECOMMENDATION_TEMPLATES))"

definition standard_id :: "StandardReference \<Rightarrow> string" where
  "standard_id standard = sref_code standard @ sref_title standard"

definition standard_haystack :: "StandardReference \<Rightarrow> string" where
  "standard_haystack standard = sref_code standard @ '' '' @ sref_title standard @ '' '' @ sref_summary standard"

definition standard_result :: "StandardReference \<Rightarrow> EnterpriseSearchResult" where
  "standard_result standard =
     \<lparr>sr_category = ''Standard'', sr_id = standard_id standard,
      sr_label = sref_code standard @ '' - '' @ sref_title standard, sr_detail = sref_summary standard,
      sr_deepLink = ''/knowledge-graph''\<rparr>"

definition see_standard ::
  "string \<Rightarrow> (string \<times> EnterpriseSearchResult) list \<Rightarrow> StandardReference \<Rightarrow> (string \<times> EnterpriseSearchResult) list" where
  "see_standard ndl seen standard =
     (if map_of seen (standard_id standard) \<noteq> None then seen
      else if mentions ndl (standard_haystack standard)
      then amap_set (standard_id standard) (standard_result standard) seen
      else seen)"

definition searchStandards :: "string \<Rightarrow> EnterpriseSearchResult list" where
  "searchStandards query =
     (if needle query = [] then []
      else map snd (foldl (\<lambda>seen (_, standards). foldl (see_standard (needle query)) seen standards) []
             STANDARDS_FOR_RECOMMENDATION))"

definition rule_results :: "string \<Rightarrow> RuleFrequency list \<Rightarrow> string \<Rightarrow> EnterpriseSearchResult list" where
  "rule_results ndl entries category =
     map (\<lambda>entry. \<lparr>sr_category = category, sr_id = category @ '':'' @ rf_rule entry, sr_label = rf_lesson entry,
         sr_detail = ''Rule: '' @ rf_rule entry @ '' ('' @ num_toString (rf_incident_count entry)
           @ '' incident(s), cross-scenario)'',
         sr_deepLink = ''/knowledge-graph''\<rparr>)
       (filter (\<lambda>entry. mentions ndl (rf_lesson entry) \<or> mentions ndl (rf_rule entry)) entries)"

definition searchAnalyticsLessonsAndHazards ::
  "CrossScenarioAnalytics option \<Rightarrow> string \<Rightarrow> EnterpriseSearchResult list" where
  "searchAnalyticsLessonsAndHazards analytics query =
     (case analytics of
        None \<Rightarrow> []
      | Some a \<Rightarrow>
          if needle query = [] then []
          else rule_results (needle query) (ca_most_common_causes a) ''Lesson''
             @ rule_results (needle query) (ca_most_common_equipment_issues a) ''Lesson''
             @ rule_results (needle query) (ca_most_common_permit_conflicts a) ''Lesson''
             @ rule_results (needle query) (ca_most_common_worker_hazards a) ''Hazard'')"

record ScenarioMoment =
  sm_scenarioKey :: string
  sm_scenarioTitle :: string
  sm_zoneId :: string
  sm_timestamp :: string
  sm_assessmentId :: string
  sm_events :: "ReplayBookmark list"
  sm_counterfactual :: "CounterfactualComparison option"
  sm_foresight :: "ForesightResult option"
  sm_bestMatch :: "IncidentMatch option"

definition moment_id :: "ScenarioMoment \<Rightarrow> string" where
  "moment_id moment = sm_scenarioKey moment @ '':'' @ sm_zoneId moment @ '':'' @ sm_timestamp moment"

definition searchEvents :: "ScenarioMoment list \<Rightarrow> Zone list option \<Rightarrow> string \<Rightarrow> EnterpriseSearchResult list" where
  "searchEvents moments zones query =
     (if needle query = [] then []
      else concat (map (\<lambda>moment.
        map (\<lambda>event. \<lparr>sr_category = ''Event'',
            sr_id = sm_scenarioKey moment @ '':'' @ rb_zone_id event @ '':'' @ rb_timestamp event,
            sr_label = rb_label event,
            sr_detail = zoneLabel (rb_zone_id event) zones @ '' - '' @ sm_scenarioTitle moment,
            sr_deepLink = ''/scenarios/'' @ sm_scenarioKey moment\<rparr>)
          (filter (\<lambda>event. mentions (needle query) (rb_label event) \<or> mentions (needle query) (rb_kind event))
             (sm_events moment))) moments))"

definition counterfactual_label :: "CounterfactualComparison \<Rightarrow> string" where
  "counterfactual_label cf =
     (if cfv_alert (cc_counterfactual cf) then ''Traditional threshold system would have alerted''
      else ''Traditional threshold system stayed silent'')"

definition searchCounterfactuals :: "ScenarioMoment list \<Rightarrow> Zone list option \<Rightarrow> string \<Rightarrow> EnterpriseSearchResult list" where
  "searchCounterfactuals moments zones query =
     (if needle query = [] then []
      else List.map_filter (\<lambda>moment.
        case sm_counterfactual moment of
          None \<Rightarrow> None
        | Some cf \<Rightarrow>
            if mentions (needle query) (counterfactual_label cf @ '' '' @ sm_scenarioTitle moment @ '' counterfactual'')
            then Some \<lparr>sr_category = ''Counterfactual'', sr_id = moment_id moment, sr_label = counterfactual_label cf,
              sr_detail = zoneLabel (sm_zoneId moment) zones @ '' - '' @ sm_scenarioTitle moment
                @ '' (most notable divergence)'',
              sr_deepLink = ''/counterfactual/'' @ sm_zoneId moment @ ''?timestamp=''
                @ encodeURIComponent (sm_timestamp moment)\<rparr>
            else None) moments)"

definition searchForecasts :: "ScenarioMoment list \<Rightarrow> Zone list option \<Rightarrow> string \<Rightarrow> EnterpriseSearchResult list" where
  "searchForecasts moments zones query =
     (if needle query = [] then []
      else List.map_filter (\<lambda>moment.
        case sm_foresight moment of
          None \<Rightarrow> None
        | Some f \<Rightarrow>
            if mentions (needle query) (ew_category (fr_early_warning f) @ '' '' @ ew_why (fr_early_warning f) @ '' ''
                 @ sm_scenarioTitle moment @ '' forecast'')
            then Some \<lparr>sr_category = ''Forecast'', sr_id = moment_id moment,
              sr_label = ew_category (fr_early_warning f) @ '' - '' @ zoneLabel (sm_zoneId moment) zones,
              sr_detail = ew_why (fr_early_warning f) @ '' ('' @ sm_scenarioTitle moment @ '', highest-risk tick)'',
              sr_deepLink = ''/decision-workspace/'' @ sm_assessmentId moment @ ''?stage=forecast''\<rparr>
            else None) moments)"

definition searchBusinessImpacts :: "ScenarioMoment list \<Rightarrow> Zone list option \<Rightarrow> string \<Rightarrow> EnterpriseSearchResult list" where
  "searchBusinessImpacts moments zones query =
     (if needle query = [] then []
      else List.map_filter (\<lambda>moment.
        case sm_bestMatch moment of
          None \<Rightarrow> None
        | Some m \<Rightarrow>
            if mentions (needle query) (im_business_impact m)
            then Some \<lparr>sr_category = ''Business Impact'', sr_id = moment_id moment, sr_label = im_business_impact m,
              sr_detail = zoneLabel (sm_zoneId moment) zones @ '' - '' @ sm_scenarioTitle moment
                @ '' (highest-risk tick)'',
              sr_deepLink = ''/decision-workspace/'' @ sm_assessmentId moment @ ''?stage=business_impact''\<rparr>
            else None) moments)"

subsection \<open>hooks/useSmartSearchExtensions.ts\<close>

text \<open>
  The results of the hook's queries are arguments: the replay of the scenario at an index, and the
  comparison, the matches and the forecast at the index of a candidate (\<open>None\<close> while in flight).
\<close>

definition all_ticks :: "ReplayData \<Rightarrow> (string \<times> RiskAssessment) list" where
  "all_ticks replay =
     concat (map (\<lambda>timeline. map (\<lambda>assessment. (zt_zone_id timeline, assessment)) (zt_assessments timeline))
       (rd_zone_timelines replay))"

definition higher_tick :: "string \<times> RiskAssessment \<Rightarrow> string \<times> RiskAssessment \<Rightarrow> string \<times> RiskAssessment" where
  "higher_tick best current =
     (if ra_compound_risk_score (snd current) > ra_compound_risk_score (snd best) then current else best)"

definition scenario_candidate :: "ScenarioSummary \<Rightarrow> ReplayData option \<Rightarrow> ScenarioMoment option" where
  "scenario_candidate scenario replay =
     (case replay of
        None \<Rightarrow> None
      | Some r \<Rightarrow>
          (case reduce1 higher_tick (all_ticks r) of
             None \<Rightarrow> None
           | Some tick \<Rightarrow>
               Some \<lparr>sm_scenarioKey = ss_key scenario, sm_scenarioTitle = ss_title scenario, sm_zoneId = fst tick,
                 sm_timestamp = ra_timestamp (snd tick), sm_assessmentId = ra_assessment_id (snd tick),
                 sm_events = rd_bookmarks r, sm_counterfactual = None, sm_foresight = None, sm_bestMatch = None\<rparr>))"

definition smart_candidates :: "ScenarioSummary list option \<Rightarrow> (nat \<Rightarrow> ReplayData option) \<Rightarrow> ScenarioMoment list" where
  "smart_candidates scenarios replays =
     (let ss = (case scenarios of Some s \<Rightarrow> s | None \<Rightarrow> [])
      in List.map_filter (\<lambda>(index, scenario). scenario_candidate scenario (replays index)) (zip [0..<length ss] ss))"

definition smart_moments ::
  "ScenarioSummary list option \<Rightarrow> (nat \<Rightarrow> ReplayData option) \<Rightarrow> (nat \<Rightarrow> CounterfactualComparison option) \<Rightarrow>
   (nat \<Rightarrow> IncidentMatch list option) \<Rightarrow> (nat \<Rightarrow> ForesightResult option) \<Rightarrow> ScenarioMoment list" where
  "smart_moments scenarios replays counterfactuals matches foresights =
     (let candidates = smart_candidates scenarios replays
      in map (\<lambda>(index, candidate). candidate\<lparr>
             sm_counterfactual := counterfactuals index,
             sm_bestMatch := (case matches index of Some (m # _) \<Rightarrow> Some m | _ \<Rightarrow> None),
             sm_foresight := foresights index\<rparr>)
           (zip [0..<length candidates] candidates))"

subsection \<open>components/layout/GlobalSearch.tsx\<close>

definition global_results ::
  "GraphEntity list option \<Rightarrow> Permit list option \<Rightarrow> Zone list option \<Rightarrow> CrossScenarioAnalytics option \<Rightarrow>
   ScenarioMoment list \<Rightarrow> string \<Rightarrow> EnterpriseSearchResult list" where
  "global_results graphData permits zones analytics moments query =
     (if trim query = [] then []
      else List.map_filter graphEntityToSearchResult (case graphData of Some g \<Rightarrow> g | None \<Rightarrow> [])
         @ searchPermits (case permits of Some p \<Rightarrow> p | None \<Rightarrow> []) zones query
         @ searchRecommendationTemplates query
         @ searchStandards query
         @ searchAnalyticsLessonsAndHazards analytics query
         @ searchEvents moments zones query
         @ searchCounterfactuals moments zones query
         @ searchForecasts moments zones query
         @ searchBusinessImpacts moments zones query)"

definition grouped_results :: "EnterpriseSearchResult list \<Rightarrow> (string \<times> EnterpriseSearchResult list) list" where
  "grouped_results results = foldl (bucket_push sr_category) [] results"

record palette =
  pl_isOpen :: bool
  pl_query :: string

datatype palette_event =
  KeyDown bool bool string
| ClickOverlay
| SelectResult EnterpriseSearchResult
| TypeQuery string

text \<open>The effect on \<open>isOpen\<close>: a closed palette has its query reset.\<close>

definition set_open :: "bool \<Rightarrow> palette \<Rightarrow> palette" where
  "set_open b p = (if b then p\<lparr>pl_isOpen := True\<rparr> else p\<lparr>pl_isOpen := False, pl_query := []\<rparr>)"

definition handleKeyDown :: "bool \<Rightarrow> bool \<Rightarrow> string \<Rightarrow> palette \<Rightarrow> palette" where
  "handleKeyDown metaKey ctrlKey k p =
     (let p1 = (if (metaKey \<or> ctrlKey) \<and> toLowerCase k = ''k'' then set_open (\<not> pl_isOpen p) p else p)
      in if k = ''Escape'' then set_open False p1 else p1)"

text \<open>Overlay, results and input exist only while the palette is open; the second component is the navigation.\<close>

definition palette_step :: "palette_event \<Rightarrow> palette \<Rightarrow> palette \<times> string option" where
  "palette_step e p =
     (case e of
        KeyDown m c k \<Rightarrow> (handleKeyDown m c k p, None)
      | ClickOverlay \<Rightarrow> (if pl_isOpen p then set_open False p else p, None)
      | SelectResult r \<Rightarrow> if pl_isOpen p then (set_open False p, Some (sr_deepLink r)) else (p, None)
      | TypeQuery q \<Rightarrow> (if pl_isOpen p then p\<lparr>pl_query := q\<rparr> else p, None))"

subsection \<open>Queries up to case and surrounding blanks\<close>

lemma is_space_upper [simp]: "is_space (upper_char c) = is_space c"
proof -
  have "is_space c \<longleftrightarrow> (of_char c :: nat) = 32 \<or> 9 \<le> (of_char c :: nat) \<and> (of_char c :: nat) \<le> 13" for c
    using char_eq_of_char[of c "CHR '' ''"] by (simp add: is_space_def)
  then show ?thesis by (auto simp: of_char_upper)
qed

lemma trim_toUpperCase: "trim (toUpperCase s) = toUpperCase (trim s)"
  by (simp add: trim_def toUpperCase_def dropWhile_map o_def rev_map)

lemma dropWhile_blank: "list_all P xs \<Longrightarrow> dropWhile P (xs @ ys) = dropWhile P ys"
  by (induction xs) auto

lemma trim_blank_suffix: "list_all is_space ws \<Longrightarrow> trim (s @ ws) = trim s"
proof (cases "list_all is_space s")
  case True
  assume "list_all is_space ws"
  with True have "dropWhile is_space s = []" "dropWhile is_space (s @ ws) = []"
    by (auto simp: list_all_iff dropWhile_eq_Nil_conv)
  then show ?thesis by (simp only: trim_def)
next
  case False
  then obtain c where "c \<in> set s" "\<not> is_space c" by (auto simp: list_all_iff)
  then have "dropWhile is_space (s @ ws) = dropWhile is_space s @ ws" by (rule dropWhile_append1)
  moreover assume "list_all is_space ws"
  ultimately show ?thesis by (simp add: trim_def dropWhile_blank)
qed

lemma trim_padded: "list_all is_space ws \<Longrightarrow> list_all is_space ws' \<Longrightarrow> trim (ws @ s @ ws') = trim s"
  using trim_blank_suffix[of ws' s] dropWhile_blank[of is_space ws] by (simp add: trim_def)

lemma toUpperCase_Nil_iff [simp]: "toUpperCase s = [] \<longleftrightarrow> s = []"
  by (simp add: toUpperCase_def)

lemma toLowerCase_Nil_iff [simp]: "toLowerCase s = [] \<longleftrightarrow> s = []"
  by (simp add: toLowerCase_def)

lemma list_all_takeWhile [simp]: "list_all P (takeWhile P xs)"
  by (induction xs) auto

lemma global_results_needle:
  assumes "needle q = needle q'"
  shows "global_results g p z a ms q = global_results g p z a ms q'"
proof -
  have "trim q = [] \<longleftrightarrow> trim q' = []" using assms by (metis needle_def toLowerCase_Nil_iff)
  then show ?thesis
    by (simp only: global_results_def searchPermits_def searchRecommendationTemplates_def searchStandards_def
        searchAnalyticsLessonsAndHazards_def searchEvents_def searchCounterfactuals_def searchForecasts_def
        searchBusinessImpacts_def assms)
qed

lemma grouped_results_eq:
  "grouped_results results = map (\<lambda>c. (c, filter (\<lambda>r. sr_category r = c) results)) (js_set (map sr_category results))"
  by (simp add: grouped_results_def bucket_fold)

subsection \<open>The standards found\<close>

definition seen_ok :: "string \<Rightarrow> StandardReference list \<Rightarrow> (string \<times> EnterpriseSearchResult) list \<Rightarrow> bool" where
  "seen_ok ndl ss seen \<longleftrightarrow>
     distinct (map fst seen) \<and>
     fst ` set seen = standard_id ` {s \<in> set ss. mentions ndl (standard_haystack s)} \<and>
     (\<forall>(k, r)\<in>set seen. \<exists>s\<in>set ss. mentions ndl (standard_haystack s) \<and> k = standard_id s \<and> r = standard_result s)"

lemma seen_ok_step: "seen_ok ndl ss seen \<Longrightarrow> seen_ok ndl (ss @ [s]) (see_standard ndl seen s)"
proof -
  assume ok: "seen_ok ndl ss seen"
  have mem: "map_of seen k \<noteq> None \<longleftrightarrow> k \<in> fst ` set seen" for k by (simp add: map_of_eq_None_iff)
  consider (old) "standard_id s \<in> fst ` set seen" | (hit) "standard_id s \<notin> fst ` set seen" "mentions ndl (standard_haystack s)"
    | (miss) "standard_id s \<notin> fst ` set seen" "\<not> mentions ndl (standard_haystack s)" by blast
  then show ?thesis
  proof cases
    case old
    with mem have "see_standard ndl seen s = seen" by (simp add: see_standard_def)
    with ok old show ?thesis unfolding seen_ok_def by fastforce
  next
    case hit
    with mem have "see_standard ndl seen s = amap_set (standard_id s) (standard_result s) seen"
      by (simp add: see_standard_def)
    moreover have "amap_set (standard_id s) (standard_result s) seen = seen @ [(standard_id s, standard_result s)]"
      using hit(1) by (rule amap_set_fresh)
    ultimately show ?thesis using ok hit unfolding seen_ok_def by fastforce
  next
    case miss
    with mem have "see_standard ndl seen s = seen" by (simp add: see_standard_def)
    with ok miss show ?thesis unfolding seen_ok_def by fastforce
  qed
qed

lemma seen_ok_foldl: "seen_ok ndl ss seen \<Longrightarrow> seen_ok ndl (ss @ ts) (foldl (see_standard ndl) seen ts)"
proof (induction ts arbitrary: ss seen)
  case (Cons t ts)
  from Cons.IH[OF seen_ok_step[OF Cons.prems]] show ?case by simp
qed simp

lemma foldl_nested: "foldl (\<lambda>acc (_, ys). foldl f acc ys) acc table = foldl f acc (concat (map snd table))"
  by (induction table arbitrary: acc) auto

text \<open>
  Case and surrounding blanks of the query never change what the palette finds: upper-casing a
  query and padding it with white space gives the same results, in the same order.
\<close>

theorem search_case_and_padding:
  "global_results graphData permits zones analytics moments
     (takeWhile is_space ws @ toUpperCase q @ takeWhile is_space ws') =
   global_results graphData permits zones analytics moments q"
  by (rule global_results_needle) (simp add: needle_def trim_padded trim_toUpperCase)

text \<open>
  The standards found for a query are exactly the standards of the compliance table whose code,
  title and summary mention it, each listed once however many recommendations it supports; a blank
  query finds none.
\<close>

theorem searchStandards_correct:
  "(let found = searchStandards query;
        table = concat (map snd STANDARDS_FOR_RECOMMENDATION);
        hits = {s \<in> set table. trim query \<noteq> [] \<and> mentions (needle query) (standard_haystack s)}
    in distinct (map sr_id found) \<and> sr_id ` set found = standard_id ` hits \<and> set found \<subseteq> standard_result ` hits)"
proof (cases "needle query = []")
  case True
  then show ?thesis by (simp add: searchStandards_def needle_def)
next
  case False
  let ?ss = "concat (map snd STANDARDS_FOR_RECOMMENDATION)"
  let ?seen = "foldl (see_standard (needle query)) [] ?ss"
  have f: "searchStandards query = map snd ?seen" using False by (simp add: searchStandards_def foldl_nested)
  have "seen_ok (needle query) [] []" by (simp add: seen_ok_def)
  from seen_ok_foldl[OF this, of ?ss] have ok: "seen_ok (needle query) ?ss ?seen" by simp
  then have keys: "map (sr_id \<circ> snd) ?seen = map fst ?seen"
    by (intro map_cong refl) (auto simp: seen_ok_def standard_result_def)
  have t: "trim query \<noteq> []" using False by (auto simp: needle_def)
  have "sr_id ` set (map snd ?seen) = fst ` set ?seen"
    by (metis keys image_comp list.set_map)
  moreover have "set (map snd ?seen) \<subseteq> standard_result ` {s \<in> set ?ss. mentions (needle query) (standard_haystack s)}"
    using ok by (fastforce simp: seen_ok_def)
  moreover have "distinct (map sr_id (map snd ?seen))" using ok unfolding map_map keys by (simp add: seen_ok_def)
  ultimately show ?thesis using ok t unfolding Let_def f by (simp add: seen_ok_def)
qed

subsection \<open>The representative moment of a scenario\<close>

interpretation search_peak: keep_first_max "\<lambda>t. ra_compound_risk_score (snd t)" higher_tick
  by unfold_locales (simp add: higher_tick_def)

text \<open>
  Every moment the search considers belongs to a catalogued scenario whose replay has arrived,
  and it is the first tick of highest compound risk of that replay, with its own identifier and
  zone: search never scans or invents another tick.
\<close>

theorem smart_moments_peak:
  "list_all (\<lambda>m. \<exists>i ss r tick. scenarios = Some ss \<and> i < length ss \<and> replays i = Some r \<and>
      is_first_max (\<lambda>t. ra_compound_risk_score (snd t)) (all_ticks r) tick \<and>
      sm_scenarioKey m = ss_key (ss ! i) \<and> sm_zoneId m = fst tick \<and>
      sm_timestamp m = ra_timestamp (snd tick) \<and> sm_assessmentId m = ra_assessment_id (snd tick) \<and>
      sm_events m = rd_bookmarks r)
    (smart_moments scenarios replays counterfactuals matches foresights)"
proof -
  have c: "\<exists>i ss r tick. scenarios = Some ss \<and> i < length ss \<and> replays i = Some r \<and>
      is_first_max (\<lambda>t. ra_compound_risk_score (snd t)) (all_ticks r) tick \<and>
      sm_scenarioKey m = ss_key (ss ! i) \<and> sm_zoneId m = fst tick \<and>
      sm_timestamp m = ra_timestamp (snd tick) \<and> sm_assessmentId m = ra_assessment_id (snd tick) \<and>
      sm_events m = rd_bookmarks r" if "m \<in> set (smart_candidates scenarios replays)" for m
  proof -
    from that obtain ss i where ss: "scenarios = Some ss" "i < length ss" "scenario_candidate (ss ! i) (replays i) = Some m"
      by (auto simp: smart_candidates_def Let_def map_filter_in in_set_zip split: option.splits)
    then obtain r tick where "replays i = Some r" "reduce1 higher_tick (all_ticks r) = Some tick"
      by (auto simp: scenario_candidate_def split: option.splits)
    with ss search_peak.reduce1_first_max[of "all_ticks r" tick] show ?thesis
      by (intro exI[of _ i] exI[of _ ss] exI[of _ r] exI[of _ tick]) (auto simp: scenario_candidate_def)
  qed
  have "\<exists>m0\<in>set (smart_candidates scenarios replays). \<exists>a b f. m = m0\<lparr>sm_counterfactual := a, sm_bestMatch := b, sm_foresight := f\<rparr>"
    if "m \<in> set (smart_moments scenarios replays counterfactuals matches foresights)" for m
    using that by (auto simp: smart_moments_def Let_def dest: set_zip_rightD)
  with c show ?thesis by (fastforce simp: list_all_iff)
qed

subsection \<open>The palette\<close>

definition palette_inv :: "palette \<Rightarrow> bool" where
  "palette_inv p \<longleftrightarrow> pl_isOpen p \<or> pl_query p = []"

lemma palette_step_inv [inv_step]: "palette_inv p \<Longrightarrow> palette_inv (fst (palette_step e p))"
  by (cases e) (auto simp: palette_inv_def palette_step_def handleKeyDown_def set_open_def Let_def)

lemma closed_palette_finds_nothing:
  "palette_inv p \<Longrightarrow> \<not> pl_isOpen p \<Longrightarrow> global_results g ps z a ms (pl_query p) = []"
  by (simp add: palette_inv_def global_results_def trim_def)

end
