(* ===== verification/Reports.thy ===== *)
theory Reports
  imports Justification
begin

section \<open>Decision reports\<close>

text \<open>
  \<open>lib/reportTemplates.ts\<close> (which sections each audience gets) and \<open>lib/decisionReportPdf.ts\<close> (the
  page layout). jsPDF is not part of the repository: its page size and \<open>splitTextToSize\<close> are
  arguments of the model, and a document is the list of texts drawn, each with its page and
  position. The lemmas show that a template selects exactly its available sections in its own
  order, that every text of the report is drawn exactly once and in order, and that no text is
  placed outside the vertical margins.
\<close>

subsection \<open>lib/decisionReportPdf.ts\<close>

record DecisionReportSection =
  rs_heading :: string
  rs_lines :: "string list"

record DecisionReportData =
  dr_title :: string
  dr_subtitle :: string
  dr_generatedAt :: string
  dr_sections :: "DecisionReportSection list"

definition PAGE_MARGIN :: number where "PAGE_MARGIN = 14"
definition LINE_HEIGHT :: number where "LINE_HEIGHT = fl (52 / 10)"
definition HEADING_GAP_BEFORE :: number where "HEADING_GAP_BEFORE = 8"
definition HEADING_GAP_AFTER :: number where "HEADING_GAP_AFTER = 3"

text \<open>
  A document: the text settings in force, the page, the vertical position \<open>y\<close> and the texts drawn so far, each
  with the settings it was drawn in. The settings of a new jsPDF document are an argument.
\<close>

datatype font_style = Bold | Normal

record text_settings =
  ts_style :: font_style
  ts_size :: nat
  ts_color :: nat

record drawn_text =
  dt_page :: nat
  dt_text :: string
  dt_x :: number
  dt_y :: number
  dt_settings :: text_settings

record pdf_doc =
  pd_page :: nat
  pd_y :: number
  pd_settings :: text_settings
  pd_drawn :: "drawn_text list"

definition newDoc :: "text_settings \<Rightarrow> pdf_doc" where
  "newDoc initial = \<lparr>pd_page = 1, pd_y = PAGE_MARGIN, pd_settings = initial, pd_drawn = []\<rparr>"

definition setFont :: "font_style \<Rightarrow> pdf_doc \<Rightarrow> pdf_doc" where
  "setFont st d = d\<lparr>pd_settings := (pd_settings d)\<lparr>ts_style := st\<rparr>\<rparr>"

definition setFontSize :: "nat \<Rightarrow> pdf_doc \<Rightarrow> pdf_doc" where
  "setFontSize n d = d\<lparr>pd_settings := (pd_settings d)\<lparr>ts_size := n\<rparr>\<rparr>"

definition setTextColor :: "nat \<Rightarrow> pdf_doc \<Rightarrow> pdf_doc" where
  "setTextColor n d = d\<lparr>pd_settings := (pd_settings d)\<lparr>ts_color := n\<rparr>\<rparr>"

definition doc_text :: "string \<Rightarrow> pdf_doc \<Rightarrow> pdf_doc" where
  "doc_text s d = d\<lparr>pd_drawn := pd_drawn d @
     [\<lparr>dt_page = pd_page d, dt_text = s, dt_x = PAGE_MARGIN, dt_y = pd_y d, dt_settings = pd_settings d\<rparr>]\<rparr>"

definition advance :: "number \<Rightarrow> pdf_doc \<Rightarrow> pdf_doc" where
  "advance dy d = d\<lparr>pd_y := nadd (pd_y d) dy\<rparr>"

definition ensureSpace :: "number \<Rightarrow> number \<Rightarrow> pdf_doc \<Rightarrow> pdf_doc" where
  "ensureSpace pageHeight nextLineHeight d =
     (if nadd (pd_y d) nextLineHeight > nsub pageHeight PAGE_MARGIN
      then d\<lparr>pd_page := pd_page d + 1, pd_y := PAGE_MARGIN\<rparr> else d)"

definition draw_header :: "DecisionReportData \<Rightarrow> pdf_doc \<Rightarrow> pdf_doc" where
  "draw_header data d0 =
     (let d1 = advance 8 (doc_text (dr_title data) (setFontSize 18 (setFont Bold d0)));
          d2 = advance 6 (doc_text (dr_subtitle data) (setFontSize 11 (setFont Normal d1)));
          d3 = doc_text (''Generated '' @ dr_generatedAt data) (setTextColor 120 (setFontSize 9 d2))
      in advance 10 (setTextColor 0 d3))"

definition draw_wrapped :: "number \<Rightarrow> pdf_doc \<Rightarrow> string \<Rightarrow> pdf_doc" where
  "draw_wrapped pageHeight d wrappedLine =
     advance LINE_HEIGHT (doc_text wrappedLine (ensureSpace pageHeight LINE_HEIGHT d))"

definition draw_line :: "(string \<Rightarrow> number \<Rightarrow> string list) \<Rightarrow> number \<Rightarrow> number \<Rightarrow> pdf_doc \<Rightarrow> string \<Rightarrow> pdf_doc" where
  "draw_line splitTextToSize contentWidth pageHeight d line =
     (if line = [] then advance (ndiv LINE_HEIGHT 2) d
      else foldl (draw_wrapped pageHeight) d (splitTextToSize line contentWidth))"

definition draw_section ::
  "(string \<Rightarrow> number \<Rightarrow> string list) \<Rightarrow> number \<Rightarrow> number \<Rightarrow> pdf_doc \<Rightarrow> DecisionReportSection \<Rightarrow> pdf_doc" where
  "draw_section splitTextToSize contentWidth pageHeight d section =
     (let d1 = ensureSpace pageHeight (nadd (nadd HEADING_GAP_BEFORE LINE_HEIGHT) HEADING_GAP_AFTER) d;
          d2 = doc_text (rs_heading section) (setFontSize 13 (setFont Bold (advance HEADING_GAP_BEFORE d1)));
          d3 = setFontSize 10 (setFont Normal (advance (nadd HEADING_GAP_AFTER 2) d2))
      in foldl (draw_line splitTextToSize contentWidth pageHeight) d3 (rs_lines section))"

definition buildDecisionReportPdf ::
  "text_settings \<Rightarrow> (string \<Rightarrow> number \<Rightarrow> string list) \<Rightarrow> number \<Rightarrow> number \<Rightarrow> DecisionReportData \<Rightarrow> pdf_doc" where
  "buildDecisionReportPdf initial splitTextToSize pageWidth pageHeight data =
     (let contentWidth = nsub pageWidth (nmul PAGE_MARGIN 2)
      in foldl (draw_section splitTextToSize contentWidth pageHeight) (draw_header data (newDoc initial)) (dr_sections data))"

subsection \<open>lib/reportTemplates.ts\<close>

datatype ReportTemplateKind = Executive | Operator | Audit | Incident | Maintenance

record ReportTemplate =
  rt_kind :: ReportTemplateKind
  rt_label :: string
  rt_description :: string
  rt_sectionHeadings :: "string list"

definition REPORT_TEMPLATES :: "ReportTemplate list" where
  "REPORT_TEMPLATES =
    [\<lparr>rt_kind = Executive, rt_label = ''Executive Report'',
      rt_description = ''Business impact and outcome, without agent-level math - for leadership review.'',
      rt_sectionHeadings =
        [''Executive Summary'', ''Decision Stability'', ''Recommended Actions & Business Impact'',
         ''Historical Matches'', ''Operational Foresight'', ''Compliance References'']\<rparr>,
     \<lparr>rt_kind = Operator, rt_label = ''Operator Report'',
      rt_description = ''Rationale, agent detail, and current plant state - for the person running the shift.'',
      rt_sectionHeadings =
        [''Executive Summary'', ''Decision Rationale'', ''Agent Contributions'', ''Digital Twin Snapshot'',
         ''Recommended Actions & Business Impact'', ''Timeline (preceding ticks)'']\<rparr>,
     \<lparr>rt_kind = Audit, rt_label = ''Audit Report'',
      rt_description = ''Full rationale, confidence, compliance alignment, and audit trail - for compliance review.'',
      rt_sectionHeadings =
        [''Executive Summary'', ''Decision Rationale'', ''Agent Contributions'', ''Confidence Breakdown'',
         ''Compliance References'', ''Counterfactual Comparison'', ''Audit Trail'']\<rparr>,
     \<lparr>rt_kind = Incident, rt_label = ''Incident Report'',
      rt_description = ''What happened, over what timeline, and how it compares to precedent - for post-incident review.'',
      rt_sectionHeadings =
        [''Executive Summary'', ''Decision Rationale'', ''Timeline (preceding ticks)'', ''Historical Matches'',
         ''Counterfactual Comparison'', ''Recommended Actions & Business Impact'', ''Audit Trail'']\<rparr>,
     \<lparr>rt_kind = Maintenance, rt_label = ''Maintenance Report'',
      rt_description = ''Equipment state and related risk - for the maintenance team, without business or compliance detail.'',
      rt_sectionHeadings =
        [''Executive Summary'', ''Digital Twin Snapshot'', ''Agent Contributions'',
         ''Recommended Actions & Business Impact'', ''Timeline (preceding ticks)'']\<rparr>]"

definition getReportTemplate :: "ReportTemplateKind \<Rightarrow> ReportTemplate" where
  "getReportTemplate kind =
     (case List.find (\<lambda>t. rt_kind t = kind) REPORT_TEMPLATES of Some t \<Rightarrow> t | None \<Rightarrow> REPORT_TEMPLATES ! 0)"

definition selectReportSections ::
  "ReportTemplateKind \<Rightarrow> DecisionReportSection list \<Rightarrow> DecisionReportSection list" where
  "selectReportSections kind allSections =
     (let byHeading = amap_of (map (\<lambda>s. (rs_heading s, s)) allSections)
      in List.map_filter (map_of byHeading) (rt_sectionHeadings (getReportTemplate kind)))"

subsection \<open>Selection\<close>

lemma getReportTemplate_kind: "rt_kind (getReportTemplate kind) = kind"
  by (cases kind) (simp_all add: getReportTemplate_def REPORT_TEMPLATES_def)

lemma template_headings_distinct: "distinct (rt_sectionHeadings (getReportTemplate kind))"
  by (cases kind) (simp_all add: getReportTemplate_def REPORT_TEMPLATES_def)

lemma byHeading_lookup:
  "map_of (amap_of (map (\<lambda>s. (rs_heading s, s)) ss)) h = List.find (\<lambda>s. rs_heading s = h) (rev ss)"
proof -
  have "map_of (map (\<lambda>s. (rs_heading s, s)) xs) h = List.find (\<lambda>s. rs_heading s = h) xs" for xs
    by (induction xs) auto
  then show ?thesis by (simp add: map_of_amap_of rev_map)
qed

lemma map_filter_headings:
  assumes "\<And>h s. f h = Some s \<Longrightarrow> rs_heading s = h"
  shows "map rs_heading (List.map_filter f hs) = filter (\<lambda>h. f h \<noteq> None) hs"
  by (induction hs) (auto simp: List.map_filter_simps assms split: option.splits)

lemma selectReportSections_find:
  "selectReportSections kind ss =
     List.map_filter (\<lambda>h. List.find (\<lambda>s. rs_heading s = h) (rev ss)) (rt_sectionHeadings (getReportTemplate kind))"
  unfolding selectReportSections_def Let_def
  by (rule arg_cong[of _ _ "\<lambda>f. List.map_filter f _"]) (rule ext, rule byHeading_lookup)

lemma selectReportSections_headings:
  "map rs_heading (selectReportSections kind ss) =
     filter (\<lambda>h. h \<in> rs_heading ` set ss) (rt_sectionHeadings (getReportTemplate kind))"
proof -
  let ?f = "\<lambda>h. List.find (\<lambda>s. rs_heading s = h) (rev ss)"
  have head: "rs_heading s = h" if "?f h = Some s" for h s using find_eq_Some_D[OF that] by simp
  have "?f h \<noteq> None \<longleftrightarrow> h \<in> rs_heading ` set ss" for h by (auto simp: find_None_iff)
  with map_filter_headings[of ?f, OF head] show ?thesis by (simp only: selectReportSections_find)
qed

text \<open>
  A report for an audience holds exactly the supplied sections whose headings its template
  lists, in the order of the template, each once; where two supplied sections share a heading, the
  last one is used.
\<close>

theorem selectReportSections_correct:
  "(let chosen = selectReportSections kind allSections; headings = rt_sectionHeadings (getReportTemplate kind)
    in rt_kind (getReportTemplate kind) = kind \<and>
       map rs_heading chosen = filter (\<lambda>h. h \<in> rs_heading ` set allSections) headings \<and>
       distinct (map rs_heading chosen) \<and>
       list_all (\<lambda>s. List.find (\<lambda>t. rs_heading t = rs_heading s) (rev allSections) = Some s) chosen)"
proof -
  let ?f = "\<lambda>h. List.find (\<lambda>s. rs_heading s = h) (rev allSections)"
  let ?hs = "rt_sectionHeadings (getReportTemplate kind)"
  have head: "rs_heading s = h" if "?f h = Some s" for h s using find_eq_Some_D[OF that] by simp
  have "?f (rs_heading s) = Some s" if "s \<in> set (List.map_filter ?f ?hs)" for s
  proof -
    from that obtain h where h: "?f h = Some s" unfolding map_filter_in by blast
    from head[OF h] h show ?thesis by simp
  qed
  then show ?thesis
    unfolding Let_def list_all_iff selectReportSections_headings using getReportTemplate_kind template_headings_distinct
    by (simp add: selectReportSections_find)
qed

subsection \<open>Layout\<close>

lemma fl_numbers: "fl 14 = 14" "fl 22 = 22" "fl 28 = 28" "fl 8 = 8" "fl 3 = 3"
  using fl_int[of 14] fl_int[of 22] fl_int[of 28] fl_int[of 8] fl_int[of 3] by simp_all

lemma line_height_pos: "0 < LINE_HEIGHT" "0 \<le> ndiv LINE_HEIGHT 2"
  by (simp_all add: LINE_HEIGHT_def ndiv_def)

lemma heading_room: "8 \<le> nadd (nadd HEADING_GAP_BEFORE LINE_HEIGHT) HEADING_GAP_AFTER"
proof -
  have "8 \<le> nadd HEADING_GAP_BEFORE LINE_HEIGHT"
    unfolding HEADING_GAP_BEFORE_def by (rule nadd_ge) (use line_height_pos fl_numbers in auto)
  also have "\<dots> \<le> nadd (nadd HEADING_GAP_BEFORE LINE_HEIGHT) HEADING_GAP_AFTER"
    by (rule nadd_ge) (simp_all add: nadd_def[of HEADING_GAP_BEFORE] HEADING_GAP_AFTER_def)
  finally show ?thesis .
qed

text \<open>
  The layout invariant: the cursor is a binary64 number not above the top margin, and every text drawn so far
  lies between the margins of a page that exists.
\<close>

definition layout_inv :: "number \<Rightarrow> pdf_doc \<Rightarrow> bool" where
  "layout_inv pageHeight d \<longleftrightarrow>
     fl (pd_y d) = pd_y d \<and> PAGE_MARGIN \<le> pd_y d \<and>
     list_all (\<lambda>t. PAGE_MARGIN \<le> dt_y t \<and> dt_y t \<le> nsub pageHeight PAGE_MARGIN \<and> dt_x t = PAGE_MARGIN \<and>
       1 \<le> dt_page t \<and> dt_page t \<le> pd_page d) (pd_drawn d) \<and> 1 \<le> pd_page d"

lemma layout_setters [simp]:
  "layout_inv h (setFont st d) = layout_inv h d" "layout_inv h (setFontSize n d) = layout_inv h d"
  "layout_inv h (setTextColor n d) = layout_inv h d"
  by (simp_all add: layout_inv_def setFont_def setFontSize_def setTextColor_def)

lemma setters_y [simp]:
  "pd_y (setFont st d) = pd_y d" "pd_y (setFontSize n d) = pd_y d" "pd_y (setTextColor n d) = pd_y d"
  "pd_y (doc_text s d) = pd_y d" "pd_y (advance dy d) = nadd (pd_y d) dy"
  by (simp_all add: setFont_def setFontSize_def setTextColor_def doc_text_def advance_def)

lemma layout_advance [inv_step]: "layout_inv h d \<Longrightarrow> 0 \<le> dy \<Longrightarrow> layout_inv h (advance dy d)"
  using nadd_ge[of "pd_y d" dy] by (auto simp: layout_inv_def advance_def nadd_def[of "pd_y d"])

lemma layout_doc_text [inv_step]:
  "layout_inv h d \<Longrightarrow> pd_y d \<le> nsub h PAGE_MARGIN \<Longrightarrow> layout_inv h (doc_text s d)"
  by (auto simp: layout_inv_def doc_text_def)

lemma layout_ensureSpace [inv_step]: "layout_inv h d \<Longrightarrow> layout_inv h (ensureSpace h n d)"
  by (auto simp: layout_inv_def ensureSpace_def PAGE_MARGIN_def fl_numbers list_all_iff)

lemma ensureSpace_room:
  assumes "28 \<le> nsub h PAGE_MARGIN" and "fl (pd_y d) = pd_y d" and "0 \<le> k" "k \<le> n" "k \<le> 8"
  shows "nadd (pd_y (ensureSpace h n d)) k \<le> nsub h PAGE_MARGIN"
proof (cases "nadd (pd_y d) n > nsub h PAGE_MARGIN")
  case True
  have "nadd 14 k \<le> nadd 14 8" by (rule nadd_mono) (rule assms)
  then have "nadd 14 k \<le> 28" using fl_numbers by (simp add: nadd_def)
  with True assms(1) show ?thesis by (simp add: ensureSpace_def PAGE_MARGIN_def)
next
  case False
  with nadd_mono[OF assms(4), of "pd_y d"] show ?thesis by (simp add: ensureSpace_def)
qed

lemma layout_foldl: "(\<And>d x. layout_inv h d \<Longrightarrow> layout_inv h (f d x)) \<Longrightarrow> layout_inv h d \<Longrightarrow> layout_inv h (foldl f d xs)"
  by (induction xs arbitrary: d) auto

lemma layout_wrapped:
  assumes h: "28 \<le> nsub h PAGE_MARGIN" and d: "layout_inv h d"
  shows "layout_inv h (draw_wrapped h d s)"
proof -
  let ?d = "ensureSpace h LINE_HEIGHT d"
  have i: "layout_inv h ?d" using d by (rule layout_ensureSpace)
  then have "nadd (pd_y ?d) 0 = pd_y ?d" by (simp add: layout_inv_def nadd_def)
  moreover have "nadd (pd_y ?d) 0 \<le> nsub h PAGE_MARGIN"
    using line_height_pos d by (intro ensureSpace_room[OF h]) (auto simp: layout_inv_def)
  ultimately show ?thesis
    unfolding draw_wrapped_def using i line_height_pos by (auto intro!: layout_advance layout_doc_text)
qed

lemma layout_section:
  assumes h: "28 \<le> nsub h PAGE_MARGIN" and d: "layout_inv h d"
  shows "layout_inv h (draw_section split w h d sec)"
proof -
  let ?d = "ensureSpace h (nadd (nadd HEADING_GAP_BEFORE LINE_HEIGHT) HEADING_GAP_AFTER) d"
  have "nadd (pd_y ?d) HEADING_GAP_BEFORE \<le> nsub h PAGE_MARGIN"
    using heading_room d by (intro ensureSpace_room[OF h]) (auto simp: layout_inv_def HEADING_GAP_BEFORE_def)
  moreover have "0 \<le> nadd HEADING_GAP_AFTER 2" by (simp add: HEADING_GAP_AFTER_def nadd_def)
  ultimately have head: "layout_inv h (setFontSize 10 (setFont Normal (advance (nadd HEADING_GAP_AFTER 2)
      (doc_text (rs_heading sec) (setFontSize 13 (setFont Bold (advance HEADING_GAP_BEFORE ?d)))))))"
    using layout_ensureSpace[OF d] by (auto intro!: layout_advance layout_doc_text simp: HEADING_GAP_BEFORE_def)
  have "layout_inv h (draw_line split w h e line)" if "layout_inv h e" for e line
    using that layout_wrapped[OF h] line_height_pos
    by (auto simp: draw_line_def intro!: layout_advance layout_foldl)
  then show ?thesis unfolding draw_section_def Let_def by (intro layout_foldl head)
qed

lemma layout_header:
  assumes "28 \<le> nsub h PAGE_MARGIN"
  shows "layout_inv h (draw_header data (newDoc initial))"
proof -
  have "layout_inv h (newDoc initial)" by (simp add: layout_inv_def newDoc_def PAGE_MARGIN_def fl_numbers)
  then show ?thesis using assms fl_numbers unfolding draw_header_def Let_def
    by (intro layout_advance layout_doc_text layout_setters[THEN iffD2])
      (simp_all add: newDoc_def PAGE_MARGIN_def nadd_def)
qed

text \<open>What is drawn, in order.\<close>

definition section_texts :: "(string \<Rightarrow> number \<Rightarrow> string list) \<Rightarrow> number \<Rightarrow> DecisionReportSection \<Rightarrow> string list" where
  "section_texts split w sec =
     rs_heading sec # concat (map (\<lambda>line. split line w) (filter (\<lambda>line. line \<noteq> []) (rs_lines sec)))"

lemma drawn_setters [simp]:
  "pd_drawn (setFont st d) = pd_drawn d" "pd_drawn (setFontSize n d) = pd_drawn d"
  "pd_drawn (setTextColor n d) = pd_drawn d" "pd_drawn (advance dy d) = pd_drawn d"
  "pd_drawn (ensureSpace h k d) = pd_drawn d"
  "map dt_text (pd_drawn (doc_text s d)) = map dt_text (pd_drawn d) @ [s]"
  by (simp_all add: setFont_def setFontSize_def setTextColor_def advance_def ensureSpace_def doc_text_def)

lemma drawn_foldl:
  "(\<And>d x. map dt_text (pd_drawn (f d x)) = map dt_text (pd_drawn d) @ g x) \<Longrightarrow>
   map dt_text (pd_drawn (foldl f d xs)) = map dt_text (pd_drawn d) @ concat (map g xs)"
  by (induction xs arbitrary: d) simp_all

lemma drawn_line:
  "map dt_text (pd_drawn (draw_line split w h d line)) =
   map dt_text (pd_drawn d) @ (if line = [] then [] else split line w)"
proof -
  have "map dt_text (pd_drawn (foldl (draw_wrapped h) d ls)) = map dt_text (pd_drawn d) @ concat (map (\<lambda>l. [l]) ls)" for ls
    by (rule drawn_foldl) (simp add: draw_wrapped_def)
  then show ?thesis by (simp add: draw_line_def)
qed

lemma drawn_section:
  "map dt_text (pd_drawn (draw_section split w h d sec)) = map dt_text (pd_drawn d) @ section_texts split w sec"
proof -
  have "concat (map (\<lambda>line. if line = [] then [] else split line w) ls) =
      concat (map (\<lambda>line. split line w) (filter (\<lambda>line. line \<noteq> []) ls))" for ls :: "string list"
    by (induction ls) auto
  then show ?thesis
    unfolding draw_section_def Let_def by (subst drawn_foldl[OF drawn_line]) (simp add: section_texts_def)
qed

lemma report_pdf_texts:
  "map dt_text (pd_drawn (buildDecisionReportPdf initial split pageWidth pageHeight data)) =
   [dr_title data, dr_subtitle data, ''Generated '' @ dr_generatedAt data] @
   concat (map (section_texts split (nsub pageWidth (nmul PAGE_MARGIN 2))) (dr_sections data))"
  unfolding buildDecisionReportPdf_def Let_def
  by (subst drawn_foldl[OF drawn_section]) (simp add: draw_header_def Let_def newDoc_def)

lemma headings_in_texts: "subseq (map rs_heading secs) (concat (map (section_texts split w) secs))"
  by (induction secs) (auto simp: section_texts_def intro: list_emb_append2 subseq_order.trans)

lemma headings_in_pdf:
  "subseq (dr_title data # map rs_heading (dr_sections data))
     (map dt_text (pd_drawn (buildDecisionReportPdf initial split pageWidth pageHeight data)))"
  by (auto simp: report_pdf_texts intro!: list_emb_Cons headings_in_texts)

text \<open>
  The PDF contains the title, the subtitle, the generation time and then, section by section, the
  heading and every wrapped line of its text, in order, nothing dropped and nothing repeated.
\<close>

theorem report_pdf_complete:
  "map dt_text (pd_drawn (buildDecisionReportPdf initial splitTextToSize pageWidth pageHeight data)) =
   [dr_title data, dr_subtitle data, ''Generated '' @ dr_generatedAt data] @
   concat (map (section_texts splitTextToSize (nsub pageWidth (nmul PAGE_MARGIN 2))) (dr_sections data))"
  by (rule report_pdf_texts)

text \<open>
  On a page that leaves at least 28 mm above its bottom margin (an A4 page has 297), every text
  of the report is drawn at the left margin, between the top and the bottom margin, on a page that
  was added: a page break always comes before a text that would not fit.
\<close>

theorem report_pdf_within_margins:
  assumes "28 \<le> nsub pageHeight PAGE_MARGIN"
  shows "(let doc = buildDecisionReportPdf initial splitTextToSize pageWidth pageHeight data
    in list_all (\<lambda>t. dt_x t = PAGE_MARGIN \<and> PAGE_MARGIN \<le> dt_y t \<and> dt_y t \<le> nsub pageHeight PAGE_MARGIN \<and>
         1 \<le> dt_page t \<and> dt_page t \<le> pd_page doc) (pd_drawn doc))"
proof -
  have "layout_inv pageHeight (buildDecisionReportPdf initial splitTextToSize pageWidth pageHeight data)"
    unfolding buildDecisionReportPdf_def Let_def
    by (intro layout_foldl layout_section layout_header assms)
  then show ?thesis by (auto simp: layout_inv_def list_all_iff Let_def)
qed

definition sample_report :: DecisionReportData where
  "sample_report = \<lparr>dr_title = ''Decision Report'', dr_subtitle = ''Zone A'', dr_generatedAt = ''2026-01-01T00:00:00Z'',
     dr_sections = [\<lparr>rs_heading = ''Executive Summary'', rs_lines = [''Gas risk is elevated.'', [], ''Evacuate.'']\<rparr>]\<rparr>"

theorem report_pdf_within_margins_witness:
  "28 \<le> nsub 297 PAGE_MARGIN \<and>
   (let doc = buildDecisionReportPdf \<lparr>ts_style = Normal, ts_size = 16, ts_color = 0\<rparr> (\<lambda>s w. [s]) 210 297 sample_report
    in list_all (\<lambda>t. dt_x t = PAGE_MARGIN \<and> PAGE_MARGIN \<le> dt_y t \<and> dt_y t \<le> nsub 297 PAGE_MARGIN \<and>
         1 \<le> dt_page t \<and> dt_page t \<le> pd_page doc) (pd_drawn doc))"
proof -
  have "28 \<le> nsub 297 PAGE_MARGIN" using fl_int[of 283] by (simp add: nsub_def PAGE_MARGIN_def)
  with report_pdf_within_margins[OF this] show ?thesis by blast
qed

end
