(* ===== verification/Presentation.thy ===== *)
theory Presentation
  imports Narrative
begin

section \<open>The guided presentation's script\<close>

text \<open>
  \<open>lib/presentationScript.ts\<close>: the authored scenes and talking points, and the selections of real
  moments and shares over persisted data. Scene times are whole milliseconds far below \<open>2^53\<close>, on
  which the machine's arithmetic is exact, so they are integers here. The lemmas show that the
  clock's two readings always add up to the total, that every scene has its talking points, that
  the first escalation and the peak are what their names say, and that the shares of the agents
  are percentages in the order of the root-cause ranking.
\<close>

subsection \<open>Scenes\<close>

record PresentationScene =
  sc_index :: int
  sc_key :: string
  sc_title :: string
  sc_durationMs :: int

definition PRESENTATION_SCENES :: "PresentationScene list" where
  "PRESENTATION_SCENES =
    [\<lparr>sc_index = 0, sc_key = ''introduction'', sc_title = ''Introduction'', sc_durationMs = 3000\<rparr>,
     \<lparr>sc_index = 1, sc_key = ''plant-overview'', sc_title = ''Plant Overview'', sc_durationMs = 8000\<rparr>,
     \<lparr>sc_index = 2, sc_key = ''incident-begins'', sc_title = ''Incident Begins'', sc_durationMs = 10000\<rparr>,
     \<lparr>sc_index = 3, sc_key = ''multi-agent-reasoning'', sc_title = ''Multi-Agent Reasoning'', sc_durationMs = 14000\<rparr>,
     \<lparr>sc_index = 4, sc_key = ''counterfactual'', sc_title = ''Alternative Decision'', sc_durationMs = 10000\<rparr>,
     \<lparr>sc_index = 5, sc_key = ''executive-dashboard'', sc_title = ''Executive Dashboard'', sc_durationMs = 8000\<rparr>,
     \<lparr>sc_index = 6, sc_key = ''mission-control'', sc_title = ''Mission Control'', sc_durationMs = 10000\<rparr>,
     \<lparr>sc_index = 7, sc_key = ''final-recommendation'', sc_title = ''Final Recommendation'', sc_durationMs = 8000\<rparr>,
     \<lparr>sc_index = 8, sc_key = ''business-impact'', sc_title = ''Business Impact'', sc_durationMs = 8000\<rparr>,
     \<lparr>sc_index = 9, sc_key = ''closing'', sc_title = ''Closing'', sc_durationMs = 8000\<rparr>]"

definition total_duration :: "PresentationScene list \<Rightarrow> int" where
  "total_duration scenes = foldl (\<lambda>sum scene. sum + sc_durationMs scene) 0 scenes"

definition TOTAL_PRESENTATION_DURATION_MS :: int where
  "TOTAL_PRESENTATION_DURATION_MS = total_duration PRESENTATION_SCENES"

record SceneTalkingPoints =
  tp_presenterNotes :: string
  tp_judgeTakeaway :: string
  tp_technicalDetail :: string
  tp_businessValue :: string

definition SCENE_TALKING_POINTS :: "(string \<times> SceneTalkingPoints) list" where
  "SCENE_TALKING_POINTS =
    [(''introduction'',
       \<lparr>tp_presenterNotes = [CHR 0x22] @ ''This is Industrial Safety Intelligence - a deterministic, explainable early-warning platform.'' @ [CHR 0x22],
        tp_judgeTakeaway = ''Every number on this slide is live - nothing scripted.'',
        tp_technicalDetail = ''Sourced from GET /zones, GET /risk/current, GET /permits.'',
        tp_businessValue = ''A plant manager sees operational status at a glance, no training required.''\<rparr>),
     (''plant-overview'',
       \<lparr>tp_presenterNotes = [CHR 0x22] @ ''Here's the plant as a digital twin - not a static diagram.'' @ [CHR 0x22],
        tp_judgeTakeaway = ''Permit icons are shape-coded by real permit type - point at one if active.'',
        tp_technicalDetail = ''Site-plan layout is a fixed table of five named zones - a disclosed limitation, not hidden.'',
        tp_businessValue = ''One screen replaces walking the plant floor to check status.''\<rparr>),
     (''incident-begins'',
       \<lparr>tp_presenterNotes = [CHR 0x22] @ ''Watch what happens when a real incident starts.'' @ [CHR 0x22],
        tp_judgeTakeaway = ''This tick is the first real index whose tier isn't normal - never hand-picked.'',
        tp_technicalDetail = ''lib/presentationScript.ts::findFirstEscalationIndex over real replay history.'',
        tp_businessValue = ''Early detection is the entire point of an early-warning system.''\<rparr>),
     (''multi-agent-reasoning'',
       \<lparr>tp_presenterNotes = [CHR 0x22] @ ''Four independent deterministic agents combine through Fusion - here's why the score is what it is.'' @ [CHR 0x22],
        tp_judgeTakeaway = ''The percentage is a relative share of real numbers, not the literal Fusion weight.'',
        tp_technicalDetail = ''Every score is a documented closed-form formula; computeRelativeShares: risk_i / sum(risk_j) x 100.'',
        tp_businessValue = ''No AI/ML in the decision path means no unexplainable false positives, and an auditor can trace exactly which factor drove the decision.''\<rparr>),
     (''counterfactual'',
       \<lparr>tp_presenterNotes = [CHR 0x22] @ ''The naive baseline - a single-sensor threshold alarm.'' @ [CHR 0x22],
        tp_judgeTakeaway = [CHR 0x22] @ ''Without Permit'' @ [CHR 0x22] @ ''/'' @ [CHR 0x22] @ ''Equipment Restored'' @ [CHR 0x22] @ '' are qualitative-only, disclosed, never a computed score.'',
        tp_technicalDetail = ''explainComparison reused unchanged from the Decision Comparison milestone.'',
        tp_businessValue = ''This is the concrete case for replacing a legacy single-sensor alarm system.''\<rparr>),
     (''executive-dashboard'',
       \<lparr>tp_presenterNotes = [CHR 0x22] @ ''For a plant manager, one screen: is the plant ready to operate?'' @ [CHR 0x22],
        tp_judgeTakeaway = ''Business impact is a categorical label over the real tier, not a dollar estimate.'',
        tp_technicalDetail = ''Reuses plantReadiness/averageCompoundScore, already computed for every other page.'',
        tp_businessValue = ''Answers the one question a plant manager actually has time to ask.''\<rparr>),
     (''mission-control'',
       \<lparr>tp_presenterNotes = [CHR 0x22] @ ''And here's everything at once - plant status, the twin, live alerts, and why, on one screen.'' @ [CHR 0x22],
        tp_judgeTakeaway = ''Every panel reuses a hook/derivation already proven on another page - nothing new is computed here.'',
        tp_technicalDetail = ''MissionControlPage.tsx composes useCurrentRisk, parseJustification, and buildActionQueue.'',
        tp_businessValue = ''This is the screen an operator actually keeps open all shift.''\<rparr>),
     (''final-recommendation'',
       \<lparr>tp_presenterNotes = [CHR 0x22] @ ''Of everything the platform could tell you to do right now, here's the one thing that matters most.'' @ [CHR 0x22],
        tp_judgeTakeaway = ''Priority is positional over deriveRecommendations' own severity ordering - not a new ranking model.'',
        tp_technicalDetail = ''buildActionQueue attaches ETA/dependencies/personnel from a config table, not a model.'',
        tp_businessValue = ''An operator gets one prioritized next step, not just an alarm.''\<rparr>),
     (''business-impact'',
       \<lparr>tp_presenterNotes = [CHR 0x22] @ ''Here's what a plant actually gains by running this.'' @ [CHR 0x22],
        tp_judgeTakeaway = ''The advance-warning window is a real duration between two real persisted timestamps, not an estimate.'',
        tp_technicalDetail = ''Minutes between findFirstEscalationIndex and findPeakIndex's real timestamps in this replay.'',
        tp_businessValue = ''Earlier warning, an audit trail by default, and no added headcount to watch a dashboard.''\<rparr>),
     (''closing'',
       \<lparr>tp_presenterNotes = [CHR 0x22] @ ''Deterministic. Explainable. Production ready.'' @ [CHR 0x22],
        tp_judgeTakeaway = ''Every stat is grep-verified against this repository, not estimated.'',
        tp_technicalDetail = ''See PLATFORM_STATS's own docstring for the exact verification method per number.'',
        tp_businessValue = ''A demonstrably real, tested system - not a slide deck.''\<rparr>)]"

text \<open>\<open>scenes.slice(0, i)\<close>: a negative bound counts from the end.\<close>

definition slice_from_start :: "int \<Rightarrow> 'a list \<Rightarrow> 'a list" where
  "slice_from_start i xs = take (nat (if i < 0 then int (length xs) + i else i)) xs"

definition elapsedBeforeScene :: "int \<Rightarrow> int" where
  "elapsedBeforeScene sceneIndex = total_duration (slice_from_start sceneIndex PRESENTATION_SCENES)"

text \<open>Outside the table \<open>PRESENTATION_SCENES[i].durationMs\<close> throws: \<open>None\<close>.\<close>

definition remainingAfterScene :: "int \<Rightarrow> int option" where
  "remainingAfterScene sceneIndex =
     (if 0 \<le> sceneIndex \<and> sceneIndex < int (length PRESENTATION_SCENES)
      then Some (TOTAL_PRESENTATION_DURATION_MS - elapsedBeforeScene sceneIndex
                 - sc_durationMs (PRESENTATION_SCENES ! nat sceneIndex))
      else None)"

subsection \<open>Real moments\<close>

text \<open>\<open>/simops|critical/i.test(s)\<close>.\<close>

definition is_dramatic_text :: "string \<Rightarrow> bool" where
  "is_dramatic_text s = (str_includes (toLowerCase s) ''simops'' \<or> str_includes (toLowerCase s) ''critical'')"

definition is_dramatic :: "ScenarioSummary \<Rightarrow> bool" where
  "is_dramatic s = (is_dramatic_text (ss_key s) \<or> is_dramatic_text (ss_title s))"

definition selectPresentationScenario :: "ScenarioSummary list \<Rightarrow> ScenarioSummary option" where
  "selectPresentationScenario scenarios =
     (case scenarios of
        [] \<Rightarrow> None
      | s # _ \<Rightarrow> Some (case List.find is_dramatic scenarios of Some d \<Rightarrow> d | None \<Rightarrow> s))"

definition findFirstEscalationIndex :: "RiskAssessment list \<Rightarrow> nat" where
  "findFirstEscalationIndex assessments =
     (case find_index (\<lambda>a. ra_tier a \<noteq> ''normal'') assessments of None \<Rightarrow> 0 | Some i \<Rightarrow> i)"

definition peak_step :: "nat \<times> number \<Rightarrow> nat \<times> RiskAssessment \<Rightarrow> nat \<times> number" where
  "peak_step best ia =
     (if ra_compound_risk_score (snd ia) > snd best then (fst ia, ra_compound_risk_score (snd ia)) else best)"

definition findPeakIndex :: "RiskAssessment list \<Rightarrow> nat" where
  "findPeakIndex assessments =
     (case assessments of
        [] \<Rightarrow> 0
      | a # _ \<Rightarrow> fst (foldl peak_step (0, ra_compound_risk_score a) (enumerate 0 assessments)))"

subsection \<open>Relative shares\<close>

record RelativeShare =
  rsh_agentName :: string
  rsh_displayName :: string
  rsh_risk :: number
  rsh_sharePercent :: number

definition total_risk :: "(string \<times> AgentContribution) list \<Rightarrow> number" where
  "total_risk entries = foldl (\<lambda>sum e. nadd sum (ac_risk (snd e))) 0 entries"

definition relative_share :: "number \<Rightarrow> string \<times> AgentContribution \<Rightarrow> RelativeShare" where
  "relative_share totalRisk e =
     \<lparr>rsh_agentName = fst e, rsh_displayName = agentDisplayName (fst e), rsh_risk = ac_risk (snd e),
      rsh_sharePercent = (if totalRisk > 0 then nmul (ndiv (ac_risk (snd e)) totalRisk) 100 else 0)\<rparr>"

definition share_cmp :: "RelativeShare \<Rightarrow> RelativeShare \<Rightarrow> rat" where
  "share_cmp a b = nsub (rsh_risk b) (rsh_risk a)"

definition computeRelativeShares :: "RiskJustification option \<Rightarrow> RelativeShare list" where
  "computeRelativeShares justification =
     (case justification of
        None \<Rightarrow> []
      | Some j \<Rightarrow>
          js_sort share_cmp (map (relative_share (total_risk (rj_agentContributions j))) (rj_agentContributions j)))"

subsection \<open>Platform facts\<close>

record PlatformStat =
  ps_label :: string
  ps_value :: int
  ps_suffix :: "string option"

definition PLATFORM_STATS :: "PlatformStat list" where
  "PLATFORM_STATS =
    [\<lparr>ps_label = ''Deterministic agents'', ps_value = 4, ps_suffix = None\<rparr>,
     \<lparr>ps_label = ''Deterministic rule identifiers'', ps_value = 21, ps_suffix = None\<rparr>,
     \<lparr>ps_label = ''REST API endpoints'', ps_value = 19, ps_suffix = None\<rparr>,
     \<lparr>ps_label = ''Frontend pages'', ps_value = 21, ps_suffix = None\<rparr>,
     \<lparr>ps_label = ''Automated tests'', ps_value = 467, ps_suffix = None\<rparr>]"

definition PLATFORM_CAPABILITIES :: "string list" where
  "PLATFORM_CAPABILITIES =
    [''Docker deployment'', ''Prometheus monitoring'', ''OpenAPI documentation'', ''PostgreSQL persistence'',
     ''Structured logging'']"

subsection \<open>Facts about the script\<close>

lemma scene_count: "length PRESENTATION_SCENES = 10"
  by (simp add: PRESENTATION_SCENES_def)

lemma total_duration_eq: "total_duration scenes = sum_list (map sc_durationMs scenes)"
proof -
  have "foldl (\<lambda>sum scene. sum + sc_durationMs scene) x scenes = x + sum_list (map sc_durationMs scenes)" for x
    by (induction scenes arbitrary: x) auto
  then show ?thesis by (simp add: total_duration_def)
qed

lemma total_duration_Cons [simp]: "total_duration (s # ss) = sc_durationMs s + total_duration ss"
  "total_duration [] = 0"
  by (simp_all add: total_duration_eq)

lemma total_duration_append: "total_duration (xs @ ys) = total_duration xs + total_duration ys"
  by (simp add: total_duration_eq)

lemma scene_durations: "s \<in> set PRESENTATION_SCENES \<Longrightarrow> 3000 \<le> sc_durationMs s"
  by (auto simp: PRESENTATION_SCENES_def)

lemma total_duration_value: "TOTAL_PRESENTATION_DURATION_MS = 87000"
  by (simp add: TOTAL_PRESENTATION_DURATION_MS_def PRESENTATION_SCENES_def)

lemma scene_clock:
  assumes "0 \<le> i" "i < 10"
  shows "elapsedBeforeScene i + sc_durationMs (PRESENTATION_SCENES ! nat i) + the (remainingAfterScene i) =
      TOTAL_PRESENTATION_DURATION_MS"
    and "0 \<le> elapsedBeforeScene i" "0 \<le> the (remainingAfterScene i)" "remainingAfterScene i \<noteq> None"
proof -
  let ?n = "nat i"
  have n: "?n < length PRESENTATION_SCENES" using assms by (simp add: scene_count)
  have nonneg: "0 \<le> total_duration xs" if "set xs \<subseteq> set PRESENTATION_SCENES" for xs
    unfolding total_duration_eq using that scene_durations by (intro sum_list_nonneg) fastforce
  have split: "PRESENTATION_SCENES = take ?n PRESENTATION_SCENES @ PRESENTATION_SCENES ! ?n # drop (Suc ?n) PRESENTATION_SCENES"
    by (rule id_take_nth_drop[OF n])
  have e: "elapsedBeforeScene i = total_duration (take ?n PRESENTATION_SCENES)"
    using assms by (simp add: elapsedBeforeScene_def slice_from_start_def)
  have r: "remainingAfterScene i = Some (total_duration (drop (Suc ?n) PRESENTATION_SCENES))"
    using assms arg_cong[OF split, of total_duration]
    by (simp add: remainingAfterScene_def scene_count e TOTAL_PRESENTATION_DURATION_MS_def total_duration_append)
  show "elapsedBeforeScene i + sc_durationMs (PRESENTATION_SCENES ! ?n) + the (remainingAfterScene i) =
      TOTAL_PRESENTATION_DURATION_MS"
    using arg_cong[OF split, of total_duration]
    by (simp add: e r TOTAL_PRESENTATION_DURATION_MS_def total_duration_append)
  show "0 \<le> elapsedBeforeScene i" unfolding e by (rule nonneg) (rule set_take_subset)
  show "0 \<le> the (remainingAfterScene i)" "remainingAfterScene i \<noteq> None"
    unfolding r using nonneg[OF set_drop_subset] by simp_all
qed

lemma findFirstEscalationIndex_spec:
  "(if list_all (\<lambda>a. ra_tier a = ''normal'') as then findFirstEscalationIndex as = 0
    else findFirstEscalationIndex as < length as \<and> ra_tier (as ! findFirstEscalationIndex as) \<noteq> ''normal'' \<and>
      (\<forall>j<findFirstEscalationIndex as. ra_tier (as ! j) = ''normal''))"
proof (cases "find_index (\<lambda>a. ra_tier a \<noteq> ''normal'') as")
  case None
  then have "list_all (\<lambda>a. ra_tier a = ''normal'') as" by (simp add: find_index_None_iff list_all_iff)
  with None show ?thesis by (simp add: findFirstEscalationIndex_def)
next
  case (Some i)
  from find_index_Some[OF Some] have "i < length as" "ra_tier (as ! i) \<noteq> ''normal''"
    "\<forall>j<i. ra_tier (as ! j) = ''normal''" by auto
  moreover from this have "\<not> list_all (\<lambda>a. ra_tier a = ''normal'') as" by (auto simp: list_all_length)
  ultimately show ?thesis using Some by (simp add: findFirstEscalationIndex_def)
qed

lemma peak_loop:
  assumes "as \<noteq> []"
  shows "case foldl peak_step (0, ra_compound_risk_score (hd as)) (enumerate 0 as) of (i, b) \<Rightarrow>
    i < length as \<and> b = ra_compound_risk_score (as ! i) \<and> (\<forall>j<i. ra_compound_risk_score (as ! j) < b) \<and>
    (\<forall>a\<in>set as. ra_compound_risk_score a \<le> b)"
  using assms
proof (induction as rule: rev_nonempty_induct)
  case (single x)
  show ?case by (simp add: peak_step_def)
next
  case (snoc x xs)
  let ?s = ra_compound_risk_score
  obtain i b where ib: "foldl peak_step (0, ?s (hd xs)) (enumerate 0 xs) = (i, b)" by fastforce
  from snoc.IH have ih: "i < length xs" "b = ?s (xs ! i)" "\<forall>j<i. ?s (xs ! j) < b" "\<forall>a\<in>set xs. ?s a \<le> b"
    unfolding ib by auto
  have f: "foldl peak_step (0, ?s (hd (xs @ [x]))) (enumerate 0 (xs @ [x])) =
      (if ?s x > b then (length xs, ?s x) else (i, b))"
    using snoc.hyps ib by (simp add: enumerate_append_eq peak_step_def[of "(i, b)"])
  show ?case
  proof (cases "?s x > b")
    case True
    then have "\<forall>a\<in>set xs. ?s a < ?s x" using ih(4) by fastforce
    then show ?thesis unfolding f using True by (auto simp: nth_append)
  next
    case False
    then show ?thesis unfolding f using ih by (auto simp: nth_append)
  qed
qed

lemma findPeakIndex_spec:
  "as \<noteq> [] \<Longrightarrow> findPeakIndex as < length as \<and>
     (\<forall>j<findPeakIndex as. ra_compound_risk_score (as ! j) < ra_compound_risk_score (as ! findPeakIndex as)) \<and>
     (\<forall>a\<in>set as. ra_compound_risk_score a \<le> ra_compound_risk_score (as ! findPeakIndex as))"
  using peak_loop[of as] by (cases as) (auto simp: findPeakIndex_def split: prod.splits)

lemma findPeakIndex_first_max:
  assumes "as \<noteq> []"
  shows "findPeakIndex as < length as" and "is_first_max ra_compound_risk_score as (as ! findPeakIndex as)"
proof -
  let ?p = "findPeakIndex as"
  note p = findPeakIndex_spec[OF assms]
  then show "?p < length as" by simp
  then have "as = take ?p as @ as ! ?p # drop (Suc ?p) as" by (intro id_take_nth_drop)
  moreover have "\<forall>a\<in>set (take ?p as). ra_compound_risk_score a < ra_compound_risk_score (as ! ?p)"
    using p by (auto simp: in_set_conv_nth)
  moreover have "\<forall>a\<in>set (drop (Suc ?p) as). ra_compound_risk_score a \<le> ra_compound_risk_score (as ! ?p)"
    using p by (auto dest: in_set_dropD)
  ultimately show "is_first_max ra_compound_risk_score as (as ! ?p)" unfolding is_first_max_def by blast
qed

text \<open>The rounded total is at least every summand.\<close>

lemma total_risk_ge:
  assumes "\<forall>e\<in>set es. 0 \<le> ac_risk (snd e) \<and> fl (ac_risk (snd e)) = ac_risk (snd e)"
  shows "e \<in> set es \<Longrightarrow> ac_risk (snd e) \<le> total_risk es"
proof -
  have acc: "x \<le> foldl (\<lambda>sum e. nadd sum (ac_risk (snd e))) x zs"
    if "fl x = x" "\<forall>e\<in>set zs. 0 \<le> ac_risk (snd e)" for x zs
    using that
  proof (induction zs arbitrary: x)
    case (Cons z zs)
    have "x \<le> nadd x (ac_risk (snd z))" using Cons.prems by (intro nadd_ge) auto
    also have "\<dots> \<le> foldl (\<lambda>sum e. nadd sum (ac_risk (snd e))) (nadd x (ac_risk (snd z))) zs"
      using Cons.prems by (intro Cons.IH) (simp_all add: nadd_def)
    finally show ?case by simp
  qed simp
  have nn: "0 \<le> foldl (\<lambda>sum e. nadd sum (ac_risk (snd e))) 0 ys" if "set ys \<subseteq> set es" for ys
    using that assms by (intro acc) auto
  assume "e \<in> set es"
  then obtain ys zs where es: "es = ys @ e # zs" by (auto dest: split_list)
  let ?y = "foldl (\<lambda>sum e. nadd sum (ac_risk (snd e))) 0 ys"
  have "ac_risk (snd e) \<le> nadd ?y (ac_risk (snd e))"
  proof -
    have "0 \<le> ?y" by (rule nn) (auto simp: es)
    then have "fl (ac_risk (snd e)) \<le> fl (?y + ac_risk (snd e))" by (intro fl_mono) simp
    then show ?thesis using assms es unfolding nadd_def[of ?y] by simp
  qed
  also have "\<dots> \<le> total_risk es"
    using acc[of "nadd ?y (ac_risk (snd e))" zs] assms es by (simp add: total_risk_def nadd_def)
  finally show "ac_risk (snd e) \<le> total_risk es" .
qed

lemma computeRelativeShares_ranked:
  "computeRelativeShares (Some j) = map (relative_share (total_risk (rj_agentContributions j))) (sorted_agents j)"
  by (simp add: computeRelativeShares_def js_sort_map sorted_agents_def share_cmp_def contribution_cmp_def[abs_def]
      relative_share_def)

lemma share_bounds:
  assumes "0 \<le> r" "r \<le> t" "0 < t"
  shows "0 \<le> nmul (ndiv r t) 100" "nmul (ndiv r t) 100 \<le> 100"
proof -
  have "fl (r / t) \<le> fl 1" using assms by (intro fl_mono) simp
  moreover have "fl 1 = 1" "fl 100 = 100" using fl_int[of 1] fl_int[of 100] by simp_all
  ultimately show "nmul (ndiv r t) 100 \<le> 100" using fl_mono[of "fl (r / t) * 100" 100] by (simp add: nmul_def ndiv_def)
  show "0 \<le> nmul (ndiv r t) 100" using assms by (simp add: nmul_def ndiv_def)
qed

subsection \<open>Properties\<close>

text \<open>
  The moments the tour holds on are real and the right ones: of a non-empty timeline the peak is
  the first tick of highest compound score, and the incident begins at the first tick that is not
  normal (at the first tick when all are normal), so before the first escalation nothing abnormal
  is skipped.
\<close>

theorem presentation_moments_correct:
  "(let p = findPeakIndex as; f = findFirstEscalationIndex as
    in if as = [] then p = 0 \<and> f = 0
       else is_first_max ra_compound_risk_score as (as ! p) \<and> p < length as \<and> f < length as \<and>
            list_all (\<lambda>a. ra_tier a = ''normal'') (take f as) \<and>
            (ra_tier (as ! f) \<noteq> ''normal'' \<or> f = 0 \<and> list_all (\<lambda>a. ra_tier a = ''normal'') as))"
proof (cases "as = []")
  case True
  then show ?thesis by (simp add: findPeakIndex_def findFirstEscalationIndex_def)
next
  case False
  let ?p = "findPeakIndex as" and ?f = "findFirstEscalationIndex as"
  have p: "?p < length as" "is_first_max ra_compound_risk_score as (as ! ?p)" using findPeakIndex_first_max[OF False] .
  have "?f < length as \<and> list_all (\<lambda>a. ra_tier a = ''normal'') (take ?f as) \<and>
      (ra_tier (as ! ?f) \<noteq> ''normal'' \<or> ?f = 0 \<and> list_all (\<lambda>a. ra_tier a = ''normal'') as)"
  proof (cases "list_all (\<lambda>a. ra_tier a = ''normal'') as")
    case True
    then show ?thesis using findFirstEscalationIndex_spec[of as] \<open>as \<noteq> []\<close> by simp
  next
    case False
    then have "?f < length as" "ra_tier (as ! ?f) \<noteq> ''normal''" "\<forall>j<?f. ra_tier (as ! j) = ''normal''"
      using findFirstEscalationIndex_spec[of as] by simp_all
    then show ?thesis by (simp add: list_all_length)
  qed
  with False p show ?thesis by (simp add: Let_def)
qed

text \<open>
  The shares shown for the agents of a tick are percentages between 0 and 100 in the order of the
  root-cause ranking, and on a quiet tick all of them are 0, for risks that are not negative and
  are machine numbers.
\<close>

theorem computeRelativeShares_bounds:
  assumes "list_all (\<lambda>e. 0 \<le> ac_risk (snd e) \<and> fl (ac_risk (snd e)) = ac_risk (snd e)) (rj_agentContributions j)"
  shows "list_all (\<lambda>s. 0 \<le> rsh_sharePercent s \<and> rsh_sharePercent s \<le> 100) (computeRelativeShares (Some j)) \<and>
    map (\<lambda>s. (rsh_agentName s, rsh_risk s)) (computeRelativeShares (Some j)) =
      map (\<lambda>f. (rk_agentName f, rk_risk f)) (rankContributingFactors (Some j)) \<and>
    (list_all (\<lambda>s. rsh_sharePercent s = 0) (computeRelativeShares (Some j)) \<longleftrightarrow>
       list_all (\<lambda>e. ac_risk (snd e) = 0) (rj_agentContributions j))"
proof (intro conjI)
  let ?es = "rj_agentContributions j" and ?t = "total_risk (rj_agentContributions j)"
  have nn: "\<forall>e\<in>set ?es. 0 \<le> ac_risk (snd e) \<and> fl (ac_risk (snd e)) = ac_risk (snd e)"
    using assms by (simp add: list_all_iff)
  note le = total_risk_ge[OF nn]
  have set: "set (sorted_agents j) = set ?es" by (simp add: sorted_agents_def)
  show "list_all (\<lambda>s. 0 \<le> rsh_sharePercent s \<and> rsh_sharePercent s \<le> 100) (computeRelativeShares (Some j))"
    using nn le share_bounds unfolding computeRelativeShares_ranked
    by (auto simp: list_all_iff relative_share_def set)
  show "map (\<lambda>s. (rsh_agentName s, rsh_risk s)) (computeRelativeShares (Some j)) =
      map (\<lambda>f. (rk_agentName f, rk_risk f)) (rankContributingFactors (Some j))"
    unfolding computeRelativeShares_ranked sorted_agents_ranked[symmetric]
    by (simp add: relative_share_def ranked_factor_def)
  have "ac_risk (snd e) = 0" if "e \<in> set ?es" "\<not> 0 < ?t" for e using nn le that by fastforce
  moreover have "nmul (ndiv r t) 100 = 0 \<longleftrightarrow> r = 0" if "0 < t" for r t
    using that by (simp add: nmul_def ndiv_def)
  ultimately show "list_all (\<lambda>s. rsh_sharePercent s = 0) (computeRelativeShares (Some j)) \<longleftrightarrow>
       list_all (\<lambda>e. ac_risk (snd e) = 0) ?es"
    unfolding computeRelativeShares_ranked by (auto simp: list_all_iff relative_share_def set)
qed

definition sample_shares :: RiskJustification where
  "sample_shares = \<lparr>rj_schemaVersion = 1, rj_rulesFired = [],
     rj_agentContributions = [(''gas_risk'', \<lparr>ac_risk = 30, ac_confidence = 1\<rparr>),
                              (''worker_exposure'', \<lparr>ac_risk = 70, ac_confidence = 1\<rparr>)],
     rj_interactionBonusApplied = 1, rj_tierBefore = ''normal'', rj_tierAfter = ''watch''\<rparr>"

theorem computeRelativeShares_bounds_witness:
  "list_all (\<lambda>e. 0 \<le> ac_risk (snd e) \<and> fl (ac_risk (snd e)) = ac_risk (snd e)) (rj_agentContributions sample_shares) \<and>
   list_all (\<lambda>s. 0 \<le> rsh_sharePercent s \<and> rsh_sharePercent s \<le> 100) (computeRelativeShares (Some sample_shares))"
proof -
  have "list_all (\<lambda>e. 0 \<le> ac_risk (snd e) \<and> fl (ac_risk (snd e)) = ac_risk (snd e)) (rj_agentContributions sample_shares)"
    using fl_int[of 30] fl_int[of 70] by (simp add: sample_shares_def)
  with computeRelativeShares_bounds[OF this] show ?thesis by blast
qed

end
