(* ===== verification/Modes.thy ===== *)
theory Modes
  imports Presentation Replay Decision
begin

section \<open>Demo, presentation and judge modes\<close>

text \<open>
  The context providers around the pages: \<open>context/DemoModeContext.tsx\<close>,
  \<open>context/PresentationModeContext.tsx\<close>, \<open>context/JudgeQuickViewContext.tsx\<close> and
  \<open>context/PollingContext.tsx\<close>. The React state is a record, a callback is an operation on it, and
  an effect runs after an operation that changes one of its dependencies. Navigation and requests
  to the browser are recorded in the state. The lemmas show that the demo's timer is armed exactly
  while it has a step to show, that an undisturbed demo visits its routes in order and ends, and
  where the judge's launch leaves the replay cursor.
\<close>

subsection \<open>context/DemoModeContext.tsx\<close>

definition FLAGSHIP_SCENARIO_KEY :: string where
  "FLAGSHIP_SCENARIO_KEY = ''scenario_simops_conflict''"

record DemoStep =
  de_path :: string
  de_label :: string
  de_durationMs :: int

text \<open>\<open>dm_timer\<close>: a timeout is pending; \<open>dm_trail\<close>: the routes navigated to, in order.\<close>

record demo_state =
  dm_active :: bool
  dm_loading :: bool
  dm_stepIndex :: nat
  dm_steps :: "DemoStep list"
  dm_timer :: bool
  dm_trail :: "string list"

definition demo_start :: demo_state where
  "demo_start = \<lparr>dm_active = False, dm_loading = False, dm_stepIndex = 0, dm_steps = [], dm_timer = False, dm_trail = []\<rparr>"

definition clearTimer :: "demo_state \<Rightarrow> demo_state" where
  "clearTimer s = s\<lparr>dm_timer := False\<rparr>"

definition built_steps :: "DemoKeyMoment option \<Rightarrow> DemoStep list" where
  "built_steps moment =
     [\<lparr>de_path = ''/scenarios/'' @ FLAGSHIP_SCENARIO_KEY @ ''?autoplay=1'',
       de_label = ''Loading the flagship scenario and playing its replay'', de_durationMs = 7000\<rparr>]
     @ (case moment of
          None \<Rightarrow> []
        | Some m \<Rightarrow>
            [\<lparr>de_path = ''/explain/'' @ dk_assessmentId m,
              de_label = ''Explainability - why the engine reached this verdict'', de_durationMs = 6000\<rparr>,
             \<lparr>de_path = ''/research/'' @ dk_assessmentId m,
              de_label = ''Research Mode - every pipeline stage, in order'', de_durationMs = 6000\<rparr>,
             \<lparr>de_path = ''/counterfactual/'' @ dk_zoneId m @ ''?timestamp='' @ encodeURIComponent (dk_timestamp m),
              de_label = ''Counterfactual - the naive baseline, side by side'', de_durationMs = 6000\<rparr>])
     @ [\<lparr>de_path = ''/executive'', de_label = ''Executive Overview - the plant-wide summary'', de_durationMs = 6000\<rparr>]"

text \<open>The state changes of \<open>stopDemo\<close>; the effect that follows finds the demo inactive and does nothing.\<close>

definition stopDemo :: "demo_state \<Rightarrow> demo_state" where
  "stopDemo s = (clearTimer s)\<lparr>dm_active := False, dm_loading := False, dm_stepIndex := 0, dm_steps := []\<rparr>"

text \<open>The effect on \<open>[active, steps, stepIndex]\<close>, its cleanup first.\<close>

definition demo_effect :: "demo_state \<Rightarrow> demo_state" where
  "demo_effect s0 =
     (let s = clearTimer s0
      in if \<not> dm_active s \<or> dm_steps s = [] then s
         else if dm_stepIndex s \<ge> length (dm_steps s) then stopDemo s
         else s\<lparr>dm_trail := dm_trail s @ [de_path (dm_steps s ! dm_stepIndex s)], dm_timer := True\<rparr>)"

text \<open>
  The part of \<open>startDemo\<close> before its \<open>await\<close>. It leaves \<open>steps\<close> alone, so the effect follows only
  when \<open>active\<close> or \<open>stepIndex\<close> changed.
\<close>

definition startDemo :: "demo_state \<Rightarrow> demo_state" where
  "startDemo s =
     (let s1 = (clearTimer s)\<lparr>dm_active := True, dm_loading := True, dm_stepIndex := 0\<rparr>
      in if dm_active s \<and> dm_stepIndex s = 0 then s1 else demo_effect s1)"

text \<open>The part after the \<open>await\<close>: a failed search for the key moment counts as none.\<close>

definition demo_resolved :: "DemoKeyMoment option \<Rightarrow> demo_state \<Rightarrow> demo_state" where
  "demo_resolved moment s = demo_effect (s\<lparr>dm_steps := built_steps moment, dm_loading := False\<rparr>)"

definition timer_fires :: "demo_state \<Rightarrow> demo_state" where
  "timer_fires s = (if dm_timer s then demo_effect (s\<lparr>dm_timer := False, dm_stepIndex := dm_stepIndex s + 1\<rparr>) else s)"

definition stepLabel :: "demo_state \<Rightarrow> string option" where
  "stepLabel s = (if dm_stepIndex s < length (dm_steps s) then Some (de_label (dm_steps s ! dm_stepIndex s)) else None)"

datatype demo_event = StartDemo | StopDemo | DemoResolved "DemoKeyMoment option" | TimerFires

fun demo_step :: "demo_state \<Rightarrow> demo_event \<Rightarrow> demo_state" where
  "demo_step s StartDemo = startDemo s"
| "demo_step s StopDemo = stopDemo s"
| "demo_step s (DemoResolved m) = demo_resolved m s"
| "demo_step s TimerFires = timer_fires s"

subsection \<open>context/PresentationModeContext.tsx\<close>

record event_target =
  et_tagName :: string
  et_isContentEditable :: bool

text \<open>\<open>None\<close> for a target that is no HTML element.\<close>

definition isTypingTarget :: "event_target option \<Rightarrow> bool" where
  "isTypingTarget target =
     (case target of
        None \<Rightarrow> False
      | Some t \<Rightarrow> et_tagName t \<in> {''INPUT'', ''TEXTAREA'', ''SELECT''} \<or> et_isContentEditable t)"

datatype fullscreen_request = RequestFullscreen | ExitFullscreen

text \<open>\<open>pn_fullscreen\<close> is \<open>document.fullscreenElement\<close>, which only the browser changes.\<close>

record presentation_state =
  pn_active :: bool
  pn_fullscreen :: bool
  pn_requests :: "fullscreen_request list"

definition presentation_enter :: "presentation_state \<Rightarrow> presentation_state" where
  "presentation_enter s = s\<lparr>pn_active := True, pn_requests := pn_requests s @ [RequestFullscreen]\<rparr>"

definition presentation_exit :: "presentation_state \<Rightarrow> presentation_state" where
  "presentation_exit s =
     s\<lparr>pn_active := False, pn_requests := pn_requests s @ (if pn_fullscreen s then [ExitFullscreen] else [])\<rparr>"

definition presentation_toggle :: "presentation_state \<Rightarrow> presentation_state" where
  "presentation_toggle s = (if pn_active s then presentation_exit s else presentation_enter s)"

definition presentation_key :: "event_target option \<Rightarrow> string \<Rightarrow> presentation_state \<Rightarrow> presentation_state" where
  "presentation_key target k s =
     (if isTypingTarget target then s
      else if toLowerCase k = ''p'' then presentation_toggle s
      else if k = ''Escape'' \<and> pn_active s then presentation_exit s
      else s)"

definition handleFullscreenChange :: "bool \<Rightarrow> presentation_state \<Rightarrow> presentation_state" where
  "handleFullscreenChange now s =
     (let s1 = s\<lparr>pn_fullscreen := now\<rparr> in if \<not> now then s1\<lparr>pn_active := False\<rparr> else s1)"

subsection \<open>context/JudgeQuickViewContext.tsx\<close>

definition JUDGE_QUICK_VIEW_TALKING_POINTS :: "SceneTalkingPoints option" where
  "JUDGE_QUICK_VIEW_TALKING_POINTS = map_of SCENE_TALKING_POINTS ''mission-control''"

record judge_state =
  jq_talkingPointsVisible :: bool
  jq_launchTriggered :: bool
  jq_pendingActivation :: bool
  jq_scrubbed :: bool
  jq_replay :: replay_state
  jq_mode :: presentation_state
  jq_trail :: "string list"

definition judge_start :: judge_state where
  "judge_start =
     \<lparr>jq_talkingPointsVisible = False, jq_launchTriggered = False, jq_pendingActivation = False, jq_scrubbed = False,
      jq_replay = replay_start, jq_mode = \<lparr>pn_active = False, pn_fullscreen = False, pn_requests = []\<rparr>, jq_trail = []\<rparr>"

text \<open>The effect on \<open>[pendingActivation, replay]\<close>.\<close>

definition judge_effect :: "judge_state \<Rightarrow> judge_state" where
  "judge_effect s =
     (if jq_pendingActivation s \<and> \<not> jq_scrubbed s \<and> allTimestamps (jq_replay s) \<noteq> []
      then s\<lparr>jq_replay := scrubToIndex (int (length (allTimestamps (jq_replay s))) - 1) (jq_replay s),
             jq_scrubbed := True, jq_pendingActivation := False\<rparr>
      else s)"

text \<open>
  One commit with a new target. \<open>JudgeQuickViewProvider\<close> is a child of \<open>ReplayProvider\<close>, so its effect
  runs before the effect of \<open>ReplayProvider\<close> that resets the cursor for the new target.
\<close>

definition commit_target :: "ReplayTarget \<Rightarrow> ReplayData option \<Rightarrow> judge_state \<Rightarrow> judge_state" where
  "commit_target t cached s =
     (let s1 = judge_effect (s\<lparr>jq_replay := (jq_replay s)\<lparr>rs_target := Some t, rs_data := cached\<rparr>\<rparr>)
      in s1\<lparr>jq_replay := reset_for_target (jq_replay s1)\<rparr>)"

definition scenario_target :: "string \<Rightarrow> ReplayTarget" where
  "scenario_target key = \<lparr>rt_scenarioKey = Some key, rt_zoneIds = None, rt_start = None, rt_end = None\<rparr>"

text \<open>\<open>cached\<close> is what the query cache already holds for the chosen scenario.\<close>

definition activate :: "ScenarioSummary list option \<Rightarrow> (string \<Rightarrow> ReplayData option) \<Rightarrow> judge_state \<Rightarrow> judge_state" where
  "activate scenarios cached s =
     (let s1 = s\<lparr>jq_launchTriggered := True, jq_pendingActivation := True, jq_mode := presentation_enter (jq_mode s),
                 jq_talkingPointsVisible := True, jq_trail := jq_trail s @ [''/mission-control'']\<rparr>
      in case Option.bind scenarios selectPresentationScenario of
           None \<Rightarrow> judge_effect s1
         | Some dramatic \<Rightarrow>
             if rs_target (jq_replay s) = None
             then commit_target (scenario_target (ss_key dramatic)) (cached (ss_key dramatic)) (s1\<lparr>jq_scrubbed := False\<rparr>)
             else judge_effect s1)"

definition dismissTalkingPoints :: "judge_state \<Rightarrow> judge_state" where
  "dismissTalkingPoints s = s\<lparr>jq_talkingPointsVisible := False, jq_launchTriggered := False\<rparr>"

text \<open>Any other use of the replay context, followed by the effect.\<close>

definition judge_replay_event :: "host_zone \<Rightarrow> replay_event \<Rightarrow> judge_state \<Rightarrow> judge_state" where
  "judge_replay_event hz e s =
     (case e of
        StartReplay t cached \<Rightarrow> commit_target t cached s
      | _ \<Rightarrow> judge_effect (s\<lparr>jq_replay := replay_step hz (jq_replay s) e\<rparr>))"

datatype judge_event = Activate "ScenarioSummary list option" "string \<Rightarrow> ReplayData option" | Dismiss | Replay_event replay_event

fun judge_step :: "host_zone \<Rightarrow> judge_state \<Rightarrow> judge_event \<Rightarrow> judge_state" where
  "judge_step hz s (Activate scenarios cached) = activate scenarios cached s"
| "judge_step hz s Dismiss = dismissTalkingPoints s"
| "judge_step hz s (Replay_event e) = judge_replay_event hz e s"

subsection \<open>context/PollingContext.tsx\<close>

definition DEFAULT_POLLING_INTERVAL_MS :: number where "DEFAULT_POLLING_INTERVAL_MS = 5000"

record polling_state =
  pg_intervalMs :: number
  pg_enabled :: bool

definition polling_start :: polling_state where
  "polling_start = \<lparr>pg_intervalMs = DEFAULT_POLLING_INTERVAL_MS, pg_enabled = True\<rparr>"

definition setIntervalMs :: "number \<Rightarrow> polling_state \<Rightarrow> polling_state" where
  "setIntervalMs ms s = s\<lparr>pg_intervalMs := ms\<rparr>"

definition setEnabled :: "bool \<Rightarrow> polling_state \<Rightarrow> polling_state" where
  "setEnabled b s = s\<lparr>pg_enabled := b\<rparr>"

subsection \<open>The demo's invariant\<close>

text \<open>
  The timer is armed only while the demo is active and has a current step, an idle demo is at step
  0, and every route ever navigated to is a route of the demo.
\<close>

definition demo_route :: "string \<Rightarrow> bool" where
  "demo_route p \<longleftrightarrow> (\<exists>m. p \<in> de_path ` set (built_steps m))"

definition demo_inv :: "demo_state \<Rightarrow> bool" where
  "demo_inv s \<longleftrightarrow>
     (dm_timer s \<longrightarrow> dm_active s \<and> dm_stepIndex s < length (dm_steps s)) \<and>
     (\<not> dm_active s \<longrightarrow> dm_stepIndex s = 0) \<and>
     (dm_steps s = [] \<or> (\<exists>m. dm_steps s = built_steps m)) \<and>
     list_all demo_route (dm_trail s)"

lemmas demo_ops = clearTimer_def stopDemo_def demo_effect_def startDemo_def demo_resolved_def timer_fires_def

lemma built_steps_ne [simp]: "built_steps m \<noteq> []"
  by (simp add: built_steps_def)

lemma demo_effect_inv:
  assumes "\<not> dm_active s \<Longrightarrow> dm_stepIndex s = 0" "dm_steps s = [] \<or> (\<exists>m. dm_steps s = built_steps m)"
    "list_all demo_route (dm_trail s)"
  shows "demo_inv (demo_effect s)"
proof -
  have "demo_route (de_path (dm_steps s ! dm_stepIndex s))"
    if "dm_steps s = built_steps m" "dm_stepIndex s < length (dm_steps s)" for m
    unfolding demo_route_def using that by (intro exI[of _ m]) simp
  then show ?thesis using assms by (auto simp: demo_inv_def demo_effect_def clearTimer_def stopDemo_def Let_def)
qed

lemma demo_step_inv [inv_step]: "demo_inv s \<Longrightarrow> demo_inv (demo_step s e)"
proof (cases e)
  case StartDemo
  assume "demo_inv s"
  then have "demo_inv (demo_effect ((clearTimer s)\<lparr>dm_active := True, dm_loading := True, dm_stepIndex := 0\<rparr>))"
    by (intro demo_effect_inv) (auto simp: demo_inv_def clearTimer_def)
  moreover have "demo_inv ((clearTimer s)\<lparr>dm_active := True, dm_loading := True, dm_stepIndex := 0\<rparr>)"
    using \<open>demo_inv s\<close> by (simp add: demo_inv_def clearTimer_def)
  ultimately show ?thesis using StartDemo by (simp add: startDemo_def Let_def)
next
  case StopDemo
  assume "demo_inv s"
  then show ?thesis using StopDemo by (simp add: demo_inv_def stopDemo_def clearTimer_def)
next
  case (DemoResolved m)
  assume "demo_inv s"
  then have "demo_inv (demo_effect (s\<lparr>dm_steps := built_steps m, dm_loading := False\<rparr>))"
    by (intro demo_effect_inv) (auto simp: demo_inv_def)
  then show ?thesis using DemoResolved by (simp add: demo_resolved_def)
next
  case TimerFires
  assume "demo_inv s"
  then have "demo_inv (demo_effect (s\<lparr>dm_timer := False, dm_stepIndex := dm_stepIndex s + 1\<rparr>))" if "dm_timer s"
    using that by (intro demo_effect_inv) (auto simp: demo_inv_def)
  with \<open>demo_inv s\<close> show ?thesis using TimerFires by (simp add: timer_fires_def)
qed

interpretation demo: transition_system demo_start demo_step demo_inv
proof
  show "demo_inv demo_start" by (simp add: demo_inv_def demo_start_def)
qed (rule demo_step_inv)

subsection \<open>An undisturbed demo\<close>

lemma foldl_replicate_Suc: "foldl f s (replicate (Suc k) e) = f (foldl f s (replicate k e)) e"
  by (simp flip: replicate_append_same)

lemma timer_run:
  assumes "dm_active s" "dm_timer s" "dm_steps s = xs" "dm_stepIndex s + k < length xs"
  shows "foldl demo_step s (replicate k TimerFires) =
    s\<lparr>dm_stepIndex := dm_stepIndex s + k,
      dm_trail := dm_trail s @ map de_path (take k (drop (Suc (dm_stepIndex s)) xs))\<rparr>"
  using assms
proof (induction k)
  case (Suc k)
  let ?i = "dm_stepIndex s"
  let ?t = "s\<lparr>dm_stepIndex := ?i + k, dm_trail := dm_trail s @ map de_path (take k (drop (Suc ?i) xs))\<rparr>"
  have "foldl demo_step s (replicate (Suc k) TimerFires) = demo_step ?t TimerFires"
    unfolding foldl_replicate_Suc using Suc by simp
  moreover have "take (Suc k) (drop (Suc ?i) xs) = take k (drop (Suc ?i) xs) @ [xs ! (Suc ?i + k)]"
    using Suc.prems by (subst take_Suc_conv_app_nth) simp_all
  ultimately show ?case using Suc.prems
    by (auto simp: timer_fires_def demo_effect_def clearTimer_def Let_def add.commute)
qed simp

text \<open>
  However the user and the network interleave starts, stops, arriving moments and timer firings, a
  pending timer always belongs to an active demo with a step to show, so a stopped demo never
  navigates on its own, and every route the demo ever navigates to is one of its own routes.
\<close>

theorem demo_invariant:
  "(let s = foldl demo_step demo_start es
    in (if dm_timer s then dm_active s \<and> dm_stepIndex s < length (dm_steps s) else True) \<and>
       list_all demo_route (dm_trail s) \<and>
       dm_trail (demo_step (stopDemo s) TimerFires) = dm_trail s)"
  using demo.inv_reachable[of es]
  by (auto simp: demo_inv_def Let_def timer_fires_def stopDemo_def clearTimer_def)

text \<open>
  Started from rest and not disturbed, the demo visits exactly its routes, once each and in order,
  whatever moment was found, and the last timer brings it back to rest.
\<close>

theorem demo_visits_all_steps:
  "foldl demo_step demo_start (StartDemo # DemoResolved m # replicate (length (built_steps m)) TimerFires) =
   demo_start\<lparr>dm_trail := map de_path (built_steps m)\<rparr>"
proof -
  let ?xs = "built_steps m"
  obtain x xs where xs: "?xs = x # xs" by (cases ?xs) auto
  let ?s = "\<lparr>dm_active = True, dm_loading = False, dm_stepIndex = 0, dm_steps = ?xs, dm_timer = True, dm_trail = [de_path x]\<rparr>"
  have s: "foldl demo_step demo_start [StartDemo, DemoResolved m] = ?s"
    by (simp add: demo_ops demo_start_def Let_def xs)
  have "foldl demo_step demo_start (StartDemo # DemoResolved m # replicate (Suc (length xs)) TimerFires) =
      demo_step (foldl demo_step ?s (replicate (length xs) TimerFires)) TimerFires"
    using s foldl_replicate_Suc[of demo_step ?s "length xs" TimerFires] by simp
  also have "foldl demo_step ?s (replicate (length xs) TimerFires) =
      ?s\<lparr>dm_stepIndex := length xs, dm_trail := map de_path ?xs\<rparr>"
    by (subst timer_run[of _ ?xs]) (simp_all add: xs)
  also have "demo_step \<dots> TimerFires = demo_start\<lparr>dm_trail := map de_path ?xs\<rparr>"
    by (simp add: demo_ops demo_start_def Let_def xs)
  finally show ?thesis by (simp add: xs)
qed

subsection \<open>The judge's launch\<close>

lemma scrub_to_last:
  "allTimestamps r \<noteq> [] \<Longrightarrow>
     rs_currentIndex (scrubToIndex (int (length (allTimestamps r)) - 1) r) = int (length (allTimestamps r)) - 1"
  by (cases "allTimestamps r") (simp_all add: scrubToIndex_def)

lemma allTimestamps_target [simp]: "allTimestamps (r\<lparr>rs_target := t\<rparr>) = allTimestamps r"
  by (simp add: allTimestamps_def)

definition axis_of :: "ReplayData \<Rightarrow> string list" where
  "axis_of d = mergeTimestamps (map (\<lambda>t. map ra_timestamp (zt_assessments t)) (rd_zone_timelines d))"

lemma allTimestamps_data: "rs_data r = Some d \<Longrightarrow> allTimestamps r = axis_of d"
  by (simp add: allTimestamps_def axis_of_def)

lemma commit_target_uncached:
  "commit_target t None s = s\<lparr>jq_replay := reset_for_target ((jq_replay s)\<lparr>rs_target := Some t, rs_data := None\<rparr>)\<rparr>"
  by (simp add: commit_target_def judge_effect_def allTimestamps_def Let_def)

text \<open>
  With a catalogue and no replay running, launching the judge's view scrubs the replay to its last
  tick once the payload arrives. When the payload is already cached (by an earlier replay of the
  same scenario, by the search palette or by the enterprise page, which use the same cache key), the
  scrub happens before the provider resets the cursor for the new target: the launch counts as
  done and the replay stays on its first tick.
\<close>

theorem judge_launch_cursor:
  assumes "rs_target (jq_replay s) = None" and "axis_of d \<noteq> []"
  shows "(let fresh = judge_replay_event hz (QueryResolved d) (activate (Some (x # xs)) (\<lambda>_. None) s);
              cached = activate (Some (x # xs)) (\<lambda>_. Some d) s
          in rs_currentIndex (jq_replay fresh) = int (length (axis_of d)) - 1 \<and> \<not> jq_pendingActivation fresh \<and>
             rs_currentIndex (jq_replay cached) = 0 \<and> \<not> jq_pendingActivation cached \<and>
             allTimestamps (jq_replay cached) = axis_of d)"
proof -
  obtain y where y: "selectPresentationScenario (x # xs) = Some y" by (auto simp: selectPresentationScenario_def)
  have d: "allTimestamps (r\<lparr>rs_data := Some d\<rparr>) = axis_of d" for r by (simp add: allTimestamps_data)
  show ?thesis
    using assms scrub_to_last[of "((jq_replay s)\<lparr>rs_target := Some t, rs_data := Some d, rs_currentIndex := i, rs_playing := p,
      rs_customBookmarks := b\<rparr>)" for t i p b]
    by (auto simp: activate_def y commit_target_uncached commit_target_def judge_replay_event_def judge_effect_def replay_step_def
        query_resolved_def reset_for_target_def scrubToIndex_def allTimestamps_data Let_def)
qed

theorem judge_launch_cursor_witness:
  "rs_target (jq_replay judge_start) = None \<and> axis_of sample_replay \<noteq> [] \<and>
   rs_currentIndex (jq_replay (activate (Some [\<lparr>ss_key = ''k'', ss_title = ''t'', ss_description = [], ss_start_time = [],
     ss_end_time = [], ss_zone_ids = [], ss_seed = 0\<rparr>]) (\<lambda>_. Some sample_replay) judge_start)) = 0"
proof -
  have t: "rs_target (jq_replay judge_start) = None" by (simp add: judge_start_def replay_start_def)
  have "set (axis_of sample_replay) \<noteq> {}" by (simp add: axis_of_def mergeTimestamps_def sample_replay_def)
  then have a: "axis_of sample_replay \<noteq> []" by auto
  from judge_launch_cursor[OF t a] t a show ?thesis by (simp add: Let_def)
qed

end
