(* ===== verification/Queries.thy ===== *)
theory Queries
  imports Modes Api_Client
begin

section \<open>Cached queries\<close>

text \<open>
  The data hooks under \<open>hooks/\<close> and the queries the pages issue themselves. A hook is modelled by the
  options it hands to the query library: the cache key, the request, whether it is enabled, and its
  refetch and stale times. The library shares one cache entry among all queries whose keys are
  equal when written as JSON with sorted object keys (an undefined array element is written as
  null, an undefined property is left out), so keys are built in that normal form here. The main
  property is that sharing is sound: two enabled queries with equal keys ask the backend for the
  same thing.
\<close>

subsection \<open>Keys\<close>

definition opt_json :: "('a \<Rightarrow> json) \<Rightarrow> 'a option \<Rightarrow> json" where
  "opt_json f v = (case v of None \<Rightarrow> JNull | Some x \<Rightarrow> f x)"

definition param_json :: "param_value \<Rightarrow> json" where
  "param_json v = (case v of PStr s \<Rightarrow> JStr s | PNum n \<Rightarrow> JNum n)"

definition defined_entries :: "(string \<times> 'a option) list \<Rightarrow> (string \<times> 'a) list" where
  "defined_entries ps = List.map_filter (\<lambda>(k, v). map_option (Pair k) v) ps"

text \<open>An object of a key: its defined properties in the order of their names.\<close>

definition query_object :: "params \<Rightarrow> json" where
  "query_object ps = JObj (sort_key fst (map (\<lambda>(k, v). (k, param_json v)) (defined_entries ps)))"

definition target_object :: "ReplayTarget \<Rightarrow> json" where
  "target_object t =
     JObj (sort_key fst (defined_entries
       [(''scenarioKey'', map_option JStr (rt_scenarioKey t)),
        (''zoneIds'', map_option (\<lambda>zs. JArr (map JStr zs)) (rt_zoneIds t)),
        (''start'', map_option JStr (rt_start t)), (''end'', map_option JStr (rt_end t))]))"







subsection \<open>Hooks\<close>






























subsection \<open>Queries issued by providers, pages and the search\<close>









subsection \<open>All queries of the application\<close>


subsection \<open>The request a key stands for\<close>



definition jstr :: "json \<Rightarrow> string" where "jstr v = (case v of JStr s \<Rightarrow> s | _ \<Rightarrow> [])"
definition jopt_str :: "json \<Rightarrow> string option" where "jopt_str v = (case v of JStr s \<Rightarrow> Some s | _ \<Rightarrow> None)"
definition jopt_num :: "json \<Rightarrow> number option" where "jopt_num v = (case v of JNum n \<Rightarrow> Some n | _ \<Rightarrow> None)"

definition json_text :: "json \<Rightarrow> string" where
  "json_text v = (case v of JStr s \<Rightarrow> s | JNum n \<Rightarrow> num_toString n | _ \<Rightarrow> [])"

definition object_params :: "json \<Rightarrow> (string \<times> string) multiset" where
  "object_params v = (case v of JObj kvs \<Rightarrow> mset (map (\<lambda>(k, x). (k, json_text x)) kvs) | _ \<Rightarrow> {#})"



definition target_of_json :: "json \<Rightarrow> ReplayTarget" where
  "target_of_json v =
     (case v of
        JObj kvs \<Rightarrow>
          \<lparr>rt_scenarioKey = Option.bind (map_of kvs ''scenarioKey'') jopt_str,
           rt_zoneIds = Option.bind (map_of kvs ''zoneIds'') (\<lambda>a. case a of JArr zs \<Rightarrow> Some (map jstr zs) | _ \<Rightarrow> None),
           rt_start = Option.bind (map_of kvs ''start'') jopt_str, rt_end = Option.bind (map_of kvs ''end'') jopt_str\<rparr>
      | _ \<Rightarrow> scenario_target [])"









subsection \<open>Keys determine requests\<close>


lemma defined_entries_simps [simp]:
  "defined_entries [] = []"
  "defined_entries ((k, None) # ps) = defined_entries ps"
  "defined_entries ((k, Some x) # ps) = (k, x) # defined_entries ps"
  "defined_entries (ps @ qs) = defined_entries ps @ defined_entries qs"
  by (simp_all add: defined_entries_def List.map_filter_def)

lemma defined_entries_keys: "fst ` set (defined_entries ps) \<subseteq> fst ` set ps"
  by (force simp: defined_entries_def map_filter_in)

lemma defined_entries_distinct: "distinct (map fst ps) \<Longrightarrow> distinct (map fst (defined_entries ps))"
proof (induction ps)
  case (Cons kv ps)
  then show ?case using defined_entries_keys[of ps] by (cases kv; cases "snd kv") auto
qed simp

lemma defined_params_entries:
  assumes "distinct (map fst ps)"
  shows "defined_params ps = map (\<lambda>(k, v). (k, param_text v)) (defined_entries ps)"
  using assms
proof (induction ps rule: rev_induct)
  case Nil
  show ?case by (simp add: defined_params_def)
next
  case (snoc kv ps)
  obtain k v where kv: "kv = (k, v)" by fastforce
  have ih: "defined_params ps = map (\<lambda>(k, v). (k, param_text v)) (defined_entries ps)" using snoc by simp
  have "k \<notin> fst ` set ps" using snoc.prems kv by simp
  then have "k \<notin> fst ` set (defined_params ps)"
    unfolding ih using defined_entries_keys[of ps] by force
  then show ?case using ih by (cases v) (simp_all add: kv defined_params_def amap_set_fresh)
qed

lemma query_object_params [simp]:
  assumes "distinct (map fst ps)"
  shows "object_params (query_object ps) = mset (defined_params ps)"
proof -
  have "json_text (param_json v) = param_text v" for v
    by (simp add: json_text_def param_json_def param_text_def split: param_value.split)
  then have same: "(\<lambda>(k, x). (k, json_text x)) \<circ> (\<lambda>(k, v). (k, param_json v)) = (\<lambda>(k, v). (k, param_text v))"
    by (auto simp: fun_eq_iff)
  have "object_params (query_object ps) =
      image_mset (\<lambda>(k, x). (k, json_text x)) (image_mset (\<lambda>(k, v). (k, param_json v)) (mset (defined_entries ps)))"
    by (simp add: object_params_def query_object_def)
  also have "\<dots> = mset (defined_params ps)"
    unfolding image_mset.compositionality same defined_params_entries[OF assms] by simp
  finally show ?thesis .
qed

lemma map_of_sort_key: "distinct (map fst xs) \<Longrightarrow> map_of (sort_key fst xs) = map_of xs"
proof -
  assume d: "distinct (map fst xs)"
  then have "distinct (map fst (sort_key fst xs))" by (metis mset_map mset_sort mset_eq_imp_distinct_iff)
  with d show ?thesis by (intro map_of_inject_set[THEN iffD2]) simp_all
qed

lemma target_of_target_object [simp]: "target_of_json (target_object t) = t"
proof -
  have "map_of (sort_key fst (defined_entries ps)) = map_of (defined_entries ps)"
    if "distinct (map fst ps)" for ps :: "(string \<times> json option) list" using that by (intro map_of_sort_key defined_entries_distinct)
  then show ?thesis
    by (cases "rt_scenarioKey t"; cases "rt_zoneIds t"; cases "rt_start t"; cases "rt_end t")
      (simp_all add: target_of_json_def target_object_def jopt_str_def jstr_def o_def)
qed






lemma key_arguments [simp]:
  "jstr (JStr x) = x" "opt_json f (Some y) = f y" "jopt_str (opt_json JStr sv) = sv" "jopt_num (opt_json JNum nv) = nv"
  by (simp_all add: jstr_def opt_json_def jopt_str_def jopt_num_def split: option.split)







end
