(* ===== verification/Tour.thy ===== *)
theory Tour
  imports Modes Kpis
begin

section \<open>The guided presentation\<close>

text \<open>
  \<open>pages/PresentationModePage.tsx\<close>: the auto-advancing tour. The page's React state, together with the
  replay and presentation contexts it drives, is the record \<open>tour_state\<close>; every handler, key and timer
  is one event, and the page's effects run in \<open>tour_commit\<close> when one of their dependencies changed.
  The two timers (the 250 ms clock and the scene's timeout) are separate events, so every
  interleaving of them is covered. The lemmas show that the scene index and the readings of the
  speaker's clock stay in range, that the tour ends, and that the peak scenes hold the replay on
  the real peak.
\<close>

subsection \<open>Clock format and constants\<close>

definition TICK_MS :: int where "TICK_MS = 250"

definition formatClock :: "int \<Rightarrow> string" where
  "formatClock ms =
     (let totalSeconds = max 0 (Math_round (ndiv (of_int ms) 1000));
          minutes = totalSeconds div 60; seconds = totalSeconds mod 60
      in show_int minutes @ '':'' @ pad_left 2 (show_int seconds))"

definition PEAK_TICK_SCENES :: "string list" where
  "PEAK_TICK_SCENES =
     [''multi-agent-reasoning'', ''counterfactual'', ''executive-dashboard'', ''mission-control'', ''final-recommendation'']"

subsection \<open>State\<close>

record tour_state =
  tr_sceneIndex :: int
  tr_playing :: bool
  tr_started :: bool
  tr_hudVisible :: bool
  tr_judgeMode :: bool
  tr_notesVisible :: bool
  tr_elapsed :: int
  tr_replay :: replay_state
  tr_mode :: presentation_state

definition tour_start :: "replay_state \<Rightarrow> presentation_state \<Rightarrow> tour_state" where
  "tour_start r m =
     \<lparr>tr_sceneIndex = 0, tr_playing = False, tr_started = False, tr_hudVisible = False, tr_judgeMode = False,
      tr_notesVisible = False, tr_elapsed = 0, tr_replay = r, tr_mode = m\<rparr>"

definition scene_at :: "int \<Rightarrow> PresentationScene option" where
  "scene_at i = (if 0 \<le> i \<and> i < int (length PRESENTATION_SCENES) then Some (PRESENTATION_SCENES ! nat i) else None)"

definition scene_key :: "tour_state \<Rightarrow> string" where
  "scene_key s = (case scene_at (tr_sceneIndex s) of Some sc \<Rightarrow> sc_key sc | None \<Rightarrow> [])"

definition scene_duration :: "tour_state \<Rightarrow> int" where
  "scene_duration s = (case scene_at (tr_sceneIndex s) of Some sc \<Rightarrow> sc_durationMs sc | None \<Rightarrow> 0)"

definition focusZoneId :: "replay_state \<Rightarrow> string option" where
  "focusZoneId r = (case rs_data r of Some d \<Rightarrow> (case rd_zone_ids d of z # _ \<Rightarrow> Some z | [] \<Rightarrow> None) | None \<Rightarrow> None)"

definition focusTimeline :: "replay_state \<Rightarrow> RiskAssessment list" where
  "focusTimeline r = (case truthy (focusZoneId r) of Some z \<Rightarrow> zoneTimeline r z | None \<Rightarrow> [])"

subsection \<open>Derived readings\<close>

definition totalElapsed :: "tour_state \<Rightarrow> int" where
  "totalElapsed s = elapsedBeforeScene (tr_sceneIndex s) + tr_elapsed s"

definition remainingMs :: "tour_state \<Rightarrow> int option" where
  "remainingMs s = map_option (\<lambda>r. max 0 (scene_duration s - tr_elapsed s) + r) (remainingAfterScene (tr_sceneIndex s))"

definition progressPercent :: "tour_state \<Rightarrow> number" where
  "progressPercent s =
     min 100 (nmul (ndiv (of_int (totalElapsed s)) (of_int TOTAL_PRESENTATION_DURATION_MS)) 100)"

text \<open>\<open>None\<close> is \<open>null\<close>; \<open>Some None\<close> is \<open>NaN\<close>, from an unreadable timestamp.\<close>

definition leadTimeMinutes :: "host_zone \<Rightarrow> RiskAssessment list \<Rightarrow> number option option" where
  "leadTimeMinutes hz timeline =
     (let stamp = (\<lambda>i. if i < length timeline then truthy (Some (ra_timestamp (timeline ! i))) else None)
      in case (stamp (findFirstEscalationIndex timeline), stamp (findPeakIndex timeline)) of
           (Some e, Some p) \<Rightarrow>
             Some (case (Date_getTime hz p, Date_getTime hz e) of
               (Some tp, Some te) \<Rightarrow> Some (ndiv (nsub (of_int tp) (of_int te)) 60000) | _ \<Rightarrow> None)
         | _ \<Rightarrow> None)"

definition missedByLegacyBaseline :: "RiskAssessment option \<Rightarrow> CounterfactualComparison option \<Rightarrow> bool option" where
  "missedByLegacyBaseline focus cf =
     (case (cf, focus) of
        (Some c, Some a) \<Rightarrow> Some (ra_tier a \<noteq> ''normal'' \<and> \<not> cfv_alert (cc_counterfactual c))
      | _ \<Rightarrow> None)"

definition cursorAssessments :: "host_zone \<Rightarrow> replay_state \<Rightarrow> RiskAssessment list" where
  "cursorAssessments hz r =
     List.map_filter (assessmentAt hz r) (case rs_data r of Some d \<Rightarrow> rd_zone_ids d | None \<Rightarrow> [])"

definition businessValueBullets :: "string list" where
  "businessValueBullets =
     List.map_filter (\<lambda>k. map_option tp_businessValue (map_of SCENE_TALKING_POINTS k))
       [''multi-agent-reasoning'', ''counterfactual'', ''mission-control'']"

subsection \<open>Effects\<close>

text \<open>The scrubbing effect and its dependencies.\<close>

definition tour_scrub :: "host_zone \<Rightarrow> tour_state \<Rightarrow> tour_state" where
  "tour_scrub hz s =
     (let r = tr_replay s; timeline = focusTimeline r
      in if \<not> tr_started s \<or> rs_target r = None then s
         else let r1 =
                (if scene_key s = ''incident-begins'' \<and> timeline \<noteq> []
                 then jumpToTimestamp hz (ra_timestamp (timeline ! findFirstEscalationIndex timeline)) r
                 else if scene_key s \<in> set PEAK_TICK_SCENES \<and> timeline \<noteq> []
                 then jumpToTimestamp hz (ra_timestamp (timeline ! findPeakIndex timeline)) r
                 else r)
              in s\<lparr>tr_replay := (if rs_playing r then pause r1 else r1)\<rparr>)"

definition scrub_deps :: "tour_state \<Rightarrow> string \<times> bool \<times> string option \<times> nat" where
  "scrub_deps s = (scene_key s, tr_started s, focusZoneId (tr_replay s), length (focusTimeline (tr_replay s)))"

definition tour_commit :: "host_zone \<Rightarrow> tour_state \<Rightarrow> tour_state \<Rightarrow> tour_state" where
  "tour_commit hz old new =
     (let s1 = (if tr_sceneIndex new \<noteq> tr_sceneIndex old then new\<lparr>tr_elapsed := 0\<rparr> else new)
      in if scrub_deps s1 \<noteq> scrub_deps old then tour_scrub hz s1 else s1)"

subsection \<open>Handlers\<close>

definition next_scene :: "tour_state \<Rightarrow> tour_state" where
  "next_scene s = s\<lparr>tr_sceneIndex := min (int (length PRESENTATION_SCENES) - 1) (tr_sceneIndex s + 1)\<rparr>"

definition previous_scene :: "tour_state \<Rightarrow> tour_state" where
  "previous_scene s = s\<lparr>tr_sceneIndex := max 0 (tr_sceneIndex s - 1)\<rparr>"

definition toggle_hud :: "string \<Rightarrow> tour_state \<Rightarrow> tour_state" where
  "toggle_hud k s = (if k = ''d'' \<or> k = ''D'' then s\<lparr>tr_hudVisible := \<not> tr_hudVisible s\<rparr> else s)"

definition tour_key :: "string \<Rightarrow> tour_state \<Rightarrow> tour_state" where
  "tour_key k s =
     (if \<not> tr_started s then s
      else if k = ''ArrowRight'' then next_scene s
      else if k = ''ArrowLeft'' then previous_scene s
      else if k = '' '' then s\<lparr>tr_playing := \<not> tr_playing s\<rparr>
      else if k = ''Escape'' then s\<lparr>tr_playing := False, tr_started := False\<rparr>
      else s)"

definition handleStart :: "ScenarioSummary list option \<Rightarrow> (string \<Rightarrow> ReplayData option) \<Rightarrow> tour_state \<Rightarrow> tour_state" where
  "handleStart scenarios cached s =
     (let s1 = (case Option.bind scenarios selectPresentationScenario of
                  Some picked \<Rightarrow>
                    if \<not> tr_started s \<and> rs_target (tr_replay s) = None
                    then s\<lparr>tr_replay := startReplay (scenario_target (ss_key picked)) (cached (ss_key picked)) (tr_replay s)\<rparr>
                    else s
                | None \<Rightarrow> s)
      in s1\<lparr>tr_started := True, tr_sceneIndex := 0, tr_playing := True\<rparr>)"

definition handleRestart :: "tour_state \<Rightarrow> tour_state" where
  "handleRestart s = s\<lparr>tr_replay := reset (tr_replay s), tr_sceneIndex := 0, tr_playing := True\<rparr>"

definition handleToggleJudgeMode :: "tour_state \<Rightarrow> tour_state" where
  "handleToggleJudgeMode s =
     s\<lparr>tr_mode := (if tr_judgeMode s then presentation_exit (tr_mode s) else presentation_enter (tr_mode s)),
       tr_judgeMode := \<not> tr_judgeMode s\<rparr>"

definition interval_tick :: "tour_state \<Rightarrow> tour_state" where
  "interval_tick s = (if tr_playing s then s\<lparr>tr_elapsed := tr_elapsed s + TICK_MS\<rparr> else s)"

definition scene_timeout :: "tour_state \<Rightarrow> tour_state" where
  "scene_timeout s =
     (if \<not> tr_playing s then s
      else if tr_sceneIndex s \<ge> int (length PRESENTATION_SCENES) - 1 then s\<lparr>tr_playing := False\<rparr>
      else s\<lparr>tr_sceneIndex := tr_sceneIndex s + 1\<rparr>)"

datatype tour_event =
    TourKey string
  | NextScene | PreviousScene | PlayTour | PauseTour
  | HandleStart "ScenarioSummary list option" "string \<Rightarrow> ReplayData option"
  | HandleRestart | ToggleJudgeMode | ToggleNotes
  | IntervalTick | SceneTimeout
  | TourReplay replay_event

text \<open>The controls exist only once the tour has started.\<close>

definition tour_apply :: "host_zone \<Rightarrow> tour_state \<Rightarrow> tour_event \<Rightarrow> tour_state" where
  "tour_apply hz s e =
     (case e of
        TourKey k \<Rightarrow> tour_key k (toggle_hud k s)
      | NextScene \<Rightarrow> if tr_started s then next_scene s else s
      | PreviousScene \<Rightarrow> if tr_started s then previous_scene s else s
      | PlayTour \<Rightarrow> if tr_started s then s\<lparr>tr_playing := True\<rparr> else s
      | PauseTour \<Rightarrow> if tr_started s then s\<lparr>tr_playing := False\<rparr> else s
      | HandleStart scenarios cached \<Rightarrow> if tr_started s then s else handleStart scenarios cached s
      | HandleRestart \<Rightarrow> if tr_started s then handleRestart s else s
      | ToggleJudgeMode \<Rightarrow> if tr_started s then handleToggleJudgeMode s else s
      | ToggleNotes \<Rightarrow> if tr_started s \<and> \<not> tr_judgeMode s then s\<lparr>tr_notesVisible := \<not> tr_notesVisible s\<rparr> else s
      | IntervalTick \<Rightarrow> interval_tick s
      | SceneTimeout \<Rightarrow> scene_timeout s
      | TourReplay r \<Rightarrow> s\<lparr>tr_replay := replay_step hz (tr_replay s) r\<rparr>)"

definition tour_step :: "host_zone \<Rightarrow> tour_state \<Rightarrow> tour_event \<Rightarrow> tour_state" where
  "tour_step hz s e = tour_commit hz s (tour_apply hz s e)"

subsection \<open>The invariant\<close>

definition tour_inv :: "tour_state \<Rightarrow> bool" where
  "tour_inv s \<longleftrightarrow>
     0 \<le> tr_sceneIndex s \<and> tr_sceneIndex s < 10 \<and> 0 \<le> tr_elapsed s \<and> TICK_MS dvd tr_elapsed s \<and>
     (tr_playing s \<longrightarrow> tr_started s)"

lemma tour_scrub_fields [simp]:
  "tr_sceneIndex (tour_scrub hz s) = tr_sceneIndex s" "tr_elapsed (tour_scrub hz s) = tr_elapsed s"
  "tr_playing (tour_scrub hz s) = tr_playing s" "tr_started (tour_scrub hz s) = tr_started s"
  "tr_judgeMode (tour_scrub hz s) = tr_judgeMode s"
  by (simp_all add: tour_scrub_def Let_def)

lemma tour_commit_inv: "tour_inv new \<Longrightarrow> tour_inv (tour_commit hz old new)"
  by (auto simp: tour_inv_def tour_commit_def Let_def)

lemma tour_ops_inv [inv_step]:
  "tour_inv s \<Longrightarrow> tour_inv (next_scene s)" "tour_inv s \<Longrightarrow> tour_inv (previous_scene s)"
  "tour_inv s \<Longrightarrow> tour_inv (toggle_hud k s)" "tour_inv s \<Longrightarrow> tour_inv (handleToggleJudgeMode s)"
  "tour_inv s \<Longrightarrow> tour_inv (interval_tick s)" "tour_inv s \<Longrightarrow> tour_inv (scene_timeout s)"
  by (auto simp: tour_inv_def next_scene_def previous_scene_def toggle_hud_def handleToggleJudgeMode_def interval_tick_def
      scene_timeout_def scene_count TICK_MS_def)

lemma tour_start_inv [inv_step]:
  "tour_inv s \<Longrightarrow> tour_inv (handleStart scenarios cached s)" "tour_inv s \<Longrightarrow> tr_started s \<Longrightarrow> tour_inv (handleRestart s)"
  by (simp_all add: tour_inv_def handleStart_def handleRestart_def Let_def split: option.split)

lemma tour_flags_inv [inv_step]:
  "tour_inv s \<Longrightarrow> tr_started s \<Longrightarrow> tour_inv (s\<lparr>tr_playing := b\<rparr>)" "tour_inv s \<Longrightarrow> tour_inv (s\<lparr>tr_notesVisible := b\<rparr>)"
  "tour_inv s \<Longrightarrow> tour_inv (s\<lparr>tr_replay := r\<rparr>)" "tour_inv s \<Longrightarrow> tour_inv (s\<lparr>tr_playing := False, tr_started := False\<rparr>)"
  by (simp_all add: tour_inv_def)

lemma tour_key_inv [inv_step]: "tour_inv s \<Longrightarrow> tour_inv (tour_key k s)"
  by (simp add: tour_key_def inv_step)

lemma tour_apply_inv [inv_step]: "tour_inv s \<Longrightarrow> tour_inv (tour_apply hz s e)"
  by (cases e) (simp_all add: tour_apply_def inv_step)

interpretation tour: transition_system "tour_start r m" "tour_step hz" tour_inv for r m hz
proof
  show "tour_inv (tour_start r m)" by (simp add: tour_inv_def tour_start_def)
  show "tour_inv s \<Longrightarrow> tour_inv (tour_step hz s e)" for s e
    unfolding tour_step_def by (intro tour_commit_inv tour_apply_inv)
qed

lemma scene_at_inv: "0 \<le> i \<Longrightarrow> i < 10 \<Longrightarrow> scene_at i = Some (PRESENTATION_SCENES ! nat i)"
  by (simp add: scene_at_def scene_count)

lemma progress_nonneg: "0 \<le> totalElapsed s \<Longrightarrow> 0 \<le> progressPercent s"
  by (simp add: progressPercent_def nmul_def ndiv_def total_duration_value)

text \<open>
  (C37) In every state the tour can reach, by any interleaving of keys, buttons, timers and replay
  traffic, the scene exists, the remaining time is defined and not negative, the progress bar is
  between 0 and 100 percent, and while the scene's own clock has not run over, elapsed and
  remaining time add up to the length of the tour. The scene timer runs only in a started tour.
\<close>

theorem tour_clock_invariant:
  "(let s = foldl (tour_step hz) (tour_start r m) es
    in 0 \<le> tr_sceneIndex s \<and> tr_sceneIndex s < int (length PRESENTATION_SCENES) \<and>
       0 \<le> progressPercent s \<and> progressPercent s \<le> 100 \<and>
       (if tr_playing s then tr_started s else True) \<and>
       (case remainingMs s of
          None \<Rightarrow> False
        | Some left \<Rightarrow> 0 \<le> left \<and>
            (if tr_elapsed s \<le> scene_duration s then totalElapsed s + left = TOTAL_PRESENTATION_DURATION_MS else True)))"
proof -
  let ?s = "foldl (tour_step hz) (tour_start r m) es"
  have i: "0 \<le> tr_sceneIndex ?s" "tr_sceneIndex ?s < 10" "0 \<le> tr_elapsed ?s" "tr_playing ?s \<longrightarrow> tr_started ?s"
    using tour.inv_reachable[of hz r m es] by (simp_all add: tour_inv_def)
  note clock = scene_clock[OF i(1,2)]
  obtain l where l: "remainingAfterScene (tr_sceneIndex ?s) = Some l" using clock(4) by blast
  have d: "scene_duration ?s = sc_durationMs (PRESENTATION_SCENES ! nat (tr_sceneIndex ?s))"
    using i by (simp add: scene_duration_def scene_at_inv)
  have "0 \<le> progressPercent ?s" using clock(2) i(3) by (intro progress_nonneg) (simp add: totalElapsed_def)
  moreover have "progressPercent ?s \<le> 100" by (simp add: progressPercent_def)
  moreover have "remainingMs ?s = Some (max 0 (scene_duration ?s - tr_elapsed ?s) + l)" by (simp add: remainingMs_def l)
  ultimately show ?thesis using i clock(1,3) by (simp add: Let_def scene_count l totalElapsed_def d)
qed

subsection \<open>The tour ends\<close>

lemma scene_timeout_step:
  "tr_playing s \<Longrightarrow> tr_sceneIndex s < 9 \<Longrightarrow>
     tr_sceneIndex (tour_step hz s SceneTimeout) = tr_sceneIndex s + 1 \<and> tr_playing (tour_step hz s SceneTimeout)"
  "tr_playing s \<Longrightarrow> tr_sceneIndex s = 9 \<Longrightarrow>
     tr_sceneIndex (tour_step hz s SceneTimeout) = 9 \<and> \<not> tr_playing (tour_step hz s SceneTimeout)"
  by (simp_all add: tour_step_def tour_apply_def scene_timeout_def tour_commit_def scene_count Let_def)

lemma interval_tick_step:
  "tr_sceneIndex (tour_step hz s IntervalTick) = tr_sceneIndex s \<and> tr_playing (tour_step hz s IntervalTick) = tr_playing s"
  by (simp add: tour_step_def tour_apply_def interval_tick_def tour_commit_def Let_def)

lemma tour_ticks:
  "list_all (\<lambda>e. e = IntervalTick) es \<Longrightarrow> tr_sceneIndex (foldl (tour_step hz) s es) = tr_sceneIndex s \<and>
     tr_playing (foldl (tour_step hz) s es) = tr_playing s"
  using interval_tick_step by (induction es arbitrary: s) auto

text \<open>
  Left alone, the tour plays to its end and stops there: from any scene of a playing tour, the
  scene timeouts, with any number of clock ticks between them, advance it scene by scene, and the
  timeout of the closing scene stops it.
\<close>

theorem tour_reaches_closing:
  assumes "tr_playing s" and "tr_sceneIndex s = 9 - int (length ticks)"
    and "list_all (list_all (\<lambda>e. e = IntervalTick)) (t # ticks)"
  shows "(let s' = foldl (tour_step hz) s (concat (map (\<lambda>es. es @ [SceneTimeout]) (t # ticks)))
          in tr_sceneIndex s' = 9 \<and> \<not> tr_playing s')"
  using assms
proof (induction ticks arbitrary: s t)
  case Nil
  then show ?case using tour_ticks[of t hz s] scene_timeout_step(2) by (simp add: Let_def)
next
  case (Cons t' ticks)
  let ?s = "tour_step hz (foldl (tour_step hz) s t) SceneTimeout"
  have "tr_playing ?s" "tr_sceneIndex ?s = 9 - int (length ticks)"
    using Cons.prems tour_ticks[of t hz s] scene_timeout_step(1)[of "foldl (tour_step hz) s t" hz] by simp_all
  from Cons.IH[OF this] Cons.prems show ?case by (simp add: Let_def)
qed

theorem tour_reaches_closing_witness:
  "\<not> tr_playing (foldl (tour_step utc_zone) (handleStart None (\<lambda>_. None) (tour_start replay_start
       \<lparr>pn_active = False, pn_fullscreen = False, pn_requests = []\<rparr>))
     (concat (map (\<lambda>es. es @ [SceneTimeout]) (replicate 10 [IntervalTick]))))"
proof -
  let ?s = "handleStart None (\<lambda>_. None) (tour_start replay_start \<lparr>pn_active = False, pn_fullscreen = False, pn_requests = []\<rparr>)"
  have "tr_playing ?s" "tr_sceneIndex ?s = 9 - int (length (replicate 9 [IntervalTick]))"
    by (simp_all add: handleStart_def)
  moreover have "list_all (list_all (\<lambda>e. e = IntervalTick)) ([IntervalTick] # replicate 9 [IntervalTick])"
    by (simp add: list_all_iff)
  ultimately have "let s' = foldl (tour_step utc_zone) ?s
      (concat (map (\<lambda>es. es @ [SceneTimeout]) ([IntervalTick] # replicate 9 [IntervalTick]))) in
      tr_sceneIndex s' = 9 \<and> \<not> tr_playing s'" by (rule tour_reaches_closing)
  moreover have "[IntervalTick] # replicate 9 [IntervalTick] = replicate 10 [IntervalTick]" by (simp add: numeral_eq_Suc)
  ultimately show ?thesis by (simp only: Let_def not_False_eq_True)
qed

subsection \<open>The moments shown\<close>

lemma nearest_exact:
  assumes "t \<in> set ts" and "Date_getTime hz t = Some m"
  shows "findNearestTimestampIndex hz ts t < length ts \<and> Date_getTime hz (ts ! findNearestTimestampIndex hz ts t) = Some m"
proof -
  let ?ds = "map (time_delta hz (Date_getTime hz t)) ts"
  obtain i b where ib: "foldl nearer (0, None) (enumerate 0 ?ds) = (i, b)" by fastforce
  have n: "nearest_index ?ds (i, b)" using foldl_nearer[of ?ds] by (simp add: ib)
  from assms(1) obtain j where j: "j < length ts" "ts ! j = t" by (auto simp: in_set_conv_nth)
  then have dj: "?ds ! j = Some 0" using assms(2) by (simp add: time_delta_def)
  have i: "findNearestTimestampIndex hz ts t = i" using assms(1) by (auto simp: findNearestTimestampIndex_def ib)
  show ?thesis
  proof (cases b)
    case None
    with n j dj show ?thesis by (auto simp: nearest_index_def)
  next
    case (Some x)
    with n have x: "i < length ts" "?ds ! i = Some x" "x \<le> 0" using j dj by (auto simp: nearest_index_def)
    then have "Date_getTime hz (ts ! i) = Some m"
      using assms(2) by (auto simp: time_delta_def split: option.splits)
    with x(1) i show ?thesis by simp
  qed
qed

lemma zoneTimeline_in_axis: "a \<in> set (zoneTimeline r z) \<Longrightarrow> ra_timestamp a \<in> set (allTimestamps r)"
proof -
  assume "a \<in> set (zoneTimeline r z)"
  then obtain d where d: "rs_data r = Some d" by (cases "rs_data r") (simp_all add: zoneTimeline_def)
  with \<open>a \<in> _\<close> obtain t where t: "List.find (\<lambda>t. zt_zone_id t = z) (rd_zone_timelines d) = Some t" "a \<in> set (zt_assessments t)"
    by (cases "List.find (\<lambda>t. zt_zone_id t = z) (rd_zone_timelines d)") (simp_all add: zoneTimeline_def)
  then have "t \<in> set (rd_zone_timelines d)" using find_eq_Some_D by fastforce
  with d t(2) show ?thesis by (auto simp: allTimestamps_def mergeTimestamps_def)
qed

lemma focusTimeline_in_axis: "a \<in> set (focusTimeline r) \<Longrightarrow> ra_timestamp a \<in> set (allTimestamps r)"
  by (auto simp: focusTimeline_def zoneTimeline_in_axis split: option.splits)

lemma jump_shows:
  assumes "t \<in> set (allTimestamps r)" "Date_getTime hz t = Some m"
  shows "\<exists>c. currentTimestamp (jumpToTimestamp hz t r) = Some c \<and> Date_getTime hz c = Some m"
  using nearest_exact[OF assms] by (simp add: currentTimestamp_def jumpToTimestamp_def)

lemma currentTimestamp_pause [simp]: "currentTimestamp (pause r) = currentTimestamp r"
  by (simp add: currentTimestamp_def pause_def)

text \<open>
  Entering a scene of the story really moves the shared replay cursor: after the scrubbing effect of
  a started tour with a loaded replay, the cursor stands, in a scene that holds on the peak, at the
  instant of the focus zone's first highest-scoring tick, and in the incident scene at the instant
  of its first tick that is not normal.
\<close>

theorem tour_holds_real_moment:
  assumes "tr_started s" "rs_target (tr_replay s) \<noteq> None" "focusTimeline (tr_replay s) \<noteq> []"
    and "list_all (\<lambda>a. Date_getTime hz (ra_timestamp a) \<noteq> None) (focusTimeline (tr_replay s))"
  shows "(let tl = focusTimeline (tr_replay s); shown = currentTimestamp (tr_replay (tour_scrub hz s));
              instant = (\<lambda>i. Date_getTime hz (ra_timestamp (tl ! i)))
          in (if scene_key s \<in> set PEAK_TICK_SCENES
              then is_first_max ra_compound_risk_score tl (tl ! findPeakIndex tl) \<and>
                   Option.bind shown (Date_getTime hz) = instant (findPeakIndex tl) else True) \<and>
             (if scene_key s = ''incident-begins''
              then Option.bind shown (Date_getTime hz) = instant (findFirstEscalationIndex tl) else True))"
proof -
  let ?tl = "focusTimeline (tr_replay s)"
  have at_tick: "Option.bind (currentTimestamp (jumpToTimestamp hz (ra_timestamp (?tl ! i)) (tr_replay s))) (Date_getTime hz) =
      Date_getTime hz (ra_timestamp (?tl ! i))" if "i < length ?tl" for i
  proof -
    from that have a: "?tl ! i \<in> set ?tl" by simp
    with assms(4) obtain m where "Date_getTime hz (ra_timestamp (?tl ! i)) = Some m" by (auto simp: list_all_iff)
    with jump_shows[OF focusTimeline_in_axis[OF a] this] show ?thesis by auto
  qed
  note peak = findPeakIndex_first_max[OF assms(3)]
  have first: "findFirstEscalationIndex ?tl < length ?tl"
    using findFirstEscalationIndex_spec[of ?tl] assms(3) by (simp split: if_splits)
  have "''incident-begins'' \<notin> set PEAK_TICK_SCENES" by (simp add: PEAK_TICK_SCENES_def)
  then show ?thesis
    using assms(1-3) peak at_tick[OF peak(1)] at_tick[OF first] by (auto simp: tour_scrub_def Let_def)
qed

definition sample_tour :: tour_state where
  "sample_tour =
     (tour_start (startReplay (scenario_target ''k'') (Some sample_replay) replay_start)
        \<lparr>pn_active = False, pn_fullscreen = False, pn_requests = []\<rparr>)\<lparr>tr_started := True, tr_sceneIndex := 3\<rparr>"

lemma sample_tour_timeline:
  "focusTimeline (tr_replay sample_tour) =
     [sample_assessment ''2026-01-01T00:00:00Z'' 10 ''normal'', sample_assessment ''2026-01-01T00:01:00Z'' 90 ''critical'']"
  by (simp add: sample_tour_def tour_start_def startReplay_def reset_for_target_def focusTimeline_def focusZoneId_def
      sample_replay_def zoneTimeline_def truthy_def)

theorem tour_holds_real_moment_witness:
  "scene_key sample_tour \<in> set PEAK_TICK_SCENES \<and>
   (let tl = focusTimeline (tr_replay sample_tour)
    in Option.bind (currentTimestamp (tr_replay (tour_scrub utc_zone sample_tour))) (Date_getTime utc_zone) =
       Date_getTime utc_zone (ra_timestamp (tl ! findPeakIndex tl)))"
proof -
  have k: "scene_key sample_tour \<in> set PEAK_TICK_SCENES"
    by (simp add: scene_key_def scene_at_def sample_tour_def tour_start_def PRESENTATION_SCENES_def PEAK_TICK_SCENES_def)
  have "tr_started sample_tour" "rs_target (tr_replay sample_tour) \<noteq> None" "focusTimeline (tr_replay sample_tour) \<noteq> []"
    by (simp_all add: sample_tour_timeline) (simp_all add: sample_tour_def tour_start_def startReplay_def reset_for_target_def)
  moreover have "list_all (\<lambda>a. Date_getTime utc_zone (ra_timestamp a) \<noteq> None) (focusTimeline (tr_replay sample_tour))"
    unfolding sample_tour_timeline by code_simp
  ultimately show ?thesis using tour_holds_real_moment[of sample_tour utc_zone] k by (simp add: Let_def)
qed

subsection \<open>Restarting in the first scene\<close>

text \<open>The clock is reset by a change of scene only, so restarting in the first scene keeps what has elapsed.\<close>

lemma restart_in_first_scene_keeps_clock:
  "tr_started s \<Longrightarrow> tr_sceneIndex s = 0 \<Longrightarrow> tr_elapsed (tour_step hz s HandleRestart) = tr_elapsed s"
  by (simp add: tour_step_def tour_apply_def handleRestart_def tour_commit_def Let_def)

end
