(* ===== verification/Decimal_Text.thy ===== *)
theory Decimal_Text
  imports Json_Text
begin

section \<open>Decimal text\<close>

text \<open>
  What the printers of \<open>Js_Number\<close> and \<open>Js_Date\<close> write, the parsers of \<open>Json_Text\<close> and \<open>Js_Date\<close> read back: the digits of
  a natural number, padded or not; every machine number through \<open>num_toString\<close>, because 17 significant digits always identify
  it; and a time, to the minute, through the first sixteen characters of \<open>toISOString\<close>.
\<close>

subsection \<open>Digits\<close>

lemma digit_value_digit: "d < 10 \<Longrightarrow> digit_value (digit d) = Some d"
proof -
  assume "d < 10"
  then have "d \<in> set [0..<10]" by simp
  moreover have "list_all (\<lambda>d. digit_value (digit d) = Some d) [0..<10]" by code_simp
  ultimately show ?thesis by (auto simp: list_all_iff)
qed

lemma digit_value_zero: "digit_value CHR ''0'' = Some 0"
  by (simp add: digit_value_def)

definition all_digits :: "string \<Rightarrow> bool" where
  "all_digits s \<longleftrightarrow> list_all (\<lambda>c. digit_value c \<noteq> None) s"

lemma all_digits_simps [simp]:
  "all_digits []" "all_digits (c # s) \<longleftrightarrow> digit_value c \<noteq> None \<and> all_digits s" "all_digits (s @ t) \<longleftrightarrow> all_digits s \<and> all_digits t"
  "all_digits (replicate n CHR ''0'')"
  by (auto simp: all_digits_def list_all_iff digit_value_zero)

lemma show_nat_digits: "all_digits (show_nat n)"
proof (induction n rule: show_nat.induct)
  case (1 n)
  then show ?case by (subst show_nat.simps) (simp add: digit_value_digit)
qed

lemma digits_value_append: "digits_value (s @ [c]) = 10 * digits_value s + the (digit_value c)"
  by (simp add: digits_value_def)

lemma digits_value_show: "digits_value (show_nat n) = n"
proof (induction n rule: show_nat.induct)
  case (1 n)
  show ?case
  proof (cases "n < 10")
    case True
    then show ?thesis by (subst show_nat.simps) (simp add: digits_value_def digit_value_digit)
  next
    case False
    with 1 show ?thesis by (subst show_nat.simps) (simp add: digits_value_append digit_value_digit)
  qed
qed

lemma digits_value_padded: "digits_value (replicate k CHR ''0'' @ s) = digits_value s"
  by (induction k) (simp_all add: digits_value_def digit_value_zero)

lemma show_nat_length: "n < 10 ^ Suc k \<Longrightarrow> length (show_nat n) \<le> Suc k"
proof (induction k arbitrary: n)
  case 0
  then show ?case by (subst show_nat.simps) simp
next
  case (Suc k)
  then have "n div 10 < 10 ^ Suc k" by (simp add: div_less_iff_less_mult mult.commute)
  with Suc.IH show ?case by (subst show_nat.simps) simp
qed

lemma show_nat_nonempty: "show_nat n \<noteq> []"
  by (subst show_nat.simps) simp

lemma hd_show_nat: "0 < n \<Longrightarrow> hd (show_nat n) \<noteq> CHR ''0''"
proof (induction n rule: show_nat.induct)
  case (1 n)
  show ?case
  proof (cases "n < 10")
    case True
    with 1(2) have "digit_value (digit n) \<noteq> digit_value CHR ''0''" by (simp add: digit_value_digit digit_value_zero)
    then have "digit n \<noteq> CHR ''0''" by metis
    then show ?thesis using True by (subst show_nat.simps) simp
  next
    case False
    with 1 have "hd (show_nat (n div 10)) \<noteq> CHR ''0''" by simp
    with False show ?thesis by (subst show_nat.simps) (simp add: show_nat_nonempty)
  qed
qed

text \<open>A number without superfluous zeros: one digit, or a first digit other than 0.\<close>

lemma show_nat_canonical: "length (show_nat n) \<le> 1 \<or> hd (show_nat n) \<noteq> CHR ''0''"
  using hd_show_nat[of n] show_nat_length[of 0 0] by (cases "n = 0") simp_all

subsection \<open>Padded digits\<close>

lemma pad_left_facts:
  "all_digits (pad_left k (show_nat n))" "digits_value (pad_left k (show_nat n)) = n"
  "n < 10 ^ Suc j \<Longrightarrow> Suc j \<le> k \<Longrightarrow> length (pad_left k (show_nat n)) = k"
  using show_nat_length[of n j] by (simp_all add: pad_left_def show_nat_digits digits_value_padded digits_value_show)

lemma take_digits_all:
  "all_digits ds \<Longrightarrow> take_digits (length ds) acc (ds @ s) = Some (foldl (\<lambda>n c. 10 * n + the (digit_value c)) acc ds, s)"
  by (induction ds arbitrary: acc) auto

lemma take_padded:
  assumes "n < 10 ^ Suc j"
  shows "take_digits (Suc j) 0 (pad_left (Suc j) (show_nat n) @ s) = Some (n, s)"
proof -
  have len: "length (pad_left (Suc j) (show_nat n)) = Suc j" by (rule pad_left_facts(3)[OF assms]) simp
  then show ?thesis
    using take_digits_all[OF pad_left_facts(1), of "Suc j" n 0 s] pad_left_facts(2)[of "Suc j" n]
    by (simp add: digits_value_def)
qed

subsection \<open>Seventeen significant digits\<close>

lemma round_half_even_near: "\<bar>y - of_int n\<bar> < 1/2 \<Longrightarrow> round_half_even y = n"
proof -
  assume near: "\<bar>y - of_int n\<bar> < 1/2"
  consider "\<lfloor>y\<rfloor> = n" | "\<lfloor>y\<rfloor> = n - 1"
  proof -
    have "of_int (n - 1) \<le> y" "y < of_int (n + 1)" using near unfolding of_int_diff of_int_add of_int_1 by linarith+
    then have "n - 1 \<le> \<lfloor>y\<rfloor>" "\<lfloor>y\<rfloor> < n + 1" by (simp_all only: le_floor_iff floor_less_iff)
    then show ?thesis using that by linarith
  qed
  then show ?thesis
  proof cases
    case 1
    then have "y - of_int \<lfloor>y\<rfloor> < 1/2" using near by linarith
    with 1 show ?thesis by (simp add: round_half_even_def Let_def)
  next
    case 2
    then have "of_int \<lfloor>y\<rfloor> = of_int n - (1::rat)" by simp
    then have "1/2 < y - of_int \<lfloor>y\<rfloor>" using near by linarith
    then show ?thesis by (simp add: round_half_even_def Let_def 2)
  qed
qed

lemma round_half_even_error: "\<bar>of_int (round_half_even y) - y\<bar> \<le> 1/2"
proof -
  have "of_int \<lfloor>y\<rfloor> \<le> y" "y < of_int \<lfloor>y\<rfloor> + 1" by linarith+
  then show ?thesis unfolding round_half_even_def Let_def by (simp add: abs_le_iff)
qed

lemma round_half_even_nonneg: "0 \<le> y \<Longrightarrow> 0 \<le> round_half_even y"
  using round_half_even_ge[of 0 y] by simp

text \<open>A positive machine number is an integer of 53 bits times a power of two.\<close>

lemma machine_number:
  assumes "0 < x" and "fl x = x"
  obtains n where "x = of_int n * 2 powi (ilog2 x - 52)" and "2 ^ 52 \<le> n" and "n < 2 ^ 53"
proof -
  define u :: rat where "u = 2 powi (ilog2 x - 52)"
  define n where "n = round_half_even (x / u)"
  have u: "0 < u" by (simp add: u_def)
  have x: "x = of_int n * u" using assms by (simp add: fl_def fl_pos_def n_def u_def Let_def)
  have e52: "2 powi ilog2 x = 2 ^ 52 * u" and e53: "2 powi (ilog2 x + 1) = 2 ^ 53 * u"
    by (simp_all add: u_def power_int_diff power_int_add)
  have "of_int (2 ^ 52) * u \<le> of_int n * u" "of_int n * u < of_int (2 ^ 53) * u"
    using ilog2_bounds[OF assms(1)] unfolding e52 e53 x[symmetric] by simp_all
  then have "(of_int (2 ^ 52) :: rat) \<le> of_int n" "(of_int n :: rat) < of_int (2 ^ 53)"
    using u by (simp_all only: mult_le_cancel_right_pos mult_less_cancel_right_pos)
  then have "2 ^ 52 \<le> n" "n < 2 ^ 53" by (simp_all only: of_int_le_iff of_int_less_iff)
  with x that show ?thesis unfolding u_def by blast
qed

text \<open>Whatever is within the relative distance of half a unit of the seventeenth digit rounds back.\<close>

lemma fl_near:
  assumes x: "0 < x" "fl x = x" and near: "\<bar>c - x\<bar> \<le> x / (2 * 10 ^ 16)"
  shows "fl c = x"
proof -
  define u :: rat where "u = 2 powi (ilog2 x - 52)"
  have u: "0 < u" by (simp add: u_def)
  from machine_number[OF x] obtain n where n: "x = of_int n * u" "2 ^ 52 \<le> n" "n < 2 ^ 53" unfolding u_def .
  have lo: "2 powi ilog2 x = 2 ^ 52 * u" and hi: "2 powi (ilog2 x + 1) = 2 ^ 53 * u"
    by (simp_all add: u_def power_int_diff power_int_add)
  have "of_int n \<le> (of_int (2 ^ 53 - 1) :: rat)" using n(3) by (simp only: of_int_le_iff)
  then have top: "x \<le> 2 ^ 53 * u - u" unfolding n(1) using mult_right_mono[of "of_int n" "2 ^ 53 - 1" u] u by (simp add: algebra_simps)
  have half: "\<bar>c - x\<bar> < u / 2" using near top u by (simp add: field_simps)
  have c: "0 < c" using near x by (simp add: abs_if field_simps split: if_splits)
  show ?thesis
  proof (cases "2 powi ilog2 x \<le> c")
    case True
    moreover have "c < 2 powi (ilog2 x + 1)" using half top unfolding hi by linarith
    ultimately have "ilog2 c = ilog2 x" by (rule ilog2_unique)
    moreover have "\<bar>c / u - of_int n\<bar> < 1/2"
    proof -
      have "c / u - of_int n = (c - x) / u" using u by (simp add: n(1) field_simps)
      then have "\<bar>c / u - of_int n\<bar> = \<bar>c - x\<bar> / u" using u by simp
      also have "\<dots> < 1/2" using half u by (simp add: pos_divide_less_eq)
      finally show ?thesis .
    qed
    then have "round_half_even (c / u) = n" by (rule round_half_even_near)
    ultimately have "fl c = of_int n * u" using c by (simp add: fl_def fl_pos_def u_def Let_def)
    then show ?thesis by (simp add: n(1))
  next
    case False
    then have below: "c < 2 ^ 52 * u" unfolding lo by simp
    have "n = 2 ^ 52"
    proof (rule ccontr)
      assume "n \<noteq> 2 ^ 52"
      then have "(of_int (2 ^ 52 + 1) :: rat) \<le> of_int n" using n(2) by (simp only: of_int_le_iff)
      then have "2 ^ 52 * u + u \<le> x" unfolding n(1) using mult_right_mono[of "2 ^ 52 + 1" "of_int n" u] u by (simp add: algebra_simps)
      with half below show False by linarith
    qed
    then have x52: "x = 2 ^ 52 * u" by (simp add: n(1))
    have quarter: "\<bar>c - x\<bar> < u / 4" using near u unfolding x52 by (simp add: field_simps)
    have "ilog2 c = ilog2 x - 1"
    proof (rule ilog2_unique)
      have "2 powi (ilog2 x - 1) = 2 ^ 51 * u" by (simp add: u_def power_int_diff)
      moreover have "x - c < u / 4" using quarter by linarith
      then have "2 ^ 51 * u \<le> c" using u unfolding x52 by simp
      ultimately show "2 powi (ilog2 x - 1) \<le> c" by simp
      show "c < 2 powi (ilog2 x - 1 + 1)" using below lo by simp
    qed
    moreover have v: "2 powi (ilog2 x - 1 - 52) = u / 2" by (simp add: u_def power_int_diff)
    moreover have "\<bar>c / (u / 2) - of_int (2 ^ 53)\<bar> < 1/2"
    proof -
      have "c / (u / 2) - of_int (2 ^ 53) = 2 * (c - x) / u" using u by (simp add: x52 field_simps)
      then have "\<bar>c / (u / 2) - of_int (2 ^ 53)\<bar> = \<bar>2 * (c - x) / u\<bar>" by (simp only:)
      also have "\<dots> = 2 * \<bar>c - x\<bar> / u" using u unfolding abs_divide abs_mult by simp
      also have "\<dots> < 1/2" using quarter u by (simp add: pos_divide_less_eq)
      finally show ?thesis .
    qed
    then have "round_half_even (c / (u / 2)) = 2 ^ 53" by (rule round_half_even_near)
    ultimately have "fl_pos c = of_int (2 ^ 53) * (u / 2)" unfolding fl_pos_def Let_def by (simp only:)
    then have "fl c = 2 ^ 53 * (u / 2)" using c by (simp add: fl_def)
    then show ?thesis by (simp add: x52)
  qed
qed

lemma ilog10_le:
  assumes "0 < x"
  shows "10 powi ilog10 x \<le> x"
proof -
  obtain p q where pq: "quotient_of x = (p, q)" by (cases "quotient_of x")
  then have q: "0 < q" and x: "x = of_int p / of_int q"
    by (auto dest: quotient_of_denom_pos quotient_of_div)
  with assms have p: "0 < p" by (simp add: zero_less_divide_iff)
  define a b where "a = floorlog 10 (nat p)" and "b = floorlog 10 (nat q)"
  have a: "1 \<le> a" using p unfolding a_def by (auto simp: floorlog_def)
  have pa: "10 ^ (a - 1) \<le> nat p" using floorlog_bounds[of "nat p" 10] p unfolding a_def by auto
  have qb: "nat q < 10 ^ b" using floorlog_bounds[of "nat q" 10] q unfolding b_def by auto
  have "of_int q \<le> (10::rat) ^ b" using qb q
    by (metis nat_less_iff of_int_less_iff of_int_numeral of_int_power of_nat_numeral of_nat_power order_less_imp_le)
  moreover have "(10::rat) ^ (a - 1) \<le> of_int p" using pa p
    by (metis le_nat_iff of_int_le_iff of_int_numeral of_int_power of_nat_numeral of_nat_power order_less_imp_le)
  ultimately have "(10::rat) ^ (a - 1) / 10 ^ b \<le> x" unfolding x using q p by (intro frac_le) auto
  moreover have "(10::rat) ^ (a - 1) / 10 ^ b = 10 powi (int a - int b - 1)"
    using a by (simp add: power_int_diff of_nat_diff[symmetric] power_diff)
  ultimately show ?thesis by (auto simp: ilog10_def pq a_def[symmetric] b_def[symmetric] Let_def)
qed

lemma decimal_candidate_reads:
  assumes "0 < x" and "fl x = x" and "decimal_candidate x 17 = (s, e)"
  shows "fl (of_int s * 10 powi e) = x"
proof (rule fl_near[OF assms(1,2)])
  have e: "e = ilog10 x - 16" and s: "s = round_half_even (x / 10 powi e)"
    using assms(3) by (auto simp: decimal_candidate_def Let_def)
  have p: "(0::rat) < 10 powi e" by simp
  have "of_int s * 10 powi e - x = (of_int s - x / 10 powi e) * 10 powi e" using p by (simp add: field_simps)
  then have "\<bar>of_int s * 10 powi e - x\<bar> = \<bar>of_int s - x / 10 powi e\<bar> * 10 powi e" using p by (simp add: abs_mult)
  also have "\<dots> \<le> 1/2 * 10 powi e" unfolding s using round_half_even_error p by (intro mult_right_mono) auto
  also have "\<dots> = 10 powi ilog10 x / (2 * 10 ^ 16)" by (simp add: e power_int_diff)
  also have "\<dots> \<le> x / (2 * 10 ^ 16)" using ilog10_le[OF assms(1)] by (intro divide_right_mono) simp_all
  finally show "\<bar>of_int s * 10 powi e - x\<bar> \<le> x / (2 * 10 ^ 16)" .
qed

lemma shortest_reads:
  assumes "0 < x" and "fl x = x" and "shortest x = (s, e)"
  shows "fl (of_int s * 10 powi e) = x" and "0 \<le> s"
proof -
  have "\<exists>k. decimal_candidate x k = (s, e) \<and> (k = 17 \<or> fl (of_int s * 10 powi e) = x)"
  proof (cases "List.find (\<lambda>k. let (s, e) = decimal_candidate x k in fl (of_int s * 10 powi e) = x) [1..<18]")
    case None
    then show ?thesis using assms(3) by (auto simp: shortest_def)
  next
    case (Some k)
    then have "let (s, e) = decimal_candidate x k in fl (of_int s * 10 powi e) = x" by (auto simp: find_Some_iff)
    moreover have "decimal_candidate x k = (s, e)" using assms(3) unfolding shortest_def Some by simp
    ultimately show ?thesis by auto
  qed
  then obtain k where k: "decimal_candidate x k = (s, e)" "k = 17 \<or> fl (of_int s * 10 powi e) = x" by blast
  then show "fl (of_int s * 10 powi e) = x" using decimal_candidate_reads[OF assms(1,2)] by auto
  have "0 \<le> x / 10 powi e" using assms(1) by simp
  then show "0 \<le> s" using k(1) round_half_even_nonneg by (auto simp: decimal_candidate_def Let_def)
qed

subsection \<open>A printed number is read back\<close>

text \<open>The text behind a number must not go on like a number.\<close>

definition number_end :: "string \<Rightarrow> bool" where
  "number_end t \<longleftrightarrow> (case t of [] \<Rightarrow> True | c # r \<Rightarrow> digit_value c = None \<and> c \<noteq> CHR ''.'' \<and> c \<noteq> CHR ''e'' \<and> c \<noteq> CHR ''E'')"

lemma span_digits_all:
  assumes "all_digits ds" and "case t of [] \<Rightarrow> True | c # r \<Rightarrow> digit_value c = None"
  shows "span_digits (ds @ t) = (ds, t)"
  using assms by (cases t) (auto simp: span_digits_def all_digits_def list_all_iff)

lemma number_end_parts:
  assumes "number_end t"
  shows "parse_fraction_part t = Some ([], t)" "parse_exponent t = Some (0, t)" "case t of [] \<Rightarrow> True | c # r \<Rightarrow> digit_value c = None"
  using assms by (auto simp: number_end_def parse_fraction_part_def parse_exponent_def split: list.splits)

definition signed :: "bool \<Rightarrow> string \<Rightarrow> string" where
  "signed neg s = (if neg then ''-'' else []) @ s"

lemma parse_whole:
  assumes "number_end t"
  shows "parse_number (signed neg (show_nat m) @ t) = Some (JNum (fl (if neg then - of_nat m else of_nat m)), t)"
proof -
  note e = number_end_parts[OF assms]
  have "digit_value (hd (show_nat m)) \<noteq> None"
    using show_nat_digits[of m] show_nat_nonempty[of m] by (cases "show_nat m") simp_all
  then have "hd (show_nat m @ t) \<noteq> CHR ''-''" using show_nat_nonempty[of m] by (auto simp: digit_value_def)
  then show ?thesis
    using e show_nat_canonical[of m] show_nat_nonempty[of m] span_digits_all[OF show_nat_digits e(3), of m]
    by (auto simp: parse_number_def signed_def Let_def digits_value_show)
qed

lemma parse_decimal:
  assumes "number_end t" and "all_digits ds" and "ds \<noteq> []" and "length ds \<le> 1 \<or> hd ds \<noteq> CHR ''0''"
    and "all_digits fs" and "fs \<noteq> []"
  shows "parse_number (signed neg ds @ ''.'' @ fs @ t) =
    (let x = of_nat (digits_value (ds @ fs)) * 10 powi (- int (length fs))
     in Some (JNum (fl (if neg then - x else x)), t))"
proof -
  note e = number_end_parts[OF assms(1)]
  have "digit_value (hd ds) \<noteq> None" using assms(2,3) by (cases ds) simp_all
  then have "hd (ds @ ''.'' @ fs @ t) \<noteq> CHR ''-''" using assms(3) by (auto simp: digit_value_def)
  moreover have "span_digits (ds @ ''.'' @ fs @ t) = (ds, ''.'' @ fs @ t)"
    using assms(2) by (intro span_digits_all) (simp_all add: digit_value_def)
  moreover have "parse_fraction_part (''.'' @ fs @ t) = Some (fs, t)"
    using span_digits_all[OF assms(5) e(3)] assms(6) by (simp add: parse_fraction_part_def)
  ultimately show ?thesis using e(2) assms(3,4) by (auto simp: parse_number_def signed_def Let_def)
qed

lemma split_padded:
  assumes "all_digits ds" and "length ds \<le> Suc d \<or> hd ds \<noteq> CHR ''0''" and "0 < d"
  shows "let t = pad_left (d + 1) ds; k = length t - d
    in all_digits (take k t) \<and> all_digits (drop k t) \<and> take k t \<noteq> [] \<and> length (drop k t) = d \<and>
       (length (take k t) \<le> 1 \<or> hd (take k t) \<noteq> CHR ''0'') \<and> digits_value (take k t @ drop k t) = digits_value ds"
proof -
  define t where "t = pad_left (d + 1) ds"
  have len: "length t = max (d + 1) (length ds)" by (simp add: t_def pad_left_def)
  have "all_digits t" using assms(1) by (simp add: t_def pad_left_def)
  then have parts: "all_digits (take (length t - d) t)" "all_digits (drop (length t - d) t)"
    by (metis all_digits_simps(3) append_take_drop_id)+
  have "length (take (length t - d) t) \<le> 1 \<or> hd (take (length t - d) t) \<noteq> CHR ''0''"
  proof (cases "length ds \<le> Suc d")
    case True
    then show ?thesis by (simp add: len)
  next
    case False
    then have "t = ds" by (simp add: t_def pad_left_def)
    with False assms(2) show ?thesis by simp
  qed
  moreover have "digits_value t = digits_value ds" by (simp add: t_def pad_left_def digits_value_padded)
  moreover have "t \<noteq> []" "length t - d \<noteq> 0" using len by auto
  ultimately show ?thesis unfolding Let_def t_def[symmetric] using parts len by simp
qed

lemma parse_positive:
  assumes x: "0 < x" "fl x = x" and t: "number_end t"
  shows "parse_number (signed neg (num_toString_pos x) @ t) = Some (JNum (if neg then - x else x), t)"
proof (cases "x = of_int \<lfloor>x\<rfloor>")
  case True
  then have "of_nat (nat \<lfloor>x\<rfloor>) = x" using x(1) by (metis less_imp_le of_nat_nat zero_le_floor)
  then show ?thesis using parse_whole[OF t, of neg "nat \<lfloor>x\<rfloor>"] x(2) True by (simp add: num_toString_pos_def)
next
  case False
  obtain s e where se: "shortest x = (s, e)" by fastforce
  note reads = shortest_reads[OF x se]
  show ?thesis
  proof (cases "0 \<le> e")
    case True
    have "of_nat (nat s * 10 ^ nat e) = of_int s * (10::rat) powi e"
      using True reads(2) by (simp add: power_int_def)
    then have "fl (of_nat (nat s * 10 ^ nat e)) = x" using reads(1) by simp
    then show ?thesis using parse_whole[OF t, of neg "nat s * 10 ^ nat e"] False True
      by (simp add: num_toString_pos_def se Let_def)
  next
    case below: False
    define d where "d = nat (- e)"
    have d: "0 < d" "e = - int d" using below by (simp_all add: d_def)
    define w where "w = pad_left (d + 1) (show_nat (nat s))"
    define k where "k = length w - d"
    have "length (show_nat (nat s)) \<le> Suc d \<or> hd (show_nat (nat s)) \<noteq> CHR ''0''"
      using show_nat_canonical[of "nat s"] by auto
    from split_padded[OF show_nat_digits this d(1)]
    have w: "all_digits (take k w)" "all_digits (drop k w)" "take k w \<noteq> []" "length (drop k w) = d"
      "length (take k w) \<le> 1 \<or> hd (take k w) \<noteq> CHR ''0''" "digits_value (take k w @ drop k w) = nat s"
      unfolding Let_def w_def[symmetric] k_def[symmetric] digits_value_show by blast+
    have printed: "num_toString_pos x = take k w @ ''.'' @ drop k w"
      using False below by (simp add: num_toString_pos_def se Let_def w_def k_def d_def)
    have "drop k w \<noteq> []" using w(4) d(1) by auto
    moreover have "of_nat (nat s) * (10::rat) powi (- int d) = of_int s * 10 powi e" using reads(2) d(2) by simp
    ultimately show ?thesis
      using parse_decimal[OF t w(1,3,5,2), of neg] reads(1)
      unfolding printed w(4,6) by (simp add: signed_def Let_def)
  qed
qed

lemma num_toString_reads:
  assumes "fl x = x" and t: "number_end t"
  shows "parse_number (num_toString x @ t) = Some (JNum x, t)"
proof -
  consider "x = 0" | "0 < x" | "x < 0" by linarith
  then show ?thesis
  proof cases
    case 1
    then show ?thesis using parse_whole[OF t, of False 0] by (simp add: num_toString_def num_toString_pos_def signed_def)
  next
    case 2
    then show ?thesis using parse_positive[OF 2 assms(1) t, of False] by (simp add: num_toString_def signed_def)
  next
    case 3
    then have "fl (- x) = - x" "0 < - x" using assms(1) by simp_all
    then show ?thesis using parse_positive[of "- x" t True] t 3 by (simp add: num_toString_def signed_def)
  qed
qed

subsection \<open>A printed time is read back to the minute\<close>

lemma month_range: "1 \<le> MonthFromDay z" "MonthFromDay z \<le> 12"
  by (simp_all add: MonthFromDay_def Let_def)

lemma date_range: "1 \<le> DateFromDay z" "DateFromDay z \<le> 31"
proof -
  define y where "y = YearFromDay z"
  define doy where "doy = z - DayFromYear y"
  have doy: "0 \<le> doy" "doy < (if is_leap y then 366 else 365)"
    using YearFromDay_bounds[of z] DayFromYear_Suc[of y] by (simp_all add: y_def doy_def)
  have d: "DateFromDay z = doy - days_before_month (is_leap y) (MonthFromDay z) + 1"
    by (simp add: DateFromDay_def Let_def doy_def y_def)
  have "0 \<le> doy - days_before_month (is_leap y) (MonthFromDay z) \<and> doy - days_before_month (is_leap y) (MonthFromDay z) \<le> 30"
    unfolding MonthFromDay_def Let_def y_def[symmetric] doy_def[symmetric] using doy
    by (cases "is_leap y"; simp add: days_before_month_def)
  then show "1 \<le> DateFromDay z" "DateFromDay z \<le> 31" unfolding d by simp_all
qed

lemma iso_day:
  assumes "0 \<le> YearFromDay z" and "YearFromDay z \<le> 9999"
  shows "parse_day (pad_left 4 (show_nat (nat (YearFromDay z))) @ ''-'' @ pad_left 2 (show_nat (nat (MonthFromDay z))) @ ''-''
      @ pad_left 2 (show_nat (nat (DateFromDay z))) @ s) = Some (z, s)"
proof -
  have n: "nat (YearFromDay z) < 10 ^ Suc 3" "nat (MonthFromDay z) < 10 ^ Suc 1" "nat (DateFromDay z) < 10 ^ Suc 1"
    using assms month_range[of z] date_range[of z] by simp_all
  have four: "(4::nat) = Suc 3" and two: "(2::nat) = Suc 1" by simp_all
  note t = take_padded[OF n(1), folded four] take_padded[OF n(2), folded two] take_padded[OF n(3), folded two]
  have "1 \<le> nat (MonthFromDay z)" "nat (MonthFromDay z) \<le> 12" "1 \<le> nat (DateFromDay z)" "nat (DateFromDay z) \<le> 31"
    using month_range[of z] date_range[of z] by linarith+
  then show ?thesis
    using assms MakeDay_of_day[of z] month_range(1)[of z] date_range(1)[of z] by (simp add: parse_day_def t expect_def)
qed

lemma minute_of_day:
  fixes r :: nat
  assumes "r < 86400000"
  shows "int (r div 3600000) * 3600000 + int (r div 60000 mod 60) * 60000 = int r - int (r mod 60000)" "r div 3600000 \<le> 23"
proof -
  have "r div 60000 = 60 * (r div 60000 div 60) + r div 60000 mod 60" by simp
  moreover have "r div 60000 div 60 = r div 3600000" by (simp add: div_mult2_eq[symmetric])
  moreover have "r = 60000 * (r div 60000) + r mod 60000" by simp
  ultimately have "r div 3600000 * 3600000 + r div 60000 mod 60 * 60000 + r mod 60000 = r" by linarith
  then show "int (r div 3600000) * 3600000 + int (r div 60000 mod 60) * 60000 = int r - int (r mod 60000)" by linarith
  show "r div 3600000 \<le> 23" using assms by (simp add: less_mult_imp_div_less less_Suc_eq_le[symmetric])
qed

definition four_digit_year :: "int \<Rightarrow> bool" where
  "four_digit_year t \<longleftrightarrow> 0 \<le> YearFromDay (t div msPerDay) \<and> YearFromDay (t div msPerDay) \<le> 9999"

lemma iso_minute:
  assumes "four_digit_year t"
  shows "Date_getTime hz (slice_to 16 (toISOString t)) =
    (let m = t - t mod 60000 in Some (m - local_offset_ms hz m))"
proof -
  define z where "z = t div msPerDay"
  define r where "r = nat (t mod msPerDay)"
  have r: "r < 86400000" by (simp add: r_def msPerDay_def nat_less_iff)
  have t: "t = z * msPerDay + int r" by (simp add: z_def r_def msPerDay_def)
  have "t = int r + z * 1440 * 60000" by (simp add: t msPerDay_def)
  then have "t mod 60000 = int r mod 60000" by (simp only: mod_mult_self1)
  then have "t - t mod 60000 = z * msPerDay + (int (r div 3600000) * 3600000 + int (r div 60000 mod 60) * 60000)"
    unfolding minute_of_day(1)[OF r] by (simp add: t zmod_int)
  then have m: "t - t mod 60000 = z * msPerDay + int (r div 3600000) * 3600000 + int (r div 60000 mod 60) * 60000"
    by (simp only: add.assoc)
  have mi: "r div 60000 mod 60 \<le> 59" by (simp add: less_Suc_eq_le[symmetric])
  have n: "r div 3600000 < 10 ^ Suc 1" "r div 60000 mod 60 < 10 ^ Suc 1" using minute_of_day(2)[OF r] by simp_all
  have two: "(2::nat) = Suc 1" by simp
  have len: "length (pad_left 2 (show_nat (r div 3600000))) = 2" "length (pad_left 2 (show_nat (r div 60000 mod 60))) = 2"
    "length (pad_left 2 (show_nat (nat (MonthFromDay z)))) = 2" "length (pad_left 2 (show_nat (nat (DateFromDay z)))) = 2"
    "length (pad_left 4 (show_nat (nat (YearFromDay z)))) = 4"
    using n month_range[of z] date_range[of z] assms pad_left_facts(3)[of _ 1 2] pad_left_facts(3)[of _ 3 4]
    by (simp_all add: four_digit_year_def z_def nat_less_iff)
  let ?day = "pad_left 4 (show_nat (nat (YearFromDay z))) @ ''-'' @ pad_left 2 (show_nat (nat (MonthFromDay z))) @ ''-''
      @ pad_left 2 (show_nat (nat (DateFromDay z)))"
  let ?time = "''T'' @ pad_left 2 (show_nat (r div 3600000)) @ '':'' @ pad_left 2 (show_nat (r div 60000 mod 60))"
  have iso: "slice_to 16 (toISOString t) = ?day @ ?time"
    unfolding toISOString_def slice_to_def Let_def z_def[symmetric] r_def[symmetric] by (simp add: len)
  have day: "parse_day (?day @ ?time) = Some (z, ?time)"
    using iso_day[of z ?time] assms by (simp add: four_digit_year_def z_def)
  have "Date_getTime hz (?day @ ?time) = apply_zone hz (t - t mod 60000) []"
    unfolding Date_getTime_def day m using minute_of_day(2)[OF r] take_padded[OF n(1), folded two] take_padded[OF n(2), folded two, of "[]"]
    by (simp add: expect_def parse_seconds_def mi)
  then show ?thesis unfolding iso by (simp add: apply_zone_def Let_def)
qed

end
