(* ===== verification/Json_Pretty.thy ===== *)
theory Json_Pretty
  imports Decimal_Text
begin

section \<open>JSON on several lines\<close>

text \<open>
  \<open>JSON.stringify(value, null, 2)\<close>, the text of a file the pages let the user save. \<open>pretty_roundtrip\<close>: the parser of \<open>Json_Text\<close>
  reads it back, for every value whose numbers are machine numbers and whose objects repeat no key.
\<close>

subsection \<open>Printing\<close>

text \<open>Empty arrays and objects stay on one line, the others have one member per line.\<close>

definition newline_indent :: "nat \<Rightarrow> string" where
  "newline_indent n = CHR 0x0A # replicate n CHR '' ''"

fun pretty_json :: "nat \<Rightarrow> json \<Rightarrow> string" where
  "pretty_json n (JArr vs) =
     (if vs = [] then ''[]''
      else ''['' @ js_join '','' (map (\<lambda>v. newline_indent (n + 2) @ pretty_json (n + 2) v) vs) @ newline_indent n @ '']'')"
| "pretty_json n (JObj kvs) =
     (if kvs = [] then ''{}''
      else ''{'' @ js_join '','' (map (\<lambda>(k, v). newline_indent (n + 2) @ stringify_string k @ '': '' @ pretty_json (n + 2) v) kvs)
        @ newline_indent n @ ''}'')"
| "pretty_json n v = JSON_stringify v"

text \<open>The values that read back: machine numbers only, no repeated keys.\<close>

fun printable_json :: "json \<Rightarrow> bool"
  and printable_elems :: "json list \<Rightarrow> bool"
  and printable_members :: "(string \<times> json) list \<Rightarrow> bool"
where
  "printable_json JNull = True"
| "printable_json (JBool b) = True"
| "printable_json (JNum x) = (fl x = x)"
| "printable_json (JStr s) = True"
| "printable_json (JArr vs) = printable_elems vs"
| "printable_json (JObj kvs) = printable_members kvs"
| "printable_elems [] = True"
| "printable_elems (v # vs) = (printable_json v \<and> printable_elems vs)"
| "printable_members [] = True"
| "printable_members ((k, v) # kvs) = (k \<notin> fst ` set kvs \<and> printable_json v \<and> printable_members kvs)"

subsection \<open>Texts of members\<close>

definition elems_text :: "nat \<Rightarrow> json list \<Rightarrow> string" where
  "elems_text m vs = js_join '','' (map (\<lambda>v. newline_indent m @ pretty_json m v) vs)"

definition members_text :: "nat \<Rightarrow> (string \<times> json) list \<Rightarrow> string" where
  "members_text m kvs = js_join '','' (map (\<lambda>(k, v). newline_indent m @ stringify_string k @ '': '' @ pretty_json m v) kvs)"

lemma elems_text_Cons:
  "elems_text m (v # vs) = newline_indent m @ pretty_json m v @ (if vs = [] then [] else '','' @ elems_text m vs)"
  by (cases vs) (simp_all add: elems_text_def)

lemma members_text_Cons:
  "members_text m ((k, v) # kvs) =
     newline_indent m @ stringify_string k @ '': '' @ pretty_json m v @ (if kvs = [] then [] else '','' @ members_text m kvs)"
  by (cases kvs) (auto simp: members_text_def split: prod.split)

lemma space_indent: "is_json_space CHR '' ''" "is_json_space CHR 0x0A"
  by (simp_all add: is_json_space_def)

lemma skip_indent [simp]: "skip_ws (newline_indent m @ s) = skip_ws s"
proof -
  have "dropWhile is_json_space (replicate k CHR '' '' @ s) = dropWhile is_json_space s" for k
    by (induction k) (simp_all add: space_indent)
  then show ?thesis by (simp add: skip_ws_def newline_indent_def space_indent)
qed

lemma skip_space [simp]: "skip_ws (CHR '' '' # s) = skip_ws s"
  by (simp add: skip_ws_def space_indent)

lemma parse_value_skip: "skip_ws s = skip_ws t \<Longrightarrow> parse_value n s = parse_value n t"
  by (cases n) simp_all

lemma parse_value_indent [simp]:
  "parse_value n (newline_indent m @ s) = parse_value n s" "parse_value n (CHR '' '' # s) = parse_value n s"
  by (rule parse_value_skip, simp)+

lemma number_end_follow [simp]:
  "number_end (newline_indent m @ s)" "number_end (CHR '','' # s)" "number_end []"
  by (simp_all add: number_end_def newline_indent_def digit_value_def)

text \<open>The first character of a number, and of any printed value.\<close>

lemma parse_number_first:
  assumes "parse_number s = Some r"
  obtains c cs where "s = c # cs" "digit_value c \<noteq> None \<or> c = CHR ''-''"
proof -
  let ?s1 = "if s \<noteq> [] \<and> hd s = CHR ''-'' then tl s else s"
  have "fst (span_digits ?s1) \<noteq> []"
    using assms by (auto simp: parse_number_def Let_def split: prod.splits if_splits)
  then have "takeWhile (\<lambda>c. digit_value c \<noteq> None) ?s1 \<noteq> []" by (simp add: span_digits_def)
  then have "s \<noteq> []" "hd s = CHR ''-'' \<or> digit_value (hd s) \<noteq> None"
    by (cases s; auto split: if_splits)+
  with that show ?thesis by (cases s) auto
qed

lemma number_first_facts:
  assumes "digit_value c \<noteq> None \<or> c = CHR ''-''"
  shows "\<not> is_json_space c" "c \<noteq> quote" "c \<noteq> CHR ''[''" "c \<noteq> CHR '']''" "c \<noteq> CHR ''{''" "c \<noteq> CHR ''n''" "c \<noteq> CHR ''t''" "c \<noteq> CHR ''f''"
proof -
  have n: "(of_char c :: nat) = 45 \<or> 48 \<le> (of_char c :: nat) \<and> (of_char c :: nat) \<le> 57"
  proof (cases "c = CHR ''-''")
    case False
    with assms show ?thesis by (auto simp: digit_value_def Let_def split: if_splits)
  qed simp
  then show "\<not> is_json_space c" by (auto simp: is_json_space_def)
  show "c \<noteq> quote" "c \<noteq> CHR ''[''" "c \<noteq> CHR '']''" "c \<noteq> CHR ''{''" "c \<noteq> CHR ''n''" "c \<noteq> CHR ''t''" "c \<noteq> CHR ''f''"
    using n by (auto simp: quote_def)
qed

lemma parse_value_number:
  assumes "fl x = x" and "number_end t"
  shows "parse_value (Suc n) (num_toString x @ t) = Some (JNum x, t)"
proof -
  have p: "parse_number (num_toString x @ t) = Some (JNum x, t)" by (rule num_toString_reads[OF assms])
  then obtain c cs where c: "num_toString x @ t = c # cs" "digit_value c \<noteq> None \<or> c = CHR ''-''" by (rule parse_number_first)
  note f = number_first_facts[OF c(2)]
  have "skip_ws (num_toString x @ t) = num_toString x @ t" unfolding c(1) using f(1) by (rule skip_ws_Cons)
  moreover have "parse_literal (num_toString x @ t) = Some (JNum x, t)"
    unfolding parse_literal_def p using f by (simp add: c(1))
  ultimately show ?thesis using f by (simp add: Let_def starts_with_def c(1))
qed

lemma pretty_first:
  assumes "printable_json v"
  obtains c cs where "pretty_json m v = c # cs" "\<not> is_json_space c" "c \<noteq> CHR '']''"
proof (cases v)
  case (JNum x)
  with assms have p: "parse_number (num_toString x @ []) = Some (JNum x, [])" by (intro num_toString_reads) simp_all
  then obtain c cs where "num_toString x = c # cs" "digit_value c \<noteq> None \<or> c = CHR ''-''" by (rule parse_number_first) simp
  with that JNum number_first_facts[of c] show ?thesis by simp
next
  case (JBool b)
  then show ?thesis using that by (cases b) auto
next
  case (JStr s)
  then show ?thesis using that[of quote] by (simp add: stringify_string_def quote_neq_bracket)
next
  case (JArr vs)
  then show ?thesis using that by (cases vs) auto
next
  case (JObj vs)
  then show ?thesis using that by (cases vs) auto
qed (use that in auto)

lemma not_closing_pretty:
  "printable_elems (v # vs) \<Longrightarrow> \<not> starts_with CHR '']'' (skip_ws (elems_text m (v # vs) @ t))"
  by (auto simp: elems_text_Cons starts_with_def skip_ws_Cons elim!: pretty_first[of v m])

lemma not_closing_pretty_members: "\<not> starts_with CHR ''}'' (skip_ws (members_text m ((k, v) # kvs) @ t))"
  by (simp add: members_text_Cons stringify_string_def skip_ws_Cons starts_with_def) (simp add: quote_def)

subsection \<open>Reading\<close>

lemma pretty_arr: "vs \<noteq> [] \<Longrightarrow> pretty_json m (JArr vs) = ''['' @ elems_text (m + 2) vs @ newline_indent m @ '']''"
  by (simp add: elems_text_def)

lemma pretty_obj: "kvs \<noteq> [] \<Longrightarrow> pretty_json m (JObj kvs) = ''{'' @ members_text (m + 2) kvs @ newline_indent m @ ''}''"
  by (simp add: members_text_def)

lemma parse_pretty:
  shows "printable_json v \<Longrightarrow> \<exists>N. \<forall>n\<ge>N. \<forall>t. number_end t \<longrightarrow> parse_value n (pretty_json m v @ t) = Some (v, t)"
    and "printable_elems vs \<Longrightarrow> vs \<noteq> [] \<Longrightarrow>
      \<exists>N. \<forall>n\<ge>N. \<forall>t. parse_elems n (elems_text m vs @ newline_indent k @ CHR '']'' # t) = Some (vs, t)"
    and "printable_members kvs \<Longrightarrow> kvs \<noteq> [] \<Longrightarrow>
      \<exists>N. \<forall>n\<ge>N. \<forall>t acc. fst ` set acc \<inter> fst ` set kvs = {} \<longrightarrow>
        parse_members n acc (members_text m kvs @ newline_indent k @ CHR ''}'' # t) = Some (acc @ kvs, t)"
proof (induction v and vs and kvs arbitrary: m and m k and m k rule: printable_json_printable_elems_printable_members.induct)
  case (1 m)
  show ?case
    by (rule exI[of _ 1]) (auto simp: Suc_le_eq gr0_conv_Suc skip_ws_Cons starts_with_def parse_literal_def quote_def)
next
  case (2 b m)
  show ?case
    by (rule exI[of _ 1])
      (auto simp: Suc_le_eq gr0_conv_Suc skip_ws_Cons starts_with_def parse_literal_def quote_def)
next
  case (3 x m)
  then show ?case
    by (intro exI[of _ 1]) (auto simp del: parse_value.simps simp: Suc_le_eq gr0_conv_Suc parse_value_number)
next
  case (4 s m)
  show ?case
    by (rule exI[of _ 1])
      (auto simp: Suc_le_eq gr0_conv_Suc stringify_string_def skip_ws_Cons starts_with_def parse_str_stringify)
next
  case (5 vs m)
  show ?case
  proof (cases "vs = []")
    case True
    then show ?thesis
      by (intro exI[of _ 1]) (auto simp: Suc_le_eq gr0_conv_Suc skip_ws_Cons starts_with_def quote_def)
  next
    case False
    then obtain w ws where ws: "vs = w # ws" by (cases vs) auto
    from 5 False have "\<exists>N. \<forall>n\<ge>N. \<forall>t. parse_elems n (elems_text (m + 2) vs @ newline_indent m @ CHR '']'' # t) = Some (vs, t)" by simp
    then show ?thesis
    proof (rule eventually_Suc)
      fix n
      assume n: "\<forall>t. parse_elems n (elems_text (m + 2) vs @ newline_indent m @ CHR '']'' # t) = Some (vs, t)"
      have "\<not> starts_with CHR '']'' (skip_ws (elems_text (m + 2) vs @ newline_indent m @ CHR '']'' # t))" for t
        using not_closing_pretty 5(2) ws by simp
      with n show "\<forall>t. number_end t \<longrightarrow> parse_value (Suc n) (pretty_json m (JArr vs) @ t) = Some (JArr vs, t)"
        unfolding pretty_arr[OF False] by (auto simp: skip_ws_Cons starts_with_def[of _ "_ # _"] quote_def Let_def)
    qed
  qed
next
  case (6 kvs m)
  show ?case
  proof (cases "kvs = []")
    case True
    then show ?thesis
      by (intro exI[of _ 1]) (auto simp: Suc_le_eq gr0_conv_Suc skip_ws_Cons starts_with_def quote_def)
  next
    case False
    then obtain kv ws where ws: "kvs = kv # ws" by (cases kvs) auto
    from 6 False have "\<exists>N. \<forall>n\<ge>N. \<forall>t acc. fst ` set acc \<inter> fst ` set kvs = {} \<longrightarrow>
        parse_members n acc (members_text (m + 2) kvs @ newline_indent m @ CHR ''}'' # t) = Some (acc @ kvs, t)" by simp
    then show ?thesis
    proof (rule eventually_Suc)
      fix n
      assume "\<forall>t acc. fst ` set acc \<inter> fst ` set kvs = {} \<longrightarrow>
        parse_members n acc (members_text (m + 2) kvs @ newline_indent m @ CHR ''}'' # t) = Some (acc @ kvs, t)"
      then have n: "parse_members n [] (members_text (m + 2) kvs @ newline_indent m @ CHR ''}'' # t) = Some (kvs, t)" for t
        by (metis append_Nil image_empty inf_bot_left list.set(1))
      have "\<not> starts_with CHR ''}'' (skip_ws (members_text (m + 2) kvs @ newline_indent m @ CHR ''}'' # t))" for t
        using not_closing_pretty_members[of "m + 2" "fst kv" "snd kv" ws] ws by simp
      with n show "\<forall>t. number_end t \<longrightarrow> parse_value (Suc n) (pretty_json m (JObj kvs) @ t) = Some (JObj kvs, t)"
        unfolding pretty_obj[OF False] by (auto simp: skip_ws_Cons starts_with_def[of _ "_ # _"] quote_def Let_def)
    qed
  qed
next
  case (8 v vs m k)
  then have v: "\<exists>N. \<forall>n\<ge>N. \<forall>t. number_end t \<longrightarrow> parse_value n (pretty_json m v @ t) = Some (v, t)" by simp
  show ?case
  proof (cases "vs = []")
    case True
    from v show ?thesis
      by (rule eventually_Suc) (auto simp: True elems_text_Cons Let_def skip_ws_Cons starts_with_def)
  next
    case False
    with 8 have "\<exists>N. \<forall>n\<ge>N. \<forall>t. parse_elems n (elems_text m vs @ newline_indent k @ CHR '']'' # t) = Some (vs, t)" by simp
    from eventually_conj[OF v this] False show ?thesis
      by (elim eventually_Suc) (auto simp: elems_text_Cons Let_def skip_ws_Cons starts_with_def)
  qed
next
  case (10 key v kvs m k)
  then have v: "\<exists>N. \<forall>n\<ge>N. \<forall>t. number_end t \<longrightarrow> parse_value n (pretty_json m v @ t) = Some (v, t)"
    and fresh: "key \<notin> fst ` set kvs" by simp_all
  have str: "skip_ws (stringify_string key @ t) = quote # concat (map escape_char key) @ quote # t" for t
    by (simp add: stringify_string_def skip_ws_Cons)
  show ?case
  proof (cases "kvs = []")
    case True
    from v show ?thesis
      by (rule eventually_Suc)
        (auto simp: True members_text_Cons Let_def str parse_str_stringify skip_ws_Cons starts_with_def[of _ "_ # _"] amap_set_new)
  next
    case False
    with 10 have "\<exists>N. \<forall>n\<ge>N. \<forall>t acc. fst ` set acc \<inter> fst ` set kvs = {} \<longrightarrow>
        parse_members n acc (members_text m kvs @ newline_indent k @ CHR ''}'' # t) = Some (acc @ kvs, t)" by simp
    from eventually_conj[OF v this] show ?thesis
    proof (rule eventually_Suc, intro allI impI)
      fix n t and acc :: "(string \<times> json) list"
      assume n: "(\<forall>t. number_end t \<longrightarrow> parse_value n (pretty_json m v @ t) = Some (v, t)) \<and>
        (\<forall>t acc. fst ` set acc \<inter> fst ` set kvs = {} \<longrightarrow>
          parse_members n acc (members_text m kvs @ newline_indent k @ CHR ''}'' # t) = Some (acc @ kvs, t))"
        and acc: "fst ` set acc \<inter> fst ` set ((key, v) # kvs) = {}"
      have "amap_set key v acc = acc @ [(key, v)]" using acc by (intro amap_set_new) auto
      moreover have "fst ` set (acc @ [(key, v)]) \<inter> fst ` set kvs = {}" using acc fresh by auto
      ultimately show "parse_members (Suc n) acc (members_text m ((key, v) # kvs) @ newline_indent k @ CHR ''}'' # t)
          = Some (acc @ (key, v) # kvs, t)"
        using n False by (simp add: members_text_Cons Let_def str parse_str_stringify skip_ws_Cons starts_with_def[of _ "_ # _"])
    qed
  qed
qed simp_all

theorem pretty_roundtrip: "printable_json v \<Longrightarrow> JSON_parse (pretty_json 0 v) = Some v"
proof -
  assume v: "printable_json v"
  from parse_pretty(1)[OF v, of 0] obtain N where N: "\<forall>n\<ge>N. \<forall>t. number_end t \<longrightarrow> parse_value n (pretty_json 0 v @ t) = Some (v, t)" by blast
  let ?s = "pretty_json 0 v"
  have "parse_value (2 * length ?s + 1) ?s = parse_value (max N (2 * length ?s + 1)) ?s"
    by (rule parse_value_fuel) auto
  also have "\<dots> = Some (v, [])" using N[rule_format, of "max N (2 * length ?s + 1)" "[]"] by simp
  finally show ?thesis by (simp add: JSON_parse_def skip_ws_def)
qed

end
