(* ===== verification/Draft_Files.thy ===== *)
theory Draft_Files
  imports Json_Pretty Scenario_Builder
begin

section \<open>Files of drafts\<close>

text \<open>
  \<open>exportDraft\<close> and \<open>importDraft\<close> of \<open>pages/ScenarioBuilderPage.tsx\<close> on the text of the file. The export prints the draft with
  \<open>JSON.stringify(draft, null, 2)\<close>. The import parses the text and casts the value to a draft without looking at it; \<open>read_definition\<close>
  says what becomes of it: nothing is set when the text is no JSON (or is \<open>null\<close>), each of \<open>start_time\<close>, \<open>sensor_events\<close> and
  \<open>permit_events\<close> may lack the method that is called on it, and then what came before is set already. A file with values of other types
  than declared where nothing throws (an incomplete event, a number for a title) goes into the state of the page as it is; the typed
  model does not follow it there, it is the outcome \<open>Untyped_Definition\<close>.

  The lemmas: an exported draft is imported with all its events, and what happens to its start time; an incomplete event passes
  the validation of \<open>lib/scenarioBuilderValidation.ts\<close>.
\<close>

subsection \<open>Export\<close>

definition sensor_event_json :: "SensorEventDraft \<Rightarrow> json" where
  "sensor_event_json e =
     JObj [(''name'', JStr (se_name e)), (''zone_id'', JStr (se_zone_id e)), (''gas_type'', JStr (se_gas_type e)),
           (''sim_time'', JNum (se_sim_time e)), (''duration_minutes'', JNum (se_duration_minutes e)),
           (''sample_interval_minutes'', JNum (se_sample_interval_minutes e)), (''curve'', JStr (se_curve e)),
           (''params'', JObj (map (\<lambda>(k, x). (k, JNum x)) (se_params e)))]"

definition permit_event_json :: "PermitEventDraft \<Rightarrow> json" where
  "permit_event_json e =
     JObj [(''name'', JStr (pe_name e)), (''zone_id'', JStr (pe_zone_id e)), (''sim_time'', JNum (pe_sim_time e)),
           (''permit_type'', JStr (pe_permit_type e)), (''authorizing_officer_id'', JStr (pe_authorizing_officer_id e)),
           (''duration_minutes'', JNum (pe_duration_minutes e))]"

definition draft_json :: "ScenarioDefinitionDraft \<Rightarrow> json" where
  "draft_json d =
     JObj [(''title'', JStr (sd_title d)), (''description'', JStr (sd_description d)), (''seed'', JNum (sd_seed d)),
           (''start_time'', JStr (sd_start_time d)), (''sensor_events'', JArr (map sensor_event_json (sd_sensor_events d))),
           (''permit_events'', JArr (map permit_event_json (sd_permit_events d)))]"

definition export_text :: "ScenarioDefinitionDraft \<Rightarrow> string" where
  "export_text d = pretty_json 0 (draft_json d)"

subsection \<open>Reading\<close>

text \<open>
  A member of the parsed value, as the import uses it: missing (\<open>undefined\<close> or \<open>null\<close>, for which a default stands in), a value of
  the declared type, a value of another type, or one that lacks the method called on it.
\<close>

datatype 'a member = Missing | Value 'a | Wrong_Type | No_Method

definition members_of :: "json \<Rightarrow> (string \<times> json) list" where
  "members_of v = (case v of JObj kvs \<Rightarrow> kvs | _ \<Rightarrow> [])"

definition text_member :: "(string \<times> json) list \<Rightarrow> string \<Rightarrow> string member" where
  "text_member kvs k =
     (case map_of kvs k of None \<Rightarrow> Missing | Some JNull \<Rightarrow> Missing | Some (JStr t) \<Rightarrow> Value t | Some _ \<Rightarrow> Wrong_Type)"

definition number_member :: "(string \<times> json) list \<Rightarrow> string \<Rightarrow> number member" where
  "number_member kvs k =
     (case map_of kvs k of None \<Rightarrow> Missing | Some JNull \<Rightarrow> Missing | Some (JNum x) \<Rightarrow> Value x | Some _ \<Rightarrow> Wrong_Type)"

text \<open>\<open>parsed.start_time ? parsed.start_time.slice(0, 16) : startTime\<close>; arrays have a \<open>slice\<close> too.\<close>

definition start_member :: "(string \<times> json) list \<Rightarrow> string member" where
  "start_member kvs =
     (case map_of kvs ''start_time'' of
        None \<Rightarrow> Missing
      | Some JNull \<Rightarrow> Missing
      | Some (JBool b) \<Rightarrow> if b then No_Method else Missing
      | Some (JNum x) \<Rightarrow> if x = 0 then Missing else No_Method
      | Some (JStr t) \<Rightarrow> if t = [] then Missing else Value t
      | Some (JArr vs) \<Rightarrow> Wrong_Type
      | Some (JObj ms) \<Rightarrow> No_Method)"

text \<open>\<open>(parsed.sensor_events ?? []).map(...)\<close>: only arrays have a \<open>map\<close>.\<close>

fun read_all :: "('a \<Rightarrow> 'b option) \<Rightarrow> 'a list \<Rightarrow> 'b list option" where
  "read_all f [] = Some []"
| "read_all f (x # xs) = (case (f x, read_all f xs) of (Some y, Some ys) \<Rightarrow> Some (y # ys) | _ \<Rightarrow> None)"

definition events_member :: "(json \<Rightarrow> 'a option) \<Rightarrow> (string \<times> json) list \<Rightarrow> string \<Rightarrow> 'a list member" where
  "events_member f kvs k =
     (case map_of kvs k of
        None \<Rightarrow> Missing
      | Some JNull \<Rightarrow> Missing
      | Some (JArr vs) \<Rightarrow> (case read_all f vs of Some es \<Rightarrow> Value es | None \<Rightarrow> Wrong_Type)
      | Some _ \<Rightarrow> No_Method)"

text \<open>An event of the declared type: an object with exactly the declared keys (its \<open>id\<close>, if it has one, is replaced).\<close>

definition str_at :: "(string \<times> json) list \<Rightarrow> string \<Rightarrow> string option" where
  "str_at kvs k = (case map_of kvs k of Some (JStr t) \<Rightarrow> Some t | _ \<Rightarrow> None)"

definition num_at :: "(string \<times> json) list \<Rightarrow> string \<Rightarrow> number option" where
  "num_at kvs k = (case map_of kvs k of Some (JNum x) \<Rightarrow> Some x | _ \<Rightarrow> None)"

definition read_param :: "string \<times> json \<Rightarrow> (string \<times> number) option" where
  "read_param kv = (case snd kv of JNum x \<Rightarrow> Some (fst kv, x) | _ \<Rightarrow> None)"

definition params_at :: "(string \<times> json) list \<Rightarrow> string \<Rightarrow> (string \<times> number) list option" where
  "params_at kvs k = (case map_of kvs k of Some (JObj ps) \<Rightarrow> read_all read_param ps | _ \<Rightarrow> None)"

definition SENSOR_EVENT_KEYS :: "string list" where
  "SENSOR_EVENT_KEYS =
     [''name'', ''zone_id'', ''gas_type'', ''sim_time'', ''duration_minutes'', ''sample_interval_minutes'', ''curve'', ''params'']"

definition PERMIT_EVENT_KEYS :: "string list" where
  "PERMIT_EVENT_KEYS = [''name'', ''zone_id'', ''sim_time'', ''permit_type'', ''authorizing_officer_id'', ''duration_minutes'']"

definition declared_keys :: "string list \<Rightarrow> (string \<times> json) list \<Rightarrow> bool" where
  "declared_keys ks kvs \<longleftrightarrow> list_all (\<lambda>(k, v). k \<in> set ks \<or> k = ''id'') kvs"

definition read_sensor_event :: "json \<Rightarrow> SensorEventDraft option" where
  "read_sensor_event v = (let kvs = members_of v in do {
     name \<leftarrow> str_at kvs ''name''; zone_id \<leftarrow> str_at kvs ''zone_id''; gas_type \<leftarrow> str_at kvs ''gas_type'';
     sim_time \<leftarrow> num_at kvs ''sim_time''; duration \<leftarrow> num_at kvs ''duration_minutes'';
     interval \<leftarrow> num_at kvs ''sample_interval_minutes''; curve \<leftarrow> str_at kvs ''curve''; params \<leftarrow> params_at kvs ''params'';
     if declared_keys SENSOR_EVENT_KEYS kvs
     then Some \<lparr>se_name = name, se_zone_id = zone_id, se_gas_type = gas_type, se_sim_time = sim_time, se_duration_minutes = duration,
                se_sample_interval_minutes = interval, se_curve = curve, se_params = params\<rparr>
     else None })"

definition read_permit_event :: "json \<Rightarrow> PermitEventDraft option" where
  "read_permit_event v = (let kvs = members_of v in do {
     name \<leftarrow> str_at kvs ''name''; zone_id \<leftarrow> str_at kvs ''zone_id''; sim_time \<leftarrow> num_at kvs ''sim_time'';
     permit_type \<leftarrow> str_at kvs ''permit_type''; officer \<leftarrow> str_at kvs ''authorizing_officer_id'';
     duration \<leftarrow> num_at kvs ''duration_minutes'';
     if declared_keys PERMIT_EVENT_KEYS kvs
     then Some \<lparr>pe_name = name, pe_zone_id = zone_id, pe_sim_time = sim_time, pe_permit_type = permit_type,
                pe_authorizing_officer_id = officer, pe_duration_minutes = duration\<rparr>
     else None })"

record imported_draft =
  id_title :: "string option"
  id_description :: "string option"
  id_seed :: "number option"
  id_start_time :: "string option"
  id_sensor_events :: "SensorEventDraft list option"
  id_permit_events :: "PermitEventDraft list option"

datatype import_file =
    Not_Json
  | Bad_Start_Time imported_draft
  | Bad_Sensor_Events imported_draft
  | Bad_Permit_Events imported_draft
  | Scenario_Definition imported_draft
  | Untyped_Definition

definition value_of :: "'a member \<Rightarrow> 'a option" where
  "value_of m = (case m of Value x \<Rightarrow> Some x | _ \<Rightarrow> None)"

definition read_value :: "json \<Rightarrow> import_file" where
  "read_value v =
     (let kvs = members_of v; title = text_member kvs ''title''; description = text_member kvs ''description'';
          seed = number_member kvs ''seed''; start = start_member kvs;
          sensors = events_member read_sensor_event kvs ''sensor_events'';
          permits = events_member read_permit_event kvs ''permit_events'';
          d = \<lparr>id_title = value_of title, id_description = value_of description, id_seed = value_of seed,
               id_start_time = value_of start, id_sensor_events = value_of sensors, id_permit_events = value_of permits\<rparr>
      in if v = JNull then Not_Json
         else if title = Wrong_Type \<or> description = Wrong_Type \<or> seed = Wrong_Type \<or> start = Wrong_Type then Untyped_Definition
         else if start = No_Method then Bad_Start_Time d
         else if sensors = No_Method then Bad_Sensor_Events d
         else if sensors = Wrong_Type then Untyped_Definition
         else if permits = No_Method then Bad_Permit_Events d
         else if permits = Wrong_Type then Untyped_Definition
         else Scenario_Definition d)"

definition read_definition :: "string \<Rightarrow> import_file" where
  "read_definition file = (case JSON_parse file of None \<Rightarrow> Not_Json | Some v \<Rightarrow> read_value v)"

subsection \<open>Import\<close>

text \<open>Every field may be absent, and each event gets the next fresh identifier.\<close>

definition importDraft :: "(nat \<Rightarrow> string) \<Rightarrow> imported_draft \<Rightarrow> builder_state \<Rightarrow> builder_state" where
  "importDraft newId parsed st =
     (let sensors = (case id_sensor_events parsed of Some es \<Rightarrow> es | None \<Rightarrow> []);
          permits = (case id_permit_events parsed of Some es \<Rightarrow> es | None \<Rightarrow> [])
      in \<lparr>bs_title = (case id_title parsed of Some t \<Rightarrow> t | None \<Rightarrow> ''Imported Scenario''),
          bs_description = (case id_description parsed of Some d \<Rightarrow> d | None \<Rightarrow> []),
          bs_seed = (case id_seed parsed of Some s \<Rightarrow> s | None \<Rightarrow> 1),
          bs_startTime = (case id_start_time parsed of Some t \<Rightarrow> slice_to 16 t | None \<Rightarrow> bs_startTime st),
          bs_sensorEvents =
            map (\<lambda>(i, e). SensorEventDraft.extend e (DraftSensorEvent.fields (newId i))) (enumerate 0 sensors),
          bs_permitEvents =
            map (\<lambda>(i, e). PermitEventDraft.extend e (DraftPermitEvent.fields (newId i)))
              (enumerate (length sensors) permits)\<rparr>)"

subsection \<open>An incomplete event\<close>

text \<open>
  \<open>validatePermitEvent\<close> on an event of which members may be missing, as a file can bring it: a comparison with \<open>undefined\<close> is
  false, no set of identifiers has it, and a message spells it out.
\<close>

record partial_permit =
  pq_name :: "string option"
  pq_zone_id :: "string option"
  pq_sim_time :: "number option"
  pq_permit_type :: "string option"
  pq_authorizing_officer_id :: "string option"
  pq_duration_minutes :: "number option"

definition printed :: "string option \<Rightarrow> string" where
  "printed x = (case x of Some t \<Rightarrow> t | None \<Rightarrow> ''undefined'')"

definition has_text :: "string list \<Rightarrow> string option \<Rightarrow> bool" where
  "has_text xs x = (case x of Some t \<Rightarrow> t \<in> set xs | None \<Rightarrow> False)"

definition validate_partial_permit ::
  "partial_permit \<Rightarrow> ScenarioValidationContext \<Rightarrow> string list \<Rightarrow> string list" where
  "validate_partial_permit event ctx errors =
     (let name = printed (pq_name event);
          e1 = push_if (case pq_sim_time event of Some x \<Rightarrow> x < 0 | None \<Rightarrow> False) (event_error name ''sim_time must be >= 0'') errors;
          e2 = push_if (case pq_duration_minutes event of Some x \<Rightarrow> x \<le> 0 | None \<Rightarrow> False)
                 (event_error name ''duration_minutes must be > 0'') e1;
          e3 = push_if (\<not> has_text (vc_knownZoneIds ctx) (pq_zone_id event))
                 (event_error name (''unknown zone '' @ quoted (printed (pq_zone_id event)))) e2
      in if \<not> has_text (vc_knownWorkerIds ctx) (pq_authorizing_officer_id event)
         then e3 @ [event_error name (''unknown authorizing officer '' @ quoted (printed (pq_authorizing_officer_id event)))]
         else push_if (has_text (vc_unassignedWorkerIds ctx) (pq_authorizing_officer_id event))
                (event_error name (''authorizing officer '' @ quoted (printed (pq_authorizing_officer_id event))
                   @ '' is not currently assigned to any zone'')) e3)"

definition whole_permit :: "PermitEventDraft \<Rightarrow> partial_permit" where
  "whole_permit e =
     \<lparr>pq_name = Some (pe_name e), pq_zone_id = Some (pe_zone_id e), pq_sim_time = Some (pe_sim_time e),
      pq_permit_type = Some (pe_permit_type e), pq_authorizing_officer_id = Some (pe_authorizing_officer_id e),
      pq_duration_minutes = Some (pe_duration_minutes e)\<rparr>"

subsection \<open>What is exported is read\<close>

lemma map_truncate_enumerate:
  "(\<And>i e. g (f i e) = e) \<Longrightarrow> map g (map (\<lambda>(i, e). f i e) (enumerate n es)) = es"
  by (induction es arbitrary: n) simp_all

lemma read_all_map: "(\<And>x. x \<in> set xs \<Longrightarrow> f (g x) = Some x) \<Longrightarrow> read_all f (map g xs) = Some xs"
  by (induction xs) simp_all

lemma read_params: "read_all read_param (map (\<lambda>(k, x). (k, JNum x)) ps) = Some ps"
  by (rule read_all_map) (auto simp: read_param_def)

lemma read_sensor_event_json: "read_sensor_event (sensor_event_json e) = Some e"
  by (simp add: read_sensor_event_def sensor_event_json_def members_of_def str_at_def num_at_def params_at_def read_params
      declared_keys_def SENSOR_EVENT_KEYS_def Let_def)

lemma read_permit_event_json: "read_permit_event (permit_event_json e) = Some e"
  by (simp add: read_permit_event_def permit_event_json_def members_of_def str_at_def num_at_def
      declared_keys_def PERMIT_EVENT_KEYS_def Let_def)

lemma read_draft_json:
  "read_value (draft_json d) = Scenario_Definition
     \<lparr>id_title = Some (sd_title d), id_description = Some (sd_description d), id_seed = Some (sd_seed d),
      id_start_time = (if sd_start_time d = [] then None else Some (sd_start_time d)),
      id_sensor_events = Some (sd_sensor_events d), id_permit_events = Some (sd_permit_events d)\<rparr>"
proof -
  have "read_all read_sensor_event (map sensor_event_json (sd_sensor_events d)) = Some (sd_sensor_events d)"
    "read_all read_permit_event (map permit_event_json (sd_permit_events d)) = Some (sd_permit_events d)"
    by (rule read_all_map, simp add: read_sensor_event_json read_permit_event_json)+
  then show ?thesis
    by (simp add: read_value_def draft_json_def members_of_def text_member_def number_member_def start_member_def events_member_def
        value_of_def Let_def)
qed

text \<open>All numbers are machine numbers and no parameter is listed twice, as in every JavaScript object.\<close>

definition machine_sensor_event :: "SensorEventDraft \<Rightarrow> bool" where
  "machine_sensor_event e \<longleftrightarrow>
     fl (se_sim_time e) = se_sim_time e \<and> fl (se_duration_minutes e) = se_duration_minutes e \<and>
     fl (se_sample_interval_minutes e) = se_sample_interval_minutes e \<and>
     distinct (map fst (se_params e)) \<and> list_all (\<lambda>(k, x). fl x = x) (se_params e)"

definition machine_permit_event :: "PermitEventDraft \<Rightarrow> bool" where
  "machine_permit_event e \<longleftrightarrow> fl (pe_sim_time e) = pe_sim_time e \<and> fl (pe_duration_minutes e) = pe_duration_minutes e"

definition machine_draft :: "ScenarioDefinitionDraft \<Rightarrow> bool" where
  "machine_draft d \<longleftrightarrow>
     fl (sd_seed d) = sd_seed d \<and> list_all machine_sensor_event (sd_sensor_events d) \<and> list_all machine_permit_event (sd_permit_events d)"

lemma printable_elems_map: "list_all (\<lambda>x. printable_json (f x)) xs \<Longrightarrow> printable_elems (map f xs)"
  by (induction xs) simp_all

lemma printable_params:
  "distinct (map fst ps) \<Longrightarrow> list_all (\<lambda>(k, x). fl x = x) ps \<Longrightarrow> printable_members (map (\<lambda>(k, x). (k, JNum x)) ps)"
  by (induction ps) (auto simp: image_image case_prod_unfold)

lemma printable_draft: "machine_draft d \<Longrightarrow> printable_json (draft_json d)"
  by (auto simp: machine_draft_def draft_json_def sensor_event_json_def permit_event_json_def machine_sensor_event_def
      machine_permit_event_def list_all_iff intro!: printable_elems_map printable_params)

lemma read_export: "machine_draft d \<Longrightarrow> read_definition (export_text d) = read_value (draft_json d)"
  by (simp add: read_definition_def export_text_def pretty_roundtrip printable_draft)

lemma iso_nonempty: "toISOString t \<noteq> []"
  by (simp add: toISOString_def Let_def)

subsection \<open>Properties\<close>

text \<open>
  (C40) A draft survives its file except for its start time. Exporting the draft of a page and importing the text of the file, on
  whatever page, gives the same draft again: title, description, seed and every event with all its numbers, through
  \<open>JSON.stringify\<close> and \<open>JSON.parse\<close>, provided its numbers are machine numbers, no parameter is listed twice and the start lies in a
  year of four digits. The start time is cut to the minute and moved: the import reads the printed UTC time as a local
  one, so the new start is earlier by the offset of the host's zone (later where the offset is negative, the same only at offset 0).
\<close>

theorem import_of_export:
  "(case (builder_draft hz st0, Date_getTime hz (bs_startTime st0)) of
      (Some d, Some t) \<Rightarrow>
        if machine_draft d \<and> four_digit_year t
        then (case read_definition (export_text d) of
                Scenario_Definition parsed \<Rightarrow>
                  builder_draft hz (importDraft newId parsed st) =
                    (let m = t - t mod 60000 in Some (d\<lparr>sd_start_time := toISOString (m - local_offset_ms hz m)\<rparr>))
              | _ \<Rightarrow> False)
        else True
    | _ \<Rightarrow> True)"
proof (cases "Date_getTime hz (bs_startTime st0)")
  case (Some t)
  then obtain d where d: "builder_draft hz st0 = Some d" "sd_start_time d = toISOString t" by (simp add: builder_draft_def)
  have "builder_draft hz (importDraft newId
      \<lparr>id_title = Some (sd_title d), id_description = Some (sd_description d), id_seed = Some (sd_seed d),
       id_start_time = Some (sd_start_time d), id_sensor_events = Some (sd_sensor_events d),
       id_permit_events = Some (sd_permit_events d)\<rparr> st) =
      (let m = t - t mod 60000 in Some (d\<lparr>sd_start_time := toISOString (m - local_offset_ms hz m)\<rparr>))"
    if "four_digit_year t"
    using iso_minute[OF that, of hz] by (simp add: builder_draft_def importDraft_def d(2) Let_def map_truncate_enumerate del: map_map)
  then show ?thesis using d iso_nonempty[of t] by (simp add: Some read_export read_draft_json)
qed (simp split: option.split)

text \<open>
  An event that lacks its times passes the validation: with a known zone and a known, assigned officer no error is reported for it,
  although the same validation is the declared one on every complete event. A file with such an event is not refused by the import
  either, it is read as one that the types do not describe.
\<close>

theorem incomplete_permit_passes:
  "validate_partial_permit (whole_permit e) ctx errors = validatePermitEvent e ctx errors \<and>
   (if z \<in> set (vc_knownZoneIds ctx) \<and> w \<in> set (vc_knownWorkerIds ctx) \<and> w \<notin> set (vc_unassignedWorkerIds ctx)
    then validate_partial_permit \<lparr>pq_name = Some n, pq_zone_id = Some z, pq_sim_time = None, pq_permit_type = None,
           pq_authorizing_officer_id = Some w, pq_duration_minutes = None\<rparr> ctx errors = errors
    else True) \<and>
   read_value (JObj [(''permit_events'', JArr [JObj [(''name'', JStr n), (''zone_id'', JStr z), (''authorizing_officer_id'', JStr w)]])]) =
     Untyped_Definition"
  by (simp add: validate_partial_permit_def whole_permit_def validatePermitEvent_def printed_def has_text_def push_if_def Let_def
      read_value_def members_of_def text_member_def number_member_def start_member_def events_member_def read_permit_event_def
      str_at_def num_at_def)

end
