(* ===== verification/Report_Page.thy ===== *)
theory Report_Page
  imports Reports Decision Narrative
begin

section \<open>The decision report page\<close>

text \<open>
  \<open>pages/DecisionReportPage.tsx\<close>: which facts the page assembles into the report's sections and what it
  exports. The data of the page's queries are the record \<open>report_inputs\<close> (\<open>None\<close> while a query has
  no data), and \<open>formatTimestamp\<close>, which prints in the browser's locale, and the current time are
  arguments. The main property spans three components: every audience's template finds all the
  sections it promises among the sections the page builds.
\<close>

subsection \<open>Inputs\<close>

record report_inputs =
  ri_assessment :: "RiskAssessment option"
  ri_zones :: "Zone list option"
  ri_bestMatch :: "IncidentMatch option"
  ri_foresight :: "ForesightResult option"
  ri_counterfactual :: "CounterfactualComparison option"
  ri_subgraph :: "GraphSubgraph option"
  ri_workerCount :: "ZoneWorkerCount option"
  ri_equipment :: "EquipmentInfo list option"
  ri_activePermits :: "Permit list option"
  ri_riskHistory :: "RiskAssessment list option"
  ri_stabilityTimeline :: "RiskAssessment list option"
  ri_auditEntries :: "AuditLogEntry list option"

subsection \<open>Sections\<close>

definition percent_text :: "number \<Rightarrow> string" where
  "percent_text v = toFixed (nmul v 100) 0 @ ''%''"

definition executive_section :: "(string \<Rightarrow> string) \<Rightarrow> Zone list option \<Rightarrow> RiskAssessment \<Rightarrow> DecisionReportSection" where
  "executive_section formatTimestamp zones a =
     (let justification = parseJustification (ra_justification a)
      in \<lparr>rs_heading = ''Executive Summary'',
          rs_lines =
            [''Zone: '' @ zoneLabel (ra_zone_id a) zones, ''Timestamp: '' @ formatTimestamp (ra_timestamp a),
             ''Tier: '' @ toUpperCase (ra_tier a), ''Compound risk score: '' @ toFixed (ra_compound_risk_score a) 1,
             ''Confidence: '' @ percent_text (ra_confidence a), [],
             generateExecutiveExplanation a justification (deriveRecommendations (ra_tier a) justification)]\<rparr>)"

definition rationale_section :: "RiskJustification option \<Rightarrow> DecisionReportSection" where
  "rationale_section justification =
     \<lparr>rs_heading = ''Decision Rationale'',
      rs_lines =
        (case justification of
           Some j \<Rightarrow>
             [''Tier transition: '' @ toUpperCase (rj_tierBefore j) @ '' -> '' @ toUpperCase (rj_tierAfter j),
              ''Interaction bonus applied: '' @ toFixed (rj_interactionBonusApplied j) 2,
              ''Rules fired: '' @ (let rules = js_join '', '' (rj_rulesFired j) in if rules \<noteq> [] then rules else ''none'')]
         | None \<Rightarrow> [''No structured justification available for this tick.''])\<rparr>"

definition agents_section :: "RiskJustification option \<Rightarrow> DecisionReportSection" where
  "agents_section justification =
     \<lparr>rs_heading = ''Agent Contributions'',
      rs_lines =
        (case justification of
           Some j \<Rightarrow>
             concat (map (\<lambda>(agent, c).
               [agentDisplayName agent @ '': risk '' @ toFixed (ac_risk c) 1 @ '', confidence '' @ percent_text (ac_confidence c),
                ''  Reason: '' @ buildAgentContributionReason agent c j]) (rj_agentContributions j))
         | None \<Rightarrow> [''Unavailable.''])\<rparr>"

definition confidence_line :: "ConfidenceFactor \<Rightarrow> string" where
  "confidence_line factor =
     (case factor of
        Percentage l v src \<Rightarrow> l @ '': '' @ percent_text v @ '' ('' @ src @ '')''
      | Categorical l c src \<Rightarrow> l @ '': '' @ c @ '' ('' @ src @ '')''
      | Unavailable l reason \<Rightarrow> l @ '': Unavailable - '' @ reason)"

definition confidence_section :: "ConfidenceFactor list \<Rightarrow> DecisionReportSection" where
  "confidence_section factors = \<lparr>rs_heading = ''Confidence Breakdown'', rs_lines = map confidence_line factors\<rparr>"

definition stability_section :: "RecommendationStability \<Rightarrow> DecisionReportSection" where
  "stability_section st =
     \<lparr>rs_heading = ''Decision Stability'',
      rs_lines =
        [''Recommendation unchanged for '' @ show_nat (st_unchangedForTicks st) @ '' tick(s)'',
         ''Oscillation: '' @ (if st_oscillationDetected st
            then ''detected ('' @ show_nat (st_oscillationReversals st) @ '' reversals)'' else ''none detected''),
         st_reason st]\<rparr>"

definition actions_section :: "PrioritizedAction list \<Rightarrow> DecisionReportSection" where
  "actions_section actionQueue =
     \<lparr>rs_heading = ''Recommended Actions & Business Impact'',
      rs_lines =
        (if actionQueue \<noteq> []
         then map (\<lambda>a. ''[Priority '' @ show_nat (pa_priority a) @ '', '' @ impact_name (pa_impactLevel a) @ ''] '' @ rc_text a)
                actionQueue
         else [''No recommended actions for this assessment.''])\<rparr>"

definition compliance_section :: "Recommendation list \<Rightarrow> DecisionReportSection" where
  "compliance_section recommendations =
     \<lparr>rs_heading = ''Compliance References'',
      rs_lines =
        concat (map (\<lambda>r.
          let standards = standardsForRecommendation (rc_id r)
          in if length standards = 0 then []
             else (''Recommendation: '' @ rc_text r)
                  # map (\<lambda>s. ''  aligns with '' @ sref_code s @ '' - '' @ sref_title s) standards @ [[]]) recommendations)\<rparr>"

definition timeline_section :: "(string \<Rightarrow> string) \<Rightarrow> RiskAssessment list option \<Rightarrow> DecisionReportSection" where
  "timeline_section formatTimestamp riskHistory =
     \<lparr>rs_heading = ''Timeline (preceding ticks)'',
      rs_lines =
        (case riskHistory of
           Some (h # hs) \<Rightarrow>
             map (\<lambda>x. formatTimestamp (ra_timestamp x) @ '': '' @ toUpperCase (ra_tier x) @ '' (''
                   @ toFixed (ra_compound_risk_score x) 1 @ '')'') (h # hs)
         | _ \<Rightarrow> [''No preceding history available.''])\<rparr>"

text \<open>
  The response of the worker count is an object, and the page puts the object itself into the template, where
  JavaScript prints every plain object as \<open>[object Object]\<close>.
\<close>

definition object_text :: "'a \<Rightarrow> string" where
  "object_text v = ''[object Object]''"

definition twin_section ::
  "ZoneWorkerCount option \<Rightarrow> EquipmentInfo list option \<Rightarrow> Permit list option \<Rightarrow> DecisionReportSection" where
  "twin_section workerCount equipment activePermits =
     (let items = (case equipment of Some e \<Rightarrow> e | None \<Rightarrow> [])
      in \<lparr>rs_heading = ''Digital Twin Snapshot'',
          rs_lines =
            [''Workers present: '' @ (case workerCount of Some w \<Rightarrow> object_text w | None \<Rightarrow> ''unknown''),
             ''Equipment items: '' @ show_nat (length items)]
            @ map (\<lambda>e. ''  '' @ eq_equipment_type e @ '': '' @ eq_isolation_status e
                @ (if eq_maintenance_flag e then '' (maintenance flagged)'' else [])) items
            @ [''Active permits: '' @ show_nat (case activePermits of Some p \<Rightarrow> length p | None \<Rightarrow> 0)]\<rparr>)"

definition matches_section :: "IncidentMatch option \<Rightarrow> DecisionReportSection" where
  "matches_section bestMatch =
     \<lparr>rs_heading = ''Historical Matches'',
      rs_lines =
        (case bestMatch of
           Some m \<Rightarrow>
             [''Best match: '' @ im_incident_name m @ '' (similarity '' @ percent_text (im_similarity m) @ '')'',
              ''Outcome tier: '' @ toUpperCase (im_outcome_tier m), ''Root cause: '' @ im_root_cause m]
         | None \<Rightarrow> [''No similar historical incidents found.''])\<rparr>"

definition forecast_text_line :: "ForecastPoint \<Rightarrow> string" where
  "forecast_text_line f =
     (case fp_projected_risk f of
        Some r \<Rightarrow>
          ''+'' @ num_toString (fp_horizon_minutes f) @ ''min: ''
          @ (case fp_projected_tier f of Some t \<Rightarrow> toUpperCase t | None \<Rightarrow> ''undefined'') @ '' ('' @ toFixed r 1 @ '')''
      | None \<Rightarrow>
          ''+'' @ num_toString (fp_horizon_minutes f) @ ''min: Unavailable - ''
          @ (case fp_unavailable_reason f of Some t \<Rightarrow> t | None \<Rightarrow> ''null''))"

definition foresight_section :: "ForesightResult option \<Rightarrow> DecisionReportSection" where
  "foresight_section foresight =
     \<lparr>rs_heading = ''Operational Foresight'',
      rs_lines =
        (case foresight of
           Some f \<Rightarrow>
             (''Early warning: '' @ ew_category (fr_early_warning f) @ '' - '' @ ew_why (fr_early_warning f))
             # map forecast_text_line (fr_forecast f)
         | None \<Rightarrow> [''No forecast computed for this tick.''])\<rparr>"

definition graph_section :: "GraphSubgraph option \<Rightarrow> DecisionReportSection" where
  "graph_section subgraph =
     \<lparr>rs_heading = ''Knowledge Graph Summary'',
      rs_lines =
        (case subgraph of
           Some g \<Rightarrow> [show_nat (length (sg_nodes g)) @ '' connected entities, '' @ show_nat (length (sg_edges g)) @ '' relationships.'']
         | None \<Rightarrow> [''Knowledge graph summary unavailable.''])\<rparr>"

definition counterfactual_section :: "CounterfactualComparison option \<Rightarrow> DecisionReportSection" where
  "counterfactual_section counterfactual =
     \<lparr>rs_heading = ''Counterfactual Comparison'',
      rs_lines =
        (case counterfactual of
           Some c \<Rightarrow>
             [''Naive alarm system would have alerted: '' @ (if cfv_alert (cc_counterfactual c) then ''Yes'' else ''No''),
              ''Actual engine tier: '' @ (case cc_compound c of Some v \<Rightarrow> toUpperCase (cv_tier v) | None \<Rightarrow> ''unknown'')]
         | None \<Rightarrow> [''No counterfactual comparison available for this tick.''])\<rparr>"

definition audit_section :: "(string \<Rightarrow> string) \<Rightarrow> AuditLogEntry list option \<Rightarrow> DecisionReportSection" where
  "audit_section formatTimestamp auditEntries =
     \<lparr>rs_heading = ''Audit Trail'',
      rs_lines =
        (case auditEntries of
           Some (e # es) \<Rightarrow>
             map (\<lambda>x. formatTimestamp (al_timestamp x) @ '': '' @ al_event_type x @ '' ('' @ al_actor x @ '')'') (e # es)
         | _ \<Rightarrow> [''No preceding audit entries for this zone.''])\<rparr>"

definition report_factors :: "report_inputs \<Rightarrow> RiskAssessment \<Rightarrow> ConfidenceFactor list" where
  "report_factors i a =
     buildConfidenceBreakdown a (parseJustification (ra_justification a)) (ri_bestMatch i) (ri_foresight i)"

definition buildSections :: "(string \<Rightarrow> string) \<Rightarrow> report_inputs \<Rightarrow> DecisionReportSection list" where
  "buildSections formatTimestamp i =
     (case ri_assessment i of
        None \<Rightarrow> []
      | Some a \<Rightarrow>
          let justification = parseJustification (ra_justification a);
              recommendations = deriveRecommendations (ra_tier a) justification
          in [executive_section formatTimestamp (ri_zones i) a, rationale_section justification, agents_section justification,
              confidence_section (report_factors i a),
              stability_section (buildRecommendationStability
                (case ri_stabilityTimeline i of Some t \<Rightarrow> t | None \<Rightarrow> []) (report_factors i a)),
              actions_section (buildActionQueue recommendations justification), compliance_section recommendations,
              timeline_section formatTimestamp (ri_riskHistory i),
              twin_section (ri_workerCount i) (ri_equipment i) (ri_activePermits i), matches_section (ri_bestMatch i),
              foresight_section (ri_foresight i), graph_section (ri_subgraph i),
              counterfactual_section (ri_counterfactual i), audit_section formatTimestamp (ri_auditEntries i)])"

definition kind_name :: "ReportTemplateKind \<Rightarrow> string" where
  "kind_name k =
     (case k of Executive \<Rightarrow> ''executive'' | Operator \<Rightarrow> ''operator'' | Audit \<Rightarrow> ''audit'' | Incident \<Rightarrow> ''incident''
      | Maintenance \<Rightarrow> ''maintenance'')"

text \<open>The data and the file name handed to the PDF export; nothing without an assessment.\<close>

definition handleExportPdf ::
  "(string \<Rightarrow> string) \<Rightarrow> string \<Rightarrow> ReportTemplateKind \<Rightarrow> report_inputs \<Rightarrow> (DecisionReportData \<times> string) option" where
  "handleExportPdf formatTimestamp nowIso templateKind i =
     (case ri_assessment i of
        None \<Rightarrow> None
      | Some a \<Rightarrow>
          let template = getReportTemplate templateKind
          in Some (\<lparr>dr_title = rt_label template,
                    dr_subtitle = zoneLabel (ra_zone_id a) (ri_zones i) @ '' - '' @ formatTimestamp (ra_timestamp a),
                    dr_generatedAt = nowIso,
                    dr_sections = selectReportSections templateKind (buildSections formatTimestamp i)\<rparr>,
                   kind_name (rt_kind template) @ ''-report-'' @ ra_assessment_id a @ ''.pdf''))"

subsection \<open>Properties\<close>

lemma buildSections_headings:
  "ri_assessment i = Some a \<Longrightarrow> map rs_heading (buildSections ft i) =
     [''Executive Summary'', ''Decision Rationale'', ''Agent Contributions'', ''Confidence Breakdown'', ''Decision Stability'',
      ''Recommended Actions & Business Impact'', ''Compliance References'', ''Timeline (preceding ticks)'',
      ''Digital Twin Snapshot'', ''Historical Matches'', ''Operational Foresight'', ''Knowledge Graph Summary'',
      ''Counterfactual Comparison'', ''Audit Trail'']"
  by (simp add: buildSections_def executive_section_def rationale_section_def agents_section_def confidence_section_def
      stability_section_def actions_section_def compliance_section_def timeline_section_def twin_section_def
      matches_section_def foresight_section_def graph_section_def counterfactual_section_def audit_section_def Let_def)

lemma template_headings_built:
  assumes "ri_assessment i = Some a"
  shows "set (rt_sectionHeadings (getReportTemplate kind)) \<subseteq> rs_heading ` set (buildSections ft i)"
proof -
  have "rs_heading ` set (buildSections ft i) = set (map rs_heading (buildSections ft i))" by simp
  then show ?thesis unfolding buildSections_headings[OF assms]
    by (cases kind) (simp_all add: getReportTemplate_def REPORT_TEMPLATES_def)
qed

lemma filter_subset_id: "set xs \<subseteq> A \<Longrightarrow> filter (\<lambda>x. x \<in> A) xs = xs"
  by (rule filter_True) auto

text \<open>
  (C9) An exported report keeps its promise: for every audience and whatever data have arrived, once the
  assessment is there the document has exactly the sections its template lists, in that order, and
  the finished PDF shows the template's title and then all those headings in that order. Without an
  assessment nothing is exported.
\<close>

theorem exported_report_complete:
  "(case handleExportPdf formatTimestamp nowIso kind i of
      None \<Rightarrow> ri_assessment i = None
    | Some (data, file) \<Rightarrow>
        map rs_heading (dr_sections data) = rt_sectionHeadings (getReportTemplate kind) \<and>
        subseq (rt_label (getReportTemplate kind) # rt_sectionHeadings (getReportTemplate kind))
          (map dt_text (pd_drawn (buildDecisionReportPdf initial splitTextToSize pageWidth pageHeight data))))"
proof (cases "ri_assessment i")
  case None
  then show ?thesis by (simp add: handleExportPdf_def)
next
  case (Some a)
  let ?secs = "selectReportSections kind (buildSections formatTimestamp i)"
  have h: "map rs_heading ?secs = rt_sectionHeadings (getReportTemplate kind)"
    unfolding selectReportSections_headings by (rule filter_subset_id) (rule template_headings_built[OF Some])
  obtain data fname where e: "handleExportPdf formatTimestamp nowIso kind i = Some (data, fname)"
    and d: "dr_title data = rt_label (getReportTemplate kind)" "dr_sections data = ?secs"
    using Some by (simp add: handleExportPdf_def Let_def)
  show ?thesis using headings_in_pdf[of data initial splitTextToSize pageWidth pageHeight] by (simp add: e d h)
qed

text \<open>The report never shows the number of workers: once the count is known, the line prints an object.\<close>

lemma worker_count_shown_as_object:
  "hd (rs_lines (twin_section (Some w) equipment permits)) = ''Workers present: [object Object]''"
  by (simp add: twin_section_def object_text_def Let_def)

end
