(* ===== verification/Graph_Page.thy ===== *)
theory Graph_Page
  imports Graph Search Api_Client
begin

section \<open>The knowledge-graph page\<close>

text \<open>
  \<open>pages/KnowledgeGraphPage.tsx\<close> with the components it drives: \<open>GraphCanvas\<close>, \<open>GraphBreadcrumbs\<close>,
  \<open>RootCauseNavigator\<close> and \<open>JudgeModePlayer\<close> of \<open>components/graph\<close>. The page's React state is a
  record; each handler is a function of the closure it was created with (the root and the expanded
  keys of the render that made it) and of the state, so a handler that resumes after an \<open>await\<close> can
  be older than the state it updates, as in the source. Requests under way are a list, and their
  answers are events.

  The lemmas show that the canvas never gets two nodes or two edges of one identifier nor an edge
  without ends, that the trail of breadcrumbs can be walked back, that links written by the search
  are read back by the page, and what recentering and drilling down really do.
\<close>

subsection \<open>Merging graphs\<close>

definition merge_by :: "('a \<Rightarrow> string) \<Rightarrow> 'a list \<Rightarrow> 'a list \<Rightarrow> 'a list" where
  "merge_by f base addition =
     map snd (foldl (\<lambda>m x. amap_set (f x) x m) (amap_of (map (\<lambda>x. (f x, x)) base)) addition)"

definition mergeGraphs :: "GraphSubgraph \<Rightarrow> GraphSubgraph \<Rightarrow> GraphSubgraph" where
  "mergeGraphs base addition =
     \<lparr>sg_nodes = merge_by entity_key (sg_nodes base) (sg_nodes addition),
      sg_edges = merge_by edgeKey (sg_edges base) (sg_edges addition)\<rparr>"

definition empty_graph :: GraphSubgraph where
  "empty_graph = \<lparr>sg_nodes = [], sg_edges = []\<rparr>"

subsection \<open>State and closures\<close>

datatype InspectorPanel = Inspector | PathPanel | RootCausePanel | JudgeModePanel

record kg_closure =
  cl_effectiveRoot :: "GraphEntity option"
  cl_expandedKeys :: "string list"

datatype kg_pending =
    PendingNeighbors GraphEntity
  | PendingRef kg_closure string string
  | PendingFocus kg_closure string string

record kg_state =
  kg_plant :: "GraphEntity option"
  kg_subgraph :: "GraphSubgraph option"
  kg_rootEntity :: "GraphEntity option"
  kg_breadcrumbs :: "GraphEntity list"
  kg_selectedEntity :: "GraphEntity option"
  kg_extra :: GraphSubgraph
  kg_expandedKeys :: "string list"
  kg_activePanel :: InspectorPanel
  kg_highlightedEdgeIds :: "string list"
  kg_judgeModeAssessment :: "GraphEntity option"
  kg_appliedFocus :: bool
  kg_pending :: "kg_pending list"

definition kg_start :: "GraphEntity option \<Rightarrow> GraphSubgraph option \<Rightarrow> kg_state" where
  "kg_start plant subgraph =
     \<lparr>kg_plant = plant, kg_subgraph = subgraph, kg_rootEntity = None, kg_breadcrumbs = [],
      kg_selectedEntity = None, kg_extra = empty_graph, kg_expandedKeys = [], kg_activePanel = Inspector,
      kg_highlightedEdgeIds = [], kg_judgeModeAssessment = None, kg_appliedFocus = False, kg_pending = []\<rparr>"

definition effectiveRoot :: "kg_state \<Rightarrow> GraphEntity option" where
  "effectiveRoot s = (case kg_rootEntity s of Some e \<Rightarrow> Some e | None \<Rightarrow> kg_plant s)"

definition combined :: "kg_state \<Rightarrow> GraphSubgraph" where
  "combined s = mergeGraphs (case kg_subgraph s of Some g \<Rightarrow> g | None \<Rightarrow> empty_graph) (kg_extra s)"

definition closure_of :: "kg_state \<Rightarrow> kg_closure" where
  "closure_of s = \<lparr>cl_effectiveRoot = effectiveRoot s, cl_expandedKeys = kg_expandedKeys s\<rparr>"

definition kg_rootKey :: "kg_state \<Rightarrow> string" where
  "kg_rootKey s = (case effectiveRoot s of Some e \<Rightarrow> entity_key e | None \<Rightarrow> [])"

definition trail :: "kg_state \<Rightarrow> GraphEntity list" where
  "trail s = (case effectiveRoot s of Some e \<Rightarrow> kg_breadcrumbs s @ [e] | None \<Rightarrow> kg_breadcrumbs s)"

subsection \<open>Handlers\<close>

text \<open>\<open>handleExpand\<close> up to its \<open>await\<close>, and its continuation.\<close>

definition handleExpand :: "kg_closure \<Rightarrow> GraphEntity \<Rightarrow> kg_state \<Rightarrow> kg_state" where
  "handleExpand c entity s =
     (if entity_key entity \<in> set (cl_expandedKeys c) then s
      else s\<lparr>kg_pending := kg_pending s @ [PendingNeighbors entity]\<rparr>)"

definition neighbors_arrived :: "GraphEntity \<Rightarrow> GraphNeighbor list \<Rightarrow> kg_state \<Rightarrow> kg_state" where
  "neighbors_arrived entity ns s =
     s\<lparr>kg_extra := mergeGraphs (kg_extra s) \<lparr>sg_nodes = map gn_entity ns, sg_edges = map gn_edge ns\<rparr>,
       kg_expandedKeys := js_set (kg_expandedKeys s @ [entity_key entity])\<rparr>"

definition handleRecenter :: "kg_closure \<Rightarrow> GraphEntity \<Rightarrow> kg_state \<Rightarrow> kg_state" where
  "handleRecenter c entity s =
     handleExpand c entity
       (s\<lparr>kg_breadcrumbs := (case cl_effectiveRoot c of Some r \<Rightarrow> kg_breadcrumbs s @ [r] | None \<Rightarrow> kg_breadcrumbs s),
          kg_rootEntity := Some entity, kg_selectedEntity := Some entity, kg_extra := empty_graph,
          kg_expandedKeys := [], kg_highlightedEdgeIds := [], kg_judgeModeAssessment := None\<rparr>)"

definition handleBreadcrumbSelect :: "GraphEntity \<Rightarrow> nat \<Rightarrow> kg_state \<Rightarrow> kg_state" where
  "handleBreadcrumbSelect entity index s =
     s\<lparr>kg_breadcrumbs := take index (kg_breadcrumbs s), kg_rootEntity := Some entity,
       kg_selectedEntity := Some entity, kg_extra := empty_graph, kg_expandedKeys := [],
       kg_highlightedEdgeIds := [], kg_judgeModeAssessment := None\<rparr>"

definition handleSelectAndExpand :: "kg_closure \<Rightarrow> GraphEntity \<Rightarrow> kg_state \<Rightarrow> kg_state" where
  "handleSelectAndExpand c entity s =
     handleExpand c entity (s\<lparr>kg_selectedEntity := Some entity, kg_highlightedEdgeIds := []\<rparr>)"

definition handleFocus :: "kg_closure \<Rightarrow> GraphEntity \<Rightarrow> kg_state \<Rightarrow> kg_state" where
  "handleFocus c entity s = handleExpand c entity (s\<lparr>kg_selectedEntity := Some entity\<rparr>)"

definition handleSelectRef :: "kg_closure \<Rightarrow> GraphEntity \<Rightarrow> kg_state \<Rightarrow> kg_state" where
  "handleSelectRef c ref s = s\<lparr>kg_pending := kg_pending s @ [PendingRef c (ge_kind ref) (ge_id ref)]\<rparr>"

text \<open>The \<open>?focus=kind:id\<close> parameter, read in the effect of the first render.\<close>

definition parse_focus :: "string \<Rightarrow> (string \<times> string) option" where
  "parse_focus focus =
     (let kind = takeWhile (\<lambda>c. c \<noteq> CHR '':'') focus
      in if CHR '':'' \<notin> set focus \<or> kind = [] then None
         else Some (kind, tl (dropWhile (\<lambda>c. c \<noteq> CHR '':'') focus)))"

definition focus_effect :: "string option \<Rightarrow> kg_state \<Rightarrow> kg_state" where
  "focus_effect focus s =
     (if kg_appliedFocus s then s
      else case Option.bind focus parse_focus of
             None \<Rightarrow> s
           | Some (kind, eid) \<Rightarrow>
               s\<lparr>kg_appliedFocus := True, kg_pending := kg_pending s @ [PendingFocus (closure_of s) kind eid]\<rparr>)"

definition is_risk_assessment :: "GraphEntity option \<Rightarrow> bool" where
  "is_risk_assessment e = (case e of Some x \<Rightarrow> ge_kind x = ''risk_assessment'' | None \<Rightarrow> False)"

text \<open>The four tabs; a disabled button does nothing.\<close>

definition open_panel :: "InspectorPanel \<Rightarrow> kg_state \<Rightarrow> kg_state" where
  "open_panel p s =
     (case p of
        RootCausePanel \<Rightarrow> if kg_selectedEntity s = None then s else s\<lparr>kg_activePanel := p\<rparr>
      | JudgeModePanel \<Rightarrow>
          if kg_activePanel s \<noteq> JudgeModePanel \<and> \<not> is_risk_assessment (kg_selectedEntity s) then s
          else s\<lparr>kg_judgeModeAssessment :=
                   (if is_risk_assessment (kg_selectedEntity s) then kg_selectedEntity s else kg_judgeModeAssessment s),
                 kg_activePanel := p\<rparr>
      | _ \<Rightarrow> s\<lparr>kg_activePanel := p\<rparr>)"

subsection \<open>Events\<close>

datatype kg_event =
    PlantArrived GraphEntity
  | SubgraphArrived GraphSubgraph
  | FirstRender "string option"
  | SelectNode GraphEntity
  | Recenter GraphEntity
  | SelectCrumb nat
  | FocusEntity GraphEntity
  | SelectRef GraphEntity
  | OpenPanel InspectorPanel
  | HighlightEdges "string list"
  | Answer nat "GraphNeighbor list" GraphEntity
  | FetchFailed nat

definition drop_pending :: "nat \<Rightarrow> kg_state \<Rightarrow> kg_state" where
  "drop_pending i s = s\<lparr>kg_pending := take i (kg_pending s) @ drop (Suc i) (kg_pending s)\<rparr>"

text \<open>
  The answer to the \<open>i\<close>-th request: the neighbours for an expansion, the entity for a reference or
  for the focus, each continued with the closure of the handler that asked.
\<close>

definition answer :: "nat \<Rightarrow> GraphNeighbor list \<Rightarrow> GraphEntity \<Rightarrow> kg_state \<Rightarrow> kg_state" where
  "answer i ns entity s =
     (if i < length (kg_pending s) then
        (case kg_pending s ! i of
           PendingNeighbors e \<Rightarrow> neighbors_arrived e ns (drop_pending i s)
         | PendingRef c kind eid \<Rightarrow> handleSelectAndExpand c entity (drop_pending i s)
         | PendingFocus c kind eid \<Rightarrow> handleRecenter c entity (drop_pending i s))
      else s)"

text \<open>All crumbs but the last are buttons (\<open>GraphBreadcrumbs\<close>).\<close>

definition select_crumb :: "nat \<Rightarrow> kg_state \<Rightarrow> kg_state" where
  "select_crumb i s = (if Suc i < length (trail s) then handleBreadcrumbSelect (trail s ! i) i s else s)"

fun kg_step :: "kg_state \<Rightarrow> kg_event \<Rightarrow> kg_state" where
  "kg_step s (PlantArrived e) = s\<lparr>kg_plant := Some e\<rparr>"
| "kg_step s (SubgraphArrived g) = s\<lparr>kg_subgraph := Some g\<rparr>"
| "kg_step s (FirstRender focus) = focus_effect focus s"
| "kg_step s (SelectNode e) = handleSelectAndExpand (closure_of s) e s"
| "kg_step s (Recenter e) = handleRecenter (closure_of s) e s"
| "kg_step s (SelectCrumb i) = select_crumb i s"
| "kg_step s (FocusEntity e) = handleFocus (closure_of s) e s"
| "kg_step s (SelectRef ref) = handleSelectRef (closure_of s) ref s"
| "kg_step s (OpenPanel p) = open_panel p s"
| "kg_step s (HighlightEdges ids) = s\<lparr>kg_highlightedEdgeIds := ids\<rparr>"
| "kg_step s (Answer i ns e) = answer i ns e s"
| "kg_step s (FetchFailed i) = drop_pending i s"

subsection \<open>The canvas\<close>

record RFNode =
  rn_id :: string
  rn_position :: "number \<times> number"
  rn_entity :: GraphEntity
  rn_selected :: bool

record RFEdge =
  re_id :: string
  re_source :: string
  re_target :: string
  re_label :: string
  re_animated :: bool
  re_className :: "string option"

definition spaced :: "string \<Rightarrow> string" where
  "spaced s = map (\<lambda>c. if c = CHR ''_'' then CHR '' '' else c) s"

definition rf_edge :: "string list \<Rightarrow> GraphEdge \<Rightarrow> RFEdge" where
  "rf_edge highlightedEdgeIds edge =
     (let highlighted = (edgeKey edge \<in> set highlightedEdgeIds)
      in \<lparr>re_id = edgeKey edge, re_source = nodeKey (gd_source_kind edge) (gd_source_id edge),
          re_target = nodeKey (gd_target_kind edge) (gd_target_id edge), re_label = spaced (gd_relation edge),
          re_animated = highlighted,
          re_className = (if highlighted then Some ''graph-edge-highlighted'' else None)\<rparr>)"

definition GraphCanvas ::
  "(number \<Rightarrow> number) \<Rightarrow> (number \<Rightarrow> number) \<Rightarrow> GraphSubgraph \<Rightarrow> string \<Rightarrow> string option \<Rightarrow> string list \<Rightarrow>
   RFNode list \<times> RFEdge list" where
  "GraphCanvas Math_cos Math_sin g rootKey selectedKey highlightedEdgeIds =
     (let laidOut = layoutRadial Math_cos Math_sin rootKey (sg_nodes g) (sg_edges g) None;
          laidOutKeys = js_set (map ln_key laidOut)
      in (map (\<lambda>item. \<lparr>rn_id = ln_key item, rn_position = (ln_x item, ln_y item), rn_entity = ln_entity item,
                       rn_selected = (Some (ln_key item) = selectedKey)\<rparr>) laidOut,
          filter (\<lambda>e. re_source e \<in> set laidOutKeys \<and> re_target e \<in> set laidOutKeys)
            (map (rf_edge highlightedEdgeIds) (sg_edges g))))"

definition canvas :: "(number \<Rightarrow> number) \<Rightarrow> (number \<Rightarrow> number) \<Rightarrow> kg_state \<Rightarrow> RFNode list \<times> RFEdge list" where
  "canvas Math_cos Math_sin s =
     GraphCanvas Math_cos Math_sin (combined s) (kg_rootKey s) (map_option entity_key (kg_selectedEntity s))
       (kg_highlightedEdgeIds s)"

subsection \<open>Root-cause navigation\<close>

definition groupByRelation :: "GraphNeighbor list \<Rightarrow> (string \<times> GraphNeighbor list) list" where
  "groupByRelation ns = foldl (bucket_push (\<lambda>n. gd_relation (gn_edge n))) [] ns"

text \<open>
  The navigator's own state is its trail; its \<open>start\<close> is the page's selected entity, and an effect
  sets the trail to the start whenever the start changes.
\<close>

type_synonym navigator = "GraphEntity list \<times> kg_state"

definition start_effect :: "kg_state \<Rightarrow> kg_state \<Rightarrow> GraphEntity list \<Rightarrow> GraphEntity list" where
  "start_effect before now tr =
     (if kg_selectedEntity now = kg_selectedEntity before then tr
      else case kg_selectedEntity now of Some start \<Rightarrow> [start] | None \<Rightarrow> tr)"

definition drillInto :: "navigator \<Rightarrow> GraphEntity \<Rightarrow> navigator" where
  "drillInto nav entity =
     (case nav of (tr, s) \<Rightarrow>
        let s' = handleFocus (closure_of s) entity s in (start_effect s s' (tr @ [entity]), s'))"

definition jumpTo :: "navigator \<Rightarrow> nat \<Rightarrow> navigator" where
  "jumpTo nav index =
     (case nav of (tr, s) \<Rightarrow>
        if Suc index < length tr
        then let s' = handleFocus (closure_of s) (tr ! index) s in (start_effect s s' (take (Suc index) tr), s')
        else nav)"

subsection \<open>The Judge Mode player\<close>

record jp_state =
  jp_steps :: "JudgeModeStep list"
  jp_stepIndex :: int
  jp_isPlaying :: bool

definition player_steps :: "GraphEntity \<Rightarrow> GraphNeighbor list option \<Rightarrow> GraphNeighbor list option \<Rightarrow> JudgeModeStep list" where
  "player_steps assessment assessmentNeighbors agentNeighbors =
     (case assessmentNeighbors of
        None \<Rightarrow> []
      | Some ns \<Rightarrow> buildJudgeModeSteps assessment ns (case agentNeighbors of Some ms \<Rightarrow> ms | None \<Rightarrow> []))"

definition jp_start :: jp_state where
  "jp_start = \<lparr>jp_steps = [], jp_stepIndex = 0, jp_isPlaying = False\<rparr>"

definition jp_last :: "jp_state \<Rightarrow> int" where
  "jp_last s = int (length (jp_steps s)) - 1"

text \<open>The effect after a render, and whether it leaves a timer.\<close>

definition jp_effect :: "jp_state \<Rightarrow> jp_state" where
  "jp_effect s =
     (if jp_isPlaying s \<and> jp_steps s \<noteq> [] \<and> jp_last s \<le> jp_stepIndex s then s\<lparr>jp_isPlaying := False\<rparr> else s)"

definition jp_timer :: "jp_state \<Rightarrow> bool" where
  "jp_timer s \<longleftrightarrow> jp_isPlaying s \<and> jp_steps s \<noteq> [] \<and> jp_stepIndex s < jp_last s"

definition jp_highlight :: "jp_state \<Rightarrow> string list" where
  "jp_highlight s =
     js_set (concat (map (\<lambda>st. case js_edge st of Some e \<Rightarrow> [edgeKey e] | None \<Rightarrow> [])
       (take (nat (jp_stepIndex s + 1)) (jp_steps s))))"

definition jp_current :: "jp_state \<Rightarrow> JudgeModeStep option" where
  "jp_current s =
     (if 0 \<le> jp_stepIndex s \<and> jp_stepIndex s \<le> jp_last s then Some (jp_steps s ! nat (jp_stepIndex s)) else None)"

datatype jp_event =
    JpAssessment
  | JpSteps "JudgeModeStep list"
  | JpSelect nat
  | JpPrevious
  | JpToggle
  | JpNext
  | JpTimer

fun jp_apply :: "jp_state \<Rightarrow> jp_event \<Rightarrow> jp_state" where
  "jp_apply s JpAssessment = s\<lparr>jp_stepIndex := 0, jp_isPlaying := False\<rparr>"
| "jp_apply s (JpSteps steps) = s\<lparr>jp_steps := steps\<rparr>"
| "jp_apply s (JpSelect i) = (if i < length (jp_steps s) then s\<lparr>jp_stepIndex := int i\<rparr> else s)"
| "jp_apply s JpPrevious = (if jp_stepIndex s = 0 then s else s\<lparr>jp_stepIndex := max 0 (jp_stepIndex s - 1)\<rparr>)"
| "jp_apply s JpToggle =
     (if jp_steps s = [] \<or> jp_last s \<le> jp_stepIndex s then s else s\<lparr>jp_isPlaying := \<not> jp_isPlaying s\<rparr>)"
| "jp_apply s JpNext =
     (if jp_last s \<le> jp_stepIndex s then s else s\<lparr>jp_stepIndex := min (jp_last s) (jp_stepIndex s + 1)\<rparr>)"
| "jp_apply s JpTimer = (if jp_timer s then s\<lparr>jp_stepIndex := jp_stepIndex s + 1\<rparr> else s)"

definition jp_step :: "jp_state \<Rightarrow> jp_event \<Rightarrow> jp_state" where
  "jp_step s e = jp_effect (jp_apply s e)"

subsection \<open>Facts about merging\<close>

lemma keyed_fold:
  "foldl (\<lambda>m x. amap_set (f x) x m) (amap_of (map (\<lambda>x. (f x, x)) base)) addition = amap_of (map (\<lambda>x. (f x, x)) (base @ addition))"
  by (simp add: amap_of_def foldl_map)

lemma amap_set_own_keys: "list_all (\<lambda>(k, x). k = f x) m \<Longrightarrow> list_all (\<lambda>(k, x). k = f x) (amap_set (f x) x m)"
  by (induction "f x" x m rule: amap_set.induct) auto

lemma amap_of_snoc: "amap_of (kvs @ [(k, v)]) = amap_set k v (amap_of kvs)"
  by (simp add: amap_of_def)

lemma keyed_amap:
  "list_all (\<lambda>(k, x). k = f x) (amap_of (map (\<lambda>x. (f x, x)) xs)) \<and>
   distinct (map fst (amap_of (map (\<lambda>x. (f x, x)) xs))) \<and>
   fst ` set (amap_of (map (\<lambda>x. (f x, x)) xs)) = f ` set xs"
proof (induction xs rule: rev_induct)
  case Nil
  show ?case by (simp add: amap_of_def)
next
  case (snoc x xs)
  then show ?case by (simp add: amap_of_snoc amap_set_own_keys distinct_amap_set keys_amap_set)
qed

lemma merge_by_keys: "map f (merge_by f base addition) = map fst (amap_of (map (\<lambda>x. (f x, x)) (base @ addition)))"
  using keyed_amap[of f "base @ addition"] unfolding merge_by_def keyed_fold
  by (simp add: list_all_iff case_prod_beta)

lemma merge_by_distinct: "distinct (map f (merge_by f base addition))"
  unfolding merge_by_keys using keyed_amap[of f "base @ addition"] by simp

lemma merge_by_key_set: "f ` set (merge_by f base addition) = f ` set base \<union> f ` set addition"
proof -
  have "f ` set (merge_by f base addition) = set (map f (merge_by f base addition))" by simp
  also have "\<dots> = fst ` set (amap_of (map (\<lambda>x. (f x, x)) (base @ addition)))" by (simp only: merge_by_keys list.set_map)
  also have "\<dots> = f ` set base \<union> f ` set addition" using keyed_amap[of f "base @ addition"] by (simp add: image_Un)
  finally show ?thesis .
qed

lemma combined_nodes:
  "entity_key ` set (sg_nodes (combined s)) =
     entity_key ` set (sg_nodes (case kg_subgraph s of Some g \<Rightarrow> g | None \<Rightarrow> empty_graph)) \<union>
     entity_key ` set (sg_nodes (kg_extra s))"
  by (simp add: combined_def mergeGraphs_def merge_by_key_set)

subsection \<open>Facts about the canvas\<close>

lemma rf_edge_simps [simp]:
  "re_id (rf_edge h e) = edgeKey e"
  "re_source (rf_edge h e) = nodeKey (gd_source_kind e) (gd_source_id e)"
  "re_target (rf_edge h e) = nodeKey (gd_target_kind e) (gd_target_id e)"
  by (simp_all add: rf_edge_def Let_def)

lemma canvas_node_ids:
  "map rn_id (fst (GraphCanvas mc ms g r sel h)) = map ln_key (layoutRadial mc ms r (sg_nodes g) (sg_edges g) None)"
  by (simp add: GraphCanvas_def Let_def o_def)

lemma canvas_edges:
  "snd (GraphCanvas mc ms g r sel h) =
     filter (\<lambda>e. re_source e \<in> rn_id ` set (fst (GraphCanvas mc ms g r sel h)) \<and>
                 re_target e \<in> rn_id ` set (fst (GraphCanvas mc ms g r sel h))) (map (rf_edge h) (sg_edges g))"
  by (simp add: GraphCanvas_def Let_def image_image)

lemma canvas_unknown_root:
  assumes "r \<notin> entity_key ` set (sg_nodes g)"
  shows "GraphCanvas mc ms g r sel h = ([], [])"
  using layoutRadial_unknown_root[OF assms] by (simp add: GraphCanvas_def Let_def)

lemma effectiveRoot_recentered:
  "kg_rootKey (handleRecenter c e s) = entity_key e"
  "kg_extra (handleRecenter c e s) = empty_graph"
  "kg_subgraph (handleRecenter c e s) = kg_subgraph s"
  by (simp_all add: kg_rootKey_def effectiveRoot_def handleRecenter_def handleExpand_def)

lemma neighbors_arrived_keeps:
  "kg_rootKey (neighbors_arrived x ns s) = kg_rootKey s"
  "kg_subgraph (neighbors_arrived x ns s) = kg_subgraph s"
  "entity_key ` set (sg_nodes (kg_extra (neighbors_arrived x ns s))) =
     entity_key ` set (sg_nodes (kg_extra s)) \<union> entity_key ` gn_entity ` set ns"
  by (simp_all add: kg_rootKey_def effectiveRoot_def neighbors_arrived_def mergeGraphs_def merge_by_key_set
      split: option.split)

lemma crumb_selected:
  "effectiveRoot (handleBreadcrumbSelect x i s) = Some x"
  "trail (handleBreadcrumbSelect x i s) = take i (kg_breadcrumbs s) @ [x]"
  by (simp_all add: trail_def effectiveRoot_def handleBreadcrumbSelect_def)

subsection \<open>Facts about deep links\<close>

lemma form_decode_uri: "form_decode (encodeURIComponent s) = s"
proof -
  have "form_decode (uri_char c @ t) = c # form_decode t" for c t
  proof (cases "is_alnum c \<or> c \<in> set ''-_.!~*()'' \<or> c = CHR 0x27")
    case True
    moreover from True have "c \<noteq> CHR ''%'' \<and> c \<noteq> CHR ''+''" by (auto simp: is_alnum_def)
    ultimately show ?thesis by (simp add: uri_char_def form_decode_plain)
  next
    case False
    then show ?thesis unfolding uri_char_def by (simp only: if_False form_decode_percent)
  qed
  then show ?thesis by (induction s) (simp_all add: encodeURIComponent_def)
qed

lemma uri_safe: "CHR ''&'' \<notin> set (encodeURIComponent s)"
proof -
  have "CHR ''&'' \<notin> set (uri_char c)" for c
  proof -
    have "(of_char c :: nat) div 16 < 16" "(of_char c :: nat) mod 16 < 16"
      using of_char_less_256[of c] by (simp_all add: less_mult_imp_div_less)
    note hex = this[THEN hex_digit_facts]
    show ?thesis using hex by (auto simp: uri_char_def percent_def is_alnum_def Let_def)
  qed
  then show ?thesis by (auto simp: encodeURIComponent_def)
qed

lemma parse_focus_key:
  assumes "kind \<noteq> []" and "CHR '':'' \<notin> set kind"
  shows "parse_focus (kind @ '':'' @ eid) = Some (kind, eid)"
proof -
  have k: "\<forall>c\<in>set kind. c \<noteq> CHR '':''" using assms(2) by metis
  then have "takeWhile (\<lambda>c. c \<noteq> CHR '':'') (kind @ CHR '':'' # eid) = kind"
    and "dropWhile (\<lambda>c. c \<noteq> CHR '':'') (kind @ CHR '':'' # eid) = CHR '':'' # eid"
    by (simp_all add: takeWhile_append2 dropWhile_append2)
  then show ?thesis using assms(1) by (simp add: parse_focus_def Let_def)
qed

lemma graph_kinds:
  "map_of GRAPH_CATEGORY kind = Some c \<Longrightarrow> kind \<noteq> [] \<and> CHR '':'' \<notin> set kind"
  by (auto simp: GRAPH_CATEGORY_def split: if_splits)

text \<open>The part of a location from its first question mark on, \<open>location.search\<close>.\<close>

definition url_search :: "string \<Rightarrow> string" where
  "url_search url = dropWhile (\<lambda>c. c \<noteq> CHR ''?'') url"

lemma link_focus:
  assumes "map_of GRAPH_CATEGORY (ge_kind e) = Some c"
  shows "map_of (read_query (url_search (''/knowledge-graph?focus='' @ encodeURIComponent (ge_kind e @ '':'' @ ge_id e)))) ''focus'' =
    Some (ge_kind e @ '':'' @ ge_id e)"
proof -
  let ?enc = "encodeURIComponent (ge_kind e @ '':'' @ ge_id e)"
  have "split_on CHR ''&'' (''focus='' @ ?enc) = [''focus='' @ ?enc]"
    by (rule split_on_whole) (use uri_safe[of "ge_kind e @ '':'' @ ge_id e"] in simp)
  moreover have "read_pair (''focus='' @ ?enc) = (''focus'', ge_kind e @ '':'' @ ge_id e)"
    using form_decode_uri[of "ge_kind e @ '':'' @ ge_id e"] by (simp add: read_pair_def)
  ultimately show ?thesis by (simp add: url_search_def read_query_def)
qed

subsection \<open>The page's invariant\<close>

definition kg_inv :: "kg_state \<Rightarrow> bool" where
  "kg_inv s \<longleftrightarrow>
     (kg_judgeModeAssessment s = None \<or> is_risk_assessment (kg_judgeModeAssessment s)) \<and>
     distinct (kg_expandedKeys s) \<and>
     distinct (map entity_key (sg_nodes (kg_extra s))) \<and> distinct (map edgeKey (sg_edges (kg_extra s)))"

lemma handleExpand_inv: "kg_inv s \<Longrightarrow> kg_inv (handleExpand c e s)"
  by (simp add: kg_inv_def handleExpand_def)

lemma handleRecenter_inv: "kg_inv (handleRecenter c e s)"
  unfolding handleRecenter_def by (rule handleExpand_inv) (simp add: kg_inv_def empty_graph_def)

lemma select_inv: "kg_inv s \<Longrightarrow> kg_inv (handleSelectAndExpand c e s)" "kg_inv s \<Longrightarrow> kg_inv (handleFocus c e s)"
  unfolding handleSelectAndExpand_def handleFocus_def by (rule handleExpand_inv, simp add: kg_inv_def)+

lemma drop_pending_inv: "kg_inv s \<Longrightarrow> kg_inv (drop_pending i s)"
  by (simp add: kg_inv_def drop_pending_def)

lemma neighbors_arrived_inv: "kg_inv s \<Longrightarrow> kg_inv (neighbors_arrived e ns s)"
  by (simp add: kg_inv_def neighbors_arrived_def mergeGraphs_def merge_by_distinct)

lemma answer_inv: "kg_inv s \<Longrightarrow> kg_inv (answer i ns e s)"
  by (cases "kg_pending s ! i")
    (simp_all add: answer_def neighbors_arrived_inv select_inv handleRecenter_inv drop_pending_inv)

lemma panel_inv: "kg_inv s \<Longrightarrow> kg_inv (open_panel p s)"
  by (cases p) (simp_all add: open_panel_def kg_inv_def)

lemma kg_step_inv: "kg_inv s \<Longrightarrow> kg_inv (kg_step s e)"
  by (cases e)
    (simp_all add: handleRecenter_inv select_inv answer_inv panel_inv drop_pending_inv,
     simp_all add: kg_inv_def handleSelectRef_def select_crumb_def handleBreadcrumbSelect_def empty_graph_def
       focus_effect_def split: option.split)

interpretation page: transition_system "kg_start plant subgraph" kg_step kg_inv for plant subgraph
proof
  show "kg_inv (kg_start plant subgraph)" by (simp add: kg_inv_def kg_start_def empty_graph_def)
qed (rule kg_step_inv)

subsection \<open>Properties\<close>

text \<open>
  (C34) Whatever was expanded, recentered or merged, the canvas gets a proper graph: node identifiers are
  distinct, edge identifiers are distinct, every edge ends at two shown nodes, and the nodes shown
  are exactly the known entities connected to the current root (none when the root is unknown).
\<close>

theorem canvas_well_formed:
  "(let nodes = fst (canvas mc ms s); edges = snd (canvas mc ms s); g = combined s
    in distinct (map rn_id nodes) \<and> distinct (map re_id edges) \<and>
       list_all (\<lambda>e. re_source e \<in> set (map rn_id nodes) \<and> re_target e \<in> set (map rn_id nodes)) edges \<and>
       set (map rn_id nodes) =
         (if kg_rootKey s \<in> entity_key ` set (sg_nodes g)
          then {k. (kg_rootKey s, k) \<in> (edge_rel (sg_nodes g) (sg_edges g))\<^sup>*} else {}))"
proof -
  let ?g = "combined s" and ?c = "canvas mc ms s"
  have ids: "map rn_id (fst ?c) = map ln_key (layoutRadial mc ms (kg_rootKey s) (sg_nodes ?g) (sg_edges ?g) None)"
    unfolding canvas_def by (rule canvas_node_ids)
  have "distinct (map rn_id (fst ?c)) \<and> set (map rn_id (fst ?c)) =
      (if kg_rootKey s \<in> entity_key ` set (sg_nodes ?g)
       then {k. (kg_rootKey s, k) \<in> (edge_rel (sg_nodes ?g) (sg_edges ?g))\<^sup>*} else {})"
  proof (cases "kg_rootKey s \<in> entity_key ` set (sg_nodes ?g)")
    case True
    then show ?thesis unfolding ids using layoutRadial_key_set[OF True] by simp
  next
    case False
    then show ?thesis unfolding ids by (simp add: layoutRadial_unknown_root)
  qed
  moreover have e: "snd ?c = filter (\<lambda>e. re_source e \<in> rn_id ` set (fst ?c) \<and> re_target e \<in> rn_id ` set (fst ?c))
      (map (rf_edge (kg_highlightedEdgeIds s)) (sg_edges ?g))"
    unfolding canvas_def by (rule canvas_edges)
  moreover have "distinct (map edgeKey (sg_edges ?g))"
    by (simp add: combined_def mergeGraphs_def merge_by_distinct)
  then have "distinct (map re_id (map (rf_edge (kg_highlightedEdgeIds s)) (sg_edges ?g)))" by (simp add: o_def)
  then have "distinct (map re_id (snd ?c))" unfolding e by (rule distinct_map_filter)
  moreover have "list_all (\<lambda>e. re_source e \<in> set (map rn_id (fst ?c)) \<and> re_target e \<in> set (map rn_id (fst ?c))) (snd ?c)"
    by (subst e) (auto simp: list_all_iff)
  ultimately show ?thesis by (simp only: Let_def simp_thms)
qed

text \<open>
  The breadcrumbs can be walked back: recentering extends the trail by the new root, and selecting
  any earlier crumb of the trail makes that entity the root again and cuts the trail after it.
\<close>

theorem breadcrumbs_walk_back:
  "(let s1 = kg_step s (Recenter e); s2 = kg_step s1 (SelectCrumb i)
    in trail s1 = trail s @ [e] \<and>
       (if i < length (trail s) then trail s2 = take (Suc i) (trail s) \<and> effectiveRoot s2 = Some (trail s ! i)
        else s2 = s1))"
proof -
  let ?s1 = "handleRecenter (closure_of s) e s"
  have root: "effectiveRoot ?s1 = Some e" and crumbs: "kg_breadcrumbs ?s1 = trail s"
    by (simp_all add: effectiveRoot_def handleRecenter_def handleExpand_def closure_of_def trail_def split: option.split)
  then have t: "trail ?s1 = trail s @ [e]" by (simp add: trail_def)
  have "trail (select_crumb i ?s1) = take (Suc i) (trail s) \<and> effectiveRoot (select_crumb i ?s1) = Some (trail s ! i)"
    if i: "i < length (trail s)"
    using i by (simp add: select_crumb_def t crumb_selected crumbs nth_append take_Suc_conv_app_nth)
  moreover have "select_crumb i ?s1 = ?s1" if "\<not> i < length (trail s)"
    using that by (simp add: select_crumb_def t)
  ultimately show ?thesis by (simp add: t Let_def)
qed

text \<open>
  A link the search writes for a graph entity is understood by the page: reading the link's query
  by the URL rules and splitting the \<open>focus\<close> parameter gives back exactly the entity's kind and
  identifier, whatever characters the identifier has.
\<close>

theorem deep_link_roundtrip:
  "(case graphEntityToSearchResult e of
      None \<Rightarrow> True
    | Some r \<Rightarrow>
        if ge_kind e = ''zone'' then sr_deepLink r = ''/zones/'' @ ge_id e
        else Option.bind (map_of (read_query (url_search (sr_deepLink r))) ''focus'') parse_focus = Some (ge_kind e, ge_id e))"
proof (cases "map_of GRAPH_CATEGORY (ge_kind e)")
  case None
  then show ?thesis by (simp add: graphEntityToSearchResult_def)
next
  case (Some c)
  then show ?thesis
    using link_focus[OF Some] parse_focus_key[of "ge_kind e" "ge_id e"] graph_kinds[OF Some]
    by (simp add: graphEntityToSearchResult_def Let_def)
qed

text \<open>
  What recentering really shows. The base of the canvas is always the plant's own neighbourhood, and
  recentering drops everything expanded so far: when the new root is not in that neighbourhood the
  canvas is empty, and stays empty when the root's neighbours arrive, because an entity is not
  among its own neighbours. And the neighbours are requested only when the entity had not been
  expanded before, although the record of expansions is dropped in the same step.
\<close>

theorem recenter_outside_plant_is_blank:
  "(let s1 = kg_step s (Recenter e); s2 = neighbors_arrived e ns s1
    in (if entity_key e \<in> entity_key ` set (sg_nodes (case kg_subgraph s of Some g \<Rightarrow> g | None \<Rightarrow> empty_graph)) then True
        else canvas mc ms s1 = ([], []) \<and>
             (if entity_key e \<in> entity_key ` gn_entity ` set ns then True else canvas mc ms s2 = ([], []))) \<and>
       kg_expandedKeys s1 = [] \<and>
       kg_pending s1 = kg_pending s @
         (if entity_key e \<in> set (kg_expandedKeys s) then [] else [PendingNeighbors e]))"
proof -
  let ?s1 = "handleRecenter (closure_of s) e s"
  let ?known = "entity_key ` set (sg_nodes (case kg_subgraph s of Some g \<Rightarrow> g | None \<Rightarrow> empty_graph))"
  have k1: "entity_key ` set (sg_nodes (combined ?s1)) = ?known"
    by (simp add: combined_nodes effectiveRoot_recentered) (simp add: empty_graph_def)
  have k2: "entity_key ` set (sg_nodes (combined (neighbors_arrived e ns ?s1))) = ?known \<union> entity_key ` gn_entity ` set ns"
    unfolding combined_nodes neighbors_arrived_keeps effectiveRoot_recentered by (simp add: empty_graph_def)
  have "entity_key e \<notin> ?known \<Longrightarrow> canvas mc ms ?s1 = ([], [])"
    unfolding canvas_def effectiveRoot_recentered by (rule canvas_unknown_root) (simp only: k1 not_False_eq_True)
  moreover have "entity_key e \<notin> ?known \<Longrightarrow> entity_key e \<notin> entity_key ` gn_entity ` set ns \<Longrightarrow>
      canvas mc ms (neighbors_arrived e ns ?s1) = ([], [])"
    unfolding canvas_def neighbors_arrived_keeps effectiveRoot_recentered
    by (rule canvas_unknown_root) (simp only: k2 Un_iff simp_thms)
  moreover have "kg_expandedKeys ?s1 = []"
    and "kg_pending ?s1 = kg_pending s @ (if entity_key e \<in> set (kg_expandedKeys s) then [] else [PendingNeighbors e])"
    by (simp_all add: handleRecenter_def handleExpand_def closure_of_def)
  ultimately show ?thesis by (simp only: kg_step.simps Let_def if_bool_eq_conj simp_thms) blast
qed

text \<open>
  In every state the page can reach, an explanation is only ever opened for a risk assessment, and
  no entity counts as expanded twice.
\<close>

theorem graph_page_invariant:
  "(let s = foldl kg_step (kg_start plant subgraph) es
    in (if kg_judgeModeAssessment s = None then True else is_risk_assessment (kg_judgeModeAssessment s)) \<and>
       distinct (kg_expandedKeys s) \<and>
       distinct (map entity_key (sg_nodes (kg_extra s))) \<and> distinct (map edgeKey (sg_edges (kg_extra s))))"
  using page.inv_reachable[of plant subgraph es] by (auto simp: kg_inv_def Let_def)

text \<open>
  The trail of the root-cause navigator never grows: drilling into a new entity also selects it on
  the page, the selection is the navigator's start, and a changed start resets the trail. However
  many entities are drilled into, each different from the one before, only the last is left.
\<close>

theorem drilling_loses_the_trail:
  "(let final = foldl drillInto ([start], s\<lparr>kg_selectedEntity := Some start\<rparr>) es
    in if distinct_adj (start # es) then fst final = [last (start # es)] else True)"
proof -
  have one: "fst (drillInto (tr, s) e) = [e] \<and> kg_selectedEntity (snd (drillInto (tr, s) e)) = Some e"
    if "kg_selectedEntity s = Some x" "x \<noteq> e" for tr s e x
    using that by (simp add: drillInto_def start_effect_def handleFocus_def handleExpand_def Let_def)
  have "fst (foldl drillInto ([x], s) es) = [last (x # es)]"
    if "distinct_adj (x # es)" "kg_selectedEntity s = Some x" for x s
    using that
  proof (induction es arbitrary: x s)
    case Nil
    then show ?case by simp
  next
    case (Cons e es)
    then obtain s' where d: "drillInto ([x], s) e = ([e], s')" "kg_selectedEntity s' = Some e"
      using one[of s x e "[x]"] by (cases "drillInto ([x], s) e") auto
    then show ?case using Cons.IH[of e s'] Cons.prems by simp
  qed
  then show ?thesis by (simp add: Let_def)
qed

text \<open>
  \<open>Explain This Decision\<close> shows every step of the chain once and in order and stops by itself: from
  a freshly opened player, after \<open>k\<close> timers the \<open>k\<close>-th step is current and the edges of the steps so
  far are highlighted, and the player is playing exactly while a step is left.
\<close>

theorem judge_player_explains:
  "(let s = foldl jp_step jp_start (JpSteps steps # JpToggle # replicate k JpTimer)
    in if k < length steps
       then jp_current s = Some (steps ! k) \<and> (jp_isPlaying s \<longleftrightarrow> Suc k < length steps) \<and>
            set (jp_highlight s) = edgeKey ` {e. \<exists>i\<le>k. js_edge (steps ! i) = Some e}
       else True)"
proof -
  have run: "foldl jp_step jp_start (JpSteps steps # JpToggle # replicate k JpTimer) =
      \<lparr>jp_steps = steps, jp_stepIndex = int k, jp_isPlaying = (Suc k < length steps)\<rparr>" if "k < length steps"
    using that
  proof (induction k)
    case 0
    then show ?case by (cases steps) (simp_all add: jp_step_def jp_effect_def jp_start_def jp_last_def)
  next
    case (Suc k)
    have "foldl jp_step jp_start (JpSteps steps # JpToggle # replicate (Suc k) JpTimer) =
        jp_step (foldl jp_step jp_start (JpSteps steps # JpToggle # replicate k JpTimer)) JpTimer"
      by (simp flip: replicate_append_same)
    also have "\<dots> = jp_step \<lparr>jp_steps = steps, jp_stepIndex = int k, jp_isPlaying = True\<rparr> JpTimer"
      using Suc by simp
    also have "\<dots> = \<lparr>jp_steps = steps, jp_stepIndex = int (Suc k), jp_isPlaying = (Suc (Suc k) < length steps)\<rparr>"
    proof -
      have "steps \<noteq> []" "int k < int (length steps) - 1"
        "int (length steps) - 1 \<le> 1 + int k \<longleftrightarrow> \<not> Suc (Suc k) < length steps"
        using Suc.prems by auto
      then show ?thesis by (simp add: jp_step_def jp_effect_def jp_timer_def jp_last_def)
    qed
    finally show ?case .
  qed
  have "set (jp_highlight \<lparr>jp_steps = steps, jp_stepIndex = int k, jp_isPlaying = b\<rparr>) =
      edgeKey ` {e. \<exists>i\<le>k. js_edge (steps ! i) = Some e}" if "k < length steps" for b
  proof -
    have steps: "set (take (Suc k) steps) = (\<lambda>i. steps ! i) ` {i. i \<le> k}"
      using that nth_image[of "Suc k" steps] by (simp add: atLeast0LessThan lessThan_Suc_atMost atMost_def)
    have edge: "set (case js_edge st of Some e \<Rightarrow> [edgeKey e] | None \<Rightarrow> []) = edgeKey ` {e. js_edge st = Some e}" for st
      by (cases "js_edge st") auto
    have "nat (int k + 1) = Suc k" by simp
    then show ?thesis unfolding jp_highlight_def by (simp add: steps edge) blast
  qed
  with run show ?thesis by (simp add: jp_current_def jp_last_def Let_def)
qed

end
