(* ===== verification/Plant_View.thy ===== *)
theory Plant_View
  imports Kpis Decision
begin

section \<open>Live incident playback and the plant map\<close>

text \<open>
  \<open>pages/ScenarioReplayPage.tsx\<close> (the playhead of a scenario and everything derived from it) and
  \<open>components/plant/PlantMap.tsx\<close> (where the zones are drawn and what is drawn on them). The playhead
  is a state machine over loading, timer ticks and the page's controls; an unreadable date is
  \<open>None\<close>, as \<open>NaN\<close> is in the source. The range input gives only values between its bounds.

  The lemmas show that the playhead stays inside the incident and that playback ends within 201
  ticks at any speed, that the map, the summary and the cards show the same rows, none of them later
  than the playhead, and how the site plan is laid out.
\<close>

subsection \<open>The playhead\<close>

definition SCRUB_STEPS :: int where "SCRUB_STEPS = 200"

definition SPEED_OPTIONS :: "int list" where "SPEED_OPTIONS = [1, 2, 5, 10]"

record sp_state =
  sp_scenario :: "ScenarioSummary option"
  sp_currentTime :: "int option option"
  sp_playing :: bool
  sp_speed :: int

definition sp_start :: sp_state where
  "sp_start = \<lparr>sp_scenario = None, sp_currentTime = None, sp_playing = False, sp_speed = 1\<rparr>"

definition startMs :: "host_zone \<Rightarrow> sp_state \<Rightarrow> int option" where
  "startMs hz s = (case sp_scenario s of Some sc \<Rightarrow> Date_getTime hz (ss_start_time sc) | None \<Rightarrow> Some 0)"

definition endMs :: "host_zone \<Rightarrow> sp_state \<Rightarrow> int option" where
  "endMs hz s = (case sp_scenario s of Some sc \<Rightarrow> Date_getTime hz (ss_end_time sc) | None \<Rightarrow> Some 0)"

definition step_size :: "int \<Rightarrow> int \<Rightarrow> int" where
  "step_size a b = max 1000 (Math_round (ndiv (nsub (of_int b) (of_int a)) (of_int SCRUB_STEPS)))"

definition stepMs :: "host_zone \<Rightarrow> sp_state \<Rightarrow> int option" where
  "stepMs hz s =
     (case sp_scenario s of
        None \<Rightarrow> Some 1000
      | Some _ \<Rightarrow> (case (startMs hz s, endMs hz s) of (Some a, Some b) \<Rightarrow> Some (step_size a b) | _ \<Rightarrow> None))"

text \<open>The effect that resets the playhead when a scenario arrives.\<close>

definition scenario_loaded :: "host_zone \<Rightarrow> ScenarioSummary \<Rightarrow> bool \<Rightarrow> sp_state \<Rightarrow> sp_state" where
  "scenario_loaded hz sc autoplay s =
     s\<lparr>sp_scenario := Some sc, sp_currentTime := Some (Date_getTime hz (ss_start_time sc)), sp_playing := autoplay\<rparr>"

text \<open>The interval's updater; without a playing playhead there is no interval.\<close>

definition sp_tick :: "host_zone \<Rightarrow> sp_state \<Rightarrow> sp_state" where
  "sp_tick hz s =
     (case sp_currentTime s of
        None \<Rightarrow> s
      | Some time \<Rightarrow>
          if \<not> sp_playing s then s
          else let nxt = (case (time, stepMs hz s) of (Some t, Some d) \<Rightarrow> Some (t + d * sp_speed s) | _ \<Rightarrow> None)
               in if ms_le (endMs hz s) nxt then s\<lparr>sp_playing := False, sp_currentTime := Some (endMs hz s)\<rparr>
                  else s\<lparr>sp_currentTime := Some nxt\<rparr>)"

definition sp_toggle :: "host_zone \<Rightarrow> sp_state \<Rightarrow> sp_state" where
  "sp_toggle hz s =
     (case (sp_currentTime s, endMs hz s) of
        (Some (Some t), Some b) \<Rightarrow> if t = b then s else s\<lparr>sp_playing := \<not> sp_playing s\<rparr>
      | _ \<Rightarrow> s\<lparr>sp_playing := \<not> sp_playing s\<rparr>)"

definition sp_reset :: "host_zone \<Rightarrow> sp_state \<Rightarrow> sp_state" where
  "sp_reset hz s = s\<lparr>sp_playing := False, sp_currentTime := Some (startMs hz s)\<rparr>"

definition sp_set_speed :: "int \<Rightarrow> sp_state \<Rightarrow> sp_state" where
  "sp_set_speed v s = (if v \<in> set SPEED_OPTIONS then s\<lparr>sp_speed := v\<rparr> else s)"

definition sp_scrub :: "host_zone \<Rightarrow> int \<Rightarrow> sp_state \<Rightarrow> sp_state" where
  "sp_scrub hz v s =
     (if ms_le (startMs hz s) (Some v) \<and> ms_le (Some v) (endMs hz s)
      then s\<lparr>sp_playing := False, sp_currentTime := Some (Some v)\<rparr> else s)"

datatype sp_event =
    ScenarioLoaded ScenarioSummary bool
  | SpTick
  | SpToggle
  | SpReset
  | SpSpeed int
  | SpScrub int

text \<open>The controls exist only once the scenario is there.\<close>

fun sp_step :: "host_zone \<Rightarrow> sp_state \<Rightarrow> sp_event \<Rightarrow> sp_state" where
  "sp_step hz s (ScenarioLoaded sc autoplay) = scenario_loaded hz sc autoplay s"
| "sp_step hz s SpTick = sp_tick hz s"
| "sp_step hz s SpToggle = (if sp_scenario s = None then s else sp_toggle hz s)"
| "sp_step hz s SpReset = (if sp_scenario s = None then s else sp_reset hz s)"
| "sp_step hz s (SpSpeed v) = (if sp_scenario s = None then s else sp_set_speed v s)"
| "sp_step hz s (SpScrub v) = (if sp_scenario s = None then s else sp_scrub hz v s)"

subsection \<open>What is shown at the playhead\<close>

record ZoneTimeline =
  zl_zoneId :: string
  zl_inWindow :: "RiskAssessment list"
  zl_atCursor :: "RiskAssessment option"

definition zoneIds :: "sp_state \<Rightarrow> string list" where
  "zoneIds s = (case sp_scenario s of Some sc \<Rightarrow> ss_zone_ids sc | None \<Rightarrow> [])"

definition data_at :: "'a option list \<Rightarrow> nat \<Rightarrow> 'a option" where
  "data_at results i = (if i < length results then results ! i else None)"

definition inside :: "host_zone \<Rightarrow> sp_state \<Rightarrow> RiskAssessment \<Rightarrow> bool" where
  "inside hz s item =
     (let t = Date_getTime hz (ra_timestamp item) in ms_le (startMs hz s) t \<and> ms_le t (endMs hz s))"

definition zone_timeline ::
  "host_zone \<Rightarrow> sp_state \<Rightarrow> RiskAssessment list option list \<Rightarrow> nat \<times> string \<Rightarrow> ZoneTimeline" where
  "zone_timeline hz s histories iz =
     (let items = (case data_at histories (fst iz) of Some items \<Rightarrow> items | None \<Rightarrow> []);
          inWindow = filter (inside hz s) items
      in \<lparr>zl_zoneId = snd iz, zl_inWindow = inWindow,
          zl_atCursor = (case sp_currentTime s of
                           None \<Rightarrow> None
                         | Some c \<Rightarrow> assessmentAtOrBefore hz inWindow (map_option of_int c))\<rparr>)"

definition zoneTimelines ::
  "host_zone \<Rightarrow> sp_state \<Rightarrow> RiskAssessment list option list \<Rightarrow> ZoneTimeline list" where
  "zoneTimelines hz s histories = map (zone_timeline hz s histories) (enumerate 0 (zoneIds s))"

definition assessmentsAtCursor :: "ZoneTimeline list \<Rightarrow> RiskAssessment list" where
  "assessmentsAtCursor zts = List.map_filter zl_atCursor zts"

definition twinPlantTier :: "ZoneTimeline list \<Rightarrow> string option" where
  "twinPlantTier zts = worstTier (map ra_tier (assessmentsAtCursor zts))"

definition twinAverageScore :: "ZoneTimeline list \<Rightarrow> number" where
  "twinAverageScore zts = averageCompoundScore (assessmentsAtCursor zts)"

record PlantMapZone =
  pz_zoneId :: string
  pz_name :: string
  pz_tier :: string
  pz_compoundRiskScore :: number
  pz_confidence :: number
  pz_timestamp :: string
  pz_workerCount :: "number option"
  pz_activePermitTypes :: "string list option"
  pz_equipmentRisk :: "number option"
  pz_gasRisk :: "number option"
  pz_gasType :: "string option"

record twin_data =
  tw_zones :: "Zone list option"
  tw_workerCounts :: "ZoneWorkerCount option list"
  tw_zoneSensors :: "SensorInfo list option list"
  tw_activePermits :: "Permit list option"

definition agent_risk :: "string \<Rightarrow> RiskJustification option \<Rightarrow> number option" where
  "agent_risk agent j =
     Option.bind j (\<lambda>x. map_option ac_risk (map_of (rj_agentContributions x) agent))"

definition map_zone :: "twin_data \<Rightarrow> nat \<times> ZoneTimeline \<Rightarrow> PlantMapZone option" where
  "map_zone d it =
     (case zl_atCursor (snd it) of
        None \<Rightarrow> None
      | Some a \<Rightarrow>
          let justification = parseJustification (ra_justification a)
          in Some \<lparr>pz_zoneId = zl_zoneId (snd it), pz_name = zoneLabel (zl_zoneId (snd it)) (tw_zones d),
                   pz_tier = ra_tier a, pz_compoundRiskScore = ra_compound_risk_score a,
                   pz_confidence = ra_confidence a, pz_timestamp = ra_timestamp a,
                   pz_workerCount = map_option zw_worker_count (data_at (tw_workerCounts d) (fst it)),
                   pz_activePermitTypes =
                     Some (activePermitTypesForZone (case tw_activePermits d of Some ps \<Rightarrow> ps | None \<Rightarrow> [])
                       (zl_zoneId (snd it))),
                   pz_equipmentRisk = agent_risk ''equipment_status'' justification,
                   pz_gasRisk = agent_risk ''gas_risk'' justification,
                   pz_gasType =
                     (case data_at (tw_zoneSensors d) (fst it) of
                        Some (x # _) \<Rightarrow> Some (si_gas_type x)
                      | _ \<Rightarrow> None)\<rparr>)"

definition mapZones :: "twin_data \<Rightarrow> ZoneTimeline list \<Rightarrow> PlantMapZone list" where
  "mapZones d zts = List.map_filter (map_zone d) (enumerate 0 zts)"

text \<open>The line under a zone's card that the naive baseline misses the escalation.\<close>

definition naive_misses :: "RiskAssessment option \<Rightarrow> CounterfactualComparison option \<Rightarrow> bool" where
  "naive_misses atCursor cf =
     (case (atCursor, cf) of
        (Some a, Some c) \<Rightarrow> ra_tier a \<noteq> ''normal'' \<and> \<not> cfv_alert (cc_counterfactual c)
      | _ \<Rightarrow> False)"

subsection \<open>The plant map\<close>

datatype ZoneShape = TankShape | BuildingShape | ControlShape | DockShape

record ZoneLayout =
  zy_x :: number
  zy_y :: number
  zy_width :: number
  zy_height :: number
  zy_shape :: ZoneShape

definition ZONE_LAYOUT :: "(string \<times> ZoneLayout) list" where
  "ZONE_LAYOUT =
     [(''Tank Farm'', \<lparr>zy_x = 30, zy_y = 210, zy_width = 150, zy_height = 130, zy_shape = TankShape\<rparr>),
      (''Compressor House'', \<lparr>zy_x = 230, zy_y = 160, zy_width = 150, zy_height = 180, zy_shape = BuildingShape\<rparr>),
      (''Boiler House'', \<lparr>zy_x = 420, zy_y = 140, zy_width = 150, zy_height = 200, zy_shape = BuildingShape\<rparr>),
      (''Control Room'', \<lparr>zy_x = 610, zy_y = 40, zy_width = 150, zy_height = 100, zy_shape = ControlShape\<rparr>),
      (''Loading Bay'', \<lparr>zy_x = 610, zy_y = 250, zy_width = 150, zy_height = 100, zy_shape = DockShape\<rparr>)]"

definition FALLBACK_LAYOUT :: "ZoneLayout list" where
  "FALLBACK_LAYOUT =
     [\<lparr>zy_x = 30, zy_y = 40, zy_width = 150, zy_height = 130, zy_shape = BuildingShape\<rparr>,
      \<lparr>zy_x = 230, zy_y = 40, zy_width = 150, zy_height = 130, zy_shape = BuildingShape\<rparr>,
      \<lparr>zy_x = 420, zy_y = 40, zy_width = 150, zy_height = 100, zy_shape = BuildingShape\<rparr>]"

definition layoutFor :: "string \<Rightarrow> nat \<Rightarrow> ZoneLayout" where
  "layoutFor name fallbackIndex =
     (case map_of ZONE_LAYOUT name of
        Some l \<Rightarrow> l
      | None \<Rightarrow> FALLBACK_LAYOUT ! (fallbackIndex mod length FALLBACK_LAYOUT))"

definition selectedLayout :: "PlantMapZone list \<Rightarrow> string option \<Rightarrow> ZoneLayout option" where
  "selectedLayout zones selectedZoneId =
     map_option (\<lambda>(i, z). layoutFor (pz_name z) i)
       (List.find (\<lambda>(i, z). Some (pz_zoneId z) = selectedZoneId) (enumerate 0 zones))"

record camera_transform =
  cm_translateX :: number
  cm_translateY :: number
  cm_scale :: number

definition cameraTransform :: "ZoneLayout option \<Rightarrow> camera_transform" where
  "cameraTransform selected =
     (case selected of
        None \<Rightarrow> \<lparr>cm_translateX = 0, cm_translateY = 0, cm_scale = 1\<rparr>
      | Some l \<Rightarrow>
          let focusX = nadd (zy_x l) (ndiv (zy_width l) 2);
              focusY = nadd (zy_y l) (ndiv (zy_height l) 2);
              scale = 3 / 2
          in \<lparr>cm_translateX = nsub 400 (nmul focusX scale), cm_translateY = nsub 200 (nmul focusY scale),
              cm_scale = scale\<rparr>)"

definition risk_level :: "number \<Rightarrow> string" where
  "risk_level risk =
     (if 65 \<le> risk then ''critical'' else if 40 \<le> risk then ''elevated'' else if 20 \<le> risk then ''watch'' else ''normal'')"

text \<open>What is drawn on a zone besides its shape: coordinates, and the level or the text it carries.\<close>

datatype zone_mark =
    HeatMark number number number number number
  | PulseMark number number number number
  | WorkerIcon number number number
  | PermitIcon number number PermitGlyph
  | EquipmentIcon number number string
  | SensorIcon number number string string
  | LabelMark number number string

definition heat_marks :: "ZoneLayout \<Rightarrow> PlantMapZone \<Rightarrow> zone_mark list" where
  "heat_marks l z =
     (case pz_gasRisk z of
        None \<Rightarrow> []
      | Some g \<Rightarrow>
          if 0 < g then
            let heatRadius = nmul (max (zy_width l) (zy_height l)) (fl (9 / 10))
            in [HeatMark (nadd (zy_x l) (ndiv (zy_width l) 2)) (nadd (zy_y l) (ndiv (zy_height l) 2))
                  heatRadius (nmul heatRadius (fl (7 / 10))) (min 1 (ndiv g 100))]
          else [])"

definition icon_marks :: "ZoneLayout \<Rightarrow> PlantMapZone \<Rightarrow> zone_mark list" where
  "icon_marks l z =
     (if pz_tier z = ''critical''
      then [PulseMark (nsub (zy_x l) 4) (nsub (zy_y l) 4) (nadd (zy_width l) 8) (nadd (zy_height l) 8)] else [])
     @ (case pz_workerCount z of
          Some n \<Rightarrow> if 0 < n then [WorkerIcon (nadd (zy_x l) 14) (nsub (zy_y l) 6) n] else []
        | None \<Rightarrow> [])
     @ map (\<lambda>(i, p). PermitIcon (nsub (nsub (nadd (zy_x l) (zy_width l)) 14) (nmul (of_nat i) 18)) (nsub (zy_y l) 6) (permitTypeGlyph p))
         (enumerate 0 (case pz_activePermitTypes z of Some ps \<Rightarrow> ps | None \<Rightarrow> []))
     @ (case pz_equipmentRisk z of
          Some r \<Rightarrow> [EquipmentIcon (nsub (nadd (zy_x l) (zy_width l)) 14) (nadd (nadd (zy_y l) (zy_height l)) 6) (risk_level r)]
        | None \<Rightarrow> [])
     @ (case (pz_gasType z, pz_gasRisk z) of
          (Some g, Some r) \<Rightarrow> [SensorIcon (nadd (zy_x l) 14) (nadd (nadd (zy_y l) (zy_height l)) 6) g (risk_level r)]
        | _ \<Rightarrow> [])"

definition label_marks :: "ZoneLayout \<Rightarrow> PlantMapZone \<Rightarrow> zone_mark list" where
  "label_marks l z =
     (let cx = nadd (zy_x l) (ndiv (zy_width l) 2); cy = nadd (nadd (zy_y l) (zy_height l)) 18
      in [LabelMark cx cy (pz_name z), LabelMark cx (nadd cy 16) (pz_tier z)])"

definition zone_marks :: "nat \<times> PlantMapZone \<Rightarrow> zone_mark list" where
  "zone_marks iz =
     (let l = layoutFor (pz_name (snd iz)) (fst iz)
      in heat_marks l (snd iz) @ icon_marks l (snd iz) @ label_marks l (snd iz))"

text \<open>The zone whose details the hover panel shows.\<close>

definition hover_enter :: "string \<Rightarrow> string option \<Rightarrow> string option" where
  "hover_enter zoneId hovered = Some zoneId"

definition hover_leave :: "string \<Rightarrow> string option \<Rightarrow> string option" where
  "hover_leave zoneId hovered = (if hovered = Some zoneId then None else hovered)"

definition hovered_zone :: "PlantMapZone list \<Rightarrow> string option \<Rightarrow> PlantMapZone option" where
  "hovered_zone zones hoveredZoneId = List.find (\<lambda>z. Some (pz_zoneId z) = hoveredZoneId) zones"

subsection \<open>Facts about playback\<close>

lemma ms_le_simps [simp]: "ms_le (Some x) (Some y) = (x \<le> y)" "\<not> ms_le None u" "\<not> ms_le u None"
  by (simp_all add: ms_le_def split: option.split)

lemma step_size_covers:
  assumes "a \<le> b" and "b - a < 2 ^ 53"
  shows "b - a \<le> 201 * step_size a b"
proof -
  let ?n = "(b - a) div 200"
  have sub: "nsub (of_int b) (of_int a) = of_int (b - a)"
    using fl_int[of "b - a"] assms by (simp add: nsub_def)
  have "\<bar>?n\<bar> < 2 ^ 53" using assms by (simp add: zdiv_mono1 div_le_dividend pos_imp_zdiv_nonneg_iff)
  moreover have "of_int ?n \<le> (of_int (b - a) / 200 :: rat)"
  proof -
    have "?n * 200 \<le> b - a" by presburger
    then have "(of_int (?n * 200) :: rat) \<le> of_int (b - a)" by (simp only: of_int_le_iff)
    then show ?thesis by (simp only: of_int_mult of_int_numeral pos_le_divide_eq zero_less_numeral)
  qed
  ultimately have "of_int ?n \<le> fl (of_int (b - a) / 200)"
    using fl_error_dir(2)[OF fl_int] by blast
  then have "?n \<le> Math_round (ndiv (nsub (of_int b) (of_int a)) 200)"
    unfolding Math_round_def ndiv_def sub by linarith
  then have "?n \<le> step_size a b" by (simp add: step_size_def SCRUB_STEPS_def)
  moreover have "1000 \<le> step_size a b" by (simp add: step_size_def)
  moreover have "b - a \<le> 200 * ?n + 199" by presburger
  ultimately show ?thesis by linarith
qed

lemma tick_moves:
  assumes "sp_playing s" "sp_scenario s = Some sc" "startMs hz s = Some a" "endMs hz s = Some b" "sp_currentTime s = Some (Some t)"
  shows "sp_tick hz s =
    (if b \<le> t + step_size a b * sp_speed s then s\<lparr>sp_playing := False, sp_currentTime := Some (Some b)\<rparr>
     else s\<lparr>sp_currentTime := Some (Some (t + step_size a b * sp_speed s))\<rparr>)"
  using assms by (simp add: sp_tick_def stepMs_def Let_def)

lemma stopped_ticks: "\<not> sp_playing s \<Longrightarrow> foldl (sp_step hz) s (replicate k SpTick) = s"
  by (induction k) (simp_all add: sp_tick_def split: option.split)

lemma bounds_keep:
  "startMs hz (s\<lparr>sp_playing := p\<rparr>) = startMs hz s" "endMs hz (s\<lparr>sp_playing := p\<rparr>) = endMs hz s"
  "startMs hz (s\<lparr>sp_currentTime := c\<rparr>) = startMs hz s" "endMs hz (s\<lparr>sp_currentTime := c\<rparr>) = endMs hz s"
  by (simp_all add: startMs_def endMs_def split: option.split)

lemma ticks_reach_end:
  assumes "sp_playing s" "sp_scenario s = Some sc" "startMs hz s = Some a" "endMs hz s = Some b"
    "sp_currentTime s = Some (Some t)" "1 \<le> sp_speed s"
    and "b - t \<le> int k * step_size a b" and "0 < k"
  shows "let s' = foldl (sp_step hz) s (replicate k SpTick)
         in sp_currentTime s' = Some (Some b) \<and> \<not> sp_playing s'"
  using assms
proof (induction k arbitrary: s t)
  case 0
  then show ?case by simp
next
  case (Suc k)
  let ?d = "step_size a b"
  have tick: "sp_tick hz s = (if b \<le> t + ?d * sp_speed s then s\<lparr>sp_playing := False, sp_currentTime := Some (Some b)\<rparr>
      else s\<lparr>sp_currentTime := Some (Some (t + ?d * sp_speed s))\<rparr>)"
    using tick_moves[of s sc hz a b t] Suc.prems by simp
  have "0 \<le> ?d" by (simp add: step_size_def)
  then have d: "?d \<le> ?d * sp_speed s" using mult_left_mono[of 1 "sp_speed s" ?d] Suc.prems(6) by simp
  show ?case
  proof (cases "b \<le> t + ?d * sp_speed s")
    case True
    then show ?thesis using tick by (simp add: stopped_ticks)
  next
    case False
    let ?s = "s\<lparr>sp_currentTime := Some (Some (t + ?d * sp_speed s))\<rparr>"
    have "b - (t + ?d * sp_speed s) \<le> int k * ?d"
      using Suc.prems(7) d by (simp add: algebra_simps)
    moreover have "0 < k" using False Suc.prems(7) d by (cases k) simp_all
    ultimately show ?thesis
      using Suc.IH[of ?s "t + ?d * sp_speed s"] Suc.prems tick False by (simp add: bounds_keep)
  qed
qed

subsection \<open>The playhead's invariant\<close>

definition sp_inv :: "host_zone \<Rightarrow> sp_state \<Rightarrow> bool" where
  "sp_inv hz s \<longleftrightarrow>
     sp_speed s \<in> set SPEED_OPTIONS \<and>
     (sp_currentTime s = None \<or>
      (\<exists>c sc. sp_currentTime s = Some c \<and> sp_scenario s = Some sc \<and>
        (ms_le (startMs hz s) (endMs hz s) \<longrightarrow> ms_le (startMs hz s) c \<and> ms_le c (endMs hz s))))"

lemma sp_tick_inv:
  assumes ok: "sp_inv hz s"
  shows "sp_inv hz (sp_tick hz s)"
proof (cases "sp_playing s \<and> sp_currentTime s \<noteq> None")
  case False
  then have "sp_tick hz s = s" by (cases "sp_currentTime s") (simp_all add: sp_tick_def)
  then show ?thesis using ok by simp
next
  case True
  then obtain c sc where c: "sp_currentTime s = Some c" "sp_scenario s = Some sc" "sp_playing s"
    and le: "ms_le (startMs hz s) (endMs hz s) \<Longrightarrow> ms_le (startMs hz s) c \<and> ms_le c (endMs hz s)"
    and v: "sp_speed s \<in> set SPEED_OPTIONS"
    using ok unfolding sp_inv_def by auto
  show ?thesis
  proof (cases "ms_le (startMs hz s) (endMs hz s)")
    case False
    then show ?thesis using c v by (auto simp: sp_inv_def sp_tick_def Let_def bounds_keep)
  next
    case True
    then obtain a b t where ab: "startMs hz s = Some a" "endMs hz s = Some b" "c = Some t" "a \<le> t" "t \<le> b" "a \<le> b"
      using le[OF True] by (auto simp: ms_le_def split: option.splits)
    have "1 \<le> sp_speed s" using v by (auto simp: SPEED_OPTIONS_def)
    then have "0 \<le> step_size a b * sp_speed s" by (simp add: step_size_def)
    then show ?thesis
      using tick_moves[of s sc hz a b t] c ab v by (auto simp: sp_inv_def bounds_keep)
  qed
qed

lemma scenario_loaded_inv: "sp_inv hz s \<Longrightarrow> sp_inv hz (scenario_loaded hz sc p s)"
  by (cases "Date_getTime hz (ss_start_time sc)") (auto simp: sp_inv_def scenario_loaded_def startMs_def endMs_def)

lemma sp_controls_inv:
  "sp_inv hz s \<Longrightarrow> sp_inv hz (sp_toggle hz s)"
  "sp_inv hz s \<Longrightarrow> sp_inv hz (sp_set_speed v s)"
  by (auto simp: sp_inv_def sp_toggle_def sp_set_speed_def startMs_def endMs_def split: option.splits)

lemma sp_reset_inv: "sp_inv hz s \<Longrightarrow> sp_scenario s \<noteq> None \<Longrightarrow> sp_inv hz (sp_reset hz s)"
  by (cases "startMs hz s") (auto simp: sp_inv_def sp_reset_def bounds_keep)

lemma sp_scrub_inv: "sp_inv hz s \<Longrightarrow> sp_scenario s \<noteq> None \<Longrightarrow> sp_inv hz (sp_scrub hz t s)"
  by (auto simp: sp_inv_def sp_scrub_def bounds_keep)

interpretation playhead: transition_system sp_start "sp_step hz" "sp_inv hz" for hz
proof
  show "sp_inv hz sp_start" by (simp add: sp_inv_def sp_start_def SPEED_OPTIONS_def)
  show "sp_inv hz (sp_step hz s e)" if "sp_inv hz s" for s e
    using that by (cases e)
      (simp_all add: sp_tick_inv scenario_loaded_inv sp_controls_inv sp_reset_inv sp_scrub_inv)
qed

subsection \<open>Facts about what is shown\<close>

lemma assessmentAtOrBefore_Some:
  assumes "assessmentAtOrBefore hz items c = Some a"
  shows "a \<in> set items \<and> at_or_before hz c a \<and>
    list_all (\<lambda>x. if at_or_before hz c x then the (assessment_time hz x) \<le> the (assessment_time hz a) else True) items"
proof -
  have "reduce1 (pick_later hz) (filter (at_or_before hz c) items) = Some a"
    using assms by (simp add: assessmentAtOrBefore_reduce)
  note m = latest.reduce1_first_max[OF this]
  have "a \<in> set (filter (at_or_before hz c) items)" by (rule is_first_max_in[OF m])
  moreover have "\<forall>x\<in>set (filter (at_or_before hz c) items). the (assessment_time hz x) \<le> the (assessment_time hz a)"
    using is_first_max_ge[OF m] by blast
  ultimately show ?thesis by (simp add: list_all_iff)
qed

lemma zl_simps [simp]: "zl_zoneId (zone_timeline hz s hs iz) = snd iz"
  by (simp add: zone_timeline_def Let_def)

lemma at_cursor_row:
  assumes "zl_atCursor (zone_timeline hz s hs iz) = Some a"
  obtains items c where "data_at hs (fst iz) = Some items" "a \<in> set items" "inside hz s a"
    "sp_currentTime s = Some c" "at_or_before hz (map_option of_int c) a"
proof -
  obtain c where c: "sp_currentTime s = Some c" using assms by (cases "sp_currentTime s") (simp_all add: zone_timeline_def Let_def)
  let ?items = "case data_at hs (fst iz) of Some items \<Rightarrow> items | None \<Rightarrow> []"
  have "assessmentAtOrBefore hz (filter (inside hz s) ?items) (map_option of_int c) = Some a"
    using assms c by (simp add: zone_timeline_def Let_def)
  from assessmentAtOrBefore_Some[OF this] have "a \<in> set ?items" "inside hz s a" "at_or_before hz (map_option of_int c) a"
    by simp_all
  with c that show ?thesis by (cases "data_at hs (fst iz)") auto
qed

lemma map_filter_tiers: "map pz_tier (List.map_filter (map_zone d) (enumerate n zts)) = map ra_tier (List.map_filter zl_atCursor zts)"
  by (induction zts arbitrary: n) (auto simp: map_filter_simps map_zone_def Let_def split: option.split)

lemma map_filter_scores:
  "map pz_compoundRiskScore (List.map_filter (map_zone d) (enumerate n zts)) =
     map ra_compound_risk_score (List.map_filter zl_atCursor zts)"
  by (induction zts arbitrary: n) (auto simp: map_filter_simps map_zone_def Let_def split: option.split)

lemma map_filter_ids:
  "map pz_zoneId (List.map_filter (map_zone d) (enumerate n zts)) =
     map zl_zoneId (filter (\<lambda>z. zl_atCursor z \<noteq> None) zts)"
  by (induction zts arbitrary: n) (auto simp: map_filter_simps map_zone_def Let_def split: option.split)

definition overlaps :: "ZoneLayout \<Rightarrow> ZoneLayout \<Rightarrow> bool" where
  "overlaps l m \<longleftrightarrow>
     zy_x l < zy_x m + zy_width m \<and> zy_x m < zy_x l + zy_width l \<and>
     zy_y l < zy_y m + zy_height m \<and> zy_y m < zy_y l + zy_height l"

definition in_view :: "ZoneLayout \<Rightarrow> bool" where
  "in_view l =
     (let c = cameraTransform (Some l)
      in 0 \<le> zy_x l \<and> zy_x l + zy_width l \<le> 800 \<and> 0 \<le> zy_y l \<and> zy_y l + zy_height l \<le> 400 \<and>
         cm_scale c * (zy_x l + zy_width l / 2) + cm_translateX c = 400 \<and>
         cm_scale c * (zy_y l + zy_height l / 2) + cm_translateY c = 200)"

lemma fl_half: "\<bar>n\<bar> < 2 ^ 53 \<Longrightarrow> fl (of_int n / 2) = of_int n / 2"
  using fl_dyadic[of n "- 1"] by (simp add: power_int_minus_divide)

lemma exact_halves:
  "numeral k < (2::int) ^ 53 \<Longrightarrow> fl (numeral k / 2) = numeral k / 2"
  "numeral k < (2::int) ^ 53 \<Longrightarrow> fl (- (numeral k / 2)) = - (numeral k / 2)"
  "numeral k < (2::int) ^ 53 \<Longrightarrow> fl (numeral k) = numeral k"
  "numeral k < (2::int) ^ 53 \<Longrightarrow> fl (- numeral k) = - numeral k"
  using fl_half[of "numeral k"] fl_int[of "numeral k"] by simp_all

lemma layoutFor_slot: "layoutFor name i \<in> set (map snd ZONE_LAYOUT @ FALLBACK_LAYOUT)"
proof (cases "map_of ZONE_LAYOUT name")
  case None
  have "i mod length FALLBACK_LAYOUT < length FALLBACK_LAYOUT" by (simp add: FALLBACK_LAYOUT_def)
  then show ?thesis using None by (simp add: layoutFor_def)
next
  case (Some l)
  then have "(name, l) \<in> set ZONE_LAYOUT" by (rule map_of_SomeD)
  then show ?thesis using Some by (force simp: layoutFor_def)
qed

subsection \<open>Properties\<close>

text \<open>
  In every state the playback page can reach, by any interleaving of loading, ticks and controls,
  the speed is one of the offered ones, there is no playhead without a scenario, and for a scenario
  that does not end before it starts the playhead lies between its start and its end.
\<close>

theorem playhead_invariant:
  "(let s = foldl (sp_step hz) sp_start es
    in sp_speed s \<in> set SPEED_OPTIONS \<and>
       (case sp_currentTime s of
          None \<Rightarrow> True
        | Some c \<Rightarrow> sp_scenario s \<noteq> None \<and>
            (if ms_le (startMs hz s) (endMs hz s) then ms_le (startMs hz s) c \<and> ms_le c (endMs hz s) else True)))"
  using playhead.inv_reachable[of hz es] by (auto simp: sp_inv_def Let_def split: option.splits)

text \<open>
  (C29) Playback ends: from any position of a playing incident, at any speed, 201 timer ticks bring the
  playhead to the end of the incident and stop it there. (The step is a rounded two-hundredth of the
  incident, so the rounding can cost one tick more than 200.)
\<close>

theorem playback_ends_within_201_ticks:
  assumes "sp_playing s" "sp_scenario s = Some sc" "startMs hz s = Some a" "endMs hz s = Some b"
    and "sp_currentTime s = Some (Some t)" "a \<le> t" "t \<le> b" "b - a < 2 ^ 53" "1 \<le> sp_speed s"
  shows "(let s' = foldl (sp_step hz) s (replicate 201 SpTick)
          in sp_currentTime s' = Some (Some b) \<and> \<not> sp_playing s')"
proof (rule ticks_reach_end[OF assms(1-5) assms(9)])
  show "b - t \<le> int 201 * step_size a b" using step_size_covers[of a b] assms by simp
qed simp

definition sample_playback :: sp_state where
  "sample_playback =
     scenario_loaded utc_zone \<lparr>ss_key = ''a'', ss_title = [], ss_description = [], ss_start_time = ''1970-01-01T00:00:00Z'',
       ss_end_time = ''1970-01-01T02:00:00Z'', ss_zone_ids = [], ss_seed = 0\<rparr> True sp_start"

theorem playback_ends_within_201_ticks_witness:
  "sp_currentTime (foldl (sp_step utc_zone) sample_playback (replicate 201 SpTick)) = Some (Some 7200000)"
proof -
  have a: "Date_getTime utc_zone ''1970-01-01T00:00:00Z'' = Some 0"
    and b: "Date_getTime utc_zone ''1970-01-01T02:00:00Z'' = Some 7200000" by code_simp+
  obtain sc where sc: "sp_scenario sample_playback = Some sc" by (simp add: sample_playback_def scenario_loaded_def)
  have "startMs utc_zone sample_playback = Some 0" "endMs utc_zone sample_playback = Some 7200000"
    "sp_playing sample_playback" "sp_currentTime sample_playback = Some (Some 0)" "1 \<le> sp_speed sample_playback"
    by (simp_all add: sample_playback_def scenario_loaded_def startMs_def endMs_def sp_start_def a b)
  then have "let s' = foldl (sp_step utc_zone) sample_playback (replicate 201 SpTick)
      in sp_currentTime s' = Some (Some 7200000) \<and> \<not> sp_playing s'"
    by (intro playback_ends_within_201_ticks[OF _ sc, where t = 0 and a = 0]) simp_all
  then show ?thesis by (simp only: Let_def simp_thms)
qed

text \<open>
  (C30) One playhead, one truth: the zones on the map are exactly the zones with a row at the playhead, in
  the scenario's order; each shows tier and score of a fetched row of that zone inside the incident
  and not later than the playhead; and the plant status is the worst tier shown on the map.
\<close>

theorem twin_views_agree:
  "(let zts = zoneTimelines hz s histories; zones = mapZones d zts
    in map pz_zoneId zones = map zl_zoneId (filter (\<lambda>z. zl_atCursor z \<noteq> None) zts) \<and>
       map zl_zoneId zts = zoneIds s \<and>
       twinPlantTier zts = worstTier (map pz_tier zones) \<and>
       map ra_compound_risk_score (assessmentsAtCursor zts) = map pz_compoundRiskScore zones \<and>
       list_all (\<lambda>z. \<exists>i items a c. data_at histories i = Some items \<and> zoneIds s ! i = pz_zoneId z \<and> a \<in> set items \<and>
         pz_tier z = ra_tier a \<and> pz_compoundRiskScore z = ra_compound_risk_score a \<and> pz_timestamp z = ra_timestamp a \<and>
         inside hz s a \<and> sp_currentTime s = Some c \<and> ms_le (assessment_time hz a) c) zones)"
proof -
  let ?zts = "zoneTimelines hz s histories"
  have "\<exists>i items a c. data_at histories i = Some items \<and> zoneIds s ! i = pz_zoneId z \<and> a \<in> set items \<and>
         pz_tier z = ra_tier a \<and> pz_compoundRiskScore z = ra_compound_risk_score a \<and> pz_timestamp z = ra_timestamp a \<and>
         inside hz s a \<and> sp_currentTime s = Some c \<and> ms_le (assessment_time hz a) c"
    if "z \<in> set (mapZones d ?zts)" for z
  proof -
    from that obtain i where i: "i < length (zoneIds s)" "map_zone d (i, zone_timeline hz s histories (i, zoneIds s ! i)) = Some z"
      by (auto simp: mapZones_def map_filter_def zoneTimelines_def in_set_enumerate_eq nth_enumerate_eq)
    then obtain a where a: "zl_atCursor (zone_timeline hz s histories (i, zoneIds s ! i)) = Some a"
      by (auto simp: map_zone_def split: option.splits)
    then obtain items c where row: "data_at histories i = Some items" "a \<in> set items" "inside hz s a"
      "sp_currentTime s = Some c" "at_or_before hz (map_option of_int c) a" by (rule at_cursor_row) simp
    have "ms_le (assessment_time hz a) c"
      using row(5) by (auto simp: at_or_before_def ms_le_def split: option.splits)
    moreover have "zoneIds s ! i = pz_zoneId z \<and> pz_tier z = ra_tier a \<and> pz_compoundRiskScore z = ra_compound_risk_score a \<and>
        pz_timestamp z = ra_timestamp a"
      using i(2) a by (auto simp: map_zone_def Let_def)
    ultimately show ?thesis using row by blast
  qed
  moreover have "map zl_zoneId ?zts = zoneIds s" by (simp add: zoneTimelines_def o_def)
  ultimately show ?thesis
    by (simp add: Let_def list_all_iff twinPlantTier_def assessmentsAtCursor_def mapZones_def
        map_filter_tiers map_filter_scores map_filter_ids)
qed

text \<open>
  The site plan: two different named zones never overlap and all lie inside the drawing, and
  selecting any zone moves the camera so that the zone's centre is the centre of the drawing.
\<close>

theorem site_plan_correct:
  "pairwise (\<lambda>l m. \<not> overlaps l m) (snd ` set ZONE_LAYOUT) \<and> card (snd ` set ZONE_LAYOUT) = length ZONE_LAYOUT \<and>
   in_view (layoutFor name i)"
proof (intro conjI)
  show "pairwise (\<lambda>l m. \<not> overlaps l m) (snd ` set ZONE_LAYOUT)"
    by (simp add: pairwise_def ZONE_LAYOUT_def overlaps_def)
  show "card (snd ` set ZONE_LAYOUT) = length ZONE_LAYOUT" by (simp add: ZONE_LAYOUT_def)
  have "list_all in_view (map snd ZONE_LAYOUT @ FALLBACK_LAYOUT)"
    by (simp add: ZONE_LAYOUT_def FALLBACK_LAYOUT_def in_view_def cameraTransform_def num_ops exact_halves)
  then show "in_view (layoutFor name i)" using layoutFor_slot[of name i] by (simp add: list_all_iff)
qed

text \<open>
  The fallback slots are not a grid: the slot depends on the zone's position in the whole list, so
  unknown zones three positions apart are drawn on top of each other, and the second slot overlaps
  the compressor house.
\<close>

theorem fallback_slots_collide:
  "(if map_of ZONE_LAYOUT name = None \<and> map_of ZONE_LAYOUT name' = None
    then layoutFor name i = layoutFor name' (i + 3) \<and> overlaps (layoutFor name 1) (layoutFor ''Compressor House'' j)
    else True)"
proof -
  have slots: "length FALLBACK_LAYOUT = 3" by (simp add: FALLBACK_LAYOUT_def)
  have "overlaps (FALLBACK_LAYOUT ! 1) (layoutFor ''Compressor House'' j)"
    by (simp add: layoutFor_def ZONE_LAYOUT_def FALLBACK_LAYOUT_def overlaps_def)
  moreover have "layoutFor name 1 = FALLBACK_LAYOUT ! 1 \<and> layoutFor name i = layoutFor name' (i + 3)"
    if "map_of ZONE_LAYOUT name = None" "map_of ZONE_LAYOUT name' = None"
    using that by (simp add: layoutFor_def slots)
  ultimately show ?thesis by simp
qed

end
