(* ===== verification/Views.thy ===== *)
theory Views
  imports Plant_View Scenario_Builder
begin

section \<open>Comparison, forecast chart and timeline editor\<close>

text \<open>
  Three views that keep state or compute what they show: the replay comparison
  (\<open>pages/ReplayComparisonPage.tsx\<close>), the forecast chart and the historical timeline
  (\<open>components/foresight/ForecastTrajectoryChart.tsx\<close>,
  \<open>components/historical/HistoricalTimelineComparison.tsx\<close>) and the drag-and-drop timeline of the
  scenario builder (\<open>components/scenarioBuilder/TimelineEditor.tsx\<close>), whose callbacks are the edits of
  the builder page. The comparison's progress is a binary64 number that accumulates rounded steps.

  The lemmas show that this progress stays between 0 and 1 and reaches 1 in spite of the rounding,
  that both sides show rows of their own incident not later than the common progress, that the
  chart's band spans exactly the observed values, and that dragging can never make a draft's times
  negative or its durations empty.
\<close>

subsection \<open>Replay comparison\<close>

record rc_state =
  rc_currentKey :: string
  rc_currentZoneId :: string
  rc_historicalKey :: string
  rc_historicalZoneId :: string
  rc_fraction :: number
  rc_playing :: bool
  rc_speed :: int

definition rc_start :: rc_state where
  "rc_start = \<lparr>rc_currentKey = [], rc_currentZoneId = [], rc_historicalKey = [], rc_historicalZoneId = [],
     rc_fraction = 0, rc_playing = False, rc_speed = 1\<rparr>"

definition first_zone :: "ScenarioSummary option \<Rightarrow> string" where
  "first_zone sc = (case sc of Some x \<Rightarrow> (case ss_zone_ids x of z # _ \<Rightarrow> z | [] \<Rightarrow> []) | None \<Rightarrow> [])"

definition rc_select_current :: "string \<Rightarrow> string \<Rightarrow> rc_state \<Rightarrow> rc_state" where
  "rc_select_current key zone s = s\<lparr>rc_currentKey := key, rc_currentZoneId := zone\<rparr>"

definition rc_select_historical :: "string \<Rightarrow> string \<Rightarrow> rc_state \<Rightarrow> rc_state" where
  "rc_select_historical key zone s = s\<lparr>rc_historicalKey := key, rc_historicalZoneId := zone\<rparr>"

text \<open>The effect of the catalogue's arrival: the first two scenarios, or twice the only one.\<close>

definition rc_defaults :: "ScenarioSummary list \<Rightarrow> rc_state \<Rightarrow> rc_state" where
  "rc_defaults scenarios s =
     (case scenarios of
        [] \<Rightarrow> s
      | first # rest \<Rightarrow>
          let s1 = (if rc_currentKey s = [] then rc_select_current (ss_key first) (first_zone (Some first)) s else s);
              other = (case rest of second # _ \<Rightarrow> second | [] \<Rightarrow> first)
          in if rc_historicalKey s = [] then rc_select_historical (ss_key other) (first_zone (Some other)) s1 else s1)"

definition find_scenario :: "ScenarioSummary list option \<Rightarrow> string \<Rightarrow> ScenarioSummary option" where
  "find_scenario scenarios key = Option.bind scenarios (List.find (\<lambda>sc. ss_key sc = key))"

definition rc_tick :: "rc_state \<Rightarrow> rc_state" where
  "rc_tick s =
     (if \<not> rc_playing s then s
      else let nxt = nadd (rc_fraction s) (ndiv (of_int (rc_speed s)) (of_int SCRUB_STEPS))
           in if 1 \<le> nxt then s\<lparr>rc_playing := False, rc_fraction := 1\<rparr> else s\<lparr>rc_fraction := nxt\<rparr>)"

datatype rc_event =
    RcCatalogue "ScenarioSummary list"
  | RcCurrent "ScenarioSummary list option" string
  | RcCurrentZone string
  | RcHistorical "ScenarioSummary list option" string
  | RcHistoricalZone string
  | RcToggle
  | RcScrub number
  | RcSpeed int
  | RcTick

text \<open>The range input gives binary64 numbers from 0 to 1, the select only its options.\<close>

fun rc_step :: "rc_state \<Rightarrow> rc_event \<Rightarrow> rc_state" where
  "rc_step s (RcCatalogue scs) = rc_defaults scs s"
| "rc_step s (RcCurrent scs key) = rc_select_current key (first_zone (find_scenario scs key)) s"
| "rc_step s (RcCurrentZone z) = s\<lparr>rc_currentZoneId := z\<rparr>"
| "rc_step s (RcHistorical scs key) = rc_select_historical key (first_zone (find_scenario scs key)) s"
| "rc_step s (RcHistoricalZone z) = s\<lparr>rc_historicalZoneId := z\<rparr>"
| "rc_step s RcToggle = s\<lparr>rc_playing := \<not> rc_playing s\<rparr>"
| "rc_step s (RcScrub v) = (if 0 \<le> v \<and> v \<le> 1 \<and> fl v = v then s\<lparr>rc_fraction := v\<rparr> else s)"
| "rc_step s (RcSpeed v) = (if v \<in> set SPEED_OPTIONS then s\<lparr>rc_speed := v\<rparr> else s)"
| "rc_step s RcTick = rc_tick s"

definition side_row :: "host_zone \<Rightarrow> ScenarioSummary option \<Rightarrow> RiskAssessment list option \<Rightarrow> number \<Rightarrow> RiskAssessment option" where
  "side_row hz scenario history fraction =
     (case scenario of
        None \<Rightarrow> None
      | Some sc \<Rightarrow>
          assessmentAtOrBefore hz
            (filter (in_window hz sc) (case history of Some items \<Rightarrow> items | None \<Rightarrow> []))
            (timeAtFraction hz (ss_start_time sc) (ss_end_time sc) fraction))"

definition side_recommendation :: "RiskAssessment option \<Rightarrow> string" where
  "side_recommendation row =
     (case row of
        None \<Rightarrow> ''No data yet at this point in the replay.''
      | Some a \<Rightarrow>
          (case deriveRecommendations (ra_tier a) (parseJustification (ra_justification a)) of
             r # _ \<Rightarrow> rc_text r
           | [] \<Rightarrow> ''No recommended action.''))"

subsection \<open>Forecast chart\<close>

record ChartPoint =
  cp_minutes :: "number option"
  cp_actualRisk :: "number option"
  cp_projectedRisk :: "number option"
  cp_band :: "(number \<times> number) option"

definition actual_point :: "host_zone \<Rightarrow> int option \<Rightarrow> string \<times> number \<Rightarrow> ChartPoint" where
  "actual_point hz nowMs tick =
     \<lparr>cp_minutes = (case (Date_getTime hz (fst tick), nowMs) of
                      (Some t, Some n) \<Rightarrow> Some (of_int (Math_round (ndiv (nsub (of_int t) (of_int n)) 60000)))
                    | _ \<Rightarrow> None),
      cp_actualRisk = Some (snd tick), cp_projectedRisk = None, cp_band = None\<rparr>"

definition join_at_now :: "ChartPoint list \<Rightarrow> ChartPoint list" where
  "join_at_now points =
     (if points \<noteq> [] \<and> cp_minutes (last points) = Some 0
      then butlast points @ [(last points)\<lparr>cp_projectedRisk := cp_actualRisk (last points)\<rparr>]
      else points)"

definition projected_point :: "ForecastPoint \<Rightarrow> ChartPoint" where
  "projected_point point =
     (let observed = map fe_observed_risk (fp_evidence point)
      in \<lparr>cp_minutes = Some (fp_horizon_minutes point), cp_actualRisk = None,
          cp_projectedRisk = fp_projected_risk point,
          cp_band = (if 1 < length observed then Some (Min (set observed), Max (set observed)) else None)\<rparr>)"

definition buildChartData ::
  "host_zone \<Rightarrow> (string \<times> number) list \<Rightarrow> string \<Rightarrow> ForecastPoint list \<Rightarrow> ChartPoint list" where
  "buildChartData hz currentTimeline nowTimestamp forecast =
     (let nowMs = Date_getTime hz nowTimestamp
      in join_at_now (map (actual_point hz nowMs) currentTimeline)
         @ map projected_point (filter (\<lambda>p. fp_projected_risk p \<noteq> None) forecast))"

subsection \<open>Historical timeline\<close>

definition comparison_rows ::
  "RiskAssessment list \<Rightarrow> RiskAssessment list \<Rightarrow> (RiskAssessment option \<times> RiskAssessment option) list" where
  "comparison_rows currentTimeline historicalTimeline =
     (if historicalTimeline = [] \<or> currentTimeline = [] then []
      else map (\<lambda>i. (if i < length currentTimeline then Some (currentTimeline ! i) else None,
                     if i < length historicalTimeline then Some (historicalTimeline ! i) else None))
             [0..<max (length currentTimeline) (length historicalTimeline)])"

definition diverges :: "RiskAssessment option \<times> RiskAssessment option \<Rightarrow> bool" where
  "diverges row = (case row of (Some c, Some h) \<Rightarrow> ra_tier c \<noteq> ra_tier h | _ \<Rightarrow> False)"

subsection \<open>Timeline editor\<close>

record editor_event =
  ee_id :: string
  ee_kind :: string
  ee_name :: string
  ee_simTime :: number
  ee_durationMinutes :: number

definition timelineEvents :: "builder_state \<Rightarrow> editor_event list" where
  "timelineEvents st =
     map (\<lambda>e. \<lparr>ee_id = ds_id e, ee_kind = ''sensor'', ee_name = se_name e, ee_simTime = se_sim_time e,
               ee_durationMinutes = se_duration_minutes e\<rparr>) (bs_sensorEvents st)
     @ map (\<lambda>e. \<lparr>ee_id = dp_id e, ee_kind = ''permit'', ee_name = pe_name e, ee_simTime = pe_sim_time e,
               ee_durationMinutes = pe_duration_minutes e\<rparr>) (bs_permitEvents st)"

definition PIXELS_PER_MINUTE :: number where "PIXELS_PER_MINUTE = 4"

definition MIN_TRACK_WIDTH :: number where "MIN_TRACK_WIDTH = 400"

datatype drag_mode = DragMove | DragResize

record dragging =
  dg_id :: string
  dg_mode :: drag_mode
  dg_startX :: number
  dg_startSimTime :: number
  dg_startDuration :: number

definition maxEnd :: "editor_event list \<Rightarrow> number" where
  "maxEnd events =
     foldl max (ndiv MIN_TRACK_WIDTH PIXELS_PER_MINUTE)
       (map (\<lambda>e. nadd (ee_simTime e) (ee_durationMinutes e)) events @ [1])"

definition trackWidth :: "editor_event list \<Rightarrow> number" where
  "trackWidth events = max MIN_TRACK_WIDTH (nmul (maxEnd events) PIXELS_PER_MINUTE)"

definition handlePointerDown :: "number \<Rightarrow> drag_mode \<Rightarrow> editor_event \<Rightarrow> dragging" where
  "handlePointerDown clientX mode e =
     \<lparr>dg_id = ee_id e, dg_mode = mode, dg_startX = clientX, dg_startSimTime = ee_simTime e,
      dg_startDuration = ee_durationMinutes e\<rparr>"

definition handlePointerMove :: "dragging option \<Rightarrow> number \<Rightarrow> builder_state \<Rightarrow> builder_state" where
  "handlePointerMove dragging clientX st =
     (case dragging of
        None \<Rightarrow> st
      | Some d \<Rightarrow>
          let deltaMinutes = ndiv (nsub clientX (dg_startX d)) PIXELS_PER_MINUTE
          in case dg_mode d of
               DragMove \<Rightarrow> moveEvent (dg_id d) (of_int (max 0 (Math_round (nadd (dg_startSimTime d) deltaMinutes)))) st
             | DragResize \<Rightarrow>
                 resizeEvent (dg_id d) (of_int (max 1 (Math_round (nadd (dg_startDuration d) deltaMinutes)))) st)"

type_synonym editor = "dragging option \<times> builder_state"

datatype editor_step =
    PointerDown number drag_mode nat
  | PointerMove number
  | PointerUp
  | DeleteEvent nat

fun editor_apply :: "editor \<Rightarrow> editor_step \<Rightarrow> editor" where
  "editor_apply (dr, st) (PointerDown x mode i) =
     (if i < length (timelineEvents st) then (Some (handlePointerDown x mode (timelineEvents st ! i)), st) else (dr, st))"
| "editor_apply (dr, st) (PointerMove x) = (dr, handlePointerMove dr x st)"
| "editor_apply (dr, st) PointerUp = (None, st)"
| "editor_apply (dr, st) (DeleteEvent i) =
     (if i < length (timelineEvents st) then (dr, deleteEvent (ee_id (timelineEvents st ! i)) st) else (dr, st))"

subsection \<open>Facts about accumulated progress\<close>

text \<open>
  A binary64 number just below a two-hundredth; its small multiples are exact, so monotone rounding
  keeps the accumulated progress above them.
\<close>

definition safe_step :: rat where "safe_step = 5226 * 2 powi (- 20)"

lemma safe_step_multiple: "k \<le> 1000 \<Longrightarrow> fl (of_nat k * safe_step) = of_nat k * safe_step"
proof -
  assume "k \<le> 1000"
  then have "\<bar>int k * 5226\<bar> < 2 ^ 53" by simp
  moreover have "of_nat k * safe_step = of_int (int k * 5226) * 2 powi (- 20)" by (simp add: safe_step_def)
  ultimately show ?thesis using fl_dyadic[of "int k * 5226" "- 20"] by (simp only:)
qed

lemma safe_step_below: "1 \<le> v \<Longrightarrow> safe_step \<le> ndiv (of_int v) (of_int SCRUB_STEPS)"
proof -
  assume "1 \<le> v"
  then have "(1 :: rat) \<le> of_int v" by simp
  then have "safe_step \<le> of_int v / 200" by (simp add: safe_step_def power_int_minus field_simps)
  then show ?thesis
    unfolding ndiv_def SCRUB_STEPS_def using safe_step_multiple[of 1] by (intro fl_error_dir(2)) simp_all
qed

lemma tick_progress:
  assumes "rc_playing s" "1 \<le> rc_speed s" "of_nat k * safe_step \<le> rc_fraction s" "k < 1000"
  shows "rc_tick s = s\<lparr>rc_playing := False, rc_fraction := 1\<rparr> \<or>
    (\<exists>f<1. rc_tick s = s\<lparr>rc_fraction := f\<rparr> \<and> of_nat (Suc k) * safe_step \<le> f)"
proof -
  let ?d = "ndiv (of_int (rc_speed s)) (of_int SCRUB_STEPS)"
  have "of_nat (Suc k) * safe_step \<le> rc_fraction s + ?d"
    using safe_step_below[OF assms(2)] assms(3) by (simp add: algebra_simps)
  then have "of_nat (Suc k) * safe_step \<le> nadd (rc_fraction s) ?d"
    unfolding nadd_def using safe_step_multiple[of "Suc k"] assms(4) by (intro fl_error_dir(2)) simp_all
  then show ?thesis
    using assms(1) by (cases "1 \<le> nadd (rc_fraction s) ?d") (auto simp: rc_tick_def Let_def not_le)
qed

lemma rc_stopped: "\<not> rc_playing s \<Longrightarrow> foldl rc_step s (replicate k RcTick) = s"
  by (induction k) (simp_all add: rc_tick_def)

lemma rc_ticks:
  assumes "rc_playing s" "1 \<le> rc_speed s" "of_nat k * safe_step \<le> rc_fraction s" "k + n < 1000"
  shows "(let s' = foldl rc_step s (replicate n RcTick)
    in rc_fraction s' = 1 \<and> \<not> rc_playing s' \<or>
       rc_playing s' \<and> (n = 0 \<or> rc_fraction s' < 1) \<and> of_nat (k + n) * safe_step \<le> rc_fraction s')"
  using assms
proof (induction n arbitrary: s k)
  case 0
  then show ?case by simp
next
  case (Suc n)
  from tick_progress[of s k] Suc.prems consider
      (ended) "rc_tick s = s\<lparr>rc_playing := False, rc_fraction := 1\<rparr>"
    | (moved) f where "f < 1" "rc_tick s = s\<lparr>rc_fraction := f\<rparr>" "of_nat (Suc k) * safe_step \<le> f" by auto
  then show ?case
  proof cases
    case ended
    then show ?thesis by (simp add: rc_stopped)
  next
    case moved
    then have "rc_playing (rc_tick s)" "1 \<le> rc_speed (rc_tick s)" "of_nat (Suc k) * safe_step \<le> rc_fraction (rc_tick s)"
      using Suc.prems by simp_all
    from Suc.IH[OF this] Suc.prems(4) moved show ?thesis by (cases "n = 0") (auto simp: Let_def)
  qed
qed

lemma dragged_move: "moveEvent i t (moveEvent i u st) = moveEvent i t st"
  by (simp add: moveEvent_def o_def if_distrib cong: if_cong)

subsection \<open>Invariants\<close>

definition rc_inv :: "rc_state \<Rightarrow> bool" where
  "rc_inv s \<longleftrightarrow> 0 \<le> rc_fraction s \<and> rc_fraction s \<le> 1 \<and> fl (rc_fraction s) = rc_fraction s \<and>
     rc_speed s \<in> set SPEED_OPTIONS"

lemma rc_tick_inv:
  assumes "rc_inv s"
  shows "rc_inv (rc_tick s)"
proof -
  have one: "fl 1 = 1" using fl_int[of 1] by simp
  have "0 \<le> ndiv (of_int (rc_speed s)) (of_int SCRUB_STEPS)"
    using assms by (auto simp: rc_inv_def SPEED_OPTIONS_def ndiv_def SCRUB_STEPS_def)
  then have "0 \<le> nadd (rc_fraction s) (ndiv (of_int (rc_speed s)) (of_int SCRUB_STEPS))"
    using assms by (intro nadd_nonneg) (simp_all add: rc_inv_def)
  then show ?thesis using assms by (simp add: rc_inv_def rc_tick_def Let_def one) (simp add: nadd_def)
qed

interpretation progress: transition_system rc_start rc_step rc_inv
proof
  show "rc_inv rc_start" by (simp add: rc_inv_def rc_start_def SPEED_OPTIONS_def)
  show "rc_inv (rc_step s e)" if "rc_inv s" for s e
    using that by (cases e) (simp_all add: rc_tick_inv, simp_all add: rc_inv_def rc_defaults_def
        rc_select_current_def rc_select_historical_def Let_def split: list.split)
qed

definition times_ok :: "builder_state \<Rightarrow> bool" where
  "times_ok st = list_all (\<lambda>e. 0 \<le> ee_simTime e \<and> 1 \<le> ee_durationMinutes e) (timelineEvents st)"

lemma times_ok_iff:
  "times_ok st \<longleftrightarrow> (\<forall>e\<in>set (bs_sensorEvents st). 0 \<le> se_sim_time e \<and> 1 \<le> se_duration_minutes e) \<and>
     (\<forall>e\<in>set (bs_permitEvents st). 0 \<le> pe_sim_time e \<and> 1 \<le> pe_duration_minutes e)"
  by (simp add: times_ok_def timelineEvents_def list_all_iff ball_Un)

interpretation editor: transition_system "(None, builder_start)" editor_apply "\<lambda>p. times_ok (snd p)"
proof
  have move: "times_ok st \<Longrightarrow> times_ok (handlePointerMove d x st)" for d x st
    by (cases d) (auto simp: times_ok_iff handlePointerMove_def moveEvent_def resizeEvent_def Let_def split: drag_mode.split)
  have del: "times_ok st \<Longrightarrow> times_ok (deleteEvent i st)" for i st
    by (auto simp: times_ok_iff deleteEvent_def)
  show "times_ok (snd (editor_apply p e))" if "times_ok (snd p)" for p e
    using that by (cases p; cases e) (simp_all add: move del)
qed (simp add: times_ok_iff builder_start_def)

subsection \<open>Properties\<close>

text \<open>
  In every state the comparison page can reach, the common progress is a machine number between 0
  and 1 and the speed one of the offered ones, although each tick adds a rounded step.
\<close>

theorem comparison_progress_invariant:
  "(let s = foldl rc_step rc_start es
    in 0 \<le> rc_fraction s \<and> rc_fraction s \<le> 1 \<and> fl (rc_fraction s) = rc_fraction s \<and> rc_speed s \<in> set SPEED_OPTIONS)"
  using progress.inv_reachable[of es] by (simp add: rc_inv_def Let_def)

text \<open>
  The comparison's playback ends: whatever the position and the speed, 201 ticks bring the common
  progress to exactly 1 and stop it, in spite of the rounding errors the ticks accumulate.
\<close>

theorem comparison_playback_ends:
  assumes "rc_playing s" and "1 \<le> rc_speed s" and "0 \<le> rc_fraction s"
  shows "(let s' = foldl rc_step s (replicate 201 RcTick) in rc_fraction s' = 1 \<and> \<not> rc_playing s')"
proof -
  have "(1 :: rat) \<le> of_nat (0 + 201) * safe_step" by (simp add: safe_step_def power_int_minus)
  with rc_ticks[of s 0 201] assms show ?thesis unfolding Let_def by fastforce
qed

theorem comparison_playback_ends_witness:
  "rc_fraction (foldl rc_step (rc_step rc_start RcToggle) (replicate 201 RcTick)) = 1"
proof -
  have "rc_playing (rc_step rc_start RcToggle)" "1 \<le> rc_speed (rc_step rc_start RcToggle)"
    "0 \<le> rc_fraction (rc_step rc_start RcToggle)" by (simp_all add: rc_start_def)
  from comparison_playback_ends[OF this] show ?thesis by (simp only: Let_def simp_thms)
qed

text \<open>
  Either side of the comparison shows a fetched row of its own incident: inside the incident's
  window, and not later than the instant of the common progress.
\<close>

theorem side_row_real:
  "(case side_row hz scenario history f of
      None \<Rightarrow> True
    | Some a \<Rightarrow>
        (case (scenario, history) of
           (Some sc, Some items) \<Rightarrow> a \<in> set items \<and> in_window hz sc a \<and>
             at_or_before hz (timeAtFraction hz (ss_start_time sc) (ss_end_time sc) f) a
         | _ \<Rightarrow> False))"
proof (cases "side_row hz scenario history f")
  case None
  then show ?thesis by simp
next
  case (Some a)
  then obtain sc where sc: "scenario = Some sc" by (cases scenario) (simp_all add: side_row_def)
  let ?items = "case history of Some items \<Rightarrow> items | None \<Rightarrow> []"
  from Some sc have "assessmentAtOrBefore hz (filter (in_window hz sc) ?items)
      (timeAtFraction hz (ss_start_time sc) (ss_end_time sc) f) = Some a" by (simp add: side_row_def)
  from assessmentAtOrBefore_Some[OF this] show ?thesis using Some sc by (cases history) simp_all
qed

text \<open>
  The forecast chart invents nothing: the solid line is exactly the given timeline, the dashed line
  exactly the projections that exist (joined to the solid line only at now, by the actual value),
  and each band is the smallest interval that contains all the values observed at that horizon.
\<close>

theorem forecast_chart_faithful:
  "(let data = buildChartData hz ticks now forecast; n = length ticks; shown = filter (\<lambda>p. fp_projected_risk p \<noteq> None) forecast
    in map cp_actualRisk (take n data) = map (\<lambda>t. Some (snd t)) ticks \<and>
       map cp_projectedRisk (drop n data) = map fp_projected_risk shown \<and>
       list_all (\<lambda>p. cp_projectedRisk p = None \<or> cp_projectedRisk p = cp_actualRisk p \<and> cp_minutes p = Some 0) (take n data) \<and>
       list_all2 (\<lambda>p q. case cp_band p of
           None \<Rightarrow> length (fp_evidence q) \<le> 1
         | Some (lo, hi) \<Rightarrow> lo \<in> fe_observed_risk ` set (fp_evidence q) \<and> hi \<in> fe_observed_risk ` set (fp_evidence q) \<and>
             list_all (\<lambda>e. lo \<le> fe_observed_risk e \<and> fe_observed_risk e \<le> hi) (fp_evidence q)) (drop n data) shown)"
proof -
  let ?pts = "map (actual_point hz (Date_getTime hz now)) ticks"
  have len: "length (join_at_now ps) = length ps" for ps by (cases ps rule: rev_cases) (simp_all add: join_at_now_def)
  have act: "map cp_actualRisk (join_at_now ps) = map cp_actualRisk ps" for ps
    by (cases ps rule: rev_cases) (simp_all add: join_at_now_def)
  have proj: "list_all (\<lambda>p. cp_projectedRisk p = None \<or> cp_projectedRisk p = cp_actualRisk p \<and> cp_minutes p = Some 0) (join_at_now ps)"
    if "list_all (\<lambda>p. cp_projectedRisk p = None) ps" for ps
    using that by (cases ps rule: rev_cases) (auto simp: join_at_now_def list_all_iff)
  have band: "case cp_band (projected_point q) of
           None \<Rightarrow> length (fp_evidence q) \<le> 1
         | Some (lo, hi) \<Rightarrow> lo \<in> fe_observed_risk ` set (fp_evidence q) \<and> hi \<in> fe_observed_risk ` set (fp_evidence q) \<and>
             list_all (\<lambda>e. lo \<le> fe_observed_risk e \<and> fe_observed_risk e \<le> hi) (fp_evidence q)" for q
  proof (cases "1 < length (fp_evidence q)")
    case True
    then have ne: "fe_observed_risk ` set (fp_evidence q) \<noteq> {}" by auto
    show ?thesis
      using True Min_in[OF _ ne] Max_in[OF _ ne] by (simp add: projected_point_def Let_def list_all_iff)
  qed (simp add: projected_point_def Let_def)
  have data: "buildChartData hz ticks now forecast =
      join_at_now ?pts @ map projected_point (filter (\<lambda>p. fp_projected_risk p \<noteq> None) forecast)"
    by (simp add: buildChartData_def Let_def)
  have "list_all2 (\<lambda>p q. case cp_band p of
           None \<Rightarrow> length (fp_evidence q) \<le> 1
         | Some (lo, hi) \<Rightarrow> lo \<in> fe_observed_risk ` set (fp_evidence q) \<and> hi \<in> fe_observed_risk ` set (fp_evidence q) \<and>
             list_all (\<lambda>e. lo \<le> fe_observed_risk e \<and> fe_observed_risk e \<le> hi) (fp_evidence q))
       (map projected_point qs) qs" for qs
    unfolding list_all2_map1 by (rule list.rel_refl) (rule band)
  moreover have "map cp_projectedRisk (map projected_point qs) = map fp_projected_risk qs" for qs
    by (simp add: projected_point_def Let_def)
  moreover have "map cp_actualRisk (join_at_now ?pts) = map (\<lambda>t. Some (snd t)) ticks" by (simp add: act actual_point_def)
  moreover have "list_all (\<lambda>p. cp_projectedRisk p = None \<or> cp_projectedRisk p = cp_actualRisk p \<and> cp_minutes p = Some 0) (join_at_now ?pts)"
    by (rule proj) (simp add: list_all_iff actual_point_def)
  ultimately show ?thesis
    unfolding data Let_def by (simp only: take_append drop_append len length_map diff_self_eq_0 take_0 drop_0
        append_Nil append_Nil2 take_all drop_all order_refl simp_thms)
qed

text \<open>
  Dragging is safe: whatever the sequence of drags, resizes and deletions on the editor and however
  far the pointer goes, a draft without negative start times and without durations under a minute
  stays such a draft.
\<close>

theorem dragging_keeps_times_valid:
  "(if times_ok st then times_ok (snd (foldl editor_apply (dr, st) steps)) else True)"
  using editor.inv_run[of "(dr, st)" steps] by simp

text \<open>
  A drag can be undone by hand: after dragging an event by any way and back to where the pointer
  went down, the draft is what it was, if the event starts at a full minute.
\<close>

theorem drag_back_restores:
  assumes "list_all (\<lambda>e. if ee_id e = i then ee_simTime e = of_int t else True) (timelineEvents st)"
    and "0 \<le> t" and "t < 2 ^ 53"
  shows "(let d = \<lparr>dg_id = i, dg_mode = DragMove, dg_startX = x0, dg_startSimTime = of_int t, dg_startDuration = u\<rparr>
          in foldl (\<lambda>st x. handlePointerMove (Some d) x st) st (xs @ [x0]) = st)"
proof -
  let ?d = "\<lparr>dg_id = i, dg_mode = DragMove, dg_startX = x0, dg_startSimTime = of_int t, dg_startDuration = u\<rparr>"
  have away: "\<exists>v. foldl (\<lambda>st x. handlePointerMove (Some ?d) x st) st xs = moveEvent i v st \<or>
      foldl (\<lambda>st x. handlePointerMove (Some ?d) x st) st xs = st" for st
  proof (induction xs rule: rev_induct)
    case Nil
    show ?case by simp
  next
    case (snoc x xs)
    then show ?case by (auto simp: handlePointerMove_def Let_def dragged_move)
  qed
  have "Math_round (of_int t) = t" by (simp add: Math_round_def) linarith
  then have returned: "handlePointerMove (Some ?d) x0 st = moveEvent i (of_int t) st" for st
    using assms(2,3) fl_int[of t] by (simp add: handlePointerMove_def Let_def nadd_def ndiv_def)
  have s: "\<forall>e\<in>set (bs_sensorEvents st). ds_id e = i \<longrightarrow> se_sim_time e = of_int t"
    and p: "\<forall>e\<in>set (bs_permitEvents st). dp_id e = i \<longrightarrow> pe_sim_time e = of_int t"
    using assms(1) by (simp_all add: timelineEvents_def list_all_iff ball_Un split: if_splits)
  have "map (\<lambda>e. if ds_id e = i then e\<lparr>se_sim_time := of_int t\<rparr> else e) (bs_sensorEvents st) = bs_sensorEvents st"
    "map (\<lambda>e. if dp_id e = i then e\<lparr>pe_sim_time := of_int t\<rparr> else e) (bs_permitEvents st) = bs_permitEvents st"
    by (rule map_idI, use s p in simp)+
  then have "moveEvent i (of_int t) st = st" by (simp add: moveEvent_def)
  then show ?thesis using away[of st] by (auto simp: returned dragged_move Let_def)
qed

definition sample_draft :: builder_state where
  "sample_draft =
     addSensorEvent ''a'' \<lparr>se_name = ''Leak'', se_zone_id = ''z'', se_gas_type = ''CO'', se_sim_time = 5,
       se_duration_minutes = 10, se_sample_interval_minutes = 1, se_curve = ''constant'', se_params = []\<rparr> builder_start"

theorem drag_back_restores_witness:
  "foldl (\<lambda>st x. handlePointerMove (Some \<lparr>dg_id = ''a'', dg_mode = DragMove, dg_startX = 7, dg_startSimTime = 5,
     dg_startDuration = 10\<rparr>) x st) sample_draft [100, - 3, 7] = sample_draft"
proof -
  have "list_all (\<lambda>e. if ee_id e = ''a'' then ee_simTime e = of_int 5 else True) (timelineEvents sample_draft)"
    by (simp add: timelineEvents_def sample_draft_def addSensorEvent_def builder_start_def
        SensorEventDraft.extend_def DraftSensorEvent.fields_def)
  from drag_back_restores[OF this, of 7 10 "[100, - 3]"] show ?thesis by (simp add: Let_def)
qed

end
