(* ===== verification/Dual_Views.thy ===== *)
theory Dual_Views
  imports Plant_View Replay Action_Playbook "HOL-Library.Sublist"
begin

section \<open>Pages that show live data or a replay\<close>

text \<open>
  \<open>pages/DigitalTwinPage.tsx\<close>, \<open>pages/OperationsCenterPage.tsx\<close>, \<open>pages/MissionControlPage.tsx\<close>,
  \<open>pages/ExecutiveOverviewPage.tsx\<close> and \<open>pages/TimeMachinePage.tsx\<close>. Without a replay they show the
  current assessments, with one the rows at the shared cursor; the record \<open>dual\<close> holds both sources and
  the data of the per-zone queries as functions of the zone, so that a list of query results is the
  list of its zones' data, as \<open>useQueries\<close> returns it.

  The lemmas show when the headcounts on the map belong to the zones they are drawn on, that two
  pages agree on the number of workers at risk, and that the five actions shown are the most severe.
\<close>

subsection \<open>Entries\<close>

record dual =
  du_replay :: replay_state
  du_live :: "RiskAssessment list option"
  du_zones :: "Zone list option"
  du_permits :: "Permit list option"
  du_workers :: "string \<Rightarrow> ZoneWorkerCount option"
  du_sensors :: "string \<Rightarrow> SensorInfo list option"

definition isReplayMode :: "dual \<Rightarrow> bool" where
  "isReplayMode d = (rs_target (du_replay d) \<noteq> None)"

definition replay_zoneIds :: "replay_state \<Rightarrow> string list" where
  "replay_zoneIds r = (case rs_data r of Some x \<Rightarrow> rd_zone_ids x | None \<Rightarrow> [])"

definition live_rows :: "dual \<Rightarrow> RiskAssessment list" where
  "live_rows d = (case du_live d of Some xs \<Rightarrow> xs | None \<Rightarrow> [])"

definition view_zoneIds :: "dual \<Rightarrow> string list" where
  "view_zoneIds d = (if isReplayMode d then replay_zoneIds (du_replay d) else map ra_zone_id (live_rows d))"

definition replay_entries :: "host_zone \<Rightarrow> replay_state \<Rightarrow> (string \<times> RiskAssessment) list" where
  "replay_entries hz r = List.map_filter (\<lambda>z. map_option (Pair z) (assessmentAt hz r z)) (replay_zoneIds r)"

definition entries :: "host_zone \<Rightarrow> dual \<Rightarrow> (string \<times> RiskAssessment) list" where
  "entries hz d =
     (if isReplayMode d then replay_entries hz (du_replay d) else map (\<lambda>a. (ra_zone_id a, a)) (live_rows d))"

definition zoneAssessments :: "host_zone \<Rightarrow> dual \<Rightarrow> RiskAssessment list" where
  "zoneAssessments hz d = map snd (entries hz d)"

subsection \<open>The maps\<close>

definition first_gas_type :: "SensorInfo list option \<Rightarrow> string option" where
  "first_gas_type ss = (case ss of Some (x # _) \<Rightarrow> Some (si_gas_type x) | _ \<Rightarrow> None)"

definition entry_zone ::
  "dual \<Rightarrow> ZoneWorkerCount option \<Rightarrow> SensorInfo list option \<Rightarrow> string \<times> RiskAssessment \<Rightarrow> PlantMapZone" where
  "entry_zone d workers sensors entry =
     (let (zoneId, a) = entry; justification = parseJustification (ra_justification a)
      in \<lparr>pz_zoneId = zoneId, pz_name = zoneLabel zoneId (du_zones d), pz_tier = ra_tier a,
          pz_compoundRiskScore = ra_compound_risk_score a, pz_confidence = ra_confidence a,
          pz_timestamp = ra_timestamp a, pz_workerCount = map_option zw_worker_count workers,
          pz_activePermitTypes =
            Some (activePermitTypesForZone (case du_permits d of Some ps \<Rightarrow> ps | None \<Rightarrow> []) zoneId),
          pz_equipmentRisk = agent_risk ''equipment_status'' justification,
          pz_gasRisk = agent_risk ''gas_risk'' justification,
          pz_gasType = first_gas_type sensors\<rparr>)"

definition read_at :: "'a option list \<Rightarrow> int \<Rightarrow> 'a option" where
  "read_at results i = (if i < 0 then None else data_at results (nat i))"

definition workerCounts :: "dual \<Rightarrow> string list \<Rightarrow> ZoneWorkerCount option list" where
  "workerCounts d zs = map (du_workers d) zs"

definition zoneSensors :: "dual \<Rightarrow> string list \<Rightarrow> SensorInfo list option list" where
  "zoneSensors d zs = map (du_sensors d) zs"

text \<open>The digital twin and the operations center read the query results by the entry's position.\<close>

definition twin_map :: "host_zone \<Rightarrow> dual \<Rightarrow> PlantMapZone list" where
  "twin_map hz d =
     map (\<lambda>(index, entry). entry_zone d (data_at (workerCounts d (view_zoneIds d)) index)
            (data_at (zoneSensors d (view_zoneIds d)) index) entry)
       (enumerate 0 (entries hz d))"

text \<open>Mission control does the same, names the zone by its row, and shows no sensors.\<close>

definition mission_map :: "host_zone \<Rightarrow> dual \<Rightarrow> PlantMapZone list" where
  "mission_map hz d =
     map (\<lambda>(index, a). entry_zone d (data_at (workerCounts d (view_zoneIds d)) index) None (ra_zone_id a, a))
       (enumerate 0 (zoneAssessments hz d))"

text \<open>The time machine looks the zone up.\<close>

definition time_machine_map :: "host_zone \<Rightarrow> dual \<Rightarrow> PlantMapZone list" where
  "time_machine_map hz d =
     (let zs = replay_zoneIds (du_replay d)
      in map (\<lambda>entry. let workerCountIndex = indexOf zs (fst entry)
                      in entry_zone d (read_at (workerCounts d zs) workerCountIndex)
                           (read_at (zoneSensors d zs) workerCountIndex) entry)
           (replay_entries hz (du_replay d)))"

subsection \<open>Mission control\<close>

definition incidentStage :: "RiskJustification option \<Rightarrow> string" where
  "incidentStage justification =
     (case justification of
        None \<Rightarrow> ''Unknown''
      | Some j \<Rightarrow>
          let rank = (\<lambda>t. map_of [(''normal'', 0), (''watch'', 1), (''elevated'', 2), (''critical'', 3 :: int)] t);
              tierBefore = rj_tierBefore j; tierAfter = rj_tierAfter j
          in if tierAfter = ''normal'' then (if tierBefore = ''normal'' then ''Monitoring'' else ''Resolved'')
             else if ms_less (rank tierBefore) (rank tierAfter) then ''Escalating''
             else if ms_less (rank tierAfter) (rank tierBefore) then ''De-escalating''
             else ''Active Response'')"

definition topZone :: "host_zone \<Rightarrow> dual \<Rightarrow> ZoneAssessment option" where
  "topZone hz d =
     highestRiskZone (map (\<lambda>a. \<lparr>za_zoneId = ra_zone_id a, za_assessment = a\<rparr>) (zoneAssessments hz d))"

definition avgConfidence :: "RiskAssessment list \<Rightarrow> number" where
  "avgConfidence as =
     (if as = [] then 0 else ndiv (foldl (\<lambda>sum a. nadd sum (ra_confidence a)) 0 as) (of_nat (length as)))"

definition AGENT_ORDER :: "string list" where
  "AGENT_ORDER = [''gas_risk'', ''worker_exposure'', ''equipment_status'', ''permit_intelligence'']"

record agent_decision =
  ad_agentName :: string
  ad_displayName :: string
  ad_risk :: number
  ad_confidence :: number
  ad_reason :: string

definition agentDecisions :: "RiskJustification option \<Rightarrow> agent_decision list" where
  "agentDecisions topJustification =
     (case topJustification of
        None \<Rightarrow> []
      | Some j \<Rightarrow>
          List.map_filter (\<lambda>agentName.
            map_option (\<lambda>c. \<lparr>ad_agentName = agentName, ad_displayName = agentDisplayName agentName, ad_risk = ac_risk c,
                              ad_confidence = ac_confidence c, ad_reason = buildAgentContributionReason agentName c j\<rparr>)
              (map_of (rj_agentContributions j) agentName)) AGENT_ORDER)"

definition SEVERITY_ORDER :: "string list" where
  "SEVERITY_ORDER = [''critical'', ''high'', ''medium'']"

definition severity_cmp :: "'a Recommendation_scheme \<times> string \<Rightarrow> 'a Recommendation_scheme \<times> string \<Rightarrow> rat" where
  "severity_cmp a b =
     of_int (indexOf SEVERITY_ORDER (rc_severity (fst a)) - indexOf SEVERITY_ORDER (rc_severity (fst b)))"

definition zone_actions :: "RiskAssessment \<Rightarrow> (PrioritizedAction \<times> string) list" where
  "zone_actions zone =
     (let justification = parseJustification (ra_justification zone);
          recommendations = deriveRecommendations (ra_tier zone) justification
      in map (\<lambda>action. (action, ra_zone_id zone)) (buildActionQueue recommendations justification))"

definition priorityActions :: "RiskAssessment list \<Rightarrow> (PrioritizedAction \<times> string) list" where
  "priorityActions as = take 5 (js_sort severity_cmp (concat (map zone_actions as)))"

definition nonNormalZoneIds :: "RiskAssessment list \<Rightarrow> string list" where
  "nonNormalZoneIds as = map ra_zone_id (filter (\<lambda>a. ra_tier a \<noteq> ''normal'') as)"

definition headcount :: "ZoneWorkerCount option \<Rightarrow> number" where
  "headcount w = (case w of Some c \<Rightarrow> zw_worker_count c | None \<Rightarrow> 0)"

definition workersInElevatedZones :: "host_zone \<Rightarrow> dual \<Rightarrow> number" where
  "workersInElevatedZones hz d =
     (let zs = view_zoneIds d; elevated = js_set (nonNormalZoneIds (zoneAssessments hz d))
      in foldl (\<lambda>sum (index, zoneId).
           if zoneId \<in> set elevated then nadd sum (headcount (data_at (workerCounts d zs) index)) else sum)
           0 (enumerate 0 zs))"

definition activeCriticalPermits :: "host_zone \<Rightarrow> dual \<Rightarrow> nat" where
  "activeCriticalPermits hz d =
     (let critical = js_set (map ra_zone_id (filter (\<lambda>a. ra_tier a = ''critical'') (zoneAssessments hz d)))
      in length (filter (\<lambda>p. pm_zone_id p \<in> set critical) (case du_permits d of Some ps \<Rightarrow> ps | None \<Rightarrow> [])))"

definition zonesNeedingResponse :: "RiskAssessment list \<Rightarrow> nat" where
  "zonesNeedingResponse as = length (filter (\<lambda>a. ra_tier a = ''elevated'' \<or> ra_tier a = ''critical'') as)"

subsection \<open>Executive overview\<close>

definition historyItems :: "dual \<Rightarrow> (string \<Rightarrow> RiskAssessment list option) \<Rightarrow> RiskAssessment list list" where
  "historyItems d liveHistory =
     map (\<lambda>zoneId.
       if isReplayMode d then
         (case currentTimestamp (du_replay d) of
            None \<Rightarrow> []
          | Some cursor \<Rightarrow> rev (filter (\<lambda>a. ra_timestamp a \<le> cursor) (zoneTimeline (du_replay d) zoneId)))
       else (case liveHistory zoneId of Some items \<Rightarrow> items | None \<Rightarrow> [])) (view_zoneIds d)"

definition workersExposed :: "host_zone \<Rightarrow> dual \<Rightarrow> number" where
  "workersExposed hz d =
     (let zs = nonNormalZoneIds (zoneAssessments hz d)
      in foldl (\<lambda>sum (index, _). nadd sum (headcount (data_at (workerCounts d zs) index))) 0 (enumerate 0 zs))"

definition avgPreviousScore :: "host_zone \<Rightarrow> dual \<Rightarrow> (string \<Rightarrow> RiskAssessment list option) \<Rightarrow> number" where
  "avgPreviousScore hz d liveHistory =
     averageCompoundScore (map (\<lambda>(index, a).
       let items = (if index < length (historyItems d liveHistory) then historyItems d liveHistory ! index else [])
       in if 1 < length items then items ! 1 else a) (enumerate 0 (zoneAssessments hz d)))"

definition counterfactualMisses :: "RiskAssessment list \<Rightarrow> CounterfactualComparison option list \<Rightarrow> nat" where
  "counterfactualMisses as comparisons =
     length (filter (\<lambda>(index, a). naive_misses (Some a) (data_at comparisons index)) (enumerate 0 as))"

definition openRecommendations :: "RiskAssessment list \<Rightarrow> nat" where
  "openRecommendations as =
     foldl (\<lambda>sum a. sum + length (deriveRecommendations (ra_tier a) (parseJustification (ra_justification a)))) 0 as"

definition zone_recommendations :: "RiskAssessment \<Rightarrow> (Recommendation \<times> string) list" where
  "zone_recommendations zone =
     map (\<lambda>r. (r, ra_zone_id zone)) (deriveRecommendations (ra_tier zone) (parseJustification (ra_justification zone)))"

definition executive_actions :: "RiskAssessment list \<Rightarrow> (Recommendation \<times> string) list" where
  "executive_actions as = js_sort severity_cmp (concat (map zone_recommendations as))"

definition activeAlerts :: "RiskAssessment list \<Rightarrow> RiskAssessment list" where
  "activeAlerts as =
     js_sort (\<lambda>a b. of_int (tierRank (ra_tier b) - tierRank (ra_tier a))) (filter (\<lambda>a. ra_tier a \<noteq> ''normal'') as)"

subsection \<open>Facts about entries\<close>

lemma entries_workers [simp]:
  "entries hz (d\<lparr>du_workers := w\<rparr>) = entries hz d" "view_zoneIds (d\<lparr>du_workers := w\<rparr>) = view_zoneIds d"
  by (simp_all add: entries_def view_zoneIds_def isReplayMode_def live_rows_def)

lemma replay_entries_keys: "map fst (replay_entries hz r) = filter (\<lambda>z. assessmentAt hz r z \<noteq> None) (replay_zoneIds r)"
proof -
  have "map fst (List.map_filter (\<lambda>z. map_option (Pair z) (assessmentAt hz r z)) zs) =
      filter (\<lambda>z. assessmentAt hz r z \<noteq> None) zs" for zs
    by (induction zs) (auto simp: map_filter_simps split: option.split)
  then show ?thesis by (simp add: replay_entries_def)
qed

lemma entries_subseq: "subseq (map fst (entries hz d)) (view_zoneIds d)"
proof (cases "isReplayMode d")
  case True
  then show ?thesis by (simp add: entries_def view_zoneIds_def replay_entries_keys del: map_map)
next
  case False
  then have "map fst (entries hz d) = view_zoneIds d" by (simp add: entries_def view_zoneIds_def o_def)
  then show ?thesis by simp
qed

lemma entries_length: "length (entries hz d) \<le> length (view_zoneIds d)"
  using list_emb_length[OF entries_subseq[of hz d]] by simp

lemma data_at_map: "i < length zs \<Longrightarrow> data_at (map f zs) i = f (zs ! i)"
  by (simp add: data_at_def)

lemma entry_zone_simps [simp]:
  "pz_zoneId (entry_zone d w ss e) = fst e" "pz_workerCount (entry_zone d w ss e) = map_option zw_worker_count w"
  "pz_gasType (entry_zone d w ss e) = first_gas_type ss"
  by (simp_all add: entry_zone_def Let_def case_prod_beta)

definition own_headcounts :: "dual \<Rightarrow> PlantMapZone list \<Rightarrow> bool" where
  "own_headcounts d zones =
     list_all (\<lambda>z. pz_workerCount z = map_option zw_worker_count (du_workers d (pz_zoneId z))) zones"

lemma twin_map_own:
  "own_headcounts d (twin_map hz d) \<longleftrightarrow>
     (\<forall>i<length (entries hz d). map_option zw_worker_count (du_workers d (view_zoneIds d ! i)) =
        map_option zw_worker_count (du_workers d (fst (entries hz d ! i))))"
proof -
  have "data_at (workerCounts d (view_zoneIds d)) i = du_workers d (view_zoneIds d ! i)" if "i < length (entries hz d)" for i
    using that entries_length[of hz d] by (simp add: workerCounts_def data_at_map)
  then show ?thesis
    by (auto simp: own_headcounts_def twin_map_def list_all_length nth_enumerate_eq)
qed

lemma prefix_nth: "prefix xs ys \<longleftrightarrow> length xs \<le> length ys \<and> (\<forall>i<length xs. ys ! i = xs ! i)"
proof
  assume "length xs \<le> length ys \<and> (\<forall>i<length xs. ys ! i = xs ! i)"
  then have "take (length xs) ys = xs" by (intro nth_equalityI) simp_all
  then show "prefix xs ys" by (metis take_is_prefix)
qed (auto simp: prefix_def nth_append)

lemma read_own: "z \<in> set zs \<Longrightarrow> read_at (map f zs) (indexOf zs z) = f z"
proof -
  assume "z \<in> set zs"
  then obtain i where "find_index (\<lambda>y. y = z) zs = Some i" "i < length zs" "zs ! i = z"
    by (cases "find_index (\<lambda>y. y = z) zs") (auto simp: find_index_None_iff dest: find_index_Some)
  then show ?thesis by (simp add: read_at_def indexOf_def data_at_map)
qed

subsection \<open>Facts about headcounts\<close>

lemma foldl_enumerate_data:
  "foldl (\<lambda>sum (i, z). g sum z (data_at (map f (us @ zs)) i)) a (enumerate (length us) zs) =
     foldl (\<lambda>sum z. g sum z (f z)) a zs"
proof (induction zs arbitrary: us a)
  case Nil
  show ?case by simp
next
  case (Cons z zs)
  from Cons[of "us @ [z]"] show ?case by (simp add: data_at_def nth_append)
qed

lemma foldl_if_filter: "foldl (\<lambda>sum z. if P z then g sum z else sum) a zs = foldl g a (filter P zs)"
  by (induction zs arbitrary: a) simp_all

lemma subseq_members: "subseq xs ys \<Longrightarrow> distinct ys \<Longrightarrow> filter (\<lambda>z. z \<in> set xs) ys = xs"
proof (induction rule: list_emb.induct)
  case (list_emb_Cons xs ys y)
  moreover have "y \<notin> set xs" using list_emb_Cons by (auto dest: list_emb_set)
  ultimately show ?case by simp
next
  case (list_emb_Cons2 x y xs ys)
  then have "filter (\<lambda>z. z = x \<or> z \<in> set xs) ys = filter (\<lambda>z. z \<in> set xs) ys"
    by (intro filter_cong) auto
  with list_emb_Cons2 show ?case by simp
qed simp

lemma nonNormal_subseq:
  assumes "list_all (\<lambda>(z, a). ra_zone_id a = z) (entries hz d)"
  shows "subseq (nonNormalZoneIds (zoneAssessments hz d)) (view_zoneIds d)"
proof -
  have "nonNormalZoneIds (map snd es) = map fst (filter (\<lambda>e. ra_tier (snd e) \<noteq> ''normal'') es)"
    if "list_all (\<lambda>(z, a). ra_zone_id a = z) es" for es
    using that by (induction es) (auto simp: nonNormalZoneIds_def)
  with assms have "nonNormalZoneIds (zoneAssessments hz d) =
      map fst (filter (\<lambda>e. ra_tier (snd e) \<noteq> ''normal'') (entries hz d))" by (simp add: zoneAssessments_def)
  moreover have "subseq \<dots> (map fst (entries hz d))" by (intro subseq_map) simp
  ultimately show ?thesis using entries_subseq subseq_order.trans by metis
qed

subsection \<open>Facts about actions\<close>

definition severity_rank :: "'a Recommendation_scheme \<times> string \<Rightarrow> int" where
  "severity_rank a = indexOf SEVERITY_ORDER (rc_severity (fst a))"

interpretation severity: comparator severity_cmp severity_rank "\<lambda>_. True"
  by unfold_locales (simp add: severity_cmp_def severity_rank_def flip: of_int_diff)

definition plain :: "PrioritizedAction \<times> string \<Rightarrow> Recommendation \<times> string" where
  "plain a = (Recommendation.truncate (fst a), snd a)"

lemma map_snd_enum: "map (\<lambda>x. f (snd x)) (enumerate n xs) = map f xs"
  by (induction xs arbitrary: n) simp_all

lemma plain_zone_actions: "map plain (zone_actions a) = zone_recommendations a"
proof -
  have "Recommendation.truncate (queue_action ids j i r) = r" for ids j i and r :: Recommendation
    by (simp add: queue_action_def Let_def Recommendation.defs)
  then show ?thesis
    by (simp add: zone_actions_def zone_recommendations_def plain_def buildActionQueue_def Let_def o_def case_prod_beta
        map_snd_enum[of "\<lambda>r. (r, ra_zone_id a)"])
qed

lemma plain_severity: "severity_cmp (plain a) (plain b) = severity_cmp a b"
  by (simp add: severity_cmp_def plain_def Recommendation.defs)

subsection \<open>Properties\<close>

text \<open>
  Whose workers are shown: the headcounts on the map of the digital twin and of the operations center
  are those of the zones they are drawn on, whatever the headcounts are, exactly when the zones with
  a row are the first zones of the list. That is so for live data; in a replay it fails as soon as
  a zone without a row at the cursor precedes one that has a row, and headcounts of other zones are
  shown.
\<close>

theorem twin_headcounts_iff:
  "(\<forall>w. own_headcounts (d\<lparr>du_workers := w\<rparr>) (twin_map hz (d\<lparr>du_workers := w\<rparr>))) \<longleftrightarrow>
     prefix (map fst (entries hz d)) (view_zoneIds d)"
proof
  assume own: "\<forall>w. own_headcounts (d\<lparr>du_workers := w\<rparr>) (twin_map hz (d\<lparr>du_workers := w\<rparr>))"
  have "view_zoneIds d ! i = fst (entries hz d ! i)" if i: "i < length (entries hz d)" for i
  proof -
    define w where "w z = Some \<lparr>zw_zone_id = z, zw_worker_count = if z = fst (entries hz d ! i) then 1 else 0\<rparr>" for z
    have "own_headcounts (d\<lparr>du_workers := w\<rparr>) (twin_map hz (d\<lparr>du_workers := w\<rparr>))" using own by blast
    then show ?thesis using i unfolding twin_map_own by (auto simp: w_def split: if_splits)
  qed
  then show "prefix (map fst (entries hz d)) (view_zoneIds d)"
    using entries_length[of hz d] by (simp add: prefix_nth)
next
  assume "prefix (map fst (entries hz d)) (view_zoneIds d)"
  then show "\<forall>w. own_headcounts (d\<lparr>du_workers := w\<rparr>) (twin_map hz (d\<lparr>du_workers := w\<rparr>))"
    by (simp add: twin_map_own prefix_nth)
qed

text \<open>
  The time machine, which looks each zone up, always shows the headcount and the sensor of the zone
  itself, and live data are always shown with their own zone's.
\<close>

theorem looked_up_headcounts_correct:
  "own_headcounts d (time_machine_map hz d) \<and>
   list_all (\<lambda>z. pz_gasType z = first_gas_type (du_sensors d (pz_zoneId z))) (time_machine_map hz d) \<and>
   (if isReplayMode d then True else own_headcounts d (twin_map hz d))"
proof -
  have "fst e \<in> set (replay_zoneIds (du_replay d))" if "e \<in> set (replay_entries hz (du_replay d))" for e
  proof -
    have "fst e \<in> set (map fst (replay_entries hz (du_replay d)))" using that by simp
    then show ?thesis unfolding replay_entries_keys by simp
  qed
  then have "own_headcounts d (time_machine_map hz d)"
    and "list_all (\<lambda>z. pz_gasType z = first_gas_type (du_sensors d (pz_zoneId z))) (time_machine_map hz d)"
    by (auto simp: own_headcounts_def time_machine_map_def Let_def list_all_iff workerCounts_def zoneSensors_def read_own)
  moreover have "own_headcounts d (twin_map hz d)" if "\<not> isReplayMode d"
    unfolding twin_map_own using that by (simp add: entries_def view_zoneIds_def)
  ultimately show ?thesis by simp
qed

text \<open>
  Two pages, one number: mission control and the executive overview count the same workers in zones
  above normal, provided that no zone is listed twice and every row belongs to the zone it was
  found for.
\<close>

theorem headcounts_agree:
  assumes "distinct (view_zoneIds d)" and "list_all (\<lambda>(z, a). ra_zone_id a = z) (entries hz d)"
  shows "workersInElevatedZones hz d = workersExposed hz d"
proof -
  let ?zs = "view_zoneIds d" and ?nn = "nonNormalZoneIds (zoneAssessments hz d)"
  let ?add = "\<lambda>sum z. nadd sum (headcount (du_workers d z))"
  have "workersInElevatedZones hz d = foldl (\<lambda>sum z. if z \<in> set ?nn then ?add sum z else sum) 0 ?zs"
    using foldl_enumerate_data[of "\<lambda>sum z w. if z \<in> set ?nn then nadd sum (headcount w) else sum" "du_workers d" "[]" ?zs 0]
    unfolding workersInElevatedZones_def Let_def workerCounts_def js_set_set by (simp only: append_Nil list.size)
  also have "\<dots> = foldl ?add 0 (filter (\<lambda>z. z \<in> set ?nn) ?zs)" by (rule foldl_if_filter)
  also have "filter (\<lambda>z. z \<in> set ?nn) ?zs = ?nn" by (rule subseq_members[OF nonNormal_subseq[OF assms(2)] assms(1)])
  also have "foldl ?add 0 ?nn = workersExposed hz d"
    using foldl_enumerate_data[of "\<lambda>sum z w. nadd sum (headcount w)" "du_workers d" "[]" ?nn 0]
    unfolding workersExposed_def Let_def workerCounts_def by (simp only: append_Nil list.size)
  finally show ?thesis .
qed

definition sample_dual :: dual where
  "sample_dual =
     \<lparr>du_replay = replay_start, du_live = Some [(sample_assessment ''t'' 50 ''watch'')\<lparr>ra_zone_id := ''a''\<rparr>,
        (sample_assessment ''t'' 10 ''normal'')\<lparr>ra_zone_id := ''b''\<rparr>],
      du_zones = None, du_permits = None,
      du_workers = (\<lambda>z. Some \<lparr>zw_zone_id = z, zw_worker_count = 3\<rparr>), du_sensors = (\<lambda>z. None)\<rparr>"

theorem headcounts_agree_witness:
  "workersInElevatedZones utc_zone sample_dual = workersExposed utc_zone sample_dual"
  by (rule headcounts_agree)
    (simp_all add: sample_dual_def view_zoneIds_def entries_def isReplayMode_def replay_start_def live_rows_def)

text \<open>
  (C36) The five actions on mission control are the most severe of the plant, most severe first, and they
  are the first five of the executive overview's list, so the two pages never disagree on what to do
  first.
\<close>

theorem priority_actions_agree:
  "(let shown = priorityActions as; all = concat (map zone_actions as)
    in map plain shown = take 5 (executive_actions as) \<and>
       sorted (map severity_rank shown) \<and> length shown = min 5 (length all) \<and>
       (\<exists>rest. mset all = mset shown + mset rest \<and>
          list_all (\<lambda>r. list_all (\<lambda>a. severity_rank a \<le> severity_rank r) shown) rest))"
proof -
  let ?all = "concat (map zone_actions as)"
  let ?sorted = "js_sort severity_cmp ?all"
  have srt: "sorted (map severity_rank ?sorted)" by (rule severity.js_sort_sorted) simp
  have "map plain ?all = concat (map zone_recommendations as)"
    by (simp add: map_concat o_def plain_zone_actions)
  then have "executive_actions as = js_sort severity_cmp (map plain ?all)" by (simp add: executive_actions_def)
  also have "\<dots> = map plain ?sorted" by (simp add: js_sort_map plain_severity)
  finally have same: "map plain (take 5 ?sorted) = take 5 (executive_actions as)" by (simp add: take_map)
  have "sorted (map severity_rank (take 5 ?sorted @ drop 5 ?sorted))" using srt by simp
  then have s5: "sorted (map severity_rank (take 5 ?sorted))"
    and le: "list_all (\<lambda>r. list_all (\<lambda>a. severity_rank a \<le> severity_rank r) (take 5 ?sorted)) (drop 5 ?sorted)"
    unfolding map_append sorted_append by (simp_all add: list_all_iff)
  have "mset ?all = mset (take 5 ?sorted) + mset (drop 5 ?sorted)"
    by (metis append_take_drop_id mset_append mset_js_sort)
  with same s5 le show ?thesis unfolding priorityActions_def Let_def by (auto simp: min.commute)
qed

end
