(* ===== verification/Ui.thy ===== *)
theory Ui
  imports Api_Client
begin

section \<open>Pages as trees and users as actions\<close>

text \<open>
  The React components return trees of elements. A \<open>node\<close> is such a tree as far as a user can tell it: texts,
  elements, router links and the controls, each control with the event its handler raises. Class names and styles
  are kept only where the code computes them from data, as attributes; the static ones are left out.
  A slider has the range from 0 to its maximum. \<open>Plot\<close> is the data handed to a chart of the library recharts.

  A user acts by clicking a button with a given text (the \<open>n\<close>-th of them), typing into a field, choosing an option,
  ticking a box or moving a slider. \<open>press\<close> finds the event such an action raises on the page in front of the user, and \<open>app_step\<close>
  runs a page: an action that the page does not offer does nothing, an event of the environment (data that
  arrive, the clock, the address bar) changes the state. The locale \<open>ui_app\<close> is the contract between a page's
  view and its handlers, from which every state that a user can reach has the invariant: only events that the page
  offers need to keep it.

  The second part is \<open>components/common\<close>: the loading, error and empty states and \<open>QueryResult\<close>, which decides
  among them for every page.
\<close>

subsection \<open>Trees\<close>

datatype 'e node =
    Text string
  | El string "(string \<times> string) list" "'e node list"
  | Link string "'e node list"
  | Button "(string \<times> string) list" bool 'e "'e node list"
  | Field string string "string \<Rightarrow> 'e"
  | Choice string string "(string \<times> string) list" "string \<Rightarrow> 'e"
  | Check string bool "bool \<Rightarrow> 'e"
  | Slider string int int "int \<Rightarrow> 'e"
  | Plot string "(string \<times> number) list"

abbreviation el :: "string \<Rightarrow> 'e node list \<Rightarrow> 'e node" where
  "el tag ns \<equiv> El tag [] ns"

abbreviation p_text :: "string \<Rightarrow> 'e node" where
  "p_text s \<equiv> El ''p'' [] [Text s]"

text \<open>\<open>{cond && <..>}\<close> and \<open>{value && <..>}\<close>.\<close>

definition cond :: "bool \<Rightarrow> 'e node list \<Rightarrow> 'e node list" where
  "cond b ns = (if b then ns else [])"

definition cond_some :: "'a option \<Rightarrow> ('a \<Rightarrow> 'e node list) \<Rightarrow> 'e node list" where
  "cond_some v f = (case v of Some x \<Rightarrow> f x | None \<Rightarrow> [])"

lemma cond_simps [simp]:
  "cond True ns = ns" "cond False ns = []" "cond_some None f = []" "cond_some (Some x) f = f x"
  by (simp_all add: cond_def cond_some_def)

text \<open>The text a user reads, and where the links of a tree lead.\<close>

fun text_of :: "'e node \<Rightarrow> string" where
  "text_of (Text s) = s"
| "text_of (El tag attrs ns) = concat (map text_of ns)"
| "text_of (Link to ns) = concat (map text_of ns)"
| "text_of (Button attrs enabled e ns) = concat (map text_of ns)"
| "text_of (Field label v f) = []"
| "text_of (Choice label v options f) = []"
| "text_of (Check label v f) = label"
| "text_of (Slider label most v f) = []"
| "text_of (Plot kind points) = []"

fun links_of :: "'e node \<Rightarrow> string list" where
  "links_of (El tag attrs ns) = concat (map links_of ns)"
| "links_of (Link to ns) = [to]"
| "links_of n = []"

text \<open>The texts of the elements of a tree with a given tag, outermost first.\<close>

fun element_texts :: "string \<Rightarrow> 'e node \<Rightarrow> string list" where
  "element_texts tag (El t attrs ns) =
     (if t = tag then [concat (map text_of ns)] else []) @ concat (map (element_texts tag) ns)"
| "element_texts tag n = []"

subsection \<open>Users\<close>

datatype user_action =
    Click string nat
  | Enter string string
  | Pick string string
  | Tick string bool
  | Slide string int

fun button_events :: "string \<Rightarrow> 'e node \<Rightarrow> 'e list" where
  "button_events s (El tag attrs ns) = concat (map (button_events s) ns)"
| "button_events s (Button attrs enabled e ns) = (if enabled \<and> concat (map text_of ns) = s then [e] else [])"
| "button_events s n = []"

fun entry_events :: "string \<Rightarrow> string \<Rightarrow> 'e node \<Rightarrow> 'e list" where
  "entry_events l s (El tag attrs ns) = concat (map (entry_events l s) ns)"
| "entry_events l s (Field label v f) = (if label = l then [f s] else [])"
| "entry_events l s n = []"

fun pick_events :: "string \<Rightarrow> string \<Rightarrow> 'e node \<Rightarrow> 'e list" where
  "pick_events l s (El tag attrs ns) = concat (map (pick_events l s) ns)"
| "pick_events l s (Choice label v options f) = (if label = l \<and> s \<in> fst ` set options then [f s] else [])"
| "pick_events l s n = []"

fun tick_events :: "string \<Rightarrow> bool \<Rightarrow> 'e node \<Rightarrow> 'e list" where
  "tick_events l b (El tag attrs ns) = concat (map (tick_events l b) ns)"
| "tick_events l b (Check label v f) = (if label = l then [f b] else [])"
| "tick_events l b n = []"

fun slide_events :: "string \<Rightarrow> int \<Rightarrow> 'e node \<Rightarrow> 'e list" where
  "slide_events l i (El tag attrs ns) = concat (map (slide_events l i) ns)"
| "slide_events l i (Slider label most v f) = (if label = l \<and> 0 \<le> i \<and> i \<le> most then [f i] else [])"
| "slide_events l i n = []"

definition nth_opt :: "'a list \<Rightarrow> nat \<Rightarrow> 'a option" where
  "nth_opt xs n = (if n < length xs then Some (xs ! n) else None)"

lemma nth_opt_simps [simp]: "nth_opt [] n = None" "nth_opt (x # xs) 0 = Some x" "nth_opt (x # xs) (Suc n) = nth_opt xs n"
  by (simp_all add: nth_opt_def)

lemma nth_opt_Some: "nth_opt xs n = Some x \<Longrightarrow> x \<in> set xs"
  by (auto simp: nth_opt_def split: if_splits)

definition press :: "user_action \<Rightarrow> 'e node list \<Rightarrow> 'e option" where
  "press a ns =
     (case a of
        Click s n \<Rightarrow> nth_opt (concat (map (button_events s) ns)) n
      | Enter l s \<Rightarrow> nth_opt (concat (map (entry_events l s) ns)) 0
      | Pick l s \<Rightarrow> nth_opt (concat (map (pick_events l s) ns)) 0
      | Tick l b \<Rightarrow> nth_opt (concat (map (tick_events l b) ns)) 0
      | Slide l i \<Rightarrow> nth_opt (concat (map (slide_events l i) ns)) 0)"

text \<open>Every event the controls of a tree can raise, whatever the user types.\<close>

fun offered :: "'e node \<Rightarrow> 'e set" where
  "offered (El tag attrs ns) = \<Union> (offered ` set ns)"
| "offered (Button attrs enabled e ns) = (if enabled then {e} else {})"
| "offered (Field label v f) = range f"
| "offered (Choice label v options f) = f ` fst ` set options"
| "offered (Check label v f) = range f"
| "offered (Slider label most v f) = f ` {0..most}"
| "offered n = {}"

definition offers :: "'e node list \<Rightarrow> 'e set" where
  "offers ns = \<Union> (offered ` set ns)"

lemma offers_simps [simp]:
  "offers [] = {}" "offers (n # ns) = offered n \<union> offers ns" "offers (ms @ ns) = offers ms \<union> offers ns"
  by (auto simp: offers_def)

lemma offered_El [simp]: "offered (El tag attrs ns) = offers ns"
  by (simp add: offers_def)

declare offered.simps(1) [simp del]

lemma offers_map: "offers (map f xs) = (\<Union>x\<in>set xs. offered (f x))"
  by (auto simp: offers_def)

lemma offers_concat: "offers (concat nss) = (\<Union>ns\<in>set nss. offers ns)"
  by (auto simp: offers_def)

lemma offers_cond [simp]: "offers (cond b ns) = (if b then offers ns else {})"
  by (simp add: cond_def)

lemma buttons_offered: "set (button_events s n) \<subseteq> offered n"
  by (induction n) (auto simp: offers_def)

lemma entries_offered: "set (entry_events l s n) \<subseteq> offered n"
  by (induction n) (auto simp: offers_def)

lemma picks_offered: "set (pick_events l s n) \<subseteq> offered n"
  by (induction n) (auto simp: offers_def)

lemma ticks_offered: "set (tick_events l b n) \<subseteq> offered n"
  by (induction n) (auto simp: offers_def)

lemma slides_offered: "set (slide_events l i n) \<subseteq> offered n"
  by (induction n) (auto simp: offers_def)

lemmas control_offered = buttons_offered entries_offered picks_offered ticks_offered slides_offered

lemma press_offers: "press a ns = Some e \<Longrightarrow> e \<in> offers ns"
  using control_offered
  by (cases a) (fastforce simp: press_def offers_def dest!: nth_opt_Some)+

subsection \<open>Running a page\<close>

datatype 'x input = User user_action | Env 'x

definition app_step ::
  "('s \<Rightarrow> 'e node list) \<Rightarrow> ('e \<Rightarrow> 's \<Rightarrow> 's) \<Rightarrow> ('x \<Rightarrow> 's \<Rightarrow> 's) \<Rightarrow> 's \<Rightarrow> 'x input \<Rightarrow> 's" where
  "app_step view update env s i =
     (case i of
        User a \<Rightarrow> (case press a (view s) of Some e \<Rightarrow> update e s | None \<Rightarrow> s)
      | Env x \<Rightarrow> env x s)"

locale ui_app =
  fixes init :: 's
    and view :: "'s \<Rightarrow> 'e node list"
    and update :: "'e \<Rightarrow> 's \<Rightarrow> 's"
    and env :: "'x \<Rightarrow> 's \<Rightarrow> 's"
    and inv :: "'s \<Rightarrow> bool"
  assumes inv_first: "inv init"
    and inv_update: "inv s \<Longrightarrow> e \<in> offers (view s) \<Longrightarrow> inv (update e s)"
    and inv_env: "inv s \<Longrightarrow> inv (env x s)"
begin

lemma inv_app_step: "inv s \<Longrightarrow> inv (app_step view update env s i)"
  by (auto simp: app_step_def inv_env split: input.split option.split intro: inv_update press_offers)

end

sublocale ui_app \<subseteq> transition_system init "app_step view update env" inv
  by unfold_locales (rule inv_first, rule inv_app_step)

subsection \<open>components/common\<close>

definition LoadingState :: "string option \<Rightarrow> 'e node" where
  "LoadingState label =
     El ''div'' [(''role'', ''status'')]
       [el ''span'' [Text (case label of Some l \<Rightarrow> l | None \<Rightarrow> ''Loading...'')],
        el ''div'' (map (\<lambda>i. el ''div'' [el ''div'' [], el ''div'' [], el ''div'' []]) [0, 1, 2::nat])]"

text \<open>
  What a query can fail with: the client's \<open>ApiError\<close> with the fields its class declares, another \<open>Error\<close>, or
  any other value that was thrown.
\<close>

datatype thrown = Thrown_Api string string "nat option" | Thrown_Error string | Thrown_Other

record envelope =
  en_code :: string
  en_message :: string
  en_status :: "nat option"

definition envelopeDetails :: "thrown \<Rightarrow> envelope" where
  "envelopeDetails error =
     (case error of
        Thrown_Api code message status \<Rightarrow> \<lparr>en_code = code, en_message = message, en_status = status\<rparr>
      | Thrown_Error message \<Rightarrow> \<lparr>en_code = ''UNKNOWN_ERROR'', en_message = message, en_status = None\<rparr>
      | Thrown_Other \<Rightarrow>
          \<lparr>en_code = ''UNKNOWN_ERROR'', en_message = ''An unexpected error occurred.'', en_status = None\<rparr>)"

definition ErrorState :: "thrown \<Rightarrow> 'e option \<Rightarrow> 'e node" where
  "ErrorState error onRetry =
     (let d = envelopeDetails error;
          isNetwork = (en_code d = ''NETWORK_ERROR'' \<or> en_code d = ''TIMEOUT'')
      in El ''div'' [(''role'', ''alert'')]
           ([p_text (if isNetwork then ''Couldn't reach the server'' else ''Something went wrong loading this data''),
             p_text (if isNetwork then ''Check that the backend is running and reachable, then try again.''
               else ''This didn't load correctly. Try again, or check the details below if it keeps happening.'')]
            @ cond_some onRetry (\<lambda>e. [Button [] True e [Text ''Retry'']])
            @ [el ''details''
                 ([el ''summary'' [Text ''Technical details''], p_text (en_code d), p_text (en_message d)]
                  @ cond_some (en_status d) (\<lambda>s. [p_text (''HTTP '' @ show_nat s)]))]))"

record EmptyStateAction =
  ea_label :: string
  ea_to :: string

definition EmptyState :: "string \<Rightarrow> string option \<Rightarrow> EmptyStateAction option \<Rightarrow> 'e node" where
  "EmptyState label hint action =
     el ''div''
       ([el ''svg'' [el ''path'' [], el ''path'' []], p_text label]
        @ cond_some (truthy hint) (\<lambda>h. [p_text h])
        @ cond_some action (\<lambda>a. [Link (ea_to a) [Text (ea_label a), Text ('' '' @ utf8_arrow)]]))"

definition TierBadge :: "string \<Rightarrow> 'e node" where
  "TierBadge tier = El ''span'' [(''class'', ''tier-badge tier-'' @ tier)] [Text tier]"

text \<open>The points of the line: index and value.\<close>

definition MiniSparkline :: "number list \<Rightarrow> 'e node" where
  "MiniSparkline values = Plot ''line'' (map (\<lambda>(i, v). (show_nat i, v)) (enumerate 0 values))"

record 'e query_props =
  qp_isLoading :: bool
  qp_error :: "thrown option"
  qp_isEmpty :: bool
  qp_emptyLabel :: string
  qp_emptyHint :: "string option"
  qp_emptyAction :: "EmptyStateAction option"
  qp_loadingLabel :: "string option"
  qp_onRetry :: "'e option"

definition QueryResult :: "'e query_props \<Rightarrow> 'e node list \<Rightarrow> 'e node list" where
  "QueryResult q children =
     (if qp_isLoading q then [LoadingState (qp_loadingLabel q)]
      else (case qp_error q of
        Some error \<Rightarrow> [ErrorState error (qp_onRetry q)]
      | None \<Rightarrow>
          if qp_isEmpty q then [EmptyState (qp_emptyLabel q) (qp_emptyHint q) (qp_emptyAction q)] else children))"

definition plain_query :: "bool \<Rightarrow> thrown option \<Rightarrow> bool \<Rightarrow> string \<Rightarrow> 'e \<Rightarrow> 'e query_props" where
  "plain_query isLoading error isEmpty emptyLabel onRetry =
     \<lparr>qp_isLoading = isLoading, qp_error = error, qp_isEmpty = isEmpty, qp_emptyLabel = emptyLabel, qp_emptyHint = None,
      qp_emptyAction = None, qp_loadingLabel = None, qp_onRetry = Some onRetry\<rparr>"

subsection \<open>What the common components offer\<close>

lemma offered_states [simp]:
  "offered (LoadingState label) = {}" "offered (EmptyState l hint action) = {}" "offered (TierBadge tier) = {}"
  "offered (MiniSparkline values) = {}"
  "offered (ErrorState error onRetry) = set_option onRetry"
  by (auto simp: LoadingState_def EmptyState_def TierBadge_def MiniSparkline_def ErrorState_def Let_def cond_some_def
      split: option.splits)

lemma offers_QueryResult:
  "offers (QueryResult q children) \<subseteq> set_option (qp_onRetry q) \<union> offers children"
  by (auto simp: QueryResult_def split: option.split)

text \<open>
  The errors of the API client as the page sees them: \<open>ApiError\<close> with a string code and message, as its class
  declares them; what a backend puts there otherwise is not a value of the declared type.
\<close>

definition thrown_of :: "client_error \<Rightarrow> thrown option" where
  "thrown_of e =
     (case e of
        ApiError (Some (JStr message)) (Some (JStr code)) status details \<Rightarrow> Some (Thrown_Api code message status)
      | _ \<Rightarrow> None)"

definition query_page :: "client_error + json \<Rightarrow> 'e \<Rightarrow> 'e node list \<Rightarrow> 'e node list" where
  "query_page result retry children =
     QueryResult (plain_query False (case result of Inl e \<Rightarrow> thrown_of e | Inr v \<Rightarrow> None) False [] retry) children"

subsection \<open>Properties\<close>

lemma press_error_retry: "press (Click ''Retry'' 0) [ErrorState error (Some retry)] = Some retry"
  by (simp add: press_def ErrorState_def Let_def)

text \<open>
  A request that never got an answer is explained as such on every page, and not as a fault of the data: the page
  shows the network heading, keeps the client's code and message verbatim in the details, shows no HTTP status, hides
  the content, and its Retry button refetches.
\<close>

theorem unreachable_backend_page:
  "(case ah_fetch api rq of
      Fetched r \<Rightarrow> True
    | Fetch_failed cause aborted \<Rightarrow>
        let page = query_page (perform api rq) retry children
        in concat (map (element_texts ''p'') page) =
             [''Couldn't reach the server'', ''Check that the backend is running and reachable, then try again.'',
              if aborted then ''TIMEOUT'' else ''NETWORK_ERROR'',
              if aborted then ''Request timed out.'' else ''Could not reach the backend.''] \<and>
           press (Click ''Retry'' 0) page = Some retry \<and> offers page = {retry})"
proof (cases "ah_fetch api rq")
  case (Fetch_failed cause aborted)
  let ?e = "Thrown_Api (if aborted then ''TIMEOUT'' else ''NETWORK_ERROR'')
      (if aborted then ''Request timed out.'' else ''Could not reach the backend.'') None"
  have page: "query_page (perform api rq) retry children = [ErrorState ?e (Some retry)]"
    by (simp add: query_page_def perform_def Fetch_failed api_error_def thrown_of_def QueryResult_def plain_query_def)
  show ?thesis unfolding Fetch_failed page
    by (simp add: press_error_retry Let_def) (simp add: ErrorState_def envelopeDetails_def Let_def)
qed simp

end
