(* ===== verification/Panels.thy ===== *)
theory Panels
  imports Ui Views Narrative Decision
begin

section \<open>Explanation, history and forecast panels\<close>

text \<open>
  The components under \<open>components/explainability\<close>, \<open>components/historical\<close> and \<open>components/foresight\<close> as functions
  from their properties to trees. Data fetched by a hook inside a component is the argument \<open>query\<close> (what arrived, whether
  the query is loading, the error), and a component's own state is an argument next to it. \<open>formatTimestamp\<close> prints in the
  browser's locale and is an argument \<open>ft\<close>. The lemmas show what the panels leave out (nothing) and what their controls do.
\<close>

record 'a query =
  q_data :: "'a option"
  q_isLoading :: bool
  q_error :: "thrown option"

definition percent0 :: "number \<Rightarrow> string" where
  "percent0 v = toFixed (nmul v 100) 0 @ ''%''"

definition rounded_percent :: "number \<Rightarrow> string" where
  "rounded_percent v = num_toString (of_int (Math_round (nmul v 100))) @ ''%''"

definition strong :: "string \<Rightarrow> 'e node" where
  "strong s = el ''strong'' [Text s]"

definition definition_entry :: "string \<Rightarrow> string \<Rightarrow> 'e node list" where
  "definition_entry term_text value = [el ''dt'' [Text term_text], el ''dd'' [Text value]]"

subsection \<open>components/explainability\<close>

definition RulesFiredList :: "string list \<Rightarrow> 'e node" where
  "RulesFiredList rules =
     (if length rules = 0 then p_text ''No rules fired for this assessment.''
      else el ''ul'' (map (\<lambda>rule. el ''li'' [Text rule]) rules))"

definition AgentContributionChart ::
  "(string \<times> AgentContribution) list \<Rightarrow> RiskJustification option \<Rightarrow> 'e node" where
  "AgentContributionChart contributions justification =
     el ''div''
       ([Plot ''Raw risk'' (map (\<lambda>(agentName, c). (agentDisplayName agentName, ac_risk c)) contributions),
         Plot ''Confidence (%)'' (map (\<lambda>(agentName, c). (agentDisplayName agentName, nmul (ac_confidence c) 100)) contributions)]
        @ cond_some justification (\<lambda>j.
            [el ''ul'' (map (\<lambda>(agentName, c).
               el ''li'' [strong (agentDisplayName agentName @ '' '' @ toFixed (ac_risk c) 0 @ ''%''), Text '' - Reason:'', Text '' '',
                          Text (buildAgentContributionReason agentName c j)]) contributions)]))"

definition formatFactor :: "ConfidenceFactor option \<Rightarrow> string" where
  "formatFactor factor =
     (case factor of
        None \<Rightarrow> ''Unavailable''
      | Some (Percentage _ v _) \<Rightarrow> percent0 v
      | Some (Categorical _ c _) \<Rightarrow> c
      | Some (Unavailable _ _) \<Rightarrow> ''Unavailable'')"

definition DecisionStabilityPanel :: "RecommendationStability \<Rightarrow> 'e node" where
  "DecisionStabilityPanel stability =
     el ''div''
       [el ''dl''
          [el ''div'' (definition_entry ''Recommendation unchanged''
             (show_nat (st_unchangedForTicks stability) @ '' replay tick''
              @ (if st_unchangedForTicks stability = 1 then [] else ''s''))),
           el ''div'' (definition_entry ''Historical agreement'' (formatFactor (st_historicalAgreement stability))),
           el ''div'' (definition_entry ''Forecast agreement'' (formatFactor (st_forecastAgreement stability))),
           el ''div''
             [el ''dt'' [Text ''Oscillation''],
              El ''dd'' [(''class'', if st_oscillationDetected stability then ''decision-stability-oscillation-detected''
                  else ''decision-stability-oscillation-none'')]
                [Text (if st_oscillationDetected stability
                   then ''Detected ('' @ show_nat (st_oscillationReversals stability) @ '' reversals)''
                   else ''No oscillation detected'')]]],
        p_text (st_reason stability)]"

definition OperationalNarrativeTimeline :: "(string \<Rightarrow> string) \<Rightarrow> NarrativeEntry list \<Rightarrow> 'e node" where
  "OperationalNarrativeTimeline ft entries =
     (if length entries = 0 then p_text ''No narrative yet - no ticks recorded for this zone.''
      else el ''ol'' (map (\<lambda>(index, entry).
        el ''li'' ([el ''span'' [Text (ft (ne_timestamp entry))], p_text (ne_sentence entry)]
          @ cond (index + 1 < length entries) [el ''span'' [Text utf8_darr]])) (enumerate 0 entries)))"

definition standard_item :: "StandardReference \<Rightarrow> 'e node" where
  "standard_item s =
     el ''li''
       [el ''p'' [Text ''Recommendation aligns with '', strong (sref_code s), Text '' -'', Text '' '', Text (sref_title s)],
        p_text (sref_summary s), p_text (sref_applicability s), p_text (sref_externalReference s)]"

definition recommendation_item :: "Recommendation \<Rightarrow> 'e node" where
  "recommendation_item r =
     (let standards = standardsForRecommendation (rc_id r)
      in El ''li'' [(''class'', ''recommendation recommendation-'' @ rc_severity r)]
           (p_text (rc_text r)
            # cond (length standards > 0)
                [el ''details'' [el ''summary'' [Text (''Supporting standards ('' @ show_nat (length standards) @ '')'')],
                   el ''ul'' (map standard_item standards)]]))"

definition RecommendationList :: "Recommendation list \<Rightarrow> 'e node" where
  "RecommendationList recommendations =
     (if length recommendations = 0 then p_text ''No recommended actions for this assessment.''
      else el ''ul'' (map recommendation_item recommendations))"

definition factor_header :: "ConfidenceFactor \<Rightarrow> 'e node" where
  "factor_header factor =
     el ''div'' [el ''span'' [Text (cf_label factor)],
       el ''span'' [Text (case factor of Percentage _ v _ \<Rightarrow> percent0 v | Categorical _ c _ \<Rightarrow> c | Unavailable _ _ \<Rightarrow> ''Unavailable'')]]"

definition ConfidenceBreakdown :: "ConfidenceFactor list \<Rightarrow> 'e node" where
  "ConfidenceBreakdown factors =
     el ''ul'' (map (\<lambda>factor.
       el ''li''
         ([factor_header factor]
          @ (case factor of
               Percentage _ v _ \<Rightarrow> [el ''div'' [El ''div'' [(''width'', rounded_percent v)] []]]
             | _ \<Rightarrow> [])
          @ [p_text (case factor of Unavailable _ reason \<Rightarrow> reason | Percentage _ _ src \<Rightarrow> src | Categorical _ _ src \<Rightarrow> src)]))
       factors)"

definition engine_steps :: "RiskAssessment \<Rightarrow> RiskJustification \<Rightarrow> (string \<times> string) list" where
  "engine_steps a j =
     (let agentSummary = js_join '', '' (map (\<lambda>(n, c). agentDisplayName n @ '' '' @ toFixed (ac_risk c) 0) (rj_agentContributions j));
          recommendations = deriveRecommendations (ra_tier a) (Some j)
      in [(''Sensor observations'',
           if ''agent_unavailable_using_last_known'' \<in> set (rj_rulesFired j) \<or> ''stale_data_fail_safe'' \<in> set (rj_rulesFired j)
           then ''One or more readings were missing or stale - the engine fell back to a safe last-known value.''
           else ''Fresh sensor and status data came in for this tick.''),
          (''Agent reasoning'', if agentSummary \<noteq> [] then agentSummary else ''No agent produced a contribution this tick.''),
          (''Risk fusion'',
           if rj_interactionBonusApplied j > 1
           then ''Combined into a compound score of '' @ toFixed (ra_compound_risk_score a) 1 @ '' ('' @ utf8_times
                @ toFixed (rj_interactionBonusApplied j) 2 @ '' interaction bonus applied).''
           else ''Combined into a compound score of '' @ toFixed (ra_compound_risk_score a) 1 @ ''.''),
          (''Operational status'', toUpperCase (rj_tierBefore j) @ '' '' @ utf8_arrow @ '' '' @ toUpperCase (rj_tierAfter j)),
          (''Recommended action'',
           case recommendations of r # _ \<Rightarrow> rc_text r | [] \<Rightarrow> ''No action recommended at this tier.'')])"

definition EngineInsight :: "RiskAssessment \<Rightarrow> RiskJustification option \<Rightarrow> 'e node" where
  "EngineInsight a justification =
     el ''div''
       (el ''h3'' [Text ''How the Engine Reached This Decision'']
        # (case justification of
             None \<Rightarrow> [p_text ''No structured justification is available for this tick.'']
           | Some j \<Rightarrow>
               [el ''ol'' (map (\<lambda>(index, (label, detail)).
                  el ''li'' [el ''span'' [Text (show_nat (index + 1))],
                    el ''div'' [p_text label,
                      el ''p'' (cond (label = ''Operational status'') [TierBadge (ra_tier a)] @ [Text '' '', Text detail])]])
                  (enumerate 0 (engine_steps a j)))]))"

definition factor_item :: "RiskJustification option \<Rightarrow> RankedFactor \<Rightarrow> 'e node" where
  "factor_item justification f =
     el ''li''
       ([strong (rk_displayName f @ '':''),
         Text ('' '' @ toFixed (rk_risk f) 1 @ '' risk ('' @ percent0 (rk_confidence f) @ '' confidence)'')]
        @ cond_some justification (\<lambda>j.
            [p_text (''Reason: '' @ buildAgentContributionReason (rk_agentName f)
               \<lparr>ac_risk = rk_risk f, ac_confidence = rk_confidence f\<rparr> j)]))"

definition RootCauseExplorer ::
  "RiskAssessment \<Rightarrow> RiskJustification option \<Rightarrow> CounterfactualComparison option \<Rightarrow> number option \<Rightarrow> bool \<Rightarrow> 'e node" where
  "RootCauseExplorer a justification counterfactual workerCount hasActivePermit =
     (let factors = rankContributingFactors justification;
          equipmentRisk = Option.bind justification (\<lambda>j. map_option ac_risk (map_of (rj_agentContributions j) ''equipment_status''));
          comparisonText = map_option (\<lambda>c.
            explainComparison
              (Some \<lparr>cv_compound_risk_score = ra_compound_risk_score a, cv_confidence = ra_confidence a, cv_tier = ra_tier a\<rparr>)
              (cc_counterfactual c) justification) counterfactual
      in el ''div''
           ([el ''h3'' [Text ''Why did this happen?''], el ''h4'' [Text ''Top Contributing Factors''],
             (if length factors = 0 then p_text ''No agent contributions recorded for this tick.''
              else el ''ol'' (map (factor_item justification) factors))]
            @ (case justification of
                 Some j \<Rightarrow> cond (hasInteractionBonus justification)
                   [el ''p'' [strong ''Interaction bonus:'', Text ('' '' @ utf8_times @ toFixed (rj_interactionBonusApplied j) 2
                      @ '' - multiple independent factors compounding at once.'')]]
               | None \<Rightarrow> [])
            @ [el ''h4'' [Text ''Rules Fired''], RulesFiredList (case justification of Some j \<Rightarrow> rj_rulesFired j | None \<Rightarrow> [])]
            @ cond_some (truthy comparisonText) (\<lambda>c. [el ''h4'' [Text ''Alternative Decision Comparison''], p_text c])
            @ [el ''h4'' [Text ''Affected''],
               el ''ul''
                 [el ''li'' [Text (''Workers in zone: '' @ (case workerCount of Some w \<Rightarrow> num_toString w | None \<Rightarrow> ''unknown''))],
                  el ''li'' [Text (''Active work authorization: '' @ (if hasActivePermit then ''Yes'' else ''No''))],
                  el ''li'' [Text (''Equipment risk: '' @ (case equipmentRisk of Some r \<Rightarrow> toFixed r 1 | None \<Rightarrow> ''n/a''))]]]))"

definition raw_entry :: "string \<Rightarrow> string \<Rightarrow> 'e node list" where
  "raw_entry k v = definition_entry k v"

definition contribution_card :: "RiskJustification \<Rightarrow> string \<times> AgentContribution \<Rightarrow> 'e node" where
  "contribution_card j nc =
     (case nc of (agentName, c) \<Rightarrow>
        el ''div''
          [el ''h4'' [Text (agentDisplayName agentName @ '' (raw)'')],
           el ''dl'' (raw_entry ''risk'' (num_toString (ac_risk c)) @ raw_entry ''confidence'' (num_toString (ac_confidence c))),
           p_text (''Reason: '' @ buildAgentContributionReason agentName c j)])"

definition justification_cards :: "RiskJustification \<Rightarrow> 'e node list" where
  "justification_cards j =
     [el ''div''
        [el ''h4'' [Text ''Fusion / Tiering (raw)''],
         el ''dl'' (raw_entry ''schema_version'' (num_toString (rj_schemaVersion j))
           @ raw_entry ''interaction_bonus_applied'' (num_toString (rj_interactionBonusApplied j))
           @ raw_entry ''tier_before'' (rj_tierBefore j) @ raw_entry ''tier_after'' (rj_tierAfter j))]]
     @ map (contribution_card j) (rj_agentContributions j)
     @ [el ''div'' [el ''h4'' [Text (''Rules Fired ('' @ show_nat (length (rj_rulesFired j)) @ '')'')], RulesFiredList (rj_rulesFired j)]]"

definition bookmark_item :: "(string \<Rightarrow> string) \<Rightarrow> ReplayBookmark \<Rightarrow> 'e node" where
  "bookmark_item ft b = el ''li'' [Text (''['' @ rb_kind b @ ''] '' @ rb_label b @ '' @ '' @ ft (rb_timestamp b))]"

definition TechnicalView ::
  "(string \<Rightarrow> string) \<Rightarrow> RiskAssessment \<Rightarrow> RiskJustification option \<Rightarrow> ReplayBookmark list \<Rightarrow> 'e node" where
  "TechnicalView ft a justification bookmarks =
     el ''div''
       ([el ''div''
           [el ''h4'' [Text ''Assessment (raw)''],
            el ''dl'' (raw_entry ''assessment_id'' (ra_assessment_id a) @ raw_entry ''timestamp'' (ra_timestamp a)
              @ raw_entry ''compound_risk_score'' (num_toString (ra_compound_risk_score a))
              @ raw_entry ''confidence'' (num_toString (ra_confidence a)) @ raw_entry ''tier'' (ra_tier a))]]
        @ (case justification of
             Some j \<Rightarrow> justification_cards j
           | None \<Rightarrow> [el ''div'' [p_text ''No structured justification available for this tick.'']])
        @ [el ''div''
             [el ''h4'' [Text (''Bookmarks in window ('' @ show_nat (length bookmarks) @ '')'')],
              (if length bookmarks = 0 then p_text ''None.'' else el ''ul'' (map (bookmark_item ft) bookmarks))]])"

text \<open>The ticks of a zone up to the replay cursor, each with what moved its tier.\<close>

definition evolution_tick :: "(string \<Rightarrow> string) \<Rightarrow> RiskAssessment \<Rightarrow> 'e node" where
  "evolution_tick ft a =
     el ''li''
       ([el ''p'' [strong (ft (ra_timestamp a)), Text '' '', Text (toFixed (ra_compound_risk_score a) 1), Text '' '', TierBadge (ra_tier a)]]
        @ cond_some (parseJustification (ra_justification a)) (\<lambda>j.
            [AgentContributionChart (rj_agentContributions j) (Some j)]
            @ cond (rj_interactionBonusApplied j > 1 \<and> ''interaction_bonus_applied'' \<in> set (rj_rulesFired j))
                [p_text (''Interaction bonus: '' @ utf8_times @ toFixed (rj_interactionBonusApplied j) 2)]
            @ cond (rj_tierBefore j \<noteq> rj_tierAfter j)
                [p_text (rj_tierBefore j @ '' '' @ utf8_arrow @ '' '' @ rj_tierAfter j)]))"

definition upToCursor :: "replay_state \<Rightarrow> string \<Rightarrow> RiskAssessment list" where
  "upToCursor replay zoneId =
     filter (\<lambda>a. case currentTimestamp replay of None \<Rightarrow> False | Some t \<Rightarrow> ra_timestamp a \<le> t) (zoneTimeline replay zoneId)"

definition DecisionEvolution :: "(string \<Rightarrow> string) \<Rightarrow> replay_state \<Rightarrow> Zone list option \<Rightarrow> string \<Rightarrow> 'e node" where
  "DecisionEvolution ft replay zones zoneId =
     el ''div''
       [el ''h3'' [Text (''Decision Evolution - '' @ zoneLabel zoneId zones)],
        (if length (upToCursor replay zoneId) = 0 then p_text ''No ticks yet at this point in the replay.''
         else el ''ol'' (map (evolution_tick ft) (upToCursor replay zoneId)))]"

subsection \<open>components/historical\<close>

record HistoricalIncidentSummary =
  hi_scenario_key :: string
  hi_root_cause :: string
  hi_business_impact :: string
  hi_operational_impact :: string
  hi_safety_impact :: string

record HistoricalDeck =
  hd_key :: string
  hd_name :: string
  hd_description :: string
  hd_incidents :: "HistoricalIncidentSummary list"

definition FEATURE_LABELS :: "(string \<times> string) list" where
  "FEATURE_LABELS =
    [(''gas_risk'', ''Gas risk''), (''equipment_risk'', ''Equipment risk''), (''worker_risk'', ''Worker risk''),
     (''permit_risk'', ''Permit risk''), (''compound_risk_score'', ''Compound score''),
     (''operational_status'', ''Operational status''), (''interaction_bonus'', ''Interaction bonus''),
     (''triggered:gas_risk'', ''Gas agent triggered''), (''triggered:equipment_status'', ''Equipment agent triggered''),
     (''triggered:worker_exposure'', ''Worker agent triggered''),
     (''triggered:permit_intelligence'', ''Permit agent triggered'')]"

definition featureLabel :: "string \<Rightarrow> string" where
  "featureLabel feature = (case map_of FEATURE_LABELS feature of Some l \<Rightarrow> l | None \<Rightarrow> feature)"

definition SimilarityRadar :: "string list \<Rightarrow> string list \<Rightarrow> 'e node" where
  "SimilarityRadar matchingFeatures differingFeatures =
     (let data = map (\<lambda>f. (featureLabel f, 1)) matchingFeatures @ map (\<lambda>f. (featureLabel f, 0)) differingFeatures
      in if length data = 0 then p_text ''No comparable features for this match.'' else Plot ''Agreement'' data)"

definition IncidentMatchCard :: "(string \<Rightarrow> string) \<Rightarrow> IncidentMatch \<Rightarrow> nat \<Rightarrow> 'e node" where
  "IncidentMatchCard ft m rank =
     el ''div''
       [el ''div''
          [el ''span'' [Text (''#'' @ show_nat rank)],
           el ''div'' [el ''h4'' [Text (im_incident_name m)], p_text (ft (im_date m))],
           TierBadge (im_outcome_tier m), el ''span'' [Text (percent0 (im_similarity m) @ '' similar'')]],
        el ''dl'' (definition_entry ''Root cause'' (im_root_cause m) @ definition_entry ''Business impact'' (im_business_impact m)
          @ definition_entry ''Operational impact'' (im_operational_impact m) @ definition_entry ''Safety impact'' (im_safety_impact m)),
        el ''h5'' [Text ''Feature agreement''], SimilarityRadar (im_matching_features m) (im_differing_features m),
        el ''h5'' [Text ''Lessons learned''],
        (if length (im_lessons_learned m) = 0 then p_text ''No specific lesson recorded for this match's triggered rules.''
         else el ''ul'' (map (\<lambda>lesson. el ''li'' [el ''span'' [Text (hl_rule lesson)], p_text (hl_lesson lesson)]) (im_lessons_learned m))),
        p_text (''Evidence: '' @ im_evidence_source m)]"

text \<open>Selecting a deck is the event that carries its key; \<open>None\<close> is "All decks".\<close>

datatype panel_event = Select_Deck "string option" | Refetch_Decks | Refetch_Matches | Refetch_Analytics | Refetch_Foresight

definition deck_class :: "bool \<Rightarrow> (string \<times> string) list" where
  "deck_class selected = [(''class'', ''historical-deck-card'' @ (if selected then '' historical-deck-card-selected'' else []))]"

definition deck_button :: "string option \<Rightarrow> HistoricalDeck \<Rightarrow> panel_event node" where
  "deck_button selectedDeckKey deck =
     Button (deck_class (selectedDeckKey = Some (hd_key deck))) True (Select_Deck (Some (hd_key deck)))
       [el ''strong'' (Text (hd_name deck) # cond (length (hd_incidents deck) = 0) [el ''span'' [Text ''Roadmap'']]),
        p_text (hd_description deck), p_text (show_nat (length (hd_incidents deck)) @ '' incident(s)'')]"

definition DeckExplorer :: "string option \<Rightarrow> HistoricalDeck list query \<Rightarrow> panel_event node" where
  "DeckExplorer selectedDeckKey decks =
     (let ds = (case q_data decks of Some d \<Rightarrow> d | None \<Rightarrow> [])
      in el ''div''
           (el ''h3'' [Text ''Historical Decks'']
            # QueryResult (plain_query (q_isLoading decks) (q_error decks) (length ds = 0)
                 ''No historical decks are configured yet.'' Refetch_Decks)
                [el ''div''
                   (Button (deck_class (selectedDeckKey = None)) True (Select_Deck None) [strong ''All decks'', p_text ''Search every historical incident on record.'']
                    # map (deck_button selectedDeckKey) ds)]))"

definition FrequencyList :: "string \<Rightarrow> RuleFrequency list \<Rightarrow> 'e node" where
  "FrequencyList title items =
     el ''div''
       [el ''h5'' [Text title],
        (if length items = 0 then p_text ''None recorded across indexed incidents.''
         else el ''ul'' (map (\<lambda>item.
           el ''li'' [el ''span'' [Text (rf_rule item)], Text ('' '' @ utf8_times @ num_toString (rf_incident_count item)),
                      p_text (rf_lesson item)]) items))]"

definition analytics_body :: "CrossScenarioAnalytics \<Rightarrow> 'e node list" where
  "analytics_body data =
     [p_text (num_toString (ca_total_incidents data) @ '' incident(s), '' @ num_toString (ca_total_indexed_ticks data)
        @ '' indexed tick(s).''),
      el ''div''
        [FrequencyList ''Most common causes'' (ca_most_common_causes data),
         FrequencyList ''Most common equipment issues'' (ca_most_common_equipment_issues data),
         FrequencyList ''Most common permit conflicts'' (ca_most_common_permit_conflicts data),
         FrequencyList ''Most common worker hazards'' (ca_most_common_worker_hazards data)],
      p_text (''Average resolution time: ''
        @ (case ca_average_resolution_minutes data of
             Some m \<Rightarrow> toFixed m 1 @ '' minutes''
           | None \<Rightarrow> ''Status: Unavailable '' @ utf8_emdash @ '' no closed escalation episodes recorded yet.'')),
      p_text (''Most effective interventions '' @ utf8_emdash @ '' Status: Unavailable '' @ utf8_emdash @ '' Reason: ''
        @ hu_reason (ca_most_effective_interventions data)),
      p_text (''Industry comparisons '' @ utf8_emdash @ '' Status: Unavailable '' @ utf8_emdash @ '' Reason: ''
        @ hu_reason (ca_industry_comparisons data))]"

definition CrossScenarioAnalyticsPanel :: "CrossScenarioAnalytics query \<Rightarrow> panel_event node" where
  "CrossScenarioAnalyticsPanel q =
     el ''div''
       (el ''h3'' [Text ''Cross-Scenario Analytics'']
        # QueryResult (plain_query (q_isLoading q) (q_error q)
             (case q_data q of Some d \<Rightarrow> ca_total_indexed_ticks d = 0 | None \<Rightarrow> False)
             ''No historical ticks are indexed yet.'' Refetch_Analytics)
            (cond_some (q_data q) analytics_body))"

definition timeline_cell :: "RiskAssessment option \<Rightarrow> 'e node" where
  "timeline_cell a =
     el ''span''
       (case a of
          Some x \<Rightarrow> [TierBadge (ra_tier x), Text ('' '' @ toFixed (ra_compound_risk_score x) 1)]
        | None \<Rightarrow> [el ''span'' [Text utf8_emdash]])"

definition HistoricalTimelineComparison ::
  "RiskAssessment list \<Rightarrow> string \<Rightarrow> string \<Rightarrow> ReplayData query \<Rightarrow> 'e node" where
  "HistoricalTimelineComparison currentTimeline historicalScenarioKey historicalZoneId q =
     (if q_isLoading q then LoadingState (Some ''Loading historical replay for comparison...'')
      else (case q_error q of
        Some error \<Rightarrow> ErrorState error None
      | None \<Rightarrow>
          let historicalTimeline =
                (case Option.bind (q_data q) (\<lambda>d. List.find (\<lambda>t. zt_zone_id t = historicalZoneId) (rd_zone_timelines d)) of
                   Some t \<Rightarrow> zt_assessments t | None \<Rightarrow> [])
          in if length historicalTimeline = 0 \<or> length currentTimeline = 0
             then p_text ''Not enough persisted ticks on one side to compare timelines.''
             else el ''div''
               [el ''div'' [el ''span'' [Text ''Current''], el ''span'' [Text (''Historical ('' @ historicalScenarioKey @ '')'')]],
                el ''ol'' (map (\<lambda>row.
                  El ''li'' [(''class'', ''historical-timeline-comparison-row''
                       @ (if diverges row then '' historical-timeline-diverges'' else []))]
                    [timeline_cell (fst row), timeline_cell (snd row)])
                  (comparison_rows currentTimeline historicalTimeline)),
                el ''div''
                  [el ''span'' [Text ''Current: '', TierBadge (ra_tier (last currentTimeline))], el ''span'' [Text utf8_arrow],
                   el ''span'' [Text ''Historical outcome: '', TierBadge (ra_tier (last historicalTimeline))]]]))"

definition HistoricalIntelligencePanel ::
  "(string \<Rightarrow> string) \<Rightarrow> string option \<Rightarrow> IncidentMatch list query \<Rightarrow> HistoricalDeck list query \<Rightarrow> ReplayData query
   \<Rightarrow> CrossScenarioAnalytics query \<Rightarrow> RiskAssessment list \<Rightarrow> panel_event node" where
  "HistoricalIntelligencePanel ft selectedDeckKey q decks replayQuery analytics currentTimeline =
     (let matches = (case q_data q of Some m \<Rightarrow> m | None \<Rightarrow> []);
          insights = historicalExecutiveInsights matches;
          selectedDeck = Option.bind (q_data decks) (List.find (\<lambda>deck. Some (hd_key deck) = selectedDeckKey));
          isRoadmapDeck = (case selectedDeck of Some deck \<Rightarrow> length (hd_incidents deck) = 0 | None \<Rightarrow> False)
      in el ''div''
           ([el ''h3'' [Text ''Historical Intelligence''],
             p_text (''Similar past incidents on this platform's own operational memory - context only, never a ''
               @ ''recommendation of its own. The engine's own recommendations above remain authoritative.''),
             DeckExplorer selectedDeckKey decks]
            @ QueryResult
                \<lparr>qp_isLoading = q_isLoading q, qp_error = q_error q, qp_isEmpty = (length matches = 0),
                 qp_emptyLabel =
                   (if isRoadmapDeck
                    then ''No historical incidents for '' @ (case selectedDeck of Some deck \<Rightarrow> hd_name deck | None \<Rightarrow> ''undefined'') @ '' yet.''
                    else ''No similar historical incidents found for this assessment.''),
                 qp_emptyHint = Some
                   (if isRoadmapDeck then ''Structure supported - no incident data modeled yet for this industry deck.''
                    else ''This can happen for the very first tick of a scenario, before any history exists to compare against.''),
                 qp_emptyAction = None, qp_loadingLabel = None, qp_onRetry = Some Refetch_Matches\<rparr>
                (cond (length insights > 0)
                   [el ''div'' [el ''h4'' [Text ''Executive Insights''], el ''ul'' (map (\<lambda>line. el ''li'' [Text line]) insights)]]
                 @ [el ''div'' (map (\<lambda>(index, m). IncidentMatchCard ft m (index + 1)) (enumerate 0 matches))]
                 @ (case matches of
                      [] \<Rightarrow> []
                    | topMatch # _ \<Rightarrow>
                        [el ''div'' [el ''h4'' [Text ''Current vs. Historical Timeline''],
                           HistoricalTimelineComparison currentTimeline (im_scenario_key topMatch) (im_zone_id topMatch) replayQuery]]))
            @ [CrossScenarioAnalyticsPanel analytics]))"

subsection \<open>components/foresight\<close>

definition ConfidenceFactors :: "ForesightConfidence \<Rightarrow> 'e node" where
  "ConfidenceFactors c =
     el ''div''
       (map (\<lambda>(value, label).
          el ''div''
            [el ''span'' [Text label], el ''div'' [El ''div'' [(''width'', rounded_percent value)] []],
             el ''span'' [Text (rounded_percent value)]])
          [(fc_historical_agreement c, ''Historical agreement''), (fc_data_completeness c, ''Data completeness''),
           (fc_trajectory_similarity c, ''Trajectory similarity''), (fc_replay_coverage c, ''Replay coverage'')]
        @ [el ''div''
             [Text ''Overall confidence: '', strong (rounded_percent (fc_overall c)),
              el ''span'' [Text '' (weakest factor - never an average)'']]])"

definition CATEGORY_CLASS :: "(string \<times> string) list" where
  "CATEGORY_CLASS =
    [(''Potential Recovery'', ''foresight-early-warning-recovery''),
     (''Potential Stabilization'', ''foresight-early-warning-stabilization''),
     (''Potential Escalation'', ''foresight-early-warning-escalation''),
     (''Potential Shutdown'', ''foresight-early-warning-shutdown'')]"

definition EarlyWarningBanner :: "EarlyWarningSignal \<Rightarrow> 'e node" where
  "EarlyWarningBanner signal =
     El ''div''
       [(''class'', ''foresight-early-warning ''
           @ (case map_of CATEGORY_CLASS (ew_category signal) of Some c \<Rightarrow> c | None \<Rightarrow> ''undefined''))]
       [strong (ew_category signal), p_text (ew_why signal)]"

definition forecast_item :: "ForecastPoint \<Rightarrow> 'e node" where
  "forecast_item point =
     el ''li''
       [el ''div''
          (el ''span'' [Text (''+'' @ num_toString (fp_horizon_minutes point) @ '' min'')]
           # (case truthy (fp_projected_tier point) of
                Some tier \<Rightarrow>
                  [TierBadge tier, el ''span'' [Text (case fp_projected_risk point of Some r \<Rightarrow> toFixed r 1 | None \<Rightarrow> [])]]
              | None \<Rightarrow> [el ''span'' [Text ''Unavailable'']])),
        (case truthy (fp_unavailable_reason point) of
           Some reason \<Rightarrow> p_text reason
         | None \<Rightarrow>
             p_text (''Cited from '' @ show_nat (length (fp_evidence point)) @ '' matched incident(s): ''
               @ js_join '', '' (map (\<lambda>item. fe_scenario_key item @ '' ('' @ percent0 (fe_similarity item) @ '' similar)'')
                   (fp_evidence point))))]"

definition ForecastTimeline :: "ForecastPoint list \<Rightarrow> 'e node" where
  "ForecastTimeline forecast = el ''ol'' (map forecast_item forecast)"

definition Rung :: "string \<Rightarrow> ProgressionStage \<Rightarrow> 'e node" where
  "Rung title stage =
     el ''li''
       [el ''span'' [Text title],
        El ''span'' [(''class'', ''foresight-progression-rung-label''
            @ (case truthy (ps_tier stage) of Some t \<Rightarrow> '' tier-'' @ t | None \<Rightarrow> []))] [Text (ps_label stage)],
        p_text (ps_evidence stage)]"

definition IncidentProgressionLadder :: "IncidentProgression \<Rightarrow> 'e node" where
  "IncidentProgressionLadder progression =
     el ''ol''
       [Rung ''Current Stage'' (ip_current_stage progression), Rung ''Likely Next Stage'' (ip_likely_next_stage progression),
        Rung ''Likely Following Stage'' (ip_likely_following_stage progression),
        Rung ''Expected Resolution'' (ip_expected_resolution progression)]"

definition evidenceQualityLabel :: "ForesightConfidence \<Rightarrow> string" where
  "evidenceQualityLabel c =
     (let weakest = min (fc_trajectory_similarity c) (fc_replay_coverage c)
      in if weakest \<ge> fl (66 / 100) then ''High'' else if weakest \<ge> fl (33 / 100) then ''Moderate'' else ''Low'')"

definition MatchesAndDeckCoverage ::
  "(string \<Rightarrow> string) \<Rightarrow> ForesightMatchSummary list \<Rightarrow> DeckContribution list \<Rightarrow> ForesightConfidence \<Rightarrow> 'e node" where
  "MatchesAndDeckCoverage ft matches deckContributions c =
     el ''div''
       [el ''div''
          (el ''span'' [Text ''Evidence quality: '', strong (evidenceQualityLabel c)]
           # map (\<lambda>deck. el ''span'' [Text (dc_deck_name deck @ '': '' @ num_toString (dc_matched_incident_count deck)
               @ '' incident(s) matched'')]) deckContributions),
        el ''ul'' (map (\<lambda>m.
          el ''li'' [el ''span'' [Text (fm_incident_name m)], Text '' '',
            el ''span'' [Text (percent0 (fm_similarity m) @ '' similar - matched at '' @ ft (fm_anchor_timestamp m))]]) matches)]"

definition POSITIONS :: "string list" where
  "POSITIONS = [''Potential Recovery'', ''Potential Stabilization'', ''Potential Escalation'', ''Potential Shutdown'']"

definition OperationalStabilityGauge :: "string \<Rightarrow> ForesightConfidence \<Rightarrow> 'e node" where
  "OperationalStabilityGauge category c =
     (let activeIndex = find_index (\<lambda>pos. pos = category) POSITIONS
      in el ''div''
           [el ''div'' (map (\<lambda>(index, pos).
              El ''div'' [(''class'', ''foresight-stability-gauge-segment''
                 @ (if Some index = activeIndex then '' foresight-stability-gauge-segment-active'' else [])), (''title'', pos)] [])
              (enumerate 0 POSITIONS)),
            el ''div'' (map (\<lambda>s. el ''span'' [Text s]) [''Recovery'', ''Stabilization'', ''Escalation'', ''Shutdown'']),
            p_text (''Confidence in this reading: '' @ rounded_percent (fc_overall c))])"

text \<open>
  The chart of \<open>ForecastTrajectoryChart\<close>: its three series over the points of \<open>buildChartData\<close>, the spread by its lower and
  upper ends, each point under the text of its tick.
\<close>

definition tick_text :: "number option \<Rightarrow> string" where
  "tick_text minutes =
     (case minutes of
        None \<Rightarrow> ''NaNm''
      | Some v \<Rightarrow> if v = 0 then ''Now'' else (if v > 0 then ''+'' else []) @ num_toString v @ ''m'')"

definition series :: "(ChartPoint \<Rightarrow> number option) \<Rightarrow> ChartPoint list \<Rightarrow> (string \<times> number) list" where
  "series f points = List.map_filter (\<lambda>p. map_option (\<lambda>v. (tick_text (cp_minutes p), v)) (f p)) points"

definition ForecastTrajectoryChart ::
  "host_zone \<Rightarrow> (string \<times> number) list \<Rightarrow> string \<Rightarrow> ForecastPoint list \<Rightarrow> 'e node" where
  "ForecastTrajectoryChart hz currentTimeline nowTimestamp forecast =
     (let data = buildChartData hz currentTimeline nowTimestamp forecast
      in el ''div''
           [Plot ''Historical spread'' (series (\<lambda>p. map_option fst (cp_band p)) data),
            Plot ''Historical spread'' (series (\<lambda>p. map_option snd (cp_band p)) data),
            Plot ''Actual'' (series cp_actualRisk data),
            Plot ''Projected (historical evidence)'' (series cp_projectedRisk data)])"

definition foresight_body ::
  "host_zone \<Rightarrow> (string \<Rightarrow> string) \<Rightarrow> RiskAssessment list \<Rightarrow> ForesightResult \<Rightarrow> panel_event node list" where
  "foresight_body hz ft currentTimeline data =
     (let insights = foresightExecutiveInsights data;
          chartTimeline = map (\<lambda>a. (ra_timestamp a, ra_compound_risk_score a)) currentTimeline
      in cond (length insights > 0)
           [el ''div'' [el ''h4'' [Text ''Executive Insights''], el ''ul'' (map (\<lambda>line. el ''li'' [Text line]) insights)]]
         @ [el ''div''
              [el ''h4'' [Text ''Trajectory & Forecast''], ForecastTrajectoryChart hz chartTimeline (fr_timestamp data) (fr_forecast data),
               ForecastTimeline (fr_forecast data)],
            el ''div''
              [el ''div'' [el ''h4'' [Text ''Confidence''], ConfidenceFactors (fr_confidence data)],
               el ''div'' [el ''h4'' [Text ''Early Warning''], EarlyWarningBanner (fr_early_warning data),
                 OperationalStabilityGauge (ew_category (fr_early_warning data)) (fr_confidence data)]],
            el ''div'' [el ''h4'' [Text ''Incident Progression''], IncidentProgressionLadder (fr_progression data)],
            el ''div'' [el ''h4'' [Text ''Historical Overlays''],
              MatchesAndDeckCoverage ft (fr_matches data) (fr_deck_contributions data) (fr_confidence data)]])"

definition OperationalForesightPanel ::
  "host_zone \<Rightarrow> (string \<Rightarrow> string) \<Rightarrow> string option \<Rightarrow> ForesightResult query \<Rightarrow> HistoricalDeck list query \<Rightarrow> RiskAssessment list \<Rightarrow> panel_event node" where
  "OperationalForesightPanel hz ft selectedDeckKey q decks currentTimeline =
     el ''div''
       ([el ''h3'' [Text ''Operational Foresight''],
         p_text (''Given similar historical trajectories, what is most likely to happen next - context and ''
           @ ''trend evidence only, never a recommendation of its own. The engine's own recommendations remain authoritative.''),
         DeckExplorer selectedDeckKey decks]
        @ QueryResult
            \<lparr>qp_isLoading = q_isLoading q, qp_error = q_error q,
             qp_isEmpty = (case q_data q of Some d \<Rightarrow> length (fr_matches d) = 0 | None \<Rightarrow> False),
             qp_emptyLabel = ''No similar historical trajectories found to forecast from yet.'',
             qp_emptyHint = Some (''This can happen for the very first ticks of a scenario, before enough trailing history ''
               @ ''exists to match against.''),
             qp_emptyAction = None, qp_loadingLabel = None, qp_onRetry = Some Refetch_Foresight\<rparr>
            (cond_some (q_data q) (foresight_body hz ft currentTimeline)))"

subsection \<open>What the panels offer\<close>

lemma no_controls [simp]:
  "offered (RulesFiredList rules) = {}" "offered (AgentContributionChart cs j) = {}" "offered (DecisionStabilityPanel st) = {}"
  "offered (OperationalNarrativeTimeline ft es) = {}" "offered (RecommendationList rs) = {}"
  "offered (IncidentMatchCard ft m n) = {}"
  by (auto simp: RulesFiredList_def AgentContributionChart_def DecisionStabilityPanel_def OperationalNarrativeTimeline_def
      RecommendationList_def recommendation_item_def standard_item_def strong_def definition_entry_def offers_map
      IncidentMatchCard_def SimilarityRadar_def Let_def cond_def cond_some_def split: option.split prod.splits)

lemma no_controls_timeline [simp]: "offered (HistoricalTimelineComparison cs k z q) = {}"
  by (auto simp: HistoricalTimelineComparison_def timeline_cell_def Let_def offers_map split: option.split)

lemma no_controls_foresight [simp]: "offers (foresight_body hz ft as d) = {}"
  by (auto simp: foresight_body_def ForecastTrajectoryChart_def ForecastTimeline_def forecast_item_def ConfidenceFactors_def
      EarlyWarningBanner_def OperationalStabilityGauge_def IncidentProgressionLadder_def Rung_def MatchesAndDeckCoverage_def
      strong_def offers_map Let_def split: option.split prod.splits)

lemma offered_analytics: "offered (CrossScenarioAnalyticsPanel q) \<subseteq> {Refetch_Analytics}"
proof -
  have "offers (cond_some (q_data q) analytics_body :: panel_event node list) = {}"
    by (auto simp: analytics_body_def FrequencyList_def offers_map cond_some_def split: option.split)
  with offers_QueryResult show ?thesis by (fastforce simp: CrossScenarioAnalyticsPanel_def plain_query_def)
qed

lemma offered_decks:
  "offered (DeckExplorer k decks) \<subseteq>
     {Refetch_Decks, Select_Deck None} \<union> Select_Deck ` Some ` hd_key ` (case q_data decks of Some ds \<Rightarrow> set ds | None \<Rightarrow> {})"
  by (auto simp: DeckExplorer_def Let_def QueryResult_def plain_query_def deck_button_def offers_map split: option.splits)

end
