(* ===== verification/Pipeline.thy ===== *)
theory Pipeline
  imports Panels
begin

section \<open>The pipeline diagram\<close>

text \<open>
  \<open>components/explainability/PipelineDiagram.tsx\<close>: the reasoning pipeline of one tick as a row of buttons, from the sensors
  over the agents to the recommendations, with a detail panel for the selected stage, an overlay of what a
  threshold engine would have missed, and an animated influence path. A stage is named by its identifier, as in the code. The diagram
  is a page of the interaction model: its state is the selected stage, the overlay switch and whether a trace is
  running; the end of the trace's timer is an event of the environment.

  The properties: the influence path runs over stages that are drawn and through the agent with the highest risk, the overlay
  marks the same agent and no other, every stage of a justified tick has its details, and a trace is never started
  twice and always ends.
\<close>

record StageDetail =
  sdt_input :: string
  sdt_output :: string
  sdt_contribution :: "string option"
  sdt_confidence :: "string option"
  sdt_evidence :: "string option"
  sdt_sourceTimestamp :: string

record diagram =
  dg_selected :: "string option"
  dg_showCounterfactualOverlay :: bool
  dg_tracingPath :: bool

definition diagram_start :: diagram where
  "diagram_start = \<lparr>dg_selected = None, dg_showCounterfactualOverlay = False, dg_tracingPath = False\<rparr>"

subsection \<open>Derived values\<close>

definition agentEntries :: "RiskJustification option \<Rightarrow> (string \<times> AgentContribution) list" where
  "agentEntries justification = (case justification of Some j \<Rightarrow> rj_agentContributions j | None \<Rightarrow> [])"

definition topFactorAgentName :: "RiskJustification option \<Rightarrow> string option" where
  "topFactorAgentName justification = map_option rk_agentName (head_option (rankContributingFactors justification))"

definition evidenceFor :: "RiskJustification option \<Rightarrow> PipelineStage \<Rightarrow> string option" where
  "evidenceFor justification stage =
     (let rulesByStage = (case justification of Some j \<Rightarrow> groupRulesByStage (rj_rulesFired j) | None \<Rightarrow> [])
      in case List.find (\<lambda>entry. sr_stage entry = stage) rulesByStage of
           None \<Rightarrow> None
         | Some entry \<Rightarrow> if length (sr_rules entry) > 0 then Some (js_join '', '' (sr_rules entry)) else None)"

definition plain_detail :: "RiskAssessment \<Rightarrow> string \<Rightarrow> string \<Rightarrow> StageDetail" where
  "plain_detail a inp out =
     \<lparr>sdt_input = inp, sdt_output = out, sdt_contribution = None, sdt_confidence = None, sdt_evidence = None,
      sdt_sourceTimestamp = ra_timestamp a\<rparr>"

definition fixed_details :: "RiskAssessment \<Rightarrow> RiskJustification option \<Rightarrow> (string \<times> StageDetail) list" where
  "fixed_details a justification =
     [(''sensors'', plain_detail a ''Real-world gas/permit/equipment/worker-location readings for this zone.''
         ''Raw readings persisted to the database - not computed here.''),
      (''context_builders'',
         plain_detail a ''Repository queries (sensor readings, permits, worker locations, equipment status).''
           ''One assembled AgentInput per agent below - assembly only, no risk computed.''),
      (''fusion'',
         (plain_detail a (show_nat (length (agentEntries justification)) @ '' agent outputs above.'')
            (''Overall plant risk: '' @ toFixed (ra_compound_risk_score a) 2))
           \<lparr>sdt_contribution := map_option (\<lambda>j. ''Interaction bonus applied: '' @ toFixed (rj_interactionBonusApplied j) 2) justification,
            sdt_evidence := evidenceFor justification Fusion\<rparr>),
      (''tiering'',
         (plain_detail a (''Overall plant risk '' @ toFixed (ra_compound_risk_score a) 2 @ ''.'')
            (case justification of Some j \<Rightarrow> rj_tierBefore j @ '' '' @ utf8_arrow @ '' '' @ rj_tierAfter j | None \<Rightarrow> ra_tier a))
           \<lparr>sdt_evidence := evidenceFor justification Tiering\<rparr>),
      (''explainability'',
         plain_detail a ''Every agent's and Fusion's own fired rules, plus the tier transition.''
           (case justification of Some j \<Rightarrow> show_nat (length (rj_rulesFired j)) @ '' rules fired this tick.'' | None \<Rightarrow> ''n/a'')),
      (''recommendations'',
         plain_detail a ''This tick's tier and fired rules.''
           ''Canned action phrases looked up from tier/rule identifiers - no new computation.'')]"

definition agent_stage_id :: "string \<Rightarrow> string" where
  "agent_stage_id agentName = ''agent_'' @ agentName"

definition agent_detail :: "RiskAssessment \<Rightarrow> RiskJustification option \<Rightarrow> string \<times> AgentContribution \<Rightarrow> StageDetail" where
  "agent_detail a justification nc =
     (plain_detail a ''Its own AgentInput, assembled by the Context Builder stage above.''
        (''Raw risk: '' @ toFixed (ac_risk (snd nc)) 2))
       \<lparr>sdt_confidence := Some (''Confidence: '' @ toFixed (ac_confidence (snd nc)) 2),
        sdt_evidence := evidenceFor justification (agentStage (fst nc))\<rparr>"

definition stage_details :: "RiskAssessment \<Rightarrow> RiskJustification option \<Rightarrow> (string \<times> StageDetail) list" where
  "stage_details a justification =
     foldl (\<lambda>details nc. amap_set (agent_stage_id (fst nc)) (agent_detail a justification nc) details)
       (fixed_details a justification) (agentEntries justification)"

text \<open>\<open>id.startsWith("agent_")\<close> and \<open>id.slice("agent_".length)\<close>.\<close>

definition overlayClassFor :: "RiskJustification option \<Rightarrow> bool \<Rightarrow> string \<Rightarrow> string" where
  "overlayClassFor justification showOverlay i =
     (if \<not> showOverlay then []
      else if prefix ''agent_'' i then
        (let agentName = drop 6 i
         in js_join '' ''
              ((if isIgnoredByThresholdEngine agentName then [''pipeline-stage-ignored-by-threshold''] else [])
               @ (if Some agentName = topFactorAgentName justification then [''pipeline-stage-escalation-source''] else [])))
      else if i = ''fusion'' \<and> hasInteractionBonus justification then ''pipeline-stage-bonus-source''
      else [])"

definition influencePath :: "RiskJustification option \<Rightarrow> string list" where
  "influencePath justification =
     [''sensors'', ''context_builders'']
     @ (case truthy (topFactorAgentName justification) of Some n \<Rightarrow> [agent_stage_id n] | None \<Rightarrow> [])
     @ [''fusion'', ''tiering'', ''recommendations'']"

text \<open>How long a trace runs, in milliseconds, and when the animation of its stage number \<open>k\<close> starts.\<close>

definition trace_duration :: "RiskJustification option \<Rightarrow> nat" where
  "trace_duration justification = length (influencePath justification) * 400 + 600"

definition trace_delay :: "nat \<Rightarrow> nat" where
  "trace_delay traceIndex = traceIndex * 400"

subsection \<open>The diagram\<close>

datatype diagram_event = Toggle_Stage string | Set_Overlay bool | Start_Trace

definition stage_class :: "RiskJustification option \<Rightarrow> diagram \<Rightarrow> string \<Rightarrow> string" where
  "stage_class justification d i =
     (let isActive = (length (agentEntries justification) > 0 \<or> i = ''sensors'' \<or> i = ''context_builders'');
          traced = dg_tracingPath d \<and> i \<in> set (influencePath justification)
      in ''pipeline-stage '' @ (if dg_selected d = Some i then ''pipeline-stage-selected'' else []) @ '' ''
         @ (if isActive then ''pipeline-stage-active'' else []) @ '' ''
         @ overlayClassFor justification (dg_showCounterfactualOverlay d) i @ '' ''
         @ (if traced then ''pipeline-stage-tracing'' else []))"

definition trace_style :: "RiskJustification option \<Rightarrow> diagram \<Rightarrow> string \<Rightarrow> (string \<times> string) list" where
  "trace_style justification d i =
     (case (if dg_tracingPath d then find_index (\<lambda>x. x = i) (influencePath justification) else None) of
        Some traceIndex \<Rightarrow> [(''animationDelay'', num_toString (nmul (of_nat traceIndex) (fl (4 / 10))) @ ''s'')]
      | None \<Rightarrow> [])"

definition Stage :: "RiskJustification option \<Rightarrow> diagram \<Rightarrow> string \<Rightarrow> string \<Rightarrow> diagram_event node" where
  "Stage justification d i label =
     Button ([(''class'', stage_class justification d i)] @ trace_style justification d i @ [(''title'', label)])
       True (Toggle_Stage i) [Text label]"

definition arrow_node :: "'e node" where
  "arrow_node = el ''span'' [Text utf8_arrow]"

definition agent_stages :: "RiskJustification option \<Rightarrow> (string \<times> string) list" where
  "agent_stages justification =
     (if length (agentEntries justification) > 0
      then map (\<lambda>(agentName, c). (agent_stage_id agentName, agentDisplayName agentName)) (agentEntries justification)
      else [(''agent_unknown'', ''Agents'')])"

definition detail_line :: "string \<Rightarrow> string \<Rightarrow> 'e node" where
  "detail_line label value = el ''p'' [strong label, Text ('' '' @ value)]"

definition detail_view :: "(string \<Rightarrow> string) \<Rightarrow> StageDetail \<Rightarrow> 'e node" where
  "detail_view ft d =
     el ''div''
       ([detail_line ''Input:'' (sdt_input d), detail_line ''Output:'' (sdt_output d)]
        @ cond_some (truthy (sdt_contribution d)) (\<lambda>v. [detail_line ''Contribution:'' v])
        @ cond_some (truthy (sdt_confidence d)) (\<lambda>v. [detail_line ''Confidence:'' v])
        @ cond_some (truthy (sdt_evidence d)) (\<lambda>v. [detail_line ''Evidence:'' v])
        @ [detail_line ''Source timestamp:'' (ft (sdt_sourceTimestamp d))])"

definition activeDetail :: "RiskAssessment \<Rightarrow> RiskJustification option \<Rightarrow> diagram \<Rightarrow> StageDetail option" where
  "activeDetail a justification d = Option.bind (truthy (dg_selected d)) (map_of (stage_details a justification))"

definition PipelineDiagram ::
  "(string \<Rightarrow> string) \<Rightarrow> RiskAssessment \<Rightarrow> RiskJustification option \<Rightarrow> diagram \<Rightarrow> diagram_event node" where
  "PipelineDiagram ft a justification d =
     (let stage = Stage justification d
      in el ''div''
           ([Check ''Show alternative decision overlay'' (dg_showCounterfactualOverlay d) Set_Overlay, Text '' '',
             Button [] (\<not> dg_tracingPath d) Start_Trace
               [Text (if dg_tracingPath d then ''Tracing'' @ utf8_ellipsis else ''Trace influence path'')]]
            @ cond (dg_showCounterfactualOverlay d)
                [el ''ul'' [el ''li'' [Text ''Ignored by the naive threshold engine''],
                   el ''li'' [Text ''This tick's top contributing factor''], el ''li'' [Text ''Interaction bonus applied here'']]]
            @ [el ''div''
                 [stage ''sensors'' ''Sensors'', arrow_node, stage ''context_builders'' ''Context Builders'', arrow_node,
                  el ''div'' (map (\<lambda>(i, label). stage i label) (agent_stages justification)), arrow_node,
                  stage ''fusion'' ''Fusion'', arrow_node, stage ''tiering'' ''Tiering'', arrow_node,
                  stage ''explainability'' ''Explainability'', arrow_node, stage ''recommendations'' ''Recommendations'']]
            @ cond_some (activeDetail a justification d) (\<lambda>detail. [detail_view ft detail])))"

text \<open>Handlers; the timer that ends a trace is the environment's only event.\<close>

definition diagram_update :: "diagram_event \<Rightarrow> diagram \<Rightarrow> diagram" where
  "diagram_update e d =
     (case e of
        Toggle_Stage i \<Rightarrow> d\<lparr>dg_selected := (if dg_selected d = Some i then None else Some i)\<rparr>
      | Set_Overlay b \<Rightarrow> d\<lparr>dg_showCounterfactualOverlay := b\<rparr>
      | Start_Trace \<Rightarrow> d\<lparr>dg_tracingPath := True\<rparr>)"

datatype diagram_input = Trace_Timeout

definition diagram_env :: "diagram_input \<Rightarrow> diagram \<Rightarrow> diagram" where
  "diagram_env x d = d\<lparr>dg_tracingPath := False\<rparr>"

text \<open>The identifiers of the stages that are drawn, from left to right.\<close>

definition drawn_stages :: "RiskJustification option \<Rightarrow> string list" where
  "drawn_stages justification =
     [''sensors'', ''context_builders''] @ map fst (agent_stages justification)
     @ [''fusion'', ''tiering'', ''explainability'', ''recommendations'']"

subsection \<open>Facts\<close>

lemma agent_stage_id_inj [simp]: "agent_stage_id m = agent_stage_id n \<longleftrightarrow> m = n"
  by (simp add: agent_stage_id_def)

lemma agent_stage_id_fixed [simp]:
  "agent_stage_id n \<noteq> ''sensors''" "agent_stage_id n \<noteq> ''context_builders''" "agent_stage_id n \<noteq> ''fusion''"
  "agent_stage_id n \<noteq> ''tiering''" "agent_stage_id n \<noteq> ''explainability''" "agent_stage_id n \<noteq> ''recommendations''"
  "''sensors'' \<noteq> agent_stage_id n" "''context_builders'' \<noteq> agent_stage_id n" "''fusion'' \<noteq> agent_stage_id n"
  "''tiering'' \<noteq> agent_stage_id n" "''explainability'' \<noteq> agent_stage_id n" "''recommendations'' \<noteq> agent_stage_id n"
  by (simp_all add: agent_stage_id_def)

lemma agentEntries_distinct:
  "distinct (map fst (agentEntries (parseJustification raw)))"
  by (cases "parseJustification raw") (auto simp: agentEntries_def parseJustification_distinct)

lemma agent_stages_ids:
  "map fst (agent_stages justification) =
     (if agentEntries justification = [] then [''agent_unknown''] else map (agent_stage_id \<circ> fst) (agentEntries justification))"
  by (auto simp: agent_stages_def split: prod.split)

lemma drawn_distinct: "distinct (map fst (agentEntries justification)) \<Longrightarrow> distinct (drawn_stages justification)"
proof -
  assume "distinct (map fst (agentEntries justification))"
  then have "distinct (map (agent_stage_id \<circ> fst) (agentEntries justification))"
    unfolding map_map[symmetric] by (simp add: distinct_map inj_on_def del: map_map)
  then show ?thesis by (auto simp: drawn_stages_def agent_stages_ids)
qed

lemma ranked_head:
  assumes "head_option (rankContributingFactors (Some j)) = Some f"
  shows "\<exists>e\<in>set (rj_agentContributions j). f = ranked_factor e" and
    "e \<in> set (rj_agentContributions j) \<Longrightarrow> ac_risk (snd e) \<le> rk_risk f"
proof -
  from assms obtain fs where fs: "rankContributingFactors (Some j) = f # fs"
    by (auto simp: head_option_def split: list.splits)
  have set: "set (f # fs) = ranked_factor ` set (rj_agentContributions j)"
    using arg_cong[OF rankContributingFactors_mset, of set_mset j] by (simp add: fs)
  then show "\<exists>e\<in>set (rj_agentContributions j). f = ranked_factor e" by auto
  have "\<forall>g\<in>set fs. rk_risk g \<le> rk_risk f" using rankContributingFactors_sorted[of "Some j"] by (simp add: fs)
  moreover assume "e \<in> set (rj_agentContributions j)"
  then have "ranked_factor e \<in> set (f # fs)" unfolding set by (rule imageI)
  ultimately have "rk_risk (ranked_factor e) \<le> rk_risk f" by auto
  then show "ac_risk (snd e) \<le> rk_risk f" by (simp add: ranked_factor_def)
qed

text \<open>The top factor is an agent of the tick whose risk no other agent exceeds.\<close>

definition highest_risk_agent :: "(string \<times> AgentContribution) list \<Rightarrow> string option \<Rightarrow> bool" where
  "highest_risk_agent entries topAgent =
     (case topAgent of
        None \<Rightarrow> entries = []
      | Some n \<Rightarrow> (case map_of entries n of None \<Rightarrow> False | Some c \<Rightarrow> list_all (\<lambda>e. ac_risk (snd e) \<le> ac_risk c) entries))"

lemma topFactor_highest:
  assumes "distinct (map fst (agentEntries justification))"
  shows "highest_risk_agent (agentEntries justification) (topFactorAgentName justification)"
proof (cases justification)
  case None
  then show ?thesis
    by (simp add: highest_risk_agent_def agentEntries_def topFactorAgentName_def rankContributingFactors_def head_option_def)
next
  case (Some j)
  show ?thesis
  proof (cases "head_option (rankContributingFactors (Some j))")
    case None
    then have "mset (rankContributingFactors (Some j)) = {#}" by (simp add: head_option_def split: list.splits)
    then have "rj_agentContributions j = []" by (simp add: rankContributingFactors_mset)
    then show ?thesis using None Some by (simp add: highest_risk_agent_def agentEntries_def topFactorAgentName_def)
  next
    case (Some f)
    note head = ranked_head[OF this]
    from head(1) obtain e where e: "e \<in> set (rj_agentContributions j)" "f = ranked_factor e" by blast
    have "map_of (rj_agentContributions j) (fst e) = Some (snd e)"
      using assms e(1) \<open>justification = Some j\<close> by (simp add: agentEntries_def)
    then show ?thesis using Some head(2) e(2) \<open>justification = Some j\<close>
      by (auto simp: highest_risk_agent_def agentEntries_def topFactorAgentName_def ranked_factor_def list_all_iff)
  qed
qed

lemma top_drawn:
  assumes "distinct (map fst (agentEntries justification))" and "topFactorAgentName justification = Some n"
  shows "n \<in> fst ` set (agentEntries justification)"
  using topFactor_highest[OF assms(1)] assms(2)
  by (auto simp: highest_risk_agent_def split: option.splits intro: rev_image_eqI dest: map_of_SomeD)

lemma path_drawn:
  assumes "distinct (map fst (agentEntries justification))"
  shows "subseq (influencePath justification) (drawn_stages justification)"
proof -
  have "subseq (case truthy (topFactorAgentName justification) of Some n \<Rightarrow> [agent_stage_id n] | None \<Rightarrow> [])
      (map fst (agent_stages justification))"
  proof (cases "truthy (topFactorAgentName justification)")
    case (Some n)
    then have "topFactorAgentName justification = Some n" by (simp add: truthy_def split: if_splits)
    from top_drawn[OF assms this] have "agent_stage_id n \<in> set (map fst (agent_stages justification))"
      by (auto simp: agent_stages_ids)
    then show ?thesis using Some by (simp add: subseq_singleton_left)
  qed simp
  then show ?thesis unfolding influencePath_def drawn_stages_def by (intro list_emb_append_mono) simp_all
qed

lemma path_agents:
  "filter (prefix ''agent_'') (influencePath justification) =
     (case topFactorAgentName justification of None \<Rightarrow> [] | Some n \<Rightarrow> if n = [] then [] else [agent_stage_id n])"
  by (simp add: influencePath_def truthy_def agent_stage_id_def split: option.split)

lemma path_fixed:
  "filter (\<lambda>i. \<not> prefix ''agent_'' i) (influencePath justification) =
     [''sensors'', ''context_builders'', ''fusion'', ''tiering'', ''recommendations'']"
  by (simp add: influencePath_def agent_stage_id_def split: option.split)

lemma overlay_marks:
  "str_includes (overlayClassFor justification True (agent_stage_id n)) ''pipeline-stage-escalation-source''
     \<longleftrightarrow> topFactorAgentName justification = Some n"
proof -
  have "prefix ''agent_'' (agent_stage_id n)" "drop 6 (agent_stage_id n) = n" by (simp_all add: agent_stage_id_def)
  moreover have "str_includes (js_join '' '' [''pipeline-stage-ignored-by-threshold'']) ''pipeline-stage-escalation-source'' = False"
    "str_includes (js_join '' '' []) ''pipeline-stage-escalation-source'' = False"
    "str_includes (js_join '' '' [''pipeline-stage-escalation-source'']) ''pipeline-stage-escalation-source'' = True"
    "str_includes (js_join '' '' [''pipeline-stage-ignored-by-threshold'', ''pipeline-stage-escalation-source''])
       ''pipeline-stage-escalation-source'' = True"
    by code_simp+
  ultimately show ?thesis by (auto simp: overlayClassFor_def Let_def)
qed

lemma overlay_fixed:
  "i \<in> set [''sensors'', ''context_builders'', ''fusion'', ''tiering'', ''explainability'', ''recommendations''] \<Longrightarrow>
   \<not> str_includes (overlayClassFor justification True i) ''pipeline-stage-escalation-source''"
  by (auto simp: overlayClassFor_def)

lemma details_agents:
  "distinct (map fst entries) \<Longrightarrow>
   map_of (foldl (\<lambda>details nc. amap_set (agent_stage_id (fst nc)) (agent_detail a justification nc) details) base entries) i =
     (case List.find (\<lambda>nc. agent_stage_id (fst nc) = i) entries of
        Some nc \<Rightarrow> Some (agent_detail a justification nc)
      | None \<Rightarrow> map_of base i)"
proof (induction entries arbitrary: base)
  case (Cons e es)
  show ?case
  proof (cases "agent_stage_id (fst e) = i")
    case True
    with Cons.prems have "List.find (\<lambda>nc. agent_stage_id (fst nc) = i) es = None"
      by (auto simp: find_None_iff intro: rev_image_eqI)
    with Cons True show ?thesis by simp
  next
    case False
    with Cons show ?thesis by (auto split: option.split)
  qed
qed simp

lemma stage_details_drawn:
  assumes "distinct (map fst (agentEntries justification))" and "i \<in> set (drawn_stages justification)"
  shows "map_of (stage_details a justification) i = None \<longleftrightarrow> agentEntries justification = [] \<and> i = ''agent_unknown''"
proof (cases "\<exists>nc\<in>set (agentEntries justification). agent_stage_id (fst nc) = i")
  case True
  then show ?thesis
    unfolding stage_details_def details_agents[OF assms(1)] by (auto simp: find_None_iff split: option.split)
next
  case False
  then have "map_of (stage_details a justification) i = map_of (fixed_details a justification) i"
    unfolding stage_details_def details_agents[OF assms(1)] by (auto simp: find_Some_iff split: option.split)
  with False assms(2) show ?thesis by (auto simp: drawn_stages_def agent_stages_ids fixed_details_def split: if_splits)
qed

lemma stage_details_timestamp:
  "detail \<in> snd ` set (stage_details a justification) \<Longrightarrow> sdt_sourceTimestamp detail = ra_timestamp a"
proof -
  have set: "snd ` set (amap_set k v m) \<subseteq> insert v (snd ` set m)" for k :: string and v :: StageDetail and m
    by (induction k v m rule: amap_set.induct) auto
  have "snd ` set (foldl (\<lambda>details nc. amap_set (agent_stage_id (fst nc)) (agent_detail a justification nc) details) base es)
      \<subseteq> snd ` set base \<union> range (agent_detail a justification)" for base es
  proof (induction es arbitrary: base)
    case (Cons e es)
    let ?b = "amap_set (agent_stage_id (fst e)) (agent_detail a justification e) base"
    have "snd ` set ?b \<union> range (agent_detail a justification) \<subseteq> snd ` set base \<union> range (agent_detail a justification)"
      using set[of "agent_stage_id (fst e)" "agent_detail a justification e" base] by blast
    from order_trans[OF Cons.IH[of ?b] this] show ?case by simp
  qed simp
  moreover assume "detail \<in> snd ` set (stage_details a justification)"
  ultimately have "detail \<in> snd ` set (fixed_details a justification) \<union> range (agent_detail a justification)"
    unfolding stage_details_def by blast
  then show ?thesis by (auto simp: fixed_details_def plain_detail_def agent_detail_def)
qed

lemma offered_Stage [simp]: "offered (Stage justification d i label) = {Toggle_Stage i}"
  by (simp add: Stage_def)

lemma offered_diagram:
  "offered (PipelineDiagram ft a justification d) =
     range Set_Overlay \<union> (if dg_tracingPath d then {} else {Start_Trace}) \<union> Toggle_Stage ` set (drawn_stages justification)"
proof -
  have "offers (cond_some (activeDetail a justification d) (\<lambda>detail. [detail_view ft detail])) = {}"
    by (auto simp: cond_some_def detail_view_def detail_line_def strong_def split: option.split)
  moreover have "offers (map (\<lambda>(i, label). Stage justification d i label) xs) = Toggle_Stage ` set (map fst xs)" for xs
    by (induction xs) auto
  ultimately show ?thesis
    by (auto simp: PipelineDiagram_def Let_def arrow_node_def drawn_stages_def)
qed

subsection \<open>The diagram as a page\<close>

abbreviation diagram_view :: "(string \<Rightarrow> string) \<Rightarrow> RiskAssessment \<Rightarrow> diagram \<Rightarrow> diagram_event node list" where
  "diagram_view ft a \<equiv> \<lambda>d. [PipelineDiagram ft a (parseJustification (ra_justification a)) d]"

definition diagram_inv :: "RiskJustification option \<Rightarrow> diagram \<Rightarrow> bool" where
  "diagram_inv justification d \<longleftrightarrow> (case dg_selected d of None \<Rightarrow> True | Some i \<Rightarrow> i \<in> set (drawn_stages justification))"

interpretation diagram_ui: ui_app diagram_start "diagram_view ft a" diagram_update diagram_env
  "diagram_inv (parseJustification (ra_justification a))" for ft a
  by unfold_locales
    (auto simp: diagram_inv_def diagram_start_def diagram_update_def diagram_env_def offered_diagram split: if_splits option.splits)

subsection \<open>Properties\<close>

text \<open>
  (C26) The diagram tells one story about a tick: its stages are all different, and the influence path runs through drawn stages
  from left to right. It passes all the fixed stages but explainability, and exactly one agent: the one whose risk is the highest,
  which the overlay marks as the source of the escalation, and it marks no other stage. A tick without agents has a path
  without agents; an agent with the empty name, marked but falsy for the path, is the only one the path leaves out.
\<close>

theorem influence_path_correct:
  "(let justification = parseJustification (ra_justification a); topAgent = topFactorAgentName justification;
        marked = (\<lambda>i. str_includes (overlayClassFor justification True i) ''pipeline-stage-escalation-source'')
    in distinct (drawn_stages justification) \<and>
       subseq (influencePath justification) (drawn_stages justification) \<and>
       highest_risk_agent (agentEntries justification) topAgent \<and>
       filter marked (drawn_stages justification) = map agent_stage_id (case topAgent of None \<Rightarrow> [] | Some n \<Rightarrow> [n]) \<and>
       filter (prefix ''agent_'') (influencePath justification) =
         filter (\<lambda>i. marked i \<and> i \<noteq> ''agent_'') (drawn_stages justification) \<and>
       filter (\<lambda>i. \<not> prefix ''agent_'' i) (influencePath justification) =
         [''sensors'', ''context_builders'', ''fusion'', ''tiering'', ''recommendations''])"
proof -
  define j where "j = parseJustification (ra_justification a)"
  have dist: "distinct (map fst (agentEntries j))" unfolding j_def by (rule agentEntries_distinct)
  let ?mark = "\<lambda>i. str_includes (overlayClassFor j True i) ''pipeline-stage-escalation-source''"
  have "filter ?mark (map fst (agent_stages j)) = map agent_stage_id (case topFactorAgentName j of None \<Rightarrow> [] | Some n \<Rightarrow> [n])"
  proof (cases "agentEntries j = []")
    case True
    moreover have "\<not> ?mark ''agent_unknown''" using overlay_marks[of j "''unknown''"] topFactor_highest[OF dist] True
      by (auto simp: agent_stage_id_def highest_risk_agent_def split: option.splits)
    ultimately show ?thesis using topFactor_highest[OF dist]
      by (simp add: agent_stages_ids highest_risk_agent_def split: option.splits)
  next
    case False
    then have ids: "map fst (agent_stages j) = map agent_stage_id (map fst (agentEntries j))" by (simp add: agent_stages_ids)
    show ?thesis
    proof (cases "topFactorAgentName j")
      case None
      then show ?thesis unfolding ids by (simp add: filter_map o_def overlay_marks)
    next
      case (Some n)
      have "?mark \<circ> agent_stage_id = (\<lambda>k. k = n)" by (auto simp: overlay_marks Some)
      then show ?thesis
        unfolding ids filter_map[of ?mark agent_stage_id] by (simp only: filter_key_singleton[OF dist top_drawn[OF dist Some]] Some option.case)
    qed
  qed
  then have marks: "filter ?mark (drawn_stages j) = map agent_stage_id (case topFactorAgentName j of None \<Rightarrow> [] | Some n \<Rightarrow> [n])"
    by (simp add: drawn_stages_def overlay_fixed)
  have "filter (\<lambda>i. ?mark i \<and> i \<noteq> ''agent_'') (drawn_stages j) = filter (\<lambda>i. i \<noteq> ''agent_'') (filter ?mark (drawn_stages j))"
    by (simp add: conj_commute)
  then have "filter (prefix ''agent_'') (influencePath j) = filter (\<lambda>i. ?mark i \<and> i \<noteq> ''agent_'') (drawn_stages j)"
    unfolding marks by (simp add: path_agents agent_stage_id_def split: option.split)
  then show ?thesis
    using drawn_distinct[OF dist] path_drawn[OF dist] topFactor_highest[OF dist] marks
    by (simp add: Let_def j_def path_fixed)
qed

text \<open>
  Whatever the user clicks, the selected stage is one that is drawn, and its details are shown: only the placeholder
  for a tick without agents has none. All details are those of the tick on display.
\<close>

theorem diagram_details_shown:
  "(let justification = parseJustification (ra_justification a);
        d = foldl (app_step (diagram_view ft a) diagram_update diagram_env) diagram_start inputs
    in case dg_selected d of
         None \<Rightarrow> activeDetail a justification d = None
       | Some i \<Rightarrow>
           i \<in> set (drawn_stages justification) \<and>
           (case activeDetail a justification d of
              None \<Rightarrow> agentEntries justification = [] \<and> i = ''agent_unknown''
            | Some detail \<Rightarrow> sdt_sourceTimestamp detail = ra_timestamp a))"
proof -
  define j where "j = parseJustification (ra_justification a)"
  define d where "d = foldl (app_step (diagram_view ft a) diagram_update diagram_env) diagram_start inputs"
  have inv: "diagram_inv j d" unfolding j_def d_def by (rule diagram_ui.inv_reachable)
  have dist: "distinct (map fst (agentEntries j))" unfolding j_def by (rule agentEntries_distinct)
  have "case dg_selected d of
         None \<Rightarrow> activeDetail a j d = None
       | Some i \<Rightarrow> i \<in> set (drawn_stages j) \<and>
           (case activeDetail a j d of
              None \<Rightarrow> agentEntries j = [] \<and> i = ''agent_unknown''
            | Some detail \<Rightarrow> sdt_sourceTimestamp detail = ra_timestamp a)"
  proof (cases "dg_selected d")
    case (Some i)
    with inv have i: "i \<in> set (drawn_stages j)" by (simp add: diagram_inv_def)
    then have "i \<noteq> []" by (auto simp: drawn_stages_def agent_stages_ids agent_stage_id_def split: if_splits)
    then have "activeDetail a j d = map_of (stage_details a j) i" by (simp add: activeDetail_def Some truthy_def)
    moreover have "sdt_sourceTimestamp detail = ra_timestamp a" if "map_of (stage_details a j) i = Some detail" for detail
      using map_of_SomeD[OF that] by (intro stage_details_timestamp[of _ a j]) (rule rev_image_eqI, auto)
    ultimately show ?thesis using Some i stage_details_drawn[OF dist i, of a] by (auto split: option.split)
  qed (simp add: activeDetail_def truthy_def)
  then show ?thesis unfolding Let_def j_def d_def .
qed

text \<open>
  A trace can be started when none is running, and only then; its button says so. Every stage of the path begins its animation
  at least a second before the timer ends the trace, one after the other, and the end makes the button available again.
\<close>

theorem trace_ends:
  "(let justification = parseJustification (ra_justification a); view = diagram_view ft a;
        s = diagram_update Start_Trace d
    in (if dg_tracingPath d then Start_Trace \<notin> offers (view d)
        else press (Click ''Trace influence path'' 0) (view d) = Some Start_Trace) \<and>
       Start_Trace \<notin> offers (view s) \<and> Start_Trace \<in> offers (view (diagram_env Trace_Timeout s)) \<and>
       sorted_wrt (<) (map trace_delay [0..<length (influencePath justification)]) \<and>
       list_all (\<lambda>k. trace_delay k + 1000 \<le> trace_duration justification) [0..<length (influencePath justification)])"
proof -
  define j where "j = parseJustification (ra_justification a)"
  have "press (Click ''Trace influence path'' 0) [PipelineDiagram ft a j d] = Some Start_Trace" if "\<not> dg_tracingPath d"
    using that by (simp add: press_def PipelineDiagram_def Let_def)
  moreover have "sorted_wrt (<) (map trace_delay [0..<n])" for n
    by (simp add: sorted_wrt_map trace_delay_def sorted_wrt_iff_nth_less)
  moreover have "list_all (\<lambda>k. trace_delay k + 1000 \<le> trace_duration j) [0..<length (influencePath j)]"
    by (auto simp: list_all_iff trace_delay_def trace_duration_def)
  ultimately show ?thesis
    by (simp add: Let_def j_def[symmetric] offered_diagram diagram_update_def diagram_env_def) auto
qed

end
