(* ===== verification/Workspace_Page.thy ===== *)
theory Workspace_Page
  imports Panels Report_Page Approval
begin

section \<open>The decision workspace\<close>

text \<open>
  \<open>pages/DecisionWorkspacePage.tsx\<close>: one assessment worked through in eleven stages, from the situation to the export. The
  page's state is the stage in the address (\<open>?stage=\<close>), the note being typed, the deck selected in the panel that is
  mounted, the browser's session storage and the files exported; the data of its queries arrive as events of the
  environment. The page runs in the interaction model of \<open>Ui\<close>. Host values (\<open>formatTimestamp\<close>, the current time, the
  host's time zone) are arguments or part of the environment.

  The properties follow an operator: the stepper reaches every stage from everywhere, an acknowledgment given with a note
  is in the exported summary and can be undone, and nothing a user can do on the page touches the acknowledgment
  of another assessment.
\<close>

subsection \<open>State\<close>

text \<open>
  What the page's queries have delivered. The queries of the historical and the forecast panel depend on the deck that is
  selected there, and the replay comparison on a scenario.
\<close>

record workspace_data =
  wd_assessment :: "RiskAssessment query"
  wd_zones :: "Zone list option"
  wd_scenarios :: "ScenarioSummary list option"
  wd_historicalMatches :: "IncidentMatch list option"
  wd_riskHistory :: "RiskAssessment list option"
  wd_foresight :: "ForesightResult option"
  wd_workerCount :: "ZoneWorkerCount option"
  wd_equipment :: "EquipmentInfo list option"
  wd_activePermits :: "Permit list option"
  wd_matchesFor :: "string option \<Rightarrow> IncidentMatch list query"
  wd_foresightFor :: "string option \<Rightarrow> ForesightResult query"
  wd_analyticsFor :: "string option \<Rightarrow> CrossScenarioAnalytics query"
  wd_replayFor :: "string \<Rightarrow> ReplayData query"
  wd_decks :: "HistoricalDeck list query"

record workspace =
  wk_assessmentId :: string
  wk_stageParam :: "string option"
  wk_ackNote :: string
  wk_selectedDeckKey :: "string option"
  wk_storage :: storage
  wk_exported :: "(DecisionReportData \<times> string) list"
  wk_data :: workspace_data
  wk_now :: string

datatype workspace_event =
    Set_Stage WorkspaceStageId
  | Set_AckNote string
  | Acknowledge
  | Undo_Acknowledge
  | Export_Pdf
  | Refetch_Assessment
  | In_Panel panel_event

subsection \<open>Derived values\<close>

definition activeStage :: "workspace \<Rightarrow> WorkspaceStageId" where
  "activeStage s =
     (case List.find (\<lambda>stage. Some (stage_id_name (ws_id stage)) = wk_stageParam s) WORKSPACE_STAGES of
        Some stage \<Rightarrow> if isWorkspaceStageId (wk_stageParam s) then ws_id stage else DEFAULT_WORKSPACE_STAGE
      | None \<Rightarrow> DEFAULT_WORKSPACE_STAGE)"

definition workspace_assessment :: "workspace \<Rightarrow> RiskAssessment option" where
  "workspace_assessment s = q_data (wd_assessment (wk_data s))"

definition assessment_justification :: "RiskAssessment \<Rightarrow> RiskJustification option" where
  "assessment_justification a = parseJustification (ra_justification a)"

definition assessment_recommendations :: "RiskAssessment \<Rightarrow> Recommendation list" where
  "assessment_recommendations a = deriveRecommendations (ra_tier a) (assessment_justification a)"

definition topAction :: "RiskAssessment \<Rightarrow> PrioritizedAction option" where
  "topAction a = head_option (buildActionQueue (assessment_recommendations a) (assessment_justification a))"

definition workspace_bestMatch :: "workspace_data \<Rightarrow> IncidentMatch option" where
  "workspace_bestMatch d = Option.bind (wd_historicalMatches d) head_option"

definition workspace_scenarioKey :: "host_zone \<Rightarrow> workspace_data \<Rightarrow> RiskAssessment \<Rightarrow> string option" where
  "workspace_scenarioKey hz d a = resolveScenarioKey hz (wd_scenarios d) (Some (ra_zone_id a)) (Some (ra_timestamp a))"

definition currentTimeline :: "workspace_data \<Rightarrow> RiskAssessment list" where
  "currentTimeline d = rev (case wd_riskHistory d of Some items \<Rightarrow> items | None \<Rightarrow> [])"

definition workspace_stability :: "workspace_data \<Rightarrow> RiskAssessment \<Rightarrow> RecommendationStability" where
  "workspace_stability d a =
     buildRecommendationStability (case wd_riskHistory d of Some items \<Rightarrow> items | None \<Rightarrow> [])
       (buildConfidenceBreakdown a (assessment_justification a) (workspace_bestMatch d) (wd_foresight d))"

definition workspace_acknowledgment :: "workspace \<Rightarrow> RiskAssessment \<Rightarrow> DecisionAcknowledgment option" where
  "workspace_acknowledgment s a = getLocalAcknowledgment (wk_storage s) (ra_assessment_id a)"

subsection \<open>The exported summary\<close>

definition workspace_sections :: "(string \<Rightarrow> string) \<Rightarrow> workspace \<Rightarrow> RiskAssessment \<Rightarrow> DecisionReportSection list" where
  "workspace_sections ft s a =
     (let justification = assessment_justification a; bestMatch = workspace_bestMatch (wk_data s)
      in [\<lparr>rs_heading = ''Situation'',
           rs_lines =
             [''Zone: '' @ zoneLabel (ra_zone_id a) (wd_zones (wk_data s)), ''Timestamp: '' @ ft (ra_timestamp a),
              ''Tier: '' @ toUpperCase (ra_tier a) @ '' ('' @ toFixed (ra_compound_risk_score a) 1 @ '')'',
              businessStoryLine a justification]\<rparr>,
          \<lparr>rs_heading = ''Understand'', rs_lines = [generateExecutiveExplanation a justification (assessment_recommendations a)]\<rparr>,
          \<lparr>rs_heading = ''Historical Context'',
           rs_lines =
             (case bestMatch of
                Some m \<Rightarrow> [im_incident_name m @ '' - similarity '' @ percent0 (im_similarity m)]
              | None \<Rightarrow> [''No similar historical incidents found.''])\<rparr>,
          \<lparr>rs_heading = ''Business Impact'',
           rs_lines =
             (case bestMatch of
                Some m \<Rightarrow> [im_business_impact m, im_operational_impact m, im_safety_impact m]
              | None \<Rightarrow> [''No comparable historical incident to estimate business impact from.''])\<rparr>,
          \<lparr>rs_heading = ''Recommended Action'',
           rs_lines =
             (case topAction a of
                Some act \<Rightarrow> [''['' @ impact_name (pa_impactLevel act) @ ''] '' @ rc_text act, ''ETA: '' @ ap_eta (pa_metadata act)]
              | None \<Rightarrow> [''No recommended action for this assessment.''])\<rparr>,
          \<lparr>rs_heading = ''Approval'',
           rs_lines =
             (case workspace_acknowledgment s a of
                Some ack \<Rightarrow>
                  [''Acknowledged locally at '' @ ft (da_acknowledgedAtIso ack),
                   if da_note ack \<noteq> [] then da_note ack else ''(no note)'']
              | None \<Rightarrow> [''Not yet acknowledged.''])\<rparr>])"

definition workspace_export :: "(string \<Rightarrow> string) \<Rightarrow> workspace \<Rightarrow> RiskAssessment \<Rightarrow> DecisionReportData \<times> string" where
  "workspace_export ft s a =
     (\<lparr>dr_title = ''Decision Workspace Summary'',
       dr_subtitle = zoneLabel (ra_zone_id a) (wd_zones (wk_data s)) @ '' - '' @ ft (ra_timestamp a),
       dr_generatedAt = wk_now s, dr_sections = workspace_sections ft s a\<rparr>,
      ''decision-workspace-'' @ ra_assessment_id a @ ''.pdf'')"

subsection \<open>Handlers\<close>

text \<open>
  The panel with a state of its own that is mounted: it starts with no deck selected whenever it is mounted anew.
\<close>

definition mounted_panel :: "host_zone \<Rightarrow> workspace \<Rightarrow> WorkspaceStageId option" where
  "mounted_panel hz s =
     (let q = wd_assessment (wk_data s)
      in if q_isLoading q \<or> q_error q \<noteq> None then None
         else Option.bind (q_data q) (\<lambda>a.
           if activeStage s = Historical \<and> ra_zone_id a \<noteq> [] then Some Historical
           else if activeStage s = Forecast \<and> truthy (workspace_scenarioKey hz (wk_data s) a) \<noteq> None then Some Forecast
           else None))"

definition remount :: "host_zone \<Rightarrow> workspace \<Rightarrow> workspace \<Rightarrow> workspace" where
  "remount hz old s = (if mounted_panel hz s = mounted_panel hz old then s else s\<lparr>wk_selectedDeckKey := None\<rparr>)"

definition setStage :: "host_zone \<Rightarrow> WorkspaceStageId \<Rightarrow> workspace \<Rightarrow> workspace" where
  "setStage hz stage s = remount hz s (s\<lparr>wk_stageParam := Some (stage_id_name stage)\<rparr>)"

definition handleAcknowledge :: "workspace \<Rightarrow> workspace" where
  "handleAcknowledge s =
     (case workspace_assessment s of
        None \<Rightarrow> s
      | Some a \<Rightarrow> s\<lparr>wk_storage := snd (setLocalAcknowledgment (ra_assessment_id a) (wk_ackNote s) (wk_now s) (wk_storage s))\<rparr>)"

definition handleUndoAcknowledge :: "workspace \<Rightarrow> workspace" where
  "handleUndoAcknowledge s =
     (case workspace_assessment s of
        None \<Rightarrow> s
      | Some a \<Rightarrow> s\<lparr>wk_storage := clearLocalAcknowledgment (ra_assessment_id a) (wk_storage s)\<rparr>)"

definition workspace_handleExportPdf :: "(string \<Rightarrow> string) \<Rightarrow> workspace \<Rightarrow> workspace" where
  "workspace_handleExportPdf ft s =
     (case workspace_assessment s of
        None \<Rightarrow> s
      | Some a \<Rightarrow> s\<lparr>wk_exported := wk_exported s @ [workspace_export ft s a]\<rparr>)"

text \<open>Refetching asks the query cache; what it answers arrives as data.\<close>

definition workspace_update :: "host_zone \<Rightarrow> (string \<Rightarrow> string) \<Rightarrow> workspace_event \<Rightarrow> workspace \<Rightarrow> workspace" where
  "workspace_update hz ft e s =
     (case e of
        Set_Stage stage \<Rightarrow> setStage hz stage s
      | Set_AckNote note \<Rightarrow> s\<lparr>wk_ackNote := note\<rparr>
      | Acknowledge \<Rightarrow> handleAcknowledge s
      | Undo_Acknowledge \<Rightarrow> handleUndoAcknowledge s
      | Export_Pdf \<Rightarrow> workspace_handleExportPdf ft s
      | Refetch_Assessment \<Rightarrow> s
      | In_Panel (Select_Deck key) \<Rightarrow> s\<lparr>wk_selectedDeckKey := key\<rparr>
      | In_Panel _ \<Rightarrow> s)"

datatype workspace_input = Data_Arrived workspace_data | Clock string | Address "string option"

definition workspace_env :: "host_zone \<Rightarrow> workspace_input \<Rightarrow> workspace \<Rightarrow> workspace" where
  "workspace_env hz x s =
     (case x of
        Data_Arrived d \<Rightarrow> remount hz s (s\<lparr>wk_data := d\<rparr>)
      | Clock now \<Rightarrow> s\<lparr>wk_now := now\<rparr>
      | Address stage \<Rightarrow> remount hz s (s\<lparr>wk_stageParam := stage\<rparr>))"

text \<open>The page opens with every query still loading and an empty note.\<close>

definition loading_query :: "'a query" where
  "loading_query = \<lparr>q_data = None, q_isLoading = True, q_error = None\<rparr>"

definition workspace_loading :: workspace_data where
  "workspace_loading =
     \<lparr>wd_assessment = loading_query, wd_zones = None, wd_scenarios = None, wd_historicalMatches = None, wd_riskHistory = None,
      wd_foresight = None, wd_workerCount = None, wd_equipment = None, wd_activePermits = None,
      wd_matchesFor = (\<lambda>deck. loading_query), wd_foresightFor = (\<lambda>deck. loading_query),
      wd_analyticsFor = (\<lambda>deck. loading_query), wd_replayFor = (\<lambda>key. loading_query), wd_decks = loading_query\<rparr>"

definition workspace_start :: "string \<Rightarrow> string option \<Rightarrow> storage \<Rightarrow> string \<Rightarrow> workspace" where
  "workspace_start assessmentId stage st now =
     \<lparr>wk_assessmentId = assessmentId, wk_stageParam = stage, wk_ackNote = [], wk_selectedDeckKey = None, wk_storage = st,
      wk_exported = [], wk_data = workspace_loading, wk_now = now\<rparr>"

subsection \<open>The page\<close>

definition situation_view :: "workspace \<Rightarrow> RiskAssessment \<Rightarrow> workspace_event node list" where
  "situation_view s a =
     [el ''h3'' [Text ''Situation''], p_text (businessStoryLine a (assessment_justification a)),
      el ''p'' [Text (zoneLabel (ra_zone_id a) (wd_zones (wk_data s)) @ '' is currently at''), Text '' '', TierBadge (ra_tier a),
        Text ('' ('' @ toFixed (ra_compound_risk_score a) 1 @ ''), confidence '' @ percent0 (ra_confidence a) @ ''.'')]]"

definition understand_view :: "(string \<Rightarrow> string) \<Rightarrow> workspace \<Rightarrow> RiskAssessment \<Rightarrow> workspace_event node list" where
  "understand_view ft s a =
     [el ''h3'' [Text ''Understand''],
      p_text (generateExecutiveExplanation a (assessment_justification a) (assessment_recommendations a))]
     @ cond_some (assessment_justification a) (\<lambda>j.
         [el ''p'' [TierBadge (rj_tierBefore j), Text ('' '' @ utf8_arrow), Text '' '', TierBadge (rj_tierAfter j)]])
     @ [el ''h4'' [Text ''Decision Stability''], DecisionStabilityPanel (workspace_stability (wk_data s) a),
        el ''h4'' [Text ''Operational Narrative''],
        OperationalNarrativeTimeline ft (buildOperationalNarrative (currentTimeline (wk_data s)))]"

definition evidence_view :: "RiskAssessment \<Rightarrow> workspace_event node list" where
  "evidence_view a =
     el ''h3'' [Text ''Evidence'']
     # (case assessment_justification a of
          Some j \<Rightarrow>
            [AgentContributionChart (rj_agentContributions j) (Some j), el ''h4'' [Text ''Rules fired''],
             RulesFiredList (rj_rulesFired j)]
        | None \<Rightarrow> [p_text ''No structured justification available for this tick.''])"

definition historical_view :: "(string \<Rightarrow> string) \<Rightarrow> workspace \<Rightarrow> RiskAssessment \<Rightarrow> workspace_event node list" where
  "historical_view ft s a =
     (let d = wk_data s; deck = wk_selectedDeckKey s; matches = wd_matchesFor d deck
      in cond (ra_zone_id a \<noteq> [])
           [el ''h3'' [Text ''Historical Context''],
            map_node In_Panel (HistoricalIntelligencePanel ft deck matches (wd_decks d)
              (wd_replayFor d (case q_data matches of Some (m # _) \<Rightarrow> im_scenario_key m | _ \<Rightarrow> []))
              (wd_analyticsFor d deck) (currentTimeline d)),
            el ''p'' [Link ''/replay-comparison'' [Text (''Compare side by side in Replay Comparison '' @ utf8_arrow)]]])"

definition forecast_view :: "host_zone \<Rightarrow> (string \<Rightarrow> string) \<Rightarrow> workspace \<Rightarrow> RiskAssessment \<Rightarrow> workspace_event node list" where
  "forecast_view hz ft s a =
     (let d = wk_data s
      in [el ''h3'' [Text ''Forecast''],
          (case truthy (workspace_scenarioKey hz d a) of
             Some key \<Rightarrow>
               map_node In_Panel (OperationalForesightPanel hz ft (wk_selectedDeckKey s) (wd_foresightFor d (wk_selectedDeckKey s)) (wd_decks d) (currentTimeline d))
           | None \<Rightarrow> p_text ''Forecast requires a cataloged scenario context - not available for this assessment.'')])"

definition business_impact_view :: "workspace \<Rightarrow> workspace_event node list" where
  "business_impact_view s =
     (let d = wk_data s
      in [el ''h3'' [Text ''Business Impact''],
          (case workspace_bestMatch d of
             Some m \<Rightarrow>
               el ''dl'' (definition_entry ''Business impact'' (im_business_impact m)
                 @ definition_entry ''Operational impact'' (im_operational_impact m)
                 @ definition_entry ''Safety impact'' (im_safety_impact m))
           | None \<Rightarrow> p_text ''No comparable historical incident to estimate business impact from.''),
          el ''h4'' [Text ''Digital Twin snapshot''],
          p_text (''Workers present: '' @ (case wd_workerCount d of Some w \<Rightarrow> num_toString (zw_worker_count w) | None \<Rightarrow> ''unknown'')),
          p_text (''Equipment items: '' @ show_nat (case wd_equipment d of Some e \<Rightarrow> length e | None \<Rightarrow> 0)),
          p_text (''Active work authorizations: '' @ show_nat (case wd_activePermits d of Some ps \<Rightarrow> length ps | None \<Rightarrow> 0))])"

definition options_view :: "RiskAssessment \<Rightarrow> workspace_event node list" where
  "options_view a = [el ''h3'' [Text ''Available Options''], RecommendationList (assessment_recommendations a)]"

definition top_action_view :: "PrioritizedAction \<Rightarrow> workspace_event node" where
  "top_action_view act =
     (let standards = standardsForRecommendation (rc_id act)
      in el ''div''
           ([p_text (rc_text act),
             el ''dl''
               (definition_entry ''Impact'' (impact_name (pa_impactLevel act)) @ definition_entry ''ETA'' (ap_eta (pa_metadata act))
                @ definition_entry ''Required personnel'' (ap_requiredPersonnel (pa_metadata act))
                @ definition_entry ''Required equipment''
                    (case ap_requiredEquipment (pa_metadata act) of Some e \<Rightarrow> e | None \<Rightarrow> ''None'')
                @ cond (length (pa_dependencyLabels act) > 0)
                    (definition_entry ''Depends on'' (js_join '', '' (pa_dependencyLabels act))))]
            @ cond (length standards > 0)
                [p_text (''Aligns with '' @ show_nat (length standards)
                   @ '' supporting standard(s) - see Available Options for detail.'')]))"

definition recommended_action_view :: "RiskAssessment \<Rightarrow> workspace_event node list" where
  "recommended_action_view a =
     [el ''h3'' [Text ''Recommended Action''],
      (case topAction a of
         Some act \<Rightarrow> top_action_view act
       | None \<Rightarrow> p_text ''No recommended action - continue normal operations.'')]"

definition approval_view :: "(string \<Rightarrow> string) \<Rightarrow> workspace \<Rightarrow> RiskAssessment \<Rightarrow> workspace_event node list" where
  "approval_view ft s a =
     [el ''h3'' [Text ''Approval''],
      p_text ''Acknowledged locally in this browser session only - not written to the persistent audit trail.'',
      (case workspace_acknowledgment s a of
         Some ack \<Rightarrow>
           el ''div''
             [el ''p'' (Text (''Acknowledged at '' @ ft (da_acknowledgedAtIso ack))
                # cond (da_note ack \<noteq> []) [Text ('' '' @ utf8_middot @ '' '' @ utf8_ldquo @ da_note ack @ utf8_rdquo)]),
              Button [] True Undo_Acknowledge [Text ''Undo acknowledgment'']]
       | None \<Rightarrow>
           el ''div''
             [el ''label'' [Text ''Note (optional)''], Field ''ack-note'' (wk_ackNote s) Set_AckNote,
              Button [] True Acknowledge [Text ''Mark as reviewed'']])]"

definition monitoring_view :: "workspace \<Rightarrow> RiskAssessment \<Rightarrow> workspace_event node list" where
  "monitoring_view s a =
     [el ''h3'' [Text ''Monitoring''],
      (if length (currentTimeline (wk_data s)) > 1
       then MiniSparkline (map ra_compound_risk_score (currentTimeline (wk_data s)))
       else p_text ''Not enough history yet to show a trend.''),
      el ''p'' [Link (''/zones/'' @ ra_zone_id a) [Text (''Open live Zone page '' @ utf8_arrow)], Text '' '', Text utf8_middot, Text '' '',
        Link ''/time-machine'' [Text (''Open Time Machine '' @ utf8_arrow)]]]"

definition export_view :: "RiskAssessment \<Rightarrow> workspace_event node list" where
  "export_view a =
     [el ''h3'' [Text ''Export''], Button [] True Export_Pdf [Text ''Export Decision Workspace Summary (PDF)''],
      el ''p'' [Link (''/decision-report/'' @ ra_assessment_id a) [Text (''Open full Decision Report '' @ utf8_arrow)]]]"

definition stage_view :: "host_zone \<Rightarrow> (string \<Rightarrow> string) \<Rightarrow> workspace \<Rightarrow> RiskAssessment \<Rightarrow> workspace_event node list" where
  "stage_view hz ft s a =
     (case activeStage s of
        Situation \<Rightarrow> situation_view s a
      | Understand \<Rightarrow> understand_view ft s a
      | Evidence \<Rightarrow> evidence_view a
      | Historical \<Rightarrow> historical_view ft s a
      | Forecast \<Rightarrow> forecast_view hz ft s a
      | Business_Impact \<Rightarrow> business_impact_view s
      | Options \<Rightarrow> options_view a
      | Recommended_Action \<Rightarrow> recommended_action_view a
      | WorkspaceStageId.Approval \<Rightarrow> approval_view ft s a
      | Monitoring \<Rightarrow> monitoring_view s a
      | Export \<Rightarrow> export_view a)"

definition stage_button :: "workspace \<Rightarrow> WorkspaceStage \<Rightarrow> workspace_event node" where
  "stage_button s stage =
     Button
       ((''class'', ''decision-workspace-step''
           @ (if activeStage s = ws_id stage then '' decision-workspace-step-active'' else []))
        # (if activeStage s = ws_id stage then [(''aria-current'', ''step'')] else []))
       True (Set_Stage (ws_id stage)) [Text (ws_label stage)]"

definition workspace_body :: "host_zone \<Rightarrow> (string \<Rightarrow> string) \<Rightarrow> workspace \<Rightarrow> RiskAssessment \<Rightarrow> workspace_event node list" where
  "workspace_body hz ft s a =
     [el ''div''
        [strong (zoneLabel (ra_zone_id a) (wd_zones (wk_data s))), Text ('' '' @ utf8_middot), Text '' '', Text (ft (ra_timestamp a)),
         Text ('' '' @ utf8_middot @ '' ''), TierBadge (ra_tier a), Text '' '', Text (toFixed (ra_compound_risk_score a) 1)],
      el ''nav'' (map (stage_button s) WORKSPACE_STAGES),
      el ''div'' (stage_view hz ft s a)]"

definition workspace_view :: "host_zone \<Rightarrow> (string \<Rightarrow> string) \<Rightarrow> workspace \<Rightarrow> workspace_event node list" where
  "workspace_view hz ft s =
     (let q = wd_assessment (wk_data s)
      in [el ''section''
            ([el ''p'' [Link (''/explain/'' @ wk_assessmentId s) [Text (utf8_larr @ '' Explainability'')]],
              el ''h1'' [Text ''Decision Workspace''],
              p_text (''Every stage below is the same data this platform already computes, reorganized into the ''
                @ ''order an operator actually works through it - nothing here is a new reasoning step.'')]
             @ QueryResult (plain_query (q_isLoading q) (q_error q) (q_data q = None) ''Assessment not found.'' Refetch_Assessment)
                 (cond_some (q_data q) (workspace_body hz ft s)))])"

subsection \<open>Stages\<close>

lemma activeStage_of_name [simp]: "activeStage (s\<lparr>wk_stageParam := Some (stage_id_name stage)\<rparr>) = stage"
  by (cases stage) (simp_all add: activeStage_def stage_id_name_def WORKSPACE_STAGES_def isWorkspaceStageId_def)

lemma remount_simps [simp]:
  "wk_stageParam (remount hz old s) = wk_stageParam s" "wk_data (remount hz old s) = wk_data s"
  "wk_storage (remount hz old s) = wk_storage s" "wk_ackNote (remount hz old s) = wk_ackNote s"
  "wk_exported (remount hz old s) = wk_exported s" "wk_now (remount hz old s) = wk_now s"
  "activeStage (remount hz old s) = activeStage s"
  by (simp_all add: remount_def activeStage_def split: option.split)

lemma activeStage_setStage [simp]: "activeStage (setStage hz stage s) = stage"
  by (simp add: setStage_def)

lemma setStage_simps [simp]:
  "wk_data (setStage hz stage s) = wk_data s" "wk_storage (setStage hz stage s) = wk_storage s"
  "wk_ackNote (setStage hz stage s) = wk_ackNote s" "wk_exported (setStage hz stage s) = wk_exported s"
  "wk_now (setStage hz stage s) = wk_now s"
  by (simp_all add: setStage_def)

text \<open>The assessment is on the page: its query has data, is not loading and has not failed.\<close>

definition workspace_shows :: "workspace \<Rightarrow> RiskAssessment \<Rightarrow> bool" where
  "workspace_shows s a \<longleftrightarrow>
     (let q = wd_assessment (wk_data s) in \<not> q_isLoading q \<and> q_error q = None \<and> q_data q = Some a)"

lemma shown_view:
  "workspace_shows s a \<Longrightarrow>
     press (Click label n) (workspace_view hz ft s) =
       nth_opt (concat (map (button_events label) (workspace_body hz ft s a))) n \<and>
     press (Enter field txt) (workspace_view hz ft s) =
       nth_opt (concat (map (entry_events field txt) (workspace_body hz ft s a))) 0"
  by (simp add: workspace_shows_def workspace_view_def press_def QueryResult_def plain_query_def Let_def)

abbreviation workspace_step :: "host_zone \<Rightarrow> (string \<Rightarrow> string) \<Rightarrow> workspace \<Rightarrow> workspace_input input \<Rightarrow> workspace" where
  "workspace_step hz ft \<equiv> app_step (workspace_view hz ft) (workspace_update hz ft) (workspace_env hz)"

lemma stepper_events:
  "concat (map (button_events label \<circ> stage_button s) stages) =
     map (\<lambda>stage. Set_Stage (ws_id stage)) (filter (\<lambda>stage. ws_label stage = label) stages)"
  by (induction stages) (simp_all add: stage_button_def)

lemma stepper_label: "stage \<in> set WORKSPACE_STAGES \<Longrightarrow> filter (\<lambda>st. ws_label st = ws_label stage) WORKSPACE_STAGES = [stage]"
proof -
  have "distinct (map ws_label WORKSPACE_STAGES)" by code_simp
  then show "stage \<in> set WORKSPACE_STAGES \<Longrightarrow> ?thesis" by (rule filter_unique_key)
qed

lemma body_events:
  "concat (map (button_events label) (workspace_body hz ft s a)) =
     map (\<lambda>stage. Set_Stage (ws_id stage)) (filter (\<lambda>stage. ws_label stage = label) WORKSPACE_STAGES)
     @ concat (map (button_events label) (stage_view hz ft s a))"
  by (simp add: workspace_body_def stepper_events strong_def TierBadge_def)

lemma body_entries:
  "concat (map (entry_events field txt) (workspace_body hz ft s a)) = concat (map (entry_events field txt) (stage_view hz ft s a))"
proof -
  have "concat (map (entry_events field txt) (map (stage_button s) stages)) = []" for stages
    by (induction stages) (simp_all add: stage_button_def)
  then show ?thesis by (simp add: workspace_body_def strong_def TierBadge_def)
qed

lemma stepper_button:
  assumes "workspace_shows s a" and "stage \<in> set WORKSPACE_STAGES"
  shows "press (Click (ws_label stage) 0) (workspace_view hz ft s) = Some (Set_Stage (ws_id stage))"
  unfolding shown_view[OF assms(1), THEN conjunct1] body_events stepper_label[OF assms(2)] by simp

lemma step_stage:
  "workspace_shows s a \<Longrightarrow> stage \<in> set WORKSPACE_STAGES \<Longrightarrow>
   workspace_step hz ft s (User (Click (ws_label stage) 0)) = setStage hz (ws_id stage) s"
  by (simp add: app_step_def stepper_button workspace_update_def)

lemma stage_click:
  assumes "workspace_shows s a" and "label \<notin> ws_label ` set WORKSPACE_STAGES"
  shows "press (Click label 0) (workspace_view hz ft s) = nth_opt (concat (map (button_events label) (stage_view hz ft s a))) 0"
proof -
  from assms(2) have "filter (\<lambda>stage. ws_label stage = label) WORKSPACE_STAGES = []" by (auto simp: filter_empty_conv)
  then show ?thesis unfolding shown_view[OF assms(1), THEN conjunct1] body_events by simp
qed

lemma shows_update [simp]:
  "workspace_shows (setStage hz stage s) a = workspace_shows s a"
  "workspace_shows (s\<lparr>wk_ackNote := note\<rparr>) a = workspace_shows s a"
  "workspace_shows (s\<lparr>wk_storage := st\<rparr>) a = workspace_shows s a"
  "workspace_shows (s\<lparr>wk_exported := es\<rparr>) a = workspace_shows s a"
  by (simp_all add: workspace_shows_def)

lemma activeStage_update [simp]:
  "activeStage (s\<lparr>wk_ackNote := note\<rparr>) = activeStage s" "activeStage (s\<lparr>wk_storage := st\<rparr>) = activeStage s"
  "activeStage (s\<lparr>wk_exported := es\<rparr>) = activeStage s"
  by (simp_all add: activeStage_def split: option.split)

lemma shown_assessment: "workspace_shows s a \<Longrightarrow> workspace_assessment s = Some a"
  by (simp add: workspace_shows_def workspace_assessment_def Let_def)

lemma step_note:
  assumes "workspace_shows s a" "activeStage s = WorkspaceStageId.Approval" "workspace_acknowledgment s a = None"
  shows "workspace_step hz ft s (User (Enter ''ack-note'' note)) = s\<lparr>wk_ackNote := note\<rparr>"
  using assms shown_view[OF assms(1), THEN conjunct2]
  by (simp add: app_step_def body_entries stage_view_def approval_view_def workspace_update_def)

lemma step_acknowledge:
  assumes "workspace_shows s a" "activeStage s = WorkspaceStageId.Approval" "workspace_acknowledgment s a = None"
  shows "workspace_step hz ft s (User (Click ''Mark as reviewed'' 0)) =
     s\<lparr>wk_storage := snd (setLocalAcknowledgment (ra_assessment_id a) (wk_ackNote s) (wk_now s) (wk_storage s))\<rparr>"
  using assms
  by (simp add: app_step_def stage_click WORKSPACE_STAGES_def stage_view_def approval_view_def workspace_update_def
      handleAcknowledge_def shown_assessment)

lemma step_undo:
  assumes "workspace_shows s a" "activeStage s = WorkspaceStageId.Approval" "workspace_acknowledgment s a = Some ack"
  shows "workspace_step hz ft s (User (Click ''Undo acknowledgment'' 0)) =
     s\<lparr>wk_storage := clearLocalAcknowledgment (ra_assessment_id a) (wk_storage s)\<rparr>"
  using assms
  by (simp add: app_step_def stage_click WORKSPACE_STAGES_def stage_view_def approval_view_def workspace_update_def
      handleUndoAcknowledge_def shown_assessment cond_def)

lemma step_export:
  assumes "workspace_shows s a" "activeStage s = Export"
  shows "workspace_step hz ft s (User (Click ''Export Decision Workspace Summary (PDF)'' 0)) =
     s\<lparr>wk_exported := wk_exported s @ [workspace_export ft s a]\<rparr>"
  using assms
  by (simp add: app_step_def stage_click WORKSPACE_STAGES_def stage_view_def export_view_def workspace_update_def
      workspace_handleExportPdf_def shown_assessment)

subsection \<open>The exported document\<close>

lemma workspace_headings:
  "map rs_heading (workspace_sections ft s a) =
     [''Situation'', ''Understand'', ''Historical Context'', ''Business Impact'', ''Recommended Action'', ''Approval'']"
  by (simp add: workspace_sections_def Let_def)

lemma workspace_sections_approval:
  "rs_lines (last (workspace_sections ft s a)) =
     (case workspace_acknowledgment s a of
        Some ack \<Rightarrow> [''Acknowledged locally at '' @ ft (da_acknowledgedAtIso ack), if da_note ack \<noteq> [] then da_note ack else ''(no note)'']
      | None \<Rightarrow> [''Not yet acknowledged.''])"
  by (simp add: workspace_sections_def Let_def)

definition review_actions :: "string \<Rightarrow> workspace_input input list" where
  "review_actions note =
     map User [Click ''Approval'' 0, Enter ''ack-note'' note, Click ''Mark as reviewed'' 0, Click ''Export'' 0,
       Click ''Export Decision Workspace Summary (PDF)'' 0]"

lemma step_to_approval:
  "workspace_shows s a \<Longrightarrow> workspace_step hz ft s (User (Click ''Approval'' 0)) = setStage hz WorkspaceStageId.Approval s"
  using step_stage[of s a "\<lparr>ws_id = WorkspaceStageId.Approval, ws_label = ''Approval''\<rparr>" hz ft] by (simp add: WORKSPACE_STAGES_def)

lemma step_to_export:
  "workspace_shows s a \<Longrightarrow> workspace_step hz ft s (User (Click ''Export'' 0)) = setStage hz Export s"
  using step_stage[of s a "\<lparr>ws_id = Export, ws_label = ''Export''\<rparr>" hz ft] by (simp add: WORKSPACE_STAGES_def)

lemma acknowledgment_update [simp]:
  "workspace_acknowledgment (setStage hz stage s) a = workspace_acknowledgment s a"
  "workspace_acknowledgment (s\<lparr>wk_ackNote := note\<rparr>) a = workspace_acknowledgment s a"
  "workspace_acknowledgment (s\<lparr>wk_storage := st\<rparr>) a = getLocalAcknowledgment st (ra_assessment_id a)"
  by (simp_all add: workspace_acknowledgment_def)

lemma run_review:
  fixes s :: workspace and hz :: host_zone and msg :: string and a :: RiskAssessment
  defines "s1 \<equiv> (setStage hz WorkspaceStageId.Approval s)\<lparr>wk_ackNote := msg,
     wk_storage := snd (setLocalAcknowledgment (ra_assessment_id a) msg (wk_now s) (wk_storage s))\<rparr>"
  assumes shown: "workspace_shows s a" and fresh: "workspace_acknowledgment s a = None"
  shows "foldl (workspace_step hz ft) s (review_actions msg) =
     (setStage hz Export s1)\<lparr>wk_exported := wk_exported s @ [workspace_export ft (setStage hz Export s1) a]\<rparr>"
  using shown fresh
  by (simp add: review_actions_def step_to_approval step_to_export[of _ a] step_note[of _ a] step_acknowledge[of _ a]
      step_export[of _ a] s1_def)

subsection \<open>What the page can touch\<close>

text \<open>
  The assessments that arrive on the page of assessment \<open>i\<close> are that assessment, as the endpoint
  \<open>/risk/assessment/{id}\<close> documents.
\<close>

definition answers_for :: "string \<Rightarrow> workspace_input input \<Rightarrow> bool" where
  "answers_for i x =
     (case x of
        Env (Data_Arrived d) \<Rightarrow> (case q_data (wd_assessment d) of Some a \<Rightarrow> ra_assessment_id a = i | None \<Rightarrow> True)
      | _ \<Rightarrow> True)"

definition own_storage :: "string \<Rightarrow> storage \<Rightarrow> workspace \<Rightarrow> bool" where
  "own_storage i st s \<longleftrightarrow>
     (case workspace_assessment s of Some a \<Rightarrow> ra_assessment_id a = i | None \<Rightarrow> True) \<and>
     (\<forall>k. k \<noteq> storageKey i \<longrightarrow> getItem (wk_storage s) k = getItem st k)"

lemma own_storage_update:
  assumes "own_storage i st s"
  shows "own_storage i st (workspace_update hz ft e s)"
proof -
  have key: "getItem (snd (setLocalAcknowledgment i msg t st')) k = getItem st' k"
    "getItem (clearLocalAcknowledgment i st') k = getItem st' k" if "k \<noteq> storageKey i" for k msg t st'
    using that by (simp_all add: setLocalAcknowledgment_def clearLocalAcknowledgment_def Let_def session.get_put session.get_remove)
  have "workspace_assessment (workspace_update hz ft e s) = workspace_assessment s"
    by (auto simp: workspace_update_def workspace_assessment_def setStage_def handleAcknowledge_def handleUndoAcknowledge_def
        workspace_handleExportPdf_def split: workspace_event.split panel_event.split option.split)
  moreover have "getItem (wk_storage (workspace_update hz ft e s)) k = getItem (wk_storage s) k" if k: "k \<noteq> storageKey i" for k
    using assms key[OF k]
    by (auto simp: workspace_update_def own_storage_def handleAcknowledge_def handleUndoAcknowledge_def
        workspace_handleExportPdf_def split: workspace_event.split panel_event.split option.splits)
  ultimately show ?thesis using assms by (simp add: own_storage_def)
qed

text \<open>An environment that ignores answers about another assessment runs the same on the inputs of interest.\<close>

definition own_env :: "host_zone \<Rightarrow> string \<Rightarrow> workspace_input \<Rightarrow> workspace \<Rightarrow> workspace" where
  "own_env hz i x s = (if answers_for i (Env x) then workspace_env hz x s else s)"

lemma own_storage_env: "own_storage i st s \<Longrightarrow> own_storage i st (own_env hz i x s)"
  by (auto simp: own_env_def answers_for_def workspace_env_def own_storage_def workspace_assessment_def
      split: workspace_input.split option.splits)

interpretation workspace_ui: ui_app "workspace_start i stage st now" "workspace_view hz ft" "workspace_update hz ft"
  "own_env hz i" "own_storage i st" for i stage st now hz ft
proof unfold_locales
  show "own_storage i st (workspace_start i stage st now)"
    by (simp add: own_storage_def workspace_start_def workspace_assessment_def workspace_loading_def loading_query_def)
qed (rule own_storage_update, assumption, rule own_storage_env)

lemma run_own_env:
  "list_all (answers_for i) xs \<Longrightarrow>
   foldl (workspace_step hz ft) s xs = foldl (app_step (workspace_view hz ft) (workspace_update hz ft) (own_env hz i)) s xs"
proof (induction xs arbitrary: s)
  case (Cons x xs)
  then show ?case by (cases x) (simp_all add: app_step_def own_env_def)
qed simp

definition sample_assessment :: RiskAssessment where
  "sample_assessment =
     \<lparr>ra_assessment_id = ''a-1'', ra_zone_id = ''zone-1'', ra_timestamp = ''2026-01-01T00:00:00Z'', ra_compound_risk_score = 62,
      ra_confidence = 1, ra_tier = ''elevated'', ra_justification = []\<rparr>"

definition sample_workspace :: workspace where
  "sample_workspace =
     (workspace_start ''a-1'' None [] ''2026-01-01T00:05:00Z'')
       \<lparr>wk_data := workspace_loading\<lparr>wd_assessment := \<lparr>q_data = Some sample_assessment, q_isLoading = False, q_error = None\<rparr>\<rparr>\<rparr>"

lemma sample_workspace_shows: "workspace_shows sample_workspace sample_assessment"
  by (simp add: workspace_shows_def sample_workspace_def)

lemma sample_workspace_fresh: "workspace_acknowledgment sample_workspace sample_assessment = None"
  by (simp add: workspace_acknowledgment_def sample_workspace_def workspace_start_def getLocalAcknowledgment_def getItem_def)

subsection \<open>Properties\<close>

text \<open>
  From every stage, one click in the stepper leads to any of the eleven stages, and nothing else of the page changes but
  the deck selection of a panel that is mounted or left.
\<close>

theorem workspace_stepper:
  assumes "workspace_shows s a"
  shows "list_all (\<lambda>stage.
     let s' = workspace_step hz ft s (User (Click (ws_label stage) 0))
     in activeStage s' = ws_id stage \<and> workspace_shows s' a \<and> wk_ackNote s' = wk_ackNote s \<and> wk_storage s' = wk_storage s \<and>
        (mounted_panel hz s' = mounted_panel hz s \<or> wk_selectedDeckKey s' = None)) WORKSPACE_STAGES"
proof -
  have "mounted_panel hz (setStage hz stage s) = mounted_panel hz s \<or> wk_selectedDeckKey (setStage hz stage s) = None" for stage
    by (simp add: setStage_def remount_def)
  then show ?thesis using assms by (simp add: list_all_iff step_stage[OF assms] Let_def)
qed

theorem workspace_stepper_witness:
  "workspace_shows sample_workspace sample_assessment \<and>
   list_all (\<lambda>stage.
     let s' = workspace_step utc_zone id sample_workspace (User (Click (ws_label stage) 0))
     in activeStage s' = ws_id stage \<and> workspace_shows s' sample_assessment \<and> wk_ackNote s' = wk_ackNote sample_workspace \<and>
        wk_storage s' = wk_storage sample_workspace \<and>
        (mounted_panel utc_zone s' = mounted_panel utc_zone sample_workspace \<or> wk_selectedDeckKey s' = None)) WORKSPACE_STAGES"
  using workspace_stepper[OF sample_workspace_shows] sample_workspace_shows by blast

text \<open>
  (C17) A review leaves its trace where it should. An operator who opens the approval stage of an assessment not yet
  acknowledged, types a note, marks it as reviewed and exports the summary gets one new PDF, under the assessment's file
  name, that shows all six headings in order and whose approval section has the time and the note (or says
  that there is none). The stored acknowledgment is exactly that, and every other assessment's is as before.
\<close>

theorem workspace_review_exported:
  assumes "workspace_shows s a" and "workspace_acknowledgment s a = None"
  shows "(let s' = foldl (workspace_step hz ft) s (review_actions msg); (data, file) = last (wk_exported s')
    in wk_exported s' = wk_exported s @ [(data, file)] \<and>
       file = ''decision-workspace-'' @ ra_assessment_id a @ ''.pdf'' \<and>
       rs_lines (last (dr_sections data)) =
         [''Acknowledged locally at '' @ ft (wk_now s), if msg \<noteq> [] then msg else ''(no note)''] \<and>
       subseq [''Decision Workspace Summary'', ''Situation'', ''Understand'', ''Historical Context'', ''Business Impact'',
           ''Recommended Action'', ''Approval'']
         (map dt_text (pd_drawn (buildDecisionReportPdf initial splitTextToSize pageWidth pageHeight data))) \<and>
       getLocalAcknowledgment (wk_storage s') j =
         (if j = ra_assessment_id a then Some \<lparr>da_acknowledgedAtIso = wk_now s, da_note = msg\<rparr>
          else getLocalAcknowledgment (wk_storage s) j))"
proof -
  let ?s1 = "setStage hz Export ((setStage hz WorkspaceStageId.Approval s)\<lparr>wk_ackNote := msg,
     wk_storage := snd (setLocalAcknowledgment (ra_assessment_id a) msg (wk_now s) (wk_storage s))\<rparr>)"
  have ack: "workspace_acknowledgment ?s1 a = Some \<lparr>da_acknowledgedAtIso = wk_now s, da_note = msg\<rparr>"
    by (simp add: workspace_acknowledgment_def acknowledgment_after)
  obtain data where exp: "workspace_export ft ?s1 a = (data, ''decision-workspace-'' @ ra_assessment_id a @ ''.pdf'')"
    and data: "dr_title data = ''Decision Workspace Summary''" "dr_sections data = workspace_sections ft ?s1 a"
    by (simp add: workspace_export_def)
  note pdf = headings_in_pdf[of data initial splitTextToSize pageWidth pageHeight, unfolded data workspace_headings]
  have lines: "rs_lines (last (dr_sections data)) =
      [''Acknowledged locally at '' @ ft (wk_now s), if msg \<noteq> [] then msg else ''(no note)'']"
    unfolding data(2) workspace_sections_approval ack by simp
  have stored: "getLocalAcknowledgment (wk_storage ?s1) j =
      (if j = ra_assessment_id a then Some \<lparr>da_acknowledgedAtIso = wk_now s, da_note = msg\<rparr>
       else getLocalAcknowledgment (wk_storage s) j)"
    by (simp add: acknowledgment_after)
  have fields: "wk_exported (?s1\<lparr>wk_exported := es\<rparr>) = es" "wk_storage (?s1\<lparr>wk_exported := es\<rparr>) = wk_storage ?s1" for es
    by simp_all
  show ?thesis
    unfolding run_review[OF assms] Let_def fields last_snoc exp prod.case
    using pdf lines stored by blast
qed

theorem workspace_review_exported_witness:
  "workspace_shows sample_workspace sample_assessment \<and> workspace_acknowledgment sample_workspace sample_assessment = None \<and>
   (let s' = foldl (workspace_step utc_zone id) sample_workspace (review_actions ''seen''); (data, file) = last (wk_exported s')
    in wk_exported s' = wk_exported sample_workspace @ [(data, file)] \<and>
       file = ''decision-workspace-'' @ ra_assessment_id sample_assessment @ ''.pdf'' \<and>
       rs_lines (last (dr_sections data)) =
         [''Acknowledged locally at '' @ id (wk_now sample_workspace), if ''seen'' \<noteq> [] then ''seen'' else ''(no note)''] \<and>
       subseq [''Decision Workspace Summary'', ''Situation'', ''Understand'', ''Historical Context'', ''Business Impact'',
           ''Recommended Action'', ''Approval'']
         (map dt_text (pd_drawn (buildDecisionReportPdf \<lparr>ts_style = Normal, ts_size = 16, ts_color = 0\<rparr> (\<lambda>t w. [t]) 210 297 data))) \<and>
       getLocalAcknowledgment (wk_storage s') ''a-1'' =
         (if ''a-1'' = ra_assessment_id sample_assessment then Some \<lparr>da_acknowledgedAtIso = wk_now sample_workspace, da_note = ''seen''\<rparr>
          else getLocalAcknowledgment (wk_storage sample_workspace) ''a-1''))"
  using workspace_review_exported[OF sample_workspace_shows sample_workspace_fresh, of utc_zone id "''seen''"
      "\<lparr>ts_style = Normal, ts_size = 16, ts_color = 0\<rparr>" "\<lambda>t w. [t]" 210 297 "''a-1''"]
    sample_workspace_shows sample_workspace_fresh by (intro conjI)

text \<open>
  Undoing takes a review back completely: afterwards the session has the acknowledgments it had before the review, and the
  form of the approval stage is open again with the operator's note still in it.
\<close>

theorem workspace_review_undone:
  assumes "workspace_shows s a" and "workspace_acknowledgment s a = None"
  shows "(let s' = foldl (workspace_step hz ft) s
              (review_actions msg @ [User (Click ''Approval'' 0), User (Click ''Undo acknowledgment'' 0)])
    in getLocalAcknowledgment (wk_storage s') = getLocalAcknowledgment (wk_storage s) \<and> wk_ackNote s' = msg \<and>
       workspace_shows s' a \<and> activeStage s' = WorkspaceStageId.Approval)"
proof -
  let ?s1 = "(setStage hz WorkspaceStageId.Approval s)\<lparr>wk_ackNote := msg,
     wk_storage := snd (setLocalAcknowledgment (ra_assessment_id a) msg (wk_now s) (wk_storage s))\<rparr>"
  let ?s2 = "(setStage hz Export ?s1)\<lparr>wk_exported := wk_exported s @ [workspace_export ft (setStage hz Export ?s1) a]\<rparr>"
  have shown: "workspace_shows ?s2 a" using assms by simp
  have "workspace_acknowledgment (setStage hz WorkspaceStageId.Approval ?s2) a = Some \<lparr>da_acknowledgedAtIso = wk_now s, da_note = msg\<rparr>"
    by (simp add: workspace_acknowledgment_def acknowledgment_after)
  note undo = step_undo[OF _ activeStage_setStage this]
  have none: "getLocalAcknowledgment (wk_storage s) (ra_assessment_id a) = None"
    using assms(2) by (simp add: workspace_acknowledgment_def)
  show ?thesis
    unfolding foldl_append run_review[OF assms]
    using shown by (simp add: step_to_approval undo Let_def acknowledgment_after none fun_eq_iff)
qed

theorem workspace_review_undone_witness:
  "workspace_shows sample_workspace sample_assessment \<and> workspace_acknowledgment sample_workspace sample_assessment = None \<and>
   (let s' = foldl (workspace_step utc_zone id) sample_workspace
              (review_actions ''seen'' @ [User (Click ''Approval'' 0), User (Click ''Undo acknowledgment'' 0)])
    in getLocalAcknowledgment (wk_storage s') = getLocalAcknowledgment (wk_storage sample_workspace) \<and> wk_ackNote s' = ''seen'' \<and>
       workspace_shows s' sample_assessment \<and> activeStage s' = WorkspaceStageId.Approval)"
  using workspace_review_undone[OF sample_workspace_shows sample_workspace_fresh] sample_workspace_shows sample_workspace_fresh
  by blast

text \<open>
  Whatever a user does on the page of an assessment, and whatever data arrive there for it, no other key of the session
  storage changes: in particular the acknowledgments of all other assessments.
\<close>

theorem workspace_own_storage:
  assumes "list_all (answers_for i) inputs"
  shows "(let s = foldl (workspace_step hz ft) (workspace_start i stage st now) inputs
    in if j = i then True
       else getItem (wk_storage s) (storageKey j) = getItem st (storageKey j) \<and>
            getLocalAcknowledgment (wk_storage s) j = getLocalAcknowledgment st j)"
proof -
  have "own_storage i st (foldl (workspace_step hz ft) (workspace_start i stage st now) inputs)"
    unfolding run_own_env[OF assms] by (rule workspace_ui.inv_reachable)
  then show ?thesis
    by (auto simp: own_storage_def Let_def getLocalAcknowledgment_def dest: injD[OF storageKey_inj])
qed

theorem workspace_own_storage_witness:
  "list_all (answers_for ''a-1'') [Env (Data_Arrived (wk_data sample_workspace)), User (Click ''Approval'' 0), User (Click ''Mark as reviewed'' 0)] \<and>
   (let s = foldl (workspace_step utc_zone id) (workspace_start ''a-1'' None [] ''2026-01-01T00:05:00Z'')
              [Env (Data_Arrived (wk_data sample_workspace)), User (Click ''Approval'' 0), User (Click ''Mark as reviewed'' 0)]
    in if ''a-2'' = ''a-1'' then True
       else getItem (wk_storage s) (storageKey ''a-2'') = getItem [] (storageKey ''a-2'') \<and>
            getLocalAcknowledgment (wk_storage s) ''a-2'' = getLocalAcknowledgment [] ''a-2'')"
proof -
  have "list_all (answers_for ''a-1'') [Env (Data_Arrived (wk_data sample_workspace)), User (Click ''Approval'' 0), User (Click ''Mark as reviewed'' 0)]"
    by (simp add: answers_for_def sample_workspace_def sample_assessment_def)
  with workspace_own_storage[OF this, of utc_zone id None "[]" "''2026-01-01T00:05:00Z''" "''a-2''"] show ?thesis by (intro conjI)
qed

end
