(* ===== verification/Builder_Page.thy ===== *)
theory Builder_Page
  imports Panels Draft_Files Views
begin

section \<open>The scenario builder page\<close>

text \<open>
  \<open>pages/ScenarioBuilderPage.tsx\<close> as a page of the interaction model: the scenario's details, the two forms that add
  events, the read-only equipment browser, the timeline, the preview, and the validation, execution, export and import of the
  draft. The draft itself and its operations are in \<open>Scenario_Builder\<close>, its files in \<open>Draft_Files\<close>, dragging on the timeline in
  \<open>Views\<close>. A file is the text the user chose or got. When an imported file has values of other types than the draft declares, the
  page goes on with them; the model records only that it happened (\<open>bp_untyped\<close>), and what is proved is about pages where it
  did not.

  The state holds the draft, the two forms, what the two mutations of \<open>hooks/useScenarioBuilder.ts\<close> report (a mutation that is
  started is pending and has no data until it is answered), and what left the page: the drafts sent to the backend with the plant data
  they were checked against, and the files exported. The random part of a new identifier is an argument \<open>rnd\<close>, a stream of
  texts. A draft that has no start time cannot be built; the code throws while rendering, and the page is gone.

  Fields of the two forms have the same labels and are told apart by the heading of their form. A number field holds a valid number or
  nothing, as HTML's number inputs do.
\<close>

subsection \<open>Data and state\<close>

record CurveInfo =
  ci_name :: string
  ci_required_params :: "string list"

record ScenarioBuilderOptions =
  bo_curves :: "CurveInfo list"
  bo_permit_types :: "string list"
  bo_gas_types :: "string list"

record ScenarioValidationResult =
  vr_valid :: bool
  vr_errors :: "string list"

record ZoneScenarioResult =
  zr_zone_id :: string
  zr_tick_count :: number
  zr_final_tier :: string
  zr_final_score :: number
  zr_assessment_ids :: "string list"

record ScenarioExecutionResult =
  xr_valid :: bool
  xr_errors :: "string list"
  xr_start_time :: "string option"
  xr_end_time :: "string option"
  xr_zone_results :: "ZoneScenarioResult list"

record builder_data =
  bd_zones :: "Zone list option"
  bd_workers :: "Worker list option"
  bd_options :: "ScenarioBuilderOptions option"
  bd_sensors :: "string \<Rightarrow> SensorInfo list option"
  bd_equipment :: "string \<Rightarrow> EquipmentInfo list option"

record sensor_form =
  sf_name :: string
  sf_zoneId :: string
  sf_gasType :: string
  sf_simTime :: number
  sf_duration :: number
  sf_interval :: number
  sf_curve :: string
  sf_params :: "(string \<times> number) list"

record permit_form =
  pf_name :: string
  pf_zoneId :: string
  pf_permitType :: string
  pf_officerId :: string
  pf_simTime :: number
  pf_duration :: number

record 'a mutation =
  mu_isPending :: bool
  mu_data :: "'a option"

record builder_page =
  bp_draft :: builder_state
  bp_sensorForm :: sensor_form
  bp_permitForm :: permit_form
  bp_equipmentZoneId :: string
  bp_dragging :: "dragging option"
  bp_validate :: "ScenarioValidationResult mutation"
  bp_execute :: "ScenarioExecutionResult mutation"
  bp_data :: builder_data
  bp_drawn_ids :: nat
  bp_validated :: "ScenarioDefinitionDraft list"
  bp_executed :: "(builder_data \<times> ScenarioDefinitionDraft) list"
  bp_exported :: "(string \<times> string) list"
  bp_alerts :: nat
  bp_untyped :: bool

definition bd_curves :: "builder_data \<Rightarrow> CurveInfo list" where
  "bd_curves d = (case bd_options d of Some opts \<Rightarrow> bo_curves opts | None \<Rightarrow> [])"

definition bd_permitTypes :: "builder_data \<Rightarrow> string list" where
  "bd_permitTypes d = (case bd_options d of Some opts \<Rightarrow> bo_permit_types opts | None \<Rightarrow> [])"

definition sensor_form_start :: "CurveInfo list \<Rightarrow> sensor_form" where
  "sensor_form_start curves =
     \<lparr>sf_name = [], sf_zoneId = [], sf_gasType = [], sf_simTime = 0, sf_duration = 30, sf_interval = 5,
      sf_curve = (case curves of c # _ \<Rightarrow> ci_name c | [] \<Rightarrow> ''linear_ramp''), sf_params = []\<rparr>"

definition permit_form_start :: "string list \<Rightarrow> permit_form" where
  "permit_form_start permitTypes =
     \<lparr>pf_name = [], pf_zoneId = [], pf_permitType = (case permitTypes of t # _ \<Rightarrow> t | [] \<Rightarrow> ''hot_work''), pf_officerId = [],
      pf_simTime = 0, pf_duration = 120\<rparr>"

definition idle_mutation :: "'a mutation" where
  "idle_mutation = \<lparr>mu_isPending = False, mu_data = None\<rparr>"

definition pending_mutation :: "'a mutation" where
  "pending_mutation = \<lparr>mu_isPending = True, mu_data = None\<rparr>"

definition builder_open :: "builder_data \<Rightarrow> builder_page" where
  "builder_open d =
     \<lparr>bp_draft = builder_start, bp_sensorForm = sensor_form_start (bd_curves d), bp_permitForm = permit_form_start (bd_permitTypes d),
      bp_equipmentZoneId = [], bp_dragging = None, bp_validate = idle_mutation, bp_execute = idle_mutation, bp_data = d,
      bp_drawn_ids = 0, bp_validated = [], bp_executed = [], bp_exported = [], bp_alerts = 0, bp_untyped = False\<rparr>"

subsection \<open>Derived values\<close>

definition page_context :: "builder_data \<Rightarrow> ScenarioValidationContext" where
  "page_context d = validation_context (bd_zones d) (bd_workers d) (bd_sensors d)"

definition clientErrors :: "(number \<Rightarrow> number) \<Rightarrow> builder_page \<Rightarrow> ScenarioDefinitionDraft \<Rightarrow> string list" where
  "clientErrors Math_exp s draft = validateScenarioDraft Math_exp draft (page_context (bp_data s))"

text \<open>\<open>Number(e.target.value)\<close> of a number input: its value is a valid number or empty, and \<open>Number("")\<close> is 0.\<close>

definition input_number :: "string \<Rightarrow> number" where
  "input_number s =
     (let neg = (s \<noteq> [] \<and> hd s = CHR ''-''); (ds, s2) = span_digits (if neg then tl s else s)
      in case parse_fraction_part s2 of
           None \<Rightarrow> 0
         | Some (fs, s3) \<Rightarrow>
             (case parse_exponent s3 of
                Some (e, []) \<Rightarrow>
                  if ds = [] \<and> fs = [] then 0
                  else let x = of_nat (digits_value (ds @ fs)) * 10 powi (e - int (length fs)) in fl (if neg then - x else x)
              | _ \<Rightarrow> 0))"

definition PARAM_LABELS :: "(string \<times> string) list" where
  "PARAM_LABELS =
    [(''start_value'', ''Baseline''), (''slope'', ''Leak rate (linear)''), (''rate'', ''Leak rate (exponential)''),
     (''baseline'', ''Baseline''), (''step_value'', ''Severity (spike value)''),
     (''step_time'', ''Time of spike (minutes into event)'')]"

definition newId :: "(nat \<Rightarrow> string) \<Rightarrow> string \<Rightarrow> nat \<Rightarrow> string" where
  "newId rnd pre n = pre @ ''-'' @ rnd n"

text \<open>\<open>title.replace(/\s+/g, "_")\<close>: every run of white space becomes one underscore.\<close>

fun underscore_spaces :: "bool \<Rightarrow> string \<Rightarrow> string" where
  "underscore_spaces inRun [] = []"
| "underscore_spaces inRun (c # cs) =
     (if is_space c then (if inRun then [] else ''_'') @ underscore_spaces True cs else c # underscore_spaces False cs)"

definition export_name :: "string \<Rightarrow> string" where
  "export_name title = (let t = underscore_spaces False title in (if t \<noteq> [] then t else ''scenario'') @ ''.json'')"

definition availableGasTypes :: "builder_data \<Rightarrow> string \<Rightarrow> string list" where
  "availableGasTypes d zoneId =
     (if zoneId = [] then []
      else case map_of (vc_zoneGasTypes (page_context d)) zoneId of Some gs \<Rightarrow> gs | None \<Rightarrow> [])"

definition requiredParams :: "builder_data \<Rightarrow> string \<Rightarrow> string list" where
  "requiredParams d curve =
     (case List.find (\<lambda>c. ci_name c = curve) (bd_curves d) of Some c \<Rightarrow> ci_required_params c | None \<Rightarrow> [])"

subsection \<open>Handlers\<close>

datatype builder_event =
    Set_Title string | Set_Description string | Set_Seed string | Set_StartTime string
  | Sensor_Name string | Sensor_Zone string | Sensor_Gas string | Sensor_Curve string | Sensor_Param string string
  | Sensor_Sim string | Sensor_Duration string | Sensor_Interval string | Add_Sensor
  | Permit_Name string | Permit_Zone string | Permit_Type string | Permit_Officer string | Permit_Sim string
  | Permit_Duration string | Add_Permit
  | Equipment_Zone string | Delete_Event string | Validate | Execute | Export_Draft

definition sensor_event :: "sensor_form \<Rightarrow> SensorEventDraft" where
  "sensor_event f =
     \<lparr>se_name = sf_name f, se_zone_id = sf_zoneId f, se_gas_type = sf_gasType f, se_sim_time = sf_simTime f,
      se_duration_minutes = sf_duration f, se_sample_interval_minutes = sf_interval f, se_curve = sf_curve f, se_params = sf_params f\<rparr>"

definition permit_event :: "permit_form \<Rightarrow> PermitEventDraft" where
  "permit_event f =
     \<lparr>pe_name = pf_name f, pe_zone_id = pf_zoneId f, pe_sim_time = pf_simTime f, pe_permit_type = pf_permitType f,
      pe_authorizing_officer_id = pf_officerId f, pe_duration_minutes = pf_duration f\<rparr>"

definition update_sensor_form :: "builder_event \<Rightarrow> sensor_form \<Rightarrow> sensor_form" where
  "update_sensor_form e f =
     (case e of
        Sensor_Name v \<Rightarrow> f\<lparr>sf_name := v\<rparr>
      | Sensor_Zone v \<Rightarrow> f\<lparr>sf_zoneId := v, sf_gasType := []\<rparr>
      | Sensor_Gas v \<Rightarrow> f\<lparr>sf_gasType := v\<rparr>
      | Sensor_Curve v \<Rightarrow> f\<lparr>sf_curve := v, sf_params := []\<rparr>
      | Sensor_Param p v \<Rightarrow> f\<lparr>sf_params := amap_set p (input_number v) (sf_params f)\<rparr>
      | Sensor_Sim v \<Rightarrow> f\<lparr>sf_simTime := input_number v\<rparr>
      | Sensor_Duration v \<Rightarrow> f\<lparr>sf_duration := input_number v\<rparr>
      | Sensor_Interval v \<Rightarrow> f\<lparr>sf_interval := input_number v\<rparr>
      | Add_Sensor \<Rightarrow> f\<lparr>sf_name := []\<rparr>
      | _ \<Rightarrow> f)"

definition update_permit_form :: "builder_event \<Rightarrow> permit_form \<Rightarrow> permit_form" where
  "update_permit_form e f =
     (case e of
        Permit_Name v \<Rightarrow> f\<lparr>pf_name := v\<rparr>
      | Permit_Zone v \<Rightarrow> f\<lparr>pf_zoneId := v\<rparr>
      | Permit_Type v \<Rightarrow> f\<lparr>pf_permitType := v\<rparr>
      | Permit_Officer v \<Rightarrow> f\<lparr>pf_officerId := v\<rparr>
      | Permit_Sim v \<Rightarrow> f\<lparr>pf_simTime := input_number v\<rparr>
      | Permit_Duration v \<Rightarrow> f\<lparr>pf_duration := input_number v\<rparr>
      | Add_Permit \<Rightarrow> f\<lparr>pf_name := []\<rparr>
      | _ \<Rightarrow> f)"

definition update_draft :: "(nat \<Rightarrow> string) \<Rightarrow> builder_event \<Rightarrow> builder_page \<Rightarrow> builder_state" where
  "update_draft rnd e s =
     (let st = bp_draft s
      in case e of
           Set_Title v \<Rightarrow> st\<lparr>bs_title := v\<rparr>
         | Set_Description v \<Rightarrow> st\<lparr>bs_description := v\<rparr>
         | Set_Seed v \<Rightarrow> st\<lparr>bs_seed := input_number v\<rparr>
         | Set_StartTime v \<Rightarrow> st\<lparr>bs_startTime := v\<rparr>
         | Add_Sensor \<Rightarrow> addSensorEvent (newId rnd ''sensor'' (bp_drawn_ids s)) (sensor_event (bp_sensorForm s)) st
         | Add_Permit \<Rightarrow> addPermitEvent (newId rnd ''permit'' (bp_drawn_ids s)) (permit_event (bp_permitForm s)) st
         | Delete_Event i \<Rightarrow> deleteEvent i st
         | _ \<Rightarrow> st)"

definition send_validate :: "ScenarioDefinitionDraft \<Rightarrow> builder_page \<Rightarrow> builder_page" where
  "send_validate draft s = s\<lparr>bp_validate := pending_mutation, bp_validated := bp_validated s @ [draft]\<rparr>"

definition send_execute :: "ScenarioDefinitionDraft \<Rightarrow> builder_page \<Rightarrow> builder_page" where
  "send_execute draft s = s\<lparr>bp_execute := pending_mutation, bp_executed := bp_executed s @ [(bp_data s, draft)]\<rparr>"

definition exportDraft :: "ScenarioDefinitionDraft \<Rightarrow> builder_page \<Rightarrow> builder_page" where
  "exportDraft draft s = s\<lparr>bp_exported := bp_exported s @ [(export_name (bs_title (bp_draft s)), export_text draft)]\<rparr>"

definition builder_update :: "host_zone \<Rightarrow> (nat \<Rightarrow> string) \<Rightarrow> builder_event \<Rightarrow> builder_page \<Rightarrow> builder_page" where
  "builder_update hz rnd e s =
     (let s' = s\<lparr>bp_draft := update_draft rnd e s, bp_sensorForm := update_sensor_form e (bp_sensorForm s),
                  bp_permitForm := update_permit_form e (bp_permitForm s),
                  bp_equipmentZoneId := (case e of Equipment_Zone z \<Rightarrow> z | _ \<Rightarrow> bp_equipmentZoneId s),
                  bp_drawn_ids := bp_drawn_ids s + (if e = Add_Sensor \<or> e = Add_Permit then 1 else 0)\<rparr>
      in case builder_draft hz (bp_draft s) of
           None \<Rightarrow> s'
         | Some draft \<Rightarrow>
             (case e of
                Validate \<Rightarrow> send_validate draft s'
              | Execute \<Rightarrow> send_execute draft s'
              | Export_Draft \<Rightarrow> exportDraft draft s'
              | _ \<Rightarrow> s'))"

text \<open>
  The environment: plant data that arrive, the pointer on the timeline, the text of a file chosen for import, and the answers of the two
  mutations (\<open>None\<close> when the request failed). The import sets one piece of state after the other and catches an exception
  only at the end: on a text that is not JSON (or is \<open>null\<close>) nothing was set yet, but where \<open>start_time\<close> cannot be cut, or
  \<open>sensor_events\<close> or \<open>permit_events\<close> is not an array, what came before it was.
\<close>

datatype builder_input =
    Plant_Data builder_data
  | Pointer editor_step
  | Import_File string
  | Validate_Answered "ScenarioValidationResult option"
  | Execute_Answered "ScenarioExecutionResult option"

definition imported :: "(nat \<Rightarrow> string) \<Rightarrow> imported_draft \<Rightarrow> builder_page \<Rightarrow> builder_state" where
  "imported rnd parsed s =
     importDraft
       (\<lambda>i. newId rnd (if i < length (case id_sensor_events parsed of Some es \<Rightarrow> es | None \<Rightarrow> []) then ''sensor'' else ''permit'')
          (bp_drawn_ids s + i))
       parsed (bp_draft s)"

definition handle_import :: "(nat \<Rightarrow> string) \<Rightarrow> import_file \<Rightarrow> builder_page \<Rightarrow> builder_page" where
  "handle_import rnd file s =
     (let st = bp_draft s; alerted = s\<lparr>bp_alerts := bp_alerts s + 1\<rparr>
      in case file of
           Not_Json \<Rightarrow> alerted
         | Bad_Start_Time parsed \<Rightarrow>
             (let st' = imported rnd parsed s
              in alerted\<lparr>bp_draft := st\<lparr>bs_title := bs_title st', bs_description := bs_description st', bs_seed := bs_seed st'\<rparr>\<rparr>)
         | Bad_Sensor_Events parsed \<Rightarrow>
             alerted\<lparr>bp_draft := (imported rnd parsed s)\<lparr>bs_sensorEvents := bs_sensorEvents st, bs_permitEvents := bs_permitEvents st\<rparr>\<rparr>
         | Bad_Permit_Events parsed \<Rightarrow>
             (let st' = imported rnd parsed s
              in alerted\<lparr>bp_draft := st'\<lparr>bs_permitEvents := bs_permitEvents st\<rparr>,
                         bp_drawn_ids := bp_drawn_ids s + length (bs_sensorEvents st')\<rparr>)
         | Scenario_Definition parsed \<Rightarrow>
             (let st' = imported rnd parsed s
              in s\<lparr>bp_draft := st', bp_drawn_ids := bp_drawn_ids s + length (bs_sensorEvents st') + length (bs_permitEvents st')\<rparr>)
         | Untyped_Definition \<Rightarrow> s\<lparr>bp_untyped := True\<rparr>)"

definition builder_env :: "(nat \<Rightarrow> string) \<Rightarrow> builder_input \<Rightarrow> builder_page \<Rightarrow> builder_page" where
  "builder_env rnd x s =
     (case x of
        Plant_Data d \<Rightarrow> s\<lparr>bp_data := d\<rparr>
      | Pointer step \<Rightarrow>
          (case editor_apply (bp_dragging s, bp_draft s) step of (dr, st) \<Rightarrow> s\<lparr>bp_dragging := dr, bp_draft := st\<rparr>)
      | Import_File file \<Rightarrow> handle_import rnd (read_definition file) s
      | Validate_Answered r \<Rightarrow> s\<lparr>bp_validate := \<lparr>mu_isPending = False, mu_data = r\<rparr>\<rparr>
      | Execute_Answered r \<Rightarrow> s\<lparr>bp_execute := \<lparr>mu_isPending = False, mu_data = r\<rparr>\<rparr>)"

subsection \<open>The page\<close>

definition zone_options :: "builder_data \<Rightarrow> (string \<times> string) list" where
  "zone_options d =
     ([], ''Select a zone'' @ [CHR 0xE2, CHR 0x80, CHR 0xA6])
     # map (\<lambda>z. (zn_zone_id z, zn_name z)) (case bd_zones d of Some zs \<Rightarrow> zs | None \<Rightarrow> [])"

definition number_field :: "string \<Rightarrow> number \<Rightarrow> (string \<Rightarrow> builder_event) \<Rightarrow> builder_event node" where
  "number_field label v f = el ''label'' [Field label (num_toString v) f]"

definition details_view :: "builder_state \<Rightarrow> builder_event node" where
  "details_view st =
     el ''div''
       [el ''h2'' [Text ''Scenario Details''], el ''label'' [Field ''Title:'' (bs_title st) Set_Title],
        el ''label'' [Field ''Description:'' (bs_description st) Set_Description], number_field ''Seed:'' (bs_seed st) Set_Seed,
        el ''label'' [Field ''Start time:'' (bs_startTime st) Set_StartTime]]"

definition SensorEventForm :: "builder_data \<Rightarrow> sensor_form \<Rightarrow> builder_event node" where
  "SensorEventForm d f =
     el ''div''
       ([el ''h2'' [Text ''Add Sensor Event''], el ''label'' [Field ''Sensor Event Name:'' (sf_name f) Sensor_Name],
         el ''label'' [Choice ''Sensor Event Zone:'' (sf_zoneId f) (zone_options d) Sensor_Zone],
         el ''label'' [Choice ''Gas type:'' (sf_gasType f)
           (if sf_zoneId f = [] then []
            else ([], ''Select a gas type'' @ [CHR 0xE2, CHR 0x80, CHR 0xA6]) # map (\<lambda>gt. (gt, gt)) (availableGasTypes d (sf_zoneId f)))
           Sensor_Gas],
         el ''label'' [Choice ''Curve:'' (sf_curve f) (map (\<lambda>c. (ci_name c, ci_name c)) (bd_curves d)) Sensor_Curve]]
        @ map (\<lambda>pn. el ''label'' [Field ((case map_of PARAM_LABELS pn of Some l \<Rightarrow> l | None \<Rightarrow> pn) @ '':'')
            (case map_of (sf_params f) pn of Some v \<Rightarrow> num_toString v | None \<Rightarrow> []) (Sensor_Param pn)]) (requiredParams d (sf_curve f))
        @ [number_field ''Sensor Event Start time (min):'' (sf_simTime f) Sensor_Sim,
           number_field ''Sensor Event Duration (min):'' (sf_duration f) Sensor_Duration,
           number_field ''Sample interval (min):'' (sf_interval f) Sensor_Interval,
           el ''p'' [Button [] (sf_name f \<noteq> [] \<and> sf_zoneId f \<noteq> [] \<and> sf_gasType f \<noteq> []) Add_Sensor [Text ''Add Sensor Event'']]])"

definition worker_option :: "Worker \<Rightarrow> string \<times> string" where
  "worker_option w =
     (wk_worker_id w, wk_role w @ '' ('' @ take 8 (wk_worker_id w) @ '')'' @ (if wk_current_zone_id w = None then '' - unassigned'' else []))"

definition PermitEventForm :: "builder_data \<Rightarrow> permit_form \<Rightarrow> builder_event node" where
  "PermitEventForm d f =
     el ''div''
       [el ''h2'' [Text ''Add Work Authorization Event''],
        el ''label'' [Field ''Work Authorization Name:'' (pf_name f) Permit_Name],
        el ''label'' [Choice ''Work Authorization Zone:'' (pf_zoneId f) (zone_options d) Permit_Zone],
        el ''label'' [Choice ''Work authorization type:'' (pf_permitType f)
          (map (\<lambda>pt. (pt, formatPermitType pt)) (bd_permitTypes d)) Permit_Type],
        el ''label'' [Choice ''Authorizing officer:'' (pf_officerId f)
          (([], ''Select a worker'' @ [CHR 0xE2, CHR 0x80, CHR 0xA6])
           # map worker_option (case bd_workers d of Some ws \<Rightarrow> ws | None \<Rightarrow> [])) Permit_Officer],
        number_field ''Work Authorization Start time (min):'' (pf_simTime f) Permit_Sim,
        number_field ''Work Authorization Duration (min):'' (pf_duration f) Permit_Duration,
        el ''p'' [Button [] (pf_name f \<noteq> [] \<and> pf_zoneId f \<noteq> [] \<and> pf_officerId f \<noteq> []) Add_Permit
          [Text ''Add Work Authorization Event'']]]"

definition equipment_item :: "EquipmentInfo \<Rightarrow> 'e node" where
  "equipment_item e =
     el ''li''
       [strong (eq_equipment_type e), Text ('' '' @ utf8_emdash @ '' Health:''), Text '' '',
        Text ((if eq_isolation_status e = ''active'' then ''Healthy'' else eq_isolation_status e) @ '' '' @ utf8_middot
          @ '' Inspection overdue: '' @ (if eq_maintenance_flag e then ''Yes'' else ''No'') @ '' '' @ utf8_middot @ '' LOTO confirmed:''),
        Text '' '', Text (if eq_loto_confirmed e then ''Yes'' else ''No'')]"

definition equipment_view :: "builder_data \<Rightarrow> string \<Rightarrow> builder_event node" where
  "equipment_view d zoneId =
     (let equipment = (if zoneId = [] then [] else case bd_equipment d zoneId of Some es \<Rightarrow> es | None \<Rightarrow> [])
      in el ''div''
           ([el ''h2'' [Text ''Equipment (read-only)''],
             p_text (''Equipment has no scenario-event concept - this browses its already-existing state so you ''
               @ ''know what will influence the Equipment Status agent.''),
             el ''label'' [Choice ''Zone:'' zoneId (zone_options d) Equipment_Zone]]
            @ cond (zoneId \<noteq> [])
                [el ''ul'' (map equipment_item equipment
                   @ cond (length equipment = 0) [el ''li'' [Text ''No equipment recorded for this zone.'']])]))"

definition timeline_bar :: "nat \<Rightarrow> editor_event \<Rightarrow> builder_event node" where
  "timeline_bar index e =
     El ''div''
       [(''class'', ''timeline-event timeline-event-'' @ ee_kind e), (''left'', num_toString (nmul (ee_simTime e) PIXELS_PER_MINUTE) @ ''px''),
        (''width'', num_toString (nmul (ee_durationMinutes e) PIXELS_PER_MINUTE) @ ''px''), (''top'', show_nat (index * 40) @ ''px''),
        (''aria-label'', ee_name e @ '': starts at '' @ num_toString (ee_simTime e) @ '' minutes, lasts ''
           @ num_toString (ee_durationMinutes e) @ '' minutes'')]
       [el ''span'' [Text (ee_name e)], Button [(''aria-label'', ''Delete '' @ ee_name e)] True (Delete_Event (ee_id e)) [Text utf8_times],
        El ''div'' [(''aria-label'', ''Resize '' @ ee_name e)] []]"

definition TimelineEditor :: "editor_event list \<Rightarrow> builder_event node" where
  "TimelineEditor events =
     el ''div''
       [if length events = 0 then p_text ''No events yet - add a sensor or permit event to see it on the timeline.''
        else El ''div'' [(''width'', num_toString (trackWidth events) @ ''px''), (''height'', show_nat (length events * 40) @ ''px'')]
          (map (\<lambda>(index, e). timeline_bar index e) (enumerate 0 events))]"

definition figure_card :: "string \<Rightarrow> string \<Rightarrow> 'e node" where
  "figure_card label value = el ''div'' [p_text label, p_text value]"

definition sequence_item :: "Zone list option \<Rightarrow> SequenceStep \<Rightarrow> 'e node" where
  "sequence_item zones step =
     el ''li'' [Text (''t+'' @ num_toString (sq_simTime step) @ ''min: ''
       @ (if sq_kind step = sensor_step then ''Sensor event'' else ''Work Authorization'') @ '' '' @ quoted (sq_name step)
       @ '' in '' @ zoneLabel (sq_zoneId step) zones @ '' ('' @ num_toString (sq_durationMinutes step) @ '' min)'')]"

definition preview_view :: "Zone list option \<Rightarrow> ScenarioDefinitionDraft \<Rightarrow> 'e node" where
  "preview_view zones draft =
     (let summary = summarizeScenario draft
      in el ''div''
           [el ''h2'' [Text ''Preview''],
            el ''div''
              [figure_card ''Sensor events'' (show_nat (sp_sensorEventCount summary)),
               figure_card ''Work authorization events'' (show_nat (sp_permitEventCount summary)),
               figure_card ''Total duration'' (num_toString (sp_totalDurationMinutes summary) @ '' min''),
               figure_card ''Affected zones'' (show_nat (length (sp_affectedZoneIds summary)))],
            el ''h3'' [Text ''Affected zones''],
            el ''ul'' (map (\<lambda>z. el ''li'' [Text (zoneLabel z zones)]) (sp_affectedZoneIds summary)),
            el ''h3'' [Text ''Expected sequence''], el ''ol'' (map (sequence_item zones) (buildExpectedSequence draft))])"

definition error_list :: "string list \<Rightarrow> 'e node" where
  "error_list errors = el ''ul'' (map (\<lambda>err. el ''li'' [Text err]) errors)"

definition validation_view :: "string list \<Rightarrow> ScenarioValidationResult mutation \<Rightarrow> builder_event node" where
  "validation_view errors m =
     el ''div''
       ([el ''h2'' [Text ''Validation''],
         (if length errors = 0 then p_text ''No client-side problems found.'' else error_list errors),
         Button [] (\<not> mu_isPending m) Validate [Text (if mu_isPending m then ''Validating...'' else ''Validate with backend'')]]
        @ cond_some (mu_data m) (\<lambda>r.
            [el ''div''
               (p_text (''Backend says: '' @ (if vr_valid r then ''valid'' else ''invalid ('' @ show_nat (length (vr_errors r)) @ '' error(s))''))
                # cond (\<not> vr_valid r) [error_list (vr_errors r)])]))"

definition result_card :: "Zone list option \<Rightarrow> ZoneScenarioResult \<Rightarrow> 'e node" where
  "result_card zones r =
     el ''li''
       [el ''h3'' [Text (zoneLabel (zr_zone_id r) zones)],
        el ''p'' [Text (toFixed (zr_final_score r) 1), Text '' '', TierBadge (zr_final_tier r)],
        p_text (num_toString (zr_tick_count r) @ '' ticks persisted''),
        el ''p'' [Link (''/zones/'' @ zr_zone_id r) [Text (''View zone '' @ utf8_arrow)]]]"

definition execution_result :: "Zone list option \<Rightarrow> ScenarioExecutionResult \<Rightarrow> 'e node" where
  "execution_result zones r =
     el ''div''
       (if xr_valid r
        then [el ''p'' [el ''span'' [Text [CHR 0xE2, CHR 0x9C, CHR 0x93]],
                Text (''Scenario executed - '' @ show_nat (length (xr_zone_results r))
                  @ '' zone(s) persisted through the unmodified pipeline.'')],
              el ''ul'' (map (result_card zones) (xr_zone_results r))]
        else [error_list (xr_errors r)])"

definition execute_view :: "Zone list option \<Rightarrow> string list \<Rightarrow> ScenarioExecutionResult mutation \<Rightarrow> builder_event node" where
  "execute_view zones errors m =
     el ''div''
       ([el ''h2'' [Text ''Execute''],
         el ''p''
           [Button [] (\<not> (length errors > 0 \<or> mu_isPending m)) Execute [Text (if mu_isPending m then ''Executing...'' else ''Execute Scenario'')],
            Text '' '', Button [] True Export_Draft [Text ''Export''], Text '' '', el ''label'' [Text ''Import'']]]
        @ cond_some (mu_data m) (\<lambda>r. [execution_result zones r]))"

definition builder_view :: "host_zone \<Rightarrow> (number \<Rightarrow> number) \<Rightarrow> builder_page \<Rightarrow> builder_event node list" where
  "builder_view hz Math_exp s =
     (case builder_draft hz (bp_draft s) of
        None \<Rightarrow> []
      | Some draft \<Rightarrow>
          let d = bp_data s; errors = clientErrors Math_exp s draft
          in [el ''section''
                [el ''h1'' [Text ''Scenario Builder''],
                 p_text (''Compose a deterministic incident from already-existing plant data - zones, sensors, and ''
                   @ ''workers - then execute it through the same unmodified pipeline every pre-authored scenario ''
                   @ ''already runs through. Nothing here changes how risk is computed.''),
                 details_view (bp_draft s), SensorEventForm d (bp_sensorForm s), PermitEventForm d (bp_permitForm s),
                 equipment_view d (bp_equipmentZoneId s),
                 el ''div'' [el ''h2'' [Text ''Timeline''], TimelineEditor (timelineEvents (bp_draft s))],
                 preview_view (bd_zones d) draft, validation_view errors (bp_validate s), execute_view (bd_zones d) errors (bp_execute s)]])"

subsection \<open>What the page offers\<close>

lemma offered_details:
  "offered (details_view st) = range Set_Title \<union> range Set_Description \<union> range Set_Seed \<union> range Set_StartTime"
  by (auto simp: details_view_def number_field_def)

lemma offered_sensor_form:
  "offered (SensorEventForm d f) =
     range Sensor_Name \<union> Sensor_Zone ` fst ` set (zone_options d)
     \<union> Sensor_Gas ` (if sf_zoneId f = [] then {} else insert [] (set (availableGasTypes d (sf_zoneId f))))
     \<union> Sensor_Curve ` ci_name ` set (bd_curves d) \<union> (\<Union>pn\<in>set (requiredParams d (sf_curve f)). range (Sensor_Param pn))
     \<union> range Sensor_Sim \<union> range Sensor_Duration \<union> range Sensor_Interval
     \<union> (if sf_name f \<noteq> [] \<and> sf_zoneId f \<noteq> [] \<and> sf_gasType f \<noteq> [] then {Add_Sensor} else {})"
  by (simp add: SensorEventForm_def number_field_def offers_map image_image Un_ac)

lemma offered_permit_form:
  "offered (PermitEventForm d f) =
     range Permit_Name \<union> Permit_Zone ` fst ` set (zone_options d) \<union> Permit_Type ` set (bd_permitTypes d)
     \<union> Permit_Officer ` insert [] (wk_worker_id ` set (case bd_workers d of Some ws \<Rightarrow> ws | None \<Rightarrow> []))
     \<union> range Permit_Sim \<union> range Permit_Duration
     \<union> (if pf_name f \<noteq> [] \<and> pf_zoneId f \<noteq> [] \<and> pf_officerId f \<noteq> [] then {Add_Permit} else {})"
  by (simp add: PermitEventForm_def number_field_def worker_option_def image_image Un_ac)

lemma offered_equipment: "offered (equipment_view d z) = Equipment_Zone ` fst ` set (zone_options d)"
  by (auto simp: equipment_view_def equipment_item_def strong_def offers_map Let_def split: option.split)

lemma offered_timeline: "offered (TimelineEditor es) = Delete_Event ` ee_id ` set es"
proof -
  have "offers (map (\<lambda>(index, e). timeline_bar index e) (enumerate n es)) = Delete_Event ` ee_id ` set es" for n
    by (induction es arbitrary: n) (auto simp: timeline_bar_def)
  then show ?thesis by (auto simp: TimelineEditor_def)
qed

lemma offered_preview [simp]: "offered (preview_view zones draft) = {}"
  by (auto simp: preview_view_def figure_card_def sequence_item_def offers_map Let_def)

lemma offered_validation: "offered (validation_view errors m) = (if mu_isPending m then {} else {Validate})"
  by (auto simp: validation_view_def error_list_def offers_map cond_some_def split: option.split)

lemma offered_execute:
  "offered (execute_view zones errors m) = insert Export_Draft (if errors = [] \<and> \<not> mu_isPending m then {Execute} else {})"
  by (auto simp: execute_view_def execution_result_def result_card_def error_list_def offers_map cond_some_def split: option.split)

lemmas builder_offers =
  offered_details offered_sensor_form offered_permit_form offered_equipment offered_timeline offered_validation offered_execute

lemma execute_elsewhere:
  "Execute \<notin> offered (details_view st)" "Execute \<notin> offered (SensorEventForm d f)" "Execute \<notin> offered (PermitEventForm d g)"
  "Execute \<notin> offered (equipment_view d z)" "Execute \<notin> offered (TimelineEditor es)" "Execute \<notin> offered (validation_view errors m)"
  by (simp_all add: builder_offers image_iff)

text \<open>Execution is offered exactly when the draft has no client-side problem and no execution is pending.\<close>

lemma execute_offered:
  "Execute \<in> offers (builder_view hz Math_exp s) \<longleftrightarrow>
     (case builder_draft hz (bp_draft s) of
        None \<Rightarrow> False
      | Some draft \<Rightarrow> valid_draft Math_exp (page_context (bp_data s)) draft \<and> \<not> mu_isPending (bp_execute s))"
proof (cases "builder_draft hz (bp_draft s)")
  case None
  then show ?thesis by (simp add: builder_view_def)
next
  case (Some draft)
  let ?errors = "clientErrors Math_exp s draft"
  have "Execute \<in> offers (builder_view hz Math_exp s) \<longleftrightarrow> Execute \<in> offered (execute_view (bd_zones (bp_data s)) ?errors (bp_execute s))"
    by (simp add: builder_view_def Let_def Some execute_elsewhere)
  also have "\<dots> \<longleftrightarrow> valid_draft Math_exp (page_context (bp_data s)) draft \<and> \<not> mu_isPending (bp_execute s)"
    by (simp add: offered_execute clientErrors_def validateScenarioDraft_valid)
  finally show ?thesis by (simp add: Some)
qed

lemma executed_update:
  "bp_executed (builder_update hz rnd e s) =
     bp_executed s @ (case builder_draft hz (bp_draft s) of
        Some draft \<Rightarrow> if e = Execute then [(bp_data s, draft)] else [] | None \<Rightarrow> [])"
  by (cases e) (simp_all add: builder_update_def Let_def send_validate_def send_execute_def exportDraft_def split: option.split)

lemma executed_env: "bp_executed (builder_env rnd x s) = bp_executed s"
  by (cases x) (auto simp: builder_env_def handle_import_def Let_def split: import_file.split prod.split)

definition executed_valid :: "(number \<Rightarrow> number) \<Rightarrow> builder_page \<Rightarrow> bool" where
  "executed_valid Math_exp s \<longleftrightarrow> list_all (\<lambda>(d, draft). valid_draft Math_exp (page_context d) draft) (bp_executed s)"

abbreviation builder_step ::
  "host_zone \<Rightarrow> (number \<Rightarrow> number) \<Rightarrow> (nat \<Rightarrow> string) \<Rightarrow> builder_page \<Rightarrow> builder_input input \<Rightarrow> builder_page" where
  "builder_step hz Math_exp rnd \<equiv> app_step (builder_view hz Math_exp) (builder_update hz rnd) (builder_env rnd)"

interpretation builder_ui: ui_app "builder_open d" "builder_view hz Math_exp" "builder_update hz rnd" "builder_env rnd"
  "executed_valid Math_exp" for d hz Math_exp rnd
proof unfold_locales
  show "executed_valid Math_exp (builder_open d)" by (simp add: executed_valid_def builder_open_def)
next
  fix s e
  assume "executed_valid Math_exp s" "e \<in> offers (builder_view hz Math_exp s)"
  then show "executed_valid Math_exp (builder_update hz rnd e s)"
    using execute_offered[of hz Math_exp s] by (auto simp: executed_valid_def executed_update split: option.split option.splits)
next
  show "executed_valid Math_exp s \<Longrightarrow> executed_valid Math_exp (builder_env rnd x s)" for s x
    by (simp add: executed_valid_def executed_env)
qed

subsection \<open>What the forms let through\<close>

text \<open>A sensor event is placed when its zone is known and has a sensor of its gas type; a permit event when zone and officer are known.\<close>

definition placed_sensor :: "builder_data \<Rightarrow> 'a SensorEventDraft_scheme \<Rightarrow> bool" where
  "placed_sensor d e \<longleftrightarrow>
     se_zone_id e \<in> set (vc_knownZoneIds (page_context d)) \<and>
     (case map_of (vc_zoneGasTypes (page_context d)) (se_zone_id e) of None \<Rightarrow> False | Some gs \<Rightarrow> se_gas_type e \<in> set gs)"

definition placed_permit :: "builder_data \<Rightarrow> 'a PermitEventDraft_scheme \<Rightarrow> bool" where
  "placed_permit d e \<longleftrightarrow>
     pe_zone_id e \<in> set (vc_knownZoneIds (page_context d)) \<and> pe_authorizing_officer_id e \<in> set (vc_knownWorkerIds (page_context d))"

definition draft_placed :: "builder_data \<Rightarrow> builder_state \<Rightarrow> bool" where
  "draft_placed d st \<longleftrightarrow> list_all (placed_sensor d) (bs_sensorEvents st) \<and> list_all (placed_permit d) (bs_permitEvents st)"

definition forms_placed :: "builder_data \<Rightarrow> builder_page \<Rightarrow> bool" where
  "forms_placed d s \<longleftrightarrow>
     bp_data s = d \<and> draft_placed d (bp_draft s) \<and>
     (let f = bp_sensorForm s; g = bp_permitForm s; zones = fst ` set (zone_options d)
      in sf_zoneId f \<in> zones \<and> (sf_gasType f = [] \<or> sf_gasType f \<in> set (availableGasTypes d (sf_zoneId f))) \<and>
         pf_zoneId g \<in> zones \<and>
         (pf_officerId g = [] \<or> pf_officerId g \<in> set (vc_knownWorkerIds (page_context d))))"

lemma known_zones: "z \<noteq> [] \<Longrightarrow> z \<in> fst ` set (zone_options d) \<longleftrightarrow> z \<in> set (vc_knownZoneIds (page_context d)) \<and> z \<noteq> []"
  by (auto simp: zone_options_def page_context_def validation_context_def Let_def image_image)

lemma known_workers:
  "set (vc_knownWorkerIds (page_context d)) = wk_worker_id ` set (case bd_workers d of Some ws \<Rightarrow> ws | None \<Rightarrow> [])"
  by (simp add: page_context_def validation_context_def Let_def split: option.split)

lemma placed_truncate [simp]:
  "placed_sensor d (e\<lparr>se_sim_time := t\<rparr>) = placed_sensor d e" "placed_sensor d (e\<lparr>se_duration_minutes := u\<rparr>) = placed_sensor d e"
  "placed_permit d (p\<lparr>pe_sim_time := t\<rparr>) = placed_permit d p" "placed_permit d (p\<lparr>pe_duration_minutes := u\<rparr>) = placed_permit d p"
  by (simp_all add: placed_sensor_def placed_permit_def split: option.split)

lemma draft_placed_edits [inv_step]:
  "draft_placed d st \<Longrightarrow> draft_placed d (moveEvent i t st)" "draft_placed d st \<Longrightarrow> draft_placed d (resizeEvent i u st)"
  "draft_placed d st \<Longrightarrow> draft_placed d (deleteEvent i st)"
  by (auto simp: draft_placed_def moveEvent_def resizeEvent_def deleteEvent_def list_all_iff)

lemma draft_placed_pointer: "draft_placed d st \<Longrightarrow> draft_placed d (snd (editor_apply (dr, st) step))"
  by (cases step) (auto simp: handlePointerMove_def Let_def inv_step split: option.split drag_mode.split)

lemma draft_placed_add:
  "draft_placed d (addSensorEvent i e st) \<longleftrightarrow> draft_placed d st \<and> placed_sensor d e"
  "draft_placed d (addPermitEvent i p st) \<longleftrightarrow> draft_placed d st \<and> placed_permit d p"
  by (auto simp: draft_placed_def addSensorEvent_def addPermitEvent_def placed_sensor_def placed_permit_def
      SensorEventDraft.defs PermitEventDraft.defs split: option.splits)

lemma sensor_form_placed:
  assumes "forms_placed d s" "sf_zoneId (bp_sensorForm s) \<noteq> []" "sf_gasType (bp_sensorForm s) \<noteq> []"
  shows "placed_sensor d (sensor_event (bp_sensorForm s))"
  using assms by (cases "map_of (vc_zoneGasTypes (page_context d)) (sf_zoneId (bp_sensorForm s))")
    (auto simp: forms_placed_def Let_def placed_sensor_def sensor_event_def known_zones availableGasTypes_def)

lemma permit_form_placed:
  assumes "forms_placed d s" "pf_zoneId (bp_permitForm s) \<noteq> []" "pf_officerId (bp_permitForm s) \<noteq> []"
  shows "placed_permit d (permit_event (bp_permitForm s))"
  using assms by (auto simp: forms_placed_def Let_def placed_permit_def permit_event_def known_zones)

lemma builder_update_fields:
  "bp_data (builder_update hz rnd e s) = bp_data s" "bp_draft (builder_update hz rnd e s) = update_draft rnd e s"
  "bp_sensorForm (builder_update hz rnd e s) = update_sensor_form e (bp_sensorForm s)"
  "bp_permitForm (builder_update hz rnd e s) = update_permit_form e (bp_permitForm s)"
  by (cases e; simp add: builder_update_def Let_def send_validate_def send_execute_def exportDraft_def split: option.split)+

lemma offered_by:
  assumes "e \<in> offers (builder_view hz Math_exp s)"
  shows "e \<in> offered (details_view (bp_draft s)) \<union> offered (SensorEventForm (bp_data s) (bp_sensorForm s))
     \<union> offered (PermitEventForm (bp_data s) (bp_permitForm s)) \<union> offered (equipment_view (bp_data s) (bp_equipmentZoneId s))
     \<union> offered (TimelineEditor (timelineEvents (bp_draft s))) \<union> {Validate, Execute, Export_Draft}"
  using assms by (auto simp: builder_view_def Let_def offered_validation offered_execute split: option.splits if_splits)

lemma draft_placed_update:
  assumes "forms_placed d s" "e \<in> offers (builder_view hz Math_exp s)"
  shows "draft_placed d (update_draft rnd e s)"
proof -
  have st: "draft_placed d (bp_draft s)" using assms(1) by (simp add: forms_placed_def)
  have keep: "draft_placed d st' \<longleftrightarrow> draft_placed d st''"
    if "bs_sensorEvents st' = bs_sensorEvents st''" "bs_permitEvents st' = bs_permitEvents st''" for st' st'' :: builder_state
    using that by (simp add: draft_placed_def)
  show ?thesis
  proof (cases e)
    case Add_Sensor
    then have "sf_zoneId (bp_sensorForm s) \<noteq> []" "sf_gasType (bp_sensorForm s) \<noteq> []"
      using offered_by[OF assms(2)] by (auto simp: builder_offers split: if_splits)
    from sensor_form_placed[OF assms(1) this] st show ?thesis by (simp add: update_draft_def Add_Sensor draft_placed_add)
  next
    case Add_Permit
    then have "pf_zoneId (bp_permitForm s) \<noteq> []" "pf_officerId (bp_permitForm s) \<noteq> []"
      using offered_by[OF assms(2)] by (auto simp: builder_offers split: if_splits)
    from permit_form_placed[OF assms(1) this] st show ?thesis by (simp add: update_draft_def Add_Permit draft_placed_add)
  qed (use st in \<open>simp_all add: update_draft_def inv_step keep[of "_\<lparr>bs_title := _\<rparr>" "bp_draft s"]
        keep[of "_\<lparr>bs_description := _\<rparr>" "bp_draft s"] keep[of "_\<lparr>bs_seed := _\<rparr>" "bp_draft s"]
        keep[of "_\<lparr>bs_startTime := _\<rparr>" "bp_draft s"]\<close>)
qed

lemma forms_placed_update:
  assumes "forms_placed d s" "e \<in> offers (builder_view hz Math_exp s)"
  shows "forms_placed d (builder_update hz rnd e s)"
proof -
  have data: "bp_data s = d" using assms(1) by (simp add: forms_placed_def)
  have "(let f = update_sensor_form e (bp_sensorForm s); g = update_permit_form e (bp_permitForm s); zones = fst ` set (zone_options d)
      in sf_zoneId f \<in> zones \<and> (sf_gasType f = [] \<or> sf_gasType f \<in> set (availableGasTypes d (sf_zoneId f))) \<and>
         pf_zoneId g \<in> zones \<and> (pf_officerId g = [] \<or> pf_officerId g \<in> set (vc_knownWorkerIds (page_context d))))"
    using assms(1) offered_by[OF assms(2), unfolded data] unfolding forms_placed_def Let_def
    by (cases e) (auto simp: update_sensor_form_def update_permit_form_def builder_offers known_workers split: if_splits)
  with draft_placed_update[OF assms] show ?thesis by (simp add: forms_placed_def builder_update_fields data)
qed

subsection \<open>The Execute button\<close>

lemma no_buttons:
  assumes "offered n = {}"
  shows "button_events label n = []"
  using buttons_offered[of label n] assms by simp

lemma other_buttons:
  "button_events ''Execute Scenario'' (details_view st) = []" "button_events ''Execute Scenario'' (SensorEventForm d f) = []"
  "button_events ''Execute Scenario'' (PermitEventForm d g) = []" "button_events ''Execute Scenario'' (equipment_view d z) = []"
  "button_events ''Execute Scenario'' (TimelineEditor es) = []" "button_events ''Execute Scenario'' (validation_view errors m) = []"
proof -
  have bars: "concat (map (button_events ''Execute Scenario'') (map (\<lambda>(index, e). timeline_bar index e) (enumerate n es))) = []" for n
    by (induction es arbitrary: n) (simp_all add: timeline_bar_def utf8_times_def)
  have errs: "button_events ''Execute Scenario'' (error_list xs :: builder_event node) = []" for xs
    by (rule no_buttons) (auto simp: error_list_def offers_map)
  have item [simp]: "button_events ''Execute Scenario'' (equipment_item x :: builder_event node) = []" for x
    by (simp add: equipment_item_def strong_def)
  have params: "concat (map (button_events ''Execute Scenario'') (map (\<lambda>pn. el ''label'' [Field (l pn) (v pn) (k pn)]) pns :: builder_event node list)) = []"
    for l v k pns by (induction pns) simp_all
  show "button_events ''Execute Scenario'' (details_view st) = []" by (simp add: details_view_def number_field_def)
  show "button_events ''Execute Scenario'' (SensorEventForm d f) = []"
    using params by (simp add: SensorEventForm_def number_field_def)
  show "button_events ''Execute Scenario'' (PermitEventForm d g) = []" by (simp add: PermitEventForm_def number_field_def)
  show "button_events ''Execute Scenario'' (equipment_view d z) = []"
    by (simp add: equipment_view_def Let_def cond_def)
  show "button_events ''Execute Scenario'' (TimelineEditor es) = []" using bars by (simp add: TimelineEditor_def)
  show "button_events ''Execute Scenario'' (validation_view errors m) = []"
    by (cases "mu_data m") (simp_all add: validation_view_def errs cond_def)
qed

lemma press_execute:
  assumes "builder_draft hz (bp_draft s) = Some draft" "clientErrors Math_exp s draft = []" "\<not> mu_isPending (bp_execute s)"
  shows "press (Click ''Execute Scenario'' 0) (builder_view hz Math_exp s) = Some Execute"
proof -
  have "button_events ''Execute Scenario'' (preview_view zones draft :: builder_event node) = []" for zones
    by (rule no_buttons) simp
  with assms other_buttons show ?thesis by (simp add: press_def builder_view_def Let_def execute_view_def)
qed

text \<open>Plant data that only grow: no known zone, gas type of a zone or worker disappears.\<close>

definition gas_types_at :: "builder_data \<Rightarrow> string \<Rightarrow> string list" where
  "gas_types_at d z = (case map_of (vc_zoneGasTypes (page_context d)) z of Some gs \<Rightarrow> gs | None \<Rightarrow> [])"

definition known_grows :: "builder_data \<Rightarrow> builder_data \<Rightarrow> bool" where
  "known_grows d d' \<longleftrightarrow>
     list_all (\<lambda>z. z \<in> set (vc_knownZoneIds (page_context d')) \<and> list_all (\<lambda>g. g \<in> set (gas_types_at d' z)) (gas_types_at d z))
       (vc_knownZoneIds (page_context d)) \<and>
     list_all (\<lambda>w. w \<in> set (vc_knownWorkerIds (page_context d'))) (vc_knownWorkerIds (page_context d))"

text \<open>Runs in which the plant data only grow and no file is imported.\<close>

primrec plant_grows :: "builder_data \<Rightarrow> builder_input input list \<Rightarrow> bool" where
  "plant_grows d [] = True"
| "plant_grows d (i # inputs) =
     (case i of
        User a \<Rightarrow> plant_grows d inputs
      | Env x \<Rightarrow>
          (case x of
             Plant_Data d' \<Rightarrow> known_grows d d' \<and> plant_grows d' inputs
           | Import_File f \<Rightarrow> False
           | _ \<Rightarrow> plant_grows d inputs))"

lemma placed_sensor_iff:
  "placed_sensor d e \<longleftrightarrow> se_zone_id e \<in> set (vc_knownZoneIds (page_context d)) \<and> se_gas_type e \<in> set (gas_types_at d (se_zone_id e))"
  by (simp add: placed_sensor_def gas_types_at_def split: option.split)

lemma availableGasTypes_at: "availableGasTypes d z = (if z = [] then [] else gas_types_at d z)"
  by (simp add: availableGasTypes_def gas_types_at_def)

lemma placed_grows:
  assumes "known_grows d d'"
  shows "placed_sensor d e \<Longrightarrow> placed_sensor d' e" "placed_permit d p \<Longrightarrow> placed_permit d' p"
  using assms by (auto simp: known_grows_def list_all_iff placed_sensor_iff placed_permit_def)

lemma forms_grow:
  assumes grow: "known_grows d d'" and s: "forms_placed d s"
  shows "forms_placed d' (s\<lparr>bp_data := d'\<rparr>)"
proof -
  have zones: "z \<in> fst ` set (zone_options d) \<Longrightarrow> z \<in> fst ` set (zone_options d')" for z
    using grow known_zones[of z d] known_zones[of z d'] by (cases "z = []") (auto simp: known_grows_def list_all_iff zone_options_def)
  have gas: "g \<in> set (availableGasTypes d' z)" if "z \<in> fst ` set (zone_options d)" "g \<in> set (availableGasTypes d z)" for g z
    using that grow known_zones[of z d] by (auto simp: availableGasTypes_at known_grows_def list_all_iff split: if_splits)
  have "list_all (placed_sensor d') (bs_sensorEvents (bp_draft s))" "list_all (placed_permit d') (bs_permitEvents (bp_draft s))"
    using s placed_grows[OF grow] by (auto simp: forms_placed_def draft_placed_def list_all_iff)
  moreover have "w \<in> set (vc_knownWorkerIds (page_context d')) " if "w \<in> set (vc_knownWorkerIds (page_context d))" for w
    using that grow by (simp add: known_grows_def list_all_iff)
  moreover have parts: "sf_zoneId (bp_sensorForm s) \<in> fst ` set (zone_options d)" "pf_zoneId (bp_permitForm s) \<in> fst ` set (zone_options d)"
    "sf_gasType (bp_sensorForm s) = [] \<or> sf_gasType (bp_sensorForm s) \<in> set (availableGasTypes d (sf_zoneId (bp_sensorForm s)))"
    "pf_officerId (bp_permitForm s) = [] \<or> pf_officerId (bp_permitForm s) \<in> set (vc_knownWorkerIds (page_context d))"
    using s by (simp_all add: forms_placed_def Let_def)
  ultimately show ?thesis
    unfolding forms_placed_def draft_placed_def Let_def using zones[OF parts(1)] zones[OF parts(2)] gas[OF parts(1)] by simp blast
qed

lemma forms_placed_open: "forms_placed d (builder_open d)"
  by (simp add: forms_placed_def builder_open_def draft_placed_def builder_start_def sensor_form_start_def permit_form_start_def
      zone_options_def)

lemma forms_placed_data: "forms_placed d s \<Longrightarrow> bp_data s = d"
  by (simp add: forms_placed_def)

text \<open>One step in such a run: what an input leaves of the invariant, for the plant data then on the page.\<close>

lemma forms_placed_env:
  assumes "forms_placed d s"
  shows "case x of
      Plant_Data d' \<Rightarrow> known_grows d d' \<longrightarrow> forms_placed d' (builder_env rnd x s)
    | Import_File f \<Rightarrow> True
    | _ \<Rightarrow> forms_placed d (builder_env rnd x s)"
proof (cases x)
  case (Pointer step)
  obtain dr st where e: "editor_apply (bp_dragging s, bp_draft s) step = (dr, st)" by force
  then have "draft_placed d st"
    using draft_placed_pointer[of d "bp_draft s" "bp_dragging s" step] assms by (simp add: forms_placed_def)
  then show ?thesis using assms Pointer e by (simp add: builder_env_def forms_placed_def)
next
  case (Plant_Data d')
  then show ?thesis using forms_grow[OF _ assms] by (simp add: builder_env_def)
qed (use assms in \<open>simp_all add: builder_env_def forms_placed_def\<close>)

lemma forms_placed_run:
  "plant_grows d inputs \<Longrightarrow> forms_placed d s \<Longrightarrow>
     forms_placed (bp_data (foldl (builder_step hz Math_exp rnd) s inputs)) (foldl (builder_step hz Math_exp rnd) s inputs)"
proof (induction inputs arbitrary: d s)
  case Nil
  then show ?case by (simp add: forms_placed_data)
next
  case (Cons i inputs)
  show ?case
  proof (cases i)
    case (User a)
    then have "forms_placed d (builder_step hz Math_exp rnd s i)"
      using Cons.prems(2) forms_placed_update[OF Cons.prems(2) press_offers]
      by (auto simp: app_step_def split: option.split)
    then show ?thesis using Cons.IH[of d] Cons.prems(1) User by simp
  next
    case (Env x)
    have run: "foldl (builder_step hz Math_exp rnd) s (i # inputs) = foldl (builder_step hz Math_exp rnd) (builder_env rnd x s) inputs"
      by (simp add: app_step_def Env)
    show ?thesis
      unfolding run using Cons.IH[of _ "builder_env rnd x s"] Cons.prems(1) forms_placed_env[OF Cons.prems(2), where x = x and rnd = rnd] Env
      by (cases x) auto
  qed
qed

subsection \<open>Adding an event\<close>

text \<open>The four actions that add an event, from any state of the page.\<close>

lemma concat_map_nothing: "concat (map (\<lambda>x. []) xs) = []"
  by (induction xs) simp_all

lemma press_sensor_form:
  assumes draft: "builder_draft hz (bp_draft s) = Some draft"
  shows "press (Enter ''Sensor Event Name:'' n) (builder_view hz M s) = Some (Sensor_Name n)"
    and "z \<in> fst ` set (zone_options (bp_data s)) \<Longrightarrow>
      press (Pick ''Sensor Event Zone:'' z) (builder_view hz M s) = Some (Sensor_Zone z)"
    and "sf_zoneId (bp_sensorForm s) \<noteq> [] \<Longrightarrow> g \<in> set (availableGasTypes (bp_data s) (sf_zoneId (bp_sensorForm s))) \<Longrightarrow>
      press (Pick ''Gas type:'' g) (builder_view hz M s) = Some (Sensor_Gas g)"
    and "sf_name (bp_sensorForm s) \<noteq> [] \<Longrightarrow> sf_zoneId (bp_sensorForm s) \<noteq> [] \<Longrightarrow> sf_gasType (bp_sensorForm s) \<noteq> [] \<Longrightarrow>
      press (Click ''Add Sensor Event'' 0) (builder_view hz M s) = Some Add_Sensor"
  by (simp_all add: builder_view_def draft press_def details_view_def SensorEventForm_def number_field_def Let_def image_image
      comp_def concat_map_nothing)

lemma sensor_form_adds:
  assumes "builder_draft hz (bp_draft s) = Some draft" and "z \<in> fst ` set (zone_options (bp_data s))" and "z \<noteq> []"
    and "g \<in> set (availableGasTypes (bp_data s) z)" and "g \<noteq> []" and "n \<noteq> []"
  shows "bp_draft (foldl (builder_step hz M rnd) s
      (map User [Enter ''Sensor Event Name:'' n, Pick ''Sensor Event Zone:'' z, Pick ''Gas type:'' g, Click ''Add Sensor Event'' 0])) =
    addSensorEvent (newId rnd ''sensor'' (bp_drawn_ids s))
      (sensor_event ((bp_sensorForm s)\<lparr>sf_name := n, sf_zoneId := z, sf_gasType := g\<rparr>)) (bp_draft s)"
  using assms by (simp add: app_step_def press_sensor_form[where draft = draft] builder_update_def update_sensor_form_def update_draft_def Let_def)

subsection \<open>Properties\<close>

text \<open>
  (C10) Only valid drafts are ever executed. Whatever the user types, adds, drags, deletes, imports and clicks, and whatever answers and plant
  data arrive in between, every draft that was sent for execution satisfied the declarative predicate \<open>valid_draft\<close> for the
  plant data on the page when it was sent, and while an execution is pending no other can be started. This holds as long as every
  imported file that was not refused has only values of the types a draft declares; the import does not check them, and an incomplete event
  is executed (\<open>incomplete_permit_passes\<close>).
\<close>

theorem only_valid_drafts_executed:
  "(let s = foldl (builder_step hz Math_exp rnd) (builder_open d) inputs
    in if bp_untyped s then True
       else list_all (\<lambda>(plant, draft). valid_draft Math_exp (page_context plant) draft) (bp_executed s) \<and>
            (if mu_isPending (bp_execute s) then Execute \<notin> offers (builder_view hz Math_exp s) else True))"
proof -
  have "executed_valid Math_exp (foldl (builder_step hz Math_exp rnd) (builder_open d) inputs)"
    by (rule builder_ui.inv_reachable)
  then show ?thesis by (auto simp: Let_def executed_valid_def execute_offered split: option.splits)
qed

text \<open>
  (C18) The forms do not misplace an event. In every run without imported files in which plant data may arrive at any time but nothing
  known disappears from them, every event of the draft, moved, resized or as it was added, names a known zone with a sensor of its gas
  type, or a known zone and a known officer, for the plant data now on the page. What client-side validation can still
  find in such a draft are names, times, curves and officers who are not assigned.
\<close>

theorem form_events_placed:
  "(let s = foldl (builder_step hz Math_exp rnd) (builder_open d) inputs; st = bp_draft s
    in if plant_grows d inputs
       then list_all (placed_sensor (bp_data s)) (bs_sensorEvents st) \<and> list_all (placed_permit (bp_data s)) (bs_permitEvents st)
       else True)"
  using forms_placed_run[OF _ forms_placed_open, of d inputs hz Math_exp rnd]
  by (auto simp: Let_def forms_placed_def draft_placed_def)

text \<open>A page that opens without data, gets them, and whose user adds a leak.\<close>

definition sample_plant :: builder_data where
  "sample_plant =
     \<lparr>bd_zones = Some [\<lparr>zn_zone_id = ''z1'', zn_name = ''Tank Farm'', zn_plant_section = [], zn_oisd_area_classification = []\<rparr>],
      bd_workers = Some [], bd_options = None,
      bd_sensors = (\<lambda>z. Some [\<lparr>si_sensor_id = ''s1'', si_zone_id = z, si_gas_type = ''H2S'', si_alarm_threshold = 10, si_last_calibrated_at = None\<rparr>]),
      bd_equipment = (\<lambda>z. None)\<rparr>"

definition leak_run :: "builder_input input list" where
  "leak_run =
     Env (Plant_Data sample_plant) #
     map User [Enter ''Sensor Event Name:'' ''leak'', Pick ''Sensor Event Zone:'' ''z1'', Pick ''Gas type:'' ''H2S'', Click ''Add Sensor Event'' 0]"

definition empty_plant :: builder_data where
  "empty_plant = \<lparr>bd_zones = None, bd_workers = None, bd_options = None, bd_sensors = (\<lambda>z. None), bd_equipment = (\<lambda>z. None)\<rparr>"

lemma leak_grows: "plant_grows empty_plant leak_run" by code_simp

theorem form_events_placed_witness:
  "plant_grows empty_plant leak_run \<and>
   (let s = foldl (builder_step utc_zone (\<lambda>x. x) show_nat) (builder_open empty_plant) leak_run
    in list_all (placed_sensor (bp_data s)) (bs_sensorEvents (bp_draft s)) \<and>
       map (\<lambda>e. (se_name e, se_zone_id e, se_gas_type e)) (bs_sensorEvents (bp_draft s)) = [(''leak'', ''z1'', ''H2S'')])"
proof -
  let ?s = "builder_env show_nat (Plant_Data sample_plant) (builder_open empty_plant)"
  have "Date_getTime utc_zone ''2026-08-01T09:00'' = Some 1785574800000" by code_simp
  then obtain draft where draft: "builder_draft utc_zone (bp_draft ?s) = Some draft"
    by (simp add: builder_env_def builder_open_def builder_draft_def builder_start_def)
  have data: "bp_data ?s = sample_plant" by (simp add: builder_env_def)
  have "gas_types_at sample_plant ''z1'' = [''H2S'']" "''z1'' \<in> fst ` set (zone_options sample_plant)" by code_simp+
  then have z1: "''z1'' \<in> fst ` set (zone_options (bp_data ?s))" "''H2S'' \<in> set (availableGasTypes (bp_data ?s) ''z1'')"
    by (simp_all add: data availableGasTypes_at)
  have "bp_draft (foldl (builder_step utc_zone (\<lambda>x. x) show_nat) (builder_open empty_plant) leak_run) =
    addSensorEvent (newId show_nat ''sensor'' (bp_drawn_ids ?s))
      (sensor_event ((bp_sensorForm ?s)\<lparr>sf_name := ''leak'', sf_zoneId := ''z1'', sf_gasType := ''H2S''\<rparr>)) (bp_draft ?s)"
    using sensor_form_adds[OF draft z1(1) _ z1(2), of "''leak''" "\<lambda>x. x" show_nat] by (simp add: leak_run_def app_step_def)
  moreover have "bs_sensorEvents (bp_draft ?s) = []"
    by (simp add: builder_env_def builder_open_def builder_start_def)
  ultimately show ?thesis
    using form_events_placed[where d = empty_plant and inputs = leak_run and hz = utc_zone and Math_exp = "\<lambda>x. x" and rnd = show_nat] leak_grows
    by (simp add: Let_def addSensorEvent_def sensor_event_def SensorEventDraft.defs)
qed

text \<open>
  The condition on the plant data is needed: when a zone disappears while a form holds it, the form still adds the event, because its
  button asks only that the fields are not empty.
\<close>

theorem stale_form_misplaces:
  "(let form = (sensor_form_start [])\<lparr>sf_name := ''leak'', sf_zoneId := ''z1'', sf_gasType := ''H2S''\<rparr>;
        gone = sample_plant\<lparr>bd_zones := Some []\<rparr>;
        s = (builder_open sample_plant)\<lparr>bp_sensorForm := form, bp_data := gone\<rparr>
    in Add_Sensor \<in> offered (SensorEventForm gone form) \<and>
       \<not> list_all (placed_sensor gone) (bs_sensorEvents (update_draft rnd Add_Sensor s)))"
  by (simp add: Let_def builder_offers update_draft_def addSensorEvent_def builder_open_def builder_start_def placed_sensor_def
      page_context_def validation_context_def sensor_event_def SensorEventDraft.defs)

text \<open>
  A refused import is not without effect: on a file whose \<open>sensor_events\<close> is not an array the page alerts that it is no valid definition,
  and keeps its events, but title, description, seed and start time are already those of the file.
\<close>

theorem refused_import_changes_details:
  "(case read_definition file of
      Bad_Sensor_Events parsed \<Rightarrow>
        (let s' = builder_env rnd (Import_File file) s
         in bp_alerts s' = bp_alerts s + 1 \<and> bs_sensorEvents (bp_draft s') = bs_sensorEvents (bp_draft s) \<and>
            bs_permitEvents (bp_draft s') = bs_permitEvents (bp_draft s) \<and>
            bs_title (bp_draft s') = (case id_title parsed of Some t \<Rightarrow> t | None \<Rightarrow> ''Imported Scenario'') \<and>
            bs_seed (bp_draft s') = (case id_seed parsed of Some n \<Rightarrow> n | None \<Rightarrow> 1))
    | _ \<Rightarrow> True)"
  by (simp add: builder_env_def handle_import_def imported_def importDraft_def Let_def split: import_file.split)

text \<open>
  Execution does not wait for the backend's validation: on the page as it opens, one click on Execute sends the (empty) draft,
  with no validation requested before.
\<close>

theorem execute_without_backend_validation:
  "(let s = foldl (builder_step utc_zone Math_exp rnd) (builder_open d) [User (Click ''Execute Scenario'' 0)]
    in bp_validated s = [] \<and> mu_isPending (bp_execute s) \<and>
       map (\<lambda>(plant, draft). (sd_title draft, sd_sensor_events draft, sd_permit_events draft)) (bp_executed s) = [(''My Scenario'', [], [])])"
proof -
  have "Date_getTime utc_zone ''2026-08-01T09:00'' = Some 1785574800000" by code_simp
  then obtain draft where draft: "builder_draft utc_zone builder_start = Some draft"
    by (simp add: builder_draft_def builder_start_def)
  then have fields: "sd_title draft = ''My Scenario''" "sd_sensor_events draft = []" "sd_permit_events draft = []"
    by (auto simp: builder_draft_def builder_start_def)
  then have "clientErrors Math_exp (builder_open d) draft = []"
    by (simp add: clientErrors_def validateScenarioDraft_valid valid_draft_def event_names_def)
  with draft have "press (Click ''Execute Scenario'' 0) (builder_view utc_zone Math_exp (builder_open d)) = Some Execute"
    by (intro press_execute) (simp_all add: builder_open_def idle_mutation_def)
  then show ?thesis using draft fields
    by (simp add: app_step_def builder_update_def send_execute_def builder_open_def pending_mutation_def Let_def)
qed

end
