(* ===== verification/Map_View.thy ===== *)
theory Map_View
  imports Panels Dual_Views
begin

section \<open>The plant map and the zone inspector as components\<close>

text \<open>
  \<open>components/plant/PlantMap.tsx\<close> and \<open>components/plant/ZoneInspectorDrawer.tsx\<close> as trees. \<open>Plant_View\<close> has the marks of a
  zone with their coordinates; here are the shapes of the site plan, the glyphs, the legend, the hover panel, and the zones
  as controls: clicking a zone (or pressing Enter or the space bar on it) raises the event the page hands in.
  The pointer, which enters and leaves zones, belongs to the environment of a page. The inspector lists what its queries
  delivered for the zone. The lemmas show that every shape lies within the drawing, that exactly the zones on the map
  can be clicked, each under its own name, and that the inspector lists exactly the workers of its zone.
\<close>

subsection \<open>Shapes\<close>

datatype svg_shape =
    Rect number number number number number
  | Ellipse number number number number
  | Circle number number number
  | Line number number number number

definition tank_shapes :: "ZoneLayout \<Rightarrow> nat \<Rightarrow> svg_shape list" where
  "tank_shapes l i =
     (let tankWidth = nsub (ndiv (zy_width l) 2) 8; x = nadd (zy_x l) (nmul (of_nat i) (nadd tankWidth 16))
      in [Rect x (nadd (zy_y l) 20) tankWidth (nsub (zy_height l) 20) 6,
          Ellipse (nadd x (ndiv tankWidth 2)) (nadd (zy_y l) 20) (ndiv tankWidth 2) 10])"

definition control_shapes :: "ZoneLayout \<Rightarrow> svg_shape list" where
  "control_shapes l =
     (let middle = nadd (zy_x l) (ndiv (zy_width l) 2)
      in [Rect (zy_x l) (nadd (zy_y l) 15) (zy_width l) (nsub (zy_height l) 15) 4,
          Line middle (nadd (zy_y l) 15) middle (zy_y l), Circle middle (zy_y l) 3])"

definition dock_shapes :: "ZoneLayout \<Rightarrow> svg_shape list" where
  "dock_shapes l =
     Rect (zy_x l) (zy_y l) (zy_width l) (zy_height l) 4
     # map (\<lambda>f. Line (nadd (zy_x l) (nmul (zy_width l) f)) (nadd (zy_y l) (zy_height l))
                  (nadd (nadd (zy_x l) (nmul (zy_width l) f)) 14) (zy_y l))
         [fl (2 / 10), fl (4 / 10), fl (6 / 10), fl (8 / 10)]"

definition building_shapes :: "ZoneLayout \<Rightarrow> svg_shape list" where
  "building_shapes l =
     [Rect (zy_x l) (zy_y l) (zy_width l) (zy_height l) 4, Rect (nadd (zy_x l) 12) (nadd (zy_y l) 16) 16 16 0,
      Rect (nsub (nadd (zy_x l) (zy_width l)) 28) (nadd (zy_y l) 16) 16 16 0]"

definition zone_shapes :: "ZoneLayout \<Rightarrow> svg_shape list" where
  "zone_shapes l =
     (case zy_shape l of
        TankShape \<Rightarrow> concat (map (tank_shapes l) [0, 1])
      | ControlShape \<Rightarrow> control_shapes l
      | DockShape \<Rightarrow> dock_shapes l
      | BuildingShape \<Rightarrow> building_shapes l)"

fun shape_box :: "svg_shape \<Rightarrow> number \<times> number \<times> number \<times> number" where
  "shape_box (Rect x y w h r) = (x, y, x + w, y + h)"
| "shape_box (Ellipse cx cy rx ry) = (cx - rx, cy - ry, cx + rx, cy + ry)"
| "shape_box (Circle cx cy r) = (cx - r, cy - r, cx + r, cy + r)"
| "shape_box (Line x1 y1 x2 y2) = (min x1 x2, min y1 y2, max x1 x2, max y1 y2)"

subsection \<open>Nodes\<close>

definition num_attr :: "string \<Rightarrow> number \<Rightarrow> string \<times> string" where
  "num_attr name v = (name, num_toString v)"

fun shape_node :: "(string \<times> string) list \<Rightarrow> svg_shape \<Rightarrow> 'e node" where
  "shape_node c (Rect x y w h r) =
     El ''rect'' (c @ [num_attr ''x'' x, num_attr ''y'' y, num_attr ''width'' w, num_attr ''height'' h, num_attr ''rx'' r]) []"
| "shape_node c (Ellipse cx cy rx ry) =
     El ''ellipse'' (c @ [num_attr ''cx'' cx, num_attr ''cy'' cy, num_attr ''rx'' rx, num_attr ''ry'' ry]) []"
| "shape_node c (Circle cx cy r) = El ''circle'' (c @ [num_attr ''cx'' cx, num_attr ''cy'' cy, num_attr ''r'' r]) []"
| "shape_node c (Line x1 y1 x2 y2) =
     El ''line'' (c @ [num_attr ''x1'' x1, num_attr ''y1'' y1, num_attr ''x2'' x2, num_attr ''y2'' y2]) []"

definition is_filled :: "ZoneShape \<Rightarrow> nat \<Rightarrow> bool" where
  "is_filled shape i = (case shape of TankShape \<Rightarrow> True | _ \<Rightarrow> i = 0)"

definition ZoneShapeSvg :: "ZoneLayout \<Rightarrow> string \<Rightarrow> 'e node" where
  "ZoneShapeSvg l tier =
     el ''g'' (map (\<lambda>(i, s). shape_node (if is_filled (zy_shape l) i then [(''class'', ''plant-zone-fill tier-fill-'' @ tier)] else []) s)
       (enumerate 0 (zone_shapes l)))"

definition translate :: "number \<Rightarrow> number \<Rightarrow> string \<times> string" where
  "translate x y = (''transform'', ''translate('' @ num_toString x @ '', '' @ num_toString y @ '')'')"

definition icon_class :: "string \<Rightarrow> string \<times> string" where
  "icon_class kind = (''class'', ''plant-zone-icon plant-zone-icon-'' @ kind)"

definition path_node :: "string \<Rightarrow> 'e node" where
  "path_node d = El ''path'' [(''d'', d)] []"

definition WorkerGlyph :: "number \<Rightarrow> number \<Rightarrow> number \<Rightarrow> 'e node" where
  "WorkerGlyph x y n =
     El ''g'' [icon_class ''worker'', translate x y]
       [shape_node [] (Circle 0 (- 6) 6), path_node ''M -8 10 Q 0 -4 8 10 Z'', el ''text'' [Text (num_toString n)]]"

definition glyph_name :: "PermitGlyph \<Rightarrow> string" where
  "glyph_name g =
     (case g of HotWork \<Rightarrow> ''hot_work'' | ConfinedSpace \<Rightarrow> ''confined_space'' | Isolation \<Rightarrow> ''isolation''
      | LineBreak \<Rightarrow> ''line_break'' | Generic \<Rightarrow> ''generic'')"

definition glyph_title :: "string \<Rightarrow> string" where
  "glyph_title permitType =
     (case permitTypeGlyph permitType of
        HotWork \<Rightarrow> ''Hot Work''
      | ConfinedSpace \<Rightarrow> ''Confined Space''
      | Isolation \<Rightarrow> ''Isolation (Electrical)''
      | LineBreak \<Rightarrow> ''Line Break''
      | Generic \<Rightarrow> formatPermitType permitType) @ '' authorization active''"

definition glyph_drawing :: "PermitGlyph \<Rightarrow> 'e node list" where
  "glyph_drawing g =
     (case g of
        HotWork \<Rightarrow> [path_node ''M 0 -11 C 4 -6 4 -2 1 0 C 3 -1 4 2 0 5 C -4 2 -3 -1 -1 0 C -4 -2 -3 -7 0 -11 Z'']
      | ConfinedSpace \<Rightarrow> [shape_node [] (Ellipse 0 (- 3) 7 3), path_node ''M -7 -3 L -4 6 L 4 6 L 7 -3'']
      | Isolation \<Rightarrow> [path_node ''M 1 -11 L -6 1 L -1 1 L -3 9 L 6 -3 L 1 -3 Z'']
      | LineBreak \<Rightarrow>
          [shape_node [] (Line (- 8) 0 (- 2) 0), shape_node [] (Line 2 0 8 0), shape_node [] (Circle (- 2) 0 (fl (16 / 10))),
           shape_node [] (Circle 2 0 (fl (16 / 10)))]
      | Generic \<Rightarrow>
          [shape_node [] (Rect (- 7) (- 9) 14 18 2), shape_node [] (Rect (- 3) (- 11) 6 4 1),
           shape_node [] (Line (- 4) (- 2) 4 (- 2)), shape_node [] (Line (- 4) 2 4 2)])"

definition PermitGlyphIcon :: "number \<Rightarrow> number \<Rightarrow> string \<Rightarrow> 'e node" where
  "PermitGlyphIcon x y permitType =
     El ''g'' [icon_class (''permit plant-zone-icon-permit-'' @ glyph_name (permitTypeGlyph permitType)), translate x y]
       (el ''title'' [Text (glyph_title permitType)] # glyph_drawing (permitTypeGlyph permitType))"

definition SensorGlyph :: "number \<Rightarrow> number \<Rightarrow> string \<Rightarrow> number \<Rightarrow> 'e node" where
  "SensorGlyph x y gasType risk =
     El ''g'' [icon_class (''sensor plant-zone-icon-sensor-'' @ risk_level risk), translate x y]
       [el ''title'' [Text (gasType @ '' sensor - agent risk '' @ toFixed risk 0)], shape_node [] (Circle 0 0 (15 / 2)),
        path_node ''M -4 2 L -1 -3 L 1 0 L 4 -4'', el ''text'' [Text gasType]]"

definition EquipmentGlyph :: "number \<Rightarrow> number \<Rightarrow> number \<Rightarrow> 'e node" where
  "EquipmentGlyph x y risk =
     El ''g'' [icon_class (''equipment plant-zone-icon-equipment-'' @ risk_level risk), translate x y]
       (shape_node [] (Circle 0 0 7) # shape_node [] (Circle 0 0 (5 / 2))
        # map (\<lambda>angle. shape_node [(''transform'', ''rotate('' @ num_toString angle @ '')'')] (Line 0 (- 7) 0 (- (19 / 2))))
            [0, 60, 120, 180, 240, 300])"

subsection \<open>The map\<close>

definition gas_heat :: "ZoneLayout \<Rightarrow> PlantMapZone \<Rightarrow> 'e node list" where
  "gas_heat l z =
     concat (map (\<lambda>m. case m of
         HeatMark cx cy rx ry opacity \<Rightarrow>
           [shape_node [(''class'', ''plant-zone-heat plant-zone-heat-drift''), (''fill'', ''url(#gas-heat-'' @ pz_zoneId z @ '')''),
              num_attr ''opacity'' opacity] (Ellipse cx cy rx ry)]
       | _ \<Rightarrow> []) (heat_marks l z))"

definition zone_icons :: "ZoneLayout \<Rightarrow> PlantMapZone \<Rightarrow> 'e node list" where
  "zone_icons l z =
     (let x = zy_x l; y = zy_y l; right = nadd (zy_x l) (zy_width l); bottom = nadd (zy_y l) (zy_height l)
      in cond (pz_tier z = ''critical'')
           [shape_node [(''class'', ''plant-zone-critical-pulse'')] (Rect (nsub x 4) (nsub y 4) (nadd (zy_width l) 8) (nadd (zy_height l) 8) 8)]
         @ cond_some (pz_workerCount z) (\<lambda>n. cond (n > 0) [WorkerGlyph (nadd x 14) (nsub y 6) n])
         @ map (\<lambda>(permitIndex, permitType). PermitGlyphIcon (nsub (nsub right 14) (nmul (of_nat permitIndex) 18)) (nsub y 6) permitType)
             (enumerate 0 (case pz_activePermitTypes z of Some ps \<Rightarrow> ps | None \<Rightarrow> []))
         @ cond_some (pz_equipmentRisk z) (\<lambda>r. [EquipmentGlyph (nsub right 14) (nadd bottom 6) r])
         @ (case (pz_gasType z, pz_gasRisk z) of
              (Some g, Some r) \<Rightarrow> [SensorGlyph (nadd x 14) (nadd bottom 6) g r]
            | _ \<Rightarrow> []))"

definition zone_label_texts :: "ZoneLayout \<Rightarrow> PlantMapZone \<Rightarrow> 'e node list" where
  "zone_label_texts l z =
     (let cx = nadd (zy_x l) (ndiv (zy_width l) 2); cy = nadd (nadd (zy_y l) (zy_height l)) 18
      in [El ''text'' [num_attr ''x'' cx, num_attr ''y'' cy] [Text (pz_name z)],
          El ''text'' [num_attr ''x'' cx, num_attr ''y'' (nadd cy 16)] [Text (pz_tier z)]])"

text \<open>A zone: what a click on it raises, if anything, its accessible name and what is drawn.\<close>

definition zone_title :: "PlantMapZone \<Rightarrow> string" where
  "zone_title z = pz_name z @ '': '' @ pz_tier z @ '' ('' @ toFixed (pz_compoundRiskScore z) 1 @ '')''"

definition zone_group :: "(string \<Rightarrow> 'e) option \<Rightarrow> string option \<Rightarrow> nat \<times> PlantMapZone \<Rightarrow> 'e node" where
  "zone_group onZoneClick selectedZoneId iz =
     (let z = snd iz; l = layoutFor (pz_name z) (fst iz);
          attrs = [(''class'', ''plant-zone'' @ (if Some (pz_zoneId z) = selectedZoneId then '' plant-zone-selected'' else [])),
                   (''aria-label'', pz_name z @ '': '' @ pz_tier z @ '', score '' @ toFixed (pz_compoundRiskScore z) 1)];
          content = el ''title'' [Text (zone_title z)] # gas_heat l z @ [ZoneShapeSvg l (pz_tier z)] @ zone_icons l z @ zone_label_texts l z
      in case onZoneClick of
           Some f \<Rightarrow> Button attrs True (f (pz_zoneId z)) content
         | None \<Rightarrow> El ''g'' attrs content)"

definition hover_details :: "(string \<Rightarrow> string) \<Rightarrow> PlantMapZone \<Rightarrow> 'e node list" where
  "hover_details ft z =
     [strong (pz_name z), TierBadge (pz_tier z), el ''span'' [Text (''Score: '' @ toFixed (pz_compoundRiskScore z) 1)],
      el ''span'' [Text (''Confidence: '' @ percent0 (pz_confidence z))], el ''span'' [Text (ft (pz_timestamp z))]]
     @ cond_some (pz_workerCount z) (\<lambda>n. [el ''span'' [Text (''Workers: '' @ num_toString n)]])
     @ map (\<lambda>p. el ''span'' [Text (''Active work authorization: '' @ formatPermitType p)])
         (case pz_activePermitTypes z of Some ps \<Rightarrow> ps | None \<Rightarrow> [])
     @ (case (pz_gasType z, pz_gasRisk z) of
          (Some g, Some r) \<Rightarrow> [el ''span'' [Text (g @ '' sensor risk: '' @ toFixed r 0)]]
        | _ \<Rightarrow> [])"

definition legend_swatch :: "string \<Rightarrow> string \<Rightarrow> 'e node list" where
  "legend_swatch tier label = [El ''span'' [(''class'', ''plant-map-legend-swatch tier-fill-'' @ tier)] [], Text ('' '' @ label)]"

definition legend_glyph :: "string \<Rightarrow> svg_shape \<Rightarrow> string \<Rightarrow> 'e node list" where
  "legend_glyph c s label = [el ''svg'' [El ''g'' [(''class'', c)] [shape_node [] s]], Text label]"

definition PlantMapLegend :: "'e node" where
  "PlantMapLegend =
     El ''div'' [(''aria-label'', ''Plant map legend'')]
       [el ''div'' (legend_swatch ''normal'' ''Normal'' @ legend_swatch ''watch'' ''Watch'' @ legend_swatch ''elevated'' ''Elevated''
          @ legend_swatch ''critical'' ''Critical''),
        el ''div''
          (legend_glyph ''plant-zone-icon-worker'' (Circle 0 (- 3) 3) ''Workers''
           @ legend_glyph ''plant-zone-icon-equipment plant-zone-icon-equipment-normal'' (Circle 0 0 5) ''Equipment''
           @ legend_glyph ''plant-zone-icon-sensor plant-zone-icon-sensor-normal'' (Circle 0 0 5) ''Gas sensor''
           @ legend_glyph ''plant-zone-icon-permit plant-zone-icon-permit-hot_work'' (Circle 0 0 5) ''Active work authorization (shape = type)''),
        El ''span'' [(''title'', ''Not implemented - disclosed as a future integration, not a built feature.'')]
          [Text ''Wind overlay (Roadmap)'']]"

definition gas_gradients :: "PlantMapZone list \<Rightarrow> 'e node" where
  "gas_gradients zones =
     el ''defs'' (map (\<lambda>z. El ''radialGradient'' [(''id'', ''gas-heat-'' @ pz_zoneId z)] [])
       (filter (\<lambda>z. case pz_gasRisk z of Some g \<Rightarrow> g > 0 | None \<Rightarrow> False) zones))"

definition camera_attr :: "PlantMapZone list \<Rightarrow> string option \<Rightarrow> (string \<times> string) list" where
  "camera_attr zones selectedZoneId =
     (let c = cameraTransform (selectedLayout zones selectedZoneId)
      in [(''transform'', ''translate('' @ num_toString (cm_translateX c) @ '', '' @ num_toString (cm_translateY c) @ '') scale(''
             @ num_toString (cm_scale c) @ '')'')])"

definition PlantMap ::
  "(string \<Rightarrow> string) \<Rightarrow> PlantMapZone list \<Rightarrow> (string \<Rightarrow> 'e) option \<Rightarrow> bool \<Rightarrow> string option \<Rightarrow> string option \<Rightarrow> 'e node" where
  "PlantMap ft zones onZoneClick showLegend selectedZoneId hoveredZoneId =
     el ''div''
       ([el ''svg''
           [gas_gradients zones,
            El ''g'' (camera_attr zones selectedZoneId) (map (zone_group onZoneClick selectedZoneId) (enumerate 0 zones))],
         el ''div''
           (case hovered_zone zones hoveredZoneId of
              Some z \<Rightarrow> hover_details ft z
            | None \<Rightarrow> [el ''span'' [Text ''Hover or focus a zone for details '', Text utf8_middot, Text '' click to open it'']])]
        @ cond showLegend [PlantMapLegend])"

subsection \<open>components/plant/ZoneInspectorDrawer.tsx\<close>

text \<open>What its five queries have delivered for the zone, and whether each is still loading.\<close>

record inspector_data =
  in_zones :: "Zone list option"
  in_sensors :: "SensorInfo list option \<times> bool"
  in_equipment :: "EquipmentInfo list option \<times> bool"
  in_workers :: "Worker list option \<times> bool"
  in_permits :: "(number \<times> Permit list) option \<times> bool"

record inspected_zone =
  iz_zoneId :: string
  iz_name :: string
  iz_tier :: string
  iz_compoundRiskScore :: number
  iz_confidence :: number
  iz_timestamp :: string
  iz_isReplaySnapshot :: bool

definition zoneWorkers :: "inspector_data \<Rightarrow> string \<Rightarrow> Worker list" where
  "zoneWorkers d zoneId =
     filter (\<lambda>w. wk_current_zone_id w = Some zoneId) (case fst (in_workers d) of Some ws \<Rightarrow> ws | None \<Rightarrow> [])"

definition loading_text :: "bool \<Rightarrow> 'e node list" where
  "loading_text b = cond b [p_text (''Loading'' @ utf8_ellipsis)]"

definition sensor_item :: "(string \<Rightarrow> string) \<Rightarrow> SensorInfo \<Rightarrow> 'e node" where
  "sensor_item ft x =
     el ''li''
       ([strong (si_gas_type x), Text ('' '' @ utf8_middot @ '' alarm threshold '' @ num_toString (si_alarm_threshold x))]
        @ cond_some (truthy (si_last_calibrated_at x)) (\<lambda>t. [Text ('' '' @ utf8_middot @ '' calibrated '' @ ft t)]))"

definition sensors_section :: "(string \<Rightarrow> string) \<Rightarrow> inspector_data \<Rightarrow> 'e node" where
  "sensors_section ft d =
     (let (sensors, loading) = in_sensors d
      in el ''section''
           (el ''h4'' (Text ''Gas Sensors '' # cond_some sensors (\<lambda>xs. [Text (''('' @ show_nat (length xs) @ '')'')]))
            # loading_text loading
            @ cond_some sensors (\<lambda>xs.
                if length xs = 0 then [p_text ''No sensor monitors this zone.''] else [el ''ul'' (map (sensor_item ft) xs)])))"

definition worker_item :: "Worker \<Rightarrow> 'e node" where
  "worker_item w = el ''li'' [Text (wk_role w @ '' ''), el ''span'' [Text (''('' @ take 8 (wk_worker_id w) @ '')'')]]"

definition workers_section :: "inspector_data \<Rightarrow> string \<Rightarrow> 'e node" where
  "workers_section d zoneId =
     (let ws = zoneWorkers d zoneId; loading = snd (in_workers d)
      in el ''section''
           (el ''h4'' [Text ''Workers '', Text (''('' @ show_nat (length ws) @ '')'')]
            # loading_text loading
            @ cond (\<not> loading \<and> length ws = 0) [p_text ''No workers currently assigned to this zone.'']
            @ cond (length ws > 0) [el ''ul'' (map worker_item ws)]))"

definition inspected_equipment :: "EquipmentInfo \<Rightarrow> 'e node" where
  "inspected_equipment x =
     el ''li''
       (Text (eq_equipment_type x @ '' '' @ utf8_middot @ '' '' @ eq_isolation_status x)
        # cond (eq_maintenance_flag x) [el ''span'' [Text '' Maintenance flagged'']]
        @ cond (eq_loto_confirmed x) [el ''span'' [Text '' LOTO confirmed'']])"

definition equipment_section :: "inspector_data \<Rightarrow> 'e node" where
  "equipment_section d =
     (let (equipment, loading) = in_equipment d
      in el ''section''
           (el ''h4'' (Text ''Equipment '' # cond_some equipment (\<lambda>xs. [Text (''('' @ show_nat (length xs) @ '')'')]))
            # loading_text loading
            @ cond_some equipment (\<lambda>xs.
                if length xs = 0 then [p_text ''No equipment recorded in this zone.''] else [el ''ul'' (map inspected_equipment xs)])))"

definition inspected_permit :: "(string \<Rightarrow> string) \<Rightarrow> Permit \<Rightarrow> 'e node" where
  "inspected_permit ft p =
     El ''li'' [(''class'', ''zone-inspector-permit zone-inspector-permit-'' @ glyph_name (permitTypeGlyph (pm_permit_type p)))]
       [strong (formatPermitType (pm_permit_type p)), Text ('' '' @ utf8_middot @ '' '' @ pm_status p), el ''br'' [],
        Text (ft (pm_issued_at p) @ '' '' @ utf8_arrow @ '' '' @ ft (pm_expires_at p))]"

definition permits_section :: "(string \<Rightarrow> string) \<Rightarrow> inspector_data \<Rightarrow> 'e node" where
  "permits_section ft d =
     (let (permits, loading) = in_permits d
      in el ''section''
           (el ''h4'' (Text ''Work Authorizations '' # cond_some permits (\<lambda>(n, items). [Text (''('' @ num_toString n @ '')'')]))
            # loading_text loading
            @ cond_some permits (\<lambda>(n, items).
                if length items = 0 then [p_text ''No work authorizations recorded in this zone.'']
                else [el ''ul'' (map (inspected_permit ft) items)])))"

definition inspector_links :: "string \<Rightarrow> 'e node" where
  "inspector_links zoneId =
     el ''div''
       [Link (''/zones/'' @ zoneId) [Text (''Zone detail '' @ utf8_arrow)], Link ''/time-machine'' [Text (''Time Machine '' @ utf8_arrow)],
        Link (''/operations?zone='' @ zoneId) [Text (''Operations Center '' @ utf8_arrow)]]"

definition ZoneInspectorDrawer :: "(string \<Rightarrow> string) \<Rightarrow> inspector_data \<Rightarrow> inspected_zone \<Rightarrow> 'e option \<Rightarrow> 'e node" where
  "ZoneInspectorDrawer ft d z onClose =
     (let zoneMeta = Option.bind (in_zones d) (List.find (\<lambda>x. zn_zone_id x = iz_zoneId z))
      in El ''aside'' [(''aria-label'', iz_name z @ '' inspector'')]
           [el ''div''
              (el ''div''
                 (el ''h3'' [Text (iz_name z)]
                  # cond_some zoneMeta (\<lambda>m.
                      [p_text (zn_plant_section m @ '' '' @ utf8_middot @ '' OISD '' @ zn_oisd_area_classification m)]))
               # cond_some onClose (\<lambda>e. [Button [(''aria-label'', ''Close inspector'')] True e [Text utf8_times]])),
            el ''p''
              [TierBadge (iz_tier z), Text ('' '' @ toFixed (iz_compoundRiskScore z) 1 @ '' '' @ utf8_middot @ '' ''
                 @ percent0 (iz_confidence z) @ '' confidence''), el ''br'' [],
               Text (if iz_isReplaySnapshot z then ''Replay tick: '' else ''As of: ''), Text (ft (iz_timestamp z))],
            inspector_links (iz_zoneId z), sensors_section ft d, workers_section d (iz_zoneId z), equipment_section d, permits_section ft d])"

subsection \<open>What the components offer\<close>

text \<open>A component inside a page raises its events through the page's.\<close>

lemma offered_map_node: "offered (map_node f n) = f ` offered n"
  by (induction n) (auto simp: offers_def)

lemma offers_map_node: "offers (map (map_node f) ns) = f ` offers ns"
  by (induction ns) (simp_all add: offered_map_node image_Un)

lemma offered_shape_node [simp]: "offered (shape_node c s) = {}"
  by (cases s) simp_all

lemma offers_glyph [simp]: "offers (glyph_drawing g) = {}"
  by (cases g) (simp_all add: glyph_drawing_def path_node_def)

lemma no_controls_icons [simp]:
  "offered (WorkerGlyph x y n) = {}" "offered (PermitGlyphIcon x y p) = {}" "offered (SensorGlyph x y g r) = {}"
  "offered (EquipmentGlyph x y r) = {}" "offered (ZoneShapeSvg l t) = {}"
  by (auto simp: WorkerGlyph_def PermitGlyphIcon_def SensorGlyph_def EquipmentGlyph_def ZoneShapeSvg_def path_node_def offers_map)

lemma no_controls_zone [simp]:
  "offers (zone_icons l z) = {}" "offers (gas_heat l z) = {}" "offers (zone_label_texts l z) = {}"
  by (auto simp: zone_icons_def gas_heat_def heat_marks_def zone_label_texts_def Let_def cond_some_def offers_map split: option.split)

lemma no_controls_map [simp]:
  "offered (gas_gradients zones) = {}" "offers (hover_details ft z) = {}" "offered PlantMapLegend = {}"
  by (auto simp: gas_gradients_def hover_details_def strong_def cond_some_def PlantMapLegend_def legend_swatch_def legend_glyph_def
      offers_map split: option.split)

lemma offered_map:
  "offered (PlantMap ft zones onZoneClick showLegend selected hovered) =
     (case onZoneClick of Some f \<Rightarrow> f ` pz_zoneId ` set zones | None \<Rightarrow> {})"
proof -
  have "offers (map (zone_group onZoneClick selected) (enumerate n zones)) =
      (case onZoneClick of Some f \<Rightarrow> f ` pz_zoneId ` set zones | None \<Rightarrow> {})" for n
    by (induction zones arbitrary: n) (auto simp: zone_group_def Let_def split: option.split)
  then show ?thesis by (simp add: PlantMap_def split: option.split)
qed

lemma no_controls_sections [simp]:
  "offered (sensors_section ft d) = {}" "offered (workers_section d i) = {}" "offered (equipment_section d) = {}"
  "offered (permits_section ft d) = {}" "offered (inspector_links i) = {}"
  by (auto simp: sensors_section_def workers_section_def equipment_section_def permits_section_def sensor_item_def worker_item_def
      inspected_equipment_def inspected_permit_def inspector_links_def strong_def loading_text_def offers_map cond_some_def Let_def
      split: option.split prod.split)

lemma offered_inspector [simp]: "offered (ZoneInspectorDrawer ft d z onClose) = set_option onClose"
  by (auto simp: ZoneInspectorDrawer_def cond_some_def Let_def split: option.split)

subsection \<open>Shapes stay in the drawing\<close>

definition in_drawing :: "svg_shape \<Rightarrow> bool" where
  "in_drawing s = (let (left, upper, right, lower) = shape_box s in 0 \<le> left \<and> 0 \<le> upper \<and> right \<le> 800 \<and> lower \<le> 400)"

text \<open>The slats of the loading bay are placed by a rounded fraction of its width, the others at exact positions.\<close>

lemma slat_in_drawing:
  assumes "0 \<le> f" and "f \<le> 1"
  shows "in_drawing (Line (fl (610 + fl (150 * f))) 350 (fl (fl (610 + fl (150 * f)) + 14)) 250)"
proof -
  let ?a = "fl (150 * f)" and ?b = "fl (610 + fl (150 * f))"
  have a: "0 \<le> ?a" "?a \<le> 150" using assms fl_error_dir(1)[OF exact_halves(3), where x = "150 * f"] by simp_all
  then have b: "0 \<le> ?b" "?b \<le> 760" using fl_error_dir(1)[OF exact_halves(3), where x = "610 + ?a"] by simp_all
  then have "0 \<le> fl (?b + 14)" "fl (?b + 14) \<le> 774" using fl_error_dir(1)[OF exact_halves(3), where x = "?b + 14"] by simp_all
  with b show ?thesis by (simp add: in_drawing_def)
qed

lemma rounded_fraction_slat:
  assumes "0 \<le> f" and "f \<le> 1"
  shows "in_drawing (Line (fl (610 + fl (150 * fl f))) 350 (fl (fl (610 + fl (150 * fl f)) + 14)) 250)"
  using assms fl_error_dir(1)[of 1 f] fl_int[of 1] by (intro slat_in_drawing) simp_all

lemma shapes_in_drawing: "list_all in_drawing (zone_shapes (layoutFor name i))"
proof -
  have "list_all (\<lambda>l. list_all in_drawing (zone_shapes l)) (map snd ZONE_LAYOUT @ FALLBACK_LAYOUT)"
    using rounded_fraction_slat[of "1 / 5"] rounded_fraction_slat[of "2 / 5"] rounded_fraction_slat[of "3 / 5"]
      rounded_fraction_slat[of "4 / 5"]
    by (simp add: ZONE_LAYOUT_def FALLBACK_LAYOUT_def zone_shapes_def tank_shapes_def control_shapes_def building_shapes_def
        dock_shapes_def Let_def num_ops exact_halves)
       (simp add: in_drawing_def)
  then show ?thesis using layoutFor_slot[of name i] by (simp add: list_all_iff)
qed

end
