(* ===== verification/Replay_Controls.thy ===== *)
theory Replay_Controls
  imports Map_View
begin

section \<open>Controls of the replay\<close>

text \<open>
  \<open>components/replay\<close>: the controller, the bookmarks and the scenario picker, over the provider of \<open>Replay\<close>. The
  controls raise operations of the provider; the text typed into the jump field and the label of a new bookmark are the
  components' own state. The time an identifier is made from is not modelled: the identifiers of bookmarks are an
  argument \<open>rnd\<close>.

  Driven through these controls the cursor never leaves the axis, unlike the provider's \<open>next\<close> on its own.
\<close>

subsection \<open>components/replay/ReplayController.tsx\<close>

definition REPLAY_SPEED_OPTIONS :: "number list" where
  "REPLAY_SPEED_OPTIONS = [1 / 2, 1, 2, 5, 10]"

text \<open>\<open>Number\<close> of the text of an option.\<close>

definition option_number :: "string \<Rightarrow> number" where
  "option_number v = (case List.find (\<lambda>n. num_toString n = v) REPLAY_SPEED_OPTIONS of Some n \<Rightarrow> n | None \<Rightarrow> 1)"

datatype control_event = Replay_Op replay_event | Set_Jump_Value string | Submit_Jump

definition controller_view :: "(string \<Rightarrow> string) \<Rightarrow> replay_state \<Rightarrow> string \<Rightarrow> control_event node" where
  "controller_view ft r jumpValue =
     (let most = int (length (allTimestamps r)) - 1; i = rs_currentIndex r
      in el ''div''
           [el ''div''
              [Button [] True (Replay_Op Reset) [Text ''Reset''],
               Button [] (i \<noteq> 0) (Replay_Op Previous) [Text (utf8_larr @ '' Previous Tick'')],
               Button [] (\<not> (i \<ge> most \<and> \<not> rs_playing r)) (Replay_Op (if rs_playing r then Pause else Play))
                 [Text (if rs_playing r then ''Pause'' else ''Play'')],
               Button [] (\<not> i \<ge> most) (Replay_Op Next) [Text (''Next Tick '' @ utf8_arrow)],
               Choice ''Speed:'' (num_toString (rs_speed r)) (map (\<lambda>n. (num_toString n, num_toString n @ ''x'')) REPLAY_SPEED_OPTIONS)
                 (\<lambda>v. Replay_Op (SetSpeed (option_number v))),
               el ''form'' [Field ''Jump to:'' jumpValue Set_Jump_Value, Button [] True Submit_Jump [Text ''Jump'']],
               Button [] True (Replay_Op ExitReplay) [Text ''Exit Time Machine'']],
            Slider ''Replay timeline'' most i (\<lambda>v. Replay_Op (ScrubToIndex v)),
            el ''p''
              [Text (''Tick '' @ num_toString (of_int (i + 1)) @ '' of '' @ show_nat (length (allTimestamps r))),
               Text ('' '' @ utf8_middot @ '' ''), Text (case truthy (currentTimestamp r) of Some t \<Rightarrow> ft t | None \<Rightarrow> []),
               Text ('' '' @ utf8_middot @ '' ''),
               Text (toFixed (case rs_data r of Some d \<Rightarrow> rd_duration_minutes d | None \<Rightarrow> 0) 0 @ '' min window'')]])"

definition replay_isLoading :: "replay_state \<Rightarrow> thrown option \<Rightarrow> bool" where
  "replay_isLoading r error = (rs_target r \<noteq> None \<and> rs_data r = None \<and> error = None)"

definition ReplayController :: "(string \<Rightarrow> string) \<Rightarrow> replay_state \<Rightarrow> thrown option \<Rightarrow> string \<Rightarrow> control_event node list" where
  "ReplayController ft r error jumpValue =
     (if rs_target r = None then []
      else if replay_isLoading r error then [p_text (''Loading replay'' @ utf8_ellipsis)]
      else if length (allTimestamps r) = 0 then [p_text ''No persisted assessments in this window yet.'']
      else [controller_view ft r jumpValue])"

text \<open>What the events do to the provider and the text in the field.\<close>

definition control_update :: "host_zone \<Rightarrow> control_event \<Rightarrow> replay_state \<times> string \<Rightarrow> replay_state \<times> string" where
  "control_update hz e s =
     (case e of
        Replay_Op x \<Rightarrow> (replay_step hz (fst s) x, snd s)
      | Set_Jump_Value v \<Rightarrow> (fst s, v)
      | Submit_Jump \<Rightarrow> (if snd s \<noteq> [] then jumpToTimestamp hz (snd s) (fst s) else fst s, snd s))"

subsection \<open>components/replay/BookmarksPanel.tsx\<close>

definition KIND_LABELS :: "(string \<times> string) list" where
  "KIND_LABELS =
     [(''tier_change'', ''Operational status change''), (''critical'', ''Reached CRITICAL''), (''interaction_bonus'', ''Interaction bonus''),
      (''permit_activated'', ''Work authorization activated''), (''highest_risk'', ''Highest risk'')]"

record panel_bookmark =
  pb_id :: string
  pb_timestamp :: string
  pb_label :: string
  pb_custom :: bool

definition utf8_star :: string where "utf8_star = [CHR 0xE2, CHR 0x98, CHR 0x85]"

definition detected_bookmark :: "Zone list option \<Rightarrow> ReplayBookmark \<Rightarrow> panel_bookmark" where
  "detected_bookmark zones b =
     \<lparr>pb_id = rb_kind b @ ''-'' @ rb_zone_id b @ ''-'' @ rb_timestamp b, pb_timestamp = rb_timestamp b,
      pb_label = (case map_of KIND_LABELS (rb_kind b) of Some l \<Rightarrow> l | None \<Rightarrow> rb_kind b) @ '' - ''
        @ zoneLabel (rb_zone_id b) zones @ '': '' @ rb_label b,
      pb_custom = False\<rparr>"

definition own_bookmark :: "CustomBookmark \<Rightarrow> panel_bookmark" where
  "own_bookmark b = \<lparr>pb_id = cb_id b, pb_timestamp = cb_timestamp b, pb_label = utf8_star @ '' '' @ cb_label b, pb_custom = True\<rparr>"

text \<open>A comparator that answers \<open>NaN\<close> counts as answering 0.\<close>

definition bookmark_cmp :: "host_zone \<Rightarrow> panel_bookmark \<Rightarrow> panel_bookmark \<Rightarrow> rat" where
  "bookmark_cmp hz a b =
     (case (Date_getTime hz (pb_timestamp a), Date_getTime hz (pb_timestamp b)) of
        (Some x, Some y) \<Rightarrow> of_int (x - y)
      | _ \<Rightarrow> 0)"

definition replay_bookmarks :: "replay_state \<Rightarrow> ReplayBookmark list" where
  "replay_bookmarks r = (case rs_data r of Some d \<Rightarrow> rd_bookmarks d | None \<Rightarrow> [])"

definition allBookmarks :: "host_zone \<Rightarrow> Zone list option \<Rightarrow> replay_state \<Rightarrow> panel_bookmark list" where
  "allBookmarks hz zones r =
     js_sort (bookmark_cmp hz) (map (detected_bookmark zones) (replay_bookmarks r) @ map own_bookmark (rs_customBookmarks r))"

datatype bookmark_event = Set_Bookmark_Label string | Add_Bookmark | Go_To_Bookmark string

definition BookmarksPanel ::
  "host_zone \<Rightarrow> (string \<Rightarrow> string) \<Rightarrow> Zone list option \<Rightarrow> replay_state \<Rightarrow> string \<Rightarrow> bookmark_event node" where
  "BookmarksPanel hz ft zones r label =
     (let bs = allBookmarks hz zones r
      in el ''div''
           [el ''h3'' [Text ''Bookmarks''],
            el ''form'' [Field (''Bookmark this tick as'' @ utf8_ellipsis) label Set_Bookmark_Label, Button [] True Add_Bookmark [Text ''Add bookmark'']],
            (if length bs = 0 then p_text ''No bookmarks yet.''
             else el ''ul'' (map (\<lambda>b. el ''li''
               [Button [] True (Go_To_Bookmark (pb_timestamp b))
                  [el ''span'' [Text (ft (pb_timestamp b))], el ''span'' [Text (pb_label b)]]]) bs))])"

text \<open>What the events do to the provider, the label in the field, and the number of identifiers drawn.\<close>

definition bookmark_update ::
  "host_zone \<Rightarrow> (nat \<Rightarrow> string) \<Rightarrow> bookmark_event \<Rightarrow> replay_state \<times> string \<times> nat \<Rightarrow> replay_state \<times> string \<times> nat" where
  "bookmark_update hz rnd e s =
     (case (e, s) of
        (Set_Bookmark_Label l, (r, label, n)) \<Rightarrow> (r, l, n)
      | (Add_Bookmark, (r, label, n)) \<Rightarrow>
          if trim label \<noteq> [] then (addCustomBookmark (rnd n) (trim label) r, [], n + 1) else s
      | (Go_To_Bookmark t, (r, label, n)) \<Rightarrow> (jumpToTimestamp hz t r, label, n))"

subsection \<open>components/replay/ScenarioPicker.tsx\<close>

definition ScenarioPicker :: "ScenarioSummary list query \<Rightarrow> string node list" where
  "ScenarioPicker q =
     (let scenarios = (case q_data q of Some xs \<Rightarrow> xs | None \<Rightarrow> [])
      in QueryResult
           \<lparr>qp_isLoading = q_isLoading q, qp_error = q_error q, qp_isEmpty = (length scenarios = 0),
            qp_emptyLabel = ''No scenarios in the library yet.'', qp_emptyHint = None, qp_emptyAction = None,
            qp_loadingLabel = None, qp_onRetry = None\<rparr>
           [el ''div'' (map (\<lambda>x. Button [] True (ss_key x) [el ''h3'' [Text (ss_title x)], p_text (ss_description x)]) scenarios)])"

definition picked_target :: "string \<Rightarrow> ReplayTarget" where
  "picked_target key = \<lparr>rt_scenarioKey = Some key, rt_zoneIds = None, rt_start = None, rt_end = None\<rparr>"

subsection \<open>What the controls offer\<close>

lemma offered_controller:
  "offered (controller_view ft r jumpValue) \<subseteq>
     {Replay_Op Reset, Replay_Op Previous, Replay_Op Pause, Replay_Op Play, Replay_Op ExitReplay, Submit_Jump}
     \<union> (if rs_currentIndex r < int (length (allTimestamps r)) - 1 then {Replay_Op Next} else {})
     \<union> range (\<lambda>v. Replay_Op (SetSpeed v)) \<union> range Set_Jump_Value
     \<union> (\<lambda>v. Replay_Op (ScrubToIndex v)) ` {0..int (length (allTimestamps r)) - 1}"
  by (auto simp: controller_view_def Let_def)

lemma offered_bookmarks:
  "offered (BookmarksPanel hz ft zones r label) =
     range Set_Bookmark_Label \<union> {Add_Bookmark}
     \<union> Go_To_Bookmark ` (rb_timestamp ` set (replay_bookmarks r) \<union> cb_timestamp ` set (rs_customBookmarks r))"
proof -
  have "pb_timestamp ` set (allBookmarks hz zones r) = rb_timestamp ` set (replay_bookmarks r) \<union> cb_timestamp ` set (rs_customBookmarks r)"
    by (simp add: allBookmarks_def image_Un image_image) (simp add: detected_bookmark_def own_bookmark_def)
  moreover have "offered (BookmarksPanel hz ft zones r label) =
      range Set_Bookmark_Label \<union> {Add_Bookmark} \<union> Go_To_Bookmark ` pb_timestamp ` set (allBookmarks hz zones r)"
    by (auto simp: BookmarksPanel_def Let_def offers_map)
  ultimately show ?thesis by simp
qed

lemma offers_picker: "offers (ScenarioPicker q) \<subseteq> ss_key ` (case q_data q of Some xs \<Rightarrow> set xs | None \<Rightarrow> {})"
  by (auto simp: ScenarioPicker_def Let_def QueryResult_def offers_map split: option.splits if_splits)

subsection \<open>The cursor on the axis\<close>

text \<open>The cursor selects a tick as soon as there is one.\<close>

definition cursor_on_axis :: "replay_state \<Rightarrow> bool" where
  "cursor_on_axis r \<longleftrightarrow> 0 \<le> rs_currentIndex r \<and> replay_inv r"

lemma cursor_on_axis_selects: "cursor_on_axis r \<Longrightarrow> allTimestamps r \<noteq> [] \<Longrightarrow> currentTimestamp r \<noteq> None"
  by (cases "allTimestamps r") (auto simp: cursor_on_axis_def replay_inv_def currentTimestamp_def)

lemma cursor_on_axis_start: "cursor_on_axis replay_start"
  using replay_inv_start by (simp add: cursor_on_axis_def replay_start_def max_def)

lemma cursor_keeps:
  assumes "cursor_on_axis r" and "x = Next \<Longrightarrow> allTimestamps r \<noteq> []"
  shows "cursor_on_axis (replay_step hz r x)"
proof -
  have inv: "replay_inv (replay_step hz r x)" using assms(1) replay.inv_step by (simp add: cursor_on_axis_def)
  moreover have "0 \<le> rs_currentIndex (replay_step hz r x)"
    using assms
    by (cases x) (auto simp: cursor_on_axis_def replay_step_def replay_ops split: option.split)
  ultimately show ?thesis by (simp add: cursor_on_axis_def)
qed

lemma cursor_control:
  assumes "cursor_on_axis r" "ReplayController ft r error v = ns" "e \<in> offers ns"
  shows "cursor_on_axis (fst (control_update hz e (r, v)))"
proof -
  have ne: "allTimestamps r \<noteq> []" and e: "e \<in> offered (controller_view ft r v)"
    using assms(2,3) by (auto simp: ReplayController_def split: if_splits)
  have "cursor_on_axis (jumpToTimestamp hz v r)" using cursor_keeps[OF assms(1), of "JumpToTimestamp v" hz]
    by (simp add: replay_step_def)
  with assms(1) ne show ?thesis by (cases e) (simp_all add: control_update_def cursor_keeps)
qed

lemma cursor_bookmark:
  "cursor_on_axis r \<Longrightarrow> cursor_on_axis (fst (bookmark_update hz rnd e (r, label, n)))"
  using cursor_keeps[of r "AddCustomBookmark (rnd n) (trim label)" hz] cursor_keeps[of r "JumpToTimestamp _" hz]
  by (cases e) (auto simp: bookmark_update_def replay_step_def)

subsection \<open>The session goes on\<close>

text \<open>Between two states of one session target and payload are the same, and bookmarks are only added.\<close>

definition same_session :: "replay_state \<Rightarrow> replay_state \<Rightarrow> bool" where
  "same_session r r' \<longleftrightarrow>
     rs_target r' = rs_target r \<and> rs_data r' = rs_data r \<and> prefix (rs_customBookmarks r) (rs_customBookmarks r')"

lemma same_session_refl [simp]: "same_session r r"
  by (simp add: same_session_def)

lemma same_session_trans: "same_session r s \<Longrightarrow> same_session s t \<Longrightarrow> same_session r t"
  by (auto simp: same_session_def dest: prefix_order.trans)

lemma same_session_axis: "same_session r r' \<Longrightarrow> allTimestamps r' = allTimestamps r"
  by (simp add: same_session_def allTimestamps_def)

lemma session_step:
  assumes "rs_data r \<noteq> None" and "case x of StartReplay _ _ \<Rightarrow> False | ExitReplay \<Rightarrow> False | _ \<Rightarrow> True"
  shows "same_session r (replay_step hz r x)"
  using assms by (cases x) (simp_all add: same_session_def replay_step_def replay_ops split: option.split)

lemma session_control:
  assumes "rs_data r \<noteq> None" and "e \<in> offers (ReplayController ft r error v)" and "e \<noteq> Replay_Op ExitReplay"
  shows "same_session r (fst (control_update hz e (r, v)))"
proof -
  have "e \<in> offered (controller_view ft r v)" using assms(2) by (auto simp: ReplayController_def split: if_splits)
  then consider x where "e = Replay_Op x" "case x of StartReplay _ _ \<Rightarrow> False | ExitReplay \<Rightarrow> False | _ \<Rightarrow> True"
    | "e = Submit_Jump" | u where "e = Set_Jump_Value u"
    using offered_controller[of ft r v] assms(3) by (auto split: if_splits)
  then show ?thesis
  proof cases
    case 1
    with session_step[OF assms(1)] show ?thesis by (simp add: control_update_def)
  next
    case 2
    with session_step[OF assms(1), of "JumpToTimestamp v" hz] show ?thesis
      by (simp add: control_update_def replay_step_def)
  next
    case 3
    then show ?thesis by (simp add: control_update_def)
  qed
qed

lemma session_bookmark: "rs_data r \<noteq> None \<Longrightarrow> same_session r (fst (bookmark_update hz rnd e (r, label, n)))"
  using session_step[of r "AddCustomBookmark (rnd n) (trim label)" hz] session_step[of r "JumpToTimestamp _" hz]
  by (cases e) (auto simp: bookmark_update_def replay_step_def)

subsection \<open>Where a jump leads\<close>

text \<open>A jump to the timestamp of a tick selects the first tick of the same instant; to an unreadable one, the first tick.\<close>

definition same_instant_tick :: "host_zone \<Rightarrow> string list \<Rightarrow> string \<Rightarrow> string option" where
  "same_instant_tick hz axis t =
     (if Date_getTime hz t = None then head_option axis else List.find (\<lambda>u. Date_getTime hz u = Date_getTime hz t) axis)"

lemma find_first: "i < length xs \<Longrightarrow> P (xs ! i) \<Longrightarrow> (\<And>j. j < i \<Longrightarrow> \<not> P (xs ! j)) \<Longrightarrow> List.find P xs = Some (xs ! i)"
  by (auto simp: find_Some_iff)

text \<open>The ticks denote instants, no two the same.\<close>

definition clear_axis :: "host_zone \<Rightarrow> string list \<Rightarrow> bool" where
  "clear_axis hz axis \<longleftrightarrow> distinct (map (Date_getTime hz) axis) \<and> None \<notin> Date_getTime hz ` set axis"

lemma clear_axis_tick:
  assumes "clear_axis hz axis" and "t \<in> set axis"
  shows "same_instant_tick hz axis t = Some t"
proof -
  from assms(2) obtain i where i: "i < length axis" "axis ! i = t" by (auto simp: in_set_conv_nth)
  obtain x where x: "Date_getTime hz t = Some x" using assms by (metis clear_axis_def image_eqI not_None_eq)
  have "distinct (map (Date_getTime hz) axis)" using assms(1) by (simp add: clear_axis_def)
  with i have "List.find (\<lambda>u. Date_getTime hz u = Date_getTime hz t) axis = Some (axis ! i)"
    by (intro find_first) (auto simp: distinct_conv_nth)
  with i show ?thesis by (simp add: same_instant_tick_def x)
qed

lemma nearest_of_tick:
  assumes "t \<in> set ts"
  shows "Some (ts ! findNearestTimestampIndex hz ts t) = same_instant_tick hz ts t"
proof -
  let ?ds = "map (time_delta hz (Date_getTime hz t)) ts"
  obtain i b where ib: "foldl nearer (0, None) (enumerate 0 ?ds) = (i, b)" by fastforce
  have ne: "ts \<noteq> []" using assms by auto
  have n: "nearest_index ?ds (i, b)" using foldl_nearer[of ?ds] by (simp add: ib)
  have i: "findNearestTimestampIndex hz ts t = i" using ne by (simp add: findNearestTimestampIndex_def ib)
  show ?thesis
  proof (cases "Date_getTime hz t")
    case None
    then have "\<forall>d\<in>set ?ds. d = None" by (auto simp: time_delta_def split: option.split)
    with n have "i = 0" by (cases b) (auto simp: nearest_index_def)
    moreover have "head_option ts = Some (ts ! 0)" using ne by (cases ts) (simp_all add: head_option_def)
    ultimately show ?thesis by (simp add: i same_instant_tick_def None)
  next
    case (Some x)
    from assms obtain k where k: "k < length ts" "ts ! k = t" by (auto simp: in_set_conv_nth)
    then have zero: "?ds ! k = Some 0" by (simp add: time_delta_def Some)
    with n k obtain v where b: "b = Some v" using nth_mem[OF k(1)] by (cases b) (fastforce simp: nearest_index_def)+
    then have i_less: "i < length ts" and v: "?ds ! i = Some v" using n by (auto simp: nearest_index_def)
    have "v \<le> 0" using n b zero k by (auto simp: nearest_index_def)
    with v i_less have "Date_getTime hz (ts ! i) = Some x" by (auto simp: time_delta_def Some split: option.splits)
    moreover have "Date_getTime hz (ts ! j) \<noteq> Some x" if "j < i" for j
    proof
      assume "Date_getTime hz (ts ! j) = Some x"
      then have "?ds ! j = Some 0" using that i_less by (simp add: time_delta_def Some)
      moreover have "\<forall>j<length ?ds. \<forall>d. ?ds ! j = Some d \<longrightarrow> v \<le> d \<and> (j < i \<longrightarrow> v < d)"
        using n by (simp add: b nearest_index_def)
      ultimately have "v < 0" using less_trans[OF that i_less] that by simp
      moreover have "0 \<le> v" using v i_less by (auto simp: time_delta_def Some split: option.splits)
      ultimately show False by simp
    qed
    ultimately show ?thesis using find_first[OF i_less, of "\<lambda>u. Date_getTime hz u = Some x"]
      by (simp add: i same_instant_tick_def Some)
  qed
qed

lemma jump_to_tick:
  assumes "t \<in> set (allTimestamps r)"
  shows "currentTimestamp (jumpToTimestamp hz t r) = same_instant_tick hz (allTimestamps r) t"
proof -
  have "allTimestamps r \<noteq> []" using assms by auto
  from findNearest_less[OF this] nearest_of_tick[OF assms] show ?thesis
    by (simp add: currentTimestamp_def jumpToTimestamp_def)
qed

end
