(* ===== verification/Time_Machine.thy ===== *)
theory Time_Machine
  imports Replay_Controls Pipeline
begin

section \<open>The time machine\<close>

text \<open>
  \<open>pages/TimeMachinePage.tsx\<close>: the replay of an executed scenario with the plant map, the details of one zone, what changed since
  the zone's previous tick, and the bookmarks, all at the cursor of the shared provider. The page's own state is the
  focused zone and the technical view; the parts that have a state of their own (the jump field, the label of a bookmark, the
  decision graph, the deck selections, the pointer on the map) lose it when they leave the page (\<open>settle\<close>). Query
  results arrive as events of the environment, as do the payload of a replay, its failure and the playback timer.

  The properties: whatever a user does, the cursor selects a tick once there is one; a bookmark keeps its button until
  the user leaves the replay and leads back to the tick it was made on (the first tick of the instant, should ticks share it);
  a failed request looks like an empty window; the focus outlives its replay.
\<close>

subsection \<open>State\<close>

record time_data =
  td_zones :: "Zone list option"
  td_permits :: "Permit list option"
  td_workers :: "string \<Rightarrow> ZoneWorkerCount option"
  td_sensors :: "string \<Rightarrow> SensorInfo list option"
  td_counterfactual :: "string \<Rightarrow> string \<Rightarrow> CounterfactualComparison option"
  td_matches :: "string \<Rightarrow> string \<Rightarrow> IncidentMatch list option"
  td_foresight :: "string \<Rightarrow> string \<Rightarrow> string \<Rightarrow> ForesightResult option"
  td_matchesFor :: "string \<Rightarrow> string \<Rightarrow> string option \<Rightarrow> IncidentMatch list query"
  td_foresightFor :: "string \<Rightarrow> string \<Rightarrow> string \<Rightarrow> string option \<Rightarrow> ForesightResult query"
  td_analyticsFor :: "string option \<Rightarrow> CrossScenarioAnalytics query"
  td_replayFor :: "string \<Rightarrow> ReplayData query"
  td_decks :: "HistoricalDeck list query"
  td_scenarios :: "ScenarioSummary list query"
  td_cache :: "ReplayTarget \<Rightarrow> ReplayData option"

record time_machine =
  tm_replay :: replay_state
  tm_replayError :: "thrown option"
  tm_jumpValue :: string
  tm_label :: string
  tm_drawn :: nat
  tm_focusedZoneId :: "string option"
  tm_showTechnicalView :: bool
  tm_hoveredZoneId :: "string option"
  tm_diagram :: diagram
  tm_historyDeck :: "string option"
  tm_foresightDeck :: "string option"
  tm_data :: time_data

datatype time_event =
    In_Controller control_event
  | In_Bookmarks bookmark_event
  | Start_Scenario string
  | Focus_Zone string
  | Show_Technical bool
  | In_Diagram diagram_event
  | In_History panel_event
  | In_Foresight panel_event

subsection \<open>Derived values\<close>

text \<open>The page as a reader of the dual-mode definitions, which it shares with the pages that also show live data.\<close>

definition time_dual :: "time_machine \<Rightarrow> dual" where
  "time_dual s =
     \<lparr>du_replay = tm_replay s, du_live = None, du_zones = td_zones (tm_data s), du_permits = td_permits (tm_data s),
      du_workers = td_workers (tm_data s), du_sensors = td_sensors (tm_data s)\<rparr>"

definition time_assessments :: "host_zone \<Rightarrow> time_machine \<Rightarrow> (string \<times> RiskAssessment) list" where
  "time_assessments hz s = replay_entries hz (tm_replay s)"

definition displayZoneId :: "host_zone \<Rightarrow> time_machine \<Rightarrow> string option" where
  "displayZoneId hz s =
     (case tm_focusedZoneId s of
        Some z \<Rightarrow> Some z
      | None \<Rightarrow> map_option fst (head_option (time_assessments hz s)))"

definition displayAssessment :: "host_zone \<Rightarrow> time_machine \<Rightarrow> RiskAssessment option" where
  "displayAssessment hz s =
     map_option snd (List.find (\<lambda>entry. Some (fst entry) = displayZoneId hz s) (time_assessments hz s))"

definition displayZoneTimeline :: "host_zone \<Rightarrow> time_machine \<Rightarrow> RiskAssessment list" where
  "displayZoneTimeline hz s = (case truthy (displayZoneId hz s) of Some z \<Rightarrow> zoneTimeline (tm_replay s) z | None \<Rightarrow> [])"

definition displayTickIndex :: "host_zone \<Rightarrow> time_machine \<Rightarrow> nat option" where
  "displayTickIndex hz s =
     Option.bind (displayAssessment hz s) (\<lambda>a.
       find_index (\<lambda>x. ra_assessment_id x = ra_assessment_id a) (displayZoneTimeline hz s))"

definition previousAssessment :: "host_zone \<Rightarrow> time_machine \<Rightarrow> RiskAssessment option" where
  "previousAssessment hz s =
     (case displayTickIndex hz s of
        Some i \<Rightarrow> if i > 0 then Some (displayZoneTimeline hz s ! (i - 1)) else None
      | None \<Rightarrow> None)"

definition time_scenarioKey :: "time_machine \<Rightarrow> string option" where
  "time_scenarioKey s = Option.bind (rs_target (tm_replay s)) rt_scenarioKey"

definition matches_at :: "host_zone \<Rightarrow> time_machine \<Rightarrow> RiskAssessment option \<Rightarrow> IncidentMatch option" where
  "matches_at hz s a =
     (case (displayZoneId hz s, a) of
        (Some z, Some x) \<Rightarrow> Option.bind (td_matches (tm_data s) z (ra_timestamp x)) head_option
      | _ \<Rightarrow> None)"

definition foresight_at :: "host_zone \<Rightarrow> time_machine \<Rightarrow> RiskAssessment option \<Rightarrow> ForesightResult option" where
  "foresight_at hz s a =
     (case (displayZoneId hz s, a, time_scenarioKey s) of
        (Some z, Some x, Some key) \<Rightarrow> td_foresight (tm_data s) z (ra_timestamp x) key
      | _ \<Rightarrow> None)"

definition changeSummary :: "host_zone \<Rightarrow> time_machine \<Rightarrow> ChangeSummaryEntry list" where
  "changeSummary hz s =
     (case displayAssessment hz s of
        None \<Rightarrow> []
      | Some a \<Rightarrow>
          let prev = previousAssessment hz s
          in buildChangeSummary
               \<lparr>ci_previousAssessment = prev, ci_currentAssessment = a, ci_previousBestMatch = matches_at hz s prev,
                ci_currentBestMatch = matches_at hz s (Some a), ci_previousForesight = foresight_at hz s prev,
                ci_currentForesight = foresight_at hz s (Some a)\<rparr>)"

definition displayCounterfactual :: "host_zone \<Rightarrow> time_machine \<Rightarrow> CounterfactualComparison option" where
  "displayCounterfactual hz s =
     (let counterfactuals = map (\<lambda>(z, a). td_counterfactual (tm_data s) z (ra_timestamp a)) (time_assessments hz s)
      in case find_index (\<lambda>entry. Some (fst entry) = displayZoneId hz s) (time_assessments hz s) of
           Some i \<Rightarrow> data_at counterfactuals i
         | None \<Rightarrow> None)"

definition displayMapZone :: "host_zone \<Rightarrow> time_machine \<Rightarrow> PlantMapZone option" where
  "displayMapZone hz s = List.find (\<lambda>z. Some (pz_zoneId z) = displayZoneId hz s) (time_machine_map hz (time_dual s))"

definition displayZoneBookmarks :: "host_zone \<Rightarrow> time_machine \<Rightarrow> ReplayBookmark list" where
  "displayZoneBookmarks hz s = filter (\<lambda>b. Some (rb_zone_id b) = displayZoneId hz s) (replay_bookmarks (tm_replay s))"

subsection \<open>Parts that come and go\<close>

definition content_shown :: "time_machine \<Rightarrow> bool" where
  "content_shown s = (rs_target (tm_replay s) \<noteq> None \<and> length (allTimestamps (tm_replay s)) > 0)"

definition details_shown :: "host_zone \<Rightarrow> time_machine \<Rightarrow> bool" where
  "details_shown hz s = (content_shown s \<and> truthy (displayZoneId hz s) \<noteq> None \<and> displayAssessment hz s \<noteq> None)"

definition foresight_shown :: "host_zone \<Rightarrow> time_machine \<Rightarrow> bool" where
  "foresight_shown hz s = (details_shown hz s \<and> truthy (time_scenarioKey s) \<noteq> None)"

definition settle :: "host_zone \<Rightarrow> time_machine \<Rightarrow> time_machine" where
  "settle hz s =
     s\<lparr>tm_replayError := (if rs_target (tm_replay s) = None then None else tm_replayError s),
       tm_jumpValue := (if rs_target (tm_replay s) = None then [] else tm_jumpValue s),
       tm_label := (if content_shown s then tm_label s else []),
       tm_hoveredZoneId := (if content_shown s then tm_hoveredZoneId s else None),
       tm_diagram := (if details_shown hz s then tm_diagram s else diagram_start),
       tm_historyDeck := (if details_shown hz s then tm_historyDeck s else None),
       tm_foresightDeck := (if foresight_shown hz s then tm_foresightDeck s else None)\<rparr>"

subsection \<open>Handlers\<close>

definition deck_selected :: "panel_event \<Rightarrow> string option \<Rightarrow> string option" where
  "deck_selected e deck = (case e of Select_Deck k \<Rightarrow> k | _ \<Rightarrow> deck)"

definition time_handle :: "host_zone \<Rightarrow> (nat \<Rightarrow> string) \<Rightarrow> time_event \<Rightarrow> time_machine \<Rightarrow> time_machine" where
  "time_handle hz rnd e s =
     (case e of
        In_Controller c \<Rightarrow>
          let (r, v) = control_update hz c (tm_replay s, tm_jumpValue s) in s\<lparr>tm_replay := r, tm_jumpValue := v\<rparr>
      | In_Bookmarks b \<Rightarrow>
          let (r, l, n) = bookmark_update hz rnd b (tm_replay s, tm_label s, tm_drawn s)
          in s\<lparr>tm_replay := r, tm_label := l, tm_drawn := n\<rparr>
      | Start_Scenario key \<Rightarrow>
          s\<lparr>tm_replay := startReplay (picked_target key) (td_cache (tm_data s) (picked_target key)) (tm_replay s), tm_replayError := None\<rparr>
      | Focus_Zone z \<Rightarrow> s\<lparr>tm_focusedZoneId := Some z\<rparr>
      | Show_Technical b \<Rightarrow> s\<lparr>tm_showTechnicalView := b\<rparr>
      | In_Diagram d \<Rightarrow> s\<lparr>tm_diagram := diagram_update d (tm_diagram s)\<rparr>
      | In_History p \<Rightarrow> s\<lparr>tm_historyDeck := deck_selected p (tm_historyDeck s)\<rparr>
      | In_Foresight p \<Rightarrow> s\<lparr>tm_foresightDeck := deck_selected p (tm_foresightDeck s)\<rparr>)"

definition time_update :: "host_zone \<Rightarrow> (nat \<Rightarrow> string) \<Rightarrow> time_event \<Rightarrow> time_machine \<Rightarrow> time_machine" where
  "time_update hz rnd e s = settle hz (time_handle hz rnd e s)"

datatype time_input =
    Time_Data time_data
  | Replay_Arrived ReplayData
  | Replay_Failed thrown
  | Playback_Timer
  | Trace_Over
  | Pointer_Enters string
  | Pointer_Leaves string

definition time_env :: "host_zone \<Rightarrow> time_input \<Rightarrow> time_machine \<Rightarrow> time_machine" where
  "time_env hz x s =
     settle hz (case x of
        Time_Data d \<Rightarrow> s\<lparr>tm_data := d\<rparr>
      | Replay_Arrived d \<Rightarrow> s\<lparr>tm_replay := query_resolved d (tm_replay s), tm_replayError := None\<rparr>
      | Replay_Failed e \<Rightarrow> if rs_target (tm_replay s) \<noteq> None \<and> rs_data (tm_replay s) = None then s\<lparr>tm_replayError := Some e\<rparr> else s
      | Playback_Timer \<Rightarrow> s\<lparr>tm_replay := playback_tick (tm_replay s)\<rparr>
      | Trace_Over \<Rightarrow> s\<lparr>tm_diagram := diagram_env Trace_Timeout (tm_diagram s)\<rparr>
      | Pointer_Enters z \<Rightarrow> s\<lparr>tm_hoveredZoneId := hover_enter z (tm_hoveredZoneId s)\<rparr>
      | Pointer_Leaves z \<Rightarrow> s\<lparr>tm_hoveredZoneId := hover_leave z (tm_hoveredZoneId s)\<rparr>)"

definition time_open :: "time_data \<Rightarrow> time_machine" where
  "time_open d =
     \<lparr>tm_replay = replay_start, tm_replayError = None, tm_jumpValue = [], tm_label = [], tm_drawn = 0, tm_focusedZoneId = None,
      tm_showTechnicalView = False, tm_hoveredZoneId = None, tm_diagram = diagram_start, tm_historyDeck = None,
      tm_foresightDeck = None, tm_data = d\<rparr>"

subsection \<open>The page\<close>

definition READINESS_LABEL :: "(PlantReadiness \<times> string) list" where
  "READINESS_LABEL = [(ready, ''Ready''), (degraded, ''Degraded''), (not_ready, ''Not Ready'')]"

definition readiness_class :: "PlantReadiness \<Rightarrow> string" where
  "readiness_class r = ''plant-readiness-'' @ (case r of ready \<Rightarrow> ''ready'' | degraded \<Rightarrow> ''degraded'' | not_ready \<Rightarrow> ''not_ready'')"

definition summary_strip :: "RiskAssessment list \<Rightarrow> 'e node" where
  "summary_strip as =
     el ''div''
       [el ''span'' [Text ''Plant status: '', (case worstTier (map ra_tier as) of Some t \<Rightarrow> TierBadge t | None \<Rightarrow> Text utf8_emdash)],
        el ''span'' [Text (''Average plant risk: '' @ toFixed (averageCompoundScore as) 1)],
        El ''span'' [(''class'', readiness_class (plantReadiness as))]
          [Text (''Readiness: '' @ the (map_of READINESS_LABEL (plantReadiness as)) @ '' (''
             @ toFixed (percentZonesNormal as) 0 @ ''% normal)'')]]"

definition ExecutiveChangeSummary :: "ChangeSummaryEntry list \<Rightarrow> 'e node" where
  "ExecutiveChangeSummary changes =
     (if length changes = 0 then p_text ''No meaningful change since the previous tick.''
      else el ''ul'' (map (\<lambda>x. el ''li''
        [el ''span'' [Text (ch_label x)], el ''span'' [Text (ch_before x)], el ''span'' [Text utf8_arrow], el ''span'' [Text (ch_after x)]])
        changes))"

definition details_card :: "(string \<Rightarrow> string) \<Rightarrow> time_machine \<Rightarrow> string \<Rightarrow> RiskAssessment \<Rightarrow> time_event node" where
  "details_card ft s z a =
     (let j = parseJustification (ra_justification a); recommendations = deriveRecommendations (ra_tier a) j
      in el ''div''
           ([el ''h3'' [Text (zoneLabel z (td_zones (tm_data s)))],
            el ''p''
              [Text (toFixed (ra_compound_risk_score a) 1 @ '' ''), TierBadge (ra_tier a), Text '' '',
               Link (''/zones/'' @ z) [Text (''Zone detail '' @ utf8_arrow)], Text '' '',
               Link (''/explain/'' @ ra_assessment_id a) [Text (''Explain '' @ utf8_arrow)], Text '' '',
               Link (''/operations?zone='' @ z) [Text (''Operations Center '' @ utf8_arrow)]]]
            @ cond (generateExecutiveExplanation a j recommendations \<noteq> []) [p_text (generateExecutiveExplanation a j recommendations)]
            @ [EngineInsight a j, el ''h4'' [Text ''Decision Graph''], map_node In_Diagram (PipelineDiagram ft a j (tm_diagram s)),
               el ''h4'' [Text ''Recommendations''], RecommendationList recommendations]))"

definition root_cause :: "host_zone \<Rightarrow> time_machine \<Rightarrow> RiskAssessment \<Rightarrow> time_event node" where
  "root_cause hz s a =
     RootCauseExplorer a (parseJustification (ra_justification a)) (displayCounterfactual hz s)
       (Option.bind (displayMapZone hz s) pz_workerCount)
       (case Option.bind (displayMapZone hz s) pz_activePermitTypes of Some ps \<Rightarrow> length ps > 0 | None \<Rightarrow> False)"

definition history_panel :: "(string \<Rightarrow> string) \<Rightarrow> time_machine \<Rightarrow> string \<Rightarrow> RiskAssessment \<Rightarrow> time_event node" where
  "history_panel ft s z a =
     (let d = tm_data s; deck = tm_historyDeck s; matches = td_matchesFor d z (ra_timestamp a) deck
      in map_node In_History (HistoricalIntelligencePanel ft deck matches (td_decks d)
           (td_replayFor d (case q_data matches of Some (m # _) \<Rightarrow> im_scenario_key m | _ \<Rightarrow> []))
           (td_analyticsFor d deck) (zoneTimeline (tm_replay s) z)))"

definition foresight_panel :: "host_zone \<Rightarrow> (string \<Rightarrow> string) \<Rightarrow> time_machine \<Rightarrow> string \<Rightarrow> RiskAssessment \<Rightarrow> string \<Rightarrow> time_event node" where
  "foresight_panel hz ft s z a key =
     (let d = tm_data s
      in map_node In_Foresight (OperationalForesightPanel hz ft (tm_foresightDeck s)
           (td_foresightFor d z (ra_timestamp a) key (tm_foresightDeck s)) (td_decks d) (zoneTimeline (tm_replay s) z)))"

definition technical_card :: "host_zone \<Rightarrow> (string \<Rightarrow> string) \<Rightarrow> time_machine \<Rightarrow> time_event node" where
  "technical_card hz ft s =
     el ''div''
       (Check ''Show technical view'' (tm_showTechnicalView s) Show_Technical
        # cond (tm_showTechnicalView s)
            (cond_some (displayAssessment hz s) (\<lambda>a.
               [TechnicalView ft a (parseJustification (ra_justification a)) (displayZoneBookmarks hz s)])))"

definition zone_panels :: "host_zone \<Rightarrow> (string \<Rightarrow> string) \<Rightarrow> time_machine \<Rightarrow> time_event node list" where
  "zone_panels hz ft s =
     (let zone = truthy (displayZoneId hz s); assessment = displayAssessment hz s; zones = td_zones (tm_data s)
      in cond_some zone (\<lambda>z. cond_some assessment (\<lambda>a. [details_card ft s z a]))
         @ cond_some assessment (\<lambda>a. [root_cause hz s a])
         @ cond_some zone (\<lambda>z.
             [DecisionEvolution ft (tm_replay s) zones z,
              el ''div'' [el ''h3'' [Text ''Operational Narrative''],
                OperationalNarrativeTimeline ft (buildOperationalNarrative (zoneTimeline (tm_replay s) z))]])
         @ cond_some zone (\<lambda>z. cond_some assessment (\<lambda>a.
             [el ''div'' [el ''h3'' [Text ''What Changed?''], ExecutiveChangeSummary (changeSummary hz s)], history_panel ft s z a]
             @ cond_some (truthy (time_scenarioKey s)) (\<lambda>key. [foresight_panel hz ft s z a key]))))"

definition time_content :: "host_zone \<Rightarrow> (string \<Rightarrow> string) \<Rightarrow> time_machine \<Rightarrow> time_event node list" where
  "time_content hz ft s =
     [summary_strip (map snd (time_assessments hz s)),
      el ''div''
        [el ''div''
           (el ''div'' [PlantMap ft (time_machine_map hz (time_dual s)) (Some Focus_Zone) False None (tm_hoveredZoneId s)]
            # zone_panels hz ft s @ [technical_card hz ft s]),
         el ''div'' [map_node In_Bookmarks (BookmarksPanel hz ft (td_zones (tm_data s)) (tm_replay s) (tm_label s))]]]"

definition time_view :: "host_zone \<Rightarrow> (string \<Rightarrow> string) \<Rightarrow> time_machine \<Rightarrow> time_event node list" where
  "time_view hz ft s =
     [el ''section''
        (el ''h1'' [Text ''Time Machine'']
         # (if rs_target (tm_replay s) = None
            then p_text (''Replay any executed scenario tick-by-tick, entirely from persisted data - pick a ''
                   @ ''scenario from the library below to begin.'')
                 # map (map_node Start_Scenario) (ScenarioPicker (td_scenarios (tm_data s)))
            else map (map_node In_Controller) (ReplayController ft (tm_replay s) (tm_replayError s) (tm_jumpValue s))
                 @ cond (length (allTimestamps (tm_replay s)) > 0) (time_content hz ft s)))]"

subsection \<open>What the page offers\<close>

lemma no_controls_details [simp]:
  "offered (EngineInsight a j) = {}" "offered (RootCauseExplorer a j c w b) = {}" "offered (TechnicalView ft a j bs) = {}"
  "offered (DecisionEvolution ft r zs z) = {}" "offered (ExecutiveChangeSummary xs) = {}" "offered (summary_strip as) = {}"
  by (auto simp: EngineInsight_def RootCauseExplorer_def factor_item_def TechnicalView_def justification_cards_def contribution_card_def
      raw_entry_def definition_entry_def bookmark_item_def DecisionEvolution_def evolution_tick_def ExecutiveChangeSummary_def
      summary_strip_def strong_def offers_map cond_some_def Let_def split: option.splits prod.splits)

lemma offers_content:
  "offers (time_content hz ft s) =
     Focus_Zone ` pz_zoneId ` set (time_machine_map hz (time_dual s)) \<union> offers (zone_panels hz ft s) \<union> range Show_Technical
     \<union> In_Bookmarks ` offered (BookmarksPanel hz ft (td_zones (tm_data s)) (tm_replay s) (tm_label s))"
  by (auto simp: time_content_def technical_card_def offered_map offered_map_node cond_some_def split: option.split)

lemma offers_panels:
  "offers (zone_panels hz ft s) \<subseteq> range In_Diagram \<union> range In_History \<union> range In_Foresight"
  by (auto simp: zone_panels_def details_card_def root_cause_def history_panel_def foresight_panel_def Let_def cond_some_def
      offered_map_node split: option.splits)

lemma offers_time_view:
  "offers (time_view hz ft s) =
     (if rs_target (tm_replay s) = None then Start_Scenario ` offers (ScenarioPicker (td_scenarios (tm_data s)))
      else In_Controller ` offers (ReplayController ft (tm_replay s) (tm_replayError s) (tm_jumpValue s))
        \<union> (if allTimestamps (tm_replay s) = [] then {} else offers (time_content hz ft s)))"
  by (simp add: time_view_def offers_map_node)

lemma controller_offered:
  "In_Controller c \<in> offers (time_view hz ft s) \<Longrightarrow>
     c \<in> offers (ReplayController ft (tm_replay s) (tm_replayError s) (tm_jumpValue s))"
  using offers_panels[of hz ft s] by (auto simp: offers_time_view offers_content split: if_splits)

subsection \<open>The cursor\<close>

definition time_step :: "host_zone \<Rightarrow> (string \<Rightarrow> string) \<Rightarrow> (nat \<Rightarrow> string) \<Rightarrow> time_machine \<Rightarrow> time_input input \<Rightarrow> time_machine" where
  "time_step hz ft rnd = app_step (time_view hz ft) (time_update hz rnd) (time_env hz)"

lemma settle_keeps [simp]:
  "tm_replay (settle hz s) = tm_replay s" "tm_focusedZoneId (settle hz s) = tm_focusedZoneId s" "tm_data (settle hz s) = tm_data s"
  by (simp_all add: settle_def)

lemma cursor_time_update:
  assumes "cursor_on_axis (tm_replay s)" and "e \<in> offers (time_view hz ft s)"
  shows "cursor_on_axis (tm_replay (time_update hz rnd e s))"
proof (cases e)
  case (In_Controller c)
  with controller_offered assms cursor_control[OF assms(1) refl] show ?thesis
    by (fastforce simp: time_update_def time_handle_def case_prod_beta)
next
  case (In_Bookmarks b)
  with assms(1) show ?thesis by (simp add: time_update_def time_handle_def case_prod_beta cursor_bookmark)
next
  case (Start_Scenario key)
  with cursor_keeps[OF assms(1), of "StartReplay _ _"] show ?thesis
    by (simp add: time_update_def time_handle_def replay_step_def)
qed (use assms(1) in \<open>simp_all add: time_update_def time_handle_def\<close>)

lemma cursor_time_env:
  assumes "cursor_on_axis (tm_replay s)"
  shows "cursor_on_axis (tm_replay (time_env hz x s))"
  using assms cursor_keeps[OF assms, of "QueryResolved _"] cursor_keeps[OF assms, of PlaybackTick]
  by (cases x) (simp_all add: time_env_def replay_step_def)

interpretation time_ui: ui_app "time_open d" "time_view hz ft" "time_update hz rnd" "time_env hz" "\<lambda>s. cursor_on_axis (tm_replay s)"
  for hz ft rnd d
  by unfold_locales (simp_all add: time_open_def cursor_on_axis_start cursor_time_update cursor_time_env)

subsection \<open>Properties\<close>

text \<open>
  Whatever a user does on the page and whatever arrives in between, the cursor selects a tick as soon as the replay has one,
  so the page always has a moment to show; and every bookmark the user made is on a tick of the replay on display.
\<close>

theorem time_machine_cursor:
  "(let r = tm_replay (foldl (time_step hz ft rnd) (time_open d) inputs)
    in (if allTimestamps r = [] then True else currentTimestamp r \<noteq> None) \<and>
       cb_timestamp ` set (rs_customBookmarks r) \<subseteq> set (allTimestamps r))"
proof -
  have "cursor_on_axis (tm_replay (foldl (time_step hz ft rnd) (time_open d) inputs))"
    unfolding time_step_def by (rule time_ui.inv_reachable)
  then show ?thesis
    using cursor_on_axis_selects by (auto simp: Let_def cursor_on_axis_def replay_inv_def)
qed

lemma bookmark_control_shown:
  assumes "allTimestamps (tm_replay s) \<noteq> []" and "rs_target (tm_replay s) \<noteq> None"
    and "e \<in> offered (BookmarksPanel hz ft (td_zones (tm_data s)) (tm_replay s) (tm_label s))"
  shows "In_Bookmarks e \<in> offers (time_view hz ft s)"
  using assms by (auto simp: offers_time_view offers_content)

lemma bookmarks_lead:
  assumes ok: "cursor_on_axis (tm_replay s)"
  shows "list_all (\<lambda>b.
         let e = In_Bookmarks (Go_To_Bookmark (cb_timestamp b)); r' = tm_replay (time_update hz rnd e s)
         in (if rs_target (tm_replay s) = None then True else e \<in> offers (time_view hz ft s)) \<and>
            currentTimestamp r' = same_instant_tick hz (allTimestamps (tm_replay s)) (cb_timestamp b) \<and> \<not> rs_playing r' \<and>
            rs_customBookmarks r' = rs_customBookmarks (tm_replay s)) (rs_customBookmarks (tm_replay s))"
proof -
  let ?go = "\<lambda>b. In_Bookmarks (Go_To_Bookmark (cb_timestamp b))"
  have axis: "cb_timestamp b \<in> set (allTimestamps (tm_replay s))" if "b \<in> set (rs_customBookmarks (tm_replay s))" for b
    using ok that by (auto simp: cursor_on_axis_def replay_inv_def)
  have go: "tm_replay (time_update hz rnd (?go b) s) = jumpToTimestamp hz (cb_timestamp b) (tm_replay s)" for b
    by (simp add: time_update_def time_handle_def bookmark_update_def)
  have "rs_target (tm_replay s) \<noteq> None \<Longrightarrow> ?go b \<in> offers (time_view hz ft s)" if "b \<in> set (rs_customBookmarks (tm_replay s))" for b
    using axis[OF that] that by (intro bookmark_control_shown) (auto simp: offered_bookmarks)
  then show ?thesis by (simp add: list_all_iff Let_def go jump_to_tick axis) (simp add: jumpToTimestamp_def)
qed

lemma bookmark_added:
  assumes ok: "cursor_on_axis (tm_replay s)"
  shows "case currentTimestamp (tm_replay s) of
          None \<Rightarrow> In_Bookmarks Add_Bookmark \<notin> offers (time_view hz ft s)
        | Some t \<Rightarrow>
            if rs_target (tm_replay s) = None \<or> t = [] \<or> trim (tm_label s) = [] then True
            else In_Bookmarks Add_Bookmark \<in> offers (time_view hz ft s) \<and>
                 tm_label (time_update hz rnd (In_Bookmarks Add_Bookmark) s) = [] \<and>
                 rs_customBookmarks (tm_replay (time_update hz rnd (In_Bookmarks Add_Bookmark) s)) =
                   rs_customBookmarks (tm_replay s) @ [\<lparr>cb_id = rnd (tm_drawn s), cb_timestamp = t, cb_label = trim (tm_label s)\<rparr>]"
proof (cases "currentTimestamp (tm_replay s)")
  case None
  then have "In_Bookmarks Add_Bookmark \<notin> offers (time_view hz ft s)"
    using cursor_on_axis_selects[OF ok] by (cases "allTimestamps (tm_replay s) = []") (auto simp: offers_time_view)
  then show ?thesis by (simp add: None)
next
  case (Some t)
  let ?added = "time_update hz rnd (In_Bookmarks Add_Bookmark) s"
  have "allTimestamps (tm_replay s) \<noteq> []" using Some by (auto simp: currentTimestamp_def split: if_splits)
  then have "In_Bookmarks Add_Bookmark \<in> offers (time_view hz ft s)" if "rs_target (tm_replay s) \<noteq> None"
    using that by (intro bookmark_control_shown) (simp_all add: offered_bookmarks Some)
  moreover have "trim (tm_label s) \<noteq> [] \<Longrightarrow> tm_label ?added = []"
    by (simp add: time_update_def time_handle_def bookmark_update_def settle_def)
  moreover have "rs_customBookmarks (tm_replay ?added) =
      rs_customBookmarks (tm_replay s) @ [\<lparr>cb_id = rnd (tm_drawn s), cb_timestamp = t, cb_label = trim (tm_label s)\<rparr>]"
    if "trim (tm_label s) \<noteq> []" "t \<noteq> []"
    using that by (simp add: time_update_def time_handle_def bookmark_update_def addCustomBookmark_def Some)
  ultimately show ?thesis by (simp add: Some)
qed

text \<open>A run of the page in which the user never leaves the replay.\<close>

primrec stays :: "host_zone \<Rightarrow> (string \<Rightarrow> string) \<Rightarrow> (nat \<Rightarrow> string) \<Rightarrow> time_machine \<Rightarrow> time_input input list \<Rightarrow> bool" where
  "stays hz ft rnd s [] = True"
| "stays hz ft rnd s (i # inputs) =
     ((case i of
         User a \<Rightarrow> press a (time_view hz ft s) \<noteq> Some (In_Controller (Replay_Op ExitReplay))
       | Env x \<Rightarrow> True) \<and>
      stays hz ft rnd (time_step hz ft rnd s i) inputs)"

lemma session_time_update:
  assumes "cursor_on_axis (tm_replay s)" and "rs_data (tm_replay s) \<noteq> None" and "e \<in> offers (time_view hz ft s)"
    and "e \<noteq> In_Controller (Replay_Op ExitReplay)"
  shows "same_session (tm_replay s) (tm_replay (time_update hz rnd e s))"
proof (cases e)
  case (In_Controller c)
  with controller_offered[of c hz ft s] assms session_control[OF assms(2)] show ?thesis
    by (fastforce simp: time_update_def time_handle_def case_prod_beta)
next
  case (In_Bookmarks b)
  with session_bookmark[OF assms(2)] show ?thesis by (simp add: time_update_def time_handle_def case_prod_beta)
next
  case (Start_Scenario key)
  have "rs_target (tm_replay s) \<noteq> None" using assms(1,2) by (auto simp: cursor_on_axis_def replay_inv_def)
  with Start_Scenario assms(3) offers_panels[of hz ft s] show ?thesis by (auto simp: offers_time_view offers_content split: if_splits)
qed (simp_all add: time_update_def time_handle_def)

lemma session_time_env:
  assumes "rs_data (tm_replay s) \<noteq> None"
  shows "same_session (tm_replay s) (tm_replay (time_env hz x s))"
  using session_step[OF assms, of "QueryResolved _" hz] session_step[OF assms, of PlaybackTick hz]
  by (cases x) (simp_all add: time_env_def replay_step_def)

lemma session_goes_on:
  assumes "cursor_on_axis (tm_replay s)" and "rs_data (tm_replay s) \<noteq> None" and "stays hz ft rnd s inputs"
  shows "same_session (tm_replay s) (tm_replay (foldl (time_step hz ft rnd) s inputs)) \<and>
         cursor_on_axis (tm_replay (foldl (time_step hz ft rnd) s inputs))"
  using assms
proof (induction inputs arbitrary: s)
  case Nil
  then show ?case by simp
next
  case (Cons i inputs)
  let ?s1 = "time_step hz ft rnd s i"
  have session: "same_session (tm_replay s) (tm_replay ?s1)"
    using session_time_update[OF Cons.prems(1,2)] session_time_env[OF Cons.prems(2)] Cons.prems(3)
    by (auto simp: time_step_def app_step_def split: input.splits option.splits dest!: press_offers)
  have "cursor_on_axis (tm_replay ?s1)" unfolding time_step_def by (rule time_ui.inv_app_step[OF Cons.prems(1)])
  moreover have "rs_data (tm_replay ?s1) \<noteq> None" using session Cons.prems(2) by (simp add: same_session_def)
  ultimately show ?case using Cons.IH[of ?s1] Cons.prems(3) same_session_trans[OF session] by simp
qed

lemma bookmark_persists:
  assumes "cursor_on_axis (tm_replay s)" and "b \<in> set (rs_customBookmarks (tm_replay s))" and "stays hz ft rnd s later"
  shows "let s' = foldl (time_step hz ft rnd) s later; e = In_Bookmarks (Go_To_Bookmark (cb_timestamp b));
             r' = tm_replay (time_update hz rnd e s')
         in b \<in> set (rs_customBookmarks (tm_replay s')) \<and> e \<in> offers (time_view hz ft s') \<and>
            currentTimestamp r' = same_instant_tick hz (allTimestamps (tm_replay s)) (cb_timestamp b) \<and>
            \<not> rs_playing r' \<and> rs_customBookmarks r' = rs_customBookmarks (tm_replay s')"
proof -
  define s' where "s' = foldl (time_step hz ft rnd) s later"
  have axis: "allTimestamps (tm_replay s) \<noteq> []" using assms(1,2) by (auto simp: cursor_on_axis_def replay_inv_def)
  then have data: "rs_data (tm_replay s) \<noteq> None" by (metis allTimestamps_cong(5))
  note on = session_goes_on[OF assms(1) data assms(3), folded s'_def]
  have b: "b \<in> set (rs_customBookmarks (tm_replay s'))" using on assms(2) by (auto simp: same_session_def dest: set_mono_prefix)
  have target: "rs_target (tm_replay s') \<noteq> None"
    using on assms(1) data by (auto simp: same_session_def cursor_on_axis_def replay_inv_def)
  from bookmarks_lead[of s' hz rnd ft] on b target same_session_axis[of "tm_replay s" "tm_replay s'"] show ?thesis
    unfolding s'_def[symmetric] by (simp add: list_all_iff Let_def)
qed

lemma added_persists:
  assumes ok: "cursor_on_axis (tm_replay s)" and t: "currentTimestamp (tm_replay s) = Some t" "t \<noteq> []" "trim (tm_label s) \<noteq> []"
    and later: "stays hz ft rnd (time_update hz rnd (In_Bookmarks Add_Bookmark) s) later"
  shows "let s' = foldl (time_step hz ft rnd) (time_update hz rnd (In_Bookmarks Add_Bookmark) s) later;
             e = In_Bookmarks (Go_To_Bookmark t); r' = tm_replay (time_update hz rnd e s')
         in e \<in> offers (time_view hz ft s') \<and>
            currentTimestamp r' = same_instant_tick hz (allTimestamps (tm_replay s)) t \<and>
            \<not> rs_playing r' \<and> rs_customBookmarks r' = rs_customBookmarks (tm_replay s')"
proof -
  let ?a = "time_update hz rnd (In_Bookmarks Add_Bookmark) s"
  let ?b = "\<lparr>cb_id = rnd (tm_drawn s), cb_timestamp = t, cb_label = trim (tm_label s)\<rparr>"
  have ne: "allTimestamps (tm_replay s) \<noteq> []" using t(1) by (auto simp: currentTimestamp_def split: if_splits)
  then have data: "rs_data (tm_replay s) \<noteq> None" by (metis allTimestamps_cong(5))
  then have target: "rs_target (tm_replay s) \<noteq> None" using ok by (auto simp: cursor_on_axis_def replay_inv_def)
  from bookmark_added[OF ok, of hz ft rnd] t target
  have added: "In_Bookmarks Add_Bookmark \<in> offers (time_view hz ft s)" "?b \<in> set (rs_customBookmarks (tm_replay ?a))" by simp_all
  have axis: "allTimestamps (tm_replay ?a) = allTimestamps (tm_replay s)"
    by (rule same_session_axis[OF session_time_update[OF ok data added(1)]]) simp
  from bookmark_persists[OF cursor_time_update[OF ok added(1)] added(2) later] show ?thesis by (simp add: Let_def axis)
qed

text \<open>
  (C19) Bookmarks lead back. In every state a user can reach where the replay has a tick: adding a bookmark with a label that is not
  blank is offered, records the label with the tick of the cursor, at the end, and empties the field. From then on, whatever the
  user does and whatever arrives, as long as the user does not leave the replay, the bookmark has its button; the button takes the
  cursor to the tick of the same instant (the first, should several ticks denote it), which is the very tick that was current when the
  ticks denote different instants, stops the playback and keeps all bookmarks.
\<close>

theorem bookmarks_lead_back:
  "(let s = foldl (time_step hz ft rnd) (time_open d) inputs; r = tm_replay s;
        added = time_update hz rnd (In_Bookmarks Add_Bookmark) s; s' = foldl (time_step hz ft rnd) added later
    in case currentTimestamp r of
         None \<Rightarrow> In_Bookmarks Add_Bookmark \<notin> offers (time_view hz ft s)
       | Some t \<Rightarrow>
           if t = [] \<or> trim (tm_label s) = [] then True
           else In_Bookmarks Add_Bookmark \<in> offers (time_view hz ft s) \<and> tm_label added = [] \<and>
                rs_customBookmarks (tm_replay added) =
                  rs_customBookmarks r @ [\<lparr>cb_id = rnd (tm_drawn s), cb_timestamp = t, cb_label = trim (tm_label s)\<rparr>] \<and>
                (if stays hz ft rnd added later
                 then let e = In_Bookmarks (Go_To_Bookmark t); r' = tm_replay (time_update hz rnd e s')
                      in e \<in> offers (time_view hz ft s') \<and>
                         currentTimestamp r' = same_instant_tick hz (allTimestamps r) t \<and>
                         (if clear_axis hz (allTimestamps r) then currentTimestamp r' = Some t else True) \<and>
                         \<not> rs_playing r' \<and> rs_customBookmarks r' = rs_customBookmarks (tm_replay s')
                 else True))"
proof -
  define s where "s = foldl (time_step hz ft rnd) (time_open d) inputs"
  have ok: "cursor_on_axis (tm_replay s)" unfolding s_def time_step_def by (rule time_ui.inv_reachable)
  show ?thesis
  proof (cases "currentTimestamp (tm_replay s)")
    case None
    with bookmark_added[OF ok, of hz ft rnd] show ?thesis unfolding s_def[symmetric] by (simp add: Let_def)
  next
    case (Some t)
    have t: "t \<in> set (allTimestamps (tm_replay s))" using Some by (rule currentTimestamp_mem)
    have "rs_target (tm_replay s) \<noteq> None" using ok t by (auto simp: cursor_on_axis_def replay_inv_def)
    with bookmark_added[OF ok, of hz ft rnd] added_persists[OF ok Some] Some clear_axis_tick[OF _ t] show ?thesis
      unfolding s_def[symmetric] by (simp add: Let_def)
  qed
qed

text \<open>
  What changed since the previous tick is read from adjacent rows: the row compared with directly precedes, in the zone's timeline, a
  row with the identifier of the one on display, and that is the first such row. On the zone's first tick nothing is compared.
\<close>

theorem previous_row_adjacent:
  "(case displayTickIndex hz s of
      None \<Rightarrow> previousAssessment hz s = None \<and> changeSummary hz s = []
    | Some i \<Rightarrow>
        i < length (displayZoneTimeline hz s) \<and>
        map_option ra_assessment_id (displayAssessment hz s) = Some (ra_assessment_id (displayZoneTimeline hz s ! i)) \<and>
        previousAssessment hz s = (if i = 0 then None else Some (displayZoneTimeline hz s ! (i - 1))) \<and>
        (if i = 0 then changeSummary hz s = [] else True))"
proof (cases "displayTickIndex hz s")
  case None
  then have "previousAssessment hz s = None" by (simp add: previousAssessment_def)
  with None show ?thesis by (simp add: changeSummary_def buildChangeSummary_def split: option.split)
next
  case (Some i)
  then obtain a where a: "displayAssessment hz s = Some a"
    "find_index (\<lambda>x. ra_assessment_id x = ra_assessment_id a) (displayZoneTimeline hz s) = Some i"
    by (cases "displayAssessment hz s") (simp_all add: displayTickIndex_def)
  with find_index_Some[OF a(2)] Some show ?thesis
    by (auto simp: previousAssessment_def changeSummary_def buildChangeSummary_def)
qed

text \<open>
  A request for a replay that fails is shown as a replay without data: no heading of an error and no code, although the provider has
  the error. The page then offers nothing at all, neither to retry nor to leave the replay.
\<close>

theorem failed_replay_looks_empty:
  "(let s = time_env hz (Replay_Failed e) (time_update hz rnd (Start_Scenario key) s0)
    in if td_cache (tm_data s0) (picked_target key) \<noteq> None then True
       else tm_replayError s = Some e \<and> offers (time_view hz ft s) = {} \<and>
            concat (map (element_texts ''p'') (time_view hz ft s)) = [''No persisted assessments in this window yet.''])"
  by (simp add: Let_def time_update_def time_handle_def time_env_def settle_def startReplay_def reset_for_target_def
      time_view_def ReplayController_def replay_isLoading_def allTimestamps_def)

text \<open>
  The focus outlives its replay: after leaving one replay and starting another that does not have the focused zone, the page shows no
  zone's details at all, although the new replay has rows at its cursor.
\<close>

theorem focus_outlives_replay:
  "(let s1 = foldl (\<lambda>s e. time_update hz rnd e s) s0 [Focus_Zone z, In_Controller (Replay_Op ExitReplay), Start_Scenario key];
        s2 = time_env hz (Replay_Arrived d) s1
    in if z \<in> set (rd_zone_ids d) \<or> td_cache (tm_data s0) (picked_target key) \<noteq> None then True
       else tm_focusedZoneId s2 = Some z \<and> displayAssessment hz s2 = None \<and> changeSummary hz s2 = [] \<and>
            time_machine_map hz (time_dual s2) = time_machine_map hz (time_dual (s2\<lparr>tm_focusedZoneId := None\<rparr>)))"
proof -
  define s1 where "s1 = foldl (\<lambda>s e. time_update hz rnd e s) s0 [Focus_Zone z, In_Controller (Replay_Op ExitReplay), Start_Scenario key]"
  define s2 where "s2 = time_env hz (Replay_Arrived d) s1"
  have "tm_focusedZoneId s2 = Some z"
    by (simp add: s2_def s1_def time_env_def time_update_def time_handle_def case_prod_beta)
  moreover have "displayAssessment hz s2 = None" if "z \<notin> set (rd_zone_ids d)" "td_cache (tm_data s0) (picked_target key) = None"
  proof -
    have "tm_data s1 = tm_data s0" "rs_data (tm_replay s1) = None" "rs_target (tm_replay s1) \<noteq> None"
      using that(2) by (simp_all add: s1_def time_update_def time_handle_def case_prod_beta startReplay_def reset_for_target_def)
    then have "replay_zoneIds (tm_replay s2) = rd_zone_ids d"
      by (auto simp: s2_def time_env_def query_resolved_def replay_zoneIds_def)
    then have "z \<notin> fst ` set (time_assessments hz s2)"
      using that(1) replay_entries_keys[of hz "tm_replay s2"] by (metis time_assessments_def filter_is_subset list.set_map subsetD)
    then show ?thesis
      using \<open>tm_focusedZoneId s2 = Some z\<close> by (force simp: displayAssessment_def displayZoneId_def find_None_iff)
  qed
  moreover have "time_machine_map hz (time_dual s2) = time_machine_map hz (time_dual (s2\<lparr>tm_focusedZoneId := None\<rparr>))"
    by (simp add: time_dual_def)
  ultimately show ?thesis unfolding Let_def s1_def[symmetric] s2_def[symmetric] by (simp add: changeSummary_def)
qed

end
