(* ===== verification/Twin_Page.thy ===== *)
theory Twin_Page
  imports Replay_Controls
begin

section \<open>The digital twin\<close>

text \<open>
  What the pages share that show live data or, while a replay is active, the replay's cursor: the query that is
  in force, its banner and its empty text, and the events of their environment. Then \<open>pages/DigitalTwinPage.tsx\<close>: the
  plant map with an inspector for the selected zone, and in replay mode the controls of the replay.

  The properties: what the inspector says of a zone is what the map draws of it, in the centre of the camera; without an
  inspector the camera rests. The replay's cursor stays on its axis whatever is clicked here.
\<close>

subsection \<open>Pages of two modes\<close>

record dual_source =
  ds_dual :: dual
  ds_replayError :: "thrown option"
  ds_liveLoading :: bool
  ds_liveError :: "thrown option"
  ds_inspect :: "string \<Rightarrow> inspector_data"

definition dual_replay :: "dual_source \<Rightarrow> replay_state" where
  "dual_replay s = du_replay (ds_dual s)"

definition with_replay :: "replay_state \<Rightarrow> dual_source \<Rightarrow> dual_source" where
  "with_replay r s = s\<lparr>ds_dual := (ds_dual s)\<lparr>du_replay := r\<rparr>\<rparr>"

lemma with_replay_simps [simp]:
  "dual_replay (with_replay r s) = r" "dual_replay (s\<lparr>ds_replayError := e\<rparr>) = dual_replay s"
  "dual_replay (s\<lparr>ds_dual := d, ds_liveLoading := b, ds_liveError := e, ds_inspect := f\<rparr>) = du_replay d"
  by (simp_all add: dual_replay_def with_replay_def)

definition dual_isLoading :: "dual_source \<Rightarrow> bool" where
  "dual_isLoading s =
     (if isReplayMode (ds_dual s) then replay_isLoading (dual_replay s) (ds_replayError s) else ds_liveLoading s)"

definition dual_error :: "dual_source \<Rightarrow> thrown option" where
  "dual_error s = (if isReplayMode (ds_dual s) then ds_replayError s else ds_liveError s)"

definition replay_banner :: "dual_source \<Rightarrow> 'e node list" where
  "replay_banner s =
     cond (isReplayMode (ds_dual s))
       [el ''p'' [Text ''Showing a Time Machine replay tick, not live data.'', Text '' '',
          Link ''/time-machine'' [Text (''Open Time Machine controls '' @ utf8_arrow)]]]"

definition dual_result :: "host_zone \<Rightarrow> dual_source \<Rightarrow> 'e node list \<Rightarrow> 'e node list" where
  "dual_result hz s children =
     QueryResult
       \<lparr>qp_isLoading = dual_isLoading s, qp_error = dual_error s, qp_isEmpty = (length (entries hz (ds_dual s)) = 0),
        qp_emptyLabel =
          (if isReplayMode (ds_dual s) then ''This replay has no data at the current tick.''
           else ''No safety assessments have been recorded yet.''),
        qp_emptyHint = None, qp_emptyAction = None, qp_loadingLabel = None, qp_onRetry = None\<rparr> children"

text \<open>
  The environment: fresh data of the queries (the replay is the provider's and stays), the payload or the failure of a replay, the playback
  timer, and what the rest of the application does to the provider, such as starting a replay.
\<close>

datatype dual_input =
    Live_Data dual bool "thrown option" "string \<Rightarrow> inspector_data"
  | Payload ReplayData
  | Payload_Failed thrown
  | Playback
  | Replay_Started ReplayTarget "ReplayData option"

definition dual_env :: "host_zone \<Rightarrow> dual_input \<Rightarrow> dual_source \<Rightarrow> dual_source" where
  "dual_env hz x s =
     (let r = dual_replay s
      in case x of
           Live_Data d loading e inspect \<Rightarrow>
             s\<lparr>ds_dual := d\<lparr>du_replay := r\<rparr>, ds_liveLoading := loading, ds_liveError := e, ds_inspect := inspect\<rparr>
         | Payload d \<Rightarrow> (with_replay (query_resolved d r) s)\<lparr>ds_replayError := None\<rparr>
         | Payload_Failed e \<Rightarrow> if rs_target r \<noteq> None \<and> rs_data r = None then s\<lparr>ds_replayError := Some e\<rparr> else s
         | Playback \<Rightarrow> with_replay (playback_tick r) s
         | Replay_Started t cached \<Rightarrow> (with_replay (startReplay t cached r) s)\<lparr>ds_replayError := None\<rparr>)"

text \<open>After an exit the query of the provider is disabled and has no error.\<close>

definition left_replay :: "dual_source \<Rightarrow> dual_source" where
  "left_replay s = (if isReplayMode (ds_dual s) then s else s\<lparr>ds_replayError := None\<rparr>)"

lemma left_replay_replay [simp]: "dual_replay (left_replay s) = dual_replay s"
  by (simp add: left_replay_def)

lemma cursor_dual_env:
  assumes "cursor_on_axis (dual_replay s)"
  shows "cursor_on_axis (dual_replay (dual_env hz x s))"
  using assms cursor_keeps[OF assms, of "QueryResolved _"] cursor_keeps[OF assms, of PlaybackTick]
    cursor_keeps[OF assms, of "StartReplay _ _"]
  by (cases x) (simp_all add: dual_env_def Let_def replay_step_def)

lemma offers_dual_result: "offers (dual_result hz s children) \<subseteq> offers children"
  using offers_QueryResult by (fastforce simp: dual_result_def)

subsection \<open>pages/DigitalTwinPage.tsx: state and handlers\<close>

record twin =
  dt_source :: dual_source
  dt_selectedZoneId :: "string option"
  dt_hoveredZoneId :: "string option"
  dt_jumpValue :: string
  dt_bookmarkLabel :: string
  dt_drawn :: nat

datatype twin_event = Select_Zone string | Close_Inspector | Twin_Control control_event | Twin_Bookmark bookmark_event

definition twin_zones :: "host_zone \<Rightarrow> twin \<Rightarrow> PlantMapZone list" where
  "twin_zones hz s = twin_map hz (ds_dual (dt_source s))"

definition selected_zone :: "host_zone \<Rightarrow> twin \<Rightarrow> PlantMapZone option" where
  "selected_zone hz s = List.find (\<lambda>z. Some (pz_zoneId z) = dt_selectedZoneId s) (twin_zones hz s)"

definition twin_handle :: "host_zone \<Rightarrow> (nat \<Rightarrow> string) \<Rightarrow> twin_event \<Rightarrow> twin \<Rightarrow> twin" where
  "twin_handle hz rnd e s =
     (case e of
        Select_Zone z \<Rightarrow> s\<lparr>dt_selectedZoneId := Some z\<rparr>
      | Close_Inspector \<Rightarrow> s\<lparr>dt_selectedZoneId := None\<rparr>
      | Twin_Control c \<Rightarrow>
          let (r, v) = control_update hz c (dual_replay (dt_source s), dt_jumpValue s)
          in s\<lparr>dt_source := left_replay (with_replay r (dt_source s)), dt_jumpValue := v\<rparr>
      | Twin_Bookmark b \<Rightarrow>
          let (r, l, n) = bookmark_update hz rnd b (dual_replay (dt_source s), dt_bookmarkLabel s, dt_drawn s)
          in s\<lparr>dt_source := with_replay r (dt_source s), dt_bookmarkLabel := l, dt_drawn := n\<rparr>)"

text \<open>The parts with a state of their own lose it when they leave the page.\<close>

definition map_shown :: "host_zone \<Rightarrow> twin \<Rightarrow> bool" where
  "map_shown hz s =
     (\<not> dual_isLoading (dt_source s) \<and> dual_error (dt_source s) = None \<and> entries hz (ds_dual (dt_source s)) \<noteq> [])"

definition twin_settle :: "host_zone \<Rightarrow> twin \<Rightarrow> twin" where
  "twin_settle hz s =
     s\<lparr>dt_hoveredZoneId := (if map_shown hz s then dt_hoveredZoneId s else None),
       dt_jumpValue := (if isReplayMode (ds_dual (dt_source s)) then dt_jumpValue s else []),
       dt_bookmarkLabel := (if isReplayMode (ds_dual (dt_source s)) then dt_bookmarkLabel s else [])\<rparr>"

definition twin_update :: "host_zone \<Rightarrow> (nat \<Rightarrow> string) \<Rightarrow> twin_event \<Rightarrow> twin \<Rightarrow> twin" where
  "twin_update hz rnd e s = twin_settle hz (twin_handle hz rnd e s)"

datatype twin_input = Twin_Source dual_input | Twin_Pointer_Enters string | Twin_Pointer_Leaves string

definition twin_env :: "host_zone \<Rightarrow> twin_input \<Rightarrow> twin \<Rightarrow> twin" where
  "twin_env hz x s =
     twin_settle hz (case x of
        Twin_Source y \<Rightarrow> s\<lparr>dt_source := dual_env hz y (dt_source s)\<rparr>
      | Twin_Pointer_Enters z \<Rightarrow> s\<lparr>dt_hoveredZoneId := hover_enter z (dt_hoveredZoneId s)\<rparr>
      | Twin_Pointer_Leaves z \<Rightarrow> s\<lparr>dt_hoveredZoneId := hover_leave z (dt_hoveredZoneId s)\<rparr>)"

definition twin_open :: "dual_source \<Rightarrow> twin" where
  "twin_open d =
     \<lparr>dt_source = d, dt_selectedZoneId = None, dt_hoveredZoneId = None, dt_jumpValue = [], dt_bookmarkLabel = [], dt_drawn = 0\<rparr>"

subsection \<open>pages/DigitalTwinPage.tsx: the page\<close>

definition inspect_zone :: "bool \<Rightarrow> PlantMapZone \<Rightarrow> inspected_zone" where
  "inspect_zone isReplay z =
     \<lparr>iz_zoneId = pz_zoneId z, iz_name = pz_name z, iz_tier = pz_tier z, iz_compoundRiskScore = pz_compoundRiskScore z,
      iz_confidence = pz_confidence z, iz_timestamp = pz_timestamp z, iz_isReplaySnapshot = isReplay\<rparr>"

definition twin_inspector :: "host_zone \<Rightarrow> (string \<Rightarrow> string) \<Rightarrow> twin \<Rightarrow> twin_event node list" where
  "twin_inspector hz ft s =
     cond_some (selected_zone hz s) (\<lambda>z.
       [ZoneInspectorDrawer ft (ds_inspect (dt_source s) (pz_zoneId z)) (inspect_zone (isReplayMode (ds_dual (dt_source s))) z)
          (Some Close_Inspector)])"

definition twin_page_map :: "host_zone \<Rightarrow> (string \<Rightarrow> string) \<Rightarrow> twin \<Rightarrow> twin_event node" where
  "twin_page_map hz ft s =
     PlantMap ft (twin_zones hz s) (Some Select_Zone) True (dt_selectedZoneId s) (dt_hoveredZoneId s)"

definition twin_controls :: "host_zone \<Rightarrow> (string \<Rightarrow> string) \<Rightarrow> twin \<Rightarrow> twin_event node list" where
  "twin_controls hz ft s =
     (let d = dt_source s
      in cond (isReplayMode (ds_dual d))
           (map (map_node Twin_Control) (ReplayController ft (dual_replay d) (ds_replayError d) (dt_jumpValue s))
            @ [map_node Twin_Bookmark (BookmarksPanel hz ft (du_zones (ds_dual d)) (dual_replay d) (dt_bookmarkLabel s))]))"

definition twin_view :: "host_zone \<Rightarrow> (string \<Rightarrow> string) \<Rightarrow> twin \<Rightarrow> twin_event node list" where
  "twin_view hz ft s =
     [el ''section''
        ([el ''h1'' [Text ''Digital Twin''],
          p_text (''The plant as one interactive site plan - zones, workers, equipment, gas sensors, and work authorizations, ''
            @ ''colored by the same overall plant risk the rest of this platform computes. Click a zone to inspect it.'')]
         @ replay_banner (dt_source s) @ twin_controls hz ft s
         @ dual_result hz (dt_source s) [el ''div'' (el ''div'' [twin_page_map hz ft s] # twin_inspector hz ft s)])]"

subsection \<open>The cursor under the twin's controls\<close>

lemma offers_controls:
  "offers (twin_controls hz ft s) =
     (if isReplayMode (ds_dual (dt_source s))
      then Twin_Control ` offers (ReplayController ft (dual_replay (dt_source s)) (ds_replayError (dt_source s)) (dt_jumpValue s))
        \<union> Twin_Bookmark ` offered (BookmarksPanel hz ft (du_zones (ds_dual (dt_source s))) (dual_replay (dt_source s)) (dt_bookmarkLabel s))
      else {})"
  by (simp add: twin_controls_def Let_def offered_map_node offers_map_node)

lemma offers_twin:
  "offers (twin_view hz ft s) \<subseteq> offers (twin_controls hz ft s) \<union> Select_Zone ` pz_zoneId ` set (twin_zones hz s)
     \<union> (if selected_zone hz s = None then {} else {Close_Inspector})"
  using offers_dual_result[of hz "dt_source s" "[el ''div'' (el ''div'' [twin_page_map hz ft s] # twin_inspector hz ft s)]"]
  by (auto simp: twin_view_def replay_banner_def twin_page_map_def twin_inspector_def offered_map cond_some_def split: option.splits)

definition twin_step :: "host_zone \<Rightarrow> (string \<Rightarrow> string) \<Rightarrow> (nat \<Rightarrow> string) \<Rightarrow> twin \<Rightarrow> twin_input input \<Rightarrow> twin" where
  "twin_step hz ft rnd = app_step (twin_view hz ft) (twin_update hz rnd) (twin_env hz)"

lemma twin_settle_source [simp]: "dt_source (twin_settle hz s) = dt_source s"
  by (simp add: twin_settle_def)

lemma cursor_twin_update:
  assumes "cursor_on_axis (dual_replay (dt_source s))" and "e \<in> offers (twin_view hz ft s)"
  shows "cursor_on_axis (dual_replay (dt_source (twin_update hz rnd e s)))"
proof (cases e)
  case (Twin_Control c)
  then have "c \<in> offers (ReplayController ft (dual_replay (dt_source s)) (ds_replayError (dt_source s)) (dt_jumpValue s))"
    using assms(2) offers_twin[of hz ft s] by (auto simp: offers_controls split: if_splits)
  from cursor_control[OF assms(1) refl this] Twin_Control show ?thesis
    by (simp add: twin_update_def twin_handle_def case_prod_beta)
next
  case (Twin_Bookmark b)
  with assms(1) show ?thesis by (simp add: twin_update_def twin_handle_def case_prod_beta cursor_bookmark)
qed (use assms(1) in \<open>simp_all add: twin_update_def twin_handle_def\<close>)

lemma cursor_twin_env:
  "cursor_on_axis (dual_replay (dt_source s)) \<Longrightarrow> cursor_on_axis (dual_replay (dt_source (twin_env hz x s)))"
  by (cases x) (simp_all add: twin_env_def cursor_dual_env)

definition twin_before :: "dual_source \<Rightarrow> twin \<Rightarrow> bool" where
  "twin_before d s = (cursor_on_axis (dual_replay d) \<longrightarrow> cursor_on_axis (dual_replay (dt_source s)))"

interpretation twin_ui: ui_app "twin_open d" "twin_view hz ft" "twin_update hz rnd" "twin_env hz" "twin_before d" for hz ft rnd d
  by unfold_locales (auto simp: twin_before_def twin_open_def intro: cursor_twin_update cursor_twin_env)

subsection \<open>The selected zone\<close>

lemma find_nth: "List.find P xs = map_option (nth xs) (find_index P xs)"
  by (induction xs) (auto simp: option.map_comp o_def)

lemma find_enumerate:
  "List.find (\<lambda>(i, z). P z) (enumerate n zs) = map_option (\<lambda>i. (n + i, zs ! i)) (find_index P zs)"
  by (induction zs arbitrary: n) (auto simp: option.map_comp o_def)

lemma selectedLayout_find:
  "selectedLayout zs sel = map_option (\<lambda>i. layoutFor (pz_name (zs ! i)) i) (find_index (\<lambda>z. Some (pz_zoneId z) = sel) zs)"
  using find_enumerate[of "\<lambda>z. Some (pz_zoneId z) = sel" 0 zs] by (simp add: selectedLayout_def option.map_comp o_def)

lemma selected_zone_settle [simp]: "selected_zone hz (twin_settle hz s) = selected_zone hz s"
  by (simp add: selected_zone_def twin_zones_def twin_settle_def)

subsection \<open>Properties\<close>

text \<open>
  The twin is opened in the middle of a replay, moves the shared cursor and hands it back: if the cursor was on its axis, then whatever is
  clicked on the twin and whatever arrives, it selects a tick as soon as there is one.
\<close>

theorem twin_cursor:
  "(let r = dual_replay (dt_source (foldl (twin_step hz ft rnd) (twin_open d) inputs))
    in if cursor_on_axis (dual_replay d) \<and> allTimestamps r \<noteq> [] then currentTimestamp r \<noteq> None else True)"
proof -
  have "twin_before d (foldl (twin_step hz ft rnd) (twin_open d) inputs)" unfolding twin_step_def by (rule twin_ui.inv_reachable)
  then show ?thesis using cursor_on_axis_selects by (auto simp: Let_def twin_before_def)
qed

text \<open>
  Inspector, map and camera agree. An inspector is on the page only for a zone that the map draws, the selected one; it is headed by the
  zone's name on the map, the camera is on the slot the zone is drawn in, and closing it takes the camera back. Without an inspector
  the camera rests and nothing can be closed.
\<close>

theorem twin_inspector_agrees:
  "(let zones = twin_zones hz s; camera = (\<lambda>s. cameraTransform (selectedLayout (twin_zones hz s) (dt_selectedZoneId s)));
        rest = cameraTransform None
    in case selected_zone hz s of
         None \<Rightarrow> twin_inspector hz ft s = [] \<and> camera s = rest \<and> Close_Inspector \<notin> offers (twin_view hz ft s)
       | Some z \<Rightarrow>
           z \<in> set zones \<and> dt_selectedZoneId s = Some (pz_zoneId z) \<and>
           take 1 (concat (map (element_texts ''h3'') (twin_inspector hz ft s))) = [pz_name z] \<and>
           (\<exists>i<length zones. zones ! i = z \<and> camera s = cameraTransform (Some (layoutFor (pz_name z) i))) \<and>
           camera (twin_update hz rnd Close_Inspector s) = rest \<and> twin_inspector hz ft (twin_update hz rnd Close_Inspector s) = [])"
proof -
  have closed: "selected_zone hz (t\<lparr>dt_selectedZoneId := None\<rparr>) = None" for t
    by (simp add: selected_zone_def find_None_iff)
  have upd: "twin_update hz rnd Close_Inspector s = twin_settle hz (s\<lparr>dt_selectedZoneId := None\<rparr>)"
    by (simp add: twin_update_def twin_handle_def)
  show ?thesis
  proof (cases "selected_zone hz s")
    case None
    then have "selectedLayout (twin_zones hz s) (dt_selectedZoneId s) = None"
      by (simp add: selectedLayout_find selected_zone_def find_nth)
    moreover have "Close_Inspector \<notin> offers (twin_view hz ft s)"
    proof
      assume "Close_Inspector \<in> offers (twin_view hz ft s)"
      with offers_twin[of hz ft s] None show False by (auto simp: offers_controls split: if_splits)
    qed
    ultimately show ?thesis using None by (simp add: Let_def twin_inspector_def)
  next
    case (Some z)
    then obtain i where i: "find_index (\<lambda>z. Some (pz_zoneId z) = dt_selectedZoneId s) (twin_zones hz s) = Some i" "z = twin_zones hz s ! i"
      by (auto simp: selected_zone_def find_nth)
    with find_index_Some[OF i(1)] have "i < length (twin_zones hz s)" "dt_selectedZoneId s = Some (pz_zoneId z)"
      "selectedLayout (twin_zones hz s) (dt_selectedZoneId s) = Some (layoutFor (pz_name z) i)" by (simp_all add: selectedLayout_find)
    moreover have "take 1 (concat (map (element_texts ''h3'') (twin_inspector hz ft s))) = [pz_name z]"
      by (simp add: twin_inspector_def Some ZoneInspectorDrawer_def inspect_zone_def Let_def)
    moreover have "twin_inspector hz ft (twin_update hz rnd Close_Inspector s) = []"
      by (simp add: twin_inspector_def upd selected_zone_settle closed)
    moreover have "selectedLayout zs None = None" for zs by (simp add: selectedLayout_find find_index_None_iff)
    ultimately show ?thesis using i(2) by (auto simp: Let_def Some upd twin_settle_def)
  qed
qed

end
