(* ===== verification/Operations_Page.thy ===== *)
theory Operations_Page
  imports Twin_Page Pipeline Dependency_Graph
begin

section \<open>The operations center\<close>

text \<open>
  \<open>components/operations\<close> and \<open>pages/OperationsCenterPage.tsx\<close>: for one zone, what the operator should do right now. The page
  composes the action queue, the dependency graph, the impact explorer, the procedures, the incident timeline, the
  decision graph, the plant map and the zone inspector over one assessment. Its state is the focused zone, the zone in
  the address, the expanded cards (React keeps one state per action identifier), the running trace, and the state of the
  embedded components.

  The properties: the address is a faithful bookmark of what the page's own clicks display, and a link that changes it meanwhile is
  ignored; the first action can start at once unless the zone is normal; opened on a zone without a row, with rows of other zones
  there, the page is blank and has no control to change that; the inspector's close button does nothing.
\<close>

subsection \<open>components/operations\<close>

definition IMPACT_CLASS :: "ImpactLevel \<Rightarrow> string" where
  "IMPACT_CLASS l =
     (case l of CRITICAL \<Rightarrow> ''impact-critical'' | VERY_HIGH \<Rightarrow> ''impact-very-high'' | HIGH \<Rightarrow> ''impact-high''
      | MODERATE \<Rightarrow> ''impact-moderate'' | LOW \<Rightarrow> ''impact-low'' | INFORMATIONAL \<Rightarrow> ''impact-informational'')"

definition is_tier_action :: "string \<Rightarrow> bool" where
  "is_tier_action i = (take 5 i = ''tier_'')"

definition equipment_text :: "string \<Rightarrow> EquipmentInfo list option \<Rightarrow> string" where
  "equipment_text none equipment =
     (case equipment of
        Some (x # xs) \<Rightarrow> js_join '', '' (map (\<lambda>e. eq_equipment_type e @ '' ('' @ eq_isolation_status e @ '')'') (x # xs))
      | _ \<Rightarrow> none)"

definition permits_text :: "string \<Rightarrow> string list \<Rightarrow> string" where
  "permits_text none types = (if length types > 0 then js_join '', '' (map formatPermitType types) else none)"

text \<open>What the cards of a queue share.\<close>

record card_context =
  cx_zoneId :: string
  cx_zoneName :: string
  cx_assessment :: RiskAssessment
  cx_justification :: "RiskJustification option"
  cx_counterfactual :: "CounterfactualComparison option"
  cx_workerCount :: "number option"
  cx_activePermitTypes :: "string list"
  cx_equipment :: "EquipmentInfo list option"

definition card_evidence :: "RiskAssessment \<Rightarrow> PrioritizedAction \<Rightarrow> string" where
  "card_evidence a action =
     (if is_tier_action (rc_id action) then ''Tier is '' @ toUpperCase (ra_tier a) @ '' this tick.''
      else ''Rule fired: '' @ rc_id action)"

definition card_detail :: "(string \<Rightarrow> string) \<Rightarrow> card_context \<Rightarrow> PrioritizedAction \<Rightarrow> 'e node" where
  "card_detail ft c action =
     el ''div''
       [el ''dl''
          (definition_entry ''Reason'' (rc_text action) @ definition_entry ''Supporting evidence'' (card_evidence (cx_assessment c) action)
           @ definition_entry ''Required personnel'' (ap_requiredPersonnel (pa_metadata action))
           @ definition_entry ''Required equipment'' (case ap_requiredEquipment (pa_metadata action) of Some e \<Rightarrow> e | None \<Rightarrow> ''None'')
           @ definition_entry ''Affected zone'' (cx_zoneName c)
           @ definition_entry ''Affected workers'' (case cx_workerCount c of Some n \<Rightarrow> num_toString n @ '' present'' | None \<Rightarrow> ''Unknown'')
           @ definition_entry ''Affected equipment'' (equipment_text ''None recorded'' (cx_equipment c))
           @ definition_entry ''Affected work authorizations'' (permits_text ''None active'' (cx_activePermitTypes c))
           @ definition_entry ''Replay timestamp'' (ft (ra_timestamp (cx_assessment c)))
           @ definition_entry ''Alternative decision comparison''
               (case cx_counterfactual c of
                  Some x \<Rightarrow> explainComparison (cc_compound x) (cc_counterfactual x) (cx_justification c)
                | None \<Rightarrow> ''Not available for this tick.'')),
        el ''p''
          [Link (''/explain/'' @ ra_assessment_id (cx_assessment c)) [Text (''Decision Graph '' @ utf8_arrow)], Text '' '',
           Link (''/zones/'' @ cx_zoneId c) [Text (''Zone detail '' @ utf8_arrow)], Text '' '',
           Link (''/digital-twin?zone='' @ cx_zoneId c) [Text (''Digital Twin '' @ utf8_arrow)]]]"

definition card_summary :: "card_context \<Rightarrow> PrioritizedAction \<Rightarrow> 'e node" where
  "card_summary c action =
     el ''div''
       ([el ''span'' [Text (''ETA: '' @ ap_eta (pa_metadata action))]]
        @ cond (length (pa_dependencyLabels action) > 0)
            [el ''span'' [Text (''Depends on: '' @ js_join '', '' (pa_dependencyLabels action))]]
        @ cond_some (getSopReference (rc_id action) (cx_activePermitTypes c)) (\<lambda>sop.
            [el ''span'' [Text (''SOP: '' @ sop_standard sop @ '' ('' @ sop_section sop @ '')'')]]))"

text \<open>Clicking the header toggles the card and focuses its zone; the event carries the action's identifier.\<close>

definition ActionCard :: "(string \<Rightarrow> string) \<Rightarrow> card_context \<Rightarrow> (string \<Rightarrow> 'e) \<Rightarrow> bool \<Rightarrow> PrioritizedAction \<Rightarrow> 'e node" where
  "ActionCard ft c toggle expanded action =
     El ''li'' [(''class'', ''action-card card '' @ IMPACT_CLASS (pa_impactLevel action))]
       ([Button [(''aria-expanded'', if expanded then ''true'' else ''false'')] True (toggle (rc_id action))
           [el ''span'' [Text (''Priority '' @ show_nat (pa_priority action))],
            El ''span'' [(''class'', ''impact-badge '' @ IMPACT_CLASS (pa_impactLevel action))] [Text (impact_name (pa_impactLevel action))],
            el ''span'' [Text (rc_text action)], el ''span'' [Text (cx_zoneName c)]],
         card_summary c action]
        @ cond expanded [card_detail ft c action])"

definition ActionQueue ::
  "(string \<Rightarrow> string) \<Rightarrow> card_context \<Rightarrow> (string \<Rightarrow> 'e) \<Rightarrow> string list \<Rightarrow> PrioritizedAction list \<Rightarrow> 'e node" where
  "ActionQueue ft c toggle expanded actions =
     (if length actions = 0 then p_text ''No recommended actions right now - this zone is at NORMAL.''
      else el ''ol'' (map (\<lambda>action. ActionCard ft c toggle (rc_id action \<in> set expanded) action) actions))"

definition sequence_duration :: "PrioritizedAction list \<Rightarrow> nat" where
  "sequence_duration actions = length (buildDependencyLevels actions) * 500 + 600"

definition sequence_level :: "bool \<Rightarrow> nat \<Rightarrow> nat \<times> DependencyGraphLevel \<Rightarrow> 'e node" where
  "sequence_level tracing levels il =
     el ''div''
       (el ''div'' (map (\<lambda>action.
          El ''div''
            ([(''class'', ''dependency-graph-node '' @ IMPACT_CLASS (pa_impactLevel action) @ '' ''
                 @ (if tracing then ''dependency-graph-node-tracing'' else []))]
             @ (if tracing then [(''animationDelay'', num_toString (nmul (of_nat (fst il)) (1 / 2)) @ ''s'')] else [])
             @ [(''title'', rc_text action)])
            [Text (rc_text action)]) (dg_actions (snd il)))
        # cond (fst il + 1 < levels) [el ''div'' [Text utf8_darr]])"

definition OperationalDependencyGraph :: "'e \<Rightarrow> bool \<Rightarrow> PrioritizedAction list \<Rightarrow> 'e node" where
  "OperationalDependencyGraph trace tracing actions =
     (let levels = buildDependencyLevels actions
      in if length levels = 0 then p_text ''No active actions to sequence right now.''
         else el ''div''
           (Button [] (\<not> tracing) trace [Text (if tracing then ''Tracing'' @ utf8_ellipsis else ''Trace response sequence'')]
            # map (sequence_level tracing (length levels)) (enumerate 0 levels)))"

text \<open>\<open>new Map\<close> over the ranked factors: of equal names the last one stays.\<close>

definition rankByAgent :: "RiskJustification option \<Rightarrow> string \<Rightarrow> (nat \<times> RankedFactor) option" where
  "rankByAgent justification =
     map_of (rev (map (\<lambda>(index, f). (rk_agentName f, (index, f))) (enumerate 0 (rankContributingFactors justification))))"

definition impact_target :: "RiskJustification option \<Rightarrow> PrioritizedAction \<Rightarrow> 'e node" where
  "impact_target justification action =
     (let bonusApplied = hasInteractionBonus justification; ranked = rankContributingFactors justification
      in if ap_targetedFactor (pa_metadata action) = ''interaction_bonus''
         then p_text
           (if bonusApplied
            then ''Targets the interaction bonus itself - Fusion is currently applying a '' @ utf8_times
              @ (case justification of Some j \<Rightarrow> toFixed (rj_interactionBonusApplied j) 2 | None \<Rightarrow> ''undefined'')
              @ '' multiplier this tick (rule: interaction_bonus_applied).''
            else ''No interaction bonus is currently applied - this action would be preventative, not corrective.'')
         else (case rankByAgent justification (ap_targetedFactor (pa_metadata action)) of
           Some (rank, factor) \<Rightarrow>
             el ''p''
               ([Text ''Targets '', strong (rk_displayName factor), Text ('' - currently '' @ toFixed (rk_risk factor) 1 @ '' risk (''),
                 Text (percent0 (rk_confidence factor) @ '' confidence), ranked #'' @ show_nat (rank + 1) @ '' of '' @ show_nat (length ranked)),
                 Text '' contributing factors this tick.'']
                @ cond (bonusApplied \<and> rank < 2)
                    [Text '' This factor is one of the two highest contributors while the interaction bonus is active.''])
         | None \<Rightarrow> p_text ''Targets the current operational status decision, not a single decision contributor.''))"

definition relatedActions :: "PrioritizedAction list \<Rightarrow> PrioritizedAction \<Rightarrow> PrioritizedAction list" where
  "relatedActions actions action =
     filter (\<lambda>other. rc_id other \<noteq> rc_id action \<and>
       ap_targetedFactor (pa_metadata other) = ap_targetedFactor (pa_metadata action)) actions"

definition impact_item :: "PrioritizedAction list \<Rightarrow> RiskJustification option \<Rightarrow> PrioritizedAction \<Rightarrow> 'e node" where
  "impact_item actions justification action =
     (let related = relatedActions actions action
      in el ''li''
           ([strong (rc_text action), p_text (''Expected qualitative improvement: '' @ impact_name (pa_impactLevel action)),
             impact_target justification action,
             p_text (''Supporting evidence: ''
               @ (if is_tier_action (rc_id action)
                  then ''tier_after = '' @ (case justification of Some j \<Rightarrow> rj_tierAfter j | None \<Rightarrow> ''n/a'')
                  else ''rule '' @ quoted (rc_id action) @ '' fired''))]
            @ cond (length related > 0)
                [p_text (''Related recommendations targeting the same factor: '' @ js_join ''; '' (map rc_text related))]))"

definition OperationalImpactExplorer :: "PrioritizedAction list \<Rightarrow> RiskJustification option \<Rightarrow> 'e node" where
  "OperationalImpactExplorer actions justification =
     (if length actions = 0 then p_text ''No active recommendations to explore right now.''
      else el ''ul'' (map (impact_item actions justification) actions))"

definition sop_item :: "string list \<Rightarrow> PrioritizedAction \<Rightarrow> 'e node" where
  "sop_item activePermitTypes action =
     el ''li''
       (strong (rc_text action)
        # (case getSopReference (rc_id action) activePermitTypes of
             Some sop \<Rightarrow>
               [p_text (sop_title sop @ '' '' @ utf8_emdash @ '' '' @ sop_standard sop @ '' ('' @ sop_section sop @ '')''), p_text (sop_summary sop),
                (case truthy (sop_externalUrl sop) of
                   Some url \<Rightarrow> El ''a'' [(''href'', url)] [Text (''Open reference document '' @ utf8_arrow)]
                 | None \<Rightarrow> el ''span'' [Text ''No external document link configured.''])]
           | None \<Rightarrow> [p_text ''No SOP reference configured for this recommendation.'']))"

definition SopPanel :: "PrioritizedAction list \<Rightarrow> string list \<Rightarrow> 'e node" where
  "SopPanel actions activePermitTypes =
     (if length actions = 0 then p_text ''No active recommendations to map to an SOP right now.''
      else el ''ul'' (map (sop_item activePermitTypes) actions))"

record TimelineEntry =
  tl_timestamp :: string
  tl_label :: string
  tl_kind :: string

definition timeline_item :: "(string \<Rightarrow> string) \<Rightarrow> (string \<Rightarrow> 'e) option \<Rightarrow> TimelineEntry \<Rightarrow> 'e node" where
  "timeline_item ft onJump entry =
     (let texts = [el ''span'' [Text (ft (tl_timestamp entry))], el ''span'' [Text (tl_label entry)]]
      in El ''li'' [(''class'', ''operator-timeline-entry operator-timeline-'' @ tl_kind entry)]
           (case onJump of Some f \<Rightarrow> [Button [] True (f (tl_timestamp entry)) texts] | None \<Rightarrow> texts))"

definition OperatorTimeline :: "(string \<Rightarrow> string) \<Rightarrow> (string \<Rightarrow> 'e) option \<Rightarrow> TimelineEntry list \<Rightarrow> 'e node" where
  "OperatorTimeline ft onJump timeline =
     (if length timeline = 0 then p_text ''No incident events recorded in this window yet.''
      else el ''ol'' (map (timeline_item ft onJump) timeline))"

subsection \<open>pages/OperationsCenterPage.tsx: state and derived values\<close>

record operations =
  op_source :: dual_source
  op_counterfactual :: "string \<Rightarrow> string \<Rightarrow> CounterfactualComparison option"
  op_equipment :: "string \<Rightarrow> EquipmentInfo list option"
  op_history :: "string \<Rightarrow> RiskAssessment list option"
  op_focusedZoneId :: "string option"
  op_address :: "string option"
  op_expanded :: "string list"
  op_sequenceTracing :: bool
  op_diagram :: diagram
  op_hoveredZoneId :: "string option"

datatype operations_event =
    Toggle_Action string
  | Focus_On string
  | Trace_Sequence
  | Jump_To_Entry string
  | Op_Diagram diagram_event
  | Close_Nothing

definition op_entries :: "host_zone \<Rightarrow> operations \<Rightarrow> (string \<times> RiskAssessment) list" where
  "op_entries hz s = entries hz (ds_dual (op_source s))"

definition op_mapZones :: "host_zone \<Rightarrow> operations \<Rightarrow> PlantMapZone list" where
  "op_mapZones hz s = twin_map hz (ds_dual (op_source s))"

definition op_zoneId :: "host_zone \<Rightarrow> operations \<Rightarrow> string option" where
  "op_zoneId hz s =
     (case op_focusedZoneId s of Some z \<Rightarrow> Some z | None \<Rightarrow> map_option fst (head_option (op_entries hz s)))"

definition op_assessment :: "host_zone \<Rightarrow> operations \<Rightarrow> RiskAssessment option" where
  "op_assessment hz s = map_option snd (List.find (\<lambda>e. Some (fst e) = op_zoneId hz s) (op_entries hz s))"

definition op_justification :: "RiskAssessment \<Rightarrow> RiskJustification option" where
  "op_justification a = parseJustification (ra_justification a)"

definition op_recommendations :: "RiskAssessment \<Rightarrow> Recommendation list" where
  "op_recommendations a = deriveRecommendations (ra_tier a) (op_justification a)"

definition op_queue :: "RiskAssessment \<Rightarrow> PrioritizedAction list" where
  "op_queue a = buildActionQueue (op_recommendations a) (op_justification a)"

definition op_mapZone :: "host_zone \<Rightarrow> operations \<Rightarrow> PlantMapZone option" where
  "op_mapZone hz s = List.find (\<lambda>z. Some (pz_zoneId z) = op_zoneId hz s) (op_mapZones hz s)"

definition op_activePermitTypes :: "host_zone \<Rightarrow> operations \<Rightarrow> string list" where
  "op_activePermitTypes hz s = (case Option.bind (op_mapZone hz s) pz_activePermitTypes of Some ts \<Rightarrow> ts | None \<Rightarrow> [])"

definition op_displayEquipment :: "host_zone \<Rightarrow> operations \<Rightarrow> EquipmentInfo list option" where
  "op_displayEquipment hz s = Option.bind (op_zoneId hz s) (op_equipment s)"

definition op_displayCounterfactual :: "host_zone \<Rightarrow> operations \<Rightarrow> CounterfactualComparison option" where
  "op_displayCounterfactual hz s =
     (case find_index (\<lambda>e. Some (fst e) = op_zoneId hz s) (op_entries hz s) of
        Some i \<Rightarrow> data_at (map (\<lambda>(z, a). op_counterfactual s z (ra_timestamp a)) (op_entries hz s)) i
      | None \<Rightarrow> None)"

definition timeline_kind_name :: "TimelineKind \<Rightarrow> string" where
  "timeline_kind_name k =
     (case k of tier_change \<Rightarrow> ''tier_change'' | critical \<Rightarrow> ''critical'' | interaction_bonus \<Rightarrow> ''interaction_bonus''
      | highest_risk \<Rightarrow> ''highest_risk'')"

definition op_timeline :: "host_zone \<Rightarrow> operations \<Rightarrow> TimelineEntry list" where
  "op_timeline hz s =
     (if isReplayMode (ds_dual (op_source s))
      then map (\<lambda>b. \<lparr>tl_timestamp = rb_timestamp b, tl_label = rb_label b, tl_kind = rb_kind b\<rparr>)
             (filter (\<lambda>b. Some (rb_zone_id b) = op_zoneId hz s) (replay_bookmarks (dual_replay (op_source s))))
      else map (\<lambda>e. \<lparr>tl_timestamp = te_timestamp e, tl_label = te_label e, tl_kind = timeline_kind_name (te_kind e)\<rparr>)
             (deriveTimelineEvents hz
               (rev (case Option.bind (op_zoneId hz s) (op_history s) of Some items \<Rightarrow> items | None \<Rightarrow> []))))"

definition stageLabelFor :: "string \<Rightarrow> string" where
  "stageLabelFor targetedFactor =
     (if targetedFactor = ''interaction_bonus'' then ''Fusion'' else if targetedFactor = ''tier'' then ''Tiering''
      else js_join '' '' (map capitalize (split_on CHR ''_'' targetedFactor)))"

definition BUSINESS_IMPACT_BY_TIER :: "(string \<times> string) list" where
  "BUSINESS_IMPACT_BY_TIER =
     [(''normal'', ''No impact - normal operations''), (''watch'', ''Minor - monitor, no operational change needed''),
      (''elevated'', ''Moderate - schedule mitigation soon''), (''critical'', ''Severe - immediate action required'')]"

subsection \<open>pages/OperationsCenterPage.tsx: handlers\<close>

definition setFocusedZoneId :: "string \<Rightarrow> operations \<Rightarrow> operations" where
  "setFocusedZoneId z s = s\<lparr>op_focusedZoneId := Some z, op_address := truthy (Some z)\<rparr>"

definition toggle_member :: "string \<Rightarrow> string list \<Rightarrow> string list" where
  "toggle_member i xs = (if i \<in> set xs then filter (\<lambda>x. x \<noteq> i) xs else xs @ [i])"

definition op_handle :: "host_zone \<Rightarrow> operations_event \<Rightarrow> operations \<Rightarrow> operations" where
  "op_handle hz e s =
     (case e of
        Toggle_Action i \<Rightarrow>
          let s' = s\<lparr>op_expanded := toggle_member i (op_expanded s)\<rparr>
          in (case op_zoneId hz s of Some z \<Rightarrow> setFocusedZoneId z s' | None \<Rightarrow> s')
      | Focus_On z \<Rightarrow> setFocusedZoneId z s
      | Trace_Sequence \<Rightarrow> s\<lparr>op_sequenceTracing := True\<rparr>
      | Jump_To_Entry t \<Rightarrow> s\<lparr>op_source := with_replay (jumpToTimestamp hz t (dual_replay (op_source s))) (op_source s)\<rparr>
      | Op_Diagram d \<Rightarrow> s\<lparr>op_diagram := diagram_update d (op_diagram s)\<rparr>
      | Close_Nothing \<Rightarrow> s)"

text \<open>A card that leaves the queue, and everything below the query while there is nothing to display, loses its state.\<close>

definition op_shown :: "host_zone \<Rightarrow> operations \<Rightarrow> RiskAssessment option" where
  "op_shown hz s =
     (if dual_isLoading (op_source s) \<or> dual_error (op_source s) \<noteq> None \<or> op_entries hz s = [] then None
      else op_assessment hz s)"

definition op_settle :: "host_zone \<Rightarrow> operations \<Rightarrow> operations" where
  "op_settle hz s =
     (case op_shown hz s of
        Some a \<Rightarrow> s\<lparr>op_expanded := filter (\<lambda>i. i \<in> rc_id ` set (op_queue a)) (op_expanded s)\<rparr>
      | None \<Rightarrow> s\<lparr>op_expanded := [], op_sequenceTracing := False, op_diagram := diagram_start, op_hoveredZoneId := None\<rparr>)"

definition op_update :: "host_zone \<Rightarrow> operations_event \<Rightarrow> operations \<Rightarrow> operations" where
  "op_update hz e s = op_settle hz (op_handle hz e s)"

text \<open>The address can change under the page: \<open>useState\<close> reads it only when the page opens.\<close>

datatype operations_input =
    Op_Source dual_input
  | Op_Queries "string \<Rightarrow> string \<Rightarrow> CounterfactualComparison option" "string \<Rightarrow> EquipmentInfo list option"
      "string \<Rightarrow> RiskAssessment list option"
  | Navigate "string option"
  | Sequence_Over
  | Op_Trace_Over
  | Op_Pointer_Enters string
  | Op_Pointer_Leaves string

definition op_env :: "host_zone \<Rightarrow> operations_input \<Rightarrow> operations \<Rightarrow> operations" where
  "op_env hz x s =
     op_settle hz (case x of
        Op_Source y \<Rightarrow> s\<lparr>op_source := dual_env hz y (op_source s)\<rparr>
      | Op_Queries cf eq h \<Rightarrow> s\<lparr>op_counterfactual := cf, op_equipment := eq, op_history := h\<rparr>
      | Navigate z \<Rightarrow> s\<lparr>op_address := z\<rparr>
      | Sequence_Over \<Rightarrow> s\<lparr>op_sequenceTracing := False\<rparr>
      | Op_Trace_Over \<Rightarrow> s\<lparr>op_diagram := diagram_env Trace_Timeout (op_diagram s)\<rparr>
      | Op_Pointer_Enters z \<Rightarrow> s\<lparr>op_hoveredZoneId := hover_enter z (op_hoveredZoneId s)\<rparr>
      | Op_Pointer_Leaves z \<Rightarrow> s\<lparr>op_hoveredZoneId := hover_leave z (op_hoveredZoneId s)\<rparr>)"

definition op_open :: "dual_source \<Rightarrow> string option \<Rightarrow> operations" where
  "op_open d address =
     \<lparr>op_source = d, op_counterfactual = (\<lambda>z t. None), op_equipment = (\<lambda>z. None), op_history = (\<lambda>z. None),
      op_focusedZoneId = address, op_address = address, op_expanded = [], op_sequenceTracing = False,
      op_diagram = diagram_start, op_hoveredZoneId = None\<rparr>"

subsection \<open>pages/OperationsCenterPage.tsx: the page\<close>

definition op_card_context :: "host_zone \<Rightarrow> operations \<Rightarrow> string \<Rightarrow> RiskAssessment \<Rightarrow> card_context" where
  "op_card_context hz s z a =
     \<lparr>cx_zoneId = z, cx_zoneName = zoneLabel z (du_zones (ds_dual (op_source s))), cx_assessment = a, cx_justification = op_justification a,
      cx_counterfactual = op_displayCounterfactual hz s, cx_workerCount = Option.bind (op_mapZone hz s) pz_workerCount,
      cx_activePermitTypes = op_activePermitTypes hz s, cx_equipment = op_displayEquipment hz s\<rparr>"

definition status_header :: "host_zone \<Rightarrow> (string \<Rightarrow> string) \<Rightarrow> operations \<Rightarrow> string \<Rightarrow> RiskAssessment \<Rightarrow> operations_event node" where
  "status_header hz ft s z a =
     (let j = op_justification a; explanation = generateExecutiveExplanation a j (op_recommendations a); queue = op_queue a
      in el ''div''
           ([el ''h2'' [Text (zoneLabel z (du_zones (ds_dual (op_source s))))],
             el ''p''
               ([TierBadge (ra_tier a), Text ('' '' @ toFixed (ra_compound_risk_score a) 1 @ '' '' @ utf8_middot @ '' ''
                   @ percent0 (ra_confidence a) @ '' confidence'')]
                @ cond_some j (\<lambda>x. cond (''interaction_bonus_applied'' \<in> set (rj_rulesFired x))
                    [Text ('' '' @ utf8_middot @ '' Interaction bonus '' @ utf8_times @ toFixed (rj_interactionBonusApplied x) 2)])),
             p_text (''Workers present: '' @ (case Option.bind (op_mapZone hz s) pz_workerCount of Some n \<Rightarrow> num_toString n | None \<Rightarrow> ''Unknown'')
               @ '' '' @ utf8_middot @ '' Active work authorizations: '' @ permits_text ''None'' (op_activePermitTypes hz s)
               @ '' '' @ utf8_middot @ '' Equipment: '' @ equipment_text ''None recorded'' (op_displayEquipment hz s)),
             p_text ((if isReplayMode (ds_dual (op_source s)) then ''Replay tick'' else ''As of'') @ '': '' @ ft (ra_timestamp a))]
            @ cond (explanation \<noteq> []) [p_text explanation]
            @ [el ''p'' [strong ''Business impact:'', Text '' '',
                 Text (case map_of BUSINESS_IMPACT_BY_TIER (ra_tier a) of Some t \<Rightarrow> t | None \<Rightarrow> ''Unknown'')]]
            @ cond_some (head_option queue) (\<lambda>act.
                [el ''p'' [strong ''What happens next:'', Text ('' '' @ rc_text act @ '' (ETA '' @ ap_eta (pa_metadata act) @ '')'')]])))"

definition actions_column :: "host_zone \<Rightarrow> (string \<Rightarrow> string) \<Rightarrow> operations \<Rightarrow> string \<Rightarrow> RiskAssessment \<Rightarrow> operations_event node list" where
  "actions_column hz ft s z a =
     (let j = op_justification a; queue = op_queue a; isReplay = isReplayMode (ds_dual (op_source s))
      in [el ''div'' [el ''h3'' [Text ''Prioritized Action Queue''],
            ActionQueue ft (op_card_context hz s z a) Toggle_Action (op_expanded s) queue],
          el ''div'' [el ''h3'' [Text ''Action Sequence''], OperationalDependencyGraph Trace_Sequence (op_sequenceTracing s) queue],
          el ''div'' [el ''h3'' [Text ''Why These Actions''], OperationalImpactExplorer queue j],
          el ''div'' [el ''h3'' [Text ''Standard Procedures''], SopPanel queue (op_activePermitTypes hz s)],
          el ''div'' [el ''h3'' [Text ''Incident Timeline''],
            OperatorTimeline ft (if isReplay then Some Jump_To_Entry else None) (op_timeline hz s)],
          el ''div''
            ([el ''h3'' [Text ''Decision Graph''], map_node Op_Diagram (PipelineDiagram ft a j (op_diagram s))]
             @ cond (length queue > 0)
                 [el ''div'' [el ''h4'' [Text ''Actions by pipeline stage''],
                    el ''ul'' (map (\<lambda>action. el ''li''
                      [Text (stageLabelFor (ap_targetedFactor (pa_metadata action)) @ '': '' @ rc_text action)]) queue)]])])"

definition op_inspected :: "operations \<Rightarrow> string \<Rightarrow> RiskAssessment \<Rightarrow> inspected_zone" where
  "op_inspected s z a =
     \<lparr>iz_zoneId = z, iz_name = zoneLabel z (du_zones (ds_dual (op_source s))), iz_tier = ra_tier a,
      iz_compoundRiskScore = ra_compound_risk_score a, iz_confidence = ra_confidence a, iz_timestamp = ra_timestamp a,
      iz_isReplaySnapshot = isReplayMode (ds_dual (op_source s))\<rparr>"

definition twin_column :: "host_zone \<Rightarrow> (string \<Rightarrow> string) \<Rightarrow> operations \<Rightarrow> string \<Rightarrow> RiskAssessment \<Rightarrow> operations_event node list" where
  "twin_column hz ft s z a =
     [el ''div'' [el ''h3'' [Text ''Digital Twin Snapshot''],
        PlantMap ft (op_mapZones hz s) (Some Focus_On) True None (op_hoveredZoneId s),
        el ''p'' [Link (''/digital-twin?zone='' @ z) [Text (''Open full Digital Twin '' @ utf8_arrow)]]]]
     @ cond (z \<noteq> []) [ZoneInspectorDrawer ft (ds_inspect (op_source s) z) (op_inspected s z a) (Some Close_Nothing)]"

definition op_content :: "host_zone \<Rightarrow> (string \<Rightarrow> string) \<Rightarrow> operations \<Rightarrow> operations_event node list" where
  "op_content hz ft s =
     cond_some (op_zoneId hz s) (\<lambda>z. cond_some (op_assessment hz s) (\<lambda>a.
       [status_header hz ft s z a, el ''div'' [el ''div'' (actions_column hz ft s z a), el ''div'' (twin_column hz ft s z a)]]))"

definition op_view :: "host_zone \<Rightarrow> (string \<Rightarrow> string) \<Rightarrow> operations \<Rightarrow> operations_event node list" where
  "op_view hz ft s =
     [el ''section''
        ([el ''h1'' [Text ''Operations Center''],
          p_text (''What should the operator do right now? Every action, dependency, and SOP reference below is composed from ''
            @ ''data already computed elsewhere on this platform - nothing here recomputes risk.'')]
         @ replay_banner (op_source s) @ dual_result hz (op_source s) (op_content hz ft s))]"

subsection \<open>What the page offers\<close>

definition op_step :: "host_zone \<Rightarrow> (string \<Rightarrow> string) \<Rightarrow> operations \<Rightarrow> operations_input input \<Rightarrow> operations" where
  "op_step hz ft = app_step (op_view hz ft) (op_update hz) (op_env hz)"

lemma op_settle_simps [simp]:
  "op_source (op_settle hz s) = op_source s" "op_focusedZoneId (op_settle hz s) = op_focusedZoneId s"
  "op_address (op_settle hz s) = op_address s"
  by (simp_all add: op_settle_def split: option.split)

lemma op_view_offers: "offers (op_view hz ft s) \<subseteq> offers (op_content hz ft s)"
  using offers_dual_result[of hz "op_source s" "op_content hz ft s"] by (auto simp: op_view_def replay_banner_def)

lemma op_zoneId_cong: "op_entries hz s = op_entries hz t \<Longrightarrow> op_focusedZoneId s = op_focusedZoneId t \<Longrightarrow> op_zoneId hz s = op_zoneId hz t"
  by (simp add: op_zoneId_def split: option.split)

lemma op_entries_settle [simp]: "op_entries hz (op_settle hz s) = op_entries hz s"
  by (simp add: op_entries_def)

subsection \<open>The shared cursor\<close>

lemma cursor_op_update:
  "cursor_on_axis (dual_replay (op_source s)) \<Longrightarrow> cursor_on_axis (dual_replay (op_source (op_update hz e s)))"
  using cursor_keeps[of "dual_replay (op_source s)" "JumpToTimestamp _" hz]
  by (cases e) (simp_all add: op_update_def op_handle_def setFocusedZoneId_def Let_def replay_step_def split: option.split)

lemma cursor_op_env:
  "cursor_on_axis (dual_replay (op_source s)) \<Longrightarrow> cursor_on_axis (dual_replay (op_source (op_env hz x s)))"
  by (cases x) (simp_all add: op_env_def cursor_dual_env)

definition op_before :: "dual_source \<Rightarrow> operations \<Rightarrow> bool" where
  "op_before d s = (cursor_on_axis (dual_replay d) \<longrightarrow> cursor_on_axis (dual_replay (op_source s)))"

interpretation op_ui: ui_app "op_open d address" "op_view hz ft" "op_update hz" "op_env hz" "op_before d" for hz ft d address
  by unfold_locales (auto simp: op_before_def op_open_def intro: cursor_op_update cursor_op_env)

subsection \<open>The address\<close>

definition op_synced :: "operations \<Rightarrow> bool" where
  "op_synced s = (op_address s = op_focusedZoneId s \<or> op_focusedZoneId s = Some [])"

definition not_navigated :: "operations_input input \<Rightarrow> bool" where
  "not_navigated i = (case i of Env (Navigate z) \<Rightarrow> False | _ \<Rightarrow> True)"

text \<open>The page in an environment that leaves the address alone.\<close>

definition steady_op_env :: "host_zone \<Rightarrow> operations_input \<Rightarrow> operations \<Rightarrow> operations" where
  "steady_op_env hz x s = (if not_navigated (Env x) then op_env hz x s else s)"

lemma synced_open: "op_synced (op_open d address)"
  by (simp add: op_synced_def op_open_def)

lemma synced_focus: "op_synced (setFocusedZoneId z s)"
  by (simp add: op_synced_def setFocusedZoneId_def truthy_def)

lemma synced_update: "op_synced s \<Longrightarrow> op_synced (op_update hz e s)"
proof -
  assume s: "op_synced s"
  have "op_synced (op_settle hz t) = op_synced t" for t by (simp add: op_synced_def)
  moreover have "op_synced (op_handle hz e s)"
    using s synced_focus by (cases e) (auto simp: op_handle_def Let_def op_synced_def split: option.split)
  ultimately show ?thesis by (simp add: op_update_def)
qed

lemma synced_env: "op_synced s \<Longrightarrow> op_synced (steady_op_env hz x s)"
  by (cases x) (simp_all add: steady_op_env_def not_navigated_def op_env_def op_synced_def)

interpretation address_ui: ui_app "op_open d address" "op_view hz ft" "op_update hz" "steady_op_env hz" op_synced
  for hz ft d address
  by unfold_locales (simp_all add: synced_open synced_update synced_env)

lemma steady_run:
  "list_all not_navigated inputs \<Longrightarrow>
     foldl (op_step hz ft) s inputs = foldl (app_step (op_view hz ft) (op_update hz) (steady_op_env hz)) s inputs"
proof (induction inputs arbitrary: s)
  case (Cons i inputs)
  then have "op_step hz ft s i = app_step (op_view hz ft) (op_update hz) (steady_op_env hz) s i"
    by (cases i) (simp_all add: op_step_def app_step_def steady_op_env_def)
  with Cons show ?case by simp
qed simp

subsection \<open>The first action\<close>

lemma tier_actions_free:
  "r \<in> {''tier_watch'', ''tier_elevated'', ''tier_critical''} \<Longrightarrow> ap_dependsOn (getActionMetadata r) = []"
  by (elim insertE) (simp_all add: getActionMetadata_def ACTION_PLAYBOOK_def)

lemma queue_dependencies_ids:
  "map (\<lambda>act. (rc_id act, pa_dependencyLabels act)) (buildActionQueue rs j) =
     map (\<lambda>i. (i, filter (\<lambda>d. d \<in> rc_id ` set rs) (ap_dependsOn (getActionMetadata i)))) (map rc_id rs)"
  by (rule nth_equalityI) (simp_all add: nth_buildActionQueue queue_action_def Let_def)

lemma two_rules_dependencies:
  "ap_dependsOn (getActionMetadata ''unauthorized_presence'') = [''permit_status_escalated'']"
  "ap_dependsOn (getActionMetadata ''permit_status_escalated'') = []"
  by (simp_all add: getActionMetadata_def ACTION_PLAYBOOK_def)

subsection \<open>Properties\<close>

text \<open>
  (C20) The address is a faithful bookmark of the page's own clicks: whatever is clicked on the page and whatever data and ticks of a
  replay arrive, as long as no link changes the address while the page is open and the focused zone's identifier is not empty (the
  address cannot carry that one), opening the page at its present address with the present data shows the same zone and row. A
  link that does change the address while the page is open (the navigation bar's drops the zone) is ignored by the page: the zone
  and the row on display stay.
\<close>

theorem address_reopens_display:
  "(let s = foldl (op_step hz ft) (op_open d address) inputs; s' = op_open (op_source s) (op_address s);
        linked = op_env hz (Navigate other) s
    in (if list_all not_navigated inputs \<and> op_focusedZoneId s \<noteq> Some []
        then op_zoneId hz s' = op_zoneId hz s \<and> op_assessment hz s' = op_assessment hz s else True) \<and>
       op_address linked = other \<and> op_zoneId hz linked = op_zoneId hz s \<and> op_assessment hz linked = op_assessment hz s)"
proof -
  define s where "s = foldl (op_step hz ft) (op_open d address) inputs"
  define s' where "s' = op_open (op_source s) (op_address s)"
  have "op_zoneId hz s' = op_zoneId hz s \<and> op_assessment hz s' = op_assessment hz s"
    if "list_all not_navigated inputs" "op_focusedZoneId s \<noteq> Some []"
  proof -
    have "op_synced s" unfolding s_def steady_run[OF that(1)] by (rule address_ui.inv_reachable)
    then have "op_focusedZoneId s' = op_focusedZoneId s" "op_entries hz s' = op_entries hz s"
      using that(2) by (simp_all add: op_synced_def s'_def op_open_def op_entries_def)
    with op_zoneId_cong[OF this(2,1)] show ?thesis by (simp add: op_assessment_def)
  qed
  moreover have "op_address linked = other \<and> op_zoneId hz linked = op_zoneId hz s \<and> op_assessment hz linked = op_assessment hz s"
    if "linked = op_env hz (Navigate other) s" for linked
  proof -
    have same: "op_entries hz linked = op_entries hz s" "op_focusedZoneId linked = op_focusedZoneId s" "op_address linked = other"
      by (simp_all add: that op_env_def op_entries_def)
    with op_zoneId_cong[OF same(1,2)] show ?thesis by (simp add: op_assessment_def)
  qed
  ultimately show ?thesis unfolding s_def s'_def Let_def by simp
qed

text \<open>
  The converse fails: a change of the address while the page is open is ignored, so the page shows another zone than its address
  names, until it is reloaded.
\<close>

theorem address_change_ignored:
  "(let s = op_env hz (Navigate (Some b)) (op_open d (Some a))
    in op_address s = Some b \<and> op_zoneId hz s = Some a \<and> op_zoneId hz (op_open d (op_address s)) = Some b)"
  by (simp add: op_env_def op_open_def op_zoneId_def)

text \<open>
  (C25) A focus without a row blanks the page: freshly opened at an address that names a zone without a row, with the data
  loaded without error and rows of other zones there, the page shows its title and introduction and no map, no actions and no
  message, and it has no control of its own, so no click on it brings anything back. During a replay the banner and its link to the
  time machine are still there; following that link leaves the page.
\<close>

theorem lost_focus_blanks_page:
  "(let s = op_open d (Some z)
    in case dual_error d of
         Some e \<Rightarrow> True
       | None \<Rightarrow>
       if dual_isLoading d \<or> entries hz (ds_dual d) = [] \<or> z \<in> fst ` set (entries hz (ds_dual d)) then True
       else offers (op_view hz ft s) = {} \<and> op_step hz ft s (User a) = s \<and>
            text_of (el ''div'' (op_view hz ft s)) =
              ''Operations Center'' @ ''What should the operator do right now? Every action, dependency, and SOP reference below is composed from ''
              @ ''data already computed elsewhere on this platform - nothing here recomputes risk.''
              @ (if isReplayMode (ds_dual d)
                 then ''Showing a Time Machine replay tick, not live data.'' @ '' '' @ ''Open Time Machine controls '' @ utf8_arrow else []))"
proof (cases "dual_error d \<noteq> None \<or> dual_isLoading d \<or> entries hz (ds_dual d) = [] \<or> z \<in> fst ` set (entries hz (ds_dual d))")
  case True
  then show ?thesis by (auto simp: Let_def split: option.split)
next
  case False
  let ?s = "op_open d (Some z)"
  have "op_assessment hz ?s = None"
    using False by (auto simp: op_assessment_def op_zoneId_def op_entries_def op_open_def find_None_iff rev_image_eqI)
  then have content: "op_content hz ft ?s = []" by (simp add: op_content_def cond_some_def split: option.split)
  then have none: "offers (op_view hz ft ?s) = {}" using op_view_offers[of hz ft ?s] by simp
  then have "press a (op_view hz ft ?s) = None" using press_offers[of a "op_view hz ft ?s"] by (cases "press a (op_view hz ft ?s)") auto
  then have "op_step hz ft ?s (User a) = ?s" by (simp add: op_step_def app_step_def)
  moreover have "op_source ?s = d" by (simp add: op_open_def)
  ultimately show ?thesis
    using False none content by (simp add: Let_def op_view_def dual_result_def QueryResult_def replay_banner_def cond_def)
qed

text \<open>
  What happens next: in a zone that is not normal the action announced as the next one waits for no other action of the queue.
  In a normal zone it may: with these two rules fired, the announced first action depends on the second.
\<close>

theorem what_happens_next:
  "(case head_option (op_queue a) of
      None \<Rightarrow> True
    | Some act \<Rightarrow> if ra_tier a \<in> {''watch'', ''elevated'', ''critical''} then pa_dependencyLabels act = [] else True) \<and>
   (case op_justification a of
      None \<Rightarrow> True
    | Some j \<Rightarrow>
        if ra_tier a = ''normal'' \<and> rj_rulesFired j = [''unauthorized_presence'', ''permit_status_escalated'']
        then map (\<lambda>act. (rc_id act, pa_dependencyLabels act)) (op_queue a) =
               [(''unauthorized_presence'', [''permit_status_escalated'']), (''permit_status_escalated'', [])]
        else True)"
proof -
  let ?j = "op_justification a"
  have first: "\<exists>r rs. op_recommendations a = r # rs \<and> ap_dependsOn (getActionMetadata (rc_id r)) = []"
    if t: "ra_tier a \<in> {''watch'', ''elevated'', ''critical''}"
  proof -
    from t have "map rc_id (tier_baseline (ra_tier a)) \<in> {[''tier_watch''], [''tier_elevated''], [''tier_critical'']}"
      by (elim insertE) (simp_all add: tier_baseline_ids_of_tiers)
    then obtain r where "tier_baseline (ra_tier a) = [r]" "rc_id r \<in> {''tier_watch'', ''tier_elevated'', ''tier_critical''}"
      by (auto simp: map_eq_Cons_conv)
    with tier_actions_free show ?thesis by (cases ?j) (auto simp: op_recommendations_def deriveRecommendations_eq)
  qed
  have "pa_dependencyLabels act = []" if "head_option (op_queue a) = Some act" "ra_tier a \<in> {''watch'', ''elevated'', ''critical''}" for act
    using first[OF that(2)] that(1)
    by (auto simp: op_queue_def buildActionQueue_def head_option_def queue_action_def Let_def)
  moreover have "map (\<lambda>act. (rc_id act, pa_dependencyLabels act)) (op_queue a) =
       [(''unauthorized_presence'', [''permit_status_escalated'']), (''permit_status_escalated'', [])]"
    if "?j = Some j" "ra_tier a = ''normal''" "rj_rulesFired j = [''unauthorized_presence'', ''permit_status_escalated'']" for j
  proof -
    have "tier_baseline ''normal'' = []" by (simp add: tier_baseline_of_tiers TIERS_def)
    then have "map rc_id (op_recommendations a) = [''unauthorized_presence'', ''permit_status_escalated'']"
      using that by (simp add: op_recommendations_def deriveRecommendations_ids RULE_IDS_def js_set_def)
    then show ?thesis 
      by (simp add: op_queue_def queue_dependencies_ids two_rules_dependencies list.set_map[symmetric] del: list.set_map)
  qed
  ultimately show ?thesis by (auto split: option.split)
qed

text \<open>
  The inspector of the operations center has a close button that does nothing, although the inspector is documented to have none
  where it cannot be closed.
\<close>

theorem inspector_close_ineffective:
  "(case (op_shown hz s, op_zoneId hz s) of
      (Some a, Some z) \<Rightarrow>
        if z = [] \<or> op_settle hz s \<noteq> s then True
        else Close_Nothing \<in> offers (op_view hz ft s) \<and> op_update hz Close_Nothing s = s
    | _ \<Rightarrow> True)"
proof (cases "op_shown hz s")
  case (Some a)
  then have "op_assessment hz s = Some a" "\<not> dual_isLoading (op_source s)" "dual_error (op_source s) = None" "op_entries hz s \<noteq> []"
    by (auto simp: op_shown_def split: if_splits)
  moreover have "Close_Nothing \<in> offers (twin_column hz ft s z a)" if "z \<noteq> []" for z using that by (simp add: twin_column_def)
  ultimately have "Close_Nothing \<in> offers (op_view hz ft s)" if "op_zoneId hz s = Some z" "z \<noteq> []" for z
    using that by (simp add: op_view_def dual_result_def QueryResult_def op_content_def op_entries_def)
  then show ?thesis by (simp add: Some op_update_def op_handle_def split: option.split)
qed simp

end
