(* ===== verification/Replay_Session.thy ===== *)
theory Replay_Session
  imports Time_Machine Operations_Page
begin

section \<open>One replay across the pages\<close>

text \<open>
  \<open>App.tsx\<close> mounts the replay provider once, above the routes: a user who goes from page to page takes the replay along. A visit opens a
  page on the provider's present state, runs it, and hands the provider's state on; in between the provider's timer, its
  query and whatever starts a replay go on.
\<close>

datatype visit =
    Visit_Time_Machine time_data "time_input input list"
  | Visit_Digital_Twin dual_source "twin_input input list"
  | Visit_Operations dual_source "string option" "operations_input input list"
  | Elsewhere dual_source "dual_input list"

definition time_open_at :: "replay_state \<Rightarrow> time_data \<Rightarrow> time_machine" where
  "time_open_at r d = (time_open d)\<lparr>tm_replay := r\<rparr>"

definition visit_page :: "host_zone \<Rightarrow> (string \<Rightarrow> string) \<Rightarrow> (nat \<Rightarrow> string) \<Rightarrow> replay_state \<Rightarrow> visit \<Rightarrow> replay_state" where
  "visit_page hz ft rnd r v =
     (case v of
        Visit_Time_Machine d inputs \<Rightarrow> tm_replay (foldl (time_step hz ft rnd) (time_open_at r d) inputs)
      | Visit_Digital_Twin d inputs \<Rightarrow>
          dual_replay (dt_source (foldl (twin_step hz ft rnd) (twin_open (with_replay r d)) inputs))
      | Visit_Operations d address inputs \<Rightarrow>
          dual_replay (op_source (foldl (op_step hz ft) (op_open (with_replay r d) address) inputs))
      | Elsewhere d inputs \<Rightarrow> dual_replay (foldl (\<lambda>s x. dual_env hz x s) (with_replay r d) inputs))"

lemma cursor_elsewhere:
  "cursor_on_axis (dual_replay s) \<Longrightarrow> cursor_on_axis (dual_replay (foldl (\<lambda>s x. dual_env hz x s) s inputs))"
  by (induction inputs arbitrary: s) (simp_all add: cursor_dual_env)

lemma cursor_visit:
  assumes "cursor_on_axis r"
  shows "cursor_on_axis (visit_page hz ft rnd r v)"
proof (cases v)
  case (Visit_Time_Machine d inputs)
  have "cursor_on_axis (tm_replay (time_open_at r d))" using assms by (simp add: time_open_at_def)
  from time_ui.inv_run[OF this] Visit_Time_Machine show ?thesis by (simp add: visit_page_def time_step_def)
next
  case (Visit_Digital_Twin d inputs)
  have "twin_before (with_replay r d) (foldl (twin_step hz ft rnd) (twin_open (with_replay r d)) inputs)"
    unfolding twin_step_def by (rule twin_ui.inv_reachable)
  with assms Visit_Digital_Twin show ?thesis by (simp add: visit_page_def twin_before_def)
next
  case (Visit_Operations d address inputs)
  have "op_before (with_replay r d) (foldl (op_step hz ft) (op_open (with_replay r d) address) inputs)"
    unfolding op_step_def by (rule op_ui.inv_reachable)
  with assms Visit_Operations show ?thesis by (simp add: visit_page_def op_before_def)
next
  case (Elsewhere d inputs)
  with assms show ?thesis by (simp add: visit_page_def cursor_elsewhere)
qed

interpretation session: transition_system replay_start "visit_page hz ft rnd" cursor_on_axis for hz ft rnd
  by unfold_locales (rule cursor_on_axis_start, rule cursor_visit)

text \<open>
  (C11) A user takes one replay through the time machine, the digital twin and the operations center, in any order and as often as they
  like, clicking anything the pages offer, while payloads arrive and playback goes on: as soon as the replay has ticks its cursor
  selects one of them, on every page, and the bookmarks made on any of the pages are on ticks of the replay. (The
  provider alone does not guarantee this: its \<open>next\<close> can lose the cursor, but no page offers it then.)
\<close>

theorem shared_cursor_across_pages:
  "(let r = foldl (visit_page hz ft rnd) replay_start visits
    in (if allTimestamps r = [] then True
        else case currentTimestamp r of None \<Rightarrow> False | Some t \<Rightarrow> t \<in> set (allTimestamps r)) \<and>
       cb_timestamp ` set (rs_customBookmarks r) \<subseteq> set (allTimestamps r))"
proof -
  define r where "r = foldl (visit_page hz ft rnd) replay_start visits"
  have ok: "cursor_on_axis r" unfolding r_def by (rule session.inv_reachable)
  then have "cb_timestamp ` set (rs_customBookmarks r) \<subseteq> set (allTimestamps r)"
    by (simp add: cursor_on_axis_def replay_inv_def)
  moreover have "case currentTimestamp r of None \<Rightarrow> False | Some t \<Rightarrow> t \<in> set (allTimestamps r)" if "allTimestamps r \<noteq> []"
    using cursor_on_axis_selects[OF ok that] currentTimestamp_mem[of r] by (auto split: option.split)
  ultimately show ?thesis unfolding r_def Let_def by simp
qed

end
