(* ===== verification/Plant_Panels.thy ===== *)
theory Plant_Panels
  imports Twin_Page Narrative
begin

section \<open>Panels of the whole plant\<close>

text \<open>
  \<open>components/explainability/ExecutiveStoryPanel.tsx\<close>, \<open>components/zone/TrendIndicator.tsx\<close>,
  \<open>components/zone/RiskHistoryChart.tsx\<close> and \<open>components/presentation/AnimatedCounter.tsx\<close>. The story panel and the alert feed
  of mission control sort with a comparator that never answers 0, so the language leaves the order of simultaneous items
  to the engine: the sort is an argument \<open>srt\<close>, and \<open>sorts_strict\<close> is what the language promises of it.

  The lemmas show when the story is in chronological order, and that the counter stays between zero and its value
  once the clock has reached its start, and ends on the value itself.
\<close>

subsection \<open>Sorting with a comparator that is not consistent\<close>

type_synonym 'a engine_sort = "('a \<Rightarrow> 'a \<Rightarrow> rat) \<Rightarrow> 'a list \<Rightarrow> 'a list"

text \<open>The array is permuted; if some order puts every two items strictly and consistently, it is the result.\<close>

definition sorts_strict :: "'a engine_sort \<Rightarrow> ('a \<Rightarrow> 'a \<Rightarrow> rat) \<Rightarrow> bool" where
  "sorts_strict srt c \<longleftrightarrow>
     (\<forall>xs. mset (srt c xs) = mset xs) \<and>
     (\<forall>xs ys. mset ys = mset xs \<and> sorted_wrt (\<lambda>a b. c a b < 0 \<and> 0 < c b a) ys \<longrightarrow> srt c xs = ys)"

lemma js_insert_strict:
  assumes "sorted_wrt (\<lambda>a b. c a b < 0 \<and> 0 < c b a) (us @ x # vs)"
  shows "js_insert c x (us @ vs) = us @ x # vs"
  using assms
proof (induction us)
  case Nil
  then show ?case by (cases vs) auto
next
  case (Cons u us)
  then have "0 < c x u" by simp
  with Cons show ?case by simp
qed

lemma js_sort_strict: "mset ys = mset xs \<Longrightarrow> sorted_wrt (\<lambda>a b. c a b < 0 \<and> 0 < c b a) ys \<Longrightarrow> js_sort c xs = ys"
proof (induction xs arbitrary: ys)
  case Nil
  then show ?case by (simp add: js_sort_simps)
next
  case (Cons x xs)
  then have "x \<in> set ys" by (metis list.set_intros(1) set_mset_mset)
  then obtain us vs where ys: "ys = us @ x # vs" by (meson split_list)
  have "js_sort c xs = us @ vs"
    using Cons.prems unfolding ys by (intro Cons.IH) (auto simp: sorted_wrt_append)
  with js_insert_strict[of c us x vs] Cons.prems(2) show ?case by (simp add: js_sort_simps ys)
qed

text \<open>A stable sort by insertion is such a sort, so the promise can be kept.\<close>

lemma sorts_strict_js_sort: "sorts_strict js_sort c"
  by (simp add: sorts_strict_def js_sort_strict)

text \<open>Two comparators by a string, in either direction, with the answers of the code.\<close>

definition earlier_first :: "('a \<Rightarrow> string) \<Rightarrow> 'a \<Rightarrow> 'a \<Rightarrow> rat" where
  "earlier_first t a b = (if t a < t b then -1 else 1)"

definition later_first :: "('a \<Rightarrow> string) \<Rightarrow> 'a \<Rightarrow> 'a \<Rightarrow> rat" where
  "later_first t a b = (if t a < t b then 1 else -1)"

lemma sorts_strictD:
  "sorts_strict srt c \<Longrightarrow> mset ys = mset xs \<Longrightarrow> sorted_wrt (\<lambda>a b. c a b < 0 \<and> 0 < c b a) ys \<Longrightarrow> srt c xs = ys"
  by (simp add: sorts_strict_def)

lemma strict_sort_key:
  assumes "distinct (map t xs)"
  shows "sorted_wrt (\<lambda>a b. t a < t b) (sort_key t xs)"
proof -
  have "mset (map t (sort_key t xs)) = mset (map t xs)" by simp
  then have "distinct (map t (sort_key t xs))" using assms mset_eq_imp_distinct_iff by blast
  then have "sorted_wrt (<) (map t (sort_key t xs))" unfolding strict_sorted_iff by simp
  then show ?thesis by (simp add: sorted_wrt_map)
qed

lemma engine_earlier_first:
  assumes "sorts_strict srt (earlier_first t)" and "distinct (map t xs)"
  shows "srt (earlier_first t) xs = sort_key t xs"
proof (rule sorts_strictD[OF assms(1)])
  show "sorted_wrt (\<lambda>a b. earlier_first t a b < 0 \<and> 0 < earlier_first t b a) (sort_key t xs)"
    using strict_sort_key[OF assms(2)] by (rule sorted_wrt_mono_rel[rotated]) (auto simp: earlier_first_def)
qed simp

lemma engine_later_first:
  assumes "sorts_strict srt (later_first t)" and "distinct (map t xs)"
  shows "srt (later_first t) xs = rev (sort_key t xs)"
proof (rule sorts_strictD[OF assms(1)])
  have "sorted_wrt (\<lambda>a b. t b < t a) (rev (sort_key t xs))" using strict_sort_key[OF assms(2)] by (simp add: sorted_wrt_rev)
  then show "sorted_wrt (\<lambda>a b. later_first t a b < 0 \<and> 0 < later_first t b a) (rev (sort_key t xs))"
    by (rule sorted_wrt_mono_rel[rotated]) (auto simp: later_first_def)
qed simp

subsection \<open>components/explainability/ExecutiveStoryPanel.tsx\<close>

record story_line =
  sl_zoneId :: string
  sl_timestamp :: string
  sl_text :: string

definition story_lines :: "replay_state \<Rightarrow> string list \<Rightarrow> story_line list" where
  "story_lines r zs =
     concat (map (\<lambda>z. map (\<lambda>a. \<lparr>sl_zoneId = z, sl_timestamp = ra_timestamp a,
                                 sl_text = businessStoryLine a (parseJustification (ra_justification a))\<rparr>) (upToCursor r z)) zs)"

definition ExecutiveStoryPanel ::
  "(string \<Rightarrow> string) \<Rightarrow> story_line engine_sort \<Rightarrow> replay_state \<Rightarrow> Zone list option \<Rightarrow> string list \<Rightarrow> 'e node" where
  "ExecutiveStoryPanel ft srt r zones zs =
     (let ls = srt (earlier_first sl_timestamp) (story_lines r zs)
      in el ''div''
           [el ''h3'' [Text ''Executive Story''],
            (if length ls = 0 then p_text ''No events yet at this point in the replay.''
             else el ''ul'' (map (\<lambda>l. el ''li''
               [el ''span'' [Text (ft (sl_timestamp l))], Text '' '', el ''span'' [Text (zoneLabel (sl_zoneId l) zones)],
                Text ('' '' @ sl_text l)]) ls))])"

lemma offered_story [simp]: "offered (ExecutiveStoryPanel ft srt r zones zs) = {}"
  by (auto simp: ExecutiveStoryPanel_def Let_def offers_map)

text \<open>No line of the story is later than the cursor, and every line is of a row of its zone.\<close>

lemma story_lines_past:
  assumes "l \<in> set (story_lines r zs)" and "currentTimestamp r = Some t"
  shows "sl_timestamp l \<le> t \<and> sl_zoneId l \<in> set zs \<and> sl_timestamp l \<in> ra_timestamp ` set (zoneTimeline r (sl_zoneId l))"
  using assms by (auto simp: story_lines_def upToCursor_def)

lemma story_lines_no_cursor: "currentTimestamp r = None \<Longrightarrow> story_lines r zs = []"
  by (simp add: story_lines_def upToCursor_def concat_eq_Nil_conv)

subsection \<open>components/zone\<close>

definition utf8_rising :: string where "utf8_rising = [CHR 0xE2, CHR 0x96, CHR 0xB2]"
definition utf8_falling :: string where "utf8_falling = [CHR 0xE2, CHR 0x96, CHR 0xBC]"
definition utf8_steady :: string where "utf8_steady = [CHR 0xE2, CHR 0x96, CHR 0xAC]"

definition TrendIndicator :: "number \<Rightarrow> number option \<Rightarrow> 'e node" where
  "TrendIndicator current previous =
     (case previous of
        None \<Rightarrow> El ''span'' [(''class'', ''trend-flat'')] [Text utf8_emdash]
      | Some p \<Rightarrow>
          if p < current then El ''span'' [(''class'', ''trend-up'')] [Text (utf8_rising @ '' rising'')]
          else if current < p then El ''span'' [(''class'', ''trend-down'')] [Text (utf8_falling @ '' falling'')]
          else El ''span'' [(''class'', ''trend-flat'')] [Text (utf8_steady @ '' steady'')])"

lemma offered_trend [simp]: "offered (TrendIndicator c p) = {}"
  by (simp add: TrendIndicator_def split: option.split)

definition TIER_THRESHOLDS :: "(number \<times> string) list" where
  "TIER_THRESHOLDS = [(40, ''Watch''), (65, ''Elevated''), (85, ''Critical'')]"

text \<open>The points of the line, oldest first, and the reference lines.\<close>

definition RiskHistoryChart :: "RiskAssessment list \<Rightarrow> 'e node" where
  "RiskHistoryChart history =
     el ''LineChart''
       (Plot ''line'' (map (\<lambda>a. (ra_timestamp a, ra_compound_risk_score a)) (rev history))
        # map (\<lambda>(value, label). Plot ''reference'' [(label, value)]) TIER_THRESHOLDS)"

lemma offered_history [simp]: "offered (RiskHistoryChart history) = {}"
  by (auto simp: RiskHistoryChart_def offers_map)

subsection \<open>components/presentation/AnimatedCounter.tsx\<close>

text \<open>
  The counter on the screen: its value, what it displays, and the clock at which a running count began. The effect
  runs when the counter appears and when its value changes; each animation frame carries the browser's clock.
\<close>

record animated =
  an_value :: number
  an_display :: number
  an_start :: "number option"

definition counter_effect :: "bool \<Rightarrow> number \<Rightarrow> animated \<Rightarrow> animated" where
  "counter_effect prefersReducedMotion now s =
     (if prefersReducedMotion then s\<lparr>an_display := an_value s, an_start := None\<rparr> else s\<lparr>an_start := Some now\<rparr>)"

definition counter_mount :: "bool \<Rightarrow> number \<Rightarrow> number \<Rightarrow> animated" where
  "counter_mount prefersReducedMotion now value =
     counter_effect prefersReducedMotion now \<lparr>an_value = value, an_display = 0, an_start = None\<rparr>"

definition counter_value :: "bool \<Rightarrow> number \<Rightarrow> number \<Rightarrow> animated \<Rightarrow> animated" where
  "counter_value prefersReducedMotion now value s =
     (if an_value s = value then s else counter_effect prefersReducedMotion now (s\<lparr>an_value := value\<rparr>))"

definition counter_frame :: "number \<Rightarrow> number \<Rightarrow> animated \<Rightarrow> animated" where
  "counter_frame durationMs now s =
     (case an_start s of
        None \<Rightarrow> s
      | Some start \<Rightarrow>
          let progress = min 1 (ndiv (nsub now start) durationMs)
          in s\<lparr>an_display := nmul (an_value s) progress, an_start := (if progress < 1 then Some start else None)\<rparr>)"

definition AnimatedCounter :: "nat \<Rightarrow> string \<Rightarrow> animated \<Rightarrow> 'e node" where
  "AnimatedCounter decimals unit s = el ''span'' [Text (toFixed (an_display s) decimals @ unit)]"

lemma offered_counter [simp]: "offered (AnimatedCounter d unit s) = {}"
  by (simp add: AnimatedCounter_def)

lemma fl_one [simp]: "fl 1 = 1"
  using fl_int[of 1] by simp

lemma ndiv_ge_one: "0 < d \<Longrightarrow> d \<le> x \<Longrightarrow> 1 \<le> ndiv x d"
  unfolding ndiv_def using fl_mono[of 1 "x / d"] by simp

lemma counter_frame_done:
  assumes "an_start s = Some start" and "fl (an_value s) = an_value s" and "fl d = d" and "0 < d" and "d \<le> now - start"
  shows "counter_frame d now s = s\<lparr>an_display := an_value s, an_start := None\<rparr>"
proof -
  have "d \<le> nsub now start" unfolding nsub_def using fl_mono[OF assms(5)] assms(3) by simp
  then have "1 \<le> ndiv (nsub now start) d" using assms(4) ndiv_ge_one by simp
  then show ?thesis using assms(1,2) by (simp add: counter_frame_def min_def nmul_def Let_def)
qed

text \<open>
  A running counter of a value that is not negative never shows more than the value; it shows a negative number exactly while the
  frame's clock is before the start of the count, which \<open>Math.min(1, ..)\<close> does not exclude; and the first frame at
  least the duration after the start shows the value itself and is the last.
\<close>

theorem counter_bounds:
  "(case an_start s of
      None \<Rightarrow> counter_frame d now s = s
    | Some start \<Rightarrow>
        if 0 < an_value s \<and> fl (an_value s) = an_value s \<and> fl d = d \<and> 0 < d
        then an_display (counter_frame d now s) \<le> an_value s \<and>
             (an_display (counter_frame d now s) < 0 \<longleftrightarrow> now < start) \<and>
             (if d \<le> now - start then counter_frame d now s = s\<lparr>an_display := an_value s, an_start := None\<rparr> else True)
        else True)"
proof (cases "an_start s")
  case None
  then show ?thesis by (simp add: counter_frame_def)
next
  case (Some start)
  define progress where "progress = min 1 (ndiv (nsub now start) d)"
  have shown: "an_display (counter_frame d now s) = nmul (an_value s) progress"
    by (simp add: counter_frame_def Some progress_def Let_def)
  have "nmul (an_value s) progress \<le> an_value s" if "0 < an_value s" "fl (an_value s) = an_value s"
    unfolding nmul_def using that by (intro fl_error_dir(1)) (simp_all add: progress_def mult_le_cancel_left2)
  moreover have "nmul (an_value s) progress < 0 \<longleftrightarrow> now < start" if "0 < an_value s" "0 < d"
  proof -
    have "nmul (an_value s) progress < 0 \<longleftrightarrow> progress < 0" using that(1) by (simp add: nmul_def mult_less_0_iff)
    also have "\<dots> \<longleftrightarrow> ndiv (nsub now start) d < 0" by (auto simp: progress_def)
    also have "\<dots> \<longleftrightarrow> now < start" using that(2) by (simp add: ndiv_def divide_less_0_iff)
    finally show ?thesis .
  qed
  ultimately show ?thesis using counter_frame_done[OF Some] by (simp add: Some shown)
qed

end
