(* ===== verification/Mission_Page.thy ===== *)
theory Mission_Page
  imports Plant_Panels Time_Machine Operations_Page
begin

section \<open>Mission control and the executive overview\<close>

text \<open>
  \<open>pages/MissionControlPage.tsx\<close> and \<open>pages/ExecutiveOverviewPage.tsx\<close>: the whole plant on one screen, live or at the cursor of a
  replay. The figures are those of \<open>Dual_Views\<close>; here are the pages around them. Mission control keeps two
  animated counters, which live as long as its content is on the page; the executive overview has no state.

  The properties: both pages list exactly the zones above normal, one newest first and one most severe first, headed by
  the plant's status; after 1.2 seconds the counters show the figures themselves; and in a replay the trend of the average
  does not see a zone that comes after one without a row.
\<close>

subsection \<open>pages/MissionControlPage.tsx\<close>

definition alert_feed :: "RiskAssessment engine_sort \<Rightarrow> RiskAssessment list \<Rightarrow> RiskAssessment list" where
  "alert_feed srt as = srt (later_first ra_timestamp) (filter (\<lambda>a. ra_tier a \<noteq> ''normal'') as)"

definition mission_timeline ::
  "host_zone \<Rightarrow> dual \<Rightarrow> (string \<Rightarrow> RiskAssessment list option) \<Rightarrow> TimelineEntry list" where
  "mission_timeline hz d liveHistory =
     (let zone = map_option za_zoneId (topZone hz d)
      in if isReplayMode d
         then map (\<lambda>b. \<lparr>tl_timestamp = rb_timestamp b, tl_label = rb_label b, tl_kind = rb_kind b\<rparr>)
                (filter (\<lambda>b. Some (rb_zone_id b) = zone) (replay_bookmarks (du_replay d)))
         else map (\<lambda>e. \<lparr>tl_timestamp = te_timestamp e, tl_label = te_label e, tl_kind = timeline_kind_name (te_kind e)\<rparr>)
                (deriveTimelineEvents hz (rev (case Option.bind zone liveHistory of Some items \<Rightarrow> items | None \<Rightarrow> []))))"

record mission =
  mi_source :: dual_source
  mi_history :: "string \<Rightarrow> RiskAssessment list option"
  mi_counters :: "(animated \<times> animated) option"
  mi_hoveredZoneId :: "string option"
  mi_refetches :: nat

datatype mission_event = Refetch_Live

definition mission_rows :: "host_zone \<Rightarrow> mission \<Rightarrow> RiskAssessment list" where
  "mission_rows hz s = zoneAssessments hz (ds_dual (mi_source s))"

definition mission_shown :: "host_zone \<Rightarrow> mission \<Rightarrow> bool" where
  "mission_shown hz s =
     (\<not> dual_isLoading (mi_source s) \<and> dual_error (mi_source s) = None \<and> length (mission_rows hz s) > 0)"

definition mission_settle :: "host_zone \<Rightarrow> bool \<Rightarrow> number \<Rightarrow> mission \<Rightarrow> mission" where
  "mission_settle hz reduced now s =
     (let score = averageCompoundScore (mission_rows hz s); conf = nmul (avgConfidence (mission_rows hz s)) 100
      in if mission_shown hz s
         then s\<lparr>mi_counters := Some (case mi_counters s of
                  None \<Rightarrow> (counter_mount reduced now score, counter_mount reduced now conf)
                | Some (a, b) \<Rightarrow> (counter_value reduced now score a, counter_value reduced now conf b))\<rparr>
         else s\<lparr>mi_counters := None, mi_hoveredZoneId := None\<rparr>)"

definition mission_update :: "mission_event \<Rightarrow> mission \<Rightarrow> mission" where
  "mission_update e s = s\<lparr>mi_refetches := mi_refetches s + 1\<rparr>"

datatype mission_input =
    Mission_Source bool number dual_input
  | Mission_History "string \<Rightarrow> RiskAssessment list option"
  | Mission_Frame number
  | Mission_Pointer_Enters string
  | Mission_Pointer_Leaves string

definition mission_env :: "host_zone \<Rightarrow> mission_input \<Rightarrow> mission \<Rightarrow> mission" where
  "mission_env hz x s =
     (case x of
        Mission_Source reduced now y \<Rightarrow> mission_settle hz reduced now (s\<lparr>mi_source := dual_env hz y (mi_source s)\<rparr>)
      | Mission_History h \<Rightarrow> s\<lparr>mi_history := h\<rparr>
      | Mission_Frame now \<Rightarrow>
          s\<lparr>mi_counters := map_option (\<lambda>(a, b). (counter_frame 1200 now a, counter_frame 1200 now b)) (mi_counters s)\<rparr>
      | Mission_Pointer_Enters z \<Rightarrow>
          if mission_shown hz s then s\<lparr>mi_hoveredZoneId := hover_enter z (mi_hoveredZoneId s)\<rparr> else s
      | Mission_Pointer_Leaves z \<Rightarrow> s\<lparr>mi_hoveredZoneId := hover_leave z (mi_hoveredZoneId s)\<rparr>)"

definition mission_open :: "host_zone \<Rightarrow> bool \<Rightarrow> number \<Rightarrow> dual_source \<Rightarrow> mission" where
  "mission_open hz reduced now d =
     mission_settle hz reduced now
       \<lparr>mi_source = d, mi_history = (\<lambda>z. None), mi_counters = None, mi_hoveredZoneId = None, mi_refetches = 0\<rparr>"

subsection \<open>Mission control: the page\<close>

definition hero_figure :: "string \<Rightarrow> 'e node \<Rightarrow> 'e node" where
  "hero_figure label figure = el ''div'' [p_text label, el ''p'' [figure]]"

definition mission_hero :: "host_zone \<Rightarrow> (string \<Rightarrow> string) \<Rightarrow> mission \<Rightarrow> 'e node" where
  "mission_hero hz ft s =
     (let as = mission_rows hz s; d = ds_dual (mi_source s); tier = worstTier (map ra_tier as); r = plantReadiness as;
          counter = (\<lambda>f n unit. case mi_counters s of Some ab \<Rightarrow> AnimatedCounter n unit (f ab) | None \<Rightarrow> Text [])
      in El ''div'' [(''class'', readiness_class r)]
           [el ''h2'' [Text ''Plant Status''],
            el ''div''
              [hero_figure ''Operational Status'' (case tier of Some t \<Rightarrow> TierBadge t | None \<Rightarrow> Text utf8_emdash),
               hero_figure ''Overall Plant Risk'' (counter fst 1 []),
               hero_figure ''Confidence'' (counter snd 0 ''%''),
               hero_figure ''Readiness'' (Text (the (map_of READINESS_LABEL r))),
               hero_figure ''Current Incident Stage''
                 (Text (case topZone hz d of
                          Some z \<Rightarrow> incidentStage (parseJustification (ra_justification (za_assessment z)))
                        | None \<Rightarrow> utf8_emdash))],
            p_text (''Last update: '' @ (case truthy (latestTimestamp (map ra_timestamp as)) of Some t \<Rightarrow> ft t | None \<Rightarrow> utf8_emdash))])"

definition utf8_cross :: string where "utf8_cross = [CHR 0xE2, CHR 0x9C, CHR 0x96]"
definition utf8_dot :: string where "utf8_dot = [CHR 0xE2, CHR 0x97, CHR 0x8F]"

definition alert_item :: "(string \<Rightarrow> string) \<Rightarrow> Zone list option \<Rightarrow> RiskAssessment \<Rightarrow> 'e node list" where
  "alert_item ft zones a =
     [Link (''/zones/'' @ ra_zone_id a) [Text (zoneLabel (ra_zone_id a) zones)], Text '' '', TierBadge (ra_tier a),
      Text ('' '' @ toFixed (ra_compound_risk_score a) 1 @ '' ''), el ''span'' [Text (ft (ra_timestamp a))]]"

definition mission_alerts :: "(string \<Rightarrow> string) \<Rightarrow> Zone list option \<Rightarrow> RiskAssessment list \<Rightarrow> 'e node" where
  "mission_alerts ft zones alerts =
     el ''div''
       [el ''h2'' [Text ''Live Alerts''],
        (if length alerts = 0 then p_text ''No zone is currently above NORMAL.''
         else el ''ul'' (map (\<lambda>a. El ''li'' [(''class'', ''alert-item alert-'' @ ra_tier a)]
           (el ''span''
              [Text (if ra_tier a = ''critical'' then utf8_cross else if ra_tier a = ''elevated'' then utf8_rising else utf8_dot)]
            # Text '' '' # alert_item ft zones a)) alerts))]"

definition mission_agent :: "agent_decision \<Rightarrow> 'e node" where
  "mission_agent d =
     el ''li''
       [el ''div''
          [strong (ad_displayName d),
           el ''span'' [Text (''Contribution '' @ toFixed (ad_risk d) 1 @ '' '' @ utf8_middot @ '' Confidence '' @ percent0 (ad_confidence d))]],
        p_text (''Reason: '' @ ad_reason d)]"

definition mission_agents :: "Zone list option \<Rightarrow> ZoneAssessment option \<Rightarrow> 'e node" where
  "mission_agents zones top_zone =
     el ''div''
       (el ''h2'' [Text ''Decision Contributors'']
        # (case top_zone of
             None \<Rightarrow> [p_text ''No active incident to explain right now.'']
           | Some z \<Rightarrow>
               let decisions = agentDecisions (parseJustification (ra_justification (za_assessment z)))
               in [el ''p'' [Text ''Currently explaining: '', strong (zoneLabel (za_zoneId z) zones)],
                   (if length decisions = 0 then p_text ''No decision explanation is available for this zone yet.''
                    else el ''ul'' (map mission_agent decisions))]))"

definition mission_action :: "Zone list option \<Rightarrow> PrioritizedAction \<times> string \<Rightarrow> 'e node" where
  "mission_action zones az =
     El ''li'' [(''class'', ''recommendation recommendation-'' @ rc_severity (fst az))]
       [el ''div''
          [strong (zoneLabel (snd az) zones),
           El ''span'' [(''class'', ''impact-badge '' @ IMPACT_CLASS (pa_impactLevel (fst az)))] [Text (impact_name (pa_impactLevel (fst az)))]],
        p_text (rc_text (fst az)), p_text (''ETA: '' @ ap_eta (pa_metadata (fst az)))]"

definition mission_actions :: "Zone list option \<Rightarrow> (PrioritizedAction \<times> string) list \<Rightarrow> 'e node" where
  "mission_actions zones actions =
     el ''div''
       [el ''h2'' [Text ''Recommended Actions''],
        (if length actions = 0 then p_text ''No recommended actions across the plant right now.''
         else el ''ol'' (map (mission_action zones) actions))]"

definition mission_impact :: "host_zone \<Rightarrow> dual \<Rightarrow> 'e node" where
  "mission_impact hz d =
     el ''div''
       [el ''h2'' [Text ''Business Impact''],
        el ''ul''
          [el ''li'' [Text (num_toString (workersInElevatedZones hz d) @ '' worker(s) currently in a zone above NORMAL'')],
           el ''li'' [Text (show_nat (zonesNeedingResponse (zoneAssessments hz d)) @ '' zone(s) requiring active response'')],
           el ''li'' [Text (show_nat (activeCriticalPermits hz d) @ '' active work authorization(s) in a CRITICAL zone'')]]]"

definition mission_content ::
  "host_zone \<Rightarrow> (string \<Rightarrow> string) \<Rightarrow> RiskAssessment engine_sort \<Rightarrow> story_line engine_sort \<Rightarrow> mission \<Rightarrow> mission_event node list" where
  "mission_content hz ft srt srt' s =
     (let d = ds_dual (mi_source s); zones = du_zones d; z = topZone hz d
      in [mission_hero hz ft s,
          el ''div''
            [el ''div'' [el ''h2'' [Text ''Digital Twin''], PlantMap ft (mission_map hz d) None True (map_option za_zoneId z) (mi_hoveredZoneId s)],
             mission_alerts ft zones (alert_feed srt (mission_rows hz s)),
             mission_agents zones z,
             mission_actions zones (priorityActions (mission_rows hz s)),
             el ''div'' [el ''h2'' [Text ''Live Timeline''],
               (if z \<noteq> None then OperatorTimeline ft None (mission_timeline hz d (mi_history s))
                else p_text ''No active incident to trace right now.'')],
             mission_impact hz d]]
         @ cond (isReplayMode d)
             (cond_some z (\<lambda>z. [el ''div'' [DecisionEvolution ft (du_replay d) zones (za_zoneId z),
                                           ExecutiveStoryPanel ft srt' (du_replay d) zones (view_zoneIds d)]])))"

definition mission_view ::
  "host_zone \<Rightarrow> (string \<Rightarrow> string) \<Rightarrow> RiskAssessment engine_sort \<Rightarrow> story_line engine_sort \<Rightarrow> mission \<Rightarrow> mission_event node list" where
  "mission_view hz ft srt srt' s =
     (let isReplay = isReplayMode (ds_dual (mi_source s))
      in [el ''section''
            ([el ''h1'' [Text ''Mission Control''],
              p_text (''The whole plant, one screen: current status, the live site plan, incoming alerts, why the ''
                @ ''system is reasoning the way it is, and what to do next.'')]
             @ replay_banner (mi_source s)
             @ QueryResult
                 \<lparr>qp_isLoading = dual_isLoading (mi_source s), qp_error = dual_error (mi_source s),
                  qp_isEmpty = (length (mission_rows hz s) = 0),
                  qp_emptyLabel =
                    (if isReplay then ''This replay has no data at the current tick.''
                     else ''No safety assessments have been recorded yet.''),
                  qp_emptyHint =
                    (if isReplay then None
                     else Some ''Mission Control populates as soon as any zone reports a reading - run a scenario to see it live.''),
                  qp_emptyAction = (if isReplay then None else Some \<lparr>ea_label = ''Go to Scenario Library'', ea_to = ''/scenarios''\<rparr>),
                  qp_loadingLabel = None, qp_onRetry = (if isReplay then None else Some Refetch_Live)\<rparr>
                 (mission_content hz ft srt srt' s))])"

subsection \<open>pages/ExecutiveOverviewPage.tsx\<close>

text \<open>The page's queries: histories, counterfactuals, the counts of the three permit lists, and the present day.\<close>

record executive =
  ex_source :: dual_source
  ex_history :: "string \<Rightarrow> RiskAssessment list option"
  ex_counterfactual :: "string \<Rightarrow> string \<Rightarrow> CounterfactualComparison option"
  ex_permitCounts :: "number option \<times> number option \<times> number option"
  ex_today :: "int option"

definition top_history :: "host_zone \<Rightarrow> executive \<Rightarrow> RiskAssessment list" where
  "top_history hz s =
     (case topZone hz (ds_dual (ex_source s)) of
        None \<Rightarrow> []
      | Some z \<Rightarrow>
          let i = indexOf (view_zoneIds (ds_dual (ex_source s))) (za_zoneId z)
          in if i < 0 then []
             else (case data_at (map Some (historyItems (ds_dual (ex_source s)) (ex_history s))) (nat i) of Some xs \<Rightarrow> xs | None \<Rightarrow> []))"

definition kpi_card :: "string \<Rightarrow> 'e node list \<Rightarrow> string \<Rightarrow> 'e node" where
  "kpi_card title value note_text = el ''div'' [el ''h3'' [Text title], el ''p'' value, p_text note_text]"

definition executive_primary :: "host_zone \<Rightarrow> (string \<Rightarrow> string) \<Rightarrow> executive \<Rightarrow> 'e node" where
  "executive_primary hz ft s =
     (let d = ds_dual (ex_source s); as = zoneAssessments hz d; r = plantReadiness as; items = top_history hz s;
          sparkline = map ra_compound_risk_score (rev items)
      in el ''div''
           [el ''div''
              [el ''h3'' [Text ''Safety Status''],
               el ''p'' [(case worstTier (map ra_tier as) of Some t \<Rightarrow> TierBadge t | None \<Rightarrow> Text utf8_emdash)],
               p_text (''Last update: '' @ (case truthy (latestTimestamp (map ra_timestamp as)) of Some t \<Rightarrow> ft t | None \<Rightarrow> utf8_emdash))],
            El ''div'' [(''class'', readiness_class r)]
              [el ''h3'' [Text ''Operational Readiness''], p_text (the (map_of READINESS_LABEL r)),
               p_text (toFixed (percentZonesNormal as) 0 @ ''% of zones at NORMAL'')],
            el ''div''
              (el ''h3'' [Text ''Current Incident'']
               # (case topZone hz d of
                    None \<Rightarrow> [p_text ''No active incident'']
                  | Some z \<Rightarrow>
                      [p_text (zoneLabel (za_zoneId z) (du_zones d)),
                       el ''p''
                         [Text (toFixed (ra_compound_risk_score (za_assessment z)) 1 @ '' ''), TierBadge (ra_tier (za_assessment z)), Text '' '',
                          TrendIndicator (ra_compound_risk_score (za_assessment z))
                            (map_option ra_compound_risk_score (data_at (map Some items) 1))]]
                      @ cond (length sparkline > 1) [MiniSparkline sparkline]))])"

definition executive_metrics :: "host_zone \<Rightarrow> executive \<Rightarrow> 'e node" where
  "executive_metrics hz s =
     (let d = ds_dual (ex_source s); as = zoneAssessments hz d
      in el ''div''
           [kpi_card ''Active Critical Work Authorizations'' [Text (show_nat (activeCriticalPermits hz d))]
              ''Active work authorizations in zones currently at CRITICAL'',
            kpi_card ''Workers Exposed'' [Text (num_toString (workersExposed hz d))] ''Headcount in zones currently above NORMAL'',
            kpi_card ''Average Plant Risk''
              [Text (toFixed (averageCompoundScore as) 1 @ '' ''),
               TrendIndicator (averageCompoundScore as) (Some (avgPreviousScore hz d (ex_history s)))]
              ''Mean across every reporting zone'',
            kpi_card ''Legacy System Blind Spots''
              [Text (show_nat (counterfactualMisses as (map (\<lambda>a. ex_counterfactual s (ra_zone_id a) (ra_timestamp a)) as)))]
              ''Zones where a naive single-sensor alarm misses the current escalation'',
            kpi_card ''Today's Incidents''
              [Text (show_nat (countTodaysIncidents hz (concat (historyItems d (ex_history s))) (ex_today s)))]
              ''Tier escalations recorded today, across every zone'',
            kpi_card ''Open Actions'' [Text (show_nat (openRecommendations as))]
              ''Recommended actions across every zone's current assessment''])"

definition executive_permits :: "executive \<Rightarrow> 'e node list" where
  "executive_permits s =
     (let shown = (\<lambda>c. case c of Some n \<Rightarrow> num_toString n | None \<Rightarrow> utf8_emdash); (active, flagged, suspend) = ex_permitCounts s
      in cond (isReplayMode (ds_dual (ex_source s)))
           [p_text (''Always current, not replayed - work authorizations have no persisted history the way ''
              @ ''risk assessments do.'')]
         @ [el ''div''
              [el ''div''
                 [el ''div'' [el ''h3'' [Text ''Active''], p_text (shown active)],
                  el ''div'' [el ''h3'' [Text ''Flagged''], p_text (shown flagged)],
                  el ''div'' [el ''h3'' [Text ''Suspend Recommended''], p_text (shown suspend)]],
               el ''p'' [Link ''/permits'' [Text (''View all work authorizations '' @ utf8_arrow)]]]])"

definition executive_content ::
  "host_zone \<Rightarrow> (string \<Rightarrow> string) \<Rightarrow> story_line engine_sort \<Rightarrow> executive \<Rightarrow> 'e node list" where
  "executive_content hz ft srt s =
     (let d = ds_dual (ex_source s); zones = du_zones d; as = zoneAssessments hz d; alerts = activeAlerts as; actions = executive_actions as
      in executive_primary hz ft s
         # cond (isReplayMode d) [ExecutiveStoryPanel ft srt (du_replay d) zones (view_zoneIds d)]
         @ [el ''h2'' [Text ''Supporting Metrics''], executive_metrics hz s, el ''h2'' [Text ''Work Authorizations'']]
         @ executive_permits s
         @ [el ''h2'' [Text ''Active Alerts''],
            el ''div''
              [(if length alerts = 0 then p_text ''No zone is currently above NORMAL.''
                else el ''ul'' (map (\<lambda>a. El ''li'' [(''class'', ''alert-item alert-'' @ ra_tier a)] (alert_item ft zones a)) alerts))],
            el ''h2'' [Text ''Priority Actions''],
            el ''div''
              [(if length actions = 0 then p_text ''No recommended actions across the plant right now.''
                else el ''ul'' (map (\<lambda>az. El ''li'' [(''class'', ''recommendation recommendation-'' @ rc_severity (fst az))]
                  [strong (zoneLabel (snd az) zones @ '':''), Text ('' '' @ rc_text (fst az))]) actions))]])"

definition executive_view :: "host_zone \<Rightarrow> (string \<Rightarrow> string) \<Rightarrow> story_line engine_sort \<Rightarrow> executive \<Rightarrow> 'e node list" where
  "executive_view hz ft srt s =
     [el ''section''
        ([el ''h1'' [Text ''Executive Overview'']] @ replay_banner (ex_source s)
         @ QueryResult
             \<lparr>qp_isLoading = dual_isLoading (ex_source s), qp_error = dual_error (ex_source s),
              qp_isEmpty = (length (zoneAssessments hz (ds_dual (ex_source s))) = 0),
              qp_emptyLabel = ''No safety assessments have been recorded yet.'', qp_emptyHint = None, qp_emptyAction = None,
              qp_loadingLabel = None, qp_onRetry = None\<rparr>
             (executive_content hz ft srt s))]"

subsection \<open>Facts about the pages\<close>

lemma no_controls_mission [simp]:
  "offered (mission_hero hz ft s) = {}" "offered (mission_alerts ft zones alerts) = {}" "offered (mission_agents zones z) = {}"
  "offered (mission_actions zones actions) = {}" "offered (mission_impact hz d) = {}"
  by (auto simp: mission_hero_def mission_alerts_def mission_agents_def mission_actions_def mission_impact_def hero_figure_def
      alert_item_def mission_agent_def mission_action_def strong_def Let_def offers_map
      split: option.splits)

lemma offers_timeline [simp]: "offered (OperatorTimeline ft None entries') = {}"
  by (auto simp: OperatorTimeline_def timeline_item_def Let_def offers_map)

lemma offers_mission: "offers (mission_view hz ft srt srt' s) \<subseteq> {Refetch_Live}"
proof -
  have "offers (mission_content hz ft srt srt' s) = {}"
    by (auto simp: mission_content_def Let_def cond_def cond_some_def offered_map split: option.split)
  then show ?thesis
    using offers_QueryResult by (fastforce simp: mission_view_def replay_banner_def Let_def split: if_splits)
qed

lemma rank_reverse: "of_int (tierRank (ra_tier b) - tierRank (ra_tier a)) \<le> (0::rat) \<longleftrightarrow> - tierRank (ra_tier a) \<le> - tierRank (ra_tier b)"
  by simp

interpretation alert_order: comparator "\<lambda>a b. of_int (tierRank (ra_tier b) - tierRank (ra_tier a))" "\<lambda>a. - tierRank (ra_tier a)" "\<lambda>_. True"
  by unfold_locales (rule rank_reverse)

subsection \<open>The counters\<close>

definition counter_faithful :: "number \<Rightarrow> animated \<Rightarrow> bool" where
  "counter_faithful v a \<longleftrightarrow> an_value a = v \<and> (if an_start a = None then an_display a = v else True)"

lemma counter_faithful_mount: "counter_faithful v (counter_mount reduced now v)"
  by (simp add: counter_faithful_def counter_mount_def counter_effect_def)

lemma counter_faithful_value: "counter_faithful w a \<Longrightarrow> counter_faithful v (counter_value reduced now v a)"
  by (auto simp: counter_faithful_def counter_value_def counter_effect_def)

lemma counter_faithful_frame: "fl v = v \<Longrightarrow> counter_faithful v a \<Longrightarrow> counter_faithful v (counter_frame d now a)"
  by (auto simp: counter_faithful_def counter_frame_def nmul_def Let_def min_def split: option.split)

definition score_figure :: "RiskAssessment list \<Rightarrow> number" where
  "score_figure as = averageCompoundScore as"

definition confidence_figure :: "RiskAssessment list \<Rightarrow> number" where
  "confidence_figure as = nmul (avgConfidence as) 100"

lemma figures_rounded: "fl (score_figure as) = score_figure as" "fl (confidence_figure as) = confidence_figure as"
  by (simp_all add: score_figure_def averageCompoundScore_def ndiv_def confidence_figure_def nmul_def)

definition counters_ok :: "host_zone \<Rightarrow> mission \<Rightarrow> bool" where
  "counters_ok hz s =
     (case mi_counters s of
        None \<Rightarrow> \<not> mission_shown hz s
      | Some (a, b) \<Rightarrow>
          mission_shown hz s \<and> counter_faithful (score_figure (mission_rows hz s)) a
          \<and> counter_faithful (confidence_figure (mission_rows hz s)) b)"

lemma mission_fields [simp]:
  "mission_rows hz (s\<lparr>mi_counters := x0\<rparr>) = mission_rows hz s"
  "mission_rows hz (s\<lparr>mi_hoveredZoneId := x1\<rparr>) = mission_rows hz s"
  "mission_rows hz (s\<lparr>mi_refetches := x2\<rparr>) = mission_rows hz s"
  "mission_rows hz (s\<lparr>mi_history := x3\<rparr>) = mission_rows hz s"
  "mission_shown hz (s\<lparr>mi_counters := x0\<rparr>) = mission_shown hz s"
  "mission_shown hz (s\<lparr>mi_hoveredZoneId := x1\<rparr>) = mission_shown hz s"
  "mission_shown hz (s\<lparr>mi_refetches := x2\<rparr>) = mission_shown hz s"
  "mission_shown hz (s\<lparr>mi_history := x3\<rparr>) = mission_shown hz s"
  by (simp_all add: mission_rows_def mission_shown_def)

lemma settle_rows [simp]:
  "mission_rows hz (mission_settle hz reduced now s) = mission_rows hz s"
  "mission_shown hz (mission_settle hz reduced now s) = mission_shown hz s"
  by (simp_all add: mission_settle_def Let_def)

lemma counters_settle:
  assumes "case mi_counters s of Some (a, b) \<Rightarrow> \<exists>v w. counter_faithful v a \<and> counter_faithful w b | None \<Rightarrow> True"
  shows "counters_ok hz (mission_settle hz reduced now s)"
proof (cases "mission_shown hz s")
  case False
  then show ?thesis by (simp add: counters_ok_def) (simp add: mission_settle_def Let_def)
next
  case True
  then have "mi_counters (mission_settle hz reduced now s) = Some (case mi_counters s of
      None \<Rightarrow> (counter_mount reduced now (score_figure (mission_rows hz s)), counter_mount reduced now (confidence_figure (mission_rows hz s)))
    | Some (a, b) \<Rightarrow> (counter_value reduced now (score_figure (mission_rows hz s)) a,
                       counter_value reduced now (confidence_figure (mission_rows hz s)) b))"
    by (simp add: mission_settle_def score_figure_def confidence_figure_def Let_def split: option.split)
  with assms True show ?thesis
    by (auto simp: counters_ok_def intro: counter_faithful_mount counter_faithful_value split: option.splits)
qed

lemma counters_kept:
  "counters_ok hz s \<Longrightarrow> case mi_counters s of Some (a, b) \<Rightarrow> \<exists>v w. counter_faithful v a \<and> counter_faithful w b | None \<Rightarrow> True"
  by (auto simp: counters_ok_def split: option.splits)

lemma counters_env: "counters_ok hz s \<Longrightarrow> counters_ok hz (mission_env hz x s)"
proof (cases x)
  case (Mission_Source reduced now y)
  assume "counters_ok hz s"
  from counters_kept[OF this] Mission_Source show ?thesis by (simp add: mission_env_def counters_settle)
next
  case (Mission_Frame now)
  assume "counters_ok hz s"
  with Mission_Frame figures_rounded show ?thesis
    by (auto simp: counters_ok_def mission_env_def intro: counter_faithful_frame split: option.splits)
qed (auto simp: mission_env_def counters_ok_def split: option.splits)

definition mission_step ::
  "host_zone \<Rightarrow> (string \<Rightarrow> string) \<Rightarrow> RiskAssessment engine_sort \<Rightarrow> story_line engine_sort \<Rightarrow> mission \<Rightarrow> mission_input input \<Rightarrow> mission" where
  "mission_step hz ft srt srt' = app_step (mission_view hz ft srt srt') mission_update (mission_env hz)"

interpretation mission_ui: ui_app "mission_open hz reduced now d" "mission_view hz ft srt srt'" mission_update "mission_env hz" "counters_ok hz"
  for hz reduced now d ft srt srt'
proof unfold_locales
  show "counters_ok hz (mission_open hz reduced now d)" unfolding mission_open_def by (rule counters_settle) simp
  show "counters_ok hz s \<Longrightarrow> e \<in> offers (mission_view hz ft srt srt' s) \<Longrightarrow> counters_ok hz (mission_update e s)" for s e
    by (auto simp: mission_update_def counters_ok_def split: option.splits)
  show "counters_ok hz s \<Longrightarrow> counters_ok hz (mission_env hz x s)" for s x by (rule counters_env)
qed

subsection \<open>Properties\<close>

text \<open>
  The counters of mission control: they are on the page exactly when its content is, they count to the average score and the
  average confidence of the rows on display, and a counter that has come to rest shows that figure itself.
\<close>

theorem mission_counters_faithful:
  "(let s = foldl (mission_step hz ft srt srt') (mission_open hz reduced now d) inputs
    in case mi_counters s of
         None \<Rightarrow> \<not> mission_shown hz s
       | Some (a, b) \<Rightarrow>
           mission_shown hz s \<and>
           an_value a = averageCompoundScore (mission_rows hz s) \<and> (if an_start a = None then an_display a = an_value a else True) \<and>
           an_value b = nmul (avgConfidence (mission_rows hz s)) 100 \<and> (if an_start b = None then an_display b = an_value b else True))"
proof -
  have "counters_ok hz (foldl (mission_step hz ft srt srt') (mission_open hz reduced now d) inputs)"
    unfolding mission_step_def by (rule mission_ui.inv_reachable)
  then show ?thesis
    by (auto simp: Let_def counters_ok_def counter_faithful_def score_figure_def confidence_figure_def split: option.splits)
qed

lemma activeAlerts_sorted: "activeAlerts as = sort_key (\<lambda>a. - tierRank (ra_tier a)) (filter (\<lambda>a. ra_tier a \<noteq> ''normal'') as)"
  unfolding activeAlerts_def by (rule alert_order.js_sort_key) simp

lemma set_activeAlerts: "set (activeAlerts as) = {a \<in> set as. ra_tier a \<noteq> ''normal''}"
  by (simp add: activeAlerts_sorted)

lemma alerts_headed_by_status:
  assumes known: "list_all (\<lambda>a. ra_tier a \<in> set TIER_ORDER) as"
  shows "case head_option (activeAlerts as) of
      Some a \<Rightarrow> worstTier (map ra_tier as) = Some (ra_tier a) | None \<Rightarrow> worstTier (map ra_tier as) \<in> {None, Some ''normal''}"
proof (cases "worstTier (map ra_tier as)")
  case None
  then have "as = []" by (simp add: worstTier_None_iff)
  then have "activeAlerts as = []" unfolding activeAlerts_sorted by simp
  then show ?thesis by (simp add: None head_option_def)
next
  case (Some w)
  from worstTier_max[OF Some] obtain m where m: "m \<in> set as" "ra_tier m = w" and ge: "\<forall>a\<in>set as. tierRank (ra_tier a) \<le> tierRank w"
    by auto
  show ?thesis
  proof (cases "activeAlerts as")
    case Nil
    then have "w = ''normal''" using m set_activeAlerts[of as] by auto
    with Nil Some show ?thesis by (simp add: head_option_def)
  next
    case (Cons a rest)
    then have a: "a \<in> set as" "ra_tier a \<noteq> ''normal''" using set_activeAlerts[of as] by auto
    with known have pos: "0 < tierRank (ra_tier a)" by (auto simp: list_all_iff TIER_ORDER_def)
    then have "w \<noteq> ''normal''" using a ge by fastforce
    with m have "m \<in> set (a # rest)" unfolding Cons[symmetric] set_activeAlerts by auto
    moreover have "sorted (map (\<lambda>a. - tierRank (ra_tier a)) (a # rest))" unfolding Cons[symmetric] activeAlerts_sorted by simp
    ultimately have "tierRank (ra_tier m) \<le> tierRank (ra_tier a)" by auto
    with ge a m(2) have "tierRank (ra_tier a) = tierRank w" by (intro antisym) auto
    with pos have "ra_tier a = w" using indexOf_inj[of TIER_ORDER "ra_tier a" w] by (simp add: tierRank_def)
    with Cons Some show ?thesis by (simp add: head_option_def)
  qed
qed

text \<open>
  (C23) Two lists of alerts: mission control and the executive overview show the same zones, exactly those above normal. The overview has
  the most severe first, and with the four known tiers its first alert has the plant's status; mission control has the
  newest first, provided no two alerts have the same timestamp (otherwise the engine decides).
\<close>

theorem alerts_agree:
  assumes "sorts_strict srt (later_first ra_timestamp)"
  shows
    "(let alerts = filter (\<lambda>a. ra_tier a \<noteq> ''normal'') as
      in mset (alert_feed srt as) = mset alerts \<and> mset (activeAlerts as) = mset alerts \<and>
         sorted (map (\<lambda>a. - tierRank (ra_tier a)) (activeAlerts as)) \<and>
         (if list_all (\<lambda>a. ra_tier a \<in> set TIER_ORDER) as
          then (case head_option (activeAlerts as) of
                  Some a \<Rightarrow> worstTier (map ra_tier as) = Some (ra_tier a)
                | None \<Rightarrow> worstTier (map ra_tier as) \<in> {None, Some ''normal''})
          else True) \<and>
         (if distinct (map ra_timestamp alerts) then alert_feed srt as = rev (sort_key ra_timestamp alerts) else True))"
proof -
  let ?alerts = "filter (\<lambda>a. ra_tier a \<noteq> ''normal'') as"
  have feed: "mset (alert_feed srt as) = mset ?alerts" using assms by (simp add: alert_feed_def sorts_strict_def)
  note active = activeAlerts_sorted[of as]
  have newest: "alert_feed srt as = rev (sort_key ra_timestamp ?alerts)" if "distinct (map ra_timestamp ?alerts)"
    unfolding alert_feed_def using assms that by (rule engine_later_first)
  show ?thesis unfolding Let_def
  proof (intro conjI if_then_TrueI)
    show "mset (activeAlerts as) = mset ?alerts" unfolding active by (rule mset_sort)
    show "sorted (map (\<lambda>a. - tierRank (ra_tier a)) (activeAlerts as))" unfolding active by (rule sorted_sort_key)
  qed (rule feed, erule alerts_headed_by_status, erule newest)
qed

theorem alerts_agree_witness:
  "alert_feed js_sort [Kpis.sample_assessment ''09:00'' 50 ''watch'', Kpis.sample_assessment ''10:00'' 90 ''critical''] =
     [Kpis.sample_assessment ''10:00'' 90 ''critical'', Kpis.sample_assessment ''09:00'' 50 ''watch'']"
proof -
  let ?xs = "[Kpis.sample_assessment ''09:00'' 50 ''watch'', Kpis.sample_assessment ''10:00'' 90 ''critical'']"
  have alerts: "filter (\<lambda>a. ra_tier a \<noteq> ''normal'') ?xs = ?xs" and fresh: "distinct (map ra_timestamp ?xs)"
    by (simp_all add: Kpis.sample_assessment_def)
  have "alert_feed js_sort ?xs = rev (sort_key ra_timestamp ?xs)"
    using alerts_agree[OF sorts_strict_js_sort, of ?xs] fresh unfolding Let_def alerts by presburger
  then show ?thesis by (simp add: Kpis.sample_assessment_def)
qed

text \<open>
  The trend of the average plant risk compares the rows with histories by position, not by zone: in a replay whose first zone has
  no row yet, the row of the second zone is paired with the first zone's empty history, so the average of the previous
  tick is the present average and the trend is steady whatever the second zone did.
\<close>

theorem average_trend_blind:
  "(case (historyItems d history, zoneAssessments hz d) of
      ([] # others, [a]) \<Rightarrow>
        avgPreviousScore hz d history = averageCompoundScore [a] \<and>
        text_of (TrendIndicator (averageCompoundScore [a]) (Some (avgPreviousScore hz d history))) = utf8_steady @ '' steady''
    | _ \<Rightarrow> True)"
  by (auto simp: avgPreviousScore_def TrendIndicator_def Let_def split: list.splits)

end
