(* ===== verification/Challenge_Page.thy ===== *)
theory Challenge_Page
  imports Plant_Panels Time_Machine
begin

section \<open>The challenge mode and the demo timeline\<close>

text \<open>
  \<open>pages/ChallengeModePage.tsx\<close> and \<open>pages/DemoTimelinePage.tsx\<close>: two more pages over the one shared replay. The challenge picks a
  scenario at random, starts its replay and lets it play itself once its ticks have arrived; the demo timeline draws one card
  per tick, with the worst zone of that tick, and a map.

  The effect of the challenge runs in a child of the replay provider, so in a commit with a new target it runs before the
  provider's own effect that resets the cursor and stops the playback (\<open>commit_challenge\<close>), as in the judge's view.

  The properties: the random index is always inside the catalogue, in spite of rounding; a challenge whose payload has to be
  fetched plays itself to the last tick and stops, but one whose payload is cached never starts to play; a card of the
  timeline leads to its tick, and the map there shows what the card says.
\<close>

subsection \<open>Choosing at random\<close>

text \<open>\<open>Math.floor(Math.random() * list.length)\<close>; \<open>Math.random\<close> answers a multiple of \<open>2^-53\<close> below 1.\<close>

definition random_index :: "number \<Rightarrow> nat \<Rightarrow> nat" where
  "random_index r n = nat \<lfloor>nmul r (of_nat n)\<rfloor>"

definition is_random :: "number \<Rightarrow> bool" where
  "is_random r \<longleftrightarrow> 0 \<le> r \<and> r \<le> 1 - 1 / 2 ^ 53 \<and> fl r = r"

subsection \<open>pages/ChallengeModePage.tsx\<close>

record challenge =
  ch_source :: dual_source
  ch_scenarios :: "ScenarioSummary list query"
  ch_cache :: "ReplayTarget \<Rightarrow> ReplayData option"
  ch_focusedZoneId :: "string option"
  ch_awaitingAutoPlay :: bool
  ch_autoPlayed :: bool
  ch_jumpValue :: string
  ch_hoveredZoneId :: "string option"
  ch_drawn :: nat

datatype challenge_event = Start_Challenge | Challenge_Focus string | Challenge_Control control_event

abbreviation ch_replay :: "challenge \<Rightarrow> replay_state" where
  "ch_replay s \<equiv> dual_replay (ch_source s)"

definition set_ch_replay :: "replay_state \<Rightarrow> challenge \<Rightarrow> challenge" where
  "set_ch_replay r s = s\<lparr>ch_source := with_replay r (ch_source s)\<rparr>"

definition challenge_effect :: "challenge \<Rightarrow> challenge" where
  "challenge_effect s =
     (if ch_awaitingAutoPlay s \<and> \<not> ch_autoPlayed s \<and> length (allTimestamps (ch_replay s)) > 0
      then (set_ch_replay (play (ch_replay s)) s)\<lparr>ch_autoPlayed := True, ch_awaitingAutoPlay := False\<rparr>
      else s)"

definition commit_challenge :: "ReplayTarget \<Rightarrow> ReplayData option \<Rightarrow> challenge \<Rightarrow> challenge" where
  "commit_challenge t cached s =
     (let s1 = challenge_effect (set_ch_replay ((ch_replay s)\<lparr>rs_target := Some t, rs_data := cached\<rparr>) s)
      in (set_ch_replay (reset_for_target (ch_replay s1)) s1)\<lparr>ch_source :=
           (ch_source (set_ch_replay (reset_for_target (ch_replay s1)) s1))\<lparr>ds_replayError := None\<rparr>\<rparr>)"

definition drawn_target :: "(nat \<Rightarrow> number) \<Rightarrow> challenge \<Rightarrow> ScenarioSummary list \<Rightarrow> ReplayTarget" where
  "drawn_target rnd s xs = picked_target (ss_key (xs ! random_index (rnd (ch_drawn s)) (length xs)))"

definition startChallenge :: "(nat \<Rightarrow> number) \<Rightarrow> challenge \<Rightarrow> challenge" where
  "startChallenge rnd s =
     (let list = (case q_data (ch_scenarios s) of Some xs \<Rightarrow> xs | None \<Rightarrow> [])
      in if length list = 0 then s
         else let target = drawn_target rnd s list
              in commit_challenge target (ch_cache s target)
                   (s\<lparr>ch_drawn := ch_drawn s + 1, ch_autoPlayed := False, ch_awaitingAutoPlay := True, ch_focusedZoneId := None\<rparr>))"

definition challenge_rows :: "host_zone \<Rightarrow> challenge \<Rightarrow> (string \<times> RiskAssessment) list" where
  "challenge_rows hz s = replay_entries hz (ch_replay s)"

definition replay_map :: "host_zone \<Rightarrow> dual \<Rightarrow> PlantMapZone list" where
  "replay_map hz d = map (\<lambda>z. z\<lparr>pz_gasType := None\<rparr>) (time_machine_map hz d)"

definition worstZoneId :: "(string \<times> RiskAssessment) list \<Rightarrow> string option" where
  "worstZoneId rows =
     map_option fst (head_option
       (js_sort (\<lambda>a b. nsub (ra_compound_risk_score (snd b)) (ra_compound_risk_score (snd a))) rows))"

definition challenge_zone :: "host_zone \<Rightarrow> challenge \<Rightarrow> string option" where
  "challenge_zone hz s =
     (case ch_focusedZoneId s of Some z \<Rightarrow> Some z | None \<Rightarrow> worstZoneId (challenge_rows hz s))"

text \<open>The jump field and the pointer on the map are lost with the part of the page they are in.\<close>

definition challenge_settle :: "challenge \<Rightarrow> challenge" where
  "challenge_settle s =
     s\<lparr>ch_source := left_replay (ch_source s),
       ch_jumpValue := (if rs_target (ch_replay s) = None then [] else ch_jumpValue s),
       ch_hoveredZoneId := (if allTimestamps (ch_replay s) = [] then None else ch_hoveredZoneId s)\<rparr>"

definition challenge_handle :: "host_zone \<Rightarrow> (nat \<Rightarrow> number) \<Rightarrow> challenge_event \<Rightarrow> challenge \<Rightarrow> challenge" where
  "challenge_handle hz rnd e s =
     (case e of
        Start_Challenge \<Rightarrow> startChallenge rnd s
      | Challenge_Focus z \<Rightarrow> challenge_effect (s\<lparr>ch_focusedZoneId := Some z\<rparr>)
      | Challenge_Control c \<Rightarrow>
          let (r, v) = control_update hz c (ch_replay s, ch_jumpValue s)
          in challenge_effect ((set_ch_replay r s)\<lparr>ch_jumpValue := v\<rparr>))"

definition challenge_update :: "host_zone \<Rightarrow> (nat \<Rightarrow> number) \<Rightarrow> challenge_event \<Rightarrow> challenge \<Rightarrow> challenge" where
  "challenge_update hz rnd e s = challenge_settle (challenge_handle hz rnd e s)"

datatype challenge_input =
    Challenge_Source dual_input
  | Challenge_Catalogue "ScenarioSummary list query"
  | Challenge_Cache "ReplayTarget \<Rightarrow> ReplayData option"
  | Challenge_Enters string
  | Challenge_Leaves string

definition challenge_env :: "host_zone \<Rightarrow> challenge_input \<Rightarrow> challenge \<Rightarrow> challenge" where
  "challenge_env hz x s =
     challenge_settle (case x of
        Challenge_Source (Replay_Started t cached) \<Rightarrow> commit_challenge t cached s
      | Challenge_Source y \<Rightarrow> challenge_effect (s\<lparr>ch_source := dual_env hz y (ch_source s)\<rparr>)
      | Challenge_Catalogue q \<Rightarrow> s\<lparr>ch_scenarios := q\<rparr>
      | Challenge_Cache c \<Rightarrow> s\<lparr>ch_cache := c\<rparr>
      | Challenge_Enters z \<Rightarrow> s\<lparr>ch_hoveredZoneId := hover_enter z (ch_hoveredZoneId s)\<rparr>
      | Challenge_Leaves z \<Rightarrow> s\<lparr>ch_hoveredZoneId := hover_leave z (ch_hoveredZoneId s)\<rparr>)"

definition challenge_open :: "dual_source \<Rightarrow> ScenarioSummary list query \<Rightarrow> (ReplayTarget \<Rightarrow> ReplayData option) \<Rightarrow> challenge" where
  "challenge_open d q cache =
     \<lparr>ch_source = d, ch_scenarios = q, ch_cache = cache, ch_focusedZoneId = None, ch_awaitingAutoPlay = False,
      ch_autoPlayed = False, ch_jumpValue = [], ch_hoveredZoneId = None, ch_drawn = 0\<rparr>"

definition challenge_strip :: "RiskAssessment list \<Rightarrow> 'e node" where
  "challenge_strip as =
     el ''div''
       [el ''span'' [Text ''Plant status: '', (case worstTier (map ra_tier as) of Some t \<Rightarrow> TierBadge t | None \<Rightarrow> Text utf8_emdash)],
        el ''span'' [Text (''Average plant risk: '' @ toFixed (averageCompoundScore as) 1)],
        El ''span'' [(''class'', readiness_class (plantReadiness as))]
          [Text (''Readiness: '' @ the (map_of READINESS_LABEL (plantReadiness as)))]]"

definition challenge_content ::
  "host_zone \<Rightarrow> (string \<Rightarrow> string) \<Rightarrow> story_line engine_sort \<Rightarrow> challenge \<Rightarrow> challenge_event node list" where
  "challenge_content hz ft srt s =
     (let d = ds_dual (ch_source s); z = challenge_zone hz s
      in [challenge_strip (map snd (challenge_rows hz s)),
          el ''div''
            [el ''div''
               (el ''div'' [PlantMap ft (replay_map hz d) (Some Challenge_Focus) True z (ch_hoveredZoneId s)]
                # cond_some (truthy z) (\<lambda>z. [DecisionEvolution ft (ch_replay s) (du_zones d) z])),
             el ''div'' [ExecutiveStoryPanel ft srt (ch_replay s) (du_zones d) (replay_zoneIds (ch_replay s))]]])"

definition challenge_view ::
  "host_zone \<Rightarrow> (string \<Rightarrow> string) \<Rightarrow> story_line engine_sort \<Rightarrow> challenge \<Rightarrow> challenge_event node list" where
  "challenge_view hz ft srt s =
     [el ''section''
        (if rs_target (ch_replay s) = None
         then [el ''h1'' [Text ''Challenge Mode''],
               p_text (''Can the engine respond correctly? Pick a scenario at random and watch it play out, ''
                 @ ''fully explained, with no manual clicking.'')]
              @ QueryResult
                  \<lparr>qp_isLoading = q_isLoading (ch_scenarios s), qp_error = q_error (ch_scenarios s),
                   qp_isEmpty = (length (case q_data (ch_scenarios s) of Some xs \<Rightarrow> xs | None \<Rightarrow> []) = 0),
                   qp_emptyLabel = ''No scenarios in the library yet.'', qp_emptyHint = None, qp_emptyAction = None,
                   qp_loadingLabel = None, qp_onRetry = None\<rparr>
                  [Button [] True Start_Challenge [Text ''Start Challenge'']]
         else [el ''h1'' [Text ''Challenge Mode''], p_text ''Can the engine respond correctly? Watching it happen, live.'',
               Button [] True Start_Challenge [Text ''New Random Scenario'']]
              @ map (map_node Challenge_Control) (ReplayController ft (ch_replay s) (ds_replayError (ch_source s)) (ch_jumpValue s))
              @ cond (length (allTimestamps (ch_replay s)) > 0) (challenge_content hz ft srt s))]"

subsection \<open>Facts about the challenge\<close>

lemma set_ch_replay_simps [simp]:
  "ch_replay (set_ch_replay r s) = r" "ch_awaitingAutoPlay (set_ch_replay r s) = ch_awaitingAutoPlay s"
  "ch_autoPlayed (set_ch_replay r s) = ch_autoPlayed s" "ch_drawn (set_ch_replay r s) = ch_drawn s"
  "ch_focusedZoneId (set_ch_replay r s) = ch_focusedZoneId s"
  by (simp_all add: set_ch_replay_def)

lemma dual_replay_error [simp]: "dual_replay (d\<lparr>ds_replayError := e\<rparr>) = dual_replay d"
  by (simp add: dual_replay_def)

lemma challenge_effect_replay:
  "ch_replay (challenge_effect s) =
     (if ch_awaitingAutoPlay s \<and> \<not> ch_autoPlayed s \<and> allTimestamps (ch_replay s) \<noteq> [] then play (ch_replay s) else ch_replay s)"
  by (simp add: challenge_effect_def)

lemma commit_replay [simp]: "ch_replay (commit_challenge t cached s) = startReplay t cached (ch_replay s)"
  by (simp add: commit_challenge_def Let_def challenge_effect_replay startReplay_def reset_for_target_def play_def)

lemma challenge_settle_simps [simp]:
  "ch_replay (challenge_settle s) = ch_replay s" "ch_awaitingAutoPlay (challenge_settle s) = ch_awaitingAutoPlay s"
  "ch_autoPlayed (challenge_settle s) = ch_autoPlayed s" "ch_scenarios (challenge_settle s) = ch_scenarios s"
  "ch_cache (challenge_settle s) = ch_cache s" "ch_drawn (challenge_settle s) = ch_drawn s"
  by (simp_all add: challenge_settle_def)

lemma commit_flags:
  "ch_awaitingAutoPlay s \<Longrightarrow> \<not> ch_autoPlayed s \<Longrightarrow>
     (ch_awaitingAutoPlay (commit_challenge t cached s), ch_autoPlayed (commit_challenge t cached s)) =
       (allTimestamps (startReplay t cached (ch_replay s)) = [], allTimestamps (startReplay t cached (ch_replay s)) \<noteq> [])"
  by (simp add: commit_challenge_def Let_def challenge_effect_def allTimestamps_def startReplay_def reset_for_target_def)

lemma cursor_play: "cursor_on_axis r \<Longrightarrow> cursor_on_axis (play r)"
  using cursor_keeps[of r Play] by (simp add: replay_step_def)

lemma cursor_start: "cursor_on_axis r \<Longrightarrow> cursor_on_axis (startReplay t c r)"
  using cursor_keeps[of r "StartReplay t c"] by (simp add: replay_step_def)

lemma cursor_effect: "cursor_on_axis (ch_replay s) \<Longrightarrow> cursor_on_axis (ch_replay (challenge_effect s))"
  by (simp add: challenge_effect_replay cursor_play)

lemma no_controls_strip [simp]: "offered (challenge_strip as) = {}"
  by (auto simp: challenge_strip_def split: option.split)

lemma offers_challenge:
  "offers (challenge_view hz ft srt s) \<subseteq> {Start_Challenge} \<union> range Challenge_Focus
     \<union> Challenge_Control ` offers (ReplayController ft (ch_replay s) (ds_replayError (ch_source s)) (ch_jumpValue s))"
proof -
  have "offers (challenge_content hz ft srt s) \<subseteq> range Challenge_Focus"
    by (auto simp: challenge_content_def Let_def offered_map cond_some_def split: option.split)
  then show ?thesis
    using offers_QueryResult by (fastforce simp: challenge_view_def offers_map_node split: if_splits)
qed

lemma cursor_challenge_update:
  assumes "cursor_on_axis (ch_replay s)" and "e \<in> offers (challenge_view hz ft srt s)"
  shows "cursor_on_axis (ch_replay (challenge_update hz rnd e s))"
proof (cases e)
  case Start_Challenge
  with assms(1) show ?thesis by (simp add: challenge_update_def challenge_handle_def startChallenge_def Let_def cursor_start)
next
  case (Challenge_Focus z)
  with assms(1) show ?thesis using cursor_effect[of "s\<lparr>ch_focusedZoneId := Some z\<rparr>"]
    by (simp add: challenge_update_def challenge_handle_def)
next
  case (Challenge_Control c)
  then have "c \<in> offers (ReplayController ft (ch_replay s) (ds_replayError (ch_source s)) (ch_jumpValue s))"
    using assms(2) offers_challenge[of hz ft srt s] by auto
  from cursor_control[OF assms(1) refl this, of hz] Challenge_Control show ?thesis
    by (simp add: challenge_update_def challenge_handle_def case_prod_beta cursor_effect)
qed

lemma cursor_challenge_env:
  assumes "cursor_on_axis (ch_replay s)"
  shows "cursor_on_axis (ch_replay (challenge_env hz x s))"
proof (cases x)
  case (Challenge_Source y)
  have "cursor_on_axis (ch_replay (challenge_effect (s\<lparr>ch_source := dual_env hz y (ch_source s)\<rparr>)))"
    using cursor_dual_env[OF assms] by (intro cursor_effect) simp
  with Challenge_Source assms show ?thesis by (cases y) (simp_all add: challenge_env_def cursor_start)
qed (use assms in \<open>simp_all add: challenge_env_def\<close>)

definition challenge_step ::
  "host_zone \<Rightarrow> (string \<Rightarrow> string) \<Rightarrow> story_line engine_sort \<Rightarrow> (nat \<Rightarrow> number) \<Rightarrow> challenge \<Rightarrow> challenge_input input \<Rightarrow> challenge" where
  "challenge_step hz ft srt rnd = app_step (challenge_view hz ft srt) (challenge_update hz rnd) (challenge_env hz)"

definition challenge_before :: "dual_source \<Rightarrow> challenge \<Rightarrow> bool" where
  "challenge_before d s = (cursor_on_axis (dual_replay d) \<longrightarrow> cursor_on_axis (ch_replay s))"

interpretation challenge_ui: ui_app "challenge_open d q cache" "challenge_view hz ft srt" "challenge_update hz rnd" "challenge_env hz"
  "challenge_before d" for hz ft srt rnd d q cache
  by unfold_locales (auto simp: challenge_before_def challenge_open_def intro: cursor_challenge_update cursor_challenge_env)

subsection \<open>The random index\<close>

lemma round_half_even_below: "x < of_int n - 1 / 2 \<Longrightarrow> round_half_even x < n"
proof -
  assume x: "x < of_int n - 1 / 2"
  then have f: "\<lfloor>x\<rfloor> < n" by linarith
  show ?thesis
  proof (cases "\<lfloor>x\<rfloor> = n - 1")
    case True
    with x have "x - of_int \<lfloor>x\<rfloor> < 1 / 2" by simp
    with f show ?thesis by (simp add: round_half_even_def Let_def)
  next
    case False
    with f round_half_even_bounds(2)[of x] show ?thesis by linarith
  qed
qed

lemma product_below:
  assumes "is_random r" and "0 < n" and "n < 2 ^ 53"
  shows "nmul r (of_nat n) < of_nat n"
proof (cases "r = 0")
  case True
  with assms(2) show ?thesis by (simp add: nmul_def)
next
  case False
  with assms(1) have r: "0 < r" "r \<le> 1 - 1 / 2 ^ 53" "fl r = r" by (auto simp: is_random_def)
  define x N k where "x = r * of_nat n" and "N = (of_nat n :: rat)" and "k = ilog2 N"
  have N: "0 < N" using assms(2) by (simp add: N_def)
  have x: "0 < x" "x < N" using r N by (auto simp: x_def N_def mult_less_cancel_right1)
  have k: "2 powi k \<le> N" "N < 2 powi (k + 1)" using ilog2_bounds[OF N] by (simp_all add: k_def)
  have flN: "fl N = N" using fl_int[of "int n"] assms(3) by (simp add: N_def)
  have pow: "fl (2 powi k) = 2 powi k" using fl_dyadic[of 1 k] by simp
  consider (power) "N = 2 powi k" | (low) "x < 2 powi k" "2 powi k < N" | (high) "2 powi k \<le> x" "2 powi k < N"
    using k by fastforce
  then have "fl x < N"
  proof cases
    case power
    have "fl x = r * N" using fl_scale[of r k] r(3) by (simp add: x_def N_def[symmetric] power)
    with x(2) show ?thesis by (simp add: x_def N_def)
  next
    case low
    then have "fl x \<le> 2 powi k" using fl_error_dir(1)[OF pow] by simp
    with low(2) show ?thesis by linarith
  next
    case high
    have kx: "ilog2 x = k" using high(1) x(2) k(2) by (intro ilog2_unique) auto
    define u :: rat where "u = 2 powi (k - 52)"
    have u: "0 < u" and u52: "2 powi k = 2 ^ 52 * u" by (simp_all add: u_def power_int_diff)
    have "ilog2 N = k" by (simp add: k_def)
    then have "fl N = of_int (round_half_even (N / u)) * u" using N by (simp add: fl_def fl_pos_def u_def Let_def)
    then have M: "N = of_int (round_half_even (N / u)) * u" using flN by simp
    define m where "m = round_half_even (N / u)"
    have Nu: "N / u = of_int m" using M u by (simp add: m_def field_simps)
    have "2 ^ 52 * u < of_int m * u" using high(2) u52 M by (simp add: m_def)
    then have m: "2 ^ 52 < m" using u by (simp add: mult_less_cancel_right_pos)
    have "x / u = r * (N / u)" by (simp add: x_def N_def)
    also have "\<dots> = r * of_int m" by (simp add: Nu)
    also have "\<dots> \<le> (1 - 1 / 2 ^ 53) * of_int m" using r(2) m by (intro mult_right_mono) auto
    also have "\<dots> < of_int m - 1 / 2"
    proof -
      have "(2::rat) ^ 52 < of_int m" using m by (metis of_int_less_iff of_int_numeral of_int_power)
      then show ?thesis by (simp add: field_simps)
    qed
    finally have "round_half_even (x / u) < m" by (rule round_half_even_below)
    then have "of_int (round_half_even (x / u)) * u < of_int m * u" using u by simp
    moreover have "fl x = of_int (round_half_even (x / u)) * u" using x kx by (simp add: fl_def fl_pos_def u_def Let_def)
    ultimately show ?thesis using M by (simp add: m_def)
  qed
  then show ?thesis by (simp add: nmul_def x_def N_def)
qed

subsection \<open>pages/DemoTimelinePage.tsx\<close>

record tick_card =
  tk_index :: nat
  tk_timestamp :: string
  tk_zoneId :: "string option"
  tk_zoneName :: string
  tk_tier :: "string option"
  tk_score :: "number option"

text \<open>The loop over the zones: the pair of the worst zone so far and its row.\<close>

definition worse_row :: "(string \<times> RiskAssessment) option \<Rightarrow> string \<times> RiskAssessment option \<Rightarrow> (string \<times> RiskAssessment) option" where
  "worse_row worst zc =
     (case snd zc of
        None \<Rightarrow> worst
      | Some candidate \<Rightarrow>
          (case worst of
             None \<Rightarrow> Some (fst zc, candidate)
           | Some (z, w) \<Rightarrow>
               if tierRank (ra_tier candidate) > tierRank (ra_tier w) then Some (fst zc, candidate) else Some (z, w)))"

definition worst_at :: "host_zone \<Rightarrow> replay_state \<Rightarrow> string \<Rightarrow> (string \<times> RiskAssessment) option" where
  "worst_at hz r timestamp =
     foldl worse_row None
       (map (\<lambda>z. (z, assessmentAtOrBefore hz (zoneTimeline r z) (map_option of_int (Date_getTime hz timestamp)))) (replay_zoneIds r))"

definition tick_cards :: "host_zone \<Rightarrow> replay_state \<Rightarrow> Zone list option \<Rightarrow> tick_card list" where
  "tick_cards hz r zones =
     map (\<lambda>(index, timestamp).
       let worst = worst_at hz r timestamp
       in \<lparr>tk_index = index, tk_timestamp = timestamp, tk_zoneId = map_option fst worst,
           tk_zoneName = (case truthy (map_option fst worst) of Some z \<Rightarrow> zoneLabel z zones | None \<Rightarrow> utf8_emdash),
           tk_tier = map_option (\<lambda>w. ra_tier (snd w)) worst, tk_score = map_option (\<lambda>w. ra_compound_risk_score (snd w)) worst\<rparr>)
       (enumerate 0 (allTimestamps r))"

record demo_timeline =
  dl_source :: dual_source
  dl_scenarios :: "ScenarioSummary list query"
  dl_cache :: "ReplayTarget \<Rightarrow> ReplayData option"
  dl_jumpValue :: string
  dl_hoveredZoneId :: "string option"

datatype demo_timeline_event = Launch string | Timeline_Control control_event | Open_Card int

abbreviation dl_replay :: "demo_timeline \<Rightarrow> replay_state" where
  "dl_replay s \<equiv> dual_replay (dl_source s)"

definition demo_map :: "host_zone \<Rightarrow> demo_timeline \<Rightarrow> PlantMapZone list" where
  "demo_map hz s =
     (let d = ds_dual (dl_source s)
      in List.map_filter (\<lambda>(index, z). map_option (\<lambda>a. entry_zone d (data_at (workerCounts d (replay_zoneIds (dl_replay s))) index) None (z, a))
           (assessmentAt hz (dl_replay s) z)) (enumerate 0 (replay_zoneIds (dl_replay s))))"

definition current_card :: "host_zone \<Rightarrow> demo_timeline \<Rightarrow> tick_card option" where
  "current_card hz s =
     (let cards = tick_cards hz (dl_replay s) (du_zones (ds_dual (dl_source s))); i = rs_currentIndex (dl_replay s)
      in if 0 \<le> i \<and> i < int (length cards) then Some (cards ! nat i) else None)"

text \<open>The jump field and the pointer are lost with the content of the page.\<close>

definition demo_timeline_shown :: "demo_timeline \<Rightarrow> bool" where
  "demo_timeline_shown s =
     (rs_target (dl_replay s) \<noteq> None \<and> ds_replayError (dl_source s) = None \<and> allTimestamps (dl_replay s) \<noteq> [])"

definition demo_timeline_settle :: "demo_timeline \<Rightarrow> demo_timeline" where
  "demo_timeline_settle s =
     s\<lparr>dl_source := left_replay (dl_source s), dl_jumpValue := (if demo_timeline_shown s then dl_jumpValue s else []),
       dl_hoveredZoneId := (if demo_timeline_shown s then dl_hoveredZoneId s else None)\<rparr>"

definition demo_timeline_update :: "host_zone \<Rightarrow> demo_timeline_event \<Rightarrow> demo_timeline \<Rightarrow> demo_timeline" where
  "demo_timeline_update hz e s =
     demo_timeline_settle (case e of
        Launch key \<Rightarrow>
          s\<lparr>dl_source := (with_replay (startReplay (picked_target key) (dl_cache s (picked_target key)) (dl_replay s))
              (dl_source s))\<lparr>ds_replayError := None\<rparr>\<rparr>
      | Timeline_Control c \<Rightarrow>
          let (r, v) = control_update hz c (dl_replay s, dl_jumpValue s)
          in s\<lparr>dl_source := with_replay r (dl_source s), dl_jumpValue := v\<rparr>
      | Open_Card i \<Rightarrow> s\<lparr>dl_source := with_replay (scrubToIndex i (dl_replay s)) (dl_source s)\<rparr>)"

datatype demo_timeline_input =
    Timeline_Source dual_input
  | Timeline_Catalogue "ScenarioSummary list query"
  | Timeline_Cache "ReplayTarget \<Rightarrow> ReplayData option"
  | Timeline_Enters string
  | Timeline_Leaves string

definition demo_timeline_env :: "host_zone \<Rightarrow> demo_timeline_input \<Rightarrow> demo_timeline \<Rightarrow> demo_timeline" where
  "demo_timeline_env hz x s =
     demo_timeline_settle (case x of
        Timeline_Source y \<Rightarrow> s\<lparr>dl_source := dual_env hz y (dl_source s)\<rparr>
      | Timeline_Catalogue q \<Rightarrow> s\<lparr>dl_scenarios := q\<rparr>
      | Timeline_Cache c \<Rightarrow> s\<lparr>dl_cache := c\<rparr>
      | Timeline_Enters z \<Rightarrow> s\<lparr>dl_hoveredZoneId := hover_enter z (dl_hoveredZoneId s)\<rparr>
      | Timeline_Leaves z \<Rightarrow> s\<lparr>dl_hoveredZoneId := hover_leave z (dl_hoveredZoneId s)\<rparr>)"

definition demo_timeline_open ::
  "dual_source \<Rightarrow> ScenarioSummary list query \<Rightarrow> (ReplayTarget \<Rightarrow> ReplayData option) \<Rightarrow> demo_timeline" where
  "demo_timeline_open d q cache =
     \<lparr>dl_source = d, dl_scenarios = q, dl_cache = cache, dl_jumpValue = [], dl_hoveredZoneId = None\<rparr>"

definition ScenarioLauncher :: "ScenarioSummary list query \<Rightarrow> demo_timeline_event node list" where
  "ScenarioLauncher q =
     (let scenarios = (case q_data q of Some xs \<Rightarrow> xs | None \<Rightarrow> [])
      in QueryResult
           \<lparr>qp_isLoading = q_isLoading q, qp_error = q_error q, qp_isEmpty = (length scenarios = 0),
            qp_emptyLabel = ''No scenarios in the library yet.'',
            qp_emptyHint = Some ''Author one in the Scenario Builder to get a replay to demo.'',
            qp_emptyAction = Some \<lparr>ea_label = ''Go to Scenario Builder'', ea_to = ''/scenario-builder''\<rparr>,
            qp_loadingLabel = None, qp_onRetry = None\<rparr>
           [el ''div'' (map (\<lambda>x. Button [] True (Launch (ss_key x)) [el ''h3'' [Text (ss_title x)], p_text (ss_description x)]) scenarios)])"

definition card_button :: "(string \<Rightarrow> string) \<Rightarrow> int \<Rightarrow> tick_card \<Rightarrow> demo_timeline_event node" where
  "card_button ft currentIndex c =
     (let current = (int (tk_index c) = currentIndex)
      in el ''li''
           [Button
              [(''class'', ''demo-timeline-card'' @ (if current then '' demo-timeline-card-current'' else [])),
               (''aria-current'', if current then ''true'' else ''false'')]
              True (Open_Card (int (tk_index c)))
              ([el ''span'' [Text (''Tick '' @ show_nat (tk_index c + 1))], el ''span'' [Text (ft (tk_timestamp c))]]
               @ cond_some (truthy (tk_tier c)) (\<lambda>tier.
                   [TierBadge tier, el ''span'' [Text (tk_zoneName c)],
                    el ''span'' [Text (case tk_score c of Some x \<Rightarrow> toFixed x 1 | None \<Rightarrow> [])]]))])"

definition demo_timeline_content :: "host_zone \<Rightarrow> (string \<Rightarrow> string) \<Rightarrow> demo_timeline \<Rightarrow> demo_timeline_event node list" where
  "demo_timeline_content hz ft s =
     map (map_node Timeline_Control) (ReplayController ft (dl_replay s) (ds_replayError (dl_source s)) (dl_jumpValue s))
     @ [el ''h2'' [Text ''Timeline''],
        el ''ol'' (map (card_button ft (rs_currentIndex (dl_replay s))) (tick_cards hz (dl_replay s) (du_zones (ds_dual (dl_source s))))),
        el ''h2'' [Text ''Digital Twin at this tick''],
        el ''div'' [PlantMap ft (demo_map hz s) None True (Option.bind (current_card hz s) tk_zoneId) (dl_hoveredZoneId s)]]"

definition demo_timeline_view :: "host_zone \<Rightarrow> (string \<Rightarrow> string) \<Rightarrow> demo_timeline \<Rightarrow> demo_timeline_event node list" where
  "demo_timeline_view hz ft s =
     [el ''section''
        ([el ''h1'' [Text ''Live Demo Timeline''],
          p_text (''Step through a scenario tick by tick - every card below is a real persisted moment, not a ''
            @ ''scripted animation. Play it end to end, or jump straight to the moment that matters.'')]
         @ (if rs_target (dl_replay s) = None
            then p_text ''Pick a scenario to start the timeline.'' # ScenarioLauncher (dl_scenarios s)
            else QueryResult
              \<lparr>qp_isLoading = replay_isLoading (dl_replay s) (ds_replayError (dl_source s)), qp_error = ds_replayError (dl_source s),
               qp_isEmpty = (length (allTimestamps (dl_replay s)) = 0),
               qp_emptyLabel = ''This replay has no persisted assessments yet.'', qp_emptyHint = None, qp_emptyAction = None,
               qp_loadingLabel = None, qp_onRetry = None\<rparr>
              (demo_timeline_content hz ft s)))]"

subsection \<open>Facts about the timeline\<close>

lemma demo_timeline_settle_replay [simp]: "dl_replay (demo_timeline_settle s) = dl_replay s"
  by (simp add: demo_timeline_settle_def)

lemma demo_timeline_settle_dual [simp]: "ds_dual (dl_source (demo_timeline_settle s)) = ds_dual (dl_source s)"
  by (simp add: demo_timeline_settle_def left_replay_def)

lemma offers_demo_timeline:
  "offers (demo_timeline_view hz ft s) \<subseteq> range Launch \<union> range Open_Card
     \<union> Timeline_Control ` offers (ReplayController ft (dl_replay s) (ds_replayError (dl_source s)) (dl_jumpValue s))"
proof -
  have "offers (demo_timeline_content hz ft s) \<subseteq> range Open_Card
      \<union> Timeline_Control ` offers (ReplayController ft (dl_replay s) (ds_replayError (dl_source s)) (dl_jumpValue s))"
  proof -
    have "offers (map (card_button ft i) cards) \<subseteq> range Open_Card" for i cards
      by (auto simp: card_button_def Let_def offers_map)
    then show ?thesis by (auto simp: demo_timeline_content_def offers_map_node offered_map)
  qed
  moreover have "offers (ScenarioLauncher q) \<subseteq> range Launch" for q
    by (auto simp: ScenarioLauncher_def Let_def QueryResult_def offers_map split: option.splits if_splits)
  ultimately show ?thesis
    by (auto simp: demo_timeline_view_def dest!: subsetD[OF offers_QueryResult] split: if_splits)
qed

lemma cursor_demo_timeline_update:
  assumes "cursor_on_axis (dl_replay s)" and "e \<in> offers (demo_timeline_view hz ft s)"
  shows "cursor_on_axis (dl_replay (demo_timeline_update hz e s))"
proof (cases e)
  case (Timeline_Control c)
  then have "c \<in> offers (ReplayController ft (dl_replay s) (ds_replayError (dl_source s)) (dl_jumpValue s))"
    using assms(2) offers_demo_timeline[of hz ft s] by auto
  from cursor_control[OF assms(1) refl this, of hz] Timeline_Control show ?thesis
    by (simp add: demo_timeline_update_def case_prod_beta)
next
  case (Open_Card i)
  with assms(1) show ?thesis using cursor_keeps[of "dl_replay s" "ScrubToIndex i" hz]
    by (simp add: demo_timeline_update_def replay_step_def)
qed (use assms(1) in \<open>simp add: demo_timeline_update_def cursor_start\<close>)

lemma cursor_demo_timeline_env:
  "cursor_on_axis (dl_replay s) \<Longrightarrow> cursor_on_axis (dl_replay (demo_timeline_env hz x s))"
  by (cases x) (simp_all add: demo_timeline_env_def cursor_dual_env)

definition demo_timeline_step ::
  "host_zone \<Rightarrow> (string \<Rightarrow> string) \<Rightarrow> demo_timeline \<Rightarrow> demo_timeline_input input \<Rightarrow> demo_timeline" where
  "demo_timeline_step hz ft = app_step (demo_timeline_view hz ft) (demo_timeline_update hz) (demo_timeline_env hz)"

definition demo_timeline_before :: "dual_source \<Rightarrow> demo_timeline \<Rightarrow> bool" where
  "demo_timeline_before d s = (cursor_on_axis (dual_replay d) \<longrightarrow> cursor_on_axis (dl_replay s))"

interpretation demo_timeline_ui: ui_app "demo_timeline_open d q cache" "demo_timeline_view hz ft" "demo_timeline_update hz"
  "demo_timeline_env hz" "demo_timeline_before d" for hz ft d q cache
  by unfold_locales
    (auto simp: demo_timeline_before_def demo_timeline_open_def intro: cursor_demo_timeline_update cursor_demo_timeline_env)

definition pair_rank :: "string \<times> RiskAssessment \<Rightarrow> int" where
  "pair_rank w = tierRank (ra_tier (snd w))"

lemma worse_row_simps:
  "worse_row v (z, None) = v" "worse_row None (z, Some c) = Some (z, c)"
  "worse_row (Some w) (z, Some c) = Some (if pair_rank w < pair_rank (z, c) then (z, c) else w)"
  by (auto simp: worse_row_def pair_rank_def split: prod.split)

lemma worse_row_fold:
  "foldl worse_row (Some w) (map (\<lambda>z. (z, f z)) zs) =
     Some (foldl (\<lambda>w x. if pair_rank w < pair_rank x then x else w) w (List.map_filter (\<lambda>z. map_option (Pair z) (f z)) zs))"
  by (induction zs arbitrary: w) (auto simp: worse_row_simps map_filter_simps split: option.split)

lemma worse_row_reduce:
  "foldl worse_row None (map (\<lambda>z. (z, f z)) zs) =
     reduce1 (\<lambda>w x. if pair_rank w < pair_rank x then x else w) (List.map_filter (\<lambda>z. map_option (Pair z) (f z)) zs)"
  by (induction zs) (auto simp: worse_row_simps worse_row_fold map_filter_simps split: option.split)

interpretation worst_pair: keep_first_max pair_rank "\<lambda>w x. if pair_rank w < pair_rank x then x else w"
  by unfold_locales simp

lemma worst_at_cursor:
  "currentTimestamp r = Some t \<Longrightarrow>
     worst_at hz r t = reduce1 (\<lambda>w x. if pair_rank w < pair_rank x then x else w) (replay_entries hz r)"
  unfolding worst_at_def worse_row_reduce by (simp add: replay_entries_def assessmentAt_def)

subsection \<open>Properties\<close>

text \<open>
  The random scenario is one of the catalogue: whatever \<open>Math.random\<close> answers and although the product is rounded, the index is
  inside the array.
\<close>

theorem random_index_within:
  "(if is_random r \<and> 0 < n \<and> n < 2 ^ 53 then random_index r n < n else True)"
proof -
  have "random_index r n < n" if "is_random r" "0 < n" "n < 2 ^ 53"
  proof -
    have "nmul r (of_nat n) < of_nat n" by (rule product_below[OF that])
    then have "\<lfloor>nmul r (of_nat n)\<rfloor> < int n" by linarith
    then show ?thesis using that(2) by (simp add: random_index_def)
  qed
  then show ?thesis by simp
qed

text \<open>The state after a click on Start.\<close>

lemma challenge_started:
  fixes hz rnd
  assumes "q_data (ch_scenarios s) = Some xs" "xs \<noteq> []"
  defines "t \<equiv> drawn_target rnd s xs"
  defines "s1 \<equiv> challenge_update hz rnd Start_Challenge s"
  shows "ch_replay s1 = startReplay t (ch_cache s t) (ch_replay s)"
    and "ch_awaitingAutoPlay s1 = (allTimestamps (ch_replay s1) = [])" and "ch_autoPlayed s1 = (allTimestamps (ch_replay s1) \<noteq> [])"
proof -
  define s0 where "s0 = s\<lparr>ch_drawn := ch_drawn s + 1, ch_autoPlayed := False, ch_awaitingAutoPlay := True, ch_focusedZoneId := None\<rparr>"
  have s1: "s1 = challenge_settle (commit_challenge t (ch_cache s t) s0)"
    using assms(1,2) by (simp add: s1_def challenge_update_def challenge_handle_def startChallenge_def t_def s0_def drawn_target_def Let_def)
  then show r: "ch_replay s1 = startReplay t (ch_cache s t) (ch_replay s)" by (simp add: s0_def)
  show "ch_awaitingAutoPlay s1 = (allTimestamps (ch_replay s1) = [])" "ch_autoPlayed s1 = (allTimestamps (ch_replay s1) \<noteq> [])"
    using commit_flags[of s0 t "ch_cache s t"] unfolding r by (simp_all add: s1 s0_def)
qed

lemma challenge_not_started:
  "q_data (ch_scenarios s) = None \<or> q_data (ch_scenarios s) = Some [] \<Longrightarrow> challenge_update hz rnd Start_Challenge s = challenge_settle s"
  by (auto simp: challenge_update_def challenge_handle_def startChallenge_def)

lemma challenge_ticks:
  assumes "\<not> ch_awaitingAutoPlay s"
  shows "ch_replay ((challenge_env hz (Challenge_Source Playback) ^^ k) s) = (playback_tick ^^ k) (ch_replay s)"
proof -
  have "ch_replay ((challenge_env hz (Challenge_Source Playback) ^^ k) s) = (playback_tick ^^ k) (ch_replay s) \<and>
      \<not> ch_awaitingAutoPlay ((challenge_env hz (Challenge_Source Playback) ^^ k) s)"
    using assms by (induction k) (simp_all add: challenge_env_def dual_env_def Let_def challenge_effect_def)
  then show ?thesis by simp
qed

lemma playback_from_start:
  assumes "rs_playing r" "rs_currentIndex r = 0" "0 < length (allTimestamps r)"
  defines "n \<equiv> length (allTimestamps r)"
  shows "(playback_tick ^^ (n - 1)) r = r\<lparr>rs_currentIndex := int n - 1\<rparr>"
    and "(playback_tick ^^ n) r = r\<lparr>rs_currentIndex := int n - 1, rs_playing := False\<rparr>"
proof -
  have "(playback_tick ^^ (n - 1)) r = r\<lparr>rs_currentIndex := rs_currentIndex r + int (n - 1)\<rparr>"
    by (rule playback_advance) (use assms in simp_all)
  then show last: "(playback_tick ^^ (n - 1)) r = r\<lparr>rs_currentIndex := int n - 1\<rparr>" using assms by (simp add: of_nat_diff)
  have "(playback_tick ^^ n) r = playback_tick ((playback_tick ^^ (n - 1)) r)"
    using assms(3) by (metis Suc_pred' funpow.simps(2) comp_apply n_def)
  also have "\<dots> = r\<lparr>rs_currentIndex := int n - 1, rs_playing := False\<rparr>"
    using assms(1,3) unfolding last by (simp add: playback_tick_def n_def allTimestamps_def)
  finally show "(playback_tick ^^ n) r = r\<lparr>rs_currentIndex := int n - 1, rs_playing := False\<rparr>" .
qed

lemma payload_plays:
  assumes "ch_awaitingAutoPlay s" "\<not> ch_autoPlayed s" "allTimestamps (ch_replay (challenge_env hz (Challenge_Source (Payload d)) s)) \<noteq> []"
    and "rs_target (ch_replay s) \<noteq> None"
  shows "ch_replay (challenge_env hz (Challenge_Source (Payload d)) s) = play (query_resolved d (ch_replay s))"
    and "\<not> ch_awaitingAutoPlay (challenge_env hz (Challenge_Source (Payload d)) s)"
proof -
  let ?q = "query_resolved d (ch_replay s)"
  have r: "ch_replay (challenge_env hz (Challenge_Source (Payload d)) s) = (if allTimestamps ?q \<noteq> [] then play ?q else ?q)"
    using assms(1,2) by (simp add: challenge_env_def dual_env_def Let_def challenge_effect_replay)
  with assms(3) have ne: "allTimestamps ?q \<noteq> []" by (auto simp: play_def allTimestamps_def split: if_splits)
  show "ch_replay (challenge_env hz (Challenge_Source (Payload d)) s) = play ?q" using r ne by simp
  show "\<not> ch_awaitingAutoPlay (challenge_env hz (Challenge_Source (Payload d)) s)"
    using assms(1,2) ne by (simp add: challenge_env_def dual_env_def Let_def challenge_effect_def)
qed

text \<open>
  (C12) A challenge plays itself. From whatever state, with a catalogue: when the payload of the chosen scenario is not cached, the replay
  starts playing at its first tick as soon as the payload arrives, reaches the last tick after as many firings of the
  playback timer as there are further ticks, and the next firing stops it there.
\<close>

theorem challenge_plays_itself:
  "(let s1 = challenge_update hz rnd Start_Challenge s;
        s2 = challenge_env hz (Challenge_Source (Payload d)) s1;
        n = length (allTimestamps (ch_replay s2)); tick = challenge_env hz (Challenge_Source Playback)
    in case q_data (ch_scenarios s) of
         None \<Rightarrow> s1 = challenge_settle s
       | Some [] \<Rightarrow> s1 = challenge_settle s
       | Some xs \<Rightarrow>
           if ch_cache s (picked_target (ss_key (xs ! random_index (rnd (ch_drawn s)) (length xs)))) = None \<and> 0 < n
           then ch_replay s2 = (ch_replay s1)\<lparr>rs_data := Some d, rs_currentIndex := 0, rs_playing := True\<rparr> \<and>
                ch_replay ((tick ^^ (n - 1)) s2) = (ch_replay s2)\<lparr>rs_currentIndex := int n - 1\<rparr> \<and>
                ch_replay ((tick ^^ n) s2) = (ch_replay s2)\<lparr>rs_currentIndex := int n - 1, rs_playing := False\<rparr>
           else True)"
proof -
  define s1 where "s1 = challenge_update hz rnd Start_Challenge s"
  define s2 where "s2 = challenge_env hz (Challenge_Source (Payload d)) s1"
  define n where "n = length (allTimestamps (ch_replay s2))"
  define tick where "tick = challenge_env hz (Challenge_Source Playback)"
  have main: "ch_replay s2 = (ch_replay s1)\<lparr>rs_data := Some d, rs_currentIndex := 0, rs_playing := True\<rparr> \<and>
      ch_replay ((tick ^^ (n - 1)) s2) = (ch_replay s2)\<lparr>rs_currentIndex := int n - 1\<rparr> \<and>
      ch_replay ((tick ^^ n) s2) = (ch_replay s2)\<lparr>rs_currentIndex := int n - 1, rs_playing := False\<rparr>"
    if xs: "q_data (ch_scenarios s) = Some xs" "xs \<noteq> []" and cache: "ch_cache s (drawn_target rnd s xs) = None" and n: "0 < n" for xs
  proof -
    note started = challenge_started[OF xs, of hz rnd, folded s1_def, unfolded cache]
    have none: "allTimestamps (ch_replay s1) = []" by (simp add: started(1) allTimestamps_def startReplay_def reset_for_target_def)
    have "rs_target (ch_replay s1) \<noteq> None" by (simp add: started(1) startReplay_def reset_for_target_def)
    note plays = payload_plays[of s1 hz d, folded s2_def, OF _ _ _ this]
    have r2: "ch_replay s2 = play (query_resolved d (ch_replay s1))" and aw: "\<not> ch_awaitingAutoPlay s2"
      using plays started(2,3) none n by (simp_all add: n_def)
    have s2: "ch_replay s2 = (ch_replay s1)\<lparr>rs_data := Some d, rs_currentIndex := 0, rs_playing := True\<rparr>"
      by (simp add: r2 play_def query_resolved_def started(1) startReplay_def reset_for_target_def)
    show ?thesis
      using playback_from_start[of "ch_replay s2"] n s2 by (simp add: tick_def challenge_ticks[OF aw] n_def)
  qed
  show ?thesis unfolding Let_def s1_def[symmetric] s2_def[symmetric] tick_def[symmetric] n_def[symmetric]
    using challenge_not_started[of s hz rnd, folded s1_def] main by (auto simp: drawn_target_def split: option.split list.split)
qed

text \<open>
  (C32) A challenge whose payload is already in the query cache (the scenario was replayed before, or the same scenario is drawn again)
  never starts to play: its effect starts the playback before the provider's effect stops it for the new target, and it
  does not try again, so the replay stays on its first tick.
\<close>

theorem cached_challenge_stands_still:
  "(let s1 = challenge_update hz rnd Start_Challenge s; tick = challenge_env hz (Challenge_Source Playback)
    in case q_data (ch_scenarios s) of
         None \<Rightarrow> True
       | Some [] \<Rightarrow> True
       | Some (x # xs) \<Rightarrow>
           (case ch_cache s (picked_target (ss_key ((x # xs) ! random_index (rnd (ch_drawn s)) (length (x # xs))))) of
              None \<Rightarrow> True
            | Some d \<Rightarrow>
                rs_data (ch_replay s1) = Some d \<and> rs_currentIndex (ch_replay s1) = 0 \<and> \<not> rs_playing (ch_replay s1) \<and>
                (if allTimestamps (ch_replay s1) = [] then True
                 else \<not> ch_awaitingAutoPlay s1 \<and> ch_replay ((tick ^^ n) s1) = ch_replay s1)))"
proof -
  define s1 where "s1 = challenge_update hz rnd Start_Challenge s"
  define tick where "tick = challenge_env hz (Challenge_Source Playback)"
  have main: "rs_data (ch_replay s1) = Some d \<and> rs_currentIndex (ch_replay s1) = 0 \<and> \<not> rs_playing (ch_replay s1) \<and>
      (if allTimestamps (ch_replay s1) = [] then True else \<not> ch_awaitingAutoPlay s1 \<and> ch_replay ((tick ^^ n) s1) = ch_replay s1)"
    if xs: "q_data (ch_scenarios s) = Some xs" "xs \<noteq> []" and cache: "ch_cache s (drawn_target rnd s xs) = Some d" for xs d
  proof -
    note started = challenge_started[OF xs, of hz rnd, folded s1_def, unfolded cache]
    have r: "rs_data (ch_replay s1) = Some d" "rs_currentIndex (ch_replay s1) = 0" "\<not> rs_playing (ch_replay s1)"
      by (simp_all add: started(1) startReplay_def reset_for_target_def)
    have "(playback_tick ^^ k) (ch_replay s1) = ch_replay s1" for k using r(3) by (induction k) (simp_all add: playback_tick_def)
    with r started(2) show ?thesis by (simp add: tick_def challenge_ticks)
  qed
  show ?thesis unfolding Let_def s1_def[symmetric] tick_def[symmetric] drawn_target_def[symmetric]
    by (cases "q_data (ch_scenarios s)"; simp; cases "the (q_data (ch_scenarios s))"; simp split: option.split add: main)
qed

lemma nth_tick_cards:
  "i < length (allTimestamps r) \<Longrightarrow>
     tk_index (tick_cards hz r zones ! i) = i \<and> tk_timestamp (tick_cards hz r zones ! i) = allTimestamps r ! i \<and>
     tk_zoneId (tick_cards hz r zones ! i) = map_option fst (worst_at hz r (allTimestamps r ! i)) \<and>
     tk_tier (tick_cards hz r zones ! i) = map_option (ra_tier \<circ> snd) (worst_at hz r (allTimestamps r ! i)) \<and>
     tk_score (tick_cards hz r zones ! i) = map_option (ra_compound_risk_score \<circ> snd) (worst_at hz r (allTimestamps r ! i))"
  by (simp add: tick_cards_def nth_enumerate_eq Let_def o_def)

lemma length_tick_cards [simp]: "length (tick_cards hz r zones) = length (allTimestamps r)"
  by (simp add: tick_cards_def)

lemma demo_map_rows:
  "(\<lambda>m. (pz_zoneId m, pz_tier m, pz_compoundRiskScore m)) ` set (demo_map hz s) =
     (\<lambda>(z, a). (z, ra_tier a, ra_compound_risk_score a)) ` set (replay_entries hz (dl_replay s))"
proof -
  have "map (\<lambda>m. (pz_zoneId m, pz_tier m, pz_compoundRiskScore m))
      (List.map_filter (\<lambda>(index, z). map_option (\<lambda>a. entry_zone d (f index) None (z, a)) (g z)) (enumerate n zs)) =
    map (\<lambda>(z, a). (z, ra_tier a, ra_compound_risk_score a)) (List.map_filter (\<lambda>z. map_option (Pair z) (g z)) zs)" for d f n zs g
    by (induction zs arbitrary: n) (auto simp: map_filter_simps entry_zone_def Let_def split: option.split)
  from arg_cong[where f = set, OF this] show ?thesis
    unfolding demo_map_def replay_entries_def Let_def set_map .
qed

lemma card_on_map:
  assumes cur: "currentTimestamp (dl_replay s) = Some ts"
    and c: "tk_zoneId c = map_option fst (worst_at hz (dl_replay s) ts)"
      "tk_tier c = map_option (ra_tier \<circ> snd) (worst_at hz (dl_replay s) ts)"
      "tk_score c = map_option (ra_compound_risk_score \<circ> snd) (worst_at hz (dl_replay s) ts)"
  shows "(case tk_zoneId c of None \<Rightarrow> demo_map hz s = []
     | Some z \<Rightarrow> (\<exists>m\<in>set (demo_map hz s). pz_zoneId m = z \<and> tk_tier c = Some (pz_tier m) \<and> tk_score c = Some (pz_compoundRiskScore m)) \<and>
         list_all (\<lambda>m. tierRank (pz_tier m) \<le> tierRank (the (tk_tier c))) (demo_map hz s))"
proof (cases "worst_at hz (dl_replay s) ts")
  case None
  then have "replay_entries hz (dl_replay s) = []"
    using worst_at_cursor[OF cur, of hz] by (simp only: reduce1_eq_None_iff)
  then have "demo_map hz s = []" using demo_map_rows[of hz s] by simp
  then show ?thesis using c None by simp
next
  case (Some w)
  then have red: "reduce1 (\<lambda>w x. if pair_rank w < pair_rank x then x else w) (replay_entries hz (dl_replay s)) = Some w"
    using worst_at_cursor[OF cur, of hz] by simp
  from worst_pair.reduce1_max[OF red] have w: "w \<in> set (replay_entries hz (dl_replay s))"
    and ge: "\<forall>x\<in>set (replay_entries hz (dl_replay s)). pair_rank x \<le> pair_rank w" by simp_all
  have fields: "tk_zoneId c = Some (fst w)" "tk_tier c = Some (ra_tier (snd w))" "tk_score c = Some (ra_compound_risk_score (snd w))"
    using c Some by simp_all
  have "(fst w, ra_tier (snd w), ra_compound_risk_score (snd w)) \<in> (\<lambda>m. (pz_zoneId m, pz_tier m, pz_compoundRiskScore m)) ` set (demo_map hz s)"
    unfolding demo_map_rows using w by (force simp: image_iff split: prod.splits)
  moreover have "tierRank (pz_tier m) \<le> tierRank (ra_tier (snd w))" if "m \<in> set (demo_map hz s)" for m
  proof -
    have "(pz_zoneId m, pz_tier m, pz_compoundRiskScore m) \<in> (\<lambda>(z, a). (z, ra_tier a, ra_compound_risk_score a)) ` set (replay_entries hz (dl_replay s))"
      using that unfolding demo_map_rows[symmetric] by blast
    with ge show ?thesis by (fastforce simp: pair_rank_def)
  qed
  ultimately show ?thesis by (fastforce simp: fields list_all_iff)
qed

lemma card_offered:
  assumes "demo_timeline_shown s" and "c \<in> set (tick_cards hz (dl_replay s) (du_zones (ds_dual (dl_source s))))"
  shows "Open_Card (int (tk_index c)) \<in> offers (demo_timeline_view hz ft s)"
proof -
  have "Open_Card (int (tk_index c)) \<in> offers (map (card_button ft (rs_currentIndex (dl_replay s)))
      (tick_cards hz (dl_replay s) (du_zones (ds_dual (dl_source s)))))"
    using assms(2) by (auto simp: offers_map card_button_def Let_def)
  then have "Open_Card (int (tk_index c)) \<in> offers (demo_timeline_content hz ft s)" by (simp add: demo_timeline_content_def)
  then show ?thesis using assms(1)
    by (auto simp: demo_timeline_view_def demo_timeline_shown_def QueryResult_def replay_isLoading_def allTimestamps_def split: option.splits)
qed

text \<open>
  (C13) Every card of the demo timeline leads to its tick and keeps its word there: clicking it, which the page offers, puts the cursor on the
  card's timestamp and makes it the current card; the zone it names is then on the map with the tier and the score the
  card shows, and no zone on that map has a higher tier. A card without a zone means an empty map.
\<close>

theorem timeline_card_correct:
  "(let cards = tick_cards hz (dl_replay s) (du_zones (ds_dual (dl_source s)))
    in map tk_timestamp cards = allTimestamps (dl_replay s) \<and>
       list_all (\<lambda>c. let e = Open_Card (int (tk_index c)); s' = demo_timeline_update hz e s in
         (if demo_timeline_shown s then e \<in> offers (demo_timeline_view hz ft s) else True) \<and>
         current_card hz s' = Some c \<and> currentTimestamp (dl_replay s') = Some (tk_timestamp c) \<and>
         (case tk_zoneId c of
            None \<Rightarrow> demo_map hz s' = []
          | Some z \<Rightarrow>
              (\<exists>m\<in>set (demo_map hz s'). pz_zoneId m = z \<and> tk_tier c = Some (pz_tier m) \<and> tk_score c = Some (pz_compoundRiskScore m)) \<and>
              list_all (\<lambda>m. tierRank (pz_tier m) \<le> tierRank (the (tk_tier c))) (demo_map hz s'))) cards)"
proof -
  define r where "r = dl_replay s"
  define cards where "cards = tick_cards hz r (du_zones (ds_dual (dl_source s)))"
  have ts: "map tk_timestamp cards = allTimestamps r"
    by (rule nth_equalityI) (simp_all add: cards_def nth_tick_cards)
  have card: "(if demo_timeline_shown s then e \<in> offers (demo_timeline_view hz ft s) else True) \<and>
      current_card hz s' = Some c \<and> currentTimestamp (dl_replay s') = Some (tk_timestamp c) \<and>
      (case tk_zoneId c of None \<Rightarrow> demo_map hz s' = []
       | Some z \<Rightarrow> (\<exists>m\<in>set (demo_map hz s'). pz_zoneId m = z \<and> tk_tier c = Some (pz_tier m) \<and> tk_score c = Some (pz_compoundRiskScore m)) \<and>
           list_all (\<lambda>m. tierRank (pz_tier m) \<le> tierRank (the (tk_tier c))) (demo_map hz s'))"
    if i: "i < length (allTimestamps r)" and c: "c = cards ! i" and e: "e = Open_Card (int (tk_index c))"
      and s': "s' = demo_timeline_update hz e s" for i c e s'
  proof -
    have idx: "tk_index c = i" and t: "tk_timestamp c = allTimestamps r ! i" using nth_tick_cards[OF i] by (simp_all add: c cards_def)
    have r': "dl_replay s' = r\<lparr>rs_playing := False, rs_currentIndex := int i\<rparr>"
      using i by (simp add: s' e idx demo_timeline_update_def scrubToIndex_def r_def)
    have axis: "allTimestamps (dl_replay s') = allTimestamps r" by (simp add: r' allTimestamps_def)
    have cur: "currentTimestamp (dl_replay s') = Some (allTimestamps r ! i)" using i by (simp add: currentTimestamp_def axis) (simp add: r')
    have same: "worst_at hz (dl_replay s') x = worst_at hz r x" for x
      by (simp add: r' worst_at_def zoneTimeline_def replay_zoneIds_def)
    have tick: "tick_cards hz (dl_replay s') zs = tick_cards hz r zs" for zs by (simp add: tick_cards_def axis same)
    have zones: "du_zones (ds_dual (dl_source s')) = du_zones (ds_dual (dl_source s))"
      by (simp add: s' e demo_timeline_update_def with_replay_def)
    have "current_card hz s' = Some c" using i by (simp add: current_card_def tick zones Let_def axis) (simp add: r' c cards_def)
    moreover have "e \<in> offers (demo_timeline_view hz ft s)" if "demo_timeline_shown s"
      using card_offered[OF that, of c] i by (simp add: c e cards_def r_def)
    moreover have "(case tk_zoneId c of None \<Rightarrow> demo_map hz s' = []
       | Some z \<Rightarrow> (\<exists>m\<in>set (demo_map hz s'). pz_zoneId m = z \<and> tk_tier c = Some (pz_tier m) \<and> tk_score c = Some (pz_compoundRiskScore m)) \<and>
           list_all (\<lambda>m. tierRank (pz_tier m) \<le> tierRank (the (tk_tier c))) (demo_map hz s'))"
      by (rule card_on_map[OF cur]) (use nth_tick_cards[OF i] in \<open>simp_all add: c cards_def same\<close>)
    ultimately show ?thesis using cur t by simp
  qed
  have "length cards = length (allTimestamps r)" by (simp add: cards_def)
  with ts card show ?thesis unfolding Let_def r_def[symmetric] cards_def[symmetric] by (simp add: list_all_length)
qed

end
