(* ===== verification/Timeline_Page.thy ===== *)
theory Timeline_Page
  imports Plant_Panels Time_Machine
begin

section \<open>The decision timeline\<close>

text \<open>
  \<open>pages/DecisionTimelinePage.tsx\<close>: every row of every zone of a replay as one list of buttons that move the shared cursor. The list
  is sorted with a comparator that never answers 0, and rows of different zones share their tick, so the order among
  them is the engine's: the sort is an argument.

  The properties: with any sort that permutes, every row of the replay's zones is one button and each leads to the first
  tick of its instant; where the ticks are readable and denote different instants that is its own tick, the node is current there, and
  what is past is marked correctly; every state of the page keeps the cursor on the axis.
\<close>

record decision_timeline =
  dn_source :: dual_source
  dn_scenarios :: "ScenarioSummary list query"
  dn_cache :: "ReplayTarget \<Rightarrow> ReplayData option"

datatype decision_timeline_event = Pick_Scenario string | Select_Node string

abbreviation dn_replay :: "decision_timeline \<Rightarrow> replay_state" where
  "dn_replay s \<equiv> dual_replay (dn_source s)"

definition decision_rows :: "replay_state \<Rightarrow> (string \<times> RiskAssessment) list" where
  "decision_rows r = concat (map (\<lambda>z. map (Pair z) (zoneTimeline r z)) (replay_zoneIds r))"

definition decision_nodes :: "(string \<times> RiskAssessment) engine_sort \<Rightarrow> replay_state \<Rightarrow> (string \<times> RiskAssessment) list" where
  "decision_nodes srt r = srt (earlier_first (\<lambda>n. ra_timestamp (snd n))) (decision_rows r)"

definition triggeredAgents :: "RiskJustification option \<Rightarrow> string list" where
  "triggeredAgents justification =
     (case justification of
        Some j \<Rightarrow> map (\<lambda>(agentName, c). agentDisplayName agentName) (filter (\<lambda>(agentName, c). ac_risk c > 0) (rj_agentContributions j))
      | None \<Rightarrow> [])"

definition node_isCurrent :: "replay_state \<Rightarrow> RiskAssessment \<Rightarrow> bool" where
  "node_isCurrent r a = (Some (ra_timestamp a) = currentTimestamp r)"

definition node_isPast :: "replay_state \<Rightarrow> RiskAssessment \<Rightarrow> bool" where
  "node_isPast r a = (case currentTimestamp r of Some t \<Rightarrow> ra_timestamp a \<le> t | None \<Rightarrow> False)"

definition decision_node ::
  "(string \<Rightarrow> string) \<Rightarrow> replay_state \<Rightarrow> Zone list option \<Rightarrow> nat \<times> string \<times> RiskAssessment \<Rightarrow> decision_timeline_event node" where
  "decision_node ft r zones node =
     (let (index, zoneId, a) = node; justification = parseJustification (ra_justification a);
          recommendations = deriveRecommendations (ra_tier a) justification; agents = triggeredAgents justification
      in el ''li''
           [Button
              [(''class'', ''decision-timeline-node'' @ (if node_isCurrent r a then '' decision-timeline-node-current'' else [])
                  @ (if node_isPast r a then '' decision-timeline-node-past'' else [])),
               (''animation-delay'', show_nat (min index 40 * 20) @ ''ms'')]
              True (Select_Node (ra_timestamp a))
              ([el ''div''
                  [el ''span'' [Text (ft (ra_timestamp a))], el ''span'' [Text (zoneLabel zoneId zones)], TierBadge (ra_tier a),
                   el ''span'' [Text (toFixed (ra_compound_risk_score a) 1)],
                   el ''span'' [Text (''Confidence '' @ percent0 (ra_confidence a))]],
                p_text (if length agents > 0 then ''Triggered: '' @ js_join '', '' agents
                  else ''No agent flagged elevated risk this tick.'')]
               @ cond_some (head_option recommendations) (\<lambda>x. [p_text (rc_text x)]))])"

definition decision_timeline_view ::
  "(string \<Rightarrow> string) \<Rightarrow> (string \<times> RiskAssessment) engine_sort \<Rightarrow> decision_timeline \<Rightarrow> decision_timeline_event node list" where
  "decision_timeline_view ft srt s =
     (let r = dn_replay s; zones = du_zones (ds_dual (dn_source s)); nodes = decision_nodes srt r
      in [el ''section''
            (if rs_target r = None
             then [el ''h1'' [Text ''Decision Timeline''],
                   p_text (''Every decision the engine made, in order - pick a scenario from the library below to begin.'')]
                  @ map (map_node Pick_Scenario) (ScenarioPicker (dn_scenarios s))
             else
               [el ''h1'' [Text ''Decision Timeline''],
                p_text (''Every decision across every zone in this replay, chronologically. Select a node to move ''
                  @ ''the shared Time Machine cursor - Digital Twin, Mission Control, Executive Overview, ''
                  @ ''Decision Journal, Alternative Decision, and Operations Center all follow.''),
                if length nodes = 0 then p_text ''This replay has no persisted decisions yet.''
                else el ''ol'' (map (decision_node ft r zones) (enumerate 0 nodes))])])"

definition decision_timeline_update :: "host_zone \<Rightarrow> decision_timeline_event \<Rightarrow> decision_timeline \<Rightarrow> decision_timeline" where
  "decision_timeline_update hz e s =
     (case e of
        Pick_Scenario key \<Rightarrow>
          s\<lparr>dn_source := (with_replay (startReplay (picked_target key) (dn_cache s (picked_target key)) (dn_replay s))
              (dn_source s))\<lparr>ds_replayError := None\<rparr>\<rparr>
      | Select_Node t \<Rightarrow> s\<lparr>dn_source := with_replay (jumpToTimestamp hz t (dn_replay s)) (dn_source s)\<rparr>)"

datatype decision_timeline_input =
    Node_Source dual_input
  | Node_Catalogue "ScenarioSummary list query"
  | Node_Cache "ReplayTarget \<Rightarrow> ReplayData option"

definition decision_timeline_env :: "host_zone \<Rightarrow> decision_timeline_input \<Rightarrow> decision_timeline \<Rightarrow> decision_timeline" where
  "decision_timeline_env hz x s =
     (case x of
        Node_Source y \<Rightarrow> s\<lparr>dn_source := dual_env hz y (dn_source s)\<rparr>
      | Node_Catalogue q \<Rightarrow> s\<lparr>dn_scenarios := q\<rparr>
      | Node_Cache c \<Rightarrow> s\<lparr>dn_cache := c\<rparr>)"

definition decision_timeline_open ::
  "dual_source \<Rightarrow> ScenarioSummary list query \<Rightarrow> (ReplayTarget \<Rightarrow> ReplayData option) \<Rightarrow> decision_timeline" where
  "decision_timeline_open d q cache = \<lparr>dn_source = d, dn_scenarios = q, dn_cache = cache\<rparr>"

subsection \<open>The cursor\<close>

lemma decision_rows_on_axis:
  assumes "n \<in> set (decision_rows r)"
  shows "ra_timestamp (snd n) \<in> set (allTimestamps r)"
proof -
  obtain d z a t where "rs_data r = Some d" "t \<in> set (rd_zone_timelines d)" "a \<in> set (zt_assessments t)" "n = (z, a)"
    using assms by (cases "rs_data r")
      (auto simp: decision_rows_def zoneTimeline_def replay_zoneIds_def dest!: find_eq_Some_D[OF sym] split: option.splits)
  then show ?thesis by (auto simp: allTimestamps_def mergeTimestamps_def intro!: bexI[of _ t])
qed

lemma cursor_decision_update:
  "cursor_on_axis (dn_replay s) \<Longrightarrow> cursor_on_axis (dn_replay (decision_timeline_update hz e s))"
  using cursor_keeps[of "dn_replay s" "StartReplay _ _" hz] cursor_keeps[of "dn_replay s" "JumpToTimestamp _" hz]
  by (cases e) (simp_all add: decision_timeline_update_def replay_step_def)

lemma cursor_decision_env:
  "cursor_on_axis (dn_replay s) \<Longrightarrow> cursor_on_axis (dn_replay (decision_timeline_env hz x s))"
  by (cases x) (simp_all add: decision_timeline_env_def cursor_dual_env)

definition decision_timeline_step ::
  "host_zone \<Rightarrow> (string \<Rightarrow> string) \<Rightarrow> (string \<times> RiskAssessment) engine_sort \<Rightarrow> decision_timeline \<Rightarrow>
   decision_timeline_input input \<Rightarrow> decision_timeline" where
  "decision_timeline_step hz ft srt = app_step (decision_timeline_view ft srt) (decision_timeline_update hz) (decision_timeline_env hz)"

definition decision_timeline_before :: "dual_source \<Rightarrow> decision_timeline \<Rightarrow> bool" where
  "decision_timeline_before d s = (cursor_on_axis (dual_replay d) \<longrightarrow> cursor_on_axis (dn_replay s))"

interpretation decision_timeline_ui: ui_app "decision_timeline_open d q cache" "decision_timeline_view ft srt"
  "decision_timeline_update hz" "decision_timeline_env hz" "decision_timeline_before d" for hz ft srt d q cache
  by unfold_locales
    (auto simp: decision_timeline_before_def decision_timeline_open_def intro: cursor_decision_update cursor_decision_env)

subsection \<open>Properties\<close>

lemma offers_nodes: "offers (map (decision_node ft r zones) (enumerate n ns)) = (\<lambda>x. Select_Node (ra_timestamp (snd x))) ` set ns"
proof -
  have "offered (decision_node ft r zones (i, x)) = {Select_Node (ra_timestamp (snd x))}" for i x
    by (simp add: decision_node_def Let_def case_prod_beta)
  then have "offers (map (decision_node ft r zones) (enumerate n ns)) = (\<lambda>x. Select_Node (ra_timestamp (snd (snd x)))) ` set (enumerate n ns)"
    unfolding offers_map by force
  also have "\<dots> = (\<lambda>x. Select_Node (ra_timestamp (snd x))) ` snd ` set (enumerate n ns)" by (simp add: image_image)
  also have "snd ` set (enumerate n ns) = set ns" by (metis list.set_map map_snd_enumerate)
  finally show ?thesis .
qed

lemma node_jump:
  assumes "t \<in> set (allTimestamps (dn_replay s))" and "r' = dn_replay (decision_timeline_update hz (Select_Node t) s)"
  shows "currentTimestamp r' = same_instant_tick hz (allTimestamps (dn_replay s)) t \<and> \<not> rs_playing r' \<and>
    decision_rows r' = decision_rows (dn_replay s)"
  using assms by (simp add: decision_timeline_update_def jump_to_tick)
    (simp add: jumpToTimestamp_def decision_rows_def zoneTimeline_def replay_zoneIds_def)

text \<open>
  (C31) The timeline is complete and its nodes lead to their ticks: whichever order the engine gives to simultaneous rows, the nodes are
  exactly the rows of the replay's zones, their buttons are what the page offers once a replay is chosen, and clicking one stops
  the playback and moves the cursor to the first tick of the instant of its row. When the ticks of the replay are
  readable and denote different instants that tick is the row's own, the node is then the current one, and the nodes shown as past are
  exactly the rows up to it.
\<close>

theorem decision_node_leads_to_tick:
  assumes "sorts_strict srt (earlier_first (\<lambda>n. ra_timestamp (snd n)))"
  shows "mset (decision_nodes srt (dn_replay s)) = mset (decision_rows (dn_replay s)) \<and>
    (if rs_target (dn_replay s) = None then True
     else offers (decision_timeline_view ft srt s) = (\<lambda>n. Select_Node (ra_timestamp (snd n))) ` set (decision_rows (dn_replay s))) \<and>
    list_all (\<lambda>n.
      let t = ra_timestamp (snd n); r' = dn_replay (decision_timeline_update hz (Select_Node t) s); axis = allTimestamps (dn_replay s)
      in currentTimestamp r' = same_instant_tick hz axis t \<and> \<not> rs_playing r' \<and> decision_rows r' = decision_rows (dn_replay s) \<and>
         (if clear_axis hz axis
          then currentTimestamp r' = Some t \<and> node_isCurrent r' (snd n) \<and> (\<forall>a. node_isPast r' a = (ra_timestamp a \<le> t))
          else True)) (decision_rows (dn_replay s))"
proof (intro conjI)
  show perm: "mset (decision_nodes srt (dn_replay s)) = mset (decision_rows (dn_replay s))"
    using assms by (simp add: decision_nodes_def sorts_strict_def)
  then have nodes: "set (decision_nodes srt (dn_replay s)) = set (decision_rows (dn_replay s))" by (metis set_mset_mset)
  show "if rs_target (dn_replay s) = None then True
     else offers (decision_timeline_view ft srt s) = (\<lambda>n. Select_Node (ra_timestamp (snd n))) ` set (decision_rows (dn_replay s))"
    using nodes by (auto simp: decision_timeline_view_def Let_def offers_nodes)
  have "let t = ra_timestamp (snd n); r' = dn_replay (decision_timeline_update hz (Select_Node t) s); axis = allTimestamps (dn_replay s)
      in currentTimestamp r' = same_instant_tick hz axis t \<and> \<not> rs_playing r' \<and> decision_rows r' = decision_rows (dn_replay s) \<and>
         (if clear_axis hz axis
          then currentTimestamp r' = Some t \<and> node_isCurrent r' (snd n) \<and> (\<forall>a. node_isPast r' a = (ra_timestamp a \<le> t))
          else True)" if n: "n \<in> set (decision_rows (dn_replay s))" for n
    unfolding Let_def using node_jump[OF decision_rows_on_axis[OF n] refl] clear_axis_tick[OF _ decision_rows_on_axis[OF n]]
    by (auto simp: node_isCurrent_def node_isPast_def)
  then show "list_all (\<lambda>n.
      let t = ra_timestamp (snd n); r' = dn_replay (decision_timeline_update hz (Select_Node t) s); axis = allTimestamps (dn_replay s)
      in currentTimestamp r' = same_instant_tick hz axis t \<and> \<not> rs_playing r' \<and> decision_rows r' = decision_rows (dn_replay s) \<and>
         (if clear_axis hz axis
          then currentTimestamp r' = Some t \<and> node_isCurrent r' (snd n) \<and> (\<forall>a. node_isPast r' a = (ra_timestamp a \<le> t))
          else True)) (decision_rows (dn_replay s))"
    unfolding list_all_iff by blast
qed

definition sample_decision_timeline :: decision_timeline where
  "sample_decision_timeline = decision_timeline_open
     \<lparr>ds_dual = sample_dual\<lparr>du_replay :=
        replay_start\<lparr>rs_target := Some (picked_target ''gas-leak''), rs_data := Some sample_replay, rs_playing := True\<rparr>\<rparr>,
      ds_replayError = None, ds_liveLoading = False, ds_liveError = None,
      ds_inspect = (\<lambda>_. \<lparr>in_zones = None, in_sensors = (None, True), in_equipment = (None, True), in_workers = (None, True),
        in_permits = (None, True)\<rparr>)\<rparr> \<lparr>q_data = None, q_isLoading = True, q_error = None\<rparr> (\<lambda>_. None)"

lemma sample_decision_replay:
  "dn_replay sample_decision_timeline =
     replay_start\<lparr>rs_target := Some (picked_target ''gas-leak''), rs_data := Some sample_replay, rs_playing := True\<rparr>"
  by (simp add: sample_decision_timeline_def decision_timeline_open_def dual_replay_def)

lemma sample_decision_rows:
  "decision_rows (dn_replay sample_decision_timeline) =
     [(''zone-a'', Kpis.sample_assessment ''2026-01-01T00:00:00Z'' 10 ''normal''),
      (''zone-a'', Kpis.sample_assessment ''2026-01-01T00:01:00Z'' 90 ''critical'')]"
  unfolding sample_decision_replay
  by (simp add: decision_rows_def replay_zoneIds_def zoneTimeline_def sample_replay_def)

lemma sample_decision_clear: "clear_axis utc_zone (allTimestamps (dn_replay sample_decision_timeline))"
proof -
  have "allTimestamps (dn_replay sample_decision_timeline) = allTimestamps (replay_start\<lparr>rs_data := Some sample_replay\<rparr>)"
    unfolding sample_decision_replay by (simp add: allTimestamps_def)
  also have "\<dots> = [''2026-01-01T00:00:00Z'', ''2026-01-01T00:01:00Z'']" by code_simp
  finally have axis: "allTimestamps (dn_replay sample_decision_timeline) = [''2026-01-01T00:00:00Z'', ''2026-01-01T00:01:00Z'']" .
  have "Date_getTime utc_zone ''2026-01-01T00:00:00Z'' = Some 1767225600000"
    "Date_getTime utc_zone ''2026-01-01T00:01:00Z'' = Some 1767225660000" by code_simp+
  then show ?thesis unfolding clear_axis_def axis by simp
qed

theorem decision_node_leads_to_tick_witness:
  "(let s = sample_decision_timeline; t = ''2026-01-01T00:01:00Z''; r' = dn_replay (decision_timeline_update utc_zone (Select_Node t) s)
    in mset (decision_nodes js_sort (dn_replay s)) = mset (decision_rows (dn_replay s)) \<and>
       Select_Node t \<in> offers (decision_timeline_view (\<lambda>x. x) js_sort s) \<and> rs_playing (dn_replay s) \<and>
       currentTimestamp r' = Some t \<and> \<not> rs_playing r' \<and>
       node_isCurrent r' (Kpis.sample_assessment t 90 ''critical'') \<and>
       node_isPast r' (Kpis.sample_assessment ''2026-01-01T00:00:00Z'' 10 ''normal''))"
proof -
  have target: "rs_target (dn_replay sample_decision_timeline) \<noteq> None" "rs_playing (dn_replay sample_decision_timeline)"
    by (simp_all add: sample_decision_replay)
  have past: "''2026-01-01T00:00:00Z'' \<le> ''2026-01-01T00:01:00Z''" by code_simp
  have "''2026-01-01T00:01:00Z'' \<in> set (allTimestamps (dn_replay sample_decision_timeline))"
    using decision_rows_on_axis[of "(''zone-a'', Kpis.sample_assessment ''2026-01-01T00:01:00Z'' 90 ''critical'')"]
    by (simp add: sample_decision_rows Kpis.sample_assessment_def)
  note tick = clear_axis_tick[OF sample_decision_clear this]
  from decision_node_leads_to_tick[OF sorts_strict_js_sort, of sample_decision_timeline "\<lambda>x. x" utc_zone] sample_decision_clear target past tick
  show ?thesis by (simp add: Let_def sample_decision_rows Kpis.sample_assessment_def)
qed

end
