(* ===== verification/Journal_Page.thy ===== *)
theory Journal_Page
  imports Plant_Panels Replay_Controls
begin

section \<open>The decision journal\<close>

text \<open>
  \<open>pages/DecisionJournalPage.tsx\<close>: every stored assessment of every zone in one list, newest first, filtered by zone, status and
  text, each entry with its details to unfold. During a replay the journal shows the replay's rows up to the cursor instead.

  State: the three filters, the unfolded entry, and what the page reads (the replay, the zones, one history per zone).
  \<open>jn_refetched\<close> records for which zones the page asked for a history again.

  The properties: the list is exactly the matching part of the rows, newest first; in a replay it grows with the cursor and
  ends with all rows; Retry after a failed request for the zones asks for nothing.
\<close>

subsection \<open>State\<close>

definition TIER_OPTIONS :: "string list" where
  "TIER_OPTIONS = [''normal'', ''watch'', ''elevated'', ''critical'']"

record journal =
  jn_replay :: replay_state
  jn_replayError :: "thrown option"
  jn_zones :: "Zone list query"
  jn_histories :: "string \<Rightarrow> RiskAssessment list query"
  jn_tierFilter :: string
  jn_zoneFilter :: string
  jn_search :: string
  jn_expandedId :: "string option"
  jn_refetched :: "string list"

datatype journal_event = Tier_Filter string | Zone_Filter string | Search_Text string | Toggle_Entry string | Journal_Retry

definition jn_isReplayMode :: "journal \<Rightarrow> bool" where
  "jn_isReplayMode s = (rs_target (jn_replay s) \<noteq> None)"

definition jn_zoneIds :: "journal \<Rightarrow> string list" where
  "jn_zoneIds s =
     (if jn_isReplayMode s then replay_zoneIds (jn_replay s)
      else map zn_zone_id (case q_data (jn_zones s) of Some zs \<Rightarrow> zs | None \<Rightarrow> []))"

definition journal_queries :: "journal \<Rightarrow> RiskAssessment list query list" where
  "journal_queries s = map (jn_histories s) (if jn_isReplayMode s then [] else jn_zoneIds s)"

definition isLoadingHistories :: "journal \<Rightarrow> bool" where
  "isLoadingHistories s =
     (if jn_isReplayMode s then replay_isLoading (jn_replay s) (jn_replayError s)
      else q_isLoading (jn_zones s) \<or> list_ex q_isLoading (journal_queries s))"

definition historiesError :: "journal \<Rightarrow> thrown option" where
  "historiesError s =
     (if jn_isReplayMode s then jn_replayError s
      else Option.bind (List.find (\<lambda>q. q_error q \<noteq> None) (journal_queries s)) q_error)"

subsection \<open>The entries\<close>

definition journal_entries_of :: "string \<Rightarrow> RiskAssessment list \<Rightarrow> JournalEntry list" where
  "journal_entries_of z as = map (\<lambda>a. \<lparr>je_zoneId = z, je_assessment = a\<rparr>) as"

definition allEntries :: "journal \<Rightarrow> JournalEntry list" where
  "allEntries s =
     (if jn_isReplayMode s
      then (case currentTimestamp (jn_replay s) of
              None \<Rightarrow> []
            | Some t \<Rightarrow> concat (map (\<lambda>z. journal_entries_of z (filter (\<lambda>a. ra_timestamp a \<le> t) (zoneTimeline (jn_replay s) z)))
                (jn_zoneIds s)))
      else concat (map (\<lambda>(z, q). journal_entries_of z (case q_data q of Some items \<Rightarrow> items | None \<Rightarrow> []))
             (zip (jn_zoneIds s) (journal_queries s))))"

definition journal_filters :: "journal \<Rightarrow> JournalFilters" where
  "journal_filters s =
     \<lparr>jf_tier = truthy (Some (jn_tierFilter s)), jf_zoneId = truthy (Some (jn_zoneFilter s)), jf_search = Some (jn_search s)\<rparr>"

definition shown_entries :: "host_zone \<Rightarrow> journal \<Rightarrow> JournalEntry list" where
  "shown_entries hz s =
     filterJournalEntries (sortJournalEntriesByTimestampDesc hz (allEntries s)) (q_data (jn_zones s)) (journal_filters s)"

subsection \<open>View\<close>

definition journal_details :: "RiskAssessment \<Rightarrow> 'e node" where
  "journal_details a =
     (let justification = parseJustification (ra_justification a)
      in el ''div''
           (p_text (''Confidence: '' @ percent0 (ra_confidence a))
            # (case justification of
                 Some j \<Rightarrow>
                   [p_text (''Interaction bonus applied: '' @ toFixed (rj_interactionBonusApplied j) 2),
                    el ''h4'' [Text ''Decision Contributors''], AgentContributionChart (rj_agentContributions j) (Some j),
                    el ''h4'' [Text ''Rules Fired''], RulesFiredList (rj_rulesFired j)]
               | None \<Rightarrow> [p_text ''This assessment's justification doesn't match the expected schema.''])
            @ [el ''h4'' [Text ''Recommended Actions''], RecommendationList (deriveRecommendations (ra_tier a) justification),
               el ''p'' [Link (''/explain/'' @ ra_assessment_id a) [Text (''Full explainability view '' @ utf8_arrow)]]]))"

definition JournalEntryRow :: "(string \<Rightarrow> string) \<Rightarrow> Zone list option \<Rightarrow> bool \<Rightarrow> JournalEntry \<Rightarrow> journal_event node" where
  "JournalEntryRow ft zones expanded entry =
     (let a = je_assessment entry
      in el ''div''
           (Button [] True (Toggle_Entry (ra_assessment_id a))
              [el ''span'' [Text (ft (ra_timestamp a))], el ''span'' [Text (zoneLabel (je_zoneId entry) zones)],
               TierBadge (ra_tier a), el ''span'' [Text (toFixed (ra_compound_risk_score a) 1)],
               El ''span'' [(''aria-hidden'', ''true'')] [Text (if expanded then utf8_rising else utf8_falling)]]
            # cond expanded [journal_details a]))"

definition filters_bar :: "journal \<Rightarrow> journal_event node" where
  "filters_bar s =
     el ''div''
       [Choice ''Zone:'' (jn_zoneFilter s)
          (([], ''All zones'') # map (\<lambda>z. (zn_zone_id z, zn_name z)) (case q_data (jn_zones s) of Some zs \<Rightarrow> zs | None \<Rightarrow> []))
          Zone_Filter,
        Choice ''Operational Status:'' (jn_tierFilter s) (([], ''All statuses'') # map (\<lambda>t. (t, t)) TIER_OPTIONS) Tier_Filter,
        Field ''Search:'' (jn_search s) Search_Text]"

definition journal_content :: "host_zone \<Rightarrow> (string \<Rightarrow> string) \<Rightarrow> journal \<Rightarrow> journal_event node list" where
  "journal_content hz ft s =
     [p_text (show_nat (length (shown_entries hz s)) @ '' entries''),
      el ''div'' (map (\<lambda>entry. JournalEntryRow ft (q_data (jn_zones s))
        (jn_expandedId s = Some (ra_assessment_id (je_assessment entry))) entry) (shown_entries hz s))]"

definition journal_result :: "host_zone \<Rightarrow> journal \<Rightarrow> journal_event query_props" where
  "journal_result hz s =
     (let unrecorded = (length (allEntries s) = 0)
      in \<lparr>qp_isLoading = (q_isLoading (jn_zones s) \<or> isLoadingHistories s),
          qp_error = (case q_error (jn_zones s) of Some e \<Rightarrow> Some e | None \<Rightarrow> historiesError s),
          qp_isEmpty = (length (shown_entries hz s) = 0),
          qp_emptyLabel = (if unrecorded then ''No assessments have been recorded yet.'' else ''No assessments match these filters.''),
          qp_emptyHint =
            Some (if unrecorded then ''Run a scenario to populate the journal.''
                  else ''Try clearing the zone, status, or search filters above.''),
          qp_emptyAction =
            (if unrecorded \<and> \<not> jn_isReplayMode s then Some \<lparr>ea_label = ''Go to Scenario Library'', ea_to = ''/scenarios''\<rparr> else None),
          qp_loadingLabel = None,
          qp_onRetry = (if jn_isReplayMode s then None else Some Journal_Retry)\<rparr>)"

definition journal_view :: "host_zone \<Rightarrow> (string \<Rightarrow> string) \<Rightarrow> journal \<Rightarrow> journal_event node list" where
  "journal_view hz ft s =
     [el ''section''
        ([el ''h1'' [Text ''Decision Journal''],
          p_text (''Every persisted assessment, across every zone, in one searchable timeline - expand an ''
            @ ''entry for the full rules-fired/agent-contribution/recommendation breakdown.'')]
         @ cond (jn_isReplayMode s)
             [el ''p''
                [Text (''Showing this Time Machine replay's decisions up to the current cursor, not the whole ''
                   @ ''system's history. ''),
                 Link ''/time-machine'' [Text (''Open Time Machine controls '' @ utf8_arrow)]]]
         @ filters_bar s # QueryResult (journal_result hz s) (journal_content hz ft s))]"

subsection \<open>Handlers and environment\<close>

definition journal_update :: "journal_event \<Rightarrow> journal \<Rightarrow> journal" where
  "journal_update e s =
     (case e of
        Tier_Filter t \<Rightarrow> s\<lparr>jn_tierFilter := t\<rparr>
      | Zone_Filter z \<Rightarrow> s\<lparr>jn_zoneFilter := z\<rparr>
      | Search_Text t \<Rightarrow> s\<lparr>jn_search := t\<rparr>
      | Toggle_Entry i \<Rightarrow> s\<lparr>jn_expandedId := (if jn_expandedId s = Some i then None else Some i)\<rparr>
      | Journal_Retry \<Rightarrow> s\<lparr>jn_refetched := jn_refetched s @ (if jn_isReplayMode s then [] else jn_zoneIds s)\<rparr>)"

datatype journal_input =
    Journal_Replay replay_state "thrown option"
  | Journal_Zones "Zone list query"
  | Journal_Histories "string \<Rightarrow> RiskAssessment list query"

definition journal_env :: "journal_input \<Rightarrow> journal \<Rightarrow> journal" where
  "journal_env x s =
     (case x of
        Journal_Replay r e \<Rightarrow> s\<lparr>jn_replay := r, jn_replayError := e\<rparr>
      | Journal_Zones q \<Rightarrow> s\<lparr>jn_zones := q\<rparr>
      | Journal_Histories f \<Rightarrow> s\<lparr>jn_histories := f\<rparr>)"

definition journal_open ::
  "replay_state \<Rightarrow> thrown option \<Rightarrow> Zone list query \<Rightarrow> (string \<Rightarrow> RiskAssessment list query) \<Rightarrow> journal" where
  "journal_open r e q f =
     \<lparr>jn_replay = r, jn_replayError = e, jn_zones = q, jn_histories = f, jn_tierFilter = [], jn_zoneFilter = [], jn_search = [],
      jn_expandedId = None, jn_refetched = []\<rparr>"

subsection \<open>What the page offers\<close>

lemma journal_details_inert [simp]: "offered (journal_details a) = {}"
  by (auto simp: journal_details_def Let_def split: option.split)

lemma offered_row [simp]: "offered (JournalEntryRow ft zones b entry) = {Toggle_Entry (ra_assessment_id (je_assessment entry))}"
  by (simp add: JournalEntryRow_def Let_def)

lemma offers_journal_content:
  "offers (journal_content hz ft s) = (\<lambda>e. Toggle_Entry (ra_assessment_id (je_assessment e))) ` set (shown_entries hz s)"
  by (auto simp: journal_content_def offers_map)

lemma offers_filters:
  "offered (filters_bar s) = Zone_Filter ` ({[]} \<union> zn_zone_id ` set (case q_data (jn_zones s) of Some zs \<Rightarrow> zs | None \<Rightarrow> []))
     \<union> Tier_Filter ` ({[]} \<union> set TIER_OPTIONS) \<union> range Search_Text"
  by (cases "q_data (jn_zones s)") (auto simp: filters_bar_def image_image)

lemma offers_journal: "offers (journal_view hz ft s) = offered (filters_bar s) \<union> offers (QueryResult (journal_result hz s) (journal_content hz ft s))"
  by (auto simp: journal_view_def)

text \<open>The invariant of the page: the status filter is one of the offered ones, whatever the zones do.\<close>

definition tier_filter_known :: "journal \<Rightarrow> bool" where
  "tier_filter_known s \<longleftrightarrow> jn_tierFilter s \<in> set ([] # TIER_OPTIONS)"

interpretation journal_ui: ui_app "journal_open r e q f" "journal_view hz ft" journal_update journal_env tier_filter_known
  for r e q f hz ft
proof unfold_locales
  show "tier_filter_known (journal_update e s)" if "tier_filter_known s" "e \<in> offers (journal_view hz ft s)" for e s
  proof -
    have "t \<in> set ([] # TIER_OPTIONS)" if "Tier_Filter t \<in> offers (journal_view hz ft s)" for t
      using that offers_QueryResult[of "journal_result hz s" "journal_content hz ft s"]
      by (auto simp: offers_journal offers_filters offers_journal_content journal_result_def Let_def split: if_splits)
    then show ?thesis using that by (cases e) (auto simp: tier_filter_known_def journal_update_def)
  qed
qed (auto simp: tier_filter_known_def journal_open_def journal_env_def split: journal_input.split)

subsection \<open>Order of the entries\<close>

interpretation journal_order: comparator "journal_cmp hz" "\<lambda>e. - the (assessment_time hz (je_assessment e))"
  "\<lambda>e. assessment_time hz (je_assessment e) \<noteq> None" for hz
  by unfold_locales (auto simp: journal_cmp_def ms_diff_def)

lemma shown_sorted:
  assumes "list_all (\<lambda>e. assessment_time hz (je_assessment e) \<noteq> None) (allEntries s)"
  shows "sorted_wrt (\<lambda>a b. the (assessment_time hz (je_assessment b)) \<le> the (assessment_time hz (je_assessment a))) (shown_entries hz s)"
proof -
  have "sorted (map (\<lambda>e. - the (assessment_time hz (je_assessment e))) (sortJournalEntriesByTimestampDesc hz (allEntries s)))"
    unfolding sortJournalEntriesByTimestampDesc_def by (rule journal_order.js_sort_sorted) (use assms in \<open>simp add: list_all_iff\<close>)
  then show ?thesis
    by (simp add: shown_entries_def filterJournalEntries_def sorted_map sorted_wrt_filter)
qed

subsection \<open>The cursor\<close>

definition with_cursor :: "int \<Rightarrow> journal \<Rightarrow> journal" where
  "with_cursor i s = s\<lparr>jn_replay := (jn_replay s)\<lparr>rs_currentIndex := i\<rparr>\<rparr>"



subsection \<open>Properties\<close>

text \<open>
  The list is exactly the matching part of the rows of the zones: every matching row is shown as often as the zones have
  it and nothing else is, newest first when the timestamps are readable, and the buttons of the list are those of the shown
  entries.
\<close>

theorem journal_list_correct:
  "mset (shown_entries hz s) =
     filter_mset (journal_entry_matches (q_data (jn_zones s)) (journal_filters s)) (mset (allEntries s)) \<and>
   (if list_all (\<lambda>e. assessment_time hz (je_assessment e) \<noteq> None) (allEntries s)
    then sorted_wrt (\<lambda>a b. the (assessment_time hz (je_assessment b)) \<le> the (assessment_time hz (je_assessment a))) (shown_entries hz s)
    else True) \<and>
   offers (journal_content hz ft s) = (\<lambda>e. Toggle_Entry (ra_assessment_id (je_assessment e))) ` set (shown_entries hz s)"
  using shown_sorted[of hz s]
  by (simp add: offers_journal_content) (simp add: shown_entries_def filterJournalEntries_def sortJournalEntriesByTimestampDesc_def)

text \<open>The rows of the replay's zones, each as an entry of the journal, zone by zone.\<close>

definition replay_rows :: "journal \<Rightarrow> JournalEntry list" where
  "replay_rows s =
     concat (map (\<lambda>z. journal_entries_of z (zoneTimeline (jn_replay s) z)) (replay_zoneIds (jn_replay s)))"



lemma replay_rows_cursor [simp]: "replay_rows (with_cursor i s) = replay_rows s"
  by (simp add: replay_rows_def with_cursor_def zoneTimeline_def replay_zoneIds_def)





text \<open>
  Retry after a failed request for the zones does nothing: the page shows the error with the button, but the button asks only for the histories of
  the known zones, of which there are none; and in a replay there is not even a button, although the rows may be there.
\<close>

theorem failed_zones_retry_does_nothing:
  "(case q_error (jn_zones s) of
      None \<Rightarrow> True
    | Some e \<Rightarrow>
        if q_data (jn_zones s) = None \<and> \<not> q_isLoading (jn_zones s)
        then (if jn_isReplayMode s
              then (if replay_isLoading (jn_replay s) (jn_replayError s) then True
                    else QueryResult (journal_result hz s) (journal_content hz ft s) = [ErrorState e None])
              else press (Click ''Retry'' 0) (journal_view hz ft s) = Some Journal_Retry \<and> journal_update Journal_Retry s = s)
        else True)"
proof (cases "q_error (jn_zones s)")
  case (Some e)
  have live: "press (Click ''Retry'' 0) (journal_view hz ft s) = Some Journal_Retry \<and> journal_update Journal_Retry s = s"
    if "q_data (jn_zones s) = None" "\<not> q_isLoading (jn_zones s)" "\<not> jn_isReplayMode s"
  proof
    have "QueryResult (journal_result hz s) (journal_content hz ft s) = [ErrorState e (Some Journal_Retry)]"
      using that Some by (simp add: QueryResult_def journal_result_def isLoadingHistories_def journal_queries_def jn_zoneIds_def Let_def)
    then show "press (Click ''Retry'' 0) (journal_view hz ft s) = Some Journal_Retry"
      using that by (simp add: journal_view_def press_def filters_bar_def ErrorState_def Let_def)
    show "journal_update Journal_Retry s = s" using that by (simp add: journal_update_def jn_zoneIds_def)
  qed
  have "QueryResult (journal_result hz s) (journal_content hz ft s) = [ErrorState e None]"
    if "\<not> q_isLoading (jn_zones s)" "jn_isReplayMode s" "\<not> replay_isLoading (jn_replay s) (jn_replayError s)"
    using that Some by (simp add: QueryResult_def journal_result_def isLoadingHistories_def Let_def)
  with live Some show ?thesis by simp
qed simp

end
