(* ===== verification/Diagnostics_Page.thy ===== *)
theory Diagnostics_Page
  imports Panels
begin

section \<open>Self diagnostics\<close>

text \<open>
  \<open>pages/DiagnosticsPage.tsx\<close>: a row with a coloured dot per part of the system and per count, every one computed from a query. A
  query of react-query is waiting for its first answer (\<open>Waiting\<close>, fetching or, offline, paused), has \<open>Arrived\<close>, or has \<open>Broken\<close>,
  possibly after earlier data that it keeps.

  The properties: a green dot always stands on an answer of the backend (except the build row), the counts are the sums over
  all zones, and once every query is settled nothing still says that it is loading, except in a plant without zones, where
  two rows load for ever.
\<close>

subsection \<open>Queries with their status\<close>

datatype 'a fetched = Waiting bool | Arrived 'a | Broken "'a option"

definition fetched_data :: "'a fetched \<Rightarrow> 'a option" where
  "fetched_data q = (case q of Waiting b \<Rightarrow> None | Arrived x \<Rightarrow> Some x | Broken x \<Rightarrow> x)"

definition isSuccess :: "'a fetched \<Rightarrow> bool" where
  "isSuccess q = (case q of Arrived x \<Rightarrow> True | _ \<Rightarrow> False)"

definition isError :: "'a fetched \<Rightarrow> bool" where
  "isError q = (case q of Broken x \<Rightarrow> True | _ \<Rightarrow> False)"

definition fetched_isLoading :: "'a fetched \<Rightarrow> bool" where
  "fetched_isLoading q = (case q of Waiting fetching \<Rightarrow> fetching | _ \<Rightarrow> False)"

definition settled :: "'a fetched \<Rightarrow> bool" where
  "settled q = (case q of Waiting b \<Rightarrow> False | _ \<Rightarrow> True)"

lemmas fetched_defs = fetched_data_def isSuccess_def isError_def fetched_isLoading_def settled_def

subsection \<open>State\<close>

record HealthResponse =
  hr_status :: string
  hr_database :: string
  hr_migration_version :: "string option"

text \<open>
  The environment of the build (\<open>import.meta.env\<close>) and the base URL are constants of the deployment. A history is read for its
  \<open>count\<close>, the equipment of a zone for its length.
\<close>

record diagnostics =
  dg_health :: "HealthResponse fetched"
  dg_zones :: "Zone list fetched"
  dg_scenarios :: "ScenarioSummary list fetched"
  dg_permits :: "nat fetched"
  dg_workers :: "nat fetched"
  dg_history :: "string \<Rightarrow> nat fetched"
  dg_equipment :: "string \<Rightarrow> nat fetched"
  dg_mode :: string
  dg_dev :: bool
  dg_baseUrl :: string

definition HISTORY_LIMIT :: nat where "HISTORY_LIMIT = 1000"

datatype Status = Green | Yellow | Red

record DiagnosticRow =
  dr_label :: string
  dr_status :: Status
  dr_detail :: string
  dr_unavailable :: bool

definition dg_zoneIds :: "diagnostics \<Rightarrow> string list" where
  "dg_zoneIds d = (case fetched_data (dg_zones d) of Some zs \<Rightarrow> map zn_zone_id zs | None \<Rightarrow> [])"

definition all_loaded :: "'a fetched list \<Rightarrow> bool" where
  "all_loaded qs = (length qs > 0 \<and> list_all isSuccess qs)"

definition some_failed :: "'a fetched list \<Rightarrow> bool" where
  "some_failed qs = (length qs > 0 \<and> list_ex isError qs)"

definition summed :: "nat fetched list \<Rightarrow> nat option" where
  "summed qs =
     (if all_loaded qs then Some (foldl (\<lambda>sum q. sum + (case fetched_data q of Some n \<Rightarrow> n | None \<Rightarrow> 0)) 0 qs) else None)"

definition dg_histories :: "diagnostics \<Rightarrow> nat fetched list" where
  "dg_histories d = map (dg_history d) (dg_zoneIds d)"

definition dg_equipments :: "diagnostics \<Rightarrow> nat fetched list" where
  "dg_equipments d = map (dg_equipment d) (dg_zoneIds d)"

definition riskAssessmentCapped :: "diagnostics \<Rightarrow> bool" where
  "riskAssessmentCapped d =
     (all_loaded (dg_histories d) \<and> list_ex (\<lambda>q. fetched_data q = Some HISTORY_LIMIT) (dg_histories d))"

subsection \<open>The rows\<close>

definition dq :: string where "dq = [CHR 0x22]"

definition health_row :: "string \<Rightarrow> (HealthResponse \<Rightarrow> bool) \<Rightarrow> (HealthResponse \<Rightarrow> string) \<Rightarrow> string \<Rightarrow> HealthResponse fetched \<Rightarrow> DiagnosticRow" where
  "health_row label ok detail unreachable health =
     \<lparr>dr_label = label,
      dr_status =
        (if isSuccess health \<and> ok (the (fetched_data health)) then Green else if fetched_isLoading health then Yellow else Red),
      dr_detail =
        (if isSuccess health then detail (the (fetched_data health))
         else if fetched_isLoading health then ''Checking...'' else unreachable),
      dr_unavailable = False\<rparr>"

definition zones_row :: "diagnostics \<Rightarrow> DiagnosticRow" where
  "zones_row d =
     \<lparr>dr_label = ''REST API'',
      dr_status =
        (if fetched_data (dg_zones d) \<noteq> None then Green else if isError (dg_zones d) \<or> isError (dg_health d) then Red else Yellow),
      dr_detail =
        (case fetched_data (dg_zones d) of
           Some zs \<Rightarrow> ''GET /api/v1/zones reachable ('' @ show_nat (length zs) @ '' zones).''
         | None \<Rightarrow> if isError (dg_zones d) then ''Unavailable - GET /api/v1/zones failed.'' else ''Awaiting a response.''),
      dr_unavailable = False\<rparr>"

definition replay_row :: "ScenarioSummary list fetched \<Rightarrow> DiagnosticRow" where
  "replay_row scenarios =
     \<lparr>dr_label = ''Replay Dataset'',
      dr_status =
        (if (case fetched_data scenarios of Some xs \<Rightarrow> length xs | None \<Rightarrow> 0) > 0 then Green
         else if fetched_data scenarios \<noteq> None \<or> isError scenarios then Red else Yellow),
      dr_detail =
        (case fetched_data scenarios of
           Some xs \<Rightarrow> show_nat (length xs) @ '' scenario(s) in the catalog.''
         | None \<Rightarrow> if isError scenarios then ''Unavailable - GET /api/v1/scenarios failed.'' else ''Checking...''),
      dr_unavailable = False\<rparr>"

definition systemRows :: "diagnostics \<Rightarrow> DiagnosticRow list" where
  "systemRows d =
     [health_row ''Backend'' (\<lambda>h. hr_status h = ''ok'') (\<lambda>h. ''Status: '' @ dq @ hr_status h @ dq)
        ''Unreachable - GET /api/v1/health failed.'' (dg_health d),
      health_row ''Database'' (\<lambda>h. hr_database h = ''connected'')
        (\<lambda>h. ''Status: '' @ dq @ hr_database h @ dq
           @ (case truthy (hr_migration_version h) of Some v \<Rightarrow> '' '' @ utf8_middot @ '' schema '' @ v | None \<Rightarrow> []))
        ''Unknown - backend did not respond.'' (dg_health d),
      zones_row d, replay_row (dg_scenarios d),
      \<lparr>dr_label = ''Frontend Build'', dr_status = Green,
       dr_detail = ''Mode: '' @ dg_mode d @ (if dg_dev d then '' (dev server)'' else '' (production build)''), dr_unavailable = False\<rparr>]"

definition unavailable_row :: "string \<Rightarrow> string \<Rightarrow> DiagnosticRow" where
  "unavailable_row label reason =
     \<lparr>dr_label = label, dr_status = Yellow,
      dr_detail = ''Status: Unavailable '' @ utf8_emdash @ '' Reason: Not exposed by current REST API'' @ reason, dr_unavailable = True\<rparr>"

definition count_row :: "string \<Rightarrow> 'a fetched \<Rightarrow> ('a \<Rightarrow> string) \<Rightarrow> DiagnosticRow" where
  "count_row label q detail =
     \<lparr>dr_label = label, dr_status = (if fetched_data q \<noteq> None then Green else if isError q then Red else Yellow),
      dr_detail =
        (case fetched_data q of
           Some x \<Rightarrow> detail x | None \<Rightarrow> if isError q then ''Unavailable - request failed.'' else ''Loading...''),
      dr_unavailable = False\<rparr>"

definition sum_row :: "string \<Rightarrow> string \<Rightarrow> string \<Rightarrow> bool \<Rightarrow> nat fetched list \<Rightarrow> diagnostics \<Rightarrow> DiagnosticRow" where
  "sum_row label what loading capped qs d =
     \<lparr>dr_label = label,
      dr_status = (if summed qs \<noteq> None then Green else if some_failed qs \<or> isError (dg_zones d) then Red else Yellow),
      dr_detail =
        (case summed qs of
           Some n \<Rightarrow>
             show_nat n @ (if capped then ''+ (a zone hit the page limit)'' else []) @ '' across ''
             @ show_nat (length (dg_zoneIds d)) @ '' zone(s)''
         | None \<Rightarrow>
             if some_failed qs then ''Unavailable - one or more per-zone '' @ what @ '' requests failed.''
             else if isError (dg_zones d) then ''Unavailable - GET /api/v1/zones failed, so no zones to query.''
             else loading),
      dr_unavailable = False\<rparr>"

definition countRows :: "diagnostics \<Rightarrow> DiagnosticRow list" where
  "countRows d =
     [unavailable_row ''Version'' ''.'', unavailable_row ''Last Seed Time'' ''.'',
      count_row ''Scenario Count'' (dg_scenarios d) (\<lambda>xs. show_nat (length xs)),
      count_row ''Permit Count'' (dg_permits d) (\<lambda>n. show_nat n @ (if n = HISTORY_LIMIT then ''+ (page limit reached)'' else [])),
      sum_row ''Risk Assessment Count'' ''history'' ''Loading per-zone history...'' (riskAssessmentCapped d) (dg_histories d) d,
      unavailable_row ''Sensor Reading Count'' '' (zone-sensor endpoints return configured sensors, not historical readings).'',
      count_row ''Worker Count'' (dg_workers d) show_nat,
      sum_row ''Equipment Count'' ''equipment'' ''Loading...'' False (dg_equipments d) d]"

subsection \<open>View\<close>

definition status_name :: "Status \<Rightarrow> string" where
  "status_name c = (case c of Green \<Rightarrow> ''green'' | Yellow \<Rightarrow> ''yellow'' | Red \<Rightarrow> ''red'')"

definition StatusDot :: "Status \<Rightarrow> 'e node" where
  "StatusDot c = El ''span'' [(''class'', ''diagnostics-status diagnostics-status-'' @ status_name c), (''aria-hidden'', ''true'')] []"

definition system_card :: "DiagnosticRow \<Rightarrow> 'e node" where
  "system_card row = el ''div'' [el ''div'' [StatusDot (dr_status row), el ''h3'' [Text (dr_label row)]], p_text (dr_detail row)]"

definition count_card :: "DiagnosticRow \<Rightarrow> 'e node" where
  "count_card row =
     El ''div'' [(''class'', ''card diagnostics-card '' @ (if dr_unavailable row then ''diagnostics-card-unavailable'' else []))]
       [el ''div'' [StatusDot (dr_status row), el ''h3'' [Text (dr_label row)]],
        El ''p'' [(''class'', if dr_unavailable row then ''diagnostics-unavailable-text'' else ''kpi-value'')] [Text (dr_detail row)]]"

definition diagnostics_view :: "diagnostics \<Rightarrow> 'e node list" where
  "diagnostics_view d =
     [el ''section''
        [el ''h1'' [Text ''Diagnostics''],
         p_text (''Every value below comes from an existing read-only endpoint this platform already ''
           @ ''exposes - nothing here is a new API surface. Two metrics have no endpoint to source them ''
           @ ''from and are disclosed as unavailable rather than approximated.''),
         el ''h2'' [Text ''System Status''], el ''div'' (map system_card (systemRows d)),
         el ''h2'' [Text ''Data Counts''], p_text (''API base URL: '' @ dg_baseUrl d),
         el ''div'' (map count_card (countRows d))]]"

subsection \<open>Sums over the zones\<close>

lemma sum_left_to_right: "foldl (\<lambda>sum q. sum + f q) n qs = n + sum_list (map f qs)" for n :: nat
  by (induction qs arbitrary: n) simp_all

lemma summed_Some: "summed qs = Some n \<longleftrightarrow> qs \<noteq> [] \<and> (\<exists>ns. qs = map Arrived ns \<and> n = sum_list ns)"
proof
  assume n: "summed qs = Some n"
  then have "list_all isSuccess qs" by (auto simp: summed_def all_loaded_def split: if_splits)
  then have "\<exists>ns. qs = map Arrived ns"
  proof (induction qs)
    case (Cons q qs)
    then obtain x ns where "q = Arrived x" "qs = map Arrived ns" by (auto simp: isSuccess_def split: fetched.splits)
    then have "q # qs = map Arrived (x # ns)" by simp
    then show ?case by (rule exI[where x = "x # ns"])
  qed simp
  then obtain ns where "qs = map Arrived ns" ..
  with n show "qs \<noteq> [] \<and> (\<exists>ns. qs = map Arrived ns \<and> n = sum_list ns)"
    by (auto simp: summed_def all_loaded_def sum_left_to_right fetched_data_def o_def split: if_splits)
next
  assume "qs \<noteq> [] \<and> (\<exists>ns. qs = map Arrived ns \<and> n = sum_list ns)"
  then show "summed qs = Some n"
    by (auto simp: summed_def all_loaded_def sum_left_to_right fetched_data_def o_def isSuccess_def list_all_iff)
qed

lemma summed_settled:
  assumes "list_all settled qs" "qs \<noteq> []"
  shows "summed qs \<noteq> None \<or> some_failed qs"
proof (cases "list_all isSuccess qs")
  case True
  with assms show ?thesis by (simp add: summed_def all_loaded_def)
next
  case False
  then obtain q where "q \<in> set qs" "\<not> isSuccess q" by (auto simp: list_all_iff)
  moreover from this assms have "settled q" by (auto simp: list_all_iff)
  ultimately have "isError q" by (auto simp: fetched_defs split: fetched.splits)
  with \<open>q \<in> set qs\<close> assms show ?thesis by (auto simp: some_failed_def list_ex_iff)
qed

subsection \<open>Properties\<close>

definition labels_of :: "Status \<Rightarrow> DiagnosticRow list \<Rightarrow> string list" where
  "labels_of c rows = map dr_label (filter (\<lambda>r. dr_status r = c) rows)"

definition all_settled :: "diagnostics \<Rightarrow> bool" where
  "all_settled d \<longleftrightarrow>
     settled (dg_health d) \<and> settled (dg_zones d) \<and> settled (dg_scenarios d) \<and> settled (dg_permits d) \<and> settled (dg_workers d) \<and>
     list_all settled (dg_histories d) \<and> list_all settled (dg_equipments d)"

lemma sum_row_settled:
  assumes "settled (dg_zones d)" "list_all settled (map f (dg_zoneIds d))"
  shows "dr_status (sum_row label what loading capped (map f (dg_zoneIds d)) d) = Yellow \<longleftrightarrow> fetched_data (dg_zones d) = Some [] \<and> isSuccess (dg_zones d)"
proof (cases "dg_zoneIds d = []")
  case True
  with assms(1) show ?thesis
    by (cases "dg_zones d") (auto simp: sum_row_def summed_def all_loaded_def some_failed_def dg_zoneIds_def fetched_defs split: option.splits)
next
  case False
  then have "fetched_data (dg_zones d) \<noteq> Some []" by (auto simp: dg_zoneIds_def)
  moreover have "summed (map f (dg_zoneIds d)) \<noteq> None \<or> some_failed (map f (dg_zoneIds d))"
    using assms(2) False by (intro summed_settled) simp_all
  ultimately show ?thesis by (auto simp: sum_row_def)
qed

text \<open>
  Once every request of the page has been answered or has failed, the only rows that are neither green nor red are the three that
  are declared unavailable; but in a plant without zones the two sums stay yellow and say that they are loading, although there is
  nothing to load.
\<close>

theorem settled_diagnostics:
  "(if all_settled d
    then labels_of Yellow (systemRows d) = [] \<and>
         labels_of Yellow (countRows d) =
           (if fetched_data (dg_zones d) = Some [] \<and> isSuccess (dg_zones d)
            then [''Version'', ''Last Seed Time'', ''Risk Assessment Count'', ''Sensor Reading Count'', ''Equipment Count'']
            else [''Version'', ''Last Seed Time'', ''Sensor Reading Count'']) \<and>
         (if fetched_data (dg_zones d) = Some [] \<and> isSuccess (dg_zones d)
          then map dr_detail (filter (\<lambda>r. dr_label r = ''Risk Assessment Count'') (countRows d)) = [''Loading per-zone history...''] \<and>
               map dr_detail (filter (\<lambda>r. dr_label r = ''Equipment Count'') (countRows d)) = [''Loading...'']
          else True)
    else True)"
proof -
  have rows: "labels_of Yellow (systemRows d) = []" if "all_settled d"
    using that by (auto simp: all_settled_def labels_of_def systemRows_def health_row_def zones_row_def replay_row_def fetched_defs
        split: fetched.splits option.splits if_splits)
  have plain: "dr_status (count_row label q f) \<noteq> Yellow" if "settled q" for label and q :: "'x fetched" and f
    using that by (auto simp: count_row_def fetched_defs split: fetched.splits option.splits)
  have "labels_of Yellow (countRows d) =
      (if fetched_data (dg_zones d) = Some [] \<and> isSuccess (dg_zones d)
       then [''Version'', ''Last Seed Time'', ''Risk Assessment Count'', ''Sensor Reading Count'', ''Equipment Count'']
       else [''Version'', ''Last Seed Time'', ''Sensor Reading Count''])" if s: "all_settled d"
  proof -
    have "dr_status (count_row l1 (dg_scenarios d) f1) \<noteq> Yellow" "dr_status (count_row l2 (dg_permits d) f2) \<noteq> Yellow"
      "dr_status (count_row l3 (dg_workers d) f3) \<noteq> Yellow" for l1 l2 l3 f1 f2 f3
      using s by (simp_all add: all_settled_def plain)
    moreover note sum_row_settled[of d "dg_history d"] sum_row_settled[of d "dg_equipment d"]
    ultimately show ?thesis using s
      by (simp add: labels_of_def countRows_def unavailable_row_def all_settled_def dg_histories_def dg_equipments_def)
        (simp add: count_row_def sum_row_def)
  qed
  moreover have "map dr_detail (filter (\<lambda>r. dr_label r = ''Risk Assessment Count'') (countRows d)) = [''Loading per-zone history...''] \<and>
      map dr_detail (filter (\<lambda>r. dr_label r = ''Equipment Count'') (countRows d)) = [''Loading...'']"
    if "fetched_data (dg_zones d) = Some []" "isSuccess (dg_zones d)"
    using that by (simp add: countRows_def unavailable_row_def count_row_def sum_row_def dg_histories_def dg_equipments_def dg_zoneIds_def
        summed_def all_loaded_def some_failed_def) (auto simp: fetched_defs split: fetched.splits)
  ultimately show ?thesis using rows by simp
qed

definition evidence :: "diagnostics \<Rightarrow> string \<Rightarrow> bool" where
  "evidence d label =
     (if label = ''Backend'' then \<exists>h. dg_health d = Arrived h \<and> hr_status h = ''ok''
      else if label = ''Database'' then \<exists>h. dg_health d = Arrived h \<and> hr_database h = ''connected''
      else if label = ''REST API'' then fetched_data (dg_zones d) \<noteq> None
      else if label \<in> {''Replay Dataset'', ''Scenario Count''} then fetched_data (dg_scenarios d) \<noteq> None
      else if label = ''Permit Count'' then fetched_data (dg_permits d) \<noteq> None
      else if label = ''Worker Count'' then fetched_data (dg_workers d) \<noteq> None
      else if label = ''Risk Assessment Count'' then \<exists>ns. dg_histories d = map Arrived ns \<and> ns \<noteq> []
      else if label = ''Equipment Count'' then \<exists>ns. dg_equipments d = map Arrived ns \<and> ns \<noteq> []
      else label = ''Frontend Build'')"

lemma evidence_simps:
  "evidence d ''Backend'' \<longleftrightarrow> (\<exists>h. dg_health d = Arrived h \<and> hr_status h = ''ok'')"
  "evidence d ''Database'' \<longleftrightarrow> (\<exists>h. dg_health d = Arrived h \<and> hr_database h = ''connected'')"
  "evidence d ''REST API'' \<longleftrightarrow> fetched_data (dg_zones d) \<noteq> None"
  "evidence d ''Replay Dataset'' \<longleftrightarrow> fetched_data (dg_scenarios d) \<noteq> None"
  "evidence d ''Scenario Count'' \<longleftrightarrow> fetched_data (dg_scenarios d) \<noteq> None"
  "evidence d ''Permit Count'' \<longleftrightarrow> fetched_data (dg_permits d) \<noteq> None"
  "evidence d ''Worker Count'' \<longleftrightarrow> fetched_data (dg_workers d) \<noteq> None"
  "evidence d ''Risk Assessment Count'' \<longleftrightarrow> (\<exists>ns. dg_histories d = map Arrived ns \<and> ns \<noteq> [])"
  "evidence d ''Equipment Count'' \<longleftrightarrow> (\<exists>ns. dg_equipments d = map Arrived ns \<and> ns \<noteq> [])"
  "evidence d ''Frontend Build''"
  by (simp_all add: evidence_def)

lemma labels_of_Cons: "labels_of c (r # rs) = (if dr_status r = c then [dr_label r] else []) @ labels_of c rs"
  by (simp add: labels_of_def)

lemma green_health: "dr_status (health_row label ok detail un h) = Green \<Longrightarrow> \<exists>x. h = Arrived x \<and> ok x"
  by (auto simp: health_row_def fetched_defs split: fetched.splits if_splits)

lemma green_count: "dr_status (count_row label q f) = Green \<Longrightarrow> fetched_data q \<noteq> None"
  by (auto simp: count_row_def split: if_splits)

lemma green_sum: "dr_status (sum_row label what loading capped qs d) = Green \<Longrightarrow> \<exists>ns. qs = map Arrived ns \<and> ns \<noteq> []"
  by (auto simp: sum_row_def summed_Some split: if_splits)

lemma green_zones: "dr_status (zones_row d) = Green \<Longrightarrow> fetched_data (dg_zones d) \<noteq> None"
  by (auto simp: zones_row_def split: if_splits)

lemma green_replay: "dr_status (replay_row q) = Green \<Longrightarrow> fetched_data q \<noteq> None"
  by (auto simp: replay_row_def split: if_splits option.splits)

lemma row_labels [simp]:
  "dr_label (health_row label ok detail un h) = label" "dr_label (count_row label q f) = label"
  "dr_label (sum_row label what loading capped qs d) = label" "dr_label (zones_row d) = ''REST API''"
  "dr_label (replay_row q') = ''Replay Dataset''" "dr_status (unavailable_row label reason) = Yellow"
  by (simp_all add: health_row_def count_row_def sum_row_def zones_row_def replay_row_def unavailable_row_def)

text \<open>
  A green dot stands on evidence: apart from the build row, a row is green only if the data it is about has arrived, and then the
  sums are the sums over all zones.
\<close>

theorem green_rows_have_evidence:
  "list_all (evidence d) (labels_of Green (systemRows d @ countRows d)) \<and>
   (case summed (dg_histories d) of
      None \<Rightarrow> True
    | Some n \<Rightarrow> \<exists>ns. dg_histories d = map Arrived ns \<and> n = sum_list ns \<and> length ns = length (dg_zoneIds d))"
proof
  have sys: "list_all (evidence d) (labels_of Green (systemRows d))"
    unfolding systemRows_def labels_of_Cons list_all_append
    by (intro conjI) (auto simp: labels_of_def evidence_simps dest: green_health green_zones green_replay)
  have "list_all (evidence d) (labels_of Green (countRows d))"
    unfolding countRows_def labels_of_Cons list_all_append
    by (intro conjI) (auto simp: labels_of_def evidence_simps dest: green_count green_sum)
  with sys show "list_all (evidence d) (labels_of Green (systemRows d @ countRows d))" by (simp add: labels_of_def)
  show "(case summed (dg_histories d) of None \<Rightarrow> True
     | Some n \<Rightarrow> \<exists>ns. dg_histories d = map Arrived ns \<and> n = sum_list ns \<and> length ns = length (dg_zoneIds d))"
  proof (cases "summed (dg_histories d)")
    case (Some n)
    then obtain ns where "dg_histories d = map Arrived ns" "n = sum_list ns" by (auto simp: summed_Some)
    moreover from this have "length ns = length (dg_zoneIds d)" by (metis dg_histories_def length_map)
    ultimately show ?thesis using Some by auto
  qed simp
qed

end
