(* ===== verification/Comparison_Pages.thy ===== *)
theory Comparison_Pages
  imports Dual_Views Replay_Controls Decision Graph_Page
begin

section \<open>The compound engine against the naive baseline\<close>

text \<open>
  \<open>pages/DecisionComparisonPage.tsx\<close> shows for every scenario its most dramatic moment, \<open>pages/CounterfactualPage.tsx\<close> compares
  one tick of one zone, chosen by the address, by a list of the last fifty ticks, or by the cursor of a replay. A card of the
  first page links to the second.

  The properties: that link, read back from its text, opens the page on exactly the moment of the card, with the verdicts of the
  same comparisons, for zones whose identifiers an address carries as they are and that no replay is showing; during a replay the page
  compares the row at the cursor, which is one of the listed ticks, and nothing else can be chosen.
\<close>

subsection \<open>pages/DecisionComparisonPage.tsx\<close>

definition items_of :: "'a list query \<Rightarrow> 'a list" where
  "items_of q = (case q_data q of Some xs \<Rightarrow> xs | None \<Rightarrow> [])"

definition tickPairs :: "host_zone \<Rightarrow> ScenarioSummary \<Rightarrow> (string \<Rightarrow> RiskAssessment list query) \<Rightarrow> (string \<times> string) list" where
  "tickPairs hz scenario histories =
     concat (map (\<lambda>z. map (\<lambda>item. (z, ra_timestamp item)) (filter (in_window hz scenario) (items_of (histories z)))) (ss_zone_ids scenario))"

definition comparison_moments ::
  "(string \<Rightarrow> string \<Rightarrow> CounterfactualComparison query) \<Rightarrow> (string \<times> string) list \<Rightarrow> ComparisonMoment list" where
  "comparison_moments comparisons pairs =
     List.map_filter (\<lambda>(z, t). map_option (\<lambda>c. \<lparr>cm_zoneId = z, cm_timestamp = t, cm_compound = cc_compound c,
       cm_counterfactual = cc_counterfactual c\<rparr>) (q_data (comparisons z t))) pairs"

definition chosen_moment ::
  "host_zone \<Rightarrow> ScenarioSummary \<Rightarrow> (string \<Rightarrow> RiskAssessment list query) \<Rightarrow>
   (string \<Rightarrow> string \<Rightarrow> CounterfactualComparison query) \<Rightarrow> ComparisonMoment option" where
  "chosen_moment hz scenario histories comparisons =
     pickComparisonMoment (comparison_moments comparisons (tickPairs hz scenario histories))"

definition moment_justification :: "(string \<Rightarrow> RiskAssessment list query) \<Rightarrow> ComparisonMoment \<Rightarrow> RiskJustification option" where
  "moment_justification histories m =
     Option.bind (List.find (\<lambda>item. ra_timestamp item = cm_timestamp m) (items_of (histories (cm_zoneId m))))
       (\<lambda>item. parseJustification (ra_justification item))"

definition comparison_link :: "string \<Rightarrow> string \<Rightarrow> string" where
  "comparison_link zoneId timestamp = ''/counterfactual/'' @ zoneId @ ''?timestamp='' @ encodeURIComponent timestamp"

definition comparison_card_body ::
  "(string \<Rightarrow> string) \<Rightarrow> Zone list option \<Rightarrow> (string \<Rightarrow> RiskAssessment list query) \<Rightarrow> ComparisonMoment \<Rightarrow> CompoundVerdict \<Rightarrow> 'e node list" where
  "comparison_card_body ft zones histories m compound =
     [p_text (zoneLabel (cm_zoneId m) zones @ '' '' @ utf8_middot @ '' '' @ ft (cm_timestamp m)),
      el ''div''
        [el ''div''
           [el ''h3'' [Text ''Traditional Threshold System''],
            p_text (if cfv_alert (cm_counterfactual m) then ''ALERT'' else ''CLEAR''),
            p_text (''Highest ratio to alarm threshold: ''
              @ (case cfv_highest_ratio (cm_counterfactual m) of Some ratio \<Rightarrow> toFixed ratio 2 | None \<Rightarrow> ''n/a''))],
         el ''div'' [Text ''VS''],
         el ''div''
           [el ''h3'' [Text ''Industrial Safety Intelligence''], el ''p'' [TierBadge (cv_tier compound)],
            p_text (''Compound score: '' @ toFixed (cv_compound_risk_score compound) 1)]],
      el ''div''
        [el ''h4'' [Text ''Why the difference''],
         p_text (explainComparison (cm_compound m) (cm_counterfactual m) (moment_justification histories m))],
      el ''p'' [Link (comparison_link (cm_zoneId m) (cm_timestamp m)) [Text (''Explore this comparison in detail '' @ utf8_arrow)]]]"

definition ScenarioComparisonCard ::
  "host_zone \<Rightarrow> (string \<Rightarrow> string) \<Rightarrow> Zone list option \<Rightarrow> (string \<Rightarrow> RiskAssessment list query) \<Rightarrow>
   (string \<Rightarrow> string \<Rightarrow> CounterfactualComparison query) \<Rightarrow> ScenarioSummary \<Rightarrow> 'e node" where
  "ScenarioComparisonCard hz ft zones histories comparisons scenario =
     (let hqs = map histories (ss_zone_ids scenario);
          cqs = map (\<lambda>(z, t). comparisons z t) (tickPairs hz scenario histories);
          chosen = chosen_moment hz scenario histories comparisons;
          first_error = (\<lambda>e1 e2. case e1 of Some e \<Rightarrow> Some e | None \<Rightarrow> e2)
      in el ''div''
           ([el ''h2'' [Text (ss_title scenario)], p_text (ss_description scenario)]
            @ QueryResult
                \<lparr>qp_isLoading = (list_ex q_isLoading hqs \<or> list_ex q_isLoading cqs),
                 qp_error = first_error (Option.bind (List.find (\<lambda>q. q_error q \<noteq> None) hqs) q_error)
                   (Option.bind (List.find (\<lambda>q. q_error q \<noteq> None) cqs) q_error),
                 qp_isEmpty = (Option.bind chosen cm_compound = None),
                 qp_emptyLabel = ''No comparable data yet for this scenario.'', qp_emptyHint = None, qp_emptyAction = None,
                 qp_loadingLabel = None, qp_onRetry = None\<rparr>
                (case chosen of
                   None \<Rightarrow> []
                 | Some m \<Rightarrow> cond_some (cm_compound m) (comparison_card_body ft zones histories m))))"

definition decision_comparison_view ::
  "host_zone \<Rightarrow> (string \<Rightarrow> string) \<Rightarrow> Zone list option \<Rightarrow> (string \<Rightarrow> RiskAssessment list query) \<Rightarrow>
   (string \<Rightarrow> string \<Rightarrow> CounterfactualComparison query) \<Rightarrow> ScenarioSummary list query \<Rightarrow> 'e node list" where
  "decision_comparison_view hz ft zones histories comparisons scenarios =
     [el ''section''
        ([el ''h1'' [Text ''Decision Comparison''],
          p_text (''Traditional threshold system vs. Industrial Safety Intelligence, for every scenario - the ''
            @ ''most dramatic real divergence each one contains, not a cherry-picked demo number.'')]
         @ QueryResult
             \<lparr>qp_isLoading = q_isLoading scenarios, qp_error = q_error scenarios, qp_isEmpty = (length (items_of scenarios) = 0),
              qp_emptyLabel = ''No scenarios found.'', qp_emptyHint = None, qp_emptyAction = None, qp_loadingLabel = None,
              qp_onRetry = None\<rparr>
             [el ''div'' (map (ScenarioComparisonCard hz ft zones histories comparisons) (items_of scenarios))])]"

subsection \<open>pages/CounterfactualPage.tsx\<close>

definition ZonePicker :: "Zone list query \<Rightarrow> 'e node list" where
  "ZonePicker q =
     [el ''section''
        ([el ''h1'' [Text ''Alternative Decision Comparison''],
          p_text (''Pick a zone to compare the compound engine's verdict against what a naive ''
            @ ''single-sensor-threshold system would have concluded at the same moment.'')]
         @ QueryResult
             \<lparr>qp_isLoading = q_isLoading q, qp_error = q_error q, qp_isEmpty = (length (items_of q) = 0),
              qp_emptyLabel = ''No zones found.'', qp_emptyHint = None, qp_emptyAction = None, qp_loadingLabel = None,
              qp_onRetry = None\<rparr>
             [el ''div'' (map (\<lambda>z. Link (''/counterfactual/'' @ zn_zone_id z) [el ''h3'' [Text (zn_name z)]]) (items_of q))])]"

text \<open>The search parameters are the router's: the pairs of the address, decoded.\<close>

record counterfactual =
  cf_zoneId :: "string option"
  cf_searchParams :: "(string \<times> string) list"
  cf_replay :: replay_state
  cf_replayError :: "thrown option"
  cf_zones :: "Zone list query"
  cf_history :: "string \<Rightarrow> RiskAssessment list query"
  cf_comparison :: "string \<Rightarrow> string \<Rightarrow> CounterfactualComparison query"

definition cf_isReplayMode :: "counterfactual \<Rightarrow> string \<Rightarrow> bool" where
  "cf_isReplayMode s zoneId = (rs_target (cf_replay s) \<noteq> None \<and> zoneId \<in> set (replay_zoneIds (cf_replay s)))"

definition cf_timestamp :: "host_zone \<Rightarrow> counterfactual \<Rightarrow> string \<Rightarrow> string option" where
  "cf_timestamp hz s zoneId =
     (if cf_isReplayMode s zoneId then map_option ra_timestamp (assessmentAt hz (cf_replay s) zoneId)
      else (case map_of (cf_searchParams s) ''timestamp'' of
        Some t \<Rightarrow> Some t
      | None \<Rightarrow> map_option ra_timestamp (head_option (items_of (cf_history s zoneId)))))"

definition cf_items :: "counterfactual \<Rightarrow> string \<Rightarrow> RiskAssessment list" where
  "cf_items s zoneId =
     (if cf_isReplayMode s zoneId then rev (zoneTimeline (cf_replay s) zoneId) else items_of (cf_history s zoneId))"

definition no_query :: "'a query" where
  "no_query = \<lparr>q_data = None, q_isLoading = False, q_error = None\<rparr>"

definition compared :: "host_zone \<Rightarrow> counterfactual \<Rightarrow> string \<Rightarrow> CounterfactualComparison query" where
  "compared hz s zoneId = (case cf_timestamp hz s zoneId of Some t \<Rightarrow> cf_comparison s zoneId t | None \<Rightarrow> no_query)"

definition divergence :: "CounterfactualComparison \<Rightarrow> bool" where
  "divergence c =
     (case cc_compound c of
        None \<Rightarrow> False
      | Some v \<Rightarrow>
          cv_tier v \<noteq> ''normal'' \<and> \<not> cfv_alert (cc_counterfactual c) \<or> cv_tier v = ''normal'' \<and> cfv_alert (cc_counterfactual c))"

datatype counterfactual_event = Choose_Tick string

definition tick_select :: "host_zone \<Rightarrow> (string \<Rightarrow> string) \<Rightarrow> counterfactual \<Rightarrow> string \<Rightarrow> counterfactual_event node" where
  "tick_select hz ft s zoneId =
     (let v = (case cf_timestamp hz s zoneId of Some t \<Rightarrow> t | None \<Rightarrow> []);
          options = map (\<lambda>item. (ra_timestamp item, ft (ra_timestamp item))) (cf_items s zoneId)
      in if cf_isReplayMode s zoneId
         then El ''select'' [(''aria-label'', ''Assessment tick:''), (''value'', v), (''disabled'', ''true'')]
           (map (\<lambda>(value, label). El ''option'' [(''value'', value)] [Text label]) options)
         else Choice ''Assessment tick:'' v options Choose_Tick)"

definition verdict_cards :: "CounterfactualComparison \<Rightarrow> 'e node list" where
  "verdict_cards c =
     cond (divergence c)
       [el ''div'' [el ''strong'' [Text ''Divergence detected''],
          Text '' - the naive baseline and the compound engine disagree at this tick.'']]
     @ [el ''div''
          [el ''div''
             (el ''h3'' [Text ''Compound Engine (real)'']
              # (case cc_compound c of
                   Some v \<Rightarrow>
                     [el ''p'' [Text (toFixed (cv_compound_risk_score v) 1), Text '' '', TierBadge (cv_tier v)],
                      p_text (''Confidence: '' @ percent0 (cv_confidence v))]
                 | None \<Rightarrow> [p_text ''No persisted compound assessment for this exact tick.''])),
           el ''div''
             ([el ''h3'' [Text ''Naive Baseline (Alternative Decision)''],
               p_text (if cfv_alert (cc_counterfactual c) then ''ALERT'' else ''CLEAR''),
               p_text (''Highest ratio to alarm threshold: ''
                 @ (case cfv_highest_ratio (cc_counterfactual c) of Some ratio \<Rightarrow> toFixed ratio 2 | None \<Rightarrow> ''n/a (no sensor data)''))]
              @ cond (length (cfv_triggered_sensors (cc_counterfactual c)) > 0)
                  [p_text (''Triggered: '' @ js_join '', '' (cfv_triggered_sensors (cc_counterfactual c)))])]]"

definition ZoneComparison :: "host_zone \<Rightarrow> (string \<Rightarrow> string) \<Rightarrow> counterfactual \<Rightarrow> string \<Rightarrow> counterfactual_event node list" where
  "ZoneComparison hz ft s zoneId =
     (let replay = cf_isReplayMode s zoneId; q = compared hz s zoneId
      in [el ''section''
            ([el ''p'' [Link ''/counterfactual'' [Text (utf8_larr @ '' All zones'')]],
              el ''h1'' [Text (zoneLabel zoneId (q_data (cf_zones s)))]]
             @ cond replay
                 [el ''p'' [Text ''Following the Time Machine replay cursor for this zone.'', Text '' '',
                    Link ''/time-machine'' [Text (''Open Time Machine controls '' @ utf8_arrow)]]]
             @ QueryResult
                 \<lparr>qp_isLoading =
                    (if replay then replay_isLoading (cf_replay s) (cf_replayError s) else q_isLoading (cf_history s zoneId)),
                  qp_error = (if replay then cf_replayError s else q_error (cf_history s zoneId)),
                  qp_isEmpty = (length (cf_items s zoneId) = 0), qp_emptyLabel = ''No persisted risk history for this zone yet.'',
                  qp_emptyHint = None, qp_emptyAction = None, qp_loadingLabel = None, qp_onRetry = None\<rparr>
                 (el ''div'' [tick_select hz ft s zoneId]
                  # QueryResult
                      \<lparr>qp_isLoading = q_isLoading q, qp_error = q_error q, qp_isEmpty = (q_data q = None),
                       qp_emptyLabel = ''No comparison available for this tick.'', qp_emptyHint = None, qp_emptyAction = None,
                       qp_loadingLabel = None, qp_onRetry = None\<rparr>
                      (cond_some (q_data q) verdict_cards)))])"

definition counterfactual_view :: "host_zone \<Rightarrow> (string \<Rightarrow> string) \<Rightarrow> counterfactual \<Rightarrow> counterfactual_event node list" where
  "counterfactual_view hz ft s =
     (case truthy (cf_zoneId s) of Some z \<Rightarrow> ZoneComparison hz ft s z | None \<Rightarrow> ZonePicker (cf_zones s))"

definition counterfactual_update :: "counterfactual_event \<Rightarrow> counterfactual \<Rightarrow> counterfactual" where
  "counterfactual_update e s = (case e of Choose_Tick t \<Rightarrow> s\<lparr>cf_searchParams := [(''timestamp'', t)]\<rparr>)"

datatype counterfactual_input =
    Cf_Replay replay_state "thrown option"
  | Cf_Zones "Zone list query"
  | Cf_History "string \<Rightarrow> RiskAssessment list query"
  | Cf_Comparison "string \<Rightarrow> string \<Rightarrow> CounterfactualComparison query"
  | Cf_Address "string option" "(string \<times> string) list"

definition counterfactual_env :: "counterfactual_input \<Rightarrow> counterfactual \<Rightarrow> counterfactual" where
  "counterfactual_env x s =
     (case x of
        Cf_Replay r e \<Rightarrow> s\<lparr>cf_replay := r, cf_replayError := e\<rparr>
      | Cf_Zones q \<Rightarrow> s\<lparr>cf_zones := q\<rparr>
      | Cf_History f \<Rightarrow> s\<lparr>cf_history := f\<rparr>
      | Cf_Comparison f \<Rightarrow> s\<lparr>cf_comparison := f\<rparr>
      | Cf_Address z ps \<Rightarrow> s\<lparr>cf_zoneId := z, cf_searchParams := ps\<rparr>)"

text \<open>
  Following a link of the application to the page: the router reads \<open>:zoneId\<close> from the path and decodes it (a segment that is not
  decodable stays as it is), and the search parameters from what follows the question mark.
\<close>

fun uri_decode :: "string \<Rightarrow> string option" where
  "uri_decode [] = Some []"
| "uri_decode (c # r) =
     (if c = CHR ''%''
      then (case r of
              a # b # q \<Rightarrow>
                (case (hex_value a, hex_value b) of
                   (Some x, Some y) \<Rightarrow> map_option (\<lambda>t. char_of (16 * x + y) # t) (uri_decode q)
                 | _ \<Rightarrow> None)
            | _ \<Rightarrow> None)
      else map_option (\<lambda>t. c # t) (uri_decode r))"

definition url_path :: "string \<Rightarrow> string" where
  "url_path url = takeWhile (\<lambda>c. c \<noteq> CHR ''?'' \<and> c \<noteq> CHR ''#'') url"

definition route_zoneId :: "string \<Rightarrow> string option" where
  "route_zoneId url =
     (let route = ''/counterfactual/''; z = drop (length route) (url_path url)
      in if prefix route (url_path url) \<and> z \<noteq> [] \<and> CHR ''/'' \<notin> set z
         then Some (case uri_decode z of Some d \<Rightarrow> d | None \<Rightarrow> z) else None)"

definition follow_comparison_link :: "string \<Rightarrow> counterfactual \<Rightarrow> counterfactual" where
  "follow_comparison_link url s = counterfactual_env (Cf_Address (route_zoneId url) (read_query (url_search url))) s"

text \<open>Identifiers that stand in a path as they are: letters, digits, hyphens and underscores.\<close>

definition plain_id :: "string \<Rightarrow> bool" where
  "plain_id z \<longleftrightarrow>
     z \<noteq> [] \<and> list_all (\<lambda>c. is_alnum c \<or> c = CHR ''-'' \<or> c = CHR ''_'') z"

subsection \<open>Facts\<close>

lemma dropWhile_to: "c \<notin> set xs \<Longrightarrow> dropWhile (\<lambda>x. x \<noteq> c) (xs @ c # ys) = c # ys"
  by (induction xs) auto

lemma read_comparison_link:
  assumes "CHR ''?'' \<notin> set zoneId"
  shows "read_query (url_search (comparison_link zoneId timestamp)) = [(''timestamp'', timestamp)]"
proof -
  let ?enc = "encodeURIComponent timestamp"
  have "url_search (comparison_link zoneId timestamp) = ''?timestamp='' @ ?enc"
    using dropWhile_to[of "CHR ''?''" "''/counterfactual/'' @ zoneId" "''timestamp='' @ ?enc"] assms
    by (simp add: url_search_def comparison_link_def)
  moreover have "split_on CHR ''&'' (''timestamp='' @ ?enc) = [''timestamp='' @ ?enc]"
    by (rule split_on_whole) (use uri_safe[of timestamp] in simp)
  moreover have "read_pair (''timestamp='' @ ?enc) = (''timestamp'', timestamp)"
    using form_decode_uri[of timestamp] by (simp add: read_pair_def)
  ultimately show ?thesis by (simp add: read_query_def)
qed

lemma plain_id_chars:
  assumes "plain_id z"
  shows "z \<noteq> []" "c \<in> set z \<Longrightarrow> c \<noteq> CHR ''?'' \<and> c \<noteq> CHR ''#'' \<and> c \<noteq> CHR ''/'' \<and> c \<noteq> CHR ''%''"
  using assms by (auto simp: plain_id_def list_all_iff is_alnum_def)

lemma uri_decode_plain: "CHR ''%'' \<notin> set z \<Longrightarrow> uri_decode z = Some z"
  by (induction z) auto

lemma route_comparison_link:
  assumes "plain_id z"
  shows "route_zoneId (comparison_link z timestamp) = Some z"
proof -
  have "url_path (comparison_link z timestamp) = ''/counterfactual/'' @ takeWhile (\<lambda>c. c \<noteq> CHR ''?'' \<and> c \<noteq> CHR ''#'') (z @ CHR ''?'' # ''timestamp='' @ encodeURIComponent timestamp)"
    by (simp add: url_path_def comparison_link_def)
  also have "\<dots> = ''/counterfactual/'' @ z" using plain_id_chars(2)[OF assms] by (simp add: takeWhile_append)
  finally have path: "url_path (comparison_link z timestamp) = ''/counterfactual/'' @ z" .
  have "uri_decode z = Some z" using plain_id_chars(2)[OF assms] by (intro uri_decode_plain) blast
  moreover have "CHR ''/'' \<notin> set z" using plain_id_chars(2)[OF assms] by blast
  ultimately show ?thesis
    using plain_id_chars(1)[OF assms] by (simp add: route_zoneId_def path)
qed

lemma chosen_is_moment:
  assumes "chosen_moment hz scenario histories comparisons = Some m"
  shows "m \<in> set (comparison_moments comparisons (tickPairs hz scenario histories)) \<and> cm_compound m \<noteq> None"
proof -
  let ?ms = "comparison_moments comparisons (tickPairs hz scenario histories)"
  have "is_first_max moment_score
      (if filter moment_misses ?ms \<noteq> [] then filter moment_misses ?ms else filter (\<lambda>m. cm_compound m \<noteq> None) ?ms) m"
    using moment_max.reduce1_first_max[of "if filter moment_misses ?ms \<noteq> [] then filter moment_misses ?ms else filter (\<lambda>m. cm_compound m \<noteq> None) ?ms" m]
      assms by (simp add: chosen_moment_def pickComparisonMoment_pool)
  then have "m \<in> set (if filter moment_misses ?ms \<noteq> [] then filter moment_misses ?ms else filter (\<lambda>m. cm_compound m \<noteq> None) ?ms)"
    by (rule is_first_max_in)
  then show ?thesis by (auto simp: moment_misses_def split: if_splits option.splits)
qed

lemma moment_data:
  assumes "m \<in> set (comparison_moments comparisons pairs)"
  shows "\<exists>c. q_data (comparisons (cm_zoneId m) (cm_timestamp m)) = Some c \<and> cm_compound m = cc_compound c \<and>
     cm_counterfactual m = cc_counterfactual c \<and> (cm_zoneId m, cm_timestamp m) \<in> set pairs"
proof -
  have "comparison_moments comparisons pairs = concat (map (\<lambda>(z, t). case q_data (comparisons z t) of None \<Rightarrow> []
      | Some c \<Rightarrow> [\<lparr>cm_zoneId = z, cm_timestamp = t, cm_compound = cc_compound c, cm_counterfactual = cc_counterfactual c\<rparr>]) pairs)"
    unfolding comparison_moments_def by (induction pairs) (auto simp: map_filter_simps split: option.split)
  with assms obtain z t c where "(z, t) \<in> set pairs" "q_data (comparisons z t) = Some c"
    and "m = \<lparr>cm_zoneId = z, cm_timestamp = t, cm_compound = cc_compound c, cm_counterfactual = cc_counterfactual c\<rparr>"
    by (auto split: option.splits dest: sym)
  then show ?thesis by (intro exI[of _ c]) simp
qed

lemma assessmentAt_in_timeline: "assessmentAt hz r z = Some a \<Longrightarrow> a \<in> set (zoneTimeline r z)"
  using assessmentAt_not_future[where hz = hz and s = r and zoneId = z] by simp

subsection \<open>Properties\<close>

text \<open>
  (C22) The link of a card leads to its moment: the moment is a stored tick of one of the scenario's zones inside its window, and the
  link, read back from its text, opens the page of the counterfactual on that zone and compares exactly that tick, whenever the zone's
  identifier consists of letters, digits, hyphens and underscores and no replay of the zone is going on (a replay takes over the
  page). If the comparisons the page reads are those the card was drawn from, it gets the card's two verdicts and announces a
  divergence whenever the card's moment is one the baseline missed.
\<close>

theorem comparison_link_keeps_moment:
  "(case chosen_moment hz scenario histories comparisons of
      None \<Rightarrow> True
    | Some m \<Rightarrow>
        let z = cm_zoneId m; page = follow_comparison_link (comparison_link z (cm_timestamp m)) s
        in z \<in> set (ss_zone_ids scenario) \<and>
           list_ex (\<lambda>a. ra_timestamp a = cm_timestamp m \<and> in_window hz scenario a) (items_of (histories z)) \<and>
           (if plain_id z \<and> \<not> cf_isReplayMode s z
            then cf_zoneId page = Some z \<and> counterfactual_view hz ft page = ZoneComparison hz ft page z \<and>
                 cf_timestamp hz page z = Some (cm_timestamp m) \<and>
                 (if cf_comparison s = comparisons
                  then \<exists>c. q_data (compared hz page z) = Some c \<and> cc_compound c = cm_compound m \<and> cc_counterfactual c = cm_counterfactual m \<and>
                         (if moment_misses m then divergence c else True)
                  else True)
            else True))"
proof (cases "chosen_moment hz scenario histories comparisons")
  case (Some m)
  let ?z = "cm_zoneId m" and ?t = "cm_timestamp m"
  let ?page = "follow_comparison_link (comparison_link ?z ?t) s"
  from chosen_is_moment[OF Some] moment_data obtain c where c: "q_data (comparisons ?z ?t) = Some c" "cm_compound m = cc_compound c"
    "cm_counterfactual m = cc_counterfactual c" and pair: "(?z, ?t) \<in> set (tickPairs hz scenario histories)" by metis
  have row: "?z \<in> set (ss_zone_ids scenario)" "list_ex (\<lambda>a. ra_timestamp a = ?t \<and> in_window hz scenario a) (items_of (histories ?z))"
    using pair by (auto simp: tickPairs_def list_ex_iff)
  have miss: "divergence c" if "moment_misses m"
    using that by (auto simp: moment_misses_def is_miss_def divergence_def c split: option.splits)
  have "cf_zoneId ?page = Some ?z \<and> counterfactual_view hz ft ?page = ZoneComparison hz ft ?page ?z \<and>
      cf_timestamp hz ?page ?z = Some ?t \<and> compared hz ?page ?z = cf_comparison s ?z ?t"
    if plain: "plain_id ?z" and live: "\<not> cf_isReplayMode s ?z"
  proof -
    have "CHR ''?'' \<notin> set ?z" using plain_id_chars(2)[OF plain] by blast
    then have page: "?page = s\<lparr>cf_zoneId := Some ?z, cf_searchParams := [(''timestamp'', ?t)]\<rparr>"
      by (simp add: follow_comparison_link_def counterfactual_env_def route_comparison_link[OF plain] read_comparison_link)
    have "\<not> cf_isReplayMode ?page ?z" using live by (simp add: page cf_isReplayMode_def)
    then have t: "cf_timestamp hz ?page ?z = Some ?t" by (simp add: page cf_timestamp_def)
    then have "compared hz ?page ?z = cf_comparison s ?z ?t" by (simp add: compared_def) (simp add: page)
    with t show ?thesis using plain_id_chars(1)[OF plain] by (simp add: counterfactual_view_def truthy_def) (simp add: page)
  qed
  with c miss row show ?thesis unfolding Some option.case Let_def by auto
qed simp

text \<open>
  While a replay has the zone, the page follows it: the tick compared is that of the row at the cursor, it is one of the ticks listed,
  whatever the address asks for, and there is no control to choose another.
\<close>

theorem comparison_follows_replay:
  "(case cf_zoneId s of
      None \<Rightarrow> True
    | Some z \<Rightarrow>
        if z = [] then True
        else if cf_isReplayMode s z
        then offers (counterfactual_view hz ft s) = {} \<and>
             cf_timestamp hz s z = map_option ra_timestamp (assessmentAt hz (cf_replay s) z) \<and>
             (case cf_timestamp hz s z of None \<Rightarrow> True | Some t \<Rightarrow> t \<in> ra_timestamp ` set (cf_items s z))
        else offers (counterfactual_view hz ft s) \<subseteq> (Choose_Tick \<circ> ra_timestamp) ` set (cf_items s z))"
proof (cases "cf_zoneId s")
  case (Some z)
  have inner: "offers (QueryResult q (cond_some d verdict_cards)) = {}" if "qp_onRetry q = None" for q :: "counterfactual_event query_props" and d
  proof -
    have "offers (verdict_cards c :: counterfactual_event node list) = {}" for c by (auto simp: verdict_cards_def split: option.split)
    then have "offers (cond_some d verdict_cards :: counterfactual_event node list) = {}" by (cases d) auto
    then show ?thesis using offers_QueryResult[of q "cond_some d verdict_cards"] that by auto
  qed
  have view: "offers (ZoneComparison hz ft s z) \<subseteq> offered (tick_select hz ft s z)"
    unfolding ZoneComparison_def Let_def
    by (auto simp: inner dest!: subsetD[OF offers_QueryResult])
  have sel: "offered (tick_select hz ft s z) = (if cf_isReplayMode s z then {} else (Choose_Tick \<circ> ra_timestamp) ` set (cf_items s z))"
    by (auto simp: tick_select_def Let_def offers_map image_image)
  have "t \<in> ra_timestamp ` set (cf_items s z)" if "cf_isReplayMode s z" "cf_timestamp hz s z = Some t" for t
    using that assessmentAt_in_timeline by (auto simp: cf_timestamp_def cf_items_def)
  with view sel Some show ?thesis by (auto simp: counterfactual_view_def truthy_def cf_timestamp_def split: option.splits)
qed simp

end
