(* ===== verification/Evidence_Pages.thy ===== *)
theory Evidence_Pages
  imports Pipeline Decision Json_Pretty
begin

section \<open>The evidence behind one assessment\<close>

text \<open>
  \<open>pages/ExplainabilityPage.tsx\<close> explains a stored assessment to its reader, \<open>pages/ResearchModePage.tsx\<close> lays out the whole pipeline
  that produced it, with the raw justification at the end. Both are views of one row; the research page also has the decision graph with
  its state, and a retry.

  The property: which of the fired rules the research page lists. It promises to summarize nothing away, but a rule is listed only
  under an agent that reported, fusion, tiering or the unattributed rules, so the scheduler's rule is never listed.
\<close>

subsection \<open>pages/ExplainabilityPage.tsx\<close>

record explain_data =
  xp_assessment :: "RiskAssessment query"
  xp_zones :: "Zone list option"
  xp_matches :: "IncidentMatch list option"
  xp_foresight :: "ForesightResult option"
  xp_history :: "RiskAssessment list option"

definition explain_factors :: "explain_data \<Rightarrow> ConfidenceFactor list" where
  "explain_factors d =
     (case q_data (xp_assessment d) of
        Some a \<Rightarrow> buildConfidenceBreakdown a (parseJustification (ra_justification a)) (Option.bind (xp_matches d) head_option) (xp_foresight d)
      | None \<Rightarrow> [])"

definition explain_stability :: "explain_data \<Rightarrow> RecommendationStability" where
  "explain_stability d =
     buildRecommendationStability (case xp_history d of Some items \<Rightarrow> items | None \<Rightarrow> []) (explain_factors d)"

text \<open>The scenario of the forecast request.\<close>

definition explain_scenario :: "host_zone \<Rightarrow> ScenarioSummary list option \<Rightarrow> explain_data \<Rightarrow> string option" where
  "explain_scenario hz scenarios d =
     resolveScenarioKey hz scenarios (map_option ra_zone_id (q_data (xp_assessment d))) (map_option ra_timestamp (q_data (xp_assessment d)))"

definition explain_header :: "(string \<Rightarrow> string) \<Rightarrow> Zone list option \<Rightarrow> RiskAssessment \<Rightarrow> 'e node" where
  "explain_header ft zones a =
     el ''div''
       [el ''p'' [el ''strong'' [Text (zoneLabel (ra_zone_id a) zones)], Text ('' '' @ utf8_middot @ '' ''), Text (ft (ra_timestamp a))],
        el ''p''
          [Text (''Overall plant risk: '' @ toFixed (ra_compound_risk_score a) 1), Text '' '', TierBadge (ra_tier a),
           Text ('' '' @ utf8_middot @ '' Confidence: '' @ percent0 (ra_confidence a))],
        el ''p''
          [Link (''/decision-workspace/'' @ ra_assessment_id a) [Text (''Open Decision Workspace '' @ utf8_arrow)],
           Text ('' '' @ utf8_middot @ '' ''), Link (''/research/'' @ ra_assessment_id a) [Text (''Open in Research Mode '' @ utf8_arrow)],
           Text ('' '' @ utf8_middot @ '' ''), Link (''/decision-report/'' @ ra_assessment_id a) [Text (''Open Decision Report '' @ utf8_arrow)]]]"

definition transition_line :: "RiskJustification \<Rightarrow> 'e node" where
  "transition_line j = el ''p'' [TierBadge (rj_tierBefore j), Text ('' '' @ utf8_arrow @ '' ''), TierBadge (rj_tierAfter j)]"

definition explain_breakdown :: "RiskAssessment \<Rightarrow> 'e node list" where
  "explain_breakdown a =
     (case parseJustification (ra_justification a) of
        Some j \<Rightarrow>
          [el ''div'' [el ''h3'' [Text ''Recommended Actions''], RecommendationList (deriveRecommendations (ra_tier a) (Some j))],
           el ''div''
             [el ''h3'' [Text ''Operational Status Change''], transition_line j,
              p_text (''Interaction bonus applied: '' @ toFixed (rj_interactionBonusApplied j) 2)],
           el ''div'' [el ''h3'' [Text ''Decision Contributors''], AgentContributionChart (rj_agentContributions j) (Some j)],
           el ''div'' [el ''h3'' [Text ''Rules Fired''], RulesFiredList (rj_rulesFired j)]]
      | None \<Rightarrow>
          [el ''div'' [p_text (''This assessment's justification doesn't match the expected schema, so ''
             @ ''no further breakdown can be shown.'')]])"

definition explain_view :: "(string \<Rightarrow> string) \<Rightarrow> explain_data \<Rightarrow> 'e node list" where
  "explain_view ft d =
     [el ''section''
        ([el ''p'' [Link ''/zones'' [Text (utf8_larr @ '' Zones'')]], el ''h1'' [Text ''Explain This Assessment'']]
         @ QueryResult
             \<lparr>qp_isLoading = q_isLoading (xp_assessment d), qp_error = q_error (xp_assessment d),
              qp_isEmpty = (q_data (xp_assessment d) = None), qp_emptyLabel = ''Assessment not found.'', qp_emptyHint = None,
              qp_emptyAction = None, qp_loadingLabel = None, qp_onRetry = None\<rparr>
             (cond_some (q_data (xp_assessment d)) (\<lambda>a.
               [explain_header ft (xp_zones d) a,
                el ''div'' [el ''h3'' [Text ''Confidence Breakdown''], ConfidenceBreakdown (explain_factors d)],
                el ''div'' [el ''h3'' [Text ''Decision Stability''], DecisionStabilityPanel (explain_stability d)]]
               @ explain_breakdown a)))]"

subsection \<open>pages/ResearchModePage.tsx\<close>

definition rules_of_stage :: "StageRules list \<Rightarrow> PipelineStage \<Rightarrow> string list" where
  "rules_of_stage stages st = (case List.find (\<lambda>s. sr_stage s = st) stages of Some s \<Rightarrow> sr_rules s | None \<Rightarrow> [])"

definition rule_tags :: "string list \<Rightarrow> 'e node" where
  "rule_tags rules = el ''ul'' (map (\<lambda>rule. El ''li'' [(''class'', ''rule-tag'')] [Text rule]) rules)"

definition agent_card :: "StageRules list \<Rightarrow> RiskJustification \<Rightarrow> string \<times> AgentContribution \<Rightarrow> 'e node" where
  "agent_card stages j agent =
     (let (agentName, contribution) = agent
      in el ''div''
           ([el ''h3'' [Text (''2. '' @ agentDisplayName agentName @ '' Agent'')],
             p_text (''Raw risk: '' @ toFixed (ac_risk contribution) 4 @ '' '' @ utf8_middot @ '' Confidence: ''
               @ toFixed (ac_confidence contribution) 2)]
            @ cond_some (List.find (\<lambda>s. sr_stage s = agentStage agentName) stages) (\<lambda>s. [rule_tags (sr_rules s)])
            @ [p_text (''Reason: '' @ buildAgentContributionReason agentName contribution j)]))"

definition research_cards :: "RiskAssessment \<Rightarrow> RiskJustification \<Rightarrow> 'e node list" where
  "research_cards a j =
     (let stages = groupRulesByStage (rj_rulesFired j)
      in [el ''div''
            [el ''h3'' [Text ''1. Scheduler''],
             p_text (''Agents that reported this tick: '' @ js_join '', '' (map fst (rj_agentContributions j)))]]
         @ map (agent_card stages j) (rj_agentContributions j)
         @ [el ''div''
              [el ''h3'' [Text ''3. Fusion''],
               p_text (''Interaction bonus applied: '' @ toFixed (rj_interactionBonusApplied j) 4),
               p_text (''Resulting overall plant risk: '' @ toFixed (ra_compound_risk_score a) 4),
               rule_tags (rules_of_stage stages Fusion)],
            el ''div'' [el ''h3'' [Text ''4. Tiering''], transition_line j, rule_tags (rules_of_stage stages Tiering)]]
         @ cond (list_ex (\<lambda>s. sr_stage s = Unattributed) stages)
             [el ''div''
                [el ''h3'' [Text ''Unattributed Rules''], p_text ''Rule identifiers this page doesn't yet have a stage mapping for.'',
                 rule_tags (rules_of_stage stages Unattributed)]])"

record research =
  re_assessment :: "RiskAssessment query"
  re_zones :: "Zone list option"
  re_diagram :: diagram
  re_refetched :: nat

datatype research_event = Research_Retry | Research_Diagram diagram_event

definition research_header :: "(string \<Rightarrow> string) \<Rightarrow> Zone list option \<Rightarrow> RiskAssessment \<Rightarrow> 'e node" where
  "research_header ft zones a =
     el ''div''
       [el ''p''
          [el ''strong'' [Text (zoneLabel (ra_zone_id a) zones)], Text ('' '' @ utf8_middot @ '' ''),
           Text (ft (ra_timestamp a) @ '' '' @ utf8_middot @ '' assessment_id: '' @ ra_assessment_id a)],
        el ''p''
          [Text (''Final output: '' @ toFixed (ra_compound_risk_score a) 4), Text '' '', TierBadge (ra_tier a),
           Text ('' '' @ utf8_middot @ '' Confidence: '' @ toFixed (ra_confidence a) 2)],
        el ''p''
          [Link (''/explain/'' @ ra_assessment_id a) [Text (''Explainability view '' @ utf8_arrow)], Text ('' '' @ utf8_middot @ '' ''),
           Link (''/counterfactual/'' @ ra_zone_id a @ ''?timestamp='' @ encodeURIComponent (ra_timestamp a))
             [Text (''Parallel counterfactual branch '' @ utf8_arrow)]]]"

definition raw_json :: "RiskAssessment \<Rightarrow> 'e node" where
  "raw_json a = el ''pre'' [Text (pretty_json 0 (JObj (ra_justification a)))]"

definition research_content :: "(string \<Rightarrow> string) \<Rightarrow> research \<Rightarrow> RiskAssessment \<Rightarrow> research_event node list" where
  "research_content ft s a =
     (let justification = parseJustification (ra_justification a)
      in [research_header ft (re_zones s) a,
          el ''div'' [el ''h3'' [Text ''Pipeline''], map_node Research_Diagram (PipelineDiagram ft a justification (re_diagram s))]]
         @ (case justification of
              Some j \<Rightarrow> research_cards a j @ [el ''div'' [el ''h3'' [Text ''5. Persisted Justification (raw)''], raw_json a]]
            | None \<Rightarrow> [el ''div'' [p_text ''This assessment's justification doesn't match the expected schema.'', raw_json a]]))"

definition research_view :: "(string \<Rightarrow> string) \<Rightarrow> research \<Rightarrow> research_event node list" where
  "research_view ft s =
     [el ''section''
        ([el ''p'' [Link ''/zones'' [Text (utf8_larr @ '' Zones'')]], el ''h1'' [Text ''Research Mode''],
          p_text (''The full deterministic pipeline for one persisted assessment, in execution order - closer ''
            @ ''to the wire than the Explainability view, with nothing summarized away.'')]
         @ QueryResult
             \<lparr>qp_isLoading = q_isLoading (re_assessment s), qp_error = q_error (re_assessment s),
              qp_isEmpty = (q_data (re_assessment s) = None), qp_emptyLabel = ''Assessment not found.'',
              qp_emptyHint =
                Some ''This assessment id doesn't match any persisted row - it may have been for a different environment.'',
              qp_emptyAction = Some \<lparr>ea_label = ''Go to Zones'', ea_to = ''/zones''\<rparr>, qp_loadingLabel = None,
              qp_onRetry = Some Research_Retry\<rparr>
             (cond_some (q_data (re_assessment s)) (research_content ft s)))]"

definition research_update :: "research_event \<Rightarrow> research \<Rightarrow> research" where
  "research_update e s =
     (case e of
        Research_Retry \<Rightarrow> s\<lparr>re_refetched := re_refetched s + 1\<rparr>
      | Research_Diagram x \<Rightarrow> s\<lparr>re_diagram := diagram_update x (re_diagram s)\<rparr>)"

datatype research_input = Research_Data "RiskAssessment query" "Zone list option" | Research_Timer diagram_input

text \<open>The diagram is lost while the content of the page is not shown.\<close>

definition research_env :: "research_input \<Rightarrow> research \<Rightarrow> research" where
  "research_env x s =
     (case x of
        Research_Data q zones \<Rightarrow>
          s\<lparr>re_assessment := q, re_zones := zones,
            re_diagram := (if \<not> q_isLoading q \<and> q_error q = None \<and> q_data q \<noteq> None then re_diagram s else diagram_start)\<rparr>
      | Research_Timer t \<Rightarrow> s\<lparr>re_diagram := diagram_env t (re_diagram s)\<rparr>)"

definition research_open :: "RiskAssessment query \<Rightarrow> Zone list option \<Rightarrow> research" where
  "research_open q zones = \<lparr>re_assessment = q, re_zones = zones, re_diagram = diagram_start, re_refetched = 0\<rparr>"

subsection \<open>Rules on the page\<close>

lemma rules_of_stage_grouped: "rules_of_stage (groupRulesByStage rules) st = filter (\<lambda>r. rule_stage r = st) rules"
  unfolding rules_of_stage_def by (rule own_rules_of_stage)

lemma grouped_find:
  "List.find (\<lambda>s. sr_stage s = st) (groupRulesByStage rules) = Some g \<Longrightarrow> sr_rules g = filter (\<lambda>r. rule_stage r = st) rules"
  using own_rules_of_stage[of st rules] by simp

lemma tags_of [simp]: "element_texts ''li'' (rule_tags rules) = rules"
  by (induction rules) (simp_all add: rule_tags_def)

lemma tags_agent:
  "element_texts ''li'' (agent_card (groupRulesByStage rules) j agent) = filter (\<lambda>r. rule_stage r = agentStage (fst agent)) rules"
proof (cases "List.find (\<lambda>s. sr_stage s = agentStage (fst agent)) (groupRulesByStage rules)")
  case None
  then show ?thesis using own_rules_of_stage[of "agentStage (fst agent)" rules] by (simp add: agent_card_def case_prod_beta Let_def)
next
  case (Some g)
  then show ?thesis using grouped_find[OF Some] by (simp add: agent_card_def case_prod_beta Let_def)
qed

lemma tags_unattributed:
  "concat (map (element_texts ''li'') (cond (list_ex (\<lambda>s. sr_stage s = Unattributed) (groupRulesByStage rules))
     [el ''div'' [el ''h3'' [Text t1], p_text t2, rule_tags (rules_of_stage (groupRulesByStage rules) Unattributed)]])) =
   filter (\<lambda>r. rule_stage r = Unattributed) rules"
proof (cases "list_ex (\<lambda>s. sr_stage s = Unattributed) (groupRulesByStage rules)")
  case True
  then show ?thesis by (simp add: rules_of_stage_grouped)
next
  case False
  then have "List.find (\<lambda>s. sr_stage s = Unattributed) (groupRulesByStage rules) = None" by (auto simp: find_eq_None_iff list_ex_iff)
  with False show ?thesis using own_rules_of_stage[of Unattributed rules] by simp
qed

lemma tags_transition [simp]: "element_texts ''li'' (transition_line j) = []"
  by (simp add: transition_line_def TierBadge_def)

lemma research_tags:
  "concat (map (element_texts ''li'') (research_cards a j)) =
     concat (map (\<lambda>agent. filter (\<lambda>r. rule_stage r = agentStage (fst agent)) (rj_rulesFired j)) (rj_agentContributions j))
     @ filter (\<lambda>r. rule_stage r = Fusion) (rj_rulesFired j) @ filter (\<lambda>r. rule_stage r = Tiering) (rj_rulesFired j)
     @ filter (\<lambda>r. rule_stage r = Unattributed) (rj_rulesFired j)"
  unfolding research_cards_def Let_def map_append concat_append tags_unattributed
  by (simp add: tags_agent rules_of_stage_grouped o_def)

lemma agentStage_not_scheduler: "agentStage n \<noteq> Scheduler"
  by (auto simp: agentStage_def AGENT_NAME_TO_STAGE_def split: option.splits if_splits)

text \<open>
  A fired rule is listed on the research page exactly when it belongs to fusion, to tiering, to no known stage, or to the stage of an
  agent that reported in this tick. The rule of the scheduler, which fires when an agent was unavailable, is
  never listed, although the page promises to summarize nothing away.
\<close>

theorem research_lists_rule:
  "(r \<in> set (concat (map (element_texts ''li'') (research_cards a j)))) =
     (r \<in> set (rj_rulesFired j) \<and>
      rule_stage r \<in> {Fusion, Tiering, Unattributed} \<union> agentStage ` fst ` set (rj_agentContributions j)) \<and>
   ''agent_unavailable_using_last_known'' \<notin> set (concat (map (element_texts ''li'') (research_cards a j)))"
proof
  show iff: "(r \<in> set (concat (map (element_texts ''li'') (research_cards a j)))) =
     (r \<in> set (rj_rulesFired j) \<and>
      rule_stage r \<in> {Fusion, Tiering, Unattributed} \<union> agentStage ` fst ` set (rj_agentContributions j))" for r
    unfolding research_tags by auto
  have "rule_stage ''agent_unavailable_using_last_known'' = Scheduler" by (simp add: rule_stage_def RULE_STAGE_def)
  then show "''agent_unavailable_using_last_known'' \<notin> set (concat (map (element_texts ''li'') (research_cards a j)))"
    unfolding iff by (auto simp: agentStage_not_scheduler agentStage_not_scheduler[symmetric])
qed

end
