(* ===== verification/Log_Pages.thy ===== *)
theory Log_Pages
  imports Evidence_Pages
begin

section \<open>The audit log and the work authorizations\<close>

text \<open>
  \<open>pages/AuditPage.tsx\<close> walks through the audit log in pages of 25 entries, with a stack of cursors; the backend's side of it, the
  query of \<open>src/infra/db/repositories/audit_log_repository.py\<close>, is \<open>list_all\<close>. \<open>pages/PermitsPage.tsx\<close> shows the
  permits of three statuses with their details to unfold.

  The properties: on a log with distinct timestamps, Older walks through it page by page without gap or repetition and Newer goes back the
  same way; but when the number of entries is a multiple of the page size, the last Older leads to an empty page that
  claims there are no entries and from which no button leads back.
\<close>

subsection \<open>The backend's query\<close>

text \<open>\<open>key\<close> is the instant a timestamp stands for; \<open>rows\<close> is the table in the order \<open>timestamp.desc()\<close>.\<close>

definition list_all_entries ::
  "(string \<Rightarrow> int) \<Rightarrow> AuditLogEntry list \<Rightarrow> string option \<Rightarrow> nat \<Rightarrow> string option \<Rightarrow> AuditLogEntry list" where
  "list_all_entries key rows event_type limit before =
     take limit (filter (\<lambda>e. (case event_type of None \<Rightarrow> True | Some t \<Rightarrow> al_event_type e = t) \<and>
       (case before of None \<Rightarrow> True | Some b \<Rightarrow> key (al_timestamp e) < key b)) rows)"

subsection \<open>pages/AuditPage.tsx\<close>

definition EVENT_TYPES :: "string list" where
  "EVENT_TYPES = [''risk_computed'', ''permit_flagged'', ''alert_sent'', ''action_confirmed'']"

definition PAGE_SIZE :: nat where "PAGE_SIZE = 25"

record audit =
  au_eventType :: "string option"
  au_cursorStack :: "string option list"
  au_query :: "AuditLogEntry list query"
  au_zones :: "Zone list option"
  au_refetched :: nat

datatype audit_event = Event_Type string | Newer | Older | Audit_Retry

definition au_before :: "audit \<Rightarrow> string option" where
  "au_before s = (if au_cursorStack s = [] then None else last (au_cursorStack s))"

definition au_items :: "audit \<Rightarrow> AuditLogEntry list" where
  "au_items s = (case q_data (au_query s) of Some xs \<Rightarrow> xs | None \<Rightarrow> [])"

definition au_oldest :: "audit \<Rightarrow> AuditLogEntry option" where
  "au_oldest s = (if au_items s = [] then None else Some (last (au_items s)))"

definition AuditTimeline :: "(string \<Rightarrow> string) \<Rightarrow> Zone list option \<Rightarrow> AuditLogEntry list \<Rightarrow> 'e node" where
  "AuditTimeline ft zones entries =
     el ''table''
       [el ''thead'' [el ''tr'' (map (\<lambda>h. el ''th'' [Text h]) [''Timestamp'', ''Event'', ''Actor'', ''Zone''])],
        el ''tbody'' (map (\<lambda>e. el ''tr''
          [el ''td'' [Text (ft (al_timestamp e))], el ''td'' [Text (al_event_type e)], el ''td'' [Text (al_actor e)],
           el ''td'' [Text (case truthy (al_zone_id e) of Some z \<Rightarrow> zoneLabel z zones | None \<Rightarrow> utf8_emdash)]]) entries)]"

definition audit_content :: "(string \<Rightarrow> string) \<Rightarrow> audit \<Rightarrow> audit_event node list" where
  "audit_content ft s =
     [AuditTimeline ft (au_zones s) (au_items s),
      el ''div''
        [Button [] (length (au_cursorStack s) \<noteq> 1) Newer [Text ''Newer''],
         Button [] (\<not> (length (au_items s) < PAGE_SIZE \<or> au_oldest s = None)) Older [Text ''Older'']]]"

definition audit_view :: "(string \<Rightarrow> string) \<Rightarrow> audit \<Rightarrow> audit_event node list" where
  "audit_view ft s =
     [el ''section''
        ([el ''h1'' [Text ''Audit Log''],
          p_text ''Every risk-computed, permit-flagged, alert, and action-confirmed event, in one chronological timeline.'',
          el ''div''
            [Choice ''Event type:'' (case au_eventType s of Some t \<Rightarrow> t | None \<Rightarrow> [])
               (([], ''All events'') # map (\<lambda>t. (t, t)) EVENT_TYPES) Event_Type]]
         @ QueryResult
             \<lparr>qp_isLoading = q_isLoading (au_query s), qp_error = q_error (au_query s), qp_isEmpty = (length (au_items s) = 0),
              qp_emptyLabel = ''No audit log entries yet.'',
              qp_emptyHint =
                Some (''The hash-chained writer is deferred, a disclosed limitation - see docs/frontend/known-limitations.md.''),
              qp_emptyAction = None, qp_loadingLabel = None, qp_onRetry = Some Audit_Retry\<rparr>
             (audit_content ft s))]"

definition audit_update :: "audit_event \<Rightarrow> audit \<Rightarrow> audit" where
  "audit_update e s =
     (case e of
        Event_Type t \<Rightarrow> s\<lparr>au_eventType := truthy (Some t), au_cursorStack := [None]\<rparr>
      | Newer \<Rightarrow> s\<lparr>au_cursorStack := butlast (au_cursorStack s)\<rparr>
      | Older \<Rightarrow>
          (case au_oldest s of
             Some oldest \<Rightarrow> s\<lparr>au_cursorStack := au_cursorStack s @ [Some (al_timestamp oldest)]\<rparr>
           | None \<Rightarrow> s)
      | Audit_Retry \<Rightarrow> s\<lparr>au_refetched := au_refetched s + 1\<rparr>)"

datatype audit_input = Audit_Answer "AuditLogEntry list query" | Audit_Zones "Zone list option"

definition audit_env :: "audit_input \<Rightarrow> audit \<Rightarrow> audit" where
  "audit_env x s = (case x of Audit_Answer q \<Rightarrow> s\<lparr>au_query := q\<rparr> | Audit_Zones z \<Rightarrow> s\<lparr>au_zones := z\<rparr>)"

definition audit_open :: "AuditLogEntry list query \<Rightarrow> Zone list option \<Rightarrow> audit" where
  "audit_open q z = \<lparr>au_eventType = None, au_cursorStack = [None], au_query = q, au_zones = z, au_refetched = 0\<rparr>"

subsection \<open>components/permits and pages/PermitsPage.tsx\<close>

text \<open>An answer is a page of permits with its count.\<close>

record permits_page =
  pg_zoneId :: "string option"
  pg_zones :: "Zone list option"
  pg_permits :: "string \<Rightarrow> string option \<Rightarrow> (Permit list \<times> nat) query"
  pg_expanded :: "(string \<times> string) list"
  pg_refetched :: "string list"

datatype permits_event = Permit_Zone string | Toggle_Permit string string | Retry_Group string

definition PERMIT_GROUPS :: "(string \<times> string) list" where
  "PERMIT_GROUPS = [(''Active'', ''active''), (''Flagged'', ''flagged''), (''Suspend Recommended'', ''suspend_recommended'')]"

definition group_items :: "permits_page \<Rightarrow> string \<Rightarrow> Permit list" where
  "group_items s status = (case q_data (pg_permits s status (pg_zoneId s)) of Some (items, n) \<Rightarrow> items | None \<Rightarrow> [])"

definition PermitCard ::
  "(string \<Rightarrow> string) \<Rightarrow> Zone list option \<Rightarrow> string \<Rightarrow> bool \<Rightarrow> Permit \<Rightarrow> permits_event node" where
  "PermitCard ft zones status expanded permit =
     el ''div''
       ([el ''h4'' [Text (formatPermitType (pm_permit_type permit))], p_text (zoneLabel (pm_zone_id permit) zones),
         p_text (''Issued '' @ ft (pm_issued_at permit)), p_text (''Expires '' @ ft (pm_expires_at permit)),
         Button [(''aria-expanded'', if expanded then ''true'' else ''false'')] True (Toggle_Permit status (pm_permit_id permit))
           [Text (if expanded then ''Hide details'' else ''Show details'')]]
        @ cond expanded
            [el ''dl''
               [el ''dt'' [Text ''Work Authorization ID''], el ''dd'' [Text (pm_permit_id permit)],
                el ''dt'' [Text ''Authorizing officer''], el ''dd'' [Text (pm_authorizing_officer_id permit)],
                el ''dt'' [Text ''Baseline snapshot''], el ''dd'' [el ''pre'' [Text (pretty_json 0 (JObj (pm_baseline_snapshot permit)))]]]])"

definition PermitGroup ::
  "(string \<Rightarrow> string) \<Rightarrow> permits_page \<Rightarrow> string \<times> string \<Rightarrow> permits_event node" where
  "PermitGroup ft s gr =
     (let (title, status) = gr; q = pg_permits s status (pg_zoneId s)
      in el ''section''
           (el ''h2'' [Text (title @ '' ('' @ show_nat (case q_data q of Some (items, n) \<Rightarrow> n | None \<Rightarrow> 0) @ '')'')]
            # QueryResult
                \<lparr>qp_isLoading = q_isLoading q, qp_error = q_error q, qp_isEmpty = (length (group_items s status) = 0),
                 qp_emptyLabel = ''No '' @ toLowerCase title @ '' work authorizations.'',
                 qp_emptyHint =
                   Some (''A work authorization moves into this group automatically as Permit Intelligence re-evaluates it each tick.''),
                 qp_emptyAction = None, qp_loadingLabel = None, qp_onRetry = Some (Retry_Group status)\<rparr>
                [el ''div'' (map (\<lambda>p. PermitCard ft (pg_zones s) status ((status, pm_permit_id p) \<in> set (pg_expanded s)) p)
                   (group_items s status))]))"

definition permits_view :: "(string \<Rightarrow> string) \<Rightarrow> permits_page \<Rightarrow> permits_event node list" where
  "permits_view ft s =
     [el ''section''
        ([el ''h1'' [Text ''Work Authorizations''],
          p_text (''Every hot work, confined space, isolation, and line break authorization, grouped by ''
            @ ''status - active, flagged, and suspend-recommended.''),
          el ''div''
            [Choice ''Zone:'' (case pg_zoneId s of Some z \<Rightarrow> z | None \<Rightarrow> [])
               (([], ''All zones'') # map (\<lambda>z. (zn_zone_id z, zn_name z)) (case pg_zones s of Some zs \<Rightarrow> zs | None \<Rightarrow> [])) Permit_Zone]]
         @ map (PermitGroup ft s) PERMIT_GROUPS)]"

text \<open>The state of a card is lost when its group stops showing it.\<close>

definition mounted_card :: "permits_page \<Rightarrow> string \<times> string \<Rightarrow> bool" where
  "mounted_card s c =
     (let (status, i) = c; q = pg_permits s status (pg_zoneId s)
      in \<not> q_isLoading q \<and> q_error q = None \<and> i \<in> pm_permit_id ` set (group_items s status))"

definition permits_settle :: "permits_page \<Rightarrow> permits_page" where
  "permits_settle s = s\<lparr>pg_expanded := filter (mounted_card s) (pg_expanded s)\<rparr>"

definition permits_update :: "permits_event \<Rightarrow> permits_page \<Rightarrow> permits_page" where
  "permits_update e s =
     permits_settle (case e of
        Permit_Zone z \<Rightarrow> s\<lparr>pg_zoneId := truthy (Some z)\<rparr>
      | Toggle_Permit status i \<Rightarrow>
          s\<lparr>pg_expanded := (if (status, i) \<in> set (pg_expanded s) then filter (\<lambda>c. c \<noteq> (status, i)) (pg_expanded s)
              else (status, i) # pg_expanded s)\<rparr>
      | Retry_Group status \<Rightarrow> s\<lparr>pg_refetched := pg_refetched s @ [status]\<rparr>)"

datatype permits_input = Permits_Answer "string \<Rightarrow> string option \<Rightarrow> (Permit list \<times> nat) query" | Permits_Zones "Zone list option"

definition permits_env :: "permits_input \<Rightarrow> permits_page \<Rightarrow> permits_page" where
  "permits_env x s =
     permits_settle (case x of Permits_Answer f \<Rightarrow> s\<lparr>pg_permits := f\<rparr> | Permits_Zones z \<Rightarrow> s\<lparr>pg_zones := z\<rparr>)"

definition permits_open :: "(string \<Rightarrow> string option \<Rightarrow> (Permit list \<times> nat) query) \<Rightarrow> Zone list option \<Rightarrow> permits_page" where
  "permits_open f z = \<lparr>pg_zoneId = None, pg_zones = z, pg_permits = f, pg_expanded = [], pg_refetched = []\<rparr>"

subsection \<open>Walking through the log\<close>

text \<open>A page once its request is answered from an unchanged table, and the user's two moves.\<close>

definition answered :: "(string \<Rightarrow> int) \<Rightarrow> AuditLogEntry list \<Rightarrow> audit \<Rightarrow> audit" where
  "answered key rows s =
     audit_env (Audit_Answer \<lparr>q_data = Some (list_all_entries key rows (au_eventType s) PAGE_SIZE (au_before s)),
       q_isLoading = False, q_error = None\<rparr>) s"

definition go_older :: "(string \<Rightarrow> int) \<Rightarrow> AuditLogEntry list \<Rightarrow> audit \<Rightarrow> audit" where
  "go_older key rows s = answered key rows (audit_update Older s)"

definition go_newer :: "(string \<Rightarrow> int) \<Rightarrow> AuditLogEntry list \<Rightarrow> audit \<Rightarrow> audit" where
  "go_newer key rows s = answered key rows (audit_update Newer s)"

definition first_page :: "(string \<Rightarrow> int) \<Rightarrow> AuditLogEntry list \<Rightarrow> string \<Rightarrow> audit \<Rightarrow> audit" where
  "first_page key rows event_type s = answered key rows (audit_update (Event_Type event_type) s)"

definition rows_of_type :: "string \<Rightarrow> AuditLogEntry list \<Rightarrow> AuditLogEntry list" where
  "rows_of_type event_type rows =
     filter (\<lambda>e. case truthy (Some event_type) of None \<Rightarrow> True | Some t \<Rightarrow> al_event_type e = t) rows"

definition newest_first :: "(string \<Rightarrow> int) \<Rightarrow> AuditLogEntry list \<Rightarrow> bool" where
  "newest_first key rows \<longleftrightarrow> sorted_wrt (\<lambda>a b. key (al_timestamp b) < key (al_timestamp a)) rows"

lemma answered_simps [simp]:
  "au_cursorStack (answered key rows s) = au_cursorStack s" "au_eventType (answered key rows s) = au_eventType s"
  "au_zones (answered key rows s) = au_zones s" "au_refetched (answered key rows s) = au_refetched s"
  "au_items (answered key rows s) = list_all_entries key rows (au_eventType s) PAGE_SIZE (au_before s)"
  by (simp_all add: answered_def audit_env_def au_items_def)

lemma filter_below:
  assumes "newest_first key xs" "i < length xs"
  shows "filter (\<lambda>e. key (al_timestamp e) < key (al_timestamp (xs ! i))) xs = drop (Suc i) xs"
proof -
  have desc: "key (al_timestamp (xs ! b)) < key (al_timestamp (xs ! a))" if "a < b" "b < length xs" for a b
    using that assms(1) by (simp add: newest_first_def sorted_wrt_iff_nth_less)
  have below: "key (al_timestamp (xs ! j)) < key (al_timestamp (xs ! i)) \<longleftrightarrow> i < j" if "j < length xs" for j
    using that assms(2) desc[of i j] desc[of j i] by (cases i j rule: linorder_cases) auto
  have "filter (\<lambda>e. key (al_timestamp e) < key (al_timestamp (xs ! i))) (take (Suc i) xs) = []"
    using assms(2) by (auto simp: filter_empty_conv in_set_conv_nth less_Suc_eq below)
  moreover have "filter (\<lambda>e. key (al_timestamp e) < key (al_timestamp (xs ! i))) (drop (Suc i) xs) = drop (Suc i) xs"
    using assms(2) by (intro filter_True) (auto simp: in_set_conv_nth below)
  ultimately show ?thesis by (metis append_take_drop_id filter_append append_Nil)
qed

lemma entries_after:
  assumes "newest_first key (rows_of_type t rows)" "i < length (rows_of_type t rows)"
  shows "list_all_entries key rows (truthy (Some t)) n (Some (al_timestamp (rows_of_type t rows ! i))) = take n (drop (Suc i) (rows_of_type t rows))"
proof -
  let ?F = "rows_of_type t rows"
  have "filter (\<lambda>e. (case truthy (Some t) of None \<Rightarrow> True | Some t \<Rightarrow> al_event_type e = t) \<and> key (al_timestamp e) < key (al_timestamp (?F ! i))) rows =
      filter (\<lambda>e. key (al_timestamp e) < key (al_timestamp (?F ! i))) ?F"
    by (simp add: rows_of_type_def conj_commute)
  then show ?thesis using filter_below[OF assms] by (simp add: list_all_entries_def)
qed

lemma go_older_simps:
  assumes "au_oldest s = Some e"
  shows "au_items (go_older key rows s) = list_all_entries key rows (au_eventType s) PAGE_SIZE (Some (al_timestamp e))"
    and "au_cursorStack (go_older key rows s) = au_cursorStack s @ [Some (al_timestamp e)]"
    and "au_eventType (go_older key rows s) = au_eventType s"
  using assms by (simp_all add: go_older_def audit_update_def au_before_def)

lemma answered_twice: "answered key rows (answered key rows s) = answered key rows s"
  by (simp add: answered_def audit_env_def au_before_def)

text \<open>The cursor is exclusive: what shares its instant with the last entry of a page is on no later page.\<close>

lemma tied_entries_skipped:
  "e \<in> set (list_all_entries key rows event_type n (Some (al_timestamp oldest))) \<Longrightarrow> key (al_timestamp e) < key (al_timestamp oldest)"
  by (auto simp: list_all_entries_def dest!: in_set_takeD)

text \<open>The state after \<open>k\<close> times Older.\<close>

lemma older_pages:
  fixes s0 :: audit
  assumes "newest_first key (rows_of_type t rows)" "PAGE_SIZE * k \<le> length (rows_of_type t rows)"
  defines "s \<equiv> (go_older key rows ^^ k) (first_page key rows t s0)"
  shows "au_items s = take PAGE_SIZE (drop (PAGE_SIZE * k) (rows_of_type t rows))" and "length (au_cursorStack s) = Suc k"
    and "au_eventType s = truthy (Some t)" and "answered key rows s = s"
  using assms(2) unfolding s_def
proof (induction k)
  case 0
  { case 1 show ?case by (simp add: first_page_def audit_update_def au_before_def list_all_entries_def rows_of_type_def) }
  { case 2 show ?case by (simp add: first_page_def audit_update_def) }
  { case 3 show ?case by (simp add: first_page_def audit_update_def) }
  { case 4 show ?case by (simp add: first_page_def answered_def audit_env_def au_before_def) }
next
  case (Suc k)
  let ?F = "rows_of_type t rows" and ?s = "(go_older key rows ^^ k) (first_page key rows t s0)"
  let ?i = "PAGE_SIZE * k + 24"
  have full: "PAGE_SIZE * Suc k \<le> length ?F \<Longrightarrow> au_oldest ?s = Some (?F ! ?i) \<and> ?i < length ?F"
    using Suc.IH(1) by (simp add: au_oldest_def PAGE_SIZE_def last_conv_nth)
  have next_page: "drop (Suc ?i) ?F = drop (PAGE_SIZE * Suc k) ?F" by (simp add: PAGE_SIZE_def add.commute)
  have step: "(go_older key rows ^^ Suc k) (first_page key rows t s0) = go_older key rows ?s" by simp
  { case 1
    then have o: "au_oldest ?s = Some (?F ! ?i)" and i: "?i < length ?F" and et: "au_eventType ?s = truthy (Some t)"
      using full Suc.IH(3) by simp_all
    show ?case unfolding step go_older_simps(1)[OF o] et entries_after[OF assms(1) i] next_page .. }
  { case 2
    then have o: "au_oldest ?s = Some (?F ! ?i)" and l: "length (au_cursorStack ?s) = Suc k" using full Suc.IH(2) by simp_all
    show ?case unfolding step go_older_simps(2)[OF o] using l by simp }
  { case 3
    then have o: "au_oldest ?s = Some (?F ! ?i)" and et: "au_eventType ?s = truthy (Some t)" using full Suc.IH(3) by simp_all
    show ?case unfolding step go_older_simps(3)[OF o] by (rule et) }
  { case 4 show ?case unfolding step by (simp only: go_older_def answered_twice) }
qed

lemma newer_after_older:
  assumes "newest_first key (rows_of_type t rows)" "PAGE_SIZE * Suc k \<le> length (rows_of_type t rows)"
  shows "go_newer key rows ((go_older key rows ^^ Suc k) (first_page key rows t s0)) = (go_older key rows ^^ k) (first_page key rows t s0)"
proof -
  let ?s = "(go_older key rows ^^ k) (first_page key rows t s0)"
  have le: "PAGE_SIZE * k \<le> length (rows_of_type t rows)" using assms(2) by simp
  note page = older_pages[OF assms(1) le, of s0]
  have "au_items ?s \<noteq> []" using page(1) assms(2) by (simp add: PAGE_SIZE_def)
  then obtain e where e: "au_oldest ?s = Some e" by (simp add: au_oldest_def)
  have "go_newer key rows (go_older key rows ?s) = answered key rows ?s"
    using e by (simp add: go_newer_def go_older_def audit_update_def answered_def audit_env_def au_before_def)
  with page(4) show ?thesis by simp
qed

lemma empty_audit_page:
  assumes "au_items s = []" "\<not> q_isLoading (au_query s)" "q_error (au_query s) = None"
  shows "''No audit log entries yet.'' \<in> set (concat (map (element_texts ''p'') (audit_view ft s)))"
    and "offers (audit_view ft s) = Event_Type ` ({[]} \<union> set EVENT_TYPES)"
proof -
  define q where "q = (EmptyState ''No audit log entries yet.''
    (Some ''The hash-chained writer is deferred, a disclosed limitation - see docs/frontend/known-limitations.md.'') None :: audit_event node)"
  have q: "offered q = {}" "''No audit log entries yet.'' \<in> set (element_texts ''p'' q)" by (simp_all add: q_def) (simp add: EmptyState_def)
  have r: "QueryResult p c = [EmptyState (qp_emptyLabel p) (qp_emptyHint p) (qp_emptyAction p)]"
    if "\<not> qp_isLoading p" "qp_error p = None" "qp_isEmpty p" for p :: "audit_event query_props" and c
    using that by (simp add: QueryResult_def)
  note view = audit_view_def[of ft s]
  show "''No audit log entries yet.'' \<in> set (concat (map (element_texts ''p'') (audit_view ft s)))"
    unfolding view by (subst r) (use assms q(2) in \<open>simp_all add: q_def\<close>)
  show "offers (audit_view ft s) = Event_Type ` ({[]} \<union> set EVENT_TYPES)"
    unfolding view by (subst r) (use assms q(1) in \<open>simp_all add: image_image\<close>)
qed

subsection \<open>Properties\<close>

text \<open>
  (C14) On an unchanged log with distinct instants, the pages are the consecutive pieces of the entries of the chosen type, in order
  and without gap or repetition: the \<open>k\<close>-th Older shows the entries from \<open>25 k\<close> on, and Newer goes back to exactly the
  page before.
\<close>

theorem audit_pages_in_order:
  assumes "newest_first key (rows_of_type t rows)" and "PAGE_SIZE * k \<le> length (rows_of_type t rows)"
  shows "au_items ((go_older key rows ^^ k) (first_page key rows t s)) = take PAGE_SIZE (drop (PAGE_SIZE * k) (rows_of_type t rows)) \<and>
     (case k of
        0 \<Rightarrow> au_cursorStack (first_page key rows t s) = [None]
      | Suc j \<Rightarrow> go_newer key rows ((go_older key rows ^^ k) (first_page key rows t s)) = (go_older key rows ^^ j) (first_page key rows t s))"
proof (cases k)
  case 0
  then show ?thesis using older_pages(1)[OF assms, of s] by (simp add: first_page_def audit_update_def)
next
  case (Suc j)
  then show ?thesis using older_pages(1)[OF assms, of s] newer_after_older[OF assms(1), of j s] assms(2) by simp
qed

definition sample_entry :: "nat \<Rightarrow> AuditLogEntry" where
  "sample_entry i = \<lparr>al_log_id = replicate i CHR ''i'', al_event_type = ''alert_sent'', al_actor = ''engine'', al_zone_id = None,
     al_payload = [], al_timestamp = replicate i CHR ''t''\<rparr>"

theorem audit_pages_in_order_witness:
  "map (\<lambda>e. length (al_timestamp e))
     (au_items (go_older (\<lambda>t. int (length t)) (map sample_entry (rev [0..<27]))
       (first_page (\<lambda>t. int (length t)) (map sample_entry (rev [0..<27])) ''alert_sent''
         (audit_open \<lparr>q_data = None, q_isLoading = True, q_error = None\<rparr> None)))) = [1, 0]"
proof -
  let ?rows = "map sample_entry (rev [0..<27])"
  have rows: "rows_of_type ''alert_sent'' ?rows = ?rows"
    unfolding rows_of_type_def truthy_def by (rule filter_True) (auto simp: sample_entry_def)
  have "newest_first (\<lambda>t. int (length t)) (rows_of_type ''alert_sent'' ?rows)"
    unfolding rows newest_first_def by (simp add: sorted_wrt_map sample_entry_def sorted_wrt_rev)
  then show ?thesis
    using audit_pages_in_order[of "\<lambda>t. int (length t)" "''alert_sent''" ?rows 1 "audit_open \<lparr>q_data = None, q_isLoading = True, q_error = None\<rparr> None"]
    unfolding rows by (simp add: PAGE_SIZE_def drop_map take_map drop_rev take_rev o_def sample_entry_def)
qed

text \<open>
  When the number of entries is a positive multiple of the page size, the walk ends beyond the log: the last full page still offers
  Older, and it leads to a page that says that there are no audit log entries yet, where neither Newer nor Older is offered:
  only the choice of an event type leads away.
\<close>

theorem audit_walks_off_the_end:
  "(if newest_first key (rows_of_type t rows) \<and> length (rows_of_type t rows) = PAGE_SIZE * Suc k
    then let s = (go_older key rows ^^ k) (first_page key rows t s0)
         in Older \<in> offers (audit_view ft s) \<and> length (au_items s) = PAGE_SIZE \<and>
            au_items (go_older key rows s) = [] \<and>
            ''No audit log entries yet.'' \<in> set (concat (map (element_texts ''p'') (audit_view ft (go_older key rows s)))) \<and>
            offers (audit_view ft (go_older key rows s)) = Event_Type ` ({[]} \<union> set EVENT_TYPES)
    else True)"
proof -
  have main: "Older \<in> offers (audit_view ft s) \<and> length (au_items s) = PAGE_SIZE \<and> au_items (go_older key rows s) = [] \<and>
      ''No audit log entries yet.'' \<in> set (concat (map (element_texts ''p'') (audit_view ft (go_older key rows s)))) \<and>
      offers (audit_view ft (go_older key rows s)) = Event_Type ` ({[]} \<union> set EVENT_TYPES)"
    if F: "newest_first key (rows_of_type t rows)" "length (rows_of_type t rows) = PAGE_SIZE * Suc k"
      and s: "s = (go_older key rows ^^ k) (first_page key rows t s0)" for s
  proof -
    have len: "length (au_items s) = PAGE_SIZE" using older_pages(1)[OF F(1), of k s0] F(2) by (simp add: s)
    have quiet: "\<not> q_isLoading (au_query (answered key rows x))" "q_error (au_query (answered key rows x)) = None" for x
      by (simp_all add: answered_def audit_env_def)
    have same: "answered key rows s = s" using older_pages(4)[OF F(1), of k s0] F(2) by (simp add: s)
    have none: "au_items (go_older key rows s) = []" using older_pages(1)[OF F(1), of "Suc k" s0] F(2) by (simp add: s)
    have "Older \<in> offers (audit_content ft s)" using len by (auto simp: audit_content_def au_oldest_def PAGE_SIZE_def)
    moreover have "audit_content ft s = QueryResult p (audit_content ft s)"
      if "\<not> qp_isLoading p" "qp_error p = None" "\<not> qp_isEmpty p" for p using that by (simp add: QueryResult_def)
    ultimately have "Older \<in> offers (audit_view ft s)"
      using quiet[of s] len unfolding same by (auto simp: audit_view_def QueryResult_def PAGE_SIZE_def)
    with len none show ?thesis
      using empty_audit_page[OF none] quiet[of "audit_update Older s"] by (simp add: go_older_def)
  qed
  then show ?thesis unfolding Let_def by simp
qed

end
