(* ===== verification/Plant_Pages.thy ===== *)
theory Plant_Pages
  imports Plant_Panels Time_Machine
begin

section \<open>Pages of the whole plant\<close>

text \<open>
  \<open>pages/OverviewPage.tsx\<close>, \<open>pages/EnterpriseOperationsPage.tsx\<close>, \<open>pages/CeoDashboardPage.tsx\<close>, \<open>pages/ZonePage.tsx\<close>,
  \<open>pages/ScenarioLibraryPage.tsx\<close> and \<open>pages/PlatformHealthPage.tsx\<close>: six pages that draw what the libraries compute from their
  queries; a click on a zone of the overview's map navigates.

  The properties: the executive summary always shows the first zone of highest score, so it announces that every zone operates
  normally exactly when no zone has reported at all; the corporate overview is the rollup of the plants whose replay has arrived,
  and says ready before any has.
\<close>

definition rows_of :: "'a list query \<Rightarrow> 'a list" where
  "rows_of q = (case q_data q of Some xs \<Rightarrow> xs | None \<Rightarrow> [])"

definition page_result ::
  "'a query \<Rightarrow> bool \<Rightarrow> string \<Rightarrow> string option \<Rightarrow> EmptyStateAction option \<Rightarrow> 'e option \<Rightarrow> 'e query_props" where
  "page_result q isEmpty label hint action retry =
     \<lparr>qp_isLoading = q_isLoading q, qp_error = q_error q, qp_isEmpty = isEmpty, qp_emptyLabel = label, qp_emptyHint = hint,
      qp_emptyAction = action, qp_loadingLabel = None, qp_onRetry = retry\<rparr>"

subsection \<open>pages/OverviewPage.tsx\<close>

record overview =
  ov_risk :: "RiskAssessment list query"
  ov_dual :: dual
  ov_hoveredZoneId :: "string option"
  ov_navigated :: "string list"

definition overview_map :: "overview \<Rightarrow> PlantMapZone list" where
  "overview_map s =
     (let d = ov_dual s; zoneIds = map ra_zone_id (rows_of (ov_risk s))
      in map (\<lambda>(index, a). entry_zone d (data_at (workerCounts d zoneIds) index) (data_at (zoneSensors d zoneIds) index) (ra_zone_id a, a))
           (enumerate 0 (rows_of (ov_risk s))))"

definition zone_card :: "(string \<Rightarrow> string) \<Rightarrow> Zone list option \<Rightarrow> RiskAssessment \<Rightarrow> 'e node" where
  "zone_card ft zones a =
     Link (''/zones/'' @ ra_zone_id a)
       [el ''h3'' [Text (zoneLabel (ra_zone_id a) zones)], el ''p'' [TierBadge (ra_tier a)],
        p_text (''Overall plant risk: '' @ toFixed (ra_compound_risk_score a) 1), p_text (''Confidence: '' @ percent0 (ra_confidence a)),
        p_text (ft (ra_timestamp a))]"

definition launch_card :: "string \<Rightarrow> string \<Rightarrow> string \<Rightarrow> 'e node" where
  "launch_card to title sub = Link to [el ''span'' [Text title], el ''span'' [Text sub]]"

definition overview_hero :: "'e node" where
  "overview_hero =
     el ''div''
       [el ''h1'' [Text ''Industrial Safety Intelligence Platform''],
        p_text (''Deterministic AI '' @ utf8_middot @ '' Explainable Decision Engine '' @ utf8_middot @ '' Live Digital Twin''),
        el ''div''
          [launch_card ''/digital-twin'' ''Live Digital Twin'' ''See every zone, worker, and work authorization in real time'',
           launch_card ''/operations'' ''Operations Center'' ''What to do right now, in priority order'',
           launch_card ''/story'' ''Presentation Mode'' ''A guided, 90-second tour of the whole platform'']]"

definition overview_content :: "(string \<Rightarrow> string) \<Rightarrow> overview \<Rightarrow> string node list" where
  "overview_content ft s =
     (let rows = rows_of (ov_risk s)
      in [el ''div''
            [el ''p'' [Text ''Plant status: '', (case worstTier (map ra_tier rows) of Some t \<Rightarrow> TierBadge t | None \<Rightarrow> Text utf8_emdash)],
             p_text (''Last update: '' @ (case truthy (latestTimestamp (map ra_timestamp rows)) of Some t \<Rightarrow> ft t | None \<Rightarrow> utf8_emdash)),
             p_text (''Zones reporting: '' @ show_nat (length rows))],
          el ''div'' [PlantMap ft (overview_map s) (Some (\<lambda>z. ''/zones/'' @ z)) False None (ov_hoveredZoneId s)],
          el ''div'' (map (zone_card ft (du_zones (ov_dual s))) rows)])"

text \<open>The events of the page are the addresses it navigates to.\<close>

definition overview_view :: "(string \<Rightarrow> string) \<Rightarrow> overview \<Rightarrow> string node list" where
  "overview_view ft s =
     [el ''section''
        ([overview_hero, el ''h2'' [Text ''Zone Status'']]
         @ QueryResult (page_result (ov_risk s) (length (rows_of (ov_risk s)) = 0) ''No safety assessments have been recorded yet.'' None None None)
             (overview_content ft s))]"

definition overview_update :: "string \<Rightarrow> overview \<Rightarrow> overview" where
  "overview_update url s = s\<lparr>ov_navigated := ov_navigated s @ [url]\<rparr>"

subsection \<open>pages/EnterpriseOperationsPage.tsx\<close>

definition loaded_summaries :: "(string \<Rightarrow> ReplayData query) \<Rightarrow> ScenarioSummary list \<Rightarrow> PlantSummary list" where
  "loaded_summaries replays scenarios =
     List.map_filter (\<lambda>scenario. map_option (buildPlantSummary scenario) (q_data (replays (ss_key scenario)))) scenarios"

definition enterprise_kpi :: "string \<Rightarrow> 'e node \<Rightarrow> 'e node" where
  "enterprise_kpi label v = el ''div'' [el ''span'' [v], el ''span'' [Text label]]"

definition readiness_key :: "PlantReadiness \<Rightarrow> string" where
  "readiness_key r = (case r of ready \<Rightarrow> ''ready'' | degraded \<Rightarrow> ''degraded'' | not_ready \<Rightarrow> ''not_ready'')"

definition readiness_text :: "PlantReadiness \<Rightarrow> string" where
  "readiness_text r = the (map_of READINESS_LABEL r)"

definition corporate_card :: "CorporateOverview \<Rightarrow> 'e node" where
  "corporate_card c =
     el ''div''
       [el ''h3'' [Text ''Corporate Overview''],
        el ''div''
          [enterprise_kpi ''Plants'' (Text (show_nat (co_plantCount c))), enterprise_kpi ''Zones'' (Text (show_nat (co_totalZones c))),
           enterprise_kpi ''Enterprise Risk'' (case co_worstTier c of Some t \<Rightarrow> TierBadge t | None \<Rightarrow> Text utf8_emdash),
           enterprise_kpi ''Avg Compound Score'' (Text (toFixed (co_averageCompoundScore c) 1)),
           enterprise_kpi ''Incidents'' (Text (show_nat (co_totalIncidents c))),
           el ''div''
             [El ''span'' [(''class'', ''enterprise-readiness enterprise-readiness-'' @ readiness_key (co_readiness c))]
                [Text (readiness_text (co_readiness c))],
              el ''span'' [Text ''Operational Readiness'']]]]"

definition plant_stat :: "string \<Rightarrow> string \<Rightarrow> 'e node" where
  "plant_stat label v = el ''div'' [el ''dt'' [Text label], el ''dd'' [Text v]]"

definition plant_card :: "PlantSummary \<Rightarrow> 'e node" where
  "plant_card p =
     Link (''/scenarios/'' @ pl_scenarioKey p)
       [el ''div'' (el ''h3'' [Text (pl_title p)] # cond_some (pl_worstTier p) (\<lambda>t. [TierBadge t])),
        p_text (pl_description p),
        el ''dl''
          [plant_stat ''Zones'' (show_nat (pl_zoneCount p)), plant_stat ''Ticks replayed'' (num_toString (pl_tickCount p)),
           plant_stat ''Duration'' (num_toString (pl_durationMinutes p) @ '' min''),
           plant_stat ''Avg score'' (toFixed (pl_averageCompoundScore p) 1), plant_stat ''Incidents'' (show_nat (pl_incidentCount p)),
           plant_stat ''Readiness'' (readiness_text (pl_readiness p))]]"

definition enterprise_content :: "(string \<Rightarrow> ReplayData query) \<Rightarrow> ScenarioSummary list \<Rightarrow> 'e node list" where
  "enterprise_content replays scenarios =
     (let summaries = loaded_summaries replays scenarios;
          stillLoading = list_ex (\<lambda>x. q_isLoading (replays (ss_key x))) scenarios
      in [corporate_card (buildCorporateOverview summaries),
          el ''div'' (map plant_card summaries
            @ cond (stillLoading \<and> length summaries = 0) [p_text (''Loading plant data'' @ utf8_ellipsis)])])"

definition enterprise_view :: "(string \<Rightarrow> ReplayData query) \<Rightarrow> ScenarioSummary list query \<Rightarrow> unit node list" where
  "enterprise_view replays q =
     [el ''section''
        ([el ''h1'' [Text ''Enterprise Operations''],
          p_text (''Every cataloged scenario stands in for one facility, backed entirely by real, already ''
            @ ''persisted risk assessments - see the Deployment Readiness Assessment for why this platform ''
            @ ''presents a multi-plant view without fabricating additional plants.'')]
         @ QueryResult (page_result q (length (rows_of q) = 0) ''No scenarios cataloged.'' None None (Some ()))
             (enterprise_content replays (rows_of q)))]"

subsection \<open>pages/CeoDashboardPage.tsx\<close>

record ceo_data =
  ce_risk :: "RiskAssessment list query"
  ce_zones :: "Zone list option"
  ce_workers :: "string \<Rightarrow> ZoneWorkerCount option"
  ce_matches :: "string \<Rightarrow> string \<Rightarrow> IncidentMatch list option"

definition ceo_top :: "ceo_data \<Rightarrow> ZoneAssessment option" where
  "ceo_top d = highestRiskZone (map (\<lambda>a. \<lparr>za_zoneId = ra_zone_id a, za_assessment = a\<rparr>) (rows_of (ce_risk d)))"

definition ceo_dashboard :: "ceo_data \<Rightarrow> ZoneAssessment \<Rightarrow> CeoDashboardData" where
  "ceo_dashboard d tz =
     (let a = za_assessment tz; justification = parseJustification (ra_justification a);
          recommendations = deriveRecommendations (ra_tier a) justification
      in buildCeoDashboard a justification recommendations (head_option (buildActionQueue recommendations justification))
           (case ce_workers d (za_zoneId tz) of Some w \<Rightarrow> zw_worker_count w | None \<Rightarrow> 0)
           (Option.bind (ce_matches d (za_zoneId tz) (ra_timestamp a)) head_option))"

definition risk_level_name :: "BusinessRiskLevel \<Rightarrow> string" where
  "risk_level_name l =
     (case l of Severe \<Rightarrow> ''Severe'' | Significant \<Rightarrow> ''Significant'' | Moderate \<Rightarrow> ''Moderate'' | Low \<Rightarrow> ''Low'')"

definition ceo_card :: "string \<Rightarrow> 'e node list \<Rightarrow> 'e node" where
  "ceo_card title ns = el ''div'' (el ''h3'' [Text title] # ns)"

definition ceo_cards :: "Zone list option \<Rightarrow> ZoneAssessment \<Rightarrow> CeoDashboardData \<Rightarrow> 'e node list" where
  "ceo_cards zones tz c =
     [el ''div''
        [ceo_card ''Current Situation'' [p_text (cd_currentSituation c), p_text (''Location: '' @ zoneLabel (za_zoneId tz) zones)],
         ceo_card ''Business Risk''
           [El ''p'' [(''class'', ''ceo-dashboard-value ceo-risk-'' @ toLowerCase (risk_level_name (br_level (cd_businessRisk c))))]
              [Text (risk_level_name (br_level (cd_businessRisk c)))],
            p_text (br_description (cd_businessRisk c))],
         ceo_card ''Operational Risk''
           [p_text (cd_operationalRiskLabel c), p_text (''Severity score: '' @ toFixed (cd_operationalRiskScore c) 0 @ '' / 100'')],
         ceo_card ''Estimated Downtime''
           (let e = cd_estimatedDowntime c
            in [p_text (if ed_sourced e then ed_text e else ''Not available''),
                p_text (if ed_sourced e then ''Based on the closest comparable historical incident.'' else ed_text e)]),
         ceo_card ''Workers Affected'' [p_text (num_toString (cd_workersAffected c)), p_text ''Headcount in the affected zone''],
         ceo_card ''Recommended Decision'' [p_text (cd_recommendedDecision c)],
         ceo_card ''Confidence'' [p_text (num_toString (of_int (cd_confidencePercent c)) @ ''%'')],
         ceo_card ''Expected Outcome'' [p_text (cd_expectedOutcome c)]]]"

definition ceo_body :: "ceo_data \<Rightarrow> unit node list" where
  "ceo_body d =
     QueryResult (page_result (ce_risk d) (ceo_top d = None)
         ''No active situation - every zone is currently operating normally.'' None None (Some ()))
       (cond_some (ceo_top d) (\<lambda>tz. ceo_cards (ce_zones d) tz (ceo_dashboard d tz)))"

definition ceo_view :: "ceo_data \<Rightarrow> unit node list" where
  "ceo_view d =
     [el ''section''
        ([el ''h1'' [Text ''Executive Summary''], p_text ''The single most urgent situation right now, in plain business terms.'']
         @ ceo_body d)]"

subsection \<open>pages/ZonePage.tsx\<close>

definition zone_picker :: "RiskAssessment list query \<Rightarrow> Zone list option \<Rightarrow> unit node list" where
  "zone_picker q zones =
     [el ''section''
        ([el ''h1'' [Text ''Zones''],
          p_text (''Every monitored zone, at its current operational status. Pick one for its full history and trend.'')]
         @ QueryResult
             (page_result q (length (rows_of q) = 0) ''No zones have reported a safety assessment yet.''
               (Some (''A zone appears here as soon as it reports its first assessment - run a scenario to populate one.''))
               (Some \<lparr>ea_label = ''Go to Scenario Library'', ea_to = ''/scenarios''\<rparr>) (Some ()))
             [el ''div'' (map (\<lambda>a. Link (''/zones/'' @ ra_zone_id a)
                [el ''h3'' [Text (zoneLabel (ra_zone_id a) zones)], TierBadge (ra_tier a)]) (rows_of q))])]"

definition latest_card :: "(string \<Rightarrow> string) \<Rightarrow> string \<Rightarrow> RiskAssessment \<Rightarrow> RiskAssessment option \<Rightarrow> 'e node" where
  "latest_card ft zoneId latest previous =
     el ''div''
       [el ''p'' [Text (''Current risk: '' @ toFixed (ra_compound_risk_score latest) 1), Text '' '', TierBadge (ra_tier latest)],
        p_text (''Confidence: '' @ percent0 (ra_confidence latest)),
        el ''p'' [Text ''Trend:'', Text '' '',
          TrendIndicator (ra_compound_risk_score latest) (map_option ra_compound_risk_score previous)],
        p_text (''As of '' @ ft (ra_timestamp latest)),
        el ''p''
          [Link (''/explain/'' @ ra_assessment_id latest) [Text (''Explain this assessment '' @ utf8_arrow)],
           Text ('' '' @ utf8_middot @ '' ''),
           Link (''/counterfactual/'' @ zoneId @ ''?timestamp='' @ encodeURIComponent (ra_timestamp latest))
             [Text (''Compare to naive baseline '' @ utf8_arrow)]]]"

definition zone_detail :: "(string \<Rightarrow> string) \<Rightarrow> RiskAssessment list query \<Rightarrow> Zone list option \<Rightarrow> string \<Rightarrow> unit node list" where
  "zone_detail ft q zones zoneId =
     (let items = rows_of q
      in [el ''section''
            ([el ''p'' [Link ''/zones'' [Text (utf8_larr @ '' All zones'')]], el ''h1'' [Text (zoneLabel zoneId zones)]]
             @ QueryResult
                 (page_result q (length items = 0) ''No safety assessment history for this zone yet.''
                   (Some (''This zone hasn't reported an assessment yet - run a scenario that includes it to populate this history.''))
                   (Some \<lparr>ea_label = ''Go to Scenario Library'', ea_to = ''/scenarios''\<rparr>) (Some ()))
                 (cond_some (head_option items) (\<lambda>latest. [latest_card ft zoneId latest (nth_opt items 1)])
                  @ [el ''h2'' [Text ''History''], RiskHistoryChart items]))])"

definition zone_page ::
  "(string \<Rightarrow> string) \<Rightarrow> RiskAssessment list query \<Rightarrow> (string \<Rightarrow> RiskAssessment list query) \<Rightarrow> Zone list option \<Rightarrow> string option \<Rightarrow>
   unit node list" where
  "zone_page ft current history zones zoneId =
     (case truthy zoneId of Some z \<Rightarrow> zone_detail ft (history z) zones z | None \<Rightarrow> zone_picker current zones)"

subsection \<open>pages/ScenarioLibraryPage.tsx\<close>

definition utf8_endash :: string where "utf8_endash = [CHR 0xE2, CHR 0x80, CHR 0x93]"

definition library_card :: "(string \<Rightarrow> string) \<Rightarrow> Zone list option \<Rightarrow> ScenarioSummary \<Rightarrow> 'e node" where
  "library_card ft zones x =
     Link (''/scenarios/'' @ ss_key x)
       [el ''h3'' [Text (ss_title x)], p_text (ss_description x),
        p_text (ft (ss_start_time x) @ '' '' @ utf8_endash @ '' '' @ ft (ss_end_time x)),
        p_text (''Zones: '' @ js_join '', '' (map (\<lambda>z. zoneLabel z zones) (ss_zone_ids x)))]"

definition library_view :: "(string \<Rightarrow> string) \<Rightarrow> ScenarioSummary list query \<Rightarrow> Zone list option \<Rightarrow> unit node list" where
  "library_view ft q zones =
     [el ''section''
        ([el ''h1'' [Text ''Scenario Library''],
          p_text (''Deterministic, pre-authored incidents - each one already replayed through the real ''
            @ ''pipeline and persisted. Selecting one opens an interactive timeline over its actual ''
            @ ''history; nothing here runs a simulation live.'')]
         @ QueryResult
             (page_result q (length (rows_of q) = 0) ''No scenarios found.''
               (Some (''Scenarios are authored YAML files under scenarios/, or built interactively in the Scenario Builder.''))
               (Some \<lparr>ea_label = ''Go to Scenario Builder'', ea_to = ''/scenario-builder''\<rparr>) (Some ()))
             [el ''div'' (map (library_card ft zones) (rows_of q))])]"

subsection \<open>pages/PlatformHealthPage.tsx\<close>

record SubsystemCheck =
  sk_name :: string
  sk_status :: string
  sk_detail :: string

record PlatformHealthResponse =
  ph_status :: string
  ph_version :: string
  ph_latency_ms :: number
  ph_checks :: "SubsystemCheck list"

definition STATUS_LABEL :: "(string \<times> string) list" where
  "STATUS_LABEL = [(''ok'', ''Healthy''), (''degraded'', ''Degraded''), (''error'', ''Error'')]"

definition status_label :: "string \<Rightarrow> string" where
  "status_label status = (case map_of STATUS_LABEL status of Some l \<Rightarrow> l | None \<Rightarrow> status)"

definition check_card :: "SubsystemCheck \<Rightarrow> 'e node" where
  "check_card c =
     el ''div''
       [el ''div''
          [el ''h3'' [Text (sk_name c)],
           El ''span'' [(''class'', ''enterprise-health-badge enterprise-health-'' @ sk_status c)] [Text (status_label (sk_status c))]],
        p_text (sk_detail c)]"

text \<open>\<open>time\<close> prints the instant of the last answer in the browser's locale; \<open>dataUpdatedAt\<close> is 0 before the first.\<close>

definition health_content :: "(int \<Rightarrow> string) \<Rightarrow> int \<Rightarrow> PlatformHealthResponse \<Rightarrow> 'e node list" where
  "health_content toLocaleTimeString dataUpdatedAt data =
     [el ''div''
        [El ''div'' [(''class'', ''enterprise-health-overall enterprise-health-'' @ ph_status data)] [Text (status_label (ph_status data))],
         el ''dl''
           [plant_stat ''Version'' (ph_version data), plant_stat ''Check latency'' (toFixed (ph_latency_ms data) 2 @ '' ms''),
            plant_stat ''Last checked'' (if dataUpdatedAt \<noteq> 0 then toLocaleTimeString dataUpdatedAt else utf8_emdash)]],
      el ''div'' (map check_card (ph_checks data))]"

definition health_view :: "(int \<Rightarrow> string) \<Rightarrow> int \<Rightarrow> PlatformHealthResponse query \<Rightarrow> unit node list" where
  "health_view toLocaleTimeString dataUpdatedAt q =
     [el ''section''
        ([el ''h1'' [Text ''Platform Health''],
          p_text ''Live status for every subsystem this platform actually has, polled every 5 seconds.'']
         @ QueryResult (page_result q False [] None None (Some ()))
             (cond_some (q_data q) (health_content toLocaleTimeString dataUpdatedAt)))]"

subsection \<open>Properties\<close>

lemma ceo_top_first_max:
  "(case ceo_top d of
      None \<Rightarrow> rows_of (ce_risk d) = []
    | Some tz \<Rightarrow> is_first_max ra_compound_risk_score (rows_of (ce_risk d)) (za_assessment tz) \<and> za_zoneId tz = ra_zone_id (za_assessment tz))"
proof (cases "ceo_top d")
  case None
  then show ?thesis by (simp add: ceo_top_def highestRiskZone_def)
next
  case (Some tz)
  let ?entry = "\<lambda>a. \<lparr>za_zoneId = ra_zone_id a, za_assessment = a\<rparr>"
  have "is_first_max (\<lambda>z. ra_compound_risk_score (za_assessment z)) (map ?entry (rows_of (ce_risk d))) tz"
    using Some risk_max.reduce1_first_max by (simp add: ceo_top_def highestRiskZone_def)
  then obtain us vs where split: "map ?entry (rows_of (ce_risk d)) = us @ tz # vs"
    and less: "\<forall>y\<in>set us. ra_compound_risk_score (za_assessment y) < ra_compound_risk_score (za_assessment tz)"
    and le: "\<forall>z\<in>set vs. ra_compound_risk_score (za_assessment z) \<le> ra_compound_risk_score (za_assessment tz)"
    by (auto simp: is_first_max_def)
  have "rows_of (ce_risk d) = map za_assessment us @ za_assessment tz # map za_assessment vs"
    using arg_cong[OF split, of "map za_assessment"] by (simp add: o_def)
  then have "is_first_max ra_compound_risk_score (rows_of (ce_risk d)) (za_assessment tz)"
    using less le unfolding is_first_max_def by (intro exI[of _ "map za_assessment us"] exI[of _ "map za_assessment vs"]) simp
  moreover have "tz \<in> ?entry ` set (rows_of (ce_risk d))" using split by (metis in_set_conv_decomp list.set_map)
  ultimately show ?thesis using Some by auto
qed

text \<open>
  The executive summary shows the first zone of highest score, whatever its tier: while all zones are normal it still presents one as the
  current situation. Its message that every zone is operating normally appears exactly when no zone has reported at all.
\<close>

theorem executive_summary_all_clear:
  "(if q_isLoading (ce_risk d) then True
    else case q_error (ce_risk d) of
      Some e \<Rightarrow> ceo_body d = [ErrorState e (Some ())]
    | None \<Rightarrow>
        (case rows_of (ce_risk d) of
           [] \<Rightarrow> ceo_body d = [EmptyState ''No active situation - every zone is currently operating normally.'' None None]
         | a # as \<Rightarrow> \<exists>tz. is_first_max ra_compound_risk_score (a # as) (za_assessment tz) \<and> za_zoneId tz = ra_zone_id (za_assessment tz) \<and>
             ceo_body d = ceo_cards (ce_zones d) tz (ceo_dashboard d tz) \<and>
             take 1 (concat (map (element_texts ''h3'') (ceo_body d))) = [''Current Situation'']))"
proof -
  have h3: "take 1 (concat (map (element_texts ''h3'') (ceo_cards zones tz c :: unit node list))) = [''Current Situation'']" for zones tz c
    by (simp add: ceo_cards_def ceo_card_def)
  show ?thesis
  proof (cases "ceo_top d")
    case None
    then show ?thesis using ceo_top_first_max[of d]
      by (simp add: ceo_body_def QueryResult_def page_result_def split: option.split)
  next
    case (Some tz)
    then have fm: "is_first_max ra_compound_risk_score (rows_of (ce_risk d)) (za_assessment tz)"
      and z: "za_zoneId tz = ra_zone_id (za_assessment tz)" using ceo_top_first_max[of d] by simp_all
    have body: "ceo_body d = (if q_isLoading (ce_risk d) then [LoadingState None] else case q_error (ce_risk d) of
        Some e \<Rightarrow> [ErrorState e (Some ())] | None \<Rightarrow> ceo_cards (ce_zones d) tz (ceo_dashboard d tz))"
      by (simp add: ceo_body_def QueryResult_def page_result_def Some split: option.split)
    from fm obtain a as where rows: "rows_of (ce_risk d) = a # as" by (cases "rows_of (ce_risk d)") (auto simp: is_first_max_def)
    have "\<exists>tz'. is_first_max ra_compound_risk_score (a # as) (za_assessment tz') \<and> za_zoneId tz' = ra_zone_id (za_assessment tz') \<and>
        ceo_cards (ce_zones d) tz (ceo_dashboard d tz) = (ceo_cards (ce_zones d) tz' (ceo_dashboard d tz') :: unit node list) \<and>
        take 1 (concat (map (element_texts ''h3'') (ceo_cards (ce_zones d) tz (ceo_dashboard d tz) :: unit node list))) = [''Current Situation'']"
      using fm z h3 unfolding rows by blast
    then show ?thesis unfolding body rows by (simp split: option.split)
  qed
qed

text \<open>
  The corporate overview is the rollup over the scenarios whose replay has arrived: a scenario whose replay failed is missing without a word,
  and before any replay has arrived the page reports no plants, no incidents and readiness.
\<close>

theorem corporate_overview_of_loaded:
  "(let loaded = List.map_filter (\<lambda>x. map_option (Pair x) (q_data (replays (ss_key x)))) scenarios
    in loaded_summaries replays scenarios = map (\<lambda>(x, r). buildPlantSummary x r) loaded \<and>
       enterprise_content replays scenarios =
         [corporate_card (buildCorporateOverview (map (\<lambda>(x, r). buildPlantSummary x r) loaded)),
          el ''div'' (map (\<lambda>(x, r). plant_card (buildPlantSummary x r)) loaded
            @ cond (list_ex (\<lambda>x. q_isLoading (replays (ss_key x))) scenarios \<and> loaded = []) [p_text (''Loading plant data'' @ utf8_ellipsis)])] \<and>
       (if loaded = [] then readiness_text (co_readiness (buildCorporateOverview (loaded_summaries replays scenarios))) = ''Ready'' else True))"
proof -
  have "List.map_filter (\<lambda>x. map_option (buildPlantSummary x) (f x)) xs =
      map (\<lambda>(x, r). buildPlantSummary x r) (List.map_filter (\<lambda>x. map_option (Pair x) (f x)) xs)" for f xs
    by (induction xs) (auto simp: map_filter_simps split: option.split)
  note eq = this[of "\<lambda>x. q_data (replays (ss_key x))" scenarios, folded loaded_summaries_def]
  show ?thesis unfolding Let_def enterprise_content_def eq
    by (simp add: o_def case_prod_unfold buildCorporateOverview_def readiness_text_def READINESS_LABEL_def)
qed

end
