(* ===== verification/Hub_Page.thy ===== *)
theory Hub_Page
  imports Panels
begin

section \<open>The live integration hub\<close>

text \<open>
  \<open>pages/LiveIntegrationHubPage.tsx\<close> with the mutation of \<open>hooks/useIngest.ts\<close>: the connectors and a form that simulates one
  message for a zone and a gas type. \<open>hb_sent\<close> records the requests (protocol, zone, gas type, instant).

  The properties: at most one request is pending, every request was complete when it was sent; but the gas type outlives the
  zone it was chosen for, so the page sends a request for a sensor that does not exist.
\<close>

record ConnectorStatus =
  cs_name :: string
  cs_protocol :: string
  cs_mode :: string
  cs_description :: string
  cs_readings_ingested_this_process :: nat

record IngestReadingResponse =
  ir_reading_id :: string
  ir_sensor_id :: string
  ir_zone_id :: string
  ir_gas_type :: string
  ir_value :: number
  ir_unit :: string
  ir_timestamp :: string
  ir_quality_flag :: string

datatype poll_mutation = Poll_Idle | Poll_Pending | Poll_Success IngestReadingResponse | Poll_Error

type_synonym poll_request = "string \<times> string \<times> string \<times> string"

record hub =
  hb_status :: "ConnectorStatus list query"
  hb_zones :: "Zone list option"
  hb_sensors :: "string \<Rightarrow> SensorInfo list option"
  hb_zoneId :: string
  hb_gasType :: string
  hb_poll :: poll_mutation
  hb_now :: string
  hb_sent :: "poll_request list"
  hb_refetched :: nat

datatype hub_event = Hub_Zone string | Hub_Gas string | Hub_Poll string | Hub_Retry

definition hub_sensors :: "hub \<Rightarrow> SensorInfo list" where
  "hub_sensors s = (case truthy (Some (hb_zoneId s)) of
     Some z \<Rightarrow> (case hb_sensors s z of Some xs \<Rightarrow> xs | None \<Rightarrow> []) | None \<Rightarrow> [])"

definition handlePoll :: "string \<Rightarrow> hub \<Rightarrow> hub" where
  "handlePoll protocol s =
     (if hb_zoneId s = [] \<or> hb_gasType s = [] then s
      else s\<lparr>hb_sent := hb_sent s @ [(protocol, hb_zoneId s, hb_gasType s, hb_now s)], hb_poll := Poll_Pending\<rparr>)"

definition hub_update :: "hub_event \<Rightarrow> hub \<Rightarrow> hub" where
  "hub_update e s =
     (case e of
        Hub_Zone z \<Rightarrow> s\<lparr>hb_zoneId := z\<rparr>
      | Hub_Gas g \<Rightarrow> s\<lparr>hb_gasType := g\<rparr>
      | Hub_Poll protocol \<Rightarrow> handlePoll protocol s
      | Hub_Retry \<Rightarrow> s\<lparr>hb_refetched := hb_refetched s + 1\<rparr>)"

definition connector_card :: "ConnectorStatus \<Rightarrow> 'e node" where
  "connector_card c =
     El ''div'' [(''class'', ''card connector-card connector-'' @ cs_mode c)]
       [el ''div''
          [el ''h3'' [Text (cs_name c)],
           El ''span'' [(''class'', ''connector-badge connector-badge-'' @ cs_mode c)]
             [Text (if cs_mode c = ''implemented'' then ''Implemented'' else ''Mocked'')]],
        p_text (cs_protocol c), p_text (cs_description c),
        p_text (''Readings ingested this process: '' @ show_nat (cs_readings_ingested_this_process c))]"

definition poll_disabled :: "hub \<Rightarrow> bool" where
  "poll_disabled s = (hb_zoneId s = [] \<or> hb_gasType s = [] \<or> hb_poll s = Poll_Pending)"

definition simulate_form :: "hub \<Rightarrow> hub_event node list" where
  "simulate_form s =
     [Choice ''Zone'' (hb_zoneId s)
        (([], ''Select a zone'' @ utf8_ellipsis)
         # map (\<lambda>z. (zn_zone_id z, zoneLabel (zn_zone_id z) (hb_zones s))) (case hb_zones s of Some zs \<Rightarrow> zs | None \<Rightarrow> [])) Hub_Zone,
      Choice ''Gas type'' (hb_gasType s)
        (([], ''Select a gas type'' @ utf8_ellipsis) # map (\<lambda>x. (si_gas_type x, si_gas_type x)) (hub_sensors s)) Hub_Gas,
      Button [] (\<not> poll_disabled s) (Hub_Poll ''mqtt'') [Text ''Simulate MQTT message''],
      Button [] (\<not> poll_disabled s) (Hub_Poll ''opcua'') [Text ''Simulate OPC-UA message'']]"

definition poll_result :: "poll_mutation \<Rightarrow> 'e node list" where
  "poll_result m =
     (case m of
        Poll_Success r \<Rightarrow>
          [p_text (''Ingested a reading of '' @ toFixed (ir_value r) 1 @ '' '' @ ir_unit r @ '' at '' @ ir_timestamp r @ ''.'')]
      | Poll_Error \<Rightarrow> [p_text ''Could not simulate a message for that sensor.'']
      | _ \<Rightarrow> [])"

definition hub_view :: "hub \<Rightarrow> hub_event node list" where
  "hub_view s =
     (let connectors = (case q_data (hb_status s) of Some cs \<Rightarrow> cs | None \<Rightarrow> [])
      in [el ''section''
            ([el ''h1'' [Text ''Live Integration Hub''],
              p_text (''Real and mocked connectors that feed the same sensor-reading pipeline the simulator ''
                @ ''already writes to. The deterministic engine is unchanged - it picks up any newly ingested ''
                @ ''reading on its own next scheduled tick.'')]
             @ QueryResult
                 \<lparr>qp_isLoading = q_isLoading (hb_status s), qp_error = q_error (hb_status s), qp_isEmpty = (length connectors = 0),
                  qp_emptyLabel = ''No connectors configured.'', qp_emptyHint = None, qp_emptyAction = None, qp_loadingLabel = None,
                  qp_onRetry = Some Hub_Retry\<rparr>
                 [el ''div'' (map connector_card connectors)]
             @ [el ''div''
                  ([el ''h3'' [Text ''Simulate a mocked connector message''],
                    p_text (''Pick a zone and one of its real monitored gas types, then trigger a simulated MQTT or ''
                      @ ''OPC-UA message - a deterministic reading derived from that sensor's own real alarm ''
                      @ ''threshold, written through the same ingestion path as a real connector.''),
                    el ''div'' (simulate_form s)]
                   @ poll_result (hb_poll s))])])"

datatype hub_input =
    Hub_Status "ConnectorStatus list query"
  | Hub_Zones "Zone list option"
  | Hub_Sensors "string \<Rightarrow> SensorInfo list option"
  | Hub_Clock string
  | Poll_Answered IngestReadingResponse
  | Poll_Rejected

text \<open>A successful message invalidates the status query, which is fetched again.\<close>

definition hub_env :: "hub_input \<Rightarrow> hub \<Rightarrow> hub" where
  "hub_env x s =
     (case x of
        Hub_Status q \<Rightarrow> s\<lparr>hb_status := q\<rparr>
      | Hub_Zones z \<Rightarrow> s\<lparr>hb_zones := z\<rparr>
      | Hub_Sensors f \<Rightarrow> s\<lparr>hb_sensors := f\<rparr>
      | Hub_Clock t \<Rightarrow> s\<lparr>hb_now := t\<rparr>
      | Poll_Answered r \<Rightarrow>
          if hb_poll s = Poll_Pending then s\<lparr>hb_poll := Poll_Success r, hb_refetched := hb_refetched s + 1\<rparr> else s
      | Poll_Rejected \<Rightarrow> if hb_poll s = Poll_Pending then s\<lparr>hb_poll := Poll_Error\<rparr> else s)"

definition hub_open :: "ConnectorStatus list query \<Rightarrow> Zone list option \<Rightarrow> (string \<Rightarrow> SensorInfo list option) \<Rightarrow> string \<Rightarrow> hub" where
  "hub_open q z f now =
     \<lparr>hb_status = q, hb_zones = z, hb_sensors = f, hb_zoneId = [], hb_gasType = [], hb_poll = Poll_Idle, hb_now = now, hb_sent = [],
      hb_refetched = 0\<rparr>"

subsection \<open>Invariant\<close>

definition hub_inv :: "hub \<Rightarrow> bool" where
  "hub_inv s \<longleftrightarrow>
     list_all (\<lambda>(protocol, z, g, t). protocol \<in> {''mqtt'', ''opcua''} \<and> z \<noteq> [] \<and> g \<noteq> []) (hb_sent s) \<and>
     (if hb_sent s = [] then hb_poll s = Poll_Idle else hb_poll s \<noteq> Poll_Idle)"

lemma offers_hub:
  "offers (hub_view s) \<subseteq>
     {Hub_Retry} \<union> range Hub_Zone \<union> range Hub_Gas \<union> (if poll_disabled s then {} else {Hub_Poll ''mqtt'', Hub_Poll ''opcua''})"
proof -
  have "offers (simulate_form s) \<subseteq> range Hub_Zone \<union> range Hub_Gas \<union> (if poll_disabled s then {} else {Hub_Poll ''mqtt'', Hub_Poll ''opcua''})"
    by (auto simp: simulate_form_def)
  moreover have "offers (poll_result m :: hub_event node list) = {}" for m :: poll_mutation by (simp add: poll_result_def split: poll_mutation.split)
  moreover have "offered (connector_card c :: hub_event node) = {}" for c by (simp add: connector_card_def)
  ultimately show ?thesis
    by (auto simp: hub_view_def Let_def offers_map dest!: subsetD[OF offers_QueryResult])
qed

lemma hub_inv_open: "hub_inv (hub_open q z f now)"
  by (simp add: hub_inv_def hub_open_def)

lemma hub_inv_env: "hub_inv s \<Longrightarrow> hub_inv (hub_env x s)"
  by (cases x) (simp_all add: hub_inv_def hub_env_def split: if_splits)

interpretation hub_ui: ui_app "hub_open q z f now" hub_view hub_update hub_env hub_inv for q z f now
proof unfold_locales
  show "hub_inv (hub_update e s)" if "hub_inv s" "e \<in> offers (hub_view s)" for e s
  proof -
    have "protocol \<in> {''mqtt'', ''opcua''}" if "Hub_Poll protocol \<in> offers (hub_view s)" for protocol
      using that offers_hub[of s] by (auto split: if_splits)
    then show ?thesis using that by (cases e) (auto simp: hub_inv_def hub_update_def handlePoll_def)
  qed
qed (rule hub_inv_open, rule hub_inv_env)

subsection \<open>Properties\<close>

text \<open>
  Whatever a user does and whatever arrives, every request names a protocol, a zone and a gas type, and while one is pending the
  page offers no other.
\<close>

theorem hub_requests_complete:
  "(let s = foldl (app_step hub_view hub_update hub_env) (hub_open q z f now) inputs
    in list_all (\<lambda>(protocol, z, g, t). protocol \<in> {''mqtt'', ''opcua''} \<and> z \<noteq> [] \<and> g \<noteq> []) (hb_sent s) \<and>
       (if hb_poll s = Poll_Pending then offers (hub_view s) \<subseteq> {Hub_Retry} \<union> range Hub_Zone \<union> range Hub_Gas else True))"
proof -
  have "hub_inv (foldl (app_step hub_view hub_update hub_env) (hub_open q z f now) inputs)" by (rule hub_ui.inv_reachable)
  moreover have "offers (hub_view s) \<subseteq> {Hub_Retry} \<union> range Hub_Zone \<union> range Hub_Gas" if "hb_poll s = Poll_Pending" for s
    using offers_hub[of s] that by (simp add: poll_disabled_def)
  ultimately show ?thesis unfolding Let_def hub_inv_def by simp
qed

text \<open>
  The gas type outlives its zone: after a zone and one of its gas types were chosen, choosing another zone leaves the gas type as it
  was, both buttons stay enabled, and the message is requested for the new zone and the old gas, even when that zone
  has no such sensor.
\<close>

theorem stale_gas_type_polled:
  "(let s1 = hub_update (Hub_Gas g) (hub_update (Hub_Zone a) s); s2 = hub_update (Hub_Zone b) s1; s3 = hub_update (Hub_Poll ''mqtt'') s2
    in if a = [] \<or> b = [] \<or> g = [] \<or> hb_poll s = Poll_Pending then True
       else Hub_Poll ''mqtt'' \<in> offers (hub_view s2) \<and> hb_sent s3 = hb_sent s @ [(''mqtt'', b, g, hb_now s)] \<and>
            hub_sensors s2 = (case hb_sensors s b of Some xs \<Rightarrow> xs | None \<Rightarrow> []))"
  by (auto simp: hub_update_def handlePoll_def hub_view_def Let_def simulate_form_def poll_disabled_def hub_sensors_def truthy_def)

end
