(* ===== verification/Path_Page.thy ===== *)
theory Path_Page
  imports Graph_Page Panels
begin

section \<open>Paths between entities\<close>

text \<open>
  The path explorer of the knowledge graph: \<open>components/graph/PathExplorer.tsx\<close> with its two search bars
  (\<open>components/graph/GraphSearchBar.tsx\<close>), and the search it asks the backend for, \<open>GraphService.get_path\<close> of
  \<open>knowledge_graph/service.py\<close>. The search works on any neighbour function, an argument \<open>nb\<close>; the neighbours of plants, zones,
  sensors and readings are modelled over the rows of the database.

  The properties: the backend's search always returns, and returns a shortest chain of neighbours of at most the given
  number of hops or, exactly when there is none, nothing; the explorer draws the route when every edge leads
  away from the entity it was found at, and otherwise not; from a sensor the search finds no zone, although its zone leads to it.
\<close>

subsection \<open>knowledge\_graph/service.py\<close>

datatype entity_ref = Ref (ref_kind: string) (ref_id: string)

definition ref_of :: "GraphEntity \<Rightarrow> entity_ref" where
  "ref_of x = Ref (ge_kind x) (ge_id x)"

record path_search =
  ps_visited :: "entity_ref list"
  ps_parent :: "entity_ref \<Rightarrow> (entity_ref \<times> GraphEdge) option"
  ps_next_frontier :: "entity_ref list"

text \<open>The loop that walks back from the goal; \<open>None\<close> is a \<open>KeyError\<close> or a loop without end.\<close>

partial_function (option) walk_back ::
  "(entity_ref \<Rightarrow> (entity_ref \<times> GraphEdge) option) \<Rightarrow> entity_ref \<Rightarrow> entity_ref \<Rightarrow> GraphEdge list \<Rightarrow> GraphEdge list option" where
  "walk_back parent start cursor path =
     (if cursor = start then Some (rev path)
      else case parent cursor of
             None \<Rightarrow> None
           | Some (prev, edge_taken) \<Rightarrow> walk_back parent start prev (path @ [edge_taken]))"

text \<open>One neighbour; \<open>Inl\<close> is the early return.\<close>

definition visit_neighbor ::
  "entity_ref \<Rightarrow> entity_ref \<Rightarrow> entity_ref \<Rightarrow> GraphEdge list option + path_search \<Rightarrow> GraphEdge \<times> GraphEntity \<Rightarrow>
   GraphEdge list option + path_search" where
  "visit_neighbor start goal node st en =
     (case st of
        Inl r \<Rightarrow> Inl r
      | Inr s \<Rightarrow>
          (case en of (edge, neighbor) \<Rightarrow>
             let key = ref_of neighbor
             in if key \<in> set (ps_visited s) then Inr s
                else let parent = (ps_parent s)(key \<mapsto> (node, edge))
                     in if key = goal then Inl (walk_back parent start key [])
                        else Inr (s\<lparr>ps_visited := key # ps_visited s, ps_parent := parent,
                                    ps_next_frontier := ps_next_frontier s @ [key]\<rparr>)))"

definition visit_frontier ::
  "(entity_ref \<Rightarrow> (GraphEdge \<times> GraphEntity) list) \<Rightarrow> entity_ref \<Rightarrow> entity_ref \<Rightarrow> entity_ref list \<Rightarrow> path_search \<Rightarrow>
   GraphEdge list option + path_search" where
  "visit_frontier nb start goal frontier s =
     foldl (\<lambda>st node. foldl (visit_neighbor start goal node) st (nb node)) (Inr (s\<lparr>ps_next_frontier := []\<rparr>)) frontier"

fun search_rounds ::
  "(entity_ref \<Rightarrow> (GraphEdge \<times> GraphEntity) list) \<Rightarrow> entity_ref \<Rightarrow> entity_ref \<Rightarrow> nat \<Rightarrow> entity_ref list \<Rightarrow> path_search \<Rightarrow>
   GraphEdge list option option" where
  "search_rounds nb start goal 0 frontier s = Some None"
| "search_rounds nb start goal (Suc n) frontier s =
     (case visit_frontier nb start goal frontier s of
        Inl r \<Rightarrow> map_option Some r
      | Inr s' \<Rightarrow>
          if ps_next_frontier s' = [] then Some None else search_rounds nb start goal n (ps_next_frontier s') s')"

definition get_path ::
  "(entity_ref \<Rightarrow> (GraphEdge \<times> GraphEntity) list) \<Rightarrow> entity_ref \<Rightarrow> entity_ref \<Rightarrow> nat \<Rightarrow> GraphEdge list option option" where
  "get_path nb start goal max_depth =
     (if start = goal then Some (Some [])
      else search_rounds nb start goal max_depth [start]
        \<lparr>ps_visited = [start], ps_parent = Map.empty, ps_next_frontier = []\<rparr>)"

subsection \<open>Chains of neighbours\<close>

fun chain :: "(entity_ref \<Rightarrow> (GraphEdge \<times> GraphEntity) list) \<Rightarrow> entity_ref \<Rightarrow> GraphEdge list \<Rightarrow> entity_ref \<Rightarrow> bool" where
  "chain nb a [] b = (a = b)"
| "chain nb a (e # es) b = list_ex (\<lambda>(e', x). e' = e \<and> chain nb (ref_of x) es b) (nb a)"

lemma chain_snoc:
  "chain nb a (es @ [e]) b \<longleftrightarrow> (\<exists>m x. chain nb a es m \<and> (e, x) \<in> set (nb m) \<and> ref_of x = b)"
proof (induction es arbitrary: a)
  case (Cons f es)
  show ?case by (simp add: list_ex_iff Bex_def Cons.IH del: split_paired_Ex) blast
qed (force simp: list_ex_iff)

lemma chain_append: "chain nb a (es @ fs) b \<longleftrightarrow> (\<exists>m. chain nb a es m \<and> chain nb m fs b)"
proof (induction es arbitrary: a)
  case (Cons e es)
  show ?case by (simp add: list_ex_iff Bex_def Cons.IH) blast
qed simp

lemma chain_snocI: "chain nb a es m \<Longrightarrow> (e, x) \<in> set (nb m) \<Longrightarrow> chain nb a (es @ [e]) (ref_of x)"
  unfolding chain_snoc by blast

definition reached :: "(entity_ref \<Rightarrow> (GraphEdge \<times> GraphEntity) list) \<Rightarrow> entity_ref \<Rightarrow> nat \<Rightarrow> entity_ref set" where
  "reached nb a n = {b. \<exists>es. chain nb a es b \<and> length es \<le> n}"

definition next_to :: "(entity_ref \<Rightarrow> (GraphEdge \<times> GraphEntity) list) \<Rightarrow> entity_ref set \<Rightarrow> entity_ref set" where
  "next_to nb ns = (\<Union>m\<in>ns. (\<lambda>(e, x). ref_of x) ` set (nb m))"

lemma next_toI: "m \<in> ns \<Longrightarrow> (e, x) \<in> set (nb m) \<Longrightarrow> ref_of x \<in> next_to nb ns"
  unfolding next_to_def by (intro UN_I image_eqI[of _ _ "(e, x)"]) simp_all

lemma next_to_Un: "next_to nb (A \<union> B) = next_to nb A \<union> next_to nb B"
  by (simp add: next_to_def)

lemma reached_0: "reached nb a 0 = {a}"
  by (auto simp: reached_def)

lemma reached_Suc: "reached nb a (Suc n) = reached nb a n \<union> next_to nb (reached nb a n)"
proof (intro set_eqI iffI)
  fix b assume "b \<in> reached nb a (Suc n)"
  then obtain es where es: "chain nb a es b" "length es \<le> Suc n" by (auto simp: reached_def)
  show "b \<in> reached nb a n \<union> next_to nb (reached nb a n)"
  proof (cases es rule: rev_cases)
    case Nil
    then have "chain nb a [] b \<and> length ([] :: GraphEdge list) \<le> n" using es by simp
    then show ?thesis unfolding reached_def by blast
  next
    case (snoc fs e)
    then show ?thesis using es by (auto simp: chain_snoc reached_def next_to_def)
  qed
next
  fix b assume "b \<in> reached nb a n \<union> next_to nb (reached nb a n)"
  then show "b \<in> reached nb a (Suc n)"
  proof
    assume "b \<in> reached nb a n"
    then show ?thesis by (auto simp: reached_def intro: le_SucI)
  next
    assume "b \<in> next_to nb (reached nb a n)"
    then obtain es m e x where "chain nb a es m" "length es \<le> n" "(e, x) \<in> set (nb m)" "b = ref_of x"
      by (auto simp: reached_def next_to_def)
    then have "chain nb a (es @ [e]) b \<and> length (es @ [e]) \<le> Suc n" using chain_snocI[of nb a es m e x] by simp
    then show ?thesis unfolding reached_def by blast
  qed
qed

lemma reached_closed:
  assumes "next_to nb (reached nb a n) \<subseteq> reached nb a n"
  shows "chain nb a es b \<Longrightarrow> b \<in> reached nb a n"
proof (induction es arbitrary: b rule: rev_induct)
  case Nil
  have "chain nb a [] a \<and> length ([] :: GraphEdge list) \<le> n" by simp
  then have "a \<in> reached nb a n" unfolding reached_def by blast
  then show ?case using Nil by simp
next
  case (snoc e es)
  then obtain m x where "chain nb a es m" "(e, x) \<in> set (nb m)" "ref_of x = b" by (auto simp: chain_snoc)
  with snoc.IH have "b \<in> next_to nb (reached nb a n)" using next_toI[of m "reached nb a n" e x nb] by simp
  with assms show ?case by blast
qed

subsection \<open>The search\<close>

inductive traced :: "(entity_ref \<Rightarrow> (entity_ref \<times> GraphEdge) option) \<Rightarrow> entity_ref \<Rightarrow> entity_ref \<Rightarrow> GraphEdge list \<Rightarrow> bool"
  for parent start where
  "traced parent start start []"
| "parent k = Some (p, e) \<Longrightarrow> k \<noteq> start \<Longrightarrow> traced parent start p es \<Longrightarrow> traced parent start k (es @ [e])"

lemma walk_back_traced: "traced parent start k es \<Longrightarrow> walk_back parent start k path = Some (es @ rev path)"
  by (induction arbitrary: path rule: traced.induct) (subst walk_back.simps, simp)+

lemma traced_mono: "traced parent start k es \<Longrightarrow> parent \<subseteq>\<^sub>m parent' \<Longrightarrow> traced parent' start k es"
proof (induction rule: traced.induct)
  case (2 k p e es)
  then have "parent' k = Some (p, e)" by (metis map_le_def domI)
  with 2 show ?case by (auto intro: traced.intros)
qed (auto intro: traced.intros)

text \<open>
  The state within round \<open>i\<close>: from the frontier \<open>F\<close>, whose members are \<open>i\<close> hops from the start, the members of \<open>T\<close> have
  been looked at; \<open>V\<close> was visited before the round.
\<close>

definition search_inv ::
  "(entity_ref \<Rightarrow> (GraphEdge \<times> GraphEntity) list) \<Rightarrow> entity_ref \<Rightarrow> entity_ref \<Rightarrow> nat \<Rightarrow> entity_ref set \<Rightarrow> entity_ref set \<Rightarrow>
   entity_ref set \<Rightarrow> path_search \<Rightarrow> bool" where
  "search_inv nb start goal i F V T s \<longleftrightarrow>
     set (ps_visited s) = V \<union> T \<and> set (ps_next_frontier s) = T - V \<and> F \<subseteq> V \<and> start \<in> V \<and> goal \<notin> V \<union> T \<and>
     dom (ps_parent s) \<subseteq> V \<union> T \<and>
     (\<forall>k\<in>V \<union> T. \<exists>es. traced (ps_parent s) start k es \<and> chain nb start es k \<and>
        (k \<in> F \<longrightarrow> length es = i) \<and> (k \<notin> V \<longrightarrow> length es = Suc i))"

lemma visit_inv:
  assumes inv: "search_inv nb start goal i F V T s" and n: "n \<in> F" and x: "(e, x) \<in> set (nb n)"
  shows "case visit_neighbor start goal n (Inr s) (e, x) of
      Inr s' \<Rightarrow> search_inv nb start goal i F V (insert (ref_of x) T) s'
    | Inl r \<Rightarrow> \<exists>es. r = Some es \<and> chain nb start es goal \<and> length es = Suc i"
proof (cases "ref_of x \<in> V \<union> T")
  case True
  with inv have "ref_of x \<in> set (ps_visited s)" "insert (ref_of x) T - V = T - V \<or> ref_of x \<in> T" "V \<union> insert (ref_of x) T = V \<union> T"
    by (auto simp: search_inv_def)
  moreover have "insert (ref_of x) T - V = T - V" using True by auto
  ultimately show ?thesis using inv by (simp add: visit_neighbor_def Let_def search_inv_def)
next
  case False
  let ?k = "ref_of x" and ?par = "(ps_parent s)(ref_of x \<mapsto> (n, e))"
  from inv False have fresh: "ps_parent s \<subseteq>\<^sub>m ?par" by (auto simp: map_le_def search_inv_def)
  from inv n obtain es where es: "traced (ps_parent s) start n es" "chain nb start es n" "length es = i"
    unfolding search_inv_def by (metis (no_types, lifting) UnI1 subsetD)
  have "?k \<noteq> start" using False inv by (auto simp: search_inv_def)
  then have k: "traced ?par start ?k (es @ [e])" "chain nb start (es @ [e]) ?k" "length (es @ [e]) = Suc i"
    using traced_mono[OF es(1) fresh] es x by (auto intro!: traced.intros(2) chain_snocI)
  show ?thesis
  proof (cases "?k = goal")
    case True
    then show ?thesis using False k inv walk_back_traced[OF k(1), of "[]"]
      by (auto simp: visit_neighbor_def Let_def search_inv_def)
  next
    case other: False
    let ?s = "s\<lparr>ps_visited := ?k # ps_visited s, ps_parent := ?par, ps_next_frontier := ps_next_frontier s @ [?k]\<rparr>"
    have "search_inv nb start goal i F V (insert ?k T) ?s"
      unfolding search_inv_def
    proof (intro conjI ballI)
      fix m assume m: "m \<in> V \<union> insert ?k T"
      show "\<exists>es. traced (ps_parent ?s) start m es \<and> chain nb start es m \<and> (m \<in> F \<longrightarrow> length es = i) \<and> (m \<notin> V \<longrightarrow> length es = Suc i)"
      proof (cases "m = ?k")
        case True
        with k False inv show ?thesis by (auto simp: search_inv_def)
      next
        case False
        with m have "m \<in> V \<union> T" by auto
        with inv obtain fs where fs: "traced (ps_parent s) start m fs" "chain nb start fs m" "m \<in> F \<longrightarrow> length fs = i"
          "m \<notin> V \<longrightarrow> length fs = Suc i" unfolding search_inv_def by blast
        then show ?thesis using traced_mono[OF fs(1) fresh] by auto
      qed
    qed (use inv False other in \<open>auto simp: search_inv_def\<close>)
    moreover have "visit_neighbor start goal n (Inr s) (e, x) = Inr ?s"
      using False other inv by (simp add: visit_neighbor_def Let_def search_inv_def)
    ultimately show ?thesis by simp
  qed
qed

lemma visits_inv:
  assumes "search_inv nb start goal i F V T s" and "\<forall>(n, e, x)\<in>set items. n \<in> F \<and> (e, x) \<in> set (nb n)"
  shows "case foldl (\<lambda>st (n, en). visit_neighbor start goal n st en) (Inr s) items of
      Inr s' \<Rightarrow> search_inv nb start goal i F V (T \<union> (\<lambda>(n, e, x). ref_of x) ` set items) s'
    | Inl r \<Rightarrow> \<exists>es. r = Some es \<and> chain nb start es goal \<and> length es = Suc i"
  using assms
proof (induction items arbitrary: T s)
  case (Cons item items)
  obtain n e x where item: "item = (n, e, x)" by (cases item)
  have returned: "foldl (\<lambda>st (n, en). visit_neighbor start goal n st en) (Inl r) items = Inl r" for r
    by (induction items) (auto simp: visit_neighbor_def)
  have step: "case visit_neighbor start goal n (Inr s) (e, x) of
      Inr s' \<Rightarrow> search_inv nb start goal i F V (insert (ref_of x) T) s'
    | Inl r \<Rightarrow> \<exists>es. r = Some es \<and> chain nb start es goal \<and> length es = Suc i"
    using Cons.prems by (intro visit_inv) (auto simp: item)
  show ?case
  proof (cases "visit_neighbor start goal n (Inr s) (e, x)")
    case (Inl r)
    with step show ?thesis by (simp add: item returned)
  next
    case (Inr s')
    with step have "search_inv nb start goal i F V (insert (ref_of x) T) s'" by simp
    from Cons.IH[OF this] Cons.prems(2)
    have "case foldl (\<lambda>st (n, en). visit_neighbor start goal n st en) (Inr s') items of
        Inr s' \<Rightarrow> search_inv nb start goal i F V (insert (ref_of x) T \<union> (\<lambda>(n, e, x). ref_of x) ` set items) s'
      | Inl r \<Rightarrow> \<exists>es. r = Some es \<and> chain nb start es goal \<and> length es = Suc i" by simp
    moreover have eq: "T \<union> (\<lambda>(n, e, x). ref_of x) ` set (item # items) = insert (ref_of x) T \<union> (\<lambda>(n, e, x). ref_of x) ` set items"
      by (simp add: item)
    ultimately show ?thesis unfolding eq by (simp add: item Inr)
  qed
qed simp

lemma visit_frontier_items:
  "visit_frontier nb start goal frontier s =
     foldl (\<lambda>st (n, en). visit_neighbor start goal n st en) (Inr (s\<lparr>ps_next_frontier := []\<rparr>))
       (concat (map (\<lambda>n. map (Pair n) (nb n)) frontier))"
proof -
  have "foldl (\<lambda>st node. foldl (visit_neighbor start goal node) st (nb node)) st ns =
      foldl (\<lambda>st (n, en). visit_neighbor start goal n st en) st (concat (map (\<lambda>n. map (Pair n) (nb n)) ns))" for st ns
    by (induction ns arbitrary: st) (simp_all add: foldl_map)
  then show ?thesis by (simp add: visit_frontier_def)
qed

text \<open>Between rounds: after \<open>i\<close> rounds everything within \<open>i\<close> hops was visited, and the rest of it leads nowhere new.\<close>

definition round_inv ::
  "(entity_ref \<Rightarrow> (GraphEdge \<times> GraphEntity) list) \<Rightarrow> entity_ref \<Rightarrow> entity_ref \<Rightarrow> nat \<Rightarrow> entity_ref list \<Rightarrow> path_search \<Rightarrow> bool" where
  "round_inv nb start goal i frontier s \<longleftrightarrow>
     (\<exists>s'. s' = s\<lparr>ps_next_frontier := []\<rparr> \<and> search_inv nb start goal i (set frontier) (reached nb start i) {} s') \<and>
     next_to nb (reached nb start i - set frontier) \<subseteq> reached nb start i"

lemma round_step:
  assumes inv: "round_inv nb start goal i frontier s"
  shows "case visit_frontier nb start goal frontier s of
      Inr s' \<Rightarrow> round_inv nb start goal (Suc i) (ps_next_frontier s') s' \<and> goal \<notin> reached nb start (Suc i) \<and>
        set (ps_next_frontier s') = reached nb start (Suc i) - reached nb start i
    | Inl r \<Rightarrow> \<exists>es. r = Some es \<and> chain nb start es goal \<and> length es = Suc i"
proof -
  let ?R = "reached nb start" and ?items = "concat (map (\<lambda>n. map (Pair n) (nb n)) frontier)"
  have targets: "(\<lambda>(n, e, x). ref_of x) ` set ?items = next_to nb (set frontier)"
    by (simp add: next_to_def image_UN image_image case_prod_beta)
  have "set frontier \<subseteq> ?R i" using inv by (auto simp: round_inv_def search_inv_def)
  then have "?R i = set frontier \<union> (?R i - set frontier)" by auto
  then have "next_to nb (?R i) = next_to nb (set frontier) \<union> next_to nb (?R i - set frontier)" by (metis next_to_Un)
  then have R: "?R (Suc i) = ?R i \<union> next_to nb (set frontier)" using inv by (auto simp: reached_Suc round_inv_def)
  have visited: "case visit_frontier nb start goal frontier s of
      Inr s' \<Rightarrow> search_inv nb start goal i (set frontier) (?R i) ({} \<union> (\<lambda>(n, e, x). ref_of x) ` set ?items) s'
    | Inl r \<Rightarrow> \<exists>es. r = Some es \<and> chain nb start es goal \<and> length es = Suc i"
    unfolding visit_frontier_items using inv by (intro visits_inv) (auto simp: round_inv_def)
  then show ?thesis
  proof (cases "visit_frontier nb start goal frontier s")
    case (Inr s')
    then have si: "search_inv nb start goal i (set frontier) (?R i) (next_to nb (set frontier)) s'"
      using visited unfolding targets by simp
    then have nxt: "set (ps_next_frontier s') = ?R (Suc i) - ?R i" and out: "goal \<notin> ?R (Suc i)" by (auto simp: search_inv_def R)
    have "search_inv nb start goal (Suc i) (set (ps_next_frontier s')) (?R (Suc i)) {} (s'\<lparr>ps_next_frontier := []\<rparr>)"
      unfolding search_inv_def
    proof (intro conjI ballI)
      fix k assume "k \<in> ?R (Suc i) \<union> {}"
      then obtain es where "traced (ps_parent s') start k es" "chain nb start es k" "k \<notin> ?R i \<longrightarrow> length es = Suc i"
        using si unfolding search_inv_def R by blast
      then show "\<exists>es. traced (ps_parent (s'\<lparr>ps_next_frontier := []\<rparr>)) start k es \<and> chain nb start es k \<and>
          (k \<in> set (ps_next_frontier s') \<longrightarrow> length es = Suc i) \<and> (k \<notin> ?R (Suc i) \<longrightarrow> length es = Suc (Suc i))"
        using \<open>k \<in> ?R (Suc i) \<union> {}\<close> nxt by auto
    qed (use si nxt in \<open>auto simp: search_inv_def R\<close>)
    moreover have "?R (Suc i) - set (ps_next_frontier s') = ?R i" using nxt by (auto simp: reached_Suc)
    ultimately have "round_inv nb start goal (Suc i) (ps_next_frontier s') s'"
      by (simp add: round_inv_def) (simp add: reached_Suc)
    with nxt out show ?thesis by (simp add: Inr)
  qed simp
qed

lemma search_rounds_correct:
  assumes "round_inv nb start goal i frontier s" and "frontier = [] \<longrightarrow> i = 0"
  shows "\<exists>r. search_rounds nb start goal n frontier s = Some r \<and>
    (case r of
       Some es \<Rightarrow> chain nb start es goal \<and> length es \<le> i + n \<and> goal \<notin> reached nb start (length es - 1) \<and> es \<noteq> []
     | None \<Rightarrow> goal \<notin> reached nb start (i + n))"
  using assms
proof (induction n arbitrary: i frontier s)
  case 0
  then have "goal \<notin> reached nb start i" by (auto simp: round_inv_def search_inv_def)
  then show ?case by simp
next
  case (Suc n)
  note step = round_step[OF Suc.prems(1)]
  have out: "goal \<notin> reached nb start i" using Suc.prems by (auto simp: round_inv_def search_inv_def)
  show ?case
  proof (cases "visit_frontier nb start goal frontier s")
    case (Inl r)
    with step obtain es where "r = Some es" "chain nb start es goal" "length es = Suc i" by auto
    with out show ?thesis by (auto simp: Inl)
  next
    case (Inr s')
    with step have inv: "round_inv nb start goal (Suc i) (ps_next_frontier s') s'" and far: "goal \<notin> reached nb start (Suc i)"
      and nxt: "set (ps_next_frontier s') = reached nb start (Suc i) - reached nb start i" by auto
    show ?thesis
    proof (cases "ps_next_frontier s' = []")
      case True
      with nxt have "next_to nb (reached nb start i) \<subseteq> reached nb start i" by (auto simp: reached_Suc)
      from reached_closed[OF this] out have "\<not> chain nb start es goal" for es by blast
      then show ?thesis by (simp add: Inr True) (simp add: reached_def)
    next
      case False
      with Suc.IH[OF inv, unfolded add_Suc_shift] show ?thesis by (simp add: Inr)
    qed
  qed
qed

lemma round_inv_start:
  assumes "start \<noteq> goal"
  shows "round_inv nb start goal 0 [start] \<lparr>ps_visited = [start], ps_parent = Map.empty, ps_next_frontier = []\<rparr>"
proof -
  have "traced Map.empty start start [] \<and> chain nb start [] start" by (simp add: traced.intros)
  then show ?thesis using assms by (auto simp: round_inv_def search_inv_def reached_0 next_to_def)
qed

lemma get_path_shortest':
  "(case get_path nb start goal max_depth of
      None \<Rightarrow> False
    | Some (Some es) \<Rightarrow> chain nb start es goal \<and> length es \<le> max_depth \<and> {fs. chain nb start fs goal \<and> length fs < length es} = {}
    | Some None \<Rightarrow> {fs. chain nb start fs goal \<and> length fs \<le> max_depth} = {})"
proof (cases "start = goal")
  case False
  obtain r where r: "get_path nb start goal max_depth = Some r"
    and ok: "case r of
       Some es \<Rightarrow> chain nb start es goal \<and> length es \<le> max_depth \<and> goal \<notin> reached nb start (length es - 1) \<and> es \<noteq> []
     | None \<Rightarrow> goal \<notin> reached nb start max_depth"
    using search_rounds_correct[OF round_inv_start[OF False, of nb], of max_depth, unfolded add_0] False by (auto simp: get_path_def)
  show ?thesis
  proof (cases r)
    case None
    with r ok show ?thesis by (auto simp: reached_def)
  next
    case (Some es)
    then have "length es - 1 < length es" using ok by simp
    then have "length fs \<le> length es - 1 \<longleftrightarrow> length fs < length es" for fs :: "GraphEdge list" by linarith
    with r ok Some show ?thesis by (auto simp: reached_def)
  qed
qed (simp add: get_path_def)

text \<open>
  (C15) The backend's path search is right: it never loses its way back, the path it returns is a chain of neighbours from the start to the goal within
  the bound, and no chain is shorter; it finds none exactly when there is no chain within the bound.
\<close>

theorem get_path_shortest:
  "(case get_path nb start goal max_depth of
      None \<Rightarrow> False
    | Some (Some es) \<Rightarrow> chain nb start es goal \<and> length es \<le> max_depth \<and> {fs. chain nb start fs goal \<and> length fs < length es} = {}
    | Some None \<Rightarrow> {fs. chain nb start fs goal \<and> length fs \<le> max_depth} = {})"
  by (rule get_path_shortest')

text \<open>Two queries the other way round: a chain of one hop, and an entity that leads nowhere.\<close>

lemma get_path_neighbor:
  assumes "(e, x) \<in> set (nb a)" and "ref_of x \<noteq> a"
  shows "\<exists>e'. get_path nb a (ref_of x) (Suc d) = Some (Some [e'])"
proof -
  have one: "chain nb a [e] (ref_of x)" using assms(1) by (auto simp: list_ex_iff)
  then have "[e] \<in> {fs. chain nb a fs (ref_of x) \<and> length fs \<le> Suc d}" by simp
  then have "{fs. chain nb a fs (ref_of x) \<and> length fs \<le> Suc d} \<noteq> {}" by blast
  then obtain es where es: "get_path nb a (ref_of x) (Suc d) = Some (Some es)" "chain nb a es (ref_of x)"
      "{fs. chain nb a fs (ref_of x) \<and> length fs < length es} = {}"
    using get_path_shortest'[of nb a "ref_of x" "Suc d"] by (auto split: option.splits)
  from es(3) one have "length es \<le> 1" by fastforce
  with es(2) assms(2) obtain e' where "es = [e']" by (cases es) auto
  with es show ?thesis by blast
qed

lemma get_path_closed:
  assumes "\<And>e x m. m \<in> A \<Longrightarrow> (e, x) \<in> set (nb m) \<Longrightarrow> ref_of x \<in> A" and "a \<in> A" and "b \<notin> A"
  shows "get_path nb a b d = Some None"
proof -
  have "chain nb m es k \<Longrightarrow> m \<in> A \<Longrightarrow> k \<in> A" for m es k
    by (induction es arbitrary: m) (auto simp: list_ex_iff dest: assms(1))
  then have "\<not> chain nb a es b" for es using assms(2,3) by blast
  then show ?thesis using get_path_shortest'[of nb a b d] by (auto split: option.splits)
qed

subsection \<open>components/graph/GraphSearchBar.tsx\<close>

datatype search_bar_event = Type_Query string | Pick_Result GraphEntity

definition GraphSearchBar :: "(string \<Rightarrow> GraphEntity list query) \<Rightarrow> string \<Rightarrow> search_bar_event node" where
  "GraphSearchBar search q =
     (let found = search (trim q); results = (case q_data found of Some xs \<Rightarrow> xs | None \<Rightarrow> [])
      in el ''div''
           (Field ''Search the knowledge graph'' q Type_Query
            # cond (length (trim q) > 0)
                [el ''ul''
                   (cond (q_isLoading found) [el ''li'' [Text (''Searching'' @ utf8_ellipsis)]]
                    @ cond (\<not> q_isLoading found \<and> length results = 0) [el ''li'' [Text ''No matches.'']]
                    @ map (\<lambda>x. el ''li'' [Button [] True (Pick_Result x)
                        [el ''span'' [Text (spaced (ge_kind x))], el ''span'' [Text (ge_label x)]]]) results)]))"

text \<open>The text after an event, and the entity handed to \<open>onSelect\<close>.\<close>

definition search_bar_update :: "search_bar_event \<Rightarrow> string \<Rightarrow> string \<times> GraphEntity option" where
  "search_bar_update e q = (case e of Type_Query v \<Rightarrow> (v, None) | Pick_Result x \<Rightarrow> ([], Some x))"

subsection \<open>components/graph/PathExplorer.tsx\<close>

record GraphPath =
  gp_found :: bool
  gp_edges :: "GraphEdge list"

record path_explorer =
  pe_source :: "GraphEntity option"
  pe_target :: "GraphEntity option"
  pe_sourceQuery :: string
  pe_targetQuery :: string

definition explorer_start :: path_explorer where
  "explorer_start = \<lparr>pe_source = None, pe_target = None, pe_sourceQuery = [], pe_targetQuery = []\<rparr>"

datatype explorer_event =
    From_Bar search_bar_event
  | To_Bar search_bar_event
  | Clear_From
  | Clear_To
  | Refetch_Path
  | Select_Ref GraphEntity

definition EntityChip :: "GraphEntity \<Rightarrow> 'e \<Rightarrow> 'e node" where
  "EntityChip entity onClear =
     el ''div'' [el ''span'' [Text (spaced (ge_kind entity))], el ''span'' [Text (ge_label entity)],
       Button [(''aria-label'', ''Clear '' @ ge_label entity)] True onClear [Text utf8_times]]"

text \<open>The entity a hop is drawn as: the edge's target.\<close>

definition edge_target :: "GraphEdge \<Rightarrow> GraphEntity" where
  "edge_target edge =
     \<lparr>ge_kind = gd_target_kind edge, ge_id = gd_target_id edge, ge_label = gd_label edge, ge_attributes = []\<rparr>"

definition chain_item :: "GraphEntity \<Rightarrow> explorer_event node" where
  "chain_item x = Button [] True (Select_Ref x) [el ''span'' [Text (spaced (ge_kind x))], el ''span'' [Text (ge_label x)]]"

definition path_chain :: "GraphEntity \<Rightarrow> GraphEdge list \<Rightarrow> explorer_event node" where
  "path_chain source edges =
     el ''ol''
       (el ''li'' [chain_item source]
        # cond (length edges = 0) [el ''li'' [Text ''Same entity.'']]
        @ map (\<lambda>edge. el ''li'' [el ''span'' [Text (spaced (gd_relation edge))], chain_item (edge_target edge)]) edges)"

definition explorer_result :: "GraphEntity \<Rightarrow> GraphPath query \<Rightarrow> explorer_event node list" where
  "explorer_result source q =
     QueryResult (plain_query (q_isLoading q) (q_error q) False [] Refetch_Path)
       (cond_some (q_data q) (\<lambda>d. cond (\<not> gp_found d)
          [p_text (''No connection found - these two entities aren't linked by any real relationship ''
             @ ''currently in the graph.'')])
        @ cond_some (q_data q) (\<lambda>d. cond (gp_found d) [path_chain source (gp_edges d)]))"

definition PathExplorer ::
  "(string \<Rightarrow> GraphEntity list query) \<Rightarrow> (entity_ref \<Rightarrow> entity_ref \<Rightarrow> GraphPath query) \<Rightarrow> path_explorer \<Rightarrow> explorer_event node" where
  "PathExplorer search paths s =
     el ''div''
       ([el ''h4'' [Text ''Path Explorer''],
         p_text ''Pick any two entities to see the real chain of relationships connecting them.'',
         el ''div''
           [el ''div''
              [el ''span'' [Text ''From''],
               (case pe_source s of Some x \<Rightarrow> EntityChip x Clear_From
                | None \<Rightarrow> map_node From_Bar (GraphSearchBar search (pe_sourceQuery s)))],
            el ''div''
              [el ''span'' [Text ''To''],
               (case pe_target s of Some x \<Rightarrow> EntityChip x Clear_To
                | None \<Rightarrow> map_node To_Bar (GraphSearchBar search (pe_targetQuery s)))]]]
        @ (case (pe_source s, pe_target s) of
             (Some a, Some b) \<Rightarrow> explorer_result a (paths (ref_of a) (ref_of b))
           | _ \<Rightarrow> []))"

text \<open>A bar that gives way to a chip comes back empty.\<close>

definition explorer_update :: "explorer_event \<Rightarrow> path_explorer \<Rightarrow> path_explorer" where
  "explorer_update e s =
     (case e of
        From_Bar b \<Rightarrow> (case search_bar_update b (pe_sourceQuery s) of
            (q, None) \<Rightarrow> s\<lparr>pe_sourceQuery := q\<rparr> | (q, Some x) \<Rightarrow> s\<lparr>pe_sourceQuery := q, pe_source := Some x\<rparr>)
      | To_Bar b \<Rightarrow> (case search_bar_update b (pe_targetQuery s) of
            (q, None) \<Rightarrow> s\<lparr>pe_targetQuery := q\<rparr> | (q, Some x) \<Rightarrow> s\<lparr>pe_targetQuery := q, pe_target := Some x\<rparr>)
      | Clear_From \<Rightarrow> s\<lparr>pe_source := None\<rparr>
      | Clear_To \<Rightarrow> s\<lparr>pe_target := None\<rparr>
      | Refetch_Path \<Rightarrow> s
      | Select_Ref x \<Rightarrow> s)"

subsection \<open>Properties of the explorer\<close>

text \<open>The answer of the backend, and the entities drawn for a route, in order.\<close>

definition path_answer :: "GraphEdge list option option \<Rightarrow> GraphPath query" where
  "path_answer r =
     (case r of
        None \<Rightarrow> \<lparr>q_data = None, q_isLoading = False, q_error = Some (Thrown_Api ''INTERNAL_ERROR'' [] (Some 500))\<rparr>
      | Some p \<Rightarrow> \<lparr>q_data = Some \<lparr>gp_found = (p \<noteq> None), gp_edges = (case p of Some es \<Rightarrow> es | None \<Rightarrow> [])\<rparr>,
          q_isLoading = False, q_error = None\<rparr>)"

fun buttons_of :: "'e node \<Rightarrow> 'e list" where
  "buttons_of (El tag attrs ns) = concat (map buttons_of ns)"
| "buttons_of (Button attrs enabled e ns) = [e]"
| "buttons_of n = []"

lemma buttons_route:
  "concat (map buttons_of (explorer_result a (path_answer (Some (Some es))))) = map Select_Ref (a # map edge_target es)"
proof -
  have "concat (map (buttons_of \<circ> (\<lambda>edge. el ''li'' [el ''span'' [Text (spaced (gd_relation edge))], chain_item (edge_target edge)])) es)
      = map (Select_Ref \<circ> edge_target) es"
    by (induction es) (simp_all add: chain_item_def)
  then show ?thesis
    by (cases es) (simp_all add: explorer_result_def path_answer_def QueryResult_def plain_query_def path_chain_def chain_item_def)
qed

definition leads_away :: "entity_ref \<Rightarrow> GraphEdge \<times> GraphEntity \<Rightarrow> bool" where
  "leads_away n en = (ref_of (edge_target (fst en)) = ref_of (snd en))"

lemma route_of_chain:
  "chain nb a es b \<Longrightarrow> (\<And>n. list_all (leads_away n) (nb n)) \<Longrightarrow>
   last (a # map (ref_of \<circ> edge_target) es) = b \<and>
   successively (\<lambda>m k. list_ex (\<lambda>(e, x). ref_of x = k) (nb m)) (a # map (ref_of \<circ> edge_target) es)"
proof (induction es arbitrary: a)
  case (Cons e es)
  then obtain x where x: "(e, x) \<in> set (nb a)" "chain nb (ref_of x) es b" by (auto simp: list_ex_iff)
  then have "ref_of (edge_target e) = ref_of x" using Cons.prems(2)[of a] by (auto simp: list_all_iff leads_away_def)
  with Cons.IH[OF x(2) Cons.prems(2)] x(1) show ?case by (auto simp: list_ex_iff)
qed simp

text \<open>
  (C16) From two picked entities to the drawn route, across explorer and backend: an answer that finds a path is drawn as one button per entity of a
  shortest route, from the first entity to the second, each a neighbour of the one before, provided every edge leads away from
  the entity it was found at; an answer without a path is drawn as a sentence, and then there is no route within the bound.
\<close>

theorem explorer_draws_route:
  "(let result = explorer_result a (path_answer (get_path nb (ref_of a) b d)); refs = concat (map buttons_of result)
    in if refs = []
       then {es. chain nb (ref_of a) es b \<and> length es \<le> d} = {} \<and>
            concat (map (element_texts ''p'') result) =
              [''No connection found - these two entities aren't linked by any real relationship currently in the graph.'']
       else \<exists>route. refs = map Select_Ref route \<and> hd route = a \<and> length route \<le> Suc d \<and>
              {es. chain nb (ref_of a) es b \<and> Suc (length es) < length route} = {} \<and>
              (if \<forall>n. list_all (leads_away n) (nb n)
               then ref_of (last route) = b \<and> successively (\<lambda>m k. list_ex (\<lambda>(e, x). ref_of x = k) (nb m)) (map ref_of route)
               else True))"
proof (cases "get_path nb (ref_of a) b d")
  case None
  then show ?thesis using get_path_shortest'[of nb "ref_of a" b d] by simp
next
  case (Some p)
  note ok = get_path_shortest'[of nb "ref_of a" b d, unfolded Some option.case]
  show ?thesis
  proof (cases p)
    case None
    with ok show ?thesis unfolding Some
      by (simp add: explorer_result_def path_answer_def QueryResult_def plain_query_def cond_def)
  next
    case found: (Some es)
    let ?route = "a # map edge_target es"
    have "ref_of (last ?route) = b \<and> successively (\<lambda>m k. list_ex (\<lambda>(e, x). ref_of x = k) (nb m)) (map ref_of ?route)"
      if "\<forall>n. list_all (leads_away n) (nb n)"
      using route_of_chain[of nb "ref_of a" es b] ok that by (simp add: found last_map[symmetric] o_def split: if_splits)
    then show ?thesis using ok unfolding Some found Let_def buttons_route by (auto intro!: exI[of _ ?route])
  qed
qed

subsection \<open>Neighbours of zones and sensors\<close>

text \<open>
  The handlers of \<open>GraphService.get_neighbors\<close> for a plant, a zone, a sensor and a reading. The rows of sensors and readings are
  records; of the other tables the record \<open>graph_db\<close> has what the repositories return for a zone, as the entities built from the
  rows. The handlers of the other eleven kinds are an argument. An identifier of a row is the text that \<open>str\<close> makes of its UUID.
\<close>

record sensor_row =
  sr_sensor_id :: string
  sr_zone_id :: string
  sr_gas_type :: string
  sr_alarm_threshold :: number
  sr_last_calibrated_at :: "string option"

record reading_row =
  rr_reading_id :: string
  rr_sensor_id :: string
  rr_zone_id :: string
  rr_gas_type :: string
  rr_value :: number
  rr_value_text :: string
  rr_unit :: string
  rr_timestamp :: string
  rr_quality_flag :: string

record graph_db =
  db_sensors :: "sensor_row list"
  db_latest_reading :: "string \<Rightarrow> string \<Rightarrow> reading_row option"
  db_zones :: "GraphEntity list"
  db_zone :: "string \<Rightarrow> GraphEntity option"
  db_zone_workers :: "string \<Rightarrow> GraphEntity list"
  db_zone_equipment :: "string \<Rightarrow> GraphEntity list"
  db_zone_permits :: "string \<Rightarrow> GraphEntity list"
  db_adjacent_zones :: "string \<Rightarrow> string list"
  db_recent_assessments :: "string \<Rightarrow> GraphEntity list"

text \<open>
  \<open>uuid.UUID\<close> of a text, printed again; \<open>None\<close> is the \<open>ValueError\<close>. What \<open>int(hex, 16)\<close> accepts beyond hexadecimal digits
  (a sign, a prefix, blanks and underscores) is refused here.
\<close>

function (sequential) erase :: "string \<Rightarrow> string \<Rightarrow> string" where
  "erase pat [] = []"
| "erase pat (c # cs) =
     (if pat \<noteq> [] \<and> prefix pat (c # cs) then erase pat (drop (length pat) (c # cs)) else c # erase pat cs)"
  by pat_completeness auto
termination by (relation "measure (length \<circ> snd)") auto

definition strip_braces :: "string \<Rightarrow> string" where
  "strip_braces s = (let brace = (\<lambda>c. c = CHR ''{'' \<or> c = CHR ''}'') in rev (dropWhile brace (rev (dropWhile brace s))))"

definition uuid_text :: "string \<Rightarrow> string" where
  "uuid_text h = js_join ''-'' [take 8 h, take 4 (drop 8 h), take 4 (drop 12 h), take 4 (drop 16 h), drop 20 h]"

definition uuid_UUID :: "string \<Rightarrow> string option" where
  "uuid_UUID s =
     (let h = filter (\<lambda>c. c \<noteq> CHR ''-'') (strip_braces (erase ''uuid:'' (erase ''urn:'' s)))
      in if length h = 32 \<and> list_all (\<lambda>c. hex_value c \<noteq> None) h then Some (uuid_text (toLowerCase h)) else None)"

definition build_sensor_entity :: "sensor_row \<Rightarrow> GraphEntity" where
  "build_sensor_entity x =
     \<lparr>ge_kind = ''sensor'', ge_id = sr_sensor_id x, ge_label = sr_gas_type x @ '' sensor'',
      ge_attributes =
        [(''sensor_id'', JStr (sr_sensor_id x)), (''zone_id'', JStr (sr_zone_id x)), (''gas_type'', JStr (sr_gas_type x)),
         (''alarm_threshold'', JNum (sr_alarm_threshold x)),
         (''last_calibrated_at'', case sr_last_calibrated_at x of Some t \<Rightarrow> JStr t | None \<Rightarrow> JNull)]\<rparr>"

definition build_sensor_reading_entity :: "reading_row \<Rightarrow> GraphEntity" where
  "build_sensor_reading_entity x =
     \<lparr>ge_kind = ''sensor_reading'', ge_id = rr_reading_id x,
      ge_label = rr_value_text x @ '' '' @ rr_unit x @ '' ('' @ rr_gas_type x @ '')'',
      ge_attributes =
        [(''reading_id'', JStr (rr_reading_id x)), (''sensor_id'', JStr (rr_sensor_id x)), (''zone_id'', JStr (rr_zone_id x)),
         (''gas_type'', JStr (rr_gas_type x)), (''value'', JNum (rr_value x)), (''unit'', JStr (rr_unit x)),
         (''timestamp'', JStr (rr_timestamp x)), (''quality_flag'', JStr (rr_quality_flag x))]\<rparr>"

text \<open>An edge from the entity that is expanded to a neighbour, with the neighbour.\<close>

definition edge_to :: "string \<Rightarrow> string \<Rightarrow> string \<Rightarrow> string \<Rightarrow> GraphEntity \<Rightarrow> GraphEdge \<times> GraphEntity" where
  "edge_to source_kind source_id relation target_kind x =
     (\<lparr>gd_source_kind = source_kind, gd_source_id = source_id, gd_relation = relation, gd_target_kind = target_kind,
       gd_target_id = ge_id x, gd_label = ge_label x\<rparr>, x)"

definition neighbors_of_plant :: "graph_db \<Rightarrow> (GraphEdge \<times> GraphEntity) list" where
  "neighbors_of_plant db = map (edge_to ''plant'' ''plant'' ''contains'' ''zone'') (db_zones db)"

definition neighbors_of_zone :: "graph_db \<Rightarrow> string \<Rightarrow> (GraphEdge \<times> GraphEntity) list option" where
  "neighbors_of_zone db entity_id =
     map_option (\<lambda>zone_id.
       map (edge_to ''zone'' entity_id ''contains'' ''sensor'')
         (map build_sensor_entity (filter (\<lambda>x. sr_zone_id x = zone_id) (db_sensors db)))
       @ map (edge_to ''zone'' entity_id ''contains'' ''worker'') (db_zone_workers db zone_id)
       @ map (edge_to ''zone'' entity_id ''contains'' ''equipment'') (db_zone_equipment db zone_id)
       @ map (edge_to ''zone'' entity_id ''contains'' ''permit'') (db_zone_permits db zone_id)
       @ map (edge_to ''zone'' entity_id ''adjacent_to'' ''zone'') (List.map_filter (db_zone db) (db_adjacent_zones db zone_id))
       @ map (edge_to ''zone'' entity_id ''assessed_by'' ''risk_assessment'') (db_recent_assessments db zone_id))
     (uuid_UUID entity_id)"

definition neighbors_of_sensor :: "graph_db \<Rightarrow> string \<Rightarrow> (GraphEdge \<times> GraphEntity) list option" where
  "neighbors_of_sensor db entity_id =
     map_option (\<lambda>sensor_id.
       case List.find (\<lambda>x. sr_sensor_id x = sensor_id) (db_sensors db) of
         None \<Rightarrow> []
       | Some sensor \<Rightarrow>
           (case db_latest_reading db (sr_zone_id sensor) (sr_gas_type sensor) of
              None \<Rightarrow> []
            | Some reading \<Rightarrow> [edge_to ''sensor'' entity_id ''produced'' ''sensor_reading'' (build_sensor_reading_entity reading)]))
     (uuid_UUID entity_id)"

definition neighbors_of_sensor_reading :: "string \<Rightarrow> (GraphEdge \<times> GraphEntity) list" where
  "neighbors_of_sensor_reading entity_id = []"

definition OTHER_KINDS :: "string list" where
  "OTHER_KINDS =
     [''worker'', ''equipment'', ''permit'', ''risk_assessment'', ''triggered_agent'', ''recommendation'', ''historical_incident'',
      ''forecast'', ''lesson_learned'', ''counterfactual'', ''business_impact'']"

definition get_neighbors ::
  "graph_db \<Rightarrow> (entity_ref \<Rightarrow> (GraphEdge \<times> GraphEntity) list option) \<Rightarrow> entity_ref \<Rightarrow> (GraphEdge \<times> GraphEntity) list option" where
  "get_neighbors db other r =
     (if ref_kind r = ''plant'' then Some (neighbors_of_plant db)
      else if ref_kind r = ''zone'' then neighbors_of_zone db (ref_id r)
      else if ref_kind r = ''sensor'' then neighbors_of_sensor db (ref_id r)
      else if ref_kind r = ''sensor_reading'' then Some (neighbors_of_sensor_reading (ref_id r))
      else if ref_kind r \<in> set OTHER_KINDS then other r
      else Some [])"

text \<open>The neighbours as far as no error is raised.\<close>

definition neighbors_or_none ::
  "graph_db \<Rightarrow> (entity_ref \<Rightarrow> (GraphEdge \<times> GraphEntity) list option) \<Rightarrow> entity_ref \<Rightarrow> (GraphEdge \<times> GraphEntity) list" where
  "neighbors_or_none db other r = (case get_neighbors db other r of Some ns \<Rightarrow> ns | None \<Rightarrow> [])"

lemma sensor_neighbors:
  assumes "(e, x) \<in> set (neighbors_or_none db other (Ref ''sensor'' i))"
  shows "ge_kind x = ''sensor_reading''"
  using assms
  by (auto simp: neighbors_or_none_def get_neighbors_def neighbors_of_sensor_def edge_to_def build_sensor_reading_entity_def
      split: option.splits)

lemma reading_neighbors: "get_neighbors db other (Ref ''sensor_reading'' i) = Some []"
  by (simp add: get_neighbors_def neighbors_of_sensor_reading_def)

lemma zone_sensor_neighbor:
  assumes "x \<in> set (db_sensors db)" and "uuid_UUID z = Some (sr_zone_id x)"
  shows "\<exists>e. (e, build_sensor_entity x) \<in> set (neighbors_or_none db other (Ref ''zone'' z))"
proof -
  have "edge_to ''zone'' z ''contains'' ''sensor'' (build_sensor_entity x) \<in> set (neighbors_or_none db other (Ref ''zone'' z))"
    using assms by (simp add: neighbors_or_none_def get_neighbors_def neighbors_of_zone_def)
  then show ?thesis by (simp add: edge_to_def) blast
qed

lemma sensor_leads_nowhere:
  assumes "k \<noteq> ''sensor''" and "k \<noteq> ''sensor_reading''"
  shows "get_path (neighbors_or_none db other) (Ref ''sensor'' i) (Ref k j) d = Some None"
proof (rule get_path_closed[of "insert (Ref ''sensor'' i) (range (Ref ''sensor_reading''))"])
  fix e x m assume "m \<in> insert (Ref ''sensor'' i) (range (Ref ''sensor_reading''))" "(e, x) \<in> set (neighbors_or_none db other m)"
  then show "ref_of x \<in> insert (Ref ''sensor'' i) (range (Ref ''sensor_reading''))"
    using sensor_neighbors[of e x db other i] by (auto simp: ref_of_def neighbors_or_none_def reading_neighbors)
qed (use assms in auto)

text \<open>
  (C33) "These two entities aren't linked by any real relationship" may be said of two entities that are: the neighbours the backend gives for a
  sensor are at most its latest reading, and for a reading none, so from a sensor in the database nothing but its reading is ever found;
  the explorer denies the link to the zone that has the sensor, for any bound and whatever else the database holds. The other
  way round the zone leads to the sensor in one hop. None of the entities expanded in these two searches raises an error.
\<close>

theorem sensor_path_one_way:
  "(let nb = neighbors_or_none db other; zone = Ref ''zone'' (sr_zone_id x); s = build_sensor_entity x
    in if x \<in> set (db_sensors db) \<and> uuid_UUID (sr_zone_id x) = Some (sr_zone_id x) \<and> uuid_UUID (sr_sensor_id x) = Some (sr_sensor_id x)
       then concat (map (element_texts ''p'') (explorer_result s (path_answer (get_path nb (ref_of s) zone d)))) =
              [''No connection found - these two entities aren't linked by any real relationship currently in the graph.''] \<and>
            (\<exists>e. get_path nb zone (ref_of s) (Suc d) = Some (Some [e])) \<and>
            get_neighbors db other zone \<noteq> None \<and> get_neighbors db other (ref_of s) \<noteq> None \<and>
            (\<forall>j. get_neighbors db other (Ref ''sensor_reading'' j) = Some [])
       else True)"
proof -
  let ?nb = "neighbors_or_none db other" and ?zone = "Ref ''zone'' (sr_zone_id x)" and ?s = "build_sensor_entity x"
  have ref: "ref_of ?s = Ref ''sensor'' (sr_sensor_id x)" by (simp add: ref_of_def build_sensor_entity_def)
  have denied: "concat (map (element_texts ''p'') (explorer_result ?s (path_answer (get_path ?nb (ref_of ?s) ?zone d)))) =
      [''No connection found - these two entities aren't linked by any real relationship currently in the graph.'']"
    unfolding ref by (simp add: sensor_leads_nowhere explorer_result_def path_answer_def QueryResult_def plain_query_def cond_def)
  have hop: "\<exists>e. get_path ?nb ?zone (ref_of ?s) (Suc d) = Some (Some [e])"
    if "x \<in> set (db_sensors db)" "uuid_UUID (sr_zone_id x) = Some (sr_zone_id x)"
    using zone_sensor_neighbor[OF that, of other] get_path_neighbor[of _ ?s ?nb ?zone d] by (auto simp: ref)
  have "get_neighbors db other ?zone \<noteq> None" if "uuid_UUID (sr_zone_id x) = Some (sr_zone_id x)"
    using that by (simp add: get_neighbors_def neighbors_of_zone_def)
  moreover have "get_neighbors db other (ref_of ?s) \<noteq> None" if "uuid_UUID (sr_sensor_id x) = Some (sr_sensor_id x)"
    using that by (simp add: ref get_neighbors_def neighbors_of_sensor_def)
  ultimately show ?thesis unfolding Let_def using denied hop reading_neighbors by (intro if_then_TrueI) blast
qed

definition sample_sensor :: sensor_row where
  "sample_sensor =
     \<lparr>sr_sensor_id = ''5a1f0c4e-9f0b-4c39-8d6f-2b7f6a1e0c11'', sr_zone_id = ''0b9d2c7a-4e1f-4a55-9c03-7d2e8f6b1a22'', sr_gas_type = ''CO'',
      sr_alarm_threshold = 50, sr_last_calibrated_at = None\<rparr>"

definition sample_graph_db :: graph_db where
  "sample_graph_db =
     \<lparr>db_sensors = [sample_sensor], db_latest_reading = (\<lambda>z g. None), db_zones = [], db_zone = (\<lambda>z. None),
      db_zone_workers = (\<lambda>z. []), db_zone_equipment = (\<lambda>z. []), db_zone_permits = (\<lambda>z. []), db_adjacent_zones = (\<lambda>z. []),
      db_recent_assessments = (\<lambda>z. [])\<rparr>"

theorem sensor_path_one_way_witness:
  "concat (map (element_texts ''p'') (explorer_result (build_sensor_entity sample_sensor) (path_answer
     (get_path (neighbors_or_none sample_graph_db (\<lambda>r. None)) (ref_of (build_sensor_entity sample_sensor))
       (Ref ''zone'' ''0b9d2c7a-4e1f-4a55-9c03-7d2e8f6b1a22'') 6)))) =
     [''No connection found - these two entities aren't linked by any real relationship currently in the graph.''] \<and>
   (\<exists>e. get_path (neighbors_or_none sample_graph_db (\<lambda>r. None)) (Ref ''zone'' ''0b9d2c7a-4e1f-4a55-9c03-7d2e8f6b1a22'')
     (ref_of (build_sensor_entity sample_sensor)) 6 = Some (Some [e]))"
proof -
  have "uuid_UUID ''0b9d2c7a-4e1f-4a55-9c03-7d2e8f6b1a22'' = Some ''0b9d2c7a-4e1f-4a55-9c03-7d2e8f6b1a22''"
    "uuid_UUID ''5a1f0c4e-9f0b-4c39-8d6f-2b7f6a1e0c11'' = Some ''5a1f0c4e-9f0b-4c39-8d6f-2b7f6a1e0c11''" by code_simp+
  moreover have "sample_sensor \<in> set (db_sensors sample_graph_db)" by (simp add: sample_graph_db_def)
  moreover have "sr_zone_id sample_sensor = ''0b9d2c7a-4e1f-4a55-9c03-7d2e8f6b1a22''" "sr_sensor_id sample_sensor = ''5a1f0c4e-9f0b-4c39-8d6f-2b7f6a1e0c11''"
    by (simp_all add: sample_sensor_def)
  ultimately show ?thesis
    using sensor_path_one_way[of sample_graph_db "\<lambda>r. None" sample_sensor 6] sensor_path_one_way[of sample_graph_db "\<lambda>r. None" sample_sensor 5]
    by (simp add: Let_def)
qed

text \<open>
  The explorer draws every hop as the target of its edge. Where the backend reaches an entity by an edge that points the other way, as
  it reaches a historical incident from a forecast that the incident supports, the drawn chain turns back: the entity that was
  asked for is on none of its buttons.
\<close>

theorem incoming_edges_hide_target:
  "(if ref_of a \<noteq> b \<and> (\<forall>m. list_all (\<lambda>(e, x). ref_of (edge_target e) = (if ref_of x = b then m else ref_of x)) (nb m))
    then case get_path nb (ref_of a) b d of
        Some (Some es) \<Rightarrow>
          list_all (\<lambda>ev. case ev of Select_Ref y \<Rightarrow> ref_of y \<noteq> b | _ \<Rightarrow> False)
            (concat (map buttons_of (explorer_result a (path_answer (Some (Some es))))))
      | _ \<Rightarrow> True
    else True)"
proof (intro if_then_TrueI; elim conjE)
  assume ab: "ref_of a \<noteq> b" and turned: "\<forall>m. list_all (\<lambda>(e, x). ref_of (edge_target e) = (if ref_of x = b then m else ref_of x)) (nb m)"
  have drawn: "list_all (\<lambda>ev. case ev of Select_Ref y \<Rightarrow> ref_of y \<noteq> b | _ \<Rightarrow> False)
        (concat (map buttons_of (explorer_result a (path_answer (Some (Some es))))))"
    if c: "chain nb (ref_of a) es b" and short: "{fs. chain nb (ref_of a) fs b \<and> length fs < length es} = {}" for es
  proof -
    have "ref_of (edge_target e) \<noteq> b" if e: "e \<in> set es" for e
    proof
      assume target: "ref_of (edge_target e) = b"
      obtain xs ys where es: "es = xs @ e # ys" using split_list[OF e] by auto
      with c obtain m x where m: "chain nb (ref_of a) xs m" "(e, x) \<in> set (nb m)" by (auto simp: chain_append list_ex_iff)
      from short es have no: "\<not> chain nb (ref_of a) xs b" by auto
      have "ref_of (edge_target e) = (if ref_of x = b then m else ref_of x)"
        using bspec[OF turned[THEN spec, of m, unfolded list_all_iff] m(2)] by simp
      with target have "m = b" by (simp split: if_splits)
      with m(1) no show False by simp
    qed
    then show ?thesis using ab unfolding buttons_route by (auto simp: list_all_iff)
  qed
  show "case get_path nb (ref_of a) b d of
        Some (Some es) \<Rightarrow>
          list_all (\<lambda>ev. case ev of Select_Ref y \<Rightarrow> ref_of y \<noteq> b | _ \<Rightarrow> False)
            (concat (map buttons_of (explorer_result a (path_answer (Some (Some es))))))
      | _ \<Rightarrow> True"
    using get_path_shortest'[of nb "ref_of a" b d] by (auto intro: drawn split: option.splits)
qed

end
