(* ===== verification/Graph_Ui.thy ===== *)
theory Graph_Ui
  imports Path_Page Map_View
begin

section \<open>The knowledge-graph page on the screen\<close>

text \<open>
  What \<open>pages/KnowledgeGraphPage.tsx\<close> shows and what its controls do, around the state of \<open>Graph_Page\<close>: the search bar, the
  breadcrumbs, the canvas with one node per laid out entity, and the four panels of \<open>components/graph\<close>. A panel keeps
  its state while it is open; \<open>commit\<close> is what React does after every event: panels that closed forget their state, panels that
  opened start afresh, and the effects of the navigator and of the player run.

  The canvas draws with React Flow, which raises \<open>onNodeClick\<close> for the nodes it was handed: here they are buttons with the
  contents of \<open>EntityNode\<close>. Queries inside the components are functions from what they ask for to their result.

  The properties: whatever a user does, the invariant of the page holds and a panel that is not open has no state;
  and whatever step of an explanation is reached, the page highlights the edges so far and selects the step's entity, and the
  player stays where it is.
\<close>

subsection \<open>components/graph\<close>

fun js_text :: "json \<Rightarrow> string" where
  "js_text JNull = ''null''"
| "js_text (JBool b) = (if b then ''true'' else ''false'')"
| "js_text (JNum n) = num_toString n"
| "js_text (JStr s) = s"
| "js_text (JArr vs) = js_join '','' (map (\<lambda>v. if v = JNull then [] else js_text v) vs)"
| "js_text (JObj kvs) = ''[object Object]''"

definition formatAttributeValue :: "json \<Rightarrow> string" where
  "formatAttributeValue v =
     (case v of JNull \<Rightarrow> utf8_emdash | JBool b \<Rightarrow> (if b then ''Yes'' else ''No'') | _ \<Rightarrow> js_text v)"

datatype inspector_event = Inspect_Entity GraphEntity | Recenter_Here GraphEntity | Refetch_Neighbors

definition entity_spans :: "GraphEntity \<Rightarrow> 'e node list" where
  "entity_spans x = [el ''span'' [Text (spaced (ge_kind x))], el ''span'' [Text (ge_label x)]]"

definition neighbor_button :: "GraphNeighbor \<Rightarrow> inspector_event node" where
  "neighbor_button n =
     el ''li'' [Button [] True (Inspect_Entity (gn_entity n))
       (el ''span'' [Text (spaced (gd_relation (gn_edge n)))] # entity_spans (gn_entity n))]"

definition NodeInspector :: "GraphEntity \<Rightarrow> GraphNeighbor list query \<Rightarrow> inspector_event node" where
  "NodeInspector entity q =
     (let ns = (case q_data q of Some xs \<Rightarrow> xs | None \<Rightarrow> [])
      in el ''div''
           ([el ''div''
               [el ''span'' [Text (spaced (ge_kind entity))], el ''h3'' [Text (ge_label entity)],
                Button [] True (Recenter_Here entity) [Text ''Recenter here'']]]
            @ cond (length (ge_attributes entity) > 0)
                [el ''dl'' (map (\<lambda>(key, value). el ''div'' [el ''dt'' [Text (spaced key)], el ''dd'' [Text (formatAttributeValue value)]])
                   (ge_attributes entity))]
            @ [el ''h4'' [Text ''Connected evidence'']]
            @ QueryResult (plain_query (q_isLoading q) (q_error q) (length ns = 0) ''No connected entities.'' Refetch_Neighbors)
                [el ''ul'' (map neighbor_button ns)]))"

datatype navigator_event = Drill_Into GraphEntity | Jump_To nat | Refetch_Evidence

definition RootCauseNavigator :: "(GraphEntity \<Rightarrow> GraphNeighbor list query) \<Rightarrow> GraphEntity list \<Rightarrow> navigator_event node" where
  "RootCauseNavigator neighbors_of tr =
     (let q = neighbors_of (last tr); grouped = groupByRelation (case q_data q of Some xs \<Rightarrow> xs | None \<Rightarrow> [])
      in el ''div''
           ([el ''h4'' [Text ''Root Cause Navigation''],
             el ''ol'' (map (\<lambda>(index, x). el ''li''
               (cond (index > 0) [el ''span'' [Text utf8_arrow]]
                @ [Button [] (Suc index \<noteq> length tr) (Jump_To index) [Text (spaced (ge_kind x) @ '': '' @ ge_label x)]])) (enumerate 0 tr))]
            @ QueryResult (plain_query (q_isLoading q) (q_error q) (length grouped = 0)
                ''No further evidence connected to this entity.'' Refetch_Evidence)
                [el ''div'' (map (\<lambda>(relation, ns). el ''div''
                   [el ''h5'' [Text (spaced relation)],
                    el ''ul'' (map (\<lambda>n. el ''li'' [Button [] True (Drill_Into (gn_entity n)) (entity_spans (gn_entity n))]) ns)]) grouped)]))"

definition JudgeModePlayer :: "GraphNeighbor list query \<Rightarrow> jp_state \<Rightarrow> jp_event node" where
  "JudgeModePlayer q s =
     el ''div''
       (el ''h4'' [Text ''Explain This Decision'']
        # QueryResult \<lparr>qp_isLoading = q_isLoading q, qp_error = q_error q,
              qp_isEmpty = (\<not> q_isLoading q \<and> length (jp_steps s) = 0), qp_emptyLabel = ''No explainable chain found for this assessment.'',
              qp_emptyHint = None, qp_emptyAction = None, qp_loadingLabel = None, qp_onRetry = None\<rparr>
            [el ''ol'' (map (\<lambda>(index, st).
               El ''li'' [(''class'', if int index = jp_stepIndex s then ''graph-judge-mode-step-active'' else [])]
                 [Button [] True (JpSelect index) [el ''span'' [Text (js_label st)], el ''span'' [Text (ge_label (js_entity st))]]])
               (enumerate 0 (jp_steps s))),
             el ''div''
               [Button [] (jp_stepIndex s \<noteq> 0) JpPrevious [Text ''Previous''],
                Button [] (\<not> (jp_steps s = [] \<or> jp_last s \<le> jp_stepIndex s)) JpToggle [Text (if jp_isPlaying s then ''Pause'' else ''Play'')],
                Button [] (\<not> jp_last s \<le> jp_stepIndex s) JpNext [Text ''Next'']]])"

definition utf8_crumb :: string where "utf8_crumb = [CHR 0xE2, CHR 0x80, CHR 0xBA]"

definition GraphBreadcrumbs :: "GraphEntity list \<Rightarrow> nat node list" where
  "GraphBreadcrumbs tr =
     cond (length tr > 0)
       [El ''nav'' [(''aria-label'', ''Graph navigation trail'')]
          (map (\<lambda>(index, x). el ''span''
             (cond (index > 0) [el ''span'' [Text utf8_crumb]]
              @ [if Suc index = length tr then el ''span'' [Text (ge_label x)] else Button [] True index [Text (ge_label x)]]))
             (enumerate 0 tr))]"

definition EntityNode :: "RFNode \<Rightarrow> GraphEntity node" where
  "EntityNode n =
     (let entity = rn_entity n
      in Button [(''class'', ''graph-node graph-node-'' @ ge_kind entity @ (if rn_selected n then '' graph-node-selected'' else [])),
                 (''title'', ge_label entity)] True entity (entity_spans entity))"

subsection \<open>The page\<close>

record graph_page =
  gu_kg :: kg_state
  gu_plant :: "GraphEntity query"
  gu_subgraph :: "GraphSubgraph query"
  gu_search :: string
  gu_explorer :: path_explorer
  gu_trail :: "GraphEntity list"
  gu_player :: jp_state
  gu_neighbors :: "entity_ref \<Rightarrow> GraphNeighbor list query"
  gu_found :: "string \<Rightarrow> GraphEntity list query"
  gu_paths :: "entity_ref \<Rightarrow> entity_ref \<Rightarrow> GraphPath query"

datatype graph_event =
    In_Search search_bar_event
  | In_Crumbs nat
  | In_Canvas GraphEntity
  | In_Tabs InspectorPanel
  | In_Inspector inspector_event
  | In_Explorer explorer_event
  | In_Navigator navigator_event
  | In_Player jp_event
  | Graph_Retry

definition graph_result :: "graph_page \<Rightarrow> graph_event query_props" where
  "graph_result s =
     plain_query (q_isLoading (gu_plant s) \<or> q_isLoading (gu_subgraph s))
       (case q_error (gu_plant s) of Some e \<Rightarrow> Some e | None \<Rightarrow> q_error (gu_subgraph s)) (effectiveRoot (gu_kg s) = None)
       ''The knowledge graph has no data to show yet.'' Graph_Retry"

definition graph_shown :: "graph_page \<Rightarrow> bool" where
  "graph_shown s =
     (\<not> q_isLoading (gu_plant s) \<and> \<not> q_isLoading (gu_subgraph s) \<and> q_error (gu_plant s) = None \<and> q_error (gu_subgraph s) = None \<and>
      effectiveRoot (gu_kg s) \<noteq> None)"

definition explorer_open :: "graph_page \<Rightarrow> bool" where
  "explorer_open s = (graph_shown s \<and> kg_activePanel (gu_kg s) = PathPanel)"

definition navigator_open :: "graph_page \<Rightarrow> bool" where
  "navigator_open s = (graph_shown s \<and> kg_activePanel (gu_kg s) = RootCausePanel \<and> kg_selectedEntity (gu_kg s) \<noteq> None)"

definition player_open :: "graph_page \<Rightarrow> bool" where
  "player_open s = (graph_shown s \<and> kg_activePanel (gu_kg s) = JudgeModePanel \<and> kg_judgeModeAssessment (gu_kg s) \<noteq> None)"

definition neighbors_of :: "graph_page \<Rightarrow> GraphEntity \<Rightarrow> GraphNeighbor list query" where
  "neighbors_of s x = gu_neighbors s (ref_of x)"

text \<open>The steps of the player: the assessment's neighbours, and those of its triggered agent once they are known.\<close>

definition current_steps :: "graph_page \<Rightarrow> JudgeModeStep list" where
  "current_steps s =
     (case kg_judgeModeAssessment (gu_kg s) of
        None \<Rightarrow> []
      | Some a \<Rightarrow>
          let ns = q_data (neighbors_of s a);
              agent = Option.bind ns (find_neighbor ''triggered'' ''triggered_agent'')
          in player_steps a ns (Option.bind agent (\<lambda>n. q_data (neighbors_of s (gn_entity n)))))"

text \<open>The player's effect on the page: highlight the edges so far, focus the step's entity.\<close>

definition show_step :: "jp_state \<Rightarrow> kg_state \<Rightarrow> kg_state" where
  "show_step p kg =
     (let kg1 = kg_step kg (HighlightEdges (jp_highlight p))
      in case jp_current p of Some st \<Rightarrow> kg_step kg1 (FocusEntity (js_entity st)) | None \<Rightarrow> kg1)"

text \<open>
  The player in the commit from \<open>before\<close> to \<open>s\<close>. A player that opens, or gets another assessment, goes back to the first
  step; the effect on the page runs when the steps or the index are new, with the old index first.
\<close>

definition player_commit :: "graph_page \<Rightarrow> graph_page \<Rightarrow> graph_page" where
  "player_commit before s =
     (if \<not> player_open s then s\<lparr>gu_player := jp_start\<rparr>
      else
        let opened = (\<not> player_open before);
            other = (map_option ref_of (kg_judgeModeAssessment (gu_kg before)) \<noteq> map_option ref_of (kg_judgeModeAssessment (gu_kg s)));
            p = (if opened then jp_start else gu_player s)\<lparr>jp_steps := current_steps s\<rparr>;
            kg1 = (if opened \<or> jp_steps p \<noteq> jp_steps (gu_player before) \<or> jp_stepIndex p \<noteq> jp_stepIndex (gu_player before)
                   then show_step p (gu_kg s) else gu_kg s);
            p2 = (if opened \<or> other then jp_apply p JpAssessment else p);
            kg2 = (if jp_stepIndex p2 \<noteq> jp_stepIndex p then show_step p2 kg1 else kg1)
        in s\<lparr>gu_player := jp_effect p2, gu_kg := kg2\<rparr>)"

definition graph_commit :: "graph_page \<Rightarrow> graph_page \<Rightarrow> graph_page" where
  "graph_commit before s =
     player_commit before
       (s\<lparr>gu_explorer := (if explorer_open s \<and> explorer_open before then gu_explorer s else explorer_start),
          gu_trail := (if navigator_open s
            then (if navigator_open before then start_effect (gu_kg before) (gu_kg s) (gu_trail s)
                  else [the (kg_selectedEntity (gu_kg s))])
            else [])\<rparr>)"

definition graph_handle :: "graph_event \<Rightarrow> graph_page \<Rightarrow> graph_page" where
  "graph_handle e s =
     (let kg = gu_kg s
      in case e of
           In_Search b \<Rightarrow> (case search_bar_update b (gu_search s) of
               (q, None) \<Rightarrow> s\<lparr>gu_search := q\<rparr> | (q, Some x) \<Rightarrow> s\<lparr>gu_search := q, gu_kg := kg_step kg (Recenter x)\<rparr>)
         | In_Crumbs i \<Rightarrow> s\<lparr>gu_kg := kg_step kg (SelectCrumb i)\<rparr>
         | In_Canvas x \<Rightarrow> s\<lparr>gu_kg := kg_step kg (SelectNode x)\<rparr>
         | In_Tabs p \<Rightarrow> s\<lparr>gu_kg := kg_step kg (OpenPanel p)\<rparr>
         | In_Inspector i \<Rightarrow> (case i of
               Inspect_Entity x \<Rightarrow> s\<lparr>gu_kg := kg_step kg (SelectNode x)\<rparr>
             | Recenter_Here x \<Rightarrow> s\<lparr>gu_kg := kg_step kg (Recenter x)\<rparr>
             | Refetch_Neighbors \<Rightarrow> s)
         | In_Explorer x \<Rightarrow>
             s\<lparr>gu_explorer := explorer_update x (gu_explorer s),
               gu_kg := (case x of Select_Ref y \<Rightarrow> kg_step kg (SelectRef y) | _ \<Rightarrow> kg)\<rparr>
         | In_Navigator n \<Rightarrow> (case n of
               Drill_Into x \<Rightarrow> s\<lparr>gu_trail := gu_trail s @ [x], gu_kg := kg_step kg (FocusEntity x)\<rparr>
             | Jump_To i \<Rightarrow> s\<lparr>gu_trail := take (Suc i) (gu_trail s), gu_kg := kg_step kg (FocusEntity (gu_trail s ! i))\<rparr>
             | Refetch_Evidence \<Rightarrow> s)
         | In_Player p \<Rightarrow> s\<lparr>gu_player := jp_apply (gu_player s) p\<rparr>
         | Graph_Retry \<Rightarrow> s)"

definition graph_update :: "graph_event \<Rightarrow> graph_page \<Rightarrow> graph_page" where
  "graph_update e s = graph_commit s (graph_handle e s)"

datatype graph_input =
    Plant_Query "GraphEntity query"
  | Subgraph_Query "GraphSubgraph query"
  | Neighbors_Query "entity_ref \<Rightarrow> GraphNeighbor list query"
  | Search_Query "string \<Rightarrow> GraphEntity list query"
  | Path_Query "entity_ref \<Rightarrow> entity_ref \<Rightarrow> GraphPath query"
  | Mounted "string option"
  | Answered nat "GraphNeighbor list" GraphEntity
  | Unanswered nat
  | Step_Timer

definition graph_env :: "graph_input \<Rightarrow> graph_page \<Rightarrow> graph_page" where
  "graph_env x s =
     graph_commit s (case x of
        Plant_Query q \<Rightarrow> s\<lparr>gu_plant := q, gu_kg := (gu_kg s)\<lparr>kg_plant := q_data q\<rparr>\<rparr>
      | Subgraph_Query q \<Rightarrow> s\<lparr>gu_subgraph := q, gu_kg := (gu_kg s)\<lparr>kg_subgraph := q_data q\<rparr>\<rparr>
      | Neighbors_Query f \<Rightarrow> s\<lparr>gu_neighbors := f\<rparr>
      | Search_Query f \<Rightarrow> s\<lparr>gu_found := f\<rparr>
      | Path_Query f \<Rightarrow> s\<lparr>gu_paths := f\<rparr>
      | Mounted focus \<Rightarrow> s\<lparr>gu_kg := kg_step (gu_kg s) (FirstRender focus)\<rparr>
      | Answered i ns y \<Rightarrow> s\<lparr>gu_kg := kg_step (gu_kg s) (Answer i ns y)\<rparr>
      | Unanswered i \<Rightarrow> s\<lparr>gu_kg := kg_step (gu_kg s) (FetchFailed i)\<rparr>
      | Step_Timer \<Rightarrow> s\<lparr>gu_player := jp_apply (gu_player s) JpTimer\<rparr>)"

definition graph_open ::
  "GraphEntity query \<Rightarrow> GraphSubgraph query \<Rightarrow> (entity_ref \<Rightarrow> GraphNeighbor list query) \<Rightarrow> (string \<Rightarrow> GraphEntity list query) \<Rightarrow>
   (entity_ref \<Rightarrow> entity_ref \<Rightarrow> GraphPath query) \<Rightarrow> graph_page" where
  "graph_open plant subgraph ns found paths =
     \<lparr>gu_kg = kg_start (q_data plant) (q_data subgraph), gu_plant = plant, gu_subgraph = subgraph, gu_search = [],
      gu_explorer = explorer_start, gu_trail = [], gu_player = jp_start, gu_neighbors = ns, gu_found = found, gu_paths = paths\<rparr>"

definition panel_tab :: "graph_page \<Rightarrow> InspectorPanel \<Rightarrow> bool \<Rightarrow> string \<Rightarrow> graph_event node" where
  "panel_tab s p enabled label =
     (let active = (kg_activePanel (gu_kg s) = p)
      in Button [(''aria-selected'', if active then ''true'' else ''false''), (''class'', if active then ''graph-panel-tab-active'' else [])]
           enabled (In_Tabs p) [Text label])"

definition graph_tabs :: "graph_page \<Rightarrow> graph_event node" where
  "graph_tabs s =
     (let kg = gu_kg s
      in El ''div'' [(''role'', ''tablist'')]
           [panel_tab s Inspector True ''Inspector'', panel_tab s PathPanel True ''Path Explorer'',
            panel_tab s RootCausePanel (kg_selectedEntity kg \<noteq> None) ''Root Cause'',
            panel_tab s JudgeModePanel (\<not> (kg_activePanel kg \<noteq> JudgeModePanel \<and> \<not> is_risk_assessment (kg_selectedEntity kg)))
              ''Explain This Decision''])"

definition graph_panel :: "graph_page \<Rightarrow> graph_event node" where
  "graph_panel s =
     (let kg = gu_kg s; selected = kg_selectedEntity kg
      in case kg_activePanel kg of
           Inspector \<Rightarrow> (case selected of
               Some x \<Rightarrow> map_node In_Inspector (NodeInspector x (neighbors_of s x))
             | None \<Rightarrow> p_text ''Select a node to inspect it.'')
         | PathPanel \<Rightarrow> map_node In_Explorer (PathExplorer (gu_found s) (gu_paths s) (gu_explorer s))
         | RootCausePanel \<Rightarrow> (case selected of
               Some x \<Rightarrow> map_node In_Navigator (RootCauseNavigator (neighbors_of s) (gu_trail s))
             | None \<Rightarrow> el ''div'' [])
         | JudgeModePanel \<Rightarrow> (case kg_judgeModeAssessment kg of
               Some a \<Rightarrow> map_node In_Player (JudgeModePlayer (neighbors_of s a) (gu_player s))
             | None \<Rightarrow> p_text ''Select a Risk Assessment node, then reopen this tab to explain its decision.''))"

definition graph_view :: "(number \<Rightarrow> number) \<Rightarrow> (number \<Rightarrow> number) \<Rightarrow> graph_page \<Rightarrow> graph_event node list" where
  "graph_view mc ms s =
     [el ''section''
        ([el ''h1'' [Text ''Operational Knowledge Graph''],
          p_text (''Every entity behind a decision - sensors, workers, permits, risk assessments, recommendations, ''
            @ ''historical incidents, forecasts, counterfactuals - as one navigable, read-only evidence graph. Nothing here ''
            @ ''recomputes a risk score or recommendation; the graph only connects evidence that already exists elsewhere in the platform.''),
          el ''div'' (map_node In_Search (GraphSearchBar (gu_found s) (gu_search s))
            # map (map_node In_Crumbs) (GraphBreadcrumbs (trail (gu_kg s))))]
         @ QueryResult (graph_result s)
             (cond (effectiveRoot (gu_kg s) \<noteq> None)
               [el ''div''
                  [el ''div'' (map (map_node In_Canvas \<circ> EntityNode) (fst (canvas mc ms (gu_kg s)))),
                   el ''div'' [graph_tabs s, graph_panel s]]]))]"

subsection \<open>Facts\<close>

lemma focus_keeps [simp]:
  "kg_activePanel (handleFocus c x kg) = kg_activePanel kg" "effectiveRoot (handleFocus c x kg) = effectiveRoot kg"
  "kg_judgeModeAssessment (handleFocus c x kg) = kg_judgeModeAssessment kg"
  "kg_highlightedEdgeIds (handleFocus c x kg) = kg_highlightedEdgeIds kg" "kg_selectedEntity (handleFocus c x kg) = Some x"
  by (simp_all add: handleFocus_def handleExpand_def effectiveRoot_def split: option.split)

lemma effectiveRoot_highlight [simp]: "effectiveRoot (kg\<lparr>kg_highlightedEdgeIds := es\<rparr>) = effectiveRoot kg"
  by (simp add: effectiveRoot_def split: option.split)

lemma show_step_keeps [simp]:
  "kg_activePanel (show_step p kg) = kg_activePanel kg" "effectiveRoot (show_step p kg) = effectiveRoot kg"
  "kg_judgeModeAssessment (show_step p kg) = kg_judgeModeAssessment kg"
  by (simp_all add: show_step_def Let_def split: option.split)

lemma show_step_inv: "kg_inv kg \<Longrightarrow> kg_inv (show_step p kg)"
  unfolding show_step_def Let_def by (auto split: option.split intro: kg_step_inv simp del: kg_step.simps)

lemma player_commit_keeps [simp]:
  "kg_activePanel (gu_kg (player_commit b s)) = kg_activePanel (gu_kg s)"
  "effectiveRoot (gu_kg (player_commit b s)) = effectiveRoot (gu_kg s)"
  "kg_judgeModeAssessment (gu_kg (player_commit b s)) = kg_judgeModeAssessment (gu_kg s)"
  "gu_plant (player_commit b s) = gu_plant s" "gu_subgraph (player_commit b s) = gu_subgraph s"
  "gu_explorer (player_commit b s) = gu_explorer s" "gu_trail (player_commit b s) = gu_trail s"
  "gu_neighbors (player_commit b s) = gu_neighbors s"
  by (simp_all add: player_commit_def Let_def)

lemma player_commit_parts [simp]:
  "graph_shown (player_commit b s) = graph_shown s" "explorer_open (player_commit b s) = explorer_open s"
  "player_open (player_commit b s) = player_open s" "current_steps (player_commit b s) = current_steps s"
  by (simp_all add: graph_shown_def explorer_open_def player_open_def current_steps_def neighbors_of_def[abs_def] cong: option.case_cong)

lemma player_closed: "\<not> player_open s \<Longrightarrow> gu_kg (player_commit b s) = gu_kg s"
  by (simp add: player_commit_def)

lemma one_panel: "navigator_open s \<Longrightarrow> \<not> player_open s"
  by (simp add: navigator_open_def player_open_def)

lemma navigator_commit [simp]: "navigator_open (player_commit b s) = navigator_open s"
proof (cases "player_open s")
  case True
  then show ?thesis by (simp add: navigator_open_def player_open_def)
next
  case False
  then show ?thesis by (simp add: navigator_open_def player_closed)
qed

lemma player_commit_inv: "kg_inv (gu_kg s) \<Longrightarrow> kg_inv (gu_kg (player_commit b s))"
  by (simp add: player_commit_def Let_def show_step_inv)

lemma jp_effect_steps [simp]: "jp_steps (jp_effect p) = jp_steps p" "jp_stepIndex (jp_effect p) = jp_stepIndex p"
  by (simp_all add: jp_effect_def)

lemma player_commit_player:
  "if player_open s then jp_steps (gu_player (player_commit b s)) = current_steps s else gu_player (player_commit b s) = jp_start"
  by (simp add: player_commit_def Let_def)

subsection \<open>The invariant\<close>

definition trail_of :: "graph_page \<Rightarrow> bool" where
  "trail_of s = (gu_trail s \<noteq> [] \<and> set (gu_trail s) = {the (kg_selectedEntity (gu_kg s))})"

definition graph_inv :: "graph_page \<Rightarrow> bool" where
  "graph_inv s =
     (kg_inv (gu_kg s) \<and> (if explorer_open s then True else gu_explorer s = explorer_start) \<and>
      (if navigator_open s then trail_of s else gu_trail s = []) \<and>
      (if player_open s then jp_steps (gu_player s) = current_steps s else gu_player s = jp_start))"

lemma graph_commit_inv:
  assumes "kg_inv (gu_kg s)"
    and "navigator_open b \<Longrightarrow> navigator_open s \<Longrightarrow> kg_selectedEntity (gu_kg s) = kg_selectedEntity (gu_kg b) \<Longrightarrow> trail_of s"
  shows "graph_inv (graph_commit b s)"
proof -
  define s1 where "s1 = s\<lparr>gu_explorer := (if explorer_open s \<and> explorer_open b then gu_explorer s else explorer_start),
      gu_trail := (if navigator_open s
        then (if navigator_open b then start_effect (gu_kg b) (gu_kg s) (gu_trail s) else [the (kg_selectedEntity (gu_kg s))])
        else [])\<rparr>"
  have c: "graph_commit b s = player_commit b s1" by (simp add: graph_commit_def s1_def)
  have s1: "gu_kg s1 = gu_kg s" "navigator_open s1 = navigator_open s" "explorer_open s1 = explorer_open s"
    by (simp_all add: s1_def navigator_open_def explorer_open_def graph_shown_def)
  have tr: "trail_of (player_commit b s1)" if "navigator_open s"
  proof -
    have "gu_kg (player_commit b s1) = gu_kg s1" using that one_panel[of s1] by (simp add: s1 player_closed)
    moreover have "trail_of s1"
      using that assms(2) by (cases "kg_selectedEntity (gu_kg s)") (auto simp: trail_of_def s1_def start_effect_def navigator_open_def)
    ultimately show ?thesis by (simp add: trail_of_def)
  qed
  show ?thesis unfolding graph_inv_def c
    using tr assms(1) player_commit_player[of s1 b] by (auto simp: s1 player_commit_inv) (simp_all add: s1_def)
qed

lemma graph_update_inv:
  assumes "graph_inv s"
  shows "graph_inv (graph_update e s)"
  unfolding graph_update_def
proof (rule graph_commit_inv)
  have kg: "kg_inv (gu_kg s)" using assms by (simp add: graph_inv_def)
  note inv = kg_step_inv[OF kg]
  show "kg_inv (gu_kg (graph_handle e s))"
    by (cases e) (auto simp: graph_handle_def Let_def inv kg simp del: kg_step.simps split: search_bar_event.split prod.split option.split
        inspector_event.split explorer_event.split navigator_event.split)
  assume "navigator_open s" "kg_selectedEntity (gu_kg (graph_handle e s)) = kg_selectedEntity (gu_kg s)"
  then have old: "trail_of s" and same: "kg_selectedEntity (gu_kg (graph_handle e s)) = kg_selectedEntity (gu_kg s)"
    using assms by (simp_all add: graph_inv_def)
  show "trail_of (graph_handle e s)"
  proof (cases "\<exists>n. e = In_Navigator n")
    case False
    then have "gu_trail (graph_handle e s) = gu_trail s"
      by (cases e) (simp_all add: graph_handle_def Let_def split: prod.split option.split inspector_event.split)
    with old same show ?thesis by (simp add: trail_of_def)
  next
    case True
    then obtain n where n: "e = In_Navigator n" by blast
    show ?thesis
    proof (cases n)
      case (Drill_Into x)
      with n same have "kg_selectedEntity (gu_kg s) = Some x" by (simp add: graph_handle_def Let_def)
      with old show ?thesis by (simp add: n Drill_Into graph_handle_def trail_of_def Let_def)
    next
      case (Jump_To i)
      have "set (take (Suc i) (gu_trail s)) = set (gu_trail s)" if "set (gu_trail s) = {y}" "gu_trail s \<noteq> []" for y
        using that by (cases "gu_trail s") (auto dest: in_set_takeD)
      with old same show ?thesis by (auto simp: n Jump_To trail_of_def graph_handle_def Let_def)
    qed (use old in \<open>simp add: n graph_handle_def\<close>)
  qed
qed

lemma graph_env_inv:
  assumes "graph_inv s"
  shows "graph_inv (graph_env x s)"
  unfolding graph_env_def
proof (rule graph_commit_inv)
  have kg: "kg_inv (gu_kg s)" using assms by (simp add: graph_inv_def)
  note inv = kg_step_inv[OF kg]
  show "kg_inv (gu_kg (case x of
        Plant_Query q \<Rightarrow> s\<lparr>gu_plant := q, gu_kg := (gu_kg s)\<lparr>kg_plant := q_data q\<rparr>\<rparr>
      | Subgraph_Query q \<Rightarrow> s\<lparr>gu_subgraph := q, gu_kg := (gu_kg s)\<lparr>kg_subgraph := q_data q\<rparr>\<rparr>
      | Neighbors_Query f \<Rightarrow> s\<lparr>gu_neighbors := f\<rparr>
      | Search_Query f \<Rightarrow> s\<lparr>gu_found := f\<rparr>
      | Path_Query f \<Rightarrow> s\<lparr>gu_paths := f\<rparr>
      | Mounted focus \<Rightarrow> s\<lparr>gu_kg := kg_step (gu_kg s) (FirstRender focus)\<rparr>
      | Answered i ns y \<Rightarrow> s\<lparr>gu_kg := kg_step (gu_kg s) (Answer i ns y)\<rparr>
      | Unanswered i \<Rightarrow> s\<lparr>gu_kg := kg_step (gu_kg s) (FetchFailed i)\<rparr>
      | Step_Timer \<Rightarrow> s\<lparr>gu_player := jp_apply (gu_player s) JpTimer\<rparr>))"
    using kg by (cases x) (simp_all add: inv kg_inv_def del: kg_step.simps, simp_all add: inv[unfolded kg_inv_def] del: kg_step.simps)
qed (use assms in \<open>auto simp: graph_inv_def trail_of_def split: graph_input.splits\<close>)

interpretation graph_ui: ui_app "graph_open plant subgraph ns found paths" "graph_view mc ms" graph_update graph_env graph_inv
  for plant subgraph ns found paths mc ms
proof
  show "graph_inv (graph_open plant subgraph ns found paths)"
    by (simp add: graph_inv_def graph_open_def kg_start_def kg_inv_def empty_graph_def explorer_open_def navigator_open_def player_open_def)
qed (auto intro: graph_update_inv graph_env_inv)

subsection \<open>Properties\<close>

text \<open>
  In every state a user can reach, the trail of the root-cause navigator names one entity only, the one selected on the page: the
  guided drill-down of several hops that it is meant to record never has two different entities.
\<close>

theorem root_cause_trail_single:
  "(let s = foldl (app_step (graph_view mc ms) graph_update graph_env) (graph_open plant subgraph ns found paths) inputs
    in case kg_selectedEntity (gu_kg s) of
         None \<Rightarrow> gu_trail s = []
       | Some x \<Rightarrow> if navigator_open s then gu_trail s \<noteq> [] \<and> set (gu_trail s) = {x} else gu_trail s = [])"
proof -
  define s where "s = foldl (app_step (graph_view mc ms) graph_update graph_env) (graph_open plant subgraph ns found paths) inputs"
  have "graph_inv s" unfolding s_def by (rule graph_ui.inv_reachable)
  then show ?thesis unfolding s_def[symmetric] Let_def
    by (cases "kg_selectedEntity (gu_kg s)") (simp_all add: graph_inv_def trail_of_def navigator_open_def split: if_splits)
qed

lemma jp_effect_shows [simp]: "jp_highlight (jp_effect p) = jp_highlight p" "jp_current (jp_effect p) = jp_current p"
  by (simp_all add: jp_highlight_def jp_current_def jp_last_def)

lemma show_step_shows:
  "kg_highlightedEdgeIds (show_step p kg) = jp_highlight p"
  "jp_current p = Some st \<Longrightarrow> kg_selectedEntity (show_step p kg) = Some (js_entity st)"
  by (simp_all add: show_step_def Let_def split: option.split)

text \<open>
  (C24) Explaining a decision, on the page: in every reachable state with the player open, a control of the player or its timer that changes the step
  makes the page highlight exactly the edges up to the new step and select the new step's entity; the player stays open on the same
  assessment with the same steps, although the selection has moved away from the assessment.
\<close>

theorem explanation_follows_steps:
  "(let s = foldl (app_step (graph_view mc ms) graph_update graph_env) (graph_open plant subgraph ns found paths) inputs;
        s' = graph_update (In_Player e) s; p = gu_player s'
    in (if e = JpTimer then graph_env Step_Timer s = s' else True) \<and>
       (if player_open s \<and> jp_stepIndex p \<noteq> jp_stepIndex (gu_player s)
        then player_open s' \<and> kg_judgeModeAssessment (gu_kg s') = kg_judgeModeAssessment (gu_kg s) \<and>
             jp_steps p = jp_steps (gu_player s) \<and> kg_highlightedEdgeIds (gu_kg s') = jp_highlight p \<and>
             (case jp_current p of Some st \<Rightarrow> kg_selectedEntity (gu_kg s') = Some (js_entity st) | None \<Rightarrow> True)
        else True))"
proof -
  define s where "s = foldl (app_step (graph_view mc ms) graph_update graph_env) (graph_open plant subgraph ns found paths) inputs"
  have inv: "graph_inv s" unfolding s_def by (rule graph_ui.inv_reachable)
  define h where "h = (s\<lparr>gu_player := jp_apply (gu_player s) e, gu_explorer := explorer_start, gu_trail := []\<rparr>)"
  define p where "p = (jp_apply (gu_player s) e)\<lparr>jp_steps := current_steps s\<rparr>"
  have step: "graph_update (In_Player e) s = player_commit s h" if "player_open s"
    using that by (simp add: h_def graph_update_def graph_commit_def graph_handle_def explorer_open_def navigator_open_def player_open_def graph_shown_def)
  have h: "player_open h = player_open s" "current_steps h = current_steps s" "gu_kg h = gu_kg s"
    by (simp_all add: h_def player_open_def graph_shown_def current_steps_def neighbors_of_def[abs_def] cong: option.case_cong)
  have commit: "player_commit s h = h\<lparr>gu_player := jp_effect p,
      gu_kg := (if jp_steps p \<noteq> jp_steps (gu_player s) \<or> jp_stepIndex p \<noteq> jp_stepIndex (gu_player s) then show_step p (gu_kg s) else gu_kg s)\<rparr>"
    if "player_open s"
    using that unfolding player_commit_def h Let_def p_def by (simp add: h_def)
  have stays: "player_open (h\<lparr>gu_player := q, gu_kg := show_step q' (gu_kg s)\<rparr>)"
    "kg_judgeModeAssessment (gu_kg (h\<lparr>gu_player := q, gu_kg := show_step q' (gu_kg s)\<rparr>)) = kg_judgeModeAssessment (gu_kg s)"
    if "player_open s" for q q'
    using that by (simp_all add: h_def player_open_def graph_shown_def)
  have "jp_steps (gu_player s) = current_steps s" if "player_open s" using inv that by (simp add: graph_inv_def)
  then have "if player_open s \<and> jp_stepIndex (gu_player (graph_update (In_Player e) s)) \<noteq> jp_stepIndex (gu_player s)
      then player_open (graph_update (In_Player e) s) \<and>
           kg_judgeModeAssessment (gu_kg (graph_update (In_Player e) s)) = kg_judgeModeAssessment (gu_kg s) \<and>
           jp_steps (gu_player (graph_update (In_Player e) s)) = jp_steps (gu_player s) \<and>
           kg_highlightedEdgeIds (gu_kg (graph_update (In_Player e) s)) = jp_highlight (gu_player (graph_update (In_Player e) s)) \<and>
           (case jp_current (gu_player (graph_update (In_Player e) s)) of
              Some st \<Rightarrow> kg_selectedEntity (gu_kg (graph_update (In_Player e) s)) = Some (js_entity st) | None \<Rightarrow> True)
      else True"
    using stays commit
    by (auto simp: step show_step_shows p_def split: option.split)
  moreover have "e = JpTimer \<Longrightarrow> graph_env Step_Timer s = graph_update (In_Player e) s"
    by (simp add: graph_env_def graph_update_def graph_handle_def)
  ultimately show ?thesis unfolding s_def[symmetric] Let_def by simp
qed

end
