(* ===== verification/Spec2Isabelle.thy ===== *)
theory Spec2Isabelle
  imports Replay Dependency_Graph Decision Approval Api_Client Scenario_Builder Narrative Graph Search Reports
    Presentation Modes Queries Tour Decimal_Text Json_Pretty Draft_Files Report_Page Graph_Page Plant_View Views Dual_Views Ui Panels Pipeline
    Workspace_Page Builder_Page Map_View Replay_Controls Time_Machine Twin_Page Operations_Page Replay_Session
    Plant_Panels Mission_Page Challenge_Page Timeline_Page Journal_Page Diagnostics_Page Comparison_Pages
    Evidence_Pages Log_Pages Plant_Pages Hub_Page Path_Page Graph_Ui
begin

text \<open>
  \<^bold>\<open>The program.\<close> The repository holds an industrial-safety dashboard. A Python service keeps risk
  assessments per plant zone and answers over HTTP; the TypeScript application under
  \<open>src/frontend/src\<close> fetches them, replays incidents tick by tick, explains scores, derives
  recommended actions, draws the plant and the knowledge graph, and exports reports. This
  development models the TypeScript application. Its parts, from the inside out:

  \<^item> pure libraries (\<open>lib\<close>): parsing, ranking, recommending, layering, searching, narrating;
  \<^item> the client of the HTTP interface (\<open>api\<close>) and the query hooks (\<open>hooks\<close>), which share one cache;
  \<^item> state providers (\<open>context\<close>): the shared replay cursor and the demo, presentation and judge modes;
  \<^item> pages and stateful components (\<open>pages\<close>, \<open>components\<close>), which compose the above.

  \<^bold>\<open>Theories and sources.\<close>

  \<^item> \<open>Prelude\<close>, \<open>Js_Number\<close>, \<open>Js_String\<close>, \<open>Js_Date\<close>, \<open>Json_Text\<close>: the part of the language the sources
    use: arrays, \<open>Map\<close> and \<open>Set\<close> in insertion order, stable \<open>sort\<close>, rounded arithmetic, \<open>toFixed\<close>,
    \<open>encodeURIComponent\<close>, \<open>Date\<close> and \<open>JSON\<close>. \<open>Decimal_Text\<close> and \<open>Json_Pretty\<close>: printed numbers, times and indented JSON
    are read back (17 digits identify a machine number).
  \<^item> \<open>Api_Types\<close>: the records of \<open>api/types.ts\<close>. \<open>Tiers\<close>: \<open>lib/tier.ts\<close>, \<open>lib/format.ts\<close>, \<open>lib/permitIcons.ts\<close>.
  \<^item> \<open>Justification\<close>, \<open>Recommendations\<close>, \<open>Action_Playbook\<close>, \<open>Dependency_Graph\<close>: from the stored justification to
    the layered queue of actions (\<open>lib/justification.ts\<close>, \<open>lib/rootCause.ts\<close>, \<open>lib/recommendations.ts\<close>,
    \<open>lib/sopReferences.ts\<close>, \<open>lib/complianceStandards.ts\<close>, \<open>lib/actionPlaybook.ts\<close>, \<open>lib/dependencyGraph.ts\<close>).
  \<^item> \<open>Kpis\<close>: \<open>lib/executiveKpis.ts\<close>, \<open>lib/multiPlant.ts\<close>. \<open>Timeline\<close>: lookups, merged axis, operator timeline,
    journal. \<open>Decision\<close>, \<open>Approval\<close>, \<open>Narrative\<close>, \<open>Presentation\<close>, \<open>Search\<close>, \<open>Reports\<close>, \<open>Graph\<close>,
    \<open>Scenario_Builder\<close>: the remaining libraries of \<open>lib\<close>. \<open>Draft_Files\<close>: the files the scenario builder exports and imports,
    as text.
  \<^item> \<open>Api_Client\<close>: \<open>api/client.ts\<close> and the endpoint functions. \<open>Queries\<close>: every query of \<open>hooks\<close>.
  \<^item> \<open>Replay\<close>, \<open>Modes\<close>: the providers of \<open>context\<close> as state machines over their events.
  \<^item> \<open>Ui\<close>: what a page shows, as a tree of texts, links, controls and shapes (\<open>node\<close>), the events its controls offer
    (\<open>offers\<close>), and runs of a user who acts only on what is on the page (\<open>app_step\<close>); \<open>components/common\<close>.
  \<^item> Panels: \<open>Panels\<close> (\<open>components/explainability\<close>, \<open>components/foresight\<close>, \<open>components/historical\<close>), \<open>Pipeline\<close>
    (\<open>PipelineDiagram.tsx\<close>), \<open>Plant_View\<close> and \<open>Map_View\<close> (\<open>components/plant\<close>: site plan, camera, every shape of
    the map, the inspector), \<open>Replay_Controls\<close> (\<open>components/replay\<close>), \<open>Plant_Panels\<close> (story, trend, history chart, animated
    counter), \<open>Views\<close> (\<open>pages/ReplayComparisonPage.tsx\<close>, the forecast chart, the historical timeline, the timeline editor).
  \<^item> Pages over the shared replay: \<open>Dual_Views\<close> (what live and replay mode have in common), \<open>Time_Machine\<close>, \<open>Twin_Page\<close>,
    \<open>Operations_Page\<close> (with \<open>components/operations\<close>), \<open>Mission_Page\<close> (mission control and the executive overview),
    \<open>Challenge_Page\<close> (challenge mode and demo timeline), \<open>Timeline_Page\<close>, \<open>Journal_Page\<close>, \<open>Comparison_Pages\<close>;
    \<open>Replay_Session\<close> composes the provider with several of them.
  \<^item> Other pages: \<open>Workspace_Page\<close>, \<open>Builder_Page\<close>, \<open>Graph_Page\<close>, \<open>Path_Page\<close> and
    \<open>Graph_Ui\<close> (the knowledge graph with \<open>components/graph\<close>, the backend's path search and its neighbours of plants, zones and sensors), \<open>Report_Page\<close>, \<open>Tour\<close>
    (\<open>pages/PresentationModePage.tsx\<close>), \<open>Diagnostics_Page\<close>, \<open>Evidence_Pages\<close> (explanation and research), \<open>Log_Pages\<close>
    (audit log and permits, with the backend's paged query in \<open>audit_log_repository.py\<close>), \<open>Plant_Pages\<close> (overview,
    enterprise, executive summary, zone, scenario library, platform health), \<open>Hub_Page\<close> (integration hub).

  \<^bold>\<open>What the theorems show.\<close>

  \<^item> Data: a stored justification, a query string, a search link, the address the operations center writes itself, a
    bookmark and the link to a compared moment survive their round trips; so does an exported draft through its JSON text, except
    for its start time; a malformed justification or response is rejected in exactly the documented cases.
  \<^item> Algorithms: recommendations, action queue and dependency layering equal their declarative specifications, the draft
    validator is empty exactly on valid drafts, breadth-first layout rings are shortest distances, tier, incidents and readiness
    of the corporate rollup are the figures over all assessments, the influence path passes exactly the agent of highest risk.
  \<^item> State: cursors, clocks and progress values stay in their bounds under every interleaving of events; playback, tour and
    challenge reach their end after a stated number of timer events; a replay's cursor is on a tick unless \<open>next\<close> was pressed before
    there were ticks; only valid drafts are executed, unless a file brought values of undeclared types.
  \<^item> Composition: equal cache keys mean equal requests across all hooks and pages; one replay is carried
    across the pages with its cursor on a tick; a card, node or entry that a page draws leads to the tick it was drawn from
    (the first of its instant, where ticks share one); paging through the audit log against the backend's query neither skips nor repeats; the path explorer draws a shortest route of
    what the backend's breadth-first search finds; map, status and cards show the same rows,
    none later than the playhead; mission control and the executive overview agree on alerts and first actions.
  \<^item> Defects, stated as theorems: a challenge on a cached replay that never plays, an operations center left blank by a
    lost focus, an empty canvas after recentering, rows that load for ever in a plant without zones, a sensor said to be unrelated to its zone; and, as lemmas
    beside their components, a cursor lost by \<open>next\<close> before data arrive, headcounts drawn on the wrong zone, an audit
    page without a way back, a retry that requests nothing, a gas type that outlives its zone, an incomplete event that
    passes the validation.

  \<^bold>\<open>How the code is rendered.\<close>

  \<^item> Numbers are rationals, and every arithmetic operation rounds to 53 bits to nearest even with an
    unbounded exponent; \<open>NaN\<close> and infinities occur only where the source can produce them and are then
    \<open>None\<close>. Milliseconds of dates and scene times are integers.
  \<^item> Strings are character lists, one character per byte. A dictionary lookup sees own keys only, so
    names such as \<open>toString\<close> inherited from \<open>Object.prototype\<close> are not found.
  \<^item> \<open>null\<close> and \<open>undefined\<close> are \<open>None\<close>; exceptions are values of \<open>client_error\<close> or \<open>None\<close>.
  \<^item> A React component's state is a record, each handler or effect a function on it, and a run a fold
    over events; effects run after the event that triggers them, children before parents. Timers,
    promises and responses are events. Closures that outlive a render are explicit (\<open>kg_closure\<close>).
  \<^item> The graph search and the layering terminate by measures on undiscovered nodes; the JSON parser
    runs on fuel of twice the text's length plus one, which \<open>parse_value_fuel\<close> shows to be enough.
  \<^item> Host services are arguments: \<open>fetch\<close>, the time zone, sine and cosine, the exponential function,
    text wrapping of the PDF library, the printed form of a timestamp, the current time, \<open>Math.random\<close>, the clock of the
    animation frames. Where a comparator contradicts itself the language leaves the order to the engine: such a sort is
    an argument \<open>srt\<close> with the contract \<open>sorts_strict\<close>, which the model's own stable sort meets.

  \<^bold>\<open>Interfaces.\<close> Contracts are locales, each interpreted on the model's own definitions:
  \<open>keep_first_max\<close> (reductions that keep the first maximum: worst tier, latest row, peaks),
  \<open>comparator\<close> (comparison functions a stable sort may be given), \<open>transition_system\<close> (an initial
  state, a step function and an invariant: the providers, the tour, the pages and the editor),
  \<open>rounding\<close> (what the proofs use of binary64 rounding), \<open>web_storage\<close> (the session storage under the
  acknowledgments), \<open>keyed_cache\<close> (entries shared by key, for the queries) and \<open>ui_app\<close> (a page as a view, an update and
  an environment, with an invariant kept by every run of a user, for the pages).

  \<^bold>\<open>Not modelled.\<close> Styling, CSS classes that do not depend on data, routing and lazy loading; the query library's scheduling and
  retries; the browser's download and locale-dependent printing; the scenes' markup of the guided presentation, the
  printed markup of the report page and of the two playback pages, the navigation bar, the search palette's list, the demo
  launcher and the theme hook: they draw values that are modelled and keep no state the other parts see. The Python service is a
  parameter except for the audit log's paged query, the graph's path search and the neighbours of plants, zones, sensors and
  readings over given rows; tests and deployment files are left out.
\<close>

subsection \<open>From the search palette to the graph\<close>

lemma recentered_canvas_blank:
  assumes "entity_key e \<notin> entity_key ` set (sg_nodes (case kg_subgraph s of Some g \<Rightarrow> g | None \<Rightarrow> empty_graph))"
  shows "canvas mc ms (handleRecenter c e s) = ([], [])"
  unfolding canvas_def effectiveRoot_recentered
  by (rule canvas_unknown_root) (use assms in \<open>simp add: combined_nodes effectiveRoot_recentered empty_graph_def\<close>)

text \<open>
  (C35) What a user sees who opens a search result in the graph, across search, link, page and canvas: the
  page asks for exactly the entity of the result and makes it the root, but unless the entity is one
  of the plant's own neighbours the canvas is empty.
\<close>

theorem search_result_opens_graph:
  "(case graphEntityToSearchResult e of
      None \<Rightarrow> True
    | Some r \<Rightarrow>
        if ge_kind e = ''zone'' then True
        else let s0 = kg_start plant subgraph;
                 s1 = kg_step s0 (FirstRender (map_of (read_query (url_search (sr_deepLink r))) ''focus''));
                 s2 = kg_step s1 (Answer 0 [] e)
             in kg_pending s1 = [PendingFocus (closure_of s0) (ge_kind e) (ge_id e)] \<and>
                effectiveRoot s2 = Some e \<and> kg_selectedEntity s2 = Some e \<and>
                (if entity_key e \<in> entity_key ` set (sg_nodes (case subgraph of Some g \<Rightarrow> g | None \<Rightarrow> empty_graph))
                 then True else canvas mc ms s2 = ([], [])))"
proof (cases "graphEntityToSearchResult e = None \<or> ge_kind e = ''zone''")
  case True
  then show ?thesis by (auto split: option.split)
next
  case False
  then obtain c where c: "map_of GRAPH_CATEGORY (ge_kind e) = Some c"
    by (cases "map_of GRAPH_CATEGORY (ge_kind e)") (simp_all add: graphEntityToSearchResult_def)
  let ?s0 = "kg_start plant subgraph" and ?f = "ge_kind e @ '':'' @ ge_id e"
  let ?s1 = "?s0\<lparr>kg_appliedFocus := True, kg_pending := [PendingFocus (closure_of ?s0) (ge_kind e) (ge_id e)]\<rparr>"
  have s1: "focus_effect (Some ?f) ?s0 = ?s1"
    using parse_focus_key graph_kinds[OF c] by (simp add: focus_effect_def kg_start_def)
  have s2: "answer 0 [] e ?s1 = handleRecenter (closure_of ?s0) e (drop_pending 0 ?s1)" by (simp add: answer_def)
  have "canvas mc ms (handleRecenter (closure_of ?s0) e (drop_pending 0 ?s1)) = ([], [])"
    if "entity_key e \<notin> entity_key ` set (sg_nodes (case subgraph of Some g \<Rightarrow> g | None \<Rightarrow> empty_graph))"
    using that by (intro recentered_canvas_blank) (simp add: drop_pending_def kg_start_def)
  moreover have "effectiveRoot (handleRecenter (closure_of ?s0) e (drop_pending 0 ?s1)) = Some e \<and>
      kg_selectedEntity (handleRecenter (closure_of ?s0) e (drop_pending 0 ?s1)) = Some e"
    by (simp add: effectiveRoot_def handleRecenter_def handleExpand_def)
  ultimately show ?thesis
    using False c link_focus[OF c] s1 by (simp add: graphEntityToSearchResult_def s2 Let_def)
qed

end
